(* ===== verification/Prelude.thy ===== *)
theory Prelude
  imports Main "HOL-Library.Word" "HOL-Library.Monad_Syntax"
begin

unbundle bit_operations_syntax

text \<open>
  Shared vocabulary of the development: the machine integers of the C code, the collections of
  rewrite rules the component theories fill, layouts of packed C structures, and generic facts on
  lists, options and words.

  Effects of the C code are modelled in the option monad. \<open>None\<close> means that the execution has no
  defined continuation: an access outside the memory object a pointer refers to, or a failed
  \<open>assert\<close> in a build without \<open>NDEBUG\<close>. Everything the code itself reports
  (\<open>ROFL_FAILURE\<close>, a \<open>NULL\<close> pointer, \<open>PT_INVALID\<close>) is an ordinary value.
\<close>

section \<open>Machine integers\<close>

type_synonym u8 = "8 word"
type_synonym u16 = "16 word"
type_synonym u32 = "32 word"
type_synonym u64 = "64 word"
type_synonym u128 = "128 word"

named_theorems layout "offsets and sizes of the packed structures"
named_theorems hdr_defs "definitions of header accessors"
named_theorems mem_simps "reading and writing bytes"

section \<open>Packed structures\<close>

text \<open>
  A packed C structure is the list of its members with their sizes in bytes; a member's offset is
  the sum of the sizes before it. A flexible array member (\<open>data[0]\<close>) has size 0.
\<close>

type_synonym struct = "(string \<times> nat) list"

definition sizeof :: "struct \<Rightarrow> nat" where
  "sizeof s = sum_list (map snd s)"

fun offset_of :: "struct \<Rightarrow> string \<Rightarrow> nat" where
  "offset_of [] f = 0"
| "offset_of ((g, n) # s) f = (if f = g then 0 else n + offset_of s f)"

definition sizeof_union :: "struct list \<Rightarrow> nat" where
  "sizeof_union us = fold max (map sizeof us) 0"

lemma offset_of_le_sizeof: "offset_of s f \<le> sizeof s"
  by (induction s) (auto simp: sizeof_def)

lemma member_inside:
  assumes "distinct (map fst s)" and "(f, n) \<in> set s"
  shows "offset_of s f + n \<le> sizeof s"
  using assms by (induction s) (force simp: sizeof_def)+

section \<open>Options and lists\<close>

lemma bind_Some_iff: "(m \<bind> f = Some y) = (\<exists>x. m = Some x \<and> f x = Some y)"
  by (cases m) auto

lemma bind_None_iff: "(m \<bind> f = None) = (m = None \<or> (\<exists>x. m = Some x \<and> f x = None))"
  by (cases m) auto

lemma nth_take_drop_upd:
  assumes "a + length bs \<le> length xs" and "i < length xs"
  shows "(take a xs @ bs @ drop (a + length bs) xs) ! i =
         (if a \<le> i \<and> i < a + length bs then bs ! (i - a) else xs ! i)"
  using assms by (auto simp: nth_append)

lemma take_drop_overlay:
  assumes "a + length bs \<le> length xs"
  shows "take (length bs) (drop a (take a xs @ bs @ drop (a + length bs) xs)) = bs"
  using assms by simp

lemma list_all_bits8: "(x::u8) = y \<longleftrightarrow> (\<forall>n<8. bit x n = bit y n)"
  by (auto intro: bit_word_eqI)

section \<open>Masked merge of words\<close>

text \<open>The read-modify-write idiom of the header setters: bits of \<open>v\<close> inside the mask, bits of \<open>x\<close>
  outside of it.\<close>

definition merge_mask :: "'a::len word \<Rightarrow> 'a word \<Rightarrow> 'a word \<Rightarrow> 'a word" where
  "merge_mask msk v x = (v AND msk) OR (x AND NOT msk)"

lemma bit_merge_mask:
  "bit (merge_mask msk v x) n = (if bit msk n then bit v n else bit x n)"
  for x :: "'a::len word"
  by (cases "n < LENGTH('a)") (auto simp: merge_mask_def bit_simps dest: bit_imp_le_length)

lemma merge_mask_inside [simp]: "merge_mask msk v x AND msk = v AND msk"
  by (rule bit_word_eqI) (auto simp: bit_simps bit_merge_mask)

lemma merge_mask_outside [simp]: "merge_mask msk v x AND NOT msk = x AND NOT msk"
  by (rule bit_word_eqI) (auto simp: bit_simps bit_merge_mask)

lemma merge_mask_twice [simp]: "merge_mask msk v (merge_mask msk w x) = merge_mask msk v x"
  by (rule bit_word_eqI) (auto simp: bit_merge_mask)

lemma merge_mask_full [simp]: "merge_mask (- 1) v x = v"
  by (simp add: merge_mask_def)

lemma merge_mask_swap: "(x AND NOT msk) OR (v AND msk) = merge_mask msk v x"
  by (simp add: merge_mask_def or.commute)

lemma merge_mask_add: "(x AND NOT msk) + (v AND msk) = merge_mask msk v x"
  for x :: "'a::len word"
  by (subst disjunctive_add) (auto simp: bit_simps merge_mask_swap)

lemma merge_mask_commute:
  assumes "msk AND msk' = 0"
  shows "merge_mask msk v (merge_mask msk' w x) = merge_mask msk' w (merge_mask msk v x)"
proof (rule bit_word_eqI)
  fix n
  have "\<not> (bit msk n \<and> bit msk' n)"
    using assms by (metis bit_and_iff bit_0_eq bot_apply bot_bool_def)
  then show "bit (merge_mask msk v (merge_mask msk' w x)) n =
             bit (merge_mask msk' w (merge_mask msk v x)) n"
    by (auto simp: bit_merge_mask)
qed

end
