(* ===== verification/C_Memory.thy ===== *)
theory C_Memory
  imports Prelude
begin

text \<open>
  The byte memory the C code works on. A memory object (the buffer of a packet) is a list of bytes
  and a pointer into it is an offset. \<open>load\<close> and \<open>store\<close> are the dereferences of a pointer
  to an unsigned integer on a little-endian host; the width is the type of the value. An access that
  does not lie inside the object is \<open>None\<close>.

  The laws of such an access are the locale \<open>typed_access\<close>; it is interpreted for the five widths
  the code uses, and extended by \<open>field_setter\<close>, the contract of a header setter, which every
  setter of the header theories is shown to satisfy.
\<close>

section \<open>Little-endian encoding\<close>

type_synonym mem = "u8 list"

definition to_bytes :: "'a::len word \<Rightarrow> u8 list" where
  "to_bytes w = map (\<lambda>i. ucast (drop_bit (8 * i) w)) [0..<LENGTH('a) div 8]"

fun of_bytes :: "u8 list \<Rightarrow> 'a::len word" where
  "of_bytes [] = 0"
| "of_bytes (b # bs) = ucast b OR push_bit 8 (of_bytes bs)"

lemma length_to_bytes [simp]: "length (to_bytes (w :: 'a::len word)) = LENGTH('a) div 8"
  by (simp add: to_bytes_def)

lemma nth_to_bytes [simp]:
  "i < LENGTH('a) div 8 \<Longrightarrow> to_bytes (w :: 'a::len word) ! i = ucast (drop_bit (8 * i) w)"
  by (simp add: to_bytes_def)

lemma bit_of_bytes:
  "bit (of_bytes bs :: 'a::len word) n \<longleftrightarrow>
     n < LENGTH('a) \<and> n div 8 < length bs \<and> bit (bs ! (n div 8)) (n mod 8)"
proof (induction bs arbitrary: n)
  case Nil
  then show ?case by simp
next
  case (Cons b bs)
  show ?case
  proof (cases "n < 8")
    case True
    then show ?thesis by (auto simp: bit_simps)
  next
    case False
    then obtain k where n: "n = 8 + k" by (metis add.commute le_Suc_ex not_less)
    have "(8 + k) div 8 = Suc (k div 8)" by simp
    then show ?thesis
      using Cons.IH [of k] by (auto simp: n bit_simps dest: bit_imp_le_length)
  qed
qed

lemma of_to_bytes [simp]:
  assumes "8 dvd LENGTH('a)"
  shows "of_bytes (to_bytes w) = (w :: 'a::len word)"
proof (rule bit_word_eqI)
  fix n assume "n < LENGTH('a)"
  moreover from this have "n div 8 < LENGTH('a) div 8"
    using assms by (auto elim!: dvdE)
  ultimately show "bit (of_bytes (to_bytes w) :: 'a word) n = bit w n"
    by (simp add: bit_of_bytes bit_simps)
qed

lemma to_of_bytes [simp]:
  assumes "length bs = LENGTH('a) div 8"
  shows "to_bytes (of_bytes bs :: 'a::len word) = bs"
proof (rule nth_equalityI)
  fix i assume "i < length (to_bytes (of_bytes bs :: 'a word))"
  then have i: "i < LENGTH('a) div 8" by simp
  show "to_bytes (of_bytes bs :: 'a word) ! i = bs ! i"
  proof (rule bit_word_eqI)
    fix n assume "n < LENGTH(8)"
    then have "n < 8" by simp
    then have "8 * i + n < LENGTH('a)" and "(8 * i + n) div 8 = i" and "(8 * i + n) mod 8 = n"
      using i by auto
    then show "bit (to_bytes (of_bytes bs :: 'a word) ! i) n = bit (bs ! i) n"
      using i assms \<open>n < 8\<close> by (simp add: bit_simps bit_of_bytes)
  qed
qed (use assms in simp)

section \<open>Load and store\<close>

definition load :: "mem \<Rightarrow> nat \<Rightarrow> 'a::len word option" where
  "load m a = (if a + LENGTH('a) div 8 \<le> length m
               then Some (of_bytes (take (LENGTH('a) div 8) (drop a m))) else None)"

definition store :: "mem \<Rightarrow> nat \<Rightarrow> 'a::len word \<Rightarrow> mem option" where
  "store m a v = (if a + LENGTH('a) div 8 \<le> length m
                  then Some (take a m @ to_bytes v @ drop (a + LENGTH('a) div 8) m) else None)"

text \<open>\<open>*p = f(*p)\<close>.\<close>

definition modify :: "mem \<Rightarrow> nat \<Rightarrow> ('a::len word \<Rightarrow> 'a word) \<Rightarrow> mem option" where
  "modify m a f = do { x \<leftarrow> load m a; store m a (f x) }"

lemma load_None_iff: "load m a = (None :: 'a::len word option) \<longleftrightarrow> length m < a + LENGTH('a) div 8"
  by (auto simp: load_def)

lemma store_None_iff: "store m a (v :: 'a::len word) = None \<longleftrightarrow> length m < a + LENGTH('a) div 8"
  by (auto simp: store_def)

lemma load_Some_bound: "load m a = Some (v :: 'a::len word) \<Longrightarrow> a + LENGTH('a) div 8 \<le> length m"
  by (simp add: load_def split: if_splits)

lemma load_to_bytes:
  "load m a = Some (v :: 'a::len word) \<Longrightarrow> take (LENGTH('a) div 8) (drop a m) = to_bytes v"
  by (auto simp: load_def split: if_splits)

lemma length_store: "store m a (v :: 'a::len word) = Some m' \<Longrightarrow> length m' = length m"
  by (auto simp: store_def split: if_splits)

lemma nth_store:
  assumes "store m a (v :: 'a::len word) = Some m'" and "i < length m"
  shows "m' ! i = (if a \<le> i \<and> i < a + LENGTH('a) div 8 then ucast (drop_bit (8 * (i - a)) v) else m ! i)"
proof -
  from assms(1) have m': "m' = take a m @ to_bytes v @ drop (a + LENGTH('a) div 8) m"
    and "a + LENGTH('a) div 8 \<le> length m"
    by (auto simp: store_def split: if_splits)
  then have "m' ! i = (if a \<le> i \<and> i < a + LENGTH('a) div 8 then to_bytes v ! (i - a) else m ! i)"
    using assms(2) nth_take_drop_upd [of a "to_bytes v" m i] by simp
  moreover have "to_bytes v ! (i - a) = ucast (drop_bit (8 * (i - a)) v)"
    if "a \<le> i \<and> i < a + LENGTH('a) div 8"
    using that by (simp add: less_diff_conv2)
  ultimately show ?thesis by argo
qed

text \<open>Nothing but the \<open>n\<close> bytes from \<open>a\<close> on is changed.\<close>

definition same_outside :: "nat \<Rightarrow> nat \<Rightarrow> mem \<Rightarrow> mem \<Rightarrow> bool" where
  "same_outside a n m m' \<longleftrightarrow> length m' = length m \<and> take a m' = take a m \<and> drop (a + n) m' = drop (a + n) m"

lemma store_same_outside: "store m a (v :: 'a::len word) = Some m' \<Longrightarrow> same_outside a (LENGTH('a) div 8) m m'"
  by (auto simp: store_def same_outside_def split: if_splits)

lemma same_outside_trans: "same_outside a n m m' \<Longrightarrow> same_outside a n m' m'' \<Longrightarrow> same_outside a n m m''"
  by (simp add: same_outside_def)

lemma load_store_same:
  assumes "store m a (v :: 'a::len word) = Some m'" and "8 dvd LENGTH('a)"
  shows "load m' a = Some v"
  using assms by (auto simp: store_def load_def split: if_splits)

text \<open>Two memories that agree on the bytes a load reads give the same value.\<close>

lemma load_cong:
  assumes "length m = length m'"
    and "\<And>i. a \<le> i \<Longrightarrow> i < a + LENGTH('a) div 8 \<Longrightarrow> i < length m \<Longrightarrow> m ! i = m' ! i"
  shows "load m a = (load m' a :: 'a::len word option)"
proof (cases "a + LENGTH('a) div 8 \<le> length m")
  case True
  have "take (LENGTH('a) div 8) (drop a m) = take (LENGTH('a) div 8) (drop a m')"
    by (rule nth_equalityI) (use assms True in auto)
  with True assms(1) show ?thesis by (simp add: load_def)
next
  case False
  with assms(1) show ?thesis by (simp add: load_def)
qed

definition disjoint :: "nat \<Rightarrow> nat \<Rightarrow> nat \<Rightarrow> nat \<Rightarrow> bool" where
  "disjoint a n b k \<longleftrightarrow> a + n \<le> b \<or> b + k \<le> a"

lemma load_store_other:
  assumes "store m a (v :: 'b::len word) = Some m'"
    and "disjoint a (LENGTH('b) div 8) b (LENGTH('a) div 8)"
  shows "load m' b = (load m b :: 'a::len word option)"
  by (rule load_cong)
     (use assms length_store [OF assms(1)] nth_store [OF assms(1)] in \<open>auto simp: disjoint_def\<close>)

text \<open>Loads of a byte are list indexing.\<close>

lemma load_byte: "load m a = (if a < length m then Some (m ! a) else None :: u8 option)"
  by (auto simp: load_def take_Suc_conv_app_nth Cons_nth_drop_Suc [symmetric])

section \<open>The contract of a typed access\<close>

locale typed_access =
  fixes ld :: "mem \<Rightarrow> nat \<Rightarrow> 'v option"
    and st :: "mem \<Rightarrow> nat \<Rightarrow> 'v \<Rightarrow> mem option"
    and width :: nat
  assumes ld_defined: "ld m a = None \<longleftrightarrow> length m < a + width"
    and st_defined: "st m a v = None \<longleftrightarrow> length m < a + width"
    and ld_st: "st m a v = Some m' \<Longrightarrow> ld m' a = Some v"
    and st_length: "st m a v = Some m' \<Longrightarrow> length m' = length m"
    and st_outside: "st m a v = Some m' \<Longrightarrow> i < length m \<Longrightarrow> i < a \<or> a + width \<le> i \<Longrightarrow> m' ! i = m ! i"
    and ld_local: "length m = length m' \<Longrightarrow> (\<And>i. a \<le> i \<Longrightarrow> i < a + width \<Longrightarrow> m ! i = m' ! i) \<Longrightarrow>
                   ld m a = ld m' a"
    and ld_inj: "length m = length m' \<Longrightarrow> ld m a = Some v \<Longrightarrow> ld m' a = Some v \<Longrightarrow>
                 a \<le> i \<Longrightarrow> i < a + width \<Longrightarrow> m ! i = m' ! i"
begin

lemma ld_st_other:
  assumes "st m a v = Some m'" and "a + width \<le> b \<or> b + width \<le> a"
  shows "ld m' b = ld m b"
proof (cases "length m < b + width")
  case True
  then show ?thesis
    using ld_defined [of m b] ld_defined [of m' b] st_length [OF assms(1)] by simp
next
  case False
  show ?thesis
    by (rule ld_local)
       (use assms False st_length [OF assms(1)] st_outside [OF assms(1)] in auto)
qed

lemma st_determined:
  assumes "st m a v = Some m1" and "st m' a v = Some m2" and "length m = length m'"
    and "\<And>i. i < length m \<Longrightarrow> i < a \<or> a + width \<le> i \<Longrightarrow> m ! i = m' ! i"
  shows "m1 = m2"
proof (rule nth_equalityI)
  show "length m1 = length m2"
    using assms st_length [OF assms(1)] st_length [OF assms(2)] by simp
next
  fix i assume "i < length m1"
  then have i: "i < length m" using st_length [OF assms(1)] by simp
  show "m1 ! i = m2 ! i"
  proof (cases "i < a \<or> a + width \<le> i")
    case True
    with i assms show ?thesis
      using st_outside [OF assms(1) i] st_outside [OF assms(2)] by simp
  next
    case False
    then show ?thesis
      using ld_inj [of m1 m2 a v i] ld_st [OF assms(1)] ld_st [OF assms(2)] assms(3)
        st_length [OF assms(1)] st_length [OF assms(2)] by simp
  qed
qed

text \<open>The last write wins.\<close>

lemma st_st:
  assumes "st m a v = Some m1"
  shows "st m1 a w = st m a w"
proof (cases "st m a w")
  case None
  then show ?thesis
    using st_defined [of m a w] st_defined [of m1 a w] st_length [OF assms] by simp
next
  case (Some m2)
  moreover obtain m3 where m3: "st m1 a w = Some m3"
    using Some st_defined [of m a w] st_defined [of m1 a w] st_length [OF assms]
    by (cases "st m1 a w") auto
  moreover have "m3 = m2"
    by (rule st_determined [OF m3 Some])
       (use st_length [OF assms] st_outside [OF assms] in auto)
  ultimately show ?thesis by simp
qed

lemma st_ld_id:
  assumes "ld m a = Some v"
  shows "st m a v = Some m"
proof -
  have "\<not> length m < a + width"
    using ld_defined [of m a] assms by auto
  then obtain m' where m': "st m a v = Some m'"
    using st_defined [of m a v] by (cases "st m a v") auto
  have "m' = m"
  proof (rule nth_equalityI)
    show "length m' = length m" by (rule st_length [OF m'])
    fix i assume "i < length m'"
    then have i: "i < length m" using st_length [OF m'] by simp
    show "m' ! i = m ! i"
      using st_outside [OF m' i] ld_inj [of m' m a v i] ld_st [OF m'] assms st_length [OF m']
      by (cases "i < a \<or> a + width \<le> i") auto
  qed
  with m' show ?thesis by simp
qed

end

lemma word_typed_access:
  assumes "8 dvd LENGTH('a)"
  shows "typed_access (load :: mem \<Rightarrow> nat \<Rightarrow> 'a::len word option) store (LENGTH('a) div 8)"
proof
  fix m m' :: mem and a i :: nat and v :: "'a word"
  assume len: "length m = length m'"
    and v: "load m a = Some v" "load m' a = Some v" and i: "a \<le> i" "i < a + LENGTH('a) div 8"
  have "take (LENGTH('a) div 8) (drop a m) = to_bytes v"
    and "take (LENGTH('a) div 8) (drop a m') = to_bytes v"
    using v by (auto dest: load_to_bytes)
  then have "take (LENGTH('a) div 8) (drop a m) ! (i - a) = take (LENGTH('a) div 8) (drop a m') ! (i - a)"
    by simp
  then show "m ! i = m' ! i"
    using i load_Some_bound [OF v(1)] load_Some_bound [OF v(2)] by (simp add: less_diff_conv2)
next
  fix m m' :: mem and a i :: nat and v :: "'a word"
  assume "store m a v = Some m'" and "i < length m" and "i < a \<or> a + LENGTH('a) div 8 \<le> i"
  then show "m' ! i = m ! i" using nth_store [of m a v m' i] by auto
qed (auto simp: load_None_iff store_None_iff length_store load_store_same [OF _ assms] intro: load_cong)

interpretation acc8: typed_access "load :: mem \<Rightarrow> nat \<Rightarrow> u8 option" store 1
  using word_typed_access [where 'a = 8] by simp

interpretation acc16: typed_access "load :: mem \<Rightarrow> nat \<Rightarrow> u16 option" store 2
  using word_typed_access [where 'a = 16] by simp

interpretation acc32: typed_access "load :: mem \<Rightarrow> nat \<Rightarrow> u32 option" store 4
  using word_typed_access [where 'a = 32] by simp

interpretation acc64: typed_access "load :: mem \<Rightarrow> nat \<Rightarrow> u64 option" store 8
  using word_typed_access [where 'a = 64] by simp

interpretation acc128: typed_access "load :: mem \<Rightarrow> nat \<Rightarrow> u128 option" store 16
  using word_typed_access [where 'a = 128] by simp

end
