(* ===== verification/Rofl.thy ===== *)
theory Rofl
  imports C_Memory
begin

text \<open>
  What the drivers take from outside the repository: the constants and byte-order macros of the ROFL
  headers (\<open>rofl/datapath/pipeline/common/protocol_constants.h\<close>, \<open>endianness.h\<close>) and the build
  flags. They are the fields of one record, passed to every definition that uses one of them; nothing
  is assumed about their values except where a theorem names it.

  \<open>network_masks\<close> and \<open>network_types\<close> state what the constants are documented to be (the bit
  fields of the protocols, in the byte order of the wire as a little-endian host reads it);
  \<open>std_rofl\<close> is a record that satisfies both, for the witnesses.
\<close>

record rofl =
  NDEBUG :: bool
  DEBUG :: bool
  NTOHB16 :: "u16 \<Rightarrow> u16"
  HTONB16 :: "u16 \<Rightarrow> u16"
  HTONB32 :: "u32 \<Rightarrow> u32"
  LLC_DELIMITER_HBO :: u16
  OF1X_6_BYTE_MASK :: u64
  OF1X_3_BYTE_MASK :: u32
  OF1X_VLAN_ID_MASK :: u16
  OF1X_20_BITS_MASK :: u32
  OF1X_20_BITS_IPV6_FLABEL_MASK :: u32
  OF1X_8MIDDLE_BITS_MASK :: u16
  OF1X_BITS_12AND3_MASK :: u8
  OF1X_BITS_2AND3_MASK :: u8
  OF1X_BITS_4AND5_MASK :: u8
  OF1X_2MSBITS_MASK :: u8
  OF1X_3MSBITS_MASK :: u8
  OF1X_4MSBITS_MASK :: u8
  OF1X_6MSBITS_MASK :: u8
  OF1X_2LSBITS_MASK :: u8
  OF1X_4LSBITS_MASK :: u8
  OF1X_6LSBITS_MASK :: u8
  OF1X_BIT0_MASK :: u8
  OF1X_BIT1_MASK :: u8
  OF1X_BIT2_MASK :: u8
  OF1X_BIT4_MASK :: u8
  OF1X_BIT5_MASK :: u8
  OF1X_BIT6_MASK :: u8
  OF1X_BIT7_MASK :: u8
  VLAN_ITAG_ETHER_TYPE :: u16
  VLAN_CTAG_ETHER_TYPE :: u16
  VLAN_STAG_ETHER_TYPE :: u16
  ETH_TYPE_MPLS_UNICAST :: u16
  ETH_TYPE_MPLS_MULTICAST :: u16
  ETH_TYPE_PPPOE_DISCOVERY :: u16
  ETH_TYPE_PPPOE_SESSION :: u16
  ETH_TYPE_ARP :: u16
  ETH_TYPE_IPV4 :: u16
  ETH_TYPE_IPV6 :: u16
  UDP_DST_PORT_GTPU :: u16
  IP_PROTO_UDP :: u8
  IP_PROTO_GRE :: u8

section \<open>Byte order\<close>

datatype rofl_result = ROFL_SUCCESS | ROFL_FAILURE

definition bswap16 :: "u16 \<Rightarrow> u16" where
  "bswap16 x = push_bit 8 x OR drop_bit 8 x"

definition bswap32 :: "u32 \<Rightarrow> u32" where
  "bswap32 x = push_bit 24 x OR (push_bit 8 x AND 0x00FF0000) OR (drop_bit 8 x AND 0x0000FF00) OR drop_bit 24 x"

text \<open>\<open>htobe16\<close> and \<open>be16toh\<close> of the C library on a little-endian host.\<close>

definition htobe16 :: "u16 \<Rightarrow> u16" where
  "htobe16 x = bswap16 x"

definition be16toh :: "u16 \<Rightarrow> u16" where
  "be16toh x = bswap16 x"

lemma bit_bswap16:
  "bit (bswap16 x) n = (if n < 8 then bit x (n + 8) else n < 16 \<and> bit x (n - 8))"
  by (auto simp: bswap16_def bit_simps add.commute dest: bit_imp_le_length)

lemma bswap16_bswap16 [simp]: "bswap16 (bswap16 x) = x"
  by (rule bit_word_eqI) (auto simp: bit_bswap16)

lemma be16toh_htobe16 [simp]: "be16toh (htobe16 x) = x"
  by (simp add: be16toh_def htobe16_def)

definition le_host :: "rofl \<Rightarrow> bool" where
  "le_host K \<longleftrightarrow> NTOHB16 K = bswap16 \<and> HTONB16 K = bswap16 \<and> HTONB32 K = bswap32"

section \<open>Documented values\<close>

definition network_masks :: "rofl \<Rightarrow> bool" where
  "network_masks K \<longleftrightarrow>
     OF1X_6_BYTE_MASK K = 0x0000FFFFFFFFFFFF \<and> OF1X_3_BYTE_MASK K = 0x00FFFFFF \<and>
     OF1X_VLAN_ID_MASK K = 0xFF0F \<and> OF1X_20_BITS_MASK K = 0x00F0FFFF \<and>
     OF1X_20_BITS_IPV6_FLABEL_MASK K = 0x00FFFF0F \<and> OF1X_8MIDDLE_BITS_MASK K = 0xF00F \<and>
     OF1X_BITS_12AND3_MASK K = 0x0E \<and> OF1X_BITS_2AND3_MASK K = 0x0C \<and> OF1X_BITS_4AND5_MASK K = 0x30 \<and>
     OF1X_2MSBITS_MASK K = 0xC0 \<and> OF1X_3MSBITS_MASK K = 0xE0 \<and> OF1X_4MSBITS_MASK K = 0xF0 \<and>
     OF1X_6MSBITS_MASK K = 0xFC \<and> OF1X_2LSBITS_MASK K = 0x03 \<and> OF1X_4LSBITS_MASK K = 0x0F \<and>
     OF1X_6LSBITS_MASK K = 0x3F \<and> OF1X_BIT0_MASK K = 0x01 \<and> OF1X_BIT1_MASK K = 0x02 \<and>
     OF1X_BIT2_MASK K = 0x04 \<and> OF1X_BIT4_MASK K = 0x10 \<and> OF1X_BIT5_MASK K = 0x20 \<and>
     OF1X_BIT6_MASK K = 0x40 \<and> OF1X_BIT7_MASK K = 0x80"

text \<open>The case labels of the classifier's \<open>switch\<close> statements are pairwise different (the code
  would not compile otherwise), and every Ethertype is at least \<open>LLC_DELIMITER_HBO\<close> in host order,
  the boundary between lengths and types of IEEE 802.3.\<close>

definition ether_types :: "rofl \<Rightarrow> u16 list" where
  "ether_types K =
     [VLAN_ITAG_ETHER_TYPE K, VLAN_CTAG_ETHER_TYPE K, VLAN_STAG_ETHER_TYPE K,
      ETH_TYPE_MPLS_UNICAST K, ETH_TYPE_MPLS_MULTICAST K, ETH_TYPE_PPPOE_DISCOVERY K,
      ETH_TYPE_PPPOE_SESSION K, ETH_TYPE_ARP K, ETH_TYPE_IPV4 K, ETH_TYPE_IPV6 K]"

definition network_types :: "rofl \<Rightarrow> bool" where
  "network_types K \<longleftrightarrow> distinct (ether_types K) \<and>
     (\<forall>t \<in> set (ether_types K). LLC_DELIMITER_HBO K \<le> NTOHB16 K t)"

definition std_rofl :: rofl where
  "std_rofl =
    \<lparr> NDEBUG = True, DEBUG = False, NTOHB16 = bswap16, HTONB16 = bswap16, HTONB32 = bswap32,
      LLC_DELIMITER_HBO = 0x0600,
      OF1X_6_BYTE_MASK = 0x0000FFFFFFFFFFFF, OF1X_3_BYTE_MASK = 0x00FFFFFF,
      OF1X_VLAN_ID_MASK = 0xFF0F, OF1X_20_BITS_MASK = 0x00F0FFFF,
      OF1X_20_BITS_IPV6_FLABEL_MASK = 0x00FFFF0F, OF1X_8MIDDLE_BITS_MASK = 0xF00F,
      OF1X_BITS_12AND3_MASK = 0x0E, OF1X_BITS_2AND3_MASK = 0x0C, OF1X_BITS_4AND5_MASK = 0x30,
      OF1X_2MSBITS_MASK = 0xC0, OF1X_3MSBITS_MASK = 0xE0, OF1X_4MSBITS_MASK = 0xF0,
      OF1X_6MSBITS_MASK = 0xFC, OF1X_2LSBITS_MASK = 0x03, OF1X_4LSBITS_MASK = 0x0F,
      OF1X_6LSBITS_MASK = 0x3F, OF1X_BIT0_MASK = 0x01, OF1X_BIT1_MASK = 0x02,
      OF1X_BIT2_MASK = 0x04, OF1X_BIT4_MASK = 0x10, OF1X_BIT5_MASK = 0x20,
      OF1X_BIT6_MASK = 0x40, OF1X_BIT7_MASK = 0x80,
      VLAN_ITAG_ETHER_TYPE = 0xE788, VLAN_CTAG_ETHER_TYPE = 0x0081, VLAN_STAG_ETHER_TYPE = 0xA888,
      ETH_TYPE_MPLS_UNICAST = 0x4788, ETH_TYPE_MPLS_MULTICAST = 0x4888,
      ETH_TYPE_PPPOE_DISCOVERY = 0x6388, ETH_TYPE_PPPOE_SESSION = 0x6488,
      ETH_TYPE_ARP = 0x0608, ETH_TYPE_IPV4 = 0x0008, ETH_TYPE_IPV6 = 0xDD86,
      UDP_DST_PORT_GTPU = 0x6808, IP_PROTO_UDP = 17, IP_PROTO_GRE = 47 \<rparr>"

lemma std_rofl_le_host: "le_host std_rofl"
  by (simp add: le_host_def std_rofl_def)

lemma std_rofl_masks: "network_masks std_rofl"
  by (simp add: network_masks_def std_rofl_def)

lemma std_rofl_types: "network_types std_rofl"
  by (simp add: network_types_def ether_types_def std_rofl_def bswap16_def)

section \<open>The contract of a header setter\<close>

text \<open>
  \<open>writes_field wr off msk\<close>: \<open>wr m h v\<close> fails exactly when the member at \<open>h + off\<close> does
  not lie inside the object; otherwise it puts the bits of \<open>v\<close> that \<open>msk\<close> selects into the
  member, keeps the member's other bits, every other byte and the size of the object.
\<close>

definition writes_field :: "(mem \<Rightarrow> nat \<Rightarrow> 'a::len word \<Rightarrow> mem option) \<Rightarrow> nat \<Rightarrow> 'a word \<Rightarrow> bool" where
  "writes_field wr off msk \<longleftrightarrow> (\<forall>m h v.
     if length m < h + off + LENGTH('a) div 8 then wr m h v = None
     else \<exists>m' x. wr m h v = Some m' \<and> load m (h + off) = Some x \<and>
            load m' (h + off) = Some (merge_mask msk v x) \<and> length m' = length m \<and>
            (\<forall>i. i < length m \<and> \<not> (h + off \<le> i \<and> i < h + off + LENGTH('a) div 8) \<longrightarrow> m' ! i = m ! i))"

locale field_setter =
  fixes wr :: "mem \<Rightarrow> nat \<Rightarrow> 'a::len word \<Rightarrow> mem option"
    and off :: nat
    and msk :: "'a word"
  assumes wr_modify: "wr m h v = modify m (h + off) (merge_mask msk v)"
    and byte_sized: "8 dvd LENGTH('a)"
begin

lemma wr_None: "wr m h v = None \<longleftrightarrow> length m < h + off + LENGTH('a) div 8"
  by (auto simp: wr_modify modify_def bind_None_iff load_None_iff store_None_iff load_def)

lemma wr_SomeD:
  assumes "wr m h v = Some m'"
  obtains x where "load m (h + off) = Some x" and "store m (h + off) (merge_mask msk v x) = Some m'"
  using assms by (auto simp: wr_modify modify_def bind_Some_iff)

lemma wr_length: "wr m h v = Some m' \<Longrightarrow> length m' = length m"
  by (auto elim: wr_SomeD dest: length_store)

lemma wr_outside:
  "wr m h v = Some m' \<Longrightarrow> i < length m \<Longrightarrow> \<not> (h + off \<le> i \<and> i < h + off + LENGTH('a) div 8) \<Longrightarrow> m' ! i = m ! i"
  by (erule wr_SomeD) (auto simp: nth_store)

lemma wr_load:
  assumes "wr m h v = Some m'"
  shows "\<exists>x. load m (h + off) = Some x \<and> load m' (h + off) = Some (merge_mask msk v x)"
  using assms byte_sized by (auto elim!: wr_SomeD dest!: load_store_same)

lemma wr_frame:
  "wr m h v = Some m' \<Longrightarrow> disjoint (h + off) (LENGTH('a) div 8) b (LENGTH('b::len) div 8) \<Longrightarrow>
   load m' b = (load m b :: 'b word option)"
  by (erule wr_SomeD) (rule load_store_other)

lemma wr_wr:
  assumes "wr m h v = Some m'"
  shows "wr m' h w = wr m h w"
proof -
  obtain x where x: "load m (h + off) = Some x"
    and st: "store m (h + off) (merge_mask msk v x) = Some m'"
    using assms by (rule wr_SomeD)
  have "load m' (h + off) = Some (merge_mask msk v x)"
    using st byte_sized by (rule load_store_same)
  then show ?thesis
    using x typed_access.st_st [OF word_typed_access [OF byte_sized] st]
    by (simp add: wr_modify modify_def)
qed

lemma field: "writes_field wr off msk"
  unfolding writes_field_def
proof (intro allI)
  fix m h and v :: "'a word"
  show "if length m < h + off + LENGTH('a) div 8 then wr m h v = None
     else \<exists>m' x. wr m h v = Some m' \<and> load m (h + off) = Some x \<and>
            load m' (h + off) = Some (merge_mask msk v x) \<and> length m' = length m \<and>
            (\<forall>i. i < length m \<and> \<not> (h + off \<le> i \<and> i < h + off + LENGTH('a) div 8) \<longrightarrow> m' ! i = m ! i)"
  proof (cases "wr m h v")
    case None
    then show ?thesis by (simp add: wr_None)
  next
    case (Some m')
    then have "\<not> length m < h + off + LENGTH('a) div 8"
      using wr_None [of m h v] by simp
    then show ?thesis
      using Some wr_load [OF Some] wr_length [OF Some] wr_outside [OF Some] by auto
  qed
qed

end

text \<open>A setter that replaces the whole member can be read back exactly.\<close>

locale plain_setter = field_setter wr off "- 1"
  for wr :: "mem \<Rightarrow> nat \<Rightarrow> 'a::len word \<Rightarrow> mem option" and off
begin

lemma read_back: "wr m h v = Some m' \<Longrightarrow> load m' (h + off) = Some v"
  by (drule wr_load) simp

end

text \<open>The shapes the setters are written in.\<close>

lemma store_eq_modify: "store m a (v :: 'a::len word) = modify m a (merge_mask (- 1) v)"
  by (auto simp: modify_def load_def store_def)

lemmas setter_shapes = merge_mask_add merge_mask_swap merge_mask_def [symmetric]

end
