(* ===== verification/Cpc_L2.thy ===== *)
theory Cpc_L2
  imports Rofl
begin

text \<open>
  The link-layer headers of the packet classifier (\<open>headers/cpc_ethernet.h\<close>, \<open>cpc_vlan.h\<close>,
  \<open>cpc_mpls.h\<close>, \<open>cpc_pbb.h\<close>, \<open>cpc_pppoe.h\<close>, \<open>cpc_ppp.h\<close>, \<open>cpc_arpv4.h\<close>): the packed
  structures, the getters (a getter of the code returns a pointer, here an offset into the packet's
  memory) and the setters, each shown to satisfy the setter contract of theory \<open>Rofl\<close>.
\<close>

section \<open>Ethernet\<close>

definition CPC_ETH_ALEN :: nat where
  "CPC_ETH_ALEN = 6"

definition cpc_eth_hdr :: struct where
  "cpc_eth_hdr = [(''dl_dst'', 6), (''dl_src'', 6), (''dl_type'', 2), (''data'', 0)]"

definition cpc_eth_llc_hdr :: struct where
  "cpc_eth_llc_hdr = [(''dl_dst'', 6), (''dl_src'', 6), (''dl_len'', 2), (''dl_dsap'', 1), (''dl_ssap'', 1), (''dl_control'', 1), (''dl_vendor_code'', 3), (''dl_type'', 2), (''data'', 0)]"

lemma cpc_eth_hdr_layout [layout]:
  "sizeof cpc_eth_hdr = 14"
  "offset_of cpc_eth_hdr ''dl_dst'' = 0"
  "offset_of cpc_eth_hdr ''dl_src'' = 6"
  "offset_of cpc_eth_hdr ''dl_type'' = 12"
  "offset_of cpc_eth_hdr ''data'' = 14"
  by (simp_all add: cpc_eth_hdr_def sizeof_def)

lemma cpc_eth_llc_hdr_layout [layout]:
  "sizeof cpc_eth_llc_hdr = 22"
  "offset_of cpc_eth_llc_hdr ''dl_dst'' = 0"
  "offset_of cpc_eth_llc_hdr ''dl_src'' = 6"
  "offset_of cpc_eth_llc_hdr ''dl_len'' = 12"
  "offset_of cpc_eth_llc_hdr ''dl_dsap'' = 14"
  "offset_of cpc_eth_llc_hdr ''dl_ssap'' = 15"
  "offset_of cpc_eth_llc_hdr ''dl_control'' = 16"
  "offset_of cpc_eth_llc_hdr ''dl_vendor_code'' = 17"
  "offset_of cpc_eth_llc_hdr ''dl_type'' = 20"
  "offset_of cpc_eth_llc_hdr ''data'' = 22"
  by (simp_all add: cpc_eth_llc_hdr_def sizeof_def)

definition get_ether_dl_dst :: "nat \<Rightarrow> nat" where
  "get_ether_dl_dst hdr = hdr + offset_of cpc_eth_hdr ''dl_dst''"

definition set_ether_dl_dst :: "rofl \<Rightarrow> mem \<Rightarrow> nat \<Rightarrow> u64 \<Rightarrow> mem option" where
  "set_ether_dl_dst K m hdr dl_dst = modify m (hdr + offset_of cpc_eth_hdr ''dl_dst'')
     (\<lambda>x. (dl_dst AND OF1X_6_BYTE_MASK K) OR (x AND NOT (OF1X_6_BYTE_MASK K)))"

definition get_ether_dl_src :: "nat \<Rightarrow> nat" where
  "get_ether_dl_src hdr = hdr + offset_of cpc_eth_hdr ''dl_src''"

definition set_ether_dl_src :: "rofl \<Rightarrow> mem \<Rightarrow> nat \<Rightarrow> u64 \<Rightarrow> mem option" where
  "set_ether_dl_src K m hdr dl_src = modify m (hdr + offset_of cpc_eth_hdr ''dl_src'')
     (\<lambda>x. (dl_src AND OF1X_6_BYTE_MASK K) OR (x AND NOT (OF1X_6_BYTE_MASK K)))"

text \<open>The members that follow depend on whether the type/length word is a length (IEEE 802.3 with
  LLC/SNAP) or an Ethertype.\<close>

definition is_llc_frame :: "rofl \<Rightarrow> mem \<Rightarrow> nat \<Rightarrow> bool option" where
  "is_llc_frame K m hdr = do {
     t \<leftarrow> load m (hdr + offset_of cpc_eth_hdr ''dl_type'');
     Some (NTOHB16 K t < LLC_DELIMITER_HBO K) }"

definition get_ether_type :: "rofl \<Rightarrow> mem \<Rightarrow> nat \<Rightarrow> nat option" where
  "get_ether_type K m hdr = do {
     llc \<leftarrow> is_llc_frame K m hdr;
     if llc then Some (hdr + offset_of cpc_eth_llc_hdr ''dl_type'')
     else Some (hdr + offset_of cpc_eth_hdr ''dl_type'') }"

definition set_ether_type :: "rofl \<Rightarrow> mem \<Rightarrow> nat \<Rightarrow> u16 \<Rightarrow> mem option" where
  "set_ether_type K m hdr dl_type = do {
     llc \<leftarrow> is_llc_frame K m hdr;
     if llc then store m (hdr + offset_of cpc_eth_llc_hdr ''dl_type'') dl_type
     else store m (hdr + offset_of cpc_eth_hdr ''dl_type'') dl_type }"

interpretation set_ether_dl_dst: field_setter "set_ether_dl_dst K" 0 "OF1X_6_BYTE_MASK K" for K
  by unfold_locales (simp_all add: set_ether_dl_dst_def layout setter_shapes)

interpretation set_ether_dl_src: field_setter "set_ether_dl_src K" 6 "OF1X_6_BYTE_MASK K" for K
  by unfold_locales (simp_all add: set_ether_dl_src_def layout setter_shapes)

section \<open>VLAN\<close>

definition cpc_vlan_hdr :: struct where
  "cpc_vlan_hdr = [(''byte0'', 1), (''byte1'', 1), (''dl_type'', 2)]"

lemma cpc_vlan_hdr_layout [layout]:
  "sizeof cpc_vlan_hdr = 4"
  "offset_of cpc_vlan_hdr ''byte0'' = 0"
  "offset_of cpc_vlan_hdr ''byte1'' = 1"
  "offset_of cpc_vlan_hdr ''dl_type'' = 2"
  by (simp_all add: cpc_vlan_hdr_def sizeof_def)

definition set_vlan_id :: "rofl \<Rightarrow> mem \<Rightarrow> nat \<Rightarrow> u16 \<Rightarrow> mem option" where
  "set_vlan_id K m hdr vid = modify m (hdr + offset_of cpc_vlan_hdr ''byte0'')
     (\<lambda>x. (x AND NOT (OF1X_VLAN_ID_MASK K)) OR (vid AND OF1X_VLAN_ID_MASK K))"

definition get_vlan_id :: "nat \<Rightarrow> nat" where
  "get_vlan_id hdr = hdr + offset_of cpc_vlan_hdr ''byte0''"

definition set_vlan_pcp :: "rofl \<Rightarrow> mem \<Rightarrow> nat \<Rightarrow> u8 \<Rightarrow> mem option" where
  "set_vlan_pcp K m hdr pcp = modify m (hdr + offset_of cpc_vlan_hdr ''byte0'')
     (\<lambda>x. (pcp AND OF1X_3MSBITS_MASK K) OR (x AND NOT (OF1X_3MSBITS_MASK K)))"

definition get_vlan_pcp :: "nat \<Rightarrow> nat" where
  "get_vlan_pcp hdr = hdr + offset_of cpc_vlan_hdr ''byte0''"

definition set_vlan_type :: "mem \<Rightarrow> nat \<Rightarrow> u16 \<Rightarrow> mem option" where
  "set_vlan_type m hdr dl_type = store m (hdr + offset_of cpc_vlan_hdr ''dl_type'') dl_type"

definition get_vlan_type :: "nat \<Rightarrow> nat" where
  "get_vlan_type hdr = hdr + offset_of cpc_vlan_hdr ''dl_type''"

interpretation set_vlan_id: field_setter "set_vlan_id K" 0 "OF1X_VLAN_ID_MASK K" for K
  by unfold_locales (simp_all add: set_vlan_id_def layout setter_shapes)

interpretation set_vlan_pcp: field_setter "set_vlan_pcp K" 0 "OF1X_3MSBITS_MASK K" for K
  by unfold_locales (simp_all add: set_vlan_pcp_def layout setter_shapes)

interpretation set_vlan_type: plain_setter set_vlan_type 2
  by unfold_locales (simp_all add: set_vlan_type_def layout store_eq_modify)

section \<open>MPLS\<close>

definition cpc_mpls_hdr :: struct where
  "cpc_mpls_hdr = [(''label'', 3), (''ttl'', 1)]"

lemma cpc_mpls_hdr_layout [layout]:
  "sizeof cpc_mpls_hdr = 4"
  "offset_of cpc_mpls_hdr ''label'' = 0"
  "offset_of cpc_mpls_hdr ''ttl'' = 3"
  by (simp_all add: cpc_mpls_hdr_def sizeof_def)

definition set_mpls_label :: "rofl \<Rightarrow> mem \<Rightarrow> nat \<Rightarrow> u32 \<Rightarrow> mem option" where
  "set_mpls_label K m hdr lbl = modify m (hdr + offset_of cpc_mpls_hdr ''label'')
     (\<lambda>x. (x AND NOT (OF1X_20_BITS_MASK K)) OR (lbl AND OF1X_20_BITS_MASK K))"

definition get_mpls_label :: "nat \<Rightarrow> nat" where
  "get_mpls_label hdr = hdr + offset_of cpc_mpls_hdr ''label''"

definition set_mpls_tc :: "rofl \<Rightarrow> mem \<Rightarrow> nat \<Rightarrow> u8 \<Rightarrow> mem option" where
  "set_mpls_tc K m hdr tc = modify m (hdr + offset_of cpc_mpls_hdr ''label'' + 2)
     (\<lambda>x. (tc AND OF1X_BITS_12AND3_MASK K) OR (x AND NOT (OF1X_BITS_12AND3_MASK K)))"

definition get_mpls_tc :: "nat \<Rightarrow> nat" where
  "get_mpls_tc hdr = hdr + offset_of cpc_mpls_hdr ''label'' + 2"

definition dec_mpls_ttl :: "mem \<Rightarrow> nat \<Rightarrow> mem option" where
  "dec_mpls_ttl m hdr = modify m (hdr + offset_of cpc_mpls_hdr ''ttl'') (\<lambda>x::u8. x - 1)"

definition set_mpls_ttl :: "mem \<Rightarrow> nat \<Rightarrow> u8 \<Rightarrow> mem option" where
  "set_mpls_ttl m hdr ttl = store m (hdr + offset_of cpc_mpls_hdr ''ttl'') ttl"

definition get_mpls_ttl :: "nat \<Rightarrow> nat" where
  "get_mpls_ttl hdr = hdr + offset_of cpc_mpls_hdr ''ttl''"

definition set_mpls_bos :: "rofl \<Rightarrow> mem \<Rightarrow> nat \<Rightarrow> bool \<Rightarrow> mem option" where
  "set_mpls_bos K m hdr flag =
     (if flag then modify m (hdr + offset_of cpc_mpls_hdr ''label'' + 2) (\<lambda>x. x OR OF1X_BIT0_MASK K)
      else modify m (hdr + offset_of cpc_mpls_hdr ''label'' + 2) (\<lambda>x. x AND NOT (OF1X_BIT0_MASK K)))"

definition get_mpls_bos :: "rofl \<Rightarrow> mem \<Rightarrow> nat \<Rightarrow> bool option" where
  "get_mpls_bos K m hdr = do {
     x \<leftarrow> load m (hdr + offset_of cpc_mpls_hdr ''label'' + 2);
     Some (if x AND OF1X_BIT0_MASK K \<noteq> 0 then True else False) }"

interpretation set_mpls_label: field_setter "set_mpls_label K" 0 "OF1X_20_BITS_MASK K" for K
  by unfold_locales (simp_all add: set_mpls_label_def layout setter_shapes)

interpretation set_mpls_tc: field_setter "set_mpls_tc K" 2 "OF1X_BITS_12AND3_MASK K" for K
  by unfold_locales (simp_all add: set_mpls_tc_def layout setter_shapes)

interpretation set_mpls_ttl: plain_setter set_mpls_ttl 3
  by unfold_locales (simp_all add: set_mpls_ttl_def layout store_eq_modify)

section \<open>Provider backbone bridges\<close>

definition cpc_pbb_isid_hdr :: struct where
  "cpc_pbb_isid_hdr = [(''tc'', 1), (''i_tag'', 3)]"

lemma cpc_pbb_isid_hdr_layout [layout]:
  "sizeof cpc_pbb_isid_hdr = 4"
  "offset_of cpc_pbb_isid_hdr ''tc'' = 0"
  "offset_of cpc_pbb_isid_hdr ''i_tag'' = 1"
  by (simp_all add: cpc_pbb_isid_hdr_def sizeof_def)

definition get_pbb_isid :: "nat \<Rightarrow> nat" where
  "get_pbb_isid hdr = hdr + offset_of cpc_pbb_isid_hdr ''i_tag''"

definition set_pbb_isid :: "rofl \<Rightarrow> mem \<Rightarrow> nat \<Rightarrow> u32 \<Rightarrow> mem option" where
  "set_pbb_isid K m hdr i_tag = modify m (hdr + offset_of cpc_pbb_isid_hdr ''i_tag'')
     (\<lambda>x. (x AND NOT (OF1X_3_BYTE_MASK K)) OR (i_tag AND OF1X_3_BYTE_MASK K))"

interpretation set_pbb_isid: field_setter "set_pbb_isid K" 1 "OF1X_3_BYTE_MASK K" for K
  by unfold_locales (simp_all add: set_pbb_isid_def layout setter_shapes)

section \<open>PPPoE\<close>

definition PPPOE_VERSION :: u8 where
  "PPPOE_VERSION = 0x01"

definition PPPOE_TYPE :: u8 where
  "PPPOE_TYPE = 0x01"

definition cpc_pppoe_hdr :: struct where
  "cpc_pppoe_hdr = [(''verstype'', 1), (''code'', 1), (''sessid'', 2), (''length'', 2), (''data'', 0)]"

lemma cpc_pppoe_hdr_layout [layout]:
  "sizeof cpc_pppoe_hdr = 6"
  "offset_of cpc_pppoe_hdr ''verstype'' = 0"
  "offset_of cpc_pppoe_hdr ''code'' = 1"
  "offset_of cpc_pppoe_hdr ''sessid'' = 2"
  "offset_of cpc_pppoe_hdr ''length'' = 4"
  "offset_of cpc_pppoe_hdr ''data'' = 6"
  by (simp_all add: cpc_pppoe_hdr_def sizeof_def)

definition get_pppoe_vers :: "nat \<Rightarrow> nat" where
  "get_pppoe_vers hdr = hdr + offset_of cpc_pppoe_hdr ''verstype''"

definition set_pppoe_vers :: "rofl \<Rightarrow> mem \<Rightarrow> nat \<Rightarrow> u8 \<Rightarrow> mem option" where
  "set_pppoe_vers K m hdr version = modify m (hdr + offset_of cpc_pppoe_hdr ''verstype'')
     (\<lambda>x. (x AND NOT (OF1X_4MSBITS_MASK K)) + (version AND OF1X_4MSBITS_MASK K))"

definition get_pppoe_type :: "nat \<Rightarrow> nat" where
  "get_pppoe_type hdr = hdr + offset_of cpc_pppoe_hdr ''verstype''"

definition set_pppoe_type :: "rofl \<Rightarrow> mem \<Rightarrow> nat \<Rightarrow> u8 \<Rightarrow> mem option" where
  "set_pppoe_type K m hdr typ = modify m (hdr + offset_of cpc_pppoe_hdr ''verstype'')
     (\<lambda>x. (x AND NOT (OF1X_4LSBITS_MASK K)) + (typ AND OF1X_4LSBITS_MASK K))"

definition get_pppoe_code :: "nat \<Rightarrow> nat" where
  "get_pppoe_code hdr = hdr + offset_of cpc_pppoe_hdr ''code''"

definition set_pppoe_code :: "mem \<Rightarrow> nat \<Rightarrow> u8 \<Rightarrow> mem option" where
  "set_pppoe_code m hdr code = store m (hdr + offset_of cpc_pppoe_hdr ''code'') code"

definition get_pppoe_sessid :: "nat \<Rightarrow> nat" where
  "get_pppoe_sessid hdr = hdr + offset_of cpc_pppoe_hdr ''sessid''"

definition set_pppoe_sessid :: "mem \<Rightarrow> nat \<Rightarrow> u16 \<Rightarrow> mem option" where
  "set_pppoe_sessid m hdr sessid = store m (hdr + offset_of cpc_pppoe_hdr ''sessid'') sessid"

definition get_pppoe_length :: "nat \<Rightarrow> nat" where
  "get_pppoe_length hdr = hdr + offset_of cpc_pppoe_hdr ''length''"

definition set_pppoe_length :: "mem \<Rightarrow> nat \<Rightarrow> u16 \<Rightarrow> mem option" where
  "set_pppoe_length m hdr len = store m (hdr + offset_of cpc_pppoe_hdr ''length'') len"

interpretation set_pppoe_vers: field_setter "set_pppoe_vers K" 0 "OF1X_4MSBITS_MASK K" for K
  by unfold_locales (simp_all add: set_pppoe_vers_def layout setter_shapes)

interpretation set_pppoe_type: field_setter "set_pppoe_type K" 0 "OF1X_4LSBITS_MASK K" for K
  by unfold_locales (simp_all add: set_pppoe_type_def layout setter_shapes)

interpretation set_pppoe_code: plain_setter set_pppoe_code 1
  by unfold_locales (simp_all add: set_pppoe_code_def layout store_eq_modify)

interpretation set_pppoe_sessid: plain_setter set_pppoe_sessid 2
  by unfold_locales (simp_all add: set_pppoe_sessid_def layout store_eq_modify)

interpretation set_pppoe_length: plain_setter set_pppoe_length 4
  by unfold_locales (simp_all add: set_pppoe_length_def layout store_eq_modify)

section \<open>PPP\<close>

definition cpc_ppp_hdr :: struct where
  "cpc_ppp_hdr = [(''prot'', 2), (''data'', 0)]"

definition cpc_ppp_lcp_hdr :: struct where
  "cpc_ppp_lcp_hdr = [(''code'', 1), (''ident'', 1), (''length'', 2), (''data'', 0)]"

lemma cpc_ppp_hdr_layout [layout]:
  "sizeof cpc_ppp_hdr = 2"
  "offset_of cpc_ppp_hdr ''prot'' = 0"
  "offset_of cpc_ppp_hdr ''data'' = 2"
  by (simp_all add: cpc_ppp_hdr_def sizeof_def)

lemma cpc_ppp_lcp_hdr_layout [layout]:
  "sizeof cpc_ppp_lcp_hdr = 4"
  "offset_of cpc_ppp_lcp_hdr ''code'' = 0"
  "offset_of cpc_ppp_lcp_hdr ''ident'' = 1"
  "offset_of cpc_ppp_lcp_hdr ''length'' = 2"
  "offset_of cpc_ppp_lcp_hdr ''data'' = 4"
  by (simp_all add: cpc_ppp_lcp_hdr_def sizeof_def)

definition get_ppp_prot :: "nat \<Rightarrow> nat" where
  "get_ppp_prot hdr = hdr + offset_of cpc_ppp_hdr ''prot''"

definition set_ppp_prot :: "mem \<Rightarrow> nat \<Rightarrow> u16 \<Rightarrow> mem option" where
  "set_ppp_prot m hdr prot = store m (hdr + offset_of cpc_ppp_hdr ''prot'') prot"

definition get_ppp_lcp_code :: "nat \<Rightarrow> nat" where
  "get_ppp_lcp_code hdr = hdr + offset_of cpc_ppp_lcp_hdr ''code''"

definition set_ppp_lcp_code :: "mem \<Rightarrow> nat \<Rightarrow> u8 \<Rightarrow> mem option" where
  "set_ppp_lcp_code m hdr code = store m (hdr + offset_of cpc_ppp_lcp_hdr ''code'') code"

definition get_ppp_lcp_ident :: "nat \<Rightarrow> nat" where
  "get_ppp_lcp_ident hdr = hdr + offset_of cpc_ppp_lcp_hdr ''ident''"

definition set_ppp_lcp_ident :: "mem \<Rightarrow> nat \<Rightarrow> u8 \<Rightarrow> mem option" where
  "set_ppp_lcp_ident m hdr ident = store m (hdr + offset_of cpc_ppp_lcp_hdr ''ident'') ident"

definition get_ppp_lcp_length :: "nat \<Rightarrow> nat" where
  "get_ppp_lcp_length hdr = hdr + offset_of cpc_ppp_lcp_hdr ''length''"

definition set_ppp_lcp_length :: "mem \<Rightarrow> nat \<Rightarrow> u16 \<Rightarrow> mem option" where
  "set_ppp_lcp_length m hdr len = store m (hdr + offset_of cpc_ppp_lcp_hdr ''length'') len"

definition get_ppp_ipcp_code :: "nat \<Rightarrow> nat" where
  "get_ppp_ipcp_code hdr = hdr + offset_of cpc_ppp_lcp_hdr ''code''"

definition set_ppp_ipcp_code :: "mem \<Rightarrow> nat \<Rightarrow> u8 \<Rightarrow> mem option" where
  "set_ppp_ipcp_code m hdr code = store m (hdr + offset_of cpc_ppp_lcp_hdr ''code'') code"

definition get_ppp_ipcp_ident :: "nat \<Rightarrow> nat" where
  "get_ppp_ipcp_ident hdr = hdr + offset_of cpc_ppp_lcp_hdr ''ident''"

definition set_ppp_ipcp_ident :: "mem \<Rightarrow> nat \<Rightarrow> u8 \<Rightarrow> mem option" where
  "set_ppp_ipcp_ident m hdr ident = store m (hdr + offset_of cpc_ppp_lcp_hdr ''ident'') ident"

definition get_ppp_ipcp_length :: "nat \<Rightarrow> nat" where
  "get_ppp_ipcp_length hdr = hdr + offset_of cpc_ppp_lcp_hdr ''length''"

definition set_ppp_ipcp_length :: "mem \<Rightarrow> nat \<Rightarrow> u16 \<Rightarrow> mem option" where
  "set_ppp_ipcp_length m hdr len = store m (hdr + offset_of cpc_ppp_lcp_hdr ''length'') len"

interpretation set_ppp_prot: plain_setter set_ppp_prot 0
  by unfold_locales (simp_all add: set_ppp_prot_def layout store_eq_modify)

interpretation set_ppp_lcp_code: plain_setter set_ppp_lcp_code 0
  by unfold_locales (simp_all add: set_ppp_lcp_code_def layout store_eq_modify)

interpretation set_ppp_lcp_ident: plain_setter set_ppp_lcp_ident 1
  by unfold_locales (simp_all add: set_ppp_lcp_ident_def layout store_eq_modify)

interpretation set_ppp_lcp_length: plain_setter set_ppp_lcp_length 2
  by unfold_locales (simp_all add: set_ppp_lcp_length_def layout store_eq_modify)

interpretation set_ppp_ipcp_code: plain_setter set_ppp_ipcp_code 0
  by unfold_locales (simp_all add: set_ppp_ipcp_code_def layout store_eq_modify)

interpretation set_ppp_ipcp_ident: plain_setter set_ppp_ipcp_ident 1
  by unfold_locales (simp_all add: set_ppp_ipcp_ident_def layout store_eq_modify)

interpretation set_ppp_ipcp_length: plain_setter set_ppp_ipcp_length 2
  by unfold_locales (simp_all add: set_ppp_ipcp_length_def layout store_eq_modify)

section \<open>ARP\<close>

definition cpc_arpv4_hdr :: struct where
  "cpc_arpv4_hdr = [(''htype'', 2), (''ptype'', 2), (''hlen'', 1), (''plen'', 1), (''opcode'', 2), (''dl_src'', 6), (''ip_src'', 4), (''dl_dst'', 6), (''ip_dst'', 4)]"

lemma cpc_arpv4_hdr_layout [layout]:
  "sizeof cpc_arpv4_hdr = 28"
  "offset_of cpc_arpv4_hdr ''htype'' = 0"
  "offset_of cpc_arpv4_hdr ''ptype'' = 2"
  "offset_of cpc_arpv4_hdr ''hlen'' = 4"
  "offset_of cpc_arpv4_hdr ''plen'' = 5"
  "offset_of cpc_arpv4_hdr ''opcode'' = 6"
  "offset_of cpc_arpv4_hdr ''dl_src'' = 8"
  "offset_of cpc_arpv4_hdr ''ip_src'' = 14"
  "offset_of cpc_arpv4_hdr ''dl_dst'' = 18"
  "offset_of cpc_arpv4_hdr ''ip_dst'' = 24"
  by (simp_all add: cpc_arpv4_hdr_def sizeof_def)

definition get_arpv4_htype :: "nat \<Rightarrow> nat" where
  "get_arpv4_htype hdr = hdr + offset_of cpc_arpv4_hdr ''htype''"

definition set_arpv4_htype :: "mem \<Rightarrow> nat \<Rightarrow> u16 \<Rightarrow> mem option" where
  "set_arpv4_htype m hdr htype = store m (hdr + offset_of cpc_arpv4_hdr ''htype'') htype"

definition get_arpv4_ptype :: "nat \<Rightarrow> nat" where
  "get_arpv4_ptype hdr = hdr + offset_of cpc_arpv4_hdr ''ptype''"

definition set_arpv4_ptype :: "mem \<Rightarrow> nat \<Rightarrow> u16 \<Rightarrow> mem option" where
  "set_arpv4_ptype m hdr ptype = store m (hdr + offset_of cpc_arpv4_hdr ''ptype'') ptype"

definition get_arpv4_hlen :: "nat \<Rightarrow> nat" where
  "get_arpv4_hlen hdr = hdr + offset_of cpc_arpv4_hdr ''hlen''"

definition set_arpv4_hlen :: "mem \<Rightarrow> nat \<Rightarrow> u8 \<Rightarrow> mem option" where
  "set_arpv4_hlen m hdr hlen = store m (hdr + offset_of cpc_arpv4_hdr ''hlen'') hlen"

definition get_arpv4_plen :: "nat \<Rightarrow> nat" where
  "get_arpv4_plen hdr = hdr + offset_of cpc_arpv4_hdr ''plen''"

definition set_arpv4_plen :: "mem \<Rightarrow> nat \<Rightarrow> u8 \<Rightarrow> mem option" where
  "set_arpv4_plen m hdr plen = store m (hdr + offset_of cpc_arpv4_hdr ''plen'') plen"

definition get_arpv4_opcode :: "nat \<Rightarrow> nat" where
  "get_arpv4_opcode hdr = hdr + offset_of cpc_arpv4_hdr ''opcode''"

definition set_arpv4_opcode :: "mem \<Rightarrow> nat \<Rightarrow> u16 \<Rightarrow> mem option" where
  "set_arpv4_opcode m hdr opcode = store m (hdr + offset_of cpc_arpv4_hdr ''opcode'') opcode"

definition get_arpv4_dl_dst :: "nat \<Rightarrow> nat" where
  "get_arpv4_dl_dst hdr = hdr + offset_of cpc_arpv4_hdr ''dl_dst''"

definition set_arpv4_dl_dst :: "rofl \<Rightarrow> mem \<Rightarrow> nat \<Rightarrow> u64 \<Rightarrow> mem option" where
  "set_arpv4_dl_dst K m hdr dl_dst = modify m (hdr + offset_of cpc_arpv4_hdr ''dl_dst'')
     (\<lambda>x. (dl_dst AND OF1X_6_BYTE_MASK K) OR (x AND NOT (OF1X_6_BYTE_MASK K)))"

definition get_arpv4_dl_src :: "nat \<Rightarrow> nat" where
  "get_arpv4_dl_src hdr = hdr + offset_of cpc_arpv4_hdr ''dl_src''"

definition set_arpv4_dl_src :: "rofl \<Rightarrow> mem \<Rightarrow> nat \<Rightarrow> u64 \<Rightarrow> mem option" where
  "set_arpv4_dl_src K m hdr dl_src = modify m (hdr + offset_of cpc_arpv4_hdr ''dl_src'')
     (\<lambda>x. (dl_src AND OF1X_6_BYTE_MASK K) OR (x AND NOT (OF1X_6_BYTE_MASK K)))"

definition get_arpv4_ip_src :: "nat \<Rightarrow> nat" where
  "get_arpv4_ip_src hdr = hdr + offset_of cpc_arpv4_hdr ''ip_src''"

definition set_arpv4_ip_src :: "mem \<Rightarrow> nat \<Rightarrow> u32 \<Rightarrow> mem option" where
  "set_arpv4_ip_src m hdr ip_src = store m (hdr + offset_of cpc_arpv4_hdr ''ip_src'') ip_src"

definition get_arpv4_ip_dst :: "nat \<Rightarrow> nat" where
  "get_arpv4_ip_dst hdr = hdr + offset_of cpc_arpv4_hdr ''ip_dst''"

definition set_arpv4_ip_dst :: "mem \<Rightarrow> nat \<Rightarrow> u32 \<Rightarrow> mem option" where
  "set_arpv4_ip_dst m hdr ip_dst = store m (hdr + offset_of cpc_arpv4_hdr ''ip_dst'') ip_dst"

interpretation set_arpv4_htype: plain_setter set_arpv4_htype 0
  by unfold_locales (simp_all add: set_arpv4_htype_def layout store_eq_modify)

interpretation set_arpv4_ptype: plain_setter set_arpv4_ptype 2
  by unfold_locales (simp_all add: set_arpv4_ptype_def layout store_eq_modify)

interpretation set_arpv4_hlen: plain_setter set_arpv4_hlen 4
  by unfold_locales (simp_all add: set_arpv4_hlen_def layout store_eq_modify)

interpretation set_arpv4_plen: plain_setter set_arpv4_plen 5
  by unfold_locales (simp_all add: set_arpv4_plen_def layout store_eq_modify)

interpretation set_arpv4_opcode: plain_setter set_arpv4_opcode 6
  by unfold_locales (simp_all add: set_arpv4_opcode_def layout store_eq_modify)

interpretation set_arpv4_dl_dst: field_setter "set_arpv4_dl_dst K" 18 "OF1X_6_BYTE_MASK K" for K
  by unfold_locales (simp_all add: set_arpv4_dl_dst_def layout setter_shapes)

interpretation set_arpv4_dl_src: field_setter "set_arpv4_dl_src K" 8 "OF1X_6_BYTE_MASK K" for K
  by unfold_locales (simp_all add: set_arpv4_dl_src_def layout setter_shapes)

interpretation set_arpv4_ip_src: plain_setter set_arpv4_ip_src 14
  by unfold_locales (simp_all add: set_arpv4_ip_src_def layout store_eq_modify)

interpretation set_arpv4_ip_dst: plain_setter set_arpv4_ip_dst 24
  by unfold_locales (simp_all add: set_arpv4_ip_dst_def layout store_eq_modify)

end
