(* ===== verification/Cpc_L3.thy ===== *)
theory Cpc_L3
  imports Rofl
begin

text \<open>
  The network-layer headers of the packet classifier (\<open>headers/cpc_ipv4.h\<close>, \<open>cpc_ipv6.h\<close>,
  \<open>cpc_icmpv4.h\<close>, \<open>cpc_icmpv6.h\<close>, \<open>cpc_icmpv6_opt.h\<close>): structures, getters and setters. The
  checksum routines of these files are in theory \<open>Checksums\<close>.
\<close>

section \<open>IPv4\<close>

definition IPV4_IP_PROTO :: u8 where
  "IPV4_IP_PROTO = 4"

definition cpc_ipv4_hdr :: struct where
  "cpc_ipv4_hdr = [(''ihlvers'', 1), (''tos'', 1), (''length'', 2), (''ident'', 2), (''offset_flags'', 2), (''ttl'', 1), (''proto'', 1), (''checksum'', 2), (''src'', 4), (''dst'', 4), (''data'', 0)]"

lemma cpc_ipv4_hdr_layout [layout]:
  "sizeof cpc_ipv4_hdr = 20"
  "offset_of cpc_ipv4_hdr ''ihlvers'' = 0"
  "offset_of cpc_ipv4_hdr ''tos'' = 1"
  "offset_of cpc_ipv4_hdr ''length'' = 2"
  "offset_of cpc_ipv4_hdr ''ident'' = 4"
  "offset_of cpc_ipv4_hdr ''offset_flags'' = 6"
  "offset_of cpc_ipv4_hdr ''ttl'' = 8"
  "offset_of cpc_ipv4_hdr ''proto'' = 9"
  "offset_of cpc_ipv4_hdr ''checksum'' = 10"
  "offset_of cpc_ipv4_hdr ''src'' = 12"
  "offset_of cpc_ipv4_hdr ''dst'' = 16"
  "offset_of cpc_ipv4_hdr ''data'' = 20"
  by (simp_all add: cpc_ipv4_hdr_def sizeof_def)

definition ipv4_is_fragment :: "rofl \<Rightarrow> mem \<Rightarrow> nat \<Rightarrow> bool option" where
  "ipv4_is_fragment K m hdr = do {
     f1 \<leftarrow> load m (hdr + offset_of cpc_ipv4_hdr ''offset_flags'' + 1);
     f0 \<leftarrow> load m (hdr + offset_of cpc_ipv4_hdr ''offset_flags'');
     Some (f1 OR (f0 AND NOT (OF1X_2MSBITS_MASK K)) \<noteq> 0) }"

definition set_ipv4_src :: "mem \<Rightarrow> nat \<Rightarrow> u32 \<Rightarrow> mem option" where
  "set_ipv4_src m hdr src = store m (hdr + offset_of cpc_ipv4_hdr ''src'') src"

definition get_ipv4_src :: "nat \<Rightarrow> nat" where
  "get_ipv4_src hdr = hdr + offset_of cpc_ipv4_hdr ''src''"

definition set_ipv4_dst :: "mem \<Rightarrow> nat \<Rightarrow> u32 \<Rightarrow> mem option" where
  "set_ipv4_dst m hdr dst = store m (hdr + offset_of cpc_ipv4_hdr ''dst'') dst"

definition get_ipv4_dst :: "nat \<Rightarrow> nat" where
  "get_ipv4_dst hdr = hdr + offset_of cpc_ipv4_hdr ''dst''"

definition set_ipv4_dscp :: "rofl \<Rightarrow> mem \<Rightarrow> nat \<Rightarrow> u8 \<Rightarrow> mem option" where
  "set_ipv4_dscp K m hdr dscp = modify m (hdr + offset_of cpc_ipv4_hdr ''tos'')
     (\<lambda>x. (dscp AND OF1X_6MSBITS_MASK K) OR (x AND NOT (OF1X_6MSBITS_MASK K)))"

definition get_ipv4_dscp :: "mem \<Rightarrow> nat \<Rightarrow> u8 option" where
  "get_ipv4_dscp m hdr = load m (hdr + offset_of cpc_ipv4_hdr ''tos'')"

definition set_ipv4_ecn :: "rofl \<Rightarrow> mem \<Rightarrow> nat \<Rightarrow> u8 \<Rightarrow> mem option" where
  "set_ipv4_ecn K m hdr ecn = modify m (hdr + offset_of cpc_ipv4_hdr ''tos'')
     (\<lambda>x. (x AND NOT (OF1X_2LSBITS_MASK K)) OR (ecn AND OF1X_2LSBITS_MASK K))"

definition get_ipv4_ecn :: "mem \<Rightarrow> nat \<Rightarrow> u8 option" where
  "get_ipv4_ecn m hdr = load m (hdr + offset_of cpc_ipv4_hdr ''tos'')"

definition set_ipv4_ttl :: "mem \<Rightarrow> nat \<Rightarrow> u8 \<Rightarrow> mem option" where
  "set_ipv4_ttl m hdr ttl = store m (hdr + offset_of cpc_ipv4_hdr ''ttl'') ttl"

definition get_ipv4_ttl :: "nat \<Rightarrow> nat" where
  "get_ipv4_ttl hdr = hdr + offset_of cpc_ipv4_hdr ''ttl''"

definition dec_ipv4_ttl :: "mem \<Rightarrow> nat \<Rightarrow> mem option" where
  "dec_ipv4_ttl m hdr = modify m (hdr + offset_of cpc_ipv4_hdr ''ttl'') (\<lambda>x::u8. x - 1)"

definition set_ipv4_proto :: "mem \<Rightarrow> nat \<Rightarrow> u8 \<Rightarrow> mem option" where
  "set_ipv4_proto m hdr proto = store m (hdr + offset_of cpc_ipv4_hdr ''proto'') proto"

definition get_ipv4_proto :: "nat \<Rightarrow> nat" where
  "get_ipv4_proto hdr = hdr + offset_of cpc_ipv4_hdr ''proto''"

definition set_ipv4_ihl :: "rofl \<Rightarrow> mem \<Rightarrow> nat \<Rightarrow> u8 \<Rightarrow> mem option" where
  "set_ipv4_ihl K m hdr ihl = modify m (hdr + offset_of cpc_ipv4_hdr ''ihlvers'')
     (\<lambda>x. (x AND NOT (OF1X_4LSBITS_MASK K)) + (ihl AND OF1X_4LSBITS_MASK K))"

definition get_ipv4_ihl :: "nat \<Rightarrow> nat" where
  "get_ipv4_ihl hdr = hdr + offset_of cpc_ipv4_hdr ''ihlvers''"

definition set_ipv4_version :: "rofl \<Rightarrow> mem \<Rightarrow> nat \<Rightarrow> u8 \<Rightarrow> mem option" where
  "set_ipv4_version K m hdr version = modify m (hdr + offset_of cpc_ipv4_hdr ''ihlvers'')
     (\<lambda>x. (x AND NOT (OF1X_4MSBITS_MASK K)) OR (version AND OF1X_4MSBITS_MASK K))"

definition get_ipv4_version :: "nat \<Rightarrow> nat" where
  "get_ipv4_version hdr = hdr + offset_of cpc_ipv4_hdr ''ihlvers''"

definition set_ipv4_length :: "mem \<Rightarrow> nat \<Rightarrow> u16 \<Rightarrow> mem option" where
  "set_ipv4_length m hdr len = store m (hdr + offset_of cpc_ipv4_hdr ''length'') len"

definition get_ipv4_length :: "nat \<Rightarrow> nat" where
  "get_ipv4_length hdr = hdr + offset_of cpc_ipv4_hdr ''length''"

definition set_ipv4_ident :: "mem \<Rightarrow> nat \<Rightarrow> u16 \<Rightarrow> mem option" where
  "set_ipv4_ident m hdr ident = store m (hdr + offset_of cpc_ipv4_hdr ''ident'') ident"

definition get_ipv4_ident :: "nat \<Rightarrow> nat" where
  "get_ipv4_ident hdr = hdr + offset_of cpc_ipv4_hdr ''ident''"

definition set_ipv4_DF_bit :: "rofl \<Rightarrow> mem \<Rightarrow> nat \<Rightarrow> mem option" where
  "set_ipv4_DF_bit K m hdr = modify m (hdr + offset_of cpc_ipv4_hdr ''offset_flags'') (\<lambda>x. x OR OF1X_BIT6_MASK K)"

definition has_ipv4_DF_bit_set :: "rofl \<Rightarrow> mem \<Rightarrow> nat \<Rightarrow> bool option" where
  "has_ipv4_DF_bit_set K m hdr = do {
     x \<leftarrow> load m (hdr + offset_of cpc_ipv4_hdr ''offset_flags'');
     Some (x AND OF1X_BIT6_MASK K \<noteq> 0) }"

definition clear_ipv4_DF_bit :: "rofl \<Rightarrow> mem \<Rightarrow> nat \<Rightarrow> mem option" where
  "clear_ipv4_DF_bit K m hdr = modify m (hdr + offset_of cpc_ipv4_hdr ''offset_flags'') (\<lambda>x. x AND NOT (OF1X_BIT6_MASK K))"

definition set_ipv4_MF_bit :: "rofl \<Rightarrow> mem \<Rightarrow> nat \<Rightarrow> mem option" where
  "set_ipv4_MF_bit K m hdr = modify m (hdr + offset_of cpc_ipv4_hdr ''offset_flags'') (\<lambda>x. x OR OF1X_BIT5_MASK K)"

definition has_ipv4_MF_bit_set :: "rofl \<Rightarrow> mem \<Rightarrow> nat \<Rightarrow> bool option" where
  "has_ipv4_MF_bit_set K m hdr = do {
     x \<leftarrow> load m (hdr + offset_of cpc_ipv4_hdr ''offset_flags'');
     Some (x AND OF1X_BIT5_MASK K \<noteq> 0) }"

definition clear_ipv4_MF_bit :: "rofl \<Rightarrow> mem \<Rightarrow> nat \<Rightarrow> mem option" where
  "clear_ipv4_MF_bit K m hdr = modify m (hdr + offset_of cpc_ipv4_hdr ''offset_flags'') (\<lambda>x. x AND NOT (OF1X_BIT5_MASK K))"

interpretation set_ipv4_src: plain_setter set_ipv4_src 12
  by unfold_locales (simp_all add: set_ipv4_src_def layout store_eq_modify)

interpretation set_ipv4_dst: plain_setter set_ipv4_dst 16
  by unfold_locales (simp_all add: set_ipv4_dst_def layout store_eq_modify)

interpretation set_ipv4_dscp: field_setter "set_ipv4_dscp K" 1 "OF1X_6MSBITS_MASK K" for K
  by unfold_locales (simp_all add: set_ipv4_dscp_def layout setter_shapes)

interpretation set_ipv4_ecn: field_setter "set_ipv4_ecn K" 1 "OF1X_2LSBITS_MASK K" for K
  by unfold_locales (simp_all add: set_ipv4_ecn_def layout setter_shapes)

interpretation set_ipv4_ttl: plain_setter set_ipv4_ttl 8
  by unfold_locales (simp_all add: set_ipv4_ttl_def layout store_eq_modify)

interpretation set_ipv4_proto: plain_setter set_ipv4_proto 9
  by unfold_locales (simp_all add: set_ipv4_proto_def layout store_eq_modify)

interpretation set_ipv4_ihl: field_setter "set_ipv4_ihl K" 0 "OF1X_4LSBITS_MASK K" for K
  by unfold_locales (simp_all add: set_ipv4_ihl_def layout setter_shapes)

interpretation set_ipv4_version: field_setter "set_ipv4_version K" 0 "OF1X_4MSBITS_MASK K" for K
  by unfold_locales (simp_all add: set_ipv4_version_def layout setter_shapes)

interpretation set_ipv4_length: plain_setter set_ipv4_length 2
  by unfold_locales (simp_all add: set_ipv4_length_def layout store_eq_modify)

interpretation set_ipv4_ident: plain_setter set_ipv4_ident 4
  by unfold_locales (simp_all add: set_ipv4_ident_def layout store_eq_modify)

section \<open>ICMPv6 messages and options\<close>

definition ICMPV6_TYPE_ROUTER_SOLICATION :: u8 where
  "ICMPV6_TYPE_ROUTER_SOLICATION = 133"

definition ICMPV6_TYPE_ROUTER_ADVERTISEMENT :: u8 where
  "ICMPV6_TYPE_ROUTER_ADVERTISEMENT = 134"

definition ICMPV6_TYPE_NEIGHBOR_SOLICITATION :: u8 where
  "ICMPV6_TYPE_NEIGHBOR_SOLICITATION = 135"

definition ICMPV6_TYPE_NEIGHBOR_ADVERTISEMENT :: u8 where
  "ICMPV6_TYPE_NEIGHBOR_ADVERTISEMENT = 136"

definition ICMPV6_TYPE_REDIRECT_MESSAGE :: u8 where
  "ICMPV6_TYPE_REDIRECT_MESSAGE = 137"

definition ICMPV6_OPT_LLADDR_SOURCE :: u8 where
  "ICMPV6_OPT_LLADDR_SOURCE = 1"

definition ICMPV6_OPT_LLADDR_TARGET :: u8 where
  "ICMPV6_OPT_LLADDR_TARGET = 2"

definition ICMPV6_OPT_PREFIX_INFO :: u8 where
  "ICMPV6_OPT_PREFIX_INFO = 3"

definition IPV6_ADDR_LEN :: nat where
  "IPV6_ADDR_LEN = 16"

definition cpc_icmpv6_option_hdr :: struct where
  "cpc_icmpv6_option_hdr = [(''type'', 1), (''len'', 1), (''data'', 0)]"

definition cpc_icmpv6_lla_option :: struct where
  "cpc_icmpv6_lla_option = [(''hdr'', sizeof cpc_icmpv6_option_hdr), (''addr'', 6)]"

definition cpc_icmpv6_prefix_info :: struct where
  "cpc_icmpv6_prefix_info = [(''hdr'', sizeof cpc_icmpv6_option_hdr), (''pfxlen'', 1), (''flags'', 1), (''valid_lifetime'', 4), (''preferred_lifetime'', 4), (''reserved'', 4), (''prefix'', 16)]"

lemma cpc_icmpv6_option_hdr_layout [layout]:
  "sizeof cpc_icmpv6_option_hdr = 2"
  "offset_of cpc_icmpv6_option_hdr ''type'' = 0"
  "offset_of cpc_icmpv6_option_hdr ''len'' = 1"
  "offset_of cpc_icmpv6_option_hdr ''data'' = 2"
  by (simp_all add: cpc_icmpv6_option_hdr_def sizeof_def)

lemma cpc_icmpv6_lla_option_layout [layout]:
  "sizeof cpc_icmpv6_lla_option = 8"
  "offset_of cpc_icmpv6_lla_option ''hdr'' = 0"
  "offset_of cpc_icmpv6_lla_option ''addr'' = 2"
  by (simp_all add: cpc_icmpv6_lla_option_def cpc_icmpv6_option_hdr_def sizeof_def)

lemma cpc_icmpv6_prefix_info_layout [layout]:
  "sizeof cpc_icmpv6_prefix_info = 32"
  "offset_of cpc_icmpv6_prefix_info ''hdr'' = 0"
  "offset_of cpc_icmpv6_prefix_info ''pfxlen'' = 2"
  "offset_of cpc_icmpv6_prefix_info ''flags'' = 3"
  "offset_of cpc_icmpv6_prefix_info ''valid_lifetime'' = 4"
  "offset_of cpc_icmpv6_prefix_info ''preferred_lifetime'' = 8"
  "offset_of cpc_icmpv6_prefix_info ''reserved'' = 12"
  "offset_of cpc_icmpv6_prefix_info ''prefix'' = 16"
  by (simp_all add: cpc_icmpv6_prefix_info_def cpc_icmpv6_option_hdr_def sizeof_def)

definition get_icmpv6_opt_type :: "nat \<Rightarrow> nat" where
  "get_icmpv6_opt_type hdr = hdr + offset_of cpc_icmpv6_option_hdr ''type''"

definition set_icmpv6_opt_type :: "mem \<Rightarrow> nat \<Rightarrow> u8 \<Rightarrow> mem option" where
  "set_icmpv6_opt_type m hdr typ = store m (hdr + offset_of cpc_icmpv6_option_hdr ''type'') typ"

definition get_icmpv6_ll_taddr :: "nat \<Rightarrow> nat" where
  "get_icmpv6_ll_taddr hdr = hdr + offset_of cpc_icmpv6_lla_option ''addr''"

definition set_icmpv6_ll_taddr :: "rofl \<Rightarrow> mem \<Rightarrow> nat \<Rightarrow> u64 \<Rightarrow> mem option" where
  "set_icmpv6_ll_taddr K m hdr taddr = modify m (hdr + offset_of cpc_icmpv6_lla_option ''addr'')
     (\<lambda>x. (taddr AND OF1X_6_BYTE_MASK K) OR (x AND NOT (OF1X_6_BYTE_MASK K)))"

definition get_icmpv6_ll_saddr :: "nat \<Rightarrow> nat" where
  "get_icmpv6_ll_saddr hdr = hdr + offset_of cpc_icmpv6_lla_option ''addr''"

definition set_icmpv6_ll_saddr :: "rofl \<Rightarrow> mem \<Rightarrow> nat \<Rightarrow> u64 \<Rightarrow> mem option" where
  "set_icmpv6_ll_saddr K m hdr saddr = modify m (hdr + offset_of cpc_icmpv6_lla_option ''addr'')
     (\<lambda>x. (saddr AND OF1X_6_BYTE_MASK K) OR (x AND NOT (OF1X_6_BYTE_MASK K)))"

definition get_icmpv6_pfx_on_link_flag :: "nat \<Rightarrow> nat" where
  "get_icmpv6_pfx_on_link_flag hdr = hdr + offset_of cpc_icmpv6_prefix_info ''flags''"

definition set_icmpv6_pfx_on_link_flag :: "rofl \<Rightarrow> mem \<Rightarrow> nat \<Rightarrow> u8 \<Rightarrow> mem option" where
  "set_icmpv6_pfx_on_link_flag K m hdr flag = modify m (hdr + offset_of cpc_icmpv6_prefix_info ''flags'')
     (\<lambda>x. (x AND NOT (OF1X_BIT7_MASK K)) OR (flag AND OF1X_BIT7_MASK K))"

definition get_icmpv6_pfx_aac_flag :: "nat \<Rightarrow> nat" where
  "get_icmpv6_pfx_aac_flag hdr = hdr + offset_of cpc_icmpv6_prefix_info ''flags''"

definition set_icmpv6_pfx_aac_flag :: "rofl \<Rightarrow> mem \<Rightarrow> nat \<Rightarrow> u8 \<Rightarrow> mem option" where
  "set_icmpv6_pfx_aac_flag K m hdr flag = modify m (hdr + offset_of cpc_icmpv6_prefix_info ''flags'')
     (\<lambda>x. (x AND NOT (OF1X_BIT6_MASK K)) OR (flag AND OF1X_BIT6_MASK K))"

interpretation set_icmpv6_opt_type: plain_setter set_icmpv6_opt_type 0
  by unfold_locales (simp_all add: set_icmpv6_opt_type_def layout store_eq_modify)

interpretation set_icmpv6_ll_taddr: field_setter "set_icmpv6_ll_taddr K" 2 "OF1X_6_BYTE_MASK K" for K
  by unfold_locales (simp_all add: set_icmpv6_ll_taddr_def layout setter_shapes)

interpretation set_icmpv6_ll_saddr: field_setter "set_icmpv6_ll_saddr K" 2 "OF1X_6_BYTE_MASK K" for K
  by unfold_locales (simp_all add: set_icmpv6_ll_saddr_def layout setter_shapes)

interpretation set_icmpv6_pfx_on_link_flag: field_setter "set_icmpv6_pfx_on_link_flag K" 3 "OF1X_BIT7_MASK K" for K
  by unfold_locales (simp_all add: set_icmpv6_pfx_on_link_flag_def layout setter_shapes)

interpretation set_icmpv6_pfx_aac_flag: field_setter "set_icmpv6_pfx_aac_flag K" 3 "OF1X_BIT6_MASK K" for K
  by unfold_locales (simp_all add: set_icmpv6_pfx_aac_flag_def layout setter_shapes)

section \<open>IPv6\<close>

definition IPV6_IP_PROTO :: u8 where
  "IPV6_IP_PROTO = 41"

definition cpc_ipv6_hdr :: struct where
  "cpc_ipv6_hdr = [(''bytes'', 4), (''payloadlen'', 2), (''nxthdr'', 1), (''hoplimit'', 1), (''src'', 16), (''dst'', 16), (''data'', 0)]"

lemma cpc_ipv6_hdr_layout [layout]:
  "sizeof cpc_ipv6_hdr = 40"
  "offset_of cpc_ipv6_hdr ''bytes'' = 0"
  "offset_of cpc_ipv6_hdr ''payloadlen'' = 4"
  "offset_of cpc_ipv6_hdr ''nxthdr'' = 6"
  "offset_of cpc_ipv6_hdr ''hoplimit'' = 7"
  "offset_of cpc_ipv6_hdr ''src'' = 8"
  "offset_of cpc_ipv6_hdr ''dst'' = 24"
  "offset_of cpc_ipv6_hdr ''data'' = 40"
  by (simp_all add: cpc_ipv6_hdr_def sizeof_def)

definition set_ipv6_version :: "rofl \<Rightarrow> mem \<Rightarrow> nat \<Rightarrow> u8 \<Rightarrow> mem option" where
  "set_ipv6_version K m hdr version = modify m (hdr + offset_of cpc_ipv6_hdr ''bytes'')
     (\<lambda>x. (x AND NOT (OF1X_4MSBITS_MASK K)) + (version AND OF1X_4MSBITS_MASK K))"

definition get_ipv6_version :: "nat \<Rightarrow> nat" where
  "get_ipv6_version hdr = hdr + offset_of cpc_ipv6_hdr ''bytes''"

definition set_ipv6_traffic_class :: "rofl \<Rightarrow> mem \<Rightarrow> nat \<Rightarrow> u16 \<Rightarrow> mem option" where
  "set_ipv6_traffic_class K m hdr tc = modify m (hdr + offset_of cpc_ipv6_hdr ''bytes'')
     (\<lambda>x. (tc AND OF1X_8MIDDLE_BITS_MASK K) OR (x AND NOT (OF1X_8MIDDLE_BITS_MASK K)))"

definition get_ipv6_traffic_class :: "nat \<Rightarrow> nat" where
  "get_ipv6_traffic_class hdr = hdr + offset_of cpc_ipv6_hdr ''bytes''"

text \<open>DSCP and ECN straddle the first two bytes; their values are aligned as in the IPv4 header.\<close>

definition set_ipv6_dscp :: "rofl \<Rightarrow> mem \<Rightarrow> nat \<Rightarrow> u8 \<Rightarrow> mem option" where
  "set_ipv6_dscp K m hdr dscp = do {
     m \<leftarrow> modify m (hdr + offset_of cpc_ipv6_hdr ''bytes'')
            (\<lambda>b0. (b0 AND OF1X_4MSBITS_MASK K) OR drop_bit 4 (dscp AND OF1X_4MSBITS_MASK K));
     modify m (hdr + offset_of cpc_ipv6_hdr ''bytes'' + 1)
            (\<lambda>b1. (b1 AND OF1X_6LSBITS_MASK K) OR push_bit 4 (dscp AND OF1X_BITS_2AND3_MASK K)) }"

definition get_ipv6_dscp :: "rofl \<Rightarrow> mem \<Rightarrow> nat \<Rightarrow> u8 option" where
  "get_ipv6_dscp K m hdr = do {
     b0 \<leftarrow> load m (hdr + offset_of cpc_ipv6_hdr ''bytes'');
     b1 \<leftarrow> load m (hdr + offset_of cpc_ipv6_hdr ''bytes'' + 1);
     Some (push_bit 4 (b0 AND OF1X_4LSBITS_MASK K) OR drop_bit 4 (b1 AND OF1X_2MSBITS_MASK K)) }"

definition set_ipv6_ecn :: "rofl \<Rightarrow> mem \<Rightarrow> nat \<Rightarrow> u8 \<Rightarrow> mem option" where
  "set_ipv6_ecn K m hdr ecn = modify m (hdr + offset_of cpc_ipv6_hdr ''bytes'' + 1)
     (\<lambda>x. (x AND NOT (OF1X_BITS_4AND5_MASK K)) OR (push_bit 4 ecn AND OF1X_BITS_4AND5_MASK K))"

definition get_ipv6_ecn :: "rofl \<Rightarrow> mem \<Rightarrow> nat \<Rightarrow> u8 option" where
  "get_ipv6_ecn K m hdr = do {
     b1 \<leftarrow> load m (hdr + offset_of cpc_ipv6_hdr ''bytes'' + 1);
     Some (drop_bit 4 (b1 AND OF1X_BITS_4AND5_MASK K)) }"

definition set_ipv6_flow_label :: "rofl \<Rightarrow> mem \<Rightarrow> nat \<Rightarrow> u32 \<Rightarrow> mem option" where
  "set_ipv6_flow_label K m hdr flabel = modify m (hdr + offset_of cpc_ipv6_hdr ''bytes'' + 1)
     (\<lambda>x. (flabel AND OF1X_20_BITS_IPV6_FLABEL_MASK K) OR (x AND NOT (OF1X_20_BITS_IPV6_FLABEL_MASK K)))"

definition get_ipv6_flow_label :: "nat \<Rightarrow> nat" where
  "get_ipv6_flow_label hdr = hdr + offset_of cpc_ipv6_hdr ''bytes'' + 1"

definition set_ipv6_payload_length :: "mem \<Rightarrow> nat \<Rightarrow> u16 \<Rightarrow> mem option" where
  "set_ipv6_payload_length m hdr len = store m (hdr + offset_of cpc_ipv6_hdr ''payloadlen'') len"

definition get_ipv6_payload_length :: "nat \<Rightarrow> nat" where
  "get_ipv6_payload_length hdr = hdr + offset_of cpc_ipv6_hdr ''payloadlen''"

definition set_ipv6_next_header :: "mem \<Rightarrow> nat \<Rightarrow> u8 \<Rightarrow> mem option" where
  "set_ipv6_next_header m hdr nxthdr = store m (hdr + offset_of cpc_ipv6_hdr ''nxthdr'') nxthdr"

definition get_ipv6_next_header :: "nat \<Rightarrow> nat" where
  "get_ipv6_next_header hdr = hdr + offset_of cpc_ipv6_hdr ''nxthdr''"

definition set_ipv6_hop_limit :: "mem \<Rightarrow> nat \<Rightarrow> u8 \<Rightarrow> mem option" where
  "set_ipv6_hop_limit m hdr hops = store m (hdr + offset_of cpc_ipv6_hdr ''hoplimit'') hops"

definition get_ipv6_hop_limit :: "nat \<Rightarrow> nat" where
  "get_ipv6_hop_limit hdr = hdr + offset_of cpc_ipv6_hdr ''hoplimit''"

definition dec_ipv6_hop_limit :: "mem \<Rightarrow> nat \<Rightarrow> mem option" where
  "dec_ipv6_hop_limit m hdr = modify m (hdr + offset_of cpc_ipv6_hdr ''hoplimit'') (\<lambda>x::u8. x - 1)"

definition set_ipv6_src :: "mem \<Rightarrow> nat \<Rightarrow> u128 \<Rightarrow> mem option" where
  "set_ipv6_src m hdr src = store m (hdr + offset_of cpc_ipv6_hdr ''src'') src"

definition get_ipv6_src :: "nat \<Rightarrow> nat" where
  "get_ipv6_src hdr = hdr + offset_of cpc_ipv6_hdr ''src''"

definition set_ipv6_dst :: "mem \<Rightarrow> nat \<Rightarrow> u128 \<Rightarrow> mem option" where
  "set_ipv6_dst m hdr dst = store m (hdr + offset_of cpc_ipv6_hdr ''dst'') dst"

definition get_ipv6_dst :: "nat \<Rightarrow> nat" where
  "get_ipv6_dst hdr = hdr + offset_of cpc_ipv6_hdr ''dst''"

interpretation set_ipv6_version: field_setter "set_ipv6_version K" 0 "OF1X_4MSBITS_MASK K" for K
  by unfold_locales (simp_all add: set_ipv6_version_def layout setter_shapes)

interpretation set_ipv6_traffic_class: field_setter "set_ipv6_traffic_class K" 0 "OF1X_8MIDDLE_BITS_MASK K" for K
  by unfold_locales (simp_all add: set_ipv6_traffic_class_def layout setter_shapes)

interpretation set_ipv6_flow_label: field_setter "set_ipv6_flow_label K" 1 "OF1X_20_BITS_IPV6_FLABEL_MASK K" for K
  by unfold_locales (simp_all add: set_ipv6_flow_label_def layout setter_shapes)

interpretation set_ipv6_payload_length: plain_setter set_ipv6_payload_length 4
  by unfold_locales (simp_all add: set_ipv6_payload_length_def layout store_eq_modify)

interpretation set_ipv6_next_header: plain_setter set_ipv6_next_header 6
  by unfold_locales (simp_all add: set_ipv6_next_header_def layout store_eq_modify)

interpretation set_ipv6_hop_limit: plain_setter set_ipv6_hop_limit 7
  by unfold_locales (simp_all add: set_ipv6_hop_limit_def layout store_eq_modify)

interpretation set_ipv6_src: plain_setter set_ipv6_src 8
  by unfold_locales (simp_all add: set_ipv6_src_def layout store_eq_modify)

interpretation set_ipv6_dst: plain_setter set_ipv6_dst 24
  by unfold_locales (simp_all add: set_ipv6_dst_def layout store_eq_modify)

section \<open>ICMPv4\<close>

definition cpc_icmpv4_hdr :: struct where
  "cpc_icmpv4_hdr = [(''type'', 1), (''code'', 1), (''checksum'', 2), (''data'', 0)]"

lemma cpc_icmpv4_hdr_layout [layout]:
  "sizeof cpc_icmpv4_hdr = 4"
  "offset_of cpc_icmpv4_hdr ''type'' = 0"
  "offset_of cpc_icmpv4_hdr ''code'' = 1"
  "offset_of cpc_icmpv4_hdr ''checksum'' = 2"
  "offset_of cpc_icmpv4_hdr ''data'' = 4"
  by (simp_all add: cpc_icmpv4_hdr_def sizeof_def)

definition ICMPV4_IP_PROTO :: u8 where
  "ICMPV4_IP_PROTO = 1"

definition get_icmpv4_type :: "nat \<Rightarrow> nat" where
  "get_icmpv4_type hdr = hdr + offset_of cpc_icmpv4_hdr ''type''"

definition set_icmpv4_type :: "mem \<Rightarrow> nat \<Rightarrow> u8 \<Rightarrow> mem option" where
  "set_icmpv4_type m hdr typ = store m (hdr + offset_of cpc_icmpv4_hdr ''type'') typ"

definition get_icmpv4_code :: "nat \<Rightarrow> nat" where
  "get_icmpv4_code hdr = hdr + offset_of cpc_icmpv4_hdr ''code''"

definition set_icmpv4_code :: "mem \<Rightarrow> nat \<Rightarrow> u8 \<Rightarrow> mem option" where
  "set_icmpv4_code m hdr code = store m (hdr + offset_of cpc_icmpv4_hdr ''code'') code"

definition get_icmpv4_checksum :: "nat \<Rightarrow> nat" where
  "get_icmpv4_checksum hdr = hdr + offset_of cpc_icmpv4_hdr ''checksum''"

interpretation set_icmpv4_type: plain_setter set_icmpv4_type 0
  by unfold_locales (simp_all add: set_icmpv4_type_def layout store_eq_modify)

interpretation set_icmpv4_code: plain_setter set_icmpv4_code 1
  by unfold_locales (simp_all add: set_icmpv4_code_def layout store_eq_modify)

section \<open>ICMPv6\<close>

definition ICMPV6_IP_PROTO :: u8 where
  "ICMPV6_IP_PROTO = 58"

definition cpc_icmpv6_hdr :: struct where
  "cpc_icmpv6_hdr = [(''type'', 1), (''code'', 1), (''checksum'', 2), (''data'', 0)]"

lemma cpc_icmpv6_hdr_layout [layout]:
  "sizeof cpc_icmpv6_hdr = 4"
  "offset_of cpc_icmpv6_hdr ''type'' = 0"
  "offset_of cpc_icmpv6_hdr ''code'' = 1"
  "offset_of cpc_icmpv6_hdr ''checksum'' = 2"
  "offset_of cpc_icmpv6_hdr ''data'' = 4"
  by (simp_all add: cpc_icmpv6_hdr_def sizeof_def)

definition cpc_icmpv6_router_solicitation_hdr :: struct where
  "cpc_icmpv6_router_solicitation_hdr = [(''icmpv6_header'', sizeof cpc_icmpv6_hdr), (''reserved'', 4), (''options'', 0)]"

definition cpc_icmpv6_router_advertisement_hdr :: struct where
  "cpc_icmpv6_router_advertisement_hdr = [(''icmpv6_header'', sizeof cpc_icmpv6_hdr), (''cur_hop_limit'', 1), (''flags'', 1), (''rtr_lifetime'', 2), (''reachable_timer'', 4), (''retrans_timer'', 4), (''options'', 0)]"

definition cpc_icmpv6_neighbor_solicitation_hdr :: struct where
  "cpc_icmpv6_neighbor_solicitation_hdr = [(''icmpv6_header'', sizeof cpc_icmpv6_hdr), (''reserved'', 4), (''taddr'', 16), (''options'', 0)]"

definition cpc_icmpv6_neighbor_advertisement_hdr :: struct where
  "cpc_icmpv6_neighbor_advertisement_hdr = [(''icmpv6_header'', sizeof cpc_icmpv6_hdr), (''flags'', 4), (''taddr'', 16), (''options'', 0)]"

definition cpc_icmpv6_redirect_hdr :: struct where
  "cpc_icmpv6_redirect_hdr = [(''icmpv6_header'', sizeof cpc_icmpv6_hdr), (''reserved'', 4), (''taddr'', 16), (''daddr'', 16), (''options'', 0)]"

lemma cpc_icmpv6_router_solicitation_hdr_layout [layout]:
  "sizeof cpc_icmpv6_router_solicitation_hdr = 8"
  "offset_of cpc_icmpv6_router_solicitation_hdr ''icmpv6_header'' = 0"
  "offset_of cpc_icmpv6_router_solicitation_hdr ''reserved'' = 4"
  "offset_of cpc_icmpv6_router_solicitation_hdr ''options'' = 8"
  by (simp_all add: cpc_icmpv6_router_solicitation_hdr_def cpc_icmpv6_hdr_def sizeof_def)

lemma cpc_icmpv6_router_advertisement_hdr_layout [layout]:
  "sizeof cpc_icmpv6_router_advertisement_hdr = 16"
  "offset_of cpc_icmpv6_router_advertisement_hdr ''icmpv6_header'' = 0"
  "offset_of cpc_icmpv6_router_advertisement_hdr ''cur_hop_limit'' = 4"
  "offset_of cpc_icmpv6_router_advertisement_hdr ''flags'' = 5"
  "offset_of cpc_icmpv6_router_advertisement_hdr ''rtr_lifetime'' = 6"
  "offset_of cpc_icmpv6_router_advertisement_hdr ''reachable_timer'' = 8"
  "offset_of cpc_icmpv6_router_advertisement_hdr ''retrans_timer'' = 12"
  "offset_of cpc_icmpv6_router_advertisement_hdr ''options'' = 16"
  by (simp_all add: cpc_icmpv6_router_advertisement_hdr_def cpc_icmpv6_hdr_def sizeof_def)

lemma cpc_icmpv6_neighbor_solicitation_hdr_layout [layout]:
  "sizeof cpc_icmpv6_neighbor_solicitation_hdr = 24"
  "offset_of cpc_icmpv6_neighbor_solicitation_hdr ''icmpv6_header'' = 0"
  "offset_of cpc_icmpv6_neighbor_solicitation_hdr ''reserved'' = 4"
  "offset_of cpc_icmpv6_neighbor_solicitation_hdr ''taddr'' = 8"
  "offset_of cpc_icmpv6_neighbor_solicitation_hdr ''options'' = 24"
  by (simp_all add: cpc_icmpv6_neighbor_solicitation_hdr_def cpc_icmpv6_hdr_def sizeof_def)

lemma cpc_icmpv6_neighbor_advertisement_hdr_layout [layout]:
  "sizeof cpc_icmpv6_neighbor_advertisement_hdr = 24"
  "offset_of cpc_icmpv6_neighbor_advertisement_hdr ''icmpv6_header'' = 0"
  "offset_of cpc_icmpv6_neighbor_advertisement_hdr ''flags'' = 4"
  "offset_of cpc_icmpv6_neighbor_advertisement_hdr ''taddr'' = 8"
  "offset_of cpc_icmpv6_neighbor_advertisement_hdr ''options'' = 24"
  by (simp_all add: cpc_icmpv6_neighbor_advertisement_hdr_def cpc_icmpv6_hdr_def sizeof_def)

lemma cpc_icmpv6_redirect_hdr_layout [layout]:
  "sizeof cpc_icmpv6_redirect_hdr = 40"
  "offset_of cpc_icmpv6_redirect_hdr ''icmpv6_header'' = 0"
  "offset_of cpc_icmpv6_redirect_hdr ''reserved'' = 4"
  "offset_of cpc_icmpv6_redirect_hdr ''taddr'' = 8"
  "offset_of cpc_icmpv6_redirect_hdr ''daddr'' = 24"
  "offset_of cpc_icmpv6_redirect_hdr ''options'' = 40"
  by (simp_all add: cpc_icmpv6_redirect_hdr_def cpc_icmpv6_hdr_def sizeof_def)

definition get_icmpv6_code :: "nat \<Rightarrow> nat" where
  "get_icmpv6_code hdr = hdr + offset_of cpc_icmpv6_hdr ''code''"

definition set_icmpv6_code :: "mem \<Rightarrow> nat \<Rightarrow> u8 \<Rightarrow> mem option" where
  "set_icmpv6_code m hdr code = store m (hdr + offset_of cpc_icmpv6_hdr ''code'') code"

definition get_icmpv6_type :: "nat \<Rightarrow> nat" where
  "get_icmpv6_type hdr = hdr + offset_of cpc_icmpv6_hdr ''type''"

definition set_icmpv6_type :: "mem \<Rightarrow> nat \<Rightarrow> u8 \<Rightarrow> mem option" where
  "set_icmpv6_type m hdr typ = store m (hdr + offset_of cpc_icmpv6_hdr ''type'') typ"

text \<open>The target address exists in three of the messages; for every other type the getter returns
  \<open>NULL\<close> (the inner \<open>None\<close>) and the setter does nothing. The pointer the code compares with
  \<open>NULL\<close> is the address of a member and never \<open>NULL\<close>.\<close>

definition get_icmpv6_neighbor_taddr :: "mem \<Rightarrow> nat \<Rightarrow> nat option option" where
  "get_icmpv6_neighbor_taddr m hdr = do {
     t \<leftarrow> load m (get_icmpv6_type hdr);
     Some (if t = ICMPV6_TYPE_NEIGHBOR_SOLICITATION
             then Some (hdr + offset_of cpc_icmpv6_neighbor_solicitation_hdr ''taddr'')
           else if t = ICMPV6_TYPE_NEIGHBOR_ADVERTISEMENT
             then Some (hdr + offset_of cpc_icmpv6_neighbor_advertisement_hdr ''taddr'')
           else if t = ICMPV6_TYPE_REDIRECT_MESSAGE
             then Some (hdr + offset_of cpc_icmpv6_redirect_hdr ''taddr'')
           else None) }"

definition set_icmpv6_neighbor_taddr :: "mem \<Rightarrow> nat \<Rightarrow> u128 \<Rightarrow> mem option" where
  "set_icmpv6_neighbor_taddr m hdr taddr = do {
     t \<leftarrow> load m (get_icmpv6_type hdr);
     if t = ICMPV6_TYPE_NEIGHBOR_SOLICITATION
       then store m (hdr + offset_of cpc_icmpv6_neighbor_solicitation_hdr ''taddr'') taddr
     else if t = ICMPV6_TYPE_NEIGHBOR_ADVERTISEMENT
       then store m (hdr + offset_of cpc_icmpv6_neighbor_advertisement_hdr ''taddr'') taddr
     else if t = ICMPV6_TYPE_REDIRECT_MESSAGE
       then store m (hdr + offset_of cpc_icmpv6_redirect_hdr ''taddr'') taddr
     else Some m }"

interpretation set_icmpv6_code: plain_setter set_icmpv6_code 1
  by unfold_locales (simp_all add: set_icmpv6_code_def layout store_eq_modify)

interpretation set_icmpv6_type: plain_setter set_icmpv6_type 0
  by unfold_locales (simp_all add: set_icmpv6_type_def layout store_eq_modify)

lemmas l3_enums = IPV4_IP_PROTO_def
  ICMPV6_TYPE_ROUTER_SOLICATION_def
  ICMPV6_TYPE_ROUTER_ADVERTISEMENT_def
  ICMPV6_TYPE_NEIGHBOR_SOLICITATION_def
  ICMPV6_TYPE_NEIGHBOR_ADVERTISEMENT_def
  ICMPV6_TYPE_REDIRECT_MESSAGE_def
  ICMPV6_OPT_LLADDR_SOURCE_def
  ICMPV6_OPT_LLADDR_TARGET_def
  ICMPV6_OPT_PREFIX_INFO_def
  IPV6_IP_PROTO_def
  ICMPV4_IP_PROTO_def
  ICMPV6_IP_PROTO_def

end
