(* ===== verification/Cpc_L4.thy ===== *)
theory Cpc_L4
  imports Rofl
begin

text \<open>
  The transport-layer and tunnel headers of the packet classifier (\<open>headers/cpc_tcp.h\<close>,
  \<open>cpc_udp.h\<close>, \<open>cpc_sctp.h\<close>, \<open>cpc_gtpu.h\<close>, \<open>cpc_gre.h\<close>): structures, getters and setters.
  The checksum routines of these files are in theories \<open>Checksums\<close> and \<open>Crc32c\<close>.
\<close>

section \<open>TCP\<close>

definition TCP_IP_PROTO :: u8 where
  "TCP_IP_PROTO = 6"

definition cpc_tcp_hdr :: struct where
  "cpc_tcp_hdr = [(''sport'', 2), (''dport'', 2), (''seqno'', 4), (''ackno'', 4), (''flags'', 2), (''wnd'', 2), (''checksum'', 2), (''urgent'', 2), (''data'', 0)]"

lemma cpc_tcp_hdr_layout [layout]:
  "sizeof cpc_tcp_hdr = 20"
  "offset_of cpc_tcp_hdr ''sport'' = 0"
  "offset_of cpc_tcp_hdr ''dport'' = 2"
  "offset_of cpc_tcp_hdr ''seqno'' = 4"
  "offset_of cpc_tcp_hdr ''ackno'' = 8"
  "offset_of cpc_tcp_hdr ''flags'' = 12"
  "offset_of cpc_tcp_hdr ''wnd'' = 14"
  "offset_of cpc_tcp_hdr ''checksum'' = 16"
  "offset_of cpc_tcp_hdr ''urgent'' = 18"
  "offset_of cpc_tcp_hdr ''data'' = 20"
  by (simp_all add: cpc_tcp_hdr_def sizeof_def)

definition get_tcp_sport :: "nat \<Rightarrow> nat" where
  "get_tcp_sport hdr = hdr + offset_of cpc_tcp_hdr ''sport''"

definition set_tcp_sport :: "mem \<Rightarrow> nat \<Rightarrow> u16 \<Rightarrow> mem option" where
  "set_tcp_sport m hdr port = store m (hdr + offset_of cpc_tcp_hdr ''sport'') port"

definition get_tcp_dport :: "nat \<Rightarrow> nat" where
  "get_tcp_dport hdr = hdr + offset_of cpc_tcp_hdr ''dport''"

definition set_tcp_dport :: "mem \<Rightarrow> nat \<Rightarrow> u16 \<Rightarrow> mem option" where
  "set_tcp_dport m hdr port = store m (hdr + offset_of cpc_tcp_hdr ''dport'') port"

interpretation set_tcp_sport: plain_setter set_tcp_sport 0
  by unfold_locales (simp_all add: set_tcp_sport_def layout store_eq_modify)

interpretation set_tcp_dport: plain_setter set_tcp_dport 2
  by unfold_locales (simp_all add: set_tcp_dport_def layout store_eq_modify)

section \<open>UDP\<close>

definition UDP_IP_PROTO :: u8 where
  "UDP_IP_PROTO = 17"

definition cpc_udp_hdr :: struct where
  "cpc_udp_hdr = [(''sport'', 2), (''dport'', 2), (''length'', 2), (''checksum'', 2), (''data'', 0)]"

lemma cpc_udp_hdr_layout [layout]:
  "sizeof cpc_udp_hdr = 8"
  "offset_of cpc_udp_hdr ''sport'' = 0"
  "offset_of cpc_udp_hdr ''dport'' = 2"
  "offset_of cpc_udp_hdr ''length'' = 4"
  "offset_of cpc_udp_hdr ''checksum'' = 6"
  "offset_of cpc_udp_hdr ''data'' = 8"
  by (simp_all add: cpc_udp_hdr_def sizeof_def)

definition get_udp_sport :: "nat \<Rightarrow> nat" where
  "get_udp_sport hdr = hdr + offset_of cpc_udp_hdr ''sport''"

definition set_udp_sport :: "mem \<Rightarrow> nat \<Rightarrow> u16 \<Rightarrow> mem option" where
  "set_udp_sport m hdr port = store m (hdr + offset_of cpc_udp_hdr ''sport'') port"

definition get_udp_dport :: "nat \<Rightarrow> nat" where
  "get_udp_dport hdr = hdr + offset_of cpc_udp_hdr ''dport''"

definition set_udp_dport :: "mem \<Rightarrow> nat \<Rightarrow> u16 \<Rightarrow> mem option" where
  "set_udp_dport m hdr port = store m (hdr + offset_of cpc_udp_hdr ''dport'') port"

definition get_udp_length :: "nat \<Rightarrow> nat" where
  "get_udp_length hdr = hdr + offset_of cpc_udp_hdr ''length''"

definition set_udp_length :: "mem \<Rightarrow> nat \<Rightarrow> u16 \<Rightarrow> mem option" where
  "set_udp_length m hdr len = store m (hdr + offset_of cpc_udp_hdr ''length'') len"

interpretation set_udp_sport: plain_setter set_udp_sport 0
  by unfold_locales (simp_all add: set_udp_sport_def layout store_eq_modify)

interpretation set_udp_dport: plain_setter set_udp_dport 2
  by unfold_locales (simp_all add: set_udp_dport_def layout store_eq_modify)

interpretation set_udp_length: plain_setter set_udp_length 4
  by unfold_locales (simp_all add: set_udp_length_def layout store_eq_modify)

section \<open>SCTP\<close>

definition SCTP_IP_PROTO :: u8 where
  "SCTP_IP_PROTO = 132"

definition cpc_sctp_hdr :: struct where
  "cpc_sctp_hdr = [(''sport'', 2), (''dport'', 2), (''verification_tag'', 4), (''checksum'', 4), (''data'', 0)]"

lemma cpc_sctp_hdr_layout [layout]:
  "sizeof cpc_sctp_hdr = 12"
  "offset_of cpc_sctp_hdr ''sport'' = 0"
  "offset_of cpc_sctp_hdr ''dport'' = 2"
  "offset_of cpc_sctp_hdr ''verification_tag'' = 4"
  "offset_of cpc_sctp_hdr ''checksum'' = 8"
  "offset_of cpc_sctp_hdr ''data'' = 12"
  by (simp_all add: cpc_sctp_hdr_def sizeof_def)

definition get_sctp_sport :: "nat \<Rightarrow> nat" where
  "get_sctp_sport hdr = hdr + offset_of cpc_sctp_hdr ''sport''"

definition set_sctp_sport :: "mem \<Rightarrow> nat \<Rightarrow> u16 \<Rightarrow> mem option" where
  "set_sctp_sport m hdr port = store m (hdr + offset_of cpc_sctp_hdr ''sport'') port"

definition get_sctp_dport :: "nat \<Rightarrow> nat" where
  "get_sctp_dport hdr = hdr + offset_of cpc_sctp_hdr ''dport''"

definition set_sctp_dport :: "mem \<Rightarrow> nat \<Rightarrow> u16 \<Rightarrow> mem option" where
  "set_sctp_dport m hdr port = store m (hdr + offset_of cpc_sctp_hdr ''dport'') port"

interpretation set_sctp_sport: plain_setter set_sctp_sport 0
  by unfold_locales (simp_all add: set_sctp_sport_def layout store_eq_modify)

interpretation set_sctp_dport: plain_setter set_sctp_dport 2
  by unfold_locales (simp_all add: set_sctp_dport_def layout store_eq_modify)

section \<open>GTP-U\<close>

text \<open>
  The header grows with its flags; the four structures are the members of a union.
\<close>

definition cpc_gtpu_e_hdr :: struct where
  "cpc_gtpu_e_hdr = [(''flags'', 1), (''msgtype'', 1), (''len'', 2), (''teid'', 4), (''seqno'', 2), (''n_pdu_no'', 1), (''exthdr'', 1), (''data'', 0)]"

definition cpc_gtpu_pn_hdr :: struct where
  "cpc_gtpu_pn_hdr = [(''flags'', 1), (''msgtype'', 1), (''len'', 2), (''teid'', 4), (''seqno'', 2), (''n_pdu_no'', 1), (''data'', 0)]"

definition cpc_gtpu_s_hdr :: struct where
  "cpc_gtpu_s_hdr = [(''flags'', 1), (''msgtype'', 1), (''len'', 2), (''teid'', 4), (''seqno'', 2), (''data'', 0)]"

definition cpc_gtpu_base_hdr :: struct where
  "cpc_gtpu_base_hdr = [(''flags'', 1), (''msgtype'', 1), (''len'', 2), (''teid'', 4), (''data'', 0)]"

definition cpc_gtphu :: "struct list" where
  "cpc_gtphu = [[(''cpc_gtpu_hdr'', 1)], cpc_gtpu_e_hdr, cpc_gtpu_pn_hdr, cpc_gtpu_s_hdr, cpc_gtpu_base_hdr]"

lemma cpc_gtpu_e_hdr_layout [layout]:
  "sizeof cpc_gtpu_e_hdr = 12"
  "offset_of cpc_gtpu_e_hdr ''flags'' = 0"
  "offset_of cpc_gtpu_e_hdr ''msgtype'' = 1"
  "offset_of cpc_gtpu_e_hdr ''len'' = 2"
  "offset_of cpc_gtpu_e_hdr ''teid'' = 4"
  "offset_of cpc_gtpu_e_hdr ''seqno'' = 8"
  "offset_of cpc_gtpu_e_hdr ''n_pdu_no'' = 10"
  "offset_of cpc_gtpu_e_hdr ''exthdr'' = 11"
  "offset_of cpc_gtpu_e_hdr ''data'' = 12"
  by (simp_all add: cpc_gtpu_e_hdr_def sizeof_def)

lemma cpc_gtpu_pn_hdr_layout [layout]:
  "sizeof cpc_gtpu_pn_hdr = 11"
  "offset_of cpc_gtpu_pn_hdr ''flags'' = 0"
  "offset_of cpc_gtpu_pn_hdr ''msgtype'' = 1"
  "offset_of cpc_gtpu_pn_hdr ''len'' = 2"
  "offset_of cpc_gtpu_pn_hdr ''teid'' = 4"
  "offset_of cpc_gtpu_pn_hdr ''seqno'' = 8"
  "offset_of cpc_gtpu_pn_hdr ''n_pdu_no'' = 10"
  "offset_of cpc_gtpu_pn_hdr ''data'' = 11"
  by (simp_all add: cpc_gtpu_pn_hdr_def sizeof_def)

lemma cpc_gtpu_s_hdr_layout [layout]:
  "sizeof cpc_gtpu_s_hdr = 10"
  "offset_of cpc_gtpu_s_hdr ''flags'' = 0"
  "offset_of cpc_gtpu_s_hdr ''msgtype'' = 1"
  "offset_of cpc_gtpu_s_hdr ''len'' = 2"
  "offset_of cpc_gtpu_s_hdr ''teid'' = 4"
  "offset_of cpc_gtpu_s_hdr ''seqno'' = 8"
  "offset_of cpc_gtpu_s_hdr ''data'' = 10"
  by (simp_all add: cpc_gtpu_s_hdr_def sizeof_def)

lemma cpc_gtpu_base_hdr_layout [layout]:
  "sizeof cpc_gtpu_base_hdr = 8"
  "offset_of cpc_gtpu_base_hdr ''flags'' = 0"
  "offset_of cpc_gtpu_base_hdr ''msgtype'' = 1"
  "offset_of cpc_gtpu_base_hdr ''len'' = 2"
  "offset_of cpc_gtpu_base_hdr ''teid'' = 4"
  "offset_of cpc_gtpu_base_hdr ''data'' = 8"
  by (simp_all add: cpc_gtpu_base_hdr_def sizeof_def)

lemma cpc_gtphu_layout [layout]: "sizeof_union cpc_gtphu = 12"
  by (simp add: sizeof_union_def cpc_gtphu_def layout) (simp add: sizeof_def)

definition get_gtpu_version :: "nat \<Rightarrow> nat" where
  "get_gtpu_version hdr = hdr + offset_of cpc_gtpu_base_hdr ''flags''"

definition set_gtpu_version :: "rofl \<Rightarrow> mem \<Rightarrow> nat \<Rightarrow> u8 \<Rightarrow> mem option" where
  "set_gtpu_version K m hdr version = modify m (hdr + offset_of cpc_gtpu_base_hdr ''flags'')
     (\<lambda>x. (x AND NOT (OF1X_3MSBITS_MASK K)) OR (version AND OF1X_3MSBITS_MASK K))"

definition get_gtpu_pt_flag :: "nat \<Rightarrow> nat" where
  "get_gtpu_pt_flag hdr = hdr + offset_of cpc_gtpu_base_hdr ''flags''"

definition set_gtpu_pt_flag :: "rofl \<Rightarrow> mem \<Rightarrow> nat \<Rightarrow> u8 \<Rightarrow> mem option" where
  "set_gtpu_pt_flag K m hdr pt_flag = modify m (hdr + offset_of cpc_gtpu_base_hdr ''flags'')
     (\<lambda>x. (x AND NOT (OF1X_BIT4_MASK K)) OR (pt_flag AND OF1X_BIT4_MASK K))"

definition get_gtpu_e_flag :: "nat \<Rightarrow> nat" where
  "get_gtpu_e_flag hdr = hdr + offset_of cpc_gtpu_base_hdr ''flags''"

definition set_gtpu_e_flag :: "rofl \<Rightarrow> mem \<Rightarrow> nat \<Rightarrow> u8 \<Rightarrow> mem option" where
  "set_gtpu_e_flag K m hdr ext_flag = modify m (hdr + offset_of cpc_gtpu_base_hdr ''flags'')
     (\<lambda>x. (x AND NOT (OF1X_BIT2_MASK K)) OR (ext_flag AND OF1X_BIT2_MASK K))"

definition get_gtpu_s_flag :: "nat \<Rightarrow> nat" where
  "get_gtpu_s_flag hdr = hdr + offset_of cpc_gtpu_base_hdr ''flags''"

definition set_gtpu_s_flag :: "rofl \<Rightarrow> mem \<Rightarrow> nat \<Rightarrow> u8 \<Rightarrow> mem option" where
  "set_gtpu_s_flag K m hdr seqno_flag = modify m (hdr + offset_of cpc_gtpu_base_hdr ''flags'')
     (\<lambda>x. (x AND NOT (OF1X_BIT1_MASK K)) OR (seqno_flag AND OF1X_BIT1_MASK K))"

definition get_gtpu_pn_flag :: "nat \<Rightarrow> nat" where
  "get_gtpu_pn_flag hdr = hdr + offset_of cpc_gtpu_base_hdr ''flags''"

definition set_gtpu_pn_flag :: "rofl \<Rightarrow> mem \<Rightarrow> nat \<Rightarrow> u8 \<Rightarrow> mem option" where
  "set_gtpu_pn_flag K m hdr npdu_flag = modify m (hdr + offset_of cpc_gtpu_base_hdr ''flags'')
     (\<lambda>x. (x AND NOT (OF1X_BIT0_MASK K)) OR (npdu_flag AND OF1X_BIT0_MASK K))"

definition get_gtpu_msg_type :: "nat \<Rightarrow> nat" where
  "get_gtpu_msg_type hdr = hdr + offset_of cpc_gtpu_base_hdr ''msgtype''"

definition set_gtpu_msg_type :: "mem \<Rightarrow> nat \<Rightarrow> u8 \<Rightarrow> mem option" where
  "set_gtpu_msg_type m hdr msgtype = store m (hdr + offset_of cpc_gtpu_base_hdr ''msgtype'') msgtype"

definition get_gtpu_length :: "nat \<Rightarrow> nat" where
  "get_gtpu_length hdr = hdr + offset_of cpc_gtpu_base_hdr ''len''"

definition set_gtpu_length :: "mem \<Rightarrow> nat \<Rightarrow> u16 \<Rightarrow> mem option" where
  "set_gtpu_length m hdr len = store m (hdr + offset_of cpc_gtpu_base_hdr ''len'') len"

definition get_gtpu_teid :: "nat \<Rightarrow> nat" where
  "get_gtpu_teid hdr = hdr + offset_of cpc_gtpu_base_hdr ''teid''"

definition set_gtpu_teid :: "mem \<Rightarrow> nat \<Rightarrow> u32 \<Rightarrow> mem option" where
  "set_gtpu_teid m hdr teid = store m (hdr + offset_of cpc_gtpu_base_hdr ''teid'') teid"

text \<open>The accessors of the optional members guard themselves with a comparison of a flag's
  \<^emph>\<open>address\<close> with \<open>NULL\<close>. A pointer into a packet is never \<open>NULL\<close>, so the guard never fires and the
  member is accessed whatever the flags are.\<close>

definition get_gtpu_seq_no :: "nat \<Rightarrow> nat" where
  "get_gtpu_seq_no hdr = hdr + offset_of cpc_gtpu_s_hdr ''seqno''"

definition set_gtpu_seq_no :: "mem \<Rightarrow> nat \<Rightarrow> u16 \<Rightarrow> mem option" where
  "set_gtpu_seq_no m hdr seqno = store m (hdr + offset_of cpc_gtpu_s_hdr ''seqno'') seqno"

definition get_gtpu_npdu_no :: "nat \<Rightarrow> nat" where
  "get_gtpu_npdu_no hdr = hdr + offset_of cpc_gtpu_pn_hdr ''n_pdu_no''"

definition set_gtpu_npdu_no :: "mem \<Rightarrow> nat \<Rightarrow> u8 \<Rightarrow> mem option" where
  "set_gtpu_npdu_no m hdr npdu = store m (hdr + offset_of cpc_gtpu_pn_hdr ''n_pdu_no'') npdu"

definition get_gtpu_ext_type :: "nat \<Rightarrow> nat" where
  "get_gtpu_ext_type hdr = hdr + offset_of cpc_gtpu_e_hdr ''exthdr''"

definition set_gtpu_ext_type :: "mem \<Rightarrow> nat \<Rightarrow> u8 \<Rightarrow> mem option" where
  "set_gtpu_ext_type m hdr exthdr = store m (hdr + offset_of cpc_gtpu_e_hdr ''exthdr'') exthdr"

interpretation set_gtpu_version: field_setter "set_gtpu_version K" 0 "OF1X_3MSBITS_MASK K" for K
  by unfold_locales (simp_all add: set_gtpu_version_def layout setter_shapes)

interpretation set_gtpu_pt_flag: field_setter "set_gtpu_pt_flag K" 0 "OF1X_BIT4_MASK K" for K
  by unfold_locales (simp_all add: set_gtpu_pt_flag_def layout setter_shapes)

interpretation set_gtpu_e_flag: field_setter "set_gtpu_e_flag K" 0 "OF1X_BIT2_MASK K" for K
  by unfold_locales (simp_all add: set_gtpu_e_flag_def layout setter_shapes)

interpretation set_gtpu_s_flag: field_setter "set_gtpu_s_flag K" 0 "OF1X_BIT1_MASK K" for K
  by unfold_locales (simp_all add: set_gtpu_s_flag_def layout setter_shapes)

interpretation set_gtpu_pn_flag: field_setter "set_gtpu_pn_flag K" 0 "OF1X_BIT0_MASK K" for K
  by unfold_locales (simp_all add: set_gtpu_pn_flag_def layout setter_shapes)

interpretation set_gtpu_msg_type: plain_setter set_gtpu_msg_type 1
  by unfold_locales (simp_all add: set_gtpu_msg_type_def layout store_eq_modify)

interpretation set_gtpu_length: plain_setter set_gtpu_length 2
  by unfold_locales (simp_all add: set_gtpu_length_def layout store_eq_modify)

interpretation set_gtpu_teid: plain_setter set_gtpu_teid 4
  by unfold_locales (simp_all add: set_gtpu_teid_def layout store_eq_modify)

interpretation set_gtpu_seq_no: plain_setter set_gtpu_seq_no 8
  by unfold_locales (simp_all add: set_gtpu_seq_no_def layout store_eq_modify)

interpretation set_gtpu_npdu_no: plain_setter set_gtpu_npdu_no 10
  by unfold_locales (simp_all add: set_gtpu_npdu_no_def layout store_eq_modify)

interpretation set_gtpu_ext_type: plain_setter set_gtpu_ext_type 11
  by unfold_locales (simp_all add: set_gtpu_ext_type_def layout store_eq_modify)

section \<open>GRE\<close>

definition GRE_IP_PROTO :: u8 where
  "GRE_IP_PROTO = 47"

definition GRE_CSUM_FLAG_MASK :: u16 where
  "GRE_CSUM_FLAG_MASK = 0x0080"

definition GRE_KEY_FLAG_MASK :: u16 where
  "GRE_KEY_FLAG_MASK = 0x0020"

definition GRE_SEQNO_FLAG_MASK :: u16 where
  "GRE_SEQNO_FLAG_MASK = 0x0010"

definition GRE_RESERVED0_MASK :: u16 where
  "GRE_RESERVED0_MASK = 0xF87F"

definition GRE_VERSION_MASK :: u16 where
  "GRE_VERSION_MASK = 0x0300"

definition GRE_PROT_TYPE_TRANSPARENT_ETHERNET_BRIDGING :: u16 where
  "GRE_PROT_TYPE_TRANSPARENT_ETHERNET_BRIDGING = 0x5865"

definition cpc_gre_base_hdr :: struct where
  "cpc_gre_base_hdr = [(''word0'', 2), (''word1'', 2), (''data'', 0)]"

definition cpc_gre_hdr :: struct where
  "cpc_gre_hdr = [(''word0'', 2), (''word1'', 2), (''word2'', 2), (''word3'', 2), (''word4'', 2), (''word5'', 2), (''word6'', 2), (''word7'', 2), (''data'', 0)]"

lemma cpc_gre_base_hdr_layout [layout]:
  "sizeof cpc_gre_base_hdr = 4"
  "offset_of cpc_gre_base_hdr ''word0'' = 0"
  "offset_of cpc_gre_base_hdr ''word1'' = 2"
  "offset_of cpc_gre_base_hdr ''data'' = 4"
  by (simp_all add: cpc_gre_base_hdr_def sizeof_def)

lemma cpc_gre_hdr_layout [layout]:
  "sizeof cpc_gre_hdr = 16"
  "offset_of cpc_gre_hdr ''word0'' = 0"
  "offset_of cpc_gre_hdr ''word1'' = 2"
  "offset_of cpc_gre_hdr ''word2'' = 4"
  "offset_of cpc_gre_hdr ''word3'' = 6"
  "offset_of cpc_gre_hdr ''word4'' = 8"
  "offset_of cpc_gre_hdr ''word5'' = 10"
  "offset_of cpc_gre_hdr ''word6'' = 12"
  "offset_of cpc_gre_hdr ''word7'' = 14"
  "offset_of cpc_gre_hdr ''data'' = 16"
  by (simp_all add: cpc_gre_hdr_def sizeof_def)

definition set_gre_csum_flag :: "mem \<Rightarrow> nat \<Rightarrow> u16 \<Rightarrow> mem option" where
  "set_gre_csum_flag m hdr flag = modify m (hdr + offset_of cpc_gre_hdr ''word0'')
     (\<lambda>x. (flag AND GRE_CSUM_FLAG_MASK) OR (x AND NOT GRE_CSUM_FLAG_MASK))"

definition get_gre_csum_flag :: "nat \<Rightarrow> nat" where
  "get_gre_csum_flag hdr = hdr + offset_of cpc_gre_hdr ''word0''"

definition set_gre_key_flag :: "mem \<Rightarrow> nat \<Rightarrow> u16 \<Rightarrow> mem option" where
  "set_gre_key_flag m hdr flag = modify m (hdr + offset_of cpc_gre_hdr ''word0'')
     (\<lambda>x. (flag AND GRE_KEY_FLAG_MASK) OR (x AND NOT GRE_KEY_FLAG_MASK))"

definition get_gre_key_flag :: "nat \<Rightarrow> nat" where
  "get_gre_key_flag hdr = hdr + offset_of cpc_gre_base_hdr ''word0''"

definition set_gre_seqno_flag :: "mem \<Rightarrow> nat \<Rightarrow> u16 \<Rightarrow> mem option" where
  "set_gre_seqno_flag m hdr flag = modify m (hdr + offset_of cpc_gre_hdr ''word0'')
     (\<lambda>x. (flag AND GRE_SEQNO_FLAG_MASK) OR (x AND NOT GRE_SEQNO_FLAG_MASK))"

definition get_gre_seqno_flag :: "nat \<Rightarrow> nat" where
  "get_gre_seqno_flag hdr = hdr + offset_of cpc_gre_hdr ''word0''"

definition set_gre_reserved0 :: "mem \<Rightarrow> nat \<Rightarrow> u16 \<Rightarrow> mem option" where
  "set_gre_reserved0 m hdr reserved0 = modify m (hdr + offset_of cpc_gre_hdr ''word0'')
     (\<lambda>x. (reserved0 AND GRE_RESERVED0_MASK) OR (x AND NOT GRE_RESERVED0_MASK))"

definition get_gre_reserved0 :: "nat \<Rightarrow> nat" where
  "get_gre_reserved0 hdr = hdr + offset_of cpc_gre_hdr ''word0''"

definition set_gre_version :: "mem \<Rightarrow> nat \<Rightarrow> u16 \<Rightarrow> mem option" where
  "set_gre_version m hdr version = modify m (hdr + offset_of cpc_gre_hdr ''word0'')
     (\<lambda>x. (version AND GRE_VERSION_MASK) OR (x AND NOT GRE_VERSION_MASK))"

definition get_gre_version :: "nat \<Rightarrow> nat" where
  "get_gre_version hdr = hdr + offset_of cpc_gre_hdr ''word0''"

definition get_gre_prot_type :: "nat \<Rightarrow> nat" where
  "get_gre_prot_type hdr = hdr + offset_of cpc_gre_hdr ''word1''"

definition set_gre_prot_type :: "mem \<Rightarrow> nat \<Rightarrow> u16 \<Rightarrow> mem option" where
  "set_gre_prot_type m hdr prot_type = store m (hdr + offset_of cpc_gre_hdr ''word1'') prot_type"

definition set_gre_reserved1 :: "mem \<Rightarrow> nat \<Rightarrow> u16 \<Rightarrow> mem option" where
  "set_gre_reserved1 m hdr reserved1 = store m (hdr + offset_of cpc_gre_hdr ''word3'') reserved1"

interpretation set_gre_csum_flag: field_setter "set_gre_csum_flag" 0 "GRE_CSUM_FLAG_MASK"
  by unfold_locales (simp_all add: set_gre_csum_flag_def layout setter_shapes)

interpretation set_gre_key_flag: field_setter "set_gre_key_flag" 0 "GRE_KEY_FLAG_MASK"
  by unfold_locales (simp_all add: set_gre_key_flag_def layout setter_shapes)

interpretation set_gre_seqno_flag: field_setter "set_gre_seqno_flag" 0 "GRE_SEQNO_FLAG_MASK"
  by unfold_locales (simp_all add: set_gre_seqno_flag_def layout setter_shapes)

interpretation set_gre_reserved0: field_setter "set_gre_reserved0" 0 "GRE_RESERVED0_MASK"
  by unfold_locales (simp_all add: set_gre_reserved0_def layout setter_shapes)

interpretation set_gre_version: field_setter "set_gre_version" 0 "GRE_VERSION_MASK"
  by unfold_locales (simp_all add: set_gre_version_def layout setter_shapes)

interpretation set_gre_prot_type: plain_setter set_gre_prot_type 2
  by unfold_locales (simp_all add: set_gre_prot_type_def layout store_eq_modify)

interpretation set_gre_reserved1: plain_setter set_gre_reserved1 6
  by unfold_locales (simp_all add: set_gre_reserved1_def layout store_eq_modify)

text \<open>The position of the optional members depends on the flags of the first word. The getters
  return \<open>NULL\<close> (the inner \<open>None\<close>) for a member that is absent.\<close>

definition get_gre_reserved1 :: "mem \<Rightarrow> nat \<Rightarrow> nat option option" where
  "get_gre_reserved1 m hdr = do {
     w0 \<leftarrow> load m (hdr + offset_of cpc_gre_hdr ''word0'');
     Some (if w0 AND GRE_CSUM_FLAG_MASK \<noteq> 0 then Some (hdr + offset_of cpc_gre_hdr ''word3'') else None) }"

definition get_gre_key :: "mem \<Rightarrow> nat \<Rightarrow> nat option option" where
  "get_gre_key m hdr = do {
     w0 \<leftarrow> load m (hdr + offset_of cpc_gre_hdr ''word0'');
     Some (if w0 AND GRE_KEY_FLAG_MASK \<noteq> 0
           then if w0 AND GRE_CSUM_FLAG_MASK \<noteq> 0
                then Some (hdr + offset_of cpc_gre_hdr ''word4'')
                else Some (hdr + offset_of cpc_gre_hdr ''word2'')
           else None) }"

definition set_gre_key :: "mem \<Rightarrow> nat \<Rightarrow> u32 \<Rightarrow> mem option" where
  "set_gre_key m hdr key = do {
     w0 \<leftarrow> load m (hdr + offset_of cpc_gre_hdr ''word0'');
     if w0 AND GRE_KEY_FLAG_MASK \<noteq> 0
     then if w0 AND GRE_CSUM_FLAG_MASK \<noteq> 0
          then store m (hdr + offset_of cpc_gre_hdr ''word4'') key
          else store m (hdr + offset_of cpc_gre_hdr ''word2'') key
     else Some m }"

definition get_gre_seqno :: "mem \<Rightarrow> nat \<Rightarrow> nat option option" where
  "get_gre_seqno m hdr = do {
     w0 \<leftarrow> load m (hdr + offset_of cpc_gre_hdr ''word0'');
     Some (if w0 AND GRE_SEQNO_FLAG_MASK \<noteq> 0
           then if w0 AND GRE_KEY_FLAG_MASK \<noteq> 0
                then if w0 AND GRE_CSUM_FLAG_MASK \<noteq> 0
                     then Some (hdr + offset_of cpc_gre_hdr ''word6'')
                     else Some (hdr + offset_of cpc_gre_hdr ''word4'')
                else if w0 AND GRE_CSUM_FLAG_MASK \<noteq> 0
                     then Some (hdr + offset_of cpc_gre_hdr ''word4'')
                     else Some (hdr + offset_of cpc_gre_hdr ''word2'')
           else None) }"

definition set_gre_seqno :: "mem \<Rightarrow> nat \<Rightarrow> u32 \<Rightarrow> mem option" where
  "set_gre_seqno m hdr seqno = do {
     w0 \<leftarrow> load m (hdr + offset_of cpc_gre_hdr ''word0'');
     if w0 AND GRE_SEQNO_FLAG_MASK \<noteq> 0
     then if w0 AND GRE_KEY_FLAG_MASK \<noteq> 0
          then if w0 AND GRE_CSUM_FLAG_MASK \<noteq> 0
               then store m (hdr + offset_of cpc_gre_hdr ''word6'') seqno
               else store m (hdr + offset_of cpc_gre_hdr ''word4'') seqno
          else if w0 AND GRE_CSUM_FLAG_MASK \<noteq> 0
               then store m (hdr + offset_of cpc_gre_hdr ''word4'') seqno
               else store m (hdr + offset_of cpc_gre_hdr ''word2'') seqno
     else Some m }"

lemmas l4_enums = TCP_IP_PROTO_def
  UDP_IP_PROTO_def
  SCTP_IP_PROTO_def
  GRE_IP_PROTO_def
  GRE_CSUM_FLAG_MASK_def
  GRE_KEY_FLAG_MASK_def
  GRE_SEQNO_FLAG_MASK_def
  GRE_RESERVED0_MASK_def
  GRE_VERSION_MASK_def
  GRE_PROT_TYPE_TRANSPARENT_ETHERNET_BRIDGING_def

end
