(* ===== verification/Pkt_Types.thy ===== *)
theory Pkt_Types
  imports Prelude
begin

text \<open>
  The packet types of the classifier (\<open>autogen_pkt_types.h\<close>, \<open>autogen_pkt_types.c\<close>). An enumerator
  \<open>PT_ETHERNET_VLAN_IPV4_noptions_2_UDP\<close> is the stack of headers its name lists; the 1328
  enumerators are the stacks \<open>pkt_types\<close> accepts, and \<open>PT_INVALID\<close> is \<open>None\<close>. The tables indexed by
  packet type (\<open>protocol_offsets_bt\<close>, \<open>eth_type_offsets\<close>, \<open>parse_transitions\<close>,
  \<open>push_transitions\<close>, \<open>pop_transitions\<close>, \<open>mpls_num_of_labels\<close>) are functions of the stack that
  have the value of the table on every one of its rows and columns.

  The lemmas show that the transitions stay inside the types, that the offsets of a parsed header are
  the total size of the headers before it, and how the transitions of push and pop relate.
\<close>

section \<open>Protocols and packet types\<close>

datatype protocol =
    PT_PROTO_ETHERNET | PT_PROTO_8023 | PT_PROTO_MPLS | PT_PROTO_VLAN | PT_PROTO_ISID
  | PT_PROTO_PPPOE | PT_PROTO_PPP | PT_PROTO_ARPV4 | PT_PROTO_IPV4 | PT_PROTO_ICMPV4
  | PT_PROTO_IPV6 | PT_PROTO_ICMPV6 | PT_PROTO_ICMPV6_RTR_SOL | PT_PROTO_ICMPV6_RTR_SOL_OPTS_LLADR_SRC
  | PT_PROTO_ICMPV6_RTR_ADV | PT_PROTO_ICMPV6_RTR_ADV_OPTS_LLADR_SRC
  | PT_PROTO_ICMPV6_NEIGH_SOL | PT_PROTO_ICMPV6_NEIGH_SOL_OPTS_LLADR_SRC
  | PT_PROTO_ICMPV6_NEIGH_ADV | PT_PROTO_ICMPV6_NEIGH_ADV_OPTS_LLADR_TGT
  | PT_PROTO_ICMPV6_REDIRECT | PT_PROTO_ICMPV6_REDIRECT_OPTS_LLADR_TGT
  | PT_PROTO_ICMPV6_OPTS | PT_PROTO_ICMPV6_OPTS_LLADR_SRC | PT_PROTO_ICMPV6_OPTS_LLADR_TGT
  | PT_PROTO_ICMPV6_OPTS_PREFIX_INFO
  | PT_PROTO_TCP | PT_PROTO_UDP | PT_PROTO_SCTP | PT_PROTO_GTPU4 | PT_PROTO_GTPU6
  | PT_PROTO_GRE4 | PT_PROTO_GRE6

text \<open>A header of a stack; IPv4 headers carry their number of option words and an MPLS stack its number
  of labels. \<open>unrolled\<close> is the column of a transition table.\<close>

datatype header = Hdr protocol | MPLS_nlabels nat | IPV4_noptions nat

datatype unrolled = UNROLLED protocol | UNROLLED_IPV4_noptions nat

type_synonym pkt_type = "header list"

fun proto_of :: "header \<Rightarrow> protocol" where
  "proto_of (Hdr p) = p"
| "proto_of (MPLS_nlabels n) = PT_PROTO_MPLS"
| "proto_of (IPV4_noptions n) = PT_PROTO_IPV4"

abbreviation "ETHERNET \<equiv> Hdr PT_PROTO_ETHERNET"
abbreviation "IEEE8023 \<equiv> Hdr PT_PROTO_8023"
abbreviation "VLAN \<equiv> Hdr PT_PROTO_VLAN"
abbreviation "ISID \<equiv> Hdr PT_PROTO_ISID"
abbreviation "PPPOE \<equiv> Hdr PT_PROTO_PPPOE"
abbreviation "PPP \<equiv> Hdr PT_PROTO_PPP"
abbreviation "ARPV4 \<equiv> Hdr PT_PROTO_ARPV4"
abbreviation "ICMPV4 \<equiv> Hdr PT_PROTO_ICMPV4"
abbreviation "IPV6 \<equiv> Hdr PT_PROTO_IPV6"
abbreviation "ICMPV6 \<equiv> Hdr PT_PROTO_ICMPV6"
abbreviation "TCP \<equiv> Hdr PT_PROTO_TCP"
abbreviation "UDP \<equiv> Hdr PT_PROTO_UDP"
abbreviation "SCTP \<equiv> Hdr PT_PROTO_SCTP"
abbreviation "GTPU4 \<equiv> Hdr PT_PROTO_GTPU4"
abbreviation "GTPU6 \<equiv> Hdr PT_PROTO_GTPU6"
abbreviation "GRE4 \<equiv> Hdr PT_PROTO_GRE4"
abbreviation "GRE6 \<equiv> Hdr PT_PROTO_GRE6"

text \<open>The enumeration: one of eight link-layer prefixes and what follows it.\<close>

definition l2_types :: "pkt_type list" where
  "l2_types =
     [[ETHERNET], [ETHERNET, ISID], [ETHERNET, VLAN, ISID], [IEEE8023], [ETHERNET, VLAN],
      [IEEE8023, VLAN], [ETHERNET, VLAN, VLAN], [IEEE8023, VLAN, VLAN]]"

definition ipv4_uppers :: "pkt_type list" where
  "ipv4_uppers = [[], [ICMPV4], [TCP], [UDP], [UDP, GTPU4], [SCTP], [GRE4]]"

definition ipv6_uppers :: "pkt_type list" where
  "ipv6_uppers =
     [[], [ICMPV6], [ICMPV6, Hdr PT_PROTO_ICMPV6_OPTS_LLADR_SRC], [ICMPV6, Hdr PT_PROTO_ICMPV6_OPTS_LLADR_TGT],
      [ICMPV6, Hdr PT_PROTO_ICMPV6_OPTS_PREFIX_INFO],
      [ICMPV6, Hdr PT_PROTO_ICMPV6_RTR_SOL], [ICMPV6, Hdr PT_PROTO_ICMPV6_RTR_ADV],
      [ICMPV6, Hdr PT_PROTO_ICMPV6_NEIGH_SOL], [ICMPV6, Hdr PT_PROTO_ICMPV6_NEIGH_ADV],
      [ICMPV6, Hdr PT_PROTO_ICMPV6_RTR_SOL, Hdr PT_PROTO_ICMPV6_RTR_SOL_OPTS_LLADR_SRC],
      [ICMPV6, Hdr PT_PROTO_ICMPV6_RTR_ADV, Hdr PT_PROTO_ICMPV6_RTR_ADV_OPTS_LLADR_SRC],
      [ICMPV6, Hdr PT_PROTO_ICMPV6_NEIGH_SOL, Hdr PT_PROTO_ICMPV6_NEIGH_SOL_OPTS_LLADR_SRC],
      [ICMPV6, Hdr PT_PROTO_ICMPV6_NEIGH_ADV, Hdr PT_PROTO_ICMPV6_NEIGH_ADV_OPTS_LLADR_TGT],
      [TCP], [UDP], [UDP, GTPU6], [SCTP], [GRE6]]"

fun upper_type :: "pkt_type \<Rightarrow> bool" where
  "upper_type [] = True"
| "upper_type (MPLS_nlabels n # hs) = (1 \<le> n \<and> n \<le> 32 \<and> hs = [])"
| "upper_type (IPV4_noptions n # hs) = (n \<le> 15 \<and> hs \<in> set ipv4_uppers)"
| "upper_type (Hdr p # hs) =
     (if p = PT_PROTO_PPPOE then hs = [] \<or> hs = [PPP]
      else if p = PT_PROTO_ARPV4 then hs = []
      else p = PT_PROTO_IPV6 \<and> hs \<in> set ipv6_uppers)"

definition is_l2 :: "header \<Rightarrow> bool" where
  "is_l2 h \<longleftrightarrow> h \<in> {ETHERNET, IEEE8023, VLAN, ISID}"

definition l2_part :: "pkt_type \<Rightarrow> pkt_type" where
  "l2_part t = takeWhile is_l2 t"

definition upper_part :: "pkt_type \<Rightarrow> pkt_type" where
  "upper_part t = dropWhile is_l2 t"

definition pkt_types :: "pkt_type \<Rightarrow> bool" where
  "pkt_types t \<longleftrightarrow> l2_part t \<in> set l2_types \<and> upper_type (upper_part t)"

section \<open>Offsets\<close>

text \<open>The sizes the table was generated with. They are those of the C structures for every header
  another header can follow; the sizes of leaf headers play no role in the table.\<close>

fun proto_size :: "protocol \<Rightarrow> nat" where
  "proto_size PT_PROTO_ETHERNET = 14"
| "proto_size PT_PROTO_8023 = 22"
| "proto_size PT_PROTO_MPLS = 4"
| "proto_size PT_PROTO_VLAN = 4"
| "proto_size PT_PROTO_ISID = 4"
| "proto_size PT_PROTO_PPPOE = 6"
| "proto_size PT_PROTO_PPP = 2"
| "proto_size PT_PROTO_ARPV4 = 28"
| "proto_size PT_PROTO_IPV4 = 20"
| "proto_size PT_PROTO_ICMPV4 = 4"
| "proto_size PT_PROTO_IPV6 = 40"
| "proto_size PT_PROTO_ICMPV6 = 4"
| "proto_size PT_PROTO_ICMPV6_RTR_SOL = 4"
| "proto_size PT_PROTO_ICMPV6_RTR_SOL_OPTS_LLADR_SRC = 8"
| "proto_size PT_PROTO_ICMPV6_RTR_ADV = 12"
| "proto_size PT_PROTO_ICMPV6_RTR_ADV_OPTS_LLADR_SRC = 8"
| "proto_size PT_PROTO_ICMPV6_NEIGH_SOL = 20"
| "proto_size PT_PROTO_ICMPV6_NEIGH_SOL_OPTS_LLADR_SRC = 8"
| "proto_size PT_PROTO_ICMPV6_NEIGH_ADV = 20"
| "proto_size PT_PROTO_ICMPV6_NEIGH_ADV_OPTS_LLADR_TGT = 8"
| "proto_size PT_PROTO_ICMPV6_REDIRECT = 36"
| "proto_size PT_PROTO_ICMPV6_REDIRECT_OPTS_LLADR_TGT = 8"
| "proto_size PT_PROTO_ICMPV6_OPTS = 20"
| "proto_size PT_PROTO_ICMPV6_OPTS_LLADR_SRC = 20"
| "proto_size PT_PROTO_ICMPV6_OPTS_LLADR_TGT = 20"
| "proto_size PT_PROTO_ICMPV6_OPTS_PREFIX_INFO = 20"
| "proto_size PT_PROTO_TCP = 32"
| "proto_size PT_PROTO_UDP = 8"
| "proto_size PT_PROTO_SCTP = 12"
| "proto_size PT_PROTO_GTPU4 = 12"
| "proto_size PT_PROTO_GTPU6 = 12"
| "proto_size PT_PROTO_GRE4 = 16"
| "proto_size PT_PROTO_GRE6 = 16"

text \<open>The options of an IPv4 header count; a stack of MPLS labels counts as one label.\<close>

fun header_size :: "header \<Rightarrow> nat" where
  "header_size (Hdr p) = proto_size p"
| "header_size (MPLS_nlabels n) = proto_size PT_PROTO_MPLS"
| "header_size (IPV4_noptions n) = proto_size PT_PROTO_IPV4 + 4 * n"

text \<open>Offset of the first header of a protocol; \<open>None\<close> is the entry \<open>-1\<close>.\<close>

fun protocol_offsets_bt :: "pkt_type \<Rightarrow> protocol \<Rightarrow> nat option" where
  "protocol_offsets_bt [] p = None"
| "protocol_offsets_bt (h # hs) p =
     (if proto_of h = p then Some 0 else map_option ((+) (header_size h)) (protocol_offsets_bt hs p))"

text \<open>Two bytes before the end of the last link-layer header, not counting the I-SID tag.\<close>

definition eth_type_offsets :: "pkt_type \<Rightarrow> nat" where
  "eth_type_offsets t = sum_list (map header_size (filter (\<lambda>h. h \<noteq> ISID) (l2_part t))) - 2"

fun mpls_labels :: "header \<Rightarrow> nat" where
  "mpls_labels (MPLS_nlabels n) = n"
| "mpls_labels _ = 0"

definition mpls_num_of_labels :: "pkt_type \<Rightarrow> nat" where
  "mpls_num_of_labels t = sum_list (map mpls_labels t)"

section \<open>Transitions\<close>

text \<open>Parsing appends a header; a further MPLS label makes the stack of labels longer.\<close>

definition parse_step :: "pkt_type \<Rightarrow> unrolled \<Rightarrow> pkt_type" where
  "parse_step t u = (case u of
     UNROLLED_IPV4_noptions n \<Rightarrow> t @ [IPV4_noptions n]
   | UNROLLED p \<Rightarrow>
       if p = PT_PROTO_MPLS then
         (case rev t of MPLS_nlabels n # hs \<Rightarrow> rev hs @ [MPLS_nlabels (n + 1)] | _ \<Rightarrow> t @ [MPLS_nlabels 1])
       else t @ [Hdr p])"

definition parse_transitions :: "pkt_type \<Rightarrow> unrolled \<Rightarrow> pkt_type option" where
  "parse_transitions t u = (if pkt_types (parse_step t u) then Some (parse_step t u) else None)"

definition has :: "pkt_type \<Rightarrow> protocol \<Rightarrow> bool" where
  "has t p \<longleftrightarrow> p \<in> set (map proto_of t)"

definition push_transitions :: "pkt_type \<Rightarrow> unrolled \<Rightarrow> pkt_type option" where
  "push_transitions t u = (case u of
     UNROLLED_IPV4_noptions n \<Rightarrow> None
   | UNROLLED p \<Rightarrow>
       if p = PT_PROTO_ISID then (if has t PT_PROTO_ISID then None else Some [ETHERNET, ISID])
       else if has t PT_PROTO_ISID then None
       else if p = PT_PROTO_MPLS then
         (if has t PT_PROTO_MPLS
          then if mpls_num_of_labels t + 1 < 32
               then Some (l2_part t @ [MPLS_nlabels (mpls_num_of_labels t + 1)]) else None
          else Some (l2_part t @ [MPLS_nlabels 1]))
       else if p = PT_PROTO_VLAN then
         (if length (filter ((=) VLAN) t) = 2 then None else Some (hd t # VLAN # tl t))
       else if p = PT_PROTO_PPPOE then
         (if has t PT_PROTO_PPPOE \<or> has t PT_PROTO_MPLS then None else Some (l2_part t @ [PPPOE]))
       else if p = PT_PROTO_PPP then
         (if has t PT_PROTO_PPPOE \<and> \<not> has t PT_PROTO_PPP then Some (t @ [PPP]) else None)
       else if p = PT_PROTO_GTPU4 \<or> p = PT_PROTO_GTPU6 then
         (if (IPV4_noptions 0 \<in> set t \<or> has t PT_PROTO_IPV6) \<and> \<not> has t PT_PROTO_VLAN \<and>
             \<not> has t PT_PROTO_GTPU4 \<and> \<not> has t PT_PROTO_GTPU6
          then Some (l2_part t @ (if p = PT_PROTO_GTPU4 then [IPV4_noptions 0, UDP, GTPU4] else [IPV6, UDP, GTPU6]))
          else None)
       else if p = PT_PROTO_GRE4 \<or> p = PT_PROTO_GRE6 then
         (if has t PT_PROTO_GRE4 \<or> has t PT_PROTO_GRE6 then None
          else Some (ETHERNET # (if p = PT_PROTO_GRE4 then [IPV4_noptions 0, GRE4] else [IPV6, GRE6])))
       else None)"

definition pop_transitions :: "pkt_type \<Rightarrow> unrolled \<Rightarrow> pkt_type option" where
  "pop_transitions t u = (case u of
     UNROLLED_IPV4_noptions n \<Rightarrow> None
   | UNROLLED p \<Rightarrow>
       if p = PT_PROTO_ISID then
         (if has t PT_PROTO_ISID \<and> \<not> has t PT_PROTO_VLAN
          then Some (if t = [ETHERNET, ISID] then t else remove1 ISID t) else None)
       else if has t PT_PROTO_ISID then None
       else if p = PT_PROTO_MPLS then
         (if has t PT_PROTO_MPLS
          then if 1 < mpls_num_of_labels t
               then Some (l2_part t @ [MPLS_nlabels (mpls_num_of_labels t - 1)]) else Some (l2_part t)
          else None)
       else if p = PT_PROTO_VLAN then (if has t PT_PROTO_VLAN then Some (remove1 VLAN t) else None)
       else if p = PT_PROTO_PPPOE then (if has t PT_PROTO_PPP then None else Some (remove1 PPPOE t))
       else if p = PT_PROTO_PPP then (if has t PT_PROTO_PPP then Some (remove1 PPP t) else None)
       else if p = PT_PROTO_GTPU4 \<or> p = PT_PROTO_GTPU6 \<or> p = PT_PROTO_GRE4 \<or> p = PT_PROTO_GRE6 then
         (if has t p \<and> \<not> has t PT_PROTO_VLAN then Some (l2_part t) else None)
       else None)"

section \<open>The shape of a packet type\<close>

lemma l2_types_is_l2: "l2 \<in> set l2_types \<Longrightarrow> \<forall>h \<in> set l2. is_l2 h"
  by (auto simp: l2_types_def is_l2_def)

lemma upper_type_not_l2: "upper_type (h # hs) \<Longrightarrow> \<not> is_l2 h"
  by (cases h) (auto simp: is_l2_def split: if_splits)

lemma parts_append:
  assumes "\<forall>h \<in> set l2. is_l2 h" and "upper_type up"
  shows "l2_part (l2 @ up) = l2" and "upper_part (l2 @ up) = up"
proof -
  have "takeWhile is_l2 up = []" and "dropWhile is_l2 up = up"
    using upper_type_not_l2 assms(2) by (cases up; auto)+
  then show "l2_part (l2 @ up) = l2" and "upper_part (l2 @ up) = up"
    using assms(1) by (simp_all add: l2_part_def upper_part_def)
qed

lemma pkt_types_append:
  assumes "l2 \<in> set l2_types" and "upper_type up"
  shows "pkt_types (l2 @ up)"
  using assms parts_append [OF l2_types_is_l2] by (simp add: pkt_types_def)

lemma pkt_typesE:
  assumes "pkt_types t"
  obtains l2 up where "t = l2 @ up" and "l2 \<in> set l2_types" and "upper_type up"
proof
  show "t = l2_part t @ upper_part t" by (simp add: l2_part_def upper_part_def)
qed (use assms in \<open>auto simp: pkt_types_def\<close>)

lemma pkt_types_parts:
  assumes "pkt_types t"
  shows "l2_part t \<in> set l2_types" and "upper_type (upper_part t)" and "l2_part t @ upper_part t = t"
  using assms by (auto simp: pkt_types_def l2_part_def upper_part_def)

lemma pkt_types_not_Nil: "pkt_types t \<Longrightarrow> t \<noteq> []"
  by (auto simp: pkt_types_def l2_part_def l2_types_def)

lemma upper_type_no_l2: "upper_type up \<Longrightarrow> h \<in> set up \<Longrightarrow> \<not> is_l2 h"
  by (cases up rule: upper_type.cases)
     (auto simp: is_l2_def ipv4_uppers_def ipv6_uppers_def split: if_splits)

lemma l2_types_cases:
  assumes "l2 \<in> set l2_types"
  obtains "l2 = [ETHERNET]" | "l2 = [ETHERNET, ISID]" | "l2 = [ETHERNET, VLAN, ISID]" | "l2 = [IEEE8023]"
    | "l2 = [ETHERNET, VLAN]" | "l2 = [IEEE8023, VLAN]" | "l2 = [ETHERNET, VLAN, VLAN]"
    | "l2 = [IEEE8023, VLAN, VLAN]"
  using assms by (auto simp: l2_types_def)

text \<open>What can stand above a header decides what can stand above the link layer.\<close>

lemma mpls_in_upper:
  assumes "pkt_types t" and "has t PT_PROTO_MPLS"
  obtains n where "t = l2_part t @ [MPLS_nlabels n]" and "1 \<le> n" and "n \<le> 32"
proof -
  obtain l2 up where t: "t = l2 @ up" "l2 \<in> set l2_types" "upper_type up"
    using assms(1) by (rule pkt_typesE)
  have "\<exists>h \<in> set up. proto_of h = PT_PROTO_MPLS"
    using assms(2) t(1,2) by (force simp: has_def l2_types_def)
  then obtain n where "up = [MPLS_nlabels n]" and "1 \<le> n" and "n \<le> 32"
    using t(3)
    by (cases up rule: upper_type.cases) (auto simp: ipv4_uppers_def ipv6_uppers_def split: if_splits)
  then show ?thesis using that t parts_append(1) [OF l2_types_is_l2] by auto
qed

lemma mpls_num_of_labels_l2: "l2 \<in> set l2_types \<Longrightarrow> mpls_num_of_labels l2 = 0"
  by (auto simp: l2_types_def mpls_num_of_labels_def)

lemma mpls_num_of_labels_append [simp]:
  "mpls_num_of_labels (a @ b) = mpls_num_of_labels a + mpls_num_of_labels b"
  by (simp add: mpls_num_of_labels_def)

lemma mpls_num_of_labels_upper: "upper_type up \<Longrightarrow> mpls_num_of_labels up \<le> 32"
  by (cases up rule: upper_type.cases)
     (auto simp: mpls_num_of_labels_def ipv4_uppers_def ipv6_uppers_def split: if_splits)

lemma mpls_num_of_labels_le: "pkt_types t \<Longrightarrow> mpls_num_of_labels t \<le> 32"
  by (erule pkt_typesE) (simp add: mpls_num_of_labels_l2 mpls_num_of_labels_upper)

section \<open>The transitions stay inside the types\<close>

lemma parse_transitions_valid: "parse_transitions t u = Some t' \<Longrightarrow> pkt_types t'"
  by (auto simp: parse_transitions_def split: if_splits)

lemma l2_upper_valid: "pkt_types t \<Longrightarrow> upper_type up \<Longrightarrow> pkt_types (l2_part t @ up)"
  by (rule pkt_types_append) (auto dest: pkt_types_parts)

lemma l2_valid: "pkt_types t \<Longrightarrow> pkt_types (l2_part t)"
  using l2_upper_valid [of t "[]"] by simp

lemma vlan_filter: "pkt_types t \<Longrightarrow> filter ((=) VLAN) t = filter ((=) VLAN) (l2_part t)"
proof (erule pkt_typesE)
  fix l2 up assume t: "t = l2 @ up" "l2 \<in> set l2_types" "upper_type up"
  have "filter ((=) VLAN) up = []"
    using upper_type_no_l2 [OF t(3)] by (auto simp: filter_empty_conv is_l2_def)
  then show ?thesis using t parts_append(1) [OF l2_types_is_l2] by simp
qed

lemma has_l2: "pkt_types t \<Longrightarrow> p \<in> {PT_PROTO_ISID, PT_PROTO_VLAN} \<Longrightarrow> has t p \<longleftrightarrow> Hdr p \<in> set (l2_part t)"
proof (erule pkt_typesE)
  fix l2 up assume p: "p \<in> {PT_PROTO_ISID, PT_PROTO_VLAN}" and t: "t = l2 @ up" "l2 \<in> set l2_types" "upper_type up"
  have "h = Hdr p" if "proto_of h = p" for h using that p by (cases h) auto
  moreover have "Hdr p \<notin> set up" using upper_type_no_l2 [OF t(3), of "Hdr p"] p by (auto simp: is_l2_def)
  ultimately show ?thesis
    using t parts_append(1) [OF l2_types_is_l2 [OF t(2)] t(3)] by (force simp: has_def)
qed

lemma push_vlan_valid:
  assumes "pkt_types t" and "\<not> has t PT_PROTO_ISID" and "length (filter ((=) VLAN) t) \<noteq> 2"
  shows "pkt_types (hd t # VLAN # tl t)"
proof -
  obtain l2 up where t: "t = l2 @ up" "l2 \<in> set l2_types" "upper_type up"
    using assms(1) by (rule pkt_typesE)
  then have "ISID \<notin> set l2" and "length (filter ((=) VLAN) l2) \<noteq> 2"
    using assms has_l2 [OF assms(1), of PT_PROTO_ISID] vlan_filter [OF assms(1)] parts_append(1) [OF l2_types_is_l2]
    by auto
  then have "hd l2 # VLAN # tl l2 \<in> set l2_types" and "l2 \<noteq> []"
    using t(2) by (auto elim!: l2_types_cases simp: l2_types_def)
  then show ?thesis
    using pkt_types_append [OF _ t(3), of "hd l2 # VLAN # tl l2"] t(1) by (cases l2) auto
qed

lemma push_transitions_valid: "push_transitions t u = Some t' \<Longrightarrow> pkt_types t \<Longrightarrow> pkt_types t'"
proof -
  assume push: "push_transitions t u = Some t'" and t: "pkt_types t"
  have gre: "pkt_types [ETHERNET, IPV4_noptions 0, GRE4]" "pkt_types [ETHERNET, IPV6, GRE6]"
      "pkt_types [ETHERNET, ISID]"
    by code_simp+
  have up: "upper_type [IPV4_noptions 0, UDP, GTPU4]" "upper_type [IPV6, UDP, GTPU6]"
    by code_simp+
  note gtp = l2_upper_valid [OF t up(1)] l2_upper_valid [OF t up(2)]
  have ppp: "pkt_types (t @ [PPP])" if "has t PT_PROTO_PPPOE" "\<not> has t PT_PROTO_PPP"
  proof -
    obtain l2 up where l2: "t = l2 @ up" "l2 \<in> set l2_types" "upper_type up"
      using t by (rule pkt_typesE)
    then have "up = [PPPOE]"
      using that by (cases up rule: upper_type.cases)
        (auto simp: has_def l2_types_def ipv4_uppers_def ipv6_uppers_def split: if_splits)
    then show ?thesis using l2 pkt_types_append [of l2 "[PPPOE, PPP]"] by simp
  qed
  show ?thesis
    using push t
    by (auto simp: push_transitions_def l2_upper_valid gtp gre ppp push_vlan_valid
        split: unrolled.splits if_splits)
qed

lemma pop_transitions_valid: "pop_transitions t u = Some t' \<Longrightarrow> pkt_types t \<Longrightarrow> pkt_types t'"
proof -
  assume pop: "pop_transitions t u = Some t'" and t: "pkt_types t"
  obtain l2 up where l2: "t = l2 @ up" "l2 \<in> set l2_types" "upper_type up"
    using t by (rule pkt_typesE)
  have isid: "pkt_types (remove1 ISID t)" if "has t PT_PROTO_ISID" "\<not> has t PT_PROTO_VLAN"
  proof -
    have "l2 = [ETHERNET, ISID]"
      using that l2(2) has_l2 [OF t, of PT_PROTO_ISID] has_l2 [OF t, of PT_PROTO_VLAN] l2
        parts_append(1) [OF l2_types_is_l2 [OF l2(2)] l2(3)]
      by (auto elim!: l2_types_cases)
    then show ?thesis using l2 pkt_types_append [of "[ETHERNET]" up] by (simp add: l2_types_def)
  qed
  have vlan: "pkt_types (remove1 VLAN t)" if "has t PT_PROTO_VLAN" "\<not> has t PT_PROTO_ISID"
  proof -
    have "VLAN \<in> set l2" and "ISID \<notin> set l2"
      using that l2 has_l2 [OF t] parts_append(1) [OF l2_types_is_l2 [OF l2(2)] l2(3)] by auto
    then have "remove1 VLAN l2 \<in> set l2_types" and "remove1 VLAN t = remove1 VLAN l2 @ up"
      using l2(1,2) by (auto elim!: l2_types_cases simp: l2_types_def remove1_append)
    then show ?thesis using pkt_types_append l2(3) by simp
  qed
  have pppoe: "pkt_types (remove1 PPPOE t)" if "\<not> has t PT_PROTO_PPP"
  proof (cases "PPPOE \<in> set t")
    case True
    then have "up = [PPPOE]"
      using that l2 by (cases up rule: upper_type.cases)
        (auto simp: has_def l2_types_def ipv4_uppers_def ipv6_uppers_def split: if_splits)
    moreover have "PPPOE \<notin> set l2" using l2(2) by (auto simp: l2_types_def)
    ultimately show ?thesis using l2 pkt_types_append [of l2 "[]"] by (simp add: remove1_append)
  qed (simp add: remove1_idem t)
  have ppp: "pkt_types (remove1 PPP t)" if "has t PT_PROTO_PPP"
  proof -
    have "up = [PPPOE, PPP]"
      using that l2 by (cases up rule: upper_type.cases)
        (auto simp: has_def l2_types_def ipv4_uppers_def ipv6_uppers_def split: if_splits)
    moreover have "PPP \<notin> set l2" using l2(2) by (auto simp: l2_types_def)
    ultimately show ?thesis using l2 pkt_types_append [of l2 "[PPPOE]"] by (simp add: remove1_append)
  qed
  have "mpls_num_of_labels t - 1 \<le> 32" using mpls_num_of_labels_le [OF t] by simp
  then show ?thesis
    using pop t
    by (auto simp: pop_transitions_def l2_upper_valid l2_valid isid vlan pppoe ppp
        split: unrolled.splits if_splits)
qed

section \<open>Offsets are sizes of prefixes\<close>

definition total_size :: "pkt_type \<Rightarrow> nat" where
  "total_size t = sum_list (map header_size t)"

lemma total_size_simps [simp]:
  "total_size [] = 0" "total_size (h # hs) = header_size h + total_size hs"
  "total_size (xs @ ys) = total_size xs + total_size ys"
  by (simp_all add: total_size_def)

lemma offsets_append:
  "protocol_offsets_bt (xs @ ys) p =
     (case protocol_offsets_bt xs p of
        Some a \<Rightarrow> Some a
      | None \<Rightarrow> map_option ((+) (total_size xs)) (protocol_offsets_bt ys p))"
  by (induction xs; cases "protocol_offsets_bt ys p") (auto split: option.splits)

lemma offsets_None_iff: "protocol_offsets_bt t p = None \<longleftrightarrow> \<not> has t p"
  by (induction t) (auto simp: has_def)

lemma offsets_SomeE:
  assumes "protocol_offsets_bt t p = Some a"
  obtains xs h ys where "t = xs @ h # ys" and "proto_of h = p" and "a = total_size xs" and "\<not> has xs p"
proof -
  have "\<exists>xs h ys. t = xs @ h # ys \<and> proto_of h = p \<and> a = total_size xs \<and> \<not> has xs p"
    using assms
  proof (induction t arbitrary: a)
    case (Cons h t)
    show ?case
    proof (cases "proto_of h = p")
      case True
      then show ?thesis using Cons.prems by (intro exI [of _ "[]"]) (auto simp: has_def)
    next
      case False
      then obtain b where b: "protocol_offsets_bt t p = Some b" "a = header_size h + b"
        using Cons.prems by auto
      then obtain xs h' ys where "t = xs @ h' # ys" "proto_of h' = p" "b = total_size xs" "\<not> has xs p"
        using Cons.IH by blast
      then show ?thesis
        using b False by (intro exI [of _ "h # xs"] exI [of _ h'] exI [of _ ys]) (auto simp: has_def)
    qed
  qed simp
  then show ?thesis using that by blast
qed

lemma total_size_l2: "l2 \<in> set l2_types \<Longrightarrow> total_size l2 \<le> 30"
  by (erule l2_types_cases) simp_all

lemma total_size_upper: "upper_type up \<Longrightarrow> total_size up \<le> 112"
  by (cases up rule: upper_type.cases)
     (auto simp: ipv4_uppers_def ipv6_uppers_def split: if_splits)

lemma total_size_le: "pkt_types t \<Longrightarrow> total_size t \<le> 142"
  by (erule pkt_typesE) (use total_size_l2 total_size_upper in fastforce)

fun unrolled_proto :: "unrolled \<Rightarrow> protocol" where
  "unrolled_proto (UNROLLED p) = p"
| "unrolled_proto (UNROLLED_IPV4_noptions n) = PT_PROTO_IPV4"

lemma has_simps:
  "\<not> has [] q" "has (h # a) q \<longleftrightarrow> proto_of h = q \<or> has a q" "has (a @ b) q \<longleftrightarrow> has a q \<or> has b q"
  by (auto simp: has_def)

section \<open>Properties of the tables\<close>

text \<open>Every transition of the three tables leads from a packet type to a packet type.\<close>
lemma transitions_closed:
  assumes "pkt_types t"
  shows "(parse_transitions t u = Some t' \<longrightarrow> pkt_types t') \<and>
         (push_transitions t u = Some t' \<longrightarrow> pkt_types t') \<and>
         (pop_transitions t u = Some t' \<longrightarrow> pkt_types t')"
  using assms parse_transitions_valid push_transitions_valid pop_transitions_valid by blast

text \<open>A parse transition other than MPLS appends the parsed header: its offset is the total size of
  the headers before it (which is where the parser stands), and the offset of every other header is kept.\<close>
lemma parse_transitions_offsets:
  assumes "parse_transitions t u = Some t'" and "unrolled_proto u \<noteq> PT_PROTO_MPLS"
    and "\<not> has t (unrolled_proto u)"
  shows "protocol_offsets_bt t' (unrolled_proto u) = Some (total_size t) \<and>
         (\<forall>p. p \<noteq> unrolled_proto u \<longrightarrow> protocol_offsets_bt t' p = protocol_offsets_bt t p)"
proof -
  obtain h where t': "t' = t @ [h]" and h: "proto_of h = unrolled_proto u"
    using assms(1,2)
    by (cases u) (auto simp: parse_transitions_def parse_step_def split: if_splits)
  have "protocol_offsets_bt t (unrolled_proto u) = None"
    using assms(3) by (simp add: offsets_None_iff)
  then show ?thesis using h by (auto simp: t' offsets_append split: option.splits)
qed

text \<open>Popping a tag that has just been pushed leads back: to the type itself for a VLAN tag, a PPP
  header and a further MPLS label, to its link-layer part for the headers beyond which nothing is
  parsed. Popping the I-SID tag from the type a push of PBB leads to leaves the type as it is.\<close>
lemma push_pop_transitions:
  assumes "pkt_types t" and "push_transitions t (UNROLLED p) = Some t'"
  shows "pop_transitions t' (UNROLLED p) =
           Some (if p = PT_PROTO_VLAN \<or> p = PT_PROTO_PPP \<or> p = PT_PROTO_MPLS \<and> has t PT_PROTO_MPLS then t
                 else if p = PT_PROTO_ISID then [ETHERNET, ISID]
                 else if p = PT_PROTO_GRE4 \<or> p = PT_PROTO_GRE6 then [ETHERNET]
                 else l2_part t)"
proof -
  obtain l2 up where t: "t = l2 @ up" "l2 \<in> set l2_types" "upper_type up"
    using assms(1) by (rule pkt_typesE)
  note l2 = parts_append(1) [OF l2_types_is_l2 [OF t(2)]]
  have l2t: "l2_part t = l2" using l2 t(1,3) by simp
  have no: "\<not> has l2 PT_PROTO_MPLS" "\<not> has l2 PT_PROTO_PPP" "\<not> has l2 PT_PROTO_PPPOE" "PPPOE \<notin> set l2"
      "l2 \<noteq> []" "hd l2 \<noteq> VLAN"
    using t(2) by (auto simp: has_def l2_types_def)
  have up: "upper_type [MPLS_nlabels 1]" "upper_type [IPV4_noptions 0, UDP, GTPU4]" "upper_type [IPV6, UDP, GTPU6]"
    by code_simp+
  consider (vlan) "p = PT_PROTO_VLAN" | (mpls) "p = PT_PROTO_MPLS" | (ppp) "p = PT_PROTO_PPP"
    | (pppoe) "p = PT_PROTO_PPPOE" | (isid) "p = PT_PROTO_ISID" | (gre) "p = PT_PROTO_GRE4 \<or> p = PT_PROTO_GRE6"
    | (gtp) "p = PT_PROTO_GTPU4 \<or> p = PT_PROTO_GTPU6"
    using assms(2) by (auto simp: push_transitions_def split: if_splits)
  then show ?thesis
  proof cases
    case vlan
    then show ?thesis
      using assms(2) no t(1)
      by (cases l2) (auto simp: push_transitions_def pop_transitions_def has_simps split: if_splits)
  next
    case mpls
    show ?thesis
    proof (cases "has t PT_PROTO_MPLS")
      case True
      then obtain n where n: "t = l2 @ [MPLS_nlabels n]" "1 \<le> n"
        using mpls_in_upper [OF assms(1)] l2t by metis
      then have num: "mpls_num_of_labels t = n"
        by (simp add: mpls_num_of_labels_l2 [OF t(2)]) (simp add: mpls_num_of_labels_def)
      then have t': "t' = l2 @ [MPLS_nlabels (n + 1)]" "n + 1 < 32" "\<not> has t PT_PROTO_ISID"
        using assms(2) True mpls l2t by (auto simp: push_transitions_def split: if_splits)
      have "mpls_num_of_labels t' = n + 1"
        by (simp add: t' mpls_num_of_labels_l2 [OF t(2)]) (simp add: mpls_num_of_labels_def)
      moreover have "l2_part t' = l2" unfolding t'(1) by (rule l2) (use t'(2) in simp)
      ultimately show ?thesis
        using mpls True t' n by (simp add: pop_transitions_def has_simps)
    next
      case False
      then have t': "t' = l2 @ [MPLS_nlabels 1]" "\<not> has t PT_PROTO_ISID"
        using assms(2) mpls l2t by (auto simp: push_transitions_def split: if_splits)
      have "mpls_num_of_labels t' = 1"
        by (simp add: t' mpls_num_of_labels_l2 [OF t(2)]) (simp add: mpls_num_of_labels_def)
      moreover have "l2_part t' = l2" unfolding t'(1) by (rule l2 [OF up(1)])
      ultimately show ?thesis
        using mpls False t' t(1) l2t by (simp add: pop_transitions_def has_simps)
    qed
  next
    case ppp
    then have t': "t' = t @ [PPP]" "\<not> has t PT_PROTO_PPP" "\<not> has t PT_PROTO_ISID"
      using assms(2) by (auto simp: push_transitions_def split: if_splits)
    then have "PPP \<notin> set t" by (force simp: has_def)
    then show ?thesis using ppp t' by (simp add: pop_transitions_def has_simps remove1_append)
  next
    case pppoe
    then show ?thesis
      using assms(2) no l2t t(1)
      by (auto simp: push_transitions_def pop_transitions_def has_simps remove1_append split: if_splits)
  next
    case isid
    then show ?thesis
      using assms(2) by (auto simp: push_transitions_def pop_transitions_def has_simps split: if_splits)
  next
    case gre
    then show ?thesis
      using assms(2) by (auto simp: push_transitions_def pop_transitions_def has_simps l2_part_def is_l2_def split: if_splits)
  next
    case gtp
    define x where "x = (if p = PT_PROTO_GTPU4 then [IPV4_noptions 0, UDP, GTPU4] else [IPV6, UDP, GTPU6])"
    have t': "t' = l2 @ x" "\<not> has l2 PT_PROTO_VLAN" "\<not> has l2 PT_PROTO_ISID"
      using assms(2) gtp t(1) l2t by (auto simp: push_transitions_def x_def has_simps split: if_splits)
    moreover have "has x p" "\<not> has x PT_PROTO_VLAN" "\<not> has x PT_PROTO_ISID"
      using gtp by (auto simp: x_def has_simps)
    moreover have "l2_part t' = l2"
      unfolding t'(1) by (rule l2) (use up in \<open>simp add: x_def\<close>)
    ultimately show ?thesis using gtp l2t by (auto simp: pop_transitions_def has_simps)
  qed
qed

text \<open>Above the link layer of a type without an I-SID tag, the first header starts right after the
  two bytes of the Ethertype, and the Ethertype lies inside the first 30 bytes.\<close>
lemma eth_type_precedes_upper:
  assumes "pkt_types t" and "\<not> has t PT_PROTO_ISID"
  shows "eth_type_offsets t + 2 \<le> 30 \<and>
         (\<forall>h hs. upper_part t = h # hs \<longrightarrow> protocol_offsets_bt t (proto_of h) = Some (eth_type_offsets t + 2))"
proof -
  obtain l2 up where t: "t = l2 @ up" "l2 \<in> set l2_types" "upper_type up"
    using assms(1) by (rule pkt_typesE)
  note parts = parts_append [OF l2_types_is_l2 [OF t(2)] t(3), folded t(1)]
  have "ISID \<notin> set l2" using assms(2) t(1) by (force simp: has_def)
  then have size: "eth_type_offsets t + 2 = total_size l2" "total_size l2 \<le> 30"
    using t(2) by (auto simp: eth_type_offsets_def parts elim!: l2_types_cases)
  moreover have "protocol_offsets_bt t (proto_of h) = Some (total_size l2)" if "up = h # hs" for h hs
  proof -
    have "\<not> is_l2 h" using upper_type_not_l2 t(3) that by auto
    then have "\<not> has l2 (proto_of h)"
      using t(2) by (cases h) (auto simp: has_def l2_types_def is_l2_def)
    then have "protocol_offsets_bt l2 (proto_of h) = None" by (simp add: offsets_None_iff)
    then show ?thesis by (simp add: t(1) that offsets_append)
  qed
  ultimately show ?thesis by (simp add: parts)
qed

end
