(* ===== verification/Classifier.thy ===== *)
theory Classifier
  imports Cpc_L2 Cpc_L3 Cpc_L4 Pkt_Types
begin

text \<open>
  The packet classifier (\<open>c_types_pktclassifier.h\<close>): the state, the flags for checksums to be
  recalculated, the header getters, the parsers and \<open>classify_packet\<close>.

  A parser takes the state, the offset of the data and the remaining length and returns the new state;
  \<open>None\<close> is an access outside the packet's memory object or, in a build without \<open>NDEBUG\<close>, a failed
  \<open>assert\<close>. The macro \<open>PT_CLASS_ADD_PROTO\<close> contains a \<open>return\<close>, so it takes the rest of the
  function as its continuation. The two loops (MPLS labels, VLAN tags) terminate because the packet
  type grows with each round and there are finitely many types.

  The lemmas show that classification is total and stays within the first 158 bytes whatever the
  length it is given, and that the type it assigns describes the bytes: \<open>describes\<close> relates a
  packet type to a frame header by header.
\<close>

section \<open>State\<close>

datatype calculate_checksum =
    RESET_CHECKSUM_IN_SW_FLAGS | RECALCULATE_IPV4_CHECKSUM_IN_SW | RECALCULATE_TCP_CHECKSUM_IN_SW
  | RECALCULATE_UDP_CHECKSUM_IN_SW | RECALCULATE_SCTP_CHECKSUM_IN_SW
  | RECALCULATE_ICMPV4_CHECKSUM_IN_SW | RECALCULATE_ICMPV6_CHECKSUM_IN_SW | RECALCULATE_GRE_CHECKSUM_IN_SW

fun checksum_number :: "calculate_checksum \<Rightarrow> nat" where
  "checksum_number RESET_CHECKSUM_IN_SW_FLAGS = 0"
| "checksum_number RECALCULATE_IPV4_CHECKSUM_IN_SW = 1"
| "checksum_number RECALCULATE_TCP_CHECKSUM_IN_SW = 2"
| "checksum_number RECALCULATE_UDP_CHECKSUM_IN_SW = 3"
| "checksum_number RECALCULATE_SCTP_CHECKSUM_IN_SW = 4"
| "checksum_number RECALCULATE_ICMPV4_CHECKSUM_IN_SW = 5"
| "checksum_number RECALCULATE_ICMPV6_CHECKSUM_IN_SW = 6"
| "checksum_number RECALCULATE_GRE_CHECKSUM_IN_SW = 7"

text \<open>\<open>clas_type = None\<close> is \<open>PT_INVALID\<close>; \<open>base\<close> is an offset in the packet's memory object.\<close>

record classifier_state =
  clas_type :: "pkt_type option"
  base :: nat
  len :: u64
  port_in :: u32
  phy_port_in :: u32
  calculate_checksums_in_sw :: u32

definition set_recalculate_checksum :: "classifier_state \<Rightarrow> calculate_checksum \<Rightarrow> classifier_state" where
  "set_recalculate_checksum s typ =
     s\<lparr>calculate_checksums_in_sw := calculate_checksums_in_sw s OR push_bit (checksum_number typ) 1\<rparr>"

definition is_recalculate_checksum_flag_set :: "classifier_state \<Rightarrow> calculate_checksum \<Rightarrow> bool" where
  "is_recalculate_checksum_flag_set s typ \<longleftrightarrow>
     0 < (calculate_checksums_in_sw s AND push_bit (checksum_number typ) 1)"

section \<open>Header getters\<close>

text \<open>\<open>PT_GET_HDR\<close>: the outer \<open>None\<close> is a table access with \<open>PT_INVALID\<close> as index, the inner one is
  \<open>NULL\<close>. The macro recognises the entry \<open>-1\<close> by the sum being below \<open>base\<close>.\<close>

definition PT_GET_HDR :: "classifier_state \<Rightarrow> protocol \<Rightarrow> nat option option" where
  "PT_GET_HDR s p = do {
     t \<leftarrow> clas_type s;
     Some (map_option ((+) (base s)) (protocol_offsets_bt t p)) }"

text \<open>The first of several macros that does not give \<open>NULL\<close>.\<close>

fun PT_GET_HDR_first :: "classifier_state \<Rightarrow> protocol list \<Rightarrow> nat option option" where
  "PT_GET_HDR_first s [] = Some None"
| "PT_GET_HDR_first s (p # ps) = do {
     tmp \<leftarrow> PT_GET_HDR s p;
     if tmp = None then PT_GET_HDR_first s ps else Some tmp }"

definition get_ether_hdr :: "classifier_state \<Rightarrow> int \<Rightarrow> nat option option" where
  "get_ether_hdr s idx = PT_GET_HDR_first s [PT_PROTO_ETHERNET, PT_PROTO_8023]"

definition get_vlan_hdr :: "classifier_state \<Rightarrow> int \<Rightarrow> nat option option" where
  "get_vlan_hdr s idx = PT_GET_HDR s PT_PROTO_VLAN"

definition get_pbb_isid_hdr :: "classifier_state \<Rightarrow> int \<Rightarrow> nat option option" where
  "get_pbb_isid_hdr s idx = PT_GET_HDR s PT_PROTO_ISID"

definition get_mpls_hdr :: "classifier_state \<Rightarrow> int \<Rightarrow> nat option option" where
  "get_mpls_hdr s idx =
     (if idx = 0 then PT_GET_HDR s PT_PROTO_MPLS
      else do {
        t \<leftarrow> clas_type s;
        let num_of_lables = int (mpls_num_of_labels t);
        if idx \<ge> 0 then
          if idx < num_of_lables then do {
            tmp \<leftarrow> PT_GET_HDR s PT_PROTO_MPLS;
            Some (map_option (\<lambda>tmp. tmp + nat idx * 4) tmp) }
          else Some None
        else
          if num_of_lables + idx + 1 \<ge> 0 then do {
            tmp \<leftarrow> PT_GET_HDR s PT_PROTO_MPLS;
            Some (map_option (\<lambda>tmp. tmp + nat (num_of_lables + idx + 1) * 4) tmp) }
          else Some None })"

definition get_arpv4_hdr :: "classifier_state \<Rightarrow> int \<Rightarrow> nat option option" where
  "get_arpv4_hdr s idx = PT_GET_HDR s PT_PROTO_ARPV4"

definition get_ipv4_hdr :: "classifier_state \<Rightarrow> int \<Rightarrow> nat option option" where
  "get_ipv4_hdr s idx = PT_GET_HDR s PT_PROTO_IPV4"

definition get_icmpv4_hdr :: "classifier_state \<Rightarrow> int \<Rightarrow> nat option option" where
  "get_icmpv4_hdr s idx = PT_GET_HDR s PT_PROTO_ICMPV4"

definition get_ipv6_hdr :: "classifier_state \<Rightarrow> int \<Rightarrow> nat option option" where
  "get_ipv6_hdr s idx = PT_GET_HDR s PT_PROTO_IPV6"

definition get_icmpv6_hdr :: "classifier_state \<Rightarrow> int \<Rightarrow> nat option option" where
  "get_icmpv6_hdr s idx = PT_GET_HDR s PT_PROTO_ICMPV6"

definition get_icmpv6_opt_hdr :: "classifier_state \<Rightarrow> int \<Rightarrow> nat option option" where
  "get_icmpv6_opt_hdr s idx = PT_GET_HDR s PT_PROTO_ICMPV6_OPTS"

definition get_icmpv6_opt_lladr_source_hdr :: "classifier_state \<Rightarrow> int \<Rightarrow> nat option option" where
  "get_icmpv6_opt_lladr_source_hdr s idx = PT_GET_HDR_first s
     [PT_PROTO_ICMPV6_OPTS_LLADR_SRC, PT_PROTO_ICMPV6_RTR_SOL_OPTS_LLADR_SRC,
      PT_PROTO_ICMPV6_RTR_ADV_OPTS_LLADR_SRC, PT_PROTO_ICMPV6_NEIGH_SOL_OPTS_LLADR_SRC]"

definition get_icmpv6_opt_lladr_target_hdr :: "classifier_state \<Rightarrow> int \<Rightarrow> nat option option" where
  "get_icmpv6_opt_lladr_target_hdr s idx = PT_GET_HDR_first s
     [PT_PROTO_ICMPV6_OPTS_LLADR_TGT, PT_PROTO_ICMPV6_NEIGH_ADV_OPTS_LLADR_TGT]"

definition get_icmpv6_opt_prefix_info_hdr :: "classifier_state \<Rightarrow> int \<Rightarrow> nat option option" where
  "get_icmpv6_opt_prefix_info_hdr s idx = PT_GET_HDR s PT_PROTO_ICMPV6_OPTS_PREFIX_INFO"

definition get_sctp_hdr :: "classifier_state \<Rightarrow> int \<Rightarrow> nat option option" where
  "get_sctp_hdr s idx = PT_GET_HDR s PT_PROTO_SCTP"

definition get_udp_hdr :: "classifier_state \<Rightarrow> int \<Rightarrow> nat option option" where
  "get_udp_hdr s idx = PT_GET_HDR s PT_PROTO_UDP"

definition get_tcp_hdr :: "classifier_state \<Rightarrow> int \<Rightarrow> nat option option" where
  "get_tcp_hdr s idx = PT_GET_HDR s PT_PROTO_TCP"

definition get_pppoe_hdr :: "classifier_state \<Rightarrow> int \<Rightarrow> nat option option" where
  "get_pppoe_hdr s idx = PT_GET_HDR s PT_PROTO_PPPOE"

definition get_ppp_hdr :: "classifier_state \<Rightarrow> int \<Rightarrow> nat option option" where
  "get_ppp_hdr s idx = PT_GET_HDR s PT_PROTO_PPP"

definition get_gtpu_hdr :: "classifier_state \<Rightarrow> int \<Rightarrow> nat option option" where
  "get_gtpu_hdr s idx = PT_GET_HDR_first s [PT_PROTO_GTPU4, PT_PROTO_GTPU6]"

definition get_gre_hdr :: "classifier_state \<Rightarrow> int \<Rightarrow> nat option option" where
  "get_gre_hdr s idx = PT_GET_HDR_first s [PT_PROTO_GRE4, PT_PROTO_GRE6]"

text \<open>The (inner) Ethertype, regardless of the packet type.\<close>

definition classifier_get_eth_type :: "classifier_state \<Rightarrow> nat option" where
  "classifier_get_eth_type s = do { t \<leftarrow> clas_type s; Some (base s + eth_type_offsets t) }"

section \<open>Parsers\<close>

definition c_assert :: "rofl \<Rightarrow> bool \<Rightarrow> unit option" where
  "c_assert K b = (if NDEBUG K \<or> b then Some () else None)"

definition PT_CLASS_ADD_PROTO ::
  "rofl \<Rightarrow> classifier_state \<Rightarrow> unrolled \<Rightarrow> (classifier_state \<Rightarrow> classifier_state option) \<Rightarrow> classifier_state option" where
  "PT_CLASS_ADD_PROTO K s u rest = do {
     t \<leftarrow> clas_type s;
     case parse_transitions t u of
       None \<Rightarrow> do { c_assert K False; Some s }
     | Some t' \<Rightarrow> rest (s\<lparr>clas_type := Some t'\<rparr>) }"

definition PT_CLASS_ADD_IPV4_OPTIONS ::
  "rofl \<Rightarrow> classifier_state \<Rightarrow> u32 \<Rightarrow> (classifier_state \<Rightarrow> classifier_state option) \<Rightarrow> classifier_state option" where
  "PT_CLASS_ADD_IPV4_OPTIONS K s num rest =
     (if num \<le> 15 then PT_CLASS_ADD_PROTO K s (UNROLLED_IPV4_noptions (unat num)) rest
      else do { c_assert K False; rest s })"

lemma PT_CLASS_ADD_PROTO_cong [fundef_cong]:
  assumes "K = K'" and "s = s'" and "u = u'"
    and "\<And>t t'. clas_type s' = Some t \<Longrightarrow> parse_transitions t u' = Some t' \<Longrightarrow>
           rest (s'\<lparr>clas_type := Some t'\<rparr>) = rest' (s'\<lparr>clas_type := Some t'\<rparr>)"
  shows "PT_CLASS_ADD_PROTO K s u rest = PT_CLASS_ADD_PROTO K' s' u' rest'"
  using assms by (cases "clas_type s'") (auto simp: PT_CLASS_ADD_PROTO_def split: option.splits)

definition parse_tcp :: "rofl \<Rightarrow> mem \<Rightarrow> classifier_state \<Rightarrow> nat \<Rightarrow> u64 \<Rightarrow> classifier_state option" where
  "parse_tcp K m s data datalen = PT_CLASS_ADD_PROTO K s (UNROLLED PT_PROTO_TCP) Some"

definition parse_gtp :: "rofl \<Rightarrow> mem \<Rightarrow> classifier_state \<Rightarrow> nat \<Rightarrow> u64 \<Rightarrow> classifier_state option" where
  "parse_gtp K m s data datalen =
     (if datalen < of_nat (sizeof_union cpc_gtphu) then Some s
      else do {
        tmp \<leftarrow> PT_GET_HDR s PT_PROTO_IPV4;
        if tmp \<noteq> None then PT_CLASS_ADD_PROTO K s (UNROLLED PT_PROTO_GTPU4) Some
        else do {
          tmp \<leftarrow> PT_GET_HDR s PT_PROTO_IPV6;
          if tmp \<noteq> None then PT_CLASS_ADD_PROTO K s (UNROLLED PT_PROTO_GTPU6) Some
          else Some s } })"

definition parse_udp :: "rofl \<Rightarrow> mem \<Rightarrow> classifier_state \<Rightarrow> nat \<Rightarrow> u64 \<Rightarrow> classifier_state option" where
  "parse_udp K m s data datalen =
     (let udp = data;
          data = data + sizeof cpc_udp_hdr;
          datalen = datalen - of_nat (sizeof cpc_udp_hdr)
      in PT_CLASS_ADD_PROTO K s (UNROLLED PT_PROTO_UDP) (\<lambda>s. do {
           c_assert K (clas_type s \<noteq> None);
           if datalen > 0 then do {
             dport \<leftarrow> load m (get_udp_dport udp);
             if dport = UDP_DST_PORT_GTPU K then parse_gtp K m s data datalen else Some s }
           else Some s }))"

definition parse_sctp :: "rofl \<Rightarrow> mem \<Rightarrow> classifier_state \<Rightarrow> nat \<Rightarrow> u64 \<Rightarrow> classifier_state option" where
  "parse_sctp K m s data datalen = PT_CLASS_ADD_PROTO K s (UNROLLED PT_PROTO_SCTP) Some"

definition parse_gre :: "rofl \<Rightarrow> mem \<Rightarrow> classifier_state \<Rightarrow> nat \<Rightarrow> u64 \<Rightarrow> classifier_state option" where
  "parse_gre K m s data datalen =
     (if datalen < of_nat (sizeof cpc_gre_base_hdr) then Some s
      else do {
        tmp \<leftarrow> PT_GET_HDR s PT_PROTO_IPV4;
        if tmp \<noteq> None then PT_CLASS_ADD_PROTO K s (UNROLLED PT_PROTO_GRE4) Some
        else do {
          tmp \<leftarrow> PT_GET_HDR s PT_PROTO_IPV6;
          if tmp \<noteq> None then PT_CLASS_ADD_PROTO K s (UNROLLED PT_PROTO_GRE6) Some
          else Some s } })"

definition parse_arpv4 :: "rofl \<Rightarrow> mem \<Rightarrow> classifier_state \<Rightarrow> nat \<Rightarrow> u64 \<Rightarrow> classifier_state option" where
  "parse_arpv4 K m s data datalen = PT_CLASS_ADD_PROTO K s (UNROLLED PT_PROTO_ARPV4) (\<lambda>s. do {
     c_assert K (clas_type s \<noteq> None); Some s })"

definition parse_icmpv4 :: "rofl \<Rightarrow> mem \<Rightarrow> classifier_state \<Rightarrow> nat \<Rightarrow> u64 \<Rightarrow> classifier_state option" where
  "parse_icmpv4 K m s data datalen = PT_CLASS_ADD_PROTO K s (UNROLLED PT_PROTO_ICMPV4) (\<lambda>s. do {
     c_assert K (clas_type s \<noteq> None); Some s })"

definition parse_ipv4 :: "rofl \<Rightarrow> mem \<Rightarrow> classifier_state \<Rightarrow> nat \<Rightarrow> u64 \<Rightarrow> classifier_state option" where
  "parse_ipv4 K m s data datalen = do {
     let ipv4 = data;
     ihlvers \<leftarrow> load m (ipv4 + offset_of cpc_ipv4_hdr ''ihlvers'');
     let header_len_bytes = (ucast ((ihlvers :: u8) AND 0x0F) * 4 :: u32);
     let num_of_options = (ucast (ihlvers AND 0x0F) - of_nat (sizeof cpc_ipv4_hdr div 4) :: u32);
     let data = data + unat header_len_bytes;
     let datalen = datalen - ucast header_len_bytes;
     if DEBUG K \<and> num_of_options > 15 then Some s
     else do {
       fragment \<leftarrow> ipv4_is_fragment K m ipv4;
       if fragment then Some s
       else PT_CLASS_ADD_IPV4_OPTIONS K s num_of_options (\<lambda>s. do {
         c_assert K (clas_type s \<noteq> None);
         proto \<leftarrow> load m (get_ipv4_proto ipv4);
         if proto = IPV4_IP_PROTO then Some s
         else if proto = ICMPV4_IP_PROTO then parse_icmpv4 K m s data datalen
         else if proto = UDP_IP_PROTO then parse_udp K m s data datalen
         else if proto = TCP_IP_PROTO then parse_tcp K m s data datalen
         else if proto = SCTP_IP_PROTO then parse_sctp K m s data datalen
         else if proto = GRE_IP_PROTO then parse_gre K m s data datalen
         else Some s }) } }"

definition parse_icmpv6_opts :: "rofl \<Rightarrow> mem \<Rightarrow> classifier_state \<Rightarrow> nat \<Rightarrow> u64 \<Rightarrow> classifier_state option" where
  "parse_icmpv6_opts K m s data datalen = do {
     type \<leftarrow> load m (data + offset_of cpc_icmpv6_option_hdr ''type'');
     if type = ICMPV6_OPT_LLADDR_SOURCE then
       PT_CLASS_ADD_PROTO K s (UNROLLED PT_PROTO_ICMPV6_OPTS_LLADR_SRC) Some
     else if type = ICMPV6_OPT_LLADDR_TARGET then
       PT_CLASS_ADD_PROTO K s (UNROLLED PT_PROTO_ICMPV6_OPTS_LLADR_TGT) Some
     else if type = ICMPV6_OPT_PREFIX_INFO then
       PT_CLASS_ADD_PROTO K s (UNROLLED PT_PROTO_ICMPV6_OPTS_PREFIX_INFO) Some
     else Some s }"

text \<open>The four neighbour-discovery messages the parser knows are treated alike: add the message's header,
  move behind its structure, and add the option that is expected there if it is the first one.\<close>

definition parse_icmpv6_message ::
  "rofl \<Rightarrow> mem \<Rightarrow> classifier_state \<Rightarrow> nat \<Rightarrow> protocol \<Rightarrow> u8 \<Rightarrow> protocol \<Rightarrow> classifier_state option" where
  "parse_icmpv6_message K m s data message opt message_opt =
     PT_CLASS_ADD_PROTO K s (UNROLLED message) (\<lambda>s. do {
       c_assert K (clas_type s \<noteq> None);
       first \<leftarrow> load m (data + offset_of cpc_icmpv6_option_hdr ''type'');
       if first = opt then PT_CLASS_ADD_PROTO K s (UNROLLED message_opt) Some else Some s })"

definition parse_icmpv6 :: "rofl \<Rightarrow> mem \<Rightarrow> classifier_state \<Rightarrow> nat \<Rightarrow> u64 \<Rightarrow> classifier_state option" where
  "parse_icmpv6 K m s data datalen =
     PT_CLASS_ADD_PROTO K s (UNROLLED PT_PROTO_ICMPV6) (\<lambda>s. do {
       c_assert K (clas_type s \<noteq> None);
       type \<leftarrow> load m (get_icmpv6_type data);
       if type = ICMPV6_TYPE_ROUTER_SOLICATION then
         parse_icmpv6_message K m s (data + sizeof cpc_icmpv6_router_solicitation_hdr)
           PT_PROTO_ICMPV6_RTR_SOL ICMPV6_OPT_LLADDR_SOURCE PT_PROTO_ICMPV6_RTR_SOL_OPTS_LLADR_SRC
       else if type = ICMPV6_TYPE_ROUTER_ADVERTISEMENT then
         parse_icmpv6_message K m s (data + sizeof cpc_icmpv6_router_advertisement_hdr)
           PT_PROTO_ICMPV6_RTR_ADV ICMPV6_OPT_LLADDR_SOURCE PT_PROTO_ICMPV6_RTR_ADV_OPTS_LLADR_SRC
       else if type = ICMPV6_TYPE_NEIGHBOR_SOLICITATION then
         parse_icmpv6_message K m s (data + sizeof cpc_icmpv6_neighbor_solicitation_hdr)
           PT_PROTO_ICMPV6_NEIGH_SOL ICMPV6_OPT_LLADDR_SOURCE PT_PROTO_ICMPV6_NEIGH_SOL_OPTS_LLADR_SRC
       else if type = ICMPV6_TYPE_NEIGHBOR_ADVERTISEMENT then
         parse_icmpv6_message K m s (data + sizeof cpc_icmpv6_neighbor_advertisement_hdr)
           PT_PROTO_ICMPV6_NEIGH_ADV ICMPV6_OPT_LLADDR_TARGET PT_PROTO_ICMPV6_NEIGH_ADV_OPTS_LLADR_TGT
       else if type = ICMPV6_TYPE_REDIRECT_MESSAGE then
         PT_CLASS_ADD_PROTO K s (UNROLLED PT_PROTO_ICMPV6_REDIRECT) (\<lambda>s. do {
           c_assert K (clas_type s \<noteq> None);
           let data = data + sizeof cpc_icmpv6_redirect_hdr;
           let datalen = datalen - of_nat (sizeof cpc_icmpv6_redirect_hdr);
           if datalen > 0 then parse_icmpv6_opts K m s data datalen else Some s })
       else Some s })"

definition parse_ipv6 :: "rofl \<Rightarrow> mem \<Rightarrow> classifier_state \<Rightarrow> nat \<Rightarrow> u64 \<Rightarrow> classifier_state option" where
  "parse_ipv6 K m s data datalen =
     PT_CLASS_ADD_PROTO K s (UNROLLED PT_PROTO_IPV6) (\<lambda>s. do {
       c_assert K (clas_type s \<noteq> None);
       let ipv6 = data;
       let data = data + sizeof cpc_ipv6_hdr;
       let datalen = datalen - of_nat (sizeof cpc_ipv6_hdr);
       nxt \<leftarrow> load m (get_ipv6_next_header ipv6);
       if nxt = IPV4_IP_PROTO then Some s
       else if nxt = IPV6_IP_PROTO then Some s
       else if nxt = ICMPV6_IP_PROTO then parse_icmpv6 K m s data datalen
       else if nxt = UDP_IP_PROTO then parse_udp K m s data datalen
       else if nxt = TCP_IP_PROTO then parse_tcp K m s data datalen
       else if nxt = SCTP_IP_PROTO then parse_sctp K m s data datalen
       else if nxt = GRE_IP_PROTO then parse_gre K m s data datalen
       else Some s })"

text \<open>The loop over the label stack: one more label in the type per round.\<close>

lemma parse_mpls_increases:
  assumes "parse_transitions t (UNROLLED PT_PROTO_MPLS) = Some t'"
  shows "mpls_num_of_labels t' = mpls_num_of_labels t + 1 \<and> mpls_num_of_labels t' \<le> 32"
proof -
  have "mpls_num_of_labels t' \<le> 32"
    using parse_transitions_valid [OF assms] by (rule mpls_num_of_labels_le)
  moreover have "mpls_num_of_labels (parse_step t (UNROLLED PT_PROTO_MPLS)) = mpls_num_of_labels t + 1"
  proof (cases t rule: rev_cases)
    case (snoc ys y)
    then show ?thesis by (cases y) (simp_all add: parse_step_def, simp_all add: mpls_num_of_labels_def)
  qed (simp add: parse_step_def mpls_num_of_labels_def)
  ultimately show ?thesis using assms by (auto simp: parse_transitions_def split: if_splits)
qed

lemma parse_vlan_increases:
  assumes "parse_transitions t (UNROLLED PT_PROTO_VLAN) = Some t'"
  shows "length t' = length t + 1 \<and> length t' \<le> 3"
proof -
  have t': "t' = t @ [VLAN]" "pkt_types t'"
    using assms by (auto simp: parse_transitions_def parse_step_def split: if_splits)
  obtain l2 up where l2: "t' = l2 @ up" "l2 \<in> set l2_types" "upper_type up"
    using t'(2) by (rule pkt_typesE)
  have "VLAN \<notin> set up" using upper_type_no_l2 [OF l2(3), of VLAN] by (auto simp: is_l2_def)
  then have "up = []" using l2(1) t'(1) by (cases up rule: rev_cases) auto
  then show ?thesis using l2 t'(1) by (auto simp: l2_types_def)
qed

function parse_mpls_loop :: "rofl \<Rightarrow> mem \<Rightarrow> classifier_state \<Rightarrow> nat \<Rightarrow> classifier_state option" where
  "parse_mpls_loop K m s data =
     PT_CLASS_ADD_PROTO K s (UNROLLED PT_PROTO_MPLS) (\<lambda>s. do {
       bos \<leftarrow> get_mpls_bos K m data;
       if bos then do { c_assert K (clas_type s \<noteq> None); Some s }
       else parse_mpls_loop K m s (data + sizeof cpc_mpls_hdr) })"
  by auto
termination
  by (relation "measure (\<lambda>(K, m, s, data). 33 - mpls_num_of_labels (the (clas_type s)))")
     (auto dest: parse_mpls_increases)

definition parse_mpls :: "rofl \<Rightarrow> mem \<Rightarrow> classifier_state \<Rightarrow> nat \<Rightarrow> u64 \<Rightarrow> classifier_state option" where
  "parse_mpls K m s data datalen = parse_mpls_loop K m s data"

definition parse_ppp :: "rofl \<Rightarrow> mem \<Rightarrow> classifier_state \<Rightarrow> nat \<Rightarrow> u64 \<Rightarrow> classifier_state option" where
  "parse_ppp K m s data datalen = PT_CLASS_ADD_PROTO K s (UNROLLED PT_PROTO_PPP) (\<lambda>s. do {
     c_assert K (clas_type s \<noteq> None); Some s })"

definition parse_pppoe :: "rofl \<Rightarrow> mem \<Rightarrow> classifier_state \<Rightarrow> nat \<Rightarrow> u64 \<Rightarrow> u16 \<Rightarrow> classifier_state option" where
  "parse_pppoe K m s data datalen eth_type =
     PT_CLASS_ADD_PROTO K s (UNROLLED PT_PROTO_PPPOE) (\<lambda>s. do {
       c_assert K (clas_type s \<noteq> None);
       if eth_type = ETH_TYPE_PPPOE_DISCOVERY K then Some s
       else if eth_type = ETH_TYPE_PPPOE_SESSION K then
         parse_ppp K m s (data + sizeof cpc_pppoe_hdr) (datalen - of_nat (sizeof cpc_pppoe_hdr))
       else Some s })"

definition parse_pbb_isid :: "rofl \<Rightarrow> mem \<Rightarrow> classifier_state \<Rightarrow> nat \<Rightarrow> u64 \<Rightarrow> classifier_state option" where
  "parse_pbb_isid K m s data datalen = PT_CLASS_ADD_PROTO K s (UNROLLED PT_PROTO_ISID) Some"

text \<open>The loop over the VLAN tags.\<close>

function parse_vlan :: "rofl \<Rightarrow> mem \<Rightarrow> classifier_state \<Rightarrow> nat \<Rightarrow> u64 \<Rightarrow> classifier_state option" where
  "parse_vlan K m s data datalen = do {
     eth_type \<leftarrow> load m (get_vlan_type data);
     let data = data + sizeof cpc_vlan_hdr;
     let datalen = datalen - of_nat (sizeof cpc_vlan_hdr);
     PT_CLASS_ADD_PROTO K s (UNROLLED PT_PROTO_VLAN) (\<lambda>s.
       if eth_type = VLAN_CTAG_ETHER_TYPE K \<or> eth_type = VLAN_STAG_ETHER_TYPE K
       then parse_vlan K m s data datalen
       else do {
         c_assert K (clas_type s \<noteq> None);
         if eth_type = VLAN_ITAG_ETHER_TYPE K then parse_pbb_isid K m s data datalen
         else if eth_type = ETH_TYPE_MPLS_UNICAST K \<or> eth_type = ETH_TYPE_MPLS_MULTICAST K
           then parse_mpls K m s data datalen
         else if eth_type = ETH_TYPE_PPPOE_DISCOVERY K \<or> eth_type = ETH_TYPE_PPPOE_SESSION K
           then parse_pppoe K m s data datalen eth_type
         else if eth_type = ETH_TYPE_ARP K then parse_arpv4 K m s data datalen
         else if eth_type = ETH_TYPE_IPV4 K then parse_ipv4 K m s data datalen
         else if eth_type = ETH_TYPE_IPV6 K then parse_ipv6 K m s data datalen
         else Some s }) }"
  by auto
termination
  by (relation "measure (\<lambda>(K, m, s, data, datalen). 4 - length (the (clas_type s)))")
     (auto dest: parse_vlan_increases)

definition parse_ethernet :: "rofl \<Rightarrow> mem \<Rightarrow> classifier_state \<Rightarrow> nat \<Rightarrow> u64 \<Rightarrow> classifier_state option" where
  "parse_ethernet K m s data datalen = do {
     let ether = data;
     llc \<leftarrow> is_llc_frame K m ether;
     let hsize = (if llc then sizeof cpc_eth_llc_hdr else sizeof cpc_eth_hdr);
     let data = data + hsize;
     let datalen = datalen - of_nat hsize;
     let s = s\<lparr>clas_type := Some (if llc then [IEEE8023] else [ETHERNET])\<rparr>;
     pos \<leftarrow> get_ether_type K m ether;
     eth_type \<leftarrow> load m pos;
     if eth_type = VLAN_ITAG_ETHER_TYPE K then parse_pbb_isid K m s data datalen
     else if eth_type = VLAN_CTAG_ETHER_TYPE K \<or> eth_type = VLAN_STAG_ETHER_TYPE K
       then parse_vlan K m s data datalen
     else if eth_type = ETH_TYPE_MPLS_UNICAST K \<or> eth_type = ETH_TYPE_MPLS_MULTICAST K
       then parse_mpls K m s data datalen
     else if eth_type = ETH_TYPE_PPPOE_DISCOVERY K \<or> eth_type = ETH_TYPE_PPPOE_SESSION K
       then parse_pppoe K m s data datalen eth_type
     else if eth_type = ETH_TYPE_ARP K then parse_arpv4 K m s data datalen
     else if eth_type = ETH_TYPE_IPV4 K then parse_ipv4 K m s data datalen
     else if eth_type = ETH_TYPE_IPV6 K then parse_ipv6 K m s data datalen
     else Some s }"

definition classify_packet ::
  "rofl \<Rightarrow> mem \<Rightarrow> classifier_state \<Rightarrow> nat \<Rightarrow> u64 \<Rightarrow> u32 \<Rightarrow> u32 \<Rightarrow> classifier_state option" where
  "classify_packet K m s data n port phy_port =
     (let s = s\<lparr>base := data, len := n, port_in := port, phy_port_in := phy_port,
                calculate_checksums_in_sw := of_nat (checksum_number RESET_CHECKSUM_IN_SW_FLAGS)\<rparr>
      in parse_ethernet K m s data n)"

declare parse_mpls_loop.simps [simp del] parse_vlan.simps [simp del]

section \<open>What a packet type says about the bytes\<close>

text \<open>\<open>own\<close>: what the header itself must look like; \<open>announces\<close>: the field of a header that names
  the next one.\<close>

fun own :: "rofl \<Rightarrow> mem \<Rightarrow> nat \<Rightarrow> header \<Rightarrow> bool" where
  "own K m a (Hdr p) =
     (if p = PT_PROTO_ETHERNET then is_llc_frame K m a = Some False
      else if p = PT_PROTO_8023 then is_llc_frame K m a = Some True
      else True)"
| "own K m a (IPV4_noptions n) =
     ((case load m a of None \<Rightarrow> False | Some b \<Rightarrow> unat ((b :: u8) AND 0x0F) = n + 5) \<and>
      ipv4_is_fragment K m a = Some False)"
| "own K m a (MPLS_nlabels n) = (\<forall>i \<in> set [0..<n - 1]. get_mpls_bos K m (a + 4 * i) = Some False)"

fun ether_announces :: "rofl \<Rightarrow> u16 \<Rightarrow> header \<Rightarrow> bool" where
  "ether_announces K et (Hdr p) =
     (if p = PT_PROTO_VLAN then et = VLAN_CTAG_ETHER_TYPE K \<or> et = VLAN_STAG_ETHER_TYPE K
      else if p = PT_PROTO_ISID then et = VLAN_ITAG_ETHER_TYPE K
      else if p = PT_PROTO_PPPOE then et = ETH_TYPE_PPPOE_DISCOVERY K \<or> et = ETH_TYPE_PPPOE_SESSION K
      else if p = PT_PROTO_ARPV4 then et = ETH_TYPE_ARP K
      else if p = PT_PROTO_IPV6 then et = ETH_TYPE_IPV6 K
      else False)"
| "ether_announces K et (MPLS_nlabels n) = (et = ETH_TYPE_MPLS_UNICAST K \<or> et = ETH_TYPE_MPLS_MULTICAST K)"
| "ether_announces K et (IPV4_noptions n) = (et = ETH_TYPE_IPV4 K)"

definition ip_announces :: "u8 \<Rightarrow> header \<Rightarrow> bool" where
  "ip_announces proto h = (h = ICMPV4 \<and> proto = ICMPV4_IP_PROTO \<or> h = ICMPV6 \<and> proto = ICMPV6_IP_PROTO \<or>
     h = UDP \<and> proto = UDP_IP_PROTO \<or> h = TCP \<and> proto = TCP_IP_PROTO \<or> h = SCTP \<and> proto = SCTP_IP_PROTO \<or>
     (h = GRE4 \<or> h = GRE6) \<and> proto = GRE_IP_PROTO)"

definition icmpv6_announces :: "u8 \<Rightarrow> header \<Rightarrow> bool" where
  "icmpv6_announces typ h =
     (h = Hdr PT_PROTO_ICMPV6_RTR_SOL \<and> typ = ICMPV6_TYPE_ROUTER_SOLICATION \<or>
      h = Hdr PT_PROTO_ICMPV6_RTR_ADV \<and> typ = ICMPV6_TYPE_ROUTER_ADVERTISEMENT \<or>
      h = Hdr PT_PROTO_ICMPV6_NEIGH_SOL \<and> typ = ICMPV6_TYPE_NEIGHBOR_SOLICITATION \<or>
      h = Hdr PT_PROTO_ICMPV6_NEIGH_ADV \<and> typ = ICMPV6_TYPE_NEIGHBOR_ADVERTISEMENT)"

definition field :: "mem \<Rightarrow> nat \<Rightarrow> ('a::len word \<Rightarrow> bool) \<Rightarrow> bool" where
  "field m a P = (case load m a of None \<Rightarrow> False | Some x \<Rightarrow> P x)"

fun announces :: "rofl \<Rightarrow> mem \<Rightarrow> nat \<Rightarrow> header \<Rightarrow> header \<Rightarrow> bool" where
  "announces K m a (Hdr p) h =
     (if p = PT_PROTO_ETHERNET then field m (a + 12) (\<lambda>et. ether_announces K et h)
      else if p = PT_PROTO_8023 then field m (a + 20) (\<lambda>et. ether_announces K et h)
      else if p = PT_PROTO_VLAN then field m (a + 2) (\<lambda>et. ether_announces K et h)
      else if p = PT_PROTO_PPPOE then h = PPP
      else if p = PT_PROTO_IPV6 then field m (a + 6) (\<lambda>nxt. ip_announces nxt h)
      else if p = PT_PROTO_UDP then field m (a + 2) (\<lambda>port. port = UDP_DST_PORT_GTPU K) \<and> (h = GTPU4 \<or> h = GTPU6)
      else if p = PT_PROTO_ICMPV6 then field m a (\<lambda>typ. icmpv6_announces typ h)
      else if p = PT_PROTO_ICMPV6_RTR_SOL then
        field m (a + 4) (\<lambda>opt. opt = ICMPV6_OPT_LLADDR_SOURCE) \<and> h = Hdr PT_PROTO_ICMPV6_RTR_SOL_OPTS_LLADR_SRC
      else if p = PT_PROTO_ICMPV6_RTR_ADV then
        field m (a + 12) (\<lambda>opt. opt = ICMPV6_OPT_LLADDR_SOURCE) \<and> h = Hdr PT_PROTO_ICMPV6_RTR_ADV_OPTS_LLADR_SRC
      else if p = PT_PROTO_ICMPV6_NEIGH_SOL then
        field m (a + 20) (\<lambda>opt. opt = ICMPV6_OPT_LLADDR_SOURCE) \<and> h = Hdr PT_PROTO_ICMPV6_NEIGH_SOL_OPTS_LLADR_SRC
      else if p = PT_PROTO_ICMPV6_NEIGH_ADV then
        field m (a + 20) (\<lambda>opt. opt = ICMPV6_OPT_LLADDR_TARGET) \<and> h = Hdr PT_PROTO_ICMPV6_NEIGH_ADV_OPTS_LLADR_TGT
      else False)"
| "announces K m a (IPV4_noptions n) h = field m (a + 9) (\<lambda>proto. ip_announces proto h)"
| "announces K m a (MPLS_nlabels n) h = False"

fun describes :: "rofl \<Rightarrow> mem \<Rightarrow> nat \<Rightarrow> pkt_type \<Rightarrow> bool" where
  "describes K m a [] = True"
| "describes K m a [h] = own K m a h"
| "describes K m a (h # h' # hs) =
     (own K m a h \<and> announces K m a h h' \<and> describes K m (a + header_size h) (h' # hs))"

lemma describes_snoc:
  "describes K m a (t @ [h, h']) \<longleftrightarrow>
     describes K m a (t @ [h]) \<and> announces K m (a + total_size t) h h' \<and>
     own K m (a + total_size t + header_size h) h'"
  by (induction K m a t rule: describes.induct) (auto simp: add.assoc)

lemma describes_snoc1: "describes K m a (t @ [h]) \<Longrightarrow> own K m (a + total_size t) h"
  by (induction K m a t rule: describes.induct) (auto simp: add.assoc)

lemma describes_split:
  "describes K m a (xs @ h # h' # ys) \<Longrightarrow>
     own K m (a + total_size xs) h \<and> announces K m (a + total_size xs) h h'"
  by (induction K m a xs rule: describes.induct) (auto simp: add.assoc)

section \<open>Soundness of the parsers\<close>

text \<open>The parser stands at \<open>data\<close>, behind the last header of the type, which describes the bytes.\<close>

definition standing :: "rofl \<Rightarrow> mem \<Rightarrow> classifier_state \<Rightarrow> pkt_type \<Rightarrow> header \<Rightarrow> nat \<Rightarrow> bool" where
  "standing K m s xs h data \<longleftrightarrow>
     clas_type s = Some (xs @ [h]) \<and> pkt_types (xs @ [h]) \<and> describes K m (base s) (xs @ [h]) \<and>
     data = base s + total_size xs + header_size h"

definition sound :: "rofl \<Rightarrow> mem \<Rightarrow> classifier_state \<Rightarrow> classifier_state \<Rightarrow> bool" where
  "sound K m s r \<longleftrightarrow>
     (\<exists>t. r = s\<lparr>clas_type := Some t\<rparr> \<and> pkt_types t \<and> describes K m (base s) t)"

lemma sound_self: "standing K m s xs h data \<Longrightarrow> sound K m s s"
  unfolding sound_def by (intro exI [of _ "xs @ [h]"]) (cases s, simp add: standing_def)

lemma sound_trans: "sound K m (s\<lparr>clas_type := t\<rparr>) r \<Longrightarrow> sound K m s r"
  by (auto simp: sound_def)

fun unrolled_header :: "unrolled \<Rightarrow> header" where
  "unrolled_header (UNROLLED p) = Hdr p"
| "unrolled_header (UNROLLED_IPV4_noptions n) = IPV4_noptions n"

lemma add_proto_sound:
  assumes "PT_CLASS_ADD_PROTO K s u rest = Some r" and st: "standing K m s xs h data"
    and u: "u \<noteq> UNROLLED PT_PROTO_MPLS"
    and ann: "announces K m (base s + total_size xs) h (unrolled_header u)"
    and own: "own K m data (unrolled_header u)"
    and rest: "\<And>s'. s' = s\<lparr>clas_type := Some (xs @ [h, unrolled_header u])\<rparr> \<Longrightarrow>
      standing K m s' (xs @ [h]) (unrolled_header u) (data + header_size (unrolled_header u)) \<Longrightarrow>
      rest s' = Some r \<Longrightarrow> sound K m s' r"
  shows "sound K m s r"
proof (cases "parse_transitions (xs @ [h]) u")
  case None
  then have "r = s" using assms(1) st
    by (auto simp: PT_CLASS_ADD_PROTO_def standing_def bind_Some_iff)
  then show ?thesis using sound_self [OF st] by simp
next
  case (Some t')
  then have t': "t' = xs @ [h, unrolled_header u]" "pkt_types t'"
    using u by (cases u; auto simp: parse_transitions_def parse_step_def split: if_splits)+
  let ?s = "s\<lparr>clas_type := Some t'\<rparr>"
  have "rest ?s = Some r" using assms(1) st Some by (simp add: PT_CLASS_ADD_PROTO_def standing_def)
  moreover have "standing K m ?s (xs @ [h]) (unrolled_header u) (data + header_size (unrolled_header u))"
    using st ann own t' describes_snoc [of K m "base s" xs h "unrolled_header u"]
    by (auto simp: standing_def add.assoc)
  ultimately have "sound K m ?s r" using rest [of ?s] t'(1) by simp
  then show ?thesis by (rule sound_trans)
qed

text \<open>A leaf: the continuation returns.\<close>

lemma add_leaf_sound:
  assumes "PT_CLASS_ADD_PROTO K s u rest = Some r" and "standing K m s xs h data"
    and "u \<noteq> UNROLLED PT_PROTO_MPLS"
    and "announces K m (base s + total_size xs) h (unrolled_header u)"
    and "own K m data (unrolled_header u)"
    and "\<And>s'. rest s' = Some r \<Longrightarrow> r = s'"
  shows "sound K m s r"
  by (rule add_proto_sound [OF assms(1-5)]) (use assms(6) sound_self in blast)

lemma c_assert_Some: "c_assert K b = Some u \<longleftrightarrow> NDEBUG K \<or> b"
  by (simp add: c_assert_def)

text \<open>The header getter finds the IP header the parser has added.\<close>

lemma PT_GET_HDR_standing:
  "standing K m s xs h data \<Longrightarrow> PT_GET_HDR s p = Some (map_option ((+) (base s)) (protocol_offsets_bt (xs @ [h]) p))"
  by (simp add: standing_def PT_GET_HDR_def)

lemma parse_tcp_sound:
  assumes "parse_tcp K m s data n = Some r" and "standing K m s xs h data"
    and "announces K m (base s + total_size xs) h TCP"
  shows "sound K m s r"
  using assms(1) unfolding parse_tcp_def
  by (rule add_leaf_sound [OF _ assms(2)]) (use assms(3) in auto)

lemma parse_sctp_sound:
  assumes "parse_sctp K m s data n = Some r" and "standing K m s xs h data"
    and "announces K m (base s + total_size xs) h SCTP"
  shows "sound K m s r"
  using assms(1) unfolding parse_sctp_def
  by (rule add_leaf_sound [OF _ assms(2)]) (use assms(3) in auto)

lemma parse_gtp_sound:
  assumes "parse_gtp K m s data n = Some r" and st: "standing K m s xs h data"
    and "announces K m (base s + total_size xs) h GTPU4" and "announces K m (base s + total_size xs) h GTPU6"
  shows "sound K m s r"
proof -
  have g4: "sound K m s r" if "PT_CLASS_ADD_PROTO K s (UNROLLED PT_PROTO_GTPU4) Some = Some r"
    by (rule add_leaf_sound [OF that st]) (use assms(3) in auto)
  have g6: "sound K m s r" if "PT_CLASS_ADD_PROTO K s (UNROLLED PT_PROTO_GTPU6) Some = Some r"
    by (rule add_leaf_sound [OF that st]) (use assms(4) in auto)
  show ?thesis
    using assms(1) g4 g6 sound_self [OF st]
    by (auto simp: parse_gtp_def bind_Some_iff split: if_splits)
qed

lemma parse_gre_sound:
  assumes "parse_gre K m s data n = Some r" and st: "standing K m s xs h data"
    and "announces K m (base s + total_size xs) h GRE4" and "announces K m (base s + total_size xs) h GRE6"
  shows "sound K m s r"
proof -
  have g4: "sound K m s r" if "PT_CLASS_ADD_PROTO K s (UNROLLED PT_PROTO_GRE4) Some = Some r"
    by (rule add_leaf_sound [OF that st]) (use assms(3) in auto)
  have g6: "sound K m s r" if "PT_CLASS_ADD_PROTO K s (UNROLLED PT_PROTO_GRE6) Some = Some r"
    by (rule add_leaf_sound [OF that st]) (use assms(4) in auto)
  show ?thesis
    using assms(1) g4 g6 sound_self [OF st]
    by (auto simp: parse_gre_def bind_Some_iff split: if_splits)
qed

lemma parse_udp_sound:
  assumes "parse_udp K m s data n = Some r" and st: "standing K m s xs h data"
    and "announces K m (base s + total_size xs) h UDP"
  shows "sound K m s r"
  using assms(1) unfolding parse_udp_def Let_def
proof (rule add_proto_sound [OF _ st])
  fix s' assume s': "s' = s\<lparr>clas_type := Some (xs @ [h, unrolled_header (UNROLLED PT_PROTO_UDP)])\<rparr>"
    and "standing K m s' (xs @ [h]) (unrolled_header (UNROLLED PT_PROTO_UDP))
           (data + header_size (unrolled_header (UNROLLED PT_PROTO_UDP)))"
  then have st': "standing K m s' (xs @ [h]) UDP (data + sizeof cpc_udp_hdr)" by (simp add: layout)
  assume r: "do {
      c_assert K (clas_type s' \<noteq> None);
      if n - of_nat (sizeof cpc_udp_hdr) > 0 then do {
        dport \<leftarrow> load m (get_udp_dport data);
        if dport = UDP_DST_PORT_GTPU K
        then parse_gtp K m s' (data + sizeof cpc_udp_hdr) (n - of_nat (sizeof cpc_udp_hdr)) else Some s' }
      else Some s' } = Some r"
  have data: "base s' + total_size (xs @ [h]) = data" using st' st by (simp add: standing_def layout)
  have "sound K m s' r" if "load m (get_udp_dport data) = Some (UDP_DST_PORT_GTPU K)"
    and "parse_gtp K m s' (data + sizeof cpc_udp_hdr) k = Some r" for k
    by (rule parse_gtp_sound [OF that(2) st'])
       (use that(1) in \<open>simp_all only: data announces.simps, simp_all add: field_def get_udp_dport_def layout\<close>)
  then show "sound K m s' r"
    using r sound_self [OF st'] by (auto simp: bind_Some_iff split: if_splits)
qed (use assms(3) in auto)

lemma parse_arpv4_sound:
  assumes "parse_arpv4 K m s data n = Some r" and "standing K m s xs h data"
    and "announces K m (base s + total_size xs) h ARPV4"
  shows "sound K m s r"
  using assms(1) unfolding parse_arpv4_def
  by (rule add_leaf_sound [OF _ assms(2)]) (use assms(3) in \<open>auto simp: bind_Some_iff\<close>)

lemma parse_icmpv4_sound:
  assumes "parse_icmpv4 K m s data n = Some r" and "standing K m s xs h data"
    and "announces K m (base s + total_size xs) h ICMPV4"
  shows "sound K m s r"
  using assms(1) unfolding parse_icmpv4_def
  by (rule add_leaf_sound [OF _ assms(2)]) (use assms(3) in \<open>auto simp: bind_Some_iff\<close>)

lemma parse_ppp_sound:
  assumes "parse_ppp K m s data n = Some r" and "standing K m s xs h data"
    and "announces K m (base s + total_size xs) h PPP"
  shows "sound K m s r"
  using assms(1) unfolding parse_ppp_def
  by (rule add_leaf_sound [OF _ assms(2)]) (use assms(3) in \<open>auto simp: bind_Some_iff\<close>)

lemma parse_pbb_isid_sound:
  assumes "parse_pbb_isid K m s data n = Some r" and "standing K m s xs h data"
    and "announces K m (base s + total_size xs) h ISID"
  shows "sound K m s r"
  using assms(1) unfolding parse_pbb_isid_def
  by (rule add_leaf_sound [OF _ assms(2)]) (use assms(3) in auto)

lemma parse_pppoe_sound:
  assumes "parse_pppoe K m s data n et = Some r" and st: "standing K m s xs h data"
    and "announces K m (base s + total_size xs) h PPPOE"
  shows "sound K m s r"
  using assms(1) unfolding parse_pppoe_def
proof (rule add_proto_sound [OF _ st])
  fix s' assume "standing K m s' (xs @ [h]) (unrolled_header (UNROLLED PT_PROTO_PPPOE))
           (data + header_size (unrolled_header (UNROLLED PT_PROTO_PPPOE)))"
  then have st': "standing K m s' (xs @ [h]) PPPOE (data + sizeof cpc_pppoe_hdr)" by (simp add: layout)
  show "sound K m s' r" if "do {
       c_assert K (clas_type s' \<noteq> None);
       if et = ETH_TYPE_PPPOE_DISCOVERY K then Some s'
       else if et = ETH_TYPE_PPPOE_SESSION K then
         parse_ppp K m s' (data + sizeof cpc_pppoe_hdr) (n - of_nat (sizeof cpc_pppoe_hdr))
       else Some s' } = Some r"
    using that sound_self [OF st'] parse_ppp_sound [OF _ st']
    by (auto simp: bind_Some_iff split: if_splits)
qed (use assms(3) in auto)

lemma unat_and_15: "unat ((b :: u8) AND 0x0F) \<le> 15"
proof -
  have "b AND 0x0F = take_bit 4 b" by (simp add: take_bit_eq_mask mask_eq_exp_minus_1)
  then have "unat (b AND 0x0F) < 16" by (simp add: take_bit_eq_mod unat_mod_distrib)
  then show ?thesis by simp
qed

text \<open>The number of option words, as the unsigned subtraction of the code gives it.\<close>

lemma num_of_options:
  assumes "(ucast (b AND 0x0F :: u8) - of_nat (sizeof cpc_ipv4_hdr div 4) :: u32) \<le> 15"
  shows "unat (b AND 0x0F) = unat (ucast (b AND 0x0F) - of_nat (sizeof cpc_ipv4_hdr div 4) :: u32) + 5"
proof -
  let ?i = "ucast (b AND 0x0F) :: u32"
  have i: "unat ?i = unat (b AND 0x0F)"
    using unat_and_15 [of b] by (simp add: unsigned_ucast_eq take_bit_nat_eq_self)
  have size: "of_nat (sizeof cpc_ipv4_hdr div 4) = (5 :: u32)" by (simp add: layout)
  show ?thesis
    using assms i unfolding size word_le_nat_alt
    by (auto simp: unat_sub_if_size word_size split: if_splits)
qed

lemma no_upper_on_l2:
  assumes "is_l2 h"
    and "p \<in> {PT_PROTO_ICMPV4, PT_PROTO_UDP, PT_PROTO_TCP, PT_PROTO_SCTP, PT_PROTO_GRE4, PT_PROTO_GRE6}"
  shows "\<not> pkt_types (xs @ [h, Hdr p])"
proof
  assume "pkt_types (xs @ [h, Hdr p])"
  then obtain l2 up where t: "xs @ [h, Hdr p] = l2 @ up" "l2 \<in> set l2_types" "upper_type up"
    by (rule pkt_typesE)
  have "\<not> is_l2 (Hdr p)" using assms(2) by (auto simp: is_l2_def)
  then have "up \<noteq> []" using t(1) l2_types_is_l2 [OF t(2)] by (cases l2 rule: rev_cases) auto
  then obtain ys where ys: "up = ys @ [Hdr p]" "xs @ [h] = l2 @ ys"
    using t(1) by (cases up rule: rev_cases) (auto simp flip: append_assoc)
  have "ys = []"
    using ys upper_type_no_l2 [OF t(3)] assms(1) by (cases ys rule: rev_cases) (auto simp flip: append_assoc)
  then show False using ys(1) t(3) assms(2) by auto
qed

lemma parse_ipv4_sound:
  assumes "parse_ipv4 K m s data n = Some r" and st: "standing K m s xs h data"
    and ann: "\<And>k. announces K m (base s + total_size xs) h (IPV4_noptions k)"
  shows "sound K m s r"
proof -
  obtain b :: u8 where b: "load m (data + offset_of cpc_ipv4_hdr ''ihlvers'') = Some b"
    using assms(1) by (auto simp: parse_ipv4_def bind_Some_iff)
  define num :: u32 where "num = ucast (b AND 0x0F) - of_nat (sizeof cpc_ipv4_hdr div 4)"
  define d where "d = data + unat (ucast (b AND 0x0F) * 4 :: u32)"
  define l where "l = n - ucast (ucast (b AND 0x0F) * 4 :: u32)"
  define rest where "rest = (\<lambda>s. do {
         c_assert K (clas_type s \<noteq> None);
         proto \<leftarrow> load m (get_ipv4_proto data);
         if proto = IPV4_IP_PROTO then Some s
         else if proto = ICMPV4_IP_PROTO then parse_icmpv4 K m s d l
         else if proto = UDP_IP_PROTO then parse_udp K m s d l
         else if proto = TCP_IP_PROTO then parse_tcp K m s d l
         else if proto = SCTP_IP_PROTO then parse_sctp K m s d l
         else if proto = GRE_IP_PROTO then parse_gre K m s d l
         else Some s })"
  show ?thesis
  proof (cases "r = s")
    case True
    then show ?thesis using sound_self [OF st] by simp
  next
    case False
    then have frag: "ipv4_is_fragment K m data = Some False"
      and add: "PT_CLASS_ADD_IPV4_OPTIONS K s num rest = Some r"
      unfolding rest_def num_def d_def l_def using assms(1) b
      by (auto simp: parse_ipv4_def Let_def bind_Some_iff split: if_splits)
    show ?thesis
    proof (cases "num \<le> 15")
      case True
      then have own: "own K m data (IPV4_noptions (unat num))"
        using b frag num_of_options [of b] by (simp add: num_def layout)
      have d_eq: "d = data + header_size (IPV4_noptions (unat num))"
        using num_of_options [of b] True unat_and_15 [of b]
        by (simp add: d_def num_def unat_word_ariths unsigned_ucast_eq take_bit_nat_eq_self)
      have d: "standing K m s' (xs @ [h]) (IPV4_noptions (unat num)) d"
        if "standing K m s' (xs @ [h]) (IPV4_noptions (unat num)) (data + header_size (IPV4_noptions (unat num)))" for s'
        using that d_eq by simp
      have "PT_CLASS_ADD_PROTO K s (UNROLLED_IPV4_noptions (unat num)) rest = Some r"
        using add True by (simp add: PT_CLASS_ADD_IPV4_OPTIONS_def)
      then show ?thesis
      proof (rule add_proto_sound [OF _ st])
        fix s' assume "standing K m s' (xs @ [h]) (unrolled_header (UNROLLED_IPV4_noptions (unat num)))
          (data + header_size (unrolled_header (UNROLLED_IPV4_noptions (unat num))))"
        then have st': "standing K m s' (xs @ [h]) (IPV4_noptions (unat num)) d" using d by simp
        have data: "base s' + total_size (xs @ [h]) = data"
          using st' st d_eq by (simp add: standing_def)
        assume "rest s' = Some r"
        then obtain proto where proto: "load m (data + 9) = Some proto"
          and r: "(if proto = IPV4_IP_PROTO then Some s'
             else if proto = ICMPV4_IP_PROTO then parse_icmpv4 K m s' d l
             else if proto = UDP_IP_PROTO then parse_udp K m s' d l
             else if proto = TCP_IP_PROTO then parse_tcp K m s' d l
             else if proto = SCTP_IP_PROTO then parse_sctp K m s' d l
             else if proto = GRE_IP_PROTO then parse_gre K m s' d l
             else Some s') = Some r"
          by (auto simp: rest_def bind_Some_iff get_ipv4_proto_def layout)
        have ann: "announces K m (base s' + total_size (xs @ [h])) (IPV4_noptions (unat num)) g \<longleftrightarrow> ip_announces proto g"
          for g
          unfolding data by (simp add: field_def proto)
        show "sound K m s' r"
          using r sound_self [OF st'] parse_icmpv4_sound [OF _ st'] parse_udp_sound [OF _ st']
            parse_tcp_sound [OF _ st'] parse_sctp_sound [OF _ st'] parse_gre_sound [OF _ st']
          unfolding ann by (auto simp: ip_announces_def split: if_splits)
      qed (use ann own in auto)
    next
      case False
      then have rest: "rest s = Some r"
        using add by (auto simp: PT_CLASS_ADD_IPV4_OPTIONS_def bind_Some_iff c_assert_Some)
      have h: "is_l2 h" using ann [of 0] by (cases h) (auto simp: is_l2_def field_def ip_announces_def icmpv6_announces_def split: if_splits option.splits)
      have no: "PT_CLASS_ADD_PROTO K s (UNROLLED p) k = Some r \<Longrightarrow> r = s"
        if "p \<in> {PT_PROTO_ICMPV4, PT_PROTO_UDP, PT_PROTO_TCP, PT_PROTO_SCTP, PT_PROTO_GRE4, PT_PROTO_GRE6}" for p k
        using no_upper_on_l2 [OF h that, of xs] st that
        by (auto simp: PT_CLASS_ADD_PROTO_def standing_def parse_transitions_def parse_step_def bind_Some_iff)
      have "r = s"
        using rest no
        by (auto simp: rest_def parse_icmpv4_def parse_udp_def parse_tcp_def parse_sctp_def parse_gre_def
            bind_Some_iff Let_def split: if_splits)
      then show ?thesis using sound_self [OF st] by simp
    qed
  qed
qed

text \<open>A neighbour-discovery message: the message header, then possibly its option.\<close>

lemma add_message_sound:
  assumes "parse_icmpv6_message K m s a p v q = Some r"
    and st: "standing K m s xs h data"
    and "announces K m (base s + total_size xs) h (Hdr p)"
    and "p \<notin> {PT_PROTO_ETHERNET, PT_PROTO_8023, PT_PROTO_MPLS}"
    and "q \<notin> {PT_PROTO_ETHERNET, PT_PROTO_8023, PT_PROTO_MPLS}"
    and "load m a = Some v \<Longrightarrow> announces K m data (Hdr p) (Hdr q)"
  shows "sound K m s r"
  using assms(1) unfolding parse_icmpv6_message_def
proof (rule add_proto_sound [OF _ st])
  fix s' assume st'': "standing K m s' (xs @ [h]) (unrolled_header (UNROLLED p))
           (data + header_size (unrolled_header (UNROLLED p)))"
  then have st': "standing K m s' (xs @ [h]) (Hdr p) (data + proto_size p)" by simp
  have data: "base s' + total_size (xs @ [h]) = data" using st' st by (simp add: standing_def)
  have "sound K m s' r" if "load m a = Some v" "PT_CLASS_ADD_PROTO K s' (UNROLLED q) Some = Some r"
    using that(2)
  proof (rule add_leaf_sound [OF _ st'])
    show "announces K m (base s' + total_size (xs @ [h])) (Hdr p) (unrolled_header (UNROLLED q))"
      unfolding data using assms(6) [OF that(1)] by (simp only: unrolled_header.simps)
  qed (use assms(5) in auto)
  then show "sound K m s' r" if "do {
             c_assert K (clas_type s' \<noteq> None);
             first \<leftarrow> load m (a + offset_of cpc_icmpv6_option_hdr ''type'');
             if first = v then PT_CLASS_ADD_PROTO K s' (UNROLLED q) Some else Some s' } = Some r"
    using that sound_self [OF st'] by (auto simp: bind_Some_iff layout split: if_splits)
qed (use assms(3,4) in auto)

lemma redirect_not_a_type: "\<not> pkt_types (xs @ [ICMPV6, Hdr PT_PROTO_ICMPV6_REDIRECT])"
proof
  assume "pkt_types (xs @ [ICMPV6, Hdr PT_PROTO_ICMPV6_REDIRECT])"
  then obtain l2 up where t: "xs @ [ICMPV6, Hdr PT_PROTO_ICMPV6_REDIRECT] = l2 @ up" "l2 \<in> set l2_types" "upper_type up"
    by (rule pkt_typesE)
  have "\<not> is_l2 (Hdr PT_PROTO_ICMPV6_REDIRECT)" by (simp add: is_l2_def)
  then have up: "up \<noteq> []"
    using t(1) l2_types_is_l2 [OF t(2)] by (cases l2 rule: rev_cases) auto
  then have "last up = Hdr PT_PROTO_ICMPV6_REDIRECT"
    using arg_cong [OF t(1), of last] by simp
  then show False
    using t(3) up by (cases up rule: upper_type.cases) (auto simp: ipv4_uppers_def ipv6_uppers_def split: if_splits)
qed


lemma parse_icmpv6_sound:
  assumes "parse_icmpv6 K m s data n = Some r" and st: "standing K m s xs h data"
    and "announces K m (base s + total_size xs) h ICMPV6"
  shows "sound K m s r"
  using assms(1) unfolding parse_icmpv6_def
proof (rule add_proto_sound [OF _ st], goal_cases)
  case (4 s')
  then have st': "standing K m s' (xs @ [h]) ICMPV6 (data + 4)" by (simp add: layout)
  then have data: "base s' + total_size (xs @ [h]) = data" using st by (simp add: standing_def)
  obtain ty :: u8 where ty: "load m data = Some ty"
    using 4(3) by (auto simp: bind_Some_iff get_icmpv6_type_def layout)
  have ann: "announces K m (base s' + total_size (xs @ [h])) ICMPV6 g \<longleftrightarrow> icmpv6_announces ty g" for g
    unfolding data by (simp add: field_def ty)
  note msg = add_message_sound [OF _ st', unfolded ann]
  have redirect: "PT_CLASS_ADD_PROTO K s' (UNROLLED PT_PROTO_ICMPV6_REDIRECT) rest = Some r \<Longrightarrow> r = s'" for rest
    using st' redirect_not_a_type [of "xs @ [h]"]
    by (auto simp: PT_CLASS_ADD_PROTO_def standing_def parse_transitions_def parse_step_def bind_Some_iff)
  have run: "sound K m s' r"
    if "(if ty = ICMPV6_TYPE_ROUTER_SOLICATION then parse_icmpv6_message K m s' (data + 8)
           PT_PROTO_ICMPV6_RTR_SOL ICMPV6_OPT_LLADDR_SOURCE PT_PROTO_ICMPV6_RTR_SOL_OPTS_LLADR_SRC
       else if ty = ICMPV6_TYPE_ROUTER_ADVERTISEMENT then parse_icmpv6_message K m s' (data + 16)
           PT_PROTO_ICMPV6_RTR_ADV ICMPV6_OPT_LLADDR_SOURCE PT_PROTO_ICMPV6_RTR_ADV_OPTS_LLADR_SRC
       else if ty = ICMPV6_TYPE_NEIGHBOR_SOLICITATION then parse_icmpv6_message K m s' (data + 24)
           PT_PROTO_ICMPV6_NEIGH_SOL ICMPV6_OPT_LLADDR_SOURCE PT_PROTO_ICMPV6_NEIGH_SOL_OPTS_LLADR_SRC
       else if ty = ICMPV6_TYPE_NEIGHBOR_ADVERTISEMENT then parse_icmpv6_message K m s' (data + 24)
           PT_PROTO_ICMPV6_NEIGH_ADV ICMPV6_OPT_LLADDR_TARGET PT_PROTO_ICMPV6_NEIGH_ADV_OPTS_LLADR_TGT
       else if ty = ICMPV6_TYPE_REDIRECT_MESSAGE
         then PT_CLASS_ADD_PROTO K s' (UNROLLED PT_PROTO_ICMPV6_REDIRECT) rest else Some s') = Some r" for rest
  proof -
    note m1 = msg [of "data + 8" PT_PROTO_ICMPV6_RTR_SOL ICMPV6_OPT_LLADDR_SOURCE PT_PROTO_ICMPV6_RTR_SOL_OPTS_LLADR_SRC]
    note m2 = msg [of "data + 16" PT_PROTO_ICMPV6_RTR_ADV ICMPV6_OPT_LLADDR_SOURCE PT_PROTO_ICMPV6_RTR_ADV_OPTS_LLADR_SRC]
    note m3 = msg [of "data + 24" PT_PROTO_ICMPV6_NEIGH_SOL ICMPV6_OPT_LLADDR_SOURCE PT_PROTO_ICMPV6_NEIGH_SOL_OPTS_LLADR_SRC]
    note m4 = msg [of "data + 24" PT_PROTO_ICMPV6_NEIGH_ADV ICMPV6_OPT_LLADDR_TARGET PT_PROTO_ICMPV6_NEIGH_ADV_OPTS_LLADR_TGT]
    show ?thesis using that m1 m2 m3 m4 redirect sound_self [OF st']
      by (auto simp: icmpv6_announces_def field_def add.assoc split: if_splits)
  qed
  show ?case
    using 4(3) ty by (intro run) (auto simp: bind_Some_iff get_icmpv6_type_def layout)
qed (use assms(3) in auto)


lemma parse_ipv6_sound:
  assumes "parse_ipv6 K m s data n = Some r" and st: "standing K m s xs h data"
    and "announces K m (base s + total_size xs) h IPV6"
  shows "sound K m s r"
  using assms(1) unfolding parse_ipv6_def
proof (rule add_proto_sound [OF _ st], goal_cases)
  case (4 s')
  then have st': "standing K m s' (xs @ [h]) IPV6 (data + 40)" by simp
  then have data: "base s' + total_size (xs @ [h]) = data" using st by (simp add: standing_def)
  let ?d = "data + 40" and ?n = "n - 40"
  obtain nxt :: u8 where nxt: "load m (data + 6) = Some nxt"
    and run: "(if nxt = IPV4_IP_PROTO then Some s'
       else if nxt = IPV6_IP_PROTO then Some s'
       else if nxt = ICMPV6_IP_PROTO then parse_icmpv6 K m s' ?d ?n
       else if nxt = UDP_IP_PROTO then parse_udp K m s' ?d ?n
       else if nxt = TCP_IP_PROTO then parse_tcp K m s' ?d ?n
       else if nxt = SCTP_IP_PROTO then parse_sctp K m s' ?d ?n
       else if nxt = GRE_IP_PROTO then parse_gre K m s' ?d ?n
       else Some s') = Some r"
    using 4(3) by (auto simp: bind_Some_iff Let_def get_ipv6_next_header_def layout)
  have ann: "announces K m (base s' + total_size (xs @ [h])) IPV6 g \<longleftrightarrow> ip_announces nxt g" for g
    unfolding data by (simp add: field_def nxt)
  show ?case
    using run sound_self [OF st'] parse_icmpv6_sound [OF _ st'] parse_udp_sound [OF _ st']
      parse_tcp_sound [OF _ st'] parse_sctp_sound [OF _ st'] parse_gre_sound [OF _ st']
    unfolding ann by (auto simp: ip_announces_def split: if_splits)
qed (use assms(3) in auto)

subsection \<open>The label stack\<close>

lemma describes_replace_last:
  assumes "describes K m a (xs @ [g])" and "own K m (a + total_size xs) g'"
    and "\<And>b h. announces K m b h g \<Longrightarrow> announces K m b h g'"
  shows "describes K m a (xs @ [g'])"
  using assms describes_snoc [of K m a "butlast xs" "last xs"]
  by (cases xs rule: rev_cases) (auto simp: add.assoc)

lemma announces_labels: "announces K m b h (MPLS_nlabels n) \<Longrightarrow> announces K m b h (MPLS_nlabels k)"
  by (cases h) (auto simp: field_def ip_announces_def icmpv6_announces_def split: if_splits option.splits)

lemma parse_mpls_loop_sound:
  assumes "parse_mpls_loop K m s data = Some r"
    and "standing K m s xs (MPLS_nlabels n) (base s + total_size xs + 4)"
    and "get_mpls_bos K m (data - 4) = Some False" and "data = base s + total_size xs + 4 * n" and "0 < n"
  shows "sound K m s r"
  using assms
proof (induction K m s data arbitrary: n rule: parse_mpls_loop.induct)
  case (1 K m s data)
  note st = 1(3)
  show ?case
  proof (cases "parse_transitions (xs @ [MPLS_nlabels n]) (UNROLLED PT_PROTO_MPLS)")
    case None
    then have "r = s" using 1(2) st
      by (subst (asm) parse_mpls_loop.simps) (auto simp: PT_CLASS_ADD_PROTO_def standing_def bind_Some_iff)
    then show ?thesis using sound_self [OF st] by simp
  next
    case (Some t')
    then have t': "t' = xs @ [MPLS_nlabels (Suc n)]" "pkt_types t'"
      by (auto simp: parse_transitions_def parse_step_def split: if_splits)
    let ?s = "s\<lparr>clas_type := Some t'\<rparr>" and ?a = "base s + total_size xs"
    have own: "own K m ?a (MPLS_nlabels n)"
      using st unfolding standing_def by (blast intro: describes_snoc1)
    have "data - 4 = ?a + 4 * (n - 1)" using 1(5,6) by simp
    then have "get_mpls_bos K m (?a + 4 * i) = Some False" if "i < n" for i
      using that own 1(4) by (cases "i = n - 1") auto
    then have own': "own K m ?a (MPLS_nlabels (Suc n))" by simp
    have "describes K m (base s) (xs @ [MPLS_nlabels n])" using st by (simp add: standing_def)
    then have "describes K m (base s) t'"
      unfolding t' using own' announces_labels by (rule describes_replace_last)
    then have st': "standing K m ?s xs (MPLS_nlabels (Suc n)) (base ?s + total_size xs + 4)"
      using st t' by (simp add: standing_def)
    from 1(2) obtain bos where bos: "get_mpls_bos K m data = Some bos"
      and run: "(if bos then do { c_assert K (clas_type ?s \<noteq> None); Some ?s }
            else parse_mpls_loop K m ?s (data + sizeof cpc_mpls_hdr)) = Some r"
      using st Some by (subst (asm) parse_mpls_loop.simps) (auto simp: PT_CLASS_ADD_PROTO_def standing_def bind_Some_iff)
    have "sound K m ?s r"
    proof (cases bos)
      case True
      then show ?thesis using run sound_self [OF st'] by (auto simp: bind_Some_iff)
    next
      case False
      show ?thesis
        by (rule 1(1) [OF _ _ _ _ _ st'])
          (use st Some False bos run 1(5) in \<open>auto simp: standing_def layout\<close>)
    qed
    then show ?thesis by (rule sound_trans)
  qed
qed

lemma parse_mpls_sound:
  assumes "parse_mpls K m s data n = Some r" and st: "standing K m s xs h data"
    and h: "\<And>k. h \<noteq> MPLS_nlabels k" and ann: "announces K m (base s + total_size xs) h (MPLS_nlabels 1)"
  shows "sound K m s r"
proof (cases "parse_transitions (xs @ [h]) (UNROLLED PT_PROTO_MPLS)")
  case None
  then have "r = s" using assms(1) st unfolding parse_mpls_def
    by (subst (asm) parse_mpls_loop.simps) (auto simp: PT_CLASS_ADD_PROTO_def standing_def bind_Some_iff)
  then show ?thesis using sound_self [OF st] by simp
next
  case (Some t')
  then have t': "t' = xs @ [h, MPLS_nlabels 1]" "pkt_types t'"
    using h by (cases h; auto simp: parse_transitions_def parse_step_def split: if_splits)+
  let ?s = "s\<lparr>clas_type := Some t'\<rparr>"
  have st': "standing K m ?s (xs @ [h]) (MPLS_nlabels 1) (data + 4)"
    using st ann t' by (auto simp: standing_def describes_snoc)
  from assms(1) obtain bos where bos: "get_mpls_bos K m data = Some bos"
    and run: "(if bos then do { c_assert K (clas_type ?s \<noteq> None); Some ?s }
          else parse_mpls_loop K m ?s (data + sizeof cpc_mpls_hdr)) = Some r"
    using st Some unfolding parse_mpls_def
    by (subst (asm) parse_mpls_loop.simps) (auto simp: PT_CLASS_ADD_PROTO_def standing_def bind_Some_iff)
  have "sound K m ?s r"
  proof (cases bos)
    case True
    then show ?thesis using run sound_self [OF st'] by (auto simp: bind_Some_iff)
  next
    case False
    have data: "data = base s + total_size (xs @ [h])" using st by (simp add: standing_def)
    show ?thesis
      by (rule parse_mpls_loop_sound [of _ _ _ "data + 4" _ "xs @ [h]" 1])
        (use st' data False bos run in \<open>simp_all add: layout\<close>)
  qed
  then show ?thesis by (rule sound_trans)
qed

subsection \<open>The link layer\<close>

text \<open>What the code does behind an Ethertype is the same in \<open>parse_vlan\<close> and \<open>parse_ethernet\<close>.\<close>

lemma dispatch_sound:
  assumes st: "standing K m s xs h data" and h: "\<And>k. h \<noteq> MPLS_nlabels k"
    and ann: "\<And>g. announces K m (base s + total_size xs) h g \<longleftrightarrow> ether_announces K et g"
  shows "et = VLAN_ITAG_ETHER_TYPE K \<Longrightarrow> parse_pbb_isid K m s data n = Some r \<Longrightarrow> sound K m s r"
    and "et = ETH_TYPE_MPLS_UNICAST K \<or> et = ETH_TYPE_MPLS_MULTICAST K \<Longrightarrow>
           parse_mpls K m s data n = Some r \<Longrightarrow> sound K m s r"
    and "et = ETH_TYPE_PPPOE_DISCOVERY K \<or> et = ETH_TYPE_PPPOE_SESSION K \<Longrightarrow>
           parse_pppoe K m s data n et = Some r \<Longrightarrow> sound K m s r"
    and "et = ETH_TYPE_ARP K \<Longrightarrow> parse_arpv4 K m s data n = Some r \<Longrightarrow> sound K m s r"
    and "et = ETH_TYPE_IPV4 K \<Longrightarrow> parse_ipv4 K m s data n = Some r \<Longrightarrow> sound K m s r"
    and "et = ETH_TYPE_IPV6 K \<Longrightarrow> parse_ipv6 K m s data n = Some r \<Longrightarrow> sound K m s r"
    and "Some s = Some r \<Longrightarrow> sound K m s r"
  using parse_pbb_isid_sound [OF _ st] parse_mpls_sound [OF _ st h] parse_pppoe_sound [OF _ st]
    parse_arpv4_sound [OF _ st] parse_ipv4_sound [OF _ st] parse_ipv6_sound [OF _ st] sound_self [OF st]
  unfolding ann by auto

lemma parse_vlan_sound:
  assumes "parse_vlan K m s data n = Some r" and "standing K m s xs h data"
    and "announces K m (base s + total_size xs) h VLAN"
  shows "sound K m s r"
  using assms
proof (induction K m s data n arbitrary: xs h rule: parse_vlan.induct)
  case (1 K m s data n)
  obtain et :: u16 where et: "load m (get_vlan_type data) = Some et"
    using 1(2) by (subst (asm) parse_vlan.simps) (auto simp: bind_Some_iff)
  let ?d = "data + sizeof cpc_vlan_hdr" and ?n = "n - of_nat (sizeof cpc_vlan_hdr)"
  have "PT_CLASS_ADD_PROTO K s (UNROLLED PT_PROTO_VLAN) (\<lambda>s.
       if et = VLAN_CTAG_ETHER_TYPE K \<or> et = VLAN_STAG_ETHER_TYPE K
       then parse_vlan K m s ?d ?n
       else do {
         c_assert K (clas_type s \<noteq> None);
         if et = VLAN_ITAG_ETHER_TYPE K then parse_pbb_isid K m s ?d ?n
         else if et = ETH_TYPE_MPLS_UNICAST K \<or> et = ETH_TYPE_MPLS_MULTICAST K
           then parse_mpls K m s ?d ?n
         else if et = ETH_TYPE_PPPOE_DISCOVERY K \<or> et = ETH_TYPE_PPPOE_SESSION K
           then parse_pppoe K m s ?d ?n et
         else if et = ETH_TYPE_ARP K then parse_arpv4 K m s ?d ?n
         else if et = ETH_TYPE_IPV4 K then parse_ipv4 K m s ?d ?n
         else if et = ETH_TYPE_IPV6 K then parse_ipv6 K m s ?d ?n
         else Some s }) = Some r"
    using 1(2) et by (subst (asm) parse_vlan.simps) (simp add: Let_def)
  then show ?case
  proof (rule add_proto_sound [OF _ 1(3)], goal_cases)
    case (4 s')
    then have st': "standing K m s' (xs @ [h]) VLAN ?d" by (simp add: layout)
    then have data: "base s' + total_size (xs @ [h]) = data" using 1(3) by (simp add: standing_def layout)
    have ann: "announces K m (base s' + total_size (xs @ [h])) VLAN g \<longleftrightarrow> ether_announces K et g" for g
      unfolding data using et by (simp add: field_def get_vlan_type_def layout)
    note dispatch = dispatch_sound [OF st' _ ann]
    show ?case
    proof (cases "et = VLAN_CTAG_ETHER_TYPE K \<or> et = VLAN_STAG_ETHER_TYPE K")
      case True
      have ty: "clas_type s = Some (xs @ [h])"
        "parse_transitions (xs @ [h]) (UNROLLED PT_PROTO_VLAN) = Some (xs @ [h, VLAN])"
        using 1(3) st' by (simp_all add: standing_def parse_transitions_def parse_step_def)
      have s': "s\<lparr>clas_type := Some (xs @ [h, VLAN])\<rparr> = s'" using 4(1) by simp
      show ?thesis
        by (rule 1(1) [OF et refl refl ty, unfolded s', OF _ _ st'])
          (use 4 True ann [of VLAN] in \<open>simp_all del: announces.simps\<close>)
    next
      case False
      then show ?thesis using 4(3) dispatch
        by (auto simp: bind_Some_iff split: if_splits)
    qed
  qed (use 1(4) in auto)
qed

lemma parse_ethernet_sound:
  assumes "parse_ethernet K m s data n = Some r" and "base s = data"
  shows "sound K m (s\<lparr>clas_type := Some []\<rparr>) r"
proof -
  obtain llc where llc: "is_llc_frame K m data = Some llc"
    using assms(1) by (auto simp: parse_ethernet_def bind_Some_iff)
  let ?h = "if llc then IEEE8023 else ETHERNET" and ?pos = "data + (if llc then 20 else 12)"
    and ?d = "data + (if llc then 22 else 14)"
  let ?s = "s\<lparr>clas_type := Some [?h]\<rparr>"
  have pos: "get_ether_type K m data = Some ?pos"
    using llc by (simp add: get_ether_type_def layout)
  obtain et :: u16 where et: "load m ?pos = Some et"
    using assms(1) pos llc by (auto simp: parse_ethernet_def bind_Some_iff Let_def)
  have st: "standing K m ?s [] ?h ?d"
    using assms(2) llc pkt_types_append [of "[?h]" "[]"] by (auto simp: standing_def l2_types_def)
  have ann: "announces K m (base ?s + total_size []) ?h g \<longleftrightarrow> ether_announces K et g" for g
    using et assms(2) by (cases llc) (simp_all add: field_def)
  have "sound K m ?s r"
    using assms(1) llc pos et dispatch_sound [OF st _ ann] parse_vlan_sound [OF _ st, unfolded ann]
    by (cases llc) (auto simp: parse_ethernet_def bind_Some_iff Let_def layout split: if_splits)
  then show ?thesis by (auto simp: sound_def)
qed

section \<open>Classification is total\<close>

text \<open>In a build without assertions every parser returns, provided the bytes it may read are inside the
  object: the numbers are the largest offsets of a read behind \<open>data\<close>.\<close>

lemma load_defined: "a + LENGTH('a) div 8 \<le> length m \<Longrightarrow> \<exists>x. load m a = Some (x :: 'a::len word)"
  by (simp add: load_def)

lemma add_proto_defined:
  assumes "NDEBUG K" and "clas_type s = Some t"
    and "\<And>t'. parse_transitions t u = Some t' \<Longrightarrow> \<exists>r. rest (s\<lparr>clas_type := Some t'\<rparr>) = Some r"
  shows "\<exists>r. PT_CLASS_ADD_PROTO K s u rest = Some r"
  using assms by (auto simp: PT_CLASS_ADD_PROTO_def c_assert_def split: option.splits)

lemma PT_GET_HDR_defined: "clas_type s = Some t \<Longrightarrow> \<exists>r. PT_GET_HDR s p = Some r"
  by (simp add: PT_GET_HDR_def)

named_theorems parser_defined "parsers return"

lemma leaf_parsers_defined [parser_defined]:
  assumes "NDEBUG K" and "clas_type s = Some t"
  shows "\<exists>r. parse_tcp K m s data n = Some r" and "\<exists>r. parse_sctp K m s data n = Some r"
    and "\<exists>r. parse_gre K m s data n = Some r" and "\<exists>r. parse_gtp K m s data n = Some r"
    and "\<exists>r. parse_arpv4 K m s data n = Some r" and "\<exists>r. parse_icmpv4 K m s data n = Some r"
    and "\<exists>r. parse_ppp K m s data n = Some r" and "\<exists>r. parse_pbb_isid K m s data n = Some r"
proof -
  have leaf: "\<exists>r. PT_CLASS_ADD_PROTO K s u Some = Some r" for u
    by (rule add_proto_defined [OF assms]) simp
  have leaf': "\<exists>r. PT_CLASS_ADD_PROTO K s u (\<lambda>s. do { c_assert K (clas_type s \<noteq> None); Some s }) = Some r" for u
    by (rule add_proto_defined [OF assms]) (simp add: c_assert_def)
  obtain h4 h6 where hdrs: "PT_GET_HDR s PT_PROTO_IPV4 = Some h4" "PT_GET_HDR s PT_PROTO_IPV6 = Some h6"
    using PT_GET_HDR_defined [OF assms(2)] by blast
  show "\<exists>r. parse_tcp K m s data n = Some r" "\<exists>r. parse_sctp K m s data n = Some r"
    "\<exists>r. parse_pbb_isid K m s data n = Some r"
    using leaf by (simp_all add: parse_tcp_def parse_sctp_def parse_pbb_isid_def)
  show "\<exists>r. parse_arpv4 K m s data n = Some r" "\<exists>r. parse_icmpv4 K m s data n = Some r"
    "\<exists>r. parse_ppp K m s data n = Some r"
    using leaf' by (simp_all add: parse_arpv4_def parse_icmpv4_def parse_ppp_def)
  show "\<exists>r. parse_gre K m s data n = Some r" "\<exists>r. parse_gtp K m s data n = Some r"
    using leaf hdrs by (auto simp: parse_gre_def parse_gtp_def)
qed

lemma parse_udp_defined [parser_defined]:
  assumes "NDEBUG K" and "clas_type s = Some t" and "data + 4 \<le> length m"
  shows "\<exists>r. parse_udp K m s data n = Some r"
proof -
  obtain dport :: u16 where "load m (data + 2) = Some dport"
    using load_defined [of "data + 2" m, where 'a = 16] assms(3) by auto
  then show ?thesis
    unfolding parse_udp_def Let_def using assms(1) leaf_parsers_defined(4)
    by (intro add_proto_defined [OF assms(1,2)]) (auto simp: c_assert_def get_udp_dport_def layout)
qed

lemma parse_icmpv6_message_defined:
  assumes "NDEBUG K" and "clas_type s = Some t" and "data < length m"
  shows "\<exists>r. parse_icmpv6_message K m s data p v q = Some r"
  unfolding parse_icmpv6_message_def using assms(1,3)
  by (intro add_proto_defined [OF assms(1,2)])
    (auto simp: c_assert_def load_byte layout intro: add_proto_defined)

lemma parse_icmpv6_opts_defined:
  assumes "NDEBUG K" and "clas_type s = Some t" and "data < length m"
  shows "\<exists>r. parse_icmpv6_opts K m s data n = Some r"
  unfolding parse_icmpv6_opts_def using assms
  by (auto simp: load_byte layout intro!: add_proto_defined)

lemma parse_icmpv6_defined [parser_defined]:
  assumes "NDEBUG K" and "clas_type s = Some t" and "data + 41 \<le> length m"
  shows "\<exists>r. parse_icmpv6 K m s data n = Some r"
proof -
  have redirect: "\<exists>r. PT_CLASS_ADD_PROTO K s' (UNROLLED PT_PROTO_ICMPV6_REDIRECT) (\<lambda>s. do {
           c_assert K (clas_type s \<noteq> None);
           let data = data + sizeof cpc_icmpv6_redirect_hdr;
           let datalen = n - of_nat (sizeof cpc_icmpv6_redirect_hdr);
           if datalen > 0 then parse_icmpv6_opts K m s data datalen else Some s }) = Some r"
    if "clas_type s' = Some t'" for s' t'
    using assms(1,3)
    by (intro add_proto_defined [OF assms(1) that])
      (auto simp: c_assert_def Let_def layout intro!: parse_icmpv6_opts_defined)
  show ?thesis
    unfolding parse_icmpv6_def
    by (intro add_proto_defined [OF assms(1,2)])
      (use assms(1,3) redirect in
        \<open>auto simp: c_assert_def load_byte get_icmpv6_type_def layout intro!: parse_icmpv6_message_defined\<close>)
qed

lemma header_length: "unat (ucast ((b :: u8) AND 0x0F) * 4 :: u32) \<le> 60"
  using unat_and_15 [of b] by (simp add: unat_word_ariths unsigned_ucast_eq take_bit_nat_eq_self)

lemma parse_ipv4_defined [parser_defined]:
  assumes "NDEBUG K" and t: "clas_type s = Some t" and len: "data + 64 \<le> length m"
  shows "\<exists>r. parse_ipv4 K m s data n = Some r"
proof -
  obtain fragment where fragment: "ipv4_is_fragment K m data = Some fragment"
    using len by (auto simp: ipv4_is_fragment_def load_byte layout)
  obtain proto :: u8 where proto: "load m (get_ipv4_proto data) = Some proto"
    using len by (auto simp: get_ipv4_proto_def load_byte layout)
  have rest: "\<exists>r. (do {
         c_assert K (clas_type s' \<noteq> None);
         proto \<leftarrow> load m (get_ipv4_proto data);
         if proto = IPV4_IP_PROTO then Some s'
         else if proto = ICMPV4_IP_PROTO then parse_icmpv4 K m s' (data + d) l
         else if proto = UDP_IP_PROTO then parse_udp K m s' (data + d) l
         else if proto = TCP_IP_PROTO then parse_tcp K m s' (data + d) l
         else if proto = SCTP_IP_PROTO then parse_sctp K m s' (data + d) l
         else if proto = GRE_IP_PROTO then parse_gre K m s' (data + d) l
         else Some s' }) = Some r"
    if "clas_type s' = Some t'" and "d \<le> 60" for s' t' d l
    using assms that by (auto simp: c_assert_def proto intro!: parser_defined)
  show ?thesis
    using assms(1) t len fragment proto rest header_length
    by (auto simp: parse_ipv4_def load_byte layout Let_def PT_CLASS_ADD_IPV4_OPTIONS_def c_assert_def
        simp del: of_nat_numeral intro!: add_proto_defined)
qed

lemma parse_ipv6_defined [parser_defined]:
  assumes "NDEBUG K" and "clas_type s = Some t" and "data + 81 \<le> length m"
  shows "\<exists>r. parse_ipv6 K m s data n = Some r"
  unfolding parse_ipv6_def Let_def using assms(1,3)
  by (intro add_proto_defined [OF assms(1,2)])
    (auto simp: c_assert_def load_byte get_ipv6_next_header_def layout intro!: parser_defined)

lemma parse_pppoe_defined [parser_defined]:
  assumes "NDEBUG K" and "clas_type s = Some t"
  shows "\<exists>r. parse_pppoe K m s data n et = Some r"
  unfolding parse_pppoe_def using assms(1)
  by (intro add_proto_defined [OF assms(1,2)]) (auto simp: c_assert_def intro!: parser_defined)

text \<open>Of the label stack at most 32 entries are read, since the type has at most 32 labels.\<close>

lemma parse_mpls_loop_defined:
  assumes "NDEBUG K" and "clas_type s = Some t" and "data + 4 * (32 - mpls_num_of_labels t) \<le> length m"
  shows "\<exists>r. parse_mpls_loop K m s data = Some r"
  using assms
proof (induction K m s data arbitrary: t rule: parse_mpls_loop.induct)
  case (1 K m s data)
  show ?case
    unfolding parse_mpls_loop.simps [of K m s data]
  proof (rule add_proto_defined [OF 1(2,3)])
    fix t' assume t': "parse_transitions t (UNROLLED PT_PROTO_MPLS) = Some t'"
    let ?s = "s\<lparr>clas_type := Some t'\<rparr>"
    have labels: "mpls_num_of_labels t' = mpls_num_of_labels t + 1" "mpls_num_of_labels t' \<le> 32"
      using parse_mpls_increases [OF t'] by auto
    then have len: "data + 4 + 4 * (32 - mpls_num_of_labels t') \<le> length m" using 1(4) by arith
    then obtain bos where bos: "get_mpls_bos K m data = Some bos"
      by (auto simp: get_mpls_bos_def load_byte layout)
    have "\<exists>r. parse_mpls_loop K m ?s (data + sizeof cpc_mpls_hdr) = Some r" if "\<not> bos"
      by (rule 1(1) [OF 1(3) t' bos that 1(2)]) (simp, use len in \<open>unfold layout, assumption\<close>)
    then show "\<exists>r. (do {
       bos \<leftarrow> get_mpls_bos K m data;
       if bos then do { c_assert K (clas_type ?s \<noteq> None); Some ?s }
       else parse_mpls_loop K m ?s (data + sizeof cpc_mpls_hdr) }) = Some r"
      using bos 1(2) by (auto simp: c_assert_def)
  qed
qed

lemma parse_mpls_defined [parser_defined]:
  assumes "NDEBUG K" and "clas_type s = Some t" and "data + 128 \<le> length m"
  shows "\<exists>r. parse_mpls K m s data n = Some r"
  unfolding parse_mpls_def by (rule parse_mpls_loop_defined [OF assms(1,2)]) (use assms(3) in simp)

lemma parse_vlan_defined [parser_defined]:
  assumes "NDEBUG K" and "clas_type s = Some t" and "data + 4 * (3 - length t) + 128 \<le> length m"
  shows "\<exists>r. parse_vlan K m s data n = Some r"
  using assms
proof (induction K m s data n arbitrary: t rule: parse_vlan.induct)
  case (1 K m s data n)
  obtain et :: u16 where et: "load m (get_vlan_type data) = Some et"
    using load_defined [of "data + 2" m, where 'a = 16] 1(4) by (auto simp: get_vlan_type_def layout)
  let ?d = "data + sizeof cpc_vlan_hdr" and ?n = "n - of_nat (sizeof cpc_vlan_hdr)"
  show ?case
    unfolding parse_vlan.simps [of K m s data n] et Let_def bind.bind_lunit
  proof (rule add_proto_defined [OF 1(2,3)])
    fix t' assume t': "parse_transitions t (UNROLLED PT_PROTO_VLAN) = Some t'"
    let ?s = "s\<lparr>clas_type := Some t'\<rparr>"
    have tags: "length t' = length t + 1" "length t' \<le> 3"
      using parse_vlan_increases [OF t'] by auto
    then have len: "data + 4 + 4 * (3 - length t') + 128 \<le> length m" using 1(4) by arith
    have "\<exists>r. parse_vlan K m ?s ?d ?n = Some r" if "et = VLAN_CTAG_ETHER_TYPE K \<or> et = VLAN_STAG_ETHER_TYPE K"
      by (rule 1(1) [OF et refl refl 1(3) t' that 1(2)]) (simp, use len in \<open>unfold layout, assumption\<close>)
    then show "\<exists>r. (if et = VLAN_CTAG_ETHER_TYPE K \<or> et = VLAN_STAG_ETHER_TYPE K
       then parse_vlan K m ?s ?d ?n
       else do {
         c_assert K (clas_type ?s \<noteq> None);
         if et = VLAN_ITAG_ETHER_TYPE K then parse_pbb_isid K m ?s ?d ?n
         else if et = ETH_TYPE_MPLS_UNICAST K \<or> et = ETH_TYPE_MPLS_MULTICAST K
           then parse_mpls K m ?s ?d ?n
         else if et = ETH_TYPE_PPPOE_DISCOVERY K \<or> et = ETH_TYPE_PPPOE_SESSION K
           then parse_pppoe K m ?s ?d ?n et
         else if et = ETH_TYPE_ARP K then parse_arpv4 K m ?s ?d ?n
         else if et = ETH_TYPE_IPV4 K then parse_ipv4 K m ?s ?d ?n
         else if et = ETH_TYPE_IPV6 K then parse_ipv6 K m ?s ?d ?n
         else Some ?s }) = Some r"
      using 1(2) len by (auto simp: c_assert_def layout intro!: parser_defined)
  qed
qed

lemma parse_ethernet_defined:
  assumes "NDEBUG K" and len: "data + 158 \<le> length m"
  shows "\<exists>r. parse_ethernet K m s data n = Some r"
proof -
  obtain llc where llc: "is_llc_frame K m data = Some llc"
    using load_defined [of "data + 12" m, where 'a = 16] len by (auto simp: is_llc_frame_def layout)
  let ?pos = "data + (if llc then 20 else 12)"
  have pos: "get_ether_type K m data = Some ?pos"
    using llc by (simp add: get_ether_type_def layout)
  obtain et :: u16 where et: "load m ?pos = Some et"
    using load_defined [of ?pos m, where 'a = 16] len by (cases llc) auto
  let ?h = "if llc then IEEE8023 else ETHERNET" and ?d = "data + (if llc then 22 else 14)"
  let ?s = "s\<lparr>clas_type := Some [?h]\<rparr>"
  have "?d + 136 \<le> length m" using len by simp
  then have "\<exists>r. parse_pbb_isid K m ?s ?d n' = Some r" "\<exists>r. parse_vlan K m ?s ?d n' = Some r"
    "\<exists>r. parse_mpls K m ?s ?d n' = Some r" "\<exists>r. parse_pppoe K m ?s ?d n' et = Some r"
    "\<exists>r. parse_arpv4 K m ?s ?d n' = Some r" "\<exists>r. parse_ipv4 K m ?s ?d n' = Some r"
    "\<exists>r. parse_ipv6 K m ?s ?d n' = Some r" for n'
    using assms(1) by (cases llc; auto intro!: parser_defined)+
  then show ?thesis
    using llc pos et by (cases llc) (simp_all add: parse_ethernet_def Let_def layout)
qed

section \<open>Properties\<close>

lemma classify_packet_ok:
  assumes "NDEBUG K" and "data + 158 \<le> length m"
  shows "\<exists>t. classify_packet K m s data n port phy =
     Some \<lparr>clas_type = Some t, base = data, len = n, port_in = port, phy_port_in = phy,
           calculate_checksums_in_sw = 0\<rparr> \<and>
     pkt_types t \<and> describes K m data t"
proof -
  let ?s = "s\<lparr>base := data, len := n, port_in := port, phy_port_in := phy, calculate_checksums_in_sw := 0\<rparr>"
  obtain r where r: "parse_ethernet K m ?s data n = Some r"
    using parse_ethernet_defined [OF assms, of ?s n] by blast
  have "sound K m (?s\<lparr>clas_type := Some []\<rparr>) r"
    by (rule parse_ethernet_sound [OF r]) simp
  then show ?thesis
    using r by (cases s) (auto simp: sound_def classify_packet_def)
qed

text \<open>C1: Classification with assertions compiled out, of a frame at \<open>data\<close> in an object with at
  least 158 bytes from there: it returns, whatever length it is told; the state then holds the arguments,
  cleared checksum flags and a type of the enumeration; and this type describes the bytes: each header
  the type lists is announced by the field of the header before it and has the shape its entry says.\<close>

theorem classify_packet_correct:
  assumes "NDEBUG K" and "data + 158 \<le> length m"
  shows "\<exists>t. classify_packet K m s data n port phy =
     Some \<lparr>clas_type = Some t, base = data, len = n, port_in = port, phy_port_in = phy,
           calculate_checksums_in_sw = 0\<rparr> \<and>
     pkt_types t \<and> describes K m data t"
  by (rule classify_packet_ok [OF assms])

theorem classify_packet_correct_witness:
  "\<exists>t. classify_packet std_rofl (replicate 158 0) \<lparr>clas_type = None, base = 7, len = 0, port_in = 0, phy_port_in = 0,
           calculate_checksums_in_sw = 3\<rparr> 0 60 1 2 =
     Some \<lparr>clas_type = Some t, base = 0, len = 60, port_in = 1, phy_port_in = 2, calculate_checksums_in_sw = 0\<rparr> \<and>
     pkt_types t \<and> describes std_rofl (replicate 158 0) 0 t"
  by (rule classify_packet_correct) (simp_all add: std_rofl_def)

text \<open>A flag for a checksum to be recalculated is set exactly by setting it: no flag touches
  another one.\<close>

lemma recalculate_flags:
  "is_recalculate_checksum_flag_set (set_recalculate_checksum s a) b \<longleftrightarrow>
     a = b \<or> is_recalculate_checksum_flag_set s b"
proof -
  have flag: "0 < (x AND push_bit n 1) \<longleftrightarrow> bit x n" if "n < 32" for x :: u32 and n
  proof -
    have "x AND push_bit n 1 = (if bit x n then push_bit n 1 else 0)"
      by (rule bit_word_eqI) (auto simp: bit_simps)
    moreover have "push_bit n 1 \<noteq> (0 :: u32)"
    proof
      assume "push_bit n 1 = (0 :: u32)"
      moreover have "bit (push_bit n 1 :: u32) n" using that by (simp add: bit_simps)
      ultimately have "bit (0 :: u32) n" by (simp only:)
      then show False by simp
    qed
    ultimately show ?thesis by (simp add: word_gt_0)
  qed
  have inj: "checksum_number a = checksum_number b \<longleftrightarrow> a = b" and "checksum_number b < 8"
    by (cases a; cases b; simp)+
  then have lt: "checksum_number b < 32" by simp
  have "is_recalculate_checksum_flag_set s' b \<longleftrightarrow> bit (calculate_checksums_in_sw s') (checksum_number b)" for s'
    unfolding is_recalculate_checksum_flag_set_def by (rule flag [OF lt])
  then show ?thesis
    using inj lt by (auto simp: set_recalculate_checksum_def bit_simps)
qed

text \<open>The header of an MPLS label is looked up by its index in the stack. An index from 0 counts
  from the outermost label; a negative one finds the position \<open>idx + 1\<close> labels behind the end of
  the stack, so that \<open>-1\<close>, meant to be the innermost label, is the first position behind it.\<close>

lemma get_mpls_hdr_position:
  assumes "clas_type s = Some (l2 @ [MPLS_nlabels n])" and "l2 \<in> set l2_types" and "1 \<le> n"
  shows "get_mpls_hdr s idx = Some
     (if 0 \<le> idx \<and> idx < int n then Some (base s + total_size l2 + 4 * nat idx)
      else if idx < 0 \<and> - idx \<le> int n + 1 then Some (base s + total_size l2 + 4 * n - 4 * nat (- idx - 1))
      else None)"
proof -
  have "protocol_offsets_bt (l2 @ [MPLS_nlabels n]) PT_PROTO_MPLS = Some (total_size l2)"
    using l2_types_is_l2 [OF assms(2)] offsets_None_iff [of l2 PT_PROTO_MPLS]
    by (auto simp: offsets_append has_def is_l2_def)
  then have hdr: "PT_GET_HDR s PT_PROTO_MPLS = Some (Some (base s + total_size l2))"
    using assms(1) by (simp add: PT_GET_HDR_def)
  have labels: "mpls_num_of_labels (l2 @ [MPLS_nlabels n]) = n"
    using mpls_num_of_labels_l2 [OF assms(2)] by (simp add: mpls_num_of_labels_def)
  have "nat (int n + idx + 1) * 4 = 4 * n - 4 * nat (- idx - 1)" if "idx < 0" "- idx \<le> int n + 1"
    using that by (simp add: nat_diff_distrib nat_add_distrib)
  then show ?thesis
    using assms hdr labels by (auto simp: get_mpls_hdr_def mult.commute)
qed

text \<open>In a classified frame without I-SID tag, the position \<open>classifier_get_eth_type\<close> gives holds
  the Ethertype that announces the first header above the link layer.\<close>

lemma eth_type_announces_upper:
  assumes "clas_type s = Some t" and "pkt_types t" and "describes K m (base s) t"
    and "\<not> has t PT_PROTO_ISID" and "upper_part t = h # hs"
  shows "\<exists>a et. classifier_get_eth_type s = Some a \<and> load m a = Some et \<and> ether_announces K et h"
proof -
  obtain l2 up where t: "t = l2 @ up" "l2 \<in> set l2_types" "upper_type up"
    using assms(2) by (rule pkt_typesE)
  note parts = parts_append [OF l2_types_is_l2 [OF t(2)] t(3), folded t(1)]
  have up: "up = h # hs" using parts assms(5) by simp
  have isid: "ISID \<notin> set l2" using assms(4) t(1) by (force simp: has_def)
  then have "l2 \<noteq> []" and l2: "filter (\<lambda>h. h \<noteq> ISID) l2 = l2" using t(2) by (auto simp: l2_types_def filter_id_conv)
  then obtain ys y where y: "l2 = ys @ [y]" by (cases l2 rule: rev_cases) auto
  have ann: "announces K m (base s + total_size ys) y h"
    using describes_split [of K m "base s" ys y h hs] assms(3) t(1) up y by simp
  have pos: "eth_type_offsets t + 2 = total_size l2"
    using parts(1) l2 t(2) isid by (auto simp: eth_type_offsets_def total_size_def l2_types_def)
  have "field m (base s + eth_type_offsets t) (\<lambda>et. ether_announces K et h)"
    using t(2) isid ann pos y by (auto simp: l2_types_def append_eq_Cons_conv add.commute)
  then show ?thesis
    using assms(1) by (auto simp: classifier_get_eth_type_def field_def split: option.splits)
qed

end
