(* ===== verification/Datapacket.thy ===== *)
theory Datapacket
  imports Classifier
begin

text \<open>
  The packet buffer (\<open>datapacketx86.h\<close>, \<open>datapacketx86.cc\<close>) and the wrappers the classifier
  calls (\<open>packet_operations.cc\<close>): where a frame is stored, the copy to user space, and inserting
  and removing bytes. The buffer of a packet has 256 bytes in front of the frame so that headers can
  be pushed without moving the payload.

  A pointer to a byte of the packet is an object (the buffer of the network card or the packet's own
  buffer) and an offset; \<open>object\<close> is the object \<open>clas_state.base\<close> points into. Comparing or
  subtracting pointers to different objects is \<open>None\<close>, like an access outside an object.

  The lemmas show the invariant \<open>wf_pkt\<close> (the frame lies inside its object), what every operation
  does to the frame (\<open>view\<close>: the bytes from the start of the frame on), and that the operations
  satisfy the contract \<open>packet_buffer\<close>, from which the round trips are derived.
\<close>

section \<open>Block moves\<close>

text \<open>\<open>platform_memcpy\<close>, \<open>platform_memmove\<close> and \<open>platform_memset\<close> of \<open>memory.c\<close>.\<close>

definition platform_memcpy :: "mem \<Rightarrow> nat \<Rightarrow> mem \<Rightarrow> nat \<Rightarrow> nat \<Rightarrow> mem option" where
  "platform_memcpy dst d src s n =
     (if d + n \<le> length dst \<and> s + n \<le> length src
      then Some (take d dst @ take n (drop s src) @ drop (d + n) dst) else None)"

definition platform_memmove :: "mem \<Rightarrow> nat \<Rightarrow> nat \<Rightarrow> nat \<Rightarrow> mem option" where
  "platform_memmove m d s n = platform_memcpy m d m s n"

definition platform_memset :: "mem \<Rightarrow> nat \<Rightarrow> u8 \<Rightarrow> nat \<Rightarrow> mem option" where
  "platform_memset m a c n =
     (if a + n \<le> length m then Some (take a m @ replicate n c @ drop (a + n) m) else None)"

section \<open>The packet\<close>

datatype x86buffering_status =
  X86_DATAPACKET_BUFFER_IS_EMPTY | X86_DATAPACKET_BUFFERED_IN_NIC | X86_DATAPACKET_BUFFERED_IN_USER_SPACE

datatype pkt_object = NIC_BUFFER | USER_SPACE_BUFFER

type_synonym ptr = "pkt_object \<times> nat"

definition PRE_GUARD_BYTES :: nat where "PRE_GUARD_BYTES = 256"
definition FRAME_SIZE_BYTES :: nat where "FRAME_SIZE_BYTES = 9000"
definition POST_GUARD_BYTES :: nat where "POST_GUARD_BYTES = 64"

text \<open>\<open>slot.iov_base\<close> is \<open>NULL\<close> or an offset in \<open>user_space_buffer\<close>; \<open>nic_buffer\<close> is the object
  of a buffer the packet refers to without owning it.\<close>

record datapacketx86 =
  lsw :: nat
  output_queue :: u32
  pktin_table_id :: u8
  pktin_reason :: u32
  pktin_send_len :: u16
  clas_state :: classifier_state
  object :: pkt_object
  iov_base :: "nat option"
  iov_len :: u64
  user_space_buffer :: mem
  nic_buffer :: mem
  buffering_status :: x86buffering_status

definition object_mem :: "datapacketx86 \<Rightarrow> pkt_object \<Rightarrow> mem" where
  "object_mem s ob = (if ob = NIC_BUFFER then nic_buffer s else user_space_buffer s)"

abbreviation pkt_mem :: "datapacketx86 \<Rightarrow> mem" where
  "pkt_mem s \<equiv> object_mem s (object s)"

definition set_mem :: "datapacketx86 \<Rightarrow> pkt_object \<Rightarrow> mem \<Rightarrow> datapacketx86" where
  "set_mem s ob m = (if ob = NIC_BUFFER then s\<lparr>nic_buffer := m\<rparr> else s\<lparr>user_space_buffer := m\<rparr>)"

definition get_buffer :: "datapacketx86 \<Rightarrow> ptr" where
  "get_buffer s = (object s, base (clas_state s))"

definition get_buffer_length :: "datapacketx86 \<Rightarrow> u64" where
  "get_buffer_length s = len (clas_state s)"

definition get_buffering_status :: "datapacketx86 \<Rightarrow> x86buffering_status" where
  "get_buffering_status s = buffering_status s"

text \<open>The constructor; the other members keep what the memory held.\<close>

definition construct :: "datapacketx86 \<Rightarrow> datapacketx86" where
  "construct s = s\<lparr>lsw := 0, pktin_table_id := 0, pktin_reason := 0,
                   buffering_status := X86_DATAPACKET_BUFFER_IS_EMPTY\<rparr>"

definition debug_clear :: "rofl \<Rightarrow> datapacketx86 \<Rightarrow> datapacketx86 option" where
  "debug_clear K s =
     (if NDEBUG K then Some s
      else do {
        b \<leftarrow> iov_base s;
        m \<leftarrow> platform_memset (user_space_buffer s) b 0 (unat (iov_len s));
        Some (s\<lparr>user_space_buffer := m\<rparr>) })"

definition use_user_space :: "datapacketx86 \<Rightarrow> datapacketx86" where
  "use_user_space s = s\<lparr>iov_base := Some 0, iov_len := of_nat (length (user_space_buffer s))\<rparr>"

definition init_internal_buffer_location_defaults ::
  "rofl \<Rightarrow> datapacketx86 \<Rightarrow> x86buffering_status \<Rightarrow> mem \<times> nat \<Rightarrow> u64 \<Rightarrow> datapacketx86 option" where
  "init_internal_buffer_location_defaults K s location buf buflen =
     (case location of
        X86_DATAPACKET_BUFFERED_IN_NIC \<Rightarrow>
          Some (s\<lparr>iov_base := None, iov_len := 0, nic_buffer := fst buf, object := NIC_BUFFER,
                  clas_state := (clas_state s)\<lparr>base := snd buf, len := buflen\<rparr>,
                  buffering_status := X86_DATAPACKET_BUFFERED_IN_NIC\<rparr>)
      | X86_DATAPACKET_BUFFERED_IN_USER_SPACE \<Rightarrow> do {
          s \<leftarrow> debug_clear K (use_user_space s);
          Some (s\<lparr>object := USER_SPACE_BUFFER,
                  clas_state := (clas_state s)\<lparr>base := PRE_GUARD_BYTES, len := buflen\<rparr>,
                  buffering_status := X86_DATAPACKET_BUFFERED_IN_USER_SPACE\<rparr>) }
      | X86_DATAPACKET_BUFFER_IS_EMPTY \<Rightarrow> Some s)"

text \<open>\<open>init\<close>: \<open>buf\<close> is \<open>NULL\<close> or an object and an offset. The flag \<open>copy\<close> is the parameter
  \<open>copy_packet_to_internal_buffer\<close>. \<open>in_phy_port\<close> is not used.\<close>

definition init_pkt ::
  "rofl \<Rightarrow> datapacketx86 \<Rightarrow> (mem \<times> nat) option \<Rightarrow> u64 \<Rightarrow> nat \<Rightarrow> u32 \<Rightarrow> u32 \<Rightarrow> bool \<Rightarrow> bool \<Rightarrow>
   (rofl_result \<times> datapacketx86) option" where
  "init_pkt K s buf buflen sw in_port in_phy_port classify copy =
     (if buflen > of_nat FRAME_SIZE_BYTES then Some (ROFL_FAILURE, s)
      else if \<not> copy \<and> buf = None then Some (ROFL_FAILURE, s)
      else do {
        s \<leftarrow> (if copy then do {
                s \<leftarrow> init_internal_buffer_location_defaults K s X86_DATAPACKET_BUFFERED_IN_USER_SPACE ([], 0) buflen;
                case buf of
                  None \<Rightarrow> Some s
                | Some (src, a) \<Rightarrow> do {
                    m \<leftarrow> platform_memcpy (user_space_buffer s) (base (clas_state s)) src a (unat buflen);
                    Some (s\<lparr>user_space_buffer := m\<rparr>) } }
              else init_internal_buffer_location_defaults K s X86_DATAPACKET_BUFFERED_IN_NIC (the buf) buflen);
        let s = s\<lparr>lsw := sw, output_queue := 0\<rparr>;
        if classify then do {
          c \<leftarrow> classify_packet K (pkt_mem s) (clas_state s) (base (clas_state s)) (get_buffer_length s) in_port 0;
          Some (ROFL_SUCCESS, s\<lparr>clas_state := c\<rparr>) }
        else Some (ROFL_SUCCESS, s) })"

definition destroy :: "rofl \<Rightarrow> datapacketx86 \<Rightarrow> datapacketx86 option" where
  "destroy K s =
     (if get_buffering_status s = X86_DATAPACKET_BUFFERED_IN_USER_SPACE then do {
        s \<leftarrow> debug_clear K s;
        Some (s\<lparr>buffering_status := X86_DATAPACKET_BUFFER_IS_EMPTY\<rparr>) }
      else Some s)"

definition transfer_to_user_space :: "rofl \<Rightarrow> datapacketx86 \<Rightarrow> (rofl_result \<times> datapacketx86) option" where
  "transfer_to_user_space K s =
     (case get_buffering_status s of
        X86_DATAPACKET_BUFFERED_IN_NIC \<Rightarrow> do {
          s \<leftarrow> debug_clear K (use_user_space s);
          m \<leftarrow> platform_memcpy (user_space_buffer s) PRE_GUARD_BYTES
                 (pkt_mem s) (base (clas_state s)) (unat (len (clas_state s)));
          Some (ROFL_SUCCESS,
            s\<lparr>user_space_buffer := m, object := USER_SPACE_BUFFER,
              clas_state := (clas_state s)\<lparr>base := PRE_GUARD_BYTES\<rparr>,
              buffering_status := X86_DATAPACKET_BUFFERED_IN_USER_SPACE\<rparr>) }
      | X86_DATAPACKET_BUFFERED_IN_USER_SPACE \<Rightarrow> Some (ROFL_SUCCESS, s)
      | X86_DATAPACKET_BUFFER_IS_EMPTY \<Rightarrow> Some (ROFL_FAILURE, s))"

section \<open>Push and pop\<close>

definition leave_nic :: "rofl \<Rightarrow> datapacketx86 \<Rightarrow> datapacketx86 option" where
  "leave_nic K s =
     (if buffering_status s = X86_DATAPACKET_BUFFERED_IN_NIC
      then map_option snd (transfer_to_user_space K s) else Some s)"

text \<open>The difference of two pointers into the packet's own buffer.\<close>

definition free_space_head :: "datapacketx86 \<Rightarrow> u64 option" where
  "free_space_head s =
     (case iov_base s of
        None \<Rightarrow> None
      | Some b \<Rightarrow> if object s = USER_SPACE_BUFFER then Some (of_nat (base (clas_state s)) - of_nat b) else None)"

definition push :: "rofl \<Rightarrow> datapacketx86 \<Rightarrow> u32 \<Rightarrow> u32 \<Rightarrow> (rofl_result \<times> datapacketx86) option" where
  "push K s offset num_of_bytes = do {
     s \<leftarrow> leave_nic K s;
     let b = base (clas_state s);
     let n = unat num_of_bytes;
     if ucast offset > len (clas_state s) then Some (ROFL_FAILURE, s)
     else do {
       head \<leftarrow> free_space_head s;
       let tail = iov_len s - (head + len (clas_state s));
       if ucast num_of_bytes > head + tail then Some (ROFL_FAILURE, s)
       else if ucast num_of_bytes > head then Some (ROFL_FAILURE, s)
       else if b < n then None
       else do {
         m \<leftarrow> platform_memmove (pkt_mem s) (b - n) b (unat offset);
         m \<leftarrow> (if NDEBUG K then Some m else platform_memset m (b - n + unat offset) 0 n);
         Some (ROFL_SUCCESS, (set_mem s (object s) m)
           \<lparr>clas_state := (clas_state s)\<lparr>base := b - n, len := len (clas_state s) + ucast num_of_bytes\<rparr>\<rparr>) } } }"

definition pop :: "rofl \<Rightarrow> datapacketx86 \<Rightarrow> u32 \<Rightarrow> u32 \<Rightarrow> (rofl_result \<times> datapacketx86) option" where
  "pop K s offset num_of_bytes = do {
     s \<leftarrow> leave_nic K s;
     let b = base (clas_state s);
     let n = unat num_of_bytes;
     if ucast offset > len (clas_state s) then Some (ROFL_FAILURE, s)
     else if ucast (offset + num_of_bytes) > len (clas_state s) then Some (ROFL_FAILURE, s)
     else do {
       m \<leftarrow> platform_memmove (pkt_mem s) (b + n) b (unat offset);
       m \<leftarrow> (if NDEBUG K then Some m else platform_memset m b 0 n);
       Some (ROFL_SUCCESS, (set_mem s (object s) m)
         \<lparr>clas_state := (clas_state s)\<lparr>base := b + n, len := len (clas_state s) - ucast num_of_bytes\<rparr>\<rparr>) } }"

text \<open>The variants that take a pointer. \<open>pop_ptr\<close> computes the offset with the operands swapped.\<close>

definition push_ptr :: "rofl \<Rightarrow> datapacketx86 \<Rightarrow> ptr \<Rightarrow> u32 \<Rightarrow> (rofl_result \<times> datapacketx86) option" where
  "push_ptr K s push_point num_of_bytes = do {
     s \<leftarrow> leave_nic K s;
     if fst push_point \<noteq> object s then None
     else if snd push_point < base (clas_state s) then Some (ROFL_FAILURE, s)
     else if snd push_point + unat num_of_bytes > base (clas_state s) + unat (len (clas_state s))
       then Some (ROFL_FAILURE, s)
     else do {
       let offset = (of_nat (snd push_point) - of_nat (base (clas_state s)) :: u64);
       push K s (ucast offset) num_of_bytes } }"

definition pop_ptr :: "rofl \<Rightarrow> datapacketx86 \<Rightarrow> ptr \<Rightarrow> u32 \<Rightarrow> (rofl_result \<times> datapacketx86) option" where
  "pop_ptr K s pop_point num_of_bytes =
     (if fst pop_point \<noteq> object s then None
      else if snd pop_point < base (clas_state s) then Some (ROFL_FAILURE, s)
      else if snd pop_point + unat num_of_bytes > base (clas_state s) + unat (len (clas_state s))
        then Some (ROFL_FAILURE, s)
      else do {
        let offset = (of_nat (base (clas_state s)) - of_nat (snd pop_point) :: u64);
        pop K s (ucast offset) num_of_bytes })"

text \<open>\<open>packet_operations.cc\<close>.\<close>

definition pkt_push :: "rofl \<Rightarrow> datapacketx86 \<Rightarrow> ptr option \<Rightarrow> u32 \<Rightarrow> u32 \<Rightarrow> (rofl_result \<times> datapacketx86) option" where
  "pkt_push K s push_point offset num_of_bytes =
     (case push_point of
        Some p \<Rightarrow> push_ptr K s p num_of_bytes
      | None \<Rightarrow> push K s offset num_of_bytes)"

definition pkt_pop :: "rofl \<Rightarrow> datapacketx86 \<Rightarrow> ptr option \<Rightarrow> u32 \<Rightarrow> u32 \<Rightarrow> (rofl_result \<times> datapacketx86) option" where
  "pkt_pop K s pop_point offset num_of_bytes =
     (case pop_point of
        Some p \<Rightarrow> pop_ptr K s p num_of_bytes
      | None \<Rightarrow> pop K s offset num_of_bytes)"

definition get_pkt_buffer_length :: "datapacketx86 \<Rightarrow> u64" where
  "get_pkt_buffer_length s = get_buffer_length s"

definition get_pkt_buffer :: "datapacketx86 \<Rightarrow> ptr" where
  "get_pkt_buffer s = get_buffer s"

section \<open>What the block moves do\<close>

lemma unat_u32_u64 [simp]: "unat (ucast (x :: u32) :: u64) = unat x"
proof -
  have "unat x < 2 ^ LENGTH(32)" by (rule unsigned_less)
  then show ?thesis by (simp add: unsigned_ucast_eq take_bit_nat_eq_self)
qed

lemma memcpy_Some:
  assumes "platform_memcpy dst d src s n = Some m"
  shows "length m = length dst" and "drop d m = take n (drop s src) @ drop (d + n) dst" and "take d m = take d dst"
  using assms by (auto simp: platform_memcpy_def split: if_splits)

lemma memset_Some:
  assumes "platform_memset m0 a c n = Some m"
  shows "length m = length m0" and "drop a m = replicate n c @ drop (a + n) m0" and "take a m = take a m0"
    and "drop (a + n) m = drop (a + n) m0"
  using assms by (auto simp: platform_memset_def split: if_splits)

lemma drop_via: "take a m = take a m0 \<Longrightarrow> d \<le> a \<Longrightarrow> a \<le> length m \<Longrightarrow> drop d m = take (a - d) (drop d m0) @ drop a m"
  by (metis append_take_drop_id drop_append drop_drop drop_take le_add_diff_inverse2 length_take min.absorb2 take_drop
      diff_is_0_eq drop_0)

lemma memcpy_defined: "d + n \<le> length dst \<Longrightarrow> s + n \<le> length src \<Longrightarrow> \<exists>m. platform_memcpy dst d src s n = Some m"
  by (simp add: platform_memcpy_def)

lemma memset_defined: "a + n \<le> length m \<Longrightarrow> \<exists>m'. platform_memset m a c n = Some m'"
  by (simp add: platform_memset_def)

section \<open>The invariant and the frame\<close>

definition wf_pkt :: "datapacketx86 \<Rightarrow> bool" where
  "wf_pkt s \<longleftrightarrow>
     length (user_space_buffer s) = PRE_GUARD_BYTES + FRAME_SIZE_BYTES + POST_GUARD_BYTES \<and>
     (case buffering_status s of
        X86_DATAPACKET_BUFFER_IS_EMPTY \<Rightarrow> False
      | X86_DATAPACKET_BUFFERED_IN_NIC \<Rightarrow>
          object s = NIC_BUFFER \<and> unat (len (clas_state s)) \<le> FRAME_SIZE_BYTES \<and>
          base (clas_state s) + unat (len (clas_state s)) \<le> length (nic_buffer s)
      | X86_DATAPACKET_BUFFERED_IN_USER_SPACE \<Rightarrow>
          object s = USER_SPACE_BUFFER \<and> iov_base s = Some 0 \<and>
          iov_len s = of_nat (length (user_space_buffer s)) \<and>
          base (clas_state s) + unat (len (clas_state s)) \<le> PRE_GUARD_BYTES + FRAME_SIZE_BYTES)"

text \<open>The bytes from the start of the frame on, and the frame.\<close>

definition view :: "datapacketx86 \<Rightarrow> mem" where
  "view s = drop (base (clas_state s)) (pkt_mem s)"

definition frame :: "datapacketx86 \<Rightarrow> mem" where
  "frame s = take (unat (len (clas_state s))) (view s)"

text \<open>How many bytes can be pushed.\<close>

definition room :: "datapacketx86 \<Rightarrow> nat" where
  "room s = (if buffering_status s = X86_DATAPACKET_BUFFERED_IN_NIC then PRE_GUARD_BYTES else base (clas_state s))"

lemmas guards = PRE_GUARD_BYTES_def FRAME_SIZE_BYTES_def POST_GUARD_BYTES_def

lemma length_frame: "wf_pkt s \<Longrightarrow> length (frame s) = unat (len (clas_state s))"
  by (cases "buffering_status s") (auto simp: wf_pkt_def frame_def view_def object_mem_def guards)

lemma in_user_space:
  assumes "wf_pkt s" and "buffering_status s \<noteq> X86_DATAPACKET_BUFFERED_IN_NIC"
  shows "object s = USER_SPACE_BUFFER" and "iov_base s = Some 0" and "iov_len s = 9320"
    and "length (user_space_buffer s) = 9320"
    and "base (clas_state s) + unat (len (clas_state s)) \<le> 9256"
    and "buffering_status s = X86_DATAPACKET_BUFFERED_IN_USER_SPACE"
  using assms by (cases "buffering_status s"; simp add: wf_pkt_def guards)+

lemma debug_clear_ok:
  assumes "length (user_space_buffer s) = 9320" and "iov_base s = Some 0" and "iov_len s = 9320"
  shows "\<exists>m. length m = 9320 \<and> debug_clear K s = Some (s\<lparr>user_space_buffer := m\<rparr>)"
proof (cases "NDEBUG K")
  case True
  then show ?thesis using assms
    by (intro exI [of _ "user_space_buffer s"]) (cases s, simp add: debug_clear_def)
next
  case False
  then show ?thesis using assms
    by (intro exI [of _ "replicate 9320 0"]) (simp add: debug_clear_def platform_memset_def)
qed

text \<open>Leaving the network card's buffer copies the frame.\<close>

lemma leave_nic_ok:
  assumes "wf_pkt s"
  obtains s' where "leave_nic K s = Some s'" and "wf_pkt s'"
    and "buffering_status s' = X86_DATAPACKET_BUFFERED_IN_USER_SPACE" and "frame s' = frame s"
    and "base (clas_state s') = room s" and "clas_state s' = (clas_state s)\<lparr>base := room s\<rparr>"
    and "buffering_status s \<noteq> X86_DATAPACKET_BUFFERED_IN_NIC \<Longrightarrow> s' = s"
proof (cases "buffering_status s = X86_DATAPACKET_BUFFERED_IN_NIC")
  case False
  then show ?thesis
    using that [of s] in_user_space [OF assms] assms by (simp add: leave_nic_def room_def)
next
  case True
  then have nic: "object s = NIC_BUFFER" "unat (len (clas_state s)) \<le> 9000"
    "base (clas_state s) + unat (len (clas_state s)) \<le> length (nic_buffer s)"
    "length (user_space_buffer s) = 9320"
    using assms by (auto simp: wf_pkt_def guards)
  obtain m0 where m0: "debug_clear K (use_user_space s) =
      Some (s\<lparr>iov_base := Some 0, iov_len := 9320, user_space_buffer := m0\<rparr>)" "length m0 = 9320"
    using debug_clear_ok [of "s\<lparr>iov_base := Some 0, iov_len := 9320\<rparr>" K] nic
    by (auto simp: use_user_space_def)
  let ?m = "take 256 m0 @ take (unat (len (clas_state s))) (drop (base (clas_state s)) (nic_buffer s)) @
      drop (256 + unat (len (clas_state s))) m0"
  let ?s = "s\<lparr>iov_base := Some 0, iov_len := 9320, user_space_buffer := ?m, object := USER_SPACE_BUFFER,
    clas_state := (clas_state s)\<lparr>base := 256\<rparr>, buffering_status := X86_DATAPACKET_BUFFERED_IN_USER_SPACE\<rparr>"
  show ?thesis
  proof (rule that)
    show "leave_nic K s = Some ?s"
      using True nic m0
      by (simp add: leave_nic_def transfer_to_user_space_def get_buffering_status_def object_mem_def
          platform_memcpy_def guards)
    show "wf_pkt ?s" using nic m0 by (simp add: wf_pkt_def guards)
    show "frame ?s = frame s"
      using nic m0 by (simp add: frame_def view_def object_mem_def)
  qed (use True in \<open>simp_all add: room_def guards\<close>)
qed

lemma room_user: "buffering_status s = X86_DATAPACKET_BUFFERED_IN_USER_SPACE \<Longrightarrow> room s = base (clas_state s)"
  by (simp add: room_def)

section \<open>Push\<close>

text \<open>The block moves of \<open>push\<close>: the first \<open>o\<close> bytes move \<open>n\<close> to the left, everything from
  \<open>b + o\<close> on stays.\<close>

lemma push_bytes:
  assumes fits: "b + k \<le> length m" and n: "n \<le> b"
  obtains m1 m2 X where "platform_memmove m (b - n) b k = Some m1"
    and "(if nd then Some m1 else platform_memset m1 (b - n + k) 0 n) = Some m2"
    and "length m2 = length m" and "length X = n"
    and "drop (b - n) m2 = take k (drop b m) @ X @ drop (b + k) m" and "drop (b + k) m2 = drop (b + k) m"
    and "\<not> nd \<Longrightarrow> X = replicate n 0"
proof -
  have fits': "b - n + k \<le> length m" "b - n + k + n \<le> length m" using fits n by linarith+
  obtain m1 where m1: "platform_memmove m (b - n) b k = Some m1"
    unfolding platform_memmove_def using memcpy_defined [of "b - n" k m b m] fits fits' by metis
  have l1: "length m1 = length m" and d1: "drop (b - n) m1 = take k (drop b m) @ drop (b - n + k) m"
    using memcpy_Some [OF m1 [unfolded platform_memmove_def]] by auto
  obtain m2 where m2: "(if nd then Some m1 else platform_memset m1 (b - n + k) 0 n) = Some m2"
    using memset_defined [of "b - n + k" n m1 0] fits' l1 by (cases nd) (simp, metis)
  define X where "X = take n (drop (b - n + k) m2)"
  have l2: "length m2 = length m" using m2 l1 memset_Some by (auto split: if_splits)
  have t2: "take (b - n + k) m2 = take (b - n + k) m1" using m2 memset_Some by (auto split: if_splits)
  have d1': "drop (b - n + k) m1 = drop (b - n + k) m"
    using arg_cong [OF d1, of "drop k"] fits by (simp add: add.commute)
  have bkn: "b - n + k + n = b + k" using n by simp
  have "drop (b - n + k + n) m2 = drop (b - n + k + n) m1"
    using m2 memset_Some(4) [of m1 "b - n + k" 0 n m2] by (cases nd) auto
  moreover have "drop (b - n + k + n) m1 = drop (b - n + k + n) m"
    using arg_cong [OF d1', of "drop n"] by (simp add: add.commute)
  ultimately have d2: "drop (b + k) m2 = drop (b + k) m" unfolding bkn by simp
  have X: "drop (b - n + k) m2 = X @ drop (b + k) m"
    using append_take_drop_id [of n "drop (b - n + k) m2"] d2 bkn by (simp add: X_def add.commute)
  have "drop (b - n) m2 = take (b - n + k - (b - n)) (drop (b - n) m1) @ drop (b - n + k) m2"
    by (rule drop_via [OF t2]) (use l2 fits' in simp_all)
  moreover have "take k (drop (b - n) m1) = take k (drop b m)"
    unfolding d1 using fits by simp
  ultimately have v: "drop (b - n) m2 = take k (drop b m) @ X @ drop (b + k) m"
    using X by (simp only: add_diff_cancel_left')
  have "length X = n" using l2 fits' by (simp add: X_def)
  moreover have "X = replicate n 0" if "\<not> nd"
    unfolding X_def using that m2 memset_Some(2) by fastforce
  ultimately show ?thesis using that m1 m2 l2 v d2 by blast
qed

lemma push_ok:
  assumes wf: "wf_pkt s" and off: "unat offset \<le> unat (len (clas_state s))" and n: "unat n \<le> room s"
  obtains s' X where "push K s offset n = Some (ROFL_SUCCESS, s')" and "wf_pkt s'"
    and "length X = unat n" and "frame s' = take (unat offset) (frame s) @ X @ drop (unat offset) (frame s)"
    and "\<not> NDEBUG K \<Longrightarrow> X = replicate (unat n) 0"
    and "clas_state s' = (clas_state s)\<lparr>base := room s - unat n, len := len (clas_state s) + ucast n\<rparr>"
    and "unat (len (clas_state s')) = unat (len (clas_state s)) + unat n"
    and "buffering_status s' = X86_DATAPACKET_BUFFERED_IN_USER_SPACE" and "room s' = room s - unat n"
    and "buffering_status s \<noteq> X86_DATAPACKET_BUFFERED_IN_NIC \<Longrightarrow>
           view s' = take (unat offset) (view s) @ X @ drop (unat offset) (view s) \<and>
           drop (base (clas_state s) + unat offset) (pkt_mem s') = drop (base (clas_state s) + unat offset) (pkt_mem s)"
proof -
  obtain s1 where s1: "leave_nic K s = Some s1" "wf_pkt s1"
    "buffering_status s1 = X86_DATAPACKET_BUFFERED_IN_USER_SPACE" "frame s1 = frame s"
    "clas_state s1 = (clas_state s)\<lparr>base := room s\<rparr>" and same: "buffering_status s \<noteq> X86_DATAPACKET_BUFFERED_IN_NIC \<Longrightarrow> s1 = s"
    using leave_nic_ok [OF wf] by metis
  let ?b = "room s" and ?o = "unat offset" and ?n = "unat n" and ?l = "unat (len (clas_state s))"
  note user = in_user_space [OF s1(2)]
  have u: "object s1 = USER_SPACE_BUFFER" "iov_base s1 = Some 0" "iov_len s1 = 9320"
    "length (user_space_buffer s1) = 9320" "?b + ?l \<le> 9256"
    using user s1(3,5) by simp_all
  let ?m = "user_space_buffer s1"
  have fits: "?b + ?o \<le> length ?m" using u off by simp
  obtain m1 m2 X where m1: "platform_memmove ?m (?b - ?n) ?b ?o = Some m1"
    and m2: "(if NDEBUG K then Some m1 else platform_memset m1 (?b - ?n + ?o) 0 ?n) = Some m2"
    and l2: "length m2 = 9320" and lX: "length X = ?n"
    and v: "drop (?b - ?n) m2 = take ?o (drop ?b ?m) @ X @ drop (?b + ?o) ?m"
    and d2: "drop (?b + ?o) m2 = drop (?b + ?o) ?m" and zero: "\<not> NDEBUG K \<Longrightarrow> X = replicate ?n 0"
    using push_bytes [of ?b ?o ?m ?n "NDEBUG K"] fits u(4) n by metis
  let ?s = "(set_mem s1 USER_SPACE_BUFFER m2)\<lparr>clas_state := (clas_state s1)\<lparr>base := ?b - ?n, len := len (clas_state s) + ucast n\<rparr>\<rparr>"
  have len: "unat (len (clas_state s) + ucast n) = ?l + ?n"
    using u n by (subst unat_add_lem [THEN iffD1]) simp_all
  have head: "free_space_head s1 = Some (of_nat ?b)" using u s1(5) by (simp add: free_space_head_def)
  have "(of_nat ?b :: u64) + (9320 - (of_nat ?b + len (clas_state s))) = 9320 - len (clas_state s)" by simp
  moreover have "unat (9320 - len (clas_state s)) = 9320 - ?l"
    using u by (simp add: unat_sub word_le_nat_alt)
  ultimately have tail: "ucast n \<le> (of_nat ?b :: u64) + (9320 - (of_nat ?b + len (clas_state s)))"
    using u n by (simp add: word_le_nat_alt)
  show ?thesis
  proof (rule that [of ?s X])
    show "push K s offset n = Some (ROFL_SUCCESS, ?s)"
      using s1 u off n m1 m2 head tail
      by (cases "NDEBUG K") (simp_all add: push_def Let_def object_mem_def word_le_nat_alt word_less_nat_alt unat_of_nat)
    show "wf_pkt ?s" using u s1(3,5) n len by (simp add: wf_pkt_def set_mem_def guards l2)
    have "frame s1 = take ?l (drop ?b ?m)" using s1(5) u by (simp add: frame_def view_def object_mem_def)
    then have "frame s = take ?l (drop ?b ?m)" using s1(4) by simp
    moreover have "frame ?s = take (?l + ?n) (take ?o (drop ?b ?m) @ X @ drop (?b + ?o) ?m)"
      using s1(5) u len v by (simp add: frame_def view_def object_mem_def set_mem_def)
    ultimately show "frame ?s = take ?o (frame s) @ X @ drop ?o (frame s)"
      using lX off u by (simp add: drop_take add.commute)
    show "view ?s = take ?o (view s) @ X @ drop ?o (view s) \<and>
        drop (base (clas_state s) + ?o) (pkt_mem ?s) = drop (base (clas_state s) + ?o) (pkt_mem s)"
      if "buffering_status s \<noteq> X86_DATAPACKET_BUFFERED_IN_NIC"
      using same [OF that] s1(5) u v d2 that by (simp add: view_def object_mem_def set_mem_def room_def add.commute)
  qed (use lX zero len s1 in \<open>simp_all add: set_mem_def room_user\<close>)
qed

lemma push_refused:
  assumes wf: "wf_pkt s" and "\<not> (unat offset \<le> unat (len (clas_state s)) \<and> unat n \<le> room s)"
  obtains s' where "push K s offset n = Some (ROFL_FAILURE, s')" and "wf_pkt s'" and "frame s' = frame s"
    and "room s' = room s" and "clas_state s' = (clas_state s)\<lparr>base := room s\<rparr>"
    and "buffering_status s' = X86_DATAPACKET_BUFFERED_IN_USER_SPACE"
proof -
  obtain s1 where s1: "leave_nic K s = Some s1" "wf_pkt s1"
    "buffering_status s1 = X86_DATAPACKET_BUFFERED_IN_USER_SPACE" "frame s1 = frame s"
    "clas_state s1 = (clas_state s)\<lparr>base := room s\<rparr>"
    using leave_nic_ok [OF wf] by metis
  note user = in_user_space [OF s1(2)]
  have head: "free_space_head s1 = Some (of_nat (room s))" and b: "room s \<le> 9256"
    using user s1(3,5) by (simp_all add: free_space_head_def)
  then have "unat (of_nat (room s) :: u64) = room s" by (simp add: unat_of_nat)
  then have "push K s offset n = Some (ROFL_FAILURE, s1)"
    using s1 assms(2) head
    by (auto simp: push_def Let_def word_le_nat_alt word_less_nat_alt)
  moreover have "room s1 = room s" using s1(3,5) by (simp add: room_def [of s1])
  ultimately show ?thesis using that s1 by blast
qed

section \<open>Pop\<close>

lemma pop_bytes:
  assumes "b + k + n \<le> length m"
  obtains m1 m2 where "platform_memmove m (b + n) b k = Some m1"
    and "(if nd then Some m1 else platform_memset m1 b 0 n) = Some m2"
    and "length m2 = length m" and "drop (b + n) m2 = take k (drop b m) @ drop (b + n + k) m"
proof -
  obtain m1 where m1: "platform_memmove m (b + n) b k = Some m1"
    unfolding platform_memmove_def using memcpy_defined [of "b + n" k m b m] assms by (auto simp: add_ac)
  note d1 = memcpy_Some [OF m1 [unfolded platform_memmove_def]]
  obtain m2 where m2: "(if nd then Some m1 else platform_memset m1 b 0 n) = Some m2"
    using memset_defined [of b n m1 0] d1(1) assms by (cases nd) auto
  have "length m2 = length m" and "drop (b + n) m2 = drop (b + n) m1"
    using m2 d1(1) memset_Some(1,4) by (auto split: if_splits)
  then show ?thesis using that m1 m2 d1(2) by simp
qed

lemma pop_ok:
  assumes wf: "wf_pkt s" and fits: "unat offset + unat n \<le> unat (len (clas_state s))"
  obtains s' where "pop K s offset n = Some (ROFL_SUCCESS, s')" and "wf_pkt s'"
    and "frame s' = take (unat offset) (frame s) @ drop (unat offset + unat n) (frame s)"
    and "clas_state s' = (clas_state s)\<lparr>base := room s + unat n, len := len (clas_state s) - ucast n\<rparr>"
    and "unat (len (clas_state s')) = unat (len (clas_state s)) - unat n"
    and "buffering_status s' = X86_DATAPACKET_BUFFERED_IN_USER_SPACE" and "room s' = room s + unat n"
    and "buffering_status s \<noteq> X86_DATAPACKET_BUFFERED_IN_NIC \<Longrightarrow>
           view s' = take (unat offset) (view s) @ drop (unat offset + unat n) (view s)"
proof -
  obtain s1 where s1: "leave_nic K s = Some s1" "wf_pkt s1"
    "buffering_status s1 = X86_DATAPACKET_BUFFERED_IN_USER_SPACE" "frame s1 = frame s"
    "clas_state s1 = (clas_state s)\<lparr>base := room s\<rparr>" and same: "buffering_status s \<noteq> X86_DATAPACKET_BUFFERED_IN_NIC \<Longrightarrow> s1 = s"
    using leave_nic_ok [OF wf] by metis
  let ?b = "room s" and ?o = "unat offset" and ?n = "unat n" and ?l = "unat (len (clas_state s))"
  note user = in_user_space [OF s1(2)]
  have u: "object s1 = USER_SPACE_BUFFER" "iov_base s1 = Some 0" "iov_len s1 = 9320"
    "length (user_space_buffer s1) = 9320" "?b + ?l \<le> 9256"
    using user s1(3,5) by simp_all
  let ?m = "user_space_buffer s1"
  obtain m1 m2 where m1: "platform_memmove ?m (?b + ?n) ?b ?o = Some m1"
    and m2: "(if NDEBUG K then Some m1 else platform_memset m1 ?b 0 ?n) = Some m2"
    and l2: "length m2 = 9320" and v: "drop (?b + ?n) m2 = take ?o (drop ?b ?m) @ drop (?b + ?n + ?o) ?m"
    using pop_bytes [of ?b ?o ?n ?m "NDEBUG K"] fits u by auto
  let ?s = "(set_mem s1 USER_SPACE_BUFFER m2)\<lparr>clas_state := (clas_state s1)\<lparr>base := ?b + ?n, len := len (clas_state s) - ucast n\<rparr>\<rparr>"
  have "unat (offset + n) = ?o + ?n"
    using u fits by (subst unat_add_lem [THEN iffD1]) simp_all
  moreover have len: "unat (len (clas_state s) - ucast n) = ?l - ?n"
    using fits by (simp add: unat_sub word_le_nat_alt)
  ultimately have run: "pop K s offset n = Some (ROFL_SUCCESS, ?s)"
    using s1 u fits m1 m2
    by (cases "NDEBUG K") (simp_all add: pop_def Let_def object_mem_def word_le_nat_alt word_less_nat_alt)
  have "frame s1 = take ?l (drop ?b ?m)" using s1(5) u by (simp add: frame_def view_def object_mem_def)
  then have frames: "frame s = take ?l (drop ?b ?m)"
    "frame ?s = take (?l - ?n) (take ?o (drop ?b ?m) @ drop (?b + ?n + ?o) ?m)"
    using s1(4,5) u len v by (simp_all add: frame_def view_def object_mem_def set_mem_def)
  show ?thesis
  proof (rule that [OF run])
    show "wf_pkt ?s" using u s1(3,5) fits len by (simp add: wf_pkt_def set_mem_def guards l2)
    show "frame ?s = take ?o (frame s) @ drop (?o + ?n) (frame s)"
      unfolding frames using fits u by (simp add: drop_take add.commute add.left_commute)
    show "view ?s = take ?o (view s) @ drop (?o + ?n) (view s)"
      if "buffering_status s \<noteq> X86_DATAPACKET_BUFFERED_IN_NIC"
      using same [OF that] s1(5) u v that
      by (simp add: view_def object_mem_def set_mem_def room_def add.commute add.left_commute)
  qed (use len s1 in \<open>simp_all add: set_mem_def room_user\<close>)
qed

text \<open>The end of the removed area is computed in 32 bits. Unless the sum overflows, an area that is not
  inside the frame is refused; if it does, the check passes and the move runs out of the buffer.\<close>

lemma pop_refused:
  assumes wf: "wf_pkt s" and "unat (len (clas_state s)) < unat offset + unat n"
    and no: "unat offset \<le> unat (len (clas_state s)) \<Longrightarrow> unat offset + unat n < 2 ^ 32"
  obtains s' where "pop K s offset n = Some (ROFL_FAILURE, s')" and "wf_pkt s'" and "frame s' = frame s"
    and "room s' = room s" and "clas_state s' = (clas_state s)\<lparr>base := room s\<rparr>"
    and "buffering_status s' = X86_DATAPACKET_BUFFERED_IN_USER_SPACE"
proof -
  obtain s1 where s1: "leave_nic K s = Some s1" "wf_pkt s1"
    "buffering_status s1 = X86_DATAPACKET_BUFFERED_IN_USER_SPACE" "frame s1 = frame s"
    "clas_state s1 = (clas_state s)\<lparr>base := room s\<rparr>"
    using leave_nic_ok [OF wf] by metis
  have "unat (offset + n) = unat offset + unat n" if "unat offset \<le> unat (len (clas_state s))"
    using no [OF that] by (subst unat_add_lem [THEN iffD1]) simp_all
  then have "pop K s offset n = Some (ROFL_FAILURE, s1)"
    using s1 assms(2) by (auto simp: pop_def Let_def word_le_nat_alt word_less_nat_alt)
  moreover have "room s1 = room s" using s1(3,5) by (simp add: room_def [of s1])
  ultimately show ?thesis using that s1 by blast
qed

section \<open>The contract of a packet buffer\<close>

text \<open>What the packet operations rely on: inserting and removing bytes either does exactly that and
  keeps the invariant, or is refused and leaves the contents and the space for further bytes alone.\<close>

locale packet_buffer =
  fixes wf :: "'s \<Rightarrow> bool" and contents :: "'s \<Rightarrow> mem" and space :: "'s \<Rightarrow> nat"
    and ins :: "'s \<Rightarrow> u32 \<Rightarrow> u32 \<Rightarrow> (rofl_result \<times> 's) option"
    and del :: "'s \<Rightarrow> u32 \<Rightarrow> u32 \<Rightarrow> (rofl_result \<times> 's) option"
  assumes bounded: "wf s \<Longrightarrow> length (contents s) + space s < 2 ^ 32"
    and ins_ok: "wf s \<Longrightarrow> unat k \<le> length (contents s) \<Longrightarrow> unat n \<le> space s \<Longrightarrow>
      \<exists>s' X. ins s k n = Some (ROFL_SUCCESS, s') \<and> wf s' \<and> length X = unat n \<and>
        contents s' = take (unat k) (contents s) @ X @ drop (unat k) (contents s) \<and> space s' = space s - unat n"
    and ins_refused: "wf s \<Longrightarrow> \<not> (unat k \<le> length (contents s) \<and> unat n \<le> space s) \<Longrightarrow>
      \<exists>s'. ins s k n = Some (ROFL_FAILURE, s') \<and> wf s' \<and> contents s' = contents s \<and> space s' = space s"
    and del_ok: "wf s \<Longrightarrow> unat k + unat n \<le> length (contents s) \<Longrightarrow>
      \<exists>s'. del s k n = Some (ROFL_SUCCESS, s') \<and> wf s' \<and>
        contents s' = take (unat k) (contents s) @ drop (unat k + unat n) (contents s) \<and> space s' = space s + unat n"
    and del_refused: "wf s \<Longrightarrow> length (contents s) < unat k + unat n \<Longrightarrow> unat k + unat n < 2 ^ 32 \<Longrightarrow>
      \<exists>s'. del s k n = Some (ROFL_FAILURE, s') \<and> wf s' \<and> contents s' = contents s \<and> space s' = space s"
begin

lemma ins_del:
  assumes "wf s" and "unat k \<le> length (contents s)" and "unat n \<le> space s"
  shows "\<exists>s1 s2. ins s k n = Some (ROFL_SUCCESS, s1) \<and> del s1 k n = Some (ROFL_SUCCESS, s2) \<and>
           wf s2 \<and> contents s2 = contents s \<and> space s2 = space s"
proof -
  obtain s1 X where s1: "ins s k n = Some (ROFL_SUCCESS, s1)" "wf s1" "length X = unat n"
    "contents s1 = take (unat k) (contents s) @ X @ drop (unat k) (contents s)" "space s1 = space s - unat n"
    using ins_ok [OF assms] by blast
  have "unat k + unat n \<le> length (contents s1)" using s1(3,4) assms(2) by simp
  then obtain s2 where "del s1 k n = Some (ROFL_SUCCESS, s2)" "wf s2" "space s2 = space s1 + unat n"
    "contents s2 = take (unat k) (contents s1) @ drop (unat k + unat n) (contents s1)"
    using del_ok [OF s1(2)] by blast
  then show ?thesis using s1 assms by auto
qed

text \<open>Removing an area and inserting as many bytes again changes nothing outside the area.\<close>

lemma del_ins:
  assumes "wf s" and "unat k + unat n \<le> length (contents s)"
  shows "\<exists>s1 s2 X. del s k n = Some (ROFL_SUCCESS, s1) \<and> ins s1 k n = Some (ROFL_SUCCESS, s2) \<and>
           wf s2 \<and> length X = unat n \<and> space s2 = space s \<and>
           contents s2 = take (unat k) (contents s) @ X @ drop (unat k + unat n) (contents s)"
proof -
  obtain s1 where s1: "del s k n = Some (ROFL_SUCCESS, s1)" "wf s1" "space s1 = space s + unat n"
    "contents s1 = take (unat k) (contents s) @ drop (unat k + unat n) (contents s)"
    using del_ok [OF assms] by blast
  have "unat k \<le> length (contents s1)" "unat n \<le> space s1" using s1(3,4) assms(2) by auto
  then obtain s2 X where "ins s1 k n = Some (ROFL_SUCCESS, s2)" "wf s2" "length X = unat n"
    "contents s2 = take (unat k) (contents s1) @ X @ drop (unat k) (contents s1)" "space s2 = space s1 - unat n"
    using ins_ok [OF s1(2)] by blast
  then show ?thesis using s1 assms by auto
qed

lemma returns: "wf s \<Longrightarrow> \<exists>r s'. ins s k n = Some (r, s') \<and> wf s'"
  using ins_ok [of s k n] ins_refused [of s k n] by blast

end

lemma room_le: "wf_pkt s \<Longrightarrow> unat (len (clas_state s)) + room s \<le> 9256"
  by (cases "buffering_status s") (auto simp: wf_pkt_def room_def guards)

interpretation gnu_linux: packet_buffer wf_pkt frame room "push K" "pop K" for K
proof
  fix s :: datapacketx86 and k n :: u32
  assume wf: "wf_pkt s"
  note l = length_frame [OF wf]
  show "length (frame s) + room s < 2 ^ 32" using room_le [OF wf] l by simp
  show "\<exists>s' X. push K s k n = Some (ROFL_SUCCESS, s') \<and> wf_pkt s' \<and> length X = unat n \<and>
      frame s' = take (unat k) (frame s) @ X @ drop (unat k) (frame s) \<and> room s' = room s - unat n"
    if "unat k \<le> length (frame s)" "unat n \<le> room s"
    using push_ok [OF wf that(1) [unfolded l] that(2), of K] by metis
  show "\<exists>s'. push K s k n = Some (ROFL_FAILURE, s') \<and> wf_pkt s' \<and> frame s' = frame s \<and> room s' = room s"
    if "\<not> (unat k \<le> length (frame s) \<and> unat n \<le> room s)"
    using push_refused [OF wf that [unfolded l], of K] by metis
  show "\<exists>s'. pop K s k n = Some (ROFL_SUCCESS, s') \<and> wf_pkt s' \<and>
      frame s' = take (unat k) (frame s) @ drop (unat k + unat n) (frame s) \<and> room s' = room s + unat n"
    if "unat k + unat n \<le> length (frame s)"
    using pop_ok [OF wf that [unfolded l], of K] by metis
  show "\<exists>s'. pop K s k n = Some (ROFL_FAILURE, s') \<and> wf_pkt s' \<and> frame s' = frame s \<and> room s' = room s"
    if "length (frame s) < unat k + unat n" "unat k + unat n < 2 ^ 32"
    using pop_refused [OF wf that(1) [unfolded l] that(2), of K] by metis
qed

section \<open>Properties\<close>

text \<open>A packet in user space with a given frame, for the witnesses.\<close>

definition user_pkt :: "mem \<Rightarrow> datapacketx86" where
  "user_pkt f =
     \<lparr>lsw = 0, output_queue = 0, pktin_table_id = 0, pktin_reason = 0, pktin_send_len = 0,
      clas_state = \<lparr>clas_type = None, base = 256, len = of_nat (length f), port_in = 0, phy_port_in = 0,
                    calculate_checksums_in_sw = 0\<rparr>,
      object = USER_SPACE_BUFFER, iov_base = Some 0, iov_len = 9320,
      user_space_buffer = replicate 256 0 @ f @ replicate (9064 - length f) 0, nic_buffer = [],
      buffering_status = X86_DATAPACKET_BUFFERED_IN_USER_SPACE\<rparr>"

lemma user_pkt:
  assumes "length f \<le> 9000"
  shows "wf_pkt (user_pkt f)" and "frame (user_pkt f) = f" and "room (user_pkt f) = 256"
  using assms
  by (simp_all add: user_pkt_def wf_pkt_def frame_def view_def object_mem_def room_def guards unat_of_nat)

text \<open>C22: \<open>push\<close> on a well-formed packet returns and keeps it well-formed. It succeeds exactly if the
  offset lies in the frame and the bytes fit in front of it (256 for a frame still in the network
  card's buffer); then the frame has the new bytes at the offset, which are 0 in a debug build, and
  the same bytes before and after them. Otherwise the frame is unchanged.\<close>

theorem push_correct:
  assumes "wf_pkt s"
  shows "\<exists>r s'. push K s offset n = Some (r, s') \<and> wf_pkt s' \<and>
     (r = ROFL_SUCCESS \<longleftrightarrow> unat offset \<le> length (frame s) \<and> unat n \<le> room s) \<and>
     (r = ROFL_FAILURE \<longrightarrow> frame s' = frame s) \<and>
     (r = ROFL_SUCCESS \<longrightarrow> (\<exists>X. length X = unat n \<and> (\<not> NDEBUG K \<longrightarrow> X = replicate (unat n) 0) \<and>
        frame s' = take (unat offset) (frame s) @ X @ drop (unat offset) (frame s)))"
proof (cases "unat offset \<le> length (frame s) \<and> unat n \<le> room s")
  case True
  then show ?thesis
    using push_ok [OF assms, of offset n K] length_frame [OF assms] by (metis rofl_result.distinct(1))
next
  case False
  then show ?thesis
    using push_refused [OF assms, of offset n K] length_frame [OF assms] by (metis rofl_result.distinct(1))
qed

theorem push_correct_witness:
  "\<exists>r s'. push std_rofl (user_pkt [1, 2, 3]) 2 4 = Some (r, s') \<and> wf_pkt s' \<and> r = ROFL_SUCCESS"
  using push_correct [OF user_pkt(1) [of "[1, 2, 3]"], of std_rofl 2 4] user_pkt(2,3) [of "[1, 2, 3]"] by auto

lemma pop_overflows:
  assumes "wf_pkt s" and "unat offset \<le> length (frame s)" and "2 ^ 32 \<le> unat offset + unat n"
  shows "pop K s offset n = None"
proof -
  obtain s1 where s1: "leave_nic K s = Some s1" "wf_pkt s1"
    "buffering_status s1 = X86_DATAPACKET_BUFFERED_IN_USER_SPACE" "clas_state s1 = (clas_state s)\<lparr>base := room s\<rparr>"
    using leave_nic_ok [OF assms(1)] by metis
  have n: "unat n < 2 ^ 32" and o32: "unat offset < 2 ^ 32"
    using unsigned_less [of n] unsigned_less [of offset] by auto
  have small: "length (frame s) \<le> 9256" using room_le [OF assms(1)] length_frame [OF assms(1)] by simp
  have "unat (offset + n) = (unat offset + unat n) mod 2 ^ 32" by (simp add: unat_word_ariths)
  also have "\<dots> = unat offset + unat n - 2 ^ 32"
    using assms(3) n o32 by (subst le_mod_geq) auto
  finally have "unat (offset + n) \<le> unat (len (clas_state s))"
    using n assms(2) length_frame [OF assms(1)] by simp
  moreover have "platform_memmove (user_space_buffer s1) (base (clas_state s1) + unat n) (base (clas_state s1)) (unat offset) = None"
    using in_user_space(4) [OF s1(2)] s1(3) assms(2,3) small
    by (simp add: platform_memmove_def platform_memcpy_def)
  ultimately show ?thesis
    using s1 assms(2) length_frame [OF assms(1)] in_user_space(1) [OF s1(2)]
    by (simp add: pop_def Let_def word_le_nat_alt word_less_nat_alt object_mem_def)
qed

lemma pop_returns:
  assumes "wf_pkt s" and "unat offset + unat n < 2 ^ 32"
  shows "\<exists>r s'. pop K s offset n = Some (r, s') \<and> wf_pkt s' \<and>
     (r = ROFL_SUCCESS \<longleftrightarrow> unat offset + unat n \<le> length (frame s)) \<and>
     frame s' = (if r = ROFL_SUCCESS then take (unat offset) (frame s) @ drop (unat offset + unat n) (frame s)
                 else frame s)"
proof (cases "unat offset + unat n \<le> length (frame s)")
  case True
  then show ?thesis
    using gnu_linux.del_ok [OF assms(1), of offset n K] by auto
next
  case False
  then show ?thesis
    using gnu_linux.del_refused [OF assms(1) _ assms(2), of K] by fastforce
qed

text \<open>C23: \<open>pop\<close> on a well-formed packet. If the end of the area does not overflow 32 bits, it returns and
  keeps the packet well-formed; it succeeds exactly if the area lies in the frame; then these bytes are
  gone and the others kept, otherwise the frame is unchanged. The check computes the end of the area in
  32 bits: for an area that starts in the frame and whose end overflows it, the check passes and the
  move leaves the buffer.\<close>

theorem pop_correct:
  assumes "wf_pkt s" and "unat offset \<le> length (frame s) \<or> unat offset + unat n < 2 ^ 32"
  shows "if unat offset + unat n < 2 ^ 32
     then \<exists>r s'. pop K s offset n = Some (r, s') \<and> wf_pkt s' \<and>
       (r = ROFL_SUCCESS \<longleftrightarrow> unat offset + unat n \<le> length (frame s)) \<and>
       frame s' = (if r = ROFL_SUCCESS then take (unat offset) (frame s) @ drop (unat offset + unat n) (frame s)
                   else frame s)
     else pop K s offset n = None"
  using pop_returns [OF assms(1), of offset n K] pop_overflows [OF assms(1), of offset n K] assms(2) by auto

theorem pop_correct_witness:
  "(\<exists>r s'. pop std_rofl (user_pkt [1, 2, 3, 4]) 1 2 = Some (r, s') \<and> wf_pkt s' \<and> frame s' = [1, 4]) \<and>
   pop std_rofl (user_pkt [1, 2, 3, 4]) 2 0xFFFFFFFF = None"
  using pop_correct [OF user_pkt(1) [of "[1, 2, 3, 4]"], of 1 2 std_rofl]
    pop_correct [OF user_pkt(1) [of "[1, 2, 3, 4]"], of 2 "0xFFFFFFFF" std_rofl] user_pkt(2) [of "[1, 2, 3, 4]"]
  by auto

text \<open>Pushing bytes and popping them at the same place gives the frame and the space in front of it
  back; popping an area and pushing as many bytes changes only that area.\<close>

lemma push_pop_roundtrip:
  assumes "wf_pkt s"
  shows "(unat k \<le> length (frame s) \<and> unat n \<le> room s \<longrightarrow>
           (\<exists>s1 s2. push K s k n = Some (ROFL_SUCCESS, s1) \<and> pop K s1 k n = Some (ROFL_SUCCESS, s2) \<and>
              wf_pkt s2 \<and> frame s2 = frame s \<and> room s2 = room s)) \<and>
         (unat k + unat n \<le> length (frame s) \<longrightarrow>
           (\<exists>s1 s2 X. pop K s k n = Some (ROFL_SUCCESS, s1) \<and> push K s1 k n = Some (ROFL_SUCCESS, s2) \<and>
              wf_pkt s2 \<and> length X = unat n \<and> room s2 = room s \<and>
              frame s2 = take (unat k) (frame s) @ X @ drop (unat k + unat n) (frame s)))"
  using gnu_linux.ins_del [OF assms] gnu_linux.del_ins [OF assms] by blast

text \<open>The pointer variants on a packet in user space, for a pointer \<open>k\<close> bytes into the frame:
  \<open>push\<close> inserts at offset \<open>k\<close>, but is refused unless \<open>n\<close> bytes follow the pointer; \<open>pop\<close>
  subtracts in the wrong order, so that it removes bytes at the start of the frame only and refuses
  every other position.\<close>

lemma pointer_variants:
  assumes "wf_pkt s" and "buffering_status s = X86_DATAPACKET_BUFFERED_IN_USER_SPACE"
  shows "push_ptr K s (object s, base (clas_state s) + k) n =
           (if k + unat n \<le> length (frame s) then push K s (of_nat k) n else Some (ROFL_FAILURE, s)) \<and>
         pop_ptr K s (object s, base (clas_state s) + k) n =
           (if k = 0 \<and> unat n \<le> length (frame s) then pop K s 0 n else Some (ROFL_FAILURE, s))"
proof -
  have leave: "leave_nic K s = Some s" using assms(2) by (simp add: leave_nic_def)
  note l = length_frame [OF assms(1)]
  have small: "unat (len (clas_state s)) \<le> 9256" using room_le [OF assms(1)] by simp
  have push: "push_ptr K s (object s, base (clas_state s) + k) n =
      (if k + unat n \<le> length (frame s) then push K s (of_nat k) n else Some (ROFL_FAILURE, s))"
  proof (cases "k + unat n \<le> length (frame s)")
    case True
    have "ucast (of_nat (base (clas_state s) + k) - of_nat (base (clas_state s)) :: u64) = (of_nat k :: u32)"
      by (simp add: unsigned_of_nat word_of_nat_eq_iff)
    with True leave l show ?thesis by (simp add: push_ptr_def)
  qed (use leave l in \<open>simp add: push_ptr_def\<close>)
  have pop: "pop_ptr K s (object s, base (clas_state s) + k) n =
      (if k = 0 \<and> unat n \<le> length (frame s) then pop K s 0 n else Some (ROFL_FAILURE, s))"
  proof (cases "0 < k \<and> k + unat n \<le> length (frame s)")
    case True
    let ?o = "ucast (of_nat (base (clas_state s)) - of_nat (base (clas_state s) + k) :: u64) :: u32"
    have "of_nat (base (clas_state s)) - of_nat (base (clas_state s) + k) = (word_of_int (- int k) :: u64)" by simp
    then have "?o = ucast (word_of_int (- int k) :: u64)" by simp
    moreover have "ucast (word_of_int x :: u64) = (word_of_int x :: u32)" for x
      by (simp add: unsigned_of_int word_of_int_eq_iff)
    ultimately have "?o = word_of_int (- int k)" by metis
    moreover have "uint (word_of_int x :: u32) = x mod 2 ^ 32" for x
      by (simp add: unsigned_of_int take_bit_eq_mod)
    ultimately have "uint ?o = (- int k) mod 2 ^ 32" by metis
    also have "\<dots> = 2 ^ 32 - int k" using True small l by (simp add: zmod_zminus1_eq_if)
    finally have "unat ?o = 2 ^ 32 - k" by (simp add: unat_eq_nat_uint nat_diff_distrib)
    moreover have "unat (len (clas_state s)) < 2 ^ 32 - k" using True small l by auto
    ultimately have "len (clas_state s) < ucast ?o" by (simp add: word_less_nat_alt)
    then show ?thesis using True leave l by (simp add: pop_ptr_def pop_def Let_def)
  qed (use l in \<open>auto simp: pop_ptr_def\<close>)
  show ?thesis using push pop by blast
qed

text \<open>Transferring a packet that has a frame to user space succeeds and keeps the frame, and
  destroying it empties exactly a packet in user space.\<close>

lemma transfer_correct:
  assumes "wf_pkt s"
  shows "\<exists>s'. transfer_to_user_space K s = Some (ROFL_SUCCESS, s') \<and> wf_pkt s' \<and> frame s' = frame s \<and>
     get_buffering_status s' = X86_DATAPACKET_BUFFERED_IN_USER_SPACE \<and>
     clas_state s' = (clas_state s)\<lparr>base := room s\<rparr> \<and>
     (\<exists>s''. destroy K s' = Some s'' \<and> get_buffering_status s'' = X86_DATAPACKET_BUFFER_IS_EMPTY)"
proof -
  obtain s' where s': "leave_nic K s = Some s'" "wf_pkt s'"
    "buffering_status s' = X86_DATAPACKET_BUFFERED_IN_USER_SPACE" "frame s' = frame s"
    "clas_state s' = (clas_state s)\<lparr>base := room s\<rparr>"
    and same: "buffering_status s \<noteq> X86_DATAPACKET_BUFFERED_IN_NIC \<Longrightarrow> s' = s"
    using leave_nic_ok [OF assms] by metis
  have "transfer_to_user_space K s = Some (ROFL_SUCCESS, s')"
  proof (cases "buffering_status s = X86_DATAPACKET_BUFFERED_IN_NIC")
    case True
    then show ?thesis using s'(1)
      by (auto simp: leave_nic_def transfer_to_user_space_def get_buffering_status_def bind_Some_iff)
  next
    case False
    then show ?thesis using same in_user_space(6) [OF assms]
      by (simp add: transfer_to_user_space_def get_buffering_status_def)
  qed
  moreover obtain m where "debug_clear K s' = Some (s'\<lparr>user_space_buffer := m\<rparr>)"
    using debug_clear_ok [of s' K] in_user_space [OF s'(2)] s'(3) by auto
  ultimately show ?thesis using s' by (auto simp: destroy_def get_buffering_status_def)
qed

text \<open>\<open>init\<close> (without assertions) of a frame of at most 9000 bytes, copied or (with 158 readable
  bytes) left in the card's buffer: it succeeds, the packet is well-formed, its frame is the given
  one, it is classified, and 256 bytes can be pushed. The physical port is recorded as 0 whatever
  \<open>in_phy_port\<close> is. A longer frame is refused.\<close>

lemma init_correct:
  assumes "NDEBUG K" and "length (user_space_buffer s) = 9320"
    and "a + unat buflen \<le> length src" and "copy \<or> a + 158 \<le> length src"
  shows "if unat buflen \<le> 9000
     then \<exists>s' t. init_pkt K s (Some (src, a)) buflen sw in_port in_phy_port True copy = Some (ROFL_SUCCESS, s') \<and>
       wf_pkt s' \<and> frame s' = take (unat buflen) (drop a src) \<and> room s' = 256 \<and>
       clas_type (clas_state s') = Some t \<and> pkt_types t \<and> describes K (pkt_mem s') (base (clas_state s')) t \<and>
       port_in (clas_state s') = in_port \<and> phy_port_in (clas_state s') = 0
     else init_pkt K s (Some (src, a)) buflen sw in_port in_phy_port True copy = Some (ROFL_FAILURE, s)"
proof (cases "unat buflen \<le> 9000")
  case False
  then show ?thesis by (simp add: init_pkt_def guards word_less_nat_alt)
next
  case True
  let ?f = "take (unat buflen) (drop a src)"
  have small: "\<not> of_nat FRAME_SIZE_BYTES < buflen" using True by (simp add: guards word_less_nat_alt)
  show ?thesis
  proof (cases copy)
    case copy: True
    let ?m = "take 256 (user_space_buffer s) @ ?f @ drop (256 + unat buflen) (user_space_buffer s)"
    let ?c = "(clas_state s)\<lparr>base := 256, len := buflen\<rparr>"
    obtain t where c: "classify_packet K ?m ?c 256 buflen in_port 0 =
        Some \<lparr>clas_type = Some t, base = 256, len = buflen, port_in = in_port, phy_port_in = 0,
              calculate_checksums_in_sw = 0\<rparr>" (is "_ = Some ?c'")
      and t: "pkt_types t" "describes K ?m 256 t"
      using classify_packet_ok [OF assms(1), of 256 ?m ?c buflen in_port 0] assms(2,3) True by auto
    let ?s = "s\<lparr>iov_base := Some 0, iov_len := 9320, object := USER_SPACE_BUFFER, clas_state := ?c',
        buffering_status := X86_DATAPACKET_BUFFERED_IN_USER_SPACE, user_space_buffer := ?m, lsw := sw, output_queue := 0\<rparr>"
    have "init_pkt K s (Some (src, a)) buflen sw in_port in_phy_port True copy = Some (ROFL_SUCCESS, ?s)"
      using copy small c assms True
      by (simp add: init_pkt_def init_internal_buffer_location_defaults_def use_user_space_def debug_clear_def
          platform_memcpy_def get_buffer_length_def object_mem_def guards)
    moreover have "wf_pkt ?s \<and> frame ?s = ?f \<and> room ?s = 256"
      using True assms(2,3) by (simp add: wf_pkt_def frame_def view_def object_mem_def room_def guards)
    ultimately show ?thesis using t True by (simp add: object_mem_def)
  next
    case nocopy: False
    let ?c = "(clas_state s)\<lparr>base := a, len := buflen\<rparr>"
    obtain t where c: "classify_packet K src ?c a buflen in_port 0 =
        Some \<lparr>clas_type = Some t, base = a, len = buflen, port_in = in_port, phy_port_in = 0,
              calculate_checksums_in_sw = 0\<rparr>" (is "_ = Some ?c'")
      and t: "pkt_types t" "describes K src a t"
      using classify_packet_ok [OF assms(1), of a src ?c buflen in_port 0] assms(4) nocopy by auto
    let ?s = "s\<lparr>iov_base := None, iov_len := 0, nic_buffer := src, object := NIC_BUFFER, clas_state := ?c',
        buffering_status := X86_DATAPACKET_BUFFERED_IN_NIC, lsw := sw, output_queue := 0\<rparr>"
    have "init_pkt K s (Some (src, a)) buflen sw in_port in_phy_port True copy = Some (ROFL_SUCCESS, ?s)"
      using nocopy small c
      by (simp add: init_pkt_def init_internal_buffer_location_defaults_def get_buffer_length_def object_mem_def guards)
    moreover have "wf_pkt ?s \<and> frame ?s = ?f \<and> room ?s = 256"
      using True assms(2,3) by (simp add: wf_pkt_def frame_def view_def object_mem_def room_def guards)
    ultimately show ?thesis using t True by (simp add: object_mem_def)
  qed
qed

end
