(* ===== verification/Classifier_Ops.thy ===== *)
theory Classifier_Ops
  imports Datapacket
begin

text \<open>
  The packet operations of the classifier (\<open>c_types_pktclassifier.c\<close>): popping and pushing PBB,
  VLAN, MPLS, PPPoE, GTP and GRE headers. Each is modelled statement by statement on the packet of
  theory \<open>Datapacket\<close>; \<open>clas_state\<close> of the code is the member of the packet, which \<open>pkt_push\<close>
  and \<open>pkt_pop\<close> change under the hands of these functions.

  A pointer taken before a push refers to the object the frame was in then; it is dereferenced in that
  object afterwards. A dereferenced \<open>NULL\<close> pointer is \<open>None\<close>.

  The lemmas follow the bytes behind the start of the frame (\<open>view\<close>) through the operations.
\<close>

section \<open>Shorthands\<close>

definition PT_POP_PROTO :: "datapacketx86 \<Rightarrow> protocol \<Rightarrow> pkt_type option option" where
  "PT_POP_PROTO s p = do { t \<leftarrow> clas_type (clas_state s); Some (pop_transitions t (UNROLLED p)) }"

definition PT_PUSH_PROTO :: "datapacketx86 \<Rightarrow> protocol \<Rightarrow> pkt_type option option" where
  "PT_PUSH_PROTO s p = do { t \<leftarrow> clas_type (clas_state s); Some (push_transitions t (UNROLLED p)) }"

definition set_clas_type :: "datapacketx86 \<Rightarrow> pkt_type option \<Rightarrow> datapacketx86" where
  "set_clas_type s t = s\<lparr>clas_state := (clas_state s)\<lparr>clas_type := t\<rparr>\<rparr>"

definition flag_checksum :: "datapacketx86 \<Rightarrow> calculate_checksum \<Rightarrow> datapacketx86" where
  "flag_checksum s c = s\<lparr>clas_state := set_recalculate_checksum (clas_state s) c\<rparr>"

text \<open>A header pointer that is dereferenced, and a write through it.\<close>

definition hdr_of :: "(classifier_state \<Rightarrow> int \<Rightarrow> nat option option) \<Rightarrow> datapacketx86 \<Rightarrow> nat option" where
  "hdr_of get s = do { p \<leftarrow> get (clas_state s) 0; p }"

definition upd :: "datapacketx86 \<Rightarrow> (mem \<Rightarrow> mem option) \<Rightarrow> datapacketx86 option" where
  "upd s f = do { m \<leftarrow> f (pkt_mem s); Some (set_mem s (object s) m) }"

definition upd_in :: "datapacketx86 \<Rightarrow> pkt_object \<Rightarrow> (mem \<Rightarrow> mem option) \<Rightarrow> datapacketx86 option" where
  "upd_in s ob f = do { m \<leftarrow> f (object_mem s ob); Some (set_mem s ob m) }"

definition reparse :: "rofl \<Rightarrow> datapacketx86 \<Rightarrow> datapacketx86 option" where
  "reparse K s = do {
     c \<leftarrow> parse_ethernet K (pkt_mem s) (clas_state s) (base (clas_state s)) (len (clas_state s));
     Some (s\<lparr>clas_state := c\<rparr>) }"

definition current_ether_type :: "rofl \<Rightarrow> datapacketx86 \<Rightarrow> u16 option" where
  "current_ether_type K s = do {
     ether \<leftarrow> hdr_of get_ether_hdr s;
     pos \<leftarrow> get_ether_type K (pkt_mem s) ether;
     load (pkt_mem s) pos }"

section \<open>Pop\<close>

definition pop_pbb :: "rofl \<Rightarrow> datapacketx86 \<Rightarrow> datapacketx86 option" where
  "pop_pbb K s = do {
     new \<leftarrow> PT_POP_PROTO s PT_PROTO_ISID;
     if new = None then Some s
     else do {
       (_, s) \<leftarrow> pkt_pop K s None 0 (of_nat (sizeof cpc_eth_hdr + sizeof cpc_pbb_isid_hdr));
       reparse K (set_clas_type s new) } }"

definition pop_vlan :: "rofl \<Rightarrow> datapacketx86 \<Rightarrow> datapacketx86 option" where
  "pop_vlan K s = do {
     new \<leftarrow> PT_POP_PROTO s PT_PROTO_VLAN;
     if new = None then Some s
     else do {
       vlan \<leftarrow> hdr_of get_vlan_hdr s;
       ether_type \<leftarrow> load (pkt_mem s) (get_vlan_type vlan);
       (_, s) \<leftarrow> pkt_pop K s None (of_nat (sizeof cpc_eth_hdr)) (of_nat (sizeof cpc_vlan_hdr));
       let s = set_clas_type s new;
       ether \<leftarrow> hdr_of get_ether_hdr s;
       upd s (\<lambda>m. set_ether_type K m ether ether_type) } }"

definition pop_mpls :: "rofl \<Rightarrow> datapacketx86 \<Rightarrow> u16 \<Rightarrow> datapacketx86 option" where
  "pop_mpls K s ether_type = do {
     new \<leftarrow> PT_POP_PROTO s PT_PROTO_MPLS;
     if new = None then Some s
     else do {
       (_, s) \<leftarrow> pkt_pop K s None (of_nat (sizeof cpc_eth_hdr)) (of_nat (sizeof cpc_mpls_hdr));
       let s = set_clas_type s new;
       ether \<leftarrow> hdr_of get_ether_hdr s;
       s \<leftarrow> upd s (\<lambda>m. set_ether_type K m ether ether_type);
       reparse K s } }"

text \<open>After the \<open>switch\<close>; the early returns of its cases do not come here.\<close>

definition pop_pppoe_tail :: "rofl \<Rightarrow> datapacketx86 \<Rightarrow> u16 \<Rightarrow> datapacketx86 option" where
  "pop_pppoe_tail K s ether_type = do {
     ether \<leftarrow> hdr_of get_ether_hdr s;
     s \<leftarrow> upd s (\<lambda>m. set_ether_type K m ether ether_type);
     let c = clas_state s;
     c \<leftarrow> classify_packet K (pkt_mem s) c (base c) (len c) (port_in c) (phy_port_in c);
     Some (s\<lparr>clas_state := c\<rparr>) }"

definition pop_pppoe :: "rofl \<Rightarrow> datapacketx86 \<Rightarrow> u16 \<Rightarrow> datapacketx86 option" where
  "pop_pppoe K s ether_type = do {
     et \<leftarrow> current_ether_type K s;
     if et = ETH_TYPE_PPPOE_DISCOVERY K then do {
       (_, s) \<leftarrow> pkt_pop K s None (of_nat (sizeof cpc_eth_hdr)) (of_nat (sizeof cpc_pppoe_hdr));
       new \<leftarrow> PT_POP_PROTO s PT_PROTO_PPPOE;
       if new = None then Some s else pop_pppoe_tail K (set_clas_type s new) ether_type }
     else if et = ETH_TYPE_PPPOE_SESSION K then do {
       (_, s) \<leftarrow> pkt_pop K s None (of_nat (sizeof cpc_eth_hdr)) (of_nat (sizeof cpc_pppoe_hdr + sizeof cpc_ppp_hdr));
       new \<leftarrow> PT_POP_PROTO s PT_PROTO_PPP;
       if new = None then Some s
       else do {
         let s = set_clas_type s new;
         new \<leftarrow> PT_POP_PROTO s PT_PROTO_PPPOE;
         if new = None then Some s else pop_pppoe_tail K (set_clas_type s new) ether_type } }
     else pop_pppoe_tail K s ether_type }"

definition pop_gtp :: "rofl \<Rightarrow> datapacketx86 \<Rightarrow> u16 \<Rightarrow> datapacketx86 option" where
  "pop_gtp K s ether_type = do {
     ether \<leftarrow> get_ether_hdr (clas_state s) 0;
     gtp \<leftarrow> get_gtpu_hdr (clas_state s) 0;
     if ether = None \<or> gtp = None then Some s
     else do {
       et \<leftarrow> current_ether_type K s;
       let finish = (\<lambda>s. do {
             ether \<leftarrow> hdr_of get_ether_hdr s;
             s \<leftarrow> upd s (\<lambda>m. set_ether_type K m ether ether_type);
             reparse K s });
       if et = ETH_TYPE_IPV4 K then do {
         new \<leftarrow> PT_POP_PROTO s PT_PROTO_GTPU4;
         if new = None then Some s
         else do {
           (_, s) \<leftarrow> pkt_pop K s None (of_nat (sizeof cpc_eth_hdr))
                      (of_nat (sizeof cpc_ipv4_hdr + sizeof cpc_udp_hdr + sizeof cpc_gtpu_base_hdr));
           finish (set_clas_type s new) } }
       else if et = ETH_TYPE_IPV6 K then do {
         new \<leftarrow> PT_POP_PROTO s PT_PROTO_GTPU6;
         if new = None then Some s
         else do {
           (_, s) \<leftarrow> pkt_pop K s None (of_nat (sizeof cpc_eth_hdr))
                      (of_nat (sizeof cpc_ipv6_hdr + sizeof cpc_udp_hdr + sizeof cpc_gtpu_base_hdr));
           finish (set_clas_type s new) } }
       else finish s } }"

definition gre_optional_bytes :: "u16 \<Rightarrow> nat" where
  "gre_optional_bytes w =
     (if w AND GRE_CSUM_FLAG_MASK \<noteq> 0 then 4 else 0) + (if w AND GRE_KEY_FLAG_MASK \<noteq> 0 then 4 else 0) +
     (if w AND GRE_SEQNO_FLAG_MASK \<noteq> 0 then 4 else 0)"

definition pop_gre :: "rofl \<Rightarrow> datapacketx86 \<Rightarrow> u16 \<Rightarrow> datapacketx86 option" where
  "pop_gre K s ether_type = do {
     ether \<leftarrow> get_ether_hdr (clas_state s) 0;
     gre \<leftarrow> get_gre_hdr (clas_state s) 0;
     if ether = None \<or> gre = None then Some s
     else do {
       gre \<leftarrow> gre;
       prot \<leftarrow> load (pkt_mem s) (get_gre_prot_type gre);
       if prot \<noteq> GRE_PROT_TYPE_TRANSPARENT_ETHERNET_BRIDGING then Some s
       else do {
         et \<leftarrow> current_ether_type K s;
         flags \<leftarrow> load (pkt_mem s) (get_gre_csum_flag gre);
         if et = ETH_TYPE_IPV4 K then do {
           new \<leftarrow> PT_POP_PROTO s PT_PROTO_GRE4;
           if new = None then Some s
           else do {
             (_, s) \<leftarrow> pkt_pop K s None 0 (of_nat (sizeof cpc_eth_hdr + sizeof cpc_ipv4_hdr +
                        sizeof cpc_gre_base_hdr + gre_optional_bytes flags));
             reparse K (set_clas_type s new) } }
         else if et = ETH_TYPE_IPV6 K then do {
           new \<leftarrow> PT_POP_PROTO s PT_PROTO_GRE6;
           if new = None then Some s
           else do {
             (_, s) \<leftarrow> pkt_pop K s None 0 (of_nat (sizeof cpc_eth_hdr + sizeof cpc_ipv6_hdr +
                        sizeof cpc_gre_base_hdr + gre_optional_bytes flags));
             reparse K (set_clas_type s new) } }
         else reparse K s } } }"

section \<open>Push\<close>

text \<open>A push returns a pointer into the frame or \<open>NULL\<close>.\<close>

definition push_pbb :: "rofl \<Rightarrow> datapacketx86 \<Rightarrow> u16 \<Rightarrow> (nat option \<times> datapacketx86) option" where
  "push_pbb K s ether_type = do {
     new \<leftarrow> PT_PUSH_PROTO s PT_PROTO_ISID;
     if new = None then Some (None, s)
     else do {
       inner \<leftarrow> hdr_of get_ether_hdr s;
       let ob = object s;
       (r, s) \<leftarrow> pkt_push K s None 0 (of_nat (sizeof cpc_eth_hdr + sizeof cpc_pbb_isid_hdr));
       if r = ROFL_FAILURE then Some (None, s)
       else do {
         let s = set_clas_type s new;
         ether \<leftarrow> hdr_of get_ether_hdr s;
         dl_dst \<leftarrow> load (object_mem s ob) (get_ether_dl_dst inner);
         s \<leftarrow> upd s (\<lambda>m. set_ether_dl_dst K m ether dl_dst);
         dl_src \<leftarrow> load (object_mem s ob) (get_ether_dl_src inner);
         s \<leftarrow> upd s (\<lambda>m. set_ether_dl_src K m ether dl_src);
         s \<leftarrow> upd s (\<lambda>m. store m (ether + 12) ether_type);
         p \<leftarrow> get_pbb_isid_hdr (clas_state s) 0;
         Some (p, s) } } }"

definition push_vlan :: "rofl \<Rightarrow> datapacketx86 \<Rightarrow> u16 \<Rightarrow> (nat option \<times> datapacketx86) option" where
  "push_vlan K s ether_type = do {
     new \<leftarrow> PT_PUSH_PROTO s PT_PROTO_VLAN;
     if new = None then Some (None, s)
     else do {
       inner_vlan \<leftarrow> get_vlan_hdr (clas_state s) 0;
       inner_ether_type \<leftarrow> current_ether_type K s;
       let ob = object s;
       (r, s) \<leftarrow> pkt_push K s None (of_nat (sizeof cpc_eth_hdr)) (of_nat (sizeof cpc_vlan_hdr));
       if r = ROFL_FAILURE then Some (None, s)
       else do {
         let s = set_clas_type s new;
         vlan \<leftarrow> hdr_of get_vlan_hdr s;
         ether \<leftarrow> hdr_of get_ether_hdr s;
         s \<leftarrow> (case inner_vlan of
                 Some inner \<Rightarrow> do {
                   vid \<leftarrow> load (object_mem s ob) (get_vlan_id inner);
                   s \<leftarrow> upd s (\<lambda>m. set_vlan_id K m vlan vid);
                   pcp \<leftarrow> load (object_mem s ob) (get_vlan_pcp inner);
                   upd s (\<lambda>m. set_vlan_pcp K m vlan pcp) }
               | None \<Rightarrow> do {
                   s \<leftarrow> upd s (\<lambda>m. set_vlan_id K m vlan 0);
                   upd s (\<lambda>m. set_vlan_pcp K m vlan 0) });
         s \<leftarrow> upd s (\<lambda>m. set_vlan_type m vlan inner_ether_type);
         s \<leftarrow> upd s (\<lambda>m. set_ether_type K m ether ether_type);
         Some (Some vlan, s) } } }"

definition push_mpls :: "rofl \<Rightarrow> datapacketx86 \<Rightarrow> u16 \<Rightarrow> (nat option \<times> datapacketx86) option" where
  "push_mpls K s ether_type = do {
     new \<leftarrow> PT_PUSH_PROTO s PT_PROTO_MPLS;
     if new = None then Some (None, s)
     else do {
       ether \<leftarrow> hdr_of get_ether_hdr s;
       inner_mpls \<leftarrow> get_mpls_hdr (clas_state s) 0;
       ipv4 \<leftarrow> get_ipv4_hdr (clas_state s) 0;
       ipv6 \<leftarrow> get_ipv6_hdr (clas_state s) 0;
       let ob = object s;
       (r, s) \<leftarrow> pkt_push K s (Some (ob, ether + sizeof cpc_eth_hdr)) 0 (of_nat (sizeof cpc_mpls_hdr));
       if r = ROFL_FAILURE then Some (None, s)
       else do {
         let s = set_clas_type s new;
         ether \<leftarrow> hdr_of get_ether_hdr s;
         s \<leftarrow> upd s (\<lambda>m. set_ether_type K m ether ether_type);
         mpls \<leftarrow> hdr_of get_mpls_hdr s;
         s \<leftarrow> (case inner_mpls of
                 Some inner \<Rightarrow> do {
                   s \<leftarrow> upd s (\<lambda>m. set_mpls_bos K m mpls False);
                   lbl \<leftarrow> load (object_mem s ob) (get_mpls_label inner);
                   s \<leftarrow> upd s (\<lambda>m. set_mpls_label K m mpls lbl);
                   tc \<leftarrow> load (object_mem s ob) (get_mpls_tc inner);
                   s \<leftarrow> upd s (\<lambda>m. set_mpls_tc K m mpls tc);
                   ttl \<leftarrow> load (object_mem s ob) (get_mpls_ttl inner);
                   upd s (\<lambda>m. set_mpls_ttl m mpls ttl) }
               | None \<Rightarrow> do {
                   s \<leftarrow> upd s (\<lambda>m. set_mpls_bos K m mpls True);
                   s \<leftarrow> upd s (\<lambda>m. set_mpls_label K m mpls 0);
                   s \<leftarrow> upd s (\<lambda>m. set_mpls_tc K m mpls 0);
                   ttl \<leftarrow> (case ipv4 of
                            Some h \<Rightarrow> load (object_mem s ob) (get_ipv4_ttl h)
                          | None \<Rightarrow>
                              (case ipv6 of
                                 Some h \<Rightarrow> load (object_mem s ob) (get_ipv6_hop_limit h)
                               | None \<Rightarrow> Some 0));
                   upd s (\<lambda>m. set_mpls_ttl m mpls ttl) });
         Some (Some mpls, s) } } }"

definition push_pppoe :: "rofl \<Rightarrow> datapacketx86 \<Rightarrow> u16 \<Rightarrow> (nat option \<times> datapacketx86) option" where
  "push_pppoe K s ether_type = do {
     new \<leftarrow> PT_PUSH_PROTO s PT_PROTO_PPPOE;
     if new = None then Some (None, s)
     else do {
       ether \<leftarrow> hdr_of get_ether_hdr s;
       let ob = object s;
       let finish = (\<lambda>s. do {
             pppoe \<leftarrow> hdr_of get_pppoe_hdr s;
             s \<leftarrow> upd s (\<lambda>m. set_pppoe_code m pppoe 0);
             s \<leftarrow> upd s (\<lambda>m. set_pppoe_sessid m pppoe 0);
             s \<leftarrow> upd s (\<lambda>m. set_pppoe_type K m pppoe PPPOE_TYPE);
             s \<leftarrow> upd s (\<lambda>m. set_pppoe_vers K m pppoe PPPOE_VERSION);
             Some (None, s) });
       if ether_type = ETH_TYPE_PPPOE_SESSION K then do {
         let bytes_to_insert = sizeof cpc_pppoe_hdr + sizeof cpc_ppp_hdr;
         (r, s) \<leftarrow> pkt_push K s None (of_nat (sizeof cpc_eth_hdr)) (of_nat bytes_to_insert);
         if r = ROFL_FAILURE then Some (None, s)
         else do {
           let s = set_clas_type s new;
           new \<leftarrow> PT_PUSH_PROTO s PT_PROTO_PPP;
           let s = set_clas_type s new;
           c_assert K (new \<noteq> None);
           if ether < bytes_to_insert then None
           else do {
             s \<leftarrow> upd_in s ob (\<lambda>m. set_ether_type K m (ether - bytes_to_insert) (ETH_TYPE_PPPOE_SESSION K));
             ppp \<leftarrow> hdr_of get_ppp_hdr s;
             s \<leftarrow> upd s (\<lambda>m. set_ppp_prot m ppp 0);
             finish s } } }
       else if ether_type = ETH_TYPE_PPPOE_DISCOVERY K then do {
         (r, s) \<leftarrow> pkt_push K s (Some (ob, ether + sizeof cpc_eth_hdr)) 0 (of_nat (sizeof cpc_pppoe_hdr));
         if r = ROFL_FAILURE then Some (None, s)
         else do {
           let s = set_clas_type s new;
           ether \<leftarrow> hdr_of get_ether_hdr s;
           s \<leftarrow> upd s (\<lambda>m. set_ether_type K m ether (ETH_TYPE_PPPOE_DISCOVERY K));
           finish s } }
       else finish s } }"

text \<open>The header of the tunnel: the statements that fill in a pushed IPv4 or IPv6 header, and behind it
  the UDP and GTP headers. \<open>payloadlen\<close> is a \<open>size_t\<close>; the lengths are truncated to 16 bits.\<close>

definition fill_ipv4 :: "rofl \<Rightarrow> datapacketx86 \<Rightarrow> u64 \<Rightarrow> u8 \<Rightarrow> u16 \<Rightarrow> u8 \<Rightarrow> bool \<Rightarrow> datapacketx86 option" where
  "fill_ipv4 K s total_len proto ident ip_ttl DF_flag = do {
     h \<leftarrow> hdr_of get_ipv4_hdr s;
     s \<leftarrow> upd s (\<lambda>m. set_ipv4_version K m h (push_bit 4 4));
     s \<leftarrow> upd s (\<lambda>m. set_ipv4_ihl K m h (of_nat (sizeof cpc_ipv4_hdr div 4)));
     s \<leftarrow> upd s (\<lambda>m. set_ipv4_dscp K m h 0);
     s \<leftarrow> upd s (\<lambda>m. set_ipv4_ecn K m h 0);
     s \<leftarrow> upd s (\<lambda>m. set_ipv4_length m h (htobe16 (ucast total_len)));
     s \<leftarrow> upd s (\<lambda>m. set_ipv4_proto m h proto);
     s \<leftarrow> upd s (\<lambda>m. set_ipv4_ident m h ident);
     s \<leftarrow> upd s (\<lambda>m. set_ipv4_src m h 0);
     s \<leftarrow> upd s (\<lambda>m. set_ipv4_dst m h 0);
     s \<leftarrow> upd s (\<lambda>m. set_ipv4_ttl m h ip_ttl);
     s \<leftarrow> (if DF_flag then upd s (\<lambda>m. set_ipv4_DF_bit K m h) else Some s);
     Some (flag_checksum s RECALCULATE_IPV4_CHECKSUM_IN_SW) }"

definition fill_ipv6 :: "rofl \<Rightarrow> datapacketx86 \<Rightarrow> u64 \<Rightarrow> u8 \<Rightarrow> u8 \<Rightarrow> datapacketx86 option" where
  "fill_ipv6 K s payload_len nxt ip_ttl = do {
     h \<leftarrow> hdr_of get_ipv6_hdr s;
     s \<leftarrow> upd s (\<lambda>m. set_ipv6_version K m h (push_bit 4 6));
     s \<leftarrow> upd s (\<lambda>m. set_ipv6_dscp K m h 0);
     s \<leftarrow> upd s (\<lambda>m. set_ipv6_ecn K m h 0);
     s \<leftarrow> upd s (\<lambda>m. set_ipv6_dst m h 0);
     s \<leftarrow> upd s (\<lambda>m. set_ipv6_src m h 0);
     s \<leftarrow> upd s (\<lambda>m. set_ipv6_flow_label K m h 0);
     s \<leftarrow> upd s (\<lambda>m. set_ipv6_hop_limit m h ip_ttl);
     s \<leftarrow> upd s (\<lambda>m. set_ipv6_payload_length m h (htobe16 (ucast payload_len)));
     s \<leftarrow> upd s (\<lambda>m. set_ipv6_traffic_class K m h 0);
     upd s (\<lambda>m. set_ipv6_next_header m h nxt) }"

definition push_gtp_tail :: "rofl \<Rightarrow> datapacketx86 \<Rightarrow> u64 \<Rightarrow> (nat option \<times> datapacketx86) option" where
  "push_gtp_tail K s payloadlen = do {
     udp \<leftarrow> hdr_of get_udp_hdr s;
     s \<leftarrow> upd s (\<lambda>m. set_udp_dport m udp (UDP_DST_PORT_GTPU K));
     s \<leftarrow> upd s (\<lambda>m. set_udp_sport m udp (UDP_DST_PORT_GTPU K));
     s \<leftarrow> upd s (\<lambda>m. set_udp_length m udp
            (htobe16 (ucast (of_nat (sizeof cpc_udp_hdr + sizeof cpc_gtpu_base_hdr) + payloadlen))));
     let s = flag_checksum s RECALCULATE_UDP_CHECKSUM_IN_SW;
     gtp \<leftarrow> hdr_of get_gtpu_hdr s;
     s \<leftarrow> upd s (\<lambda>m. set_gtpu_version K m gtp (push_bit 5 1));
     s \<leftarrow> upd s (\<lambda>m. set_gtpu_pt_flag K m gtp (push_bit 4 1));
     s \<leftarrow> upd s (\<lambda>m. set_gtpu_e_flag K m gtp 0);
     s \<leftarrow> upd s (\<lambda>m. set_gtpu_s_flag K m gtp 0);
     s \<leftarrow> upd s (\<lambda>m. set_gtpu_pn_flag K m gtp 0);
     s \<leftarrow> upd s (\<lambda>m. set_gtpu_msg_type m gtp 0);
     s \<leftarrow> upd s (\<lambda>m. set_gtpu_length m gtp (htobe16 (ucast payloadlen)));
     s \<leftarrow> upd s (\<lambda>m. set_gtpu_teid m gtp 0);
     Some (None, s) }"

text \<open>What \<open>push_gtp\<close> reads from the packet: the payload length, the TTL and the DF flag. The outer
  \<open>None\<close> is undefined, the inner one the early return of \<open>NULL\<close>.\<close>

definition gtp_payload :: "rofl \<Rightarrow> datapacketx86 \<Rightarrow> (u64 \<times> u8 \<times> bool) option option" where
  "gtp_payload K s = do {
     et \<leftarrow> current_ether_type K s;
     if et = ETH_TYPE_IPV4 K then do {
       h \<leftarrow> get_ipv4_hdr (clas_state s) 0;
       case h of
         None \<Rightarrow> Some None
       | Some h \<Rightarrow> do {
           n \<leftarrow> load (pkt_mem s) (get_ipv4_length h);
           ip_ttl \<leftarrow> load (pkt_mem s) (get_ipv4_ttl h);
           DF_flag \<leftarrow> has_ipv4_DF_bit_set K (pkt_mem s) h;
           Some (Some (ucast (be16toh n), ip_ttl, DF_flag)) } }
     else if et = ETH_TYPE_IPV6 K then do {
       h \<leftarrow> get_ipv6_hdr (clas_state s) 0;
       case h of
         None \<Rightarrow> Some None
       | Some h \<Rightarrow> do {
           n \<leftarrow> load (pkt_mem s) (get_ipv6_payload_length h);
           ip_ttl \<leftarrow> load (pkt_mem s) (get_ipv6_hop_limit h);
           Some (Some (ucast (be16toh n) + of_nat (sizeof cpc_ipv6_hdr), ip_ttl, False)) } }
     else Some None }"

definition push_gtp :: "rofl \<Rightarrow> datapacketx86 \<Rightarrow> u16 \<Rightarrow> (nat option \<times> datapacketx86) option" where
  "push_gtp K s ether_type = do {
     ether \<leftarrow> hdr_of get_ether_hdr s;
     let ob = object s;
     payload \<leftarrow> gtp_payload K s;
     case payload of
       None \<Rightarrow> Some (None, s)
     | Some (payloadlen, ip_ttl, DF_flag) \<Rightarrow>
         if ether_type = ETH_TYPE_IPV4 K then do {
           let bytes_to_insert = sizeof cpc_ipv4_hdr + sizeof cpc_udp_hdr + sizeof cpc_gtpu_base_hdr;
           h \<leftarrow> hdr_of get_ipv4_hdr s;
           ident \<leftarrow> load (pkt_mem s) (get_ipv4_ident h);
           new \<leftarrow> PT_PUSH_PROTO s PT_PROTO_GTPU4;
           if new = None then Some (None, s)
           else do {
             (r, s) \<leftarrow> pkt_push K s None (of_nat (sizeof cpc_eth_hdr)) (of_nat bytes_to_insert);
             if r = ROFL_FAILURE then Some (None, s)
             else if ether < bytes_to_insert then None
             else do {
               s \<leftarrow> upd_in (set_clas_type s new) ob (\<lambda>m. set_ether_type K m (ether - bytes_to_insert) (ETH_TYPE_IPV4 K));
               s \<leftarrow> fill_ipv4 K s (of_nat bytes_to_insert + payloadlen) (IP_PROTO_UDP K) ident ip_ttl DF_flag;
               push_gtp_tail K s payloadlen } } }
         else if ether_type = ETH_TYPE_IPV6 K then do {
           let bytes_to_insert = sizeof cpc_ipv6_hdr + sizeof cpc_udp_hdr + sizeof cpc_gtpu_base_hdr;
           new \<leftarrow> PT_PUSH_PROTO s PT_PROTO_GTPU6;
           if new = None then Some (None, s)
           else do {
             (r, s) \<leftarrow> pkt_push K s None (of_nat (sizeof cpc_eth_hdr)) (of_nat bytes_to_insert);
             if r = ROFL_FAILURE then Some (None, s)
             else if ether < bytes_to_insert then None
             else do {
               s \<leftarrow> upd_in (set_clas_type s new) ob (\<lambda>m. set_ether_type K m (ether - bytes_to_insert) (ETH_TYPE_IPV6 K));
               s \<leftarrow> fill_ipv6 K s (of_nat (sizeof cpc_udp_hdr + sizeof cpc_gtpu_base_hdr) + payloadlen)
                     (IP_PROTO_UDP K) ip_ttl;
               push_gtp_tail K s payloadlen } } }
         else push_gtp_tail K s payloadlen }"

definition push_gre_tail :: "datapacketx86 \<Rightarrow> (nat option \<times> datapacketx86) option" where
  "push_gre_tail s = do {
     gre \<leftarrow> hdr_of get_gre_hdr s;
     s \<leftarrow> upd s (\<lambda>m. set_gre_version m gre 0);
     s \<leftarrow> upd s (\<lambda>m. set_gre_csum_flag m gre GRE_CSUM_FLAG_MASK);
     s \<leftarrow> upd s (\<lambda>m. set_gre_key_flag m gre GRE_KEY_FLAG_MASK);
     s \<leftarrow> upd s (\<lambda>m. set_gre_seqno_flag m gre 0);
     s \<leftarrow> upd s (\<lambda>m. set_gre_prot_type m gre GRE_PROT_TYPE_TRANSPARENT_ETHERNET_BRIDGING);
     s \<leftarrow> upd s (\<lambda>m. set_gre_key m gre 0);
     Some (None, flag_checksum s RECALCULATE_GRE_CHECKSUM_IN_SW) }"

text \<open>The Ethernet header in front of the tunnel.\<close>

definition push_gre_ether :: "rofl \<Rightarrow> datapacketx86 \<Rightarrow> u64 \<Rightarrow> u64 \<Rightarrow> u16 \<Rightarrow> datapacketx86 option" where
  "push_gre_ether K s dl_dst dl_src ether_type = do {
     ether \<leftarrow> hdr_of get_ether_hdr s;
     s \<leftarrow> upd s (\<lambda>m. set_ether_dl_dst K m ether dl_dst);
     s \<leftarrow> upd s (\<lambda>m. set_ether_dl_src K m ether dl_src);
     upd s (\<lambda>m. store m (ether + 12) ether_type) }"

definition push_gre :: "rofl \<Rightarrow> datapacketx86 \<Rightarrow> u16 \<Rightarrow> (nat option \<times> datapacketx86) option" where
  "push_gre K s ether_type = do {
     let payloadlen = len (clas_state s);
     ether \<leftarrow> hdr_of get_ether_hdr s;
     dl_dst \<leftarrow> load (pkt_mem s) (get_ether_dl_dst ether);
     dl_src \<leftarrow> load (pkt_mem s) (get_ether_dl_src ether);
     if ether_type = ETH_TYPE_IPV4 K then do {
       new \<leftarrow> PT_PUSH_PROTO s PT_PROTO_GRE4;
       if new = None then Some (None, s)
       else do {
         (r, s) \<leftarrow> pkt_push K s None 0
                    (of_nat (sizeof cpc_eth_hdr + sizeof cpc_ipv4_hdr + sizeof cpc_gre_base_hdr + 2 * 4));
         if r = ROFL_FAILURE then Some (None, s)
         else do {
           s \<leftarrow> push_gre_ether K (set_clas_type s new) dl_dst dl_src ether_type;
           s \<leftarrow> fill_ipv4 K s (of_nat (sizeof cpc_ipv4_hdr + sizeof cpc_gre_base_hdr + 2 * 4) + payloadlen)
                 (IP_PROTO_GRE K) 0 64 True;
           push_gre_tail s } } }
     else if ether_type = ETH_TYPE_IPV6 K then do {
       new \<leftarrow> PT_PUSH_PROTO s PT_PROTO_GRE6;
       if new = None then Some (None, s)
       else do {
         (r, s) \<leftarrow> pkt_push K s None 0
                    (of_nat (sizeof cpc_eth_hdr + sizeof cpc_ipv6_hdr + sizeof cpc_gre_base_hdr + 2 * 4));
         if r = ROFL_FAILURE then Some (None, s)
         else do {
           s \<leftarrow> push_gre_ether K (set_clas_type s new) dl_dst dl_src ether_type;
           s \<leftarrow> fill_ipv6 K s (of_nat (sizeof cpc_gre_base_hdr + 2 * 4) + payloadlen) (IP_PROTO_GRE K) 64;
           push_gre_tail s } } }
     else push_gre_tail s }"

text \<open>\<open>get_pkt_len\<close>: from a pointer into the frame to its end; \<open>to\<close> must be \<open>NULL\<close>.\<close>

definition get_pkt_len :: "rofl \<Rightarrow> datapacketx86 \<Rightarrow> ptr \<Rightarrow> ptr option \<Rightarrow> u64 option" where
  "get_pkt_len K s from_ptr to_ptr = do {
     c_assert K (to_ptr = None);
     if fst from_ptr \<noteq> object s then None
     else Some (len (clas_state s) - (of_nat (snd from_ptr) - of_nat (base (clas_state s)))) }"

section \<open>Accesses relative to the start of the frame\<close>

named_theorems shift "accesses to a memory, seen from an offset"

lemma load_shift [shift]: "a \<le> length m \<Longrightarrow> load m (a + k) = load (drop a m) k"
  by (auto simp: load_def add.commute add.left_commute)

lemma load_shift0: "a \<le> length m \<Longrightarrow> load m a = load (drop a m) 0"
  using load_shift [of a m 0] by simp

lemma store_shift [shift]:
  "a \<le> length m \<Longrightarrow> store m (a + k) v = map_option ((@) (take a m)) (store (drop a m) k v)"
  by (auto simp: store_def take_add add_ac)

lemma modify_shift [shift]:
  fixes f :: "'a::len word \<Rightarrow> 'a word"
  assumes "a \<le> length m"
  shows "modify m (a + k) f = map_option ((@) (take a m)) (modify (drop a m) k f)"
  using assms by (cases "load (drop a m) k :: 'a word option") (simp_all add: modify_def load_shift store_shift)

lemma is_llc_shift: "a \<le> length m \<Longrightarrow> is_llc_frame K m a = is_llc_frame K (drop a m) 0"
  by (simp add: is_llc_frame_def load_shift)

lemma set_ether_type_shift:
  assumes "a \<le> length m"
  shows "set_ether_type K m a v = map_option ((@) (take a m)) (set_ether_type K (drop a m) 0 v)"
  unfolding set_ether_type_def is_llc_shift [OF assms]
  by (cases "is_llc_frame K (drop a m) 0") (simp_all add: store_shift [OF assms])

text \<open>What a type says about the bytes does not depend on where they are.\<close>

lemma field_shift: "a \<le> length m \<Longrightarrow> field m (a + k) P = field (drop a m) k P"
  by (simp add: field_def load_shift)

lemma own_shift:
  assumes "a \<le> length m"
  shows "own K m (a + k) h = own K (drop a m) k h"
proof -
  have seven: "load m (7 + (a + k)) = load (drop a m) (7 + k)"
    using load_shift [OF assms, of "7 + k"] by (simp add: add.left_commute)
  show ?thesis
    by (cases h)
      (simp_all add: is_llc_frame_def ipv4_is_fragment_def get_mpls_bos_def layout add.assoc load_shift [OF assms]
        seven del: add_2_eq_Suc add_2_eq_Suc')
qed

lemma announces_shift:
  assumes "a \<le> length m"
  shows "announces K m (a + k) h h' = announces K (drop a m) k h h'"
  by (cases h) (simp_all add: add.assoc field_shift [OF assms] del: add_2_eq_Suc add_2_eq_Suc')

lemma describes_shift:
  assumes "a \<le> length m"
  shows "describes K m (a + k) t = describes K (drop a m) k t"
proof (induction t arbitrary: k)
  case (Cons h t)
  show ?case
    using Cons.IH [of "k + header_size h"]
    by (cases t) (simp_all only: describes.simps own_shift [OF assms] announces_shift [OF assms] add.assoc)
qed simp

lemma describes_view: "a \<le> length m \<Longrightarrow> describes K m a t = describes K (drop a m) 0 t"
  using describes_shift [of a m K 0 t] by simp

lemma describes_tail:
  "describes K m a (h # h' # hs) \<Longrightarrow> describes K m (a + header_size h) (h' # hs)"
  by simp

section \<open>Packets in user space\<close>

text \<open>A well-formed packet in its own buffer, and the same packet with other bytes from the start of the
  frame on.\<close>

definition in_user :: "datapacketx86 \<Rightarrow> bool" where
  "in_user s \<longleftrightarrow> wf_pkt s \<and> buffering_status s = X86_DATAPACKET_BUFFERED_IN_USER_SPACE"

definition with_view :: "datapacketx86 \<Rightarrow> mem \<Rightarrow> datapacketx86" where
  "with_view s d = set_mem s (object s) (take (base (clas_state s)) (pkt_mem s) @ d)"

lemma in_user_facts:
  assumes "in_user s"
  shows "object s = USER_SPACE_BUFFER" and "length (user_space_buffer s) = 9320" and "iov_base s = Some 0"
    and "iov_len s = 9320" and "base (clas_state s) + unat (len (clas_state s)) \<le> 9256"
    and "pkt_mem s = user_space_buffer s" and "room s = base (clas_state s)"
    and "length (view s) = 9320 - base (clas_state s)" and "unat (len (clas_state s)) \<le> length (view s)"
    and "base (clas_state s) \<le> length (pkt_mem s)"
  using assms in_user_space [of s] by (auto simp: in_user_def object_mem_def room_def view_def)

lemma with_view:
  assumes "in_user s" and "length d = length (view s)"
  shows "in_user (with_view s d)" and "view (with_view s d) = d" and "clas_state (with_view s d) = clas_state s"
    and "object (with_view s d) = object s"
  using assms(2) in_user_facts [OF assms(1)] assms(1)
  by (simp_all add: in_user_def wf_pkt_def with_view_def set_mem_def view_def object_mem_def guards)

lemma with_view_twice:
  "in_user s \<Longrightarrow> length d = length (view s) \<Longrightarrow> with_view (with_view s d) d' = with_view s d'"
  using in_user_facts [of s] by (simp add: with_view_def set_mem_def object_mem_def)

text \<open>Changing the other members of the classifier state.\<close>

lemma with_clas:
  assumes "base c = base (clas_state s)" and "len c = len (clas_state s)"
  shows "view (s\<lparr>clas_state := c\<rparr>) = view s" and "wf_pkt (s\<lparr>clas_state := c\<rparr>) = wf_pkt s"
    and "in_user (s\<lparr>clas_state := c\<rparr>) = in_user s" and "pkt_mem (s\<lparr>clas_state := c\<rparr>) = pkt_mem s"
    and "frame (s\<lparr>clas_state := c\<rparr>) = frame s" and "room (s\<lparr>clas_state := c\<rparr>) = room s"
    and "with_view (s\<lparr>clas_state := c\<rparr>) d = (with_view s d)\<lparr>clas_state := c\<rparr>"
  using assms
  by (cases "buffering_status s";
      simp add: with_view_def set_mem_def view_def object_mem_def in_user_def wf_pkt_def frame_def room_def)+

lemma with_view_type [simp]:
  "with_view (set_clas_type s t) d = set_clas_type (with_view s d) t" "view (set_clas_type s t) = view s"
  "in_user (set_clas_type s t) = in_user s" "object (set_clas_type s t) = object s"
  "clas_state (set_clas_type s t) = (clas_state s)\<lparr>clas_type := t\<rparr>" "frame (set_clas_type s t) = frame s"
  "pkt_mem (set_clas_type s t) = pkt_mem s" "wf_pkt (set_clas_type s t) = wf_pkt s" "room (set_clas_type s t) = room s"
  by (simp_all add: set_clas_type_def with_clas, cases "object s", simp_all add: object_mem_def with_view_def set_mem_def)

text \<open>A write through a pointer \<open>k\<close> bytes into the frame.\<close>

lemma upd_view:
  assumes "in_user s"
    and "f (pkt_mem s) = map_option ((@) (take (base (clas_state s)) (pkt_mem s))) gv"
  shows "upd s f = map_option (with_view s) gv"
  using assms(2) by (cases gv) (auto simp: upd_def with_view_def)

lemma frame_with_view: "in_user s \<Longrightarrow> length d = length (view s) \<Longrightarrow> frame (with_view s d) = take (unat (len (clas_state s))) d"
  using with_view by (simp add: frame_def)

text \<open>The effect of \<open>push\<close> and \<open>pop\<close> on the view.\<close>

lemma push_view:
  assumes s: "in_user s" and "unat k \<le> unat (len (clas_state s))" and "unat n \<le> base (clas_state s)"
  obtains s' X where "push K s k n = Some (ROFL_SUCCESS, s')" and "in_user s'" and "length X = unat n"
    and "view s' = take (unat k) (view s) @ X @ drop (unat k) (view s)"
    and "\<not> NDEBUG K \<Longrightarrow> X = replicate (unat n) 0"
    and "clas_state s' = (clas_state s)\<lparr>base := base (clas_state s) - unat n, len := len (clas_state s) + ucast n\<rparr>"
    and "unat (len (clas_state s')) = unat (len (clas_state s)) + unat n"
    and "drop (base (clas_state s) + unat k) (pkt_mem s') = drop (base (clas_state s) + unat k) (pkt_mem s)"
proof -
  have "wf_pkt s" "buffering_status s \<noteq> X86_DATAPACKET_BUFFERED_IN_NIC" "unat n \<le> room s"
    using s assms(3) in_user_facts(7) [OF s] by (simp_all add: in_user_def)
  then show ?thesis
    using push_ok [OF _ assms(2), of n K] that in_user_facts(7) [OF s] by (metis in_user_def)
qed

lemma pop_view:
  assumes s: "in_user s" and "unat k + unat n \<le> unat (len (clas_state s))"
  obtains s' where "pop K s k n = Some (ROFL_SUCCESS, s')" and "in_user s'"
    and "view s' = take (unat k) (view s) @ drop (unat k + unat n) (view s)"
    and "clas_state s' = (clas_state s)\<lparr>base := base (clas_state s) + unat n, len := len (clas_state s) - ucast n\<rparr>"
    and "unat (len (clas_state s')) = unat (len (clas_state s)) - unat n"
proof -
  have "wf_pkt s" "buffering_status s \<noteq> X86_DATAPACKET_BUFFERED_IN_NIC"
    using s by (simp_all add: in_user_def)
  then show ?thesis
    using pop_ok [OF _ assms(2), of K] that in_user_facts(7) [OF s] by (metis in_user_def)
qed

section \<open>Removing a tag behind the Ethernet header\<close>

lemma load_append1:
  fixes k :: nat
  assumes "k + LENGTH('a) div 8 \<le> length xs"
  shows "load (xs @ ys) k = (load xs k :: 'a::len word option)"
  using assms by (simp add: load_def)

lemma load_take: "k + LENGTH('a) div 8 \<le> n \<Longrightarrow> n \<le> length v \<Longrightarrow> load (take n v) k = (load v k :: 'a::len word option)"
  using load_append1 [of k "take n v" "drop n v", where 'a = 'a] by simp

lemma get_ether_hdr_ETHERNET: "clas_type c = Some (ETHERNET # xs) \<Longrightarrow> get_ether_hdr c i = Some (Some (base c))"
  by (simp add: get_ether_hdr_def PT_GET_HDR_def)

lemma not_llc_load:
  assumes "is_llc_frame K v 0 = Some False"
  shows "length v \<ge> 14"
  using assms load_Some_bound [of v 12, where 'a = 16] by (auto simp: is_llc_frame_def bind_Some_iff layout)

lemma is_llc_cong: "load v 12 = (load v' 12 :: u16 option) \<Longrightarrow> is_llc_frame K v 0 = is_llc_frame K v' 0"
  by (simp add: is_llc_frame_def layout)

lemma set_ether_type_view:
  assumes "is_llc_frame K v 0 = Some False"
  shows "set_ether_type K v 0 et = Some (take 12 v @ to_bytes et @ drop 14 v)"
  using assms not_llc_load [OF assms] by (simp add: set_ether_type_def store_def layout)

text \<open>Setting the Ethertype of a frame in user space.\<close>

lemma upd_ether_type:
  assumes s: "in_user s" and "clas_type (clas_state s) = Some (ETHERNET # xs)"
    and llc: "is_llc_frame K (view s) 0 = Some False"
  shows "do { ether \<leftarrow> hdr_of get_ether_hdr s; upd s (\<lambda>m. set_ether_type K m ether et) } =
     Some (with_view s (take 12 (view s) @ to_bytes et @ drop 14 (view s)))"
proof -
  have "set_ether_type K (pkt_mem s) (base (clas_state s)) et =
      map_option ((@) (take (base (clas_state s)) (pkt_mem s))) (set_ether_type K (view s) 0 et)"
    unfolding view_def by (rule set_ether_type_shift [OF in_user_facts(10) [OF s]])
  from upd_view [OF s, of "\<lambda>m. set_ether_type K m (base (clas_state s)) et", OF this]
  show ?thesis
    using set_ether_type_view [OF llc] get_ether_hdr_ETHERNET [OF assms(2)] by (simp add: hdr_of_def)
qed

lemma pop_tag:
  assumes s: "in_user s" and n: "14 + unat n \<le> unat (len (clas_state s))"
    and llc: "is_llc_frame K (view s) 0 = Some False"
  obtains s' where
    "\<And>f. do { (_, s) \<leftarrow> pkt_pop K s None (of_nat (sizeof cpc_eth_hdr)) n;
          let s = set_clas_type s (Some (ETHERNET # xs));
          ether \<leftarrow> hdr_of get_ether_hdr s;
          s \<leftarrow> upd s (\<lambda>m. set_ether_type K m ether et);
          f s } = (f s' :: 'b option)"
    and "in_user s'" and "view s' = take 12 (view s) @ to_bytes et @ drop (14 + unat n) (view s)"
    and "clas_state s' = (clas_state s)\<lparr>clas_type := Some (ETHERNET # xs), base := base (clas_state s) + unat n,
           len := len (clas_state s) - ucast n\<rparr>"
    and "frame s' = take 12 (frame s) @ to_bytes et @ drop (14 + unat n) (frame s)"
proof -
  have "unat (14 :: u32) + unat n \<le> unat (len (clas_state s))" using n by simp
  then obtain s1 where s1: "pop K s 14 n = Some (ROFL_SUCCESS, s1)" "in_user s1"
    "view s1 = take 14 (view s) @ drop (14 + unat n) (view s)"
    "clas_state s1 = (clas_state s)\<lparr>base := base (clas_state s) + unat n, len := len (clas_state s) - ucast n\<rparr>"
    "unat (len (clas_state s1)) = unat (len (clas_state s)) - unat n"
    by (rule pop_view [OF s, of 14 n K]) auto
  let ?s2 = "set_clas_type s1 (Some (ETHERNET # xs))"
  let ?d = "take 12 (view s1) @ to_bytes et @ drop 14 (view s1)"
  have v: "14 \<le> length (view s)" "unat (len (clas_state s)) \<le> length (view s)"
    using not_llc_load [OF llc] in_user_facts(9) [OF s] by auto
  then have d: "?d = take 12 (view s) @ to_bytes et @ drop (14 + unat n) (view s)" by (simp add: s1(3))
  have "load (view s1) 12 = (load (view s) 12 :: u16 option)"
    using v by (simp add: s1(3) load_append1 load_take)
  then have llc1: "is_llc_frame K (view s1) 0 = Some False" using llc is_llc_cong by metis
  have "upd ?s2 (\<lambda>m. set_ether_type K m (base (clas_state s1)) et) = Some (with_view ?s2 ?d)"
    "hdr_of get_ether_hdr ?s2 = Some (base (clas_state s1))"
    using upd_ether_type [of ?s2 xs K et] s1(2) llc1 get_ether_hdr_ETHERNET [of "clas_state ?s2" xs]
    by (simp_all add: hdr_of_def)
  then have run: "do { (_, s) \<leftarrow> pkt_pop K s None (of_nat (sizeof cpc_eth_hdr)) n;
          let s = set_clas_type s (Some (ETHERNET # xs));
          ether \<leftarrow> hdr_of get_ether_hdr s;
          s \<leftarrow> upd s (\<lambda>m. set_ether_type K m ether et);
          f s } = (f (with_view ?s2 ?d) :: 'b option)" for f
    using s1(1) by (simp add: pkt_pop_def layout del: with_view_type)
  define d where "d = take 12 (view s) @ to_bytes et @ drop (14 + unat n) (view s)"
  have d_eq: "?d = d" unfolding d_def by (rule d)
  have s2: "in_user ?s2" "length d = length (view ?s2)" using v s1(2,3) n by (simp_all add: d_def)
  have "frame (with_view ?s2 d) = take (unat (len (clas_state s)) - unat n) d"
    using frame_with_view [OF s2] s1(5) by simp
  also have "\<dots> = take 12 (frame s) @ to_bytes et @ drop (14 + unat n) (frame s)"
    unfolding d_def frame_def using n v by (simp add: drop_take)
  finally show ?thesis
    using that [of "with_view ?s2 d"] run [unfolded d_eq] with_view [OF s2] s1(4) d_def by simp
qed

text \<open>\<open>pop_vlan\<close>.\<close>

lemma VLAN_hdr:
  assumes "clas_type c = Some (ETHERNET # VLAN # xs)"
  shows "get_vlan_hdr c i = Some (Some (base c + 14))"
  using assms by (simp add: get_vlan_hdr_def PT_GET_HDR_def)

lemma pop_vlan_transition:
  assumes "pkt_types (ETHERNET # VLAN # xs)" and "\<not> has xs PT_PROTO_ISID"
  shows "pop_transitions (ETHERNET # VLAN # xs) (UNROLLED PT_PROTO_VLAN) = Some (ETHERNET # xs)"
  using assms(2) by (auto simp: pop_transitions_def has_def)

lemma pop_vlan_run:
  assumes s: "in_user s" and t: "clas_type (clas_state s) = Some (ETHERNET # VLAN # xs)"
    and pt: "pkt_types (ETHERNET # VLAN # xs)" "\<not> has xs PT_PROTO_ISID"
    and len: "18 \<le> unat (len (clas_state s))" and llc: "is_llc_frame K (view s) 0 = Some False"
  obtains s' where "pop_vlan K s = Some s'" and "in_user s'"
    and "view s' = take 12 (view s) @ drop 16 (view s)"
    and "clas_state s' = (clas_state s)\<lparr>clas_type := Some (ETHERNET # xs), base := base (clas_state s) + 4,
           len := len (clas_state s) - 4\<rparr>"
    and "frame s' = take 12 (frame s) @ drop 16 (frame s)"
proof -
  have v: "18 \<le> length (view s)" using in_user_facts(9) [OF s] len by simp
  obtain et :: u16 where et: "load (view s) 16 = Some et" using v by (simp add: load_def)
  have "load (pkt_mem s) (get_vlan_type (base (clas_state s) + 14)) = Some et"
    using et load_shift [OF in_user_facts(10) [OF s], of 16, where 'a = 16]
    by (simp add: get_vlan_type_def layout view_def add.commute)
  moreover obtain s' where s': "\<And>f. do { (_, s) \<leftarrow> pkt_pop K s None (of_nat (sizeof cpc_eth_hdr)) 4;
          let s = set_clas_type s (Some (ETHERNET # xs));
          ether \<leftarrow> hdr_of get_ether_hdr s;
          s \<leftarrow> upd s (\<lambda>m. set_ether_type K m ether et);
          f s } = (f s' :: datapacketx86 option)"
    and rest: "in_user s'" "view s' = take 12 (view s) @ to_bytes et @ drop 18 (view s)"
    "clas_state s' = (clas_state s)\<lparr>clas_type := Some (ETHERNET # xs), base := base (clas_state s) + 4,
       len := len (clas_state s) - 4\<rparr>"
    "frame s' = take 12 (frame s) @ to_bytes et @ drop 18 (frame s)"
    by (rule pop_tag [OF s _ llc, of 4 xs et]) (use len in auto)
  moreover have "hdr_of get_vlan_hdr s = Some (base (clas_state s) + 14)"
    using VLAN_hdr [OF t] by (simp add: hdr_of_def)
  ultimately have "pop_vlan K s = Some s'"
    using t pop_vlan_transition [OF pt] s' [of Some]
    by (simp add: pop_vlan_def PT_POP_PROTO_def layout split_def)
  moreover have "to_bytes et @ drop 18 (view s) = drop 16 (view s)"
    using load_to_bytes [OF et] append_take_drop_id [of 2 "drop 16 (view s)"] by simp
  moreover have "to_bytes et @ drop 18 (frame s) = drop 16 (frame s)"
  proof -
    have "load (frame s) 16 = Some et" using et len in_user_facts(9) [OF s] by (simp add: frame_def load_take)
    from load_to_bytes [OF this] show ?thesis using append_take_drop_id [of 2 "drop 16 (frame s)"] by simp
  qed
  ultimately show ?thesis using that rest by metis
qed

section \<open>Writing into a part of the frame\<close>

lemma load_middle:
  assumes "length xs = k" and "LENGTH('a) div 8 \<le> length ys"
  shows "load (xs @ ys @ zs) k = (load ys 0 :: 'a::len word option)"
  using assms by (simp add: load_def)

lemma modify_middle:
  fixes f :: "'a::len word \<Rightarrow> 'a word"
  assumes "length xs = k" and "modify ys 0 f = Some ys'"
  shows "modify (xs @ ys @ zs) k f = Some (xs @ ys' @ zs)" and "length ys' = length ys"
proof -
  obtain x :: "'a word" where x: "load ys 0 = Some x" "store ys 0 (f x) = Some ys'"
    using assms(2) by (auto simp: modify_def bind_Some_iff)
  then have w: "LENGTH('a) div 8 \<le> length ys" by (simp add: load_def split: if_splits)
  have "store (xs @ ys @ zs) k (f x) = Some (xs @ ys' @ zs)"
    using x(2) assms(1) w by (auto simp: store_def)
  then show "modify (xs @ ys @ zs) k f = Some (xs @ ys' @ zs)"
    using x(1) load_middle [OF assms(1) w] by (simp add: modify_def)
  show "length ys' = length ys" using length_store [OF x(2)] .
qed

lemma store_full: "length ys = LENGTH('a) div 8 \<Longrightarrow> store ys 0 v = Some (to_bytes (v :: 'a::len word))"
  by (simp add: store_def)

text \<open>\<open>stands s A Y B\<close>: a packet in user space whose bytes are \<open>A\<close>, \<open>Y\<close>, \<open>B\<close>; a setter that
  is applied to \<open>Y\<close>'s place changes \<open>Y\<close> only.\<close>

lemma upd_modify:
  fixes f :: "'a::len word \<Rightarrow> 'a word"
  assumes s: "in_user s" and v: "view s = xs @ ys @ zs" and p: "p = base (clas_state s) + length xs"
    and m: "modify ys 0 f = Some ys'"
  obtains s' where "upd s (\<lambda>m. modify m p f) = Some s'" and "in_user s'" and "view s' = xs @ ys' @ zs"
    and "clas_state s' = clas_state s" and "object s' = object s"
proof -
  note mid = modify_middle [OF refl m]
  have "modify (pkt_mem s) p f = map_option ((@) (take (base (clas_state s)) (pkt_mem s))) (Some (xs @ ys' @ zs))"
    using modify_shift [OF in_user_facts(10) [OF s], of "length xs" f] mid(1) [of xs zs] p
    by (simp add: view_def [symmetric] v)
  from upd_view [OF s, of "\<lambda>m. modify m p f", OF this]
  have "upd s (\<lambda>m. modify m p f) = Some (with_view s (xs @ ys' @ zs))" by simp
  then show ?thesis
    using that with_view [OF s, of "xs @ ys' @ zs"] v mid(2) by simp
qed

lemma upd_store:
  fixes x :: "'a::len word"
  assumes "in_user s" and "view s = xs @ ys @ zs" and "p = base (clas_state s) + length xs"
    and "length ys = LENGTH('a) div 8"
  obtains s' where "upd s (\<lambda>m. store m p x) = Some s'" and "in_user s'" and "view s' = xs @ to_bytes x @ zs"
    and "clas_state s' = clas_state s" and "object s' = object s"
proof -
  have "modify ys 0 (merge_mask (- 1) x) = Some (to_bytes x)"
    using store_full [OF assms(4), of x] by (simp add: store_eq_modify)
  from upd_modify [OF assms(1-3) this] show ?thesis using that unfolding store_eq_modify by blast
qed

text \<open>A load behind the changed place.\<close>

lemma load_view:
  assumes "in_user s" and "p = base (clas_state s) + k"
  shows "load (pkt_mem s) p = load (view s) k"
  using load_shift [OF in_user_facts(10) [OF assms(1)]] assms(2) by (simp add: view_def)

section \<open>Pushing a VLAN tag\<close>

text \<open>The two bytes the identifier and the priority are written to.\<close>

definition vlan_tci :: "rofl \<Rightarrow> u16 \<Rightarrow> u8 \<Rightarrow> mem \<Rightarrow> mem option" where
  "vlan_tci K vid pcp x = do { x \<leftarrow> set_vlan_id K x 0 vid; set_vlan_pcp K x 0 pcp }"

lemma vlan_tci:
  assumes "length x = 2"
  obtains x1 x2 where "set_vlan_id K x 0 vid = Some x1" and "set_vlan_pcp K x1 0 pcp = Some x2"
    and "vlan_tci K vid pcp x = Some x2" and "length x1 = 2" and "length x2 = 2"
proof -
  obtain x1 where x1: "set_vlan_id K x 0 vid = Some x1"
    using set_vlan_id.wr_None [of K x 0 vid] assms by (cases "set_vlan_id K x 0 vid") auto
  then have l1: "length x1 = 2" using set_vlan_id.wr_length assms by simp
  obtain x2 where x2: "set_vlan_pcp K x1 0 pcp = Some x2"
    using set_vlan_pcp.wr_None [of K x1 0 pcp] l1 by (cases "set_vlan_pcp K x1 0 pcp") auto
  then show ?thesis using that x1 l1 set_vlan_pcp.wr_length [OF x2] by (simp add: vlan_tci_def)
qed

lemma merge_other_byte:
  fixes msk :: u8 and msk' :: u16
  assumes "\<And>n. n < 8 \<Longrightarrow> \<not> (bit msk n \<and> bit msk' n)"
  shows "of_bytes [merge_mask msk v x, b] AND msk' = of_bytes [x, b] AND msk'"
proof (rule bit_word_eqI)
  fix n
  show "bit (of_bytes [merge_mask msk v x, b] AND msk') n = bit (of_bytes [x, b] AND msk') n"
    using assms [of n]
    by (cases "n < 8") (auto simp: bit_simps bit_merge_mask bit_of_bytes nth_Cons' dest: bit_imp_le_length)
qed

text \<open>The identifier and the priority are those that were asked for.\<close>

lemma vlan_tci_fields:
  assumes "network_masks K" and "vlan_tci K vid pcp x = Some t" and "length x = 2"
  shows "\<exists>w p. load t 0 = Some (w :: u16) \<and> w AND 0xFF0F = vid AND 0xFF0F \<and>
     load t 0 = Some (p :: u8) \<and> p AND 0xE0 = pcp AND 0xE0"
proof -
  obtain x1 where x1: "set_vlan_id K x 0 vid = Some x1" and t: "set_vlan_pcp K x1 0 pcp = Some t"
    using assms(2) by (auto simp: vlan_tci_def bind_Some_iff)
  have masks: "OF1X_VLAN_ID_MASK K = 0xFF0F" "OF1X_3MSBITS_MASK K = 0xE0"
    using assms(1) by (simp_all add: network_masks_def)
  obtain w1 :: u16 and w0 where w1: "load x1 0 = Some w1" "w1 = merge_mask 0xFF0F vid w0"
    using set_vlan_id.wr_load [OF x1] masks by auto
  obtain p0 p :: u8 where p: "load x1 0 = Some p0" "load t 0 = Some p" "p = merge_mask 0xE0 pcp p0"
    using set_vlan_pcp.wr_load [OF t] masks by auto
  have len: "length x1 = 2" "length t = 2"
    using set_vlan_id.wr_length [OF x1] set_vlan_pcp.wr_length [OF t] assms(3) by simp_all
  then obtain a b c d where ab: "x1 = [a, b]" "t = [c, d]"
    by (auto simp: numeral_2_eq_2 length_Suc_conv)
  have "d = b" using set_vlan_pcp.wr_outside [OF t, of 1] ab by simp
  moreover have "a = p0" "c = p" using p(1,2) ab by (simp_all add: load_byte)
  moreover have "of_bytes [a, b] = w1" using w1(1) ab by (simp add: load_def)
  ultimately have w: "load t 0 = Some (of_bytes [p, b] :: u16)" "of_bytes [p0, b] = w1"
    using ab by (simp_all add: load_def)
  have "\<forall>n \<in> set [0..<8]. \<not> (bit (0xE0 :: u8) n \<and> bit (0xFF0F :: u16) n)"
    by (simp add: upt_conv_Cons)
  then have "(of_bytes [p, b] :: u16) AND 0xFF0F = of_bytes [p0, b] AND 0xFF0F"
    unfolding p(3) by (intro merge_other_byte) auto
  then show ?thesis using w w1(2) p by auto
qed

text \<open>A chain of writes behind the start of the frame, and a read in front of it.\<close>

lemma upd_vlan_id:
  assumes "in_user s" and "view s = xs @ x @ zs" and "p = base (clas_state s) + length xs"
    and "set_vlan_id K x 0 vid = Some x'"
  obtains s' where "upd s (\<lambda>m. set_vlan_id K m p vid) = Some s'" and "in_user s'" and "view s' = xs @ x' @ zs"
    and "clas_state s' = clas_state s" and "object s' = object s"
  by (rule upd_modify [OF assms(1-3), of "\<lambda>x. (x AND NOT (OF1X_VLAN_ID_MASK K)) OR (vid AND OF1X_VLAN_ID_MASK K)" x'])
    (use assms(4) that in \<open>simp_all add: set_vlan_id_def layout\<close>)

lemma upd_vlan_pcp:
  assumes "in_user s" and "view s = xs @ x @ zs" and "p = base (clas_state s) + length xs"
    and "set_vlan_pcp K x 0 pcp = Some x'"
  obtains s' where "upd s (\<lambda>m. set_vlan_pcp K m p pcp) = Some s'" and "in_user s'" and "view s' = xs @ x' @ zs"
    and "clas_state s' = clas_state s" and "object s' = object s"
  by (rule upd_modify [OF assms(1-3), of "\<lambda>x. (pcp AND OF1X_3MSBITS_MASK K) OR (x AND NOT (OF1X_3MSBITS_MASK K))" x'])
    (use assms(4) that in \<open>simp_all add: set_vlan_pcp_def layout\<close>)

lemma upd_vlan_type:
  assumes "in_user s" and "view s = xs @ y @ zs" and "p + 2 = base (clas_state s) + length xs" and "length y = 2"
  obtains s' where "upd s (\<lambda>m. set_vlan_type m p t) = Some s'" and "in_user s'" and "view s' = xs @ to_bytes t @ zs"
    and "clas_state s' = clas_state s" and "object s' = object s"
  by (rule upd_store [OF assms(1-3), of t]) (use assms(4) that in \<open>simp_all add: set_vlan_type_def layout\<close>)

lemma load_view_drop:
  assumes "in_user s" and "view s = xs @ ys" and "p = base (clas_state s) + length xs"
  shows "load (pkt_mem s) p = (load ys 0 :: 'a::len word option)"
proof -
  have "length xs \<le> length (view s)" by (simp add: assms(2))
  from load_shift0 [OF this, where 'a = 'a] show ?thesis
    using load_view [OF assms(1) assms(3), where 'a = 'a] assms(2) by simp
qed

lemma proto_VLAN: "proto_of h = PT_PROTO_VLAN \<longleftrightarrow> h = VLAN"
  by (cases h) auto

lemma no_VLAN_hdr: "clas_type c = Some t \<Longrightarrow> VLAN \<notin> set t \<Longrightarrow> get_vlan_hdr c i = Some None"
  by (simp add: get_vlan_hdr_def PT_GET_HDR_def offsets_None_iff has_def image_iff)
    (metis proto_VLAN)

text \<open>The writes of \<open>push_vlan\<close> into the four new bytes behind the Ethernet header.\<close>

lemma vlan_fill:
  assumes s: "in_user s" and v: "view s = A @ x @ y @ B"
    and A: "length A = 14" and x: "length x = 2" and y: "length y = 2"
    and t: "clas_type (clas_state s) = Some (ETHERNET # VLAN # xs)" and llc: "is_llc_frame K A 0 = Some False"
  obtains s3 s4 s' x1 tci where "upd s (\<lambda>m. set_vlan_id K m (base (clas_state s) + 14) vid) = Some s3"
    and "upd s3 (\<lambda>m. set_vlan_pcp K m (base (clas_state s) + 14) pcp) = Some s4"
    and "do { s4 \<leftarrow> upd s4 (\<lambda>m. set_vlan_type m (base (clas_state s) + 14) it);
           s4 \<leftarrow> upd s4 (\<lambda>m. set_ether_type K m (base (clas_state s)) et);
           Some (Some (base (clas_state s) + 14), s4) } = Some (Some (base (clas_state s) + 14), s')"
    and "in_user s3" and "clas_state s3 = clas_state s" and "view s3 = A @ x1 @ y @ B" and "length x1 = 2"
    and "vlan_tci K vid pcp x = Some tci" and "length tci = 2"
    and "in_user s'" and "clas_state s' = clas_state s" and "view s' = take 12 A @ to_bytes et @ tci @ to_bytes it @ B"
proof -
  let ?p = "base (clas_state s) + 14"
  obtain x1 x2 where x12: "set_vlan_id K x 0 vid = Some x1" "set_vlan_pcp K x1 0 pcp = Some x2"
    "vlan_tci K vid pcp x = Some x2" "length x1 = 2" "length x2 = 2"
    by (rule vlan_tci [OF x])
  obtain s3 where s3: "upd s (\<lambda>m. set_vlan_id K m ?p vid) = Some s3" "in_user s3"
    "view s3 = A @ x1 @ y @ B" "clas_state s3 = clas_state s"
    by (rule upd_vlan_id [OF s v _ x12(1), of ?p]) (use A in auto)
  obtain s4 where s4: "upd s3 (\<lambda>m. set_vlan_pcp K m ?p pcp) = Some s4" "in_user s4"
    "view s4 = A @ x2 @ y @ B" "clas_state s4 = clas_state s"
    by (rule upd_vlan_pcp [OF s3(2,3) _ x12(2), of ?p]) (use A s3(4) in auto)
  have "view s4 = (A @ x2) @ y @ B" using s4(3) by simp
  then obtain s5 where s5: "upd s4 (\<lambda>m. set_vlan_type m ?p it) = Some s5" "in_user s5"
    "view s5 = A @ x2 @ to_bytes it @ B" "clas_state s5 = clas_state s"
    by (rule upd_vlan_type [OF s4(2), of _ _ _ ?p it]) (use A s4(4) y x12 in auto)
  have "load (view s5) 12 = (load A 12 :: u16 option)" using A by (simp add: s5(3) load_append1)
  then have llc5: "is_llc_frame K (view s5) 0 = Some False" using llc is_llc_cong by metis
  define s' where "s' = with_view s5 (take 12 A @ to_bytes et @ x2 @ to_bytes it @ B)"
  have v5: "take 12 (view s5) @ to_bytes et @ drop 14 (view s5) = take 12 A @ to_bytes et @ x2 @ to_bytes it @ B"
    using A by (simp add: s5(3))
  have "upd s5 (\<lambda>m. set_ether_type K m (base (clas_state s)) et) = Some s'"
    using upd_ether_type [OF s5(2) _ llc5, of "VLAN # xs" et] t get_ether_hdr_ETHERNET [of "clas_state s5" "VLAN # xs" 0]
    unfolding s'_def v5 by (simp add: hdr_of_def s5(4))
  then show ?thesis
    using that [OF s3(1) s4(1) _ s3(2,4,3) x12(4,3,5), of s'] s5(1)
      with_view [OF s5(2), of "take 12 A @ to_bytes et @ x2 @ to_bytes it @ B"] s5(3,4) A by (simp add: s'_def)
qed

text \<open>What the frame announces before.\<close>

lemma current_ether_type:
  assumes s: "in_user s" and "clas_type (clas_state s) = Some (ETHERNET # xs)"
    and llc: "is_llc_frame K (view s) 0 = Some False"
  shows "current_ether_type K s = load (view s) 12"
proof -
  have "is_llc_frame K (pkt_mem s) (base (clas_state s)) = Some False"
    using llc is_llc_shift [OF in_user_facts(10) [OF s], of K] by (simp add: view_def)
  then show ?thesis
    using get_ether_hdr_ETHERNET [OF assms(2)] load_view [OF s refl, of 12]
    by (simp add: current_ether_type_def hdr_of_def get_ether_type_def layout)
qed

text \<open>The bytes of a tag that is written behind the Ethernet header.\<close>

lemma push_vlan_run:
  assumes s: "in_user s" and t: "clas_type (clas_state s) = Some (ETHERNET # xs)"
    and new: "push_transitions (ETHERNET # xs) (UNROLLED PT_PROTO_VLAN) = Some (ETHERNET # VLAN # xs)"
    and inner: "VLAN \<notin> set xs \<or> (\<exists>ys. xs = VLAN # ys)"
    and len: "14 \<le> unat (len (clas_state s))" and head: "4 \<le> base (clas_state s)"
    and llc: "is_llc_frame K (view s) 0 = Some False"
    and vid: "if VLAN \<in> set xs then load (view s) 14 = Some vid else vid = 0"
    and pcp: "if VLAN \<in> set xs then load (view s) 14 = Some pcp else pcp = 0"
  obtains s' x tci where "push_vlan K s et = Some (Some (base (clas_state s') + 14), s')" and "in_user s'"
    and "vlan_tci K vid pcp x = Some tci" and "length x = 2" and "length tci = 2"
    and "\<not> NDEBUG K \<Longrightarrow> x = [0, 0]"
    and "view s' = take 12 (view s) @ to_bytes et @ tci @ drop 12 (view s)"
    and "clas_state s' = (clas_state s)\<lparr>clas_type := Some (ETHERNET # VLAN # xs), base := base (clas_state s) - 4,
           len := len (clas_state s) + 4\<rparr>"
    and "frame s' = take 12 (frame s) @ to_bytes et @ tci @ drop 12 (frame s)"
proof -
  let ?V = "view s" and ?b = "base (clas_state s)"
  note facts = in_user_facts [OF s]
  have V: "18 \<le> length ?V" using facts(5,8) len by simp
  obtain it :: u16 where it: "load ?V 12 = Some it" using V by (simp add: load_def)
  have current: "current_ether_type K s = Some it" using current_ether_type [OF s t llc] it by simp
  have "unat (14 :: u32) \<le> unat (len (clas_state s))" "unat (4 :: u32) \<le> ?b" using len head by simp_all
  then obtain s1 X where s1: "push K s 14 4 = Some (ROFL_SUCCESS, s1)" "in_user s1" "length X = 4"
    "view s1 = take 14 ?V @ X @ drop 14 ?V" "\<not> NDEBUG K \<Longrightarrow> X = replicate 4 0"
    "clas_state s1 = (clas_state s)\<lparr>base := ?b - 4, len := len (clas_state s) + 4\<rparr>"
    "unat (len (clas_state s1)) = unat (len (clas_state s)) + 4"
    by (rule push_view [OF s, of 14 4 K]) auto
  let ?s2 = "set_clas_type s1 (Some (ETHERNET # VLAN # xs))" and ?c = "?b - 4"
  define x y where "x = take 2 X" and "y = drop 2 X"
  then have x: "length x = 2" "length y = 2" "X = x @ y" "\<not> NDEBUG K \<Longrightarrow> x = [0, 0]"
    using s1(3,5) by (simp_all add: numeral_2_eq_2)
  have hdrs: "hdr_of get_vlan_hdr ?s2 = Some (?c + 14)" "hdr_of get_ether_hdr ?s2 = Some ?c"
    using VLAN_hdr [of "clas_state ?s2" xs 0] get_ether_hdr_ETHERNET [of "clas_state ?s2" "VLAN # xs" 0] s1(6)
    by (simp_all add: hdr_of_def)
  have s2: "in_user ?s2" "view ?s2 = take 14 ?V @ x @ (y @ drop 14 ?V)" "base (clas_state ?s2) = ?c"
    using s1(2,4,6) x(3) by simp_all
  obtain s3 s4 s' x1 tci where s3: "upd ?s2 (\<lambda>m. set_vlan_id K m (?c + 14) vid) = Some s3"
    "upd s3 (\<lambda>m. set_vlan_pcp K m (?c + 14) pcp) = Some s4"
    and rest: "do { s4 \<leftarrow> upd s4 (\<lambda>m. set_vlan_type m (?c + 14) it);
           s4 \<leftarrow> upd s4 (\<lambda>m. set_ether_type K m ?c et);
           Some (Some (?c + 14), s4) } = Some (Some (?c + 14), s')"
    and s3_facts: "in_user s3" "clas_state s3 = clas_state ?s2" "view s3 = take 14 ?V @ x1 @ y @ drop 14 ?V" "length x1 = 2"
    and tci: "vlan_tci K vid pcp x = Some tci" "length tci = 2"
    and s': "in_user s'" "clas_state s' = clas_state ?s2"
      "view s' = take 12 (take 14 ?V) @ to_bytes et @ tci @ to_bytes it @ drop 14 ?V"
    by (rule vlan_fill [OF s2(1,2) _ x(1,2), of xs K vid pcp it et, unfolded s2(3)])
      (use V llc is_llc_cong [of "take 14 ?V" ?V K] load_take [of 12 14 ?V, where 'a = 16] in simp_all)
  have v': "view s' = take 12 ?V @ to_bytes et @ tci @ drop 12 ?V"
    using s'(3) load_to_bytes [OF it] append_take_drop_id [of 2 "drop 12 ?V"] by (simp add: min_def)
  have ob: "object s = USER_SPACE_BUFFER" "object s1 = USER_SPACE_BUFFER" "object s3 = USER_SPACE_BUFFER"
    using facts(1) in_user_facts(1) [OF s1(2)] in_user_facts(1) [OF s3_facts(1)] by simp_all
  have old: "load (pkt_mem s1) (?b + 14) = (load ?V 14 :: u16 option)" "load (pkt_mem s3) (?b + 14) = (load ?V 14 :: u8 option)"
    using load_view_drop [of s1 "take 14 ?V @ X" "drop 14 ?V" "?b + 14", where 'a = 16]
      load_view_drop [of s3 "take 14 ?V @ x1 @ y" "drop 14 ?V" "?b + 14", where 'a = 8]
      load_shift0 [of 14 ?V, where 'a = 16] load_shift0 [of 14 ?V, where 'a = 8] s1(2,3,4,6) s3_facts s2 V head x
    by simp_all
  have "push_vlan K s et = Some (Some (?c + 14), s')"
  proof (cases "VLAN \<in> set xs")
    case True
    then obtain ys where "xs = VLAN # ys" using inner by auto
    then have "get_vlan_hdr (clas_state s) 0 = Some (Some (?b + 14))" using VLAN_hdr t by simp
    moreover have "load (object_mem ?s2 USER_SPACE_BUFFER) (?b + 14) = Some vid"
      "load (object_mem s3 USER_SPACE_BUFFER) (?b + 14) = Some pcp"
      using old ob vid pcp True by (simp_all add: object_mem_def set_clas_type_def)
    ultimately show ?thesis
      using t new current s1(1) hdrs s3 rest ob(1)
      by (simp add: push_vlan_def PT_PUSH_PROTO_def pkt_push_def layout get_vlan_id_def get_vlan_pcp_def
        Let_def del: with_view_type)
  next
    case False
    then have "get_vlan_hdr (clas_state s) 0 = Some None" using no_VLAN_hdr [OF t] by auto
    then show ?thesis
      using t new current s1(1) hdrs s3 rest vid pcp False
      by (simp add: push_vlan_def PT_PUSH_PROTO_def pkt_push_def layout del: with_view_type)
  qed
  moreover have "frame s' = take 12 (frame s) @ to_bytes et @ tci @ drop 12 (frame s)"
    using V len s1(6,7) facts(9) tci(2) by (simp add: frame_def v' s' drop_take)
  ultimately show ?thesis using that [of s' x tci] s' v' s1(6) x tci by simp
qed

section \<open>The tables describe the changed frames\<close>

lemma ether_announces_not_llc:
  "network_types K \<Longrightarrow> ether_announces K et h \<Longrightarrow> \<not> NTOHB16 K et < LLC_DELIMITER_HBO K"
  by (cases h) (auto simp: network_types_def ether_types_def not_less split: if_splits)

lemma describes_ether:
  assumes "network_types K" and "load v 12 = Some et" and "ether_announces K et h"
    and "describes K (drop 14 v) 0 (h # hs)"
  shows "describes K v 0 (ETHERNET # h # hs)"
proof -
  have "14 \<le> length v" using load_Some_bound [OF assms(2)] by simp
  then have "describes K v 14 (h # hs)" using assms(4) describes_view [of 14 v K] by simp
  moreover have "is_llc_frame K v 0 = Some False"
    using assms(2) ether_announces_not_llc [OF assms(1,3)] by (simp add: is_llc_frame_def layout)
  ultimately show ?thesis using assms(2,3) by (simp add: field_def)
qed

lemma describes_vlan:
  assumes "load v 2 = Some et" and "ether_announces K et h" and "describes K (drop 4 v) 0 (h # hs)"
  shows "describes K v 0 (VLAN # h # hs)"
proof -
  have "4 \<le> length v" using load_Some_bound [OF assms(1)] by simp
  then have "describes K v 4 (h # hs)" using assms(3) describes_view [of 4 v K] by simp
  then show ?thesis using assms(1,2) by (simp add: field_def del: add_2_eq_Suc add_2_eq_Suc')
qed

lemma describes_pop_vlan:
  assumes "network_types K" and d: "describes K v 0 (ETHERNET # VLAN # h # hs)"
  shows "describes K (take 12 v @ drop 16 v) 0 (ETHERNET # h # hs)"
proof -
  have "field v 16 (\<lambda>et. ether_announces K et h)" and rest: "describes K v 18 (h # hs)" using d by simp_all
  then obtain et where et: "load v 16 = Some et" "ether_announces K et h" by (auto simp: field_def split: option.splits)
  then have n: "18 \<le> length v" using load_Some_bound by fastforce
  let ?v = "take 12 v @ drop 16 v"
  have "load ?v 12 = Some et"
    using et(1) n load_shift0 [of 12 ?v, where 'a = 16] load_shift0 [of 16 v, where 'a = 16] by simp
  moreover have "drop 14 ?v = drop 18 v" using n by simp
  ultimately show ?thesis
    using describes_ether [OF assms(1) _ et(2), of ?v hs] rest describes_view [of 18 v K] n by simp
qed

lemma load_to_bytes0: "load (to_bytes (x :: u16)) 0 = Some x"
  by (simp add: load_def of_to_bytes)

lemma describes_push_vlan:
  assumes K: "network_types K" and d: "describes K v 0 (ETHERNET # xs)"
    and et: "et = VLAN_CTAG_ETHER_TYPE K \<or> et = VLAN_STAG_ETHER_TYPE K" and tci: "length tci = 2"
  shows "describes K (take 12 v @ to_bytes et @ tci @ drop 12 v) 0 (ETHERNET # VLAN # xs)"
proof -
  let ?v = "take 12 v @ to_bytes et @ tci @ drop 12 v"
  have n: "14 \<le> length v" using d not_llc_load [of K v] by (cases xs) auto
  have "load ?v 12 = Some et"
    using n load_shift0 [of 12 ?v, where 'a = 16] load_append1 [of 0 "to_bytes et" "tci @ drop 12 v", where 'a = 16]
    by (simp add: load_to_bytes0)
  moreover have "ether_announces K et VLAN" using et by simp
  moreover have "describes K (drop 14 ?v) 0 (VLAN # xs)"
  proof (cases xs)
    case Nil
    then show ?thesis by simp
  next
    case (Cons h hs)
    then have "field v 12 (\<lambda>et. ether_announces K et h)" and rest: "describes K v 14 xs" using d by simp_all
    then obtain it where it: "load v 12 = Some it" "ether_announces K it h" by (auto simp: field_def split: option.splits)
    have "drop 14 ?v = tci @ drop 12 v" using n by simp
    moreover have "load (tci @ drop 12 v) 2 = Some it"
      using it(1) n tci load_shift0 [of 2 "tci @ drop 12 v", where 'a = 16] load_shift0 [of 12 v, where 'a = 16] by simp
    moreover have "drop 4 (tci @ drop 12 v) = drop 14 v" using tci by simp
    ultimately show ?thesis
      using describes_vlan [OF _ it(2), of "tci @ drop 12 v" hs] rest describes_view [OF n, of K] Cons by simp
  qed
  ultimately show ?thesis using describes_ether [OF K] by blast
qed

lemma upper_type_no_vlan: "upper_type up \<Longrightarrow> VLAN \<notin> set up \<and> ETHERNET \<notin> set up \<and> ISID \<notin> set up"
  by (induction up rule: upper_type.induct) (auto simp: ipv4_uppers_def ipv6_uppers_def split: if_splits)

text \<open>A VLAN tag of a type is the outermost header behind the Ethernet header.\<close>

lemma vlan_outermost:
  assumes "pkt_types (ETHERNET # xs)"
  shows "VLAN \<notin> set xs \<or> (\<exists>ys. xs = VLAN # ys)"
proof -
  obtain l2 up where t: "ETHERNET # xs = l2 @ up" "l2 \<in> set l2_types" "upper_type up"
    using assms by (rule pkt_typesE)
  have "VLAN \<notin> set up" using t(3) upper_type_no_vlan by blast
  then show ?thesis using t(1,2) by (auto simp: l2_types_def)
qed

lemma proto_of_Hdr: "p \<noteq> PT_PROTO_MPLS \<Longrightarrow> p \<noteq> PT_PROTO_IPV4 \<Longrightarrow> proto_of h = p \<longleftrightarrow> h = Hdr p"
  by (cases h) auto

lemma snap_types:
  assumes "pkt_types (IEEE8023 # VLAN # xs)"
  shows "\<not> has xs PT_PROTO_ISID" and "\<not> has xs PT_PROTO_ETHERNET"
proof -
  obtain l2 up where t: "IEEE8023 # VLAN # xs = l2 @ up" "l2 \<in> set l2_types" "upper_type up"
    using assms by (rule pkt_typesE)
  have "ETHERNET \<notin> set up \<and> ISID \<notin> set up" using t(3) upper_type_no_vlan by blast
  then have "ETHERNET \<notin> set xs \<and> ISID \<notin> set xs" using t(1,2) by (auto simp: l2_types_def)
  then show "\<not> has xs PT_PROTO_ISID" and "\<not> has xs PT_PROTO_ETHERNET"
    by (auto simp: has_def proto_of_Hdr eq_commute [of "PT_PROTO_ISID"] eq_commute [of "PT_PROTO_ETHERNET"])
qed

section \<open>Properties\<close>

lemma llc_frame:
  assumes "in_user s" and "14 \<le> length (frame s)"
  shows "is_llc_frame K (frame s) 0 = is_llc_frame K (view s) 0"
  by (rule is_llc_cong) (use assms in_user_facts(9) [OF assms(1)] in \<open>simp add: frame_def load_take\<close>)

lemma length_frame_user: "in_user s \<Longrightarrow> length (frame s) = unat (len (clas_state s))"
  by (simp add: in_user_def length_frame)

lemma pop_vlan_gives:
  assumes "in_user s" and "clas_type (clas_state s) = Some (ETHERNET # VLAN # xs)"
    and "pkt_types (ETHERNET # VLAN # xs)" and "\<not> has xs PT_PROTO_ISID"
    and "18 \<le> length (frame s)" and "is_llc_frame K (frame s) 0 = Some False"
  shows "\<exists>s'. pop_vlan K s = Some s' \<and> in_user s' \<and> view s' = take 12 (view s) @ drop 16 (view s) \<and>
     frame s' = take 12 (frame s) @ drop 16 (frame s) \<and>
     clas_state s' = (clas_state s)\<lparr>clas_type := Some (ETHERNET # xs), base := base (clas_state s) + 4,
       len := len (clas_state s) - 4\<rparr>"
proof -
  have "is_llc_frame K (view s) 0 = Some False" using assms(6) llc_frame [OF assms(1), of K] assms(5) by simp
  then show ?thesis
    using pop_vlan_run [OF assms(1-4), of K] assms(5) length_frame_user [OF assms(1)] by metis
qed

text \<open>The tag control information \<open>push_vlan\<close> starts from.\<close>

definition inherited :: "pkt_type \<Rightarrow> mem \<Rightarrow> 'a::len word \<Rightarrow> bool" where
  "inherited xs f w \<longleftrightarrow> (if VLAN \<in> set xs then load f 14 = Some w else w = 0)"

lemma push_vlan_gives:
  assumes s: "in_user s" and t: "clas_type (clas_state s) = Some (ETHERNET # xs)"
    and pt: "pkt_types (ETHERNET # xs)" "\<not> has xs PT_PROTO_ISID" "length (filter ((=) VLAN) xs) < 2"
    and room: "16 \<le> length (frame s)" "4 \<le> room s" and llc: "is_llc_frame K (frame s) 0 = Some False"
  shows "\<exists>s' x vid pcp tci. push_vlan K s et = Some (Some (base (clas_state s') + 14), s') \<and> in_user s' \<and>
     inherited xs (frame s) vid \<and> inherited xs (frame s) pcp \<and>
     vlan_tci K vid pcp x = Some tci \<and> length x = 2 \<and> length tci = 2 \<and>
     view s' = take 12 (view s) @ to_bytes et @ tci @ drop 12 (view s) \<and>
     frame s' = take 12 (frame s) @ to_bytes et @ tci @ drop 12 (frame s) \<and>
     clas_state s' = (clas_state s)\<lparr>clas_type := Some (ETHERNET # VLAN # xs), base := base (clas_state s) - 4,
       len := len (clas_state s) + 4\<rparr>"
proof -
  have n: "16 \<le> unat (len (clas_state s))" "4 \<le> base (clas_state s)" "unat (len (clas_state s)) \<le> length (view s)"
    using room length_frame_user [OF s] in_user_facts(7,9) [OF s] by simp_all
  have llc': "is_llc_frame K (view s) 0 = Some False" using llc llc_frame [OF s, of K] room(1) by simp
  have new: "push_transitions (ETHERNET # xs) (UNROLLED PT_PROTO_VLAN) = Some (ETHERNET # VLAN # xs)"
    using pt(2,3) by (simp add: push_transitions_def has_def)
  have same: "load (frame s) 14 = (load (view s) 14 :: u16 option)" "load (frame s) 14 = (load (view s) 14 :: u8 option)"
    using n by (simp_all add: frame_def load_take)
  obtain vid :: u16 where vid: "if VLAN \<in> set xs then load (view s) 14 = Some vid else vid = 0"
    using n by (cases "VLAN \<in> set xs") (auto simp: load_def)
  obtain pcp :: u8 where pcp: "if VLAN \<in> set xs then load (view s) 14 = Some pcp else pcp = 0"
    using n by (cases "VLAN \<in> set xs") (auto simp: load_def)
  obtain s' x tci where r: "push_vlan K s et = Some (Some (base (clas_state s') + 14), s')" "in_user s'"
    "vlan_tci K vid pcp x = Some tci" "length x = 2" "length tci = 2"
    "view s' = take 12 (view s) @ to_bytes et @ tci @ drop 12 (view s)"
    "clas_state s' = (clas_state s)\<lparr>clas_type := Some (ETHERNET # VLAN # xs), base := base (clas_state s) - 4,
       len := len (clas_state s) + 4\<rparr>" "frame s' = take 12 (frame s) @ to_bytes et @ tci @ drop 12 (frame s)"
    by (rule push_vlan_run [OF s t new vlan_outermost [OF pt(1)] _ n(2) llc' vid pcp, of et]) (use n in auto)
  then show ?thesis using vid pcp unfolding inherited_def same by blast
qed

text \<open>C24: \<open>pop_vlan\<close> on a tagged Ethernet II frame: it returns, the packet stays well-formed, the four bytes
  of the outermost tag (behind the addresses) are gone and all other bytes are kept, the frame starts
  four bytes later, and the type loses that tag. If another header follows the tag and the old type
  described the packet, the new type describes the new packet.\<close>

theorem pop_vlan_correct:
  assumes "in_user s" and "clas_type (clas_state s) = Some (ETHERNET # VLAN # xs)"
    and "pkt_types (ETHERNET # VLAN # xs)" and "\<not> has xs PT_PROTO_ISID"
    and "18 \<le> length (frame s)" and "is_llc_frame K (frame s) 0 = Some False"
  shows "\<exists>s'. pop_vlan K s = Some s' \<and> in_user s' \<and> frame s' = take 12 (frame s) @ drop 16 (frame s) \<and>
     clas_state s' = (clas_state s)\<lparr>clas_type := Some (ETHERNET # xs), base := base (clas_state s) + 4,
       len := len (clas_state s) - 4\<rparr> \<and>
     (network_types K \<and> xs \<noteq> [] \<and> describes K (view s) 0 (ETHERNET # VLAN # xs) \<longrightarrow>
        describes K (view s') 0 (ETHERNET # xs))"
proof -
  obtain s' where s': "pop_vlan K s = Some s'" "in_user s'" "view s' = take 12 (view s) @ drop 16 (view s)"
    "frame s' = take 12 (frame s) @ drop 16 (frame s)"
    "clas_state s' = (clas_state s)\<lparr>clas_type := Some (ETHERNET # xs), base := base (clas_state s) + 4,
       len := len (clas_state s) - 4\<rparr>"
    using pop_vlan_gives [OF assms] by blast
  moreover have "describes K (view s') 0 (ETHERNET # xs)"
    if "network_types K" "xs \<noteq> []" "describes K (view s) 0 (ETHERNET # VLAN # xs)"
    using that describes_pop_vlan [of K "view s" "hd xs" "tl xs"] s'(3) by simp
  ultimately show ?thesis by blast
qed

text \<open>C25: \<open>push_vlan\<close> on an Ethernet II frame that may have one tag already and has four bytes of room: it
  returns the position of the new tag, the packet stays well-formed, and its bytes are the addresses,
  the Ethertype asked for, two bytes of tag control information, and everything from the old
  Ethertype on. The identifier and the priority are those of the tag that was outermost, or 0. If the
  Ethertype is that of a tag and the old type described the packet, the new one describes the new packet.\<close>

theorem push_vlan_correct:
  assumes s: "in_user s" and t: "clas_type (clas_state s) = Some (ETHERNET # xs)"
    and pt: "pkt_types (ETHERNET # xs)" "\<not> has xs PT_PROTO_ISID" "length (filter ((=) VLAN) xs) < 2"
    and room: "16 \<le> length (frame s)" "4 \<le> room s" and llc: "is_llc_frame K (frame s) 0 = Some False"
  shows "\<exists>s' tci. push_vlan K s et = Some (Some (base (clas_state s') + 14), s') \<and> in_user s' \<and> length tci = 2 \<and>
     frame s' = take 12 (frame s) @ to_bytes et @ tci @ drop 12 (frame s) \<and>
     clas_state s' = (clas_state s)\<lparr>clas_type := Some (ETHERNET # VLAN # xs), base := base (clas_state s) - 4,
       len := len (clas_state s) + 4\<rparr> \<and>
     (network_masks K \<longrightarrow> (\<exists>w p vid pcp. load tci 0 = Some (w :: u16) \<and> load tci 0 = Some (p :: u8) \<and>
        inherited xs (frame s) vid \<and> inherited xs (frame s) pcp \<and>
        w AND 0xFF0F = vid AND 0xFF0F \<and> p AND 0xE0 = pcp AND 0xE0)) \<and>
     (network_types K \<and> (et = VLAN_CTAG_ETHER_TYPE K \<or> et = VLAN_STAG_ETHER_TYPE K) \<and>
        describes K (view s) 0 (ETHERNET # xs) \<longrightarrow> describes K (view s') 0 (ETHERNET # VLAN # xs))"
proof -
  obtain s' x vid pcp tci where r: "push_vlan K s et = Some (Some (base (clas_state s') + 14), s')" "in_user s'"
    "inherited xs (frame s) vid" "inherited xs (frame s) pcp"
    "vlan_tci K vid pcp x = Some tci" "length x = 2" "length tci = 2"
    "view s' = take 12 (view s) @ to_bytes et @ tci @ drop 12 (view s)"
    "frame s' = take 12 (frame s) @ to_bytes et @ tci @ drop 12 (frame s)"
    "clas_state s' = (clas_state s)\<lparr>clas_type := Some (ETHERNET # VLAN # xs), base := base (clas_state s) - 4,
       len := len (clas_state s) + 4\<rparr>"
    using push_vlan_gives [OF assms, of et] by blast
  have "describes K (view s') 0 (ETHERNET # VLAN # xs)"
    if "network_types K" "et = VLAN_CTAG_ETHER_TYPE K \<or> et = VLAN_STAG_ETHER_TYPE K"
      "describes K (view s) 0 (ETHERNET # xs)"
    unfolding r(8) by (rule describes_push_vlan [OF that(1,3,2) r(7)])
  moreover have "\<exists>w p vid pcp. load tci 0 = Some (w :: u16) \<and> load tci 0 = Some (p :: u8) \<and>
        inherited xs (frame s) vid \<and> inherited xs (frame s) pcp \<and>
        w AND 0xFF0F = vid AND 0xFF0F \<and> p AND 0xE0 = pcp AND 0xE0" if "network_masks K"
    using vlan_tci_fields [OF that r(5,6)] r(3,4) by blast
  ultimately show ?thesis using r by blast
qed

section \<open>Popping and parsing again\<close>

lemma reparse_ok:
  assumes s: "in_user s" and "NDEBUG K" and "base (clas_state s) \<le> 9162"
  shows "\<exists>t. reparse K s = Some (set_clas_type s (Some t)) \<and> pkt_types t \<and> describes K (view s) 0 t"
proof -
  let ?m = "pkt_mem s" and ?c = "clas_state s"
  have n: "base ?c + 158 \<le> length ?m" using in_user_facts [OF s] assms(3) by simp
  obtain r where r: "parse_ethernet K ?m ?c (base ?c) (len ?c) = Some r"
    using parse_ethernet_defined [OF assms(2) n] by blast
  obtain t where t: "r = ?c\<lparr>clas_type := Some t\<rparr>" "pkt_types t" "describes K ?m (base ?c) t"
    using parse_ethernet_sound [OF r refl] by (auto simp: sound_def)
  have "describes K (view s) 0 t" using t(3) describes_view [of "base ?c" ?m K t] n by (simp add: view_def)
  then show ?thesis using r t(1,2) by (auto simp: reparse_def set_clas_type_def)
qed

lemma pop_tag_reparse:
  assumes s: "in_user s" and K: "NDEBUG K" and n: "14 + unat n \<le> length (frame s)"
    and room: "room s + length (frame s) \<le> 9162" and llc: "is_llc_frame K (frame s) 0 = Some False"
  shows "\<exists>s' t. do { (_, s) \<leftarrow> pkt_pop K s None (of_nat (sizeof cpc_eth_hdr)) n;
          let s = set_clas_type s (Some (ETHERNET # xs));
          ether \<leftarrow> hdr_of get_ether_hdr s;
          s \<leftarrow> upd s (\<lambda>m. set_ether_type K m ether et);
          reparse K s } = Some s' \<and> in_user s' \<and> clas_type (clas_state s') = Some t \<and> pkt_types t \<and>
      describes K (view s') 0 t \<and> frame s' = take 12 (frame s) @ to_bytes et @ drop (14 + unat n) (frame s)"
proof -
  have l: "14 + unat n \<le> unat (len (clas_state s))" "is_llc_frame K (view s) 0 = Some False"
    using n length_frame_user [OF s] llc llc_frame [OF s, of K] by simp_all
  obtain s' where s': "\<And>f. do { (_, s) \<leftarrow> pkt_pop K s None (of_nat (sizeof cpc_eth_hdr)) n;
          let s = set_clas_type s (Some (ETHERNET # xs));
          ether \<leftarrow> hdr_of get_ether_hdr s;
          s \<leftarrow> upd s (\<lambda>m. set_ether_type K m ether et);
          f s } = (f s' :: datapacketx86 option)" and u: "in_user s'"
    and c: "clas_state s' = (clas_state s)\<lparr>clas_type := Some (ETHERNET # xs), base := base (clas_state s) + unat n,
           len := len (clas_state s) - ucast n\<rparr>"
    and f: "frame s' = take 12 (frame s) @ to_bytes et @ drop (14 + unat n) (frame s)"
    by (rule pop_tag [OF s l, of xs et]) blast
  have "base (clas_state s') \<le> 9162" using c room n in_user_facts(7) [OF s] by simp
  from reparse_ok [OF u K this] obtain t where "reparse K s' = Some (set_clas_type s' (Some t))" "pkt_types t"
    "describes K (view s') 0 t" by blast
  then show ?thesis using s' [of "reparse K"] u f
    by (intro exI [of _ "set_clas_type s' (Some t)"] exI [of _ t]) simp
qed

text \<open>C26: Popping the VLAN tag that was just pushed restores the bytes of the frame and the whole state of
  the classifier, whatever Ethertype of a tag was asked for.\<close>

theorem push_pop_vlan_roundtrip:
  assumes s: "in_user s" and t: "clas_type (clas_state s) = Some (ETHERNET # xs)"
    and pt: "pkt_types (ETHERNET # xs)" "\<not> has xs PT_PROTO_ISID" "length (filter ((=) VLAN) xs) < 2"
    and room: "16 \<le> length (frame s)" "4 \<le> room s" and llc: "is_llc_frame K (frame s) 0 = Some False"
    and et: "LLC_DELIMITER_HBO K \<le> NTOHB16 K et"
  shows "\<exists>p s1 s2. push_vlan K s et = Some (p, s1) \<and> pop_vlan K s1 = Some s2 \<and>
     frame s2 = frame s \<and> clas_state s2 = clas_state s \<and> in_user s2"
proof -
  obtain s1 tci where s1: "push_vlan K s et = Some (Some (base (clas_state s1) + 14), s1)" "in_user s1"
    "length tci = 2" "frame s1 = take 12 (frame s) @ to_bytes et @ tci @ drop 12 (frame s)"
    "clas_state s1 = (clas_state s)\<lparr>clas_type := Some (ETHERNET # VLAN # xs), base := base (clas_state s) - 4,
       len := len (clas_state s) + 4\<rparr>"
    using push_vlan_gives [OF s t pt room llc, of et] by blast
  have "push_transitions (ETHERNET # xs) (UNROLLED PT_PROTO_VLAN) = Some (ETHERNET # VLAN # xs)"
    using pt(2,3) by (simp add: push_transitions_def has_def)
  then have "pkt_types (ETHERNET # VLAN # xs)" using push_transitions_valid pt(1) by blast
  moreover have l: "length (frame s1) = length (frame s) + 4" using s1(3,4) room(1) by simp
  moreover have "is_llc_frame K (frame s1) 0 = Some False"
    using load_shift0 [of 12 "frame s1", where 'a = 16] load_append1 [of 0 "to_bytes et" "tci @ drop 12 (frame s)", where 'a = 16]
      room(1) et l s1(3) by (simp add: is_llc_frame_def layout s1(4) load_to_bytes0)
  ultimately obtain s2 where s2: "pop_vlan K s1 = Some s2" "in_user s2" "frame s2 = take 12 (frame s1) @ drop 16 (frame s1)"
    "clas_state s2 = (clas_state s1)\<lparr>clas_type := Some (ETHERNET # xs), base := base (clas_state s1) + 4,
       len := len (clas_state s1) - 4\<rparr>"
    using pop_vlan_gives [OF s1(2), of xs K] s1(5) pt(2) room(1) by auto
  have "frame s2 = frame s" using s2(3) s1(3,4) room(1) by simp
  moreover have "clas_state s2 = clas_state s" using s2(4) s1(5) t in_user_facts(7) [OF s] room(2) by simp
  ultimately show ?thesis using s1(1) s2(1,2) by blast
qed

text \<open>An IEEE 802.3 frame has its tag behind the LLC header, 22 bytes into the frame. \<open>pop_vlan\<close> removes
  the four bytes from 14 on all the same: the frame loses the first half of its LLC header and keeps the
  tag, and the new type says that there is no tag.\<close>

lemma pop_vlan_snap:
  assumes s: "in_user s" and t: "clas_type (clas_state s) = Some (IEEE8023 # VLAN # xs)"
    and pt: "pkt_types (IEEE8023 # VLAN # xs)" and n: "26 \<le> length (frame s)" and llc: "is_llc_frame K (frame s) 0 = Some True"
  shows "\<exists>s'. pop_vlan K s = Some s' \<and> frame s' = take 14 (frame s) @ drop 18 (frame s) \<and>
     clas_type (clas_state s') = Some (IEEE8023 # xs)"
proof -
  let ?V = "view s" and ?b = "base (clas_state s)"
  have l: "26 \<le> unat (len (clas_state s))" "26 \<le> length ?V"
    using n length_frame_user [OF s] in_user_facts(9) [OF s] by simp_all
  obtain et :: u16 where et: "load ?V 24 = Some et" using l by (simp add: load_def)
  then have ty: "load (pkt_mem s) (get_vlan_type (?b + 22)) = Some et"
    using load_view [OF s, of "?b + 24" 24, where 'a = 16] by (simp add: get_vlan_type_def layout add.commute)
  have "unat (14 :: u32) + unat (4 :: u32) \<le> unat (len (clas_state s))" using l by simp
  then obtain s1 where s1: "pop K s 14 4 = Some (ROFL_SUCCESS, s1)" "in_user s1" "view s1 = take 14 ?V @ drop 18 ?V"
    "clas_state s1 = (clas_state s)\<lparr>base := ?b + 4, len := len (clas_state s) - 4\<rparr>"
    "unat (len (clas_state s1)) = unat (len (clas_state s)) - 4"
    by (rule pop_view [OF s, of 14 4 K]) auto
  let ?s2 = "set_clas_type s1 (Some (IEEE8023 # xs))"
  have same: "load (view s1) 20 = Some et" "load (view s1) 12 = (load ?V 12 :: u16 option)"
    using l et load_shift0 [of 20 "view s1", where 'a = 16] load_shift0 [of 24 ?V, where 'a = 16]
    by (simp_all add: s1(3) load_append1 load_take)
  have "is_llc_frame K (view s1) 0 = Some True"
    using llc llc_frame [OF s, of K] n is_llc_cong [OF same(2), of K] by simp
  moreover have length_view: "22 \<le> length (view s1)" using l by (simp add: s1(3))
  ultimately have "set_ether_type K (view s1) 0 et = Some (view s1)"
    using load_to_bytes [OF same(1)] l append_take_drop_id [of 2 "drop 20 (view s1)"]
      append_take_drop_id [of 20 "view s1"] length_view
    by (simp add: set_ether_type_def store_def layout)
  then have "set_ether_type K (pkt_mem s1) (base (clas_state s1)) et =
      map_option ((@) (take (base (clas_state s1)) (pkt_mem s1))) (Some (view s1))"
    using set_ether_type_shift [OF in_user_facts(10) [OF s1(2)], of K et] by (simp add: view_def)
  then have "upd ?s2 (\<lambda>m. set_ether_type K m (?b + 4) et) = Some ?s2"
    using s1(4) by (cases "object s1") (simp_all add: upd_def view_def set_mem_def object_mem_def set_clas_type_def)
  moreover have "hdr_of get_ether_hdr ?s2 = Some (?b + 4)"
    using s1(4) offsets_None_iff [of xs PT_PROTO_ETHERNET] snap_types(2) [OF pt]
    by (simp add: hdr_of_def get_ether_hdr_def PT_GET_HDR_def)
  moreover have "hdr_of get_vlan_hdr s = Some (?b + 22)"
    using t by (simp add: hdr_of_def get_vlan_hdr_def PT_GET_HDR_def)
  moreover have "pop_transitions (IEEE8023 # VLAN # xs) (UNROLLED PT_PROTO_VLAN) = Some (IEEE8023 # xs)"
    using snap_types(1) [OF pt] by (auto simp: pop_transitions_def has_def)
  ultimately have "pop_vlan K s = Some ?s2"
    using t ty s1(1) by (simp add: pop_vlan_def PT_POP_PROTO_def pkt_pop_def layout del: with_view_type)
  moreover have "frame ?s2 = take 14 (frame s) @ drop 18 (frame s)"
    using l s1(3,5) by (simp add: frame_def drop_take)
  ultimately show ?thesis by simp
qed

text \<open>Packets for the witnesses: a frame and the type it was given.\<close>

definition typed_pkt :: "pkt_type \<Rightarrow> mem \<Rightarrow> datapacketx86" where
  "typed_pkt t f = set_clas_type (user_pkt f) (Some t)"

lemma typed_pkt:
  assumes "length f \<le> 9000"
  shows "in_user (typed_pkt t f)" and "frame (typed_pkt t f) = f" and "room (typed_pkt t f) = 256"
    and "clas_type (clas_state (typed_pkt t f)) = Some t"
  using user_pkt [OF assms] by (simp_all add: typed_pkt_def in_user_def, simp add: user_pkt_def set_clas_type_def)

definition untagged :: mem where "untagged = [1, 2, 3, 4, 5, 6, 7, 8, 9, 10, 11, 12, 0x08, 0, 0x45, 0, 0, 20]"

definition tagged :: mem where
  "tagged = [1, 2, 3, 4, 5, 6, 7, 8, 9, 10, 11, 12, 0x81, 0, 0x20, 5, 0x08, 0, 0x45, 0, 0, 20]"

definition snap :: mem where
  "snap = [1, 2, 3, 4, 5, 6, 7, 8, 9, 10, 11, 12, 0, 20, 0xAA, 0xAA, 3, 0, 0, 0, 0x81, 0, 0x20, 5, 0x08, 0]"

lemmas frames_def = untagged_def tagged_def snap_def

lemma frames_llc:
  "is_llc_frame std_rofl untagged 0 = Some False" "is_llc_frame std_rofl tagged 0 = Some False"
  "is_llc_frame std_rofl snap 0 = Some True"
  by (simp_all add: frames_def is_llc_frame_def layout load_def std_rofl_def bswap16_def)

theorem pop_vlan_correct_witness:
  "\<exists>s'. pop_vlan std_rofl (typed_pkt [ETHERNET, VLAN, IPV4_noptions 0] tagged) = Some s' \<and> frame s' = untagged"
proof -
  have pt: "pkt_types [ETHERNET, VLAN, IPV4_noptions 0]" by code_simp
  have l: "length tagged \<le> 9000" "18 \<le> length tagged" by (simp_all add: tagged_def)
  show ?thesis
    using pop_vlan_correct [OF typed_pkt(1,4) [OF l(1)] pt, of std_rofl] typed_pkt(2) [OF l(1)] l(2) frames_llc(2)
    by (auto simp: has_def frames_def)
qed

theorem push_vlan_correct_witness:
  "\<exists>s' tci. push_vlan std_rofl (typed_pkt [ETHERNET, IPV4_noptions 0] untagged) 0x0081 =
       Some (Some (base (clas_state s') + 14), s') \<and> length tci = 2 \<and>
     frame s' = take 12 untagged @ to_bytes (0x0081 :: u16) @ tci @ drop 12 untagged"
proof -
  have pt: "pkt_types [ETHERNET, IPV4_noptions 0]" by code_simp
  have l: "length untagged \<le> 9000" "16 \<le> length untagged" by (simp_all add: untagged_def)
  note pkt = typed_pkt [OF l(1), of "[ETHERNET, IPV4_noptions 0]"]
  have "\<not> has [IPV4_noptions 0] PT_PROTO_ISID" "length (filter ((=) VLAN) [IPV4_noptions 0]) < 2"
    by (simp_all add: has_def)
  from push_vlan_correct [OF pkt(1,4) pt this, where K = std_rofl and et = "0x0081"] show ?thesis
    unfolding pkt(2,3) using l(2) frames_llc(1) by fastforce
qed

theorem push_pop_vlan_roundtrip_witness:
  "\<exists>p s1 s2. push_vlan std_rofl (typed_pkt [ETHERNET, VLAN, IPV4_noptions 0] tagged) 0xA888 = Some (p, s1) \<and>
     pop_vlan std_rofl s1 = Some s2 \<and> frame s2 = tagged"
proof -
  have pt: "pkt_types [ETHERNET, VLAN, IPV4_noptions 0]" by code_simp
  have l: "length tagged \<le> 9000" "16 \<le> length tagged" by (simp_all add: tagged_def)
  have et: "LLC_DELIMITER_HBO std_rofl \<le> NTOHB16 std_rofl 0xA888" by (simp add: std_rofl_def bswap16_def)
  show ?thesis
    using push_pop_vlan_roundtrip [OF typed_pkt(1,4) [OF l(1)] pt _ _ _ _ _ et] typed_pkt(2,3) [OF l(1)] l(2) frames_llc(2)
    by (auto simp: has_def)
qed

text \<open>\<open>pop_mpls\<close> on an Ethernet II frame with a label stack: it returns, the four bytes of the outermost
  label are gone, the frame has the Ethertype asked for, and it has been parsed again: its type
  describes the new bytes.\<close>

lemma pop_mpls_correct:
  assumes s: "in_user s" and K: "NDEBUG K" and t: "clas_type (clas_state s) = Some [ETHERNET, MPLS_nlabels n]"
    and n: "18 \<le> length (frame s)" and room: "room s + length (frame s) \<le> 9162"
    and llc: "is_llc_frame K (frame s) 0 = Some False"
  shows "\<exists>s' t. pop_mpls K s et = Some s' \<and> in_user s' \<and> clas_type (clas_state s') = Some t \<and> pkt_types t \<and>
     describes K (view s') 0 t \<and> frame s' = take 12 (frame s) @ to_bytes et @ drop 18 (frame s)"
proof -
  obtain xs where new: "pop_transitions [ETHERNET, MPLS_nlabels n] (UNROLLED PT_PROTO_MPLS) = Some (ETHERNET # xs)"
    by (cases "1 < mpls_num_of_labels [ETHERNET, MPLS_nlabels n]")
      (simp_all add: pop_transitions_def has_def l2_part_def is_l2_def)
  have n4: "14 + unat (4 :: u32) \<le> length (frame s)" using n by simp
  show ?thesis
    using pop_tag_reparse [OF s K n4 room llc, of xs et] t new
    by (simp add: pop_mpls_def PT_POP_PROTO_def layout)
qed

text \<open>\<open>pop_gtp\<close> on an Ethernet II frame with a GTP tunnel over IPv4: it returns and parses the rest again.
  It removes 36 bytes behind the Ethernet header whatever the number of IPv4 option words is: with
  \<open>k\<close> of them, the last \<open>4 * k\<close> bytes of the tunnel's headers stay in front of the payload.\<close>

lemma pop_gtp_ipv4:
  assumes s: "in_user s" and K: "NDEBUG K" and t: "clas_type (clas_state s) = Some [ETHERNET, IPV4_noptions k, UDP, GTPU4]"
    and n: "50 + 4 * k \<le> length (frame s)" and room: "room s + length (frame s) \<le> 9162"
    and llc: "is_llc_frame K (frame s) 0 = Some False" and ip: "load (frame s) 12 = Some (ETH_TYPE_IPV4 K)"
  shows "\<exists>s' t. pop_gtp K s et = Some s' \<and> in_user s' \<and> clas_type (clas_state s') = Some t \<and> pkt_types t \<and>
     describes K (view s') 0 t \<and>
     frame s' = take 12 (frame s) @ to_bytes et @ take (4 * k) (drop 50 (frame s)) @ drop (50 + 4 * k) (frame s)"
proof -
  have n': "14 + unat (36 :: u32) \<le> length (frame s)" "14 \<le> length (frame s)" using n by simp_all
  have llc': "is_llc_frame K (view s) 0 = Some False" using llc llc_frame [OF s n'(2), of K] by simp
  have "load (view s) 12 = Some (ETH_TYPE_IPV4 K)"
    using ip n' in_user_facts(9) [OF s] length_frame_user [OF s] by (simp add: frame_def load_take)
  then have current: "current_ether_type K s = Some (ETH_TYPE_IPV4 K)" using current_ether_type [OF s t llc'] by simp
  have hdrs: "get_ether_hdr (clas_state s) 0 = Some (Some (base (clas_state s)))"
    "\<exists>p. get_gtpu_hdr (clas_state s) 0 = Some (Some p)"
    using t get_ether_hdr_ETHERNET [OF t] by (auto simp: get_gtpu_hdr_def PT_GET_HDR_def)
  have new: "pop_transitions [ETHERNET, IPV4_noptions k, UDP, GTPU4] (UNROLLED PT_PROTO_GTPU4) = Some [ETHERNET]"
    by (simp add: pop_transitions_def has_def l2_part_def is_l2_def)
  have "drop 50 (frame s) = take (4 * k) (drop 50 (frame s)) @ drop (50 + 4 * k) (frame s)"
    using append_take_drop_id [of "4 * k" "drop 50 (frame s)"] by (simp add: add.commute)
  then show ?thesis
    using pop_tag_reparse [OF s K n'(1) room llc, of "[]" et] current hdrs new t
    by (auto simp: pop_gtp_def PT_POP_PROTO_def layout Let_def)
qed

end
