(* ===== verification/Checksums.thy ===== *)
theory Checksums
  imports Cpc_L3 Cpc_L4
begin

text \<open>
  The checksum routines of the header files (\<open>ipv4_calc_checksum\<close>, \<open>icmpv4_calc_checksum\<close>,
  \<open>icmpv6_calc_checksum\<close>, \<open>tcpv4/tcpv6_calc_checksum\<close>, \<open>udpv4/udpv6_calc_checksum\<close>,
  \<open>grev4/grev6_calc_checksum\<close>, \<open>ietf_rfc1071_checksum_hbo/nbo\<close>);
  the CRC of SCTP is in theory \<open>Crc32c\<close>.

  The specification of the Internet checksum is a receiver's test on the bytes of the wire:
  \<open>internet_valid bs\<close> holds when the one's complement sum of the big-endian 16-bit words of \<open>bs\<close>
  is \<open>0xFFFF\<close>. The routines add little-endian words in 32 bits; they are related to the
  specification through sums of natural numbers modulo 65535. The common contract of the transport
  checksums is the locale \<open>transport_checksum\<close>, interpreted for each routine.
\<close>

section \<open>Sums of 16-bit words\<close>

text \<open>Big-endian (the wire) and little-endian (the host) words of a byte string; a trailing byte is
  padded with a zero byte.\<close>

fun be_sum :: "u8 list \<Rightarrow> nat" where
  "be_sum [] = 0"
| "be_sum [a] = 256 * unat a"
| "be_sum (a # b # bs) = 256 * unat a + unat b + be_sum bs"

fun le_sum :: "u8 list \<Rightarrow> nat" where
  "le_sum [] = 0"
| "le_sum [a] = unat a"
| "le_sum (a # b # bs) = unat a + 256 * unat b + le_sum bs"

definition internet_valid :: "u8 list \<Rightarrow> bool" where
  "internet_valid bs \<longleftrightarrow> 0 < be_sum bs \<and> be_sum bs mod 65535 = 0"

lemma unat_u8_less: "unat (x::u8) < 256"
  using unsigned_less [of x] by simp

lemma be_sum_le_sum_mod: "be_sum bs mod 65535 = 256 * le_sum bs mod 65535"
proof (induction bs rule: be_sum.induct)
  case (3 a b bs)
  have "256 * (unat a + 256 * unat b + le_sum bs) =
        256 * unat a + unat b + 256 * le_sum bs + 65535 * unat b"
    by (simp add: algebra_simps)
  then have "256 * (unat a + 256 * unat b + le_sum bs) mod 65535 =
        (256 * unat a + unat b + 256 * le_sum bs) mod 65535"
    by (simp only: mod_mult_self2)
  also have "\<dots> = (256 * unat a + unat b + be_sum bs) mod 65535"
    using 3 by (intro mod_add_cong refl) simp
  finally show ?case by simp
qed simp_all

lemma be_sum_zero_iff: "be_sum bs = 0 \<longleftrightarrow> le_sum bs = 0"
  by (induction bs rule: be_sum.induct) auto

lemma mod_65535_256: "256 * (n::nat) mod 65535 = 0 \<longleftrightarrow> n mod 65535 = 0"
proof
  assume "256 * n mod 65535 = 0"
  then have "(65535::nat) dvd 256 * (256 * n)"
    by (simp only: mod_eq_0_iff_dvd dvd_mult)
  also have "256 * (256 * n) = 65535 * n + n" by simp
  finally show "n mod 65535 = 0"
    by (simp only: dvd_add_right_iff dvd_triv_left mod_eq_0_iff_dvd)
qed (simp add: mod_eq_0_iff_dvd)

lemma internet_valid_le: "internet_valid bs \<longleftrightarrow> 0 < le_sum bs \<and> le_sum bs mod 65535 = 0"
  using be_sum_le_sum_mod [of bs] be_sum_zero_iff [of bs] mod_65535_256 [of "le_sum bs"]
  by (auto simp: internet_valid_def)

lemma le_sum_append: "even (length xs) \<Longrightarrow> le_sum (xs @ ys) = le_sum xs + le_sum ys"
  by (induction xs rule: le_sum.induct) auto

lemma be_sum_append: "even (length xs) \<Longrightarrow> be_sum (xs @ ys) = be_sum xs + be_sum ys"
  by (induction xs rule: be_sum.induct) auto

lemma le_sum_bound: "le_sum bs \<le> 65535 * ((length bs + 1) div 2)"
proof (induction bs rule: le_sum.induct)
  case (2 a)
  then show ?case using unat_u8_less [of a] by simp
next
  case (3 a b bs)
  then show ?case using unat_u8_less [of a] unat_u8_less [of b] by simp
qed simp

lemma be_sum_bound: "be_sum bs \<le> 65535 * ((length bs + 1) div 2)"
proof (induction bs rule: be_sum.induct)
  case (2 a)
  then show ?case using unat_u8_less [of a] by simp
next
  case (3 a b bs)
  then show ?case using unat_u8_less [of a] unat_u8_less [of b] by simp
qed simp

lemma to_bytes_16: "to_bytes (w::u16) = [ucast w, ucast (drop_bit 8 w)]"
  by (simp add: to_bytes_def numeral_2_eq_2)

lemma le_sum_to_bytes_16 [simp]: "le_sum (to_bytes (w::u16)) = unat w"
proof -
  have "unat (ucast w :: u8) + 256 * unat (ucast (drop_bit 8 w) :: u8) = unat w mod 256 + 256 * (unat w div 256 mod 256)"
    by (simp add: unsigned_ucast_eq take_bit_eq_mod drop_bit_eq_div unat_div_distrib)
  moreover have "unat w < 65536" using unsigned_less [of w] by simp
  ultimately show ?thesis by (simp add: to_bytes_16)
qed

lemma of_bytes_le_sum: "unat (of_bytes [a, b] :: u16) = unat a + 256 * unat b"
  using le_sum_to_bytes_16 [of "of_bytes [a, b]"] to_of_bytes [where bs = "[a, b]" and 'a = 16]
  by (simp del: of_bytes.simps)

section \<open>Folding\<close>

text \<open>\<open>while (sum >> 16) sum = (sum & 0xffff) + (sum >> 16);\<close>\<close>

definition fold_step :: "u32 \<Rightarrow> u32" where
  "fold_step s = (s AND 0xFFFF) + drop_bit 16 s"

lemma unat_fold_step: "unat (fold_step s) = unat s mod 65536 + unat s div 65536"
proof -
  have "s AND 0xFFFF = take_bit 16 s" by (simp add: take_bit_eq_mask mask_eq_exp_minus_1)
  then have lo: "unat (s AND 0xFFFF) = unat s mod 65536"
    by (simp add: take_bit_eq_mod unat_mod_distrib)
  have hi: "unat (drop_bit 16 s) = unat s div 65536"
    by (simp add: drop_bit_eq_div unat_div_distrib)
  have "unat s < 4294967296" using unsigned_less [of s] by simp
  then have "unat s mod 65536 + unat s div 65536 < 2 ^ LENGTH(32)"
    by (simp add: less_mult_imp_div_less add_less_mono)
  then show ?thesis
    using lo hi by (simp add: fold_step_def unat_word_ariths(1))
qed

lemma drop_bit_16_zero: "drop_bit 16 (s::u32) = 0 \<longleftrightarrow> unat s < 65536"
proof -
  have "drop_bit 16 s = 0 \<longleftrightarrow> unat (drop_bit 16 s) = 0" by (simp add: unat_eq_zero)
  then show ?thesis by (simp add: drop_bit_eq_div unat_div_distrib div_eq_0_iff)
qed

function while_fold :: "u32 \<Rightarrow> u32" where
  "while_fold s = (if drop_bit 16 s \<noteq> 0 then while_fold (fold_step s) else s)"
  by auto
termination
proof (relation "measure unat")
  fix s :: u32
  assume "drop_bit 16 s \<noteq> 0"
  then have "\<not> unat s < 65536" by (simp add: drop_bit_16_zero)
  moreover have "unat s = unat s mod 65536 + 65536 * (unat s div 65536)" by simp
  moreover have "0 < unat s div 65536" using calculation by (simp add: div_greater_zero_iff)
  ultimately show "(fold_step s, s) \<in> measure unat"
    unfolding in_measure unat_fold_step by linarith
qed simp

declare while_fold.simps [simp del]

text \<open>\<open>do { sum = (sum & 0xFFFF) + (sum >> 16); } while (sum >> 16);\<close>\<close>

definition do_fold :: "u32 \<Rightarrow> u32" where
  "do_fold s = while_fold (fold_step s)"

lemma fold_step_mod: "unat (fold_step s) mod 65535 = unat s mod 65535"
proof -
  have "unat s = unat s mod 65536 + unat s div 65536 + 65535 * (unat s div 65536)"
    using div_mult_mod_eq [of "unat s" 65536] by linarith
  then show ?thesis unfolding unat_fold_step by (metis mod_mult_self2)
qed

lemma fold_step_zero: "unat (fold_step s) = 0 \<longleftrightarrow> unat s = 0"
  using div_mult_mod_eq [of "unat s" 65536] unfolding unat_fold_step by linarith

lemma while_fold_spec:
  "unat (while_fold s) < 65536 \<and> unat (while_fold s) mod 65535 = unat s mod 65535 \<and>
   (unat (while_fold s) = 0 \<longleftrightarrow> unat s = 0)"
proof (induction s rule: while_fold.induct)
  case (1 s)
  show ?case
  proof (cases "drop_bit 16 s = 0")
    case True
    then show ?thesis by (simp add: while_fold.simps [of s] drop_bit_16_zero)
  next
    case False
    then show ?thesis
      using 1 fold_step_mod [of s] fold_step_zero [of s] by (simp add: while_fold.simps [of s])
  qed
qed

lemma do_fold_eq_while_fold: "do_fold s = while_fold s"
proof (cases "drop_bit 16 s = 0")
  case True
  then have "unat s < 65536" by (simp add: drop_bit_16_zero)
  then have "fold_step s = s" by (simp add: word_unat_eq_iff unat_fold_step)
  then show ?thesis by (simp add: do_fold_def)
next
  case False
  then show ?thesis by (simp add: do_fold_def while_fold.simps [of s])
qed

text \<open>The stored checksum: the complement of the folded sum, cut to 16 bits.\<close>

lemma unat_not_16: "unat (NOT w :: u16) = 65535 - unat w"
proof -
  have "NOT w = - 1 - w" by (simp add: not_eq_complement)
  moreover have "w \<le> - 1" by simp
  ultimately show ?thesis by (simp add: unat_sub unsigned_minus_1_eq_mask mask_eq_exp_minus_1)
qed

lemma unat_not_fold: "unat (ucast (NOT (while_fold s)) :: u16) = 65535 - unat (while_fold s)"
proof -
  have "ucast (NOT (while_fold s)) = (NOT (ucast (while_fold s)) :: u16)"
    by (rule bit_word_eqI) (simp add: bit_simps)
  moreover have "unat (ucast (while_fold s) :: u16) = unat (while_fold s)"
    using while_fold_spec [of s] by (simp add: unsigned_ucast_eq take_bit_nat_eq_self)
  ultimately show ?thesis
    by (simp add: unat_not_16)
qed

lemma complement_completes:
  "0 < unat s + (65535 - unat (while_fold s)) \<and> (unat s + (65535 - unat (while_fold s))) mod 65535 = 0"
proof -
  let ?f = "unat (while_fold s)"
  have f: "?f < 65536" "?f mod 65535 = unat s mod 65535" "?f = 0 \<longleftrightarrow> unat s = 0"
    using while_fold_spec [of s] by simp_all
  have "(unat s + (65535 - ?f)) mod 65535 = (?f + (65535 - ?f)) mod 65535"
    using f(2) by (intro mod_add_cong refl) simp
  also have "?f + (65535 - ?f) = 65535" using f(1) by simp
  finally show ?thesis using f by (cases "unat s = 0") auto
qed

section \<open>Summing up a segment\<close>

text \<open>\<open>for (i = 0; i < wnum; i++) sum += word16[i];\<close> with \<open>word16\<close> advanced in each round.\<close>

fun add_words :: "mem \<Rightarrow> nat \<Rightarrow> nat \<Rightarrow> u32 \<Rightarrow> u32 option" where
  "add_words m word16 0 s = Some s"
| "add_words m word16 (Suc n) s = do {
     w \<leftarrow> load m word16;
     add_words m (word16 + 2) n (s + ucast (w :: u16)) }"

text \<open>The last byte of a segment of odd length.\<close>

definition add_odd_byte :: "mem \<Rightarrow> nat \<Rightarrow> u16 \<Rightarrow> u32 \<Rightarrow> u32 option" where
  "add_odd_byte m hdr len s =
     (if len AND 1 \<noteq> 0 then do {
        b \<leftarrow> load m (hdr + (unat len - 1));
        Some (s + ucast (b :: u8)) }
      else Some s)"

lemma load_16_Some:
  assumes "a + 2 \<le> length m"
  shows "\<exists>w::u16. load m a = Some w \<and> unat w = le_sum (take 2 (drop a m))"
proof -
  from assms have "length (take 2 (drop a m)) = 2" by simp
  then obtain x y where "take 2 (drop a m) = [x, y]"
    by (metis (no_types, lifting) One_nat_def Suc_1 length_0_conv length_Suc_conv)
  with assms show ?thesis
    by (simp add: load_def of_bytes_le_sum del: of_bytes.simps)
qed

lemma add_words_Some:
  assumes "p + 2 * n \<le> length m"
  shows "add_words m p n s = Some (s + of_nat (le_sum (take (2 * n) (drop p m))))"
  using assms
proof (induction n arbitrary: p s)
  case 0
  then show ?case by simp
next
  case (Suc n)
  obtain w :: u16 where w: "load m p = Some w" "unat w = le_sum (take 2 (drop p m))"
    using load_16_Some [of p m] Suc.prems by auto
  have "take (2 * Suc n) (drop p m) = take 2 (drop p m) @ take (2 * n) (drop (p + 2) m)"
    using take_add [of 2 "2 * n" "drop p m"] by (simp add: add.commute)
  moreover have "even (length (take 2 (drop p m)))" using Suc.prems by simp
  ultimately have "le_sum (take (2 * Suc n) (drop p m)) = unat w + le_sum (take (2 * n) (drop (p + 2) m))"
    using w(2) by (simp add: le_sum_append)
  moreover have "ucast w = (of_nat (unat w) :: u32)" by (simp add: unsigned_of_nat)
  ultimately show ?case
    using Suc.IH [of "p + 2"] Suc.prems w(1) by (simp add: add.assoc)
qed

lemma add_words_None:
  assumes "\<not> p + 2 * n \<le> length m" and "0 < n"
  shows "add_words m p n s = None"
  using assms
proof (induction n arbitrary: p s)
  case (Suc n)
  show ?case
  proof (cases "p + 2 \<le> length m")
    case True
    then have "0 < n" using Suc.prems by (cases n) auto
    then show ?thesis using Suc.IH [of "p + 2"] Suc.prems by (auto simp: bind_None_iff)
  next
    case False
    then show ?thesis by (simp add: load_def)
  qed
qed simp

text \<open>A whole segment.\<close>

definition sum_segment :: "mem \<Rightarrow> nat \<Rightarrow> u16 \<Rightarrow> u32 \<Rightarrow> u32 option" where
  "sum_segment m hdr len s = do {
     s \<leftarrow> add_words m hdr (unat len div 2) s;
     add_odd_byte m hdr len s }"

lemma and_1_odd: "(len::u16) AND 1 \<noteq> 0 \<longleftrightarrow> odd (unat len)"
proof -
  have "len AND 1 = of_bool (odd len)" by (simp add: and_one_eq odd_iff_mod_2_eq_one)
  moreover have "odd len \<longleftrightarrow> odd (unat len)"
    by transfer (simp add: even_nat_iff)
  ultimately show ?thesis by simp
qed

lemma sum_segment_Some:
  assumes "hdr + unat len \<le> length m"
  shows "sum_segment m hdr len s = Some (s + of_nat (le_sum (take (unat len) (drop hdr m))))"
proof -
  let ?n = "unat len div 2"
  have words: "add_words m hdr ?n s = Some (s + of_nat (le_sum (take (2 * ?n) (drop hdr m))))"
    by (rule add_words_Some) (use assms in linarith)
  show ?thesis
  proof (cases "odd (unat len)")
    case False
    then have "2 * ?n = unat len" by simp
    with False words show ?thesis
      by (simp add: sum_segment_def add_odd_byte_def and_1_odd)
  next
    case True
    then have len: "unat len = Suc (2 * ?n)" by simp
    then have inside: "hdr + 2 * ?n < length m" using assms by linarith
    then have "take (unat len) (drop hdr m) = take (2 * ?n) (drop hdr m) @ [m ! (hdr + 2 * ?n)]"
      using len take_Suc_conv_app_nth [of "2 * ?n" "drop hdr m"] by simp
    moreover have "even (length (take (2 * ?n) (drop hdr m)))" using inside by simp
    ultimately have "le_sum (take (unat len) (drop hdr m)) =
        le_sum (take (2 * ?n) (drop hdr m)) + unat (m ! (hdr + 2 * ?n))"
      by (simp add: le_sum_append)
    moreover have "unat len - 1 = 2 * ?n" using len by linarith
    then have "load m (hdr + (unat len - 1)) = Some (m ! (hdr + 2 * ?n))"
      using inside by (simp only: load_byte if_True)
    moreover have "ucast (m ! (hdr + 2 * ?n)) = (of_nat (unat (m ! (hdr + 2 * ?n))) :: u32)"
      by (simp add: unsigned_of_nat)
    ultimately show ?thesis
      using True words by (simp add: sum_segment_def add_odd_byte_def and_1_odd add.assoc)
  qed
qed

lemma sum_segment_None:
  assumes "\<not> hdr + unat len \<le> length m" and "hdr \<le> length m"
  shows "sum_segment m hdr len s = None"
proof (cases "hdr + 2 * (unat len div 2) \<le> length m")
  case True
  then have "odd (unat len)" and "unat len - 1 = 2 * (unat len div 2)" using assms by (auto elim: evenE)
  moreover have "\<not> hdr + (unat len - 1) < length m" using assms by linarith
  ultimately show ?thesis
    by (auto simp: sum_segment_def add_odd_byte_def and_1_odd bind_None_iff load_byte)
next
  case False
  then have "0 < unat len div 2" using assms(2) by (cases "unat len div 2") auto
  with False show ?thesis by (simp add: sum_segment_def add_words_None)
qed

section \<open>The routines\<close>

text \<open>The IPv4 header checksum covers \<open>sizeof(cpc_ipv4_hdr_t)\<close> bytes (no options) and folds once,
  into a 16-bit variable.\<close>

definition ipv4_calc_checksum :: "mem \<Rightarrow> nat \<Rightarrow> mem option" where
  "ipv4_calc_checksum m hdr = do {
     let datalen = sizeof cpc_ipv4_hdr;
     m \<leftarrow> store m (hdr + offset_of cpc_ipv4_hdr ''checksum'') (0 :: u16);
     s \<leftarrow> add_words m hdr (datalen div 2) 0;
     let res16 = (ucast (fold_step s) :: u16);
     store m (hdr + offset_of cpc_ipv4_hdr ''checksum'') (NOT res16) }"

definition icmpv4_calc_checksum :: "mem \<Rightarrow> nat \<Rightarrow> u16 \<Rightarrow> mem option" where
  "icmpv4_calc_checksum m hdr len = do {
     m \<leftarrow> store m (hdr + offset_of cpc_icmpv4_hdr ''checksum'') (0 :: u16);
     s \<leftarrow> add_words m hdr (unat len div 2) 0;
     let res16 = (ucast (fold_step s) :: u16);
     store m (hdr + offset_of cpc_icmpv4_hdr ''checksum'') (NOT res16) }"

text \<open>The pseudo headers. An IPv6 address is an array of 16 bytes.\<close>

definition add_ipv4_addr :: "u32 \<Rightarrow> u32 \<Rightarrow> u32" where
  "add_ipv4_addr ip s = s + ucast (ucast ip :: u16) + ucast (ucast (drop_bit 16 ip) :: u16)"

definition val :: "u128 \<Rightarrow> nat \<Rightarrow> u8" where
  "val a i = ucast (drop_bit (8 * i) a)"

definition add_ipv6_addr :: "u128 \<Rightarrow> u32 \<Rightarrow> u32" where
  "add_ipv6_addr ip s = fold (\<lambda>i s. s + (push_bit 0 (ucast (val ip (2 * i))) + push_bit 8 (ucast (val ip (2 * i + 1)))))
     [0..<8] s"

definition tcpv4_calc_checksum :: "rofl \<Rightarrow> mem \<Rightarrow> nat \<Rightarrow> u32 \<Rightarrow> u32 \<Rightarrow> u8 \<Rightarrow> u16 \<Rightarrow> mem option" where
  "tcpv4_calc_checksum K m hdr ip_src ip_dst ip_proto len = do {
     m \<leftarrow> store m (hdr + offset_of cpc_tcp_hdr ''checksum'') (0 :: u16);
     let s = 0;
     let s = add_ipv4_addr ip_src s;
     let s = add_ipv4_addr ip_dst s;
     let s = s + ucast (HTONB16 K (ucast ip_proto));
     let s = s + ucast (HTONB16 K len);
     s \<leftarrow> sum_segment m hdr len s;
     let s = do_fold s;
     store m (hdr + offset_of cpc_tcp_hdr ''checksum'') (ucast (NOT s) :: u16) }"

definition tcpv6_calc_checksum :: "rofl \<Rightarrow> mem \<Rightarrow> nat \<Rightarrow> u128 \<Rightarrow> u128 \<Rightarrow> u8 \<Rightarrow> u16 \<Rightarrow> mem option" where
  "tcpv6_calc_checksum K m hdr ip_src ip_dst ip_proto len = do {
     m \<leftarrow> store m (hdr + offset_of cpc_tcp_hdr ''checksum'') (0 :: u16);
     let s = 0;
     let s = add_ipv6_addr ip_src s;
     let s = add_ipv6_addr ip_dst s;
     let s = s + ucast (HTONB16 K (ucast ip_proto));
     let s = s + ucast (HTONB16 K len);
     s \<leftarrow> sum_segment m hdr len s;
     let s = do_fold s;
     store m (hdr + offset_of cpc_tcp_hdr ''checksum'') (ucast (NOT s) :: u16) }"

definition udpv4_calc_checksum :: "rofl \<Rightarrow> mem \<Rightarrow> nat \<Rightarrow> u32 \<Rightarrow> u32 \<Rightarrow> u8 \<Rightarrow> u16 \<Rightarrow> mem option" where
  "udpv4_calc_checksum K m hdr ip_src ip_dst ip_proto len = do {
     m \<leftarrow> store m (hdr + offset_of cpc_udp_hdr ''checksum'') (0 :: u16);
     let s = 0;
     let s = add_ipv4_addr ip_src s;
     let s = add_ipv4_addr ip_dst s;
     let s = s + ucast (HTONB16 K (ucast ip_proto));
     let s = s + ucast (HTONB16 K len);
     s \<leftarrow> sum_segment m hdr len s;
     let s = do_fold s;
     store m (hdr + offset_of cpc_udp_hdr ''checksum'') (ucast (NOT s) :: u16) }"

definition udpv6_calc_checksum :: "rofl \<Rightarrow> mem \<Rightarrow> nat \<Rightarrow> u128 \<Rightarrow> u128 \<Rightarrow> u8 \<Rightarrow> u16 \<Rightarrow> mem option" where
  "udpv6_calc_checksum K m hdr ip_src ip_dst ip_proto len = do {
     m \<leftarrow> store m (hdr + offset_of cpc_udp_hdr ''checksum'') (0 :: u16);
     let s = 0;
     let s = add_ipv6_addr ip_src s;
     let s = add_ipv6_addr ip_dst s;
     let s = s + ucast (HTONB16 K (ucast ip_proto));
     let s = s + ucast (HTONB16 K len);
     s \<leftarrow> sum_segment m hdr len s;
     let s = do_fold s;
     store m (hdr + offset_of cpc_udp_hdr ''checksum'') (ucast (NOT s) :: u16) }"

definition icmpv6_calc_checksum :: "rofl \<Rightarrow> mem \<Rightarrow> nat \<Rightarrow> u128 \<Rightarrow> u128 \<Rightarrow> u8 \<Rightarrow> u16 \<Rightarrow> mem option" where
  "icmpv6_calc_checksum K m hdr ip_src ip_dst ip_proto len = do {
     m \<leftarrow> store m (hdr + offset_of cpc_icmpv6_hdr ''checksum'') (0 :: u16);
     let s = 0;
     let s = add_ipv6_addr ip_src s;
     let s = add_ipv6_addr ip_dst s;
     let s = s + ucast (HTONB16 K (ucast ip_proto));
     let s = s + ucast (HTONB16 K len);
     s \<leftarrow> sum_segment m hdr len s;
     let s = do_fold s;
     store m (hdr + offset_of cpc_icmpv6_hdr ''checksum'') (ucast (NOT s) :: u16) }"

text \<open>GRE has no pseudo header; the addresses and the protocol are unused. The checksum is written
  to the third word whether or not the header has its checksum flag set.\<close>

definition grev4_calc_checksum :: "mem \<Rightarrow> nat \<Rightarrow> u32 \<Rightarrow> u32 \<Rightarrow> u8 \<Rightarrow> u16 \<Rightarrow> mem option" where
  "grev4_calc_checksum m hdr ip_src ip_dst ip_proto len = do {
     m \<leftarrow> store m (hdr + offset_of cpc_gre_hdr ''word2'') (0 :: u16);
     s \<leftarrow> sum_segment m hdr len 0;
     let s = do_fold s;
     store m (hdr + offset_of cpc_gre_hdr ''word2'') (ucast (NOT s) :: u16) }"

definition grev6_calc_checksum :: "mem \<Rightarrow> nat \<Rightarrow> u128 \<Rightarrow> u128 \<Rightarrow> u8 \<Rightarrow> u16 \<Rightarrow> mem option" where
  "grev6_calc_checksum m hdr ip_src ip_dst ip_proto len = do {
     m \<leftarrow> store m (hdr + offset_of cpc_gre_hdr ''word2'') (0 :: u16);
     s \<leftarrow> sum_segment m hdr len 0;
     let s = do_fold s;
     store m (hdr + offset_of cpc_gre_hdr ''word2'') (ucast (NOT s) :: u16) }"

section \<open>The contract of a transport checksum\<close>

text \<open>\<open>S\<close> is the pseudo header (a function of the length), \<open>start\<close> the value the routine has
  accumulated for it, \<open>off\<close> the position of the checksum in the header.\<close>

lemma take_drop_store:
  assumes st: "store m (hdr + off) (c :: u16) = Some m'" and len: "off + 2 \<le> n" and inside: "hdr + n \<le> length m"
  shows "take n (drop hdr m') =
           take off (drop hdr m) @ to_bytes c @ take (n - (off + 2)) (drop (hdr + off + 2) m)"
proof -
  have "m' = take (hdr + off) m @ to_bytes c @ drop (hdr + off + 2) m"
    using st by (simp add: store_def split: if_splits)
  moreover have "drop hdr (take (hdr + off) m) = take off (drop hdr m)"
    by (simp add: drop_take)
  moreover have "hdr - length (take (hdr + off) m) = 0" and "length (take off (drop hdr m)) = off"
    using assms by simp_all
  moreover obtain k where "n = off + (2 + k)" using len by (metis add.assoc le_Suc_ex)
  ultimately show ?thesis by (simp add: to_bytes_16)
qed

locale transport_checksum =
  fixes calc :: "mem \<Rightarrow> nat \<Rightarrow> u16 \<Rightarrow> mem option"
    and off :: nat
    and start :: "u16 \<Rightarrow> u32"
    and pseudo :: "u16 \<Rightarrow> u8 list"
  assumes calc: "calc m hdr len = do {
                   m \<leftarrow> store m (hdr + off) (0 :: u16);
                   s \<leftarrow> sum_segment m hdr len (start len);
                   store m (hdr + off) (ucast (NOT (do_fold s)) :: u16) }"
    and start: "start len = of_nat (le_sum (pseudo len))"
    and even_off: "even off"
    and even_pseudo: "even (length (pseudo len))"
    and pseudo_bound: "length (pseudo len) \<le> 60"
begin

text \<open>The bytes a checksum is computed over: the pseudo header and the segment with a zero checksum.\<close>

definition covered :: "mem \<Rightarrow> nat \<Rightarrow> u16 \<Rightarrow> u8 list" where
  "covered m hdr len = pseudo len @ take off (drop hdr m) @ [0, 0] @ take (unat len - (off + 2)) (drop (hdr + off + 2) m)"


lemma calc_Some:
  assumes len: "off + 2 \<le> unat len" and inside: "hdr + unat len \<le> length m"
  obtains c :: u16 and m' where "calc m hdr len = Some m'" and "store m (hdr + off) c = Some m'"
    and "c = ucast (NOT (while_fold (of_nat (le_sum (covered m hdr len)))))"
proof -
  obtain m1 where m1: "store m (hdr + off) (0 :: u16) = Some m1"
    using store_None_iff [of m "hdr + off" "0 :: u16"] assms by (cases "store m (hdr + off) (0 :: u16)") auto
  have l: "length m1 = length m" using m1 by (rule length_store)
  have seg: "take (unat len) (drop hdr m1) =
        take off (drop hdr m) @ [0, 0] @ take (unat len - (off + 2)) (drop (hdr + off + 2) m)"
    using take_drop_store [OF m1 len inside] by (simp add: to_bytes_16)
  let ?c = "ucast (NOT (while_fold (of_nat (le_sum (covered m hdr len))))) :: u16"
  have "sum_segment m1 hdr len (start len) = Some (of_nat (le_sum (covered m hdr len)))"
    unfolding sum_segment_Some [OF inside [folded l]] seg
    by (simp add: start covered_def le_sum_append even_pseudo)
  then have calc_c: "calc m hdr len = store m1 (hdr + off) ?c"
    by (simp add: calc m1 do_fold_eq_while_fold)
  moreover have "store m1 (hdr + off) ?c = store m (hdr + off) ?c"
    using m1 by (rule acc16.st_st)
  moreover obtain m' where "store m (hdr + off) ?c = Some m'"
    using store_None_iff [of m "hdr + off" ?c] assms by (cases "store m (hdr + off) ?c") auto
  ultimately show ?thesis using that [of m' ?c] by simp
qed

lemma covered_less:
  assumes "off + 2 \<le> unat len"
  shows "le_sum (covered m hdr len) < 2 ^ 32"
proof -
  have "unat len < 65536" using unsigned_less [of len] by simp
  then have "length (covered m hdr len) \<le> 65600"
    using pseudo_bound [of len] assms by (simp add: covered_def)
  then have "(length (covered m hdr len) + 1) div 2 \<le> 32800" by simp
  then show ?thesis using le_sum_bound [of "covered m hdr len"] by simp
qed

text \<open>The receiver accepts the packet.\<close>

lemma valid:
  assumes len: "off + 2 \<le> unat len" and inside: "hdr + unat len \<le> length m"
  shows "\<exists>m'. calc m hdr len = Some m' \<and> internet_valid (pseudo len @ take (unat len) (drop hdr m')) \<and>
    same_outside (hdr + off) 2 m m'"
proof -
  obtain c :: u16 and m' where c: "calc m hdr len = Some m'" "store m (hdr + off) c = Some m'"
    and c_def: "c = ucast (NOT (while_fold (of_nat (le_sum (covered m hdr len)))))"
    using calc_Some [OF assms] by metis
  let ?n = "le_sum (covered m hdr len)"
  have n: "unat (of_nat ?n :: u32) = ?n"
    using covered_less [OF len, of m hdr] by (simp add: unsigned_of_nat take_bit_nat_eq_self)
  have "even (length (take off (drop hdr m)))" using len inside even_off by simp
  then have "le_sum (pseudo len @ take (unat len) (drop hdr m')) = ?n + unat c"
    unfolding take_drop_store [OF c(2) len inside]
    by (simp add: covered_def le_sum_append even_pseudo)
  also have "\<dots> = ?n + (65535 - unat (while_fold (of_nat ?n)))"
    by (simp add: c_def unat_not_fold)
  finally have total: "le_sum (pseudo len @ take (unat len) (drop hdr m')) =
    ?n + (65535 - unat (while_fold (of_nat ?n)))" .
  have "0 < ?n + (65535 - unat (while_fold (of_nat ?n))) \<and>
        (?n + (65535 - unat (while_fold (of_nat ?n)))) mod 65535 = 0"
    using complement_completes [of "of_nat ?n"] n by simp
  then show ?thesis using c(1) total store_same_outside [OF c(2)] by (auto simp: internet_valid_le)
qed

lemma undefined:
  assumes "length m < hdr + off + 2 \<or> hdr + off + 2 \<le> length m \<and> length m < hdr + unat len"
  shows "calc m hdr len = None"
proof (cases "store m (hdr + off) (0 :: u16)")
  case None
  then show ?thesis by (simp add: calc)
next
  case (Some m1)
  then have "length m1 = length m" and "hdr + off + 2 \<le> length m"
    using length_store [OF Some] store_None_iff [of m "hdr + off" "0 :: u16"] by auto
  then show ?thesis
    using assms sum_segment_None [of hdr len m1 "start len"] by (simp add: calc Some)
qed

text \<open>Nothing but the checksum changes.\<close>

lemma frame:
  assumes "calc m hdr len = Some m'"
  shows "length m' = length m \<and> (\<forall>i < length m. i \<noteq> hdr + off \<longrightarrow> i \<noteq> hdr + off + 1 \<longrightarrow> m' ! i = m ! i)"
proof -
  obtain m1 and c :: u16 where st: "store m (hdr + off) (0 :: u16) = Some m1" "store m1 (hdr + off) c = Some m'"
    using assms by (auto simp: calc bind_Some_iff)
  have "m' ! i = m ! i" if "i < length m" and "i \<noteq> hdr + off" and "i \<noteq> hdr + off + 1" for i
  proof -
    have "i < hdr + off \<or> hdr + off + 2 \<le> i" using that by linarith
    then show ?thesis
      using acc16.st_outside [OF st(1)] acc16.st_outside [OF st(2)] length_store [OF st(1)] that(1) by metis
  qed
  then show ?thesis using length_store [OF st(1)] length_store [OF st(2)] by simp
qed

end

section \<open>The contract on the transport protocols\<close>

text \<open>The pseudo headers as the code adds them up, and as they are defined for the wire.\<close>

definition pseudo4 :: "rofl \<Rightarrow> u32 \<Rightarrow> u32 \<Rightarrow> u8 \<Rightarrow> u16 \<Rightarrow> u8 list" where
  "pseudo4 K src dst proto len =
     to_bytes src @ to_bytes dst @ to_bytes (HTONB16 K (ucast proto)) @ to_bytes (HTONB16 K len)"

definition pseudo6 :: "rofl \<Rightarrow> u128 \<Rightarrow> u128 \<Rightarrow> u8 \<Rightarrow> u16 \<Rightarrow> u8 list" where
  "pseudo6 K src dst proto len =
     to_bytes src @ to_bytes dst @ [0, 0] @ to_bytes (HTONB16 K len) @ [0, 0] @ to_bytes (HTONB16 K (ucast proto))"

definition be16 :: "u16 \<Rightarrow> u8 list" where
  "be16 w = [ucast (drop_bit 8 w), ucast w]"

definition pseudo_header4 :: "u32 \<Rightarrow> u32 \<Rightarrow> u8 \<Rightarrow> u16 \<Rightarrow> u8 list" where
  "pseudo_header4 src dst proto len = to_bytes src @ to_bytes dst @ [0, proto] @ be16 len"

definition pseudo_header6 :: "u128 \<Rightarrow> u128 \<Rightarrow> u8 \<Rightarrow> u16 \<Rightarrow> u8 list" where
  "pseudo_header6 src dst proto len = to_bytes src @ to_bytes dst @ [0, 0] @ be16 len @ [0, 0, 0, proto]"

lemma to_bytes_bswap16: "to_bytes (bswap16 w) = be16 w"
  by (auto simp: to_bytes_16 be16_def intro!: bit_word_eqI simp: bit_simps bit_bswap16 add.commute [of 8])

lemma be16_proto: "be16 (ucast (proto :: u8)) = [0, proto]"
proof -
  have "\<not> bit proto (8 + n)" for n using bit_imp_le_length [of proto "8 + n"] by auto
  then show ?thesis by (auto simp: be16_def intro!: bit_word_eqI simp: bit_simps)
qed

lemma pseudo_header:
  assumes "le_host K"
  shows "pseudo4 K src4 dst4 proto len = pseudo_header4 src4 dst4 proto len"
    and "pseudo6 K src6 dst6 proto len = pseudo_header6 src6 dst6 proto len"
  using assms by (simp_all add: pseudo4_def pseudo6_def pseudo_header4_def pseudo_header6_def
      le_host_def to_bytes_bswap16 be16_proto)

lemma to_bytes_32: "to_bytes (w :: u32) = to_bytes (ucast w :: u16) @ to_bytes (ucast (drop_bit 16 w) :: u16)"
proof -
  have "to_bytes w = [ucast w, ucast (drop_bit 8 w), ucast (drop_bit 16 w), ucast (drop_bit 24 w)]"
    by (simp add: to_bytes_def upt_rec)
  moreover have "ucast (ucast w :: u16) = (ucast w :: u8)"
      and "ucast (drop_bit 8 (ucast w :: u16)) = (ucast (drop_bit 8 w) :: u8)"
      and "ucast (ucast (drop_bit 16 w) :: u16) = (ucast (drop_bit 16 w) :: u8)"
      and "ucast (drop_bit 8 (ucast (drop_bit 16 w) :: u16)) = (ucast (drop_bit 24 w) :: u8)"
    by (auto intro!: bit_word_eqI simp: bit_simps)
  ultimately show ?thesis by (simp add: to_bytes_16)
qed

lemma add_ipv4_addr: "add_ipv4_addr ip s = s + of_nat (le_sum (to_bytes ip))"
  by (simp add: add_ipv4_addr_def to_bytes_32 le_sum_append)

lemma to_bytes_128: "to_bytes (w :: u128) = concat (map (\<lambda>i. [val w (2 * i), val w (2 * i + 1)]) [0..<8])"
proof -
  have "[0..<16] = concat (map (\<lambda>i. [2 * i, 2 * i + 1]) [0..<8])"
    by (simp add: upt_rec)
  then show ?thesis
    by (simp add: to_bytes_def val_def map_concat o_def)
qed

lemma le_sum_concat_pairs:
  "le_sum (concat (map (\<lambda>i. [f i, g i]) is)) = (\<Sum>i\<leftarrow>is. unat (f i) + 256 * unat (g i))"
  by (induction "is") auto

lemma fold_add_eq: "fold (\<lambda>i s. s + F i) is s = s + (\<Sum>i\<leftarrow>is. F i)" for s :: "'a::comm_monoid_add"
  by (induction "is" arbitrary: s) (auto simp: add.assoc)

lemma of_nat_sum_list': "(\<Sum>i\<leftarrow>is. of_nat (F i)) = of_nat (\<Sum>i\<leftarrow>is. F i)"
  by (induction "is") auto

lemma add_ipv6_addr: "add_ipv6_addr ip s = s + of_nat (le_sum (to_bytes ip))"
proof -
  have pair: "push_bit 0 (ucast a) + push_bit 8 (ucast b) = (of_nat (unat a + 256 * unat b) :: u32)"
    for a b :: u8
    by (simp add: push_bit_eq_mult unsigned_of_nat)
  show ?thesis
    unfolding add_ipv6_addr_def fold_add_eq to_bytes_128 le_sum_concat_pairs pair
    by (simp only: of_nat_sum_list')
qed

lemmas pseudo_sums =
  add_ipv4_addr add_ipv6_addr pseudo4_def pseudo6_def le_sum_append

interpretation tcpv4: transport_checksum "\<lambda>m hdr len. tcpv4_calc_checksum K m hdr src dst proto len" 16
  "\<lambda>len. add_ipv4_addr dst (add_ipv4_addr src 0) + ucast (HTONB16 K (ucast proto)) + ucast (HTONB16 K len)"
  "pseudo4 K src dst proto" for K src dst proto
  by unfold_locales (simp_all add: tcpv4_calc_checksum_def layout pseudo_sums)

interpretation tcpv6: transport_checksum "\<lambda>m hdr len. tcpv6_calc_checksum K m hdr src dst proto len" 16
  "\<lambda>len. add_ipv6_addr dst (add_ipv6_addr src 0) + ucast (HTONB16 K (ucast proto)) + ucast (HTONB16 K len)"
  "pseudo6 K src dst proto" for K src dst proto
  by unfold_locales (simp_all add: tcpv6_calc_checksum_def layout pseudo_sums)

interpretation udpv4: transport_checksum "\<lambda>m hdr len. udpv4_calc_checksum K m hdr src dst proto len" 6
  "\<lambda>len. add_ipv4_addr dst (add_ipv4_addr src 0) + ucast (HTONB16 K (ucast proto)) + ucast (HTONB16 K len)"
  "pseudo4 K src dst proto" for K src dst proto
  by unfold_locales (simp_all add: udpv4_calc_checksum_def layout pseudo_sums)

interpretation udpv6: transport_checksum "\<lambda>m hdr len. udpv6_calc_checksum K m hdr src dst proto len" 6
  "\<lambda>len. add_ipv6_addr dst (add_ipv6_addr src 0) + ucast (HTONB16 K (ucast proto)) + ucast (HTONB16 K len)"
  "pseudo6 K src dst proto" for K src dst proto
  by unfold_locales (simp_all add: udpv6_calc_checksum_def layout pseudo_sums)

interpretation icmpv6: transport_checksum "\<lambda>m hdr len. icmpv6_calc_checksum K m hdr src dst proto len" 2
  "\<lambda>len. add_ipv6_addr dst (add_ipv6_addr src 0) + ucast (HTONB16 K (ucast proto)) + ucast (HTONB16 K len)"
  "pseudo6 K src dst proto" for K src dst proto
  by unfold_locales (simp_all add: icmpv6_calc_checksum_def layout pseudo_sums)

interpretation grev4: transport_checksum "\<lambda>m hdr len. grev4_calc_checksum m hdr src dst proto len" 4
  "\<lambda>len. 0" "\<lambda>len. []" for src dst proto
  by unfold_locales (simp_all add: grev4_calc_checksum_def layout)

interpretation grev6: transport_checksum "\<lambda>m hdr len. grev6_calc_checksum m hdr src dst proto len" 4
  "\<lambda>len. 0" "\<lambda>len. []" for src dst proto
  by unfold_locales (simp_all add: grev6_calc_checksum_def layout)

section \<open>RFC 1071 reference routines\<close>

text \<open>The reference implementation of RFC 1071 in its two variants: words read in host order
  (little-endian) with the result swapped at the end, and words read in network order.\<close>

function rfc1071_loop_hbo :: "mem \<Rightarrow> nat \<Rightarrow> nat \<Rightarrow> u32 \<Rightarrow> u32 option" where
  "rfc1071_loop_hbo m buf buflen s =
     (if buflen > 1 then do {
        b1 \<leftarrow> load m (buf + 1);
        b0 \<leftarrow> load m buf;
        let word16 = (push_bit 8 (ucast (b1 :: u8)) + ucast (b0 :: u8) :: u16);
        rfc1071_loop_hbo m (buf + 2) (buflen - 2) (s + ucast word16) }
      else if buflen > 0 then do {
        b0 \<leftarrow> load m buf;
        let word16 = (ucast (b0 :: u8) :: u16);
        Some (s + ucast word16) }
      else Some s)"
  by auto
termination by (relation "measure (\<lambda>(m, buf, buflen, s). buflen)") auto

function rfc1071_loop_nbo :: "mem \<Rightarrow> nat \<Rightarrow> nat \<Rightarrow> u32 \<Rightarrow> u32 option" where
  "rfc1071_loop_nbo m buf buflen s =
     (if buflen > 1 then do {
        b0 \<leftarrow> load m buf;
        b1 \<leftarrow> load m (buf + 1);
        let word16 = (push_bit 8 (ucast (b0 :: u8)) + ucast (b1 :: u8) :: u16);
        rfc1071_loop_nbo m (buf + 2) (buflen - 2) (s + ucast word16) }
      else if buflen > 0 then do {
        b0 \<leftarrow> load m buf;
        let word16 = (push_bit 8 (ucast (b0 :: u8)) :: u16);
        Some (s + ucast word16) }
      else Some s)"
  by auto
termination by (relation "measure (\<lambda>(m, buf, buflen, s). buflen)") auto

declare rfc1071_loop_hbo.simps [simp del] rfc1071_loop_nbo.simps [simp del]

definition ietf_rfc1071_checksum_hbo :: "rofl \<Rightarrow> mem \<Rightarrow> nat \<Rightarrow> nat \<Rightarrow> u16 option" where
  "ietf_rfc1071_checksum_hbo K m buf buflen = do {
     s \<leftarrow> rfc1071_loop_hbo m buf buflen 0;
     let s = while_fold s;
     let checksum = (ucast (NOT s) :: u16);
     Some (HTONB16 K checksum) }"

definition ietf_rfc1071_checksum_nbo :: "mem \<Rightarrow> nat \<Rightarrow> nat \<Rightarrow> u16 option" where
  "ietf_rfc1071_checksum_nbo m buf buflen = do {
     s \<leftarrow> rfc1071_loop_nbo m buf buflen 0;
     let s = while_fold s;
     let checksum = (ucast (NOT s) :: u16);
     Some checksum }"

lemma take_drop_two:
  assumes "buf + n \<le> length m" and "1 < n"
  shows "take n (drop buf m) = m ! buf # m ! (buf + 1) # take (n - 2) (drop (buf + 2) m)"
proof -
  obtain k where n: "n = Suc (Suc k)"
    using assms(2) by (cases n rule: nat.exhaust; cases "n - 1") auto
  have "drop buf m = m ! buf # m ! Suc buf # drop (Suc (Suc buf)) m"
    using assms n by (simp add: Cons_nth_drop_Suc)
  then show ?thesis using n by simp
qed

lemma be_word16: "ucast (push_bit 8 (ucast (a :: u8)) + ucast (b :: u8) :: u16) = (256 * ucast a + ucast b :: u32)"
proof -
  have u: "unat (ucast a :: u16) = unat a" "unat (ucast b :: u16) = unat b"
    and u': "unat (ucast a :: u32) = unat a" "unat (ucast b :: u32) = unat b"
    using unat_u8_less [of a] unat_u8_less [of b]
    by (simp_all add: unsigned_ucast_eq take_bit_nat_eq_self)
  have "unat (push_bit 8 (ucast a) + ucast b :: u16) = 256 * unat a + unat b"
    using unat_u8_less [of a] unat_u8_less [of b]
    by (simp add: push_bit_eq_mult unat_word_ariths u)
  moreover have "unat (256 * ucast a + ucast b :: u32) = 256 * unat a + unat b"
    using unat_u8_less [of a] unat_u8_less [of b]
    by (simp add: unat_word_ariths u')
  ultimately show ?thesis
    using unat_u8_less [of a] unat_u8_less [of b]
    by (simp add: word_unat_eq_iff unsigned_ucast_eq take_bit_nat_eq_self)
qed

lemma rfc1071_loop_hbo_Some:
  "buf + n \<le> length m \<Longrightarrow> rfc1071_loop_hbo m buf n s = Some (s + of_nat (le_sum (take n (drop buf m))))"
proof (induction n arbitrary: buf s rule: less_induct)
  case (less n)
  consider "1 < n" | "n = 1" | "n = 0" by linarith
  then show ?case
  proof cases
    case 1
    let ?s = "s + (256 * ucast (m ! Suc buf) + ucast (m ! buf))"
    have "rfc1071_loop_hbo m buf n s = rfc1071_loop_hbo m (buf + 2) (n - 2) ?s"
      using 1 less.prems be_word16 [of "m ! Suc buf" "m ! buf"]
      by (simp add: rfc1071_loop_hbo.simps [of m buf n] load_byte)
    also have "\<dots> = Some (?s + of_nat (le_sum (take (n - 2) (drop (buf + 2) m))))"
      by (rule less.IH) (use 1 less.prems in auto)
    finally show ?thesis
      using 1 less.prems by (simp add: take_drop_two add_ac)
  next
    case 2
    then show ?thesis
      using less.prems be_word16 [of 0 "m ! buf"]
      by (simp add: rfc1071_loop_hbo.simps [of m buf "Suc 0"] load_byte take_Suc_conv_app_nth
          Cons_nth_drop_Suc [symmetric])
  qed (simp add: rfc1071_loop_hbo.simps [of m buf 0])
qed

lemma rfc1071_loop_nbo_Some:
  "buf + n \<le> length m \<Longrightarrow> rfc1071_loop_nbo m buf n s = Some (s + of_nat (be_sum (take n (drop buf m))))"
proof (induction n arbitrary: buf s rule: less_induct)
  case (less n)
  consider "1 < n" | "n = 1" | "n = 0" by linarith
  then show ?case
  proof cases
    case 1
    let ?s = "s + (256 * ucast (m ! buf) + ucast (m ! Suc buf))"
    have "rfc1071_loop_nbo m buf n s = rfc1071_loop_nbo m (buf + 2) (n - 2) ?s"
      using 1 less.prems be_word16 [of "m ! buf" "m ! Suc buf"]
      by (simp add: rfc1071_loop_nbo.simps [of m buf n] load_byte)
    also have "\<dots> = Some (?s + of_nat (be_sum (take (n - 2) (drop (buf + 2) m))))"
      by (rule less.IH) (use 1 less.prems in auto)
    finally show ?thesis
      using 1 less.prems by (simp add: take_drop_two add_ac)
  next
    case 2
    then show ?thesis
      using less.prems be_word16 [of "m ! buf" 0]
      by (simp add: rfc1071_loop_nbo.simps [of m buf "Suc 0"] load_byte take_Suc_conv_app_nth
          Cons_nth_drop_Suc [symmetric])
  qed (simp add: rfc1071_loop_nbo.simps [of m buf 0])
qed

text \<open>Folding the little-endian sum and swapping is folding the big-endian sum.\<close>

lemma fold_unique:
  fixes x y :: nat
  assumes "x < 65536" and "y < 65536" and "x mod 65535 = y mod 65535" and "x = 0 \<longleftrightarrow> y = 0"
  shows "x = y"
proof -
  have "z mod 65535 = (if z = 65535 then 0 else z)" if "z < 65536" for z :: nat
    using that by simp
  then show ?thesis using assms by (metis assms(3))
qed

lemma unat_bswap16: "unat (bswap16 w) = 256 * (unat w mod 256) + unat w div 256"
proof -
  have "unat (bswap16 w) = le_sum (to_bytes (bswap16 w))" by simp
  also have "\<dots> = unat (ucast (drop_bit 8 w) :: u8) + 256 * unat (ucast w :: u8)"
    by (simp add: to_bytes_bswap16 be16_def)
  also have "\<dots> = unat w div 256 mod 256 + 256 * (unat w mod 256)"
    by (simp add: unsigned_ucast_eq take_bit_eq_mod drop_bit_eq_div unat_div_distrib unat_mod_distrib)
  also have "unat w div 256 mod 256 = unat w div 256"
    using unsigned_less [of w, where 'a = nat] by simp
  finally show ?thesis by simp
qed

lemma complement_bytes:
  fixes l :: nat
  assumes "l < 65536"
  shows "(65535 - l) mod 256 = 255 - l mod 256" and "(65535 - l) div 256 = 255 - l div 256"
proof -
  have q: "l div 256 \<le> 255" using assms by simp
  define r where "r = 255 - l mod 256"
  have "65535 - l = r + 256 * (255 - l div 256)" and "r < 256"
    using div_mult_mod_eq [of l 256] q by (simp_all add: algebra_simps r_def)
  then have "(65535 - l) mod 256 = r" and "(65535 - l) div 256 = 255 - l div 256"
    by simp_all
  then show "(65535 - l) mod 256 = 255 - l mod 256" and "(65535 - l) div 256 = 255 - l div 256"
    by (simp_all add: r_def)
qed

lemma bswap16_fold:
  assumes "le_sum bs < 2 ^ 32" and "be_sum bs < 2 ^ 32"
  shows "bswap16 (ucast (NOT (while_fold (of_nat (le_sum bs)))) :: u16) =
         ucast (NOT (while_fold (of_nat (be_sum bs))))"
proof -
  define l b where "l = unat (while_fold (of_nat (le_sum bs)))" and "b = unat (while_fold (of_nat (be_sum bs)))"
  have l: "l < 65536" "l mod 65535 = le_sum bs mod 65535" "l = 0 \<longleftrightarrow> le_sum bs = 0"
    using while_fold_spec [of "of_nat (le_sum bs)"] assms
    by (simp_all add: l_def unsigned_of_nat take_bit_nat_eq_self)
  have b: "b < 65536" "b mod 65535 = be_sum bs mod 65535" "b = 0 \<longleftrightarrow> be_sum bs = 0"
    using while_fold_spec [of "of_nat (be_sum bs)"] assms
    by (simp_all add: b_def unsigned_of_nat take_bit_nat_eq_self)
  let ?s = "256 * (l mod 256) + l div 256"
  have "?s < 65536" using l(1) by (simp add: less_mult_imp_div_less add_less_mono)
  moreover have "256 * l = ?s + 65535 * (l div 256)"
    using div_mult_mod_eq [of l 256] by linarith
  then have "?s mod 65535 = 256 * l mod 65535" by (metis mod_mult_self2)
  then have "?s mod 65535 = b mod 65535"
    using be_sum_le_sum_mod [of bs] l(2) b(2) by (metis mod_mult_right_eq)
  moreover have "?s = 0 \<longleftrightarrow> l = 0"
  proof
    assume "?s = 0"
    then have "l mod 256 = 0" and "l div 256 = 0" by linarith+
    then show "l = 0" using div_mult_mod_eq [of l 256] by linarith
  qed simp
  then have "?s = 0 \<longleftrightarrow> b = 0" by (simp only: l(3) b(3) be_sum_zero_iff)
  ultimately have sb: "?s = b" by (rule fold_unique [OF _ b(1)])
  have "unat (bswap16 (ucast (NOT (while_fold (of_nat (le_sum bs)))))) = 65535 - ?s"
  proof -
    have "(65535 - l) mod 256 = 255 - l mod 256" and "(65535 - l) div 256 = 255 - l div 256"
      using l(1) by (auto intro: complement_bytes)
    moreover have "l mod 256 \<le> 255" and "l div 256 \<le> 255" using l(1) by simp_all
    moreover have "256 * (255 - x) + (255 - y) = 65535 - (256 * x + y)" if "x \<le> 255" and "y \<le> 255" for x y :: nat
      using that by linarith
    ultimately show ?thesis by (simp add: unat_bswap16 unat_not_fold l_def [symmetric])
  qed
  then show ?thesis by (simp add: word_unat_eq_iff unat_not_fold b_def [symmetric] sb)
qed

lemma rfc1071_values:
  assumes "buf + n \<le> length m" and "n \<le> 131072"
  shows "ietf_rfc1071_checksum_nbo m buf n = Some (ucast (NOT (while_fold (of_nat (be_sum (take n (drop buf m)))))))"
    and "le_host K \<Longrightarrow> ietf_rfc1071_checksum_hbo K m buf n =
         Some (ucast (NOT (while_fold (of_nat (be_sum (take n (drop buf m)))))))"
proof -
  let ?bs = "take n (drop buf m)"
  have "(length ?bs + 1) div 2 \<le> 65536" using assms by simp
  then have "le_sum ?bs < 2 ^ 32" and "be_sum ?bs < 2 ^ 32"
    using le_sum_bound [of ?bs] be_sum_bound [of ?bs] by simp_all
  then show "le_host K \<Longrightarrow> ietf_rfc1071_checksum_hbo K m buf n =
      Some (ucast (NOT (while_fold (of_nat (be_sum ?bs)))))"
    using bswap16_fold [of ?bs] rfc1071_loop_hbo_Some [OF assms(1)]
    by (simp add: ietf_rfc1071_checksum_hbo_def le_host_def)
  show "ietf_rfc1071_checksum_nbo m buf n = Some (ucast (NOT (while_fold (of_nat (be_sum ?bs)))))"
    using rfc1071_loop_nbo_Some [OF assms(1)]
    by (simp add: ietf_rfc1071_checksum_nbo_def)
qed

section \<open>Properties of the Internet checksums\<close>

text \<open>On a little-endian host the two routines agree on every readable buffer of at most 128 KiB.\<close>

lemma rfc1071_routines_agree:
  assumes "le_host K" and "buf + n \<le> length m" and "n \<le> 131072"
  shows "\<exists>c. ietf_rfc1071_checksum_hbo K m buf n = Some c \<and> ietf_rfc1071_checksum_nbo m buf n = Some c"
  using rfc1071_values [OF assms(2,3)] assms(1) by blast

text \<open>C2: The TCP and UDP checksums over IPv4 terminate with a value for every segment that lies in the
  buffer and contains its checksum field, the receiver's test on pseudo header and segment succeeds
  on the result, and no byte of the buffer but those of the checksum field has changed.\<close>
theorem tcp_udp_over_ipv4_valid:
  assumes "le_host K" and "hdr + unat len \<le> length m"
  shows "(18 \<le> unat len \<longrightarrow> (\<exists>m'. tcpv4_calc_checksum K m hdr src dst proto len = Some m' \<and>
           internet_valid (pseudo_header4 src dst proto len @ take (unat len) (drop hdr m')) \<and>
           same_outside (hdr + 16) 2 m m')) \<and>
         (8 \<le> unat len \<longrightarrow> (\<exists>m'. udpv4_calc_checksum K m hdr src dst proto len = Some m' \<and>
           internet_valid (pseudo_header4 src dst proto len @ take (unat len) (drop hdr m')) \<and>
           same_outside (hdr + 6) 2 m m'))"
  using tcpv4.valid [of len hdr m K src dst proto] udpv4.valid [of len hdr m K src dst proto] assms
  by (simp_all add: pseudo_header)

theorem tcp_udp_over_ipv4_valid_witness:
  "(\<exists>m'. tcpv4_calc_checksum std_rofl (replicate 40 7) 10 0x0100000A 0x0200000A 6 25 = Some m' \<and>
      internet_valid (pseudo_header4 0x0100000A 0x0200000A 6 25 @ take 25 (drop 10 m')) \<and> same_outside 26 2 (replicate 40 7) m') \<and>
   (\<exists>m'. udpv4_calc_checksum std_rofl (replicate 40 7) 10 0x0100000A 0x0200000A 17 9 = Some m' \<and>
      internet_valid (pseudo_header4 0x0100000A 0x0200000A 17 9 @ take 9 (drop 10 m')) \<and> same_outside 16 2 (replicate 40 7) m')"
  using tcp_udp_over_ipv4_valid [of std_rofl 10 25 "replicate 40 7" "0x0100000A" "0x0200000A" 6]
    tcp_udp_over_ipv4_valid [of std_rofl 10 9 "replicate 40 7" "0x0100000A" "0x0200000A" 17]
  by (simp add: std_rofl_le_host)

text \<open>C3: The same for TCP, UDP and ICMPv6 over IPv6: the receiver's test succeeds, and nothing but the checksum field changes.\<close>
theorem tcp_udp_icmp_over_ipv6_valid:
  assumes "le_host K" and "hdr + unat len \<le> length m"
  shows "(18 \<le> unat len \<longrightarrow> (\<exists>m'. tcpv6_calc_checksum K m hdr src dst proto len = Some m' \<and>
           internet_valid (pseudo_header6 src dst proto len @ take (unat len) (drop hdr m')) \<and>
           same_outside (hdr + 16) 2 m m')) \<and>
         (8 \<le> unat len \<longrightarrow> (\<exists>m'. udpv6_calc_checksum K m hdr src dst proto len = Some m' \<and>
           internet_valid (pseudo_header6 src dst proto len @ take (unat len) (drop hdr m')) \<and>
           same_outside (hdr + 6) 2 m m')) \<and>
         (4 \<le> unat len \<longrightarrow> (\<exists>m'. icmpv6_calc_checksum K m hdr src dst proto len = Some m' \<and>
           internet_valid (pseudo_header6 src dst proto len @ take (unat len) (drop hdr m')) \<and>
           same_outside (hdr + 2) 2 m m'))"
  using tcpv6.valid [of len hdr m K src dst proto] udpv6.valid [of len hdr m K src dst proto]
    icmpv6.valid [of len hdr m K src dst proto] assms
  by (simp_all add: pseudo_header)

theorem tcp_udp_icmp_over_ipv6_valid_witness:
  "(\<exists>m'. tcpv6_calc_checksum std_rofl (replicate 40 7) 10 5 9 6 25 = Some m' \<and>
      internet_valid (pseudo_header6 5 9 6 25 @ take 25 (drop 10 m')) \<and> same_outside 26 2 (replicate 40 7) m') \<and>
   (\<exists>m'. udpv6_calc_checksum std_rofl (replicate 40 7) 10 5 9 17 9 = Some m' \<and>
      internet_valid (pseudo_header6 5 9 17 9 @ take 9 (drop 10 m')) \<and> same_outside 16 2 (replicate 40 7) m') \<and>
   (\<exists>m'. icmpv6_calc_checksum std_rofl (replicate 40 7) 10 5 9 58 4 = Some m' \<and>
      internet_valid (pseudo_header6 5 9 58 4 @ take 4 (drop 10 m')) \<and> same_outside 12 2 (replicate 40 7) m')"
  using tcp_udp_icmp_over_ipv6_valid [of std_rofl 10 25 "replicate 40 7" 5 9 6]
    tcp_udp_icmp_over_ipv6_valid [of std_rofl 10 9 "replicate 40 7" 5 9 17]
    tcp_udp_icmp_over_ipv6_valid [of std_rofl 10 4 "replicate 40 7" 5 9 58]
  by (simp add: std_rofl_le_host)

text \<open>\<open>tcpv4_calc_checksum\<close> computes what the RFC 1071 reference routine of the same file computes
  on the pseudo header followed by the segment with a zero checksum: the value it stores, read in
  network order, is the reference's result (the check of the repository's unit test, for all inputs).\<close>
lemma tcpv4_matches_rfc1071:
  assumes "le_host K" and "hdr + unat len \<le> length m" and "18 \<le> unat len"
    and "flat = pseudo_header4 src dst proto len @ take 16 (drop hdr m) @ [0, 0] @
                take (unat len - 18) (drop (hdr + 18) m)"
  shows "\<exists>m' c. tcpv4_calc_checksum K m hdr src dst proto len = Some m' \<and>
           load m' (hdr + offset_of cpc_tcp_hdr ''checksum'') = Some c \<and>
           ietf_rfc1071_checksum_nbo flat 0 (length flat) = Some (be16toh c)"
proof -
  obtain c :: u16 and m' where c: "tcpv4_calc_checksum K m hdr src dst proto len = Some m'"
    "store m (hdr + 16) c = Some m'"
    "c = ucast (NOT (while_fold (of_nat (le_sum (tcpv4.covered K src dst proto m hdr len)))))"
    by (rule tcpv4.calc_Some [of len hdr m K src dst proto]) (use assms(2,3) in auto)
  have flat: "tcpv4.covered K src dst proto m hdr len = flat"
    by (simp add: tcpv4.covered_def pseudo_header [OF assms(1)] assms(4) add.commute)
  have "unat len < 65536" using unsigned_less [of len, where 'a = nat] by simp
  then have n: "length flat \<le> 131072" "(length flat + 1) div 2 \<le> 65536"
    by (simp_all add: assms(4) pseudo_header4_def be16_def)
  then have "le_sum flat < 2 ^ 32" and "be_sum flat < 2 ^ 32"
    using le_sum_bound [of flat] be_sum_bound [of flat] by simp_all
  then have "ietf_rfc1071_checksum_nbo flat 0 (length flat) = Some (be16toh c)"
    using rfc1071_values(1) [of 0 "length flat" flat] n(1) bswap16_fold [of flat]
    by (simp add: c(3) flat be16toh_def)
  then show ?thesis
    using c(1) acc16.ld_st [OF c(2)] by (simp add: layout)
qed

text \<open>The GRE checksums make the GRE header and its payload valid; there is no pseudo header.\<close>
lemma gre_checksums_valid:
  assumes "hdr + unat len \<le> length m" and "6 \<le> unat len"
  shows "(\<exists>m'. grev4_calc_checksum m hdr src4 dst4 proto len = Some m' \<and>
           internet_valid (take (unat len) (drop hdr m'))) \<and>
         (\<exists>m'. grev6_calc_checksum m hdr src6 dst6 proto len = Some m' \<and>
           internet_valid (take (unat len) (drop hdr m')))"
  using grev4.valid [of len hdr m src4 dst4 proto] grev6.valid [of len hdr m src6 dst6 proto] assms
  by auto

section \<open>The single fold of IPv4 and ICMPv4\<close>

lemma single_fold:
  assumes "off + 2 \<le> 2 * n" and "even off" and "hdr + 2 * n \<le> length m" and "n \<le> 32767"
    and "S = le_sum (take off (drop hdr m) @ [0, 0] @ take (2 * n - (off + 2)) (drop (hdr + off + 2) m))"
    and "calc = do { m \<leftarrow> store m (hdr + off) (0 :: u16); s \<leftarrow> add_words m hdr n 0;
                     let res16 = (ucast (fold_step s) :: u16); store m (hdr + off) (NOT res16) }"
  shows "S < 2 ^ 32 \<and> (\<exists>m' c. calc = Some m' \<and> store m (hdr + off) (c :: u16) = Some m' \<and>
           le_sum (take (2 * n) (drop hdr m')) = S + unat c \<and>
           unat c = 65535 - (S mod 65536 + S div 65536) mod 65536)"
proof -
  obtain m1 where m1: "store m (hdr + off) (0 :: u16) = Some m1"
    using store_None_iff [of m "hdr + off" "0 :: u16"] assms by (cases "store m (hdr + off) (0 :: u16)") auto
  let ?l = "take off (drop hdr m)" and ?r = "take (2 * n - (off + 2)) (drop (hdr + off + 2) m)"
  have even_l: "even (length ?l)" using assms(1-3) by simp
  have "take (2 * n) (drop hdr m1) = ?l @ [0, 0] @ ?r"
    using take_drop_store [OF m1 assms(1) assms(3)] by (simp add: to_bytes_16)
  moreover have "hdr + 2 * n \<le> length m1" using assms(3) length_store [OF m1] by simp
  ultimately have s: "add_words m1 hdr n 0 = Some (of_nat S)"
    by (simp add: add_words_Some assms(5))
  have "length (?l @ [0, 0] @ ?r) \<le> 65536" using assms(1,4) by simp
  then have "(length (?l @ [0, 0] @ ?r) + 1) div 2 \<le> 32768" by linarith
  then have "65535 * ((length (?l @ [0, 0] @ ?r) + 1) div 2) \<le> 65535 * 32768" by (rule mult_le_mono2)
  then have "S \<le> 65535 * 32768"
    using le_sum_bound [of "?l @ [0, 0] @ ?r"] unfolding assms(5) by (rule le_trans [rotated])
  then have less: "S < 2 ^ 32" by simp
  then have S: "unat (of_nat S :: u32) = S" by (simp add: unsigned_of_nat take_bit_nat_eq_self)
  define c :: u16 where "c = NOT (ucast (fold_step (of_nat S)))"
  have "unat (ucast (fold_step (of_nat S)) :: u16) = (S mod 65536 + S div 65536) mod 65536"
    by (simp add: unsigned_ucast_eq take_bit_eq_mod unat_fold_step S)
  then have c: "unat c = 65535 - (S mod 65536 + S div 65536) mod 65536"
    by (simp add: c_def unat_not_16)
  have "store m1 (hdr + off) c = store m (hdr + off) c" using m1 by (rule acc16.st_st)
  then have calc_c: "calc = store m (hdr + off) c" by (simp add: assms(6) m1 s c_def)
  obtain m' where m': "store m (hdr + off) c = Some m'"
    using store_None_iff [of m "hdr + off" c] assms by (cases "store m (hdr + off) c") auto
  moreover have "le_sum (to_bytes c @ ys) = unat c + le_sum ys" for ys by (simp add: le_sum_append)
  then have "le_sum (take (2 * n) (drop hdr m')) = S + unat c"
    unfolding take_drop_store [OF m' assms(1) assms(3)] assms(5)
    by (simp only: le_sum_append [OF even_l]) simp
  ultimately show ?thesis using calc_c c less by blast
qed

text \<open>A single fold is enough exactly when it produces no carry.\<close>

lemma single_fold_valid:
  assumes "le_sum bs = S + c" and "c = 65535 - (S mod 65536 + S div 65536) mod 65536" and "S < 2 ^ 32"
  shows "internet_valid bs \<longleftrightarrow> S mod 65536 + S div 65536 < 65536"
proof -
  define x where "x = S mod 65536 + S div 65536"
  have x: "x < 131072" using assms(3) by (simp add: x_def less_mult_imp_div_less add_less_mono)
  obtain q where S: "S = x + 65535 * q"
  proof
    show "S = x + 65535 * (S div 65536)"
      using div_mult_mod_eq [of S 65536] by (simp add: x_def)
  qed
  show ?thesis
  proof (cases "x < 65536")
    case True
    then have "c = 65535 - x" using assms(2) by (simp add: x_def)
    then have "le_sum bs = 65535 * (q + 1)" using assms(1) S True by simp
    then have "0 < le_sum bs" and "le_sum bs mod 65535 = 0" by simp_all
    with True show ?thesis unfolding internet_valid_le x_def [symmetric] by simp
  next
    case False
    then have "x mod 65536 = x - 65536" using x by (simp add: mod_if)
    then have "c = 131071 - x" using assms(2) False x by (simp add: x_def [symmetric])
    then have "le_sum bs = 1 + 65535 * (q + 2)" using assms(1) S x False by simp
    then have "le_sum bs mod 65535 = 1" by simp
    with False show ?thesis unfolding internet_valid_le x_def [symmetric] by simp
  qed
qed

text \<open>C18: \<open>ipv4_calc_checksum\<close> returns on every 20-byte header in the buffer, and the header it leaves
  passes the receiver's test exactly when folding the sum of its words once gives no carry out of 16
  bits: the routine folds once and cuts the result to 16 bits.\<close>
theorem ipv4_checksum_valid_iff:
  assumes "hdr + 20 \<le> length m"
    and "S = le_sum (take 10 (drop hdr m) @ [0, 0] @ take 8 (drop (hdr + 12) m))"
  shows "\<exists>m'. ipv4_calc_checksum m hdr = Some m' \<and>
           (internet_valid (take 20 (drop hdr m')) \<longleftrightarrow> S mod 65536 + S div 65536 < 65536)"
proof -
  have S: "S = le_sum (take 10 (drop hdr m) @ [0, 0] @ take (2 * 10 - (10 + 2)) (drop (hdr + 10 + 2) m))"
    using assms(2) by (simp add: add.commute)
  have "\<exists>m' c :: u16. ipv4_calc_checksum m hdr = Some m' \<and> le_sum (take 20 (drop hdr m')) = S + unat c \<and>
          unat c = 65535 - (S mod 65536 + S div 65536) mod 65536" and "S < 2 ^ 32"
    using single_fold [of 10 10 hdr m S "ipv4_calc_checksum m hdr"] S assms(1)
    by (auto simp: ipv4_calc_checksum_def layout)
  then show ?thesis using single_fold_valid by metis
qed

theorem ipv4_checksum_valid_iff_witness:
  "\<exists>m'. ipv4_calc_checksum [0x45, 0, 0, 84, 185, 143, 64, 0, 64, 1, 9, 9, 192, 168, 0, 1, 192, 168, 0, 200] 0 = Some m' \<and>
     (internet_valid (take 20 (drop 0 m')) \<longleftrightarrow> 196606 mod 65536 + 196606 div 65536 < (65536::nat))"
  by (rule ipv4_checksum_valid_iff) simp_all

text \<open>The missing carry happens: for a plain 20-byte header (192.168.0.1 to 192.168.0.200, ICMP,
  identification \<open>0xB98F\<close>) the header the routine leaves is rejected by the receiver's test, while
  folding until no carry is left gives the checksum \<open>0xFFFE\<close> that the test accepts.\<close>
lemma ipv4_checksum_lost_carry:
  "case ipv4_calc_checksum [0x45, 0, 0, 84, 185, 143, 64, 0, 64, 1, 0, 0, 192, 168, 0, 1, 192, 168, 0, 200] 0 of
     None \<Rightarrow> False
   | Some h \<Rightarrow> take 2 (drop 10 h) = [0xFF, 0xFF] \<and> \<not> internet_valid h \<and>
       internet_valid [0x45, 0, 0, 84, 185, 143, 64, 0, 64, 1, 0xFE, 0xFF, 192, 168, 0, 1, 192, 168, 0, 200]"
  by (simp add: ipv4_calc_checksum_def layout store_def to_bytes_16 add_words_Some fold_step_def internet_valid_def)

text \<open>\<open>icmpv4_calc_checksum\<close> covers the even prefix of the message only: on every message of at least
  four bytes in the buffer it returns, the even prefix passes the receiver's test exactly when the single
  fold gives no carry, and then a message with a non-zero odd trailing byte is rejected.\<close>
lemma icmpv4_checksum_valid_iff:
  assumes "hdr + unat len \<le> length m" and "4 \<le> unat len" and "n = unat len div 2"
    and "S = le_sum (take 2 (drop hdr m) @ [0, 0] @ take (2 * n - 4) (drop (hdr + 4) m))"
  shows "\<exists>m'. icmpv4_calc_checksum m hdr len = Some m' \<and>
           (internet_valid (take (2 * n) (drop hdr m')) \<longleftrightarrow> S mod 65536 + S div 65536 < 65536) \<and>
           (odd (unat len) \<and> S mod 65536 + S div 65536 < 65536 \<and> m ! (hdr + unat len - 1) \<noteq> 0 \<longrightarrow>
            \<not> internet_valid (take (unat len) (drop hdr m')))"
proof -
  have n: "2 + 2 \<le> 2 * n" "hdr + 2 * n \<le> length m" "n \<le> 32767"
    using assms(1,2,3) unsigned_less [of len, where 'a = nat] by simp_all
  have S: "S = le_sum (take 2 (drop hdr m) @ [0, 0] @ take (2 * n - (2 + 2)) (drop (hdr + 2 + 2) m))"
    using assms(4) by (simp only: add.assoc) simp
  have calc: "icmpv4_calc_checksum m hdr len =
      do { m \<leftarrow> store m (hdr + 2) (0 :: u16); s \<leftarrow> add_words m hdr n 0;
           let res16 = (ucast (fold_step s) :: u16); store m (hdr + 2) (NOT res16) }"
    by (simp add: icmpv4_calc_checksum_def layout assms(3))
  obtain m' and c :: u16 where m': "icmpv4_calc_checksum m hdr len = Some m'" "store m (hdr + 2) c = Some m'"
    and c: "le_sum (take (2 * n) (drop hdr m')) = S + unat c"
      "unat c = 65535 - (S mod 65536 + S div 65536) mod 65536" and "S < 2 ^ 32"
    using single_fold [OF n(1) _ n(2,3) S calc] by auto
  then have valid: "internet_valid (take (2 * n) (drop hdr m')) \<longleftrightarrow> S mod 65536 + S div 65536 < 65536"
    by (intro single_fold_valid)
  moreover have "\<not> internet_valid (take (unat len) (drop hdr m'))"
    if odd: "odd (unat len)" and fold: "S mod 65536 + S div 65536 < 65536" and "m ! (hdr + unat len - 1) \<noteq> 0"
  proof -
    have len: "unat len = Suc (2 * n)" using odd assms(3) by simp
    have l: "length m' = length m" using m'(2) by (rule length_store)
    define b where "b = m' ! (hdr + 2 * n)"
    have "b = m ! (hdr + 2 * n)"
      using acc16.st_outside [OF m'(2), of "hdr + 2 * n"] n(1) assms(1) len by (simp add: b_def)
    then have "b \<noteq> 0" using that(3) len by simp
    then have b: "0 < unat b" "unat b < 256" using unat_u8_less [of b] by (simp_all add: unat_gt_0)
    have "take (unat len) (drop hdr m') = take (2 * n) (drop hdr m') @ [b]"
      using len l assms(1) take_Suc_conv_app_nth [of "2 * n" "drop hdr m'"] by (simp add: b_def)
    moreover have "even (length (take (2 * n) (drop hdr m')))" using n(2) l by simp
    ultimately have "le_sum (take (unat len) (drop hdr m')) mod 65535 =
        (le_sum (take (2 * n) (drop hdr m')) + unat b) mod 65535"
      by (simp add: le_sum_append)
    also have "\<dots> = unat b"
      using valid fold b by (simp add: internet_valid_le mod_add_eq [symmetric])
    finally show ?thesis using b by (simp add: internet_valid_le)
  qed
  ultimately show ?thesis using m'(1) by blast
qed

end
