(* ===== verification/Crc32c.thy ===== *)
theory Crc32c
  imports Cpc_L4
begin

text \<open>
  The checksum of SCTP (\<open>headers/cpc_sctp.h\<close>): the table-driven CRC32c \<open>generate_crc32c\<close> and
  \<open>sctp_calc_checksum\<close>. The reference is the bitwise division by the reflected Castagnoli
  polynomial; the 256 entries of \<open>cpc_crc_c\<close> are checked against it, and the byte-wise step is
  related to eight bit-wise steps through the linearity of the division.
\<close>

section \<open>The routines\<close>

text \<open>The lookup table of the byte-wise CRC.\<close>

definition cpc_crc_c :: "u32 list" where
  "cpc_crc_c =
    [0x00000000, 0xF26B8303, 0xE13B70F7, 0x1350F3F4, 0xC79A971F, 0x35F1141C, 0x26A1E7E8, 0xD4CA64EB,
     0x8AD958CF, 0x78B2DBCC, 0x6BE22838, 0x9989AB3B, 0x4D43CFD0, 0xBF284CD3, 0xAC78BF27, 0x5E133C24,
     0x105EC76F, 0xE235446C, 0xF165B798, 0x030E349B, 0xD7C45070, 0x25AFD373, 0x36FF2087, 0xC494A384,
     0x9A879FA0, 0x68EC1CA3, 0x7BBCEF57, 0x89D76C54, 0x5D1D08BF, 0xAF768BBC, 0xBC267848, 0x4E4DFB4B,
     0x20BD8EDE, 0xD2D60DDD, 0xC186FE29, 0x33ED7D2A, 0xE72719C1, 0x154C9AC2, 0x061C6936, 0xF477EA35,
     0xAA64D611, 0x580F5512, 0x4B5FA6E6, 0xB93425E5, 0x6DFE410E, 0x9F95C20D, 0x8CC531F9, 0x7EAEB2FA,
     0x30E349B1, 0xC288CAB2, 0xD1D83946, 0x23B3BA45, 0xF779DEAE, 0x05125DAD, 0x1642AE59, 0xE4292D5A,
     0xBA3A117E, 0x4851927D, 0x5B016189, 0xA96AE28A, 0x7DA08661, 0x8FCB0562, 0x9C9BF696, 0x6EF07595,
     0x417B1DBC, 0xB3109EBF, 0xA0406D4B, 0x522BEE48, 0x86E18AA3, 0x748A09A0, 0x67DAFA54, 0x95B17957,
     0xCBA24573, 0x39C9C670, 0x2A993584, 0xD8F2B687, 0x0C38D26C, 0xFE53516F, 0xED03A29B, 0x1F682198,
     0x5125DAD3, 0xA34E59D0, 0xB01EAA24, 0x42752927, 0x96BF4DCC, 0x64D4CECF, 0x77843D3B, 0x85EFBE38,
     0xDBFC821C, 0x2997011F, 0x3AC7F2EB, 0xC8AC71E8, 0x1C661503, 0xEE0D9600, 0xFD5D65F4, 0x0F36E6F7,
     0x61C69362, 0x93AD1061, 0x80FDE395, 0x72966096, 0xA65C047D, 0x5437877E, 0x4767748A, 0xB50CF789,
     0xEB1FCBAD, 0x197448AE, 0x0A24BB5A, 0xF84F3859, 0x2C855CB2, 0xDEEEDFB1, 0xCDBE2C45, 0x3FD5AF46,
     0x7198540D, 0x83F3D70E, 0x90A324FA, 0x62C8A7F9, 0xB602C312, 0x44694011, 0x5739B3E5, 0xA55230E6,
     0xFB410CC2, 0x092A8FC1, 0x1A7A7C35, 0xE811FF36, 0x3CDB9BDD, 0xCEB018DE, 0xDDE0EB2A, 0x2F8B6829,
     0x82F63B78, 0x709DB87B, 0x63CD4B8F, 0x91A6C88C, 0x456CAC67, 0xB7072F64, 0xA457DC90, 0x563C5F93,
     0x082F63B7, 0xFA44E0B4, 0xE9141340, 0x1B7F9043, 0xCFB5F4A8, 0x3DDE77AB, 0x2E8E845F, 0xDCE5075C,
     0x92A8FC17, 0x60C37F14, 0x73938CE0, 0x81F80FE3, 0x55326B08, 0xA759E80B, 0xB4091BFF, 0x466298FC,
     0x1871A4D8, 0xEA1A27DB, 0xF94AD42F, 0x0B21572C, 0xDFEB33C7, 0x2D80B0C4, 0x3ED04330, 0xCCBBC033,
     0xA24BB5A6, 0x502036A5, 0x4370C551, 0xB11B4652, 0x65D122B9, 0x97BAA1BA, 0x84EA524E, 0x7681D14D,
     0x2892ED69, 0xDAF96E6A, 0xC9A99D9E, 0x3BC21E9D, 0xEF087A76, 0x1D63F975, 0x0E330A81, 0xFC588982,
     0xB21572C9, 0x407EF1CA, 0x532E023E, 0xA145813D, 0x758FE5D6, 0x87E466D5, 0x94B49521, 0x66DF1622,
     0x38CC2A06, 0xCAA7A905, 0xD9F75AF1, 0x2B9CD9F2, 0xFF56BD19, 0x0D3D3E1A, 0x1E6DCDEE, 0xEC064EED,
     0xC38D26C4, 0x31E6A5C7, 0x22B65633, 0xD0DDD530, 0x0417B1DB, 0xF67C32D8, 0xE52CC12C, 0x1747422F,
     0x49547E0B, 0xBB3FFD08, 0xA86F0EFC, 0x5A048DFF, 0x8ECEE914, 0x7CA56A17, 0x6FF599E3, 0x9D9E1AE0,
     0xD3D3E1AB, 0x21B862A8, 0x32E8915C, 0xC083125F, 0x144976B4, 0xE622F5B7, 0xF5720643, 0x07198540,
     0x590AB964, 0xAB613A67, 0xB831C993, 0x4A5A4A90, 0x9E902E7B, 0x6CFBAD78, 0x7FAB5E8C, 0x8DC0DD8F,
     0xE330A81A, 0x115B2B19, 0x020BD8ED, 0xF0605BEE, 0x24AA3F05, 0xD6C1BC06, 0xC5914FF2, 0x37FACCF1,
     0x69E9F0D5, 0x9B8273D6, 0x88D28022, 0x7AB90321, 0xAE7367CA, 0x5C18E4C9, 0x4F48173D, 0xBD23943E,
     0xF36E6F75, 0x0105EC76, 0x12551F82, 0xE03E9C81, 0x34F4F86A, 0xC69F7B69, 0xD5CF889D, 0x27A40B9E,
     0x79B737BA, 0x8BDCB4B9, 0x988C474D, 0x6AE7C44E, 0xBE2DA0A5, 0x4C4623A6, 0x5F16D052, 0xAD7D5351]"

text \<open>The macro \<open>CRC32C(c,d)\<close>: one byte.\<close>

definition CRC32C :: "u32 \<Rightarrow> u8 \<Rightarrow> u32" where
  "CRC32C c d = drop_bit 8 c XOR cpc_crc_c ! unat ((c XOR ucast d) AND 0xFF)"

fun crc_loop :: "mem \<Rightarrow> nat \<Rightarrow> nat \<Rightarrow> u32 \<Rightarrow> u32 option" where
  "crc_loop m buf 0 crc32 = Some crc32"
| "crc_loop m buf (Suc n) crc32 = do {
     d \<leftarrow> load m buf;
     crc_loop m (buf + 1) n (CRC32C crc32 d) }"

text \<open>The loop variable has 32 bits and \<open>buflen\<close> has 64: beyond 4 GiB the loop does not end
  (\<open>None\<close>). The only caller passes a 16-bit length. The last lines swap the bytes of the result.\<close>

definition generate_crc32c :: "mem \<Rightarrow> nat \<Rightarrow> u64 \<Rightarrow> u32 option" where
  "generate_crc32c m buf buflen = (if unat buflen < 2 ^ 32 then do {
     crc32 \<leftarrow> crc_loop m buf (unat buflen) (NOT 0);
     let result = NOT crc32;
     let byte0 = (ucast (drop_bit 0 result AND 0xFF) :: u8);
     let byte1 = (ucast (drop_bit 8 result AND 0xFF) :: u8);
     let byte2 = (ucast (drop_bit 16 result AND 0xFF) :: u8);
     let byte3 = (ucast (drop_bit 24 result AND 0xFF) :: u8);
     Some (push_bit 24 (ucast byte0) OR push_bit 16 (ucast byte1) OR push_bit 8 (ucast byte2) OR push_bit 0 (ucast byte3)) }
   else None)"

definition sctp_calc_checksum :: "rofl \<Rightarrow> mem \<Rightarrow> nat \<Rightarrow> u16 \<Rightarrow> mem option" where
  "sctp_calc_checksum K m hdr len = do {
     m \<leftarrow> store m (hdr + offset_of cpc_sctp_hdr ''checksum'') (0 :: u32);
     crc32 \<leftarrow> generate_crc32c m hdr (ucast len);
     store m (hdr + offset_of cpc_sctp_hdr ''checksum'') (HTONB32 K crc32) }"

subsection \<open>The reference: division by the polynomial, bit by bit\<close>

text \<open>\<open>0x82F63B78\<close> is the Castagnoli polynomial \<open>0x1EDC6F41\<close> with its bits reversed.\<close>

definition crc_bit :: "u32 \<Rightarrow> u32" where
  "crc_bit c = (if bit c 0 then drop_bit 1 c XOR 0x82F63B78 else drop_bit 1 c)"

definition crc_byte :: "u32 \<Rightarrow> u8 \<Rightarrow> u32" where
  "crc_byte c d = (crc_bit ^^ 8) (c XOR ucast d)"

fun crc_bytes :: "u8 list \<Rightarrow> u32 \<Rightarrow> u32" where
  "crc_bytes [] c = c"
| "crc_bytes (d # ds) c = crc_bytes ds (crc_byte c d)"

definition crc32c :: "u8 list \<Rightarrow> u32" where
  "crc32c bs = NOT (crc_bytes bs (NOT 0))"

lemma crc_bytes_append: "crc_bytes (xs @ ys) c = crc_bytes ys (crc_bytes xs c)"
  by (induction xs arbitrary: c) auto

lemma crc_bit_xor: "crc_bit (x XOR y) = crc_bit x XOR crc_bit y"
  by (rule bit_word_eqI) (auto simp: crc_bit_def bit_simps)

lemma crc_bits_xor: "(crc_bit ^^ n) (x XOR y) = (crc_bit ^^ n) x XOR (crc_bit ^^ n) y"
  by (induction n) (simp_all add: crc_bit_xor)

lemma crc_bits_high:
  "n \<le> 8 \<Longrightarrow> (\<forall>i<8. \<not> bit x i) \<Longrightarrow> (crc_bit ^^ n) x = drop_bit n x"
proof (induction n)
  case (Suc n)
  then have "(crc_bit ^^ n) x = drop_bit n x" and "\<not> bit x n" by simp_all
  then have "crc_bit ((crc_bit ^^ n) x) = drop_bit 1 (drop_bit n x)"
    by (simp add: crc_bit_def [of "drop_bit n x"] bit_simps)
  then show ?case by simp
qed simp

lemma funpow_8: "(f ^^ 8) x = f (f (f (f (f (f (f (f x)))))))"
  by (simp add: numeral_eq_Suc)

fun crc_entries :: "u32 \<Rightarrow> nat \<Rightarrow> u32 list" where
  "crc_entries c 0 = []"
| "crc_entries c (Suc n) = (crc_bit ^^ 8) c # crc_entries (c + 1) n"

lemma crc_entries_numeral:
  "crc_entries c (numeral k) = (crc_bit ^^ 8) c # crc_entries (c + 1) (pred_numeral k)"
  by (simp add: numeral_eq_Suc)

lemma nth_crc_entries: "i < n \<Longrightarrow> crc_entries c n ! i = (crc_bit ^^ 8) (c + of_nat i)"
  by (induction n arbitrary: c i) (auto simp: nth_Cons' add.assoc gr0_conv_Suc)

lemma cpc_crc_c_table: "cpc_crc_c = crc_entries 0 256"
  by (simp add: cpc_crc_c_def crc_entries_numeral crc_bit_def funpow_8)

lemma bit_0xFF: "bit (0xFF :: u32) i \<longleftrightarrow> i < 8"
proof -
  have "(0xFF :: u32) = mask 8" by (simp add: mask_eq_exp_minus_1)
  then have "bit (0xFF :: u32) i \<longleftrightarrow> bit (mask 8 :: u32) i" by (simp only:)
  then show ?thesis by (auto simp: bit_simps)
qed

lemma crc_split:
  assumes k: "\<And>i. bit k i \<longleftrightarrow> i < 8"
  shows "(crc_bit ^^ 8) (c XOR ucast (d :: u8)) = drop_bit 8 c XOR (crc_bit ^^ 8) ((c XOR ucast d) AND k)"
proof -
  let ?x = "c XOR ucast d"
  have split: "(?x AND NOT k) XOR (?x AND k) = ?x"
    by (rule bit_word_eqI) (auto simp: bit_simps)
  have "(crc_bit ^^ 8) (?x AND NOT k) = drop_bit 8 (?x AND NOT k)"
    by (rule crc_bits_high) (auto simp: bit_simps k)
  also have "\<dots> = drop_bit 8 c"
  proof (rule bit_word_eqI)
    fix i
    have "\<not> bit d (8 + i)" using bit_imp_le_length [of d "8 + i"] by auto
    then show "bit (drop_bit 8 (?x AND NOT k)) i = bit (drop_bit 8 c) i"
      by (auto simp: bit_simps k dest: bit_imp_le_length)
  qed
  finally show ?thesis
    using crc_bits_xor [of 8 "?x AND NOT k" "?x AND k"] by (simp only: split)
qed

lemma CRC32C_eq_crc_byte: "CRC32C c d = crc_byte c d"
proof -
  let ?x = "c XOR ucast d"
  have "unat (?x AND 0xFF) < 256"
  proof -
    have "?x AND 0xFF = take_bit 8 ?x" by (simp add: take_bit_eq_mask mask_eq_exp_minus_1)
    then show ?thesis by (simp add: take_bit_eq_mod unat_mod_distrib)
  qed
  then have "cpc_crc_c ! unat (?x AND 0xFF) = (crc_bit ^^ 8) (?x AND 0xFF)"
    by (simp add: cpc_crc_c_table nth_crc_entries)
  then show ?thesis
    using crc_split [OF bit_0xFF, of c d] by (simp add: CRC32C_def crc_byte_def)
qed

lemma crc_loop_Some:
  "buf + n \<le> length m \<Longrightarrow>
   crc_loop m buf n c = Some (crc_bytes (take n (drop buf m)) c)"
proof (induction n arbitrary: buf c)
  case (Suc n)
  then have "take (Suc n) (drop buf m) = m ! buf # take n (drop (Suc buf) m)"
    by (simp add: Cons_nth_drop_Suc [symmetric])
  then show ?case using Suc by (simp add: load_byte CRC32C_eq_crc_byte)
qed simp


lemma bswap32_masks:
  "bit (0x00FF0000 :: u32) i \<longleftrightarrow> 16 \<le> i \<and> i < 24"
  "bit (0x0000FF00 :: u32) i \<longleftrightarrow> 8 \<le> i \<and> i < 16"
proof -
  have "(0x00FF0000 :: u32) = push_bit 16 (mask 8)" and "(0x0000FF00 :: u32) = push_bit 8 (mask 8)"
    by (simp_all add: mask_eq_exp_minus_1)
  then show "bit (0x00FF0000 :: u32) i \<longleftrightarrow> 16 \<le> i \<and> i < 24"
      and "bit (0x0000FF00 :: u32) i \<longleftrightarrow> 8 \<le> i \<and> i < 16"
    by (simp_all only: bit_push_bit_iff bit_mask_iff) auto
qed

lemma bit_bswap32: "bit (bswap32 y) i \<longleftrightarrow> (if i < 8 then bit y (i + 24) else if i < 16 then bit y (i + 8)
      else if i < 24 then bit y (i - 8) else i < 32 \<and> bit y (i - 24))"
proof -
  have beyond: "\<not> bit y n" if "32 \<le> n" for n using that bit_imp_le_length [of y n] by auto
  show ?thesis
    unfolding bswap32_def bit_or_iff bit_and_iff bswap32_masks bit_push_bit_iff bit_drop_bit_eq o_apply
    by (auto simp: beyond add.commute)
qed

lemma swap_bytes:
  "push_bit 24 (ucast (ucast (drop_bit 0 r AND 0xFF) :: u8)) OR push_bit 16 (ucast (ucast (drop_bit 8 r AND 0xFF) :: u8))
     OR push_bit 8 (ucast (ucast (drop_bit 16 r AND 0xFF) :: u8)) OR push_bit 0 (ucast (ucast (drop_bit 24 r AND 0xFF) :: u8))
   = bswap32 r"
proof -
  have low: "ucast (x AND 0xFF :: u32) = (ucast x :: u8)" for x
    by (rule bit_word_eqI) (simp only: bit_ucast_iff bit_and_iff bit_0xFF, simp)
  have bits: "bit (push_bit 24 (ucast (ucast r :: u8)) OR push_bit 16 (ucast (ucast (drop_bit 8 r) :: u8))
     OR push_bit 8 (ucast (ucast (drop_bit 16 r) :: u8)) OR (ucast (ucast (drop_bit 24 r) :: u8) :: u32)) i
    = bit (bswap32 r) i" if "i < 32" for i
  proof -
    consider "i < 8" | "8 \<le> i \<and> i < 16" | "16 \<le> i \<and> i < 24" | "24 \<le> i" by linarith
    then show ?thesis
      using that
      by cases (auto simp: bit_bswap32 bit_simps add.commute dest: bit_imp_le_length)
  qed
  show ?thesis
    unfolding low by (rule bit_word_eqI) (use bits in simp)
qed

lemma generate_crc32c_Some:
  assumes "buf + unat n \<le> length m" and "unat n < 2 ^ 32"
  shows "generate_crc32c m buf n = Some (bswap32 (crc32c (take (unat n) (drop buf m))))"
  using crc_loop_Some [OF assms(1), of "NOT 0"] assms(2) swap_bytes
  by (simp add: generate_crc32c_def crc32c_def)


subsection \<open>Error detection\<close>

lemma xor_right_inject: "x XOR z = y XOR z \<longleftrightarrow> x = y" for x y z :: "'a::len word"
proof
  assume "x XOR z = y XOR z"
  then have "(x XOR z) XOR z = (y XOR z) XOR z" by simp
  then show "x = y" by (simp add: xor.assoc)
qed simp

lemma crc_bit_inject: "crc_bit x = crc_bit y \<longleftrightarrow> x = y"
proof
  assume eq: "crc_bit x = crc_bit y"
  have top: "bit (crc_bit z) 31 = bit z 0" for z
  proof -
    have "bit (drop_bit 1 z) 31 = False" by (auto simp: bit_simps dest: bit_imp_le_length)
    moreover have "bit (0x82F63B78 :: u32) 31" by simp
    ultimately show ?thesis by (simp add: crc_bit_def bit_xor_iff)
  qed
  have low: "bit x 0 = bit y 0" using top [of x] top [of y] eq by simp
  then have shift: "drop_bit 1 x = drop_bit 1 y"
    using eq by (auto simp: crc_bit_def xor_right_inject split: if_splits)
  show "x = y"
  proof (rule bit_word_eqI)
    fix n
    show "bit x n = bit y n"
      using low arg_cong [OF shift, of "\<lambda>w. bit w (n - 1)"] by (cases n) (simp_all add: bit_simps)
  qed
qed simp

lemma crc_bits_inject: "(crc_bit ^^ n) x = (crc_bit ^^ n) y \<longleftrightarrow> x = y"
  by (induction n) (simp_all add: crc_bit_inject)

lemma crc_fold_inject: "crc_bytes bs x = crc_bytes bs y \<longleftrightarrow> x = y"
proof (induction bs arbitrary: x y)
  case (Cons b bs)
  then show ?case by (simp add: crc_byte_def crc_bits_inject xor_right_inject)
qed simp

lemma crc_byte_inject: "crc_byte c a = crc_byte c b \<longleftrightarrow> a = b"
proof -
  have "(ucast a :: u32) = ucast b \<longleftrightarrow> a = b"
  proof
    assume "(ucast a :: u32) = ucast b"
    then have "(ucast (ucast a :: u32) :: u8) = ucast (ucast b :: u32)" by simp
    moreover have "ucast (ucast x :: u32) = x" for x :: u8
      by (rule bit_word_eqI) (simp add: bit_simps)
    ultimately show "a = b" by simp
  qed simp
  then show ?thesis
    using xor_right_inject [of "ucast a" c "ucast b"]
    by (simp add: crc_byte_def crc_bits_inject xor.commute)
qed

text \<open>\<open>generate_crc32c\<close> agrees with the bitwise division by the reflected Castagnoli polynomial: on
  every readable buffer shorter than 4 GiB the table-driven loop returns the byte-swapped CRC.\<close>
lemma generate_crc32c_correct:
  assumes "buf + unat n \<le> length m" and "unat n < 2 ^ 32"
  shows "generate_crc32c m buf n = Some (bswap32 (crc32c (take (unat n) (drop buf m))))"
  using assms by (rule generate_crc32c_Some)

lemma bswap32_bswap32: "bswap32 (bswap32 x) = x"
  by (rule bit_word_eqI) (auto simp: bit_bswap32)

text \<open>C4: \<open>sctp_calc_checksum\<close> stores the CRC of the packet with a zero checksum field, in the byte order
  of the wire (least significant byte of the reflected remainder first), and returns for every packet of
  at least twelve bytes in the buffer; no other byte changes.\<close>
theorem sctp_checksum_correct:
  assumes "le_host K" and "hdr + unat len \<le> length m" and "12 \<le> unat len"
  shows "\<exists>m'. sctp_calc_checksum K m hdr len = Some m' \<and>
           take 4 (drop (hdr + 8) m') = to_bytes (crc32c (take 8 (drop hdr m) @ [0, 0, 0, 0] @
             take (unat len - 12) (drop (hdr + 12) m))) \<and>
           same_outside (hdr + 8) 4 m m'"
proof -
  obtain m1 where m1: "store m (hdr + 8) (0 :: u32) = Some m1"
    using store_None_iff [of m "hdr + 8" "0 :: u32"] assms by (cases "store m (hdr + 8) (0 :: u32)") auto
  have l: "length m1 = length m" using m1 by (rule length_store)
  let ?bs = "take 8 (drop hdr m) @ [0, 0, 0, 0] @ take (unat len - 12) (drop (hdr + 12) m)"
  have m1_eq: "m1 = take (hdr + 8) m @ [0, 0, 0, 0] @ drop (hdr + 12) m"
    using m1 by (auto simp: store_def to_bytes_def upt_rec add.commute split: if_splits)
  define k where "k = unat len - 12"
  have k: "unat len = 8 + (4 + k)" using assms(3) by (simp add: k_def)
  have "take (unat len) (drop hdr m1) = ?bs"
    unfolding m1_eq k using assms(2,3) by (simp add: drop_take take_add [of 4 k])
  moreover have "unat (ucast len :: u64) = unat len" using unsigned_less [of len, where 'a = nat] by (simp add: unsigned_ucast_eq take_bit_nat_eq_self)
  ultimately have "generate_crc32c m1 hdr (ucast len) = Some (bswap32 (crc32c ?bs))"
    using generate_crc32c_Some [of hdr "ucast len" m1] unsigned_less [of len, where 'a = nat] assms(2) l by simp
  moreover obtain m' where m': "store m1 (hdr + 8) (crc32c ?bs) = Some m'"
    using store_None_iff [of m1 "hdr + 8" "crc32c ?bs"] assms l by (cases "store m1 (hdr + 8) (crc32c ?bs)") auto
  ultimately have "sctp_calc_checksum K m hdr len = Some m'"
    using assms(1) by (simp add: sctp_calc_checksum_def layout m1 le_host_def bswap32_bswap32)
  moreover have "take 4 (drop (hdr + 8) m') = to_bytes (crc32c ?bs)"
    using load_to_bytes [OF acc32.ld_st [OF m']] by simp
  moreover have "same_outside (hdr + 8) 4 m m'"
    using same_outside_trans [OF store_same_outside [OF m1] store_same_outside [OF m']] by simp
  ultimately show ?thesis by blast
qed

theorem sctp_checksum_correct_witness:
  "\<exists>m'. sctp_calc_checksum std_rofl (replicate 13 9) 0 13 = Some m' \<and>
     take 4 (drop (0 + 8) m') = to_bytes (crc32c (take 8 (drop 0 (replicate 13 9)) @ [0, 0, 0, 0] @
       take (unat (13 :: u16) - 12) (drop (0 + 12) (replicate 13 9)))) \<and>
     same_outside (0 + 8) 4 (replicate 13 9) m'"
  by (rule sctp_checksum_correct) (simp_all add: std_rofl_le_host)

text \<open>The CRC that \<open>generate_crc32c\<close> computes detects every change of a single byte: two buffers
  that differ in exactly one of the covered bytes have different checksums.\<close>
lemma crc32c_detects_byte_error:
  assumes "unat n = length (xs @ a # ys)" and "unat n < 2 ^ 32" and "a \<noteq> b"
  shows "generate_crc32c (xs @ a # ys) 0 n \<noteq> generate_crc32c (xs @ b # ys) 0 n"
proof -
  have "crc32c (xs @ a # ys) \<noteq> crc32c (xs @ b # ys)"
    using assms(3) by (simp add: crc32c_def crc_bytes_append crc_fold_inject crc_byte_inject)
  then have "bswap32 (crc32c (xs @ a # ys)) \<noteq> bswap32 (crc32c (xs @ b # ys))"
    by (metis bswap32_bswap32)
  then show ?thesis
    using generate_crc32c_Some [of 0 n "xs @ a # ys"] generate_crc32c_Some [of 0 n "xs @ b # ys"] assms(1,2)
    by simp
qed

end
