(* ===== verification/Packet_Meta.thy ===== *)
theory Packet_Meta
  imports Classifier_Ops Checksums Crc32c
begin

text \<open>
  What the pipeline calls to read and change a packet (\<open>pipeline-imp/packet_proto_meta_imp.h\<close>, built without
  \<open>EMPTY_PACKET_PROCESSING_ROUTINES\<close> and with every checksum in software, as the gnu_linux driver builds
  it) and the packet functions of \<open>packet_inline.h\<close> that do not touch ports.

  A getter returns a pointer into the frame or \<open>NULL\<close>; a setter writes through the pointer of its header
  and notes which checksums have to be calculated again before the packet leaves.

  The locale \<open>packet_field\<close> states what one pair of getter and setter promises; it is interpreted on every
  pair whose member has a fixed place in its header.
\<close>

section \<open>Getters\<close>

text \<open>The test for the header that every function starts with.\<close>

definition on_hdr ::
  "(classifier_state \<Rightarrow> int \<Rightarrow> nat option option) \<Rightarrow> datapacketx86 \<Rightarrow> 'b \<Rightarrow> (nat \<Rightarrow> 'b option) \<Rightarrow> 'b option" where
  "on_hdr get s missing f = do {
     p \<leftarrow> get (clas_state s) 0;
     case p of None \<Rightarrow> Some missing | Some h \<Rightarrow> f h }"

definition platform_packet_get_size_bytes :: "datapacketx86 \<Rightarrow> u32" where
  "platform_packet_get_size_bytes s = ucast (len (clas_state s))"

text \<open>These two return the address of the member; it is read here.\<close>

definition platform_packet_get_port_in :: "datapacketx86 \<Rightarrow> u32" where
  "platform_packet_get_port_in s = port_in (clas_state s)"

definition platform_packet_get_phy_port_in :: "datapacketx86 \<Rightarrow> u32" where
  "platform_packet_get_phy_port_in s = phy_port_in (clas_state s)"

definition platform_packet_get_eth_type :: "datapacketx86 \<Rightarrow> nat option option" where
  "platform_packet_get_eth_type s = map_option Some (classifier_get_eth_type (clas_state s))"

definition platform_packet_has_vlan :: "datapacketx86 \<Rightarrow> bool option" where
  "platform_packet_has_vlan s = on_hdr get_vlan_hdr s False (\<lambda>h. Some True)"

definition platform_packet_get_ip_ecn :: "rofl \<Rightarrow> datapacketx86 \<Rightarrow> u8 option" where
  "platform_packet_get_ip_ecn K s = do {
     ipv4 \<leftarrow> get_ipv4_hdr (clas_state s) 0;
     case ipv4 of
       Some h \<Rightarrow> get_ipv4_ecn (pkt_mem s) h
     | None \<Rightarrow> on_hdr get_ipv6_hdr s 0 (\<lambda>h. get_ipv6_ecn K (pkt_mem s) h) }"

definition platform_packet_get_ip_dscp :: "rofl \<Rightarrow> datapacketx86 \<Rightarrow> u8 option" where
  "platform_packet_get_ip_dscp K s = do {
     ipv4 \<leftarrow> get_ipv4_hdr (clas_state s) 0;
     case ipv4 of
       Some h \<Rightarrow> get_ipv4_dscp (pkt_mem s) h
     | None \<Rightarrow> on_hdr get_ipv6_hdr s 0 (\<lambda>h. get_ipv6_dscp K (pkt_mem s) h) }"

definition platform_packet_get_ip_proto :: "datapacketx86 \<Rightarrow> nat option option" where
  "platform_packet_get_ip_proto s = do {
     ipv4 \<leftarrow> get_ipv4_hdr (clas_state s) 0;
     case ipv4 of
       Some h \<Rightarrow> Some (Some (get_ipv4_proto h))
     | None \<Rightarrow> on_hdr get_ipv6_hdr s None (\<lambda>h. Some (Some (get_ipv6_next_header h))) }"

definition platform_packet_get_eth_dst :: "datapacketx86 \<Rightarrow> nat option option" where
  "platform_packet_get_eth_dst s =
     on_hdr get_ether_hdr s None (\<lambda>h. Some (Some (get_ether_dl_dst h)))"

definition platform_packet_get_eth_src :: "datapacketx86 \<Rightarrow> nat option option" where
  "platform_packet_get_eth_src s =
     on_hdr get_ether_hdr s None (\<lambda>h. Some (Some (get_ether_dl_src h)))"

definition platform_packet_get_vlan_vid :: "datapacketx86 \<Rightarrow> nat option option" where
  "platform_packet_get_vlan_vid s =
     on_hdr get_vlan_hdr s None (\<lambda>h. Some (Some (get_vlan_id h)))"

definition platform_packet_get_vlan_pcp :: "datapacketx86 \<Rightarrow> nat option option" where
  "platform_packet_get_vlan_pcp s =
     on_hdr get_vlan_hdr s None (\<lambda>h. Some (Some (get_vlan_pcp h)))"

definition platform_packet_get_arp_opcode :: "datapacketx86 \<Rightarrow> nat option option" where
  "platform_packet_get_arp_opcode s =
     on_hdr get_arpv4_hdr s None (\<lambda>h. Some (Some (get_arpv4_opcode h)))"

definition platform_packet_get_arp_sha :: "datapacketx86 \<Rightarrow> nat option option" where
  "platform_packet_get_arp_sha s =
     on_hdr get_arpv4_hdr s None (\<lambda>h. Some (Some (get_arpv4_dl_src h)))"

definition platform_packet_get_arp_spa :: "datapacketx86 \<Rightarrow> nat option option" where
  "platform_packet_get_arp_spa s =
     on_hdr get_arpv4_hdr s None (\<lambda>h. Some (Some (get_arpv4_ip_src h)))"

definition platform_packet_get_arp_tha :: "datapacketx86 \<Rightarrow> nat option option" where
  "platform_packet_get_arp_tha s =
     on_hdr get_arpv4_hdr s None (\<lambda>h. Some (Some (get_arpv4_dl_dst h)))"

definition platform_packet_get_arp_tpa :: "datapacketx86 \<Rightarrow> nat option option" where
  "platform_packet_get_arp_tpa s =
     on_hdr get_arpv4_hdr s None (\<lambda>h. Some (Some (get_arpv4_ip_dst h)))"

definition platform_packet_get_ipv4_src :: "datapacketx86 \<Rightarrow> nat option option" where
  "platform_packet_get_ipv4_src s =
     on_hdr get_ipv4_hdr s None (\<lambda>h. Some (Some (get_ipv4_src h)))"

definition platform_packet_get_ipv4_dst :: "datapacketx86 \<Rightarrow> nat option option" where
  "platform_packet_get_ipv4_dst s =
     on_hdr get_ipv4_hdr s None (\<lambda>h. Some (Some (get_ipv4_dst h)))"

definition platform_packet_get_tcp_dst :: "datapacketx86 \<Rightarrow> nat option option" where
  "platform_packet_get_tcp_dst s =
     on_hdr get_tcp_hdr s None (\<lambda>h. Some (Some (get_tcp_dport h)))"

definition platform_packet_get_tcp_src :: "datapacketx86 \<Rightarrow> nat option option" where
  "platform_packet_get_tcp_src s =
     on_hdr get_tcp_hdr s None (\<lambda>h. Some (Some (get_tcp_sport h)))"

definition platform_packet_get_udp_dst :: "datapacketx86 \<Rightarrow> nat option option" where
  "platform_packet_get_udp_dst s =
     on_hdr get_udp_hdr s None (\<lambda>h. Some (Some (get_udp_dport h)))"

definition platform_packet_get_udp_src :: "datapacketx86 \<Rightarrow> nat option option" where
  "platform_packet_get_udp_src s =
     on_hdr get_udp_hdr s None (\<lambda>h. Some (Some (get_udp_sport h)))"

definition platform_packet_get_sctp_dst :: "datapacketx86 \<Rightarrow> nat option option" where
  "platform_packet_get_sctp_dst s =
     on_hdr get_sctp_hdr s None (\<lambda>h. Some (Some (get_sctp_dport h)))"

definition platform_packet_get_sctp_src :: "datapacketx86 \<Rightarrow> nat option option" where
  "platform_packet_get_sctp_src s =
     on_hdr get_sctp_hdr s None (\<lambda>h. Some (Some (get_sctp_sport h)))"

definition platform_packet_get_icmpv4_type :: "datapacketx86 \<Rightarrow> nat option option" where
  "platform_packet_get_icmpv4_type s =
     on_hdr get_icmpv4_hdr s None (\<lambda>h. Some (Some (get_icmpv4_type h)))"

definition platform_packet_get_icmpv4_code :: "datapacketx86 \<Rightarrow> nat option option" where
  "platform_packet_get_icmpv4_code s =
     on_hdr get_icmpv4_hdr s None (\<lambda>h. Some (Some (get_icmpv4_code h)))"

definition platform_packet_get_ipv6_src :: "datapacketx86 \<Rightarrow> nat option option" where
  "platform_packet_get_ipv6_src s =
     on_hdr get_ipv6_hdr s None (\<lambda>h. Some (Some (get_ipv6_src h)))"

definition platform_packet_get_ipv6_dst :: "datapacketx86 \<Rightarrow> nat option option" where
  "platform_packet_get_ipv6_dst s =
     on_hdr get_ipv6_hdr s None (\<lambda>h. Some (Some (get_ipv6_dst h)))"

definition platform_packet_get_ipv6_flabel :: "datapacketx86 \<Rightarrow> nat option option" where
  "platform_packet_get_ipv6_flabel s =
     on_hdr get_ipv6_hdr s None (\<lambda>h. Some (Some (get_ipv6_flow_label h)))"

definition platform_packet_get_ipv6_nd_target :: "datapacketx86 \<Rightarrow> nat option option" where
  "platform_packet_get_ipv6_nd_target s =
     on_hdr get_icmpv6_hdr s None (\<lambda>h. get_icmpv6_neighbor_taddr (pkt_mem s) h)"

definition platform_packet_get_ipv6_nd_sll :: "datapacketx86 \<Rightarrow> nat option option" where
  "platform_packet_get_ipv6_nd_sll s =
     on_hdr get_icmpv6_opt_lladr_source_hdr s None (\<lambda>h. Some (Some (get_icmpv6_ll_saddr h)))"

definition platform_packet_get_ipv6_nd_tll :: "datapacketx86 \<Rightarrow> nat option option" where
  "platform_packet_get_ipv6_nd_tll s =
     on_hdr get_icmpv6_opt_lladr_target_hdr s None (\<lambda>h. Some (Some (get_icmpv6_ll_taddr h)))"

definition platform_packet_get_ipv6_exthdr :: "datapacketx86 \<Rightarrow> nat option option" where
  "platform_packet_get_ipv6_exthdr s = Some None"

definition platform_packet_get_icmpv6_type :: "datapacketx86 \<Rightarrow> nat option option" where
  "platform_packet_get_icmpv6_type s =
     on_hdr get_icmpv6_hdr s None (\<lambda>h. Some (Some (get_icmpv6_type h)))"

definition platform_packet_get_icmpv6_code :: "datapacketx86 \<Rightarrow> nat option option" where
  "platform_packet_get_icmpv6_code s =
     on_hdr get_icmpv6_hdr s None (\<lambda>h. Some (Some (get_icmpv6_code h)))"

definition platform_packet_get_mpls_label :: "datapacketx86 \<Rightarrow> nat option option" where
  "platform_packet_get_mpls_label s =
     on_hdr get_mpls_hdr s None (\<lambda>h. Some (Some (get_mpls_label h)))"

definition platform_packet_get_mpls_tc :: "datapacketx86 \<Rightarrow> nat option option" where
  "platform_packet_get_mpls_tc s =
     on_hdr get_mpls_hdr s None (\<lambda>h. Some (Some (get_mpls_tc h)))"

definition platform_packet_get_mpls_bos :: "rofl \<Rightarrow> datapacketx86 \<Rightarrow> bool option" where
  "platform_packet_get_mpls_bos K s = on_hdr get_mpls_hdr s False (\<lambda>h. get_mpls_bos K (pkt_mem s) h)"

definition platform_packet_get_pbb_isid :: "datapacketx86 \<Rightarrow> nat option option" where
  "platform_packet_get_pbb_isid s =
     on_hdr get_pbb_isid_hdr s None (\<lambda>h. Some (Some (get_pbb_isid h)))"

definition platform_packet_get_tunnel_id :: "datapacketx86 \<Rightarrow> nat option option" where
  "platform_packet_get_tunnel_id s = Some None"

definition platform_packet_get_pppoe_code :: "datapacketx86 \<Rightarrow> nat option option" where
  "platform_packet_get_pppoe_code s =
     on_hdr get_pppoe_hdr s None (\<lambda>h. Some (Some (get_pppoe_code h)))"

definition platform_packet_get_pppoe_type :: "datapacketx86 \<Rightarrow> nat option option" where
  "platform_packet_get_pppoe_type s =
     on_hdr get_pppoe_hdr s None (\<lambda>h. Some (Some (get_pppoe_type h)))"

definition platform_packet_get_pppoe_sid :: "datapacketx86 \<Rightarrow> nat option option" where
  "platform_packet_get_pppoe_sid s =
     on_hdr get_pppoe_hdr s None (\<lambda>h. Some (Some (get_pppoe_sessid h)))"

definition platform_packet_get_ppp_proto :: "datapacketx86 \<Rightarrow> nat option option" where
  "platform_packet_get_ppp_proto s =
     on_hdr get_ppp_hdr s None (\<lambda>h. Some (Some (get_ppp_prot h)))"

definition platform_packet_get_gtp_msg_type :: "datapacketx86 \<Rightarrow> nat option option" where
  "platform_packet_get_gtp_msg_type s =
     on_hdr get_gtpu_hdr s None (\<lambda>h. Some (Some (get_gtpu_msg_type h)))"

definition platform_packet_get_gtp_teid :: "datapacketx86 \<Rightarrow> nat option option" where
  "platform_packet_get_gtp_teid s =
     on_hdr get_gtpu_hdr s None (\<lambda>h. Some (Some (get_gtpu_teid h)))"

definition platform_packet_get_capwap_wbid :: "datapacketx86 \<Rightarrow> nat option option" where
  "platform_packet_get_capwap_wbid s = Some None"

definition platform_packet_get_capwap_rid :: "datapacketx86 \<Rightarrow> nat option option" where
  "platform_packet_get_capwap_rid s = Some None"

definition platform_packet_get_capwap_flags :: "datapacketx86 \<Rightarrow> nat option option" where
  "platform_packet_get_capwap_flags s = Some None"

definition platform_packet_get_wlan_fc :: "datapacketx86 \<Rightarrow> nat option option" where
  "platform_packet_get_wlan_fc s = Some None"

definition platform_packet_get_wlan_type :: "datapacketx86 \<Rightarrow> nat option option" where
  "platform_packet_get_wlan_type s = Some None"

definition platform_packet_get_wlan_subtype :: "datapacketx86 \<Rightarrow> nat option option" where
  "platform_packet_get_wlan_subtype s = Some None"

definition platform_packet_get_wlan_direction :: "datapacketx86 \<Rightarrow> nat option option" where
  "platform_packet_get_wlan_direction s = Some None"

definition platform_packet_get_wlan_address_1 :: "datapacketx86 \<Rightarrow> nat option option" where
  "platform_packet_get_wlan_address_1 s = Some None"

definition platform_packet_get_wlan_address_2 :: "datapacketx86 \<Rightarrow> nat option option" where
  "platform_packet_get_wlan_address_2 s = Some None"

definition platform_packet_get_wlan_address_3 :: "datapacketx86 \<Rightarrow> nat option option" where
  "platform_packet_get_wlan_address_3 s = Some None"

definition platform_packet_get_gre_version :: "datapacketx86 \<Rightarrow> nat option option" where
  "platform_packet_get_gre_version s =
     on_hdr get_gre_hdr s None (\<lambda>h. Some (Some (get_gre_version h)))"

definition platform_packet_get_gre_prot_type :: "datapacketx86 \<Rightarrow> nat option option" where
  "platform_packet_get_gre_prot_type s =
     on_hdr get_gre_hdr s None (\<lambda>h. Some (Some (get_gre_prot_type h)))"

definition platform_packet_get_gre_key :: "datapacketx86 \<Rightarrow> nat option option" where
  "platform_packet_get_gre_key s =
     on_hdr get_gre_hdr s None (\<lambda>h. get_gre_key (pkt_mem s) h)"

section \<open>Setters\<close>

definition platform_packet_dec_nw_ttl :: "datapacketx86 \<Rightarrow> datapacketx86 option" where
  "platform_packet_dec_nw_ttl s = do {
     s \<leftarrow> on_hdr get_ipv4_hdr s s (\<lambda>h. do {
       s \<leftarrow> upd s (\<lambda>m. dec_ipv4_ttl m h);
       Some (flag_checksum s RECALCULATE_IPV4_CHECKSUM_IN_SW) });
     on_hdr get_ipv6_hdr s s (\<lambda>h. upd s (\<lambda>m. dec_ipv6_hop_limit m h)) }"

definition platform_packet_dec_mpls_ttl :: "datapacketx86 \<Rightarrow> datapacketx86 option" where
  "platform_packet_dec_mpls_ttl s = on_hdr get_mpls_hdr s s (\<lambda>h. upd s (\<lambda>m. dec_mpls_ttl m h))"

definition platform_packet_set_mpls_ttl :: "datapacketx86 \<Rightarrow> u8 \<Rightarrow> datapacketx86 option" where
  "platform_packet_set_mpls_ttl s v = on_hdr get_mpls_hdr s s (\<lambda>h. upd s (\<lambda>m. set_mpls_ttl m h v))"

definition platform_packet_set_nw_ttl :: "datapacketx86 \<Rightarrow> u8 \<Rightarrow> datapacketx86 option" where
  "platform_packet_set_nw_ttl s v = do {
     s \<leftarrow> on_hdr get_ipv4_hdr s s (\<lambda>h. do {
       s \<leftarrow> upd s (\<lambda>m. set_ipv4_ttl m h v);
       Some (flag_checksum s RECALCULATE_IPV4_CHECKSUM_IN_SW) });
     on_hdr get_ipv6_hdr s s (\<lambda>h. upd s (\<lambda>m. set_ipv6_hop_limit m h v)) }"

definition platform_packet_set_eth_dst :: "rofl \<Rightarrow> datapacketx86 \<Rightarrow> u64 \<Rightarrow> datapacketx86 option" where
  "platform_packet_set_eth_dst K s v = on_hdr get_ether_hdr s s (\<lambda>h. upd s (\<lambda>m. set_ether_dl_dst K m h v))"

definition platform_packet_set_eth_src :: "rofl \<Rightarrow> datapacketx86 \<Rightarrow> u64 \<Rightarrow> datapacketx86 option" where
  "platform_packet_set_eth_src K s v = on_hdr get_ether_hdr s s (\<lambda>h. upd s (\<lambda>m. set_ether_dl_src K m h v))"

definition platform_packet_set_eth_type :: "rofl \<Rightarrow> datapacketx86 \<Rightarrow> u16 \<Rightarrow> datapacketx86 option" where
  "platform_packet_set_eth_type K s v = on_hdr get_ether_hdr s s (\<lambda>h. upd s (\<lambda>m. set_ether_type K m h v))"

definition platform_packet_set_vlan_vid :: "rofl \<Rightarrow> datapacketx86 \<Rightarrow> u16 \<Rightarrow> datapacketx86 option" where
  "platform_packet_set_vlan_vid K s v = on_hdr get_vlan_hdr s s (\<lambda>h. upd s (\<lambda>m. set_vlan_id K m h v))"

definition platform_packet_set_vlan_pcp :: "rofl \<Rightarrow> datapacketx86 \<Rightarrow> u8 \<Rightarrow> datapacketx86 option" where
  "platform_packet_set_vlan_pcp K s v = on_hdr get_vlan_hdr s s (\<lambda>h. upd s (\<lambda>m. set_vlan_pcp K m h v))"

definition platform_packet_set_arp_opcode :: "datapacketx86 \<Rightarrow> u16 \<Rightarrow> datapacketx86 option" where
  "platform_packet_set_arp_opcode s v = on_hdr get_arpv4_hdr s s (\<lambda>h. upd s (\<lambda>m. set_arpv4_opcode m h v))"

definition platform_packet_set_arp_sha :: "rofl \<Rightarrow> datapacketx86 \<Rightarrow> u64 \<Rightarrow> datapacketx86 option" where
  "platform_packet_set_arp_sha K s v = on_hdr get_arpv4_hdr s s (\<lambda>h. upd s (\<lambda>m. set_arpv4_dl_src K m h v))"

definition platform_packet_set_arp_spa :: "datapacketx86 \<Rightarrow> u32 \<Rightarrow> datapacketx86 option" where
  "platform_packet_set_arp_spa s v = on_hdr get_arpv4_hdr s s (\<lambda>h. upd s (\<lambda>m. set_arpv4_ip_src m h v))"

definition platform_packet_set_arp_tha :: "rofl \<Rightarrow> datapacketx86 \<Rightarrow> u64 \<Rightarrow> datapacketx86 option" where
  "platform_packet_set_arp_tha K s v = on_hdr get_arpv4_hdr s s (\<lambda>h. upd s (\<lambda>m. set_arpv4_dl_dst K m h v))"

definition platform_packet_set_arp_tpa :: "datapacketx86 \<Rightarrow> u32 \<Rightarrow> datapacketx86 option" where
  "platform_packet_set_arp_tpa s v = on_hdr get_arpv4_hdr s s (\<lambda>h. upd s (\<lambda>m. set_arpv4_ip_dst m h v))"

definition platform_packet_set_ip_dscp :: "rofl \<Rightarrow> datapacketx86 \<Rightarrow> u8 \<Rightarrow> datapacketx86 option" where
  "platform_packet_set_ip_dscp K s v = do {
     s \<leftarrow> on_hdr get_ipv4_hdr s s (\<lambda>h. do {
       s \<leftarrow> upd s (\<lambda>m. set_ipv4_dscp K m h v);
       Some (flag_checksum s RECALCULATE_IPV4_CHECKSUM_IN_SW) });
     on_hdr get_ipv6_hdr s s (\<lambda>h. upd s (\<lambda>m. set_ipv6_dscp K m h v)) }"

definition platform_packet_set_ip_ecn :: "rofl \<Rightarrow> datapacketx86 \<Rightarrow> u8 \<Rightarrow> datapacketx86 option" where
  "platform_packet_set_ip_ecn K s v = do {
     s \<leftarrow> on_hdr get_ipv4_hdr s s (\<lambda>h. do {
       s \<leftarrow> upd s (\<lambda>m. set_ipv4_ecn K m h v);
       Some (flag_checksum s RECALCULATE_IPV4_CHECKSUM_IN_SW) });
     on_hdr get_ipv6_hdr s s (\<lambda>h. upd s (\<lambda>m. set_ipv6_ecn K m h v)) }"

definition platform_packet_set_ip_proto :: "datapacketx86 \<Rightarrow> u8 \<Rightarrow> datapacketx86 option" where
  "platform_packet_set_ip_proto s v = do {
     s \<leftarrow> on_hdr get_ipv4_hdr s s (\<lambda>h. do {
       s \<leftarrow> upd s (\<lambda>m. set_ipv4_proto m h v);
       Some (flag_checksum s RECALCULATE_IPV4_CHECKSUM_IN_SW) });
     on_hdr get_ipv6_hdr s s (\<lambda>h. upd s (\<lambda>m. set_ipv6_next_header m h v)) }"

definition platform_packet_set_ipv4_src :: "datapacketx86 \<Rightarrow> u32 \<Rightarrow> datapacketx86 option" where
  "platform_packet_set_ipv4_src s v = on_hdr get_ipv4_hdr s s (\<lambda>h. do {
       s \<leftarrow> upd s (\<lambda>m. set_ipv4_src m h v);
       Some (flag_checksum (flag_checksum (flag_checksum s RECALCULATE_IPV4_CHECKSUM_IN_SW) RECALCULATE_TCP_CHECKSUM_IN_SW) RECALCULATE_UDP_CHECKSUM_IN_SW) })"

definition platform_packet_set_ipv4_dst :: "datapacketx86 \<Rightarrow> u32 \<Rightarrow> datapacketx86 option" where
  "platform_packet_set_ipv4_dst s v = on_hdr get_ipv4_hdr s s (\<lambda>h. do {
       s \<leftarrow> upd s (\<lambda>m. set_ipv4_dst m h v);
       Some (flag_checksum (flag_checksum (flag_checksum s RECALCULATE_IPV4_CHECKSUM_IN_SW) RECALCULATE_TCP_CHECKSUM_IN_SW) RECALCULATE_UDP_CHECKSUM_IN_SW) })"

definition platform_packet_set_ipv6_src :: "datapacketx86 \<Rightarrow> u128 \<Rightarrow> datapacketx86 option" where
  "platform_packet_set_ipv6_src s v = on_hdr get_ipv6_hdr s s (\<lambda>h. do {
       s \<leftarrow> upd s (\<lambda>m. set_ipv6_src m h v);
       Some (flag_checksum (flag_checksum s RECALCULATE_TCP_CHECKSUM_IN_SW) RECALCULATE_UDP_CHECKSUM_IN_SW) })"

definition platform_packet_set_ipv6_dst :: "datapacketx86 \<Rightarrow> u128 \<Rightarrow> datapacketx86 option" where
  "platform_packet_set_ipv6_dst s v = on_hdr get_ipv6_hdr s s (\<lambda>h. do {
       s \<leftarrow> upd s (\<lambda>m. set_ipv6_dst m h v);
       Some (flag_checksum (flag_checksum s RECALCULATE_TCP_CHECKSUM_IN_SW) RECALCULATE_UDP_CHECKSUM_IN_SW) })"

definition platform_packet_set_ipv6_flabel :: "rofl \<Rightarrow> datapacketx86 \<Rightarrow> u64 \<Rightarrow> datapacketx86 option" where
  "platform_packet_set_ipv6_flabel K s v = on_hdr get_ipv6_hdr s s (\<lambda>h. upd s (\<lambda>m. set_ipv6_flow_label K m h (ucast v)))"

definition platform_packet_set_ipv6_nd_target :: "datapacketx86 \<Rightarrow> u128 \<Rightarrow> datapacketx86 option" where
  "platform_packet_set_ipv6_nd_target s v = on_hdr get_icmpv6_hdr s s (\<lambda>h. do {
       s \<leftarrow> upd s (\<lambda>m. set_icmpv6_neighbor_taddr m h v);
       Some (flag_checksum s RECALCULATE_ICMPV6_CHECKSUM_IN_SW) })"

definition platform_packet_set_ipv6_nd_sll :: "rofl \<Rightarrow> datapacketx86 \<Rightarrow> u64 \<Rightarrow> datapacketx86 option" where
  "platform_packet_set_ipv6_nd_sll K s v = on_hdr get_icmpv6_opt_lladr_source_hdr s s (\<lambda>h. do {
       s \<leftarrow> upd s (\<lambda>m. set_icmpv6_ll_saddr K m h v);
       Some (flag_checksum s RECALCULATE_ICMPV6_CHECKSUM_IN_SW) })"

definition platform_packet_set_ipv6_nd_tll :: "rofl \<Rightarrow> datapacketx86 \<Rightarrow> u64 \<Rightarrow> datapacketx86 option" where
  "platform_packet_set_ipv6_nd_tll K s v = on_hdr get_icmpv6_opt_lladr_target_hdr s s (\<lambda>h. do {
       s \<leftarrow> upd s (\<lambda>m. set_icmpv6_ll_taddr K m h v);
       Some (flag_checksum s RECALCULATE_ICMPV6_CHECKSUM_IN_SW) })"

definition platform_packet_set_ipv6_exthdr :: "datapacketx86 \<Rightarrow> u16 \<Rightarrow> datapacketx86 option" where
  "platform_packet_set_ipv6_exthdr s v = Some s"

definition platform_packet_set_icmpv6_type :: "datapacketx86 \<Rightarrow> u8 \<Rightarrow> datapacketx86 option" where
  "platform_packet_set_icmpv6_type s v = on_hdr get_icmpv6_hdr s s (\<lambda>h. do {
       s \<leftarrow> upd s (\<lambda>m. set_icmpv6_type m h v);
       Some (flag_checksum s RECALCULATE_ICMPV6_CHECKSUM_IN_SW) })"

definition platform_packet_set_icmpv6_code :: "datapacketx86 \<Rightarrow> u8 \<Rightarrow> datapacketx86 option" where
  "platform_packet_set_icmpv6_code s v = on_hdr get_icmpv6_hdr s s (\<lambda>h. do {
       s \<leftarrow> upd s (\<lambda>m. set_icmpv6_code m h v);
       Some (flag_checksum s RECALCULATE_ICMPV6_CHECKSUM_IN_SW) })"

definition platform_packet_set_tcp_src :: "datapacketx86 \<Rightarrow> u16 \<Rightarrow> datapacketx86 option" where
  "platform_packet_set_tcp_src s v = on_hdr get_tcp_hdr s s (\<lambda>h. do {
       s \<leftarrow> upd s (\<lambda>m. set_tcp_sport m h v);
       Some (flag_checksum s RECALCULATE_TCP_CHECKSUM_IN_SW) })"

definition platform_packet_set_tcp_dst :: "datapacketx86 \<Rightarrow> u16 \<Rightarrow> datapacketx86 option" where
  "platform_packet_set_tcp_dst s v = on_hdr get_tcp_hdr s s (\<lambda>h. do {
       s \<leftarrow> upd s (\<lambda>m. set_tcp_dport m h v);
       Some (flag_checksum s RECALCULATE_TCP_CHECKSUM_IN_SW) })"

definition platform_packet_set_udp_src :: "datapacketx86 \<Rightarrow> u16 \<Rightarrow> datapacketx86 option" where
  "platform_packet_set_udp_src s v = on_hdr get_udp_hdr s s (\<lambda>h. do {
       s \<leftarrow> upd s (\<lambda>m. set_udp_sport m h v);
       Some (flag_checksum s RECALCULATE_UDP_CHECKSUM_IN_SW) })"

definition platform_packet_set_udp_dst :: "datapacketx86 \<Rightarrow> u16 \<Rightarrow> datapacketx86 option" where
  "platform_packet_set_udp_dst s v = on_hdr get_udp_hdr s s (\<lambda>h. do {
       s \<leftarrow> upd s (\<lambda>m. set_udp_dport m h v);
       Some (flag_checksum s RECALCULATE_UDP_CHECKSUM_IN_SW) })"

definition platform_packet_set_sctp_src :: "datapacketx86 \<Rightarrow> u16 \<Rightarrow> datapacketx86 option" where
  "platform_packet_set_sctp_src s v = on_hdr get_sctp_hdr s s (\<lambda>h. do {
       s \<leftarrow> upd s (\<lambda>m. set_sctp_sport m h v);
       Some (flag_checksum s RECALCULATE_SCTP_CHECKSUM_IN_SW) })"

definition platform_packet_set_sctp_dst :: "datapacketx86 \<Rightarrow> u16 \<Rightarrow> datapacketx86 option" where
  "platform_packet_set_sctp_dst s v = on_hdr get_sctp_hdr s s (\<lambda>h. do {
       s \<leftarrow> upd s (\<lambda>m. set_sctp_dport m h v);
       Some (flag_checksum s RECALCULATE_SCTP_CHECKSUM_IN_SW) })"

definition platform_packet_set_icmpv4_type :: "datapacketx86 \<Rightarrow> u8 \<Rightarrow> datapacketx86 option" where
  "platform_packet_set_icmpv4_type s v = on_hdr get_icmpv4_hdr s s (\<lambda>h. do {
       s \<leftarrow> upd s (\<lambda>m. set_icmpv4_type m h v);
       Some (flag_checksum s RECALCULATE_ICMPV4_CHECKSUM_IN_SW) })"

definition platform_packet_set_icmpv4_code :: "datapacketx86 \<Rightarrow> u8 \<Rightarrow> datapacketx86 option" where
  "platform_packet_set_icmpv4_code s v = on_hdr get_icmpv4_hdr s s (\<lambda>h. do {
       s \<leftarrow> upd s (\<lambda>m. set_icmpv4_code m h v);
       Some (flag_checksum s RECALCULATE_ICMPV4_CHECKSUM_IN_SW) })"

definition platform_packet_set_mpls_label :: "rofl \<Rightarrow> datapacketx86 \<Rightarrow> u32 \<Rightarrow> datapacketx86 option" where
  "platform_packet_set_mpls_label K s v = on_hdr get_mpls_hdr s s (\<lambda>h. upd s (\<lambda>m. set_mpls_label K m h v))"

definition platform_packet_set_mpls_tc :: "rofl \<Rightarrow> datapacketx86 \<Rightarrow> u8 \<Rightarrow> datapacketx86 option" where
  "platform_packet_set_mpls_tc K s v = on_hdr get_mpls_hdr s s (\<lambda>h. upd s (\<lambda>m. set_mpls_tc K m h v))"

definition platform_packet_set_mpls_bos :: "rofl \<Rightarrow> datapacketx86 \<Rightarrow> bool \<Rightarrow> datapacketx86 option" where
  "platform_packet_set_mpls_bos K s v = on_hdr get_mpls_hdr s s (\<lambda>h. upd s (\<lambda>m. set_mpls_bos K m h v))"

definition platform_packet_set_pbb_isid :: "rofl \<Rightarrow> datapacketx86 \<Rightarrow> u32 \<Rightarrow> datapacketx86 option" where
  "platform_packet_set_pbb_isid K s v = on_hdr get_pbb_isid_hdr s s (\<lambda>h. upd s (\<lambda>m. set_pbb_isid K m h v))"

definition platform_packet_set_tunnel_id :: "datapacketx86 \<Rightarrow> u64 \<Rightarrow> datapacketx86 option" where
  "platform_packet_set_tunnel_id s v = Some s"

definition platform_packet_set_pppoe_type :: "rofl \<Rightarrow> datapacketx86 \<Rightarrow> u8 \<Rightarrow> datapacketx86 option" where
  "platform_packet_set_pppoe_type K s v = on_hdr get_pppoe_hdr s s (\<lambda>h. upd s (\<lambda>m. set_pppoe_type K m h v))"

definition platform_packet_set_pppoe_code :: "datapacketx86 \<Rightarrow> u8 \<Rightarrow> datapacketx86 option" where
  "platform_packet_set_pppoe_code s v = on_hdr get_pppoe_hdr s s (\<lambda>h. upd s (\<lambda>m. set_pppoe_code m h v))"

definition platform_packet_set_pppoe_sid :: "datapacketx86 \<Rightarrow> u16 \<Rightarrow> datapacketx86 option" where
  "platform_packet_set_pppoe_sid s v = on_hdr get_pppoe_hdr s s (\<lambda>h. upd s (\<lambda>m. set_pppoe_sessid m h v))"

definition platform_packet_set_ppp_proto :: "datapacketx86 \<Rightarrow> u16 \<Rightarrow> datapacketx86 option" where
  "platform_packet_set_ppp_proto s v = on_hdr get_ppp_hdr s s (\<lambda>h. upd s (\<lambda>m. set_ppp_prot m h v))"

definition platform_packet_set_gtp_msg_type :: "datapacketx86 \<Rightarrow> u8 \<Rightarrow> datapacketx86 option" where
  "platform_packet_set_gtp_msg_type s v = on_hdr get_gtpu_hdr s s (\<lambda>h. upd s (\<lambda>m. set_gtpu_msg_type m h v))"

definition platform_packet_set_gtp_teid :: "datapacketx86 \<Rightarrow> u32 \<Rightarrow> datapacketx86 option" where
  "platform_packet_set_gtp_teid s v = on_hdr get_gtpu_hdr s s (\<lambda>h. upd s (\<lambda>m. set_gtpu_teid m h v))"

definition platform_packet_set_capwap_wbid :: "datapacketx86 \<Rightarrow> u8 \<Rightarrow> datapacketx86 option" where
  "platform_packet_set_capwap_wbid s v = Some s"

definition platform_packet_set_capwap_rid :: "datapacketx86 \<Rightarrow> u8 \<Rightarrow> datapacketx86 option" where
  "platform_packet_set_capwap_rid s v = Some s"

definition platform_packet_set_capwap_flags :: "datapacketx86 \<Rightarrow> u16 \<Rightarrow> datapacketx86 option" where
  "platform_packet_set_capwap_flags s v = Some s"

definition platform_packet_set_wlan_fc :: "datapacketx86 \<Rightarrow> u16 \<Rightarrow> datapacketx86 option" where
  "platform_packet_set_wlan_fc s v = Some s"

definition platform_packet_set_wlan_type :: "datapacketx86 \<Rightarrow> u8 \<Rightarrow> datapacketx86 option" where
  "platform_packet_set_wlan_type s v = Some s"

definition platform_packet_set_wlan_subtype :: "datapacketx86 \<Rightarrow> u8 \<Rightarrow> datapacketx86 option" where
  "platform_packet_set_wlan_subtype s v = Some s"

definition platform_packet_set_wlan_direction :: "datapacketx86 \<Rightarrow> u8 \<Rightarrow> datapacketx86 option" where
  "platform_packet_set_wlan_direction s v = Some s"

definition platform_packet_set_wlan_address_1 :: "datapacketx86 \<Rightarrow> u64 \<Rightarrow> datapacketx86 option" where
  "platform_packet_set_wlan_address_1 s v = Some s"

definition platform_packet_set_wlan_address_2 :: "datapacketx86 \<Rightarrow> u64 \<Rightarrow> datapacketx86 option" where
  "platform_packet_set_wlan_address_2 s v = Some s"

definition platform_packet_set_wlan_address_3 :: "datapacketx86 \<Rightarrow> u64 \<Rightarrow> datapacketx86 option" where
  "platform_packet_set_wlan_address_3 s v = Some s"

definition platform_packet_set_gre_version :: "datapacketx86 \<Rightarrow> u16 \<Rightarrow> datapacketx86 option" where
  "platform_packet_set_gre_version s v = on_hdr get_gre_hdr s s (\<lambda>h. upd s (\<lambda>m. set_gre_version m h v))"

definition platform_packet_set_gre_prot_type :: "datapacketx86 \<Rightarrow> u16 \<Rightarrow> datapacketx86 option" where
  "platform_packet_set_gre_prot_type s v = on_hdr get_gre_hdr s s (\<lambda>h. upd s (\<lambda>m. set_gre_prot_type m h v))"

definition platform_packet_set_gre_key :: "datapacketx86 \<Rightarrow> u32 \<Rightarrow> datapacketx86 option" where
  "platform_packet_set_gre_key s v = on_hdr get_gre_hdr s s (\<lambda>h. upd s (\<lambda>m. set_gre_key m h v))"

section \<open>Tags\<close>

definition platform_packet_pop_vlan :: "rofl \<Rightarrow> datapacketx86 \<Rightarrow> datapacketx86 option" where
  "platform_packet_pop_vlan K s = pop_vlan K s"

definition platform_packet_pop_mpls :: "rofl \<Rightarrow> datapacketx86 \<Rightarrow> u16 \<Rightarrow> datapacketx86 option" where
  "platform_packet_pop_mpls K s ether_type = pop_mpls K s ether_type"

definition platform_packet_pop_pppoe :: "rofl \<Rightarrow> datapacketx86 \<Rightarrow> u16 \<Rightarrow> datapacketx86 option" where
  "platform_packet_pop_pppoe K s ether_type = pop_pppoe K s ether_type"

definition platform_packet_push_pppoe :: "rofl \<Rightarrow> datapacketx86 \<Rightarrow> u16 \<Rightarrow> datapacketx86 option" where
  "platform_packet_push_pppoe K s ether_type = map_option snd (push_pppoe K s ether_type)"

definition platform_packet_push_mpls :: "rofl \<Rightarrow> datapacketx86 \<Rightarrow> u16 \<Rightarrow> datapacketx86 option" where
  "platform_packet_push_mpls K s ether_type = map_option snd (push_mpls K s ether_type)"

definition platform_packet_push_vlan :: "rofl \<Rightarrow> datapacketx86 \<Rightarrow> u16 \<Rightarrow> datapacketx86 option" where
  "platform_packet_push_vlan K s ether_type = map_option snd (push_vlan K s ether_type)"

definition platform_packet_pop_pbb :: "rofl \<Rightarrow> datapacketx86 \<Rightarrow> datapacketx86 option" where
  "platform_packet_pop_pbb K s = pop_pbb K s"

definition platform_packet_push_pbb :: "rofl \<Rightarrow> datapacketx86 \<Rightarrow> u16 \<Rightarrow> datapacketx86 option" where
  "platform_packet_push_pbb K s ether_type = map_option snd (push_pbb K s ether_type)"

definition platform_packet_pop_gtp :: "rofl \<Rightarrow> datapacketx86 \<Rightarrow> u16 \<Rightarrow> datapacketx86 option" where
  "platform_packet_pop_gtp K s ether_type = pop_gtp K s ether_type"

definition platform_packet_pop_capwap :: "datapacketx86 \<Rightarrow> datapacketx86 option" where
  "platform_packet_pop_capwap s = Some s"

definition platform_packet_push_capwap :: "datapacketx86 \<Rightarrow> datapacketx86 option" where
  "platform_packet_push_capwap s = Some s"

definition platform_packet_pop_wlan :: "datapacketx86 \<Rightarrow> datapacketx86 option" where
  "platform_packet_pop_wlan s = Some s"

definition platform_packet_push_wlan :: "datapacketx86 \<Rightarrow> datapacketx86 option" where
  "platform_packet_push_wlan s = Some s"

definition platform_packet_pop_gre :: "rofl \<Rightarrow> datapacketx86 \<Rightarrow> u16 \<Rightarrow> datapacketx86 option" where
  "platform_packet_pop_gre K s ether_type = pop_gre K s ether_type"

definition platform_packet_push_gre :: "rofl \<Rightarrow> datapacketx86 \<Rightarrow> u16 \<Rightarrow> datapacketx86 option" where
  "platform_packet_push_gre K s ether_type = map_option snd (push_gre K s ether_type)"

definition platform_packet_push_gtp :: "rofl \<Rightarrow> datapacketx86 \<Rightarrow> u16 \<Rightarrow> datapacketx86 option" where
  "platform_packet_push_gtp K s ether_type = do {
     (_, s) \<leftarrow> push_gtp K s ether_type;
     let s = (if ether_type = ETH_TYPE_IPV4 K then flag_checksum s RECALCULATE_IPV4_CHECKSUM_IN_SW else s);
     Some (flag_checksum s RECALCULATE_UDP_CHECKSUM_IN_SW) }"

section \<open>Copying the TTL\<close>

text \<open>With one label only, what follows it is taken for an IP header by its version nibble.\<close>

definition copy_ttl_guess :: "datapacketx86 \<Rightarrow> nat \<Rightarrow> (nat \<Rightarrow> datapacketx86 option) \<Rightarrow> (nat \<Rightarrow> datapacketx86 option) \<Rightarrow>
    datapacketx86 option" where
  "copy_ttl_guess s mpls_hdr on_ipv4 on_ipv6 = do {
     let ip_hdr = mpls_hdr + sizeof cpc_mpls_hdr;
     v \<leftarrow> load (pkt_mem s) (get_ipv4_version ip_hdr);
     let ip_version = drop_bit 4 (v :: u8);
     if ip_version = 4 then on_ipv4 ip_hdr
     else if ip_version = 6 then on_ipv6 ip_hdr
     else Some s }"

definition platform_packet_copy_ttl_in :: "datapacketx86 \<Rightarrow> datapacketx86 option" where
  "platform_packet_copy_ttl_in s = do {
     mpls_hdr \<leftarrow> get_mpls_hdr (clas_state s) 0;
     mpls_hdr_inner \<leftarrow> get_mpls_hdr (clas_state s) 1;
     case mpls_hdr of
       None \<Rightarrow> Some s
     | Some h \<Rightarrow> do {
         let put = (\<lambda>set p. do { ttl \<leftarrow> load (pkt_mem s) (get_mpls_ttl h); upd s (\<lambda>m. set m p ttl) });
         (case mpls_hdr_inner of
            Some inner \<Rightarrow> put set_mpls_ttl inner
          | None \<Rightarrow> copy_ttl_guess s h (put set_ipv4_ttl) (put set_ipv6_hop_limit)) } }"

definition platform_packet_copy_ttl_out :: "datapacketx86 \<Rightarrow> datapacketx86 option" where
  "platform_packet_copy_ttl_out s = do {
     mpls_hdr \<leftarrow> get_mpls_hdr (clas_state s) 0;
     mpls_hdr_inner \<leftarrow> get_mpls_hdr (clas_state s) 1;
     case mpls_hdr of
       None \<Rightarrow> Some s
     | Some h \<Rightarrow> do {
         let put = (\<lambda>p. do { ttl \<leftarrow> load (pkt_mem s) p; upd s (\<lambda>m. set_mpls_ttl m h ttl) });
         (case mpls_hdr_inner of
            Some inner \<Rightarrow> put (get_mpls_ttl inner)
          | None \<Rightarrow> copy_ttl_guess s h (\<lambda>ip. put (get_ipv4_ttl ip)) (\<lambda>ip. put (get_ipv6_hop_limit ip))) } }"

section \<open>Checksums before the packet leaves\<close>

text \<open>The call of one checksum function: the addresses and the protocol are read from the IP header, the
  length is the distance to the end of the frame, passed as 16 bits.\<close>

definition l4_over_ipv4 :: "rofl \<Rightarrow> datapacketx86 \<Rightarrow> nat \<Rightarrow> nat \<Rightarrow>
    (mem \<Rightarrow> nat \<Rightarrow> u32 \<Rightarrow> u32 \<Rightarrow> u8 \<Rightarrow> u16 \<Rightarrow> mem option) \<Rightarrow> datapacketx86 option" where
  "l4_over_ipv4 K s ip hdr calc = do {
     src \<leftarrow> load (pkt_mem s) (get_ipv4_src ip);
     dst \<leftarrow> load (pkt_mem s) (get_ipv4_dst ip);
     proto \<leftarrow> load (pkt_mem s) (get_ipv4_proto ip);
     n \<leftarrow> get_pkt_len K s (object s, hdr) None;
     upd s (\<lambda>m. calc m hdr src dst proto (ucast n)) }"

definition l4_over_ipv6 :: "rofl \<Rightarrow> datapacketx86 \<Rightarrow> nat \<Rightarrow> nat \<Rightarrow> u8 \<Rightarrow>
    (mem \<Rightarrow> nat \<Rightarrow> u128 \<Rightarrow> u128 \<Rightarrow> u8 \<Rightarrow> u16 \<Rightarrow> mem option) \<Rightarrow> datapacketx86 option" where
  "l4_over_ipv6 K s ip hdr proto calc = do {
     src \<leftarrow> load (pkt_mem s) (get_ipv6_src ip);
     dst \<leftarrow> load (pkt_mem s) (get_ipv6_dst ip);
     n \<leftarrow> get_pkt_len K s (object s, hdr) None;
     upd s (\<lambda>m. calc m hdr src dst proto (ucast n)) }"

abbreviation flagged :: "datapacketx86 \<Rightarrow> calculate_checksum \<Rightarrow> bool" where
  "flagged s c \<equiv> is_recalculate_checksum_flag_set (clas_state s) c"

definition checksums_over_ipv4 :: "rofl \<Rightarrow> datapacketx86 \<Rightarrow> nat \<Rightarrow> datapacketx86 option" where
  "checksums_over_ipv4 K s ip = do {
     tcp \<leftarrow> get_tcp_hdr (clas_state s) 0;
     udp \<leftarrow> get_udp_hdr (clas_state s) 0;
     icmpv4 \<leftarrow> get_icmpv4_hdr (clas_state s) 0;
     gre \<leftarrow> get_gre_hdr (clas_state s) 0;
     if flagged s RECALCULATE_TCP_CHECKSUM_IN_SW \<and> tcp \<noteq> None
       then l4_over_ipv4 K s ip (the tcp) (tcpv4_calc_checksum K)
     else if flagged s RECALCULATE_UDP_CHECKSUM_IN_SW \<and> udp \<noteq> None
       then l4_over_ipv4 K s ip (the udp) (udpv4_calc_checksum K)
     else if flagged s RECALCULATE_ICMPV4_CHECKSUM_IN_SW \<and> icmpv4 \<noteq> None then do {
       n \<leftarrow> get_pkt_len K s (object s, the icmpv4) None;
       upd s (\<lambda>m. icmpv4_calc_checksum m (the icmpv4) (ucast n)) }
     else if flagged s RECALCULATE_GRE_CHECKSUM_IN_SW \<and> gre \<noteq> None
       then l4_over_ipv4 K s ip (the gre) grev4_calc_checksum
     else Some s }"

definition checksums_over_ipv6 :: "rofl \<Rightarrow> datapacketx86 \<Rightarrow> nat \<Rightarrow> datapacketx86 option" where
  "checksums_over_ipv6 K s ip = do {
     tcp \<leftarrow> get_tcp_hdr (clas_state s) 0;
     udp \<leftarrow> get_udp_hdr (clas_state s) 0;
     icmpv6 \<leftarrow> get_icmpv6_hdr (clas_state s) 0;
     gre \<leftarrow> get_gre_hdr (clas_state s) 0;
     if flagged s RECALCULATE_TCP_CHECKSUM_IN_SW \<and> tcp \<noteq> None
       then l4_over_ipv6 K s ip (the tcp) TCP_IP_PROTO (tcpv6_calc_checksum K)
     else if flagged s RECALCULATE_UDP_CHECKSUM_IN_SW \<and> udp \<noteq> None
       then l4_over_ipv6 K s ip (the udp) UDP_IP_PROTO (udpv6_calc_checksum K)
     else if flagged s RECALCULATE_ICMPV6_CHECKSUM_IN_SW \<and> icmpv6 \<noteq> None
       then l4_over_ipv6 K s ip (the icmpv6) ICMPV6_IP_PROTO (icmpv6_calc_checksum K)
     else if flagged s RECALCULATE_GRE_CHECKSUM_IN_SW \<and> gre \<noteq> None
       then l4_over_ipv6 K s ip (the gre) GRE_IP_PROTO grev6_calc_checksum
     else Some s }"

definition checksum_over_sctp :: "rofl \<Rightarrow> datapacketx86 \<Rightarrow> datapacketx86 option" where
  "checksum_over_sctp K s = do {
     sctp \<leftarrow> get_sctp_hdr (clas_state s) 0;
     if flagged s RECALCULATE_SCTP_CHECKSUM_IN_SW \<and> sctp \<noteq> None then do {
       n \<leftarrow> get_pkt_len K s (object s, the sctp) None;
       upd s (\<lambda>m. sctp_calc_checksum K m (the sctp) (ucast n)) }
     else Some s }"

definition calculate_checksums_in_software :: "rofl \<Rightarrow> datapacketx86 \<Rightarrow> datapacketx86 option" where
  "calculate_checksums_in_software K s = do {
     fipv4 \<leftarrow> get_ipv4_hdr (clas_state s) 0;
     fipv6 \<leftarrow> get_ipv6_hdr (clas_state s) 0;
     s \<leftarrow> (if flagged s RECALCULATE_IPV4_CHECKSUM_IN_SW \<and> fipv4 \<noteq> None
          then upd s (\<lambda>m. ipv4_calc_checksum m (the fipv4)) else Some s);
     s \<leftarrow> (case fipv4 of Some ip \<Rightarrow> checksums_over_ipv4 K s ip | None \<Rightarrow> Some s);
     s \<leftarrow> (case fipv6 of Some ip \<Rightarrow> checksums_over_ipv6 K s ip | None \<Rightarrow> Some s);
     checksum_over_sctp K s }"

section \<open>Copies of a packet\<close>

definition platform_packet_set_queue :: "datapacketx86 \<Rightarrow> u32 \<Rightarrow> datapacketx86" where
  "platform_packet_set_queue s queue = s\<lparr>output_queue := queue\<rparr>"

text \<open>\<open>clone_pkt_contents\<close>; the result of \<open>init\<close> is ignored.\<close>

definition clone_pkt_contents :: "rofl \<Rightarrow> datapacketx86 \<Rightarrow> datapacketx86 \<Rightarrow> datapacketx86 option" where
  "clone_pkt_contents K src dst = do {
     (_, dst) \<leftarrow> init_pkt K dst (Some (object_mem src (fst (get_buffer src)), snd (get_buffer src))) (get_buffer_length src)
                   (lsw src) (port_in (clas_state src)) (phy_port_in (clas_state src)) False True;
     Some (dst\<lparr>output_queue := output_queue src,
              clas_state := (clas_state dst)\<lparr>clas_type := clas_type (clas_state src),
                port_in := port_in (clas_state src), phy_port_in := phy_port_in (clas_state src),
                calculate_checksums_in_sw := calculate_checksums_in_sw (clas_state src)\<rparr>\<rparr>) }"

section \<open>What a getter and its setter promise\<close>

text \<open>
  \<open>sets_field\<close>: without the header nothing happens; otherwise the bits of the mask in the word the getter
  points to become those of the argument, its other bits and all other bytes stay, the pointer stays, and
  apart from the bytes only the flags of the named checksums are set.
\<close>

definition sets_field ::
  "(datapacketx86 \<Rightarrow> 'a::len word \<Rightarrow> datapacketx86 option) \<Rightarrow> (datapacketx86 \<Rightarrow> nat option option) \<Rightarrow> 'a word \<Rightarrow>
   calculate_checksum list \<Rightarrow> bool" where
  "sets_field put get msk flags \<longleftrightarrow> (\<forall>s v.
     case get s of
       None \<Rightarrow> put s v = None
     | Some None \<Rightarrow> put s v = Some s
     | Some (Some p) \<Rightarrow>
         if length (pkt_mem s) < p + LENGTH('a) div 8 then put s v = None
         else \<exists>s' x. put s v = Some s' \<and> get s' = Some (Some p) \<and> load (pkt_mem s) p = Some x \<and>
           load (pkt_mem s') p = Some (merge_mask msk v x) \<and> length (pkt_mem s') = length (pkt_mem s) \<and>
           (\<forall>i < length (pkt_mem s). \<not> (p \<le> i \<and> i < p + LENGTH('a) div 8) \<longrightarrow> pkt_mem s' ! i = pkt_mem s ! i) \<and>
           s' = (set_mem s (object s) (pkt_mem s'))
             \<lparr>clas_state := fold (\<lambda>f c. set_recalculate_checksum c f) flags (clas_state s)\<rparr>)"

lemma fold_flag_checksum:
  "fold (\<lambda>f s. flag_checksum s f) flags s =
     s\<lparr>clas_state := fold (\<lambda>f c. set_recalculate_checksum c f) flags (clas_state s)\<rparr>"
  by (induction flags arbitrary: s) (simp_all add: flag_checksum_def)

lemma fold_recalculate:
  "\<exists>x. fold (\<lambda>f c. set_recalculate_checksum c f) flags c = c\<lparr>calculate_checksums_in_sw := x\<rparr>"
proof (induction flags arbitrary: c)
  case Nil
  show ?case by (intro exI [of _ "calculate_checksums_in_sw c"]) simp
next
  case (Cons f flags)
  from Cons [of "set_recalculate_checksum c f"] show ?case by (auto simp: set_recalculate_checksum_def)
qed

lemma pkt_mem_set_mem:
  "pkt_mem ((set_mem s (object s) m)\<lparr>clas_state := c\<rparr>) = m" "clas_state (set_mem s ob m) = clas_state s"
  "object (set_mem s ob m) = object s"
  by (auto simp: set_mem_def object_mem_def)

lemma set_mem_same_object:
  "set_mem s (object s) (pkt_mem ((set_mem s (object s) m)\<lparr>clas_state := c\<rparr>)) = set_mem s (object s) m"
  unfolding pkt_mem_set_mem ..

locale packet_field = field_setter wr off msk
  for wr :: "mem \<Rightarrow> nat \<Rightarrow> 'a::len word \<Rightarrow> mem option" and off msk +
  fixes hdr :: "classifier_state \<Rightarrow> int \<Rightarrow> nat option option"
    and put :: "datapacketx86 \<Rightarrow> 'a word \<Rightarrow> datapacketx86 option"
    and get :: "datapacketx86 \<Rightarrow> nat option option"
    and flags :: "calculate_checksum list"
  assumes put: "put s v = on_hdr hdr s s (\<lambda>h. map_option (fold (\<lambda>f s. flag_checksum s f) flags) (upd s (\<lambda>m. wr m h v)))"
    and get: "get s = on_hdr hdr s None (\<lambda>h. Some (Some (h + off)))"
    and hdr_flags: "hdr (c\<lparr>calculate_checksums_in_sw := x\<rparr>) i = hdr c i"
begin

lemma sets: "sets_field put get msk flags"
  unfolding sets_field_def
proof (intro allI)
  fix s :: datapacketx86 and v :: "'a word"
  let ?c = "fold (\<lambda>f c. set_recalculate_checksum c f) flags (clas_state s)"
  show "case get s of
       None \<Rightarrow> put s v = None
     | Some None \<Rightarrow> put s v = Some s
     | Some (Some p) \<Rightarrow>
         if length (pkt_mem s) < p + LENGTH('a) div 8 then put s v = None
         else \<exists>s' x. put s v = Some s' \<and> get s' = Some (Some p) \<and> load (pkt_mem s) p = Some x \<and>
           load (pkt_mem s') p = Some (merge_mask msk v x) \<and> length (pkt_mem s') = length (pkt_mem s) \<and>
           (\<forall>i < length (pkt_mem s). \<not> (p \<le> i \<and> i < p + LENGTH('a) div 8) \<longrightarrow> pkt_mem s' ! i = pkt_mem s ! i) \<and>
           s' = (set_mem s (object s) (pkt_mem s'))\<lparr>clas_state := ?c\<rparr>"
  proof (cases "hdr (clas_state s) 0")
    case None
    then show ?thesis by (simp add: put get on_hdr_def)
  next
    case (Some q)
    show ?thesis
    proof (cases q)
      case None
      then show ?thesis using Some by (simp add: put get on_hdr_def)
    next
      case q: (Some h)
      have g: "get s = Some (Some (h + off))" using Some q by (simp add: get on_hdr_def)
      show ?thesis
      proof (cases "wr (pkt_mem s) h v")
        case None
        then show ?thesis using Some q g wr_None [of "pkt_mem s" h v] by (simp add: put on_hdr_def upd_def)
      next
        case m: (Some m)
        define s' where "s' = (set_mem s (object s) m)\<lparr>clas_state := ?c\<rparr>"
        have s': "put s v = Some s'"
          using Some q m by (simp add: put on_hdr_def upd_def fold_flag_checksum pkt_mem_set_mem s'_def)
        obtain x where "?c = (clas_state s)\<lparr>calculate_checksums_in_sw := x\<rparr>" using fold_recalculate by blast
        then have "get s' = Some (Some (h + off))" using Some q hdr_flags by (simp add: get on_hdr_def s'_def)
        moreover have "pkt_mem s' = m" "s' = (set_mem s (object s) (pkt_mem s'))\<lparr>clas_state := ?c\<rparr>"
          unfolding s'_def by (simp_all only: pkt_mem_set_mem)
        moreover have "\<not> length (pkt_mem s) < h + off + LENGTH('a) div 8" using wr_None [of "pkt_mem s" h v] m by simp
        ultimately show ?thesis
          using g s' wr_load [OF m] wr_length [OF m] wr_outside [OF m] by auto
      qed
    qed
  qed
qed

end

text \<open>The position of a header does not depend on the flags.\<close>

lemma PT_GET_HDR_flags [simp]:
  "PT_GET_HDR (c\<lparr>calculate_checksums_in_sw := x\<rparr>) p = PT_GET_HDR c p"
  "PT_GET_HDR_first (c\<lparr>calculate_checksums_in_sw := x\<rparr>) ps = PT_GET_HDR_first c ps"
proof -
  show hdr: "PT_GET_HDR (c\<lparr>calculate_checksums_in_sw := x\<rparr>) p = PT_GET_HDR c p" for p
    by (simp add: PT_GET_HDR_def)
  show "PT_GET_HDR_first (c\<lparr>calculate_checksums_in_sw := x\<rparr>) ps = PT_GET_HDR_first c ps"
    by (induction ps) (simp_all add: hdr cong: if_cong)
qed

lemma hdr_flags [simp]:
  "get_arpv4_hdr (c\<lparr>calculate_checksums_in_sw := x\<rparr>) i = get_arpv4_hdr c i"
  "get_ether_hdr (c\<lparr>calculate_checksums_in_sw := x\<rparr>) i = get_ether_hdr c i"
  "get_gre_hdr (c\<lparr>calculate_checksums_in_sw := x\<rparr>) i = get_gre_hdr c i"
  "get_gtpu_hdr (c\<lparr>calculate_checksums_in_sw := x\<rparr>) i = get_gtpu_hdr c i"
  "get_icmpv4_hdr (c\<lparr>calculate_checksums_in_sw := x\<rparr>) i = get_icmpv4_hdr c i"
  "get_icmpv6_hdr (c\<lparr>calculate_checksums_in_sw := x\<rparr>) i = get_icmpv6_hdr c i"
  "get_icmpv6_opt_lladr_source_hdr (c\<lparr>calculate_checksums_in_sw := x\<rparr>) i = get_icmpv6_opt_lladr_source_hdr c i"
  "get_icmpv6_opt_lladr_target_hdr (c\<lparr>calculate_checksums_in_sw := x\<rparr>) i = get_icmpv6_opt_lladr_target_hdr c i"
  "get_ipv4_hdr (c\<lparr>calculate_checksums_in_sw := x\<rparr>) i = get_ipv4_hdr c i"
  "get_ipv6_hdr (c\<lparr>calculate_checksums_in_sw := x\<rparr>) i = get_ipv6_hdr c i"
  "get_pbb_isid_hdr (c\<lparr>calculate_checksums_in_sw := x\<rparr>) i = get_pbb_isid_hdr c i"
  "get_ppp_hdr (c\<lparr>calculate_checksums_in_sw := x\<rparr>) i = get_ppp_hdr c i"
  "get_pppoe_hdr (c\<lparr>calculate_checksums_in_sw := x\<rparr>) i = get_pppoe_hdr c i"
  "get_sctp_hdr (c\<lparr>calculate_checksums_in_sw := x\<rparr>) i = get_sctp_hdr c i"
  "get_tcp_hdr (c\<lparr>calculate_checksums_in_sw := x\<rparr>) i = get_tcp_hdr c i"
  "get_udp_hdr (c\<lparr>calculate_checksums_in_sw := x\<rparr>) i = get_udp_hdr c i"
  "get_vlan_hdr (c\<lparr>calculate_checksums_in_sw := x\<rparr>) i = get_vlan_hdr c i"
  by (simp_all add: get_arpv4_hdr_def
    get_ether_hdr_def
    get_gre_hdr_def
    get_gtpu_hdr_def
    get_icmpv4_hdr_def
    get_icmpv6_hdr_def
    get_icmpv6_opt_lladr_source_hdr_def
    get_icmpv6_opt_lladr_target_hdr_def
    get_ipv4_hdr_def
    get_ipv6_hdr_def
    get_pbb_isid_hdr_def
    get_ppp_hdr_def
    get_pppoe_hdr_def
    get_sctp_hdr_def
    get_tcp_hdr_def
    get_udp_hdr_def
    get_vlan_hdr_def
    del: PT_GET_HDR_first.simps)

lemma mpls_hdr_flags [simp]: "get_mpls_hdr (c\<lparr>calculate_checksums_in_sw := x\<rparr>) i = get_mpls_hdr c i"
  by (cases "clas_type c") (simp_all add: get_mpls_hdr_def Let_def cong: if_cong)

text \<open>The setters are written without the fold over the flags.\<close>

lemma setter_fold:
  "map_option (fold (\<lambda>f s. flag_checksum s f) []) r = r"
  "map_option (fold (\<lambda>f s. flag_checksum s f) [a]) r = r \<bind> (\<lambda>s. Some (flag_checksum s a))"
  "map_option (fold (\<lambda>f s. flag_checksum s f) [a, b]) r = r \<bind> (\<lambda>s. Some (flag_checksum (flag_checksum s a) b))"
  "map_option (fold (\<lambda>f s. flag_checksum s f) [a, b, d]) r =
     r \<bind> (\<lambda>s. Some (flag_checksum (flag_checksum (flag_checksum s a) b) d))"
  by (cases r; simp)+

interpretation set_eth_dst_field: packet_field "set_ether_dl_dst K" 0 "OF1X_6_BYTE_MASK K" get_ether_hdr "platform_packet_set_eth_dst K" platform_packet_get_eth_dst
    "[]" for K
  by unfold_locales (simp_all add: platform_packet_set_eth_dst_def platform_packet_get_eth_dst_def get_ether_dl_dst_def layout setter_fold
    del: fold_Nil fold_Cons)

interpretation set_eth_src_field: packet_field "set_ether_dl_src K" 6 "OF1X_6_BYTE_MASK K" get_ether_hdr "platform_packet_set_eth_src K" platform_packet_get_eth_src
    "[]" for K
  by unfold_locales (simp_all add: platform_packet_set_eth_src_def platform_packet_get_eth_src_def get_ether_dl_src_def layout setter_fold
    del: fold_Nil fold_Cons)

interpretation set_vlan_vid_field: packet_field "set_vlan_id K" 0 "OF1X_VLAN_ID_MASK K" get_vlan_hdr "platform_packet_set_vlan_vid K" platform_packet_get_vlan_vid
    "[]" for K
  by unfold_locales (simp_all add: platform_packet_set_vlan_vid_def platform_packet_get_vlan_vid_def get_vlan_id_def layout setter_fold
    del: fold_Nil fold_Cons)

interpretation set_vlan_pcp_field: packet_field "set_vlan_pcp K" 0 "OF1X_3MSBITS_MASK K" get_vlan_hdr "platform_packet_set_vlan_pcp K" platform_packet_get_vlan_pcp
    "[]" for K
  by unfold_locales (simp_all add: platform_packet_set_vlan_pcp_def platform_packet_get_vlan_pcp_def get_vlan_pcp_def layout setter_fold
    del: fold_Nil fold_Cons)

interpretation set_arp_opcode_field: packet_field set_arpv4_opcode 6 "- 1" get_arpv4_hdr platform_packet_set_arp_opcode platform_packet_get_arp_opcode
    "[]"
  by unfold_locales (simp_all add: platform_packet_set_arp_opcode_def platform_packet_get_arp_opcode_def get_arpv4_opcode_def layout setter_fold
    del: fold_Nil fold_Cons)

interpretation set_arp_sha_field: packet_field "set_arpv4_dl_src K" 8 "OF1X_6_BYTE_MASK K" get_arpv4_hdr "platform_packet_set_arp_sha K" platform_packet_get_arp_sha
    "[]" for K
  by unfold_locales (simp_all add: platform_packet_set_arp_sha_def platform_packet_get_arp_sha_def get_arpv4_dl_src_def layout setter_fold
    del: fold_Nil fold_Cons)

interpretation set_arp_spa_field: packet_field set_arpv4_ip_src 14 "- 1" get_arpv4_hdr platform_packet_set_arp_spa platform_packet_get_arp_spa
    "[]"
  by unfold_locales (simp_all add: platform_packet_set_arp_spa_def platform_packet_get_arp_spa_def get_arpv4_ip_src_def layout setter_fold
    del: fold_Nil fold_Cons)

interpretation set_arp_tha_field: packet_field "set_arpv4_dl_dst K" 18 "OF1X_6_BYTE_MASK K" get_arpv4_hdr "platform_packet_set_arp_tha K" platform_packet_get_arp_tha
    "[]" for K
  by unfold_locales (simp_all add: platform_packet_set_arp_tha_def platform_packet_get_arp_tha_def get_arpv4_dl_dst_def layout setter_fold
    del: fold_Nil fold_Cons)

interpretation set_arp_tpa_field: packet_field set_arpv4_ip_dst 24 "- 1" get_arpv4_hdr platform_packet_set_arp_tpa platform_packet_get_arp_tpa
    "[]"
  by unfold_locales (simp_all add: platform_packet_set_arp_tpa_def platform_packet_get_arp_tpa_def get_arpv4_ip_dst_def layout setter_fold
    del: fold_Nil fold_Cons)

interpretation set_ipv4_src_field: packet_field set_ipv4_src 12 "- 1" get_ipv4_hdr platform_packet_set_ipv4_src platform_packet_get_ipv4_src
    "[RECALCULATE_IPV4_CHECKSUM_IN_SW, RECALCULATE_TCP_CHECKSUM_IN_SW, RECALCULATE_UDP_CHECKSUM_IN_SW]"
  by unfold_locales (simp_all add: platform_packet_set_ipv4_src_def platform_packet_get_ipv4_src_def get_ipv4_src_def layout setter_fold
    del: fold_Nil fold_Cons)

interpretation set_ipv4_dst_field: packet_field set_ipv4_dst 16 "- 1" get_ipv4_hdr platform_packet_set_ipv4_dst platform_packet_get_ipv4_dst
    "[RECALCULATE_IPV4_CHECKSUM_IN_SW, RECALCULATE_TCP_CHECKSUM_IN_SW, RECALCULATE_UDP_CHECKSUM_IN_SW]"
  by unfold_locales (simp_all add: platform_packet_set_ipv4_dst_def platform_packet_get_ipv4_dst_def get_ipv4_dst_def layout setter_fold
    del: fold_Nil fold_Cons)

interpretation set_ipv6_src_field: packet_field set_ipv6_src 8 "- 1" get_ipv6_hdr platform_packet_set_ipv6_src platform_packet_get_ipv6_src
    "[RECALCULATE_TCP_CHECKSUM_IN_SW, RECALCULATE_UDP_CHECKSUM_IN_SW]"
  by unfold_locales (simp_all add: platform_packet_set_ipv6_src_def platform_packet_get_ipv6_src_def get_ipv6_src_def layout setter_fold
    del: fold_Nil fold_Cons)

interpretation set_ipv6_dst_field: packet_field set_ipv6_dst 24 "- 1" get_ipv6_hdr platform_packet_set_ipv6_dst platform_packet_get_ipv6_dst
    "[RECALCULATE_TCP_CHECKSUM_IN_SW, RECALCULATE_UDP_CHECKSUM_IN_SW]"
  by unfold_locales (simp_all add: platform_packet_set_ipv6_dst_def platform_packet_get_ipv6_dst_def get_ipv6_dst_def layout setter_fold
    del: fold_Nil fold_Cons)

interpretation set_ipv6_nd_sll_field: packet_field "set_icmpv6_ll_saddr K" 2 "OF1X_6_BYTE_MASK K" get_icmpv6_opt_lladr_source_hdr "platform_packet_set_ipv6_nd_sll K" platform_packet_get_ipv6_nd_sll
    "[RECALCULATE_ICMPV6_CHECKSUM_IN_SW]" for K
  by unfold_locales (simp_all add: platform_packet_set_ipv6_nd_sll_def platform_packet_get_ipv6_nd_sll_def get_icmpv6_ll_saddr_def layout setter_fold
    del: fold_Nil fold_Cons)

interpretation set_ipv6_nd_tll_field: packet_field "set_icmpv6_ll_taddr K" 2 "OF1X_6_BYTE_MASK K" get_icmpv6_opt_lladr_target_hdr "platform_packet_set_ipv6_nd_tll K" platform_packet_get_ipv6_nd_tll
    "[RECALCULATE_ICMPV6_CHECKSUM_IN_SW]" for K
  by unfold_locales (simp_all add: platform_packet_set_ipv6_nd_tll_def platform_packet_get_ipv6_nd_tll_def get_icmpv6_ll_taddr_def layout setter_fold
    del: fold_Nil fold_Cons)

interpretation set_icmpv6_type_field: packet_field set_icmpv6_type 0 "- 1" get_icmpv6_hdr platform_packet_set_icmpv6_type platform_packet_get_icmpv6_type
    "[RECALCULATE_ICMPV6_CHECKSUM_IN_SW]"
  by unfold_locales (simp_all add: platform_packet_set_icmpv6_type_def platform_packet_get_icmpv6_type_def get_icmpv6_type_def layout setter_fold
    del: fold_Nil fold_Cons)

interpretation set_icmpv6_code_field: packet_field set_icmpv6_code 1 "- 1" get_icmpv6_hdr platform_packet_set_icmpv6_code platform_packet_get_icmpv6_code
    "[RECALCULATE_ICMPV6_CHECKSUM_IN_SW]"
  by unfold_locales (simp_all add: platform_packet_set_icmpv6_code_def platform_packet_get_icmpv6_code_def get_icmpv6_code_def layout setter_fold
    del: fold_Nil fold_Cons)

interpretation set_tcp_src_field: packet_field set_tcp_sport 0 "- 1" get_tcp_hdr platform_packet_set_tcp_src platform_packet_get_tcp_src
    "[RECALCULATE_TCP_CHECKSUM_IN_SW]"
  by unfold_locales (simp_all add: platform_packet_set_tcp_src_def platform_packet_get_tcp_src_def get_tcp_sport_def layout setter_fold
    del: fold_Nil fold_Cons)

interpretation set_tcp_dst_field: packet_field set_tcp_dport 2 "- 1" get_tcp_hdr platform_packet_set_tcp_dst platform_packet_get_tcp_dst
    "[RECALCULATE_TCP_CHECKSUM_IN_SW]"
  by unfold_locales (simp_all add: platform_packet_set_tcp_dst_def platform_packet_get_tcp_dst_def get_tcp_dport_def layout setter_fold
    del: fold_Nil fold_Cons)

interpretation set_udp_src_field: packet_field set_udp_sport 0 "- 1" get_udp_hdr platform_packet_set_udp_src platform_packet_get_udp_src
    "[RECALCULATE_UDP_CHECKSUM_IN_SW]"
  by unfold_locales (simp_all add: platform_packet_set_udp_src_def platform_packet_get_udp_src_def get_udp_sport_def layout setter_fold
    del: fold_Nil fold_Cons)

interpretation set_udp_dst_field: packet_field set_udp_dport 2 "- 1" get_udp_hdr platform_packet_set_udp_dst platform_packet_get_udp_dst
    "[RECALCULATE_UDP_CHECKSUM_IN_SW]"
  by unfold_locales (simp_all add: platform_packet_set_udp_dst_def platform_packet_get_udp_dst_def get_udp_dport_def layout setter_fold
    del: fold_Nil fold_Cons)

interpretation set_sctp_src_field: packet_field set_sctp_sport 0 "- 1" get_sctp_hdr platform_packet_set_sctp_src platform_packet_get_sctp_src
    "[RECALCULATE_SCTP_CHECKSUM_IN_SW]"
  by unfold_locales (simp_all add: platform_packet_set_sctp_src_def platform_packet_get_sctp_src_def get_sctp_sport_def layout setter_fold
    del: fold_Nil fold_Cons)

interpretation set_sctp_dst_field: packet_field set_sctp_dport 2 "- 1" get_sctp_hdr platform_packet_set_sctp_dst platform_packet_get_sctp_dst
    "[RECALCULATE_SCTP_CHECKSUM_IN_SW]"
  by unfold_locales (simp_all add: platform_packet_set_sctp_dst_def platform_packet_get_sctp_dst_def get_sctp_dport_def layout setter_fold
    del: fold_Nil fold_Cons)

interpretation set_icmpv4_type_field: packet_field set_icmpv4_type 0 "- 1" get_icmpv4_hdr platform_packet_set_icmpv4_type platform_packet_get_icmpv4_type
    "[RECALCULATE_ICMPV4_CHECKSUM_IN_SW]"
  by unfold_locales (simp_all add: platform_packet_set_icmpv4_type_def platform_packet_get_icmpv4_type_def get_icmpv4_type_def layout setter_fold
    del: fold_Nil fold_Cons)

interpretation set_icmpv4_code_field: packet_field set_icmpv4_code 1 "- 1" get_icmpv4_hdr platform_packet_set_icmpv4_code platform_packet_get_icmpv4_code
    "[RECALCULATE_ICMPV4_CHECKSUM_IN_SW]"
  by unfold_locales (simp_all add: platform_packet_set_icmpv4_code_def platform_packet_get_icmpv4_code_def get_icmpv4_code_def layout setter_fold
    del: fold_Nil fold_Cons)

interpretation set_mpls_label_field: packet_field "set_mpls_label K" 0 "OF1X_20_BITS_MASK K" get_mpls_hdr "platform_packet_set_mpls_label K" platform_packet_get_mpls_label
    "[]" for K
  by unfold_locales (simp_all add: platform_packet_set_mpls_label_def platform_packet_get_mpls_label_def get_mpls_label_def layout setter_fold
    del: fold_Nil fold_Cons)

interpretation set_mpls_tc_field: packet_field "set_mpls_tc K" 2 "OF1X_BITS_12AND3_MASK K" get_mpls_hdr "platform_packet_set_mpls_tc K" platform_packet_get_mpls_tc
    "[]" for K
  by unfold_locales (simp_all add: platform_packet_set_mpls_tc_def platform_packet_get_mpls_tc_def get_mpls_tc_def layout setter_fold
    del: fold_Nil fold_Cons)

interpretation set_pbb_isid_field: packet_field "set_pbb_isid K" 1 "OF1X_3_BYTE_MASK K" get_pbb_isid_hdr "platform_packet_set_pbb_isid K" platform_packet_get_pbb_isid
    "[]" for K
  by unfold_locales (simp_all add: platform_packet_set_pbb_isid_def platform_packet_get_pbb_isid_def get_pbb_isid_def layout setter_fold
    del: fold_Nil fold_Cons)

interpretation set_pppoe_type_field: packet_field "set_pppoe_type K" 0 "OF1X_4LSBITS_MASK K" get_pppoe_hdr "platform_packet_set_pppoe_type K" platform_packet_get_pppoe_type
    "[]" for K
  by unfold_locales (simp_all add: platform_packet_set_pppoe_type_def platform_packet_get_pppoe_type_def get_pppoe_type_def layout setter_fold
    del: fold_Nil fold_Cons)

interpretation set_pppoe_code_field: packet_field set_pppoe_code 1 "- 1" get_pppoe_hdr platform_packet_set_pppoe_code platform_packet_get_pppoe_code
    "[]"
  by unfold_locales (simp_all add: platform_packet_set_pppoe_code_def platform_packet_get_pppoe_code_def get_pppoe_code_def layout setter_fold
    del: fold_Nil fold_Cons)

interpretation set_pppoe_sid_field: packet_field set_pppoe_sessid 2 "- 1" get_pppoe_hdr platform_packet_set_pppoe_sid platform_packet_get_pppoe_sid
    "[]"
  by unfold_locales (simp_all add: platform_packet_set_pppoe_sid_def platform_packet_get_pppoe_sid_def get_pppoe_sessid_def layout setter_fold
    del: fold_Nil fold_Cons)

interpretation set_ppp_proto_field: packet_field set_ppp_prot 0 "- 1" get_ppp_hdr platform_packet_set_ppp_proto platform_packet_get_ppp_proto
    "[]"
  by unfold_locales (simp_all add: platform_packet_set_ppp_proto_def platform_packet_get_ppp_proto_def get_ppp_prot_def layout setter_fold
    del: fold_Nil fold_Cons)

interpretation set_gtp_msg_type_field: packet_field set_gtpu_msg_type 1 "- 1" get_gtpu_hdr platform_packet_set_gtp_msg_type platform_packet_get_gtp_msg_type
    "[]"
  by unfold_locales (simp_all add: platform_packet_set_gtp_msg_type_def platform_packet_get_gtp_msg_type_def get_gtpu_msg_type_def layout setter_fold
    del: fold_Nil fold_Cons)

interpretation set_gtp_teid_field: packet_field set_gtpu_teid 4 "- 1" get_gtpu_hdr platform_packet_set_gtp_teid platform_packet_get_gtp_teid
    "[]"
  by unfold_locales (simp_all add: platform_packet_set_gtp_teid_def platform_packet_get_gtp_teid_def get_gtpu_teid_def layout setter_fold
    del: fold_Nil fold_Cons)

interpretation set_gre_version_field: packet_field set_gre_version 0 GRE_VERSION_MASK get_gre_hdr platform_packet_set_gre_version platform_packet_get_gre_version
    "[]"
  by unfold_locales (simp_all add: platform_packet_set_gre_version_def platform_packet_get_gre_version_def get_gre_version_def layout setter_fold
    del: fold_Nil fold_Cons)

interpretation set_gre_prot_type_field: packet_field set_gre_prot_type 2 "- 1" get_gre_hdr platform_packet_set_gre_prot_type platform_packet_get_gre_prot_type
    "[]"
  by unfold_locales (simp_all add: platform_packet_set_gre_prot_type_def platform_packet_get_gre_prot_type_def get_gre_prot_type_def layout setter_fold
    del: fold_Nil fold_Cons)

section \<open>The TCP checksum of a frame that leaves\<close>

lemma upd_ok:
  assumes "in_user s" and "f (pkt_mem s) = Some m" and "length m = length (pkt_mem s)"
  shows "\<exists>s'. upd s f = Some s' \<and> in_user s' \<and> clas_state s' = clas_state s \<and> pkt_mem s' = m \<and> object s' = object s"
  using assms in_user_facts [OF assms(1)]
  by (simp add: upd_def in_user_def wf_pkt_def set_mem_def object_mem_def guards)

lemma drop_store: "store m a (c :: u16) = Some m' \<Longrightarrow> a + 2 \<le> b \<Longrightarrow> drop b m' = drop b m"
  using le_Suc_ex [of "a + 2" b] by (auto simp: store_def ac_simps split: if_splits)

lemma ipv4_calc_checksum_ok:
  assumes "hdr + 20 \<le> length m"
  shows "\<exists>m'. ipv4_calc_checksum m hdr = Some m' \<and> length m' = length m \<and> drop (hdr + 12) m' = drop (hdr + 12) m"
proof -
  let ?S = "le_sum (take 10 (drop hdr m) @ [0, 0] @ take (2 * 10 - (10 + 2)) (drop (hdr + 10 + 2) m))"
  obtain m' and c :: u16 where "ipv4_calc_checksum m hdr = Some m'" "store m (hdr + 10) c = Some m'"
    using single_fold [of 10 10 hdr m ?S "ipv4_calc_checksum m hdr"] assms
    by (auto simp: ipv4_calc_checksum_def layout)
  then show ?thesis using length_store drop_store [of m "hdr + 10" c m' "hdr + 12"] by auto
qed

text \<open>The positions of the headers of a TCP segment in IPv4.\<close>

lemma tcp_hdrs:
  assumes "clas_type c = Some (l2 @ [IPV4_noptions k, TCP])" and "l2 \<in> set l2_types"
  shows "get_ipv4_hdr c 0 = Some (Some (base c + total_size l2))"
    and "get_tcp_hdr c 0 = Some (Some (base c + (total_size l2 + 20 + 4 * k)))"
    and "get_ipv6_hdr c 0 = Some None" and "get_sctp_hdr c 0 = Some None"
    and "\<exists>p q r. get_udp_hdr c 0 = Some p \<and> get_icmpv4_hdr c 0 = Some q \<and> get_gre_hdr c 0 = Some r"
proof -
  have none: "protocol_offsets_bt l2 p = None"
    if "p \<in> {PT_PROTO_IPV4, PT_PROTO_TCP, PT_PROTO_IPV6, PT_PROTO_SCTP}" for p
    using assms(2) that by (auto simp: l2_types_def)
  show "get_ipv4_hdr c 0 = Some (Some (base c + total_size l2))"
    and "get_tcp_hdr c 0 = Some (Some (base c + (total_size l2 + 20 + 4 * k)))"
    and "get_ipv6_hdr c 0 = Some None" and "get_sctp_hdr c 0 = Some None"
    and "\<exists>p q r. get_udp_hdr c 0 = Some p \<and> get_icmpv4_hdr c 0 = Some q \<and> get_gre_hdr c 0 = Some r"
    by (simp_all add: assms(1) none offsets_append get_ipv4_hdr_def get_tcp_hdr_def get_ipv6_hdr_def get_sctp_hdr_def
        get_udp_hdr_def get_icmpv4_hdr_def get_gre_hdr_def PT_GET_HDR_def add.assoc split: option.splits)
qed

lemma tcp_step:
  assumes s: "in_user s" and K: "le_host K" and ip: "ip + 20 \<le> base (clas_state s) + t"
    and t: "t + 18 \<le> unat (len (clas_state s))"
  shows "\<exists>s' src dst proto. l4_over_ipv4 K s ip (base (clas_state s) + t) (tcpv4_calc_checksum K) = Some s' \<and>
     in_user s' \<and> clas_state s' = clas_state s \<and>
     load (pkt_mem s') (ip + 12) = Some src \<and> load (pkt_mem s') (ip + 16) = Some dst \<and>
     load (pkt_mem s') (ip + 9) = Some proto \<and>
     drop (t + 18) (frame s') = drop (t + 18) (frame s) \<and>
     internet_valid (pseudo_header4 src dst proto (of_nat (length (frame s) - t)) @ drop t (frame s'))"
proof -
  let ?m = "pkt_mem s" and ?h = "base (clas_state s) + t" and ?l = "unat (len (clas_state s))"
  note facts = in_user_facts [OF s]
  obtain src dst :: u32 and proto :: u8 where ld: "load ?m (ip + 12) = Some src" "load ?m (ip + 16) = Some dst"
    "load ?m (ip + 9) = Some proto"
    using load_defined [of "ip + 12" ?m, where 'a = 32] load_defined [of "ip + 16" ?m, where 'a = 32]
      load_defined [of "ip + 9" ?m, where 'a = 8] ip t facts by auto
  define n :: u16 where "n = ucast (len (clas_state s) - of_nat t)"
  have "unat (len (clas_state s) - of_nat t) = ?l - t"
    using t facts(5) by (simp add: unat_sub word_le_nat_alt unat_of_nat)
  then have n: "unat n = ?l - t"
    using facts(5) by (simp add: n_def unsigned_ucast_eq take_bit_nat_eq_self)
  then have n_of: "n = of_nat (?l - t)" using n by (metis of_nat_unat ucast_id)
  have len: "16 + 2 \<le> unat n" "?h + unat n \<le> length ?m" using n t facts by simp_all
  obtain c :: u16 and m' where m': "tcpv4_calc_checksum K ?m ?h src dst proto n = Some m'" "store ?m (?h + 16) c = Some m'"
    by (rule tcpv4.calc_Some [OF len, of K src dst proto]) auto
  have v: "internet_valid (pseudo_header4 src dst proto n @ take (unat n) (drop ?h m'))"
    using tcpv4.valid [OF len, of K src dst proto] m'(1) pseudo_header(1) [OF K] by auto
  have same: "load m' (ip + 12) = Some src" "load m' (ip + 16) = Some dst" "load m' (ip + 9) = Some proto"
    using load_store_other [OF m'(2), of "ip + 12", where 'a = 32] load_store_other [OF m'(2), of "ip + 16", where 'a = 32]
      load_store_other [OF m'(2), of "ip + 9", where 'a = 8] ld ip by (simp_all add: disjoint_def)
  have lm: "length m' = length ?m" using length_store [OF m'(2)] .
  obtain s' where s': "upd s (\<lambda>m. tcpv4_calc_checksum K m ?h src dst proto n) = Some s'" "in_user s'"
    "clas_state s' = clas_state s" "pkt_mem s' = m'"
    using upd_ok [OF s, of "\<lambda>m. tcpv4_calc_checksum K m ?h src dst proto n" m'] m'(1) lm by auto
  have "drop t (frame s') = take (unat n) (drop ?h m')"
    by (simp add: frame_def view_def s' n drop_take add.commute)
  moreover have "get_pkt_len K s (object s, ?h) None = Some (len (clas_state s) - of_nat t)"
    by (simp add: get_pkt_len_def c_assert_def)
  ultimately have "l4_over_ipv4 K s ip ?h (tcpv4_calc_checksum K) = Some s'"
    using ld s'(1) by (simp add: l4_over_ipv4_def layout get_ipv4_src_def get_ipv4_dst_def get_ipv4_proto_def n_def)
  moreover have "drop (t + 18) (frame s') = drop (t + 18) (frame s)"
    using drop_store [OF m'(2), of "?h + 18"] by (simp add: frame_def view_def s' drop_take ac_simps)
  ultimately show ?thesis
    using s' same v \<open>drop t (frame s') = _\<close> n_of length_frame_user [OF s] by auto
qed

text \<open>A segment that is valid with some zero bytes behind it is not valid without them: the length counts.\<close>

lemma be_sum_zeros: "be_sum (bs @ replicate n 0) = be_sum bs"
proof -
  have zeros: "set zs \<subseteq> {0} \<Longrightarrow> be_sum zs = 0" for zs
    by (induction zs rule: be_sum.induct) auto
  have z: "be_sum (replicate n 0) = 0" for n by (rule zeros) auto
  show ?thesis
  proof (induction bs rule: be_sum.induct)
    case (2 a)
    then show ?case using z by (cases n) auto
  qed (simp_all add: z)
qed

lemma be_sum_pseudo_header4:
  "be_sum (pseudo_header4 src dst proto n @ bs) = be_sum (to_bytes src @ to_bytes dst @ [0, proto]) + unat n + be_sum bs"
proof -
  let ?p = "to_bytes src @ to_bytes dst @ [0, proto]"
  have "unat n = 256 * unat (ucast (drop_bit 8 n) :: u8) + unat (ucast n :: u8)"
  proof -
    have "unat n < 2 ^ LENGTH(16)" by (rule unsigned_less)
    then have "unat n div 256 < 256" by (simp add: less_mult_imp_div_less)
    then show ?thesis by (simp add: unsigned_ucast_eq take_bit_eq_mod drop_bit_eq_div unat_div_distrib)
  qed
  then have "be_sum (be16 n @ bs) = unat n + be_sum bs" by (simp add: be16_def)
  moreover have "even (length ?p)" by simp
  ultimately have "be_sum (?p @ be16 n @ bs) = be_sum ?p + (unat n + be_sum bs)"
    by (simp only: be_sum_append)
  then show ?thesis by (simp add: pseudo_header4_def)
qed

lemma shorter_segment:
  assumes "internet_valid (pseudo_header4 src dst proto (of_nat (length seg + pad)) @ seg @ replicate pad 0)"
    and "length seg + pad < 65536" and "0 < pad" and "18 \<le> length seg"
  shows "\<not> internet_valid (pseudo_header4 src dst proto (of_nat (length seg)) @ seg)"
proof
  define x where "x = be_sum (to_bytes src @ to_bytes dst @ [0, proto]) + length seg + be_sum seg"
  have unat: "unat (of_nat (length seg) :: u16) = length seg" "unat (of_nat (length seg + pad) :: u16) = length seg + pad"
    using assms(2) by (simp_all only: unat_of_nat) simp_all
  assume "internet_valid (pseudo_header4 src dst proto (of_nat (length seg)) @ seg)"
  then have "x mod 65535 = 0"
    unfolding internet_valid_def be_sum_pseudo_header4 unat x_def by simp
  moreover have "(x + pad) mod 65535 = 0"
    using assms(1) unfolding internet_valid_def be_sum_pseudo_header4 unat be_sum_zeros x_def by (simp add: ac_simps)
  ultimately have "pad mod 65535 = 0" using mod_add_left_eq [of x 65535 pad] by simp
  then show False using assms(2-4) by simp
qed

lemma tcp_checksum_core:
  assumes s: "in_user s" and K: "le_host K" and l2: "l2 \<in> set l2_types"
    and t: "clas_type (clas_state s) = Some (l2 @ [IPV4_noptions k, TCP])"
    and flag: "is_recalculate_checksum_flag_set (clas_state s) RECALCULATE_TCP_CHECKSUM_IN_SW"
    and n: "total_size l2 + 20 + 4 * k + 18 \<le> length (frame s)"
  shows "\<exists>s' src dst proto. calculate_checksums_in_software K s = Some s' \<and> in_user s' \<and>
     clas_state s' = clas_state s \<and>
     load (view s') (total_size l2 + 12) = Some src \<and> load (view s') (total_size l2 + 16) = Some dst \<and>
     load (view s') (total_size l2 + 9) = Some proto \<and>
     drop (total_size l2 + 20 + 4 * k + 18) (frame s') = drop (total_size l2 + 20 + 4 * k + 18) (frame s) \<and>
     internet_valid (pseudo_header4 src dst proto (of_nat (length (frame s) - (total_size l2 + 20 + 4 * k))) @
       drop (total_size l2 + 20 + 4 * k) (frame s'))"
proof -
  let ?ip = "base (clas_state s) + total_size l2" and ?t = "total_size l2 + 20 + 4 * k"
  note hdrs = tcp_hdrs [OF t l2]
  have len: "?t + 18 \<le> unat (len (clas_state s))" using n length_frame_user [OF s] by simp
  have "?ip + 20 \<le> length (pkt_mem s)" using len in_user_facts [OF s] by simp
  then obtain m where m: "ipv4_calc_checksum (pkt_mem s) ?ip = Some m" "length m = length (pkt_mem s)"
    "drop (?ip + 12) m = drop (?ip + 12) (pkt_mem s)"
    using ipv4_calc_checksum_ok by blast
  obtain s1 where s1: "(if flagged s RECALCULATE_IPV4_CHECKSUM_IN_SW \<and> Some ?ip \<noteq> None
       then upd s (\<lambda>m. ipv4_calc_checksum m (the (Some ?ip))) else Some s) = Some s1"
    "in_user s1" "clas_state s1 = clas_state s" "drop (?ip + 12) (pkt_mem s1) = drop (?ip + 12) (pkt_mem s)"
    using upd_ok [OF s, of "\<lambda>m. ipv4_calc_checksum m ?ip" m] m s
    by (cases "flagged s RECALCULATE_IPV4_CHECKSUM_IN_SW") auto
  obtain s' and src dst :: u32 and proto :: u8 where s':
    "l4_over_ipv4 K s1 ?ip (base (clas_state s1) + ?t) (tcpv4_calc_checksum K) = Some s'"
    "in_user s'" "clas_state s' = clas_state s1" "load (pkt_mem s') (?ip + 12) = Some src"
    "load (pkt_mem s') (?ip + 16) = Some dst" "load (pkt_mem s') (?ip + 9) = Some proto"
    "drop (?t + 18) (frame s') = drop (?t + 18) (frame s1)"
    "internet_valid (pseudo_header4 src dst proto (of_nat (length (frame s1) - ?t)) @ drop ?t (frame s'))"
    using tcp_step [OF s1(2) K, of ?ip ?t] len s1(3) by auto
  have flag_sctp: "checksum_over_sctp K s' = Some s'" using hdrs(4) s'(3) s1(3) by (simp add: checksum_over_sctp_def)
  have "checksums_over_ipv4 K s1 ?ip = Some s'"
    using s'(1) hdrs(2,5) s1(3) flag by (auto simp: checksums_over_ipv4_def)
  then have "calculate_checksums_in_software K s = Some s'"
    using hdrs(1,3) s1(1) flag_sctp by (simp add: calculate_checksums_in_software_def)
  moreover have "load (view s') (total_size l2 + 12) = Some src" "load (view s') (total_size l2 + 16) = Some dst"
    "load (view s') (total_size l2 + 9) = Some proto"
    using load_view [OF s'(2), of "?ip + 12" "total_size l2 + 12", where 'a = 32]
      load_view [OF s'(2), of "?ip + 16" "total_size l2 + 16", where 'a = 32]
      load_view [OF s'(2), of "?ip + 9" "total_size l2 + 9", where 'a = 8] s'(3-6) s1(3) by (simp_all add: add.assoc)
  moreover have "length (frame s1) = length (frame s)"
    using length_frame_user [OF s1(2)] length_frame_user [OF s] s1(3) by simp
  moreover have "drop (?t + 18) (frame s1) = drop (?t + 18) (frame s)"
  proof -
    have "drop (?ip + 12 + (26 + 4 * k)) (pkt_mem s1) = drop (?ip + 12 + (26 + 4 * k)) (pkt_mem s)"
      using s1(4) by (simp only: drop_drop [symmetric] add.commute [of _ "26 + 4 * k"])
    then show ?thesis by (simp add: frame_def view_def drop_take s1(3) ac_simps)
  qed
  ultimately show ?thesis using s'(2,3,7,8) s1(3) by metis
qed
section \<open>Properties\<close>

text \<open>A setter that has not been written yet.\<close>

definition does_nothing :: "(datapacketx86 \<Rightarrow> 'a \<Rightarrow> datapacketx86 option) \<Rightarrow> bool" where
  "does_nothing put \<longleftrightarrow> (\<forall>s v. put s v = Some s)"

text \<open>C36: The 36 setters whose field has a getter that hands out a pointer to it: without the header the setter leaves
  the packet alone; with it, the bits of the field's mask become those of the argument, all other bits and bytes and the
  position of the field stay, and exactly the listed checksums are marked to be calculated again. (The addresses of IPv6 do
  not mark the ICMPv6 checksum, whose pseudo header they belong to, and the GTP, GRE and MPLS fields inside a UDP or GRE
  payload mark no checksum at all.) The twelve setters of the IPv6 extension header, the tunnel identifier, CAPWAP and WLAN
  change nothing. Not covered are the other setters: those that write both the IPv4 and the IPv6 header
  (code point, congestion bits, protocol, time to live), and those of the MPLS time to live and bottom of stack, the
  Ethertype, the flow label, the neighbour discovery target and the GRE key.\<close>

theorem setters_write_their_field:
  "sets_field (platform_packet_set_eth_dst K) platform_packet_get_eth_dst (OF1X_6_BYTE_MASK K) [] \<and>
   sets_field (platform_packet_set_eth_src K) platform_packet_get_eth_src (OF1X_6_BYTE_MASK K) [] \<and>
   sets_field (platform_packet_set_vlan_vid K) platform_packet_get_vlan_vid (OF1X_VLAN_ID_MASK K) [] \<and>
   sets_field (platform_packet_set_vlan_pcp K) platform_packet_get_vlan_pcp (OF1X_3MSBITS_MASK K) [] \<and>
   sets_field platform_packet_set_arp_opcode platform_packet_get_arp_opcode (- 1) [] \<and>
   sets_field (platform_packet_set_arp_sha K) platform_packet_get_arp_sha (OF1X_6_BYTE_MASK K) [] \<and>
   sets_field platform_packet_set_arp_spa platform_packet_get_arp_spa (- 1) [] \<and>
   sets_field (platform_packet_set_arp_tha K) platform_packet_get_arp_tha (OF1X_6_BYTE_MASK K) [] \<and>
   sets_field platform_packet_set_arp_tpa platform_packet_get_arp_tpa (- 1) [] \<and>
   sets_field platform_packet_set_ipv4_src platform_packet_get_ipv4_src (- 1) [RECALCULATE_IPV4_CHECKSUM_IN_SW, RECALCULATE_TCP_CHECKSUM_IN_SW, RECALCULATE_UDP_CHECKSUM_IN_SW] \<and>
   sets_field platform_packet_set_ipv4_dst platform_packet_get_ipv4_dst (- 1) [RECALCULATE_IPV4_CHECKSUM_IN_SW, RECALCULATE_TCP_CHECKSUM_IN_SW, RECALCULATE_UDP_CHECKSUM_IN_SW] \<and>
   sets_field platform_packet_set_ipv6_src platform_packet_get_ipv6_src (- 1) [RECALCULATE_TCP_CHECKSUM_IN_SW, RECALCULATE_UDP_CHECKSUM_IN_SW] \<and>
   sets_field platform_packet_set_ipv6_dst platform_packet_get_ipv6_dst (- 1) [RECALCULATE_TCP_CHECKSUM_IN_SW, RECALCULATE_UDP_CHECKSUM_IN_SW] \<and>
   sets_field (platform_packet_set_ipv6_nd_sll K) platform_packet_get_ipv6_nd_sll (OF1X_6_BYTE_MASK K) [RECALCULATE_ICMPV6_CHECKSUM_IN_SW] \<and>
   sets_field (platform_packet_set_ipv6_nd_tll K) platform_packet_get_ipv6_nd_tll (OF1X_6_BYTE_MASK K) [RECALCULATE_ICMPV6_CHECKSUM_IN_SW] \<and>
   sets_field platform_packet_set_icmpv6_type platform_packet_get_icmpv6_type (- 1) [RECALCULATE_ICMPV6_CHECKSUM_IN_SW] \<and>
   sets_field platform_packet_set_icmpv6_code platform_packet_get_icmpv6_code (- 1) [RECALCULATE_ICMPV6_CHECKSUM_IN_SW] \<and>
   sets_field platform_packet_set_tcp_src platform_packet_get_tcp_src (- 1) [RECALCULATE_TCP_CHECKSUM_IN_SW] \<and>
   sets_field platform_packet_set_tcp_dst platform_packet_get_tcp_dst (- 1) [RECALCULATE_TCP_CHECKSUM_IN_SW] \<and>
   sets_field platform_packet_set_udp_src platform_packet_get_udp_src (- 1) [RECALCULATE_UDP_CHECKSUM_IN_SW] \<and>
   sets_field platform_packet_set_udp_dst platform_packet_get_udp_dst (- 1) [RECALCULATE_UDP_CHECKSUM_IN_SW] \<and>
   sets_field platform_packet_set_sctp_src platform_packet_get_sctp_src (- 1) [RECALCULATE_SCTP_CHECKSUM_IN_SW] \<and>
   sets_field platform_packet_set_sctp_dst platform_packet_get_sctp_dst (- 1) [RECALCULATE_SCTP_CHECKSUM_IN_SW] \<and>
   sets_field platform_packet_set_icmpv4_type platform_packet_get_icmpv4_type (- 1) [RECALCULATE_ICMPV4_CHECKSUM_IN_SW] \<and>
   sets_field platform_packet_set_icmpv4_code platform_packet_get_icmpv4_code (- 1) [RECALCULATE_ICMPV4_CHECKSUM_IN_SW] \<and>
   sets_field (platform_packet_set_mpls_label K) platform_packet_get_mpls_label (OF1X_20_BITS_MASK K) [] \<and>
   sets_field (platform_packet_set_mpls_tc K) platform_packet_get_mpls_tc (OF1X_BITS_12AND3_MASK K) [] \<and>
   sets_field (platform_packet_set_pbb_isid K) platform_packet_get_pbb_isid (OF1X_3_BYTE_MASK K) [] \<and>
   sets_field (platform_packet_set_pppoe_type K) platform_packet_get_pppoe_type (OF1X_4LSBITS_MASK K) [] \<and>
   sets_field platform_packet_set_pppoe_code platform_packet_get_pppoe_code (- 1) [] \<and>
   sets_field platform_packet_set_pppoe_sid platform_packet_get_pppoe_sid (- 1) [] \<and>
   sets_field platform_packet_set_ppp_proto platform_packet_get_ppp_proto (- 1) [] \<and>
   sets_field platform_packet_set_gtp_msg_type platform_packet_get_gtp_msg_type (- 1) [] \<and>
   sets_field platform_packet_set_gtp_teid platform_packet_get_gtp_teid (- 1) [] \<and>
   sets_field platform_packet_set_gre_version platform_packet_get_gre_version (GRE_VERSION_MASK) [] \<and>
   sets_field platform_packet_set_gre_prot_type platform_packet_get_gre_prot_type (- 1) [] \<and>
   does_nothing platform_packet_set_ipv6_exthdr \<and>
   does_nothing platform_packet_set_tunnel_id \<and>
   does_nothing platform_packet_set_capwap_wbid \<and>
   does_nothing platform_packet_set_capwap_rid \<and>
   does_nothing platform_packet_set_capwap_flags \<and>
   does_nothing platform_packet_set_wlan_fc \<and>
   does_nothing platform_packet_set_wlan_type \<and>
   does_nothing platform_packet_set_wlan_subtype \<and>
   does_nothing platform_packet_set_wlan_direction \<and>
   does_nothing platform_packet_set_wlan_address_1 \<and>
   does_nothing platform_packet_set_wlan_address_2 \<and>
   does_nothing platform_packet_set_wlan_address_3"
  by (intro conjI set_eth_dst_field.sets
    set_eth_src_field.sets
    set_vlan_vid_field.sets
    set_vlan_pcp_field.sets
    set_arp_opcode_field.sets
    set_arp_sha_field.sets
    set_arp_spa_field.sets
    set_arp_tha_field.sets
    set_arp_tpa_field.sets
    set_ipv4_src_field.sets
    set_ipv4_dst_field.sets
    set_ipv6_src_field.sets
    set_ipv6_dst_field.sets
    set_ipv6_nd_sll_field.sets
    set_ipv6_nd_tll_field.sets
    set_icmpv6_type_field.sets
    set_icmpv6_code_field.sets
    set_tcp_src_field.sets
    set_tcp_dst_field.sets
    set_udp_src_field.sets
    set_udp_dst_field.sets
    set_sctp_src_field.sets
    set_sctp_dst_field.sets
    set_icmpv4_type_field.sets
    set_icmpv4_code_field.sets
    set_mpls_label_field.sets
    set_mpls_tc_field.sets
    set_pbb_isid_field.sets
    set_pppoe_type_field.sets
    set_pppoe_code_field.sets
    set_pppoe_sid_field.sets
    set_ppp_proto_field.sets
    set_gtp_msg_type_field.sets
    set_gtp_teid_field.sets
    set_gre_version_field.sets
    set_gre_prot_type_field.sets)
    (simp_all add: does_nothing_def platform_packet_set_ipv6_exthdr_def platform_packet_set_tunnel_id_def platform_packet_set_capwap_wbid_def platform_packet_set_capwap_rid_def platform_packet_set_capwap_flags_def platform_packet_set_wlan_fc_def platform_packet_set_wlan_type_def platform_packet_set_wlan_subtype_def platform_packet_set_wlan_direction_def platform_packet_set_wlan_address_1_def platform_packet_set_wlan_address_2_def platform_packet_set_wlan_address_3_def)

text \<open>C37: Before a TCP segment over IPv4 leaves with its checksum flagged: the calculation returns, keeps the
  packet well-formed and its classification, and the receiver's test succeeds on the pseudo header of
  the IP header in the packet and all bytes from the TCP header to the end of the frame.\<close>

theorem tcp_checksum_of_frame:
  assumes s: "in_user s" and K: "le_host K" and l2: "l2 \<in> set l2_types"
    and t: "clas_type (clas_state s) = Some (l2 @ [IPV4_noptions k, TCP])"
    and flag: "is_recalculate_checksum_flag_set (clas_state s) RECALCULATE_TCP_CHECKSUM_IN_SW"
    and n: "total_size l2 + 20 + 4 * k + 18 \<le> length (frame s)"
  shows "\<exists>s' src dst proto. calculate_checksums_in_software K s = Some s' \<and> in_user s' \<and>
     clas_state s' = clas_state s \<and>
     load (view s') (total_size l2 + 12) = Some src \<and> load (view s') (total_size l2 + 16) = Some dst \<and>
     load (view s') (total_size l2 + 9) = Some proto \<and>
     internet_valid (pseudo_header4 src dst proto (of_nat (length (frame s) - (total_size l2 + 20 + 4 * k))) @
       drop (total_size l2 + 20 + 4 * k) (frame s'))"
  using tcp_checksum_core [OF assms] by blast

text \<open>The length in the pseudo header and the bytes summed up run to the end of the frame. When the frame
  ends in zero bytes of padding behind the segment (Ethernet pads to 60 bytes), the receiver, who takes
  the segment's length from the IP header, rejects the checksum stored, for every amount of padding.\<close>

lemma padding_breaks_tcp_checksum:
  assumes s: "in_user s" and K: "le_host K" and l2: "l2 \<in> set l2_types"
    and t: "clas_type (clas_state s) = Some (l2 @ [IPV4_noptions k, TCP])"
    and flag: "is_recalculate_checksum_flag_set (clas_state s) RECALCULATE_TCP_CHECKSUM_IN_SW"
    and n: "length (frame s) = total_size l2 + 20 + 4 * k + n + pad" "18 \<le> n"
    and pad: "0 < pad" "drop (total_size l2 + 20 + 4 * k + n) (frame s) = replicate pad 0"
  shows "\<exists>s' src dst proto. calculate_checksums_in_software K s = Some s' \<and>
     load (view s') (total_size l2 + 12) = Some src \<and> load (view s') (total_size l2 + 16) = Some dst \<and>
     load (view s') (total_size l2 + 9) = Some proto \<and>
     \<not> internet_valid (pseudo_header4 src dst proto (of_nat n) @ take n (drop (total_size l2 + 20 + 4 * k) (frame s')))"
proof -
  let ?t = "total_size l2 + 20 + 4 * k"
  have "?t + 18 \<le> length (frame s)" using n by simp
  from tcp_checksum_core [OF s K l2 t flag this]
  obtain s' and src dst :: u32 and proto :: u8 where s': "calculate_checksums_in_software K s = Some s'" "in_user s'"
    "clas_state s' = clas_state s"
    "load (view s') (total_size l2 + 12) = Some src" "load (view s') (total_size l2 + 16) = Some dst"
    "load (view s') (total_size l2 + 9) = Some proto" "drop (?t + 18) (frame s') = drop (?t + 18) (frame s)"
    "internet_valid (pseudo_header4 src dst proto (of_nat (length (frame s) - ?t)) @ drop ?t (frame s'))"
    by blast
  have l: "length (frame s') = length (frame s)" using length_frame_user s s'(2,3) by simp
  have "drop (?t + n) (frame s') = drop (n - 18) (drop (?t + 18) (frame s'))" using n(2) by (simp add: ac_simps)
  also have "\<dots> = drop (?t + n) (frame s)" unfolding s'(7) using n(2) by (simp add: ac_simps)
  finally have tail: "drop ?t (frame s') = take n (drop ?t (frame s')) @ replicate pad 0"
    using pad(2) append_take_drop_id [of n "drop ?t (frame s')"] by (simp add: ac_simps)
  have "n + pad < 65536" using n(1) length_frame_user [OF s] in_user_facts(5) [OF s] by simp
  then show ?thesis
    using shorter_segment [of src dst proto "take n (drop ?t (frame s'))" pad] s' n l tail pad(1)
    by (intro exI [of _ s'] exI [of _ src] exI [of _ dst] exI [of _ proto]) simp
qed

text \<open>\<open>clone_pkt_contents\<close>: for a frame of at most 9000 bytes the copy is well-formed in its own buffer,
  has the same bytes, 256 bytes of room, and the same classification, ports, pending checksums, switch and
  queue. A frame that pushes have made longer is refused by \<open>init\<close>, the result is not looked at, and
  the copy keeps its old bytes under the new classification.\<close>

lemma clone_is_copy:
  assumes src: "wf_pkt src" and dst: "length (user_space_buffer dst) = 9320"
  shows "\<exists>d. clone_pkt_contents K src dst = Some d \<and>
     clas_type (clas_state d) = clas_type (clas_state src) \<and> port_in (clas_state d) = port_in (clas_state src) \<and>
     phy_port_in (clas_state d) = phy_port_in (clas_state src) \<and>
     calculate_checksums_in_sw (clas_state d) = calculate_checksums_in_sw (clas_state src) \<and>
     output_queue d = output_queue src \<and>
     (if length (frame src) \<le> 9000
      then wf_pkt d \<and> buffering_status d = X86_DATAPACKET_BUFFERED_IN_USER_SPACE \<and> frame d = frame src \<and>
        room d = 256 \<and> lsw d = lsw src
      else frame d = frame dst \<and> user_space_buffer d = user_space_buffer dst \<and> lsw d = lsw dst)"
proof (cases "length (frame src) \<le> 9000")
  case False
  then have "of_nat FRAME_SIZE_BYTES < get_buffer_length src"
    using length_frame [OF src] by (simp add: get_buffer_length_def guards word_less_nat_alt)
  with False show ?thesis
    by (simp add: clone_pkt_contents_def init_pkt_def frame_def view_def object_mem_def)
next
  case True
  let ?n = "len (clas_state src)" and ?a = "base (clas_state src)"
  have n: "unat ?n \<le> 9000" "\<not> of_nat FRAME_SIZE_BYTES < ?n" "?a + unat ?n \<le> length (pkt_mem src)"
    using True length_frame [OF src] src
    by (cases "buffering_status src"; simp add: guards word_less_nat_alt wf_pkt_def object_mem_def)+
  let ?d0 = "use_user_space dst"
  obtain m where m: "length m = 9320" "debug_clear K ?d0 = Some (?d0\<lparr>user_space_buffer := m\<rparr>)"
    using debug_clear_ok [of ?d0 K] dst by (auto simp: use_user_space_def)
  obtain b where b: "platform_memcpy m 256 (pkt_mem src) ?a (unat ?n) = Some b"
    using memcpy_defined [of 256 "unat ?n" m ?a "pkt_mem src"] n m(1) by auto
  note copied = memcpy_Some [OF b]
  show ?thesis
    using True n m b copied
    by (simp add: clone_pkt_contents_def init_pkt_def init_internal_buffer_location_defaults_def use_user_space_def
        get_buffer_def get_buffer_length_def dst wf_pkt_def frame_def view_def object_mem_def room_def guards)
qed

text \<open>Packets for the witnesses: 54 bytes of TCP over IPv4, padded to 60.\<close>

definition tcp_pkt :: datapacketx86 where
  "tcp_pkt = flag_checksum (typed_pkt [ETHERNET, IPV4_noptions 0, TCP] (replicate 54 1 @ replicate 6 0))
     RECALCULATE_TCP_CHECKSUM_IN_SW"

lemma tcp_pkt:
  "in_user tcp_pkt" "frame tcp_pkt = replicate 54 1 @ replicate 6 0"
  "clas_type (clas_state tcp_pkt) = Some ([ETHERNET] @ [IPV4_noptions 0, TCP])"
  "is_recalculate_checksum_flag_set (clas_state tcp_pkt) RECALCULATE_TCP_CHECKSUM_IN_SW"
proof -
  let ?f = "replicate 54 1 @ replicate 6 0 :: mem"
  have "length ?f \<le> 9000" by simp
  note pkt = typed_pkt [OF this, of "[ETHERNET, IPV4_noptions 0, TCP]"]
  show "in_user tcp_pkt" "frame tcp_pkt = ?f" "clas_type (clas_state tcp_pkt) = Some ([ETHERNET] @ [IPV4_noptions 0, TCP])"
    using pkt by (simp_all add: tcp_pkt_def flag_checksum_def with_clas set_recalculate_checksum_def)
  show "is_recalculate_checksum_flag_set (clas_state tcp_pkt) RECALCULATE_TCP_CHECKSUM_IN_SW"
    by (simp add: tcp_pkt_def flag_checksum_def typed_pkt_def set_clas_type_def user_pkt_def
        is_recalculate_checksum_flag_set_def set_recalculate_checksum_def)
qed

lemma ethernet_l2: "[ETHERNET] \<in> set l2_types"
  by (simp add: l2_types_def)

theorem tcp_checksum_of_frame_witness:
  "\<exists>s' src dst proto. calculate_checksums_in_software std_rofl tcp_pkt = Some s' \<and>
     load (view s') 26 = Some src \<and> load (view s') 30 = Some dst \<and> load (view s') 23 = Some proto \<and>
     internet_valid (pseudo_header4 src dst proto 26 @ drop 34 (frame s'))"
  using tcp_checksum_of_frame [OF tcp_pkt(1) std_rofl_le_host ethernet_l2 tcp_pkt(3,4)]
  by (auto simp: tcp_pkt(2))

end
