(* ===== verification/Circular_Queue.thy ===== *)
theory Circular_Queue
  imports Rofl
begin

text \<open>
  \<open>util/circular_queue.h\<close>, the ring buffer between the threads of the driver (input and output queues
  of the ports, PACKET\_IN queue, free list of the buffer pool), as it is built without \<open>PTHREAD_IMP\<close>:
  lock-free, with compare-and-swap on three pointers. The pointers into \<open>elements\<close> are indices, a
  pointer \<open>T*\<close> an option (\<open>None\<close> is \<open>NULL\<close>).

  Each access to a shared member is one atomic step of the thread that makes it: \<open>advance\<close> is the
  step, \<open>step\<close> interleaves the threads in any order, \<open>solo\<close> lets one of them run alone.
  The memory is sequentially consistent: on the x86 the driver is written for, the only plain store
  (\<open>*write_cpy = elem\<close>) is followed by a locked instruction of the same thread.
\<close>

section \<open>The ring\<close>

record 'a circular_queue =
  slots :: u64
  elements :: "'a option list"
  writep :: nat
  writep2 :: nat
  readp :: nat

datatype queue_error = eCircularQueueInvalidSize

text \<open>\<open>is_full(write, read)\<close>, \<open>is_empty(write, read)\<close>; the variants without arguments use the members.\<close>

definition is_full_at :: "'a circular_queue \<Rightarrow> nat \<Rightarrow> nat \<Rightarrow> bool" where
  "is_full_at q w r \<longleftrightarrow> of_nat (w + 1) AND (slots q - 1) = of_nat r"

definition is_empty_at :: "nat \<Rightarrow> nat \<Rightarrow> bool" where
  "is_empty_at w r \<longleftrightarrow> w = r"

definition is_full :: "'a circular_queue \<Rightarrow> bool" where
  "is_full q \<longleftrightarrow> of_nat (writep q + 1) AND (slots q - 1) = of_nat (readp q)"

definition is_empty :: "'a circular_queue \<Rightarrow> bool" where
  "is_empty q \<longleftrightarrow> writep q = readp q"

definition circ_inc_pointer :: "'a circular_queue \<Rightarrow> nat \<Rightarrow> nat" where
  "circ_inc_pointer q p = (if unat (slots q) = p + 1 then 0 else p + 1)"

text \<open>\<open>size\<close>: the difference of the pointers is converted to the unsigned type of \<open>slots\<close>, the result
  to \<open>unsigned int\<close>.\<close>

definition queue_size :: "'a circular_queue \<Rightarrow> u32" where
  "queue_size q = ucast (if readp q \<le> writep q then of_nat (writep q - readp q)
     else slots q - of_nat (readp q - writep q))"

definition circular_queue_new :: "u64 \<Rightarrow> queue_error + 'a circular_queue" where
  "circular_queue_new capacity =
     (if capacity AND (capacity - 1) \<noteq> 0 \<or> capacity = 0 then Inl eCircularQueueInvalidSize
      else Inr \<lparr>slots = capacity, elements = replicate (unat capacity) None, writep = 0, writep2 = 0, readp = 0\<rparr>)"

section \<open>Threads\<close>

text \<open>Where a thread is in \<open>non_blocking_read\<close> or \<open>non_blocking_write\<close>, with its local variables
  (\<open>read_cpy\<close>, \<open>next\<close>, \<open>to_return\<close>; \<open>elem\<close>, \<open>write_cpy\<close>, \<open>next\<close>), and what it returns.\<close>

datatype 'a thread =
    Idle
  | R_start
  | R_check nat
  | R_load nat
  | R_cas nat nat "'a option"
  | R_done "'a option"
  | W_start "'a option"
  | W_check "'a option" nat
  | W_cas "'a option" nat nat
  | W_store "'a option" nat nat
  | W_commit "'a option" nat nat
  | W_done rofl_result

text \<open>What a step means for the queue: the test found it empty or full, an element was taken, an
  element became visible to the readers.\<close>

datatype 'a label = Tau | Found_empty | Found_full "'a option" | Deq "'a option" | Enq "'a option"

text \<open>One step of a thread inside a call. \<open>None\<close>: an access outside \<open>elements\<close>.\<close>

fun read_step :: "'a circular_queue \<Rightarrow> 'a thread \<Rightarrow> ('a label \<times> 'a circular_queue \<times> 'a thread) option" where
  "read_step q R_start = Some (Tau, q, R_check (readp q))"
| "read_step q (R_check rc) =
     (if is_empty_at (writep q) rc then Some (Found_empty, q, R_done None) else Some (Tau, q, R_load rc))"
| "read_step q (R_load rc) =
     (if rc < length (elements q) then Some (Tau, q, R_cas rc (circ_inc_pointer q rc) (elements q ! rc)) else None)"
| "read_step q (R_cas rc nxt v) =
     (if readp q = rc then Some (Deq v, q\<lparr>readp := nxt\<rparr>, R_done v) else Some (Tau, q, R_start))"
| "read_step q th = Some (Tau, q, th)"

fun write_step :: "'a circular_queue \<Rightarrow> 'a thread \<Rightarrow> ('a label \<times> 'a circular_queue \<times> 'a thread) option" where
  "write_step q (W_start e) = Some (Tau, q, W_check e (writep2 q))"
| "write_step q (W_check e wc) =
     (if is_full_at q wc (readp q) then Some (Found_full e, q, W_done ROFL_FAILURE)
      else Some (Tau, q, W_cas e wc (circ_inc_pointer q wc)))"
| "write_step q (W_cas e wc nxt) =
     (if writep2 q = wc then Some (Tau, q\<lparr>writep2 := nxt\<rparr>, W_store e wc nxt) else Some (Tau, q, W_start e))"
| "write_step q (W_store e wc nxt) =
     (if wc < length (elements q) then Some (Tau, q\<lparr>elements := (elements q)[wc := e]\<rparr>, W_commit e wc nxt) else None)"
| "write_step q (W_commit e wc nxt) =
     (if writep q = wc then Some (Enq e, q\<lparr>writep := nxt\<rparr>, W_done ROFL_SUCCESS) else Some (Tau, q, W_commit e wc nxt))"
| "write_step q th = Some (Tau, q, th)"

fun advance :: "'a circular_queue \<Rightarrow> 'a thread \<Rightarrow> ('a label \<times> 'a circular_queue \<times> 'a thread) option" where
  "advance q R_start = read_step q R_start"
| "advance q (R_check rc) = read_step q (R_check rc)"
| "advance q (R_load rc) = read_step q (R_load rc)"
| "advance q (R_cas rc nxt v) = read_step q (R_cas rc nxt v)"
| "advance q th = write_step q th"

text \<open>\<open>n\<close> steps of one thread while the others rest.\<close>

fun solo :: "nat \<Rightarrow> 'a circular_queue \<Rightarrow> 'a thread \<Rightarrow> ('a circular_queue \<times> 'a thread) option" where
  "solo 0 q th = Some (q, th)"
| "solo (Suc n) q th = do { (l, q', th') \<leftarrow> advance q th; solo n q' th' }"

text \<open>A call that is not interrupted: four steps of a reader, five of a writer. \<open>None\<close>: it has
  not returned then (for a writer behind another one's reservation, never: \<open>calls_return\<close> below).\<close>

definition non_blocking_read :: "'a circular_queue \<Rightarrow> ('a option \<times> 'a circular_queue) option" where
  "non_blocking_read q = do { (q', th) \<leftarrow> solo 4 q R_start; case th of R_done v \<Rightarrow> Some (v, q') | _ \<Rightarrow> None }"

definition non_blocking_write :: "'a option \<Rightarrow> 'a circular_queue \<Rightarrow> (rofl_result \<times> 'a circular_queue) option" where
  "non_blocking_write e q = do { (q', th) \<leftarrow> solo 5 q (W_start e); case th of W_done r \<Rightarrow> Some (r, q') | _ \<Rightarrow> None }"

text \<open>All threads: those in \<open>R\<close> may call \<open>non_blocking_read\<close>, those in \<open>W\<close> \<open>non_blocking_write\<close>.\<close>

record 'a system =
  ring :: "'a circular_queue"
  threads :: "nat \<Rightarrow> 'a thread"

definition resting :: "'a circular_queue \<Rightarrow> 'a system" where
  "resting q = \<lparr>ring = q, threads = (\<lambda>_. Idle)\<rparr>"

inductive step :: "nat set \<Rightarrow> nat set \<Rightarrow> 'a system \<Rightarrow> 'a label \<Rightarrow> 'a system \<Rightarrow> bool" for R W where
  call_read: "t \<in> R \<Longrightarrow> threads s t = Idle \<Longrightarrow> step R W s Tau (s\<lparr>threads := (threads s)(t := R_start)\<rparr>)"
| call_write: "t \<in> W \<Longrightarrow> threads s t = Idle \<Longrightarrow> step R W s Tau (s\<lparr>threads := (threads s)(t := W_start e)\<rparr>)"
| inside: "advance (ring s) (threads s t) = Some (l, q, th) \<Longrightarrow>
    step R W s l (s\<lparr>ring := q, threads := (threads s)(t := th)\<rparr>)"
| return_read: "threads s t = R_done v \<Longrightarrow> step R W s Tau (s\<lparr>threads := (threads s)(t := Idle)\<rparr>)"
| return_write: "threads s t = W_done r \<Longrightarrow> step R W s Tau (s\<lparr>threads := (threads s)(t := Idle)\<rparr>)"

inductive run :: "nat set \<Rightarrow> nat set \<Rightarrow> 'a system \<Rightarrow> 'a label list \<Rightarrow> 'a system \<Rightarrow> bool" for R W where
  run_Nil: "run R W s [] s"
| run_snoc: "run R W s ls s' \<Longrightarrow> step R W s' l s'' \<Longrightarrow> run R W s (ls @ [l]) s''"

fun enq_of :: "'a label \<Rightarrow> 'a option list" where
  "enq_of (Enq e) = [e]"
| "enq_of _ = []"

fun deq_of :: "'a label \<Rightarrow> 'a option list" where
  "deq_of (Deq e) = [e]"
| "deq_of _ = []"

text \<open>The elements committed and the elements delivered in a run, in order.\<close>

abbreviation committed :: "'a label list \<Rightarrow> 'a option list" where
  "committed ls \<equiv> concat (map enq_of ls)"

abbreviation delivered :: "'a label list \<Rightarrow> 'a option list" where
  "delivered ls \<equiv> concat (map deq_of ls)"

section \<open>The contents of a ring\<close>

definition count :: "'a circular_queue \<Rightarrow> nat" where
  "count q = (if readp q \<le> writep q then writep q - readp q else length (elements q) - (readp q - writep q))"

definition contents :: "'a circular_queue \<Rightarrow> 'a option list" where
  "contents q = map (\<lambda>i. elements q ! ((readp q + i) mod length (elements q))) [0..<count q]"

text \<open>The number of slots is the length of the array and a power of two, and the pointers are inside.\<close>

definition wf_ring :: "'a circular_queue \<Rightarrow> bool" where
  "wf_ring q \<longleftrightarrow> unat (slots q) = length (elements q) \<and> slots q AND (slots q - 1) = 0 \<and> slots q \<noteq> 0 \<and>
     writep q < length (elements q) \<and> writep2 q < length (elements q) \<and> readp q < length (elements q)"

lemma power_of_two:
  fixes x :: "'l::len word"
  assumes "x AND (x - 1) = 0" and "x \<noteq> 0"
  shows "\<exists>k. k < LENGTH('l) \<and> unat x = 2 ^ k"
proof -
  obtain k where k: "2 ^ k \<le> unat x" "unat x < 2 ^ (k + 1)"
    using ex_power_ivl1 [of 2 "unat x"] assms(2) by (auto simp: unat_gt_0 Suc_le_eq)
  have high: "bit w k" if "2 ^ k \<le> unat w" "unat w < 2 ^ (k + 1)" for w :: "'l word"
  proof -
    have "unat w div 2 ^ k = 1" using that by (simp add: Suc_le_eq div_nat_eqI)
    then have "bit (unat w) k" by (simp add: bit_iff_odd)
    then show ?thesis by (simp add: bit_unsigned_iff)
  qed
  have "unat x = 2 ^ k"
  proof (rule ccontr)
    assume n: "unat x \<noteq> 2 ^ k"
    have "unat (x - 1) = unat x - 1" using assms(2) by (simp add: unat_minus_one)
    then have "bit (x - 1) k" using high [of "x - 1"] k n by simp
    moreover have "bit x k" using high k by blast
    ultimately have "bit (x AND (x - 1)) k" by (simp add: bit_and_iff)
    then show False using assms(1) by simp
  qed
  moreover have "unat x < 2 ^ LENGTH('l)" by (rule unsigned_less)
  then have "k < LENGTH('l)" using k(1) by (meson le_less_trans power_less_imp_less_exp one_less_numeral_iff semiring_norm(76))
  ultimately show ?thesis by blast
qed

lemma and_slots:
  assumes "wf_ring q" and "p \<le> length (elements q)"
  shows "of_nat p AND (slots q - 1) = (of_nat (p mod length (elements q)) :: u64)"
proof -
  obtain k where k: "k < 64" "unat (slots q) = 2 ^ k"
    using power_of_two [of "slots q"] assms(1) by (auto simp: wf_ring_def)
  have "slots q = of_nat (unat (slots q))" by simp
  also have "\<dots> = 2 ^ k" unfolding k(2) by simp
  finally have "slots q = 2 ^ k" .
  then have "of_nat p AND (slots q - 1) = take_bit k (of_nat p :: u64)"
    by (simp add: take_bit_eq_mask mask_eq_exp_minus_1)
  also have "\<dots> = of_nat (p mod 2 ^ k)" using k(1)
    by (simp add: take_bit_of_nat take_bit_nat_def flip: of_nat_take_bit)
  finally show ?thesis using assms(1) k(2) by (simp add: wf_ring_def)
qed

lemma wf_ringD:
  assumes "wf_ring q"
  shows "writep q < length (elements q)" "writep2 q < length (elements q)" "readp q < length (elements q)"
    "0 < length (elements q)" "unat (slots q) = length (elements q)" "length (elements q) < 2 ^ 64"
proof -
  show "writep q < length (elements q)" "writep2 q < length (elements q)" "readp q < length (elements q)"
    "unat (slots q) = length (elements q)" using assms by (simp_all add: wf_ring_def)
  then show "0 < length (elements q)" by (cases "elements q") simp_all
  have "unat (slots q) < 2 ^ 64" using unsigned_less [of "slots q"] by simp
  then show "length (elements q) < 2 ^ 64" using assms by (simp add: wf_ring_def)
qed

lemma circ_inc:
  assumes "wf_ring q" and "p < length (elements q)"
  shows "circ_inc_pointer q p = (p + 1) mod length (elements q)" "circ_inc_pointer q p < length (elements q)"
  using assms wf_ringD(4) [OF assms(1)] by (simp_all add: circ_inc_pointer_def wf_ring_def)

lemma wf_ring_update [simp]:
  "wf_ring q \<Longrightarrow> wf_ring (q\<lparr>elements := (elements q)[i := e]\<rparr>)"
  "wf_ring q \<Longrightarrow> p < length (elements q) \<Longrightarrow> wf_ring (q\<lparr>writep := p\<rparr>)"
  "wf_ring q \<Longrightarrow> p < length (elements q) \<Longrightarrow> wf_ring (q\<lparr>writep2 := p\<rparr>)"
  "wf_ring q \<Longrightarrow> p < length (elements q) \<Longrightarrow> wf_ring (q\<lparr>readp := p\<rparr>)"
  by (simp_all add: wf_ring_def)

lemma circ_inc_update [simp]:
  "circ_inc_pointer (q\<lparr>elements := xs\<rparr>) = circ_inc_pointer q"
  "circ_inc_pointer (q\<lparr>writep := p\<rparr>) = circ_inc_pointer q"
  "circ_inc_pointer (q\<lparr>writep2 := p\<rparr>) = circ_inc_pointer q"
  "circ_inc_pointer (q\<lparr>readp := p\<rparr>) = circ_inc_pointer q"
  by (simp_all add: circ_inc_pointer_def fun_eq_iff)

lemma is_full_iff:
  assumes "wf_ring q" and "w < length (elements q)" and "r < length (elements q)"
  shows "is_full_at q w r \<longleftrightarrow> (w + 1) mod length (elements q) = r"
proof -
  have small: "(w + 1) mod length (elements q) < 2 ^ 64" "r < 2 ^ 64"
    using wf_ringD(4,6) [OF assms(1)] assms(3) by (auto intro: less_trans [OF mod_less_divisor])
  have "is_full_at q w r \<longleftrightarrow> of_nat ((w + 1) mod length (elements q)) = (of_nat r :: u64)"
    unfolding is_full_at_def using and_slots [OF assms(1), of "w + 1"] assms(2) by (simp del: of_nat_add of_nat_Suc)
  also have "\<dots> \<longleftrightarrow> (w + 1) mod length (elements q) = r"
    using small by (simp only: word_of_nat_eq_iff) (simp add: take_bit_nat_eq_self)
  finally show ?thesis .
qed

lemma mod_once: "a < n \<Longrightarrow> b \<le> n \<Longrightarrow> (a + b) mod n = (if a + b < n then a + b else a + b - n)" for n :: nat
  by (simp add: le_mod_geq)

lemma count_facts:
  assumes "wf_ring q"
  shows "count q < length (elements q)" "count q = 0 \<longleftrightarrow> writep q = readp q"
    "(readp q + count q) mod length (elements q) = writep q"
    "(writep q + 1) mod length (elements q) = readp q \<longleftrightarrow> count q = length (elements q) - 1"
    "i < count q \<Longrightarrow> (readp q + i) mod length (elements q) \<noteq> writep q"
proof -
  note w = wf_ringD(1,3,4) [OF assms]
  show c: "count q < length (elements q)" "count q = 0 \<longleftrightarrow> writep q = readp q"
    using w by (auto simp: count_def)
  show "(readp q + count q) mod length (elements q) = writep q"
    using w c by (subst mod_once) (auto simp: count_def)
  show "(writep q + 1) mod length (elements q) = readp q \<longleftrightarrow> count q = length (elements q) - 1"
    using w by (subst mod_once) (auto simp: count_def)
  show "(readp q + i) mod length (elements q) \<noteq> writep q" if "i < count q"
    using w c that by (subst mod_once) (auto simp: count_def split: if_splits)
qed

lemma length_contents [simp]: "length (contents q) = count q"
  by (simp add: contents_def)

lemma contents_Nil_iff: "wf_ring q \<Longrightarrow> contents q = [] \<longleftrightarrow> writep q = readp q"
  using count_facts(2) [of q] by (auto simp: contents_def)

lemma contents_store:
  assumes "wf_ring q"
  shows "contents (q\<lparr>elements := (elements q)[writep q := e]\<rparr>) = contents q"
proof -
  have c: "count (q\<lparr>elements := (elements q)[writep q := e]\<rparr>) = count q" by (simp add: count_def)
  show ?thesis unfolding contents_def c
    by (rule map_cong) (use count_facts(5) [OF assms, THEN not_sym] in simp_all)
qed

lemma contents_writep2 [simp]: "contents (q\<lparr>writep2 := p\<rparr>) = contents q"
  by (simp add: contents_def count_def)

lemma contents_enq:
  assumes "wf_ring q" and "count q < length (elements q) - 1"
  shows "contents (q\<lparr>writep := circ_inc_pointer q (writep q)\<rparr>) = contents q @ [elements q ! writep q]"
proof -
  have c: "count (q\<lparr>writep := circ_inc_pointer q (writep q)\<rparr>) = Suc (count q)"
    using wf_ringD [OF assms(1)] assms(2)
    by (auto simp: count_def circ_inc_pointer_def)
  show ?thesis unfolding contents_def c using count_facts(3) [OF assms(1)] by simp
qed

lemma contents_deq:
  assumes "wf_ring q" and "count q \<noteq> 0"
  shows "contents q = elements q ! readp q # contents (q\<lparr>readp := circ_inc_pointer q (readp q)\<rparr>)"
proof -
  have c: "count q = Suc (count (q\<lparr>readp := circ_inc_pointer q (readp q)\<rparr>))"
    using wf_ringD [OF assms(1)] assms(2) by (auto simp: count_def circ_inc_pointer_def split: if_splits)
  have "contents q = elements q ! readp q #
      map (\<lambda>i. elements q ! ((readp q + Suc i) mod length (elements q))) [0..<count (q\<lparr>readp := circ_inc_pointer q (readp q)\<rparr>)]"
    using wf_ringD(3) [OF assms(1)] by (subst contents_def, subst c) (simp only: map_upt_Suc, simp)
  then show ?thesis
    using circ_inc(1) [OF assms(1) wf_ringD(3) [OF assms(1)]] by (simp add: contents_def mod_simps)
qed

lemma circular_queue_new_wf:
  assumes "circular_queue_new capacity = Inr q"
  shows "wf_ring q" "contents q = []" "writep2 q = writep q" "length (elements q) = unat capacity"
  using assms
  by (auto simp: circular_queue_new_def wf_ring_def contents_def count_def unat_gt_0 split: if_splits)

section \<open>Calls that are not interrupted\<close>

lemma solo_add: "solo (m + n) q th = do { (q', th') \<leftarrow> solo m q th; solo n q' th' }"
  by (induction m arbitrary: q th) (auto split: prod.splits Option.bind_split)

lemma count_room: "wf_ring q \<Longrightarrow> is_full_at q (writep q) (readp q) \<longleftrightarrow> count q = length (elements q) - 1"
  using is_full_iff wf_ringD(1,3) count_facts(4) by blast

lemma nat_steps: "4 = Suc (Suc (Suc (Suc 0)))" "5 = Suc (Suc (Suc (Suc (Suc 0))))"
  by simp_all

lemma read_empty:
  assumes "wf_ring q" and "contents q = []"
  shows "non_blocking_read q = Some (None, q)"
  using assms by (simp add: non_blocking_read_def nat_steps is_empty_at_def contents_Nil_iff)

lemma read_nonempty:
  assumes "wf_ring q" and "contents q = v # vs"
  shows "non_blocking_read q = Some (v, q\<lparr>readp := circ_inc_pointer q (readp q)\<rparr>)"
    "contents (q\<lparr>readp := circ_inc_pointer q (readp q)\<rparr>) = vs"
proof -
  have n: "count q \<noteq> 0" using assms(2) length_contents [of q] by simp
  show "contents (q\<lparr>readp := circ_inc_pointer q (readp q)\<rparr>) = vs"
    using contents_deq [OF assms(1) n] assms(2) by simp
  show "non_blocking_read q = Some (v, q\<lparr>readp := circ_inc_pointer q (readp q)\<rparr>)"
    using contents_deq [OF assms(1) n] assms n wf_ringD(3) [OF assms(1)]
    by (simp add: non_blocking_read_def nat_steps is_empty_at_def count_facts(2))
qed

text \<open>The ring after an element has been written into the slot of \<open>writep\<close> and published.\<close>

definition put :: "'a option \<Rightarrow> 'a circular_queue \<Rightarrow> 'a circular_queue" where
  "put e q = q\<lparr>elements := (elements q)[writep q := e], writep2 := circ_inc_pointer q (writep q),
     writep := circ_inc_pointer q (writep q)\<rparr>"

lemma put_facts:
  assumes "wf_ring q" and "count q < length (elements q) - 1"
  shows "wf_ring (put e q)" "contents (put e q) = contents q @ [e]" "writep2 (put e q) = writep (put e q)"
    "slots (put e q) = slots q" "length (elements (put e q)) = length (elements q)" "readp (put e q) = readp q"
proof -
  let ?q = "q\<lparr>elements := (elements q)[writep q := e], writep2 := circ_inc_pointer q (writep q)\<rparr>"
  note w = wf_ringD(1) [OF assms(1)]
  have p: "put e q = ?q\<lparr>writep := circ_inc_pointer ?q (writep ?q)\<rparr>"
    by (simp add: put_def circ_inc_pointer_def)
  have u: "wf_ring ?q" using assms(1) circ_inc(2) [OF assms(1) w] by (simp add: wf_ring_def)
  have c: "contents ?q = contents q"
    using contents_store [OF assms(1)] contents_writep2 by metis
  then have "count ?q = count q" by (metis length_contents)
  then have "contents (?q\<lparr>writep := circ_inc_pointer ?q (writep ?q)\<rparr>) = contents ?q @ [elements ?q ! writep ?q]"
    using assms(2) by (intro contents_enq [OF u]) simp
  then show "contents (put e q) = contents q @ [e]" unfolding p c using w by simp
  show "wf_ring (put e q)" using u circ_inc(2) [OF assms(1) w] by (simp add: wf_ring_def put_def)
qed (simp_all add: put_def)

lemma write_room:
  assumes "wf_ring q" and "writep2 q = writep q" and "count q < length (elements q) - 1"
  shows "non_blocking_write e q = Some (ROFL_SUCCESS, put e q)"
  using assms(2,3) count_room [OF assms(1)] wf_ringD(1) [OF assms(1)]
  by (simp add: non_blocking_write_def nat_steps put_def)

lemma write_full:
  assumes "wf_ring q" and "writep2 q = writep q" and "count q = length (elements q) - 1"
  shows "non_blocking_write e q = Some (ROFL_FAILURE, q)"
  using assms(2,3) count_room [OF assms(1)]
  by (simp add: non_blocking_write_def nat_steps)

section \<open>Refinement of a bounded FIFO list\<close>

text \<open>The calls a client makes one after the other, their answers, and what a list of at most \<open>c\<close>
  elements answers.\<close>

datatype 'a call = Read | Write "'a option"
datatype 'a answer = Got "'a option" | Wrote rofl_result

fun fifo_call :: "nat \<Rightarrow> 'a call \<Rightarrow> 'a option list \<Rightarrow> 'a answer \<times> 'a option list" where
  "fifo_call c Read [] = (Got None, [])"
| "fifo_call c Read (v # vs) = (Got v, vs)"
| "fifo_call c (Write e) vs =
     (if length vs < c then (Wrote ROFL_SUCCESS, vs @ [e]) else (Wrote ROFL_FAILURE, vs))"

fun fifo_calls :: "nat \<Rightarrow> 'a call list \<Rightarrow> 'a option list \<Rightarrow> 'a answer list \<times> 'a option list" where
  "fifo_calls c [] vs = ([], vs)"
| "fifo_calls c (x # xs) vs =
     (let (a, vs') = fifo_call c x vs; (as, vs'') = fifo_calls c xs vs' in (a # as, vs''))"

text \<open>The same calls on an implementation given by its two operations.\<close>

fun calls_on :: "('q \<Rightarrow> ('a option \<times> 'q) option) \<Rightarrow> ('a option \<Rightarrow> 'q \<Rightarrow> (rofl_result \<times> 'q) option) \<Rightarrow>
    'a call list \<Rightarrow> 'q \<Rightarrow> ('a answer list \<times> 'q) option" where
  "calls_on rd wr [] q = Some ([], q)"
| "calls_on rd wr (Read # cs) q = do { (v, q1) \<leftarrow> rd q; (as, q2) \<leftarrow> calls_on rd wr cs q1; Some (Got v # as, q2) }"
| "calls_on rd wr (Write e # cs) q = do { (r, q1) \<leftarrow> wr e q; (as, q2) \<leftarrow> calls_on rd wr cs q1; Some (Wrote r # as, q2) }"

text \<open>What a client may rely on; \<open>content\<close> is the abstraction, \<open>cap\<close> the number of elements there is
  room for.\<close>

locale bounded_fifo =
  fixes rd :: "'q \<Rightarrow> ('a option \<times> 'q) option"
    and wr :: "'a option \<Rightarrow> 'q \<Rightarrow> (rofl_result \<times> 'q) option"
    and inv :: "'q \<Rightarrow> bool" and content :: "'q \<Rightarrow> 'a option list" and cap :: "'q \<Rightarrow> nat"
  assumes rd_Nil: "inv q \<Longrightarrow> content q = [] \<Longrightarrow> rd q = Some (None, q)"
    and rd_Cons: "inv q \<Longrightarrow> content q = v # vs \<Longrightarrow>
      \<exists>q'. rd q = Some (v, q') \<and> inv q' \<and> content q' = vs \<and> cap q' = cap q"
    and wr_room: "inv q \<Longrightarrow> length (content q) < cap q \<Longrightarrow>
      \<exists>q'. wr e q = Some (ROFL_SUCCESS, q') \<and> inv q' \<and> content q' = content q @ [e] \<and> cap q' = cap q"
    and wr_full: "inv q \<Longrightarrow> length (content q) = cap q \<Longrightarrow> wr e q = Some (ROFL_FAILURE, q)"
    and bounded: "inv q \<Longrightarrow> length (content q) \<le> cap q"
begin

lemma calls_simulate:
  "inv q \<Longrightarrow> \<exists>as q'. calls_on rd wr cs q = Some (as, q') \<and> inv q' \<and> cap q' = cap q \<and>
     fifo_calls (cap q) cs (content q) = (as, content q')"
proof (induction cs arbitrary: q)
  case Nil
  then show ?case by simp
next
  case (Cons c cs)
  have "\<exists>a q1. (\<forall>as q2. calls_on rd wr cs q1 = Some (as, q2) \<longrightarrow> calls_on rd wr (c # cs) q = Some (a # as, q2)) \<and>
     inv q1 \<and> cap q1 = cap q \<and> fifo_call (cap q) c (content q) = (a, content q1)"
  proof (cases c)
    case Read
    show ?thesis
    proof (cases "content q")
      case Nil
      then show ?thesis using Read rd_Nil [OF Cons.prems] Cons.prems by (intro exI [of _ "Got None"] exI [of _ q]) simp
    next
      case (Cons v vs)
      then obtain q1 where "rd q = Some (v, q1)" "inv q1" "content q1 = vs" "cap q1 = cap q"
        using rd_Cons [OF \<open>inv q\<close>] by blast
      then show ?thesis using Read Cons by (intro exI [of _ "Got v"] exI [of _ q1]) simp
    qed
  next
    case (Write e)
    show ?thesis
    proof (cases "length (content q) < cap q")
      case True
      then obtain q1 where "wr e q = Some (ROFL_SUCCESS, q1)" "inv q1" "content q1 = content q @ [e]" "cap q1 = cap q"
        using wr_room [OF Cons.prems] by blast
      then show ?thesis using Write True by (intro exI [of _ "Wrote ROFL_SUCCESS"] exI [of _ q1]) simp
    next
      case False
      then have "length (content q) = cap q" using bounded [OF Cons.prems] by simp
      then show ?thesis using Write wr_full [OF Cons.prems, of e] Cons.prems
        by (intro exI [of _ "Wrote ROFL_FAILURE"] exI [of _ q]) simp
    qed
  qed
  then obtain a q1 where q1: "\<And>as q2. calls_on rd wr cs q1 = Some (as, q2) \<Longrightarrow> calls_on rd wr (c # cs) q = Some (a # as, q2)"
    "inv q1" "cap q1 = cap q" "fifo_call (cap q) c (content q) = (a, content q1)" by blast
  show ?case using Cons.IH [OF q1(2)] q1 by (auto split: prod.splits)
qed

end

text \<open>The calls that are not interrupted, on a ring on which no writer is between its two commits.\<close>

definition quiet :: "'a circular_queue \<Rightarrow> bool" where
  "quiet q \<longleftrightarrow> wf_ring q \<and> writep2 q = writep q"

interpretation ring_fifo: bounded_fifo non_blocking_read non_blocking_write quiet contents
  "\<lambda>q. length (elements q) - 1"
proof
  fix q :: "'a circular_queue" and v vs e
  assume q: "quiet q"
  then have w: "wf_ring q" "writep2 q = writep q" by (simp_all add: quiet_def)
  show "contents q = [] \<Longrightarrow> non_blocking_read q = Some (None, q)" using read_empty [OF w(1)] .
  show "contents q = v # vs \<Longrightarrow> \<exists>q'. non_blocking_read q = Some (v, q') \<and> quiet q' \<and> contents q' = vs \<and>
      length (elements q') - 1 = length (elements q) - 1"
    using read_nonempty [OF w(1)] w circ_inc(2) [OF w(1) wf_ringD(3) [OF w(1)]] by (auto simp: quiet_def)
  show "length (contents q) < length (elements q) - 1 \<Longrightarrow> \<exists>q'. non_blocking_write e q = Some (ROFL_SUCCESS, q') \<and>
      quiet q' \<and> contents q' = contents q @ [e] \<and> length (elements q') - 1 = length (elements q) - 1"
    using write_room [OF w] put_facts [OF w(1), of e] by (auto simp: quiet_def)
  show "length (contents q) = length (elements q) - 1 \<Longrightarrow> non_blocking_write e q = Some (ROFL_FAILURE, q)"
    using write_full [OF w] by simp
  show "length (contents q) \<le> length (elements q) - 1" using count_facts(1) [OF w(1)] by simp
qed

lemma queue_size_contents: "wf_ring q \<Longrightarrow> queue_size q = of_nat (length (contents q))"
proof -
  assume w: "wf_ring q"
  have s: "slots q = of_nat (length (elements q))" by (simp flip: wf_ringD(5) [OF w])
  have "slots q - of_nat (readp q - writep q) = of_nat (length (elements q) - (readp q - writep q))"
    unfolding s using wf_ringD(3) [OF w] by (subst of_nat_diff) simp_all
  then have "(if readp q \<le> writep q then of_nat (writep q - readp q) else slots q - of_nat (readp q - writep q)) =
      (of_nat (count q) :: u64)" by (simp only: count_def split: if_splits) simp
  then show ?thesis unfolding queue_size_def
    by (simp only:) (simp add: unsigned_of_nat word_of_nat_eq_iff)
qed

section \<open>Any number of threads\<close>

text \<open>The local pointers of a thread stay inside the array, whatever the others do.\<close>

fun locals_inside :: "'a circular_queue \<Rightarrow> 'a thread \<Rightarrow> bool" where
  "locals_inside q (R_check rc) = (rc < length (elements q))"
| "locals_inside q (R_load rc) = (rc < length (elements q))"
| "locals_inside q (R_cas rc nxt v) = (rc < length (elements q) \<and> nxt = circ_inc_pointer q rc)"
| "locals_inside q (W_check e wc) = (wc < length (elements q))"
| "locals_inside q (W_cas e wc nxt) = (wc < length (elements q) \<and> nxt = circ_inc_pointer q wc)"
| "locals_inside q (W_store e wc nxt) = (wc < length (elements q) \<and> nxt = circ_inc_pointer q wc)"
| "locals_inside q (W_commit e wc nxt) = (wc < length (elements q) \<and> nxt = circ_inc_pointer q wc)"
| "locals_inside q _ = True"

definition safe :: "'a system \<Rightarrow> bool" where
  "safe s \<longleftrightarrow> wf_ring (ring s) \<and> (\<forall>t. locals_inside (ring s) (threads s t))"

lemma locals_inside_cong:
  "length (elements q') = length (elements q) \<Longrightarrow> slots q' = slots q \<Longrightarrow> locals_inside q' th = locals_inside q th"
  by (cases th) (simp_all add: circ_inc_pointer_def)

lemma advance_safe:
  assumes "wf_ring q" and "locals_inside q th"
  shows "\<exists>l q' th'. advance q th = Some (l, q', th') \<and> wf_ring q' \<and> locals_inside q' th' \<and>
     length (elements q') = length (elements q) \<and> slots q' = slots q"
  using assms circ_inc(2) [OF assms(1)] wf_ringD(1-3) [OF assms(1)] by (cases th) (simp_all add: circ_inc_pointer_def)

lemma step_safe: "step R W s l s' \<Longrightarrow> safe s \<Longrightarrow> safe s'"
proof (induction rule: step.induct)
  case (inside s t l q th)
  then have "wf_ring (ring s)" "locals_inside (ring s) (threads s t)" by (simp_all add: safe_def)
  from advance_safe [OF this] inside have "wf_ring q" "locals_inside q th"
    "length (elements q) = length (elements (ring s))" "slots q = slots (ring s)" by auto
  then show ?case using inside.prems locals_inside_cong [of q "ring s"] by (simp add: safe_def)
qed (simp_all add: safe_def)

lemma run_safe: "run R W s ls s' \<Longrightarrow> safe s \<Longrightarrow> safe s'"
  by (induction rule: run.induct) (auto intro: step_safe)

lemma safe_resting: "wf_ring q \<Longrightarrow> safe (resting q)"
  by (simp add: safe_def resting_def)

fun reading :: "'a thread \<Rightarrow> bool" where
  "reading R_start = True"
| "reading (R_check rc) = True"
| "reading (R_load rc) = True"
| "reading (R_cas rc nxt v) = True"
| "reading _ = False"

fun writing :: "'a thread \<Rightarrow> bool" where
  "writing (W_start e) = True"
| "writing (W_check e wc) = True"
| "writing (W_cas e wc nxt) = True"
| "writing (W_store e wc nxt) = True"
| "writing (W_commit e wc nxt) = True"
| "writing _ = False"

fun returned :: "'a thread \<Rightarrow> bool" where
  "returned (R_done v) = True"
| "returned (W_done r) = True"
| "returned _ = False"

text \<open>A writer that has to wait for another one: the slot it has reserved, or is going to reserve, lies
  behind one that has been reserved and not been committed.\<close>

fun blocked :: "'a circular_queue \<Rightarrow> 'a thread \<Rightarrow> bool" where
  "blocked q (W_start e) = (writep2 q \<noteq> writep q \<and> \<not> is_full_at q (writep2 q) (readp q))"
| "blocked q (W_check e wc) = (\<not> is_full_at q wc (readp q) \<and> writep2 q \<noteq> writep q \<and>
     (wc = writep2 q \<or> \<not> is_full_at q (writep2 q) (readp q)))"
| "blocked q (W_cas e wc nxt) = (writep2 q \<noteq> writep q \<and> (wc = writep2 q \<or> \<not> is_full_at q (writep2 q) (readp q)))"
| "blocked q (W_store e wc nxt) = (wc \<noteq> writep q)"
| "blocked q (W_commit e wc nxt) = (wc \<noteq> writep q)"
| "blocked q _ = False"

definition finishes :: "nat \<Rightarrow> 'a circular_queue \<Rightarrow> 'a thread \<Rightarrow> bool" where
  "finishes n q th \<longleftrightarrow> (\<exists>k\<le>n. \<exists>q' th'. solo k q th = Some (q', th') \<and> returned th')"

lemma finishes_returned: "returned th \<Longrightarrow> finishes n q th"
  by (auto simp: finishes_def intro!: exI [of _ 0])

lemma finishes_step:
  "advance q th = Some (l, q1, th1) \<Longrightarrow> finishes n q1 th1 \<Longrightarrow> finishes (Suc n) q th"
  unfolding finishes_def by (metis (no_types, lifting) Suc_le_mono bind.bind_lunit case_prod_conv solo.simps(2))

lemma finishes_mono: "finishes m q th \<Longrightarrow> m \<le> n \<Longrightarrow> finishes n q th"
  unfolding finishes_def by (meson le_trans)

lemma finishes_numeral:
  "advance q th = Some (l, q1, th1) \<Longrightarrow> finishes (pred_numeral k) q1 th1 \<Longrightarrow> finishes (numeral k) q th"
  using finishes_step by (simp add: numeral_eq_Suc)

lemmas finishes_intros = finishes_numeral finishes_step

lemma reader_finishes:
  assumes w: "wf_ring q"
  shows "finishes 4 q R_start" "finishes 5 q (R_cas rc nxt v)"
    "rc < length (elements q) \<Longrightarrow> finishes 6 q (R_load rc)"
    "rc < length (elements q) \<Longrightarrow> finishes 7 q (R_check rc)"
proof -
  have fast: "finishes 2 q (R_load (readp q))"
    by (rule finishes_numeral, use wf_ringD(3) [OF w] in simp, simp)
      (rule finishes_step, simp, rule finishes_returned, simp)
  show start: "finishes 4 q R_start"
  proof (rule finishes_numeral)
    have "finishes (Suc 2) q (R_check (readp q))"
    proof (cases "writep q = readp q")
      case True
      then show ?thesis by (intro finishes_step [where ?th1.0 = "R_done None"] finishes_returned) (simp_all add: is_empty_at_def)
    next
      case False
      then show ?thesis by (intro finishes_step [OF _ fast]) (simp add: is_empty_at_def)
    qed
    then show "finishes (pred_numeral (num.Bit0 (num.Bit0 num.One))) q (R_check (readp q))"
      by (simp add: eval_nat_numeral)
  qed simp
  show cas: "finishes 5 q (R_cas rc nxt v)" for rc nxt v
  proof (cases "readp q = rc")
    case True
    then have "finishes (Suc 4) q (R_cas rc nxt v)"
      by (intro finishes_step [where ?th1.0 = "R_done v"] finishes_returned) simp_all
    then show ?thesis by (simp add: eval_nat_numeral)
  next
    case False
    then have "finishes (Suc 4) q (R_cas rc nxt v)" by (intro finishes_step [OF _ start]) simp
    then show ?thesis by (simp add: eval_nat_numeral)
  qed
  show load: "finishes 6 q (R_load rc)" if "rc < length (elements q)" for rc
    using finishes_step [OF _ cas, of q "R_load rc"] that by (simp add: eval_nat_numeral)
  show "finishes 7 q (R_check rc)" if rc: "rc < length (elements q)"
  proof (cases "writep q = rc")
    case True
    then have "finishes (Suc 6) q (R_check rc)"
      by (intro finishes_step [where ?th1.0 = "R_done None"] finishes_returned) (simp_all add: is_empty_at_def)
    then show ?thesis by (simp add: eval_nat_numeral)
  next
    case False
    then have "finishes (Suc 6) q (R_check rc)" by (intro finishes_step [OF _ load [OF rc]]) (simp add: is_empty_at_def)
    then show ?thesis by (simp add: eval_nat_numeral)
  qed
qed

lemma blocked_stays:
  assumes "wf_ring q" and "blocked q th" and "locals_inside q th"
  shows "\<exists>l q' th'. advance q th = Some (l, q', th') \<and> blocked q' th' \<and> wf_ring q' \<and> locals_inside q' th'"
proof -
  have f: "is_full_at (q\<lparr>writep2 := p\<rparr>) = is_full_at q" for p by (simp add: is_full_at_def fun_eq_iff)
  obtain l q' th' where a: "advance q th = Some (l, q', th')" "wf_ring q'" "locals_inside q' th'"
    using advance_safe [OF assms(1,3)] by auto
  moreover have "blocked q' th'" using a(1) assms(2) by (cases th) (auto simp: f split: if_splits)
  ultimately show ?thesis by blast
qed

lemma blocked_not_returned: "blocked q th \<Longrightarrow> \<not> returned th"
  by (cases th) simp_all

lemma blocked_solo:
  "wf_ring q \<Longrightarrow> blocked q th \<Longrightarrow> locals_inside q th \<Longrightarrow> solo n q th = Some (q', th') \<Longrightarrow> \<not> returned th'"
proof (induction n arbitrary: q th)
  case 0
  then show ?case using blocked_not_returned by auto
next
  case (Suc n)
  obtain l q1 th1 where "advance q th = Some (l, q1, th1)" "blocked q1 th1" "wf_ring q1" "locals_inside q1 th1"
    using blocked_stays [OF Suc.prems(1-3)] by blast
  then show ?case using Suc.IH [of q1 th1] Suc.prems(4) by simp
qed

lemma full_step: "is_full_at q wc (readp q) \<Longrightarrow> finishes (Suc n) q (W_check e wc)"
  by (intro finishes_step [where ?th1.0 = "W_done ROFL_FAILURE"] finishes_returned) simp_all

lemma commit_step: "wc = writep q \<Longrightarrow> finishes (Suc n) q (W_commit e wc nxt)"
  by (intro finishes_step [where ?th1.0 = "W_done ROFL_SUCCESS"] finishes_returned) simp_all

lemma store_step:
  assumes "wf_ring q" and "wc = writep q"
  shows "finishes (Suc (Suc n)) q (W_store e wc nxt)"
  by (rule finishes_step [where ?q1.0 = "q\<lparr>elements := (elements q)[wc := e]\<rparr>" and ?th1.0 = "W_commit e wc nxt"])
    (use assms wf_ringD(1) [OF assms(1)] in \<open>auto intro: commit_step\<close>)

lemma cas_step:
  assumes "wf_ring q" and "wc = writep q" and "wc = writep2 q" and "nxt < length (elements q)"
  shows "finishes (Suc (Suc (Suc n))) q (W_cas e wc nxt)"
  by (rule finishes_step [where ?q1.0 = "q\<lparr>writep2 := nxt\<rparr>" and ?th1.0 = "W_store e wc nxt"])
    (use assms in \<open>auto intro: store_step\<close>)

lemma start_step:
  assumes "wf_ring q" and "\<not> blocked q (W_start e)"
  shows "finishes (Suc (Suc (Suc (Suc (Suc n))))) q (W_start e)"
proof (rule finishes_step [where ?q1.0 = q and ?th1.0 = "W_check e (writep2 q)"])
  show "finishes (Suc (Suc (Suc (Suc n)))) q (W_check e (writep2 q))"
  proof (cases "is_full_at q (writep2 q) (readp q)")
    case True
    then show ?thesis by (rule full_step)
  next
    case False
    then have "finishes (Suc (Suc (Suc n))) q (W_cas e (writep2 q) (circ_inc_pointer q (writep2 q)))"
      using assms wf_ringD(2) [OF assms(1)] by (intro cas_step) (simp_all add: circ_inc(2))
    then show ?thesis by (rule finishes_step [rotated]) (use False in simp)
  qed
qed simp

lemma writer_finishes:
  assumes w: "wf_ring q" and i: "locals_inside q th" and "writing th" and "\<not> blocked q th"
  shows "finishes 7 q th"
proof -
  have cas: "finishes 6 q (W_cas e wc nxt)"
    if "\<not> blocked q (W_cas e wc nxt)" "nxt < length (elements q)" for e wc nxt
  proof (cases "wc = writep2 q")
    case True
    then have "finishes (Suc (Suc (Suc 3))) q (W_cas e wc nxt)" using that by (intro cas_step [OF w]) simp_all
    then show ?thesis by (simp add: eval_nat_numeral)
  next
    case False
    then have "finishes (Suc (Suc (Suc (Suc (Suc 0))))) q (W_start e)" using that by (intro start_step [OF w]) simp
    then have "finishes (Suc (Suc (Suc (Suc (Suc (Suc 0)))))) q (W_cas e wc nxt)"
      by (rule finishes_step [rotated]) (use False in simp)
    then show ?thesis by (simp add: eval_nat_numeral)
  qed
  have six: "finishes (Suc 6) q th"
  proof (cases th)
    case (W_start e)
    then show ?thesis using start_step [OF w, of e 2] assms(4) by (simp add: eval_nat_numeral)
  next
    case (W_check e wc)
    show ?thesis
    proof (cases "is_full_at q wc (readp q)")
      case True
      then show ?thesis unfolding W_check by (rule full_step)
    next
      case False
      then show ?thesis unfolding W_check
        by (intro finishes_step [OF _ cas, where ?e1 = e and ?wc1 = wc and ?nxt1 = "circ_inc_pointer q wc"])
          (use W_check assms(4) i circ_inc(2) [OF w] in simp_all)
    qed
  next
    case (W_cas e wc nxt)
    then show ?thesis using cas [of e wc nxt] assms(4) i circ_inc(2) [OF w] finishes_mono by fastforce
  next
    case (W_store e wc nxt)
    then show ?thesis using store_step [OF w, of wc 5 e nxt] assms(4) by (simp add: eval_nat_numeral)
  next
    case (W_commit e wc nxt)
    then show ?thesis using commit_step [of wc q 6] assms(4) by simp
  qed (use assms(3) in simp_all)
  then show ?thesis by (simp add: eval_nat_numeral)
qed

section \<open>One reader and one writer\<close>

text \<open>What the thread that reads, and the thread that writes, knows at each of its steps.\<close>

fun reader_ok :: "'a circular_queue \<Rightarrow> 'a thread \<Rightarrow> bool" where
  "reader_ok q Idle = True"
| "reader_ok q R_start = True"
| "reader_ok q (R_check rc) = (rc = readp q)"
| "reader_ok q (R_load rc) = (rc = readp q \<and> count q \<noteq> 0)"
| "reader_ok q (R_cas rc nxt v) =
     (rc = readp q \<and> count q \<noteq> 0 \<and> nxt = circ_inc_pointer q rc \<and> v = elements q ! rc)"
| "reader_ok q (R_done v) = True"
| "reader_ok q _ = False"

fun writer_ok :: "'a circular_queue \<Rightarrow> 'a thread \<Rightarrow> bool" where
  "writer_ok q Idle = (writep2 q = writep q)"
| "writer_ok q (W_start e) = (writep2 q = writep q)"
| "writer_ok q (W_check e wc) = (writep2 q = writep q \<and> wc = writep q)"
| "writer_ok q (W_cas e wc nxt) = (writep2 q = writep q \<and> wc = writep q \<and> nxt = circ_inc_pointer q wc \<and>
     count q < length (elements q) - 1)"
| "writer_ok q (W_store e wc nxt) = (writep2 q = nxt \<and> wc = writep q \<and> nxt = circ_inc_pointer q wc \<and>
     count q < length (elements q) - 1)"
| "writer_ok q (W_commit e wc nxt) = (writep2 q = nxt \<and> wc = writep q \<and> nxt = circ_inc_pointer q wc \<and>
     count q < length (elements q) - 1 \<and> elements q ! wc = e)"
| "writer_ok q (W_done v) = (writep2 q = writep q)"
| "writer_ok q _ = False"

lemma taken:
  assumes "wf_ring q" and "count q \<noteq> 0"
  defines "q' \<equiv> q\<lparr>readp := circ_inc_pointer q (readp q)\<rparr>"
  shows "wf_ring q'" "count q = Suc (count q')" "contents q = elements q ! readp q # contents q'"
proof -
  show "contents q = elements q ! readp q # contents q'" using contents_deq [OF assms(1,2)] by (simp add: q'_def)
  then show "count q = Suc (count q')" by (metis length_Cons length_contents)
  show "wf_ring q'" using assms(1) circ_inc(2) [OF assms(1) wf_ringD(3)] by (simp add: q'_def)
qed

lemma published:
  assumes "wf_ring q" and "count q < length (elements q) - 1"
  defines "q' \<equiv> q\<lparr>writep := circ_inc_pointer q (writep q)\<rparr>"
  shows "wf_ring q'" "count q' = Suc (count q)" "contents q' = contents q @ [elements q ! writep q]"
proof -
  show "contents q' = contents q @ [elements q ! writep q]" using contents_enq [OF assms(1,2)] by (simp add: q'_def)
  then show "count q' = Suc (count q)" by (metis length_append_singleton length_contents)
  show "wf_ring q'" using assms(1) circ_inc(2) [OF assms(1) wf_ringD(1)] by (simp add: q'_def)
qed

lemma reader_advance:
  assumes w: "wf_ring q" and r: "reader_ok q th" and a: "advance q th = Some (l, q', th')"
  shows "wf_ring q' \<and> reader_ok q' th' \<and> (writer_ok q wth \<longrightarrow> writer_ok q' wth) \<and>
     contents q @ enq_of l = deq_of l @ contents q' \<and> (l = Found_empty \<longrightarrow> contents q = []) \<and> l \<noteq> Found_full e"
proof (cases th)
  case (R_cas rc nxt v)
  then have n: "count q \<noteq> 0" and q': "q' = q\<lparr>readp := circ_inc_pointer q (readp q)\<rparr>"
    "l = Deq (elements q ! readp q)" "th' = R_done v"
    using r a by auto
  have "writer_ok q wth \<longrightarrow> writer_ok q' wth"
    using taken(2) [OF w n] by (cases wth) (auto simp: q')
  then show ?thesis using taken [OF w n] by (simp add: q')
qed (use assms in \<open>auto simp: contents_Nil_iff count_facts(2) is_empty_at_def split: if_splits\<close>)

lemma writer_advance:
  assumes w: "wf_ring q" and r: "writer_ok q th" and a: "advance q th = Some (l, q', th')"
  shows "wf_ring q' \<and> writer_ok q' th' \<and> (reader_ok q rth \<longrightarrow> reader_ok q' rth) \<and>
     contents q @ enq_of l = deq_of l @ contents q' \<and> l \<noteq> Found_empty \<and>
     (l = Found_full e \<longrightarrow> length (contents q) = length (elements q) - 1)"
proof (cases th)
  case (W_check e' wc)
  then show ?thesis using assms count_room [OF w] count_facts(1) [OF w] by (auto split: if_splits)
next
  case (W_cas e' wc nxt)
  then have q': "q' = q\<lparr>writep2 := circ_inc_pointer q (writep q)\<rparr>" "l = Tau" using r a by auto
  have c: "count q' = count q" by (simp add: q' count_def)
  have "reader_ok q rth \<longrightarrow> reader_ok q' rth" by (cases rth) (simp_all add: q' count_def)
  then show ?thesis using W_cas assms circ_inc(2) [OF w wf_ringD(1) [OF w]] c by (auto simp: q')
next
  case (W_store e' wc nxt)
  then have q': "q' = q\<lparr>elements := (elements q)[writep q := e']\<rparr>" "l = Tau"
    using r a wf_ringD(1) [OF w] by auto
  have c: "count q' = count q" by (simp add: q' count_def)
  have "reader_ok q rth \<longrightarrow> reader_ok q' rth"
    using count_facts(2) [OF w] c by (cases rth) (auto simp: q' nth_list_update)
  then show ?thesis using W_store assms wf_ringD(1) [OF w] c contents_store [OF w, of e'] by (auto simp: q')
next
  case (W_commit e' wc nxt)
  then have n: "count q < length (elements q) - 1" and q': "q' = q\<lparr>writep := circ_inc_pointer q (writep q)\<rparr>"
    "l = Enq (elements q ! writep q)" "th' = W_done ROFL_SUCCESS" "writep2 q = circ_inc_pointer q (writep q)"
    using r a by auto
  have "reader_ok q rth \<longrightarrow> reader_ok q' rth"
    using published(2) [OF w n] by (cases rth) (auto simp: q')
  then show ?thesis using published [OF w n] q'(4) by (simp add: q')
qed (use assms in auto)

definition one_each :: "nat \<Rightarrow> nat \<Rightarrow> 'a label list \<Rightarrow> 'a system \<Rightarrow> bool" where
  "one_each r w ls s \<longleftrightarrow> wf_ring (ring s) \<and> (\<forall>t. t \<noteq> r \<and> t \<noteq> w \<longrightarrow> threads s t = Idle) \<and>
     reader_ok (ring s) (threads s r) \<and> writer_ok (ring s) (threads s w) \<and>
     committed ls = delivered ls @ contents (ring s)"

lemma step_one_each:
  assumes "step {r} {w} s l s'" and "one_each r w ls s" and "r \<noteq> w"
  shows "one_each r w (ls @ [l]) s' \<and> length (elements (ring s')) = length (elements (ring s)) \<and>
    (l = Found_empty \<longrightarrow> contents (ring s) = []) \<and>
    (l = Found_full e \<longrightarrow> length (contents (ring s)) = length (elements (ring s)) - 1)"
  using assms(1)
proof (cases rule: step.cases)
  case (inside t q th)
  have same: "length (elements q) = length (elements (ring s))" using inside(2)
    by (cases "threads s t") (auto split: if_splits)
  consider "t = r" | "t = w" | "threads s t = Idle" "t \<noteq> r" "t \<noteq> w" using assms(2) by (auto simp: one_each_def)
  then show ?thesis
  proof cases
    case 1
    then show ?thesis using inside assms(2,3) same reader_advance [of "ring s" "threads s r" l q th "threads s w" e]
      by (auto simp: one_each_def)
  next
    case 2
    then show ?thesis using inside assms(2,3) same writer_advance [of "ring s" "threads s w" l q th "threads s r" e]
      by (auto simp: one_each_def)
  next
    case 3
    then show ?thesis using inside assms(2) by (auto simp: one_each_def)
  qed
qed (use assms(2,3) in \<open>auto simp: one_each_def split: if_splits\<close>)

lemma run_one_each:
  assumes "run {r} {w} s ls s'" and "one_each r w [] s" and "r \<noteq> w"
  shows "one_each r w ls s' \<and> length (elements (ring s')) = length (elements (ring s))"
  using assms by (induction rule: run.induct) (use step_one_each in \<open>fastforce+\<close>)

lemma one_each_resting: "quiet q \<Longrightarrow> contents q = [] \<Longrightarrow> one_each r w [] (resting q)"
  by (simp add: one_each_def resting_def quiet_def)

section \<open>Interleavings of several readers or writers\<close>

lemma run_append: "run R W s' ls' s'' \<Longrightarrow> run R W s ls s' \<Longrightarrow> run R W s (ls @ ls') s''"
  by (induction rule: run.induct) (auto intro: run.intros simp flip: append_assoc)

fun solo_labels :: "nat \<Rightarrow> 'a circular_queue \<Rightarrow> 'a thread \<Rightarrow> 'a label list" where
  "solo_labels 0 q th = []"
| "solo_labels (Suc n) q th = (case advance q th of None \<Rightarrow> [] | Some (l, q', th') \<Rightarrow> l # solo_labels n q' th')"

lemma run_solo:
  "solo n (ring s) (threads s t) = Some (q', th') \<Longrightarrow>
   run R W s (solo_labels n (ring s) (threads s t)) (s\<lparr>ring := q', threads := (threads s)(t := th')\<rparr>)"
proof (induction n arbitrary: s)
  case 0
  then have "s\<lparr>ring := q', threads := (threads s)(t := th')\<rparr> = s" by (cases s) auto
  then show ?case by (metis run_Nil solo_labels.simps(1))
next
  case (Suc n)
  then obtain l q1 th1 where a: "advance (ring s) (threads s t) = Some (l, q1, th1)" "solo n q1 th1 = Some (q', th')"
    by (auto simp: bind_Some_iff)
  let ?s1 = "s\<lparr>ring := q1, threads := (threads s)(t := th1)\<rparr>"
  have "run R W s ([] @ [l]) ?s1" by (rule run_snoc [OF run_Nil step.inside [OF a(1)]])
  moreover have "run R W ?s1 (solo_labels n q1 th1) (s\<lparr>ring := q', threads := (threads s)(t := th')\<rparr>)"
    using Suc.IH [of ?s1] a(2) by (simp del: fun_upd_apply add: fun_upd_same)
  ultimately show ?case using run_append a(1) by (metis (no_types, lifting) append_Cons append_Nil case_prod_conv option.simps(5) solo_labels.simps(2))
qed

lemma run_read:
  assumes "t \<in> R" and "threads s t = Idle" and "wf_ring (ring s)" and "contents (ring s) = v # vs"
  shows "\<exists>ls. run R W s ls (s\<lparr>ring := (ring s)\<lparr>readp := circ_inc_pointer (ring s) (readp (ring s))\<rparr>\<rparr>) \<and>
     committed ls = [] \<and> delivered ls = [v]"
proof -
  let ?s1 = "s\<lparr>threads := (threads s)(t := R_start)\<rparr>" and ?q = "(ring s)\<lparr>readp := circ_inc_pointer (ring s) (readp (ring s))\<rparr>"
  let ?s2 = "s\<lparr>ring := ?q, threads := (threads s)(t := R_done v)\<rparr>"
  have n: "writep (ring s) \<noteq> readp (ring s)" "readp (ring s) < length (elements (ring s))"
    using assms(3,4) contents_Nil_iff [of "ring s"] wf_ringD(3) by auto
  have v: "elements (ring s) ! readp (ring s) = v"
    using contents_deq [OF assms(3)] count_facts(2) [OF assms(3)] n(1) assms(4) by simp
  have "solo 4 (ring ?s1) (threads ?s1 t) = Some (?q, R_done v)"
    "solo_labels 4 (ring ?s1) (threads ?s1 t) = [Tau, Tau, Tau, Deq v]"
    using n v by (simp_all add: nat_steps is_empty_at_def)
  from run_solo [OF this(1), of R W] this(2) have "run R W ?s1 [Tau, Tau, Tau, Deq v] ?s2" by simp
  from run_append [OF this run_snoc [OF run_Nil step.call_read]] assms(1,2)
  have "run R W s [Tau, Tau, Tau, Tau, Deq v] ?s2" by simp
  from run_snoc [OF this step.return_read, of t v]
  have "run R W s [Tau, Tau, Tau, Tau, Deq v, Tau] (s\<lparr>ring := ?q\<rparr>)" using assms(2) by (simp add: fun_upd_idem)
  then show ?thesis by (intro exI [of _ "[Tau, Tau, Tau, Tau, Deq v, Tau]"]) simp
qed

lemma run_write:
  assumes "t \<in> W" and "threads s t = Idle" and q: "quiet (ring s)"
    and n: "length (contents (ring s)) < length (elements (ring s)) - 1"
  shows "\<exists>ls. run R W s ls (s\<lparr>ring := put e (ring s)\<rparr>) \<and> committed ls = [e] \<and> delivered ls = []"
proof -
  let ?s1 = "s\<lparr>threads := (threads s)(t := W_start e)\<rparr>"
  let ?s2 = "s\<lparr>ring := put e (ring s), threads := (threads s)(t := W_done ROFL_SUCCESS)\<rparr>"
  have w: "wf_ring (ring s)" "writep2 (ring s) = writep (ring s)" using q by (simp_all add: quiet_def)
  have "solo 5 (ring ?s1) (threads ?s1 t) = Some (put e (ring s), W_done ROFL_SUCCESS)"
    "solo_labels 5 (ring ?s1) (threads ?s1 t) = [Tau, Tau, Tau, Tau, Enq e]"
    using n w count_room [OF w(1)] wf_ringD(1) [OF w(1)] by (simp_all add: nat_steps put_def)
  from run_solo [OF this(1), of R W] this(2) have "run R W ?s1 [Tau, Tau, Tau, Tau, Enq e] ?s2" by simp
  from run_append [OF this run_snoc [OF run_Nil step.call_write]] assms(1,2)
  have "run R W s [Tau, Tau, Tau, Tau, Tau, Enq e] ?s2" by simp
  from run_snoc [OF this step.return_write, of t ROFL_SUCCESS]
  have "run R W s [Tau, Tau, Tau, Tau, Tau, Enq e, Tau] (s\<lparr>ring := put e (ring s)\<rparr>)"
    using assms(2) by (simp add: fun_upd_idem)
  then show ?thesis by (intro exI [of _ "[Tau, Tau, Tau, Tau, Tau, Enq e, Tau]"]) simp
qed

text \<open>A reader empties the ring; a writer and a reader take turns on an empty ring and move its position.\<close>

lemma run_drain:
  assumes "t \<in> R" and "threads s t = Idle" and "quiet (ring s)"
  shows "\<exists>ls q'. run R W s ls (s\<lparr>ring := q'\<rparr>) \<and> quiet q' \<and> contents q' = [] \<and> writep q' = writep (ring s) \<and>
     length (elements q') = length (elements (ring s)) \<and> committed ls = [] \<and> delivered ls = contents (ring s)"
  using assms
proof (induction "contents (ring s)" arbitrary: s)
  case Nil
  then show ?case by (intro exI [of _ "[]"] exI [of _ "ring s"]) (simp add: run_Nil)
next
  case (Cons v vs)
  let ?q = "(ring s)\<lparr>readp := circ_inc_pointer (ring s) (readp (ring s))\<rparr>"
  have w: "wf_ring (ring s)" using Cons.prems(3) by (simp add: quiet_def)
  have q: "quiet ?q" "contents ?q = vs"
    using Cons.prems(3) read_nonempty(2) [OF w Cons.hyps(2) [symmetric]] circ_inc(2) [OF w wf_ringD(3) [OF w]]
    by (simp_all add: quiet_def)
  obtain ls where ls: "run R W s ls (s\<lparr>ring := ?q\<rparr>)" "committed ls = []" "delivered ls = [v]"
    using run_read [OF Cons.prems(1,2) w Cons.hyps(2) [symmetric]] by blast
  have "\<exists>ls q'. run R W (s\<lparr>ring := ?q\<rparr>) ls (s\<lparr>ring := ?q, ring := q'\<rparr>) \<and> quiet q' \<and> contents q' = [] \<and>
      writep q' = writep (ring (s\<lparr>ring := ?q\<rparr>)) \<and> length (elements q') = length (elements (ring (s\<lparr>ring := ?q\<rparr>))) \<and>
      committed ls = [] \<and> delivered ls = contents (ring (s\<lparr>ring := ?q\<rparr>))"
    by (rule Cons.hyps(1)) (use Cons.prems q in simp_all)
  then obtain ls' q' where ls': "run R W (s\<lparr>ring := ?q\<rparr>) ls' (s\<lparr>ring := q'\<rparr>)" "quiet q'" "contents q' = []"
    "writep q' = writep (ring s)" "length (elements q') = length (elements (ring s))"
    "committed ls' = []" "delivered ls' = vs" using q(2) by auto
  show ?case
    by (rule exI [of _ "ls @ ls'"], rule exI [of _ q'])
      (use run_append [OF ls'(1) ls(1)] ls ls' Cons.hyps(2) in auto)
qed

lemma run_laps:
  assumes "c \<in> R" and "b \<in> W" and "threads s b = Idle" and "threads s c = Idle"
    and "quiet (ring s)" and "contents (ring s) = []" and "2 \<le> length (elements (ring s))"
  shows "\<exists>ls q'. run R W s ls (s\<lparr>ring := q'\<rparr>) \<and> quiet q' \<and> contents q' = [] \<and>
     readp q' = (readp (ring s) + k) mod length (elements (ring s)) \<and>
     length (elements q') = length (elements (ring s)) \<and> committed ls = replicate k e \<and> delivered ls = replicate k e"
proof (induction k)
  case 0
  have "wf_ring (ring s)" using assms(5) by (simp add: quiet_def)
  then show ?case using assms(5,6) wf_ringD(3) [of "ring s"]
    by (intro exI [of _ "[]"] exI [of _ "ring s"]) (simp add: run_Nil)
next
  case (Suc k)
  then obtain ls q1 where q1: "run R W s ls (s\<lparr>ring := q1\<rparr>)" "quiet q1" "contents q1 = []"
    "readp q1 = (readp (ring s) + k) mod length (elements (ring s))" "length (elements q1) = length (elements (ring s))"
    "committed ls = replicate k e" "delivered ls = replicate k e" by blast
  have w1: "wf_ring q1" using q1(2) by (simp add: quiet_def)
  have room: "length (contents q1) < length (elements q1) - 1" unfolding q1(3,5) using assms(7) by simp
  then have "count q1 < length (elements q1) - 1" by simp
  then have p: "wf_ring (put e q1)" "contents (put e q1) = [e]" "writep2 (put e q1) = writep (put e q1)"
    "length (elements (put e q1)) = length (elements q1)" "readp (put e q1) = readp q1" "slots (put e q1) = slots q1"
    using put_facts [OF w1, of e] q1(3) by simp_all
  obtain ls1 where ls1: "run R W (s\<lparr>ring := q1\<rparr>) ls1 (s\<lparr>ring := put e q1\<rparr>)" "committed ls1 = [e]" "delivered ls1 = []"
    using run_write [of b W "s\<lparr>ring := q1\<rparr>" R e] assms(2,3) q1(2) room by auto
  let ?q2 = "(put e q1)\<lparr>readp := circ_inc_pointer (put e q1) (readp (put e q1))\<rparr>"
  obtain ls2 where ls2: "run R W (s\<lparr>ring := put e q1\<rparr>) ls2 (s\<lparr>ring := ?q2\<rparr>)" "committed ls2 = []" "delivered ls2 = [e]"
    using run_read [of c R "s\<lparr>ring := put e q1\<rparr>" e "[]" W] assms(1,4) p by auto
  have i: "circ_inc_pointer (put e q1) (readp (put e q1)) = (readp (ring s) + Suc k) mod length (elements (ring s))"
    using circ_inc(1) [OF p(1) wf_ringD(3) [OF p(1)]] p q1 by (simp add: mod_simps)
  have "quiet ?q2" "contents ?q2 = []" "length (elements ?q2) = length (elements (ring s))"
    using p read_nonempty(2) [OF p(1,2)] circ_inc(2) [OF p(1) wf_ringD(3) [OF p(1)]] q1 by (simp_all add: quiet_def)
  moreover have "run R W s ((ls @ ls1) @ ls2) (s\<lparr>ring := ?q2\<rparr>)"
    using run_append [OF ls2(1)] run_append [OF ls1(1) q1(1)] by blast
  ultimately show ?case using i q1 ls1 ls2
    by (intro exI [of _ "(ls @ ls1) @ ls2"] exI [of _ ?q2]) (simp flip: replicate_append_same)
qed

lemma run_inside:
  "advance (ring s) (threads s t) = Some (l, q, th) \<Longrightarrow>
   run R W s [l] (s\<lparr>ring := q, threads := (threads s)(t := th)\<rparr>)"
  using run_snoc [OF run_Nil step.inside, of s t l q th R W] by simp

section \<open>Properties\<close>

text \<open>C6: The constructor accepts exactly the powers of two. A client whose calls do not overlap sees a FIFO
  list of at most \<open>capacity - 1\<close> elements: every call returns, with the same answer, and \<open>is_empty\<close>,
  \<open>is_full\<close> and \<open>size\<close> are those of the list.\<close>

theorem sequential_fifo:
  "case circular_queue_new capacity of
     Inl _ \<Rightarrow> \<forall>k. unat capacity \<noteq> 2 ^ k
   | Inr q \<Rightarrow> (\<exists>k. unat capacity = 2 ^ k) \<and>
       (\<exists>as q'. calls_on non_blocking_read non_blocking_write cs q = Some (as, q') \<and>
          fifo_calls (unat capacity - 1) cs [] = (as, contents q') \<and> (is_empty q' \<longleftrightarrow> contents q' = []) \<and>
          (is_full q' \<longleftrightarrow> length (contents q') = unat capacity - 1) \<and>
          queue_size q' = of_nat (length (contents q')))"
proof (cases "circular_queue_new capacity :: queue_error + 'a circular_queue")
  case (Inl e)
  have "unat capacity \<noteq> 2 ^ k" for k
  proof
    assume k: "unat capacity = 2 ^ k"
    have "capacity = of_nat (unat capacity)" by simp
    then have c: "capacity = 2 ^ k" by (simp add: k)
    have "unat capacity < 2 ^ 64" using unsigned_less [of capacity] by simp
    then have "(2::nat) ^ k < 2 ^ 64" unfolding k .
    then have "k < 64" by (rule power_less_imp_less_exp [rotated]) simp
    then have "capacity AND (capacity - 1) = 0"
      unfolding c by (intro bit_word_eqI) (auto simp: bit_and_iff bit_exp_iff bit_mask_iff simp flip: mask_eq_exp_minus_1)
    then show False using Inl k by (auto simp: circular_queue_new_def split: if_splits)
  qed
  then show ?thesis using Inl by simp
next
  case (Inr q)
  note q = circular_queue_new_wf [OF Inr]
  have p: "\<exists>k. unat capacity = 2 ^ k" using power_of_two [of "slots q"] q(1,4) by (auto simp: wf_ring_def)
  have "quiet q" using q by (simp add: quiet_def)
  then obtain as q' where q': "calls_on non_blocking_read non_blocking_write cs q = Some (as, q')" "quiet q'"
    "length (elements q') - 1 = unat capacity - 1" "fifo_calls (unat capacity - 1) cs [] = (as, contents q')"
    using ring_fifo.calls_simulate [of q cs] q(2,4) by auto
  then have w: "wf_ring q'" by (simp add: quiet_def)
  have "is_empty q' \<longleftrightarrow> contents q' = []" using contents_Nil_iff [OF w] by (simp add: is_empty_def)
  moreover have "is_full q' \<longleftrightarrow> length (contents q') = unat capacity - 1"
    using count_room [OF w] q'(3) by (simp add: is_full_def is_full_at_def)
  ultimately show ?thesis using Inr p q' queue_size_contents [OF w] by simp
qed

text \<open>C5: One reader and one writer, interleaved in any order on a new ring: no thread leaves the array; the
  elements delivered and those in the ring are the elements committed, in this order; a reader that finds
  the ring empty finds it so, and a writer is refused only by a ring that has no free slot.\<close>

theorem one_reader_one_writer:
  assumes "circular_queue_new capacity = Inr q" and "r \<noteq> w" and "run {r} {w} (resting q) ls s"
  shows "committed ls = delivered ls @ contents (ring s) \<and> length (contents (ring s)) < unat capacity \<and>
    advance (ring s) (threads s t) \<noteq> None \<and>
    (step {r} {w} s Found_empty s' \<longrightarrow> contents (ring s) = []) \<and>
    (step {r} {w} s (Found_full e) s' \<longrightarrow> length (contents (ring s)) = unat capacity - 1)"
proof -
  note q = circular_queue_new_wf [OF assms(1)]
  have i: "one_each r w ls s" and n: "length (elements (ring s)) = unat capacity"
    using run_one_each [OF assms(3) one_each_resting assms(2)] q by (auto simp: quiet_def resting_def)
  have "safe s" using run_safe [OF assms(3) safe_resting] q(1) by simp
  then have "advance (ring s) (threads s t) \<noteq> None" using advance_safe by (fastforce simp: safe_def)
  moreover have "length (contents (ring s)) < unat capacity"
    using i n count_facts(1) [of "ring s"] by (simp add: one_each_def)
  ultimately show ?thesis
    using i n step_one_each [OF _ i assms(2)] by (auto simp: one_each_def)
qed

text \<open>C10: Any number of readers and writers, stopped anywhere in any interleaving; from there one of them runs
  alone. A reader returns within seven steps. So does a writer, unless it has to wait for another writer
  that has reserved a slot and not committed it: then it never returns, \<open>non_blocking_write\<close> blocks.\<close>

theorem calls_return:
  assumes "circular_queue_new capacity = Inr q" and "run R W (resting q) ls s"
  shows "(reading (threads s t) \<longrightarrow> finishes 7 (ring s) (threads s t)) \<and>
    (writing (threads s t) \<longrightarrow>
      (if blocked (ring s) (threads s t) then \<forall>n. \<not> finishes n (ring s) (threads s t)
       else finishes 7 (ring s) (threads s t)))"
proof -
  have "safe s" using run_safe [OF assms(2) safe_resting] circular_queue_new_wf(1) [OF assms(1)] by simp
  then have s: "wf_ring (ring s)" "locals_inside (ring s) (threads s t)" by (simp_all add: safe_def)
  have "finishes 7 (ring s) (threads s t)" if "reading (threads s t)"
    using that finishes_mono [OF reader_finishes(1) [OF s(1)], of 7] finishes_mono [OF reader_finishes(2) [OF s(1)], of 7]
      finishes_mono [OF reader_finishes(3) [OF s(1)], of _ 7] reader_finishes(4) [OF s(1)] s(2)
    by (cases "threads s t") simp_all
  moreover have "\<not> finishes n (ring s) (threads s t)" if "blocked (ring s) (threads s t)" for n
    using blocked_solo [OF s(1) that s(2)] by (auto simp: finishes_def)
  ultimately show ?thesis using writer_finishes [OF s] by auto
qed

text \<open>With a second writer a free slot is not enough. From every state in which the ring has one and the
  threads rest, this can happen: \<open>a\<close> reads \<open>_writep\<close> and is stopped; \<open>b\<close> writes an element and
  \<open>c\<close> reads all of them; now the ring is empty, and \<open>a\<close>, which compares its old copy with the new
  \<open>readp\<close>, is told that it is full.\<close>

lemma full_when_empty:
  assumes "a \<in> W" and "b \<in> W" and "c \<in> R" and "a \<noteq> b" and "a \<noteq> c"
    and idle: "threads s a = Idle" "threads s b = Idle" "threads s c = Idle"
    and q: "quiet (ring s)" and room: "length (contents (ring s)) < length (elements (ring s)) - 1"
  shows "\<exists>ls s'. run R W s ls s' \<and> committed ls = [x] \<and> delivered ls = contents (ring s) @ [x] \<and>
    contents (ring s') = [] \<and> threads s' a = W_done ROFL_FAILURE"
proof -
  have w: "wf_ring (ring s)" "writep2 (ring s) = writep (ring s)" using q by (simp_all add: quiet_def)
  let ?p = "writep (ring s)"
  let ?s1 = "s\<lparr>threads := (threads s)(a := W_start e)\<rparr>" and ?s2 = "s\<lparr>threads := (threads s)(a := W_check e ?p)\<rparr>"
  have r1: "run R W s [Tau] ?s1" using run_snoc [OF run_Nil step.call_write] assms(1) idle by fastforce
  have "run R W ?s1 [Tau] ?s2"
    using run_inside [of ?s1 a Tau "ring s" "W_check e ?p" R W] w(2) by simp
  from run_append [OF this r1] have r2: "run R W s [Tau, Tau] ?s2" by simp
  obtain ls3 where r3: "run R W ?s2 ls3 (?s2\<lparr>ring := put x (ring s)\<rparr>)" "committed ls3 = [x]" "delivered ls3 = []"
    using run_write [of b W ?s2 R x] assms(2,4) idle q room by auto
  let ?s3 = "?s2\<lparr>ring := put x (ring s)\<rparr>"
  have p: "wf_ring (put x (ring s))" "contents (put x (ring s)) = contents (ring s) @ [x]"
    "writep2 (put x (ring s)) = writep (put x (ring s))" "length (elements (put x (ring s))) = length (elements (ring s))"
    using put_facts [OF w(1), of x] room by simp_all
  obtain ls4 q4 where r4: "run R W ?s3 ls4 (?s3\<lparr>ring := q4\<rparr>)" "quiet q4" "contents q4 = []"
    "writep q4 = writep (put x (ring s))" "length (elements q4) = length (elements (ring s))"
    "committed ls4 = []" "delivered ls4 = contents (ring s) @ [x]"
    using run_drain [of c R ?s3 W] assms(3,5) idle p by (auto simp: quiet_def)
  let ?s4 = "?s3\<lparr>ring := q4\<rparr>"
  have w4: "wf_ring q4" using r4(2) by (simp add: quiet_def)
  have "(?p + 1) mod length (elements q4) = readp q4"
    using contents_Nil_iff [OF w4] r4(3-5) circ_inc(1) [OF w(1) wf_ringD(1) [OF w(1)]] by (simp add: put_def)
  then have "is_full_at q4 ?p (readp q4)"
    using is_full_iff [OF w4, of ?p "readp q4"] wf_ringD(1) [OF w(1)] wf_ringD(3) [OF w4] r4(5) by simp
  then have "run R W ?s4 [Found_full e] (?s4\<lparr>ring := q4, threads := (threads ?s4)(a := W_done ROFL_FAILURE)\<rparr>)"
    by (intro run_inside) simp
  from run_append [OF run_append [OF run_append [OF this r4(1)] r3(1)] r2]
  show ?thesis using r3(2,3) r4(3,6,7) by fastforce
qed

text \<open>With a second reader an element can be delivered twice and another one be lost, for every size of the
  ring: reader \<open>a\<close> has copied the first element and is stopped in front of its compare-and-swap;
  the others read everything and move on until \<open>readp\<close> is the same slot again; then the
  compare-and-swap of \<open>a\<close> succeeds, \<open>a\<close> returns the old element and skips the new one.\<close>

lemma element_twice:
  assumes "a \<in> R" and "c \<in> R" and "b \<in> W" and "a \<noteq> b" and "a \<noteq> c"
    and idle: "threads s a = Idle" "threads s b = Idle" "threads s c = Idle"
    and q: "quiet (ring s)" and v: "contents (ring s) = v # vs"
  shows "\<exists>ls s' k. run R W s ls s' \<and> committed ls = replicate k e @ [x] \<and>
    delivered ls = v # vs @ replicate k e @ [v] \<and> contents (ring s') = [] \<and> threads s' a = R_done v"
proof -
  have w: "wf_ring (ring s)" "writep2 (ring s) = writep (ring s)" using q by (simp_all add: quiet_def)
  let ?r = "readp (ring s)" and ?n = "length (elements (ring s))"
  have c0: "count (ring s) \<noteq> 0" using v length_contents [of "ring s"] by (metis length_Cons nat.distinct(1))
  then have ne: "writep (ring s) \<noteq> ?r" using count_facts(2) [OF w(1)] by simp
  have n2: "2 \<le> ?n" using count_facts(1) [OF w(1)] c0 by simp
  have e0: "elements (ring s) ! ?r = v" using contents_deq [OF w(1) c0] v by simp
  let ?s1 = "s\<lparr>threads := (threads s)(a := R_start)\<rparr>"
  let ?th = "R_cas ?r (circ_inc_pointer (ring s) ?r) v"
  let ?s2 = "s\<lparr>threads := (threads s)(a := ?th)\<rparr>"
  have r1: "run R W s [Tau] ?s1" using run_snoc [OF run_Nil step.call_read] assms(1) idle by fastforce
  have so: "solo 3 (ring s) R_start = Some (ring s, ?th)" "solo_labels 3 (ring s) R_start = [Tau, Tau, Tau]"
    using ne e0 wf_ringD(3) [OF w(1)] by (simp_all add: eval_nat_numeral is_empty_at_def)
  have "run R W ?s1 [Tau, Tau, Tau] ?s2" using run_solo [of 3 ?s1 a "ring s" ?th R W] so by simp
  from run_append [OF this r1] have r2: "run R W s [Tau, Tau, Tau, Tau] ?s2" by simp
  obtain ls3 q3 where r3: "run R W ?s2 ls3 (?s2\<lparr>ring := q3\<rparr>)" "quiet q3" "contents q3 = []"
    "writep q3 = writep (ring s)" "length (elements q3) = ?n" "committed ls3 = []" "delivered ls3 = v # vs"
    using run_drain [of c R ?s2 W] assms(2,5) idle q v by auto
  let ?k = "(?r + ?n - writep (ring s)) mod ?n"
  let ?s3 = "?s2\<lparr>ring := q3\<rparr>"
  obtain ls4 q4 where r4: "run R W ?s3 ls4 (?s3\<lparr>ring := q4\<rparr>)" "quiet q4" "contents q4 = []"
    "readp q4 = (readp q3 + ?k) mod ?n" "length (elements q4) = ?n"
    "committed ls4 = replicate ?k e" "delivered ls4 = replicate ?k e"
    using run_laps [of c R b W ?s3 ?k e] assms(2-5) idle r3 n2 by auto
  let ?s4 = "?s3\<lparr>ring := q4\<rparr>"
  have w3: "wf_ring q3" and w4: "wf_ring q4" using r3(2) r4(2) by (simp_all add: quiet_def)
  have "readp q3 = writep (ring s)" using contents_Nil_iff [OF w3] r3(3,4) by simp
  then have at: "readp q4 = ?r"
    using r4(4) wf_ringD(1,3) [OF w(1)] by (simp add: mod_simps)
  have room: "count q4 < length (elements q4) - 1"
    using r4(3,5) n2 length_contents [of q4] by (metis One_nat_def Suc_1 Suc_le_lessD list.size(3) zero_less_diff)
  then have p: "wf_ring (put x q4)" "contents (put x q4) = [x]" "readp (put x q4) = ?r"
    "length (elements (put x q4)) = ?n"
    using put_facts [OF w4, of x] r4(3,5) at by simp_all
  obtain ls5 where r5: "run R W ?s4 ls5 (?s4\<lparr>ring := put x q4\<rparr>)" "committed ls5 = [x]" "delivered ls5 = []"
    using run_write [of b W ?s4 R x] assms(3,4) idle r4(2) room by auto
  let ?s5 = "?s4\<lparr>ring := put x q4\<rparr>" and ?q = "(put x q4)\<lparr>readp := circ_inc_pointer (ring s) ?r\<rparr>"
  have "run R W ?s5 [Deq v] (?s5\<lparr>ring := ?q, threads := (threads ?s5)(a := R_done v)\<rparr>)"
    by (rule run_inside) (simp add: p(3))
  from run_append [OF run_append [OF run_append [OF run_append [OF this r5(1)] r4(1)] r3(1)] r2]
  have run: "run R W s ([Tau, Tau, Tau, Tau] @ ls3 @ ls4 @ ls5 @ [Deq v])
      (?s5\<lparr>ring := ?q, threads := (threads ?s5)(a := R_done v)\<rparr>)" by simp
  have "circ_inc_pointer (ring s) ?r = circ_inc_pointer (put x q4) (readp (put x q4))"
    using circ_inc(1) [OF w(1) wf_ringD(3) [OF w(1)]] circ_inc(1) [OF p(1) wf_ringD(3) [OF p(1)]] p(3,4) by simp
  then have "contents ?q = []" using read_nonempty(2) [OF p(1,2)] by simp
  then show ?thesis using r3(6,7) r4(6,7) r5(2,3)
    by (intro exI [of _ "[Tau, Tau, Tau, Tau] @ ls3 @ ls4 @ ls5 @ [Deq v]"]
        exI [of _ "?s5\<lparr>ring := ?q, threads := (threads ?s5)(a := R_done v)\<rparr>"] exI [of _ ?k] conjI run) simp_all
qed

text \<open>A ring of four slots and what the properties say of it.\<close>

definition ring4 :: "nat circular_queue" where
  "ring4 = \<lparr>slots = 4, elements = replicate 4 None, writep = 0, writep2 = 0, readp = 0\<rparr>"

lemma ring4:
  "circular_queue_new 4 = Inr ring4" "quiet ring4" "contents ring4 = []"
  "quiet (put (Some 1) ring4)" "contents (put (Some 1) ring4) = [Some 1]" "length (elements (put e ring4)) = 4"
  "length (elements ring4) = 4" "count ring4 = 0"
proof -
  show new: "circular_queue_new 4 = Inr ring4" by (simp add: circular_queue_new_def ring4_def)
  note wf = circular_queue_new_wf [OF new]
  show "quiet ring4" "contents ring4 = []" using wf by (simp_all add: quiet_def)
  show "length (elements ring4) = 4" "count ring4 = 0" by (simp_all add: ring4_def count_def)
  have "count ring4 < length (elements ring4) - 1" using wf(4) by (simp add: ring4_def count_def)
  then show "quiet (put (Some 1) ring4)" "contents (put (Some 1) ring4) = [Some 1]" "length (elements (put e ring4)) = 4"
    using put_facts [OF wf(1)] wf(2,4) by (simp_all add: quiet_def)
qed

theorem one_reader_one_writer_witness:
  "\<exists>ls s. run {0} {1} (resting ring4) ls s \<and> committed ls = [Some 7] \<and>
     committed ls = delivered ls @ contents (ring s)"
proof -
  obtain ls where ls: "run {0} {1} (resting ring4) ls ((resting ring4)\<lparr>ring := put (Some 7) ring4\<rparr>)"
    "committed ls = [Some 7]"
    using run_write [of 1 "{1}" "resting ring4" "{0}" "Some 7"] ring4 by (auto simp: resting_def)
  moreover have "committed ls = delivered ls @ contents (put (Some 7) ring4)"
    using one_reader_one_writer [OF ring4(1) _ ls(1)] by simp
  ultimately show ?thesis by (intro exI [of _ ls] exI [of _ "(resting ring4)\<lparr>ring := put (Some 7) ring4\<rparr>"]) simp
qed

theorem calls_return_witness:
  "finishes 7 (ring ((resting ring4)\<lparr>threads := (\<lambda>_. Idle)(0 := R_start)\<rparr>)) R_start"
proof -
  have "run {0} {1} (resting ring4) ([] @ [Tau]) ((resting ring4)\<lparr>threads := (threads (resting ring4))(0 := R_start)\<rparr>)"
    by (intro run_snoc [OF run_Nil] step.call_read) (simp_all add: resting_def)
  then show ?thesis using calls_return [OF ring4(1), of "{0}" "{1}" _ _ 0] by (fastforce simp: resting_def)
qed

end
