(* ===== verification/Bufferpool.thy ===== *)
theory Bufferpool
  imports Datapacket Circular_Queue
begin

text \<open>
  \<open>io/bufferpool.h\<close>, \<open>io/bufferpool_meta.h\<close> and \<open>io/bufferpool.cc\<close>: the pool of packet buffers all
  threads of the driver share. The free buffers are the contents of a ring of pointers to the slots of
  \<open>pool\<close>; here such a pointer is the index of the slot. The calls are those of the ring that are
  not interrupted (see \<open>Circular_Queue\<close> for what threads can do to each other there).

  \<open>heap\<close> holds the \<open>datapacket_t\<close> objects by address, addresses numbered in the order of
  allocation; \<open>None\<close> is memory not allocated or freed. Memory is assumed not to run out in the constructor.
\<close>

section \<open>State\<close>

datatype bpool_slot_status = BUFFERPOOL_SLOT_UNAVAILABLE | BUFFERPOOL_SLOT_AVAILABLE | BUFFERPOOL_SLOT_IN_USE

record bpool_slot =
  status :: bpool_slot_status
  pkt :: "nat option"

text \<open>The members of \<open>datapacket_t\<close> the driver uses; \<open>platform_state\<close> is the \<open>datapacketx86\<close>,
  \<open>pkt_sw\<close> the switch (\<open>sw\<close>), and \<open>write_actions\<close> stands for the pipeline's action set, which is only
  copied.\<close>

record datapacket =
  id :: u32
  is_replica :: bool
  pkt_sw :: "nat option"
  write_actions :: nat
  platform_state :: datapacketx86

record bufferpool =
  pool :: "bpool_slot list"
  cq :: "nat circular_queue"
  used :: u64
  heap :: "nat \<Rightarrow> datapacket option"

definition IO_BUFFERPOOL_RESERVOIR :: u64 where
  "IO_BUFFERPOOL_RESERVOIR = 2048"

definition capacity :: u64 where
  "capacity = IO_BUFFERPOOL_RESERVOIR + 2048 * 16 - 2048"

datatype pool_error = Invalid_size | Insertion_failed

section \<open>Constructor and destructor\<close>

text \<open>The loop of the constructor: \<open>n\<close> buffers from index \<open>i\<close> on; \<open>dp0\<close> is what the memory of a
  new \<open>datapacketx86\<close> holds.\<close>

primrec add_buffers :: "datapacketx86 \<Rightarrow> nat \<Rightarrow> nat \<Rightarrow> bufferpool \<Rightarrow> (pool_error + bufferpool) option" where
  "add_buffers dp0 0 i bp = Some (Inr bp)"
| "add_buffers dp0 (Suc n) i bp =
     (if i < length (pool bp) then do {
        let dp = \<lparr>id = of_nat i, is_replica = False, pkt_sw = None, write_actions = 0, platform_state = construct dp0\<rparr>;
        let bp = bp\<lparr>heap := (heap bp)(i := Some dp),
          pool := (pool bp)[i := \<lparr>status = BUFFERPOOL_SLOT_AVAILABLE, pkt = Some i\<rparr>]\<rparr>;
        (r, q) \<leftarrow> non_blocking_write (Some i) (cq bp);
        if r = ROFL_SUCCESS then add_buffers dp0 n (i + 1) (bp\<lparr>cq := q\<rparr>) else Some (Inl Insertion_failed) }
      else None)"

definition bufferpool_new :: "datapacketx86 \<Rightarrow> u64 \<Rightarrow> (pool_error + bufferpool) option" where
  "bufferpool_new dp0 c =
     (case circular_queue_new c of
        Inl e \<Rightarrow> Some (Inl Invalid_size)
      | Inr q \<Rightarrow> add_buffers dp0 (unat c - 1) 0
          \<lparr>pool = replicate (unat c) \<lparr>status = BUFFERPOOL_SLOT_UNAVAILABLE, pkt = None\<rparr>,
           cq = q, used = 0, heap = (\<lambda>_. None)\<rparr>)"

text \<open>The loop of the destructor, with at most \<open>fuel\<close> rounds: it frees the buffers in the ring and counts
  them. Freeing a buffer twice has no defined continuation.\<close>

primrec free_buffers :: "nat \<Rightarrow> u64 \<Rightarrow> bufferpool \<Rightarrow> (u64 \<times> bufferpool) option" where
  "free_buffers 0 i bp = None"
| "free_buffers (Suc fuel) i bp =
     (if is_empty (cq bp) then Some (i, bp)
      else do {
        (tmp, q) \<leftarrow> non_blocking_read (cq bp);
        let bp = bp\<lparr>cq := q\<rparr>;
        case tmp of
          None \<Rightarrow> free_buffers fuel i bp
        | Some j \<Rightarrow>
            if j < length (pool bp) then
              (case pkt (pool bp ! j) of
                 None \<Rightarrow> free_buffers fuel (i + 1) bp
               | Some p \<Rightarrow> do { dp \<leftarrow> heap bp p; free_buffers fuel (i + 1) (bp\<lparr>heap := (heap bp)(p := None)\<rparr>) })
            else None })"

definition bufferpool_delete :: "rofl \<Rightarrow> u64 \<Rightarrow> bufferpool \<Rightarrow> bufferpool option" where
  "bufferpool_delete K c bp = do {
     (i, bp) \<leftarrow> free_buffers (unat c) 0 bp;
     c_assert K (i = c - 1);
     Some bp }"

section \<open>The static interface\<close>

text \<open>\<open>instance\<close> is \<open>None\<close> until \<open>init\<close>; \<open>get_instance\<close> waits for it (\<open>None\<close> of the outer
  option: the calling thread does not continue by itself).\<close>

definition get_instance :: "bufferpool option \<Rightarrow> bufferpool option" where
  "get_instance inst = inst"

definition init :: "datapacketx86 \<Rightarrow> u64 \<Rightarrow> bufferpool option \<Rightarrow> (pool_error + bufferpool option) option" where
  "init dp0 c inst =
     (case inst of
        Some bp \<Rightarrow> Some (Inr inst)
      | None \<Rightarrow> do { r \<leftarrow> bufferpool_new dp0 c; Some (case r of Inl e \<Rightarrow> Inl e | Inr bp \<Rightarrow> Inr (Some bp)) })"

definition get_buffer_checked :: "rofl \<Rightarrow> nat \<Rightarrow> bufferpool \<Rightarrow> bufferpool option" where
  "get_buffer_checked K j bp =
     (if DEBUG K then do {
        c_assert K (status (pool bp ! j) = BUFFERPOOL_SLOT_AVAILABLE);
        Some (bp\<lparr>used := used bp + 1, pool := (pool bp)[j := (pool bp ! j)\<lparr>status := BUFFERPOOL_SLOT_IN_USE\<rparr>]\<rparr>) }
      else Some bp)"

definition get_buffer :: "rofl \<Rightarrow> bufferpool option \<Rightarrow> (nat option \<times> bufferpool option) option" where
  "get_buffer K inst = do {
     bp \<leftarrow> get_instance inst;
     (tmp, q) \<leftarrow> non_blocking_read (cq bp);
     let bp = bp\<lparr>cq := q\<rparr>;
     case tmp of
       None \<Rightarrow> Some (None, Some bp)
     | Some j \<Rightarrow>
         if j < length (pool bp) then do {
           bp \<leftarrow> get_buffer_checked K j bp;
           Some (pkt (pool bp ! j), Some bp) }
         else None }"

text \<open>\<open>BUFFERPOOL_CLEAR_IS_REPLICA\<close> is defined in this driver, the release hook is empty, and what
  \<open>non_blocking_write\<close> returns is not looked at.\<close>

definition release_buffer_checked :: "rofl \<Rightarrow> nat \<Rightarrow> bufferpool \<Rightarrow> bufferpool option" where
  "release_buffer_checked K j bp =
     (if DEBUG K then do {
        c_assert K (status (pool bp ! j) = BUFFERPOOL_SLOT_IN_USE);
        Some (bp\<lparr>pool := (pool bp)[j := (pool bp ! j)\<lparr>status := BUFFERPOOL_SLOT_AVAILABLE\<rparr>], used := used bp - 1\<rparr>) }
      else Some bp)"

definition release_buffer :: "rofl \<Rightarrow> nat \<Rightarrow> bufferpool option \<Rightarrow> bufferpool option option" where
  "release_buffer K p inst = do {
     bp \<leftarrow> get_instance inst;
     dp \<leftarrow> heap bp p;
     let j = unat (id dp);
     if j < length (pool bp) then do {
       let bp = bp\<lparr>heap := (heap bp)(p := Some (dp\<lparr>is_replica := False\<rparr>))\<rparr>;
       bp \<leftarrow> release_buffer_checked K j bp;
       (r, q) \<leftarrow> non_blocking_write (Some j) (cq bp);
       Some (Some (bp\<lparr>cq := q\<rparr>)) }
     else None }"

definition pool_destroy :: "rofl \<Rightarrow> u64 \<Rightarrow> bufferpool option \<Rightarrow> bufferpool option option" where
  "pool_destroy K c inst = do {
     bp \<leftarrow> get_instance inst;
     bufferpool_delete K c bp;
     Some None }"

section \<open>No buffer is lost or handed out twice\<close>

text \<open>\<open>H\<close> are the buffers the clients hold; the free ones are in the ring, each once.\<close>

definition pool_inv :: "rofl \<Rightarrow> nat \<Rightarrow> nat set \<Rightarrow> bufferpool \<Rightarrow> bool" where
  "pool_inv K c H bp \<longleftrightarrow> quiet (cq bp) \<and> length (elements (cq bp)) = c \<and> length (pool bp) = c \<and> c \<le> 2 ^ 32 \<and>
     (\<exists>js. contents (cq bp) = map Some js \<and> distinct js \<and> set js = {..<c - 1} - H) \<and> H \<subseteq> {..<c - 1} \<and>
     (\<forall>j<c - 1. pkt (pool bp ! j) = Some j \<and> (\<exists>d. heap bp j = Some d \<and> id d = of_nat j) \<and>
        (DEBUG K \<longrightarrow> status (pool bp ! j) = (if j \<in> H then BUFFERPOOL_SLOT_IN_USE else BUFFERPOOL_SLOT_AVAILABLE)))"

lemma pool_invE:
  assumes "pool_inv K c H bp"
  obtains js where "quiet (cq bp)" "length (elements (cq bp)) = c" "length (pool bp) = c" "c \<le> 2 ^ 32"
    "contents (cq bp) = map Some js" "distinct js" "set js = {..<c - 1} - H" "H \<subseteq> {..<c - 1}"
    "\<And>j. j < c - 1 \<Longrightarrow> pkt (pool bp ! j) = Some j"
    "\<And>j. j < c - 1 \<Longrightarrow> \<exists>d. heap bp j = Some d \<and> id d = of_nat j"
    "\<And>j. j < c - 1 \<Longrightarrow> DEBUG K \<Longrightarrow>
       status (pool bp ! j) = (if j \<in> H then BUFFERPOOL_SLOT_IN_USE else BUFFERPOOL_SLOT_AVAILABLE)"
  using assms unfolding pool_inv_def by blast

lemma same_slots:
  assumes "quiet q" and "quiet q'" and "length (elements q') - 1 = length (elements q) - 1"
  shows "length (elements q') = length (elements q)"
proof -
  have "0 < length (elements q)" "0 < length (elements q')"
    using wf_ringD(4) assms(1,2) unfolding quiet_def by blast+
  then show ?thesis using assms(3) by linarith
qed

lemma get_buffer_ok:
  assumes "pool_inv K c H bp"
  shows "(H = {..<c - 1} \<longrightarrow> get_buffer K (Some bp) = Some (None, Some bp)) \<and>
    (H \<noteq> {..<c - 1} \<longrightarrow> (\<exists>p bp'. get_buffer K (Some bp) = Some (Some p, Some bp') \<and> p < c - 1 \<and> p \<notin> H \<and>
       pool_inv K c (insert p H) bp'))"
proof -
  obtain js where i: "quiet (cq bp)" "length (elements (cq bp)) = c" "length (pool bp) = c" "c \<le> 2 ^ 32"
    "contents (cq bp) = map Some js" "distinct js" "set js = {..<c - 1} - H" "H \<subseteq> {..<c - 1}"
    "\<And>j. j < c - 1 \<Longrightarrow> pkt (pool bp ! j) = Some j"
    "\<And>j. j < c - 1 \<Longrightarrow> \<exists>d. heap bp j = Some d \<and> id d = of_nat j"
    "\<And>j. j < c - 1 \<Longrightarrow> DEBUG K \<Longrightarrow>
       status (pool bp ! j) = (if j \<in> H then BUFFERPOOL_SLOT_IN_USE else BUFFERPOOL_SLOT_AVAILABLE)"
    using pool_invE [OF assms] by metis
  show ?thesis
  proof (cases js)
    case Nil
    then show ?thesis using i ring_fifo.rd_Nil [OF i(1)] by (auto simp: get_buffer_def get_instance_def)
  next
    case (Cons p ks)
    then have p: "p < c - 1" "p \<notin> H" "p \<in> set js" using i(7) by auto
    have "contents (cq bp) = Some p # map Some ks" using i(5) Cons by simp
    then obtain q where q: "non_blocking_read (cq bp) = Some (Some p, q)" "quiet q" "contents q = map Some ks"
      "length (elements q) = c"
      using ring_fifo.rd_Cons [OF i(1)] same_slots [OF i(1)] i(2) by metis
    let ?bp = "if DEBUG K then bp\<lparr>cq := q, used := used bp + 1,
      pool := (pool bp)[p := (pool bp ! p)\<lparr>status := BUFFERPOOL_SLOT_IN_USE\<rparr>]\<rparr> else bp\<lparr>cq := q\<rparr>"
    have "get_buffer K (Some bp) = Some (Some p, Some ?bp)"
      using i(3) i(9) [of p] i(11) [of p] p q(1) by (simp add: get_buffer_def get_instance_def get_buffer_checked_def c_assert_def Let_def)
    moreover have "pool_inv K c (insert p H) ?bp"
      using i p q Cons unfolding pool_inv_def by (auto simp: nth_list_update intro!: exI [of _ ks])
    ultimately show ?thesis using p by auto
  qed
qed

lemma release_buffer_ok:
  assumes "pool_inv K c H bp" and p: "p \<in> H"
  shows "\<exists>bp'. release_buffer K p (Some bp) = Some (Some bp') \<and> pool_inv K c (H - {p}) bp'"
proof -
  obtain js where i: "quiet (cq bp)" "length (elements (cq bp)) = c" "length (pool bp) = c" "c \<le> 2 ^ 32"
    "contents (cq bp) = map Some js" "distinct js" "set js = {..<c - 1} - H" "H \<subseteq> {..<c - 1}"
    "\<And>j. j < c - 1 \<Longrightarrow> pkt (pool bp ! j) = Some j"
    "\<And>j. j < c - 1 \<Longrightarrow> \<exists>d. heap bp j = Some d \<and> id d = of_nat j"
    "\<And>j. j < c - 1 \<Longrightarrow> DEBUG K \<Longrightarrow>
       status (pool bp ! j) = (if j \<in> H then BUFFERPOOL_SLOT_IN_USE else BUFFERPOOL_SLOT_AVAILABLE)"
    using pool_invE [OF assms(1)] by metis
  have pc: "p < c - 1" using p i(8) by blast
  obtain d where d: "heap bp p = Some d" "id d = of_nat p" using i(10) [OF pc] by blast
  have id: "unat (id d) = p" unfolding d(2) using pc i(4) by (simp add: unsigned_of_nat take_bit_nat_eq_self)
  have "length js = card ({..<c - 1} - H)" using distinct_card [OF i(6)] i(7) by simp
  also have "\<dots> < card {..<c - 1}" using p i(8) by (intro psubset_card_mono) auto
  finally have "length (contents (cq bp)) < length (elements (cq bp)) - 1" unfolding i(2,5) by simp
  then obtain q where q: "non_blocking_write (Some p) (cq bp) = Some (ROFL_SUCCESS, q)" "quiet q"
    "contents q = map Some (js @ [p])" "length (elements q) = c"
    using ring_fifo.wr_room [OF i(1)] same_slots [OF i(1)] i(2,5) by (metis list.simps(8,9) map_append)
  let ?h = "(heap bp)(p := Some (d\<lparr>is_replica := False\<rparr>))"
  let ?bp = "if DEBUG K then bp\<lparr>heap := ?h, pool := (pool bp)[p := (pool bp ! p)\<lparr>status := BUFFERPOOL_SLOT_AVAILABLE\<rparr>],
    used := used bp - 1, cq := q\<rparr> else bp\<lparr>heap := ?h, cq := q\<rparr>"
  have "release_buffer K p (Some bp) = Some (Some ?bp)"
    using i(3) i(9) [of p] i(11) [of p] p pc d(1) id q(1)
    by (simp add: release_buffer_def get_instance_def release_buffer_checked_def c_assert_def Let_def)
  moreover have "pool_inv K c (H - {p}) ?bp"
    using i p pc d q unfolding pool_inv_def by (auto simp: nth_list_update intro!: exI [of _ "js @ [p]"])
  ultimately show ?thesis by blast
qed

text \<open>The pool while the constructor fills it, with \<open>i\<close> buffers so far.\<close>

definition filling :: "nat \<Rightarrow> nat \<Rightarrow> bufferpool \<Rightarrow> bool" where
  "filling c i bp \<longleftrightarrow> quiet (cq bp) \<and> length (elements (cq bp)) = c \<and> length (pool bp) = c \<and>
     contents (cq bp) = map Some [0..<i] \<and>
     (\<forall>j<i. pool bp ! j = \<lparr>status = BUFFERPOOL_SLOT_AVAILABLE, pkt = Some j\<rparr> \<and>
        (\<exists>d. heap bp j = Some d \<and> id d = of_nat j))"

lemma add_buffers_ok:
  "filling c i bp \<Longrightarrow> i + n = c - 1 \<Longrightarrow> \<exists>bp'. add_buffers dp0 n i bp = Some (Inr bp') \<and> filling c (c - 1) bp'"
proof (induction n arbitrary: i bp)
  case 0
  then show ?case by simp
next
  case (Suc n)
  then have f: "quiet (cq bp)" "length (elements (cq bp)) = c" "length (pool bp) = c" "contents (cq bp) = map Some [0..<i]"
    "\<And>j. j < i \<Longrightarrow> pool bp ! j = \<lparr>status = BUFFERPOOL_SLOT_AVAILABLE, pkt = Some j\<rparr> \<and>
        (\<exists>d. heap bp j = Some d \<and> id d = of_nat j)" by (simp_all add: filling_def)
  have i: "i < c - 1" using Suc.prems(2) by simp
  then have "length (contents (cq bp)) < length (elements (cq bp)) - 1" unfolding f(2,4) by simp
  then obtain q where q: "non_blocking_write (Some i) (cq bp) = Some (ROFL_SUCCESS, q)" "quiet q"
    "contents q = map Some ([0..<i] @ [i])" "length (elements q) = c"
    using ring_fifo.wr_room [OF f(1)] same_slots [OF f(1)] f(2,4) by (metis list.simps(8,9) map_append)
  let ?bp = "bp\<lparr>heap := (heap bp)(i := Some \<lparr>id = of_nat i, is_replica = False, pkt_sw = None, write_actions = 0, platform_state = construct dp0\<rparr>),
    pool := (pool bp)[i := \<lparr>status = BUFFERPOOL_SLOT_AVAILABLE, pkt = Some i\<rparr>], cq := q\<rparr>"
  have "filling c (i + 1) ?bp"
    using f q i by (auto simp: filling_def nth_list_update less_Suc_eq)
  from Suc.IH [OF this] Suc.prems(2) obtain bp' where "add_buffers dp0 n (i + 1) ?bp = Some (Inr bp')" "filling c (c - 1) bp'"
    by auto
  then show ?case using q(1) i f(3) by simp
qed

lemma bufferpool_new_ok:
  assumes "circular_queue_new c = Inr (q :: nat circular_queue)" and "unat c \<le> 2 ^ 32"
  shows "\<exists>bp. bufferpool_new dp0 c = Some (Inr bp) \<and> pool_inv K (unat c) {} bp"
proof -
  note q = circular_queue_new_wf [OF assms(1)]
  let ?bp = "\<lparr>pool = replicate (unat c) \<lparr>status = BUFFERPOOL_SLOT_UNAVAILABLE, pkt = None\<rparr>,
           cq = q, used = 0, heap = (\<lambda>_. None)\<rparr>"
  have "filling (unat c) 0 ?bp" using q by (simp add: filling_def quiet_def)
  from add_buffers_ok [OF this, of "unat c - 1" dp0]
  obtain bp where bp: "bufferpool_new dp0 c = Some (Inr bp)" "filling (unat c) (unat c - 1) bp"
    using assms(1) by (auto simp: bufferpool_new_def)
  then have "pool_inv K (unat c) {} bp"
    using assms(2) by (auto simp: pool_inv_def filling_def intro!: exI [of _ "[0..<unat c - 1]"])
  then show ?thesis using bp(1) by blast
qed

lemma free_buffers_ok:
  assumes "quiet (cq bp)" and "contents (cq bp) = map Some js" and "length js < fuel"
    and "\<forall>j\<in>set js. j < length (pool bp) \<and> pkt (pool bp ! j) = Some j \<and> heap bp j \<noteq> None" and "distinct js"
  shows "\<exists>bp'. free_buffers fuel i bp = Some (i + of_nat (length js), bp')"
  using assms
proof (induction fuel arbitrary: js i bp)
  case 0
  then show ?case by simp
next
  case (Suc fuel)
  have w: "wf_ring (cq bp)" using Suc.prems(1) by (simp add: quiet_def)
  show ?case
  proof (cases js)
    case Nil
    then show ?thesis using Suc.prems(2) contents_Nil_iff [OF w] by (simp add: is_empty_def)
  next
    case (Cons j ks)
    then have "contents (cq bp) = Some j # map Some ks" using Suc.prems(2) by simp
    then obtain q where q: "non_blocking_read (cq bp) = Some (Some j, q)" "quiet q" "contents q = map Some ks"
      using ring_fifo.rd_Cons [OF Suc.prems(1)] by metis
    let ?bp = "bp\<lparr>cq := q, heap := (heap bp)(j := None)\<rparr>"
    have "\<exists>bp'. free_buffers fuel (i + 1) ?bp = Some (i + 1 + of_nat (length ks), bp')"
      by (rule Suc.IH) (use Suc.prems q Cons in auto)
    moreover have "writep (cq bp) \<noteq> readp (cq bp)" using contents_Nil_iff [OF w] Suc.prems(2) Cons by auto
    ultimately show ?thesis using Suc.prems(4) q(1) Cons by (auto simp: is_empty_def ac_simps)
  qed
qed

lemma pool_destroy_ok:
  assumes "pool_inv K (unat c) {} bp"
  shows "pool_destroy K c (Some bp) = Some None"
proof -
  obtain js where i: "quiet (cq bp)" "length (elements (cq bp)) = unat c" "length (pool bp) = unat c"
    "contents (cq bp) = map Some js" "distinct js" "set js = {..<unat c - 1}"
    "\<And>j. j < unat c - 1 \<Longrightarrow> pkt (pool bp ! j) = Some j"
    "\<And>j. j < unat c - 1 \<Longrightarrow> \<exists>d. heap bp j = Some d \<and> id d = of_nat j"
    using pool_invE [OF assms] by (metis Diff_empty)
  have l: "length js = unat c - 1" using distinct_card [OF i(5)] i(6) by simp
  have i8: "heap bp j \<noteq> None" if "j < unat c - 1" for j using i(8) [OF that] by auto
  have c: "unat c \<noteq> 0" using i(1,2) wf_ringD(4) by (metis less_numeral_extra(3) quiet_def)
  have "\<exists>bp'. free_buffers (unat c) 0 bp = Some (0 + of_nat (length js), bp')"
    by (rule free_buffers_ok [OF i(1,4)]) (use i(3,5-7) i8 l c in auto)
  moreover have "of_nat (unat c - 1) = c - 1" using c by simp
  ultimately show ?thesis using l
    by (auto simp: pool_destroy_def get_instance_def bufferpool_delete_def c_assert_def)
qed

section \<open>The interface\<close>

text \<open>What the rest of the driver relies on: \<open>inv H s\<close> says that the clients hold the buffers \<open>H\<close>.\<close>

locale buffer_pool =
  fixes get :: "'s \<Rightarrow> (nat option \<times> 's) option" and release :: "nat \<Rightarrow> 's \<Rightarrow> 's option"
    and inv :: "nat set \<Rightarrow> 's \<Rightarrow> bool" and buffers :: "nat set"
  assumes get_all: "inv buffers s \<Longrightarrow> get s = Some (None, s)"
    and get_some: "inv H s \<Longrightarrow> H \<noteq> buffers \<Longrightarrow>
      \<exists>p s'. get s = Some (Some p, s') \<and> p \<in> buffers - H \<and> inv (insert p H) s'"
    and release: "inv H s \<Longrightarrow> p \<in> H \<Longrightarrow> \<exists>s'. release p s = Some s' \<and> inv (H - {p}) s'"
begin

lemma get_cases:
  assumes "inv H s"
  obtains "H = buffers" "get s = Some (None, s)"
  | p s' where "get s = Some (Some p, s')" "p \<in> buffers" "p \<notin> H" "inv (insert p H) s'"
  using get_all [of s] get_some [of H s] assms by blast

text \<open>Releasing a buffer that is one of those in \<open>H\<close> and not among the rest.\<close>

lemma release_one:
  assumes "inv (insert p H) s" and "p \<notin> H"
  obtains s' where "release p s = Some s'" "inv H s'"
  using release [OF assms(1), of p] assms(2) by auto

end

definition clients_hold :: "rofl \<Rightarrow> nat \<Rightarrow> nat set \<Rightarrow> bufferpool option \<Rightarrow> bool" where
  "clients_hold K c H inst \<longleftrightarrow> (case inst of None \<Rightarrow> False | Some bp \<Rightarrow> pool_inv K c H bp)"

lemma clients_holdE:
  assumes "clients_hold K c H inst"
  obtains bp where "inst = Some bp" "pool_inv K c H bp"
  using assms by (auto simp: clients_hold_def split: option.splits)

interpretation pool: buffer_pool "get_buffer K" "release_buffer K" "clients_hold K c" "{..<c - 1}" for K c
proof
  fix s :: "bufferpool option" and H p
  show "get_buffer K s = Some (None, s)" if "clients_hold K c {..<c - 1} s"
    by (rule clients_holdE [OF that]) (simp add: get_buffer_ok)
  show "\<exists>p s'. get_buffer K s = Some (Some p, s') \<and> p \<in> {..<c - 1} - H \<and> clients_hold K c (insert p H) s'"
    if h: "clients_hold K c H s" and n: "H \<noteq> {..<c - 1}"
  proof (rule clients_holdE [OF h])
    fix bp
    assume "s = Some bp" "pool_inv K c H bp"
    then obtain p bp' where "get_buffer K s = Some (Some p, Some bp')" "p < c - 1" "p \<notin> H" "pool_inv K c (insert p H) bp'"
      using get_buffer_ok n by metis
    then show ?thesis by (intro exI [of _ p] exI [of _ "Some bp'"]) (simp add: clients_hold_def)
  qed
  show "\<exists>s'. release_buffer K p s = Some s' \<and> clients_hold K c (H - {p}) s'"
    if h: "clients_hold K c H s" and p: "p \<in> H"
  proof (rule clients_holdE [OF h])
    fix bp
    assume "s = Some bp" "pool_inv K c H bp"
    then obtain bp' where "release_buffer K p s = Some (Some bp')" "pool_inv K c (H - {p}) bp'"
      using release_buffer_ok p by metis
    then show ?thesis by (intro exI [of _ "Some bp'"]) (simp add: clients_hold_def)
  qed
qed

section \<open>The life of the pool\<close>

text \<open>What clients do that release only what they hold.\<close>

inductive pool_run :: "rofl \<Rightarrow> datapacketx86 \<Rightarrow> u64 \<Rightarrow> nat set \<Rightarrow> bufferpool \<Rightarrow> bool" for K dp0 c where
  created: "bufferpool_new dp0 c = Some (Inr bp) \<Longrightarrow> pool_run K dp0 c {} bp"
| got: "pool_run K dp0 c H bp \<Longrightarrow> get_buffer K (Some bp) = Some (Some p, Some bp') \<Longrightarrow>
    pool_run K dp0 c (insert p H) bp'"
| got_none: "pool_run K dp0 c H bp \<Longrightarrow> get_buffer K (Some bp) = Some (None, Some bp') \<Longrightarrow> pool_run K dp0 c H bp'"
| released: "pool_run K dp0 c H bp \<Longrightarrow> p \<in> H \<Longrightarrow> release_buffer K p (Some bp) = Some (Some bp') \<Longrightarrow>
    pool_run K dp0 c (H - {p}) bp'"

lemma pool_run_inv:
  assumes "unat c \<le> 2 ^ 32"
  shows "pool_run K dp0 c H bp \<Longrightarrow> pool_inv K (unat c) H bp"
proof (induction rule: pool_run.induct)
  case (created bp)
  then obtain q where "circular_queue_new c = Inr (q :: nat circular_queue)"
    by (auto simp: bufferpool_new_def split: sum.splits)
  then show ?case using bufferpool_new_ok [OF _ assms, of q dp0 K] created by auto
next
  case (got H bp p bp')
  then show ?case using get_buffer_ok [OF got.IH] by (cases "H = {..<unat c - 1}") auto
next
  case (got_none H bp bp')
  then show ?case using get_buffer_ok [OF got_none.IH] by (cases "H = {..<unat c - 1}") auto
next
  case (released H bp p bp')
  then show ?case using release_buffer_ok [OF released.IH released.hyps(2)] by auto
qed

text \<open>C16: The pool of the driver is created. In every pool whose clients release only what they hold:
  \<open>get_buffer\<close> returns, with a buffer no client holds unless all are held (one less than the slots), and
  with \<open>NULL\<close> then; releasing a held buffer returns; and once all are released, \<open>destroy\<close> finds every
  buffer and its assertion holds, also in the builds that check the status of the slots.\<close>

theorem pool_conserved:
  assumes "unat c \<le> 2 ^ 32" and "pool_run K dp0 c H bp"
  shows "(\<exists>bp. init dp0 capacity None = Some (Inr (Some bp))) \<and> H \<subseteq> {..<unat c - 1} \<and>
    (\<exists>r bp'. get_buffer K (Some bp) = Some (r, Some bp') \<and> (r = None \<longleftrightarrow> H = {..<unat c - 1}) \<and>
       (\<forall>p. r = Some p \<longrightarrow> p < unat c - 1 \<and> p \<notin> H)) \<and>
    (\<forall>p\<in>H. release_buffer K p (Some bp) \<noteq> None) \<and>
    (H = {} \<longrightarrow> pool_destroy K c (Some bp) = Some None)"
proof -
  have i: "pool_inv K (unat c) H bp" using pool_run_inv [OF assms] .
  obtain q :: "nat circular_queue" where q: "circular_queue_new capacity = Inr q"
    by (auto simp: circular_queue_new_def capacity_def IO_BUFFERPOOL_RESERVOIR_def)
  have "unat capacity \<le> 2 ^ 32" by (simp add: capacity_def IO_BUFFERPOOL_RESERVOIR_def)
  from bufferpool_new_ok [OF q this, of dp0 K]
  have "\<exists>bp. init dp0 capacity None = Some (Inr (Some bp))" by (auto simp: init_def)
  moreover have "H \<subseteq> {..<unat c - 1}" using i by (simp add: pool_inv_def)
  moreover have "\<exists>r bp'. get_buffer K (Some bp) = Some (r, Some bp') \<and> (r = None \<longleftrightarrow> H = {..<unat c - 1}) \<and>
       (\<forall>p. r = Some p \<longrightarrow> p < unat c - 1 \<and> p \<notin> H)"
    using pool.get_all [of K "unat c" "Some bp"] pool.get_some [of K "unat c" H "Some bp"] i
    by (cases "H = {..<unat c - 1}") (fastforce simp: clients_hold_def split: option.splits)+
  moreover have "\<forall>p\<in>H. release_buffer K p (Some bp) \<noteq> None"
    using pool.release [of K "unat c" H "Some bp"] i by (fastforce simp: clients_hold_def)
  moreover have "H = {} \<longrightarrow> pool_destroy K c (Some bp) = Some None" using pool_destroy_ok i by auto
  ultimately show ?thesis by simp
qed

theorem pool_conserved_witness:
  "\<forall>dp0. \<exists>bp p bp'. bufferpool_new dp0 4 = Some (Inr bp) \<and> get_buffer std_rofl (Some bp) = Some (Some p, Some bp') \<and>
     release_buffer std_rofl p (Some bp') \<noteq> None \<and> pool_destroy std_rofl 4 (Some bp) = Some None"
proof
  fix dp0
  have "\<exists>bp. bufferpool_new dp0 4 = Some (Inr bp) \<and> pool_inv std_rofl (unat (4 :: u64)) {} bp"
    by (rule bufferpool_new_ok [OF ring4(1)]) simp
  then obtain bp where bp: "bufferpool_new dp0 4 = Some (Inr bp)" by blast
  have r: "pool_run std_rofl dp0 4 {} bp" by (rule created [OF bp])
  have "\<exists>r bp'. get_buffer std_rofl (Some bp) = Some (r, Some bp') \<and> (r = None \<longleftrightarrow> {} = {..<unat (4 :: u64) - 1})"
    using pool_conserved [OF _ r] by auto
  moreover have "(0::nat) \<in> {..<unat (4 :: u64) - 1}" by simp
  ultimately obtain p bp' where g: "get_buffer std_rofl (Some bp) = Some (Some p, Some bp')" by fast
  have "release_buffer std_rofl p (Some bp') \<noteq> None"
    using pool_conserved [OF _ got [OF r g]] by simp
  moreover have "pool_destroy std_rofl 4 (Some bp) = Some None" using pool_conserved [OF _ r] by simp
  ultimately show "\<exists>bp p bp'. bufferpool_new dp0 4 = Some (Inr bp) \<and> get_buffer std_rofl (Some bp) = Some (Some p, Some bp') \<and>
     release_buffer std_rofl p (Some bp') \<noteq> None \<and> pool_destroy std_rofl 4 (Some bp) = Some None"
    using bp g by blast
qed

end
