(* ===== verification/Datapacket_Storage.thy ===== *)
theory Datapacket_Storage
  imports Prelude
begin

text \<open>
  \<open>io/datapacket_storage.h\<close> and \<open>io/datapacket_storage.cc\<close>: the packets of a logical switch that wait for
  the controller's answer to a PACKET\_IN, found by a 32-bit identifier. Each operation runs under the
  lock of the storage. \<open>time(NULL)\<close> is an argument (\<open>difftime\<close> is exact for the times that
  occur); a packet is its pointer, \<open>None\<close> is \<open>NULL\<close>.
\<close>

section \<open>State and operations\<close>

record store_mapping =
  sid :: u32
  spkt :: "nat option"
  input_timestamp :: int

record datapacket_storage =
  next_id :: u32
  max_size :: u16
  store :: "store_mapping list"
  expiration_time_sec :: u16

definition ERROR :: u32 where
  "ERROR = 0xFFFFFFFF"

definition datapacket_storage_new :: "u16 \<Rightarrow> u16 \<Rightarrow> datapacket_storage" where
  "datapacket_storage_new limit expiration =
     \<lparr>next_id = 1, max_size = limit, store = [], expiration_time_sec = expiration\<rparr>"

text \<open>The destructor drops every packet that is still there.\<close>

definition datapacket_storage_delete :: "datapacket_storage \<Rightarrow> nat list" where
  "datapacket_storage_delete st = concat (map (\<lambda>m. case spkt m of None \<Rightarrow> [] | Some p \<Rightarrow> [p]) (store st))"

definition store_packet :: "int \<Rightarrow> nat option \<Rightarrow> datapacket_storage \<Rightarrow> u32 \<times> datapacket_storage" where
  "store_packet now p st =
     (if unat (max_size st) \<le> length (store st) then (ERROR, st)
      else let i = (if next_id st + 1 = 0xffffffff then 1 else next_id st + 1)
           in (i, st\<lparr>next_id := i, store := store st @ [\<lparr>sid = i, spkt = p, input_timestamp = now\<rparr>]\<rparr>))"

text \<open>The search of \<open>get_packet\<close>: the packet found, and the list without it.\<close>

fun take_first :: "u32 \<Rightarrow> store_mapping list \<Rightarrow> nat option \<times> store_mapping list" where
  "take_first i [] = (None, [])"
| "take_first i (m # ms) = (if i = sid m then (spkt m, ms) else (let (p, ms') = take_first i ms in (p, m # ms')))"

definition get_packet :: "u32 \<Rightarrow> datapacket_storage \<Rightarrow> nat option \<times> datapacket_storage" where
  "get_packet i st = (let (p, ms) = take_first i (store st) in (p, st\<lparr>store := ms\<rparr>))"

text \<open>The identifier it sets if the answer is true.\<close>

definition oldest_packet_needs_expiration :: "int \<Rightarrow> datapacket_storage \<Rightarrow> u32 option" where
  "oldest_packet_needs_expiration now st =
     (case store st of
        [] \<Rightarrow> None
      | m # ms \<Rightarrow> if now - input_timestamp m > uint (expiration_time_sec st) then Some (sid m) else None)"

definition get_storage_size :: "datapacket_storage \<Rightarrow> u16" where
  "get_storage_size st = of_nat (length (store st))"

definition change_expiration_time :: "u16 \<Rightarrow> datapacket_storage \<Rightarrow> datapacket_storage" where
  "change_expiration_time sec st = st\<lparr>expiration_time_sec := sec\<rparr>"

section \<open>The storage as a map\<close>

definition entry :: "store_mapping \<Rightarrow> u32 \<times> nat option \<times> int" where
  "entry m = (sid m, spkt m, input_timestamp m)"

definition packets :: "datapacket_storage \<Rightarrow> u32 \<Rightarrow> nat option option" where
  "packets st = map_of (map (\<lambda>m. (sid m, spkt m)) (store st))"

abbreviation ids :: "datapacket_storage \<Rightarrow> u32 list" where
  "ids st \<equiv> map sid (store st)"

lemma dom_packets: "dom (packets st) = set (ids st)"
  by (simp add: packets_def dom_map_of_conv_image_fst image_image)

lemma take_first_map:
  "distinct (map sid ms) \<Longrightarrow>
   fst (take_first i ms) = (case map_of (map (\<lambda>m. (sid m, spkt m)) ms) i of None \<Rightarrow> None | Some p \<Rightarrow> p) \<and>
   map_of (map (\<lambda>m. (sid m, spkt m)) (snd (take_first i ms))) = (map_of (map (\<lambda>m. (sid m, spkt m)) ms))(i := None) \<and>
   map sid (snd (take_first i ms)) = filter (\<lambda>x. x \<noteq> i) (map sid ms)"
proof (induction ms)
  case (Cons m ms)
  have "map_of (map (\<lambda>m. (sid m, spkt m)) ms) (sid m) = None" using Cons.prems
    by (auto simp: map_of_eq_None_iff)
  moreover have "filter (\<lambda>x. x \<noteq> sid m) (map sid ms) = map sid ms" using Cons.prems
    by (intro filter_True) force
  ultimately show ?case using Cons by (auto simp: fun_eq_iff split: prod.splits)
qed simp

lemma take_first_log:
  "distinct (map sid ms) \<Longrightarrow> map entry (snd (take_first i ms)) = filter (\<lambda>e. fst e \<noteq> i) (map entry ms)"
proof (induction ms)
  case (Cons m ms)
  have "filter (\<lambda>e. fst e \<noteq> sid m) (map entry ms) = map entry ms" using Cons.prems
    by (intro filter_True) (force simp: entry_def)
  moreover have "fst (entry m) = sid m" by (simp add: entry_def)
  ultimately show ?case using Cons by (cases "take_first i ms") auto
qed simp

text \<open>Identifiers are given out in turn, \<open>1\<close> to \<open>0xFFFFFFFE\<close>; \<open>k\<close> packets have been stored. A
  packet may be stored under an identifier that is free. \<open>L\<close> is the log of the storage: the identifier, packet and time of every packet
  that has been stored and not been taken, in the order in which they were stored.\<close>

definition new_id :: "datapacket_storage \<Rightarrow> u32" where
  "new_id st = (if next_id st + 1 = 0xffffffff then 1 else next_id st + 1)"

inductive storage_run :: "u16 \<Rightarrow> u16 \<Rightarrow> nat \<Rightarrow> (u32 \<times> nat option \<times> int) list \<Rightarrow> datapacket_storage \<Rightarrow> bool" for limit expiration where
  created: "storage_run limit expiration 0 [] (datapacket_storage_new limit expiration)"
| stored: "storage_run limit expiration k L st \<Longrightarrow> store_packet now p st = (i, st') \<Longrightarrow> i \<notin> fst ` set L \<Longrightarrow> length L < unat limit \<Longrightarrow>
    storage_run limit expiration (Suc k) (L @ [(i, p, now)]) st'"
| refused: "storage_run limit expiration k L st \<Longrightarrow> unat limit \<le> length L \<Longrightarrow>
    storage_run limit expiration k L (snd (store_packet now p st))"
| taken: "storage_run limit expiration k L st \<Longrightarrow>
    storage_run limit expiration k (filter (\<lambda>e. fst e \<noteq> i) L) (snd (get_packet i st))"

definition storage_inv :: "u16 \<Rightarrow> u16 \<Rightarrow> nat \<Rightarrow> datapacket_storage \<Rightarrow> bool" where
  "storage_inv limit expiration k st \<longleftrightarrow> max_size st = limit \<and> expiration_time_sec st = expiration \<and>
     distinct (ids st) \<and> length (store st) \<le> unat limit \<and> next_id st \<noteq> 0 \<and> next_id st < ERROR \<and>
     (\<forall>i\<in>set (ids st). i \<noteq> 0 \<and> i < ERROR) \<and>
     (k < 0xFFFFFFFE \<longrightarrow> unat (next_id st) = k + 1 \<and> (\<forall>i\<in>set (ids st). i \<le> next_id st))"

lemma new_id_facts:
  assumes "next_id st \<noteq> 0" and "next_id st < ERROR"
  shows "new_id st \<noteq> 0" "new_id st < ERROR" "new_id st \<noteq> ERROR"
    "unat (next_id st) < 0xFFFFFFFE \<Longrightarrow> unat (new_id st) = unat (next_id st) + 1"
proof -
  have n: "0 < unat (next_id st)" "unat (next_id st) < 0xFFFFFFFF"
    using assms by (simp_all add: ERROR_def word_less_nat_alt unat_gt_0)
  then have s: "unat (next_id st + 1) = unat (next_id st) + 1" by (simp add: unat_word_ariths)
  have "(next_id st + 1 = 0xffffffff) = (unat (next_id st) = 0xFFFFFFFE)"
    unfolding word_unat_eq_iff s by simp
  then have u: "unat (new_id st) = (if unat (next_id st) = 0xFFFFFFFE then 1 else unat (next_id st) + 1)"
    by (simp add: new_id_def s)
  then show "unat (next_id st) < 0xFFFFFFFE \<Longrightarrow> unat (new_id st) = unat (next_id st) + 1" by simp
  show l: "new_id st < ERROR" using u n by (simp add: ERROR_def word_less_nat_alt)
  then show "new_id st \<noteq> ERROR" by simp
  have "0 < unat (new_id st)" using u by simp
  then show "new_id st \<noteq> 0" by auto
qed

lemma store_packet_room:
  "length (store st) < unat (max_size st) \<Longrightarrow> store_packet now p st =
     (new_id st, st\<lparr>next_id := new_id st, store := store st @ [\<lparr>sid = new_id st, spkt = p, input_timestamp = now\<rparr>]\<rparr>)"
  by (simp add: store_packet_def new_id_def Let_def)

lemma get_packet_facts:
  assumes "distinct (ids st)"
  shows "fst (get_packet i st) = (case packets st i of None \<Rightarrow> None | Some p \<Rightarrow> p)"
    "packets (snd (get_packet i st)) = (packets st)(i := None)"
    "ids (snd (get_packet i st)) = filter (\<lambda>x. x \<noteq> i) (ids st)"
    "next_id (snd (get_packet i st)) = next_id st" "max_size (snd (get_packet i st)) = max_size st"
    "expiration_time_sec (snd (get_packet i st)) = expiration_time_sec st"
  using take_first_map [OF assms, of i] by (simp_all add: get_packet_def packets_def case_prod_beta)

lemma get_packet_length: "distinct (ids st) \<Longrightarrow> length (store (snd (get_packet i st))) \<le> length (store st)"
  using get_packet_facts(3) [of st i] by (metis length_filter_le length_map)

lemma storage_inv_take: "storage_inv limit expiration k st \<Longrightarrow> storage_inv limit expiration k (snd (get_packet i st))"
  using get_packet_facts [of st i] get_packet_length [of st i] by (auto simp: storage_inv_def)

lemma storage_inv_store:
  assumes i: "storage_inv limit expiration k st" and "new_id st \<notin> set (ids st)" and "length (store st) < unat limit"
  shows "storage_inv limit expiration (Suc k) (snd (store_packet now p st))"
proof -
  note inv = i [unfolded storage_inv_def]
  have n: "new_id st \<noteq> 0" "new_id st < ERROR" using new_id_facts inv by auto
  have m: "unat (new_id st) = Suc (unat (next_id st))" if "Suc k < 0xFFFFFFFE"
    using new_id_facts(4) inv that by auto
  have le: "i \<le> new_id st" if "i \<le> next_id st" "Suc k < 0xFFFFFFFE" for i
    using that m by (simp add: word_le_nat_alt)
  show ?thesis using assms(2,3) inv n m le by (auto simp: storage_inv_def store_packet_room)
qed

lemma new_id_fresh:
  assumes "storage_inv limit expiration k st" and "k < 0xFFFFFFFD"
  shows "new_id st \<notin> set (ids st)"
proof -
  note inv = assms(1) [unfolded storage_inv_def]
  have "unat (new_id st) = unat (next_id st) + 1" using inv assms(2) new_id_facts(4) [of st] by auto
  then have "next_id st < new_id st" by (simp add: word_less_nat_alt)
  then show ?thesis using inv assms(2) by (auto dest: leD)
qed

lemma storage_inv_new: "storage_inv limit expiration 0 (datapacket_storage_new limit expiration)"
  by (simp add: storage_inv_def datapacket_storage_new_def ERROR_def)

lemma storage_run_inv:
  "storage_run limit expiration k L st \<Longrightarrow> storage_inv limit expiration k st \<and> map entry (store st) = L"
proof (induction rule: storage_run.induct)
  case created
  then show ?case using storage_inv_new by (simp add: datapacket_storage_new_def)
next
  case (stored k L st now p i st')
  then have L: "map entry (store st) = L" and inv: "storage_inv limit expiration k st" by simp_all
  have len: "length (store st) = length L" using L by (metis length_map)
  then have st': "store_packet now p st = (new_id st, st\<lparr>next_id := new_id st, store := store st @ [\<lparr>sid = new_id st, spkt = p, input_timestamp = now\<rparr>]\<rparr>)"
    using stored inv by (simp add: store_packet_room storage_inv_def)
  then have i: "i = new_id st" using stored(2) by simp
  have "set (ids st) = fst ` set L" unfolding L [symmetric] by (force simp: entry_def)
  then have "new_id st \<notin> set (ids st)" using stored(3) i by simp
  then have "storage_inv limit expiration (Suc k) (snd (store_packet now p st))"
    by (rule storage_inv_store [OF inv]) (use stored(4) len in simp)
  then show ?case using stored(2) st' L i by (auto simp: entry_def)
next
  case (refused k L st now p)
  then have "length (store st) = length L" by (metis length_map)
  then show ?case using refused by (simp add: storage_inv_def store_packet_def)
next
  case (taken k L st i)
  then have "distinct (ids st)" by (simp add: storage_inv_def)
  then have "map entry (store (snd (get_packet i st))) = filter (\<lambda>e. fst e \<noteq> i) L"
    using take_first_log [of "store st" i] taken by (simp add: get_packet_def case_prod_beta)
  then show ?case using taken storage_inv_take by blast
qed

text \<open>What \<open>get_packet\<close> does to the list: nothing, or it cuts one entry out.\<close>

lemma get_packet_cases:
  obtains "i \<notin> set (ids st)" "get_packet i st = (None, st)"
  | ms m ms' where "store st = ms @ m # ms'" "sid m = i" "get_packet i st = (spkt m, st\<lparr>store := ms @ ms'\<rparr>)"
proof -
  have "(i \<notin> set (map sid l) \<and> take_first i l = (None, l)) \<or>
    (\<exists>ms m ms'. l = ms @ m # ms' \<and> sid m = i \<and> take_first i l = (spkt m, ms @ ms'))" for l
  proof (induction l)
    case (Cons x l)
    show ?case
    proof (cases "sid x = i")
      case True
      then show ?thesis by (intro disjI2 exI [of _ "[]"]) auto
    next
      case False
      from Cons.IH show ?thesis
      proof (elim disjE exE conjE)
        fix ms m ms'
        assume "l = ms @ m # ms'" "sid m = i" "take_first i l = (spkt m, ms @ ms')"
        then show ?thesis using False by (intro disjI2 exI [of _ "x # ms"] exI [of _ m] exI [of _ ms']) auto
      qed (use False in auto)
    qed
  qed simp
  note split = this [of "store st"]
  show thesis
  proof (cases "i \<in> set (ids st)")
    case False
    then have "get_packet i st = (None, st)" using split by (auto simp: get_packet_def)
    then show ?thesis using that(1) False by simp
  next
    case True
    then obtain ms m ms' where "store st = ms @ m # ms'" "sid m = i" "take_first i (store st) = (spkt m, ms @ ms')"
      using split by blast
    then show ?thesis using that(2) by (simp add: get_packet_def)
  qed
qed

text \<open>A packet just stored is found, and then no more.\<close>

lemma take_first_last: "i \<notin> set (map sid ms) \<Longrightarrow> sid m = i \<Longrightarrow> take_first i (ms @ [m]) = (spkt m, ms)"
  by (induction ms) auto

lemma get_just_stored:
  assumes "new_id st \<notin> set (ids st)" and "length (store st) < unat (max_size st)"
  shows "get_packet (new_id st) (snd (store_packet now p st)) = (p, st\<lparr>next_id := new_id st\<rparr>)"
    "get_packet (new_id st) (st\<lparr>next_id := new_id st\<rparr>) = (None, st\<lparr>next_id := new_id st\<rparr>)"
proof -
  show "get_packet (new_id st) (snd (store_packet now p st)) = (p, st\<lparr>next_id := new_id st\<rparr>)"
    using assms by (simp add: store_packet_room get_packet_def take_first_last)
  show "get_packet (new_id st) (st\<lparr>next_id := new_id st\<rparr>) = (None, st\<lparr>next_id := new_id st\<rparr>)"
    by (rule get_packet_cases [of "new_id st" "st\<lparr>next_id := new_id st\<rparr>"]) (use assms(1) in auto)
qed

section \<open>Property\<close>

text \<open>The packets that wait, by their identifiers.\<close>

definition waiting :: "(u32 \<times> nat option \<times> int) list \<Rightarrow> u32 \<Rightarrow> nat option option" where
  "waiting L = map_of (map (\<lambda>(i, p, t). (i, p)) L)"

text \<open>C17: a storage after any sequence of calls in which \<open>k\<close> packets were stored, each under an identifier that
  was free, has exactly the packets of its log. A full storage refuses; otherwise the packet gets an identifier that is neither 0 nor
  \<open>ERROR\<close> and, unless the 32-bit counter has come round, is free; if it is free the packet is added to the
  map. \<open>get_packet\<close> returns the packet stored under an identifier, \<open>NULL\<close> if there is none, and
  removes it alone. The size fits its 16 bits. What expires is the packet stored first of those that wait, if it has waited longer than
  the limit, and nothing otherwise.\<close>

theorem storage_is_a_map:
  assumes "storage_run limit expiration k L st"
  shows "packets st = waiting L \<and>
    (if length L < unat limit
     then \<exists>i. fst (store_packet now p st) = i \<and> i \<noteq> 0 \<and> i \<noteq> ERROR \<and>
       (k < 0xFFFFFFFD \<longrightarrow> waiting L i = None) \<and>
       (waiting L i = None \<longrightarrow> packets (snd (store_packet now p st)) = (waiting L)(i \<mapsto> p))
     else store_packet now p st = (ERROR, st)) \<and>
    fst (get_packet j st) = (case waiting L j of None \<Rightarrow> None | Some q \<Rightarrow> q) \<and>
    packets (snd (get_packet j st)) = (waiting L)(j := None) \<and>
    unat (get_storage_size st) = length L \<and> length L \<le> unat limit \<and>
    oldest_packet_needs_expiration now st = (case L of
        [] \<Rightarrow> None
      | (i, q, t) # L' \<Rightarrow> if now - t > uint expiration then Some i else None)"
proof -
  have inv: "storage_inv limit expiration k st" and L: "map entry (store st) = L" using storage_run_inv [OF assms] by simp_all
  note I = inv [unfolded storage_inv_def]
  have d: "distinct (ids st)" and m: "max_size st = limit" using I by auto
  have len: "length (store st) = length L" using L by (metis length_map)
  have w: "packets st = waiting L" unfolding packets_def waiting_def L [symmetric] by (simp add: entry_def comp_def)
  have "\<exists>i. fst (store_packet now p st) = i \<and> i \<noteq> 0 \<and> i \<noteq> ERROR \<and> (k < 0xFFFFFFFD \<longrightarrow> packets st i = None) \<and>
       (packets st i = None \<longrightarrow> packets (snd (store_packet now p st)) = (packets st)(i \<mapsto> p))"
    if l: "length (store st) < unat limit"
  proof -
    have "new_id st \<noteq> 0" "new_id st \<noteq> ERROR" using new_id_facts I by auto
    moreover have "packets st (new_id st) = None" if "k < 0xFFFFFFFD"
      using new_id_fresh [OF inv that] dom_packets [of st] by (auto simp: domIff)
    moreover have "packets (snd (store_packet now p st)) = (packets st)(new_id st \<mapsto> p)"
      if "packets st (new_id st) = None"
      using l m that by (auto simp: store_packet_room packets_def map_add_def fun_eq_iff split: option.splits)
    ultimately show ?thesis using l m by (simp add: store_packet_room)
  qed
  moreover have "store_packet now p st = (ERROR, st)" if "\<not> length (store st) < unat limit"
    using that m by (simp add: store_packet_def)
  moreover have "unat (get_storage_size st) = length (store st)"
  proof -
    have "unat limit < 2 ^ 16" using unsigned_less [of limit] by simp
    then show ?thesis using I by (simp add: get_storage_size_def unsigned_of_nat take_bit_nat_eq_self)
  qed
  moreover have "oldest_packet_needs_expiration now st = (case L of [] \<Rightarrow> None
      | (i, q, t) # L' \<Rightarrow> if now - t > uint expiration then Some i else None)"
    using I unfolding L [symmetric] by (cases "store st") (simp_all add: oldest_packet_needs_expiration_def entry_def)
  ultimately show ?thesis using get_packet_facts(1,2) [OF d, of j] I len w by simp
qed

text \<open>Two packets are stored; the first one expires first, and taking it leaves the second.\<close>

theorem storage_is_a_map_witness:
  "\<exists>st. storage_run 2 10 2 [(2, Some 5, 7), (3, Some 6, 9)] st \<and> oldest_packet_needs_expiration 18 st = Some 2 \<and>
     packets (snd (get_packet 2 st)) = [3 \<mapsto> Some 6] \<and> store_packet 18 (Some 8) st = (ERROR, st)"
proof -
  define st1 where "st1 = snd (store_packet 7 (Some 5) (datapacket_storage_new 2 10))"
  define st2 where "st2 = snd (store_packet 9 (Some 6) st1)"
  have 0: "storage_run 2 10 0 [] (datapacket_storage_new 2 10)" by (rule storage_run.created)
  have 1: "store_packet 7 (Some 5) (datapacket_storage_new 2 10) = (2, st1)" "store_packet 9 (Some 6) st1 = (3, st2)"
    by (simp_all add: st1_def st2_def store_packet_def datapacket_storage_new_def Let_def)
  have 2: "storage_run 2 10 1 [(2, Some 5, 7)] st1" using storage_run.stored [OF 0 1(1)] by simp
  have "storage_run 2 10 (Suc 1) [(2, Some 5, 7), (3, Some 6, 9)] st2" using storage_run.stored [OF 2 1(2)] by simp
  then have 3: "storage_run 2 10 2 [(2, Some 5, 7), (3, Some 6, 9)] st2" by (simp only: numeral_2_eq_2 One_nat_def)
  show ?thesis using storage_is_a_map [OF 3, of 18 "Some 8" 2] 3
    by (intro exI [of _ st2]) (simp add: waiting_def fun_eq_iff)
qed

end
