(* ===== verification/Packet_In.thy ===== *)
theory Packet_In
  imports Bufferpool Datapacket_Storage
begin

text \<open>
  The way of a packet to the controller and back: \<open>pipeline-imp/platform_hooks_of1x.cc\<close> puts it into
  the queue of its switch, \<open>io/pktin_dispatcher.cc\<close> takes it from there, stores it and announces it,
  \<open>hal-imp/openflow/openflow1x/of1x_driver.cc\<close> fetches it for a PACKET\_OUT, and
  \<open>bg_taskmanager.cc\<close> lets it expire. Each operation is one transition; the pool, the queue and the
  storage are those of the theories imported.

  One logical switch is modelled. Parameters: \<open>hal id p\<close>, whether
  \<open>hal_cmm_process_of1x_packet_in\<close> could announce packet \<open>p\<close> under \<open>id\<close>; the clock.
  The bytes in the notification pipe are counted; it never blocks.
\<close>

section \<open>State\<close>

record switch_platform_state =
  bpool :: "bufferpool option"
  pkt_in_queue :: "nat circular_queue"
  storage :: datapacket_storage
  pending_to_read :: u32
  pipe :: nat

definition LSI_PKT_IN_QUEUE_SLOTS :: u64 where
  "LSI_PKT_IN_QUEUE_SLOTS = 64"

definition LSI_PKT_IN_STORAGE_MAX_BUF :: u16 where
  "LSI_PKT_IN_STORAGE_MAX_BUF = 512"

definition LSI_PKT_IN_STORAGE_EXPIRATION_S :: u16 where
  "LSI_PKT_IN_STORAGE_EXPIRATION_S = 10"

definition BUCKETS_PER_LS :: nat where
  "BUCKETS_PER_LS = 16"

definition DUMMY_BUF_SIZE :: u32 where
  "DUMMY_BUF_SIZE = 128"

text \<open>What Linux gives a pipe; \<open>write\<close> of one byte and \<open>read\<close> of at most \<open>n\<close>, with their results.\<close>

definition PIPE_BYTES :: nat where
  "PIPE_BYTES = 65536"

definition pipe_read :: "nat \<Rightarrow> nat \<Rightarrow> int \<times> nat" where
  "pipe_read n avail = (if avail = 0 then (- 1, 0) else (int (min n avail), avail - min n avail))"

section \<open>A switch is created and destroyed\<close>

definition platform_post_init_of1x_switch :: "bufferpool option \<Rightarrow> (queue_error + switch_platform_state)" where
  "platform_post_init_of1x_switch inst =
     (case circular_queue_new LSI_PKT_IN_QUEUE_SLOTS of
        Inl e \<Rightarrow> Inl e
      | Inr q \<Rightarrow> Inr \<lparr>bpool = inst, pkt_in_queue = q,
          storage = datapacket_storage_new LSI_PKT_IN_STORAGE_MAX_BUF LSI_PKT_IN_STORAGE_EXPIRATION_S,
          pending_to_read = 0, pipe = 0\<rparr>)"

text \<open>\<open>platform_packet_drop\<close> releases the buffer.\<close>

definition platform_packet_drop :: "rofl \<Rightarrow> nat \<Rightarrow> bufferpool option \<Rightarrow> bufferpool option option" where
  "platform_packet_drop K p inst = release_buffer K p inst"

primrec drop_all :: "rofl \<Rightarrow> nat list \<Rightarrow> bufferpool option \<Rightarrow> bufferpool option option" where
  "drop_all K [] inst = Some inst"
| "drop_all K (p # ps) inst = do { inst \<leftarrow> platform_packet_drop K p inst; drop_all K ps inst }"

definition platform_pre_destroy_of1x_switch :: "rofl \<Rightarrow> switch_platform_state \<Rightarrow> bufferpool option option" where
  "platform_pre_destroy_of1x_switch K s = do {
     c_assert K (queue_size (pkt_in_queue s) = 0);
     drop_all K (datapacket_storage_delete (storage s)) (bpool s) }"

section \<open>To the controller\<close>

definition notify_packet_in :: "switch_platform_state \<Rightarrow> switch_platform_state" where
  "notify_packet_in s = s\<lparr>pipe := (if pipe s < PIPE_BYTES then pipe s + 1 else pipe s)\<rparr>"

definition release :: "rofl \<Rightarrow> nat \<Rightarrow> switch_platform_state \<Rightarrow> switch_platform_state option" where
  "release K p s = do { inst \<leftarrow> release_buffer K p (bpool s); Some (s\<lparr>bpool := inst\<rparr>) }"

text \<open>Access to the \<open>platform_state\<close> of a packet.\<close>

definition update_packet :: "nat \<Rightarrow> (datapacketx86 \<Rightarrow> datapacketx86 option) \<Rightarrow> bufferpool option \<Rightarrow> bufferpool option option" where
  "update_packet p f inst = do {
     bp \<leftarrow> inst;
     dp \<leftarrow> heap bp p;
     x \<leftarrow> f (platform_state dp);
     Some (Some (bp\<lparr>heap := (heap bp)(p := Some (dp\<lparr>platform_state := x\<rparr>))\<rparr>)) }"

definition platform_of1x_packet_in ::
  "rofl \<Rightarrow> u8 \<Rightarrow> nat \<Rightarrow> u16 \<Rightarrow> u32 \<Rightarrow> switch_platform_state \<Rightarrow> switch_platform_state option" where
  "platform_of1x_packet_in K table_id p send_len reason s = do {
     inst \<leftarrow> update_packet p (\<lambda>x. Some (x\<lparr>pktin_table_id := table_id, pktin_reason := reason, pktin_send_len := send_len\<rparr>))
       (bpool s);
     (r, q) \<leftarrow> non_blocking_write (Some p) (pkt_in_queue s);
     let s = s\<lparr>bpool := inst, pkt_in_queue := q\<rparr>;
     if r = ROFL_SUCCESS then Some (notify_packet_in s) else release K p s }"

text \<open>The loop of \<open>process_sw_of1x_packet_ins\<close>, \<open>n\<close> rounds left, \<open>i\<close> packets so far.\<close>

definition announce ::
  "rofl \<Rightarrow> (u32 \<Rightarrow> nat \<Rightarrow> bool) \<Rightarrow> int \<Rightarrow> nat \<Rightarrow> switch_platform_state \<Rightarrow> switch_platform_state option" where
  "announce K hal now p s = do {
     let (i, st) = store_packet now (Some p) (storage s);
     let s = s\<lparr>storage := st\<rparr>;
     if i = ERROR then release K p s
     else if hal i p then Some s
     else do {
       let (g, st) = get_packet i (storage s);
       c_assert K (g = Some p);
       let (g, st) = get_packet i st;
       release K p (s\<lparr>storage := st\<rparr>) } }"

primrec dispatch_loop ::
  "rofl \<Rightarrow> (u32 \<Rightarrow> nat \<Rightarrow> bool) \<Rightarrow> int \<Rightarrow> nat \<Rightarrow> u32 \<Rightarrow> switch_platform_state \<Rightarrow> (u32 \<times> switch_platform_state) option" where
  "dispatch_loop K hal now 0 i s = Some (i, s)"
| "dispatch_loop K hal now (Suc n) i s = do {
     (v, q) \<leftarrow> non_blocking_read (pkt_in_queue s);
     let s = s\<lparr>pkt_in_queue := q\<rparr>;
     case v of
       None \<Rightarrow> Some (i, s)
     | Some p \<Rightarrow> do { s \<leftarrow> announce K hal now p s; dispatch_loop K hal now n (i + 1) s } }"

definition empty_pipe :: "u32 \<Rightarrow> switch_platform_state \<Rightarrow> switch_platform_state" where
  "empty_pipe i s =
     (let pending = pending_to_read s + i
      in if pending > 0 then
           (let (ret, left) = pipe_read (unat (if pending > DUMMY_BUF_SIZE then DUMMY_BUF_SIZE else pending)) (pipe s)
            in s\<lparr>pipe := left, pending_to_read := (if ret > 0 then pending - of_int ret else pending)\<rparr>)
         else s\<lparr>pending_to_read := pending\<rparr>)"

definition process_sw_of1x_packet_ins ::
  "rofl \<Rightarrow> (u32 \<Rightarrow> nat \<Rightarrow> bool) \<Rightarrow> int \<Rightarrow> switch_platform_state \<Rightarrow> switch_platform_state option" where
  "process_sw_of1x_packet_ins K hal now s = do {
     (i, s) \<leftarrow> dispatch_loop K hal now BUCKETS_PER_LS 0 s;
     Some (empty_pipe i s) }"

text \<open>The loop of \<open>drain_packet_ins\<close>, at most \<open>n\<close> rounds.\<close>

primrec drain_loop :: "rofl \<Rightarrow> nat \<Rightarrow> switch_platform_state \<Rightarrow> switch_platform_state option" where
  "drain_loop K 0 s = None"
| "drain_loop K (Suc n) s =
     (if queue_size (pkt_in_queue s) \<noteq> 0 then do {
        (v, q) \<leftarrow> non_blocking_read (pkt_in_queue s);
        let s = s\<lparr>pkt_in_queue := q\<rparr>;
        s \<leftarrow> (case v of None \<Rightarrow> Some s | Some p \<Rightarrow> release K p s);
        drain_loop K n s }
      else Some s)"

definition drain_packet_ins :: "rofl \<Rightarrow> switch_platform_state \<Rightarrow> switch_platform_state option" where
  "drain_packet_ins K s = drain_loop K (unat (slots (pkt_in_queue s))) s"

section \<open>Expiration\<close>

text \<open>The loop over the storage of one switch in \<open>bg_taskmanager.cc\<close>, at most \<open>n\<close> rounds; \<open>clock n\<close> is
  the time when \<open>n\<close> rounds are left.\<close>

primrec expire_loop :: "rofl \<Rightarrow> (nat \<Rightarrow> int) \<Rightarrow> nat \<Rightarrow> switch_platform_state \<Rightarrow> switch_platform_state option" where
  "expire_loop K clock 0 s = None"
| "expire_loop K clock (Suc n) s =
     (case oldest_packet_needs_expiration (clock n) (storage s) of
        None \<Rightarrow> Some s
      | Some i \<Rightarrow> do {
          let (g, st) = get_packet i (storage s);
          let s = s\<lparr>storage := st\<rparr>;
          s \<leftarrow> (case g of None \<Rightarrow> Some s | Some p \<Rightarrow> release K p s);
          expire_loop K clock n s })"

definition expire_packets :: "rofl \<Rightarrow> (nat \<Rightarrow> int) \<Rightarrow> switch_platform_state \<Rightarrow> switch_platform_state option" where
  "expire_packets K clock s = expire_loop K clock (Suc (length (store (storage s)))) s"

section \<open>Back from the controller\<close>

datatype hal_result = HAL_SUCCESS | HAL_FAILURE

text \<open>The packet is classified again; for a packet out of the storage the checksum flags are kept.\<close>

definition reclassify :: "rofl \<Rightarrow> u32 \<Rightarrow> datapacketx86 \<Rightarrow> datapacketx86 option" where
  "reclassify K port x = do {
     c \<leftarrow> classify_packet K (pkt_mem x) (clas_state x) (base (clas_state x)) (get_buffer_length x) port 0;
     Some (x\<lparr>clas_state := c\<rparr>) }"

definition reclassify_keep :: "rofl \<Rightarrow> u32 \<Rightarrow> datapacketx86 \<Rightarrow> datapacketx86 option" where
  "reclassify_keep K port x = do {
     let flags = calculate_checksums_in_sw (clas_state x);
     x \<leftarrow> reclassify K port x;
     Some (x\<lparr>clas_state := (clas_state x)\<lparr>calculate_checksums_in_sw :=
       calculate_checksums_in_sw (clas_state x) OR flags\<rparr>\<rparr>) }"

text \<open>\<open>hal_driver_of1x_process_packet_out\<close> for a switch that exists: \<open>output\<close> is whether the actions
  contain an output, \<open>no_buffer\<close> the constant \<open>OF1XP_NO_BUFFER\<close>. The packet it returns is the one the
  pipeline gets. (\<open>init\<close> is called with \<open>true\<close> where its fourth argument, the port, stands.)\<close>

definition process_packet_out ::
  "rofl \<Rightarrow> u32 \<Rightarrow> nat \<Rightarrow> bool \<Rightarrow> u32 \<Rightarrow> u32 \<Rightarrow> (mem \<times> nat) option \<Rightarrow> u32 \<Rightarrow> switch_platform_state \<Rightarrow>
   (hal_result \<times> nat option \<times> switch_platform_state) option" where
  "process_packet_out K no_buffer sw output buffer_id port buf buflen s =
     (if \<not> output then
        (if no_buffer \<noteq> buffer_id then do {
           let (g, st) = get_packet buffer_id (storage s);
           s \<leftarrow> (case g of None \<Rightarrow> Some (s\<lparr>storage := st\<rparr>) | Some p \<Rightarrow> release K p (s\<lparr>storage := st\<rparr>));
           Some (HAL_FAILURE, None, s) }
         else Some (HAL_FAILURE, None, s))
      else if buffer_id \<noteq> 0 \<and> buffer_id \<noteq> no_buffer then do {
        let (g, st) = get_packet buffer_id (storage s);
        let s = s\<lparr>storage := st\<rparr>;
        case g of
          None \<Rightarrow> Some (HAL_FAILURE, None, s)
        | Some p \<Rightarrow> do {
            inst \<leftarrow> update_packet p (reclassify_keep K port) (bpool s);
            Some (HAL_SUCCESS, Some p, s\<lparr>bpool := inst\<rparr>) } }
      else do {
        (g, inst) \<leftarrow> get_buffer K (bpool s);
        case g of
          None \<Rightarrow> Some (HAL_FAILURE, None, s\<lparr>bpool := inst\<rparr>)
        | Some p \<Rightarrow> do {
            inst \<leftarrow> update_packet p (\<lambda>x. do {
              (r, x) \<leftarrow> init_pkt K x buf (ucast buflen) sw 1 0 True True;
              reclassify K port x }) inst;
            Some (HAL_SUCCESS, Some p, s\<lparr>bpool := inst\<rparr>) } })"

section \<open>Who holds which buffer\<close>

text \<open>The buffers \<open>fs\<close> are being processed, \<open>qs\<close> wait in the queue, \<open>ss\<close> in the storage; all other
  buffers of the pool are free. \<open>k\<close> packets have been stored so far.\<close>

definition parts ::
  "rofl \<Rightarrow> nat \<Rightarrow> nat \<Rightarrow> nat list \<Rightarrow> nat list \<Rightarrow> nat list \<Rightarrow> switch_platform_state \<Rightarrow> bool" where
  "parts K c k fs qs ss s \<longleftrightarrow> clients_hold K c (set (fs @ qs @ ss)) (bpool s) \<and> distinct (fs @ qs @ ss) \<and>
     quiet (pkt_in_queue s) \<and> length (elements (pkt_in_queue s)) = unat LSI_PKT_IN_QUEUE_SLOTS \<and>
     contents (pkt_in_queue s) = map Some qs \<and>
     storage_inv LSI_PKT_IN_STORAGE_MAX_BUF LSI_PKT_IN_STORAGE_EXPIRATION_S k (storage s) \<and>
     map spkt (store (storage s)) = map Some ss"

definition owned :: "rofl \<Rightarrow> nat \<Rightarrow> nat \<Rightarrow> nat list \<Rightarrow> switch_platform_state \<Rightarrow> bool" where
  "owned K c k fs s \<longleftrightarrow> (\<exists>qs ss. parts K c k fs qs ss s)"

lemma release_part:
  assumes "clients_hold K c (insert p H) (bpool s)" and "p \<notin> H"
  obtains inst where "release K p s = Some (s\<lparr>bpool := inst\<rparr>)" "clients_hold K c H inst"
proof (rule pool.release_one [OF assms])
  fix inst
  assume "release_buffer K p (bpool s) = Some inst" "clients_hold K c H inst"
  then show thesis using that [of inst] by (simp add: release_def)
qed

lemma release_taken:
  assumes "parts K c k (p # fs) qs ss s"
  obtains inst where "release K p s = Some (s\<lparr>bpool := inst\<rparr>)" "parts K c k fs qs ss (s\<lparr>bpool := inst\<rparr>)"
proof (rule release_part [of K c p "set (fs @ qs @ ss)" s])
  show "clients_hold K c (insert p (set (fs @ qs @ ss))) (bpool s)" "p \<notin> set (fs @ qs @ ss)"
    using assms by (simp_all add: parts_def)
  fix inst
  assume "release K p s = Some (s\<lparr>bpool := inst\<rparr>)" "clients_hold K c (set (fs @ qs @ ss)) inst"
  then show thesis using that [of inst] assms by (simp add: parts_def)
qed

lemma announce_ok:
  assumes "parts K c k (p # fs) qs ss s" and "k < 0xFFFFFFFD"
  shows "\<exists>s' k' ss'. announce K hal now p s = Some s' \<and> k' \<le> Suc k \<and> parts K c k' fs qs ss' s' \<and>
    pkt_in_queue s' = pkt_in_queue s"
proof -
  note pt = assms(1) [unfolded parts_def]
  let ?st = "storage s" and ?lim = "LSI_PKT_IN_STORAGE_MAX_BUF" and ?exp = "LSI_PKT_IN_STORAGE_EXPIRATION_S"
  have inv: "storage_inv ?lim ?exp k ?st" and m: "max_size ?st = ?lim" and d: "distinct (ids ?st)"
    using pt by (simp_all add: storage_inv_def)
  show ?thesis
  proof (cases "length (store ?st) < unat ?lim")
    case False
    then have e: "store_packet now (Some p) ?st = (ERROR, ?st)" using m by (simp add: store_packet_def)
    obtain inst where i: "release K p s = Some (s\<lparr>bpool := inst\<rparr>)" "parts K c k fs qs ss (s\<lparr>bpool := inst\<rparr>)"
      by (rule release_taken [OF assms(1)])
    have "announce K hal now p s = Some (s\<lparr>bpool := inst\<rparr>)" using e i(1) by (simp add: announce_def)
    then show ?thesis using i(2) by (intro exI [of _ "s\<lparr>bpool := inst\<rparr>"] exI [of _ k] exI [of _ ss]) simp
  next
    case True
    note fresh = new_id_fresh [OF inv assms(2)]
    note sp = store_packet_room [of ?st now "Some p", unfolded m, OF True]
    have st': "storage_inv ?lim ?exp (Suc k) (snd (store_packet now (Some p) ?st))"
      by (rule storage_inv_store [OF inv fresh True])
    have ne: "new_id ?st \<noteq> ERROR" using new_id_facts inv by (auto simp: storage_inv_def)
    show ?thesis
    proof (cases "hal (new_id ?st) p")
      case True
      let ?s = "s\<lparr>storage := snd (store_packet now (Some p) ?st)\<rparr>"
      have "announce K hal now p s = Some ?s" using True ne by (simp add: announce_def sp)
      moreover have "parts K c (Suc k) fs qs (ss @ [p]) ?s"
      proof -
        have "set (fs @ qs @ ss @ [p]) = set ((p # fs) @ qs @ ss)" by auto
        then show ?thesis using pt st' by (auto simp: parts_def sp)
      qed
      ultimately show ?thesis by (intro exI [of _ ?s] exI [of _ "Suc k"] exI [of _ "ss @ [p]"]) simp
    next
      case False
      let ?t = "?st\<lparr>next_id := new_id ?st\<rparr>"
      have g: "get_packet (new_id ?st) (snd (store_packet now (Some p) ?st)) = (Some p, ?t)"
        "get_packet (new_id ?st) ?t = (None, ?t)"
        using get_just_stored [OF fresh] True m by auto
      have "storage_inv ?lim ?exp (Suc k) ?t" using storage_inv_take [OF st', of "new_id ?st"] g by simp
      then have "parts K c (Suc k) (p # fs) qs ss (s\<lparr>storage := ?t\<rparr>)" using pt by (simp add: parts_def)
      then obtain inst where i: "release K p (s\<lparr>storage := ?t\<rparr>) = Some (s\<lparr>storage := ?t, bpool := inst\<rparr>)"
        "parts K c (Suc k) fs qs ss (s\<lparr>storage := ?t, bpool := inst\<rparr>)" by (rule release_taken)
      have "announce K hal now p s = Some (s\<lparr>storage := ?t, bpool := inst\<rparr>)"
        using False ne g i(1) by (simp add: announce_def sp c_assert_def)
      then show ?thesis using i(2)
        by (intro exI [of _ "s\<lparr>storage := ?t, bpool := inst\<rparr>"] exI [of _ "Suc k"] exI [of _ ss]) simp
    qed
  qed
qed

text \<open>Taking a packet out of the queue, or out of the storage.\<close>

lemma parts_read:
  assumes "parts K c k fs qs ss s"
  obtains "qs = []" "non_blocking_read (pkt_in_queue s) = Some (None, pkt_in_queue s)"
  | p qs' q where "qs = p # qs'" "non_blocking_read (pkt_in_queue s) = Some (Some p, q)"
      "parts K c k (p # fs) qs' ss (s\<lparr>pkt_in_queue := q\<rparr>)"
proof -
  note pt = assms [unfolded parts_def]
  show thesis
  proof (cases qs)
    case Nil
    then show ?thesis using that(1) ring_fifo.rd_Nil [of "pkt_in_queue s"] pt by simp
  next
    case (Cons p qs')
    then have "contents (pkt_in_queue s) = Some p # map Some qs'" using pt by simp
    then obtain q where q: "non_blocking_read (pkt_in_queue s) = Some (Some p, q)" "quiet q"
      "contents q = map Some qs'" "length (elements q) = length (elements (pkt_in_queue s))"
      using ring_fifo.rd_Cons [of "pkt_in_queue s"] same_slots [of "pkt_in_queue s"] pt by metis
    have "set (fs @ qs @ ss) = set ((p # fs) @ qs' @ ss)" using Cons by auto
    then have "parts K c k (p # fs) qs' ss (s\<lparr>pkt_in_queue := q\<rparr>)"
      using pt q Cons by (auto simp: parts_def)
    then show ?thesis using that(2) Cons q(1) by simp
  qed
qed

lemma parts_take:
  assumes "parts K c k fs qs ss s"
  obtains st where "get_packet i (storage s) = (None, st)" "parts K c k fs qs ss (s\<lparr>storage := st\<rparr>)"
      "i \<notin> set (ids (storage s))"
  | p ss' st where "get_packet i (storage s) = (Some p, st)" "p \<in> set ss" "Suc (length (store st)) = length (store (storage s))"
      "parts K c k (p # fs) qs ss' (s\<lparr>storage := st\<rparr>)"
proof (rule get_packet_cases [of i "storage s"])
  assume "i \<notin> set (ids (storage s))" "get_packet i (storage s) = (None, storage s)"
  then show thesis using that(1) assms by simp
next
  note pt = assms [unfolded parts_def]
  fix ms m ms'
  assume g: "store (storage s) = ms @ m # ms'" "sid m = i"
    "get_packet i (storage s) = (spkt m, (storage s)\<lparr>store := ms @ ms'\<rparr>)"
  let ?st = "(storage s)\<lparr>store := ms @ ms'\<rparr>"
  have "map Some ss = map spkt ms @ spkt m # map spkt ms'" using pt g(1) by simp
  then obtain s1 p s2 where ss: "ss = s1 @ p # s2" "map Some s1 = map spkt ms" "Some p = spkt m" "map Some s2 = map spkt ms'"
    by (auto simp: map_eq_append_conv append_eq_map_conv Cons_eq_map_conv)
  have "storage_inv LSI_PKT_IN_STORAGE_MAX_BUF LSI_PKT_IN_STORAGE_EXPIRATION_S k ?st"
    using storage_inv_take [of _ _ k "storage s" i] pt g(3) by simp
  moreover have "set (fs @ qs @ ss) = set ((p # fs) @ qs @ s1 @ s2)" using ss(1) by auto
  ultimately have "parts K c k (p # fs) qs (s1 @ s2) (s\<lparr>storage := ?st\<rparr>)"
    using pt ss by (auto simp: parts_def)
  then show thesis by (rule that(2) [rotated 3]) (use g ss in simp_all)
qed

lemma dispatch_loop_ok:
  "parts K c k fs qs ss s \<Longrightarrow> k + n \<le> 0xFFFFFFFD \<Longrightarrow>
   \<exists>j s' k' qs' ss'. dispatch_loop K hal now n i s = Some (j, s') \<and> k' \<le> k + n \<and> parts K c k' fs qs' ss' s'"
proof (induction n arbitrary: k qs ss s i)
  case 0
  then show ?case by auto
next
  case (Suc n)
  show ?case
  proof (rule parts_read [OF Suc.prems(1)])
    assume "non_blocking_read (pkt_in_queue s) = Some (None, pkt_in_queue s)"
    then have "dispatch_loop K hal now (Suc n) i s = Some (i, s)" by simp
    then show ?thesis using Suc.prems(1)
      by (intro exI [of _ i] exI [of _ s] exI [of _ k] exI [of _ qs] exI [of _ ss]) simp
  next
    fix p qs' q
    assume r: "non_blocking_read (pkt_in_queue s) = Some (Some p, q)" "parts K c k (p # fs) qs' ss (s\<lparr>pkt_in_queue := q\<rparr>)"
    from announce_ok [OF r(2), of hal now] Suc.prems(2)
    obtain s1 k1 ss1 where a: "announce K hal now p (s\<lparr>pkt_in_queue := q\<rparr>) = Some s1" "k1 \<le> Suc k" "parts K c k1 fs qs' ss1 s1"
      by auto
    from Suc.IH [OF a(3), of "i + 1"] a(2) Suc.prems(2)
    obtain j s' k' qs2 ss2 where l: "dispatch_loop K hal now n (i + 1) s1 = Some (j, s')" "k' \<le> k1 + n" "parts K c k' fs qs2 ss2 s'"
      by auto
    have "dispatch_loop K hal now (Suc n) i s = Some (j, s')" using r(1) a(1) l(1) by simp
    then show ?thesis using l(2,3) a(2)
      by (intro exI [of _ j] exI [of _ s'] exI [of _ k'] exI [of _ qs2] exI [of _ ss2]) (simp del: dispatch_loop.simps)
  qed
qed

lemma parts_pipe: "parts K c k fs qs ss (empty_pipe i s) = parts K c k fs qs ss s"
  by (simp add: parts_def empty_pipe_def pipe_read_def Let_def)

lemma queue_size_0:
  assumes "parts K c k fs qs ss s"
  shows "queue_size (pkt_in_queue s) = 0 \<longleftrightarrow> qs = []" "length qs < 64"
proof -
  note pt = assms [unfolded parts_def]
  have "length (contents (pkt_in_queue s)) \<le> 63"
    using ring_fifo.bounded [of "pkt_in_queue s"] pt by (simp add: LSI_PKT_IN_QUEUE_SLOTS_def)
  then have l: "length qs \<le> 63" using pt by simp
  then show "length qs < 64" by simp
  have "queue_size (pkt_in_queue s) = of_nat (length qs)"
    using queue_size_contents [of "pkt_in_queue s"] pt by (simp add: quiet_def del: length_contents)
  then show "queue_size (pkt_in_queue s) = 0 \<longleftrightarrow> qs = []"
    using l by (auto simp: word_of_nat_eq_0_iff dest: dvd_imp_le)
qed

lemma drain_loop_ok:
  "parts K c k fs qs ss s \<Longrightarrow> length qs < n \<Longrightarrow>
   \<exists>s'. drain_loop K n s = Some s' \<and> parts K c k fs [] ss s'"
proof (induction n arbitrary: qs s)
  case 0
  then show ?case by simp
next
  case (Suc n)
  note z = queue_size_0(1) [OF Suc.prems(1)]
  show ?case
  proof (rule parts_read [OF Suc.prems(1)])
    assume "qs = []"
    then show ?thesis using z Suc.prems(1) by simp
  next
    fix p qs' q
    assume r: "qs = p # qs'" "non_blocking_read (pkt_in_queue s) = Some (Some p, q)"
      "parts K c k (p # fs) qs' ss (s\<lparr>pkt_in_queue := q\<rparr>)"
    obtain s1 where s1: "release K p (s\<lparr>pkt_in_queue := q\<rparr>) = Some s1" "parts K c k fs qs' ss s1"
      by (rule release_taken [OF r(3)]) blast
    obtain s' where "drain_loop K n s1 = Some s'" "parts K c k fs [] ss s'"
      using Suc.IH [OF s1(2)] Suc.prems(2) r(1) by auto
    then show ?thesis using z r s1(1) by simp
  qed
qed

lemma expire_loop_ok:
  "parts K c k fs qs ss s \<Longrightarrow> length (store (storage s)) < n \<Longrightarrow>
   \<exists>s' ss' m. expire_loop K clock n s = Some s' \<and> parts K c k fs qs ss' s' \<and> m < n \<and>
     oldest_packet_needs_expiration (clock m) (storage s') = None"
proof (induction n arbitrary: ss s)
  case 0
  then show ?case by simp
next
  case (Suc n)
  show ?case
  proof (cases "oldest_packet_needs_expiration (clock n) (storage s)")
    case None
    then show ?thesis using Suc.prems by (intro exI [of _ s] exI [of _ ss] exI [of _ n]) simp
  next
    case (Some i)
    then have i: "i \<in> set (ids (storage s))"
      by (auto simp: oldest_packet_needs_expiration_def split: list.splits if_splits)
    show ?thesis
    proof (rule parts_take [OF Suc.prems(1), of i])
      assume "i \<notin> set (ids (storage s))"
      then show ?thesis using i by simp
    next
      fix p ss' st
      assume g: "get_packet i (storage s) = (Some p, st)" "Suc (length (store st)) = length (store (storage s))"
        "parts K c k (p # fs) qs ss' (s\<lparr>storage := st\<rparr>)"
      obtain s1 where s1: "release K p (s\<lparr>storage := st\<rparr>) = Some s1" "parts K c k fs qs ss' s1" "storage s1 = st"
        by (rule release_taken [OF g(3)]) fastforce
      obtain s' ss2 m where "expire_loop K clock n s1 = Some s'" "parts K c k fs qs ss2 s'" "m < n"
        "oldest_packet_needs_expiration (clock m) (storage s') = None"
        using Suc.IH [OF s1(2)] Suc.prems(2) g(2) s1(3) by auto
      then show ?thesis using Some g(1) s1(1) by (intro exI [of _ s'] exI [of _ ss2] exI [of _ m]) simp
    qed
  qed
qed

text \<open>Changing the \<open>platform_state\<close> of a packet leaves the pool as it is.\<close>

lemma update_packet_ok:
  assumes "clients_hold K c H inst" and "p \<in> H"
    and "\<And>bp dp. inst = Some bp \<Longrightarrow> heap bp p = Some dp \<Longrightarrow> f (platform_state dp) \<noteq> None"
  obtains inst' where "update_packet p f inst = Some inst'" "clients_hold K c H inst'"
proof (rule clients_holdE [OF assms(1)])
  fix bp
  assume bp: "inst = Some bp" "pool_inv K c H bp"
  then have "p < c - 1" using assms(2) by (auto simp: pool_inv_def)
  then obtain dp where dp: "heap bp p = Some dp" "id dp = of_nat p" using bp(2) by (auto simp: pool_inv_def)
  obtain x where x: "f (platform_state dp) = Some x" using assms(3) [OF bp(1) dp(1)] by auto
  let ?bp = "bp\<lparr>heap := (heap bp)(p := Some (dp\<lparr>platform_state := x\<rparr>))\<rparr>"
  have "pool_inv K c H ?bp" using bp(2) dp by (auto simp: pool_inv_def)
  then show thesis using that [of "Some ?bp"] bp(1) dp(1) x by (simp add: update_packet_def clients_hold_def)
qed

lemma parts_front:
  assumes "parts K c k fs qs ss s" and "p \<in> set fs"
  shows "parts K c k (p # remove1 p fs) qs ss s"
proof -
  have "set ((p # remove1 p fs) @ qs @ ss) = set (fs @ qs @ ss)" using assms by (auto simp: parts_def)
  moreover have "distinct ((p # remove1 p fs) @ qs @ ss)" using assms by (auto simp: parts_def)
  ultimately show ?thesis using assms(1) unfolding parts_def by metis
qed

lemma parts_update:
  assumes "parts K c k fs qs ss s" and "p \<in> set (fs @ qs @ ss)"
    and "\<And>bp dp. bpool s = Some bp \<Longrightarrow> heap bp p = Some dp \<Longrightarrow> f (platform_state dp) \<noteq> None"
  obtains inst where "update_packet p f (bpool s) = Some inst" "parts K c k fs qs ss (s\<lparr>bpool := inst\<rparr>)"
proof (rule update_packet_ok [of K c "set (fs @ qs @ ss)" "bpool s" p f])
  show "clients_hold K c (set (fs @ qs @ ss)) (bpool s)" using assms(1) by (simp add: parts_def)
  fix inst
  assume "update_packet p f (bpool s) = Some inst" "clients_hold K c (set (fs @ qs @ ss)) inst"
  then show thesis using that [of inst] assms(1) by (simp add: parts_def)
qed (use assms in auto)

lemma packet_in_ok:
  assumes "parts K c k fs qs ss s" and "p \<in> set fs"
  shows "\<exists>s' qs'. platform_of1x_packet_in K tid p slen reason s = Some s' \<and> parts K c k (remove1 p fs) qs' ss s'"
proof -
  let ?f = "\<lambda>x. Some (x\<lparr>pktin_table_id := tid, pktin_reason := reason, pktin_send_len := slen\<rparr>)"
  obtain inst where i: "update_packet p ?f (bpool s) = Some inst"
    "parts K c k (p # remove1 p fs) qs ss (s\<lparr>bpool := inst\<rparr>)"
    by (rule parts_update [OF parts_front [OF assms], of p ?f]) simp_all
  note pt = i(2) [unfolded parts_def, simplified]
  show ?thesis
  proof (cases "length (contents (pkt_in_queue s)) < length (elements (pkt_in_queue s)) - 1")
    case True
    then obtain q where q: "non_blocking_write (Some p) (pkt_in_queue s) = Some (ROFL_SUCCESS, q)" "quiet q"
      "contents q = contents (pkt_in_queue s) @ [Some p]" "length (elements q) = length (elements (pkt_in_queue s))"
      using ring_fifo.wr_room [of "pkt_in_queue s"] same_slots [of "pkt_in_queue s"] pt by metis
    let ?s = "notify_packet_in (s\<lparr>bpool := inst, pkt_in_queue := q\<rparr>)"
    have "set (remove1 p fs) \<union> set (qs @ [p]) \<union> set ss = insert p (set (remove1 p fs) \<union> (set qs \<union> set ss))" by auto
    then have "parts K c k (remove1 p fs) (qs @ [p]) ss ?s"
      using pt q by (auto simp: parts_def notify_packet_in_def)
    moreover have "platform_of1x_packet_in K tid p slen reason s = Some ?s"
      using i(1) q(1) by (simp add: platform_of1x_packet_in_def)
    ultimately show ?thesis by blast
  next
    case False
    then have "non_blocking_write (Some p) (pkt_in_queue s) = Some (ROFL_FAILURE, pkt_in_queue s)"
      using ring_fifo.wr_full [of "pkt_in_queue s"] ring_fifo.bounded [of "pkt_in_queue s"] pt by simp
    then have "platform_of1x_packet_in K tid p slen reason s = release K p (s\<lparr>bpool := inst\<rparr>)"
      using i(1) by (simp add: platform_of1x_packet_in_def)
    moreover obtain inst' where "release K p (s\<lparr>bpool := inst\<rparr>) = Some (s\<lparr>bpool := inst'\<rparr>)"
      "parts K c k (remove1 p fs) qs ss (s\<lparr>bpool := inst'\<rparr>)"
      using release_taken [OF i(2)] by auto
    ultimately show ?thesis by auto
  qed
qed

definition readable :: "datapacketx86 \<Rightarrow> bool" where
  "readable x \<longleftrightarrow> base (clas_state x) + 158 \<le> length (pkt_mem x)"

lemma reclassify_keep_ok: "NDEBUG K \<Longrightarrow> readable x \<Longrightarrow> reclassify_keep K port x \<noteq> None"
  using classify_packet_ok [of K "base (clas_state x)" "pkt_mem x" "clas_state x" "get_buffer_length x" port 0]
  by (auto simp: reclassify_keep_def reclassify_def readable_def)

lemma packet_out_ok:
  assumes "parts K c k fs qs ss s" and "NDEBUG K" and "i \<noteq> 0" and "i \<noteq> no_buffer"
    and "\<forall>bp p dp. bpool s = Some bp \<longrightarrow> heap bp p = Some dp \<longrightarrow> readable (platform_state dp)"
  shows "\<exists>r g s'. process_packet_out K no_buffer sw True i port buf n s = Some (r, g, s') \<and>
    (case g of None \<Rightarrow> r = HAL_FAILURE \<and> owned K c k fs s' | Some p \<Rightarrow> r = HAL_SUCCESS \<and> owned K c k (p # fs) s')"
proof (rule parts_take [OF assms(1), of i])
  fix st
  assume "get_packet i (storage s) = (None, st)" "parts K c k fs qs ss (s\<lparr>storage := st\<rparr>)"
  then show ?thesis using assms(3,4) by (auto simp: process_packet_out_def owned_def)
next
  fix p ss' st
  assume g: "get_packet i (storage s) = (Some p, st)" "parts K c k (p # fs) qs ss' (s\<lparr>storage := st\<rparr>)"
  obtain inst where "update_packet p (reclassify_keep K port) (bpool s) = Some inst"
    "parts K c k (p # fs) qs ss' (s\<lparr>storage := st, bpool := inst\<rparr>)"
    by (rule parts_update [OF g(2), of p "reclassify_keep K port"])
      (use assms(5) reclassify_keep_ok [OF assms(2)] in auto)
  then show ?thesis using assms(3,4) g(1)
    by (intro exI [of _ HAL_SUCCESS] exI [of _ "Some p"] exI [of _ "s\<lparr>storage := st, bpool := inst\<rparr>"])
      (auto simp: process_packet_out_def owned_def)
qed

lemma packet_out_dropped:
  assumes "parts K c k fs qs ss s"
  shows "\<exists>s'. process_packet_out K no_buffer sw False i port buf n s = Some (HAL_FAILURE, None, s') \<and> owned K c k fs s'"
proof (cases "no_buffer = i")
  case True
  then show ?thesis using assms by (auto simp: process_packet_out_def owned_def)
next
  case False
  show ?thesis
  proof (rule parts_take [OF assms, of i])
    fix st
    assume "get_packet i (storage s) = (None, st)" "parts K c k fs qs ss (s\<lparr>storage := st\<rparr>)"
    then show ?thesis using False by (auto simp: process_packet_out_def owned_def)
  next
    fix p ss' st
    assume g: "get_packet i (storage s) = (Some p, st)" "parts K c k (p # fs) qs ss' (s\<lparr>storage := st\<rparr>)"
    show ?thesis by (rule release_taken [OF g(2)]) (use False g(1) in \<open>auto simp: process_packet_out_def owned_def\<close>)
  qed
qed

lemma drop_all_ok:
  "clients_hold K c (H \<union> set ps) inst \<Longrightarrow> distinct ps \<Longrightarrow> H \<inter> set ps = {} \<Longrightarrow>
   \<exists>inst'. drop_all K ps inst = Some inst' \<and> clients_hold K c H inst'"
proof (induction ps arbitrary: inst)
  case (Cons p ps)
  obtain inst1 where "release_buffer K p inst = Some inst1" "clients_hold K c (H \<union> set ps) inst1"
    by (rule pool.release_one [of K c p "H \<union> set ps" inst]) (use Cons.prems in auto)
  then show ?case using Cons by (auto simp: platform_packet_drop_def)
qed simp

lemma pre_destroy_ok:
  assumes "parts K c k fs [] ss s"
  shows "\<exists>inst. platform_pre_destroy_of1x_switch K s = Some inst \<and> clients_hold K c (set fs) inst"
proof -
  note pt = assms [unfolded parts_def]
  have "datapacket_storage_delete (storage s) = concat (map (\<lambda>g. case g of None \<Rightarrow> [] | Some p \<Rightarrow> [p]) (map spkt (store (storage s))))"
    by (simp add: datapacket_storage_delete_def comp_def)
  also have "\<dots> = ss" using pt by (induction ss) (simp_all add: comp_def)
  finally show ?thesis
    using drop_all_ok [of K c "set fs" ss "bpool s"] pt queue_size_0(1) [OF assms]
    by (simp add: platform_pre_destroy_of1x_switch_def c_assert_def)
qed

lemma dispatch_ok:
  assumes "parts K c k fs qs ss s" and "k \<le> 0xFFFFFFED"
  shows "\<exists>s' k'. process_sw_of1x_packet_ins K hal now s = Some s' \<and> k' \<le> k + 16 \<and> owned K c k' fs s'"
proof -
  obtain j s1 k' qs' ss' where l: "dispatch_loop K hal now BUCKETS_PER_LS 0 s = Some (j, s1)" "k' \<le> k + BUCKETS_PER_LS"
    "parts K c k' fs qs' ss' s1"
    using dispatch_loop_ok [OF assms(1), of BUCKETS_PER_LS hal now 0] assms(2) by (auto simp: BUCKETS_PER_LS_def)
  then have "owned K c k' fs (empty_pipe j s1)" by (auto simp: owned_def parts_pipe)
  then show ?thesis using l(1,2) by (auto simp: process_sw_of1x_packet_ins_def BUCKETS_PER_LS_def)
qed

lemma drain_ok:
  assumes "parts K c k fs qs ss s"
  shows "\<exists>s'. drain_packet_ins K s = Some s' \<and> parts K c k fs [] ss s'"
proof -
  have "unat (slots (pkt_in_queue s)) = 64"
    using assms by (simp add: parts_def quiet_def wf_ring_def LSI_PKT_IN_QUEUE_SLOTS_def)
  then show ?thesis
    using drain_loop_ok [OF assms, of 64] queue_size_0(2) [OF assms] by (simp add: drain_packet_ins_def)
qed

section \<open>Property\<close>

text \<open>C11: No buffer is lost or used twice on the way to the controller and back. In a state where the
  packets \<open>fs\<close> are being processed, others wait in the queue or in the storage and all other
  buffers are free (\<open>owned\<close>): handing a packet in \<open>fs\<close> to the controller, dispatching the queue (while
  fewer than \<open>2 ^ 32 - 18\<close> packets have been stored, so that identifiers are not used again), draining it,
  letting packets expire and a PACKET\_OUT of a stored packet all return, pass every assertion, and lead to
  such a state. Draining ends with an empty queue, expiration with a storage whose oldest packet may stay;
  destroying the switch after draining gives every buffer it held back to the pool.\<close>

theorem packet_in_conserves:
  assumes "owned K c k fs s"
  shows "(\<forall>p\<in>set fs. \<exists>s'. platform_of1x_packet_in K tid p slen reason s = Some s' \<and> owned K c k (remove1 p fs) s') \<and>
    (k \<le> 0xFFFFFFED \<longrightarrow>
      (\<exists>s' k'. process_sw_of1x_packet_ins K hal now s = Some s' \<and> k' \<le> k + 16 \<and> owned K c k' fs s')) \<and>
    (\<exists>s' inst. drain_packet_ins K s = Some s' \<and> owned K c k fs s' \<and> contents (pkt_in_queue s') = [] \<and>
      platform_pre_destroy_of1x_switch K s' = Some inst \<and> clients_hold K c (set fs) inst) \<and>
    (\<exists>s' m. expire_packets K clock s = Some s' \<and> owned K c k fs s' \<and>
      oldest_packet_needs_expiration (clock m) (storage s') = None) \<and>
    (\<exists>s'. process_packet_out K no_buffer sw False i port buf n s = Some (HAL_FAILURE, None, s') \<and> owned K c k fs s') \<and>
    (NDEBUG K \<and> i \<noteq> 0 \<and> i \<noteq> no_buffer \<and>
      (\<forall>bp p dp. bpool s = Some bp \<longrightarrow> heap bp p = Some dp \<longrightarrow> readable (platform_state dp)) \<longrightarrow>
      (\<exists>r g s'. process_packet_out K no_buffer sw True i port buf n s = Some (r, g, s') \<and>
        (case g of None \<Rightarrow> r = HAL_FAILURE \<and> owned K c k fs s'
         | Some p \<Rightarrow> r = HAL_SUCCESS \<and> owned K c k (p # fs) s')))"
proof -
  obtain qs ss where pt: "parts K c k fs qs ss s" using assms by (auto simp: owned_def)
  have "\<exists>s' inst. drain_packet_ins K s = Some s' \<and> owned K c k fs s' \<and> contents (pkt_in_queue s') = [] \<and>
      platform_pre_destroy_of1x_switch K s' = Some inst \<and> clients_hold K c (set fs) inst"
  proof -
    obtain s' where s': "drain_packet_ins K s = Some s'" "parts K c k fs [] ss s'" using drain_ok [OF pt] by blast
    moreover from s'(2) have "contents (pkt_in_queue s') = []" by (simp add: parts_def)
    ultimately show ?thesis using pre_destroy_ok [OF s'(2)] by (auto simp: owned_def)
  qed
  moreover have "\<exists>s' m. expire_packets K clock s = Some s' \<and> owned K c k fs s' \<and>
      oldest_packet_needs_expiration (clock m) (storage s') = None"
    using expire_loop_ok [OF pt, of "Suc (length (store (storage s)))" clock]
    unfolding expire_packets_def owned_def by blast
  moreover have "\<exists>s'. platform_of1x_packet_in K tid p slen reason s = Some s' \<and> owned K c k (remove1 p fs) s'"
    if "p \<in> set fs" for p using packet_in_ok [OF pt that] unfolding owned_def by blast
  ultimately show ?thesis
    using dispatch_ok [OF pt] packet_out_ok [OF pt] packet_out_dropped [OF pt] by (intro conjI impI ballI) auto
qed

theorem packet_in_conserves_witness:
  "\<forall>dp0. \<exists>bp s s'. bufferpool_new dp0 4 = Some (Inr bp) \<and> platform_post_init_of1x_switch (Some bp) = Inr s \<and>
     drain_packet_ins std_rofl s = Some s' \<and> contents (pkt_in_queue s') = []"
proof
  fix dp0
  have "\<exists>bp. bufferpool_new dp0 4 = Some (Inr bp) \<and> pool_inv std_rofl (unat (4 :: u64)) {} bp"
    by (rule bufferpool_new_ok [OF ring4(1)]) simp
  then obtain bp where bp: "bufferpool_new dp0 4 = Some (Inr bp)" "pool_inv std_rofl 4 {} bp" by auto
  obtain q :: "nat circular_queue" where q: "circular_queue_new LSI_PKT_IN_QUEUE_SLOTS = Inr q"
    by (auto simp: circular_queue_new_def LSI_PKT_IN_QUEUE_SLOTS_def)
  note wf = circular_queue_new_wf [OF q]
  let ?s = "\<lparr>bpool = Some bp, pkt_in_queue = q,
    storage = datapacket_storage_new LSI_PKT_IN_STORAGE_MAX_BUF LSI_PKT_IN_STORAGE_EXPIRATION_S,
    pending_to_read = 0, pipe = 0\<rparr>"
  have "parts std_rofl 4 0 [] [] [] ?s"
    using bp(2) wf storage_inv_new by (simp add: parts_def clients_hold_def quiet_def datapacket_storage_new_def)
  then have "owned std_rofl 4 0 [] ?s" by (auto simp: owned_def)
  from packet_in_conserves [OF this]
  obtain s' where "drain_packet_ins std_rofl ?s = Some s'" "contents (pkt_in_queue s') = []" by blast
  moreover have "platform_post_init_of1x_switch (Some bp) = Inr ?s"
    using q by (simp add: platform_post_init_of1x_switch_def)
  ultimately show "\<exists>bp s s'. bufferpool_new dp0 4 = Some (Inr bp) \<and> platform_post_init_of1x_switch (Some bp) = Inr s \<and>
     drain_packet_ins std_rofl s = Some s' \<and> contents (pkt_in_queue s') = []"
    using bp(1) by blast
qed

end
