(* ===== verification/Ports.thy ===== *)
theory Ports
  imports Packet_In "HOL-Library.Multiset"
begin

unbundle bit_operations_syntax

text \<open>
  \<open>io/ports/ioport.h\<close>, \<open>io/ports/ioport.cc\<close> and \<open>io/ports/vlink\<close>: a port with its output queues and its
  input queue, and the virtual link, a pair of ports of which each puts the packets of its output queues
  into the input queue of the other. \<open>enqueue_packet\<close> of the memory-mapped port
  (\<open>io/ports/mmap/ioport_mmap.cc\<close>) is the same code.

  A packet is the address of its \<open>datapacket_t\<close>, the pool an argument. The pipes that wake the I/O threads
  are counted bytes, as in \<open>Packet_In\<close>.
\<close>

section \<open>State\<close>

definition IO_IFACE_NUM_QUEUES :: nat where
  "IO_IFACE_NUM_QUEUES = 8"

definition IO_IFACE_RING_SLOTS :: u64 where
  "IO_IFACE_RING_SLOTS = 2048"

definition MIN_PKT_LEN :: u32 where
  "MIN_PKT_LEN = 14"

text \<open>The counters of a port and of its queues the driver updates.\<close>

record queue_stats =
  q_tx_packets :: u64
  q_tx_bytes :: u64
  q_overrun :: u64

text \<open>The members of \<open>ioport\<close> and \<open>ioport_vlink\<close>, and those of \<open>of_port_state\<close> they use;
  \<open>platform_port_state\<close> tells whether that pointer is set.\<close>

record ioport =
  num_of_queues :: u32
  output_queues :: "nat circular_queue list"
  input_queue :: "nat circular_queue"
  of_port_num :: u32
  platform_port_state :: bool
  up :: bool
  forward_packets :: bool
  no_flood :: bool
  drop_received :: bool
  of_generate_packet_in :: bool
  advertised :: u32
  port_state :: u32
  rx_packets :: u64
  rx_bytes :: u64
  tx_packets :: u64
  tx_bytes :: u64
  tx_dropped :: u64
  queues_stats :: "queue_stats list"
  rx_pipe :: nat
  tx_pipe :: nat
  deferred_drain_rx :: int
  deferred_drain_tx :: int

text \<open>The constructors of \<open>ioport\<close> and \<open>ioport_vlink\<close>; \<open>ps\<close> has the state of the port they are given.
  There are always \<open>IO_IFACE_NUM_QUEUES\<close> queues, however many the argument says.\<close>

definition ioport_new :: "ioport \<Rightarrow> u32 \<Rightarrow> queue_error + ioport" where
  "ioport_new ps q_num =
     (case circular_queue_new IO_IFACE_RING_SLOTS of
        Inl e \<Rightarrow> Inl e
      | Inr q \<Rightarrow> Inr (ps\<lparr>num_of_queues := q_num, input_queue := q, output_queues := replicate IO_IFACE_NUM_QUEUES q,
          rx_pipe := 0, tx_pipe := 0, deferred_drain_rx := 0, deferred_drain_tx := 0\<rparr>))"

definition port_up :: "ioport \<Rightarrow> ioport" where
  "port_up a = a\<lparr>up := True\<rparr>"

definition port_down :: "ioport \<Rightarrow> ioport" where
  "port_down a = a\<lparr>up := False\<rparr>"

definition set_drop_received_config :: "bool \<Rightarrow> ioport \<Rightarrow> rofl_result \<times> ioport" where
  "set_drop_received_config b a = (ROFL_SUCCESS, a\<lparr>drop_received := b\<rparr>)"

definition set_no_flood_config :: "bool \<Rightarrow> ioport \<Rightarrow> rofl_result \<times> ioport" where
  "set_no_flood_config b a = (ROFL_SUCCESS, a\<lparr>no_flood := b\<rparr>)"

definition set_forward_config :: "bool \<Rightarrow> ioport \<Rightarrow> rofl_result \<times> ioport" where
  "set_forward_config b a = (ROFL_SUCCESS, a\<lparr>forward_packets := b\<rparr>)"

definition set_generate_packet_in_config :: "bool \<Rightarrow> ioport \<Rightarrow> rofl_result \<times> ioport" where
  "set_generate_packet_in_config b a = (ROFL_SUCCESS, a\<lparr>of_generate_packet_in := b\<rparr>)"

definition set_advertise_config :: "u32 \<Rightarrow> ioport \<Rightarrow> rofl_result \<times> ioport" where
  "set_advertise_config adv a = (ROFL_SUCCESS, a\<lparr>advertised := adv\<rparr>)"

text \<open>\<open>link_down\<close> is the flag \<open>PORT_STATE_LINK_DOWN\<close>.\<close>

definition set_link_state :: "u32 \<Rightarrow> bool \<Rightarrow> ioport \<Rightarrow> ioport" where
  "set_link_state link_down b a =
     a\<lparr>port_state := (if \<not> b then port_state a OR link_down else port_state a AND NOT link_down)\<rparr>"

definition get_num_of_queues :: "ioport \<Rightarrow> u32" where
  "get_num_of_queues a = num_of_queues a"

definition get_queue_size :: "u32 \<Rightarrow> ioport \<Rightarrow> u32 option" where
  "get_queue_size i a =
     (if i < num_of_queues a then
        (if unat i < length (output_queues a) then Some (ucast (slots (output_queues a ! unat i))) else None)
      else Some 0)"

definition output_queue_has_packets :: "u32 \<Rightarrow> ioport \<Rightarrow> bool option" where
  "output_queue_has_packets i a =
     (if unat i < length (output_queues a) then Some (\<not> is_empty (output_queues a ! unat i)) else None)"

section \<open>Sending and receiving\<close>

definition packet :: "nat \<Rightarrow> bufferpool option \<Rightarrow> datapacketx86 option" where
  "packet p inst = do { bp \<leftarrow> inst; dp \<leftarrow> heap bp p; Some (platform_state dp) }"

definition pipe_write :: "nat \<Rightarrow> nat" where
  "pipe_write n = (if n < PIPE_BYTES then n + 1 else n)"

text \<open>\<open>enqueue_packet\<close>. An invalid queue number releases the buffer; without assertions the function goes on
  with queue 0.\<close>

definition enqueue_checked :: "rofl \<Rightarrow> nat \<Rightarrow> u32 \<Rightarrow> ioport \<Rightarrow> bufferpool option \<Rightarrow> (u32 \<times> bufferpool option) option" where
  "enqueue_checked K p q_id a inst =
     (if q_id \<ge> get_num_of_queues a then do {
        inst \<leftarrow> release_buffer K p inst;
        c_assert K False;
        Some (0, inst) }
      else Some (q_id, inst))"

definition enqueue_packet ::
  "rofl \<Rightarrow> nat \<Rightarrow> u32 \<Rightarrow> ioport \<Rightarrow> bufferpool option \<Rightarrow> (ioport \<times> bufferpool option) option" where
  "enqueue_packet K p q_id a inst = do {
     x \<leftarrow> packet p inst;
     let n = (ucast (get_buffer_length x) :: u32);
     if up a \<and> forward_packets a \<and> n \<ge> MIN_PKT_LEN then do {
       (q_id, inst) \<leftarrow> enqueue_checked K p q_id a inst;
       if unat q_id < length (output_queues a) then do {
         (r, q) \<leftarrow> non_blocking_write (Some p) (output_queues a ! unat q_id);
         if r \<noteq> ROFL_SUCCESS then do {
           inst \<leftarrow> release_buffer K p inst;
           Some (a, inst) }
         else Some (a\<lparr>output_queues := (output_queues a)[unat q_id := q], tx_pipe := pipe_write (tx_pipe a)\<rparr>, inst) }
       else None }
     else do {
       (if n < MIN_PKT_LEN then c_assert K False else Some ());
       inst \<leftarrow> release_buffer K p inst;
       Some (a, inst) } }"

text \<open>\<open>empty_pipe\<close>: the bytes left in the pipe and the new \<open>deferred_drain\<close>.\<close>

definition empty_notify_pipe :: "rofl \<Rightarrow> nat \<Rightarrow> int \<Rightarrow> (nat \<times> int) option" where
  "empty_notify_pipe K avail deferred =
     (if deferred \<le> 0 then Some (avail, deferred)
      else do {
        let (ret, left) = pipe_read (if deferred > uint IO_IFACE_RING_SLOTS then unat IO_IFACE_RING_SLOTS else nat deferred) avail;
        if ret > 0 then
          (if deferred - ret < 0 then do { c_assert K False; Some (left, 0) } else Some (left, deferred - ret))
        else Some (left, deferred) })"

definition vlink_read :: "rofl \<Rightarrow> ioport \<Rightarrow> bufferpool option \<Rightarrow> (nat option \<times> ioport \<times> bufferpool option) option" where
  "vlink_read K a inst = do {
     (v, q) \<leftarrow> non_blocking_read (input_queue a);
     let a = a\<lparr>input_queue := q\<rparr>;
     case v of
       None \<Rightarrow> Some (None, a, inst)
     | Some p \<Rightarrow> do {
         (bytes, deferred) \<leftarrow> empty_notify_pipe K (rx_pipe a) (deferred_drain_rx a + 1);
         let a = a\<lparr>rx_pipe := bytes, deferred_drain_rx := deferred\<rparr>;
         inst \<leftarrow> update_packet p (\<lambda>x. Some (x\<lparr>clas_state := (clas_state x)\<lparr>port_in := of_port_num a\<rparr>\<rparr>)) inst;
         x \<leftarrow> packet p inst;
         Some (Some p, a\<lparr>rx_packets := rx_packets a + 1, rx_bytes := rx_bytes a + get_buffer_length x\<rparr>, inst) } }"

definition tx_pkt :: "nat \<Rightarrow> ioport \<Rightarrow> (rofl_result \<times> ioport) option" where
  "tx_pkt p b =
     (if \<not> up b then Some (ROFL_FAILURE, b)
      else do {
        (r, q) \<leftarrow> non_blocking_write (Some p) (input_queue b);
        if r = ROFL_FAILURE then Some (ROFL_FAILURE, b)
        else Some (ROFL_SUCCESS, b\<lparr>input_queue := q, rx_pipe := pipe_write (rx_pipe b)\<rparr>) })"

text \<open>The loop of \<open>write\<close> at port \<open>a\<close>, connected to \<open>b\<close>: \<open>n\<close> buckets left; \<open>cnt\<close> packets and
  \<open>bytes\<close> sent so far.\<close>

definition count_drop :: "nat \<Rightarrow> ioport \<Rightarrow> ioport" where
  "count_drop i a = a\<lparr>tx_dropped := tx_dropped a + 1, queues_stats := (queues_stats a)[i := (queues_stats a ! i)
     \<lparr>q_overrun := q_overrun (queues_stats a ! i) + 1\<rparr>]\<rparr>"

primrec write_loop ::
  "rofl \<Rightarrow> nat \<Rightarrow> nat \<Rightarrow> u32 \<Rightarrow> u32 \<Rightarrow> ioport \<Rightarrow> ioport \<Rightarrow> bufferpool option \<Rightarrow>
   (nat \<times> u32 \<times> u32 \<times> ioport \<times> ioport \<times> bufferpool option) option" where
  "write_loop K i 0 cnt bytes a b inst = Some (0, cnt, bytes, a, b, inst)"
| "write_loop K i (Suc n) cnt bytes a b inst = do {
     (v, q) \<leftarrow> non_blocking_read (output_queues a ! i);
     let a = a\<lparr>output_queues := (output_queues a)[i := q]\<rparr>;
     case v of
       None \<Rightarrow> Some (Suc n, cnt, bytes, a, b, inst)
     | Some p \<Rightarrow> do {
         let a = a\<lparr>deferred_drain_tx := deferred_drain_tx a + 1\<rparr>;
         (r, b) \<leftarrow> tx_pkt p b;
         if r \<noteq> ROFL_SUCCESS then do {
           inst \<leftarrow> release_buffer K p inst;
           write_loop K i n cnt bytes (count_drop i a) b inst }
         else do {
           x \<leftarrow> packet p inst;
           write_loop K i n (cnt + 1) (bytes + ucast (get_buffer_length x)) a b inst } } }"

definition vlink_write ::
  "rofl \<Rightarrow> u32 \<Rightarrow> nat \<Rightarrow> ioport \<Rightarrow> ioport \<Rightarrow> bufferpool option \<Rightarrow> (nat \<times> ioport \<times> ioport \<times> bufferpool option) option" where
  "vlink_write K q_id n a b inst =
     (let i = unat q_id in
      if i < length (output_queues a) then do {
        (left, cnt, bytes, a, b, inst) \<leftarrow> write_loop K i n 0 0 a b inst;
        let a = a\<lparr>tx_packets := tx_packets a + ucast cnt, tx_bytes := tx_bytes a + scast bytes,
          queues_stats := (queues_stats a)[i := (queues_stats a ! i)
            \<lparr>q_tx_packets := q_tx_packets (queues_stats a ! i) + ucast cnt,
             q_tx_bytes := q_tx_bytes (queues_stats a ! i) + scast bytes\<rparr>]\<rparr>;
        (pb, deferred) \<leftarrow> empty_notify_pipe K (tx_pipe a) (deferred_drain_tx a);
        Some (left, a\<lparr>tx_pipe := pb, deferred_drain_tx := deferred\<rparr>, b, inst) }
      else None)"

text \<open>\<open>drain_queues\<close>: at most \<open>n\<close> rounds for one queue.\<close>

primrec drain_queue :: "rofl \<Rightarrow> nat \<Rightarrow> nat circular_queue \<Rightarrow> bufferpool option \<Rightarrow> (nat circular_queue \<times> bufferpool option) option" where
  "drain_queue K 0 q inst = None"
| "drain_queue K (Suc n) q inst = do {
     (v, q) \<leftarrow> non_blocking_read q;
     case v of None \<Rightarrow> Some (q, inst) | Some p \<Rightarrow> do { inst \<leftarrow> release_buffer K p inst; drain_queue K n q inst } }"

fun drain_output :: "rofl \<Rightarrow> nat circular_queue list \<Rightarrow> bufferpool option \<Rightarrow> (nat circular_queue list \<times> bufferpool option) option" where
  "drain_output K [] inst = Some ([], inst)"
| "drain_output K (q # qs) inst = do {
     (q, inst) \<leftarrow> drain_queue K (unat (slots q)) q inst;
     (qs, inst) \<leftarrow> drain_output K qs inst;
     Some (q # qs, inst) }"

definition drain_queues :: "rofl \<Rightarrow> ioport \<Rightarrow> bufferpool option \<Rightarrow> (ioport \<times> bufferpool option) option" where
  "drain_queues K a inst = do {
     (q, inst) \<leftarrow> drain_queue K (unat (slots (input_queue a))) (input_queue a) inst;
     (qs, inst) \<leftarrow> drain_output K (output_queues a) inst;
     Some (a\<lparr>input_queue := q, output_queues := qs\<rparr>, inst) }"

section \<open>Who holds which buffer\<close>

text \<open>\<open>M\<close> are the buffers outside the pool, each once.\<close>

definition holds :: "rofl \<Rightarrow> nat \<Rightarrow> nat option multiset \<Rightarrow> bufferpool option \<Rightarrow> bool" where
  "holds K c M inst \<longleftrightarrow> (\<exists>H. finite H \<and> clients_hold K c H inst \<and> M = image_mset Some (mset_set H))"

lemma holdsE:
  assumes "holds K c (add_mset v M) inst"
  obtains p H where "v = Some p" "p \<notin> H" "finite H" "clients_hold K c (insert p H) inst" "M = image_mset Some (mset_set H)"
proof -
  obtain H where h: "finite H" "clients_hold K c H inst" "add_mset v M = image_mset Some (mset_set H)"
    using assms by (auto simp: holds_def)
  then have "v \<in># image_mset Some (mset_set H)" by (metis union_single_eq_member)
  then obtain p where p: "v = Some p" "p \<in> H" using h(1) by auto
  then have "mset_set H = add_mset p (mset_set (H - {p}))" using h(1) by (simp add: mset_set.remove)
  then have "M = image_mset Some (mset_set (H - {p}))" using h(3) p(1) by simp
  then show thesis using that [of p "H - {p}"] h p by (simp add: insert_absorb)
qed

lemma holds_release:
  assumes "holds K c (add_mset (Some p) M) inst"
  obtains inst' where "release_buffer K p inst = Some inst'" "holds K c M inst'"
proof (rule holdsE [OF assms])
  fix p' H
  assume h: "Some p = Some p'" "p' \<notin> H" "finite H" "clients_hold K c (insert p' H) inst" "M = image_mset Some (mset_set H)"
  show thesis by (rule pool.release_one [OF h(4,2)]) (use that h in \<open>auto simp: holds_def\<close>)
qed

lemma holds_update:
  assumes "holds K c (add_mset (Some p) M) inst" and "\<And>x. f x \<noteq> None"
  obtains inst' where "update_packet p f inst = Some inst'" "holds K c (add_mset (Some p) M) inst'"
proof (rule holdsE [OF assms(1)])
  fix p' H
  assume h: "Some p = Some p'" "p' \<notin> H" "finite H" "clients_hold K c (insert p' H) inst" "M = image_mset Some (mset_set H)"
  show thesis
  proof (rule update_packet_ok [OF h(4), of p f])
    fix inst'
    assume "update_packet p f inst = Some inst'" "clients_hold K c (insert p' H) inst'"
    then show thesis using that h unfolding holds_def by (metis finite_insert image_mset_add_mset mset_set.insert option.inject)
  qed (use h assms(2) in auto)
qed

lemma holds_packet:
  assumes "holds K c (add_mset (Some p) M) inst"
  obtains x where "packet p inst = Some x"
proof (rule holds_update [OF assms, of Some])
  fix inst'
  assume "update_packet p Some inst = Some inst'"
  then show thesis using that by (auto simp: update_packet_def packet_def bind_Some_iff)
qed simp

text \<open>Reading a queue whose packets are held.\<close>

lemma read_held:
  assumes "quiet q" and "holds K c (mset (contents q) + M) inst"
  obtains "contents q = []" "non_blocking_read q = Some (None, q)"
  | p q' where "non_blocking_read q = Some (Some p, q')" "quiet q'" "mset (contents q) = add_mset (Some p) (mset (contents q'))"
      "contents q = Some p # contents q'" "slots q' = slots q"
proof (cases "contents q")
  case Nil
  then show thesis using that(1) ring_fifo.rd_Nil [OF assms(1)] by simp
next
  case (Cons v vs)
  then have "holds K c (add_mset v (mset vs + M)) inst" using assms(2) by simp
  then obtain p where p: "v = Some p" by (rule holdsE)
  obtain q' where "non_blocking_read q = Some (v, q')" "quiet q'" "contents q' = vs" "slots q' = slots q"
    using read_nonempty [of q v vs] ring_fifo.rd_Cons [OF assms(1) Cons] Cons assms(1) by (auto simp: quiet_def)
  then show thesis using that(2) Cons p by simp
qed

definition holdings :: "ioport \<Rightarrow> nat option multiset" where
  "holdings a = sum_list (map (\<lambda>q. mset (contents q)) (output_queues a)) + mset (contents (input_queue a))"

definition port_ok :: "ioport \<Rightarrow> bool" where
  "port_ok a \<longleftrightarrow> length (output_queues a) = IO_IFACE_NUM_QUEUES \<and> unat (num_of_queues a) \<le> IO_IFACE_NUM_QUEUES \<and>
     (\<forall>q\<in>set (output_queues a). quiet q) \<and> quiet (input_queue a)"

text \<open>The two ends of a virtual link and the packets \<open>fs\<close> being processed hold every buffer that is not
  free, each once.\<close>

definition link :: "rofl \<Rightarrow> nat \<Rightarrow> nat list \<Rightarrow> ioport \<Rightarrow> ioport \<Rightarrow> bufferpool option \<Rightarrow> bool" where
  "link K c fs a b inst \<longleftrightarrow> port_ok a \<and> port_ok b \<and> holds K c (mset (map Some fs) + holdings a + holdings b) inst"

lemma sum_list_update_mset:
  "i < length qs \<Longrightarrow> sum_list (map f (qs[i := q])) + f (qs ! i) = sum_list (map f qs) + (f q :: 'a multiset)"
  by (induction qs arbitrary: i) (auto split: nat.splits simp: ac_simps nth_Cons')

lemma holdings_output:
  assumes "i < length (output_queues a)"
  shows "holdings (a\<lparr>output_queues := (output_queues a)[i := q]\<rparr>) + mset (contents (output_queues a ! i)) =
    holdings a + mset (contents q)"
  using sum_list_update_mset [OF assms, of "\<lambda>q. mset (contents q)" q] by (simp add: holdings_def ac_simps)

lemma holdings_split: "i < length (output_queues a) \<Longrightarrow> \<exists>R. holdings a = mset (contents (output_queues a ! i)) + R"
proof -
  assume i: "i < length (output_queues a)"
  have "sum_list (map f qs) = f (qs ! j) + sum_list (map f (take j qs @ drop (Suc j) qs))"
    if "j < length qs" for j and qs :: "'q list" and f :: "'q \<Rightarrow> 'a multiset"
    by (subst id_take_nth_drop [OF that]) (simp add: ac_simps)
  from this [OF i, of "\<lambda>q. mset (contents q)"] show ?thesis by (auto simp: holdings_def ac_simps)
qed

lemma port_ok_output:
  "port_ok a \<Longrightarrow> i < length (output_queues a) \<Longrightarrow> quiet q \<Longrightarrow> port_ok (a\<lparr>output_queues := (output_queues a)[i := q]\<rparr>)"
  using set_update_subset_insert [of "output_queues a" i q] by (auto simp: port_ok_def)

lemma port_ok_nth: "port_ok a \<Longrightarrow> i < length (output_queues a) \<Longrightarrow> quiet (output_queues a ! i)"
  by (simp add: port_ok_def)

lemma port_same [simp]:
  "holdings (a\<lparr>tx_pipe := n\<rparr>) = holdings a" "port_ok (a\<lparr>tx_pipe := n\<rparr>) = port_ok a"
  "holdings (a\<lparr>rx_pipe := n\<rparr>) = holdings a" "port_ok (a\<lparr>rx_pipe := n\<rparr>) = port_ok a"
  "holdings (a\<lparr>deferred_drain_tx := d\<rparr>) = holdings a" "port_ok (a\<lparr>deferred_drain_tx := d\<rparr>) = port_ok a"
  "holdings (a\<lparr>deferred_drain_rx := d\<rparr>) = holdings a" "port_ok (a\<lparr>deferred_drain_rx := d\<rparr>) = port_ok a"
  "holdings (a\<lparr>rx_packets := x\<rparr>) = holdings a" "port_ok (a\<lparr>rx_packets := x\<rparr>) = port_ok a"
  "holdings (a\<lparr>rx_bytes := x\<rparr>) = holdings a" "port_ok (a\<lparr>rx_bytes := x\<rparr>) = port_ok a"
  "holdings (a\<lparr>tx_packets := x\<rparr>) = holdings a" "port_ok (a\<lparr>tx_packets := x\<rparr>) = port_ok a"
  "holdings (a\<lparr>tx_bytes := x\<rparr>) = holdings a" "port_ok (a\<lparr>tx_bytes := x\<rparr>) = port_ok a"
  "holdings (a\<lparr>tx_dropped := x\<rparr>) = holdings a" "port_ok (a\<lparr>tx_dropped := x\<rparr>) = port_ok a"
  "holdings (a\<lparr>queues_stats := st\<rparr>) = holdings a" "port_ok (a\<lparr>queues_stats := st\<rparr>) = port_ok a"
  "holdings (count_drop i a) = holdings a" "port_ok (count_drop i a) = port_ok a"
  "output_queues (count_drop i a) = output_queues a"
  by (simp_all add: holdings_def port_ok_def count_drop_def)

lemma write_queue:
  assumes "quiet q"
  obtains q' where "non_blocking_write (Some p) q = Some (ROFL_SUCCESS, q')" "quiet q'"
      "contents q' = contents q @ [Some p]"
  | "non_blocking_write (Some p) q = Some (ROFL_FAILURE, q)" "length (contents q) = length (elements q) - 1"
  using ring_fifo.wr_room [OF assms, of "Some p"] ring_fifo.wr_full [OF assms, of "Some p"] ring_fifo.bounded [OF assms]
  by (metis le_neq_implies_less)

lemma enqueue_ok:
  assumes ok: "port_ok a" and h: "holds K c (add_mset (Some p) (M + holdings a)) inst" and q: "q_id < num_of_queues a"
    and l: "NDEBUG K \<or> (\<forall>x. packet p inst = Some x \<longrightarrow> MIN_PKT_LEN \<le> ucast (get_buffer_length x))"
  shows "\<exists>a' inst'. enqueue_packet K p q_id a inst = Some (a', inst') \<and> port_ok a' \<and> holds K c (M + holdings a') inst' \<and>
     size (holdings a') \<le> Suc (size (holdings a))"
proof -
  obtain x where x: "packet p inst = Some x" by (rule holds_packet [OF h])
  obtain inst1 where r: "release_buffer K p inst = Some inst1" "holds K c (M + holdings a) inst1"
    by (rule holds_release [OF h])
  let ?n = "ucast (get_buffer_length x) :: u32"
  show ?thesis
  proof (cases "up a \<and> forward_packets a \<and> ?n \<ge> MIN_PKT_LEN")
    case False
    then have "enqueue_packet K p q_id a inst = Some (a, inst1)"
      using x r(1) l by (auto simp: enqueue_packet_def c_assert_def Let_def)
    then show ?thesis using ok r(2) by auto
  next
    case True
    have i: "unat q_id < length (output_queues a)" using q ok by (simp add: port_ok_def word_less_nat_alt)
    have c: "enqueue_checked K p q_id a inst = Some (q_id, inst)"
      using q by (simp add: enqueue_checked_def get_num_of_queues_def linorder_not_le [symmetric])
    show ?thesis
    proof (rule write_queue [OF port_ok_nth [OF ok i], of p])
      fix q'
      assume w: "non_blocking_write (Some p) (output_queues a ! unat q_id) = Some (ROFL_SUCCESS, q')" "quiet q'"
        "contents q' = contents (output_queues a ! unat q_id) @ [Some p]"
      let ?a = "a\<lparr>output_queues := (output_queues a)[unat q_id := q'], tx_pipe := pipe_write (tx_pipe a)\<rparr>"
      have "holdings ?a = add_mset (Some p) (holdings a)"
        using holdings_output [OF i, of q'] w(3) by (simp add: holdings_def)
      then have "holds K c (M + holdings ?a) inst" "size (holdings ?a) \<le> Suc (size (holdings a))" using h by simp_all
      moreover have "port_ok ?a" using port_ok_output [OF ok i w(2)] by (simp add: port_ok_def)
      moreover have "enqueue_packet K p q_id a inst = Some (?a, inst)"
        using x True c i w(1) by (simp add: enqueue_packet_def Let_def)
      ultimately show ?thesis by blast
    next
      assume w: "non_blocking_write (Some p) (output_queues a ! unat q_id) = Some (ROFL_FAILURE, output_queues a ! unat q_id)"
      have "enqueue_packet K p q_id a inst = Some (a, inst1)"
        using x True c i w r(1) by (simp add: enqueue_packet_def Let_def)
      then show ?thesis using ok r(2) by auto
    qed
  qed
qed

lemma empty_notify_pipe_ok: "\<exists>n d. empty_notify_pipe K avail deferred = Some (n, d)"
  by (auto simp: empty_notify_pipe_def pipe_read_def Let_def IO_IFACE_RING_SLOTS_def split: if_splits)

lemma tx_pkt_ok:
  assumes "port_ok b"
  obtains b' where "tx_pkt p b = Some (ROFL_SUCCESS, b')" "port_ok b'" "holdings b' = add_mset (Some p) (holdings b)"
  | "tx_pkt p b = Some (ROFL_FAILURE, b)"
proof (cases "up b")
  case False
  then show thesis using that(2) by (simp add: tx_pkt_def)
next
  case True
  have q: "quiet (input_queue b)" using assms by (simp add: port_ok_def)
  show thesis
  proof (rule write_queue [OF q, of p])
    fix q'
    assume w: "non_blocking_write (Some p) (input_queue b) = Some (ROFL_SUCCESS, q')" "quiet q'"
      "contents q' = contents (input_queue b) @ [Some p]"
    let ?b = "b\<lparr>input_queue := q', rx_pipe := pipe_write (rx_pipe b)\<rparr>"
    have "tx_pkt p b = Some (ROFL_SUCCESS, ?b)" using True w(1) by (simp add: tx_pkt_def)
    moreover have "port_ok ?b" using assms w(2) by (simp add: port_ok_def)
    moreover have "holdings ?b = add_mset (Some p) (holdings b)" using w(3) by (simp add: holdings_def)
    ultimately show thesis by (rule that(1))
  next
    assume "non_blocking_write (Some p) (input_queue b) = Some (ROFL_FAILURE, input_queue b)"
    then show thesis using that(2) True by (simp add: tx_pkt_def)
  qed
qed

lemma write_loop_ok:
  "port_ok a \<Longrightarrow> port_ok b \<Longrightarrow> i < length (output_queues a) \<Longrightarrow> holds K c (M + holdings a + holdings b) inst \<Longrightarrow>
   \<exists>left cnt' bytes' a' b' inst'. write_loop K i n cnt bytes a b inst = Some (left, cnt', bytes', a', b', inst') \<and>
     port_ok a' \<and> port_ok b' \<and> holds K c (M + holdings a' + holdings b') inst'"
proof (induction n arbitrary: cnt bytes a b inst)
  case 0
  then show ?case by simp
next
  case (Suc n)
  let ?q = "output_queues a ! i"
  have quiet: "quiet ?q" by (rule port_ok_nth [OF Suc.prems(1,3)])
  have "\<exists>R. holdings a = mset (contents ?q) + R"
    using holdings_split [OF Suc.prems(3)] by blast
  then obtain R where R: "holdings a = mset (contents ?q) + R" ..
  have held: "holds K c (mset (contents ?q) + (M + R + holdings b)) inst" using Suc.prems(4) by (simp add: R ac_simps)
  show ?case
  proof (rule read_held [OF quiet held])
    assume "non_blocking_read ?q = Some (None, ?q)"
    then show ?thesis using Suc.prems by (auto simp: Let_def)
  next
    fix p q'
    assume r: "non_blocking_read ?q = Some (Some p, q')" "quiet q'" "mset (contents ?q) = add_mset (Some p) (mset (contents q'))"
    let ?a = "a\<lparr>output_queues := (output_queues a)[i := q'], deferred_drain_tx := deferred_drain_tx a + 1\<rparr>"
    have a: "holdings a = add_mset (Some p) (holdings ?a)"
      using holdings_output [OF Suc.prems(3), of q'] r(3) by simp
    have ok: "port_ok ?a" using port_ok_output [OF Suc.prems(1,3) r(2)] by simp
    have i: "i < length (output_queues ?a)" using Suc.prems(3) by simp
    have h: "holds K c (add_mset (Some p) (M + holdings ?a + holdings b)) inst"
      using Suc.prems(4) by (simp add: a)
    show ?thesis
    proof (rule tx_pkt_ok [OF Suc.prems(2), of p])
      fix b'
      assume t: "tx_pkt p b = Some (ROFL_SUCCESS, b')" "port_ok b'" "holdings b' = add_mset (Some p) (holdings b)"
      obtain x where "packet p inst = Some x" by (rule holds_packet [OF h])
      moreover have "holds K c (M + holdings ?a + holdings b') inst" using h by (simp add: t(3))
      ultimately show ?thesis
        using r(1) t(1) Suc.IH [OF ok t(2) i, of inst "cnt + 1" "bytes + ucast (get_buffer_length x)"] by (simp add: Let_def)
    next
      assume t: "tx_pkt p b = Some (ROFL_FAILURE, b)"
      obtain inst' where "release_buffer K p inst = Some inst'" "holds K c (M + holdings ?a + holdings b) inst'"
        by (rule holds_release [OF h])
      then show ?thesis
        using r(1) t Suc.IH [of "count_drop i ?a" b inst' cnt bytes] ok i Suc.prems(2) by (simp add: Let_def)
    qed
  qed
qed

lemma vlink_write_ok:
  assumes "port_ok a" "port_ok b" "unat q_id < length (output_queues a)" "holds K c (M + holdings a + holdings b) inst"
  shows "\<exists>left a' b' inst'. vlink_write K q_id n a b inst = Some (left, a', b', inst') \<and>
     port_ok a' \<and> port_ok b' \<and> holds K c (M + holdings a' + holdings b') inst'"
proof -
  obtain left cnt bytes a' b' inst' where w: "write_loop K (unat q_id) n 0 0 a b inst = Some (left, cnt, bytes, a', b', inst')"
    and ok: "port_ok a'" "port_ok b'" "holds K c (M + holdings a' + holdings b') inst'"
    using write_loop_ok [OF assms, of n 0 0] by blast
  obtain pb d where "empty_notify_pipe K (tx_pipe a') (deferred_drain_tx a') = Some (pb, d)"
    using empty_notify_pipe_ok by blast
  then show ?thesis using w ok assms(3) by (simp add: vlink_write_def Let_def)
qed

lemma vlink_read_ok:
  assumes "port_ok b" "holds K c (M + holdings b) inst"
  shows "\<exists>v b' inst'. vlink_read K b inst = Some (v, b', inst') \<and> port_ok b' \<and>
     holds K c (mset (map Some (case v of None \<Rightarrow> [] | Some p \<Rightarrow> [p])) + (M + holdings b')) inst'"
proof -
  let ?R = "sum_list (map (\<lambda>q. mset (contents q)) (output_queues b))"
  have q: "quiet (input_queue b)" using assms(1) by (simp add: port_ok_def)
  have h: "holds K c (mset (contents (input_queue b)) + (M + ?R)) inst"
    using assms(2) by (simp add: holdings_def ac_simps)
  show ?thesis
  proof (rule read_held [OF q h])
    assume "non_blocking_read (input_queue b) = Some (None, input_queue b)"
    then show ?thesis using assms by (simp add: vlink_read_def Let_def)
  next
    fix p q'
    assume r: "non_blocking_read (input_queue b) = Some (Some p, q')" "quiet q'"
      "mset (contents (input_queue b)) = add_mset (Some p) (mset (contents q'))"
    let ?f = "\<lambda>x. Some (x\<lparr>clas_state := (clas_state x)\<lparr>port_in := of_port_num b\<rparr>\<rparr>)"
    have "holds K c (add_mset (Some p) (mset (contents q') + (M + ?R))) inst" using h r(3) by simp
    then obtain inst' where i: "update_packet p ?f inst = Some inst'"
      "holds K c (add_mset (Some p) (mset (contents q') + (M + ?R))) inst'" by (rule holds_update) auto
    obtain x where x: "packet p inst' = Some x" by (rule holds_packet [OF i(2)])
    obtain n d where e: "empty_notify_pipe K (rx_pipe b) (deferred_drain_rx b + 1) = Some (n, d)"
      using empty_notify_pipe_ok by blast
    define b' where "b' = b\<lparr>input_queue := q', rx_pipe := n, deferred_drain_rx := d,
      rx_packets := rx_packets b + 1, rx_bytes := rx_bytes b + get_buffer_length x\<rparr>"
    have "vlink_read K b inst = Some (Some p, b', inst')"
      using r(1) i(1) x e by (simp add: vlink_read_def b'_def Let_def)
    moreover have "port_ok b'" using r(2) assms(1) by (simp add: port_ok_def b'_def)
    moreover have "holdings b' = ?R + mset (contents q')" by (simp add: holdings_def b'_def)
    then have "holds K c (mset (map Some [p]) + (M + holdings b')) inst'" using i(2) by (simp add: ac_simps)
    ultimately show ?thesis by (intro exI [of _ "Some p"] exI [of _ b'] exI [of _ inst']) simp
  qed
qed

lemma drain_queue_ok:
  "quiet q \<Longrightarrow> length (contents q) < n \<Longrightarrow> holds K c (mset (contents q) + M) inst \<Longrightarrow>
   \<exists>q' inst'. drain_queue K n q inst = Some (q', inst') \<and> quiet q' \<and> contents q' = [] \<and> holds K c M inst'"
proof (induction n arbitrary: q inst)
  case 0
  then show ?case by simp
next
  case (Suc n)
  show ?case
  proof (rule read_held [OF Suc.prems(1,3)])
    assume "contents q = []" "non_blocking_read q = Some (None, q)"
    then show ?thesis using Suc.prems by simp
  next
    fix p q'
    assume r: "non_blocking_read q = Some (Some p, q')" "quiet q'" "mset (contents q) = add_mset (Some p) (mset (contents q'))"
    have "holds K c (add_mset (Some p) (mset (contents q') + M)) inst" using Suc.prems(3) by (simp add: r(3))
    then obtain inst' where i: "release_buffer K p inst = Some inst'" "holds K c (mset (contents q') + M) inst'"
      by (rule holds_release)
    have "length (contents q') < n" using Suc.prems(2) arg_cong [OF r(3), of size] by (simp del: length_contents)
    from Suc.IH [OF r(2) this i(2)] show ?thesis using r(1) i(1) by simp
  qed
qed

text \<open>\<open>slots\<close> rounds are enough.\<close>

lemma drain_enough: "quiet q \<Longrightarrow> length (contents q) < unat (slots q)"
  using ring_fifo.bounded [of q] same_slots [of q] wf_ringD [of q] by (auto simp: quiet_def)

lemma drain_output_ok:
  "\<forall>q\<in>set qs. quiet q \<Longrightarrow> holds K c (sum_list (map (\<lambda>q. mset (contents q)) qs) + M) inst \<Longrightarrow>
   \<exists>qs' inst'. drain_output K qs inst = Some (qs', inst') \<and> length qs' = length qs \<and>
     (\<forall>q\<in>set qs'. quiet q \<and> contents q = []) \<and> holds K c M inst'"
proof (induction qs arbitrary: inst)
  case Nil
  then show ?case by simp
next
  case (Cons q qs)
  have h: "holds K c (mset (contents q) + (sum_list (map (\<lambda>q. mset (contents q)) qs) + M)) inst"
    using Cons.prems(2) by (simp add: ac_simps)
  obtain q' inst' where "drain_queue K (unat (slots q)) q inst = Some (q', inst')" "quiet q'" "contents q' = []"
    "holds K c (sum_list (map (\<lambda>q. mset (contents q)) qs) + M) inst'"
    using drain_queue_ok [OF _ drain_enough h] Cons.prems(1) by auto
  then show ?case using Cons.IH [of inst'] Cons.prems(1) by auto
qed

lemma drained_holdings: "\<forall>q\<in>set qs. contents q = [] \<Longrightarrow> sum_list (map (\<lambda>q. mset (contents q)) qs) = {#}"
  by (induction qs) auto

lemma drain_queues_ok:
  assumes "port_ok a" "holds K c (M + holdings a) inst"
  shows "\<exists>a' inst'. drain_queues K a inst = Some (a', inst') \<and> port_ok a' \<and> holdings a' = {#} \<and> holds K c M inst'"
proof -
  let ?R = "sum_list (map (\<lambda>q. mset (contents q)) (output_queues a))"
  have h: "holds K c (mset (contents (input_queue a)) + (?R + M)) inst"
    using assms(2) by (simp add: holdings_def ac_simps)
  have q: "quiet (input_queue a)" "\<forall>q\<in>set (output_queues a). quiet q" using assms(1) by (auto simp: port_ok_def)
  obtain q' inst1 where q': "drain_queue K (unat (slots (input_queue a))) (input_queue a) inst = Some (q', inst1)" "quiet q'"
    "contents q' = []" "holds K c (?R + M) inst1"
    using drain_queue_ok [OF q(1) drain_enough [OF q(1)] h] by blast
  obtain qs' inst2 where qs': "drain_output K (output_queues a) inst1 = Some (qs', inst2)"
    "length qs' = length (output_queues a)" "\<forall>q\<in>set qs'. quiet q \<and> contents q = []" "holds K c M inst2"
    using drain_output_ok [OF q(2) q'(4)] by blast
  then show ?thesis
    using q' assms(1) drained_holdings [of qs'] by (simp add: drain_queues_def port_ok_def holdings_def)
qed

text \<open>How many packets the input queue of a port takes.\<close>

definition vlink_room :: "ioport \<Rightarrow> nat" where
  "vlink_room b = (if up b then length (elements (input_queue b)) - 1 - length (contents (input_queue b)) else 0)"

lemma tx_pkt_no_room: "port_ok b \<Longrightarrow> vlink_room b = 0 \<Longrightarrow> tx_pkt p b = Some (ROFL_FAILURE, b)"
  using ring_fifo.wr_full [of "input_queue b" "Some p"] ring_fifo.bounded [of "input_queue b"]
  by (auto simp: tx_pkt_def vlink_room_def port_ok_def split: if_splits)

lemma tx_pkt_room:
  assumes "port_ok b" "vlink_room b = Suc r"
  obtains b' where "tx_pkt p b = Some (ROFL_SUCCESS, b')" "port_ok b'" "vlink_room b' = r"
    "contents (input_queue b') = contents (input_queue b) @ [Some p]"
proof -
  have up: "up b" "quiet (input_queue b)" "length (contents (input_queue b)) < length (elements (input_queue b)) - 1"
    using assms by (auto simp: vlink_room_def port_ok_def split: if_splits)
  obtain q where q: "non_blocking_write (Some p) (input_queue b) = Some (ROFL_SUCCESS, q)" "quiet q"
    "contents q = contents (input_queue b) @ [Some p]" "length (elements q) - 1 = length (elements (input_queue b)) - 1"
    using ring_fifo.wr_room [OF up(2,3)] by blast
  let ?b = "b\<lparr>input_queue := q, rx_pipe := pipe_write (rx_pipe b)\<rparr>"
  have l: "length (contents q) = Suc (length (contents (input_queue b)))" by (simp only: q(3)) simp
  show thesis
    by (rule that [of ?b]) (use up q l assms in \<open>simp_all add: tx_pkt_def port_ok_def vlink_room_def del: length_contents\<close>)
qed

lemma write_loop_moves:
  "port_ok a \<Longrightarrow> port_ok b \<Longrightarrow> i < length (output_queues a) \<Longrightarrow>
   write_loop K i n cnt bytes a b inst = Some (left, cnt', bytes', a', b', inst') \<Longrightarrow>
   contents (output_queues a ! i) = vs \<Longrightarrow> vlink_room b = r \<Longrightarrow> None \<notin> set vs \<Longrightarrow>
   left = n - length vs \<and> contents (output_queues a' ! i) = drop n vs \<and>
   contents (input_queue b') = contents (input_queue b) @ take r (take n vs) \<and>
   cnt' = cnt + of_nat (min r (min n (length vs))) \<and>
   tx_dropped a' = tx_dropped a + of_nat (min n (length vs) - r) \<and>
   tx_packets a' = tx_packets a \<and> length (output_queues a') = length (output_queues a)"
proof (induction n arbitrary: cnt bytes a b inst vs r)
  case 0
  then show ?case by simp
next
  case (Suc n)
  let ?q = "output_queues a ! i"
  have quiet: "quiet ?q" by (rule port_ok_nth [OF Suc.prems(1,3)])
  show ?case
  proof (cases vs)
    case Nil
    then show ?thesis
      using Suc.prems ring_fifo.rd_Nil [OF quiet] by (auto simp: Let_def)
  next
    case (Cons v ws)
    then obtain q' where r: "non_blocking_read ?q = Some (v, q')" "quiet q'" "contents q' = ws"
      using ring_fifo.rd_Cons [OF quiet] Suc.prems(5) by blast
    obtain p where v: "v = Some p" using Cons Suc.prems(7) by (cases v) auto
    let ?a = "a\<lparr>output_queues := (output_queues a)[i := q'], deferred_drain_tx := deferred_drain_tx a + 1\<rparr>"
    have ok: "port_ok ?a" using port_ok_output [OF Suc.prems(1,3) r(2)] by simp
    have i: "i < length (output_queues ?a)" "contents (output_queues ?a ! i) = ws" using Suc.prems(3) r(3) by simp_all
    show ?thesis
    proof (cases r)
      case 0
      then have t: "tx_pkt p b = Some (ROFL_FAILURE, b)" using tx_pkt_no_room Suc.prems(2,6) by simp
      obtain inst1 where w: "write_loop K i n cnt bytes (count_drop i ?a) b inst1 = Some (left, cnt', bytes', a', b', inst')"
        using Suc.prems(4) r(1) v t by (auto simp: Let_def bind_Some_iff)
      show ?thesis
        using Suc.IH [OF _ Suc.prems(2) _ w _ Suc.prems(6), of ws] Suc.prems(7) ok i 0 Cons
        by (simp add: count_drop_def)
    next
      case (Suc r')
      then obtain b1 where t: "tx_pkt p b = Some (ROFL_SUCCESS, b1)" "port_ok b1" "vlink_room b1 = r'"
        "contents (input_queue b1) = contents (input_queue b) @ [Some p]"
        using tx_pkt_room Suc.prems(2,6) by metis
      obtain bytes1 where w: "write_loop K i n (cnt + 1) bytes1 ?a b1 inst = Some (left, cnt', bytes', a', b', inst')"
        using Suc.prems(4) r(1) v t by (auto simp: Let_def bind_Some_iff)
      show ?thesis
        using Suc.IH [OF ok t(2) i(1) w i(2) t(3)] Suc.prems(7) Suc Cons t(4) v by simp
    qed
  qed
qed

lemma holds_no_None: "holds K c M inst \<Longrightarrow> None \<notin># M"
  by (auto simp: holds_def)

lemma holds_output_Some:
  assumes "holds K c (M + holdings a) inst" and "i < length (output_queues a)"
  shows "None \<notin> set (contents (output_queues a ! i))"
proof -
  obtain R where "holdings a = mset (contents (output_queues a ! i)) + R" using holdings_split [OF assms(2)] by blast
  then show ?thesis using holds_no_None [OF assms(1)] by auto
qed

lemma link_enqueue:
  assumes "link K c fs a b inst" and "p \<in> set fs" and "q_id < num_of_queues a"
    and "NDEBUG K \<or> (\<forall>x. packet p inst = Some x \<longrightarrow> MIN_PKT_LEN \<le> ucast (get_buffer_length x))"
  shows "\<exists>a' inst'. enqueue_packet K p q_id a inst = Some (a', inst') \<and> link K c (remove1 p fs) a' b inst'"
proof -
  define R where "R = mset (map Some (remove1 p fs))"
  let ?M = "R + holdings b"
  have l: "port_ok a" "port_ok b" "holds K c (mset (map Some fs) + holdings a + holdings b) inst"
    using assms(1) by (simp_all add: link_def)
  have "mset fs = add_mset p (mset (remove1 p fs))" using assms(2) by simp
  then have fs: "mset (map Some fs) = add_mset (Some p) R"
    unfolding mset_map R_def by (simp only: image_mset_add_mset)
  have "holds K c (add_mset (Some p) (?M + holdings a)) inst" using l(3) unfolding fs by (simp add: ac_simps)
  from enqueue_ok [OF l(1) this assms(3,4)]
  obtain a' inst' where e: "enqueue_packet K p q_id a inst = Some (a', inst')" "port_ok a'" "holds K c (?M + holdings a') inst'"
    by blast
  have "link K c (remove1 p fs) a' b inst'"
    using e(2,3) l(2) unfolding link_def R_def [symmetric] by (simp add: ac_simps)
  then show ?thesis using e(1) by blast
qed

text \<open>A pool of which one buffer is held, for the witnesses.\<close>

lemma some_pool:
  obtains bp p bp' where "bufferpool_new dp0 4 = Some (Inr bp)" "get_buffer K (Some bp) = Some (Some p, Some bp')"
    "clients_hold K 4 {p} (Some bp')" "clients_hold K 4 {} (Some bp)"
proof -
  have "\<exists>bp. bufferpool_new dp0 4 = Some (Inr bp) \<and> pool_inv K (unat (4 :: u64)) {} bp"
    by (rule bufferpool_new_ok [OF ring4(1)]) simp
  then obtain bp where bp: "bufferpool_new dp0 4 = Some (Inr bp)" "clients_hold K 4 {} (Some bp)"
    by (auto simp: clients_hold_def)
  have "(0::nat) \<in> {..<4 - 1}" by simp
  then have "{} \<noteq> {..<4 - (1::nat)}" by blast
  from pool.get_some [OF bp(2) this]
  obtain p s where "get_buffer K (Some bp) = Some (Some p, s)" "clients_hold K 4 {p} s" by auto
  then show thesis using that [of bp p] bp by (cases s) (auto simp: clients_hold_def)
qed

lemma ioport_new_ok:
  obtains a where "ioport_new ps n = Inr a" "holdings a = {#}" "unat n \<le> IO_IFACE_NUM_QUEUES \<Longrightarrow> port_ok a"
    "num_of_queues a = n" "of_port_num a = of_port_num ps" "up a = up ps" "forward_packets a = forward_packets ps" "no_flood a = no_flood ps"
    "\<And>i. i < IO_IFACE_NUM_QUEUES \<Longrightarrow> contents (output_queues a ! i) = []" "length (output_queues a) = IO_IFACE_NUM_QUEUES"
    "\<And>i. i < IO_IFACE_NUM_QUEUES \<Longrightarrow> length (elements (output_queues a ! i)) = 2048"
proof -
  obtain q :: "nat circular_queue" where q: "circular_queue_new IO_IFACE_RING_SLOTS = Inr q"
    by (auto simp: circular_queue_new_def IO_IFACE_RING_SLOTS_def)
  note wf = circular_queue_new_wf [OF q]
  let ?a = "ps\<lparr>num_of_queues := n, input_queue := q, output_queues := replicate IO_IFACE_NUM_QUEUES q,
          rx_pipe := 0, tx_pipe := 0, deferred_drain_rx := 0, deferred_drain_tx := 0\<rparr>"
  have "holdings ?a = {#}"
    using wf(2) drained_holdings [of "replicate IO_IFACE_NUM_QUEUES q"] by (simp add: holdings_def)
  moreover have "ioport_new ps n = Inr ?a" using q by (simp add: ioport_new_def)
  ultimately show thesis using wf by (intro that [of ?a]) (simp_all add: port_ok_def quiet_def IO_IFACE_RING_SLOTS_def)
qed

text \<open>C12: No buffer is lost or used twice on a virtual link. Let the packets \<open>fs\<close> being processed and the
  queues of both ends hold every buffer that is not free, each once (\<open>link\<close>). Enqueueing a packet of \<open>fs\<close> in a
  valid queue (unless it is a runt and assertions are on), writing from any queue, reading at the other end
  and draining a port before it is destroyed all return, pass every assertion and lead to such a state:
  an enqueued packet leaves \<open>fs\<close>, a packet that is read enters it, a drained port holds nothing.\<close>

theorem vlink_conserves:
  assumes "link K c fs a b inst"
  shows "(\<forall>p\<in>set fs. q_id < num_of_queues a \<and>
      (NDEBUG K \<or> (\<forall>x. packet p inst = Some x \<longrightarrow> MIN_PKT_LEN \<le> ucast (get_buffer_length x))) \<longrightarrow>
      (\<exists>a' inst'. enqueue_packet K p q_id a inst = Some (a', inst') \<and> link K c (remove1 p fs) a' b inst')) \<and>
    (unat q_id < IO_IFACE_NUM_QUEUES \<longrightarrow>
      (\<exists>left a' b' inst'. vlink_write K q_id n a b inst = Some (left, a', b', inst') \<and> link K c fs a' b' inst')) \<and>
    (\<exists>v b' inst'. vlink_read K b inst = Some (v, b', inst') \<and>
      link K c ((case v of None \<Rightarrow> [] | Some p \<Rightarrow> [p]) @ fs) a b' inst') \<and>
    (\<exists>a' inst'. drain_queues K a inst = Some (a', inst') \<and> holdings a' = {#} \<and> link K c fs a' b inst')"
proof -
  have l: "port_ok a" "port_ok b" "holds K c (mset (map Some fs) + holdings a + holdings b) inst"
    using assms by (simp_all add: link_def)
  have "\<exists>left a' b' inst'. vlink_write K q_id n a b inst = Some (left, a', b', inst') \<and> link K c fs a' b' inst'"
    if "unat q_id < IO_IFACE_NUM_QUEUES"
  proof -
    have "unat q_id < length (output_queues a)" using that l(1) by (simp add: port_ok_def)
    from vlink_write_ok [OF l(1,2) this l(3), of n] show ?thesis by (auto simp: link_def)
  qed
  moreover have "\<exists>v b' inst'. vlink_read K b inst = Some (v, b', inst') \<and>
      link K c ((case v of None \<Rightarrow> [] | Some p \<Rightarrow> [p]) @ fs) a b' inst'"
  proof -
    obtain v b' inst' where r: "vlink_read K b inst = Some (v, b', inst')" "port_ok b'"
      "holds K c (mset (map Some (case v of None \<Rightarrow> [] | Some p \<Rightarrow> [p])) + (mset (map Some fs) + holdings a + holdings b')) inst'"
      using vlink_read_ok [OF l(2,3)] by blast
    then have "link K c ((case v of None \<Rightarrow> [] | Some p \<Rightarrow> [p]) @ fs) a b' inst'"
      using l(1) by (simp add: link_def ac_simps)
    then show ?thesis using r(1) by blast
  qed
  moreover have "\<exists>a' inst'. drain_queues K a inst = Some (a', inst') \<and> holdings a' = {#} \<and> link K c fs a' b inst'"
  proof -
    have "holds K c (mset (map Some fs) + holdings b + holdings a) inst" using l(3) by (simp add: ac_simps)
    from drain_queues_ok [OF l(1) this] show ?thesis using l(2) by (auto simp: link_def)
  qed
  ultimately show ?thesis using link_enqueue [OF assms] by blast
qed

text \<open>A virtual link is a bounded FIFO that drops what has no room. \<open>write\<close> with \<open>n\<close> buckets on a queue
  holding \<open>vs\<close> takes the first \<open>n\<close> packets out of it; of these the first ones, as many as the other end has room
  for (none when it is down), are appended in order to its input queue and counted as sent, the rest are
  released and counted as dropped; the result is the number of buckets that found no packet.\<close>

lemma vlink_write_moves:
  assumes "link K c fs a b inst" and "unat q_id < IO_IFACE_NUM_QUEUES" and "vs = contents (output_queues a ! unat q_id)"
  shows "\<exists>a' b' inst'. vlink_write K q_id n a b inst = Some (n - length vs, a', b', inst') \<and>
    contents (output_queues a' ! unat q_id) = drop n vs \<and>
    contents (input_queue b') = contents (input_queue b) @ take (vlink_room b) (take n vs) \<and>
    tx_packets a' = tx_packets a + ucast (of_nat (min (vlink_room b) (min n (length vs))) :: u32) \<and>
    tx_dropped a' = tx_dropped a + of_nat (min n (length vs) - vlink_room b)"
proof -
  let ?i = "unat q_id"
  have l: "port_ok a" "port_ok b" "holds K c (mset (map Some fs) + holdings a + holdings b) inst"
    using assms by (simp_all add: link_def)
  have i: "?i < length (output_queues a)" using assms(2) l(1) by (simp add: port_ok_def)
  obtain left cnt bytes a1 b' inst' where w: "write_loop K ?i n 0 0 a b inst = Some (left, cnt, bytes, a1, b', inst')"
    using write_loop_ok [OF l(1,2) i l(3), of n 0 0] by blast
  have "holds K c ((mset (map Some fs) + holdings b) + holdings a) inst" using l(3) by (simp add: ac_simps)
  then have vs: "None \<notin> set vs" using holds_output_Some [OF _ i] assms(3) by simp
  note m = write_loop_moves [OF l(1,2) i w assms(3) [symmetric] refl vs]
  obtain pb d where e: "empty_notify_pipe K (tx_pipe a1) (deferred_drain_tx a1) = Some (pb, d)"
    using empty_notify_pipe_ok by blast
  show ?thesis using w m e i by (simp add: vlink_write_def Let_def)
qed

text \<open>An invalid queue number makes a buffer be used twice. \<open>enqueue_packet\<close> of the virtual link (and of the
  memory-mapped port) releases the packet when \<open>q_id\<close> is not a queue of the port: with assertions the call
  aborts, without them it goes on with queue 0, so that, if that queue has room, the packet is in the queue
  and at the same time a free buffer.\<close>

lemma enqueue_twice:
  assumes "port_ok a" and "holds K c (add_mset (Some p) M) inst" and "num_of_queues a \<le> q_id"
    and "up a" and "forward_packets a" and "packet p inst = Some x" and "MIN_PKT_LEN \<le> ucast (get_buffer_length x)"
  shows "if NDEBUG K then
      length (contents (output_queues a ! 0)) < length (elements (output_queues a ! 0)) - 1 \<longrightarrow>
      (\<exists>a' inst' H. enqueue_packet K p q_id a inst = Some (a', inst') \<and>
        contents (output_queues a' ! 0) = contents (output_queues a ! 0) @ [Some p] \<and>
        clients_hold K c H inst' \<and> p \<notin> H)
    else enqueue_packet K p q_id a inst = None"
proof -
  obtain H inst1 where r: "release_buffer K p inst = Some inst1" "clients_hold K c H inst1" "p \<notin> H"
  proof (rule holdsE [OF assms(2)])
    fix p' H
    assume h: "Some p = Some p'" "p' \<notin> H" "clients_hold K c (insert p' H) inst"
    show thesis by (rule pool.release_one [OF h(3,2)]) (use that h in auto)
  qed
  have i: "0 < length (output_queues a)" using assms(1) by (simp add: port_ok_def IO_IFACE_NUM_QUEUES_def)
  show ?thesis
  proof (cases "NDEBUG K")
    case False
    then show ?thesis
      using assms r(1) by (simp add: enqueue_packet_def enqueue_checked_def get_num_of_queues_def c_assert_def Let_def)
  next
    case True
    have c: "enqueue_checked K p q_id a inst = Some (0, inst1)"
      using assms(3) r(1) True by (simp add: enqueue_checked_def get_num_of_queues_def c_assert_def)
    have "\<exists>a'. enqueue_packet K p q_id a inst = Some (a', inst1) \<and>
        contents (output_queues a' ! 0) = contents (output_queues a ! 0) @ [Some p]"
      if room: "length (contents (output_queues a ! 0)) < length (elements (output_queues a ! 0)) - 1"
    proof -
      obtain q where "non_blocking_write (Some p) (output_queues a ! 0) = Some (ROFL_SUCCESS, q)"
        "contents q = contents (output_queues a ! 0) @ [Some p]"
        using ring_fifo.wr_room [OF port_ok_nth [OF assms(1) i] room] by blast
      then show ?thesis using assms c i by (simp add: enqueue_packet_def Let_def)
    qed
    then show ?thesis using True r(2,3) by auto
  qed
qed

lemma NDEBUG_std: "NDEBUG std_rofl"
  by (simp add: std_rofl_def)

lemma packet_update:
  "update_packet p f inst = Some inst' \<Longrightarrow> \<exists>x y. packet p inst = Some x \<and> f x = Some y \<and> packet p inst' = Some y"
  by (auto simp: update_packet_def packet_def bind_Some_iff)

text \<open>Witnesses: the two ends of a new link, with one packet being processed.\<close>

definition up_port :: ioport where
  "up_port = \<lparr>num_of_queues = 8, output_queues = [], input_queue = ring4, of_port_num = 1, platform_port_state = True,
     up = True, forward_packets = True, no_flood = False, drop_received = False, of_generate_packet_in = True,
     advertised = 0, port_state = 0, rx_packets = 0, rx_bytes = 0, tx_packets = 0, tx_bytes = 0, tx_dropped = 0,
     queues_stats = replicate 8 \<lparr>q_tx_packets = 0, q_tx_bytes = 0, q_overrun = 0\<rparr>, rx_pipe = 0, tx_pipe = 0,
     deferred_drain_rx = 0, deferred_drain_tx = 0\<rparr>"

lemma new_link:
  obtains a bp p bp' where "ioport_new up_port 8 = Inr a" "bufferpool_new dp0 4 = Some (Inr bp)"
    "get_buffer K (Some bp) = Some (Some p, Some bp')" "link K 4 [p] a a (Some bp')" "port_ok a" "num_of_queues a = 8"
    "up a" "forward_packets a" "contents (output_queues a ! 0) = []"
    "holds K 4 {#Some p#} (Some bp')" "length (elements (output_queues a ! 0)) = 2048"
proof -
  obtain a where a: "ioport_new up_port 8 = Inr a" "holdings a = {#}" "port_ok a" "num_of_queues a = 8" "up a" "forward_packets a"
    "contents (output_queues a ! 0) = []" "length (elements (output_queues a ! 0)) = 2048"
    by (rule ioport_new_ok [of up_port 8]) (simp add: up_port_def IO_IFACE_NUM_QUEUES_def)
  obtain bp p bp' where b: "bufferpool_new dp0 4 = Some (Inr bp)" "get_buffer K (Some bp) = Some (Some p, Some bp')"
    "clients_hold K 4 {p} (Some bp')" by (rule some_pool)
  have "holds K 4 {#Some p#} (Some bp')" using b(3) by (auto simp: holds_def intro!: exI [of _ "{p}"])
  then show thesis using that a b by (simp add: link_def)
qed

theorem vlink_conserves_witness:
  "\<forall>dp0. \<exists>a bp p bp' a' inst' a'' inst''. ioport_new up_port 8 = Inr a \<and> bufferpool_new dp0 4 = Some (Inr bp) \<and>
     get_buffer std_rofl (Some bp) = Some (Some p, Some bp') \<and>
     enqueue_packet std_rofl p 0 a (Some bp') = Some (a', inst') \<and>
     drain_queues std_rofl a' inst' = Some (a'', inst'') \<and> holdings a'' = {#}"
proof
  fix dp0
  obtain a bp p bp' where n: "ioport_new up_port 8 = Inr a" "bufferpool_new dp0 4 = Some (Inr bp)"
    "get_buffer std_rofl (Some bp) = Some (Some p, Some bp')" "link std_rofl 4 [p] a a (Some bp')" "port_ok a" "num_of_queues a = 8"
    by (rule new_link [of dp0 std_rofl])
  note c = vlink_conserves [OF n(4), of 0, THEN conjunct1]
  have "0 < num_of_queues a" using n(6) by simp
  then obtain a' inst' where e: "enqueue_packet std_rofl p 0 a (Some bp') = Some (a', inst')" "link std_rofl 4 [] a' a inst'"
    using c NDEBUG_std by auto
  obtain a'' inst'' where "drain_queues std_rofl a' inst' = Some (a'', inst'')" "holdings a'' = {#}"
    using vlink_conserves [OF e(2)] by blast
  then show "\<exists>a bp p bp' a' inst' a'' inst''. ioport_new up_port 8 = Inr a \<and> bufferpool_new dp0 4 = Some (Inr bp) \<and>
     get_buffer std_rofl (Some bp) = Some (Some p, Some bp') \<and>
     enqueue_packet std_rofl p 0 a (Some bp') = Some (a', inst') \<and>
     drain_queues std_rofl a' inst' = Some (a'', inst'') \<and> holdings a'' = {#}"
    using n e(1) by blast
qed

end
