(* ===== verification/Packet_Output.thy ===== *)
theory Packet_Output
  imports Ports Packet_Meta
begin

text \<open>
  \<open>pipeline-imp/packet_inline.h\<close>: how the pipeline sends a packet to one port, back to the port it came
  from, or to all ports, each getting a copy.

  \<open>enqueue_packet\<close> is a virtual method of \<open>ioport\<close>: the definitions take it as an argument \<open>enq\<close>, the
  locale \<open>packet_port\<close> says what they rely on, and the virtual link (and with the same code the memory-mapped
  port) provides it. The ports of the switch are the list of its \<open>logical_ports[i].port\<close>, \<open>None\<close> where that is
  \<open>NULL\<close>; its length is \<open>LOGICAL_SWITCH_MAX_LOG_PORTS\<close>.
\<close>

section \<open>Output\<close>

type_synonym enqueue = "nat \<Rightarrow> u32 \<Rightarrow> ioport \<Rightarrow> bufferpool option \<Rightarrow> (ioport \<times> bufferpool option) option"

text \<open>Where a packet goes: a port of the switch or one of the meta ports.\<close>

datatype output_port = Port nat | Flood_meta_port | All_meta_port | In_port_meta_port

definition output_single_packet ::
  "enqueue \<Rightarrow> rofl \<Rightarrow> nat \<Rightarrow> ioport option \<Rightarrow> bufferpool option \<Rightarrow> (ioport option \<times> bufferpool option) option" where
  "output_single_packet enq K p port inst =
     (case port of
        Some a \<Rightarrow>
          if platform_port_state a \<and> up a \<and> forward_packets a then do {
            pack \<leftarrow> packet p inst;
            (a, inst) \<leftarrow> enq p (output_queue pack) a inst;
            Some (Some a, inst) }
          else do { inst \<leftarrow> release_buffer K p inst; Some (port, inst) }
      | None \<Rightarrow> do { inst \<leftarrow> release_buffer K p inst; Some (port, inst) })"

definition platform_packet_replicate ::
  "rofl \<Rightarrow> nat \<Rightarrow> bufferpool option \<Rightarrow> (nat option \<times> bufferpool option) option" where
  "platform_packet_replicate K p inst = do {
     (r, inst) \<leftarrow> Bufferpool.get_buffer K inst;
     case r of
       None \<Rightarrow> Some (None, inst)
     | Some q \<Rightarrow> do {
         bp \<leftarrow> inst;
         pkt \<leftarrow> heap bp p;
         copy \<leftarrow> heap bp q;
         x \<leftarrow> clone_pkt_contents K (platform_state pkt) (platform_state copy);
         Some (Some q, Some (bp\<lparr>heap := (heap bp)(q := Some (copy\<lparr>write_actions := write_actions pkt,
           is_replica := True, pkt_sw := pkt_sw pkt, platform_state := x\<rparr>))\<rparr>)) } }"

text \<open>The loop over the ports: \<open>n\<close> left, \<open>i\<close> the next one. The replica is dereferenced without a check.\<close>

definition skips :: "datapacketx86 \<Rightarrow> nat \<Rightarrow> ioport option \<Rightarrow> bool" where
  "skips pack i port \<longleftrightarrow> of_nat i = port_in (clas_state pack) \<or> (case port of None \<Rightarrow> True | Some a \<Rightarrow> no_flood a)"

primrec flood_loop ::
  "enqueue \<Rightarrow> rofl \<Rightarrow> nat \<Rightarrow> nat \<Rightarrow> nat \<Rightarrow> ioport option list \<Rightarrow> bufferpool option \<Rightarrow>
   (ioport option list \<times> bufferpool option) option" where
  "flood_loop enq K p 0 i ports inst = Some (ports, inst)"
| "flood_loop enq K p (Suc n) i ports inst = do {
     pack \<leftarrow> packet p inst;
     if skips pack i (ports ! i) then flood_loop enq K p n (i + 1) ports inst
     else do {
       (r, inst) \<leftarrow> platform_packet_replicate K p inst;
       replica \<leftarrow> r;
       (port, inst) \<leftarrow> output_single_packet enq K replica (ports ! i) inst;
       flood_loop enq K p n (i + 1) (ports[i := port]) inst } }"

text \<open>\<open>output_port\<close> is \<open>None\<close> for \<open>NULL\<close>. A \<open>Port\<close> that is no port of the switch is no pointer
  a caller can have.\<close>

definition platform_packet_output ::
  "enqueue \<Rightarrow> rofl \<Rightarrow> nat \<Rightarrow> output_port option \<Rightarrow> ioport option list \<Rightarrow> bufferpool option \<Rightarrow>
   (ioport option list \<times> bufferpool option) option" where
  "platform_packet_output enq K p output_port ports inst =
     (case output_port of
        None \<Rightarrow> do { c_assert K False; Some (ports, inst) }
      | Some to \<Rightarrow> do {
          inst \<leftarrow> update_packet p (calculate_checksums_in_software K) inst;
          bp \<leftarrow> inst;
          pkt \<leftarrow> heap bp p;
          case to of
            Port i \<Rightarrow>
              if i < length ports \<and> ports ! i \<noteq> None then do {
                (port, inst) \<leftarrow> output_single_packet enq K p (ports ! i) inst;
                Some (ports[i := port], inst) }
              else None
          | In_port_meta_port \<Rightarrow> do {
              pkt_sw pkt;
              let i = unat (port_in (clas_state (platform_state pkt)));
              if i \<ge> length ports then do { c_assert K False; Some (ports, inst) }
              else if ports ! i = None then do { c_assert K False; Some (ports, inst) }
              else do {
                (port, inst) \<leftarrow> output_single_packet enq K p (ports ! i) inst;
                Some (ports[i := port], inst) } }
          | _ \<Rightarrow>
              if pkt_sw pkt = None then do { inst \<leftarrow> release_buffer K p inst; Some (ports, inst) }
              else do {
                (ports, inst) \<leftarrow> flood_loop enq K p (length ports) 0 ports inst;
                inst \<leftarrow> release_buffer K p inst;
                Some (ports, inst) } })"

section \<open>What stays as it is\<close>

lemma release_packets: "release_buffer K p inst = Some inst' \<Longrightarrow> \<forall>r. packet r inst' = packet r inst"
  by (auto simp: release_buffer_def release_buffer_checked_def packet_def get_instance_def bind_Some_iff Let_def
      split: if_splits prod.splits)

lemma enqueue_packets: "enqueue_packet K p q_id a inst = Some (a', inst') \<Longrightarrow> \<forall>r. packet r inst' = packet r inst"
  by (auto simp: enqueue_packet_def enqueue_checked_def bind_Some_iff Let_def c_assert_def dest!: release_packets
      split: if_splits prod.splits)

lemma get_checked_heap: "get_buffer_checked K j bp = Some bp' \<Longrightarrow> heap bp' = heap bp"
  by (auto simp: get_buffer_checked_def bind_Some_iff split: if_splits)

lemma get_packets:
  assumes "Bufferpool.get_buffer K inst = Some (v, inst')"
  shows "\<forall>r. packet r inst' = packet r inst"
proof -
  obtain bp where bp: "inst = Some bp" using assms by (cases inst) (auto simp: Bufferpool.get_buffer_def get_instance_def)
  obtain tmp q where q: "non_blocking_read (cq bp) = Some (tmp, q)"
    using assms bp by (auto simp: Bufferpool.get_buffer_def get_instance_def bind_Some_iff)
  show ?thesis
  proof (cases tmp)
    case None
    then show ?thesis using assms bp q by (auto simp: Bufferpool.get_buffer_def get_instance_def packet_def)
  next
    case (Some j)
    then obtain bp' where "inst' = Some bp'" "get_buffer_checked K j (bp\<lparr>cq := q\<rparr>) = Some bp'"
      using assms bp q by (auto simp: Bufferpool.get_buffer_def get_instance_def bind_Some_iff Let_def split: if_splits)
    then show ?thesis using bp get_checked_heap by (fastforce simp: packet_def)
  qed
qed

section \<open>Copies\<close>

text \<open>Every buffer of the pool has its 9320 bytes.\<close>

definition buffers_ok :: "bufferpool option \<Rightarrow> bool" where
  "buffers_ok inst \<longleftrightarrow> (\<forall>r x. packet r inst = Some x \<longrightarrow> length (user_space_buffer x) = 9320)"

lemma clone_sendable:
  assumes src: "wf_pkt src" and dst: "length (user_space_buffer dst) = 9320"
  shows "\<exists>d. clone_pkt_contents K src dst = Some d \<and> output_queue d = output_queue src \<and>
    length (user_space_buffer d) = 9320 \<and> (length (frame src) \<le> 9000 \<longrightarrow> get_buffer_length d = get_buffer_length src)"
proof (cases "length (frame src) \<le> 9000")
  case False
  then have "of_nat FRAME_SIZE_BYTES < get_buffer_length src"
    using length_frame [OF src] by (simp add: get_buffer_length_def guards word_less_nat_alt)
  with False dst show ?thesis by (simp add: clone_pkt_contents_def init_pkt_def)
next
  case True
  let ?n = "len (clas_state src)" and ?a = "base (clas_state src)"
  have n: "unat ?n \<le> 9000" "\<not> of_nat FRAME_SIZE_BYTES < ?n" "?a + unat ?n \<le> length (pkt_mem src)"
    using True length_frame [OF src] src
    by (cases "buffering_status src"; simp add: guards word_less_nat_alt wf_pkt_def object_mem_def)+
  let ?d0 = "use_user_space dst"
  obtain m where m: "length m = 9320" "debug_clear K ?d0 = Some (?d0\<lparr>user_space_buffer := m\<rparr>)"
    using debug_clear_ok [of ?d0 K] dst by (auto simp: use_user_space_def)
  obtain b where b: "platform_memcpy m 256 (pkt_mem src) ?a (unat ?n) = Some b"
    using memcpy_defined [of 256 "unat ?n" m ?a "pkt_mem src"] n m(1) by auto
  note copied = memcpy_Some [OF b]
  show ?thesis
    using n m b copied
    by (simp add: clone_pkt_contents_def init_pkt_def init_internal_buffer_location_defaults_def use_user_space_def
      Datapacket.get_buffer_def get_buffer_length_def dst guards)
qed

lemma holds_size: "holds K c M inst \<Longrightarrow> size M \<le> c - 1"
proof -
  assume "holds K c M inst"
  then obtain H where "clients_hold K c H inst" "size M = card H"
    unfolding holds_def by (elim exE conjE) simp
  then have "H \<subseteq> {..<c - 1}" by (auto simp: clients_hold_def pool_inv_def split: option.splits)
  then show ?thesis using \<open>size M = card H\<close> card_mono [of "{..<c - 1}" H] by simp
qed

lemma holds_get:
  assumes "holds K c M inst"
  shows "if size M < c - 1 then \<exists>q inst'. Bufferpool.get_buffer K inst = Some (Some q, inst') \<and>
      holds K c (add_mset (Some q) M) inst' \<and> Some q \<notin># M
    else Bufferpool.get_buffer K inst = Some (None, inst)"
proof -
  obtain H where h: "finite H" "clients_hold K c H inst" "M = image_mset Some (mset_set H)"
    using assms by (auto simp: holds_def)
  have s: "size M = card H" "H \<subseteq> {..<c - 1}"
    using h by (auto simp: clients_hold_def pool_inv_def split: option.splits)
  show ?thesis
  proof (rule pool.get_cases [OF h(2)])
    assume "H = {..<c - 1}" "Bufferpool.get_buffer K inst = Some (None, inst)"
    then show ?thesis using s by simp
  next
    fix q inst'
    assume g: "Bufferpool.get_buffer K inst = Some (Some q, inst')" "q \<in> {..<c - 1}" "q \<notin> H" "clients_hold K c (insert q H) inst'"
    then have "card H < card {..<c - 1}" using s(2) by (intro psubset_card_mono) auto
    moreover have "holds K c (add_mset (Some q) M) inst'"
      using g(3,4) h by (auto simp: holds_def intro!: exI [of _ "insert q H"])
    moreover have "Some q \<notin># M" using g(3) h by auto
    ultimately show ?thesis using g(1) s(1) by auto
  qed
qed

lemma holds_heap:
  "holds K c M (Some bp) \<Longrightarrow> heap bp q = Some dp \<Longrightarrow> id dp' = id dp \<Longrightarrow>
   holds K c M (Some (bp\<lparr>heap := (heap bp)(q := Some dp')\<rparr>))"
  unfolding holds_def clients_hold_def pool_inv_def by (elim exE conjE) (auto intro!: exI)

text \<open>A copy: a buffer of its own, all others as they are.\<close>

lemma replicate_ok:
  assumes "holds K c (add_mset (Some p) M) inst" "size M + 1 < c - 1" "buffers_ok inst" "packet p inst = Some x" "wf_pkt x"
  obtains q d inst' where "platform_packet_replicate K p inst = Some (Some q, inst')"
    "holds K c (add_mset (Some q) (add_mset (Some p) M)) inst'" "q \<noteq> p" "packet q inst' = Some d"
    "\<And>r. r \<noteq> q \<Longrightarrow> packet r inst' = packet r inst" "buffers_ok inst'" "output_queue d = output_queue x"
    "length (frame x) \<le> 9000 \<longrightarrow> get_buffer_length d = get_buffer_length x"
proof -
  obtain q inst1 where g: "Bufferpool.get_buffer K inst = Some (Some q, inst1)"
    "holds K c (add_mset (Some q) (add_mset (Some p) M)) inst1" "Some q \<notin># add_mset (Some p) M"
    using holds_get [OF assms(1)] assms(2) by auto
  have same: "packet r inst1 = packet r inst" for r using get_packets [OF g(1)] by simp
  obtain y where y: "packet q inst1 = Some y" by (rule holds_packet [OF g(2)])
  have y9: "length (user_space_buffer y) = 9320" using assms(3) y unfolding same buffers_ok_def by blast
  obtain d where d: "clone_pkt_contents K x y = Some d" "output_queue d = output_queue x"
    "length (user_space_buffer d) = 9320" "length (frame x) \<le> 9000 \<longrightarrow> get_buffer_length d = get_buffer_length x"
    using clone_sendable [OF assms(5) y9] by blast
  obtain bp where bp: "inst1 = Some bp" using y by (cases inst1) (auto simp: packet_def)
  obtain pkt where pkt: "heap bp p = Some pkt" "platform_state pkt = x"
    using assms(4) unfolding same [symmetric] bp by (auto simp: packet_def bind_Some_iff)
  obtain copy where copy: "heap bp q = Some copy" "platform_state copy = y"
    using y unfolding bp by (auto simp: packet_def bind_Some_iff)
  have q: "q \<noteq> p" using g(3) by auto
  let ?c = "copy\<lparr>write_actions := write_actions pkt, is_replica := True, pkt_sw := pkt_sw pkt, platform_state := d\<rparr>"
  let ?i = "Some (bp\<lparr>heap := (heap bp)(q := Some ?c)\<rparr>)"
  have r: "packet r ?i = (if r = q then Some d else packet r inst)" for r
    using same [of r, symmetric] bp by (simp add: packet_def)
  show thesis
  proof (rule that [of q ?i d])
    show "platform_packet_replicate K p inst = Some (Some q, ?i)"
      using g(1) bp pkt copy d(1) by (simp add: platform_packet_replicate_def)
    show "holds K c (add_mset (Some q) (add_mset (Some p) M)) ?i"
      by (rule holds_heap [OF _ copy(1)]) (use g(2) bp in simp_all)
    show "buffers_ok ?i" using assms(3) d(3) unfolding buffers_ok_def r by auto
  qed (use q d r in auto)
qed

section \<open>The interface of a port\<close>

text \<open>What the queue number and the length of a packet must be for \<open>enqueue_packet\<close>.\<close>

definition sendable :: "rofl \<Rightarrow> datapacketx86 \<Rightarrow> ioport \<Rightarrow> bool" where
  "sendable K x a \<longleftrightarrow> output_queue x < num_of_queues a \<and> (NDEBUG K \<or> MIN_PKT_LEN \<le> ucast (get_buffer_length x))"

text \<open>The packets in the queues of all ports of a switch.\<close>

definition ports_hold :: "ioport option list \<Rightarrow> nat option multiset" where
  "ports_hold ports = sum_list (map (\<lambda>port. case port of None \<Rightarrow> {#} | Some a \<Rightarrow> holdings a) ports)"

definition switch_ok :: "rofl \<Rightarrow> nat \<Rightarrow> nat option multiset \<Rightarrow> ioport option list \<Rightarrow> bufferpool option \<Rightarrow> bool" where
  "switch_ok K c M ports inst \<longleftrightarrow> (\<forall>a. Some a \<in> set ports \<longrightarrow> port_ok a) \<and> buffers_ok inst \<and>
     holds K c (M + ports_hold ports) inst"

lemma ports_hold_update:
  "i < length ports \<Longrightarrow> ports_hold (ports[i := port]) + (case ports ! i of None \<Rightarrow> {#} | Some a \<Rightarrow> holdings a) =
   ports_hold ports + (case port of None \<Rightarrow> {#} | Some a \<Rightarrow> holdings a)"
  unfolding ports_hold_def by (rule sum_list_update_mset)

locale packet_port =
  fixes K :: rofl and c :: nat and enq :: enqueue
  assumes enqueued: "port_ok a \<Longrightarrow> holds K c (add_mset (Some p) (M + holdings a)) inst \<Longrightarrow> packet p inst = Some x \<Longrightarrow>
      sendable K x a \<Longrightarrow>
      \<exists>a' inst'. enq p (output_queue x) a inst = Some (a', inst') \<and> port_ok a' \<and> holds K c (M + holdings a') inst' \<and>
        size (holdings a') \<le> Suc (size (holdings a)) \<and> (\<forall>r. packet r inst' = packet r inst)"
begin

lemma single_ok:
  assumes ok: "switch_ok K c (add_mset (Some p) M) ports inst" and i: "i < length ports" and x: "packet p inst = Some x"
    and s: "\<And>a. ports ! i = Some a \<Longrightarrow> sendable K x a"
  obtains port inst' where "output_single_packet enq K p (ports ! i) inst = Some (port, inst')"
    "switch_ok K c M (ports[i := port]) inst'" "\<And>r. packet r inst' = packet r inst"
    "size (ports_hold (ports[i := port])) \<le> Suc (size (ports_hold ports))"
proof -
  have h: "holds K c (add_mset (Some p) (M + ports_hold ports)) inst" using ok by (simp add: switch_ok_def)
  obtain inst1 where r: "release_buffer K p inst = Some inst1" "holds K c (M + ports_hold ports) inst1"
    by (rule holds_release [OF h])
  note sent = that
  have released: thesis if o: "output_single_packet enq K p (ports ! i) inst = Some (ports ! i, inst1)"
    by (rule sent [OF o]) (use r ok release_packets [OF r(1)] in \<open>auto simp: switch_ok_def buffers_ok_def\<close>)
  show thesis
  proof (cases "\<exists>a. ports ! i = Some a \<and> platform_port_state a \<and> up a \<and> forward_packets a")
    case False
    then have "output_single_packet enq K p (ports ! i) inst = Some (ports ! i, inst1)"
      using r(1) by (auto simp: output_single_packet_def split: option.splits)
    then show thesis by (rule released)
  next
    case True
    then obtain a where a: "ports ! i = Some a" "platform_port_state a" "up a" "forward_packets a" by blast
    have "Some a \<in> set ports" using a(1) i nth_mem by metis
    then have aok: "port_ok a" using ok by (simp add: switch_ok_def)
    define R where "R = ports_hold (ports[i := None])"
    have R: "ports_hold (ports[i := Some b]) = R + holdings b" for b
      using ports_hold_update [of i "ports[i := None]" "Some b"] i by (simp add: R_def)
    have "ports_hold ports = R + holdings a" using R [of a] a(1) i by (metis list_update_id)
    then have "holds K c (add_mset (Some p) ((M + R) + holdings a)) inst" using h by (simp add: ac_simps)
    from enqueued [OF aok this x s [OF a(1)]]
    obtain a' inst' where e: "enq p (output_queue x) a inst = Some (a', inst')" "port_ok a'"
      "holds K c ((M + R) + holdings a') inst'" "size (holdings a') \<le> Suc (size (holdings a))"
      "\<forall>r. packet r inst' = packet r inst" by blast
    show thesis
    proof (rule sent [of "Some a'" inst'])
      show "output_single_packet enq K p (ports ! i) inst = Some (Some a', inst')"
        using a x e(1) by (simp add: output_single_packet_def)
      show "switch_ok K c M (ports[i := Some a']) inst'"
        using ok e R [of a'] set_update_subset_insert [of ports i "Some a'"]
        by (auto simp: switch_ok_def buffers_ok_def ac_simps)
      show "size (ports_hold (ports[i := Some a'])) \<le> Suc (size (ports_hold ports))"
        using e(4) R [of a'] \<open>ports_hold ports = R + holdings a\<close> by simp
    qed (use e(5) in simp)
  qed
qed

lemma flood_ok:
  assumes "wf_pkt x" and "NDEBUG K \<or> length (frame x) \<le> 9000 \<and> MIN_PKT_LEN \<le> ucast (get_buffer_length x)"
  shows "switch_ok K c (add_mset (Some p) M) ports inst \<Longrightarrow> packet p inst = Some x \<Longrightarrow> i + n = length ports \<Longrightarrow>
    (\<forall>j a. i \<le> j \<and> j < length ports \<and> ports ! j = Some a \<longrightarrow> output_queue x < num_of_queues a) \<Longrightarrow>
    size M + size (ports_hold ports) + length (filter (\<lambda>j. \<not> skips x j (ports ! j)) [i..<length ports]) < c - 1 \<Longrightarrow>
    \<exists>ports' inst'. flood_loop enq K p n i ports inst = Some (ports', inst') \<and> length ports' = length ports \<and>
      switch_ok K c (add_mset (Some p) M) ports' inst'"
proof (induction n arbitrary: i ports inst)
  case 0
  then show ?case by auto
next
  case (Suc n)
  let ?T = "\<lambda>i. length (filter (\<lambda>j. \<not> skips x j (ports ! j)) [i..<length ports])"
  have i: "i < length ports" using Suc.prems(3) by simp
  then have T: "?T i = (if skips x i (ports ! i) then 0 else 1) + ?T (Suc i)" by (simp add: upt_conv_Cons)
  have later: "\<forall>j a. Suc i \<le> j \<and> j < length ports \<and> ports ! j = Some a \<longrightarrow> output_queue x < num_of_queues a"
    using Suc.prems(4) Suc_leD by blast
  show ?case
  proof (cases "skips x i (ports ! i)")
    case True
    then show ?thesis using later Suc.IH [of ports inst "Suc i"] Suc.prems T by simp
  next
    case False
    have room: "size (M + ports_hold ports) + 1 < c - 1" "size M + size (ports_hold ports) + Suc (?T (Suc i)) < c - 1"
      using Suc.prems(5) T False by simp_all
    have h: "holds K c (add_mset (Some p) (M + ports_hold ports)) inst" "buffers_ok inst"
      using Suc.prems(1) by (simp_all add: switch_ok_def)
    obtain q d inst1 where r: "platform_packet_replicate K p inst = Some (Some q, inst1)"
      "holds K c (add_mset (Some q) (add_mset (Some p) (M + ports_hold ports))) inst1" "q \<noteq> p" "packet q inst1 = Some d"
      "\<And>r. r \<noteq> q \<Longrightarrow> packet r inst1 = packet r inst" "buffers_ok inst1" "output_queue d = output_queue x"
      "length (frame x) \<le> 9000 \<longrightarrow> get_buffer_length d = get_buffer_length x"
      using replicate_ok [OF h(1) room(1) h(2) Suc.prems(2) assms(1)] by metis
    have ok: "switch_ok K c (add_mset (Some q) (add_mset (Some p) M)) ports inst1"
      using Suc.prems(1) r(2,6) by (simp add: switch_ok_def)
    have s: "sendable K d a" if "ports ! i = Some a" for a
      using Suc.prems(4) that i r(7,8) assms(2) by (auto simp: sendable_def)
    obtain port inst2 where o: "output_single_packet enq K q (ports ! i) inst1 = Some (port, inst2)"
      "switch_ok K c (add_mset (Some p) M) (ports[i := port]) inst2" "\<And>r. packet r inst2 = packet r inst1"
      "size (ports_hold (ports[i := port])) \<le> Suc (size (ports_hold ports))"
      using single_ok [OF ok i r(4) s] by metis
    have "filter (\<lambda>j. \<not> skips x j (ports[i := port] ! j)) [Suc i..<length ports] =
        filter (\<lambda>j. \<not> skips x j (ports ! j)) [Suc i..<length ports]" by (rule filter_cong) auto
    then have "\<exists>ports' inst'. flood_loop enq K p n (Suc i) (ports[i := port]) inst2 = Some (ports', inst') \<and>
        length ports' = length (ports[i := port]) \<and> switch_ok K c (add_mset (Some p) M) ports' inst'"
      using Suc.prems(2,3) later o(3,4) r(3,5) room(2) by (intro Suc.IH [OF o(2)]) auto
    then show ?thesis using Suc.prems(2) False r(1) o(1) by simp
  qed
qed

end

interpretation vlink_port: packet_port K c "enqueue_packet K" for K c
proof
  fix a p M inst x
  assume h: "port_ok a" "holds K c (add_mset (Some p) (M + holdings a)) inst" "packet p inst = Some x" "sendable K x a"
  have q: "output_queue x < num_of_queues a" "NDEBUG K \<or> (\<forall>x. packet p inst = Some x \<longrightarrow> MIN_PKT_LEN \<le> ucast (get_buffer_length x))"
    using h(3,4) by (auto simp: sendable_def)
  from enqueue_ok [OF h(1,2) q] enqueue_packets
  show "\<exists>a' inst'. enqueue_packet K p (output_queue x) a inst = Some (a', inst') \<and> port_ok a' \<and> holds K c (M + holdings a') inst' \<and>
        size (holdings a') \<le> Suc (size (holdings a)) \<and> (\<forall>r. packet r inst' = packet r inst)"
    by blast
qed

section \<open>What the pipeline sends\<close>

definition targets :: "datapacketx86 \<Rightarrow> ioport option list \<Rightarrow> nat list" where
  "targets x ports = filter (\<lambda>j. \<not> skips x j (ports ! j)) [0..<length ports]"

definition copies_fit :: "rofl \<Rightarrow> datapacketx86 \<Rightarrow> ioport option list \<Rightarrow> bool" where
  "copies_fit K x ports \<longleftrightarrow> wf_pkt x \<and> (\<forall>a. Some a \<in> set ports \<longrightarrow> output_queue x < num_of_queues a) \<and>
     (NDEBUG K \<or> length (frame x) \<le> 9000 \<and> MIN_PKT_LEN \<le> ucast (get_buffer_length x))"

definition switch_of :: "nat \<Rightarrow> bufferpool option \<Rightarrow> nat option" where
  "switch_of p inst = do { bp \<leftarrow> inst; pkt \<leftarrow> heap bp p; pkt_sw pkt }"

lemma update_pkt:
  assumes "holds K c (add_mset (Some p) M) inst" and "buffers_ok inst" and "packet p inst = Some x" and "f x = Some y"
    and "length (user_space_buffer y) = 9320"
  obtains bp pkt where "update_packet p f inst = Some (Some bp)" "heap bp p = Some pkt" "platform_state pkt = y"
    "holds K c (add_mset (Some p) M) (Some bp)" "buffers_ok (Some bp)" "packet p (Some bp) = Some y"
    "switch_of p inst = pkt_sw pkt"
proof -
  obtain bp0 dp where bp0: "inst = Some bp0" "heap bp0 p = Some dp" "platform_state dp = x"
    using assms(3) by (auto simp: packet_def bind_Some_iff)
  let ?bp = "bp0\<lparr>heap := (heap bp0)(p := Some (dp\<lparr>platform_state := y\<rparr>))\<rparr>"
  have r: "packet r (Some ?bp) = (if r = p then Some y else packet r inst)" for r using bp0(1) by (simp add: packet_def)
  show thesis
  proof (rule that [of ?bp "dp\<lparr>platform_state := y\<rparr>"])
    show "update_packet p f inst = Some (Some ?bp)" using bp0 assms(4) by (simp add: update_packet_def)
    show "holds K c (add_mset (Some p) M) (Some ?bp)"
      by (rule holds_heap [OF _ bp0(2)]) (use assms(1) bp0(1) in simp_all)
    show "buffers_ok (Some ?bp)" using assms(2,5) unfolding buffers_ok_def r by auto
  qed (use r bp0 in \<open>simp_all add: switch_of_def\<close>)
qed

text \<open>C13: Sending a packet loses none and uses none twice. Let the processed packets (\<open>p\<close> and those of
  \<open>M\<close>) and the queues of the ports hold every buffer that is not free, each once, let the checksums of
  \<open>p\<close> be computable, and let its queue exist at every port (and no runt or frame over 9000 bytes be sent
  when assertions are on). Then the output returns and leads to such a state without \<open>p\<close>: to one port, back to
  the port it came from when there is one, and, as long as there are more free buffers than ports to send to, to
  all ports, or to none if the packet has no switch.\<close>

theorem output_conserves:
  assumes ok: "switch_ok K c (add_mset (Some p) M) ports inst" and x: "packet p inst = Some x"
    and y: "calculate_checksums_in_software K x = Some y" "length (user_space_buffer y) = 9320" "copies_fit K y ports"
  shows "(\<forall>i<length ports. ports ! i \<noteq> None \<longrightarrow>
      (\<exists>ports' inst'. platform_packet_output (enqueue_packet K) K p (Some (Port i)) ports inst = Some (ports', inst') \<and>
         switch_ok K c M ports' inst')) \<and>
    (let i = unat (port_in (clas_state y)) in
       i < length ports \<and> ports ! i \<noteq> None \<and> switch_of p inst \<noteq> None \<longrightarrow>
      (\<exists>ports' inst'. platform_packet_output (enqueue_packet K) K p (Some In_port_meta_port) ports inst = Some (ports', inst') \<and>
         switch_ok K c M ports' inst')) \<and>
    (size M + size (ports_hold ports) + length (targets y ports) < c - 1 \<longrightarrow>
      (\<forall>to\<in>{Flood_meta_port, All_meta_port}.
        \<exists>ports' inst'. platform_packet_output (enqueue_packet K) K p (Some to) ports inst = Some (ports', inst') \<and>
         switch_ok K c M ports' inst'))"
proof -
  have hp: "holds K c (add_mset (Some p) (M + ports_hold ports)) inst" and b: "buffers_ok inst"
    and pok: "\<forall>a. Some a \<in> set ports \<longrightarrow> port_ok a" using ok by (simp_all add: switch_ok_def)
  obtain bp pkt where u: "update_packet p (calculate_checksums_in_software K) inst = Some (Some bp)" "heap bp p = Some pkt"
    "platform_state pkt = y" "holds K c (add_mset (Some p) (M + ports_hold ports)) (Some bp)" "buffers_ok (Some bp)"
    "packet p (Some bp) = Some y"
    "switch_of p inst = pkt_sw pkt"
    by (rule update_pkt [where f = "calculate_checksums_in_software K", OF hp b x y(1,2)])
  have ok': "switch_ok K c (add_mset (Some p) M) ports (Some bp)" using pok u(4,5) by (simp add: switch_ok_def)
  have single: "\<exists>port inst'. output_single_packet (enqueue_packet K) K p (ports ! i) (Some bp) = Some (port, inst') \<and>
      switch_ok K c M (ports[i := port]) inst'" if i: "i < length ports" for i
  proof -
    have "sendable K y a" if "ports ! i = Some a" for a
    proof -
      have "Some a \<in> set ports" using that i nth_mem by metis
      then show ?thesis using y(3) by (auto simp: copies_fit_def sendable_def)
    qed
    then show ?thesis using vlink_port.single_ok [OF ok' i u(6)] by metis
  qed
  have released: "\<exists>inst'. release_buffer K p inst1 = Some inst' \<and> switch_ok K c M ports1 inst'"
    if "switch_ok K c (add_mset (Some p) M) ports1 inst1" for ports1 inst1
  proof -
    have h: "holds K c (add_mset (Some p) (M + ports_hold ports1)) inst1" using that by (simp add: switch_ok_def)
    obtain inst' where r: "release_buffer K p inst1 = Some inst'" "holds K c (M + ports_hold ports1) inst'"
      by (rule holds_release [OF h])
    then show ?thesis using that release_packets [OF r(1)] by (auto simp: switch_ok_def buffers_ok_def)
  qed
  have flood: "\<exists>ports' inst'. platform_packet_output (enqueue_packet K) K p (Some to) ports inst = Some (ports', inst') \<and>
      switch_ok K c M ports' inst'"
    if room: "size M + size (ports_hold ports) + length (targets y ports) < c - 1" and to: "to \<in> {Flood_meta_port, All_meta_port}" for to
  proof (cases "pkt_sw pkt")
    case None
    then show ?thesis using released [OF ok'] u(1,2) to by (auto simp: platform_packet_output_def)
  next
    case (Some sw)
    have q: "\<forall>j a. 0 \<le> j \<and> j < length ports \<and> ports ! j = Some a \<longrightarrow> output_queue y < num_of_queues a"
      using y(3) nth_mem by (metis copies_fit_def)
    have y': "wf_pkt y" "NDEBUG K \<or> length (frame y) \<le> 9000 \<and> MIN_PKT_LEN \<le> ucast (get_buffer_length y)"
      using y(3) by (simp_all add: copies_fit_def)
    obtain ports' inst1 where f: "flood_loop (enqueue_packet K) K p (length ports) 0 ports (Some bp) = Some (ports', inst1)"
      "switch_ok K c (add_mset (Some p) M) ports' inst1"
      using vlink_port.flood_ok [OF y' ok' u(6) _ q] room unfolding targets_def by auto
    then show ?thesis using released [OF f(2)] u(1,2) to Some by (auto simp: platform_packet_output_def)
  qed
  show ?thesis
    using single flood u(1,2,3,7) by (fastforce simp: platform_packet_output_def Let_def)
qed

lemma flood_none:
  "platform_packet_replicate K p inst = Some (None, inst') \<Longrightarrow> packet p inst = Some x \<Longrightarrow> i + n = length ports \<Longrightarrow>
   filter (\<lambda>j. \<not> skips x j (ports ! j)) [i..<length ports] \<noteq> [] \<Longrightarrow> flood_loop enq K p n i ports inst = None"
proof (induction n arbitrary: i)
  case 0
  then show ?case by simp
next
  case (Suc n)
  have "[i..<length ports] = i # [Suc i..<length ports]" using Suc.prems(3) by (simp add: upt_conv_Cons)
  then show ?case using Suc by (cases "skips x i (ports ! i)") simp_all
qed

text \<open>Flooding without a free buffer dereferences \<open>NULL\<close>. When all buffers are in use,
  \<open>platform_packet_replicate\<close> returns \<open>NULL\<close>, and the loop over the ports reads its \<open>platform_state\<close> at the
  first port the packet is to be sent to, whatever kind of ports these are.\<close>

lemma flood_exhausted:
  assumes ok: "switch_ok K c (add_mset (Some p) M) ports inst" and full: "size M + size (ports_hold ports) + 1 = c - 1"
    and x: "packet p inst = Some x" "calculate_checksums_in_software K x = Some y" "length (user_space_buffer y) = 9320"
    and t: "switch_of p inst \<noteq> None" "targets y ports \<noteq> []"
  shows "platform_packet_replicate K p inst = Some (None, inst) \<and>
    (\<forall>to\<in>{Flood_meta_port, All_meta_port}. platform_packet_output enq K p (Some to) ports inst = None)"
proof -
  have hp: "holds K c (add_mset (Some p) (M + ports_hold ports)) inst" and b: "buffers_ok inst"
    using ok by (simp_all add: switch_ok_def)
  obtain bp pkt where u: "update_packet p (calculate_checksums_in_software K) inst = Some (Some bp)" "heap bp p = Some pkt"
    "holds K c (add_mset (Some p) (M + ports_hold ports)) (Some bp)" "packet p (Some bp) = Some y"
    "switch_of p inst = pkt_sw pkt"
    by (rule update_pkt [where f = "calculate_checksums_in_software K", OF hp b x])
  have none: "platform_packet_replicate K p inst' = Some (None, inst')"
    if "holds K c (add_mset (Some p) (M + ports_hold ports)) inst'" for inst'
    using holds_get [OF that] full by (simp add: platform_packet_replicate_def)
  have "flood_loop enq K p (length ports) 0 ports (Some bp) = None"
    by (rule flood_none [OF none [OF u(3)] u(4)]) (use t(2) in \<open>simp_all add: targets_def\<close>)
  then show ?thesis using none [OF hp] u(1,2,5) t(1) by (auto simp: platform_packet_output_def)
qed

text \<open>Packets that are neither sent nor released. Without assertions, an output to the port a packet came from
  returns without doing anything when that port is no port of the switch, and so does an output to \<open>NULL\<close>: the
  buffer stays in use although no queue and no caller refers to it any more.\<close>

lemma output_leaks:
  assumes "NDEBUG K" and "switch_ok K c (add_mset (Some p) M) ports inst" and "packet p inst = Some x"
    and "calculate_checksums_in_software K x = Some y" "length (user_space_buffer y) = 9320" and "switch_of p inst \<noteq> None"
    and "let i = unat (port_in (clas_state y)) in i \<ge> length ports \<or> ports ! i = None"
  shows "\<forall>to\<in>{None, Some In_port_meta_port}. \<exists>inst'. platform_packet_output enq K p to ports inst = Some (ports, inst') \<and>
    switch_ok K c (add_mset (Some p) M) ports inst'"
proof -
  have hp: "holds K c (add_mset (Some p) (M + ports_hold ports)) inst" and b: "buffers_ok inst"
    using assms(2) by (simp_all add: switch_ok_def)
  obtain bp pkt where u: "update_packet p (calculate_checksums_in_software K) inst = Some (Some bp)" "heap bp p = Some pkt"
    "platform_state pkt = y" "holds K c (add_mset (Some p) (M + ports_hold ports)) (Some bp)" "buffers_ok (Some bp)"
    "switch_of p inst = pkt_sw pkt"
    by (rule update_pkt [where f = "calculate_checksums_in_software K", OF hp b assms(3-5)])
  have "switch_ok K c (add_mset (Some p) M) ports (Some bp)" using assms(2) u(4,5) by (simp add: switch_ok_def)
  then show ?thesis using assms u by (auto simp: platform_packet_output_def c_assert_def Let_def)
qed

section \<open>Witnesses\<close>

lemma add_buffers_state:
  "\<forall>r d. heap bp r = Some d \<longrightarrow> platform_state d = construct dp0 \<Longrightarrow> add_buffers dp0 n i bp = Some (Inr bp') \<Longrightarrow>
   heap bp' r = Some d \<Longrightarrow> platform_state d = construct dp0"
proof (induction n arbitrary: i bp)
  case 0
  then show ?case by simp
next
  case (Suc n)
  then obtain q where "add_buffers dp0 n (i + 1) (bp\<lparr>heap := (heap bp)(i := Some \<lparr>id = of_nat i, is_replica = False,
      pkt_sw = None, write_actions = 0, platform_state = construct dp0\<rparr>),
      pool := (pool bp)[i := \<lparr>status = BUFFERPOOL_SLOT_AVAILABLE, pkt = Some i\<rparr>], cq := q\<rparr>) = Some (Inr bp')"
    by (auto simp: bind_Some_iff Let_def split: if_splits)
  from Suc.IH [OF _ this Suc.prems(3)] Suc.prems(1) show ?case by simp
qed

text \<open>A pool of \<open>c\<close> slots in which the packet \<open>x\<close> is being processed, on a switch with one new port.\<close>

lemma some_switch:
  assumes "circular_queue_new cc = Inr (q :: nat circular_queue)" and "1 < unat cc" and "unat cc \<le> 2 ^ 32"
    and "length (user_space_buffer x) = 9320"
  obtains a p inst where "ioport_new up_port 8 = Inr a" "switch_ok K (unat cc) {#Some p#} [None, Some a] inst"
    "packet p inst = Some x" "switch_of p inst = Some 0" "ports_hold [None, Some a] = {#}" "num_of_queues a = 8"
    "\<not> no_flood a"
proof -
  obtain a where a: "ioport_new up_port 8 = Inr a" "holdings a = {#}" "port_ok a" "num_of_queues a = 8" "no_flood a = no_flood up_port"
    by (rule ioport_new_ok [of up_port 8]) (simp add: IO_IFACE_NUM_QUEUES_def)
  obtain bp where bp: "bufferpool_new x cc = Some (Inr bp)" "pool_inv K (unat cc) {} bp"
    using bufferpool_new_ok [OF assms(1,3)] by blast
  have "(0::nat) \<in> {..<unat cc - 1}" using assms(2) by simp
  then have "{} \<noteq> {..<unat cc - 1}" by blast
  moreover have c0: "clients_hold K (unat cc) {} (Some bp)" using bp(2) by (simp add: clients_hold_def)
  ultimately obtain p inst0 where g: "Bufferpool.get_buffer K (Some bp) = Some (Some p, inst0)" "clients_hold K (unat cc) {p} inst0"
    using pool.get_some [OF c0] by auto
  obtain bp0 where bp0: "inst0 = Some bp0" using g(2) by (cases inst0) (auto simp: clients_hold_def)
  have h: "holds K (unat cc) {#Some p#} (Some bp0)" using g(2) bp0 by (auto simp: holds_def intro!: exI [of _ "{p}"])
  have fresh: "length (user_space_buffer y) = 9320" if y: "packet r (Some bp) = Some y" for r y
  proof -
    obtain d where d: "heap bp r = Some d" "platform_state d = y"
      using y by (cases "heap bp r") (simp_all add: packet_def)
    have "platform_state d = construct x"
      by (rule add_buffers_state [OF _ _ d(1), of _ x "unat cc - 1" 0])
        (use bp(1) assms(1) in \<open>auto simp: bufferpool_new_def split: sum.splits\<close>)
    then show ?thesis using d(2) assms(4) by (auto simp: construct_def)
  qed
  obtain dp where dp: "heap bp0 p = Some dp" by (rule holds_packet [OF h]) (auto simp: packet_def bind_Some_iff)
  let ?i = "Some (bp0\<lparr>heap := (heap bp0)(p := Some (dp\<lparr>platform_state := x, pkt_sw := Some 0\<rparr>))\<rparr>)"
  have r: "packet r ?i = (if r = p then Some x else packet r (Some bp))" for r
    using get_packets [OF g(1)] bp0 by (simp add: packet_def)
  have "holds K (unat cc) {#Some p#} ?i" by (rule holds_heap [OF h dp]) simp
  moreover have "ports_hold [None, Some a] = {#}" using a(2) by (simp add: ports_hold_def)
  moreover have "buffers_ok ?i" using fresh assms(4) unfolding buffers_ok_def r by auto
  ultimately have "switch_ok K (unat cc) {#Some p#} [None, Some a] ?i" using a(3) by (simp add: switch_ok_def)
  then show thesis
    using that [OF a(1) _ _ _ _ a(4), of p ?i] r [of p] a by (simp add: switch_of_def ports_hold_def up_port_def)
qed

definition sent_pkt :: datapacketx86 where
  "sent_pkt = typed_pkt [ETHERNET] (replicate 60 0)"

lemma sent_pkt:
  "calculate_checksums_in_software K sent_pkt = Some sent_pkt" "length (user_space_buffer sent_pkt) = 9320" "wf_pkt sent_pkt"
  "port_in (clas_state sent_pkt) = 0" "output_queue sent_pkt = 0"
proof -
  have l: "length (replicate 60 (0 :: u8)) \<le> 9000" by simp
  show "wf_pkt sent_pkt" using typed_pkt(1) [OF l] by (simp add: sent_pkt_def in_user_def)
  show "calculate_checksums_in_software K sent_pkt = Some sent_pkt"
  proof -
    have t: "clas_type (clas_state sent_pkt) = Some [ETHERNET]" using typed_pkt(4) [OF l] by (simp add: sent_pkt_def)
    have "protocol_offsets_bt [ETHERNET] PT_PROTO_IPV4 = None" "protocol_offsets_bt [ETHERNET] PT_PROTO_IPV6 = None"
      "protocol_offsets_bt [ETHERNET] PT_PROTO_SCTP = None" by code_simp+
    with t show ?thesis
      by (simp add: calculate_checksums_in_software_def checksum_over_sctp_def get_ipv4_hdr_def get_ipv6_hdr_def
        get_sctp_hdr_def PT_GET_HDR_def)
  qed
qed (simp_all add: sent_pkt_def typed_pkt_def user_pkt_def set_clas_type_def)

lemma ring2: "circular_queue_new 2 = Inr (\<lparr>slots = 2, elements = replicate 2 None, writep = 0, writep2 = 0, readp = 0\<rparr> :: nat circular_queue)"
  by (simp add: circular_queue_new_def)

theorem output_conserves_witness:
  "\<exists>a p inst. switch_ok std_rofl 4 {#Some p#} [None, Some a] inst \<and>
     (\<exists>ports' inst'. platform_packet_output (enqueue_packet std_rofl) std_rofl p (Some (Port 1)) [None, Some a] inst =
        Some (ports', inst') \<and> switch_ok std_rofl 4 {#} ports' inst') \<and>
     (\<exists>ports' inst'. platform_packet_output (enqueue_packet std_rofl) std_rofl p (Some Flood_meta_port) [None, Some a] inst =
        Some (ports', inst') \<and> switch_ok std_rofl 4 {#} ports' inst')"
proof -
  obtain a p inst where w: "switch_ok std_rofl (unat (4 :: u64)) {#Some p#} [None, Some a] inst" "packet p inst = Some sent_pkt"
    "ports_hold [None, Some a] = {#}" "num_of_queues a = 8" "\<not> no_flood a"
    by (rule some_switch [OF ring4(1) _ _ sent_pkt(2), of std_rofl]) simp_all
  have fit: "copies_fit std_rofl sent_pkt [None, Some a]" using w(4) sent_pkt NDEBUG_std by (simp add: copies_fit_def)
  have t: "length (targets sent_pkt [None, Some a]) \<le> 2"
    unfolding targets_def by (rule order_trans [OF length_filter_le]) simp
  have "switch_ok std_rofl 4 (add_mset (Some p) {#}) [None, Some a] inst" using w(1) by simp
  note s = output_conserves [OF this w(2) sent_pkt(1,2) fit]
  have "\<exists>ports' inst'. platform_packet_output (enqueue_packet std_rofl) std_rofl p (Some (Port 1)) [None, Some a] inst =
        Some (ports', inst') \<and> switch_ok std_rofl 4 {#} ports' inst'"
    using s [THEN conjunct1, rule_format, of 1] by simp
  moreover have "\<exists>ports' inst'. platform_packet_output (enqueue_packet std_rofl) std_rofl p (Some Flood_meta_port) [None, Some a] inst =
        Some (ports', inst') \<and> switch_ok std_rofl 4 {#} ports' inst'"
    using s [THEN conjunct2, THEN conjunct2] t w(3) by simp
  moreover have "switch_ok std_rofl 4 {#Some p#} [None, Some a] inst" using w(1) by simp
  ultimately show ?thesis by blast
qed

end
