(* ===== verification/Safevector.thy ===== *)
theory Safevector
  imports Prelude
begin

text \<open>
  \<open>util/safevector.h\<close>: a \<open>std::vector\<close> behind a lock. Each operation holds the lock for its whole duration
  and none of them calls another while holding it, so a vector is a list and an operation a function on it.
  \<open>None\<close> is a position outside the vector, which \<open>std::vector\<close> leaves undefined; the exception of
  \<open>operator[]\<close> is \<open>Inl\<close>.
\<close>

section \<open>Operations\<close>

datatype sv_error = Not_found

definition sv_nth :: "'a list \<Rightarrow> nat \<Rightarrow> sv_error + 'a" where
  "sv_nth vec j = (if j < length vec then Inr (vec ! j) else Inl Not_found)"

definition pop_back :: "'a list \<Rightarrow> 'a list option" where
  "pop_back vec = (if vec = [] then None else Some (butlast vec))"

definition push_back :: "'a \<Rightarrow> 'a list \<Rightarrow> 'a list" where
  "push_back val vec = vec @ [val]"

definition erase_at :: "nat \<Rightarrow> 'a list \<Rightarrow> 'a list option" where
  "erase_at j vec = (if j < length vec then Some (take j vec @ drop (j + 1) vec) else None)"

text \<open>\<open>erase(elem)\<close>: the index advances also after an element has been erased.\<close>

function erase_from :: "'a \<Rightarrow> nat \<Rightarrow> 'a list \<Rightarrow> 'a list" where
  "erase_from e i vec =
     (if i < length vec then
        if vec ! i = e then erase_from e (i + 1) (take i vec @ drop (i + 1) vec) else erase_from e (i + 1) vec
      else vec)"
  by auto
termination by (relation "measure (\<lambda>(e, i, vec). length vec - i)") auto

declare erase_from.simps [simp del]

definition erase :: "'a \<Rightarrow> 'a list \<Rightarrow> 'a list" where
  "erase e vec = erase_from e 0 vec"

definition clear :: "'a list \<Rightarrow> 'a list" where
  "clear vec = []"

fun contains :: "'a \<Rightarrow> 'a list \<Rightarrow> bool" where
  "contains e [] = False"
| "contains e (x # xs) = (x = e \<or> contains e xs)"

definition sv_size :: "'a list \<Rightarrow> nat" where
  "sv_size vec = length vec"

definition sv_empty :: "'a list \<Rightarrow> bool" where
  "sv_empty vec = (vec = [])"

section \<open>What \<open>erase\<close> leaves\<close>

text \<open>Of each run of equal elements every second one stays.\<close>

fun sieve :: "'a \<Rightarrow> 'a list \<Rightarrow> 'a list" where
  "sieve e [] = []"
| "sieve e [x] = (if x = e then [] else [x])"
| "sieve e (x # y # xs) = (if x = e then y # sieve e xs else x # sieve e (y # xs))"

lemma erase_from_sieve: "i \<le> length vec \<Longrightarrow> erase_from e i vec = take i vec @ sieve e (drop i vec)"
proof (induction e i vec rule: erase_from.induct)
  case (1 e i vec)
  show ?case
  proof (cases "i < length vec")
    case False
    then show ?thesis using 1(3) by (simp add: erase_from.simps)
  next
    case True
    then have d: "drop i vec = vec ! i # drop (Suc i) vec" by (simp add: Cons_nth_drop_Suc)
    show ?thesis
    proof (cases "vec ! i = e")
      case False
      have "sieve e (drop i vec) = vec ! i # sieve e (drop (Suc i) vec)"
        using d False by (cases "drop (Suc i) vec") simp_all
      then show ?thesis using True False 1(2) by (simp add: erase_from.simps [of e i] take_Suc_conv_app_nth)
    next
      case e: True
      show ?thesis
      proof (cases "Suc i < length vec")
        case False
        then have "drop (Suc i) vec = []" by simp
        then show ?thesis using d e True False by (simp add: erase_from.simps)
      next
        case more: True
        then have dd: "drop (Suc i) vec = vec ! Suc i # drop (Suc (Suc i)) vec" by (simp add: Cons_nth_drop_Suc)
        have "erase_from e i vec = erase_from e (i + 1) (take i vec @ drop (i + 1) vec)"
          using True e by (simp add: erase_from.simps [of e i])
        also have "\<dots> = take (i + 1) (take i vec @ drop (i + 1) vec) @ sieve e (drop (i + 1) (take i vec @ drop (i + 1) vec))"
          by (rule 1(1) [OF True e]) (use more in simp)
        finally show ?thesis using True e d dd more by (simp add: Suc_diff_Suc)
      qed
    qed
  qed
qed

lemma erase_sieve: "erase e vec = sieve e vec"
  using erase_from_sieve [of 0 vec e] by (simp add: erase_def)

lemma sieve_absent: "e \<notin> set xs \<Longrightarrow> sieve e xs = xs"
  by (induction e xs rule: sieve.induct) auto

lemma sieve_distinct: "distinct xs \<Longrightarrow> sieve e xs = remove1 e xs"
  by (induction e xs rule: sieve.induct) (auto simp: sieve_absent)

lemma contains_set [simp]: "contains e xs \<longleftrightarrow> e \<in> set xs"
  by (induction xs) auto

text \<open>On a vector without duplicates \<open>erase\<close> removes the element.\<close>

lemma erase_distinct: "distinct vec \<Longrightarrow> erase e vec = remove1 e vec"
  by (simp add: erase_sieve sieve_distinct)

lemma erase_keeps: "erase e [e, e] = [e]"
  by (simp add: erase_sieve)

end
