(* ===== verification/Iomanager.thy ===== *)
theory Iomanager
  imports Safevector Classifier "HOL-Library.AList"
begin

text \<open>
  \<open>io/iomanager.h\<close>, \<open>io/iomanager.cc\<close> and the part of \<open>io/scheduler/epoll_ioscheduler.h\<close>, \<open>.cc\<close> that an I/O thread
  and the manager share: port groups, the threads that serve them and how threads learn of changes.

  A port is its number with the descriptors \<open>get_read_fd\<close> and \<open>get_write_fd\<close> answer, \<open>-1\<close> for a port that has none (one of a
  device whose \<open>up\<close> has failed); \<open>port_up\<close> is \<open>of_port_state->up\<close>, which \<open>ioport::up\<close> and \<open>down\<close> set. \<open>portgroups\<close> is the
  \<open>std::map\<close>: \<open>operator[]\<close> on a missing key adds it with \<open>NULL\<close>. \<open>None\<close> is the use of a \<open>NULL\<close> group, a failed
  assertion, locking the mutex twice, or a wait that does not end. Memory, threads and epoll instances are
  assumed to be available while the manager waits for a thread; \<open>dump_state\<close>, which prints in debug builds, is left out.
\<close>

section \<open>State\<close>

datatype pg_type_t = PG_RX | PG_TX

record io_port =
  io_port_no :: nat
  get_read_fd :: int
  get_write_fd :: int

definition port_fd :: "pg_type_t \<Rightarrow> io_port \<Rightarrow> int" where
  "port_fd t port = (if t = PG_RX then get_read_fd port else get_write_fd port)"

text \<open>An I/O thread: whether it has started its work, the hash it has seen last, and the entries of its epoll set, which are the ports
  whose events it handles. The copy \<open>ports\<close> of the running ports is left out: nothing reads it.\<close>

record io_thread =
  started :: bool
  current_hash :: u32
  working :: "(int \<times> io_port) list"

record portgroup_state =
  pg_id :: u32
  keep_on :: bool
  num_of_threads :: nat
  thread_state :: "io_thread list"
  sync_sem :: nat
  pg_type :: pg_type_t
  ports :: "io_port list"
  running_ports :: "io_port list"
  running_hash :: u32

record iomanager =
  num_of_groups :: u32
  num_of_rx_groups :: u32
  num_of_tx_groups :: u32
  next_rx_sched_grp_id :: u32
  next_tx_sched_grp_id :: u32
  portgroups :: "(u16 \<times> portgroup_state option) list"
  mutex :: bool
  port_up :: "io_port \<Rightarrow> bool"

definition DEFAULT_THREADS_PER_PG :: nat where
  "DEFAULT_THREADS_PER_PG = 1"

definition MAX_THREADS_PER_PORTGROUP :: nat where
  "MAX_THREADS_PER_PORTGROUP = 5"

definition lock :: "iomanager \<Rightarrow> iomanager option" where
  "lock m = (if mutex m then None else Some (m\<lparr>mutex := True\<rparr>))"

definition unlock :: "iomanager \<Rightarrow> iomanager" where
  "unlock m = m\<lparr>mutex := False\<rparr>"

text \<open>\<open>portgroups[key]\<close>, read and written.\<close>

definition at_group :: "u16 \<Rightarrow> iomanager \<Rightarrow> portgroup_state option \<times> iomanager" where
  "at_group k m =
     (case map_of (portgroups m) k of
        Some e \<Rightarrow> (e, m)
      | None \<Rightarrow> (None, m\<lparr>portgroups := portgroups m @ [(k, None)]\<rparr>))"

definition set_group :: "u16 \<Rightarrow> portgroup_state \<Rightarrow> iomanager \<Rightarrow> iomanager" where
  "set_group k pg m = m\<lparr>portgroups := AList.update k (Some pg) (portgroups m)\<rparr>"

section \<open>The threads\<close>

text \<open>The entries of a new epoll set: the running ports of the group that have a descriptor.\<close>

definition watched :: "portgroup_state \<Rightarrow> (int \<times> io_port) list" where
  "watched pg = map (\<lambda>port. (port_fd (pg_type pg) port, port)) (filter (\<lambda>port. port_fd (pg_type pg) port \<noteq> -1) (running_ports pg))"

text \<open>\<open>init_or_update_fds\<close> and \<open>signal_as_synchronized\<close>: with no running port it returns at once. \<open>got\<close>: memory and an epoll
  instance can be had; otherwise the old set is gone and the manager gets no signal.\<close>

definition init_or_update_fds :: "bool \<Rightarrow> portgroup_state \<Rightarrow> io_thread \<Rightarrow> portgroup_state \<times> io_thread" where
  "init_or_update_fds got pg th =
     (if running_ports pg = [] then (pg, th)
      else if \<not> got then (pg, th\<lparr>working := []\<rparr>)
      else (pg\<lparr>sync_sem := sync_sem pg + 1\<rparr>, th\<lparr>current_hash := running_hash pg, working := watched pg\<rparr>))"

text \<open>The start of \<open>process_io\<close>, or one round of its loop.\<close>

definition thread_round :: "portgroup_state \<Rightarrow> io_thread \<Rightarrow> portgroup_state \<times> io_thread" where
  "thread_round pg th =
     (if \<not> started th then
        (let (pg, th) = init_or_update_fds True pg th in (pg, th\<lparr>started := True\<rparr>))
      else if keep_on pg \<and> running_hash pg \<noteq> current_hash th then init_or_update_fds True pg th
      else (pg, th))"

fun rounds :: "portgroup_state \<Rightarrow> io_thread list \<Rightarrow> portgroup_state \<times> io_thread list" where
  "rounds pg [] = (pg, [])"
| "rounds pg (th # ths) =
     (let (pg, th) = thread_round pg th; (pg, ths) = rounds pg ths in (pg, th # ths))"

text \<open>While the manager waits, nothing but the threads changes the group; a thread that has gone once round its
  loop without a change does so for ever. So the wait ends if and only if the semaphore is positive
  after one round of each thread.\<close>

definition sem_wait :: "portgroup_state \<Rightarrow> portgroup_state option" where
  "sem_wait pg =
     (if sync_sem pg > 0 then Some (pg\<lparr>sync_sem := sync_sem pg - 1\<rparr>)
      else
        let (pg, ths) = rounds pg (thread_state pg); pg = pg\<lparr>thread_state := ths\<rparr>
        in if sync_sem pg > 0 then Some (pg\<lparr>sync_sem := sync_sem pg - 1\<rparr>) else None)"

primrec sem_waits :: "nat \<Rightarrow> portgroup_state \<Rightarrow> portgroup_state option" where
  "sem_waits 0 pg = Some pg"
| "sem_waits (Suc n) pg = do { pg \<leftarrow> sem_wait pg; sem_waits n pg }"

definition start_portgroup_threads :: "portgroup_state \<Rightarrow> portgroup_state" where
  "start_portgroup_threads pg =
     pg\<lparr>keep_on := True,
       thread_state := replicate (num_of_threads pg) \<lparr>started = False, current_hash = 0, working = []\<rparr>\<rparr>"

text \<open>Every thread leaves its loop when it sees \<open>keep_on\<close>, and is joined.\<close>

definition stop_portgroup_threads :: "portgroup_state \<Rightarrow> portgroup_state" where
  "stop_portgroup_threads pg = pg\<lparr>keep_on := False, thread_state := []\<rparr>"

section \<open>Groups\<close>

text \<open>\<open>g\<close> is what the memory of the new group holds in \<open>keep_on\<close>.\<close>

definition create_group :: "bool \<Rightarrow> pg_type_t \<Rightarrow> nat \<Rightarrow> bool \<Rightarrow> iomanager \<Rightarrow> (int \<times> iomanager) option" where
  "create_group g t n mutex_locked m =
     (if n > MAX_THREADS_PER_PORTGROUP then Some (-1, m)
      else do {
        m \<leftarrow> (if mutex_locked then Some m else lock m);
        let pg = \<lparr>pg_id = num_of_groups m, keep_on = g, num_of_threads = n, thread_state = [], sync_sem = 0, pg_type = t,
                  ports = [], running_ports = [], running_hash = 0\<rparr>;
        let m = (set_group (ucast (num_of_groups m)) pg m)\<lparr>num_of_groups := num_of_groups m + 1\<rparr>;
        Some (sint (pg_id pg), if mutex_locked then m else unlock m) })"

primrec create_groups :: "bool \<Rightarrow> pg_type_t \<Rightarrow> nat \<Rightarrow> iomanager \<Rightarrow> (bool \<times> iomanager) option" where
  "create_groups g t 0 m = Some (True, m)"
| "create_groups g t (Suc n) m = do {
     (r, m) \<leftarrow> create_group g t DEFAULT_THREADS_PER_PG True m;
     if r < 0 then Some (False, m) else create_groups g t n m }"

definition init_error :: "rofl \<Rightarrow> iomanager \<Rightarrow> (rofl_result \<times> iomanager) option" where
  "init_error K m = do { c_assert K False; Some (ROFL_FAILURE, unlock m) }"

definition io_init :: "rofl \<Rightarrow> bool \<Rightarrow> u32 \<Rightarrow> u32 \<Rightarrow> iomanager \<Rightarrow> (rofl_result \<times> iomanager) option" where
  "io_init K g rx tx m = do {
     m \<leftarrow> lock m;
     if num_of_groups m \<noteq> 0 then init_error K m
     else do {
       let m = m\<lparr>num_of_rx_groups := rx, num_of_tx_groups := tx\<rparr>;
       (ok, m) \<leftarrow> create_groups g PG_RX (unat rx) m;
       if \<not> ok then init_error K m
       else do {
         (ok, m) \<leftarrow> create_groups g PG_TX (unat tx) m;
         if \<not> ok then init_error K m else Some (ROFL_SUCCESS, unlock m) } } }"

text \<open>A loop \<open>for(i=0;i<portgroups.size();i++)\<close> over \<open>portgroups[i]\<close>, from \<open>i\<close> on; the body goes on (\<open>Inl\<close>) or
  returns (\<open>Inr\<close>).\<close>

partial_function (option) for_groups ::
  "(nat \<Rightarrow> portgroup_state option \<Rightarrow> 's \<Rightarrow> iomanager \<Rightarrow> (('s + 'r) \<times> iomanager) option) \<Rightarrow> nat \<Rightarrow> 's \<Rightarrow> iomanager \<Rightarrow>
   (('s + 'r) \<times> iomanager) option" where
  "for_groups body i s m =
     (if i < length (portgroups m) then do {
        (r, m) \<leftarrow> (let (pg, m) = at_group (of_nat i) m in body i pg s m);
        case r of Inl s \<Rightarrow> for_groups body (i + 1) s m | Inr x \<Rightarrow> Some (Inr x, m) }
      else Some (Inl s, m))"

text \<open>\<open>bring_port_down\<close>: one group; the state is the two flags.\<close>

definition took :: "pg_type_t \<Rightarrow> bool \<times> bool \<Rightarrow> bool \<times> bool" where
  "took t flags = (if t = PG_RX then (True, snd flags) else (fst flags, True))"

definition down_group :: "io_port \<Rightarrow> portgroup_state \<Rightarrow> portgroup_state option" where
  "down_group port pg =
     (let pg = pg\<lparr>running_ports := erase port (running_ports pg), running_hash := running_hash pg + 1\<rparr>
      in if sv_size (running_ports pg) = 0 then Some (stop_portgroup_threads pg) else sem_waits (num_of_threads pg) pg)"

definition down_body ::
  "io_port \<Rightarrow> bool \<Rightarrow> nat \<Rightarrow> portgroup_state option \<Rightarrow> bool \<times> bool \<Rightarrow> iomanager \<Rightarrow>
   ((bool \<times> bool + rofl_result) \<times> iomanager) option" where
  "down_body port mutex_locked i pgo flags m = do {
     pg \<leftarrow> pgo;
     if contains port (running_ports pg) then do {
       pg \<leftarrow> down_group port pg;
       let m = set_group (of_nat i) pg m;
       let flags = took (pg_type pg) flags;
       if fst flags \<and> snd flags then
         let m = m\<lparr>port_up := (port_up m)(port := False)\<rparr>
         in Some (Inr ROFL_SUCCESS, if mutex_locked then m else unlock m)
       else Some (Inl flags, m) }
     else Some (Inl flags, m) }"

definition bring_port_down :: "io_port \<Rightarrow> bool \<Rightarrow> iomanager \<Rightarrow> (rofl_result \<times> iomanager) option" where
  "bring_port_down port mutex_locked m = do {
     m \<leftarrow> (if mutex_locked then Some m else lock m);
     (r, m) \<leftarrow> for_groups (down_body port mutex_locked) 0 (False, False) m;
     case r of
       Inr x \<Rightarrow> Some (x, m)
     | Inl _ \<Rightarrow>
         let m = m\<lparr>port_up := (port_up m)(port := False)\<rparr>
         in Some (ROFL_FAILURE, if mutex_locked then m else unlock m) }"

definition up_group :: "io_port \<Rightarrow> portgroup_state \<Rightarrow> portgroup_state option" where
  "up_group port pg =
     (if sv_size (running_ports pg) = 0 then
        let pg = start_portgroup_threads (pg\<lparr>running_ports := push_back port (running_ports pg)\<rparr>)
        in sem_waits (num_of_threads pg) pg
      else
        let pg = pg\<lparr>running_ports := push_back port (running_ports pg), running_hash := running_hash pg + 1\<rparr>
        in sem_waits (num_of_threads pg) pg)"

definition up_body ::
  "io_port \<Rightarrow> nat \<Rightarrow> portgroup_state option \<Rightarrow> bool \<times> bool \<Rightarrow> iomanager \<Rightarrow>
   ((bool \<times> bool + rofl_result) \<times> iomanager) option" where
  "up_body port i pgo flags m = do {
     pg \<leftarrow> pgo;
     if contains port (ports pg) then
       if contains port (running_ports pg) then Some (Inr ROFL_SUCCESS, unlock m)
       else do {
         let m = (if \<not> fst flags \<and> \<not> snd flags then m\<lparr>port_up := (port_up m)(port := True)\<rparr> else m);
         pg \<leftarrow> up_group port pg;
         let m = set_group (of_nat i) pg m;
         let flags = took (pg_type pg) flags;
         if fst flags \<and> snd flags then Some (Inr ROFL_SUCCESS, unlock m) else Some (Inl flags, m) }
     else Some (Inl flags, m) }"

definition bring_port_up :: "io_port \<Rightarrow> iomanager \<Rightarrow> (rofl_result \<times> iomanager) option" where
  "bring_port_up port m = do {
     m \<leftarrow> lock m;
     (r, m) \<leftarrow> for_groups (up_body port) 0 (False, False) m;
     case r of
       Inr x \<Rightarrow> Some (x, m)
     | Inl _ \<Rightarrow> Some (ROFL_FAILURE, unlock (m\<lparr>port_up := (port_up m)(port := True)\<rparr>)) }"

text \<open>\<open>get_group_id_by_port\<close>, \<open>-1\<close> if there is none. It takes no lock.\<close>

definition find_body ::
  "io_port \<Rightarrow> pg_type_t \<Rightarrow> nat \<Rightarrow> portgroup_state option \<Rightarrow> unit \<Rightarrow> iomanager \<Rightarrow> ((unit + int) \<times> iomanager) option" where
  "find_body port t i pgo u m =
     (case pgo of
        None \<Rightarrow> Some (Inl u, m)
      | Some pg \<Rightarrow> if pg_type pg \<noteq> t \<or> port \<notin> set (ports pg) then Some (Inl u, m) else Some (Inr (sint (pg_id pg)), m))"

definition get_group_id_by_port :: "io_port \<Rightarrow> pg_type_t \<Rightarrow> iomanager \<Rightarrow> (int \<times> iomanager) option" where
  "get_group_id_by_port port t m = do {
     (r, m) \<leftarrow> for_groups (find_body port t) 0 () m;
     Some (case r of Inl _ \<Rightarrow> -1 | Inr i \<Rightarrow> i, m) }"

text \<open>\<open>add_port_to_group\<close>: the loop looks for the port in a group of the same type.\<close>

definition twice_body ::
  "io_port \<Rightarrow> pg_type_t \<Rightarrow> nat \<Rightarrow> portgroup_state option \<Rightarrow> unit \<Rightarrow> iomanager \<Rightarrow> ((unit + unit) \<times> iomanager) option" where
  "twice_body port t i pgo u m =
     (case pgo of
        None \<Rightarrow> Some (Inl u, m)
      | Some pg \<Rightarrow> if contains port (ports pg) \<and> pg_type pg = t then Some (Inr (), m) else Some (Inl u, m))"

definition add_port_to_group :: "rofl \<Rightarrow> u32 \<Rightarrow> io_port \<Rightarrow> iomanager \<Rightarrow> (rofl_result \<times> iomanager) option" where
  "add_port_to_group K grp_id port m = do {
     m \<leftarrow> lock m;
     let (pgo, m) = at_group (ucast grp_id) m;
     case pgo of
       None \<Rightarrow> do { c_assert K False; Some (ROFL_FAILURE, unlock m) }
     | Some pg \<Rightarrow> do {
         (r, m) \<leftarrow> for_groups (twice_body port (pg_type pg)) 0 () m;
         case r of
           Inr _ \<Rightarrow> do { c_assert K False; Some (ROFL_FAILURE, unlock m) }
         | Inl _ \<Rightarrow>
             Some (ROFL_SUCCESS, unlock (set_group (ucast grp_id) (pg\<lparr>ports := push_back port (ports pg)\<rparr>) m)) } }"

definition remove_port_from_group :: "rofl \<Rightarrow> u32 \<Rightarrow> io_port \<Rightarrow> bool \<Rightarrow> iomanager \<Rightarrow> (rofl_result \<times> iomanager) option" where
  "remove_port_from_group K grp_id port mutex_locked m = do {
     m \<leftarrow> (if mutex_locked then Some m else lock m);
     let (pgo, m) = at_group (ucast grp_id) m;
     case pgo of
       None \<Rightarrow> do { c_assert K False; Some (ROFL_FAILURE, if mutex_locked then m else unlock m) }
     | Some pg \<Rightarrow>
         if \<not> contains port (ports pg) then do {
           c_assert K False; Some (ROFL_FAILURE, if mutex_locked then m else unlock m) }
         else do {
           (_, m) \<leftarrow> bring_port_down port True m;
           pg \<leftarrow> fst (at_group (ucast grp_id) m);
           let m = set_group (ucast grp_id) (pg\<lparr>ports := erase port (ports pg)\<rparr>) m;
           Some (ROFL_SUCCESS, if mutex_locked then m else unlock m) } }"

section \<open>Ports\<close>

text \<open>The remainder by zero of \<open>rx_sched\<close> and \<open>tx_sched\<close> traps.\<close>

definition rx_sched :: "iomanager \<Rightarrow> (u32 \<times> iomanager) option" where
  "rx_sched m =
     (if num_of_rx_groups m = 0 then None
      else Some (next_rx_sched_grp_id m, m\<lparr>next_rx_sched_grp_id := (next_rx_sched_grp_id m + 1) mod num_of_rx_groups m\<rparr>))"

definition tx_sched :: "iomanager \<Rightarrow> (u32 \<times> iomanager) option" where
  "tx_sched m =
     (if num_of_tx_groups m = 0 then None
      else Some (next_tx_sched_grp_id m + num_of_rx_groups m,
        m\<lparr>next_tx_sched_grp_id := (next_tx_sched_grp_id m + 1) mod num_of_tx_groups m\<rparr>))"

definition add_port :: "rofl \<Rightarrow> io_port \<Rightarrow> iomanager \<Rightarrow> (rofl_result \<times> iomanager) option" where
  "add_port K port m = do {
     m \<leftarrow> lock m;
     (grp_id, m) \<leftarrow> rx_sched m;
     let m = unlock m;
     (r, m) \<leftarrow> add_port_to_group K grp_id port m;
     if r \<noteq> ROFL_SUCCESS then do { c_assert K False; Some (ROFL_FAILURE, m) }
     else do {
       m \<leftarrow> lock m;
       (grp_id, m) \<leftarrow> tx_sched m;
       let m = unlock m;
       (r, m) \<leftarrow> add_port_to_group K grp_id port m;
       if r \<noteq> ROFL_SUCCESS then do { c_assert K False; Some (ROFL_FAILURE, m) }
       else Some (ROFL_SUCCESS, m) } }"

definition remove_port :: "rofl \<Rightarrow> io_port \<Rightarrow> iomanager \<Rightarrow> (rofl_result \<times> iomanager) option" where
  "remove_port K port m = do {
     (grp_id, m) \<leftarrow> get_group_id_by_port port PG_RX m;
     if grp_id < 0 then do { c_assert K False; Some (ROFL_FAILURE, m) }
     else do {
       (r, m) \<leftarrow> remove_port_from_group K (of_int grp_id) port False m;
       if r \<noteq> ROFL_SUCCESS then do { c_assert K False; Some (ROFL_FAILURE, m) }
       else do {
         (grp_id, m) \<leftarrow> get_group_id_by_port port PG_TX m;
         if grp_id < 0 then do { c_assert K False; Some (ROFL_FAILURE, m) }
         else do {
           (r, m) \<leftarrow> remove_port_from_group K (of_int grp_id) port False m;
           if r \<noteq> ROFL_SUCCESS then do { c_assert K False; Some (ROFL_FAILURE, m) }
           else Some (ROFL_SUCCESS, m) } } } }"

text \<open>\<open>delete_group\<close>: the loop removes the first port until \<open>operator[]\<close> throws.\<close>

partial_function (option) remove_all :: "rofl \<Rightarrow> u32 \<Rightarrow> iomanager \<Rightarrow> iomanager option" where
  "remove_all K grp_id m = do {
     pg \<leftarrow> fst (at_group (ucast grp_id) m);
     case sv_nth (ports pg) 0 of
       Inl _ \<Rightarrow> Some m
     | Inr port \<Rightarrow> do {
         (r, m) \<leftarrow> remove_port_from_group K grp_id port True m;
         remove_all K grp_id m } }"

definition delete_group :: "rofl \<Rightarrow> u32 \<Rightarrow> iomanager \<Rightarrow> (rofl_result \<times> iomanager) option" where
  "delete_group K grp_id m = do {
     m \<leftarrow> lock m;
     let (pgo, m) = at_group (ucast grp_id) m;
     case pgo of
       None \<Rightarrow> Some (ROFL_FAILURE, unlock m)
     | Some pg \<Rightarrow> do {
         m \<leftarrow> remove_all K grp_id m;
         let m = m\<lparr>portgroups := AList.delete (ucast grp_id) (portgroups m), num_of_groups := num_of_groups m - 1\<rparr>;
         Some (ROFL_SUCCESS, unlock m) } }"

text \<open>One of the two loops of \<open>delete_all_groups\<close>: \<open>n\<close> groups from key \<open>i\<close> on.\<close>

primrec delete_groups :: "rofl \<Rightarrow> nat \<Rightarrow> u32 \<Rightarrow> iomanager \<Rightarrow> iomanager option" where
  "delete_groups K 0 i m = Some m"
| "delete_groups K (Suc n) i m = do {
     let (pgo, m) = at_group (ucast i) m;
     pg \<leftarrow> pgo;
     (r, m) \<leftarrow> delete_group K (pg_id pg) m;
     (if r \<noteq> ROFL_SUCCESS then c_assert K False else Some ());
     delete_groups K n (i + 1) m }"

definition delete_all_groups :: "rofl \<Rightarrow> iomanager \<Rightarrow> (rofl_result \<times> iomanager) option" where
  "delete_all_groups K m = do {
     m \<leftarrow> delete_groups K (unat (num_of_rx_groups m)) 0 m;
     m \<leftarrow> delete_groups K (unat (num_of_tx_groups m)) (num_of_rx_groups m) m;
     Some (ROFL_SUCCESS, m) }"

section \<open>Groups in order\<close>

text \<open>\<open>gs\<close> are the groups by their key.\<close>

definition has_groups :: "iomanager \<Rightarrow> portgroup_state list \<Rightarrow> bool" where
  "has_groups m gs \<longleftrightarrow> portgroups m = zip (map of_nat [0..<length gs]) (map Some gs) \<and> length gs < 2 ^ 16"

lemma distinct_keys: "n < 2 ^ 16 \<Longrightarrow> distinct (map of_nat [k..<n] :: u16 list)"
  by (auto simp: distinct_map inj_on_def word_of_nat_eq_iff take_bit_nat_eq_self)

lemma update_zip:
  "distinct ks \<Longrightarrow> length ks = length vs \<Longrightarrow> i < length ks \<Longrightarrow> AList.update (ks ! i) v (zip ks vs) = zip ks (vs[i := v])"
proof (induction ks arbitrary: i vs)
  case Nil
  then show ?case by simp
next
  case (Cons k ks)
  obtain w ws where vs: "vs = w # ws" using Cons.prems(2) by (cases vs) auto
  show ?case
  proof (cases i)
    case 0
    then show ?thesis using vs by simp
  next
    case (Suc j)
    then have "k \<noteq> ks ! j" using Cons.prems by auto
    then show ?thesis using Cons vs Suc by simp
  qed
qed

lemma at_group_has:
  assumes "has_groups m gs" "i < length gs"
  shows "at_group (of_nat i) m = (Some (gs ! i), m)"
proof -
  have "map_of (zip (map of_nat [0..<length gs]) (map Some gs)) ((map of_nat [0..<length gs] :: u16 list) ! i) =
      Some (map Some gs ! i)"
    using assms distinct_keys [of "length gs" 0] by (intro map_of_zip_nth) (simp_all add: has_groups_def)
  then show ?thesis using assms by (simp add: at_group_def has_groups_def)
qed

lemma set_group_has:
  assumes "has_groups m gs" "i < length gs"
  shows "set_group (of_nat i) pg m = m\<lparr>portgroups := zip (map of_nat [0..<length gs]) (map Some (gs[i := pg]))\<rparr>"
proof -
  have "AList.update ((map of_nat [0..<length gs] :: u16 list) ! i) (Some pg) (zip (map of_nat [0..<length gs]) (map Some gs)) =
      zip (map of_nat [0..<length gs]) ((map Some gs)[i := Some pg])"
    using assms distinct_keys [of "length gs" 0] by (intro update_zip) (simp_all add: has_groups_def)
  then show ?thesis using assms by (simp add: set_group_def has_groups_def map_update)
qed

lemma has_groups_set: "has_groups m gs \<Longrightarrow> i < length gs \<Longrightarrow> has_groups (set_group (of_nat i) pg m) (gs[i := pg])"
  using set_group_has [of m gs i pg] by (simp add: has_groups_def)

lemma set_group_same [simp]:
  "mutex (set_group k pg m) = mutex m" "port_up (set_group k pg m) = port_up m" "num_of_groups (set_group k pg m) = num_of_groups m"
  "num_of_rx_groups (set_group k pg m) = num_of_rx_groups m" "num_of_tx_groups (set_group k pg m) = num_of_tx_groups m"
  "next_rx_sched_grp_id (set_group k pg m) = next_rx_sched_grp_id m"
  "next_tx_sched_grp_id (set_group k pg m) = next_tx_sched_grp_id m"
  by (simp_all add: set_group_def)

lemma has_groups_same [simp]:
  "has_groups (m\<lparr>mutex := b\<rparr>) gs = has_groups m gs" "has_groups (m\<lparr>port_up := u\<rparr>) gs = has_groups m gs"
  "has_groups (unlock m) gs = has_groups m gs"
  "has_groups (m\<lparr>next_rx_sched_grp_id := x\<rparr>) gs = has_groups m gs"
  "has_groups (m\<lparr>next_tx_sched_grp_id := x\<rparr>) gs = has_groups m gs"
  by (simp_all add: has_groups_def unlock_def)

lemma has_groups_length: "has_groups m gs \<Longrightarrow> length (portgroups m) = length gs"
  by (simp add: has_groups_def)

lemma for_groups_step:
  "has_groups m gs \<Longrightarrow> i < length gs \<Longrightarrow> for_groups body i s m = do {
     (r, m) \<leftarrow> body i (Some (gs ! i)) s m;
     case r of Inl s \<Rightarrow> for_groups body (i + 1) s m | Inr x \<Rightarrow> Some (Inr x, m) }"
  by (subst for_groups.simps) (simp add: at_group_has has_groups_length)

lemma for_groups_end: "has_groups m gs \<Longrightarrow> length gs \<le> i \<Longrightarrow> for_groups body i s m = Some (Inl s, m)"
  by (subst for_groups.simps) (simp add: has_groups_length)

lemma for_groups_skip:
  assumes "has_groups m gs" "i \<le> k" "k \<le> length gs"
    and "\<And>j. i \<le> j \<Longrightarrow> j < k \<Longrightarrow> body j (Some (gs ! j)) s m = Some (Inl s, m)"
  shows "for_groups body i s m = for_groups body k s m"
  using assms(2-4)
proof (induction "k - i" arbitrary: i)
  case 0
  then show ?case by simp
next
  case (Suc d)
  then have b: "i < length gs" "body i (Some (gs ! i)) s m = Some (Inl s, m)" by simp_all
  have "for_groups body i s m = for_groups body (i + 1) s m" by (subst for_groups_step [OF assms(1) b(1)]) (simp add: b(2))
  also have "\<dots> = for_groups body k s m" using Suc by simp
  finally show ?case .
qed

section \<open>Threads and the manager agree\<close>

lemma watched_cong: "running_ports pg = running_ports pg' \<Longrightarrow> pg_type pg = pg_type pg' \<Longrightarrow> watched pg = watched pg'"
  by (simp add: watched_def)

lemma watched_upd [simp]: "watched (pg\<lparr>sync_sem := n\<rparr>) = watched pg" "watched (pg\<lparr>thread_state := ths\<rparr>) = watched pg"
  "watched (pg\<lparr>running_hash := h\<rparr>) = watched pg" "watched (pg\<lparr>keep_on := b\<rparr>) = watched pg"
  "watched (pg\<lparr>ports := ps\<rparr>) = watched pg"
  by (simp_all add: watched_def)

text \<open>No signal is pending; while a port is running every thread watches exactly the running ports that have a descriptor.\<close>

definition synced :: "portgroup_state \<Rightarrow> bool" where
  "synced pg \<longleftrightarrow> sync_sem pg = 0 \<and>
     (if running_ports pg = [] then thread_state pg = []
      else keep_on pg \<and> thread_state pg =
        replicate (num_of_threads pg) \<lparr>started = True, current_hash = running_hash pg, working = watched pg\<rparr>)"

definition pg_ok :: "portgroup_state \<Rightarrow> bool" where
  "pg_ok pg \<longleftrightarrow> synced pg \<and> num_of_threads pg = DEFAULT_THREADS_PER_PG \<and> distinct (ports pg) \<and> distinct (running_ports pg) \<and>
     set (running_ports pg) \<subseteq> set (ports pg)"

lemma rounds_replicate:
  assumes "running_ports pg \<noteq> []" and "\<not> started th \<or> keep_on pg \<and> running_hash pg \<noteq> current_hash th"
  shows "rounds pg (replicate n th) = (pg\<lparr>sync_sem := sync_sem pg + n\<rparr>,
    replicate n \<lparr>started = True, current_hash = running_hash pg, working = watched pg\<rparr>)"
  using assms
proof (induction n arbitrary: pg)
  case 0
  then show ?case by simp
next
  case (Suc n)
  have r: "thread_round pg th = (pg\<lparr>sync_sem := sync_sem pg + 1\<rparr>,
      \<lparr>started = True, current_hash = running_hash pg, working = watched pg\<rparr>)"
    using Suc.prems by (cases th) (auto simp: thread_round_def init_or_update_fds_def)
  show ?case using Suc.IH [of "pg\<lparr>sync_sem := sync_sem pg + 1\<rparr>"] Suc.prems by (simp add: r)
qed

lemma sem_waits_posted: "n \<le> sync_sem pg \<Longrightarrow> sem_waits n pg = Some (pg\<lparr>sync_sem := sync_sem pg - n\<rparr>)"
  by (induction n arbitrary: pg) (simp_all add: sem_wait_def)

lemma sem_waits_synced:
  assumes "running_ports pg \<noteq> []" and "\<not> started th \<or> keep_on pg \<and> running_hash pg \<noteq> current_hash th"
    and "thread_state pg = replicate n th" and "sync_sem pg = 0"
  shows "sem_waits n pg = Some (pg\<lparr>thread_state :=
    replicate n \<lparr>started = True, current_hash = running_hash pg, working = watched pg\<rparr>\<rparr>)"
proof (cases n)
  case 0
  then show ?thesis using assms(3) by simp
next
  case (Suc k)
  let ?ths = "replicate n \<lparr>started = True, current_hash = running_hash pg, working = watched pg\<rparr>"
  have "sem_wait pg = Some (pg\<lparr>sync_sem := k, thread_state := ?ths\<rparr>)"
    using rounds_replicate [OF assms(1,2), of n] assms(3,4) Suc by (simp add: sem_wait_def)
  then show ?thesis
    using sem_waits_posted [of k "pg\<lparr>sync_sem := k, thread_state := ?ths\<rparr>"] Suc assms(4)
    by (simp del: replicate.simps)
qed

text \<open>What bringing a port up or down does to a group of which the manager and the threads agree.\<close>

definition run_ports :: "io_port list \<Rightarrow> portgroup_state \<Rightarrow> portgroup_state \<Rightarrow> bool" where
  "run_ports ps pg pg' \<longleftrightarrow> pg_ok pg' \<and> running_ports pg' = ps \<and> ports pg' = ports pg \<and> pg_id pg' = pg_id pg \<and>
     pg_type pg' = pg_type pg"

lemma up_group_ok:
  assumes "pg_ok pg" and "port \<in> set (ports pg)" and "port \<notin> set (running_ports pg)"
  obtains pg' where "up_group port pg = Some pg'" "run_ports (running_ports pg @ [port]) pg pg'"
proof (cases "running_ports pg = []")
  case True
  let ?pg = "start_portgroup_threads (pg\<lparr>running_ports := [port]\<rparr>)"
  have "sem_waits (num_of_threads ?pg) ?pg = Some (?pg\<lparr>thread_state :=
      replicate (num_of_threads ?pg) \<lparr>started = True, current_hash = running_hash ?pg, working = watched ?pg\<rparr>\<rparr>)"
    by (rule sem_waits_synced [where th = "\<lparr>started = False, current_hash = 0, working = []\<rparr>"])
      (use assms(1) in \<open>simp_all add: start_portgroup_threads_def pg_ok_def synced_def\<close>)
  then show thesis
    using that assms True by (simp add: up_group_def push_back_def sv_size_def run_ports_def pg_ok_def synced_def Let_def
      start_portgroup_threads_def)
next
  case False
  let ?pg = "pg\<lparr>running_ports := running_ports pg @ [port], running_hash := running_hash pg + 1\<rparr>"
  have s: "keep_on pg" "thread_state pg =
        replicate (num_of_threads pg) \<lparr>started = True, current_hash = running_hash pg, working = watched pg\<rparr>"
    "sync_sem pg = 0" using assms(1) False by (simp_all add: pg_ok_def synced_def)
  have "sem_waits (num_of_threads ?pg) ?pg = Some (?pg\<lparr>thread_state :=
      replicate (num_of_threads ?pg) \<lparr>started = True, current_hash = running_hash ?pg, working = watched ?pg\<rparr>\<rparr>)"
    by (rule sem_waits_synced [where th = "\<lparr>started = True, current_hash = running_hash pg, working = watched pg\<rparr>"])
      (use s in simp_all)
  then show thesis
    using that assms False s by (simp add: up_group_def push_back_def sv_size_def run_ports_def pg_ok_def synced_def Let_def)
qed

lemma down_group_ok:
  assumes "pg_ok pg" and "port \<in> set (running_ports pg)"
  obtains pg' where "down_group port pg = Some pg'" "run_ports (remove1 port (running_ports pg)) pg pg'"
proof -
  let ?ps = "remove1 port (running_ports pg)"
  have e: "erase port (running_ports pg) = ?ps" using assms(1) by (simp add: pg_ok_def erase_distinct)
  have d: "distinct ?ps" "set ?ps \<subseteq> set (ports pg)" using assms(1) by (auto simp: pg_ok_def dest: notin_set_remove1)
  have s: "keep_on pg" "thread_state pg =
        replicate (num_of_threads pg) \<lparr>started = True, current_hash = running_hash pg, working = watched pg\<rparr>"
    "sync_sem pg = 0" using assms(1) length_pos_if_in_set [OF assms(2)] by (auto simp: pg_ok_def synced_def)
  let ?pg = "pg\<lparr>running_ports := ?ps, running_hash := running_hash pg + 1\<rparr>"
  show thesis
  proof (cases "?ps = []")
    case True
    then show thesis
      using that assms(1) e d s(3)
      by (simp add: down_group_def sv_size_def stop_portgroup_threads_def run_ports_def pg_ok_def synced_def Let_def)
  next
    case False
    have "sem_waits (num_of_threads ?pg) ?pg = Some (?pg\<lparr>thread_state :=
        replicate (num_of_threads ?pg) \<lparr>started = True, current_hash = running_hash ?pg, working = watched ?pg\<rparr>\<rparr>)"
      by (rule sem_waits_synced [where th = "\<lparr>started = True, current_hash = running_hash pg, working = watched pg\<rparr>"])
        (use s False in simp_all)
    then show thesis
      using that assms(1) e d s False by (simp add: down_group_def sv_size_def run_ports_def pg_ok_def synced_def Let_def)
  qed
qed

section \<open>The abstract state\<close>

text \<open>\<open>P p\<close> are the groups that contain port \<open>p\<close>, \<open>R\<close> the running ports.\<close>

definition group_ok :: "nat \<Rightarrow> (io_port \<Rightarrow> nat set) \<Rightarrow> io_port set \<Rightarrow> nat \<Rightarrow> portgroup_state \<Rightarrow> bool" where
  "group_ok rx P R i pg \<longleftrightarrow> pg_ok pg \<and> pg_id pg = of_nat i \<and> pg_type pg = (if i < rx then PG_RX else PG_TX) \<and>
     set (ports pg) = {p. i \<in> P p} \<and> set (running_ports pg) = {p\<in>R. i \<in> P p}"

definition rep :: "iomanager \<Rightarrow> portgroup_state list \<Rightarrow> (io_port \<Rightarrow> nat set) \<Rightarrow> io_port set \<Rightarrow> bool" where
  "rep m gs P R \<longleftrightarrow> has_groups m gs \<and> unat (num_of_rx_groups m) + unat (num_of_tx_groups m) = length gs \<and>
     num_of_groups m = of_nat (length gs) \<and>
     next_rx_sched_grp_id m < num_of_rx_groups m \<and> next_tx_sched_grp_id m < num_of_tx_groups m \<and>
     (\<forall>i<length gs. group_ok (unat (num_of_rx_groups m)) P R i (gs ! i)) \<and> (\<forall>p. \<forall>i\<in>P p. i < length gs)"

text \<open>Every port is in one group of each type, or in none; a running port is in some.\<close>

definition paired :: "nat \<Rightarrow> (io_port \<Rightarrow> nat set) \<Rightarrow> bool" where
  "paired rx P \<longleftrightarrow> (\<forall>p. P p = {} \<or> (\<exists>r t. r < rx \<and> rx \<le> t \<and> P p = {r, t}))"

definition io_ok :: "iomanager \<Rightarrow> (io_port \<Rightarrow> nat set) \<Rightarrow> io_port set \<Rightarrow> bool" where
  "io_ok m P R \<longleftrightarrow> (\<exists>gs. rep m gs P R) \<and> \<not> mutex m \<and> paired (unat (num_of_rx_groups m)) P \<and> R \<subseteq> {p. P p \<noteq> {}}"

lemma repD:
  assumes "rep m gs P R"
  shows "has_groups m gs" "i < length gs \<Longrightarrow> group_ok (unat (num_of_rx_groups m)) P R i (gs ! i)" "i \<in> P p \<Longrightarrow> i < length gs"
    "i < length gs \<Longrightarrow> p \<in> set (ports (gs ! i)) \<longleftrightarrow> i \<in> P p"
    "i < length gs \<Longrightarrow> p \<in> set (running_ports (gs ! i)) \<longleftrightarrow> p \<in> R \<and> i \<in> P p"
  using assms by (simp_all add: rep_def group_ok_def)

lemma mutex_held: "mutex m \<Longrightarrow> m\<lparr>mutex := True\<rparr> = m"
  by (cases m) simp

text \<open>Everything but the groups, the mutex and the flags of the ports.\<close>

definition same_counters :: "iomanager \<Rightarrow> iomanager \<Rightarrow> bool" where
  "same_counters m m' \<longleftrightarrow> num_of_groups m' = num_of_groups m \<and> num_of_rx_groups m' = num_of_rx_groups m \<and>
     num_of_tx_groups m' = num_of_tx_groups m \<and> next_rx_sched_grp_id m' = next_rx_sched_grp_id m \<and>
     next_tx_sched_grp_id m' = next_tx_sched_grp_id m"

lemma rep_groups:
  assumes "rep m gs P R" and "same_counters m m'" and "has_groups m' gs'" and "length gs' = length gs"
    and "\<And>i. i < length gs \<Longrightarrow> group_ok (unat (num_of_rx_groups m)) P R' i (gs' ! i)"
  shows "rep m' gs' P R'"
  using assms unfolding rep_def same_counters_def by simp

lemma group_ok_other:
  "group_ok rx P R i pg \<Longrightarrow> (\<And>q. i \<in> P q \<Longrightarrow> q \<in> R \<longleftrightarrow> q \<in> R') \<Longrightarrow> group_ok rx P R' i pg"
  unfolding group_ok_def by auto

lemma group_ok_run:
  assumes "group_ok rx P R i pg" and "run_ports ps pg pg'" and "set ps = {q\<in>R'. i \<in> P q}"
  shows "group_ok rx P R' i pg'"
  using assms unfolding group_ok_def run_ports_def by simp

lemma up_ok:
  assumes rep: "rep m gs P R" and pair: "P p = {r, t}" "r < unat (num_of_rx_groups m)" "unat (num_of_rx_groups m) \<le> t"
    and p: "p \<notin> R" and mu: "\<not> mutex m"
  shows "\<exists>m' gs'. bring_port_up p m = Some (ROFL_SUCCESS, m') \<and> rep m' gs' P (insert p R) \<and> \<not> mutex m' \<and> same_counters m m' \<and>
     port_up m' = (port_up m)(p := True)"
proof -
  let ?rx = "unat (num_of_rx_groups m)" and ?m0 = "m\<lparr>mutex := True\<rparr>"
  have rt: "r < t" "t < length gs" "r < length gs" using pair repD(3) [OF rep, of _ p] by auto
  have h0: "has_groups ?m0 gs" using repD(1) [OF rep] by simp
  have skip: "up_body p j (Some (gs ! j)) f m' = Some (Inl f, m')" if "j < length gs" "j \<notin> {r, t}" for j f m'
    using repD(4) [OF rep that(1), of p] that(2) pair(1) by (simp add: up_body_def)
  have in_rt: "p \<in> set (ports (gs ! j))" "p \<notin> set (running_ports (gs ! j))" "pg_ok (gs ! j)"
    "group_ok ?rx P R j (gs ! j)" if "j \<in> {r, t}" for j
    using repD(2,4,5) [OF rep, of j] that rt pair(1) p by (auto simp: group_ok_def)
  obtain a where a: "up_group p (gs ! r) = Some a" "run_ports (running_ports (gs ! r) @ [p]) (gs ! r) a"
    using up_group_ok [of "gs ! r" p] in_rt [of r] by auto
  obtain b where b: "up_group p (gs ! t) = Some b" "run_ports (running_ports (gs ! t) @ [p]) (gs ! t) b"
    using up_group_ok [of "gs ! t" p] in_rt [of t] by auto
  define m1 where "m1 = set_group (of_nat r) a (?m0\<lparr>port_up := (port_up m)(p := True)\<rparr>)"
  define m2 where "m2 = unlock (set_group (of_nat t) b m1)"
  let ?g1 = "gs[r := a]" and ?g2 = "gs[r := a, t := b]"
  have h1: "has_groups m1 ?g1" unfolding m1_def by (rule has_groups_set) (use h0 rt in simp_all)
  have h2: "has_groups m2 ?g2" unfolding m2_def using has_groups_set [OF h1, of t b] rt by simp
  have ty: "pg_type a = PG_RX" "pg_type b = PG_TX" using a(2) b(2) in_rt(4) [of r] in_rt(4) [of t] pair
    by (simp_all add: run_ports_def group_ok_def)
  have "for_groups (up_body p) 0 (False, False) ?m0 = for_groups (up_body p) r (False, False) ?m0"
    by (rule for_groups_skip [OF h0]) (use rt skip in auto)
  also have "\<dots> = for_groups (up_body p) (r + 1) (True, False) m1"
    using for_groups_step [OF h0 rt(3), of "up_body p"] in_rt(1,2) [of r] a(1) ty(1)
    by (simp add: up_body_def took_def m1_def Let_def)
  also have "\<dots> = for_groups (up_body p) t (True, False) m1"
    by (rule for_groups_skip [OF h1]) (use rt skip in auto)
  also have "\<dots> = Some (Inr ROFL_SUCCESS, m2)"
    using for_groups_step [OF h1, of t "up_body p"] rt in_rt(1,2) [of t] b(1) ty(2)
    by (simp add: up_body_def took_def m2_def Let_def)
  finally have "bring_port_up p m = Some (ROFL_SUCCESS, m2)" using mu by (simp add: bring_port_up_def lock_def)
  moreover have c: "same_counters m m2" "\<not> mutex m2" "port_up m2 = (port_up m)(p := True)"
    by (simp_all add: same_counters_def m2_def m1_def unlock_def)
  moreover have "rep m2 ?g2 P (insert p R)"
  proof (rule rep_groups [OF rep c(1) h2])
    fix i
    assume i: "i < length gs"
    show "group_ok ?rx P (insert p R) i (?g2 ! i)"
    proof (cases "i \<in> {r, t}")
      case False
      then have "?g2 ! i = gs ! i" by simp
      moreover have "group_ok ?rx P (insert p R) i (gs ! i)"
        by (rule group_ok_other [OF repD(2) [OF rep i]]) (use False pair(1) in auto)
      ultimately show ?thesis by simp
    next
      case True
      then have g: "group_ok ?rx P R i (gs ! i)" using in_rt(4) by blast
      have "set (running_ports (gs ! i) @ [p]) = {q\<in>insert p R. i \<in> P q}"
        using g True pair(1) by (auto simp: group_ok_def)
      then have ok: "group_ok ?rx P (insert p R) i pg'" if "run_ports (running_ports (gs ! i) @ [p]) (gs ! i) pg'" for pg'
        using group_ok_run [OF g that] by simp
      show ?thesis using True rt a(2) b(2) ok by (auto simp: nth_list_update)
    qed
  qed simp
  ultimately show ?thesis by blast
qed

lemma up_running:
  assumes rep: "rep m gs P R" and pair: "P p = {r, t}" "r < t" and p: "p \<in> R" and mu: "\<not> mutex m"
  shows "bring_port_up p m = Some (ROFL_SUCCESS, m)"
proof -
  let ?m0 = "m\<lparr>mutex := True\<rparr>"
  have r: "r < length gs" using pair repD(3) [OF rep, of _ p] by auto
  have h0: "has_groups ?m0 gs" using repD(1) [OF rep] by simp
  have "for_groups (up_body p) 0 (False, False) ?m0 = for_groups (up_body p) r (False, False) ?m0"
    by (rule for_groups_skip [OF h0]) (use repD(4) [OF rep, of _ p] pair r in \<open>auto simp: up_body_def\<close>)
  also have "\<dots> = Some (Inr ROFL_SUCCESS, unlock ?m0)"
    using for_groups_step [OF h0 r, of "up_body p"] repD(4,5) [OF rep r, of p] pair(1) p by (simp add: up_body_def)
  finally show ?thesis using mu by (simp add: bring_port_up_def lock_def unlock_def)
qed

lemma up_absent:
  assumes rep: "rep m gs P R" and pair: "P p = {}" and mu: "\<not> mutex m"
  shows "bring_port_up p m = Some (ROFL_FAILURE, m\<lparr>port_up := (port_up m)(p := True)\<rparr>)"
proof -
  let ?m0 = "m\<lparr>mutex := True\<rparr>"
  have h0: "has_groups ?m0 gs" using repD(1) [OF rep] by simp
  have "for_groups (up_body p) 0 (False, False) ?m0 = for_groups (up_body p) (length gs) (False, False) ?m0"
    by (rule for_groups_skip [OF h0]) (use repD(4) [OF rep, of _ p] pair in \<open>auto simp: up_body_def\<close>)
  also have "\<dots> = Some (Inl (False, False), ?m0)" by (rule for_groups_end [OF h0]) simp
  finally show ?thesis using mu by (simp add: bring_port_up_def lock_def unlock_def)
qed

lemma down_absent:
  assumes rep: "rep m gs P R" and p: "p \<notin> R" and mu: "mutex m = locked"
  shows "bring_port_down p locked m = Some (ROFL_FAILURE, m\<lparr>port_up := (port_up m)(p := False)\<rparr>)"
proof -
  let ?m0 = "m\<lparr>mutex := True\<rparr>"
  have h0: "has_groups ?m0 gs" using repD(1) [OF rep] by simp
  have "for_groups (down_body p locked) 0 (False, False) ?m0 = for_groups (down_body p locked) (length gs) (False, False) ?m0"
    by (rule for_groups_skip [OF h0]) (use repD(5) [OF rep, of _ p] p in \<open>auto simp: down_body_def\<close>)
  also have "\<dots> = Some (Inl (False, False), ?m0)" by (rule for_groups_end [OF h0]) simp
  finally show ?thesis using mu by (cases locked) (simp_all add: bring_port_down_def lock_def unlock_def mutex_held)
qed

lemma down_ok:
  assumes rep: "rep m gs P R" and pair: "P p = {r, t}" "r < unat (num_of_rx_groups m)" "unat (num_of_rx_groups m) \<le> t"
    and p: "p \<in> R" and mu: "mutex m = locked"
  shows "\<exists>m' gs'. bring_port_down p locked m = Some (ROFL_SUCCESS, m') \<and> rep m' gs' P (R - {p}) \<and> mutex m' = locked \<and>
     same_counters m m' \<and> port_up m' = (port_up m)(p := False)"
proof -
  let ?rx = "unat (num_of_rx_groups m)" and ?m0 = "m\<lparr>mutex := True\<rparr>"
  have rt: "r < t" "t < length gs" "r < length gs" using pair repD(3) [OF rep, of _ p] by auto
  have h0: "has_groups ?m0 gs" using repD(1) [OF rep] by simp
  have skip: "down_body p locked j (Some (gs ! j)) f m' = Some (Inl f, m')" if "j < length gs" "j \<notin> {r, t}" for j f m'
    using repD(5) [OF rep that(1), of p] that(2) pair(1) by (simp add: down_body_def)
  have in_rt: "p \<in> set (running_ports (gs ! j))" "pg_ok (gs ! j)" "group_ok ?rx P R j (gs ! j)" if "j \<in> {r, t}" for j
    using repD(2,5) [OF rep, of j] that rt pair(1) p by (auto simp: group_ok_def)
  obtain a where a: "down_group p (gs ! r) = Some a" "run_ports (remove1 p (running_ports (gs ! r))) (gs ! r) a"
    using down_group_ok [of "gs ! r" p] in_rt [of r] by auto
  obtain b where b: "down_group p (gs ! t) = Some b" "run_ports (remove1 p (running_ports (gs ! t))) (gs ! t) b"
    using down_group_ok [of "gs ! t" p] in_rt [of t] by auto
  define m1 where "m1 = set_group (of_nat r) a ?m0"
  define m2 where "m2 = (set_group (of_nat t) b m1)\<lparr>port_up := (port_up m)(p := False), mutex := locked\<rparr>"
  let ?g1 = "gs[r := a]" and ?g2 = "gs[r := a, t := b]"
  have h1: "has_groups m1 ?g1" unfolding m1_def by (rule has_groups_set) (use h0 rt in simp_all)
  have h2: "has_groups m2 ?g2" unfolding m2_def using has_groups_set [OF h1, of t b] rt by simp
  have ty: "pg_type a = PG_RX" "pg_type b = PG_TX" using a(2) b(2) in_rt(3) [of r] in_rt(3) [of t] pair
    by (simp_all add: run_ports_def group_ok_def)
  have "for_groups (down_body p locked) 0 (False, False) ?m0 = for_groups (down_body p locked) r (False, False) ?m0"
    by (rule for_groups_skip [OF h0]) (use rt skip in auto)
  also have "\<dots> = for_groups (down_body p locked) (r + 1) (True, False) m1"
    using for_groups_step [OF h0 rt(3), of "down_body p locked"] in_rt(1) [of r] a(1) ty(1)
    by (simp add: down_body_def took_def m1_def Let_def)
  also have "\<dots> = for_groups (down_body p locked) t (True, False) m1"
    by (rule for_groups_skip [OF h1]) (use rt skip in auto)
  also have "\<dots> = Some (Inr ROFL_SUCCESS, m2)"
    using for_groups_step [OF h1, of t "down_body p locked"] rt in_rt(1) [of t] b(1) ty(2)
    by (simp add: down_body_def took_def m2_def m1_def Let_def unlock_def set_group_def)
  finally have "bring_port_down p locked m = Some (ROFL_SUCCESS, m2)"
    using mu by (cases locked) (simp_all add: bring_port_down_def lock_def mutex_held)
  moreover have c: "same_counters m m2" "mutex m2 = locked" "port_up m2 = (port_up m)(p := False)"
    by (simp_all add: same_counters_def m2_def m1_def)
  moreover have "rep m2 ?g2 P (R - {p})"
  proof (rule rep_groups [OF rep c(1) h2])
    fix i
    assume i: "i < length gs"
    show "group_ok ?rx P (R - {p}) i (?g2 ! i)"
    proof (cases "i \<in> {r, t}")
      case False
      then have "?g2 ! i = gs ! i" by simp
      moreover have "group_ok ?rx P (R - {p}) i (gs ! i)"
        by (rule group_ok_other [OF repD(2) [OF rep i]]) (use False pair(1) in auto)
      ultimately show ?thesis by simp
    next
      case True
      then have g: "group_ok ?rx P R i (gs ! i)" using in_rt(3) by blast
      have "distinct (running_ports (gs ! i))" using in_rt(2) True by (auto simp: pg_ok_def)
      then have "set (remove1 p (running_ports (gs ! i))) = {q\<in>R - {p}. i \<in> P q}"
        using g True pair(1) by (auto simp: group_ok_def)
      then have ok: "group_ok ?rx P (R - {p}) i pg'" if "run_ports (remove1 p (running_ports (gs ! i))) (gs ! i) pg'" for pg'
        using group_ok_run [OF g that] by simp
      show ?thesis using True rt a(2) b(2) ok by (auto simp: nth_list_update)
    qed
  qed simp
  ultimately show ?thesis by blast
qed

lemma rep_changed:
  assumes rep: "rep m gs P R" and g: "g < length gs" and p: "p \<notin> R"
    and other: "\<And>i. i \<noteq> g \<Longrightarrow> i \<in> P' \<longleftrightarrow> i \<in> P p"
    and ps: "distinct ps" "set ps = {q. g \<in> (P(p := P')) q}"
    and m': "same_counters m m'" "has_groups m' (gs[g := (gs ! g)\<lparr>ports := ps\<rparr>])"
  shows "rep m' (gs[g := (gs ! g)\<lparr>ports := ps\<rparr>]) (P(p := P')) R"
proof -
  let ?rx = "unat (num_of_rx_groups m)"
  have "group_ok ?rx (P(p := P')) R i (gs[g := (gs ! g)\<lparr>ports := ps\<rparr>] ! i)" if i: "i < length gs" for i
  proof (cases "i = g")
    case True
    have ok: "group_ok ?rx P R g (gs ! g)" using repD(2) [OF rep g] .
    have "set (running_ports (gs ! g)) \<subseteq> set ps" using ok p ps(2) by (auto simp: group_ok_def)
    then show ?thesis using ok ps True i p by (auto simp: group_ok_def pg_ok_def synced_def)
  next
    case False
    then show ?thesis using repD(2) [OF rep i] p other [of i] i by (auto simp: group_ok_def split: if_splits)
  qed
  moreover have "\<forall>i\<in>P'. i < length gs" using repD(3) [OF rep, of _ p] other g by metis
  ultimately show ?thesis using rep m' unfolding rep_def same_counters_def by auto
qed

lemma ucast_group: "n < 2 ^ 16 \<Longrightarrow> (ucast (of_nat n :: u32) :: u16) = of_nat n"
  by (simp add: unsigned_of_nat take_bit_nat_eq_self)

lemma rep_small: "rep m gs P R \<Longrightarrow> length gs < 2 ^ 16"
  by (simp add: rep_def has_groups_def)

lemma for_groups_find:
  assumes h: "has_groups m gs" and b: "\<And>j s m'. j < length gs \<Longrightarrow> body j (Some (gs ! j)) s m' =
      (if C j then Some (Inr (f j), m') else Some (Inl s, m'))"
  shows "for_groups body 0 s m = Some (if \<exists>j<length gs. C j then Inr (f (LEAST j. C j)) else Inl s, m)"
proof (cases "\<exists>j<length gs. C j")
  case False
  then have "for_groups body 0 s m = for_groups body (length gs) s m" by (intro for_groups_skip [OF h]) (auto simp: b)
  then show ?thesis using for_groups_end [OF h, of "length gs" body s] False by simp
next
  case True
  obtain j where j: "j < length gs" "C j" using True by blast
  define l where "l = (LEAST j. C j)"
  have l: "C l" "l < length gs" using LeastI [of C, OF j(2)] Least_le [of C, OF j(2)] j(1) by (simp_all add: l_def)
  have "body k (Some (gs ! k)) s m = Some (Inl s, m)" if "k < l" for k
    using b [of k s m] that l(2) not_less_Least [of k C] by (simp add: l_def)
  then have "for_groups body 0 s m = for_groups body l s m" using l(2) by (intro for_groups_skip [OF h]) simp_all
  then show ?thesis using for_groups_step [OF h l(2), of body] b [OF l(2)] l(1) True by (simp add: l_def [symmetric])
qed

lemma add_to_group_ok:
  assumes rep: "rep m gs P R" and g: "g < length gs" and mu: "\<not> mutex m"
  shows "(\<exists>i\<in>P p. (i < unat (num_of_rx_groups m)) = (g < unat (num_of_rx_groups m))) \<longrightarrow>
      add_port_to_group K (of_nat g) p m = (if NDEBUG K then Some (ROFL_FAILURE, m) else None)"
    and "p \<notin> R \<Longrightarrow> \<not> (\<exists>i\<in>P p. (i < unat (num_of_rx_groups m)) = (g < unat (num_of_rx_groups m))) \<Longrightarrow>
      \<exists>m' gs'. add_port_to_group K (of_nat g) p m = Some (ROFL_SUCCESS, m') \<and> rep m' gs' (P(p := insert g (P p))) R \<and>
        \<not> mutex m' \<and> same_counters m m' \<and> port_up m' = port_up m"
proof -
  let ?rx = "unat (num_of_rx_groups m)" and ?m0 = "m\<lparr>mutex := True\<rparr>" and ?pg = "gs ! g"
  let ?C = "\<lambda>j. p \<in> set (ports (gs ! j)) \<and> pg_type (gs ! j) = pg_type ?pg"
  have h0: "has_groups ?m0 gs" using repD(1) [OF rep] by simp
  have C: "?C j \<longleftrightarrow> j \<in> P p \<and> (j < ?rx) = (g < ?rx)" if "j < length gs" for j
    using repD(2) [OF rep that] repD(2) [OF rep g] by (auto simp: group_ok_def)
  have "(\<exists>j<length gs. ?C j) \<longleftrightarrow> (\<exists>i\<in>P p. (i < ?rx) = (g < ?rx))" using C repD(3) [OF rep, of _ p] by blast
  then have loop: "for_groups (twice_body p (pg_type ?pg)) 0 () ?m0 =
      Some (if \<exists>i\<in>P p. (i < ?rx) = (g < ?rx) then Inr () else Inl (), ?m0)"
    using for_groups_find [OF h0, of "twice_body p (pg_type ?pg)" ?C "\<lambda>_. ()" "()"] by (simp add: twice_body_def)
  have at: "at_group (ucast (of_nat g :: u32)) ?m0 = (Some ?pg, ?m0)"
    unfolding ucast_group [OF less_trans [OF g rep_small [OF rep]]] by (rule at_group_has [OF h0 g])
  have m: "unlock ?m0 = m" using mu by (simp add: unlock_def)
  show "(\<exists>i\<in>P p. (i < ?rx) = (g < ?rx)) \<longrightarrow>
      add_port_to_group K (of_nat g) p m = (if NDEBUG K then Some (ROFL_FAILURE, m) else None)"
    using mu at loop m by (simp add: add_port_to_group_def lock_def c_assert_def)
  show "\<exists>m' gs'. add_port_to_group K (of_nat g) p m = Some (ROFL_SUCCESS, m') \<and> rep m' gs' (P(p := insert g (P p))) R \<and>
        \<not> mutex m' \<and> same_counters m m' \<and> port_up m' = port_up m"
    if p: "p \<notin> R" and new: "\<not> (\<exists>i\<in>P p. (i < ?rx) = (g < ?rx))"
  proof -
    let ?pg' = "?pg\<lparr>ports := ports ?pg @ [p]\<rparr>"
    let ?m' = "unlock (set_group (of_nat g) ?pg' ?m0)"
    have gP: "g \<notin> P p" using new by blast
    have "add_port_to_group K (of_nat g) p m = Some (ROFL_SUCCESS, ?m')"
      using mu at loop new ucast_group [OF less_trans [OF g rep_small [OF rep]]]
      by (simp add: add_port_to_group_def lock_def push_back_def)
    moreover have "rep ?m' (gs[g := ?pg']) (P(p := insert g (P p))) R"
    proof (rule rep_changed [OF rep g p])
      show "distinct (ports ?pg @ [p])" "set (ports ?pg @ [p]) = {q. g \<in> (P(p := insert g (P p))) q}"
        using repD(2) [OF rep g] gP by (auto simp: group_ok_def pg_ok_def)
      show "has_groups ?m' (gs[g := ?pg'])" using has_groups_set [OF h0 g] by simp
    qed (auto simp: same_counters_def unlock_def)
    ultimately show ?thesis by (intro exI [of _ ?m'] exI [of _ "gs[g := ?pg']"]) (simp add: same_counters_def unlock_def)
  qed
qed

lemma sint_group: "n < 2 ^ 16 \<Longrightarrow> sint (of_nat n :: u32) = int n"
proof -
  assume n: "n < 2 ^ 16"
  have "sint (of_nat n :: u32) = signed_take_bit 31 (int n)" by transfer simp
  also have "\<dots> = int n" using n by (intro signed_take_bit_int_eq_self) simp_all
  finally show ?thesis .
qed

lemma find_ok:
  assumes rep: "rep m gs P R" and S: "{i\<in>P p. (i < unat (num_of_rx_groups m)) = (t = PG_RX)} = S"
  shows "S = {} \<Longrightarrow> get_group_id_by_port p t m = Some (-1, m)"
    and "S = {g} \<Longrightarrow> get_group_id_by_port p t m = Some (int g, m)"
proof -
  let ?rx = "unat (num_of_rx_groups m)"
  let ?C = "\<lambda>j. \<not> (pg_type (gs ! j) \<noteq> t \<or> p \<notin> set (ports (gs ! j))) \<and> j < length gs"
  have C: "?C j \<longleftrightarrow> j \<in> S" for j
    using repD(2,4) [OF rep, of j] repD(3) [OF rep, of j p] unfolding S [symmetric] 
    by (cases t) (auto simp: group_ok_def split: if_splits)
  have "for_groups (find_body p t) 0 () m =
      Some (if \<exists>j<length gs. ?C j then Inr (sint (pg_id (gs ! (LEAST j. ?C j)))) else Inl (), m)"
    by (rule for_groups_find [OF repD(1) [OF rep]]) (auto simp: find_body_def)
  then have loop: "for_groups (find_body p t) 0 () m =
      Some (if S = {} then Inl () else Inr (sint (pg_id (gs ! (LEAST j. j \<in> S)))), m)"
    unfolding C using C by auto
  show "S = {} \<Longrightarrow> get_group_id_by_port p t m = Some (-1, m)" using loop by (simp add: get_group_id_by_port_def)
  show "get_group_id_by_port p t m = Some (int g, m)" if "S = {g}"
  proof -
    have g: "g < length gs" using C [of g] that by simp
    then have "pg_id (gs ! g) = of_nat g" using repD(2) [OF rep g] by (simp add: group_ok_def)
    moreover have "(LEAST j. j \<in> S) = g" using that by (intro Least_equality) auto
    ultimately show ?thesis using loop that sint_group [of g] g rep_small [OF rep] by (simp add: get_group_id_by_port_def)
  qed
qed

lemma remove_from_group_ok:
  assumes rep: "rep m gs P R" and g: "g \<in> P p" and mu: "mutex m = locked"
    and run: "p \<in> R \<Longrightarrow> \<exists>r t. r < unat (num_of_rx_groups m) \<and> unat (num_of_rx_groups m) \<le> t \<and> P p = {r, t}"
  shows "\<exists>m' gs'. remove_port_from_group K (of_nat g) p locked m = Some (ROFL_SUCCESS, m') \<and>
    rep m' gs' (P(p := P p - {g})) (R - {p}) \<and> mutex m' = locked \<and> same_counters m m' \<and> port_up m' = (port_up m)(p := False)"
proof -
  let ?m0 = "m\<lparr>mutex := True\<rparr>"
  have gl: "g < length gs" using repD(3) [OF rep g] .
  have rep0: "rep ?m0 gs P R" using rep by (simp add: rep_def)
  obtain r m1 gs1 where d: "bring_port_down p True ?m0 = Some (r, m1)" "rep m1 gs1 P (R - {p})" "mutex m1" "same_counters m m1"
    "port_up m1 = (port_up m)(p := False)"
  proof (cases "p \<in> R")
    case False
    have "rep (?m0\<lparr>port_up := (port_up m)(p := False)\<rparr>) gs P (R - {p})" using rep False by (simp add: rep_def)
    then show thesis using that [of ROFL_FAILURE "?m0\<lparr>port_up := (port_up m)(p := False)\<rparr>" gs] down_absent [OF rep0 False, of True]
      by (simp add: same_counters_def)
  next
    case True
    then obtain r t where "P p = {r, t}" "r < unat (num_of_rx_groups ?m0)" "unat (num_of_rx_groups ?m0) \<le> t" using run by auto
    from down_ok [OF rep0 this True, of True]
    obtain m1 gs1 where "bring_port_down p True ?m0 = Some (ROFL_SUCCESS, m1)" "rep m1 gs1 P (R - {p})" "mutex m1"
      "same_counters ?m0 m1" "port_up m1 = (port_up m)(p := False)" by auto
    then show thesis using that by (simp add: same_counters_def)
  qed
  have g1: "g < length gs1" using repD(3) [OF d(2) g] .
  let ?pg = "gs1 ! g"
  let ?pg' = "?pg\<lparr>ports := remove1 p (ports ?pg)\<rparr>"
  let ?m' = "(set_group (of_nat g) ?pg' m1)\<lparr>mutex := locked\<rparr>"
  have key: "(ucast (of_nat g :: u32) :: u16) = of_nat g"
    by (rule ucast_group [OF less_trans [OF g1 rep_small [OF d(2)]]])
  have at: "at_group (of_nat g) ?m0 = (Some (gs ! g), ?m0)" "at_group (of_nat g) m1 = (Some ?pg, m1)"
    using at_group_has [OF repD(1) [OF rep0] gl] at_group_has [OF repD(1) [OF d(2)] g1] by simp_all
  have in_g: "p \<in> set (ports (gs ! g))" using repD(4) [OF rep gl] g by simp
  have dist: "distinct (ports ?pg)" using repD(2) [OF d(2) g1] by (simp add: group_ok_def pg_ok_def)
  have "remove_port_from_group K (of_nat g) p locked m = Some (ROFL_SUCCESS, ?m')"
    using mu key at in_g d(1,3) dist
    by (cases locked) (simp_all add: remove_port_from_group_def lock_def unlock_def mutex_held erase_distinct set_group_def)
  moreover have "rep ?m' (gs1[g := ?pg']) (P(p := P p - {g})) (R - {p})"
  proof (rule rep_changed [OF d(2) g1])
    show "set (remove1 p (ports ?pg)) = {q. g \<in> (P(p := P p - {g})) q}"
      using repD(2) [OF d(2) g1] dist by (auto simp: group_ok_def)
    show "has_groups ?m' (gs1[g := ?pg'])" using has_groups_set [OF repD(1) [OF d(2)] g1] by simp
  qed (use dist in \<open>auto simp: same_counters_def\<close>)
  ultimately show ?thesis using d(4,5)
    by (intro exI [of _ ?m'] exI [of _ "gs1[g := ?pg']"]) (simp add: same_counters_def)
qed

end
