(* ===== verification/Io_Refinement.thy ===== *)
theory Io_Refinement
  imports Iomanager
begin

text \<open>
  What the I/O manager promises: the sets of the attached and of the running ports and the result of every
  operation on them; the refinement of this specification by the groups, threads and semaphores of
  \<open>Iomanager\<close>, from \<open>init\<close> on and for any sequence of operations; and which threads serve a port.
\<close>

section \<open>Specification\<close>

datatype io_op = Add io_port | Remove io_port | Up io_port | Down io_port

text \<open>\<open>A\<close> are the attached, \<open>R\<close> the running ports; a misuse ends in an assertion.\<close>

fun spec_op :: "rofl \<Rightarrow> io_op \<Rightarrow> io_port set \<times> io_port set \<Rightarrow> (rofl_result \<times> (io_port set \<times> io_port set)) option" where
  "spec_op K (Add p) (A, R) =
     (if p \<in> A then do { c_assert K False; Some (ROFL_FAILURE, (A, R)) } else Some (ROFL_SUCCESS, (insert p A, R)))"
| "spec_op K (Remove p) (A, R) =
     (if p \<in> A then Some (ROFL_SUCCESS, (A - {p}, R - {p})) else do { c_assert K False; Some (ROFL_FAILURE, (A, R)) })"
| "spec_op K (Up p) (A, R) = (if p \<in> A then Some (ROFL_SUCCESS, (A, insert p R)) else Some (ROFL_FAILURE, (A, R)))"
| "spec_op K (Down p) (A, R) = (if p \<in> R then Some (ROFL_SUCCESS, (A, R - {p})) else Some (ROFL_FAILURE, (A, R)))"

primrec io_do :: "rofl \<Rightarrow> io_op \<Rightarrow> iomanager \<Rightarrow> (rofl_result \<times> iomanager) option" where
  "io_do K (Add p) m = add_port K p m"
| "io_do K (Remove p) m = remove_port K p m"
| "io_do K (Up p) m = bring_port_up p m"
| "io_do K (Down p) m = bring_port_down p False m"

text \<open>A sequence of operations, with their results.\<close>

primrec runs :: "('o \<Rightarrow> 's \<Rightarrow> ('r \<times> 's) option) \<Rightarrow> 'o list \<Rightarrow> 's \<Rightarrow> ('r list \<times> 's) option" where
  "runs f [] s = Some ([], s)"
| "runs f (op # ops) s = do { (r, s) \<leftarrow> f op s; (rs, s) \<leftarrow> runs f ops s; Some (r # rs, s) }"

definition attached :: "iomanager \<Rightarrow> io_port set" where
  "attached m = {p. \<exists>k pg. (k, Some pg) \<in> set (portgroups m) \<and> p \<in> set (ports pg)}"

definition running :: "iomanager \<Rightarrow> io_port set" where
  "running m = {p. \<exists>k pg. (k, Some pg) \<in> set (portgroups m) \<and> p \<in> set (running_ports pg)}"

text \<open>The number of threads of groups of type \<open>t\<close> that have a port in their epoll set, so that they handle its events.\<close>

definition workers_of :: "pg_type_t \<Rightarrow> io_port \<Rightarrow> portgroup_state option \<Rightarrow> nat" where
  "workers_of t p pgo =
     (case pgo of
        None \<Rightarrow> 0
      | Some pg \<Rightarrow>
          if pg_type pg = t then length (filter (\<lambda>th. started th \<and> p \<in> snd ` set (working th)) (thread_state pg)) else 0)"

definition workers :: "iomanager \<Rightarrow> pg_type_t \<Rightarrow> io_port \<Rightarrow> nat" where
  "workers m t p = (\<Sum>(k, pgo)\<leftarrow>portgroups m. workers_of t p pgo)"

section \<open>One operation\<close>

text \<open>\<open>A\<close> are the attached ports.\<close>

definition implements :: "iomanager \<Rightarrow> io_port set \<times> io_port set \<Rightarrow> bool" where
  "implements m s \<longleftrightarrow> (\<exists>P. io_ok m P (snd s) \<and> fst s = {p. P p \<noteq> {}})"

lemma implementsD:
  assumes "implements m (A, R)"
  obtains P gs where "rep m gs P R" "\<not> mutex m" "paired (unat (num_of_rx_groups m)) P" "A = {p. P p \<noteq> {}}" "R \<subseteq> A"
  using assms by (auto simp: implements_def io_ok_def)

lemma implementsI:
  "rep m gs P R \<Longrightarrow> \<not> mutex m \<Longrightarrow> paired (unat (num_of_rx_groups m)) P \<Longrightarrow> A = {p. P p \<noteq> {}} \<Longrightarrow> R \<subseteq> A \<Longrightarrow> implements m (A, R)"
  by (auto simp: implements_def io_ok_def)

lemma paired_cases:
  assumes "paired rx P" "P p \<noteq> {}"
  obtains r t where "r < rx" "rx \<le> t" "P p = {r, t}"
  using assms unfolding paired_def by blast

lemma paired_running: "paired rx P \<Longrightarrow> P p \<noteq> {} \<Longrightarrow> \<exists>r t. r < rx \<and> rx \<le> t \<and> P p = {r, t}"
  unfolding paired_def by blast

lemma paired_upd: "paired rx P \<Longrightarrow> S = {} \<or> (\<exists>r t. r < rx \<and> rx \<le> t \<and> S = {r, t}) \<Longrightarrow> paired rx (P(p := S))"
  by (simp add: paired_def)

lemma rep_same: "rep m gs P R \<Longrightarrow> portgroups m' = portgroups m \<Longrightarrow> same_counters m m' \<Longrightarrow> rep m' gs P R"
  by (simp add: rep_def same_counters_def has_groups_def)

lemma rx_sched_ok:
  assumes "rep m gs P R"
  obtains g m' where "rx_sched m = Some (of_nat g, m')" "g < unat (num_of_rx_groups m)" "rep m' gs P R" "mutex m' = mutex m"
    "num_of_rx_groups m' = num_of_rx_groups m" "g < length gs" "num_of_tx_groups m' = num_of_tx_groups m"
proof
  let ?m' = "m\<lparr>next_rx_sched_grp_id := (next_rx_sched_grp_id m + 1) mod num_of_rx_groups m\<rparr>"
  let ?g = "unat (next_rx_sched_grp_id m)"
  have lt: "next_rx_sched_grp_id m < num_of_rx_groups m" using assms by (simp add: rep_def)
  then show "rx_sched m = Some (of_nat ?g, ?m')" by (auto simp: rx_sched_def)
  show "?g < unat (num_of_rx_groups m)" using lt by (simp add: word_less_nat_alt)
  then show "?g < length gs" using assms unfolding rep_def by linarith
  have "(next_rx_sched_grp_id m + 1) mod num_of_rx_groups m < num_of_rx_groups m" using lt
    by (intro word_mod_less_divisor) (simp add: word_less_nat_alt)
  then show "rep ?m' gs P R" using assms by (simp add: rep_def)
qed simp_all

lemma tx_sched_ok:
  assumes "rep m gs P R"
  obtains g m' where "tx_sched m = Some (of_nat g, m')" "unat (num_of_rx_groups m) \<le> g" "g < length gs" "rep m' gs P R"
    "mutex m' = mutex m" "num_of_rx_groups m' = num_of_rx_groups m"
proof
  let ?m' = "m\<lparr>next_tx_sched_grp_id := (next_tx_sched_grp_id m + 1) mod num_of_tx_groups m\<rparr>"
  let ?g = "unat (next_tx_sched_grp_id m) + unat (num_of_rx_groups m)"
  have lt: "next_tx_sched_grp_id m < num_of_tx_groups m" using assms by (simp add: rep_def)
  then show "tx_sched m = Some (of_nat ?g, ?m')" by (auto simp: tx_sched_def)
  show "unat (num_of_rx_groups m) \<le> ?g" by simp
  have "unat (next_tx_sched_grp_id m) < unat (num_of_tx_groups m)" using lt by (simp add: word_less_nat_alt)
  then show "?g < length gs" using assms unfolding rep_def by linarith
  have "(next_tx_sched_grp_id m + 1) mod num_of_tx_groups m < num_of_tx_groups m" using lt
    by (intro word_mod_less_divisor) (simp add: word_less_nat_alt)
  then show "rep ?m' gs P R" using assms by (simp add: rep_def)
qed simp_all

lemma add_refines:
  assumes imp: "implements m (A, R)"
  shows "case spec_op K (Add p) (A, R) of
      None \<Rightarrow> add_port K p m = None
    | Some (r, s) \<Rightarrow> \<exists>m'. add_port K p m = Some (r, m') \<and> implements m' s"
proof -
  from imp obtain P gs where rep: "rep m gs P R" and mu: "\<not> mutex m" and pair: "paired (unat (num_of_rx_groups m)) P"
    and A: "A = {p. P p \<noteq> {}}" and R: "R \<subseteq> A" by (rule implementsD)
  let ?rx = "unat (num_of_rx_groups m)"
  let ?m0 = "m\<lparr>mutex := True\<rparr>"
  have rep0: "rep ?m0 gs P R" using rep by (simp add: rep_def)
  obtain g m1 where g: "rx_sched ?m0 = Some (of_nat g, m1)" "g < ?rx" "rep m1 gs P R" "num_of_rx_groups m1 = num_of_rx_groups m"
    "g < length gs" using rx_sched_ok [OF rep0, simplified] by blast
  have rep1: "rep (unlock m1) gs P R" and mu1: "\<not> mutex (unlock m1)" using g(3) by (simp_all add: rep_def unlock_def)
  have rx1: "num_of_rx_groups (unlock m1) = num_of_rx_groups m" using g(4) by (simp add: unlock_def)
  note add1 = add_to_group_ok [OF rep1 g(5) mu1, of p K, unfolded rx1]
  show ?thesis
  proof (cases "p \<in> A")
    case True
    then obtain r t where "r < ?rx" "?rx \<le> t" "P p = {r, t}" using A pair paired_cases by blast
    then have "\<exists>i\<in>P p. (i < ?rx) = (g < ?rx)" using g(2) by auto
    then have "add_port K p m = (if NDEBUG K then Some (ROFL_FAILURE, unlock m1) else None)"
      using add1(1) mu g(1) by (simp add: add_port_def lock_def c_assert_def)
    moreover have "implements (unlock m1) (A, R)"
      by (rule implementsI [OF rep1 mu1 _ A R]) (use pair rx1 in simp)
    ultimately show ?thesis using True by (auto simp: c_assert_def)
  next
    case False
    then have e: "P p = {}" and nR: "p \<notin> R" using A R by auto
    obtain m2 gs2 where a: "add_port_to_group K (of_nat g) p (unlock m1) = Some (ROFL_SUCCESS, m2)"
      "rep m2 gs2 (P(p := {g})) R" "\<not> mutex m2" "same_counters (unlock m1) m2"
      using add1(2) nR e by auto
    let ?m3 = "m2\<lparr>mutex := True\<rparr>"
    have rep3: "rep ?m3 gs2 (P(p := {g})) R" using a(2) by (simp add: rep_def)
    have rx2: "num_of_rx_groups m2 = num_of_rx_groups m" using a(4) rx1 by (simp add: same_counters_def)
    obtain t m4 where t: "tx_sched ?m3 = Some (of_nat t, m4)" "?rx \<le> t" "t < length gs2" "rep m4 gs2 (P(p := {g})) R"
      "num_of_rx_groups m4 = num_of_rx_groups m" using tx_sched_ok [OF rep3, simplified rx2, simplified] by (metis rx2)
    have rep4: "rep (unlock m4) gs2 (P(p := {g})) R" and mu4: "\<not> mutex (unlock m4)" using t(4) by (simp_all add: rep_def unlock_def)
    have rx4: "num_of_rx_groups (unlock m4) = num_of_rx_groups m" using t(5) by (simp add: unlock_def)
    have "\<not> (\<exists>i\<in>(P(p := {g})) p. (i < ?rx) = (t < ?rx))" using g(2) t(2) by simp
    then obtain m5 gs5 where b: "add_port_to_group K (of_nat t) p (unlock m4) = Some (ROFL_SUCCESS, m5)"
      "rep m5 gs5 (P(p := {t, g})) R" "\<not> mutex m5" "same_counters (unlock m4) m5"
      using add_to_group_ok(2) [OF rep4 t(3) mu4 nR, of K, unfolded rx4] by auto
    have "add_port K p m = Some (ROFL_SUCCESS, m5)" using mu g(1) a(1,3) t(1) b(1) by (simp add: add_port_def lock_def)
    moreover have "implements m5 (insert p A, R)"
    proof (rule implementsI [OF b(2,3)])
      have "num_of_rx_groups m5 = num_of_rx_groups m" using b(4) rx4 by (simp add: same_counters_def)
      then show "paired (unat (num_of_rx_groups m5)) (P(p := {t, g}))" using pair g(2) t(2) by (auto intro!: paired_upd)
    qed (use A R in auto)
    ultimately show ?thesis using False by simp
  qed
qed

lemma remove_refines:
  assumes imp: "implements m (A, R)"
  shows "case spec_op K (Remove p) (A, R) of
      None \<Rightarrow> remove_port K p m = None
    | Some (r, s) \<Rightarrow> \<exists>m'. remove_port K p m = Some (r, m') \<and> implements m' s"
proof -
  from imp obtain P gs where rep: "rep m gs P R" and mu: "\<not> mutex m" and pair: "paired (unat (num_of_rx_groups m)) P"
    and A: "A = {p. P p \<noteq> {}}" and R: "R \<subseteq> A" by (rule implementsD)
  let ?rx = "unat (num_of_rx_groups m)"
  show ?thesis
  proof (cases "p \<in> A")
    case False
    then have "{i\<in>P p. (i < ?rx) = (PG_RX = PG_RX)} = {}" using A by simp
    then have "get_group_id_by_port p PG_RX m = Some (-1, m)" using find_ok(1) [OF rep] by blast
    then show ?thesis using False imp by (simp add: remove_port_def c_assert_def)
  next
    case True
    then obtain r t where P: "r < ?rx" "?rx \<le> t" "P p = {r, t}" using A pair paired_cases by blast
    have "get_group_id_by_port p PG_RX m = Some (int r, m)" by (rule find_ok(2) [OF rep refl]) (use P in auto)
    moreover obtain m1 gs1 where a: "remove_port_from_group K (of_nat r) p False m = Some (ROFL_SUCCESS, m1)"
      "rep m1 gs1 (P(p := P p - {r})) (R - {p})" "\<not> mutex m1" "same_counters m m1"
      using remove_from_group_ok [OF rep, of r p False K] P mu by auto
    moreover have rx1: "num_of_rx_groups m1 = num_of_rx_groups m" using a(4) by (simp add: same_counters_def)
    moreover have "get_group_id_by_port p PG_TX m1 = Some (int t, m1)"
      by (rule find_ok(2) [OF a(2) refl]) (use P rx1 in auto)
    moreover obtain m2 gs2 where b: "remove_port_from_group K (of_nat t) p False m1 = Some (ROFL_SUCCESS, m2)"
      "rep m2 gs2 ((P(p := P p - {r}))(p := (P(p := P p - {r})) p - {t})) (R - {p} - {p})" "\<not> mutex m2" "same_counters m1 m2"
      using remove_from_group_ok [OF a(2), of t p False K] P a(3) by auto
    ultimately have "remove_port K p m = Some (ROFL_SUCCESS, m2)" by (simp add: remove_port_def)
    moreover have "implements m2 (A - {p}, R - {p})"
    proof (rule implementsI [where P = "P(p := {})"])
      have "(P(p := P p - {r}))(p := (P(p := P p - {r})) p - {t}) = P(p := {})" using P by auto
      then show "rep m2 gs2 (P(p := {})) (R - {p})" using b(2) by simp
      show "paired (unat (num_of_rx_groups m2)) (P(p := {}))" using pair rx1 b(4) by (simp add: same_counters_def paired_upd)
    qed (use b A R in auto)
    ultimately show ?thesis using True by auto
  qed
qed

lemma up_refines:
  assumes imp: "implements m (A, R)"
  shows "case spec_op K (Up p) (A, R) of
      None \<Rightarrow> bring_port_up p m = None
    | Some (r, s) \<Rightarrow> \<exists>m'. bring_port_up p m = Some (r, m') \<and> implements m' s"
proof -
  from imp obtain P gs where rep: "rep m gs P R" and mu: "\<not> mutex m" and pair: "paired (unat (num_of_rx_groups m)) P"
    and A: "A = {p. P p \<noteq> {}}" and R: "R \<subseteq> A" by (rule implementsD)
  show ?thesis
  proof (cases "p \<in> A")
    case False
    then have e: "P p = {}" using A by simp
    have "implements (m\<lparr>port_up := (port_up m)(p := True)\<rparr>) (A, R)"
      by (rule implementsI [of _ gs P]) (use rep mu pair A R in \<open>simp_all add: rep_def\<close>)
    then show ?thesis using up_absent [OF rep e mu] False by simp
  next
    case True
    then obtain r t where P: "r < unat (num_of_rx_groups m)" "unat (num_of_rx_groups m) \<le> t" "P p = {r, t}"
      using A pair paired_cases by blast
    show ?thesis
    proof (cases "p \<in> R")
      case run: True
      have "r < t" using P by linarith
      then have "bring_port_up p m = Some (ROFL_SUCCESS, m)" using up_running [OF rep P(3) _ run mu] by simp
      then show ?thesis using True run imp by (simp add: insert_absorb)
    next
      case False
      from up_ok [OF rep P(3,1,2) False mu] obtain m' gs' where u: "bring_port_up p m = Some (ROFL_SUCCESS, m')"
        "rep m' gs' P (insert p R)" "\<not> mutex m'" "same_counters m m'" by blast
      have "implements m' (A, insert p R)"
        by (rule implementsI [OF u(2,3) _ A]) (use u(4) pair True R in \<open>simp_all add: same_counters_def\<close>)
      then show ?thesis using u(1) True by simp
    qed
  qed
qed

lemma down_refines:
  assumes imp: "implements m (A, R)"
  shows "case spec_op K (Down p) (A, R) of
      None \<Rightarrow> bring_port_down p False m = None
    | Some (r, s) \<Rightarrow> \<exists>m'. bring_port_down p False m = Some (r, m') \<and> implements m' s"
proof -
  from imp obtain P gs where rep: "rep m gs P R" and mu: "\<not> mutex m" and pair: "paired (unat (num_of_rx_groups m)) P"
    and A: "A = {p. P p \<noteq> {}}" and R: "R \<subseteq> A" by (rule implementsD)
  have mf: "mutex m = False" using mu by simp
  show ?thesis
  proof (cases "p \<in> R")
    case False
    have "implements (m\<lparr>port_up := (port_up m)(p := False)\<rparr>) (A, R)"
      by (rule implementsI [of _ gs P]) (use rep mu pair A R in \<open>simp_all add: rep_def\<close>)
    then show ?thesis using down_absent [OF rep False mf] False by simp
  next
    case True
    then have "p \<in> A" using R by blast
    then obtain r t where P: "r < unat (num_of_rx_groups m)" "unat (num_of_rx_groups m) \<le> t" "P p = {r, t}"
      using A pair paired_cases by blast
    from down_ok [OF rep P(3,1,2) True mf] obtain m' gs' where d: "bring_port_down p False m = Some (ROFL_SUCCESS, m')"
      "rep m' gs' P (R - {p})" "\<not> mutex m'" "same_counters m m'" by blast
    have "implements m' (A, R - {p})"
      by (rule implementsI [OF d(2,3) _ A]) (use d(4) pair R in \<open>auto simp: same_counters_def\<close>)
    then show ?thesis using d(1) True by simp
  qed
qed

section \<open>From \<open>init\<close> on\<close>

text \<open>The manager before \<open>init\<close>, as its static members are initialised.\<close>

definition fresh :: "iomanager \<Rightarrow> bool" where
  "fresh m \<longleftrightarrow> num_of_groups m = 0 \<and> next_rx_sched_grp_id m = 0 \<and> next_tx_sched_grp_id m = 0 \<and> portgroups m = [] \<and> \<not> mutex m"

definition new_group :: "bool \<Rightarrow> pg_type_t \<Rightarrow> nat \<Rightarrow> portgroup_state" where
  "new_group g t i = \<lparr>pg_id = of_nat i, keep_on = g, num_of_threads = DEFAULT_THREADS_PER_PG, thread_state = [],
     sync_sem = 0, pg_type = t, ports = [], running_ports = [], running_hash = 0\<rparr>"

lemma zip_snoc_keys:
  "zip (map of_nat [0..<Suc (length gs)]) (map Some (gs @ [pg])) =
     zip (map of_nat [0..<length gs]) (map Some gs) @ [(of_nat (length gs), Some pg)]"
  by (simp add: zip_append)

lemma update_new: "k \<notin> fst ` set al \<Longrightarrow> AList.update k v al = al @ [(k, v)]"
  by (induction al) auto

lemma create_group_ok:
  assumes "has_groups m gs" and "num_of_groups m = of_nat (length gs)" and "length gs + 1 < 2 ^ 16"
  shows "create_group g t DEFAULT_THREADS_PER_PG True m = Some (int (length gs),
    m\<lparr>portgroups := zip (map of_nat [0..<Suc (length gs)]) (map Some (gs @ [new_group g t (length gs)])),
      num_of_groups := of_nat (Suc (length gs))\<rparr>)"
proof -
  have key: "(ucast (of_nat (length gs) :: u32) :: u16) = of_nat (length gs)" by (rule ucast_group) (use assms(3) in simp)
  have "of_nat (length gs) \<notin> (of_nat ` {0..<length gs} :: u16 set)"
    using distinct_keys [of "Suc (length gs)" 0] assms(3) by simp
  then have "of_nat (length gs) \<notin> fst ` set (portgroups m)" using assms(1) by (force simp: has_groups_def dest: set_zip_leftD)
  then have upd: "AList.update (of_nat (length gs)) v (portgroups m) =
      zip (map of_nat [0..<length gs]) (map Some gs) @ [(of_nat (length gs), v)]" for v
    using update_new assms(1) by (simp add: has_groups_def)
  have "sint (of_nat (length gs) :: u32) = int (length gs)" by (rule sint_group) (use assms(3) in simp)
  then show ?thesis using assms(1,2) key
    by (simp add: create_group_def MAX_THREADS_PER_PORTGROUP_def DEFAULT_THREADS_PER_PG_def set_group_def upd new_group_def
      zip_snoc_keys add.commute del: upt_Suc map_append)
qed

lemma create_groups_ok:
  assumes "has_groups m gs" and "num_of_groups m = of_nat (length gs)" and "length gs + n < 2 ^ 16"
  shows "create_groups g t n m = Some (True,
    m\<lparr>portgroups := zip (map of_nat [0..<length gs + n]) (map Some (gs @ map (new_group g t) [length gs..<length gs + n])),
      num_of_groups := of_nat (length gs + n)\<rparr>)"
  using assms
proof (induction n arbitrary: m gs)
  case 0
  then show ?case by (cases m) (simp add: has_groups_def)
next
  case (Suc n)
  let ?gs = "gs @ [new_group g t (length gs)]"
  let ?m = "m\<lparr>portgroups := zip (map of_nat [0..<Suc (length gs)]) (map Some ?gs), num_of_groups := of_nat (Suc (length gs))\<rparr>"
  have "create_groups g t n ?m = Some (True,
    ?m\<lparr>portgroups := zip (map of_nat [0..<length ?gs + n]) (map Some (?gs @ map (new_group g t) [length ?gs..<length ?gs + n])),
      num_of_groups := of_nat (length ?gs + n)\<rparr>)"
    by (rule Suc.IH) (use Suc.prems in \<open>simp_all add: has_groups_def\<close>)
  moreover have "create_group g t DEFAULT_THREADS_PER_PG True m = Some (int (length gs), ?m)"
    by (rule create_group_ok) (use Suc.prems in simp_all)
  moreover have "?gs @ map (new_group g t) [length ?gs..<length ?gs + n] = gs @ map (new_group g t) [length gs..<length gs + Suc n]"
    using upt_conv_Cons [of "length gs" "length gs + Suc n"] by simp
  ultimately show ?case by (simp del: map_append upt_Suc)
qed

lemma init_ok:
  assumes "fresh m" and "0 < rx" and "0 < tx" and "unat rx + unat tx < 2 ^ 16"
  obtains m' where "io_init K g rx tx m = Some (ROFL_SUCCESS, m')" "implements m' ({}, {})"
proof -
  let ?m0 = "m\<lparr>mutex := True, num_of_rx_groups := rx, num_of_tx_groups := tx\<rparr>"
  let ?a = "map (new_group g PG_RX) [0..<unat rx]"
  let ?b = "?a @ map (new_group g PG_TX) [length ?a..<length ?a + unat tx]"
  let ?m1 = "?m0\<lparr>portgroups := zip (map of_nat [0..<length ?a]) (map Some ?a), num_of_groups := of_nat (length ?a)\<rparr>"
  let ?m2 = "?m1\<lparr>portgroups := zip (map of_nat [0..<length ?b]) (map Some ?b), num_of_groups := of_nat (length ?b)\<rparr>"
  have h0: "has_groups ?m0 []" "num_of_groups ?m0 = of_nat (length [])" using assms(1) by (simp_all add: fresh_def has_groups_def)
  have a: "create_groups g PG_RX (unat rx) ?m0 = Some (True, ?m1)"
    using create_groups_ok [OF h0, of "unat rx" g PG_RX] assms(4) by simp
  have h1: "has_groups ?m1 ?a" "num_of_groups ?m1 = of_nat (length ?a)" using assms(4) by (simp_all add: has_groups_def)
  have b: "create_groups g PG_TX (unat tx) ?m1 = Some (True, ?m2)"
    using create_groups_ok [OF h1, of "unat tx" g PG_TX] assms(4) by simp
  have "rep (unlock ?m2) ?b (\<lambda>p. {}) {}"
    using assms unfolding rep_def
    by (auto simp: has_groups_def unlock_def fresh_def group_ok_def pg_ok_def synced_def new_group_def nth_append)
  then have "implements (unlock ?m2) ({}, {})"
    by (rule implementsI) (simp_all add: unlock_def paired_def)
  moreover have "io_init K g rx tx m = Some (ROFL_SUCCESS, unlock ?m2)"
    using assms(1) a b by (simp add: io_init_def lock_def fresh_def del: map_append)
  ultimately show thesis using that by blast
qed

lemma op_refines:
  assumes "implements m s"
  shows "case spec_op K op s of None \<Rightarrow> io_do K op m = None | Some (r, s') \<Rightarrow> \<exists>m'. io_do K op m = Some (r, m') \<and> implements m' s'"
proof -
  obtain A R where "s = (A, R)" by (cases s)
  then show ?thesis using assms add_refines remove_refines up_refines down_refines
    by (cases op) (simp_all only: io_do.simps)
qed

lemma runs_refine:
  assumes "implements m s"
  shows "case runs (spec_op K) ops s of
      None \<Rightarrow> runs (io_do K) ops m = None
    | Some (rs, s') \<Rightarrow> \<exists>m'. runs (io_do K) ops m = Some (rs, m') \<and> implements m' s'"
  using assms
proof (induction ops arbitrary: m s)
  case Nil
  then show ?case by simp
next
  case (Cons op ops)
  show ?case
  proof (cases "spec_op K op s")
    case None
    then show ?thesis using op_refines [OF Cons.prems, of K op] by simp
  next
    case (Some rs)
    obtain r s' where rs: "rs = (r, s')" by (cases rs)
    then obtain m' where m': "io_do K op m = Some (r, m')" "implements m' s'"
      using op_refines [OF Cons.prems, of K op] Some by auto
    show ?thesis using Cons.IH [OF m'(2)] Some rs m'(1) by (cases "runs (spec_op K) ops s'") auto
  qed
qed

lemma rep_groups_set: "rep m gs P R \<Longrightarrow> snd ` set (portgroups m) = Some ` set gs"
  using image_set [of snd "zip (map of_nat [0..<length gs] :: u16 list) (map Some gs)"] by (simp add: rep_def has_groups_def)

lemma implements_sets:
  assumes "implements m (A, R)"
  shows "attached m = A" "running m = R"
proof -
  from assms obtain P gs where rep: "rep m gs P R" and A: "A = {p. P p \<noteq> {}}" and R: "R \<subseteq> A" by (rule implementsD)
  have g: "(\<exists>k. (k, Some pg) \<in> set (portgroups m)) \<longleftrightarrow> pg \<in> set gs" for pg
  proof -
    have "(\<exists>k. (k, Some pg) \<in> set (portgroups m)) \<longleftrightarrow> Some pg \<in> snd ` set (portgroups m)" by force
    then show ?thesis unfolding rep_groups_set [OF rep] by auto
  qed
  have ex: "(\<exists>pg\<in>set gs. Q pg) \<longleftrightarrow> (\<exists>i<length gs. Q (gs ! i))" for Q by (metis in_set_conv_nth)
  have "p \<in> attached m \<longleftrightarrow> (\<exists>pg\<in>set gs. p \<in> set (ports pg))" for p using g unfolding attached_def by blast
  also have "\<dots> p \<longleftrightarrow> p \<in> A" for p unfolding ex A using repD(3,4) [OF rep, of _ p] by auto
  finally show "attached m = A" by blast
  have "p \<in> running m \<longleftrightarrow> (\<exists>pg\<in>set gs. p \<in> set (running_ports pg))" for p using g unfolding running_def by blast
  also have "\<dots> p \<longleftrightarrow> p \<in> R" for p unfolding ex using repD(3,5) [OF rep, of _ p] R [unfolded A] by blast
  finally show "running m = R" by blast
qed

lemma threads_of_port:
  "pg_ok pg \<Longrightarrow> length (filter (\<lambda>th. started th \<and> p \<in> snd ` set (working th)) (thread_state pg)) =
     (if p \<in> set (running_ports pg) \<and> port_fd (pg_type pg) p \<noteq> -1 then 1 else 0)"
  by (cases "running_ports pg = []") (auto simp: pg_ok_def synced_def DEFAULT_THREADS_PER_PG_def watched_def image_iff)

lemma implements_workers:
  assumes "implements m (A, R)"
  shows "workers m t p = (if p \<in> R \<and> port_fd t p \<noteq> -1 then 1 else 0)"
proof -
  from assms obtain P gs where rep: "rep m gs P R" and A: "A = {p. P p \<noteq> {}}" and R: "R \<subseteq> A"
    and pair: "paired (unat (num_of_rx_groups m)) P" by (rule implementsD)
  let ?rx = "unat (num_of_rx_groups m)"
  have w: "workers_of t p (Some (gs ! i)) = (if (p \<in> R \<and> port_fd t p \<noteq> -1) \<and> i \<in> P p \<and> (i < ?rx) = (t = PG_RX) then 1 else 0)"
    if i: "i < length gs" for i
    using repD(2,5) [OF rep i] threads_of_port [of "gs ! i" p] by (cases t) (simp_all add: workers_of_def group_ok_def)
  have "workers m t p = (\<Sum>pgo\<leftarrow>map snd (portgroups m). workers_of t p pgo)"
    by (simp add: workers_def case_prod_unfold comp_def)
  also have "map snd (portgroups m) = map Some gs" using rep by (simp add: rep_def has_groups_def)
  also have "(\<Sum>pgo\<leftarrow>map Some gs. workers_of t p pgo) = (\<Sum>i<length gs. workers_of t p (Some (gs ! i)))"
    by (simp add: sum_list_sum_nth atLeast0LessThan)
  also have "\<dots> = card {i. i < length gs \<and> (p \<in> R \<and> port_fd t p \<noteq> -1) \<and> i \<in> P p \<and> (i < ?rx) = (t = PG_RX)}"
    by (simp add: w sum.If_cases Int_def)
  also have "\<dots> = (if p \<in> R \<and> port_fd t p \<noteq> -1 then 1 else 0)"
  proof (cases "p \<in> R \<and> port_fd t p \<noteq> -1")
    case True
    then have "P p \<noteq> {}" using A R by auto
    then obtain a b where "a < ?rx" "?rx \<le> b" "P p = {a, b}" using pair paired_cases by blast
    moreover from this have "a < length gs" "b < length gs" using repD(3) [OF rep, of _ p] by simp_all
    ultimately have "{i. i < length gs \<and> (p \<in> R \<and> port_fd t p \<noteq> -1) \<and> i \<in> P p \<and> (i < ?rx) = (t = PG_RX)} = {if t = PG_RX then a else b}"
      using True by (cases t) auto
    then show ?thesis using True by simp
  qed simp
  finally show ?thesis .
qed

section \<open>Deleting the groups\<close>

text \<open>The groups from \<open>i\<close> on are left.\<close>

definition tail_groups :: "nat \<Rightarrow> portgroup_state list \<Rightarrow> (u16 \<times> portgroup_state option) list" where
  "tail_groups i gs = zip (map of_nat [i..<length gs]) (map Some (drop i gs))"

lemma tail_groups_Cons:
  "i < length gs \<Longrightarrow> tail_groups i gs = (of_nat i, Some (gs ! i)) # tail_groups (Suc i) gs"
  by (simp add: tail_groups_def upt_conv_Cons Cons_nth_drop_Suc [symmetric])

lemma tail_groups_keys:
  assumes "i \<le> j" and "j < length gs" and "length gs < 2 ^ 16" and "k < i"
  shows "(of_nat k :: u16) \<notin> fst ` set (tail_groups i gs)"
proof -
  have "(of_nat k :: u16) \<notin> of_nat ` {i..<length gs}"
    using distinct_keys [of "length gs" k] upt_conv_Cons [of k "length gs"] assms by auto
  then show ?thesis by (force simp: tail_groups_def dest: set_zip_leftD)
qed

lemma tail_groups_erased:
  assumes "i < length gs" and "length gs < 2 ^ 16"
  shows "AList.delete (of_nat i) (tail_groups (Suc i) gs) = tail_groups (Suc i) gs"
proof (cases "Suc i < length gs")
    case True
    then show ?thesis using tail_groups_keys [of "Suc i" "Suc i" gs i] assms(2) by simp
  next
    case False
    then show ?thesis by (simp add: tail_groups_def)
qed

lemma delete_group_empty:
  assumes "portgroups m = tail_groups i gs" and "i < length gs" and "length gs < 2 ^ 16" and "\<not> mutex m" and "ports (gs ! i) = []"
  shows "delete_group K (of_nat i) m = Some (ROFL_SUCCESS, m\<lparr>portgroups := tail_groups (Suc i) gs, num_of_groups := num_of_groups m - 1\<rparr>)"
proof -
  have key: "(ucast (of_nat i :: u32) :: u16) = of_nat i" using assms(2,3) by (simp add: ucast_group)
  show ?thesis using assms key tail_groups_erased [of i gs]
    by (simp add: delete_group_def lock_def at_group_def tail_groups_Cons remove_all.simps sv_nth_def unlock_def)
qed

text \<open>A group that still has a port, once group 0 is gone: \<open>bring_port_down\<close> uses \<open>portgroups[0]\<close>.\<close>

lemma delete_group_stuck:
  assumes "portgroups m = tail_groups i gs" and "0 < i" and "i < length gs" and "length gs < 2 ^ 16" and "ports (gs ! i) \<noteq> []"
  shows "delete_group K (of_nat i) m = None"
proof (cases "mutex m")
  case False
  have key: "(ucast (of_nat i :: u32) :: u16) = of_nat i" using assms(3,4) by (simp add: ucast_group)
  have "map_of (tail_groups i gs) 0 = None"
    using tail_groups_keys [of i i gs 0] assms(2-4) by (simp add: map_of_eq_None_iff)
  then have down: "bring_port_down p True (m\<lparr>mutex := True\<rparr>) = None" for p
    using assms(1,3) by (simp add: bring_port_down_def for_groups.simps [of _ 0] at_group_def tail_groups_Cons down_body_def)
  show ?thesis using assms False key
    by (simp add: delete_group_def lock_def at_group_def tail_groups_Cons remove_all.simps sv_nth_def
      remove_port_from_group_def down)
qed (simp add: delete_group_def lock_def)

lemma delete_tail:
  assumes "portgroups m = tail_groups i gs" and "i + n \<le> length gs" and "length gs < 2 ^ 16" and "\<not> mutex m"
    and "0 < i \<or> (\<forall>j<length gs. ports (gs ! j) = [])" and "\<forall>j<length gs. pg_id (gs ! j) = of_nat j"
  shows "delete_groups K n (of_nat i) m = (if \<exists>j\<in>{i..<i + n}. ports (gs ! j) \<noteq> [] then None
    else Some (m\<lparr>portgroups := tail_groups (i + n) gs, num_of_groups := num_of_groups m - of_nat n\<rparr>))"
  using assms
proof (induction n arbitrary: i m)
  case 0
  then show ?case by simp
next
  case (Suc n)
  have i: "i < length gs" using Suc.prems(2) by simp
  have key: "(ucast (of_nat i :: u32) :: u16) = of_nat i" using i Suc.prems(3) by (simp add: ucast_group)
  have at: "at_group (of_nat i) m = (Some (gs ! i), m)" using Suc.prems(1) i by (simp add: at_group_def tail_groups_Cons)
  have id: "pg_id (gs ! i) = of_nat i" using Suc.prems(6) i by blast
  have split: "{i..<i + Suc n} = insert i {Suc i..<Suc i + n}" by auto
  show ?case
  proof (cases "ports (gs ! i) = []")
    case False
    then have "delete_group K (of_nat i) m = None"
      using delete_group_stuck [OF Suc.prems(1) _ i Suc.prems(3)] Suc.prems(5) i by auto
    then show ?thesis using at id key False by auto
  next
    case True
    let ?m = "m\<lparr>portgroups := tail_groups (Suc i) gs, num_of_groups := num_of_groups m - 1\<rparr>"
    have "delete_groups K n (of_nat (Suc i)) ?m = (if \<exists>j\<in>{Suc i..<Suc i + n}. ports (gs ! j) \<noteq> [] then None
      else Some (?m\<lparr>portgroups := tail_groups (Suc i + n) gs, num_of_groups := num_of_groups ?m - of_nat n\<rparr>))"
      by (rule Suc.IH) (use Suc.prems in auto)
    then show ?thesis using delete_group_empty [OF Suc.prems(1) i Suc.prems(3,4) True] at id key True
      unfolding split by (simp add: add.commute diff_diff_eq)
  qed
qed

lemma remove_all_ok:
  assumes "rep m gs P R" and "mutex m" and "gs \<noteq> []"
    and "\<forall>p\<in>R. \<exists>r t. r < unat (num_of_rx_groups m) \<and> unat (num_of_rx_groups m) \<le> t \<and> P p = {r, t}"
  shows "\<exists>m' gs' R'. remove_all K 0 m = Some m' \<and> rep m' gs' (\<lambda>p. P p - {0}) R' \<and> mutex m' \<and> same_counters m m'"
  using assms
proof (induction "card {p. 0 \<in> P p}" arbitrary: m gs P R)
  case 0
  have g0: "0 < length gs" using 0(4) by simp
  have ps: "set (ports (gs ! 0)) = {p. 0 \<in> P p}" using repD(2) [OF 0(2) g0] by (simp add: group_ok_def)
  then have e: "{p. 0 \<in> P p} = {}" using 0(1) finite_set [of "ports (gs ! 0)"] by simp
  then have "remove_all K 0 m = Some m"
    using at_group_has [OF repD(1) [OF 0(2)] g0] ps by (subst remove_all.simps) (simp add: sv_nth_def)
  moreover have "(\<lambda>p. P p - {0}) = P" using e by auto
  ultimately show ?case using 0(2,3) by (auto simp: same_counters_def)
next
  case (Suc n)
  have g0: "0 < length gs" using Suc.prems(3) by simp
  have ps: "set (ports (gs ! 0)) = {p. 0 \<in> P p}" using repD(2) [OF Suc.prems(1) g0] by (simp add: group_ok_def)
  have "{p. 0 \<in> P p} \<noteq> {}" using Suc.hyps(2) by (metis card.empty nat.distinct(1))
  then obtain p qs where pq: "ports (gs ! 0) = p # qs" using ps by (cases "ports (gs ! 0)") auto
  then have p: "0 \<in> P p" using ps by auto
  have mu: "mutex m = True" using Suc.prems(2) by simp
  have "p \<in> R \<Longrightarrow> \<exists>r t. r < unat (num_of_rx_groups m) \<and> unat (num_of_rx_groups m) \<le> t \<and> P p = {r, t}"
    using Suc.prems(4) by simp
  from remove_from_group_ok [OF Suc.prems(1) p mu this, of K] obtain m1 gs1
    where r: "remove_port_from_group K (of_nat 0) p True m = Some (ROFL_SUCCESS, m1)"
      "rep m1 gs1 (P(p := P p - {0})) (R - {p})" "mutex m1" "same_counters m m1" by auto
  have "{q. 0 \<in> (P(p := P p - {0})) q} = {q. 0 \<in> P q} - {p}" by auto
  then have n: "n = card {q. 0 \<in> (P(p := P p - {0})) q}" using Suc.hyps(2) p ps finite_set [of "ports (gs ! 0)"] by simp
  have "gs1 \<noteq> []" using r(2,4) Suc.prems(1) g0 by (auto simp: rep_def same_counters_def)
  moreover have "\<forall>q\<in>R - {p}. \<exists>r t. r < unat (num_of_rx_groups m1) \<and> unat (num_of_rx_groups m1) \<le> t \<and>
      (P(p := P p - {0})) q = {r, t}" using Suc.prems(4) r(4) by (simp add: same_counters_def)
  ultimately obtain m' gs' R' where m': "remove_all K 0 m1 = Some m'"
    "rep m' gs' (\<lambda>q. (P(p := P p - {0})) q - {0}) R'" "mutex m'" "same_counters m1 m'"
    using Suc.hyps(1) [OF n r(2,3)] by blast
  have "remove_all K 0 m = Some m'"
    using at_group_has [OF repD(1) [OF Suc.prems(1)] g0] pq r(1) m'(1) by (subst remove_all.simps) (simp add: sv_nth_def)
  moreover have "(\<lambda>q. (P(p := P p - {0})) q - {0}) = (\<lambda>q. P q - {0})" by (simp add: fun_eq_iff)
  moreover have "same_counters m m'" using m'(4) r(4) by (simp add: same_counters_def)
  ultimately show ?case using m'(2,3) by auto
qed

lemma delete_group_first:
  assumes "rep m gs P R" and "\<not> mutex m" and "gs \<noteq> []"
    and "\<forall>p\<in>R. \<exists>r t. r < unat (num_of_rx_groups m) \<and> unat (num_of_rx_groups m) \<le> t \<and> P p = {r, t}"
  shows "\<exists>gs' R' m1. delete_group K 0 m =
      Some (ROFL_SUCCESS, m1\<lparr>portgroups := tail_groups 1 gs', num_of_groups := num_of_groups m1 - 1, mutex := False\<rparr>) \<and>
    rep m1 gs' (\<lambda>p. P p - {0}) R' \<and> same_counters m m1"
proof -
  let ?m0 = "m\<lparr>mutex := True\<rparr>"
  have rep0: "rep ?m0 gs P R" using assms(1) by (simp add: rep_def)
  from remove_all_ok [OF rep0 _ assms(3), of K] assms(4) obtain m1 gs' R' where m1: "remove_all K 0 ?m0 = Some m1"
    "rep m1 gs' (\<lambda>p. P p - {0}) R'" "same_counters ?m0 m1" by auto
  have "length gs' = length gs" using m1(2,3) rep0 by (simp add: rep_def same_counters_def)
  then have g': "0 < length gs'" "length gs' < 2 ^ 16" using assms(3) rep_small [OF assms(1)] by simp_all
  have pgs: "portgroups m1 = tail_groups 0 gs'" using m1(2) by (simp add: rep_def has_groups_def tail_groups_def)
  have "AList.delete 0 (tail_groups 1 gs') = tail_groups 1 gs'"
    using tail_groups_erased [OF g'] by simp
  then have "AList.delete 0 (portgroups m1) = tail_groups 1 gs'" using g'(1) by (simp add: pgs tail_groups_Cons)
  moreover have "at_group 0 ?m0 = (Some (gs ! 0), ?m0)" using at_group_has [OF repD(1) [OF rep0], of 0] assms(3) by simp
  ultimately have "delete_group K 0 m =
      Some (ROFL_SUCCESS, m1\<lparr>portgroups := tail_groups 1 gs', num_of_groups := num_of_groups m1 - 1, mutex := False\<rparr>)"
    using assms(2) m1(1) by (simp add: delete_group_def lock_def unlock_def)
  moreover have "same_counters m m1" using m1(3) by (simp add: same_counters_def)
  ultimately show ?thesis using m1(2) by blast
qed

lemma delete_all_ok:
  assumes "implements m (A, R)"
  shows "A = {} \<Longrightarrow> \<exists>m'. delete_all_groups K m = Some (ROFL_SUCCESS, m') \<and> portgroups m' = [] \<and> num_of_groups m' = 0"
    and "A \<noteq> {} \<Longrightarrow> delete_all_groups K m = None"
proof -
  from assms obtain P gs where rep: "rep m gs P R" and mu: "\<not> mutex m" and A: "A = {p. P p \<noteq> {}}" and R: "R \<subseteq> A"
    and pair: "paired (unat (num_of_rx_groups m)) P" by (rule implementsD)
  let ?rx = "unat (num_of_rx_groups m)" and ?tx = "unat (num_of_tx_groups m)"
  have pos: "0 < ?rx" "0 < ?tx" using rep by (auto simp: rep_def word_less_nat_alt)
  then have ne: "gs \<noteq> []" using rep unfolding rep_def by auto
  have run: "\<forall>p\<in>R. \<exists>r t. r < ?rx \<and> ?rx \<le> t \<and> P p = {r, t}" using paired_running [OF pair] A R by blast
  from delete_group_first [OF rep mu ne run, of K] obtain gs' R' m1 where first: "delete_group K 0 m =
      Some (ROFL_SUCCESS, m1\<lparr>portgroups := tail_groups 1 gs', num_of_groups := num_of_groups m1 - 1, mutex := False\<rparr>)"
    and rep1: "rep m1 gs' (\<lambda>p. P p - {0}) R'" and same: "same_counters m m1" by blast
  let ?m1 = "m1\<lparr>portgroups := tail_groups 1 gs', num_of_groups := num_of_groups m1 - 1, mutex := False\<rparr>"
  have n: "?rx + ?tx = length gs'" "num_of_groups m1 = of_nat (length gs')" "length gs' < 2 ^ 16"
    using rep1 same rep_small [OF rep1] by (simp_all add: rep_def same_counters_def)
  have ids: "\<forall>j<length gs'. pg_id (gs' ! j) = of_nat j" using repD(2) [OF rep1] by (simp add: group_ok_def)
  let ?stuck = "\<lambda>S. \<exists>j\<in>S. ports (gs' ! j) \<noteq> []"
  let ?m2 = "?m1\<lparr>portgroups := tail_groups ?rx gs', num_of_groups := num_of_groups ?m1 - of_nat (?rx - 1)\<rparr>"
  let ?m3 = "?m2\<lparr>portgroups := tail_groups (?rx + ?tx) gs', num_of_groups := num_of_groups ?m2 - of_nat ?tx\<rparr>"
  have rx: "delete_groups K ?rx 0 m = (if ?stuck {1..<?rx} then None else Some ?m2)"
  proof -
    have "delete_groups K (?rx - 1) (of_nat 1) ?m1 = (if ?stuck {1..<1 + (?rx - 1)} then None
      else Some (?m1\<lparr>portgroups := tail_groups (1 + (?rx - 1)) gs', num_of_groups := num_of_groups ?m1 - of_nat (?rx - 1)\<rparr>))"
      by (rule delete_tail) (use n ids pos in simp_all)
    moreover have "at_group 0 m = (Some (gs ! 0), m)" "pg_id (gs ! 0) = 0"
      using at_group_has [OF repD(1) [OF rep], of 0] repD(2) [OF rep, of 0] ne by (simp_all add: group_ok_def)
    moreover obtain k where "?rx = Suc k" using pos(1) gr0_implies_Suc by blast
    ultimately show ?thesis using first by simp
  qed
  have tx: "delete_groups K ?tx (num_of_rx_groups m) ?m2 = (if ?stuck {?rx..<?rx + ?tx} then None else Some ?m3)"
    using delete_tail [of ?m2 ?rx gs' ?tx K] n ids pos by simp
  have all: "delete_all_groups K m = (if ?stuck {1..<?rx + ?tx} then None else Some (ROFL_SUCCESS, ?m3))"
  proof -
    have "{1..<?rx + ?tx} = {1..<?rx} \<union> {?rx..<?rx + ?tx}" using pos by auto
    moreover have "num_of_rx_groups m1 = num_of_rx_groups m" "num_of_tx_groups m1 = num_of_tx_groups m"
      using same by (simp_all add: same_counters_def)
    ultimately show ?thesis using rx tx by (simp add: delete_all_groups_def bex_Un)
  qed
  have ports: "p \<in> set (ports (gs' ! j)) \<longleftrightarrow> j \<in> P p \<and> j \<noteq> 0" if "j < length gs'" for j p
    using repD(4) [OF rep1 that, of p] by simp
  show "\<exists>m'. delete_all_groups K m = Some (ROFL_SUCCESS, m') \<and> portgroups m' = [] \<and> num_of_groups m' = 0" if none: "A = {}"
  proof -
    have "P p = {}" for p using none A by blast
    then have "ports (gs' ! j) = []" if "j < length gs'" for j using ports [OF that] by (cases "ports (gs' ! j)") auto
    then have "\<not> ?stuck {1..<?rx + ?tx}" using n(1) by simp
    then have d: "delete_all_groups K m = Some (ROFL_SUCCESS, ?m3)" unfolding all by (simp only: if_False)
    have p: "portgroups ?m3 = []" using n(1) by (simp add: tail_groups_def)
    have "1 + of_nat (?rx - 1) + of_nat ?tx = (of_nat (length gs') :: u32)"
      unfolding n(1) [symmetric] using pos(1) by (cases ?rx) simp_all
    moreover have "num_of_groups ?m3 = of_nat (length gs') - (1 + of_nat (?rx - 1) + of_nat ?tx)" by (simp add: n(2))
    ultimately have z: "num_of_groups ?m3 = 0" by (simp only: diff_self)
    from d p z show ?thesis by blast
  qed
  show "delete_all_groups K m = None" if some: "A \<noteq> {}"
  proof -
    obtain p where "P p \<noteq> {}" using some A by blast
    then obtain r t where "r < ?rx" "?rx \<le> t" "P p = {r, t}" using paired_running [OF pair] by blast
    moreover from this have "t < ?rx + ?tx" using repD(3) [OF rep, of t p] rep n(1) same rep1 by (simp add: rep_def)
    ultimately have "t \<in> {1..<?rx + ?tx}" "p \<in> set (ports (gs' ! t))" using ports [of t p] n(1) by auto
    then have "?stuck {1..<?rx + ?tx}" by force
    then show ?thesis using all by simp
  qed
qed

section \<open>Properties\<close>

text \<open>The manager is initialised and then used.\<close>

definition io_session ::
  "rofl \<Rightarrow> bool \<Rightarrow> u32 \<Rightarrow> u32 \<Rightarrow> io_op list \<Rightarrow> iomanager \<Rightarrow> (rofl_result list \<times> iomanager) option" where
  "io_session K g rx tx ops m = do { (r, m) \<leftarrow> io_init K g rx tx m; runs (io_do K) ops m }"

lemma session_ok:
  assumes "fresh m" and "0 < rx" and "0 < tx" and "unat rx + unat tx < 2 ^ 16"
  shows "case runs (spec_op K) ops ({}, {}) of
      None \<Rightarrow> io_session K g rx tx ops m = None
    | Some (rs, s) \<Rightarrow> \<exists>m'. io_session K g rx tx ops m = Some (rs, m') \<and> implements m' s"
proof -
  obtain m1 where m1: "io_init K g rx tx m = Some (ROFL_SUCCESS, m1)" "implements m1 ({}, {})" by (rule init_ok [OF assms])
  have "io_session K g rx tx ops m = runs (io_do K) ops m1" by (simp add: io_session_def m1(1))
  with runs_refine [OF m1(2), of K ops] show ?thesis by (simp only:)
qed

definition ex_port :: "nat \<Rightarrow> io_port" where
  "ex_port n = \<lparr>io_port_no = n, get_read_fd = 2 * int n, get_write_fd = 2 * int n + 1\<rparr>"

lemma ex_port_simps [simp]: "ex_port n = ex_port n' \<longleftrightarrow> n = n'" "port_fd t (ex_port n) \<noteq> -1"
  "get_read_fd (ex_port n) \<noteq> -1" "get_write_fd (ex_port n) \<noteq> -1"
  by (auto simp: ex_port_def port_fd_def)

definition unused :: iomanager where
  "unused = \<lparr>num_of_groups = 0, num_of_rx_groups = 0, num_of_tx_groups = 0, next_rx_sched_grp_id = 0,
     next_tx_sched_grp_id = 0, portgroups = [], mutex = False, port_up = (\<lambda>p. False)\<rparr>"

text \<open>C7: the I/O manager refines its specification. From \<open>init\<close> on, with at least one group of each type, any
  sequence of additions, removals, starts and stops of ports returns exactly the results the specification
  gives for the sets of attached and running ports, and leaves exactly these ports in the groups; it ends in a
  failed assertion only where a port is added twice or removed without being attached and assertions are on.
  The manager never deadlocks, waits for ever or uses a missing group.\<close>

theorem io_manager_refines:
  assumes "fresh m" and "0 < rx" and "0 < tx" and "unat rx + unat tx < 2 ^ 16"
  shows "case runs (spec_op K) ops ({}, {}) of
      None \<Rightarrow> io_session K g rx tx ops m = None
    | Some (rs, A, R) \<Rightarrow> \<exists>m'. io_session K g rx tx ops m = Some (rs, m') \<and> attached m' = A \<and> running m' = R"
  using session_ok [OF assms, of K g ops] by (auto split: option.splits simp: implements_sets)

theorem io_manager_refines_witness:
  "\<exists>m'. io_session std_rofl True 2 1 [Add (ex_port 7), Add (ex_port 8), Up (ex_port 7), Up (ex_port 9), Up (ex_port 8), Down (ex_port 7)] unused =
      Some ([ROFL_SUCCESS, ROFL_SUCCESS, ROFL_SUCCESS, ROFL_FAILURE, ROFL_SUCCESS, ROFL_SUCCESS], m') \<and>
    attached m' = {ex_port 7, ex_port 8} \<and> running m' = {ex_port 8}"
  using io_manager_refines [of unused 2 1 std_rofl True "[Add (ex_port 7), Add (ex_port 8), Up (ex_port 7), Up (ex_port 9), Up (ex_port 8), Down (ex_port 7)]"]
  by (simp add: fresh_def unused_def insert_Diff_if insert_commute)

text \<open>C8: liveness. Whatever sequence of operations has been done, a running port that has a descriptor to receive from is then in the
  epoll set of exactly one receiving thread, and one that has a descriptor to send from in that of exactly one sending thread, when the
  call returns; a port that does not run, or has no such descriptor (\<open>-1\<close>), is in the set of none, so that nothing serves it. Memory
  and epoll instances are available, and the descriptors of a port do not change meanwhile.\<close>

theorem ports_served:
  assumes "fresh m" and "0 < rx" and "0 < tx" and "unat rx + unat tx < 2 ^ 16"
    and "runs (spec_op K) ops ({}, {}) = Some (rs, A, R)"
  shows "\<exists>m'. io_session K g rx tx ops m = Some (rs, m') \<and>
    (\<forall>t p. workers m' t p = (if p \<in> R \<and> port_fd t p \<noteq> -1 then 1 else 0))"
  using session_ok [OF assms(1-4), of K g ops] assms(5) by (auto simp: implements_workers)

text \<open>Port 9 could not be brought up: it is reported as running, and nobody receives its packets.\<close>

theorem ports_served_witness:
  "\<exists>m'. io_session std_rofl True 1 1 [Add (ex_port 7), Add (ex_port 8), Up (ex_port 7), Up (ex_port 8), Down (ex_port 7),
        Add \<lparr>io_port_no = 9, get_read_fd = -1, get_write_fd = 5\<rparr>, Up \<lparr>io_port_no = 9, get_read_fd = -1, get_write_fd = 5\<rparr>] unused =
      Some (replicate 7 ROFL_SUCCESS, m') \<and>
    workers m' PG_RX (ex_port 8) = 1 \<and> workers m' PG_TX (ex_port 8) = 1 \<and> workers m' PG_RX (ex_port 7) = 0 \<and>
    workers m' PG_RX \<lparr>io_port_no = 9, get_read_fd = -1, get_write_fd = 5\<rparr> = 0 \<and>
    workers m' PG_TX \<lparr>io_port_no = 9, get_read_fd = -1, get_write_fd = 5\<rparr> = 1"
proof -
  let ?p = "\<lparr>io_port_no = 9, get_read_fd = -1, get_write_fd = 5\<rparr>"
  have ne: "ex_port n \<noteq> ?p" "?p \<noteq> ex_port n" for n by (auto simp: ex_port_def)
  have "runs (spec_op std_rofl) [Add (ex_port 7), Add (ex_port 8), Up (ex_port 7), Up (ex_port 8), Down (ex_port 7), Add ?p, Up ?p]
      ({}, {}) = Some (replicate 7 ROFL_SUCCESS, {?p, ex_port 8, ex_port 7}, {?p, ex_port 8})"
    using ne by (simp add: insert_Diff_if numeral_eq_Suc)
  from ports_served [OF _ _ _ _ this, of unused 1 1 True] ne show ?thesis by (auto simp: fresh_def unused_def port_fd_def)
qed

text \<open>C9: the comment on \<open>delete_all_groups\<close> says that existing ports are stopped and deleted. With any port attached
  the call does not return: after group 0 has been erased, bringing a port of a later group down uses
  \<open>portgroups[0]\<close>, which \<open>operator[]\<close> has just added as \<open>NULL\<close>. With no port attached it deletes every group.\<close>

theorem delete_all_groups_outcome:
  assumes "fresh m" and "0 < rx" and "0 < tx" and "unat rx + unat tx < 2 ^ 16"
    and "runs (spec_op K) ops ({}, {}) = Some (rs, A, R)"
  shows "\<exists>m'. io_session K g rx tx ops m = Some (rs, m') \<and>
    (if A = {} then \<exists>m''. delete_all_groups K m' = Some (ROFL_SUCCESS, m'') \<and> portgroups m'' = [] \<and> num_of_groups m'' = 0
     else delete_all_groups K m' = None)"
proof -
  obtain m' where "io_session K g rx tx ops m = Some (rs, m')" "implements m' (A, R)"
    using session_ok [OF assms(1-4), of K g ops] assms(5) by auto
  then show ?thesis using delete_all_ok [of m' A R K] by auto
qed

theorem delete_all_groups_outcome_witness:
  "(\<exists>m'. io_session std_rofl True 1 1 [Add (ex_port 7)] unused = Some ([ROFL_SUCCESS], m') \<and> delete_all_groups std_rofl m' = None) \<and>
   (\<exists>m' m''. io_session std_rofl True 1 1 [Add (ex_port 7), Remove (ex_port 7)] unused = Some ([ROFL_SUCCESS, ROFL_SUCCESS], m') \<and>
      delete_all_groups std_rofl m' = Some (ROFL_SUCCESS, m''))"
proof -
  have fresh: "fresh unused" by (simp add: fresh_def unused_def)
  have "runs (spec_op std_rofl) [Add (ex_port 7)] ({}, {}) = Some ([ROFL_SUCCESS], {ex_port 7}, {})" by simp
  from delete_all_groups_outcome [OF fresh _ _ _ this, of 1 1 True]
  have a: "\<exists>m'. io_session std_rofl True 1 1 [Add (ex_port 7)] unused = Some ([ROFL_SUCCESS], m') \<and> delete_all_groups std_rofl m' = None" by simp
  have "runs (spec_op std_rofl) [Add (ex_port 7), Remove (ex_port 7)] ({}, {}) = Some ([ROFL_SUCCESS, ROFL_SUCCESS], {}, {})" by simp
  from delete_all_groups_outcome [OF fresh _ _ _ this, of 1 1 True] a show ?thesis by auto
qed

end
