(* ===== verification/Mmap_Port.thy ===== *)
theory Mmap_Port
  imports Packet_Output Io_Refinement
begin

unbundle bit_operations_syntax

text \<open>
  The port over a network interface: the rings it shares with the kernel (\<open>io/ports/mmap/mmap_rx.h\<close>,
  \<open>mmap_tx.h\<close>) and how packets are read from and written to them (\<open>ioport_mmap.cc\<close>).

  A slot of a ring is an object of its own: its bytes from \<open>hdr\<close> on and the members of its
  \<open>tpacket2_hdr\<close>. Access behind it, which is to the next slot or outside the mapping, is \<open>None\<close>. The rings
  are what the kernel has made of them when a function starts. What the headers of Linux define is the
  parameter \<open>X\<close>; a system call is an argument that tells its result.
\<close>

section \<open>Rings\<close>

record if_packet =
  TP_STATUS_KERNEL :: u32
  TP_STATUS_AVAILABLE :: u32
  TP_STATUS_SEND_REQUEST :: u32
  TP_STATUS_COPY :: u32
  TP_STATUS_CSUMNOTREADY :: u32
  TP_STATUS_VLAN_VALID :: "u32 option"
  KERNEL_STAG_SUPPORT :: bool
  PACKET_OUTGOING :: u8
  TX_DATA :: nat

text \<open>The values of \<open>linux/if_packet.h\<close>; \<open>TX_DATA\<close> is \<open>TPACKET2_HDRLEN - sizeof(struct sockaddr_ll)\<close>.\<close>

definition linux :: if_packet where
  "linux = \<lparr>TP_STATUS_KERNEL = 0, TP_STATUS_AVAILABLE = 0, TP_STATUS_SEND_REQUEST = 1, TP_STATUS_COPY = 2,
     TP_STATUS_CSUMNOTREADY = 8, TP_STATUS_VLAN_VALID = Some 16, KERNEL_STAG_SUPPORT = False, PACKET_OUTGOING = 4,
     TX_DATA = 32\<rparr>"

record tpacket2 =
  tp_status :: u32
  tp_len :: u32
  tp_snaplen :: u32
  tp_mac :: u16
  tp_vlan_tci :: u16
  tp_vlan_tpid :: u16
  sll_pkttype :: u8
  slot_bytes :: mem

text \<open>\<open>mmap_rx\<close> and \<open>mmap_tx\<close>: the mapping, the size and number of frames, the position.\<close>

record mmap_ring =
  ring :: "tpacket2 list"
  tp_frame_size :: u32
  tp_frame_nr :: u32
  pos :: u32

definition next_pos :: "mmap_ring \<Rightarrow> u32" where
  "next_pos r = (if pos r + 1 = tp_frame_nr r then 0 else pos r + 1)"

definition set_slot :: "nat \<Rightarrow> tpacket2 \<Rightarrow> mmap_ring \<Rightarrow> mmap_ring" where
  "set_slot i h r = r\<lparr>ring := (ring r)[i := h]\<rparr>"

text \<open>\<open>read_packet\<close>: the index of the slot, or \<open>NULL\<close>.\<close>

partial_function (option) read_packet :: "if_packet \<Rightarrow> mmap_ring \<Rightarrow> (nat option \<times> mmap_ring) option" where
  "read_packet X r =
     (let i = unat (pos r) in
      if i < length (ring r) then
        let hdr = ring r ! i in
        if tp_status hdr = TP_STATUS_KERNEL X then Some (None, r)
        else
          let r = r\<lparr>pos := next_pos r\<rparr> in
          if tp_status hdr AND (TP_STATUS_COPY X OR TP_STATUS_CSUMNOTREADY X) = 0 then Some (Some i, r)
          else read_packet X (set_slot i (hdr\<lparr>tp_status := TP_STATUS_KERNEL X\<rparr>) r)
      else None)"

definition return_packet :: "if_packet \<Rightarrow> nat \<Rightarrow> mmap_ring \<Rightarrow> mmap_ring" where
  "return_packet X i r = set_slot i ((ring r ! i)\<lparr>tp_status := TP_STATUS_KERNEL X\<rparr>) r"

definition get_free_slot :: "if_packet \<Rightarrow> mmap_ring \<Rightarrow> (nat option \<times> mmap_ring) option" where
  "get_free_slot X r =
     (let i = unat (pos r) in
      if i < length (ring r) then
        if tp_status (ring r ! i) = TP_STATUS_AVAILABLE X then Some (Some i, r\<lparr>pos := next_pos r\<rparr>) else Some (None, r)
      else None)"

section \<open>The port\<close>

text \<open>\<open>ioport\<close> is the base class; \<open>notify_pipe\<close> and \<open>deferred_drain\<close> are its \<open>tx_pipe\<close> and
  \<open>deferred_drain_tx\<close>.\<close>

record mmap_port =
  ioport :: ioport
  rx :: "mmap_ring option"
  tx :: "mmap_ring option"
  mps :: u32
  mac :: mem
  attached_sw :: nat
  rx_dropped :: u64
  tx_errors :: u64

definition mmap_empty_pipe :: "rofl \<Rightarrow> nat \<Rightarrow> int \<Rightarrow> (nat \<times> int) option" where
  "mmap_empty_pipe K avail deferred =
     (if deferred = 0 then Some (avail, deferred)
      else do {
        let (ret, left) = pipe_read (if deferred > uint IO_IFACE_RING_SLOTS then unat IO_IFACE_RING_SLOTS
          else unat (of_int deferred :: u64)) avail;
        if ret > 0 then
          (if deferred - ret < 0 then do { c_assert K False; Some (left, 0) } else Some (left, deferred - ret))
        else Some (left, deferred) })"

text \<open>\<open>fill_vlan_pkt\<close>. What \<open>init\<close> returns is not looked at. Both branches on the type of the frame write
  \<open>ETH_P_8021Q\<close>.\<close>

definition copy_in :: "mem \<Rightarrow> nat \<Rightarrow> u64 \<Rightarrow> nat \<Rightarrow> datapacketx86 \<Rightarrow> datapacketx86 option" where
  "copy_in src a n d x = do {
     m \<leftarrow> platform_memcpy (pkt_mem x) (base (clas_state x) + d) src a (unat n);
     Some (set_mem x (object x) m) }"

definition classify_in :: "rofl \<Rightarrow> u32 \<Rightarrow> datapacketx86 \<Rightarrow> datapacketx86 option" where
  "classify_in K port_no x = do {
     c \<leftarrow> classify_packet K (pkt_mem x) (clas_state x) (base (clas_state x)) (get_buffer_length x) port_no 0;
     Some (x\<lparr>clas_state := c\<rparr>) }"

definition fill_vlan_pkt :: "rofl \<Rightarrow> if_packet \<Rightarrow> tpacket2 \<Rightarrow> nat \<Rightarrow> u32 \<Rightarrow> datapacketx86 \<Rightarrow> datapacketx86 option" where
  "fill_vlan_pkt K X hdr sw port_no x = do {
     (r, x) \<leftarrow> init_pkt K x None (ucast (tp_len hdr) + 4) sw port_no 0 False True;
     let eth = unat (tp_mac hdr);
     x \<leftarrow> copy_in (slot_bytes hdr) eth 14 0 x;
     dl_type \<leftarrow> load (slot_bytes hdr) (eth + 12);
     x \<leftarrow> (if KERNEL_STAG_SUPPORT X then Some x else copy_in (to_bytes (htobe16 0x8100)) 0 2 12 x);
     x \<leftarrow> copy_in [ucast (drop_bit 8 (tp_vlan_tci hdr)), ucast (tp_vlan_tci hdr AND 0xff)] 0 2 14 x;
     x \<leftarrow> copy_in (to_bytes (dl_type :: u16)) 0 2 16 x;
     x \<leftarrow> (if KERNEL_STAG_SUPPORT X then copy_in (to_bytes (htobe16 (tp_vlan_tpid hdr))) 0 2 12 x else Some x);
     x \<leftarrow> copy_in (slot_bytes hdr) (eth + 14) (ucast (tp_len hdr) - 14) 18 x;
     classify_in K port_no x }"

definition has_vlan :: "if_packet \<Rightarrow> tpacket2 \<Rightarrow> bool" where
  "has_vlan X hdr =
     (case TP_STATUS_VLAN_VALID X of Some f \<Rightarrow> tp_status hdr AND f \<noteq> 0 | None \<Rightarrow> tp_vlan_tci hdr \<noteq> 0)"

text \<open>How \<open>read\<close> fills the packet, with the second classification.\<close>

definition fill_pkt :: "rofl \<Rightarrow> if_packet \<Rightarrow> tpacket2 \<Rightarrow> nat \<Rightarrow> u32 \<Rightarrow> datapacketx86 \<Rightarrow> datapacketx86 option" where
  "fill_pkt K X hdr sw port_no x = do {
     x \<leftarrow> (if has_vlan X hdr then fill_vlan_pkt K X hdr sw port_no x
           else map_option snd (init_pkt K x (Some (slot_bytes hdr, unat (tp_mac hdr))) (ucast (tp_len hdr)) sw port_no 0 True True));
     classify_in K port_no x }"

text \<open>\<open>read\<close> from the label \<open>next\<close> on, with the ring \<open>r\<close>. The loop goes on after a frame that is being sent and
  after one that comes from the port itself.\<close>

definition with_rx :: "mmap_ring \<Rightarrow> mmap_port \<Rightarrow> mmap_port" where
  "with_rx r a = a\<lparr>rx := Some r\<rparr>"

definition own_frame :: "if_packet \<Rightarrow> tpacket2 \<Rightarrow> mmap_port \<Rightarrow> bool option" where
  "own_frame X hdr a =
     (if PACKET_OUTGOING X = sll_pkttype hdr then Some True
      else let src = take 6 (drop (unat (tp_mac hdr) + 6) (slot_bytes hdr))
        in if length src = 6 then Some (src = mac a) else None)"

definition take_frame ::
  "rofl \<Rightarrow> if_packet \<Rightarrow> nat \<Rightarrow> mmap_ring \<Rightarrow> mmap_port \<Rightarrow> bufferpool option \<Rightarrow>
   (nat option \<times> mmap_port \<times> bufferpool option) option" where
  "take_frame K X i r a inst = do {
     (v, inst) \<leftarrow> Bufferpool.get_buffer K inst;
     case v of
       None \<Rightarrow> Some (None, with_rx (return_packet X i r) (a\<lparr>rx_dropped := rx_dropped a + 1\<rparr>), inst)
     | Some p \<Rightarrow> do {
         inst \<leftarrow> update_packet p (fill_pkt K X (ring r ! i) (attached_sw a) (of_port_num (ioport a))) inst;
         x \<leftarrow> packet p inst;
         let b = ioport a;
         Some (Some p, with_rx (return_packet X i r)
           (a\<lparr>ioport := b\<lparr>rx_packets := rx_packets b + 1, rx_bytes := rx_bytes b + get_buffer_length x\<rparr>\<rparr>), inst) } }"

partial_function (option) read_next ::
  "rofl \<Rightarrow> if_packet \<Rightarrow> mmap_ring \<Rightarrow> mmap_port \<Rightarrow> bufferpool option \<Rightarrow>
   (nat option \<times> mmap_port \<times> bufferpool option) option" where
  "read_next K X r a inst = do {
     (v, r) \<leftarrow> read_packet X r;
     case v of
       None \<Rightarrow> Some (None, with_rx r a, inst)
     | Some i \<Rightarrow>
         let hdr = ring r ! i in
         if ucast (tp_mac hdr) + tp_snaplen hdr > tp_frame_size r then
           Some (None, with_rx (return_packet X i r) (a\<lparr>rx_dropped := rx_dropped a + 1\<rparr>), inst)
         else do {
           own \<leftarrow> own_frame X hdr a;
           if own then read_next K X (return_packet X i r) a inst else take_frame K X i r a inst } }"

definition mmap_read ::
  "rofl \<Rightarrow> if_packet \<Rightarrow> mmap_port \<Rightarrow> bufferpool option \<Rightarrow> (nat option \<times> mmap_port \<times> bufferpool option) option" where
  "mmap_read K X a inst =
     (case rx a of
        None \<Rightarrow> Some (None, a, inst)
      | Some r \<Rightarrow> if \<not> up (ioport a) \<or> drop_received (ioport a) then Some (None, a, inst) else read_next K X r a inst)"

definition fill_tx_slot :: "if_packet \<Rightarrow> datapacketx86 \<Rightarrow> tpacket2 \<Rightarrow> tpacket2 option" where
  "fill_tx_slot X x hdr = do {
     m \<leftarrow> platform_memcpy (slot_bytes hdr) (TX_DATA X) (pkt_mem x) (base (clas_state x)) (unat (get_buffer_length x));
     let n = ucast (get_buffer_length x);
     Some (hdr\<lparr>slot_bytes := m, tp_len := n, tp_snaplen := n, tp_status := TP_STATUS_SEND_REQUEST X\<rparr>) }"

text \<open>The loop of \<open>write\<close> for queue \<open>i\<close>, with the ring \<open>t\<close>: \<open>n\<close> buckets left, \<open>cnt\<close> packets and
  \<open>bytes\<close> filled so far. A packet above \<open>mps\<close> is discarded after its slot has been taken.\<close>

primrec fill_slots ::
  "rofl \<Rightarrow> if_packet \<Rightarrow> nat \<Rightarrow> u32 \<Rightarrow> nat \<Rightarrow> u32 \<Rightarrow> u32 \<Rightarrow> mmap_ring \<Rightarrow> ioport \<Rightarrow> bufferpool option \<Rightarrow>
   (nat \<times> u32 \<times> u32 \<times> mmap_ring \<times> ioport \<times> bufferpool option) option" where
  "fill_slots K X i limit 0 cnt bytes t b inst = Some (0, cnt, bytes, t, b, inst)"
| "fill_slots K X i limit (Suc n) cnt bytes t b inst =
     (let q = output_queues b ! i in
      if queue_size q = 0 then Some (Suc n, cnt, bytes, t, b, inst)
      else do {
        (h, t) \<leftarrow> get_free_slot X t;
        case h of
          None \<Rightarrow> Some (Suc n, cnt, bytes, t, b, inst)
        | Some j \<Rightarrow> do {
            (v, q) \<leftarrow> non_blocking_read q;
            let b = b\<lparr>output_queues := (output_queues b)[i := q]\<rparr>;
            case v of
              None \<Rightarrow> do { c_assert K False; Some (Suc n, cnt, bytes, t, b, inst) }
            | Some p \<Rightarrow> do {
                x \<leftarrow> packet p inst;
                if get_buffer_length x > ucast limit then do {
                  c_assert K False;
                  inst \<leftarrow> release_buffer K p inst;
                  fill_slots K X i limit n cnt bytes t
                    ((count_drop i b)\<lparr>deferred_drain_tx := deferred_drain_tx b + 1\<rparr>) inst }
                else do {
                  hdr \<leftarrow> fill_tx_slot X x (ring t ! j);
                  inst \<leftarrow> release_buffer K p inst;
                  fill_slots K X i limit n (cnt + 1) (bytes + tp_len hdr) (set_slot j hdr t)
                    (b\<lparr>deferred_drain_tx := deferred_drain_tx b + 1\<rparr>) inst } } } })"

text \<open>When \<open>sendto\<close> fails: the ring is replaced by \<open>fresh_tx\<close>, what the constructor of \<open>mmap_tx\<close> makes, and the
  hash of the group of the port changes so that the threads renew their descriptors.\<close>

definition reset_group :: "rofl \<Rightarrow> io_port \<Rightarrow> iomanager \<Rightarrow> iomanager option" where
  "reset_group K p m = do {
     (g, m) \<leftarrow> get_group_id_by_port p PG_TX m;
     let (pg, m) = at_group (of_int g) m;
     (if pg = None then c_assert K False else Some ());
     pg \<leftarrow> pg;
     Some (set_group (of_int g) (pg\<lparr>running_hash := running_hash pg + 1\<rparr>) m) }"

definition send_failed ::
  "rofl \<Rightarrow> io_port \<Rightarrow> nat \<Rightarrow> u32 \<Rightarrow> mmap_ring \<Rightarrow> mmap_port \<Rightarrow> iomanager \<Rightarrow> (mmap_port \<times> iomanager) option" where
  "send_failed K p i cnt fresh_tx a m = do {
     c_assert K False;
     let b = ioport a;
     let st = queues_stats b ! i;
     let a = a\<lparr>tx_errors := tx_errors a + ucast cnt, tx := Some fresh_tx,
       ioport := b\<lparr>queues_stats := (queues_stats b)[i := st\<lparr>q_overrun := q_overrun st + ucast cnt\<rparr>]\<rparr>\<rparr>;
     m \<leftarrow> reset_group K p m;
     Some (a, m) }"

definition count_sent :: "nat \<Rightarrow> u32 \<Rightarrow> u32 \<Rightarrow> mmap_port \<Rightarrow> mmap_port" where
  "count_sent i cnt bytes a =
     (let b = ioport a; st = queues_stats b ! i in
      a\<lparr>ioport := b\<lparr>tx_packets := tx_packets b + ucast cnt, tx_bytes := tx_bytes b + scast bytes,
        queues_stats := (queues_stats b)[i := st\<lparr>q_tx_packets := q_tx_packets st + ucast cnt,
          q_tx_bytes := q_tx_bytes st + scast bytes\<rparr>]\<rparr>\<rparr>)"

text \<open>\<open>write\<close>; \<open>p\<close> is the port for the I/O manager \<open>m\<close>, \<open>sent\<close> tells whether \<open>sendto\<close> succeeds.\<close>

definition mmap_write ::
  "rofl \<Rightarrow> if_packet \<Rightarrow> bool \<Rightarrow> mmap_ring \<Rightarrow> io_port \<Rightarrow> u32 \<Rightarrow> nat \<Rightarrow> mmap_port \<Rightarrow> iomanager \<Rightarrow> bufferpool option \<Rightarrow>
   (nat \<times> mmap_port \<times> iomanager \<times> bufferpool option) option" where
  "mmap_write K X sent fresh_tx p q_id n a m inst =
     (let i = unat q_id in
      if i < length (output_queues (ioport a)) then
        case tx a of
          None \<Rightarrow> Some (n, a, m, inst)
        | Some t \<Rightarrow> do {
            (left, cnt, bytes, t, b, inst) \<leftarrow> fill_slots K X i (mps a) n 0 0 t (ioport a) inst;
            let a = a\<lparr>tx := Some t, ioport := b\<rparr>;
            (a, m) \<leftarrow> (if cnt > 0 then do {
                (a, m) \<leftarrow> (if sent then Some (a, m) else send_failed K p i cnt fresh_tx a m);
                Some (count_sent i cnt bytes a, m) }
              else Some (a, m));
            (pb, deferred) \<leftarrow> mmap_empty_pipe K (tx_pipe (ioport a)) (deferred_drain_tx (ioport a));
            Some (left, a\<lparr>ioport := (ioport a)\<lparr>tx_pipe := pb, deferred_drain_tx := deferred\<rparr>\<rparr>, m, inst) }
      else None)"

section \<open>Filling a packet\<close>

text \<open>The frame a slot of the receiving ring stands for: the kernel has taken the outer tag away.\<close>

definition slot_frame :: "tpacket2 \<Rightarrow> mem" where
  "slot_frame hdr = take (unat (tp_len hdr)) (drop (unat (tp_mac hdr)) (slot_bytes hdr))"

definition frame_of :: "if_packet \<Rightarrow> tpacket2 \<Rightarrow> mem" where
  "frame_of X hdr =
     (if has_vlan X hdr then
        take 12 (slot_frame hdr) @ to_bytes (htobe16 (if KERNEL_STAG_SUPPORT X then tp_vlan_tpid hdr else 0x8100)) @
        to_bytes (htobe16 (tp_vlan_tci hdr)) @ drop 12 (slot_frame hdr)
      else slot_frame hdr)"

text \<open>The packet after \<open>init\<close> with a copy, the bytes being \<open>u\<close>.\<close>

definition loaded :: "nat \<Rightarrow> u64 \<Rightarrow> mem \<Rightarrow> datapacketx86 \<Rightarrow> datapacketx86" where
  "loaded sw n u x = x\<lparr>iov_base := Some 0, iov_len := 9320, object := USER_SPACE_BUFFER,
     clas_state := (clas_state x)\<lparr>base := 256, len := n\<rparr>, buffering_status := X86_DATAPACKET_BUFFERED_IN_USER_SPACE,
     user_space_buffer := u, lsw := sw, output_queue := 0\<rparr>"

lemma init_loaded:
  assumes "NDEBUG K" and "length (user_space_buffer x) = 9320" and "unat n \<le> 9000"
  shows "init_pkt K x None n sw port_no phy False True = Some (ROFL_SUCCESS, loaded sw n (user_space_buffer x) x)"
    and "a + unat n \<le> length src \<Longrightarrow> init_pkt K x (Some (src, a)) n sw port_no phy True True = do {
      y \<leftarrow> classify_in K port_no (loaded sw n (take 256 (user_space_buffer x) @ take (unat n) (drop a src) @
        drop (256 + unat n) (user_space_buffer x)) x);
      Some (ROFL_SUCCESS, y) }"
  using assms
  by (simp_all add: init_pkt_def init_internal_buffer_location_defaults_def use_user_space_def debug_clear_def loaded_def
      platform_memcpy_def get_buffer_length_def object_mem_def guards word_less_nat_alt classify_in_def)

lemma copy_in_at:
  assumes "object x = USER_SPACE_BUFFER" and "user_space_buffer x = pre @ old @ post" and "length pre = base (clas_state x) + d"
    and "length old = unat n" and "a + unat n \<le> length src"
  shows "copy_in src a n d x = Some (x\<lparr>user_space_buffer := pre @ take (unat n) (drop a src) @ post\<rparr>)"
  using assms by (simp add: copy_in_def object_mem_def platform_memcpy_def set_mem_def)

text \<open>What a filled packet is.\<close>

definition filled :: "rofl \<Rightarrow> u32 \<Rightarrow> mem \<Rightarrow> datapacketx86 \<Rightarrow> bool" where
  "filled K port_no f x \<longleftrightarrow> wf_pkt x \<and> frame x = f \<and> room x = 256 \<and> length (user_space_buffer x) = 9320 \<and>
     port_in (clas_state x) = port_no \<and>
     (\<exists>t. clas_type (clas_state x) = Some t \<and> pkt_types t \<and> describes K (pkt_mem x) (base (clas_state x)) t)"

definition copied :: "u64 \<Rightarrow> mem \<Rightarrow> datapacketx86 \<Rightarrow> bool" where
  "copied n u x \<longleftrightarrow> object x = USER_SPACE_BUFFER \<and> iov_base x = Some 0 \<and> iov_len x = 9320 \<and>
     buffering_status x = X86_DATAPACKET_BUFFERED_IN_USER_SPACE \<and> user_space_buffer x = u \<and>
     base (clas_state x) = 256 \<and> len (clas_state x) = n"

lemma copied_loaded: "copied n u (loaded sw n u x)"
  by (simp add: copied_def loaded_def)

lemma classify_copied:
  assumes "NDEBUG K" and "length u = 9320" and "unat n \<le> 9000" and x: "copied n u x"
  obtains y where "classify_in K port_no x = Some y" "copied n u y" "filled K port_no (take (unat n) (drop 256 u)) y"
proof -
  obtain t where t: "classify_packet K u (clas_state x) 256 n port_no 0 = Some \<lparr>clas_type = Some t, base = 256,
      len = n, port_in = port_no, phy_port_in = 0, calculate_checksums_in_sw = 0\<rparr>" (is "_ = Some ?c")
    "pkt_types t" "describes K u 256 t"
    using classify_packet_ok [OF assms(1), of 256 u "clas_state x" n port_no 0] assms(2) by auto
  let ?y = "x\<lparr>clas_state := ?c\<rparr>"
  have "classify_in K port_no x = Some ?y" using x t(1) by (simp add: classify_in_def copied_def object_mem_def get_buffer_length_def)
  moreover have "copied n u ?y" using x by (simp add: copied_def)
  moreover have "filled K port_no (take (unat n) (drop 256 u)) ?y"
    using x t assms(2,3) by (simp add: copied_def filled_def wf_pkt_def frame_def view_def object_mem_def room_def guards)
  ultimately show thesis using that by blast
qed

lemma fill_plain_ok:
  assumes "NDEBUG K" and "length (user_space_buffer x) = 9320" and "unat (tp_len hdr) \<le> 9000"
    and "unat (tp_mac hdr) + unat (tp_len hdr) \<le> length (slot_bytes hdr)" and "\<not> has_vlan X hdr"
  shows "\<exists>y. fill_pkt K X hdr sw port_no x = Some y \<and> filled K port_no (frame_of X hdr) y"
proof -
  let ?n = "ucast (tp_len hdr) :: u64" and ?f = "slot_frame hdr"
  let ?u = "take 256 (user_space_buffer x) @ ?f @ drop (256 + unat ?n) (user_space_buffer x)"
  have f: "length ?f = unat ?n" using assms(4) by (simp add: slot_frame_def)
  have n: "unat ?n \<le> 9000" using assms(3) by simp
  have u: "length ?u = 9320" using assms(2,3) f by simp
  obtain y where y: "classify_in K port_no (loaded sw ?n ?u x) = Some y" "copied ?n ?u y"
    by (rule classify_copied [OF assms(1) u n copied_loaded])
  obtain z where z: "classify_in K port_no y = Some z" "filled K port_no (take (unat ?n) (drop 256 ?u)) z"
    by (rule classify_copied [OF assms(1) u n y(2)])
  have "init_pkt K x (Some (slot_bytes hdr, unat (tp_mac hdr))) ?n sw port_no 0 True True = Some (ROFL_SUCCESS, y)"
    using init_loaded(2) [OF assms(1,2) n, of "unat (tp_mac hdr)" "slot_bytes hdr" sw port_no 0] assms(4) y(1)
    by (simp add: slot_frame_def)
  moreover have "take (unat ?n) (drop 256 ?u) = ?f" using assms(2) f by simp
  ultimately show ?thesis using assms(5) z by (simp add: fill_pkt_def frame_of_def)
qed

lemma bit_ff: "bit (0xff :: u16) n \<longleftrightarrow> n < 8"
proof -
  have "(0xff :: u16) = mask 8" by (simp add: mask_eq_exp_minus_1)
  show ?thesis unfolding \<open>0xff = mask 8\<close> bit_mask_iff by auto
qed

lemma ucast_low: "(ucast (w AND 0xff :: u16) :: u8) = ucast w"
  by (rule bit_word_eqI) (auto simp only: bit_unsigned_iff bit_and_iff bit_ff, simp_all)

lemma drop_split: "drop a xs = take b (drop a xs) @ drop (a + b) xs"
  by (metis append_take_drop_id drop_drop add.commute)

lemma fill_vlan_ok:
  assumes "NDEBUG K" and x: "length (user_space_buffer x) = 9320" and n: "14 \<le> unat (tp_len hdr)" "unat (tp_len hdr) \<le> 8996"
    and fits: "unat (tp_mac hdr) + unat (tp_len hdr) \<le> length (slot_bytes hdr)" and "has_vlan X hdr"
  shows "\<exists>y. fill_pkt K X hdr sw port_no x = Some y \<and> filled K port_no (frame_of X hdr) y"
proof -
  let ?n = "ucast (tp_len hdr) + 4 :: u64" and ?eth = "unat (tp_mac hdr)" and ?s = "slot_bytes hdr" and ?L = "unat (tp_len hdr)"
  have len: "unat ?n = ?L + 4" using n by (subst unat_add_lem [THEN iffD1]) simp_all
  define u where "u = user_space_buffer x"
  define A E T D where "A = take 256 u" and "E = take 12 (drop ?eth ?s)" and "T = take 2 (drop (?eth + 12) ?s)"
    and "D = take (?L - 14) (drop (?eth + 14) ?s)"
  define R0 R1 R2 R3 R4 where "R0 = take 14 (drop 256 u)" and "R1 = take 2 (drop 270 u)" and "R2 = take 2 (drop 272 u)"
    and "R3 = take (?L - 14) (drop 274 u)" and "R4 = drop (274 + (?L - 14)) u"
  have lens: "length A = 256" "length E = 12" "length T = 2" "length D = ?L - 14" "length R0 = 14" "length R1 = 2"
    "length R2 = 2" "length R3 = ?L - 14" "length u = 9320"
    using x fits n by (simp_all add: A_def E_def T_def D_def R0_def R1_def R2_def R3_def u_def)
  have "12 + (2 + (?L - 14)) = ?L" using n by linarith
  then have "slot_frame hdr = take (12 + (2 + (?L - 14))) (drop ?eth ?s)" by (simp only: slot_frame_def)
  then have f: "slot_frame hdr = E @ T @ D" unfolding take_add drop_drop by (simp add: E_def T_def D_def add.commute)
  have u: "u = A @ R0 @ R1 @ R2 @ R3 @ R4"
    using drop_split [of 0 u 256] drop_split [of 256 u 14] drop_split [of 270 u 2] drop_split [of 272 u 2]
      drop_split [of 274 u "?L - 14"] by (simp add: A_def R0_def R1_def R2_def R3_def R4_def)
  let ?V = "to_bytes (htobe16 (if KERNEL_STAG_SUPPORT X then tp_vlan_tpid hdr else 0x8100))"
  let ?C = "[ucast (drop_bit 8 (tp_vlan_tci hdr)), ucast (tp_vlan_tci hdr AND 0xff)] :: mem"
  have tci: "?C = to_bytes (htobe16 (tp_vlan_tci hdr))"
    by (simp add: htobe16_def to_bytes_bswap16 be16_def ucast_low)
  have dl: "load ?s (?eth + 12) = Some (of_bytes T :: u16)" using fits n by (simp add: load_def T_def)
  have T: "to_bytes (of_bytes T :: u16) = T" by (rule to_of_bytes) (use lens in simp)
  define x0 where "x0 = loaded sw ?n u x"
  have init: "init_pkt K x None ?n sw port_no 0 False True = Some (ROFL_SUCCESS, x0)"
    unfolding x0_def u_def by (rule init_loaded(1) [OF assms(1) x]) (use len n in simp)
  have step: "copy_in src a k d (x0\<lparr>user_space_buffer := pre @ old @ post\<rparr>) =
      Some (x0\<lparr>user_space_buffer := pre @ take (unat k) (drop a src) @ post\<rparr>)"
    if "length pre = 256 + d" "length old = unat k" "a + unat k \<le> length src" for src a k d pre old post
    using copy_in_at [of "x0\<lparr>user_space_buffer := pre @ old @ post\<rparr>" pre old post d k a src] that
    by (simp add: x0_def loaded_def)
  define v0 where "v0 = (if KERNEL_STAG_SUPPORT X then T else ?V)"
  have eth: "copy_in ?s ?eth 14 0 x0 = Some (x0\<lparr>user_space_buffer := A @ (E @ T) @ R1 @ R2 @ R3 @ R4\<rparr>)"
  proof -
    have "x0 = x0\<lparr>user_space_buffer := A @ R0 @ R1 @ R2 @ R3 @ R4\<rparr>" unfolding u [symmetric] by (simp add: x0_def loaded_def u_def)
    moreover have "take 14 (drop ?eth ?s) = E @ T" using take_add [of 12 2 "drop ?eth ?s"] by (simp add: E_def T_def add.commute)
    ultimately show ?thesis using step [of A 0 R0 14 ?eth ?s "R1 @ R2 @ R3 @ R4"] lens fits n by simp
  qed
  have v1: "(if KERNEL_STAG_SUPPORT X then Some (x0\<lparr>user_space_buffer := A @ (E @ T) @ R1 @ R2 @ R3 @ R4\<rparr>)
      else copy_in (to_bytes (htobe16 0x8100)) 0 2 12 (x0\<lparr>user_space_buffer := A @ (E @ T) @ R1 @ R2 @ R3 @ R4\<rparr>)) =
      Some (x0\<lparr>user_space_buffer := A @ E @ v0 @ R1 @ R2 @ R3 @ R4\<rparr>)"
    using step [of "A @ E" 12 T 2 0 "to_bytes (htobe16 0x8100)" "R1 @ R2 @ R3 @ R4"] lens by (simp add: v0_def)
  have lv: "length v0 = 2" using lens by (simp add: v0_def)
  have c: "copy_in ?C 0 2 14 (x0\<lparr>user_space_buffer := A @ E @ v0 @ R1 @ R2 @ R3 @ R4\<rparr>) =
      Some (x0\<lparr>user_space_buffer := A @ E @ v0 @ ?C @ R2 @ R3 @ R4\<rparr>)"
    using step [of "A @ E @ v0" 14 R1 2 0 ?C "R2 @ R3 @ R4"] lens lv by simp
  have t: "copy_in T 0 2 16 (x0\<lparr>user_space_buffer := A @ E @ v0 @ ?C @ R2 @ R3 @ R4\<rparr>) =
      Some (x0\<lparr>user_space_buffer := A @ E @ v0 @ ?C @ T @ R3 @ R4\<rparr>)"
    using step [of "A @ E @ v0 @ ?C" 16 R2 2 0 T "R3 @ R4"] lens lv by simp
  have v2: "(if KERNEL_STAG_SUPPORT X then copy_in (to_bytes (htobe16 (tp_vlan_tpid hdr))) 0 2 12
        (x0\<lparr>user_space_buffer := A @ E @ v0 @ ?C @ T @ R3 @ R4\<rparr>) else Some (x0\<lparr>user_space_buffer := A @ E @ v0 @ ?C @ T @ R3 @ R4\<rparr>)) =
      Some (x0\<lparr>user_space_buffer := A @ E @ ?V @ ?C @ T @ R3 @ R4\<rparr>)"
    using step [of "A @ E" 12 v0 2 0 "to_bytes (htobe16 (tp_vlan_tpid hdr))" "?C @ T @ R3 @ R4"] lens lv
    by (cases "KERNEL_STAG_SUPPORT X") (simp_all add: v0_def)
  have "unat (ucast (tp_len hdr) - 14 :: u64) = ?L - 14" using n by (simp add: unat_sub word_le_nat_alt)
  then have d: "copy_in ?s (?eth + 14) (ucast (tp_len hdr) - 14) 18 (x0\<lparr>user_space_buffer := A @ E @ ?V @ ?C @ T @ R3 @ R4\<rparr>) =
      Some (x0\<lparr>user_space_buffer := A @ E @ ?V @ ?C @ T @ D @ R4\<rparr>)"
    using step [of "A @ E @ ?V @ ?C @ T" 18 R3 "ucast (tp_len hdr) - 14" "?eth + 14" ?s R4] lens fits n by (simp add: D_def)
  let ?u = "A @ E @ ?V @ ?C @ T @ D @ R4" and ?x = "x0\<lparr>user_space_buffer := A @ E @ ?V @ ?C @ T @ D @ R4\<rparr>"
  have lu: "length ?u = 9320" using lens n by (simp add: R4_def)
  have cp: "copied ?n ?u ?x" by (simp add: copied_def x0_def loaded_def)
  obtain y where y: "classify_in K port_no ?x = Some y" "copied ?n ?u y"
    by (rule classify_copied [OF assms(1) lu _ cp]) (use len n in simp)
  obtain z where z: "classify_in K port_no y = Some z" "filled K port_no (take (unat ?n) (drop 256 ?u)) z"
    by (rule classify_copied [OF assms(1) lu _ y(2)]) (use len n in simp)
  have "take (unat ?n) (drop 256 ?u) = frame_of X hdr"
    using assms(6) lens n tci unfolding len by (simp add: frame_of_def f)
  moreover have "fill_vlan_pkt K X hdr sw port_no x = Some y"
    unfolding fill_vlan_pkt_def by (simp only: init eth v1 dl c T t v2 d y(1) Option.bind.bind_lunit prod.case Let_def)
  ultimately show ?thesis using assms(6) z by (simp add: fill_pkt_def)
qed

section \<open>Receiving\<close>

definition ring_ok :: "mmap_ring \<Rightarrow> bool" where
  "ring_ok r \<longleftrightarrow> unat (pos r) < length (ring r) \<and> unat (tp_frame_nr r) = length (ring r)"

text \<open>Slots have been given back to the kernel, nothing else.\<close>

definition gave_back :: "if_packet \<Rightarrow> mmap_ring \<Rightarrow> mmap_ring \<Rightarrow> bool" where
  "gave_back X r r' \<longleftrightarrow> length (ring r') = length (ring r) \<and> tp_frame_size r' = tp_frame_size r \<and>
     (\<forall>j<length (ring r). ring r' ! j = ring r ! j \<or> tp_status (ring r' ! j) = TP_STATUS_KERNEL X)"

text \<open>The slots the kernel has filled.\<close>

definition full_slots :: "if_packet \<Rightarrow> mmap_ring \<Rightarrow> nat set" where
  "full_slots X r = {j. j < length (ring r) \<and> tp_status (ring r ! j) \<noteq> TP_STATUS_KERNEL X}"

lemma finite_full [simp]: "finite (full_slots X r)"
  by (simp add: full_slots_def)

lemma gave_back_full: "gave_back X r r' \<Longrightarrow> full_slots X r' \<subseteq> full_slots X r"
  by (force simp: gave_back_def full_slots_def)

lemma gave_back_trans: "gave_back X r r' \<Longrightarrow> gave_back X r' r'' \<Longrightarrow> gave_back X r r''"
  by (fastforce simp: gave_back_def)

lemma gave_back_same: "gave_back X r r' \<Longrightarrow> j \<in> full_slots X r' \<Longrightarrow> ring r' ! j = ring r ! j"
  by (auto simp: gave_back_def full_slots_def)

lemma next_pos_mod:
  assumes "ring_ok r"
  shows "unat (next_pos r) = (unat (pos r) + 1) mod length (ring r)"
proof -
  have lt: "unat (pos r) < unat (tp_frame_nr r)" "unat (tp_frame_nr r) = length (ring r)" using assms by (simp_all add: ring_ok_def)
  have "unat (tp_frame_nr r) < 2 ^ LENGTH(32)" by (rule unsigned_less)
  then have "unat (pos r + 1) = unat (pos r) + 1" using lt by (simp add: unat_word_ariths)
  moreover from this have "pos r + 1 = tp_frame_nr r \<longleftrightarrow> unat (pos r) + 1 = length (ring r)"
    using lt(2) by (metis word_unat_eq_iff)
  ultimately show ?thesis using lt by (simp add: next_pos_def)
qed

lemma next_pos_ok:
  assumes "ring_ok r"
  shows "unat (next_pos r) < length (ring r)"
  unfolding next_pos_mod [OF assms] by (rule mod_less_divisor) (use assms in \<open>auto simp: ring_ok_def\<close>)

lemma give_back:
  assumes "ring_ok r" and "i \<in> full_slots X r"
  defines "r' \<equiv> set_slot i ((ring r ! i)\<lparr>tp_status := TP_STATUS_KERNEL X\<rparr>) r"
  shows "ring_ok r'" and "gave_back X r r'" and "full_slots X r' \<subset> full_slots X r"
    and "tp_status (ring r' ! i) = TP_STATUS_KERNEL X"
proof -
  have i: "i < length (ring r)" using assms(2) by (simp add: full_slots_def)
  show "ring_ok r'" using assms(1) by (simp add: r'_def set_slot_def ring_ok_def)
  show gb: "gave_back X r r'" using i by (auto simp: r'_def set_slot_def gave_back_def nth_list_update)
  show k: "tp_status (ring r' ! i) = TP_STATUS_KERNEL X" using i by (simp add: r'_def set_slot_def)
  have "i \<notin> full_slots X r'" using k by (simp add: full_slots_def)
  then show "full_slots X r' \<subset> full_slots X r" using gave_back_full [OF gb] assms(2) by blast
qed

lemma move_on:
  assumes "ring_ok r"
  defines "r' \<equiv> r\<lparr>pos := next_pos r\<rparr>"
  shows "ring_ok r'" and "gave_back X r r'" and "full_slots X r' = full_slots X r" and "ring r' = ring r"
  using assms(1) next_pos_ok [OF assms(1)] by (simp_all add: r'_def ring_ok_def gave_back_def full_slots_def)

lemma read_packet_ok:
  assumes "ring_ok r"
  shows "\<exists>v r'. read_packet X r = Some (v, r') \<and> ring_ok r' \<and> gave_back X r r' \<and> (\<forall>i. v = Some i \<longrightarrow> i \<in> full_slots X r') \<and>
    (v = None \<longrightarrow> unat (pos r') \<notin> full_slots X r')"
  using assms
proof (induction "card (full_slots X r)" arbitrary: r rule: less_induct)
  case less
  let ?i = "unat (pos r)" and ?r1 = "r\<lparr>pos := next_pos r\<rparr>"
  let ?hdr = "ring r ! ?i"
  have i: "?i < length (ring r)" using less.prems by (simp add: ring_ok_def)
  note m = move_on [OF less.prems]
  show ?case
  proof (cases "tp_status ?hdr = TP_STATUS_KERNEL X")
    case True
    then have "read_packet X r = Some (None, r)" using i by (subst read_packet.simps) (simp add: Let_def)
    then show ?thesis using less.prems True by (auto simp: gave_back_def full_slots_def)
  next
    case False
    then have full: "?i \<in> full_slots X ?r1" using i by (simp add: full_slots_def)
    show ?thesis
    proof (cases "tp_status ?hdr AND (TP_STATUS_COPY X OR TP_STATUS_CSUMNOTREADY X) = 0")
      case True
      then have "read_packet X r = Some (Some ?i, ?r1)" using i False by (subst read_packet.simps) (simp add: Let_def)
      then show ?thesis using m(1) m(2) [of X] full by blast
    next
      case bad: False
      let ?r2 = "set_slot ?i (?hdr\<lparr>tp_status := TP_STATUS_KERNEL X\<rparr>) ?r1"
      note g = give_back [OF m(1) full, simplified]
      have step: "read_packet X r = read_packet X ?r2" using i False bad by (subst read_packet.simps) (simp add: Let_def)
      have "card (full_slots X ?r2) < card (full_slots X r)"
        using g(3) m(3) [of X] by (intro psubset_card_mono) simp_all
      from less.hyps [OF this g(1)] obtain v r' where r': "read_packet X ?r2 = Some (v, r')" "ring_ok r'" "gave_back X ?r2 r'"
        "\<forall>i. v = Some i \<longrightarrow> i \<in> full_slots X r'" "v = None \<longrightarrow> unat (pos r') \<notin> full_slots X r'" by blast
      have "gave_back X r r'" using m(2) g(2) r'(3) gave_back_trans by blast
      then show ?thesis using r' step by auto
    qed
  qed
qed

text \<open>What the kernel has put into a slot: a whole frame, inside the slot.\<close>

definition whole_frame :: "tpacket2 \<Rightarrow> bool" where
  "whole_frame hdr \<longleftrightarrow> 14 \<le> unat (tp_len hdr) \<and> unat (tp_len hdr) \<le> 8996 \<and>
     unat (tp_mac hdr) + unat (tp_len hdr) \<le> length (slot_bytes hdr)"

definition frames_whole :: "if_packet \<Rightarrow> mmap_ring \<Rightarrow> bool" where
  "frames_whole X r \<longleftrightarrow> (\<forall>i\<in>full_slots X r. whole_frame (ring r ! i))"

lemma frames_whole_after: "frames_whole X r \<Longrightarrow> gave_back X r r' \<Longrightarrow> frames_whole X r'"
  unfolding frames_whole_def by (metis gave_back_full gave_back_same subsetD)

lemma fill_ok:
  "NDEBUG K \<Longrightarrow> length (user_space_buffer x) = 9320 \<Longrightarrow> whole_frame hdr \<Longrightarrow>
   \<exists>y. fill_pkt K X hdr sw port_no x = Some y \<and> filled K port_no (frame_of X hdr) y"
  using fill_plain_ok [of K x hdr X sw port_no] fill_vlan_ok [of K x hdr X sw port_no]
  by (cases "has_vlan X hdr") (auto simp: whole_frame_def)

lemma own_frame_ok: "whole_frame hdr \<Longrightarrow> \<exists>b. own_frame X hdr a = Some b"
  by (auto simp: own_frame_def whole_frame_def Let_def)

definition held :: "nat option \<Rightarrow> nat option multiset" where
  "held v = (case v of None \<Rightarrow> {#} | Some p \<Rightarrow> {#Some p#})"

text \<open>What \<open>read\<close> delivers: a packet filled from a slot that holds neither an outgoing nor an own frame, and
  which is the kernel's again.\<close>

definition delivers :: "rofl \<Rightarrow> if_packet \<Rightarrow> mmap_port \<Rightarrow> mmap_ring \<Rightarrow> mmap_ring \<Rightarrow> nat \<Rightarrow> bufferpool option \<Rightarrow> bool" where
  "delivers K X a r r' p inst \<longleftrightarrow> (\<exists>i\<in>full_slots X r. own_frame X (ring r ! i) a = Some False \<and>
     tp_status (ring r' ! i) = TP_STATUS_KERNEL X \<and>
     (\<exists>x. packet p inst = Some x \<and> filled K (of_port_num (ioport a)) (frame_of X (ring r ! i)) x))"

lemma delivers_later:
  assumes "delivers K X a r1 r' p inst" and "gave_back X r r1"
  shows "delivers K X a r r' p inst"
  using assms gave_back_full [OF assms(2)] gave_back_same [OF assms(2)] unfolding delivers_def by (metis subsetD)

text \<open>A frame that does not fit its slot.\<close>

definition overlong :: "if_packet \<Rightarrow> mmap_ring \<Rightarrow> bool" where
  "overlong X r \<longleftrightarrow> (\<exists>i\<in>full_slots X r. ucast (tp_mac (ring r ! i)) + tp_snaplen (ring r ! i) > tp_frame_size r)"

lemma overlong_later: "overlong X r1 \<Longrightarrow> gave_back X r r1 \<Longrightarrow> overlong X r"
proof -
  assume o: "overlong X r1" and g: "gave_back X r r1"
  obtain j where j: "j \<in> full_slots X r1" "ucast (tp_mac (ring r1 ! j)) + tp_snaplen (ring r1 ! j) > tp_frame_size r1"
    using o unfolding overlong_def by blast
  have "tp_frame_size r1 = tp_frame_size r" using g by (simp add: gave_back_def)
  then show "overlong X r" using j gave_back_same [OF g j(1)] gave_back_full [OF g] unfolding overlong_def by auto
qed

text \<open>What \<open>read\<close> has to keep.\<close>

definition reads :: "rofl \<Rightarrow> if_packet \<Rightarrow> nat \<Rightarrow> nat option multiset \<Rightarrow> mmap_port \<Rightarrow> mmap_ring \<Rightarrow>
    (nat option \<times> mmap_port \<times> bufferpool option) option \<Rightarrow> bool" where
  "reads K X c M a r res \<longleftrightarrow> (\<exists>v a' inst' r'. res = Some (v, a', inst') \<and> rx a' = Some r' \<and> ring_ok r' \<and> gave_back X r r' \<and>
     holds K c (held v + M) inst' \<and> buffers_ok inst' \<and> holdings (ioport a') = holdings (ioport a) \<and>
     (port_ok (ioport a) \<longrightarrow> port_ok (ioport a')) \<and> (\<forall>p. v = Some p \<longrightarrow> delivers K X a r r' p inst') \<and>
     (v = None \<longrightarrow> unat (pos r') \<notin> full_slots X r' \<or> rx_dropped a' = rx_dropped a + 1 \<and> (c - 1 \<le> size M \<or> overlong X r)))"

lemma take_frame_ok:
  assumes "NDEBUG K" and r: "ring_ok r" "i \<in> full_slots X r" "whole_frame (ring r ! i)" "own_frame X (ring r ! i) a = Some False"
    and h: "holds K c M inst" "buffers_ok inst"
  shows "reads K X c M a r (take_frame K X i r a inst)"
proof -
  let ?r' = "return_packet X i r" and ?hdr = "ring r ! i"
  note g = give_back [OF r(1,2), folded return_packet_def]
  show ?thesis
  proof (cases "size M < c - 1")
    case False
    then have "Bufferpool.get_buffer K inst = Some (None, inst)" using holds_get [OF h(1)] by simp
    then show ?thesis using False g h by (simp add: take_frame_def reads_def with_rx_def held_def)
  next
    case True
    then obtain q inst1 where q: "Bufferpool.get_buffer K inst = Some (Some q, inst1)" "holds K c (add_mset (Some q) M) inst1"
      using holds_get [OF h(1)] by auto
    have b1: "buffers_ok inst1" using get_packets [OF q(1)] h(2) by (simp add: buffers_ok_def)
    obtain x where x: "packet q inst1 = Some x" by (rule holds_packet [OF q(2)])
    then have "length (user_space_buffer x) = 9320" using b1 by (auto simp: buffers_ok_def)
    then obtain y where y: "fill_pkt K X ?hdr (attached_sw a) (of_port_num (ioport a)) x = Some y"
      "filled K (of_port_num (ioport a)) (frame_of X ?hdr) y" using fill_ok [OF assms(1) _ r(3)] by blast
    obtain bp where bp: "update_packet q (fill_pkt K X ?hdr (attached_sw a) (of_port_num (ioport a))) inst1 = Some (Some bp)"
      "holds K c (add_mset (Some q) M) (Some bp)" "buffers_ok (Some bp)" "packet q (Some bp) = Some y"
      by (rule update_pkt [where f = "fill_pkt K X ?hdr (attached_sw a) (of_port_num (ioport a))" and y = y, OF q(2) b1 x y(1)]) (use y(2) in \<open>simp add: filled_def\<close>)
    then show ?thesis using g q(1) r(2,4) y(2)
      by (auto simp: take_frame_def reads_def with_rx_def held_def delivers_def Let_def)
  qed
qed

lemma reads_later:
  assumes "reads K X c M a r1 res" and "gave_back X r r1"
  shows "reads K X c M a r res"
  using assms(1) gave_back_trans [OF assms(2)] delivers_later [OF _ assms(2)] overlong_later [OF _ assms(2)] unfolding reads_def by blast

lemma read_next_ok:
  assumes "NDEBUG K" and "holds K c M inst" and "buffers_ok inst" and "ring_ok r" and "frames_whole X r"
  shows "reads K X c M a r (read_next K X r a inst)"
  using assms(4,5)
proof (induction "card (full_slots X r)" arbitrary: r rule: less_induct)
  case less
  obtain v r1 where r1: "read_packet X r = Some (v, r1)" "ring_ok r1" "gave_back X r r1" "\<forall>i. v = Some i \<longrightarrow> i \<in> full_slots X r1"
    "v = None \<longrightarrow> unat (pos r1) \<notin> full_slots X r1"
    using read_packet_ok [OF less.prems(1)] by blast
  have w1: "frames_whole X r1" by (rule frames_whole_after [OF less.prems(2) r1(3)])
  show ?case
  proof (cases v)
    case None
    then have "read_next K X r a inst = Some (None, with_rx r1 a, inst)" using r1(1) by (subst read_next.simps) simp
    then show ?thesis using r1 None assms(2,3) by (simp add: reads_def with_rx_def held_def)
  next
    case (Some i)
    let ?hdr = "ring r1 ! i" and ?r2 = "return_packet X i r1"
    have i: "i \<in> full_slots X r1" "whole_frame ?hdr" using r1(4) w1 Some by (simp_all add: frames_whole_def)
    note g = give_back [OF r1(2) i(1), folded return_packet_def]
    obtain own where own: "own_frame X ?hdr a = Some own" using own_frame_ok [OF i(2)] by blast
    have step: "read_next K X r a inst =
        (if ucast (tp_mac ?hdr) + tp_snaplen ?hdr > tp_frame_size r1 then
           Some (None, with_rx ?r2 (a\<lparr>rx_dropped := rx_dropped a + 1\<rparr>), inst)
         else if own then read_next K X ?r2 a inst else take_frame K X i r1 a inst)"
      using r1(1) Some own by (subst read_next.simps) (simp add: Let_def)
    have gb: "gave_back X r ?r2" by (rule gave_back_trans [OF r1(3) g(2)])
    consider (too_long) "ucast (tp_mac ?hdr) + tp_snaplen ?hdr > tp_frame_size r1"
      | (mine) "\<not> ucast (tp_mac ?hdr) + tp_snaplen ?hdr > tp_frame_size r1" "own"
      | (fresh) "\<not> ucast (tp_mac ?hdr) + tp_snaplen ?hdr > tp_frame_size r1" "\<not> own" by blast
    then show ?thesis
    proof cases
      case too_long
      then have "overlong X r" using i(1) overlong_later [OF _ r1(3)] unfolding overlong_def by blast
      then show ?thesis using too_long g gb assms(2,3) by (simp add: step reads_def with_rx_def held_def)
    next
      case mine
      have "card (full_slots X ?r2) < card (full_slots X r)"
        using g(3) gave_back_full [OF r1(3)] by (intro psubset_card_mono) auto
      from less.hyps [OF this g(1) frames_whole_after [OF w1 g(2)]] show ?thesis
        using mine by (simp add: step reads_later [OF _ gb])
    next
      case fresh
      then have "reads K X c M a r1 (take_frame K X i r1 a inst)"
        using take_frame_ok [OF assms(1) r1(2) i _ assms(2,3)] own by simp
      then show ?thesis using fresh by (simp add: step reads_later [OF _ r1(3)])
    qed
  qed
qed

section \<open>Which frame is read\<close>

text \<open>The slots in their order from the position on, and what has been given back when the first \<open>k\<close> of them have been dealt with.\<close>

definition slot_no :: "mmap_ring \<Rightarrow> nat \<Rightarrow> nat" where
  "slot_no r k = (unat (pos r) + k) mod length (ring r)"

definition returned :: "if_packet \<Rightarrow> mmap_ring \<Rightarrow> nat \<Rightarrow> mmap_ring \<Rightarrow> bool" where
  "returned X r k r' \<longleftrightarrow> length (ring r') = length (ring r) \<and> tp_frame_size r' = tp_frame_size r \<and> tp_frame_nr r' = tp_frame_nr r \<and>
     unat (pos r') = slot_no r k \<and>
     (\<forall>i<length (ring r). ring r' ! i =
        (if \<exists>j<k. i = slot_no r j then (ring r ! i)\<lparr>tp_status := TP_STATUS_KERNEL X\<rparr> else ring r ! i))"

text \<open>The frames that are passed over: those the kernel has cut off or not finished, and those that the switch or its host has sent.\<close>

definition unusable :: "if_packet \<Rightarrow> tpacket2 \<Rightarrow> bool" where
  "unusable X h \<longleftrightarrow> tp_status h AND (TP_STATUS_COPY X OR TP_STATUS_CSUMNOTREADY X) \<noteq> 0"

definition too_long :: "mmap_ring \<Rightarrow> tpacket2 \<Rightarrow> bool" where
  "too_long r h \<longleftrightarrow> ucast (tp_mac h) + tp_snaplen h > tp_frame_size r"

definition passed_over :: "if_packet \<Rightarrow> mmap_port \<Rightarrow> mmap_ring \<Rightarrow> tpacket2 \<Rightarrow> bool" where
  "passed_over X a r h \<longleftrightarrow> unusable X h \<or> \<not> too_long r h \<and> own_frame X h a = Some True"

text \<open>What \<open>read\<close> promises: it gives back the slots it passes over, \<open>k\<close> of them. If the next one is empty, nothing else happens. Otherwise
  it is given back too: its frame is delivered, unless it does not fit its slot or there is no buffer, and then it is counted.\<close>

definition read_spec :: "rofl \<Rightarrow> if_packet \<Rightarrow> bool \<Rightarrow> mmap_port \<Rightarrow> mmap_ring \<Rightarrow> nat option \<Rightarrow> mmap_port \<Rightarrow> bufferpool option \<Rightarrow> bool" where
  "read_spec K X avail a r v a' inst' \<longleftrightarrow> (\<exists>k\<le>length (ring r). \<exists>r'. rx a' = Some r' \<and>
     (\<forall>j<k. slot_no r j \<in> full_slots X r \<and> passed_over X a r (ring r ! slot_no r j)) \<and>
     (if k = length (ring r) \<or> slot_no r k \<notin> full_slots X r
      then v = None \<and> rx_dropped a' = rx_dropped a \<and> returned X r k r'
      else \<not> passed_over X a r (ring r ! slot_no r k) \<and> returned X r (Suc k) r' \<and>
        (if too_long r (ring r ! slot_no r k) \<or> \<not> avail then v = None \<and> rx_dropped a' = rx_dropped a + 1
         else rx_dropped a' = rx_dropped a \<and> (\<exists>p x. v = Some p \<and> packet p inst' = Some x \<and>
           filled K (of_port_num (ioport a)) (frame_of X (ring r ! slot_no r k)) x))))"

lemma slot_no_inj: "j < k \<Longrightarrow> k < length (ring r) \<Longrightarrow> slot_no r j \<noteq> slot_no r k"
proof
  assume jk: "j < k" "k < length (ring r)" and "slot_no r j = slot_no r k"
  then have "length (ring r) dvd (unat (pos r) + k) - (unat (pos r) + j)"
    unfolding slot_no_def by (metis mod_eq_dvd_iff_nat add_le_mono less_imp_le order_refl)
  then have "length (ring r) dvd k - j" by simp
  then show False using jk by (auto dest: dvd_imp_le)
qed

lemma slot_no_less: "ring_ok r \<Longrightarrow> slot_no r k < length (ring r)"
  unfolding slot_no_def by (rule mod_less_divisor) (auto simp: ring_ok_def)

lemma returned_0: "ring_ok r \<Longrightarrow> returned X r 0 r"
  by (simp add: returned_def slot_no_def ring_ok_def)

lemma returned_Suc:
  assumes "ring_ok r" and "returned X r k r1" and "k < length (ring r)"
  shows "returned X r (Suc k) (return_packet X (slot_no r k) (r1\<lparr>pos := next_pos r1\<rparr>))"
proof -
  have lt: "slot_no r k < length (ring r)" by (rule slot_no_less [OF assms(1)])
  have ok: "ring_ok r1" using assms lt by (simp add: ring_ok_def returned_def)
  have "unat (next_pos r1) = (slot_no r k + 1) mod length (ring r)" using next_pos_mod [OF ok] assms(2) by (simp add: returned_def)
  then have p: "unat (next_pos r1) = slot_no r (Suc k)" by (simp add: slot_no_def mod_simps)
  have fresh: "\<not> (\<exists>j<k. slot_no r k = slot_no r j)" using slot_no_inj [OF _ assms(3)] by metis
  show ?thesis using assms(2) p lt fresh
    by (auto simp: returned_def return_packet_def set_slot_def nth_list_update less_Suc_eq)
qed

lemma take_frame_reads:
  assumes "NDEBUG K" and "whole_frame (ring r ! i)" and h: "holds K c M inst" "buffers_ok inst"
  shows "\<exists>v a' inst'. take_frame K X i r a inst = Some (v, a', inst') \<and> rx a' = Some (return_packet X i r) \<and>
    (if size M < c - 1 then rx_dropped a' = rx_dropped a \<and> (\<exists>p x. v = Some p \<and> packet p inst' = Some x \<and>
        filled K (of_port_num (ioport a)) (frame_of X (ring r ! i)) x)
     else v = None \<and> rx_dropped a' = rx_dropped a + 1)"
proof (cases "size M < c - 1")
  case False
  then have "Bufferpool.get_buffer K inst = Some (None, inst)" using holds_get [OF h(1)] by simp
  then show ?thesis using False by (simp add: take_frame_def with_rx_def)
next
  case True
  let ?f = "fill_pkt K X (ring r ! i) (attached_sw a) (of_port_num (ioport a))"
  obtain q inst1 where q: "Bufferpool.get_buffer K inst = Some (Some q, inst1)" "holds K c (add_mset (Some q) M) inst1"
    using holds_get [OF h(1)] True by auto
  have b1: "buffers_ok inst1" using get_packets [OF q(1)] h(2) by (simp add: buffers_ok_def)
  obtain x where x: "packet q inst1 = Some x" by (rule holds_packet [OF q(2)])
  then have "length (user_space_buffer x) = 9320" using b1 by (auto simp: buffers_ok_def)
  then obtain y where y: "?f x = Some y" "filled K (of_port_num (ioport a)) (frame_of X (ring r ! i)) y"
    using fill_ok [OF assms(1) _ assms(2)] by blast
  obtain bp where bp: "update_packet q ?f inst1 = Some (Some bp)" "packet q (Some bp) = Some y"
    by (rule update_pkt [where f = ?f and y = y, OF q(2) b1 x y(1)]) (use y(2) in \<open>simp add: filled_def\<close>)
  then show ?thesis using True q(1) y(2) by (simp add: take_frame_def with_rx_def Let_def)
qed

lemma read_next_exact:
  assumes "NDEBUG K" and h: "holds K c M inst" "buffers_ok inst" and ok: "ring_ok r" and whole: "frames_whole X r"
    and "returned X r k r1" and "k \<le> length (ring r)"
    and "\<forall>j<k. slot_no r j \<in> full_slots X r \<and> passed_over X a r (ring r ! slot_no r j)"
  shows "\<exists>v a' inst'. read_next K X r1 a inst = Some (v, a', inst') \<and> read_spec K X (size M < c - 1) a r v a' inst'"
  using assms(6-)
proof (induction "length (ring r) - k" arbitrary: k r1 rule: less_induct)
  case less
  let ?n = "length (ring r)" and ?i = "slot_no r k"
  have i: "unat (pos r1) = ?i" "?i < ?n" "length (ring r1) = ?n" "tp_frame_size r1 = tp_frame_size r"
    using less.prems(1) slot_no_less [OF ok] by (simp_all add: returned_def)
  let ?h = "ring r1 ! ?i" and ?r2 = "return_packet X ?i (r1\<lparr>pos := next_pos r1\<rparr>)"
  have empty: ?case if "tp_status ?h = TP_STATUS_KERNEL X" "k = ?n \<or> ?i \<notin> full_slots X r"
  proof -
    have "read_packet X r1 = Some (None, r1)" using that(1) i by (subst read_packet.simps) (simp add: Let_def)
    then have "read_next K X r1 a inst = Some (None, with_rx r1 a, inst)" by (subst read_next.simps) simp
    moreover have "read_spec K X (size M < c - 1) a r None (with_rx r1 a) inst"
      unfolding read_spec_def by (rule exI [of _ k]) (use that(2) less.prems in \<open>auto simp: with_rx_def\<close>)
    ultimately show ?case by blast
  qed
  show ?case
  proof (cases "k = ?n")
    case True
    then have "?i = slot_no r 0" "0 < k" using i(2) by (auto simp: slot_no_def)
    moreover have "ring r1 ! ?i = (if \<exists>j<k. ?i = slot_no r j then (ring r ! ?i)\<lparr>tp_status := TP_STATUS_KERNEL X\<rparr> else ring r ! ?i)"
      using less.prems(1) i(2) unfolding returned_def by blast
    ultimately have "tp_status ?h = TP_STATUS_KERNEL X" by auto
    then show ?thesis using empty True by blast
  next
    case False
    then have k: "k < ?n" using less.prems(2) by simp
    have h: "?h = ring r ! ?i" using less.prems(1) i(2) slot_no_inj [OF _ k] unfolding returned_def by metis
    note ret = returned_Suc [OF ok less.prems(1) k]
    have nxt: "\<exists>v a' inst'. read_next K X ?r2 a inst = Some (v, a', inst') \<and> read_spec K X (size M < c - 1) a r v a' inst'"
      if "?i \<in> full_slots X r" "passed_over X a r ?h"
      by (rule less.hyps [OF _ ret]) (use k that h less.prems(3) in \<open>auto simp: less_Suc_eq\<close>)
    have stop: "read_spec K X (size M < c - 1) a r v a' inst'"
      if "?i \<in> full_slots X r" "\<not> passed_over X a r ?h" "rx a' = Some ?r2"
        "if too_long r ?h \<or> \<not> size M < c - 1 then v = None \<and> rx_dropped a' = rx_dropped a + 1
         else rx_dropped a' = rx_dropped a \<and> (\<exists>p x. v = Some p \<and> packet p inst' = Some x \<and>
           filled K (of_port_num (ioport a)) (frame_of X ?h) x)" for v a' inst'
      unfolding read_spec_def by (rule exI [of _ k]) (use that [unfolded h] k less.prems ret in \<open>simp del: not_less\<close>)
    show ?thesis
    proof (cases "tp_status ?h = TP_STATUS_KERNEL X")
      case True
      then show ?thesis using empty h by (simp add: full_slots_def)
    next
      case False
      then have full: "?i \<in> full_slots X r" using h i(2) by (simp add: full_slots_def)
      show ?thesis
      proof (cases "unusable X ?h")
        case True
        then have "read_packet X r1 = read_packet X ?r2" using i False
          by (subst read_packet.simps) (simp add: Let_def unusable_def return_packet_def)
        then have "read_next K X r1 a inst = read_next K X ?r2 a inst"
          by (subst (1 2) read_next.simps) simp
        then show ?thesis using nxt full True by (simp add: passed_over_def)
      next
        case usable: False
        then have "read_packet X r1 = Some (Some ?i, r1\<lparr>pos := next_pos r1\<rparr>)" using i False
          by (subst read_packet.simps) (simp add: Let_def unusable_def)
        moreover have w: "whole_frame ?h" using whole full h by (simp add: frames_whole_def)
        moreover obtain own where own: "own_frame X ?h a = Some own" using own_frame_ok [OF w] by blast
        ultimately have step: "read_next K X r1 a inst =
            (if too_long r ?h then Some (None, with_rx ?r2 (a\<lparr>rx_dropped := rx_dropped a + 1\<rparr>), inst)
             else if own then read_next K X ?r2 a inst else take_frame K X ?i (r1\<lparr>pos := next_pos r1\<rparr>) a inst)"
          using i(4) by (subst read_next.simps) (simp add: Let_def too_long_def)
        show ?thesis
        proof (cases "\<not> too_long r ?h \<and> own")
          case True
          then show ?thesis using nxt full own step by (simp add: passed_over_def)
        next
          case go: False
          then have p: "\<not> passed_over X a r ?h" using usable own by (auto simp: passed_over_def)
          show ?thesis
          proof (cases "too_long r ?h")
            case True
            then show ?thesis using stop [OF full p] by (simp add: step with_rx_def)
          next
            case False
            have rr: "ring (r1\<lparr>pos := next_pos r1\<rparr>) = ring r1" by simp
            have w': "whole_frame (ring (r1\<lparr>pos := next_pos r1\<rparr>) ! ?i)" using w by simp
            obtain v a' inst' where t: "take_frame K X ?i (r1\<lparr>pos := next_pos r1\<rparr>) a inst = Some (v, a', inst')" "rx a' = Some ?r2"
              "if size M < c - 1 then rx_dropped a' = rx_dropped a \<and> (\<exists>p x. v = Some p \<and> packet p inst' = Some x \<and>
                 filled K (of_port_num (ioport a)) (frame_of X ?h) x) else v = None \<and> rx_dropped a' = rx_dropped a + 1"
              using take_frame_reads [OF assms(1) w' assms(2,3), of X a] unfolding rr by blast
            have "read_spec K X (size M < c - 1) a r v a' inst'"
              by (rule stop [OF full p t(2)]) (use t(3) False in \<open>cases "size M < c - 1"; simp\<close>)
            then show ?thesis using t(1) False go by (simp add: step)
          qed
        qed
      qed
    qed
  qed
qed

text \<open>C14: \<open>ioport_mmap::read\<close> on a port that is up and does not drop what it receives, without assertions, with a ring of whole frames: it
  returns, whatever the kernel has put into the ring. From the position on it passes over, and gives back, the frames that are cut off,
  that are not finished (the two status bits), that are outgoing or that have the address of the port, and no others. If the slot behind
  them is empty, there is no packet. Otherwise the slot is given back too, and the packet holds the bytes of its frame, with the tag
  the kernel had taken out put back, its headers found; if the frame does not fit its slot or the pool is empty, there is none and the
  counter of dropped frames is one higher. No other slot changes, and every buffer is accounted for.\<close>

theorem mmap_read_delivers:
  assumes "NDEBUG K" and "rx a = Some r" and "up (ioport a)" and "\<not> drop_received (ioport a)"
    and "ring_ok r" and "frames_whole X r" and "holds K c M inst" and "buffers_ok inst"
  shows "\<exists>v a' inst' r'. mmap_read K X a inst = Some (v, a', inst') \<and> rx a' = Some r' \<and> ring_ok r' \<and> gave_back X r r' \<and>
    holds K c (held v + M) inst' \<and> buffers_ok inst' \<and> holdings (ioport a') = holdings (ioport a) \<and>
    (port_ok (ioport a) \<longrightarrow> port_ok (ioport a')) \<and> read_spec K X (size M < c - 1) a r v a' inst'"
proof -
  have r: "mmap_read K X a inst = read_next K X r a inst" using assms(2-4) by (simp add: mmap_read_def)
  have "\<exists>v a' inst'. read_next K X r a inst = Some (v, a', inst') \<and> read_spec K X (size M < c - 1) a r v a' inst'"
    by (rule read_next_exact [OF assms(1,7,8,5,6) returned_0 [OF assms(5)]]) simp_all
  then obtain v a' inst' where e: "read_next K X r a inst = Some (v, a', inst')" "read_spec K X (size M < c - 1) a r v a' inst'" by blast
  show ?thesis using read_next_ok [OF assms(1,7,8,5,6), of a] e r by (auto simp: reads_def)
qed

lemma fill_plain_truncated:
  assumes "NDEBUG K" and "length (user_space_buffer x) = 9320" and "unat (tp_len hdr) \<le> 9000"
    and "unat (tp_mac hdr) + unat (tp_len hdr) > length (slot_bytes hdr)" and "\<not> has_vlan X hdr"
  shows "fill_pkt K X hdr sw port_no x = None"
proof -
  have "platform_memcpy u 256 (slot_bytes hdr) (unat (tp_mac hdr)) (unat (tp_len hdr)) = None" for u
    using assms(4) by (simp add: platform_memcpy_def)
  then show ?thesis using assms
    by (simp add: fill_pkt_def init_pkt_def init_internal_buffer_location_defaults_def use_user_space_def debug_clear_def
        get_buffer_length_def object_mem_def guards word_less_nat_alt)
qed

text \<open>The length that is checked is not the length that is copied: the frame of a slot that the kernel has cut off
  passes the check with \<open>tp_snaplen\<close>, and \<open>tp_len\<close> bytes are read, beyond the end of the slot.\<close>

lemma truncated_frame_overread:
  assumes "NDEBUG K" and rx: "rx a = Some r" "up (ioport a)" "\<not> drop_received (ioport a)" and "ring_ok r"
    and h: "ring r ! unat (pos r) = hdr" and st: "tp_status hdr \<noteq> TP_STATUS_KERNEL X"
      "tp_status hdr AND (TP_STATUS_COPY X OR TP_STATUS_CSUMNOTREADY X) = 0"
    and slot: "length (slot_bytes hdr) = unat (tp_frame_size r)"
    and cut: "ucast (tp_mac hdr) + tp_snaplen hdr \<le> tp_frame_size r" "unat (tp_mac hdr) + unat (tp_len hdr) > unat (tp_frame_size r)"
      "unat (tp_len hdr) \<le> 9000"
    and "own_frame X hdr a = Some False" and "\<not> has_vlan X hdr" and pool: "holds K c M inst" "buffers_ok inst" "size M < c - 1"
  shows "mmap_read K X a inst = None"
proof -
  let ?i = "unat (pos r)" and ?r1 = "r\<lparr>pos := next_pos r\<rparr>"
  have i: "?i < length (ring r)" using assms(5) by (simp add: ring_ok_def)
  have rd: "read_packet X r = Some (Some ?i, ?r1)" using i h st by (subst read_packet.simps) (simp add: Let_def)
  obtain q inst1 where q: "Bufferpool.get_buffer K inst = Some (Some q, inst1)" "holds K c (add_mset (Some q) M) inst1"
    using holds_get [OF pool(1)] pool(3) by auto
  obtain x where x: "packet q inst1 = Some x" by (rule holds_packet [OF q(2)])
  then have "length (user_space_buffer x) = 9320" using get_packets [OF q(1)] pool(2) by (auto simp: buffers_ok_def)
  then have none: "fill_pkt K X hdr (attached_sw a) (of_port_num (ioport a)) x = None"
    using fill_plain_truncated assms by simp
  have "update_packet q (fill_pkt K X hdr (attached_sw a) (of_port_num (ioport a))) inst1 = None"
    using x none by (auto simp: update_packet_def packet_def split: option.splits bind_splits)
  then have "take_frame K X ?i ?r1 a inst = None" using q(1) h by (simp add: take_frame_def)
  moreover have "mmap_read K X a inst = read_next K X r a inst" using rx by (simp add: mmap_read_def)
  ultimately show ?thesis using rd h cut(1) assms(13) by (subst (asm) read_next.simps) (simp add: Let_def linorder_not_less [symmetric])
qed

section \<open>Sending\<close>

text \<open>The bytes of every packet in a queue lie in its buffer.\<close>

definition all_readable :: "ioport \<Rightarrow> bufferpool option \<Rightarrow> bool" where
  "all_readable b inst \<longleftrightarrow> (\<forall>p x. Some p \<in># holdings b \<longrightarrow> packet p inst = Some x \<longrightarrow>
     base (clas_state x) + unat (get_buffer_length x) \<le> length (pkt_mem x))"

definition ring_fits :: "if_packet \<Rightarrow> u32 \<Rightarrow> mmap_ring \<Rightarrow> bool" where
  "ring_fits X limit t \<longleftrightarrow> (\<forall>h\<in>set (ring t). TX_DATA X + unat limit \<le> length (slot_bytes h))"

text \<open>A slot asks the kernel to send the frame of a packet.\<close>

definition sends :: "if_packet \<Rightarrow> datapacketx86 \<Rightarrow> tpacket2 \<Rightarrow> bool" where
  "sends X x hdr \<longleftrightarrow> tp_status hdr = TP_STATUS_SEND_REQUEST X \<and> unat (tp_len hdr) = length (frame x) \<and>
     take (length (frame x)) (drop (TX_DATA X) (slot_bytes hdr)) = frame x"

lemma queue_empty: "quiet q \<Longrightarrow> slots q = IO_IFACE_RING_SLOTS \<Longrightarrow> queue_size q = 0 \<longleftrightarrow> contents q = []"
proof -
  assume q: "quiet q" "slots q = IO_IFACE_RING_SLOTS"
  have w: "wf_ring q" using q(1) by (simp add: quiet_def)
  have "length (contents q) \<le> length (elements q) - 1" using q(1) by (rule ring_fifo.bounded)
  moreover have "length (elements q) = 2048" using q(2) wf_ringD(5) [OF w] by (simp add: IO_IFACE_RING_SLOTS_def)
  ultimately have "length (contents q) < 2 ^ LENGTH(32)" by simp
  then have "unat (of_nat (length (contents q)) :: u32) = length (contents q)"
    by (simp only: unsigned_of_nat take_bit_nat_eq_self of_nat_id)
  then have "unat (queue_size q) = length (contents q)" unfolding queue_size_contents [OF w] .
  then show ?thesis by (metis length_0_conv unat_eq_zero)
qed

lemma fill_tx_slot_ok:
  assumes "base (clas_state x) + unat (get_buffer_length x) \<le> length (pkt_mem x)" and "get_buffer_length x \<le> ucast limit"
    and "TX_DATA X + unat (limit :: u32) \<le> length (slot_bytes hdr)"
  obtains h where "fill_tx_slot X x hdr = Some h" "sends X x h" "length (slot_bytes h) = length (slot_bytes hdr)"
proof -
  let ?n = "unat (get_buffer_length x)"
  have n: "?n \<le> unat limit" using assms(2) by (simp add: word_le_nat_alt)
  obtain m where m: "platform_memcpy (slot_bytes hdr) (TX_DATA X) (pkt_mem x) (base (clas_state x)) ?n = Some m"
    using memcpy_defined [of "TX_DATA X" ?n "slot_bytes hdr" "base (clas_state x)" "pkt_mem x"] n assms(1,3) by auto
  note c = memcpy_Some [OF m]
  have "unat limit < 2 ^ LENGTH(32)" by (rule unsigned_less)
  then have "unat (ucast (get_buffer_length x) :: u32) = ?n" using n
    by (simp add: unsigned_ucast_eq take_bit_nat_eq_self)
  moreover have "frame x = take ?n (drop (base (clas_state x)) (pkt_mem x))"
    by (simp add: frame_def view_def get_buffer_length_def)
  ultimately have "sends X x (hdr\<lparr>slot_bytes := m, tp_len := ucast (get_buffer_length x), tp_snaplen := ucast (get_buffer_length x),
      tp_status := TP_STATUS_SEND_REQUEST X\<rparr>)" using c(2) assms(1) by (simp add: sends_def)
  then show thesis using that m c(1) by (simp add: fill_tx_slot_def Let_def)
qed

lemma get_free_slot_ok:
  assumes "ring_ok t"
  obtains "get_free_slot X t = Some (None, t)" "tp_status (ring t ! unat (pos t)) \<noteq> TP_STATUS_AVAILABLE X"
  | t' where "get_free_slot X t = Some (Some (unat (pos t)), t')" "tp_status (ring t ! unat (pos t)) = TP_STATUS_AVAILABLE X"
      "ring_ok t'" "ring t' = ring t" "unat (pos t') = (unat (pos t) + 1) mod length (ring t)"
proof (cases "tp_status (ring t ! unat (pos t)) = TP_STATUS_AVAILABLE X")
  case True
  have "unat (next_pos t) = (unat (pos t) + 1) mod length (ring t)" by (rule next_pos_mod [OF assms])
  then show thesis
    using that(2) [of "t\<lparr>pos := next_pos t\<rparr>"] True assms move_on(1,4) [OF assms]
    by (simp add: get_free_slot_def ring_ok_def Let_def)
next
  case False
  then show thesis using that(1) assms by (simp add: get_free_slot_def ring_ok_def Let_def)
qed

text \<open>\<open>k\<close> packets of a queue have been put into consecutive slots; other slots, and slots the kernel has not sent yet, stay.\<close>

definition filled_slots :: "if_packet \<Rightarrow> nat \<Rightarrow> nat option list \<Rightarrow> bufferpool option \<Rightarrow> mmap_ring \<Rightarrow> mmap_ring \<Rightarrow> bool" where
  "filled_slots X k vs inst t t' \<longleftrightarrow> length (ring t') = length (ring t) \<and>
     unat (pos t') = (unat (pos t) + k) mod length (ring t) \<and>
     (\<forall>s<length (ring t). tp_status (ring t ! s) \<noteq> TP_STATUS_AVAILABLE X \<or> (\<forall>j<k. s \<noteq> (unat (pos t) + j) mod length (ring t)) \<longrightarrow>
        ring t' ! s = ring t ! s) \<and>
     (\<forall>j<k. \<exists>p x. vs ! j = Some p \<and> packet p inst = Some x \<and> sends X x (ring t' ! ((unat (pos t) + j) mod length (ring t))))"

lemma filled_slots_0: "ring_ok t \<Longrightarrow> filled_slots X 0 vs inst t t"
  by (simp add: filled_slots_def ring_ok_def)

lemma filled_slots_Suc:
  assumes t: "ring_ok t" and neq: "TP_STATUS_SEND_REQUEST X \<noteq> TP_STATUS_AVAILABLE X"
    and av: "tp_status (ring t ! unat (pos t)) = TP_STATUS_AVAILABLE X"
    and t1: "ring t1 = (ring t)[unat (pos t) := h]" "unat (pos t1) = (unat (pos t) + 1) mod length (ring t)"
    and h: "packet p inst = Some x" "sends X x h" and f: "filled_slots X k vs inst t1 t'"
  shows "filled_slots X (Suc k) (Some p # vs) inst t t'"
proof -
  let ?n = "length (ring t)" and ?i = "unat (pos t)"
  have i: "?i < ?n" and n: "length (ring t1) = ?n" using t t1(1) by (simp_all add: ring_ok_def)
  have "tp_status (ring t1 ! ?i) \<noteq> TP_STATUS_AVAILABLE X" using h(2) neq i t1(1) by (simp add: sends_def)
  then have same: "ring t' ! ?i = h" using f i n t1(1) by (simp add: filled_slots_def)
  have idx: "(unat (pos t1) + j) mod ?n = (?i + Suc j) mod ?n" for j unfolding t1(2) by (simp add: mod_add_left_eq)
  have "\<exists>q y. (Some p # vs) ! j = Some q \<and> packet q inst = Some y \<and> sends X y (ring t' ! ((?i + j) mod ?n))" if "j < Suc k" for j
  proof (cases j)
    case 0
    then show ?thesis using h same i by simp
  next
    case (Suc j')
    then show ?thesis using f that n by (simp add: filled_slots_def idx)
  qed
  moreover have "ring t' ! s = ring t ! s"
    if s: "s < ?n" "tp_status (ring t ! s) \<noteq> TP_STATUS_AVAILABLE X \<or> (\<forall>j<Suc k. s \<noteq> (?i + j) mod ?n)" for s
  proof -
    have "s \<noteq> ?i" using s av i by auto
    moreover from this have "tp_status (ring t1 ! s) \<noteq> TP_STATUS_AVAILABLE X \<or> (\<forall>j<k. s \<noteq> (unat (pos t1) + j) mod ?n)"
      using s t1(1) unfolding idx by auto
    ultimately show ?thesis using f s(1) n t1(1) by (simp add: filled_slots_def)
  qed
  moreover have "unat (pos t') = (?i + Suc k) mod ?n" using f n idx [of k] by (simp add: filled_slots_def)
  ultimately show ?thesis using f n by (simp add: filled_slots_def)
qed

text \<open>What the loop has to keep, and what it does.\<close>

definition tx_ok :: "rofl \<Rightarrow> if_packet \<Rightarrow> nat \<Rightarrow> u32 \<Rightarrow> nat option multiset \<Rightarrow> mmap_ring \<Rightarrow> ioport \<Rightarrow> bufferpool option \<Rightarrow> bool" where
  "tx_ok K X c limit M t b inst \<longleftrightarrow> ring_ok t \<and> ring_fits X limit t \<and> port_ok b \<and> holds K c (M + holdings b) inst \<and> all_readable b inst \<and>
     (\<forall>q\<in>set (output_queues b). slots q = IO_IFACE_RING_SLOTS)"

text \<open>The packets of a queue are not above the limit.\<close>

definition sized :: "bufferpool option \<Rightarrow> u32 \<Rightarrow> nat option list \<Rightarrow> bool" where
  "sized inst limit vs \<longleftrightarrow> (\<forall>p x. Some p \<in> set vs \<longrightarrow> packet p inst = Some x \<longrightarrow> get_buffer_length x \<le> ucast limit)"

text \<open>The loop takes the first packet of the queue and gives its buffer back.\<close>

lemma tx_okD:
  assumes "tx_ok K X c limit M t b inst"
  shows "ring_ok t" "ring_fits X limit t" "port_ok b" "holds K c (M + holdings b) inst" "all_readable b inst"
    "\<forall>q\<in>set (output_queues b). slots q = IO_IFACE_RING_SLOTS"
  using assms by (simp_all add: tx_ok_def)

lemma tx_queue:
  assumes "tx_ok K X c limit M t b inst" and "i < length (output_queues b)"
  shows "quiet (output_queues b ! i)" and "queue_size (output_queues b ! i) = 0 \<longleftrightarrow> contents (output_queues b ! i) = []"
proof -
  show q: "quiet (output_queues b ! i)" using tx_okD(3) [OF assms(1)] assms(2) by (rule port_ok_nth)
  show "queue_size (output_queues b ! i) = 0 \<longleftrightarrow> contents (output_queues b ! i) = []"
    by (rule queue_empty [OF q]) (use tx_okD(6) [OF assms(1)] assms(2) in simp)
qed

lemma take_packet:
  assumes ok: "tx_ok K X c limit M t b inst" and i: "i < length (output_queues b)" and vs: "contents (output_queues b ! i) = v # ws"
  obtains p x q inst1 where "v = Some p" "non_blocking_read (output_queues b ! i) = Some (v, q)" "contents q = ws"
    "packet p inst = Some x" "base (clas_state x) + unat (get_buffer_length x) \<le> length (pkt_mem x)"
    "release_buffer K p inst = Some inst1" "\<forall>r. packet r inst1 = packet r inst"
    "tx_ok K X c limit M t (b\<lparr>output_queues := (output_queues b)[i := q]\<rparr>) inst1"
proof -
  note quiet = tx_queue(1) [OF ok i]
  note ok = tx_okD [OF ok]
  let ?q = "output_queues b ! i"
  obtain q where r: "non_blocking_read ?q = Some (v, q)" "quiet q" "contents q = ws" "slots q = slots ?q"
    using read_nonempty [of ?q v ws] ring_fifo.rd_Cons [OF quiet] vs quiet by (auto simp: quiet_def)
  let ?b = "b\<lparr>output_queues := (output_queues b)[i := q]\<rparr>"
  have "holdings ?b + mset (contents ?q) = holdings b + mset (contents q)" by (rule holdings_output [OF i])
  then have hb: "holdings b = add_mset v (holdings ?b)" using vs r(3) by (simp add: add.commute)
  then have h: "holds K c (add_mset v (M + holdings ?b)) inst" using ok(4) by simp
  then obtain p where v: "v = Some p" by (rule holdsE)
  note h = h [unfolded v]
  obtain x where x: "packet p inst = Some x" by (rule holds_packet [OF h])
  obtain inst1 where rel: "release_buffer K p inst = Some inst1" "holds K c (M + holdings ?b) inst1" by (rule holds_release [OF h])
  have same: "\<forall>r. packet r inst1 = packet r inst" by (rule release_packets [OF rel(1)])
  have "base (clas_state x) + unat (get_buffer_length x) \<le> length (pkt_mem x)"
    using x ok(5) hb v by (simp add: all_readable_def)
  moreover have "tx_ok K X c limit M t ?b inst1" unfolding tx_ok_def
  proof (intro conjI)
    show "port_ok ?b" by (rule port_ok_output [OF ok(3) i r(2)])
    show "all_readable ?b inst1" using ok(5) same hb by (simp add: all_readable_def)
    show "\<forall>q\<in>set (output_queues ?b). slots q = IO_IFACE_RING_SLOTS"
      using ok(6) r(4) i set_update_subset_insert [of "output_queues b" i q] by auto
  qed (use ok rel(2) in simp_all)
  ultimately show thesis using that v r(1,3) x rel(1) same by blast
qed

lemma fill_slots_ok:
  assumes neq: "TP_STATUS_SEND_REQUEST X \<noteq> TP_STATUS_AVAILABLE X" and "tx_ok K X c limit M t b inst"
    and "i < length (output_queues b)" and "contents (output_queues b ! i) = vs"
    and "sized inst limit vs"
  shows "\<exists>k bytes' t' b' inst'. fill_slots K X i limit n cnt bytes t b inst = Some (n - k, cnt + of_nat k, bytes', t', b', inst') \<and>
    k \<le> n \<and> k \<le> length vs \<and> contents (output_queues b' ! i) = drop k vs \<and> tx_ok K X c limit M t' b' inst' \<and>
    (\<forall>r. packet r inst' = packet r inst) \<and> filled_slots X k vs inst t t' \<and> length (output_queues b') = length (output_queues b) \<and>
    tx_packets b' = tx_packets b \<and> deferred_drain_tx b' = deferred_drain_tx b + int k \<and>
    (k < n \<longrightarrow> k = length vs \<or> tp_status (ring t' ! unat (pos t')) \<noteq> TP_STATUS_AVAILABLE X)"
  using assms(2-5)
proof (induction n arbitrary: cnt bytes t b inst vs)
  case 0
  then show ?case using filled_slots_0 [of t X vs inst] by (simp add: tx_ok_def)
next
  case (Suc n)
  note ok = tx_okD [OF Suc.prems(1)] and empty = tx_queue(2) [OF Suc.prems(1,2), unfolded Suc.prems(3)]
  have none: ?case if "fill_slots K X i limit (Suc n) cnt bytes t b inst = Some (Suc n, cnt, bytes, t, b, inst)"
    "vs = [] \<or> tp_status (ring t ! unat (pos t)) \<noteq> TP_STATUS_AVAILABLE X"
    unfolding that(1) using that(2) ok(1) Suc.prems filled_slots_0 [of t X vs inst] by (intro exI [where x = "0 :: nat"]) auto
  show ?case
  proof (cases vs)
    case Nil
    then show ?thesis using none empty by simp
  next
    case (Cons v ws)
    show ?thesis
    proof (rule get_free_slot_ok [OF ok(1), of X])
      assume "get_free_slot X t = Some (None, t)" "tp_status (ring t ! unat (pos t)) \<noteq> TP_STATUS_AVAILABLE X"
      then show ?thesis using none empty Cons by (simp add: Let_def)
    next
      fix t1
      assume g: "get_free_slot X t = Some (Some (unat (pos t)), t1)" "tp_status (ring t ! unat (pos t)) = TP_STATUS_AVAILABLE X"
        "ring_ok t1" "ring t1 = ring t" "unat (pos t1) = (unat (pos t) + 1) mod length (ring t)"
      obtain p x q inst1 where P: "v = Some p" "non_blocking_read (output_queues b ! i) = Some (v, q)" "contents q = ws"
        "packet p inst = Some x" "base (clas_state x) + unat (get_buffer_length x) \<le> length (pkt_mem x)"
        "release_buffer K p inst = Some inst1" "\<forall>r. packet r inst1 = packet r inst"
        "tx_ok K X c limit M t (b\<lparr>output_queues := (output_queues b)[i := q]\<rparr>) inst1"
        by (rule take_packet [OF Suc.prems(1,2) Suc.prems(3) [unfolded Cons]])
      have small: "get_buffer_length x \<le> ucast limit" using Suc.prems(4) P(1,4) Cons by (simp add: sized_def)
      have fits: "TX_DATA X + unat limit \<le> length (slot_bytes (ring t ! unat (pos t)))"
        using ok(1,2) by (simp add: ring_fits_def ring_ok_def)
      obtain hdr where hdr: "fill_tx_slot X x (ring t ! unat (pos t)) = Some hdr" "sends X x hdr"
        "length (slot_bytes hdr) = length (slot_bytes (ring t ! unat (pos t)))"
        by (rule fill_tx_slot_ok [OF P(5) small fits])
      let ?t = "set_slot (unat (pos t)) hdr t1"
        and ?b = "b\<lparr>output_queues := (output_queues b)[i := q], deferred_drain_tx := deferred_drain_tx b + 1\<rparr>"
      have step: "fill_slots K X i limit (Suc n) cnt bytes t b inst = fill_slots K X i limit n (cnt + 1) (bytes + tp_len hdr) ?t ?b inst1"
        using empty Cons g(1,4) P small hdr(1) by (simp add: Let_def linorder_not_less [symmetric])
      have "tx_ok K X c limit M ?t ?b inst1"
        using tx_okD [OF P(8)] g(3,4) hdr(3) fits set_update_subset_insert [of "ring t" "unat (pos t)" hdr]
        by (auto simp: tx_ok_def ring_ok_def ring_fits_def set_slot_def all_readable_def)
      from Suc.IH [OF this, of ws "cnt + 1" "bytes + tp_len hdr"] obtain k bytes' t' b' inst' where IH:
        "fill_slots K X i limit n (cnt + 1) (bytes + tp_len hdr) ?t ?b inst1 = Some (n - k, cnt + 1 + of_nat k, bytes', t', b', inst')"
        "k \<le> n" "k \<le> length ws" "contents (output_queues b' ! i) = drop k ws" "tx_ok K X c limit M t' b' inst'"
        "\<forall>r. packet r inst' = packet r inst1" "filled_slots X k ws inst1 ?t t'"
        "length (output_queues b') = length (output_queues ?b)"
        "tx_packets b' = tx_packets b" "deferred_drain_tx b' = deferred_drain_tx ?b + int k"
        "k < n \<longrightarrow> k = length ws \<or> tp_status (ring t' ! unat (pos t')) \<noteq> TP_STATUS_AVAILABLE X"
        using Suc.prems(2,4) P(3,7) Cons by (fastforce simp: sized_def)
      have "filled_slots X k ws inst ?t t'" using IH(7) P(7) by (simp add: filled_slots_def)
      then have "filled_slots X (Suc k) vs inst t t'"
        unfolding Cons P(1) by (rule filled_slots_Suc [OF ok(1) neq g(2) _ _ P(4) hdr(2), rotated 2]) (simp_all add: set_slot_def g(4,5))
      then show ?thesis using IH step P(7) Cons by (intro exI [of _ "Suc k"]) (auto simp: add.assoc)
    qed
  qed
qed

lemma mmap_empty_pipe_ok: "0 \<le> d \<Longrightarrow> \<exists>n d'. mmap_empty_pipe K avail d = Some (n, d') \<and> 0 \<le> d'"
proof -
  assume d: "0 \<le> d"
  have "unat (word_of_int d :: u64) = nat d" if "d \<le> 2048"
    using d that by (simp add: unsigned_of_int take_bit_int_eq_self)
  with d consider "d = 0" | "d > 2048" | "0 < d" "d \<le> 2048" "unat (word_of_int d :: u64) = nat d" by fastforce
  then show ?thesis
    by cases (auto simp: mmap_empty_pipe_def pipe_read_def Let_def IO_IFACE_RING_SLOTS_def)
qed



text \<open>What \<open>write\<close> does after its loop, when the kernel takes what it is told.\<close>

lemma write_tail:
  assumes f: "fill_slots K X (unat q_id) (mps a) n 0 0 t (ioport a) inst = Some (l, of_nat k, bytes, t', b', inst')"
    and "k < 2048" and tx: "tx a = Some t" and i: "unat q_id < length (output_queues (ioport a))" and "0 \<le> deferred_drain_tx b'"
  obtains a' where "mmap_write K X True fresh_tx port q_id n a m inst = Some (l, a', m, inst')" "tx a' = Some t'"
    "output_queues (ioport a') = output_queues b'" "input_queue (ioport a') = input_queue b'"
    "num_of_queues (ioport a') = num_of_queues b'" "0 \<le> deferred_drain_tx (ioport a')"
    "tx_packets (ioport a') = tx_packets b' + of_nat k"
proof -
  have cnt: "unat (of_nat k :: u32) = k" using assms(2) by (simp add: unat_of_nat)
  have wide: "ucast (of_nat k :: u32) = (of_nat k :: u64)" by (metis cnt of_nat_unat)
  have none: "k = 0" if "\<not> 0 < (of_nat k :: u32)" using that cnt by (metis unat_0 word_neq_0_conv)
  define a1 where "a1 = (if (of_nat k :: u32) > 0 then count_sent (unat q_id) (of_nat k) bytes (a\<lparr>tx := Some t', ioport := b'\<rparr>)
    else a\<lparr>tx := Some t', ioport := b'\<rparr>)"
  have a1: "output_queues (ioport a1) = output_queues b'" "input_queue (ioport a1) = input_queue b'"
    "num_of_queues (ioport a1) = num_of_queues b'" "tx_pipe (ioport a1) = tx_pipe b'" "tx a1 = Some t'"
    "deferred_drain_tx (ioport a1) = deferred_drain_tx b'" "tx_packets (ioport a1) = tx_packets b' + of_nat k"
    using none by (auto simp: a1_def count_sent_def Let_def wide)
  obtain pb d where e: "mmap_empty_pipe K (tx_pipe b') (deferred_drain_tx b') = Some (pb, d)" "0 \<le> d"
    using mmap_empty_pipe_ok [OF assms(5)] by fastforce
  have "mmap_write K X True fresh_tx port q_id n a m inst =
    Some (l, a1\<lparr>ioport := (ioport a1)\<lparr>tx_pipe := pb, deferred_drain_tx := d\<rparr>\<rparr>, m, inst')"
    using i tx f e(1) a1(4,6) by (cases "(0 :: u32) < of_nat k") (simp_all add: mmap_write_def Let_def a1_def)
  then show thesis by (rule that) (simp_all add: a1 e(2))
qed


text \<open>A packet above \<open>mps\<close> is dropped after its slot has been taken (without assertions), and the slot is left
  as it was: the packet behind it is put into the slot after the gap, where it waits for a kernel that stops at the
  first slot without a frame.\<close>

lemma oversize_leaves_gap:
  assumes "NDEBUG K" and neq: "TP_STATUS_SEND_REQUEST X \<noteq> TP_STATUS_AVAILABLE X" and tx: "tx a = Some t"
    and ok: "tx_ok K X c (mps a) M t (ioport a) inst" and i: "unat q_id < length (output_queues (ioport a))"
    and vs: "contents (output_queues (ioport a) ! unat q_id) = [Some p, Some p2]" and d: "0 \<le> deferred_drain_tx (ioport a)"
    and x: "packet p inst = Some x" "get_buffer_length x > ucast (mps a)"
    and x2: "packet p2 inst = Some x2" "get_buffer_length x2 \<le> ucast (mps a)"
    and av: "\<forall>h\<in>set (ring t). tp_status h = TP_STATUS_AVAILABLE X" and two: "1 < length (ring t)"
  shows "\<exists>t' a' inst'. mmap_write K X True fresh_tx port q_id 2 a m inst = Some (0, a', m, inst') \<and> tx a' = Some t' \<and>
    tp_status (ring t' ! unat (pos t)) = TP_STATUS_AVAILABLE X \<and>
    sends X x2 (ring t' ! ((unat (pos t) + 1) mod length (ring t)))"
proof -
  let ?i = "unat q_id" and ?b = "ioport a"
  note r = tx_okD(1) [OF ok]
  have pos: "unat (pos t) < length (ring t)" using r by (simp add: ring_ok_def)
  obtain t1 where g: "get_free_slot X t = Some (Some (unat (pos t)), t1)" "ring_ok t1" "ring t1 = ring t"
    "unat (pos t1) = (unat (pos t) + 1) mod length (ring t)"
    using get_free_slot_ok [OF r, of X] av nth_mem [OF pos] by metis
  obtain q inst1 where P: "non_blocking_read (output_queues ?b ! ?i) = Some (Some p, q)" "contents q = [Some p2]"
    "release_buffer K p inst = Some inst1" "\<forall>r. packet r inst1 = packet r inst"
    "tx_ok K X c (mps a) M t (?b\<lparr>output_queues := (output_queues ?b)[?i := q]\<rparr>) inst1"
    by (rule take_packet [OF ok i vs]) blast
  let ?b1 = "(count_drop ?i (?b\<lparr>output_queues := (output_queues ?b)[?i := q]\<rparr>))\<lparr>deferred_drain_tx := deferred_drain_tx ?b + 1\<rparr>"
  have ok1: "tx_ok K X c (mps a) M t1 ?b1 inst1"
    using tx_okD [OF P(5)] g(2,3) by (simp add: tx_ok_def ring_fits_def all_readable_def)
  have "sized inst1 (mps a) [Some p2]" using x2 P(4) by (simp add: sized_def)
  from fill_slots_ok [OF neq ok1 _ _ this, of ?i 1 0 0] i P(2)
  obtain k bytes' t' b' inst' where f: "fill_slots K X ?i (mps a) 1 0 0 t1 ?b1 inst1 = Some (1 - k, of_nat k, bytes', t', b', inst')"
    "k \<le> 1" "filled_slots X k [Some p2] inst1 t1 t'" "deferred_drain_tx b' = deferred_drain_tx ?b1 + int k"
    "k < 1 \<longrightarrow> tp_status (ring t' ! unat (pos t')) \<noteq> TP_STATUS_AVAILABLE X"
    by auto
  have k: "k = 1"
  proof (rule ccontr)
    assume "k \<noteq> 1"
    then have "k = 0" using f(2) by simp
    then have "ring t' ! unat (pos t') = ring t ! unat (pos t1)" "unat (pos t1) < length (ring t)"
      using f(3) g(2,3) by (simp_all add: filled_slots_def ring_ok_def)
    then show False using f(5) \<open>k = 0\<close> av by (metis less_one nth_mem)
  qed
  have ne: "unat (pos t) \<noteq> (unat (pos t) + 1) mod length (ring t)" using two pos by (cases "unat (pos t) + 1 = length (ring t)") auto
  have gap: "ring t' ! unat (pos t) = ring t ! unat (pos t)"
    using f(3) k ne pos g(3,4) by (simp add: filled_slots_def)
  have sent: "sends X x2 (ring t' ! ((unat (pos t) + 1) mod length (ring t)))"
    using f(3) k g(3,4) x2(1) P(4) by (simp add: filled_slots_def)
  have "queue_size (output_queues ?b ! ?i) \<noteq> 0" using tx_queue(2) [OF ok i] vs by simp
  then have "fill_slots K X ?i (mps a) (Suc 1) 0 0 t ?b inst = fill_slots K X ?i (mps a) 1 0 0 t1 ?b1 inst1"
    using assms(1) g(1) P(1,3) x by (subst fill_slots.simps) (simp add: Let_def count_drop_def c_assert_def del: fill_slots.simps One_nat_def)
  then have run: "fill_slots K X ?i (mps a) 2 0 0 t ?b inst = Some (0, of_nat 1, bytes', t', b', inst')"
    using f(1) k by (simp add: numeral_2_eq_2)
  have "0 \<le> deferred_drain_tx b'" using d f(4) by simp
  then obtain a' where "mmap_write K X True fresh_tx port q_id 2 a m inst = Some (0, a', m, inst')" "tx a' = Some t'"
    by (rule write_tail [OF run _ tx i, rotated]) simp_all
  then show ?thesis using gap sent av nth_mem [OF pos] by auto
qed

section \<open>A failed send and the I/O manager\<close>

text \<open>C40: when sending fails at a port that has a descriptor to send from, while another port of its group is running, the hash of the group is increased without waiting for the threads (without assertions). The
  thread answers as for any change, and its signal stays in the semaphore: the next \<open>bring_port_down\<close> takes it for the
  answer to its own change and goes on while the thread still works on the port.\<close>

theorem send_failure_breaks_sync:
  assumes "NDEBUG K" and "get_group_id_by_port port PG_TX m = Some (int g, m)" and "map_of (portgroups m) (of_int (int g)) = Some (Some pg)"
    and "pg_ok pg" and "port \<in> set (running_ports pg)" and "running_ports pg \<noteq> [port]" and "port_fd (pg_type pg) port \<noteq> -1"
  shows "\<exists>a' m' pg1 pg2 ths pg3 th. send_failed K port i cnt fresh_tx a m = Some (a', m') \<and>
    map_of (portgroups m') (of_int (int g)) = Some (Some pg1) \<and> rounds pg1 (thread_state pg1) = (pg2, ths) \<and>
    down_group port (pg2\<lparr>thread_state := ths\<rparr>) = Some pg3 \<and> port \<notin> set (running_ports pg3) \<and>
    thread_state pg3 = [th] \<and> port \<in> snd ` set (working th)"
proof -
  have ne: "running_ports pg \<noteq> []" using assms(5) by auto
  let ?th = "\<lparr>started = True, current_hash = running_hash pg, working = watched pg\<rparr>"
  have s: "thread_state pg = [?th]" "sync_sem pg = 0" "keep_on pg" "num_of_threads pg = 1" "distinct (running_ports pg)"
    using assms(4) ne by (simp_all add: pg_ok_def synced_def DEFAULT_THREADS_PER_PG_def)
  let ?pg1 = "pg\<lparr>running_hash := running_hash pg + 1\<rparr>"
  let ?th2 = "\<lparr>started = True, current_hash = running_hash pg + 1, working = watched pg\<rparr>"
  obtain a' m' where f: "send_failed K port i cnt fresh_tx a m = Some (a', m')" "map_of (portgroups m') (of_int (int g)) = Some (Some ?pg1)"
    using assms(1-3) by (simp add: send_failed_def reset_group_def at_group_def set_group_def Let_def update_conv' c_assert_def)
  have r: "rounds ?pg1 (thread_state ?pg1) = (?pg1\<lparr>sync_sem := 1\<rparr>, [?th2])"
    using s ne by (simp add: thread_round_def init_or_update_fds_def)
  have e: "erase port (running_ports pg) = remove1 port (running_ports pg)" by (rule erase_distinct [OF s(5)])
  have "remove1 port (running_ports pg) \<noteq> []" using assms(5,6) by (cases "running_ports pg") (auto split: if_splits)
  then have "down_group port (?pg1\<lparr>sync_sem := 1, thread_state := [?th2]\<rparr>) = Some (?pg1\<lparr>sync_sem := 0, thread_state := [?th2],
      running_ports := remove1 port (running_ports pg), running_hash := running_hash pg + 2\<rparr>)"
    using s e by (simp add: down_group_def sv_size_def sem_wait_def Let_def)
  moreover have "port \<in> snd ` set (watched pg)" using assms(5,7) by (force simp: watched_def)
  ultimately show ?thesis using f r assms(5) s(5) by (intro exI conjI) (auto simp: set_remove1_eq)
qed

section \<open>Witnesses\<close>

text \<open>Rings of two slots.\<close>

definition slot :: "u32 \<Rightarrow> u32 \<Rightarrow> u32 \<Rightarrow> tpacket2" where
  "slot st n n' = \<lparr>tp_status = st, tp_len = n, tp_snaplen = n', tp_mac = 82, tp_vlan_tci = 0, tp_vlan_tpid = 0, sll_pkttype = 0,
     slot_bytes = replicate 2048 0\<rparr>"

definition two_slots :: "tpacket2 \<Rightarrow> mmap_ring" where
  "two_slots h = \<lparr>ring = [h, slot 0 0 0], tp_frame_size = 2048, tp_frame_nr = 2, pos = 0\<rparr>"

definition mmap_up :: "tpacket2 \<Rightarrow> ioport \<Rightarrow> mmap_port" where
  "mmap_up h b = \<lparr>ioport = b, rx = Some (two_slots h), tx = Some (two_slots (slot 0 0 0)), mps = 1518, mac = replicate 6 1,
     attached_sw = 0, rx_dropped = 0, tx_errors = 0\<rparr>"


text \<open>A pool in use, with a packet \<open>p\<close> in it.\<close>

lemma some_pkt:
  obtains b p inst where "ioport_new up_port 8 = Inr b" "holds K 4 {#Some p#} inst" "buffers_ok inst" "packet p inst = Some sent_pkt"
    "holdings b = {#}" "port_ok b" "up b" "\<not> drop_received b" "contents (output_queues b ! 0) = []" "deferred_drain_tx b = 0"
    "length (output_queues b) = 8" "\<forall>q\<in>set (output_queues b). slots q = IO_IFACE_RING_SLOTS"
proof -
  obtain b p inst where w: "ioport_new up_port 8 = Inr b" "switch_ok K (unat (4 :: u64)) {#Some p#} [None, Some b] inst"
    "packet p inst = Some sent_pkt" "ports_hold [None, Some b] = {#}"
    by (rule some_switch [OF ring4(1) _ _ sent_pkt(2), of K]) simp_all
  have "up b" "\<not> drop_received b" "contents (output_queues b ! 0) = []" "deferred_drain_tx b = 0" "length (output_queues b) = 8"
    "\<forall>q\<in>set (output_queues b). slots q = IO_IFACE_RING_SLOTS"
    using w(1) by (auto simp: ioport_new_def circular_queue_new_def IO_IFACE_RING_SLOTS_def IO_IFACE_NUM_QUEUES_def up_port_def
      contents_def count_def)
  with w(3) show thesis by (intro that [OF w(1)]) (use w(2,4) in \<open>simp_all add: switch_ok_def ports_hold_def\<close>)
qed



text \<open>The first slot has a frame that was cut off, the second one a good frame.\<close>

definition cut_then_good :: mmap_ring where
  "cut_then_good = \<lparr>ring = [slot 3 60 60, slot 1 64 64], tp_frame_size = 2048, tp_frame_nr = 2, pos = 0\<rparr>"

theorem mmap_read_delivers_witness:
  "\<exists>b p inst q x a' inst' r'. ioport_new up_port 8 = Inr b \<and>
     mmap_read std_rofl linux ((mmap_up (slot 1 60 60) b)\<lparr>rx := Some cut_then_good\<rparr>) inst = Some (Some q, a', inst') \<and>
     holds std_rofl 4 {#Some q, Some p#} inst' \<and> packet q inst' = Some x \<and> frame x = replicate 64 0 \<and>
     rx a' = Some r' \<and> map tp_status (ring r') = [0, 0]"
proof -
  obtain b p inst where w: "ioport_new up_port 8 = Inr b" "holds std_rofl 4 {#Some p#} inst" "buffers_ok inst" "up b" "\<not> drop_received b"
    by (rule some_pkt [of std_rofl]) blast
  let ?a = "(mmap_up (slot 1 60 60) b)\<lparr>rx := Some cut_then_good\<rparr>" and ?r = cut_then_good
  have s: "slot_no ?r 0 = 0" "slot_no ?r (Suc 0) = 1" "length (ring ?r) = 2" by (simp_all add: slot_no_def cut_then_good_def)
  have full: "full_slots linux ?r = {0, 1}" 
    unfolding full_slots_def s(3) by (auto simp: less_2_cases_iff cut_then_good_def slot_def linux_def)
  have f: "frame_of linux (ring ?r ! 1) = replicate 64 0"
    by (simp add: frame_of_def has_vlan_def slot_frame_def cut_then_good_def slot_def linux_def)
  have pass: "passed_over linux ?a ?r (ring ?r ! 0)" by (simp add: passed_over_def unusable_def cut_then_good_def slot_def linux_def)
  have take: "\<not> passed_over linux ?a ?r (ring ?r ! 1)" "\<not> too_long ?r (ring ?r ! 1)"
    by (simp_all add: passed_over_def unusable_def too_long_def own_frame_def cut_then_good_def slot_def linux_def mmap_up_def Let_def)
  have "frames_whole linux ?r" using full by (simp add: frames_whole_def cut_then_good_def slot_def whole_frame_def)
  moreover have "ring_ok ?r" by (simp add: ring_ok_def cut_then_good_def)
  ultimately obtain v a' inst' r' where r: "mmap_read std_rofl linux ?a inst = Some (v, a', inst')" "holds std_rofl 4 (held v + {#Some p#}) inst'"
    "rx a' = Some r'" "read_spec std_rofl linux True ?a ?r v a' inst'"
    using mmap_read_delivers [OF NDEBUG_std, of ?a ?r linux 4 "{#Some p#}" inst] w by (auto simp: mmap_up_def)
  define Q where "Q v a' k \<longleftrightarrow> (if too_long ?r (ring ?r ! slot_no ?r k) \<or> \<not> True then v = None \<and> rx_dropped a' = rx_dropped ?a + 1
         else rx_dropped a' = rx_dropped ?a \<and> (\<exists>p x. v = Some p \<and> packet p inst' = Some x \<and>
           filled std_rofl (of_port_num (ioport ?a)) (frame_of linux (ring ?r ! slot_no ?r k)) x))" for v :: "nat option" and a' :: mmap_port and k
  obtain k r2 where k: "k \<le> 2" "rx a' = Some r2"
    "\<forall>j<k. slot_no ?r j \<in> full_slots linux ?r \<and> passed_over linux ?a ?r (ring ?r ! slot_no ?r j)"
    and e2: "if k = 2 \<or> slot_no ?r k \<notin> full_slots linux ?r then v = None \<and> rx_dropped a' = rx_dropped ?a \<and> returned linux ?r k r2
      else \<not> passed_over linux ?a ?r (ring ?r ! slot_no ?r k) \<and> returned linux ?r (Suc k) r2 \<and> Q v a' k"
    using r(4) unfolding read_spec_def s(3) Q_def by blast
  have e: "if k = 2 \<or> slot_no ?r k \<notin> full_slots linux ?r then v = None \<and> rx_dropped a' = rx_dropped ?a \<and> returned linux ?r k r'
      else \<not> passed_over linux ?a ?r (ring ?r ! slot_no ?r k) \<and> returned linux ?r (Suc k) r' \<and> Q v a' k"
    using e2 k(2) r(3) by simp
  have "k \<noteq> 0"
  proof
    assume k0: "k = 0"
    have "\<not> passed_over linux ?a ?r (ring ?r ! 0)" using e [unfolded k0 s(1)] full by simp
    then show False using pass by contradiction
  qed
  moreover have "k \<noteq> 2"
  proof
    assume "k = 2"
    then have "passed_over linux ?a ?r (ring ?r ! slot_no ?r (Suc 0))" using k(3) by simp
    then show False using take(1) unfolding s(2) by contradiction
  qed
  ultimately have k1: "k = Suc 0" using k(1) by simp
  have "Q v a' (Suc 0)" and q4: "returned linux ?r (Suc (Suc 0)) r'" using e unfolding k1 s(2) full by simp_all
  then obtain q x where q: "v = Some q" "packet q inst' = Some x" "filled std_rofl (of_port_num (ioport ?a)) (frame_of linux (ring ?r ! 1)) x"
    using take(2) unfolding Q_def s(2) by auto
  have fr: "frame x = replicate 64 0" using q(3) unfolding f by (simp add: filled_def)
  have "length (ring r') = 2" "tp_status (ring r' ! 0) = 0" "tp_status (ring r' ! 1) = 0"
    using q4 s by (auto simp: returned_def less_Suc_eq linux_def)
  then have "map tp_status (ring r') = [0, 0]" by (auto simp: list_eq_iff_nth_eq less_2_cases_iff)
  moreover have "holds std_rofl 4 {#Some q, Some p#} inst'" using r(2) q(1) by (simp add: held_def add_mset_commute)
  moreover have "mmap_read std_rofl linux ?a inst = Some (Some q, a', inst')" using r(1) q(1) by simp
  ultimately show ?thesis using w(1) r(3) q(2) fr
    by (intro exI [of _ b] exI [of _ p] exI [of _ inst] exI [of _ q] exI [of _ x] exI [of _ a'] exI [of _ inst'] exI [of _ r'] conjI)
qed




definition big_pkt :: datapacketx86 where
  "big_pkt = typed_pkt [ETHERNET] (replicate 1600 0)"

lemma big_pkt: "get_buffer_length big_pkt > ucast (1518 :: u32)"
  "base (clas_state big_pkt) + unat (get_buffer_length big_pkt) \<le> length (pkt_mem big_pkt)"
  by (simp_all add: big_pkt_def typed_pkt_def user_pkt_def set_clas_type_def get_buffer_length_def object_mem_def)

text \<open>The thread of the sending group serves the ports 7 and 8 when sending at port 7 fails.\<close>

definition tx_group :: portgroup_state where
  "tx_group = \<lparr>pg_id = 0, keep_on = True, num_of_threads = 1, thread_state = [\<lparr>started = True, current_hash = 5, working = [(15, ex_port 7), (17, ex_port 8)]\<rparr>],
     sync_sem = 0, pg_type = PG_TX, ports = [ex_port 7, ex_port 8], running_ports = [ex_port 7, ex_port 8], running_hash = 5\<rparr>"

theorem send_failure_breaks_sync_witness:
  "\<exists>a' m' pg1 pg2 ths pg3 th. send_failed std_rofl (ex_port 7) 0 1 (two_slots (slot 0 0 0)) (mmap_up (slot 0 0 0) up_port)
      (unused\<lparr>portgroups := [(0, Some tx_group)]\<rparr>) = Some (a', m') \<and>
    map_of (portgroups m') 0 = Some (Some pg1) \<and> rounds pg1 (thread_state pg1) = (pg2, ths) \<and>
    down_group (ex_port 7) (pg2\<lparr>thread_state := ths\<rparr>) = Some pg3 \<and> thread_state pg3 = [th] \<and> ex_port 7 \<in> snd ` set (working th)"
proof -
  let ?m = "unused\<lparr>portgroups := [(0, Some tx_group)]\<rparr>"
  have g: "get_group_id_by_port (ex_port 7) PG_TX ?m = Some (int 0, ?m)"
    by (simp add: get_group_id_by_port_def for_groups.simps at_group_def find_body_def tx_group_def Let_def)
  have ok: "pg_ok tx_group" by (simp add: tx_group_def pg_ok_def synced_def DEFAULT_THREADS_PER_PG_def watched_def port_fd_def ex_port_def)
  have m: "map_of (portgroups ?m) (of_int (int 0)) = Some (Some tx_group)" by simp
  have p: "ex_port 7 \<in> set (running_ports tx_group)" "running_ports tx_group \<noteq> [ex_port 7]"
    "port_fd (pg_type tx_group) (ex_port 7) \<noteq> -1" by (simp_all add: tx_group_def)
  have z: "(of_int (int 0) :: u16) = 0" by simp
  from send_failure_breaks_sync [OF NDEBUG_std g m ok p, of 0 1 "two_slots (slot 0 0 0)" "mmap_up (slot 0 0 0) up_port"]
  show ?thesis unfolding z by blast
qed

end
