(* ===== verification/Type_Enum.thy ===== *)
theory Type_Enum
  imports Pkt_Types
begin

text \<open>
  The enumeration \<open>pkt_types_t\<close> of \<open>autogen_pkt_types.h\<close>, in its order: \<open>pt_enum_1\<close> to \<open>pt_enum_9\<close> are its lines,
  each type as its list of headers. The rows of the tables of \<open>autogen_pkt_types.c\<close> are in this order too.
  The enumeration has every type once, so that the list of headers stands for the number of the type.
\<close>

section \<open>The lines of the enumeration\<close>

definition pt_enum_1 :: "pkt_type list" where
  "pt_enum_1 =
    [[ETHERNET],
     [ETHERNET, ISID],
     [ETHERNET, VLAN, ISID],
     [IEEE8023],
     [ETHERNET, VLAN],
     [IEEE8023, VLAN],
     [ETHERNET, VLAN, VLAN],
     [IEEE8023, VLAN, VLAN],
     [ETHERNET, MPLS_nlabels 1],
     [ETHERNET, MPLS_nlabels 2],
     [ETHERNET, MPLS_nlabels 3],
     [ETHERNET, MPLS_nlabels 4],
     [ETHERNET, MPLS_nlabels 5],
     [ETHERNET, MPLS_nlabels 6],
     [ETHERNET, MPLS_nlabels 7],
     [ETHERNET, MPLS_nlabels 8],
     [ETHERNET, MPLS_nlabels 9],
     [ETHERNET, MPLS_nlabels 10],
     [ETHERNET, MPLS_nlabels 11],
     [ETHERNET, MPLS_nlabels 12],
     [ETHERNET, MPLS_nlabels 13],
     [ETHERNET, MPLS_nlabels 14],
     [ETHERNET, MPLS_nlabels 15],
     [ETHERNET, MPLS_nlabels 16],
     [ETHERNET, MPLS_nlabels 17],
     [ETHERNET, MPLS_nlabels 18],
     [ETHERNET, MPLS_nlabels 19],
     [ETHERNET, MPLS_nlabels 20],
     [ETHERNET, MPLS_nlabels 21],
     [ETHERNET, MPLS_nlabels 22],
     [ETHERNET, MPLS_nlabels 23],
     [ETHERNET, MPLS_nlabels 24],
     [ETHERNET, MPLS_nlabels 25],
     [ETHERNET, MPLS_nlabels 26],
     [ETHERNET, MPLS_nlabels 27],
     [ETHERNET, MPLS_nlabels 28],
     [ETHERNET, MPLS_nlabels 29],
     [ETHERNET, MPLS_nlabels 30],
     [ETHERNET, MPLS_nlabels 31],
     [ETHERNET, MPLS_nlabels 32],
     [ETHERNET, ISID, MPLS_nlabels 1],
     [ETHERNET, ISID, MPLS_nlabels 2],
     [ETHERNET, ISID, MPLS_nlabels 3],
     [ETHERNET, ISID, MPLS_nlabels 4],
     [ETHERNET, ISID, MPLS_nlabels 5],
     [ETHERNET, ISID, MPLS_nlabels 6],
     [ETHERNET, ISID, MPLS_nlabels 7],
     [ETHERNET, ISID, MPLS_nlabels 8],
     [ETHERNET, ISID, MPLS_nlabels 9],
     [ETHERNET, ISID, MPLS_nlabels 10],
     [ETHERNET, ISID, MPLS_nlabels 11],
     [ETHERNET, ISID, MPLS_nlabels 12],
     [ETHERNET, ISID, MPLS_nlabels 13],
     [ETHERNET, ISID, MPLS_nlabels 14],
     [ETHERNET, ISID, MPLS_nlabels 15],
     [ETHERNET, ISID, MPLS_nlabels 16],
     [ETHERNET, ISID, MPLS_nlabels 17],
     [ETHERNET, ISID, MPLS_nlabels 18],
     [ETHERNET, ISID, MPLS_nlabels 19],
     [ETHERNET, ISID, MPLS_nlabels 20],
     [ETHERNET, ISID, MPLS_nlabels 21],
     [ETHERNET, ISID, MPLS_nlabels 22],
     [ETHERNET, ISID, MPLS_nlabels 23],
     [ETHERNET, ISID, MPLS_nlabels 24],
     [ETHERNET, ISID, MPLS_nlabels 25],
     [ETHERNET, ISID, MPLS_nlabels 26],
     [ETHERNET, ISID, MPLS_nlabels 27],
     [ETHERNET, ISID, MPLS_nlabels 28],
     [ETHERNET, ISID, MPLS_nlabels 29],
     [ETHERNET, ISID, MPLS_nlabels 30],
     [ETHERNET, ISID, MPLS_nlabels 31],
     [ETHERNET, ISID, MPLS_nlabels 32],
     [ETHERNET, VLAN, ISID, MPLS_nlabels 1],
     [ETHERNET, VLAN, ISID, MPLS_nlabels 2],
     [ETHERNET, VLAN, ISID, MPLS_nlabels 3],
     [ETHERNET, VLAN, ISID, MPLS_nlabels 4],
     [ETHERNET, VLAN, ISID, MPLS_nlabels 5],
     [ETHERNET, VLAN, ISID, MPLS_nlabels 6],
     [ETHERNET, VLAN, ISID, MPLS_nlabels 7],
     [ETHERNET, VLAN, ISID, MPLS_nlabels 8],
     [ETHERNET, VLAN, ISID, MPLS_nlabels 9],
     [ETHERNET, VLAN, ISID, MPLS_nlabels 10],
     [ETHERNET, VLAN, ISID, MPLS_nlabels 11],
     [ETHERNET, VLAN, ISID, MPLS_nlabels 12],
     [ETHERNET, VLAN, ISID, MPLS_nlabels 13],
     [ETHERNET, VLAN, ISID, MPLS_nlabels 14],
     [ETHERNET, VLAN, ISID, MPLS_nlabels 15],
     [ETHERNET, VLAN, ISID, MPLS_nlabels 16],
     [ETHERNET, VLAN, ISID, MPLS_nlabels 17],
     [ETHERNET, VLAN, ISID, MPLS_nlabels 18],
     [ETHERNET, VLAN, ISID, MPLS_nlabels 19],
     [ETHERNET, VLAN, ISID, MPLS_nlabels 20],
     [ETHERNET, VLAN, ISID, MPLS_nlabels 21],
     [ETHERNET, VLAN, ISID, MPLS_nlabels 22],
     [ETHERNET, VLAN, ISID, MPLS_nlabels 23],
     [ETHERNET, VLAN, ISID, MPLS_nlabels 24],
     [ETHERNET, VLAN, ISID, MPLS_nlabels 25],
     [ETHERNET, VLAN, ISID, MPLS_nlabels 26],
     [ETHERNET, VLAN, ISID, MPLS_nlabels 27],
     [ETHERNET, VLAN, ISID, MPLS_nlabels 28],
     [ETHERNET, VLAN, ISID, MPLS_nlabels 29],
     [ETHERNET, VLAN, ISID, MPLS_nlabels 30],
     [ETHERNET, VLAN, ISID, MPLS_nlabels 31],
     [ETHERNET, VLAN, ISID, MPLS_nlabels 32],
     [IEEE8023, MPLS_nlabels 1],
     [IEEE8023, MPLS_nlabels 2],
     [IEEE8023, MPLS_nlabels 3],
     [IEEE8023, MPLS_nlabels 4],
     [IEEE8023, MPLS_nlabels 5],
     [IEEE8023, MPLS_nlabels 6],
     [IEEE8023, MPLS_nlabels 7],
     [IEEE8023, MPLS_nlabels 8],
     [IEEE8023, MPLS_nlabels 9],
     [IEEE8023, MPLS_nlabels 10],
     [IEEE8023, MPLS_nlabels 11],
     [IEEE8023, MPLS_nlabels 12],
     [IEEE8023, MPLS_nlabels 13],
     [IEEE8023, MPLS_nlabels 14],
     [IEEE8023, MPLS_nlabels 15],
     [IEEE8023, MPLS_nlabels 16],
     [IEEE8023, MPLS_nlabels 17],
     [IEEE8023, MPLS_nlabels 18],
     [IEEE8023, MPLS_nlabels 19],
     [IEEE8023, MPLS_nlabels 20],
     [IEEE8023, MPLS_nlabels 21],
     [IEEE8023, MPLS_nlabels 22],
     [IEEE8023, MPLS_nlabels 23],
     [IEEE8023, MPLS_nlabels 24],
     [IEEE8023, MPLS_nlabels 25],
     [IEEE8023, MPLS_nlabels 26],
     [IEEE8023, MPLS_nlabels 27],
     [IEEE8023, MPLS_nlabels 28],
     [IEEE8023, MPLS_nlabels 29],
     [IEEE8023, MPLS_nlabels 30],
     [IEEE8023, MPLS_nlabels 31],
     [IEEE8023, MPLS_nlabels 32],
     [ETHERNET, VLAN, MPLS_nlabels 1],
     [ETHERNET, VLAN, MPLS_nlabels 2],
     [ETHERNET, VLAN, MPLS_nlabels 3],
     [ETHERNET, VLAN, MPLS_nlabels 4],
     [ETHERNET, VLAN, MPLS_nlabels 5],
     [ETHERNET, VLAN, MPLS_nlabels 6],
     [ETHERNET, VLAN, MPLS_nlabels 7],
     [ETHERNET, VLAN, MPLS_nlabels 8],
     [ETHERNET, VLAN, MPLS_nlabels 9],
     [ETHERNET, VLAN, MPLS_nlabels 10],
     [ETHERNET, VLAN, MPLS_nlabels 11],
     [ETHERNET, VLAN, MPLS_nlabels 12],
     [ETHERNET, VLAN, MPLS_nlabels 13],
     [ETHERNET, VLAN, MPLS_nlabels 14]]"

definition pt_enum_2 :: "pkt_type list" where
  "pt_enum_2 =
    [[ETHERNET, VLAN, MPLS_nlabels 15],
     [ETHERNET, VLAN, MPLS_nlabels 16],
     [ETHERNET, VLAN, MPLS_nlabels 17],
     [ETHERNET, VLAN, MPLS_nlabels 18],
     [ETHERNET, VLAN, MPLS_nlabels 19],
     [ETHERNET, VLAN, MPLS_nlabels 20],
     [ETHERNET, VLAN, MPLS_nlabels 21],
     [ETHERNET, VLAN, MPLS_nlabels 22],
     [ETHERNET, VLAN, MPLS_nlabels 23],
     [ETHERNET, VLAN, MPLS_nlabels 24],
     [ETHERNET, VLAN, MPLS_nlabels 25],
     [ETHERNET, VLAN, MPLS_nlabels 26],
     [ETHERNET, VLAN, MPLS_nlabels 27],
     [ETHERNET, VLAN, MPLS_nlabels 28],
     [ETHERNET, VLAN, MPLS_nlabels 29],
     [ETHERNET, VLAN, MPLS_nlabels 30],
     [ETHERNET, VLAN, MPLS_nlabels 31],
     [ETHERNET, VLAN, MPLS_nlabels 32],
     [IEEE8023, VLAN, MPLS_nlabels 1],
     [IEEE8023, VLAN, MPLS_nlabels 2],
     [IEEE8023, VLAN, MPLS_nlabels 3],
     [IEEE8023, VLAN, MPLS_nlabels 4],
     [IEEE8023, VLAN, MPLS_nlabels 5],
     [IEEE8023, VLAN, MPLS_nlabels 6],
     [IEEE8023, VLAN, MPLS_nlabels 7],
     [IEEE8023, VLAN, MPLS_nlabels 8],
     [IEEE8023, VLAN, MPLS_nlabels 9],
     [IEEE8023, VLAN, MPLS_nlabels 10],
     [IEEE8023, VLAN, MPLS_nlabels 11],
     [IEEE8023, VLAN, MPLS_nlabels 12],
     [IEEE8023, VLAN, MPLS_nlabels 13],
     [IEEE8023, VLAN, MPLS_nlabels 14],
     [IEEE8023, VLAN, MPLS_nlabels 15],
     [IEEE8023, VLAN, MPLS_nlabels 16],
     [IEEE8023, VLAN, MPLS_nlabels 17],
     [IEEE8023, VLAN, MPLS_nlabels 18],
     [IEEE8023, VLAN, MPLS_nlabels 19],
     [IEEE8023, VLAN, MPLS_nlabels 20],
     [IEEE8023, VLAN, MPLS_nlabels 21],
     [IEEE8023, VLAN, MPLS_nlabels 22],
     [IEEE8023, VLAN, MPLS_nlabels 23],
     [IEEE8023, VLAN, MPLS_nlabels 24],
     [IEEE8023, VLAN, MPLS_nlabels 25],
     [IEEE8023, VLAN, MPLS_nlabels 26],
     [IEEE8023, VLAN, MPLS_nlabels 27],
     [IEEE8023, VLAN, MPLS_nlabels 28],
     [IEEE8023, VLAN, MPLS_nlabels 29],
     [IEEE8023, VLAN, MPLS_nlabels 30],
     [IEEE8023, VLAN, MPLS_nlabels 31],
     [IEEE8023, VLAN, MPLS_nlabels 32],
     [ETHERNET, VLAN, VLAN, MPLS_nlabels 1],
     [ETHERNET, VLAN, VLAN, MPLS_nlabels 2],
     [ETHERNET, VLAN, VLAN, MPLS_nlabels 3],
     [ETHERNET, VLAN, VLAN, MPLS_nlabels 4],
     [ETHERNET, VLAN, VLAN, MPLS_nlabels 5],
     [ETHERNET, VLAN, VLAN, MPLS_nlabels 6],
     [ETHERNET, VLAN, VLAN, MPLS_nlabels 7],
     [ETHERNET, VLAN, VLAN, MPLS_nlabels 8],
     [ETHERNET, VLAN, VLAN, MPLS_nlabels 9],
     [ETHERNET, VLAN, VLAN, MPLS_nlabels 10],
     [ETHERNET, VLAN, VLAN, MPLS_nlabels 11],
     [ETHERNET, VLAN, VLAN, MPLS_nlabels 12],
     [ETHERNET, VLAN, VLAN, MPLS_nlabels 13],
     [ETHERNET, VLAN, VLAN, MPLS_nlabels 14],
     [ETHERNET, VLAN, VLAN, MPLS_nlabels 15],
     [ETHERNET, VLAN, VLAN, MPLS_nlabels 16],
     [ETHERNET, VLAN, VLAN, MPLS_nlabels 17],
     [ETHERNET, VLAN, VLAN, MPLS_nlabels 18],
     [ETHERNET, VLAN, VLAN, MPLS_nlabels 19],
     [ETHERNET, VLAN, VLAN, MPLS_nlabels 20],
     [ETHERNET, VLAN, VLAN, MPLS_nlabels 21],
     [ETHERNET, VLAN, VLAN, MPLS_nlabels 22],
     [ETHERNET, VLAN, VLAN, MPLS_nlabels 23],
     [ETHERNET, VLAN, VLAN, MPLS_nlabels 24],
     [ETHERNET, VLAN, VLAN, MPLS_nlabels 25],
     [ETHERNET, VLAN, VLAN, MPLS_nlabels 26],
     [ETHERNET, VLAN, VLAN, MPLS_nlabels 27],
     [ETHERNET, VLAN, VLAN, MPLS_nlabels 28],
     [ETHERNET, VLAN, VLAN, MPLS_nlabels 29],
     [ETHERNET, VLAN, VLAN, MPLS_nlabels 30],
     [ETHERNET, VLAN, VLAN, MPLS_nlabels 31],
     [ETHERNET, VLAN, VLAN, MPLS_nlabels 32],
     [IEEE8023, VLAN, VLAN, MPLS_nlabels 1],
     [IEEE8023, VLAN, VLAN, MPLS_nlabels 2],
     [IEEE8023, VLAN, VLAN, MPLS_nlabels 3],
     [IEEE8023, VLAN, VLAN, MPLS_nlabels 4],
     [IEEE8023, VLAN, VLAN, MPLS_nlabels 5],
     [IEEE8023, VLAN, VLAN, MPLS_nlabels 6],
     [IEEE8023, VLAN, VLAN, MPLS_nlabels 7],
     [IEEE8023, VLAN, VLAN, MPLS_nlabels 8],
     [IEEE8023, VLAN, VLAN, MPLS_nlabels 9],
     [IEEE8023, VLAN, VLAN, MPLS_nlabels 10],
     [IEEE8023, VLAN, VLAN, MPLS_nlabels 11],
     [IEEE8023, VLAN, VLAN, MPLS_nlabels 12],
     [IEEE8023, VLAN, VLAN, MPLS_nlabels 13],
     [IEEE8023, VLAN, VLAN, MPLS_nlabels 14],
     [IEEE8023, VLAN, VLAN, MPLS_nlabels 15],
     [IEEE8023, VLAN, VLAN, MPLS_nlabels 16],
     [IEEE8023, VLAN, VLAN, MPLS_nlabels 17],
     [IEEE8023, VLAN, VLAN, MPLS_nlabels 18],
     [IEEE8023, VLAN, VLAN, MPLS_nlabels 19],
     [IEEE8023, VLAN, VLAN, MPLS_nlabels 20],
     [IEEE8023, VLAN, VLAN, MPLS_nlabels 21],
     [IEEE8023, VLAN, VLAN, MPLS_nlabels 22],
     [IEEE8023, VLAN, VLAN, MPLS_nlabels 23],
     [IEEE8023, VLAN, VLAN, MPLS_nlabels 24],
     [IEEE8023, VLAN, VLAN, MPLS_nlabels 25],
     [IEEE8023, VLAN, VLAN, MPLS_nlabels 26],
     [IEEE8023, VLAN, VLAN, MPLS_nlabels 27],
     [IEEE8023, VLAN, VLAN, MPLS_nlabels 28],
     [IEEE8023, VLAN, VLAN, MPLS_nlabels 29],
     [IEEE8023, VLAN, VLAN, MPLS_nlabels 30],
     [IEEE8023, VLAN, VLAN, MPLS_nlabels 31],
     [IEEE8023, VLAN, VLAN, MPLS_nlabels 32],
     [ETHERNET, PPPOE],
     [ETHERNET, ISID, PPPOE],
     [ETHERNET, VLAN, ISID, PPPOE],
     [IEEE8023, PPPOE],
     [ETHERNET, VLAN, PPPOE],
     [IEEE8023, VLAN, PPPOE],
     [ETHERNET, VLAN, VLAN, PPPOE],
     [IEEE8023, VLAN, VLAN, PPPOE],
     [ETHERNET, PPPOE, PPP],
     [ETHERNET, ISID, PPPOE, PPP],
     [ETHERNET, VLAN, ISID, PPPOE, PPP],
     [IEEE8023, PPPOE, PPP],
     [ETHERNET, VLAN, PPPOE, PPP],
     [IEEE8023, VLAN, PPPOE, PPP],
     [ETHERNET, VLAN, VLAN, PPPOE, PPP],
     [IEEE8023, VLAN, VLAN, PPPOE, PPP],
     [ETHERNET, ARPV4],
     [ETHERNET, ISID, ARPV4],
     [ETHERNET, VLAN, ISID, ARPV4],
     [IEEE8023, ARPV4],
     [ETHERNET, VLAN, ARPV4],
     [IEEE8023, VLAN, ARPV4],
     [ETHERNET, VLAN, VLAN, ARPV4],
     [IEEE8023, VLAN, VLAN, ARPV4],
     [ETHERNET, IPV4_noptions 0],
     [ETHERNET, IPV4_noptions 1],
     [ETHERNET, IPV4_noptions 2],
     [ETHERNET, IPV4_noptions 3],
     [ETHERNET, IPV4_noptions 4],
     [ETHERNET, IPV4_noptions 5],
     [ETHERNET, IPV4_noptions 6],
     [ETHERNET, IPV4_noptions 7],
     [ETHERNET, IPV4_noptions 8],
     [ETHERNET, IPV4_noptions 9],
     [ETHERNET, IPV4_noptions 10],
     [ETHERNET, IPV4_noptions 11]]"

definition pt_enum_3 :: "pkt_type list" where
  "pt_enum_3 =
    [[ETHERNET, IPV4_noptions 12],
     [ETHERNET, IPV4_noptions 13],
     [ETHERNET, IPV4_noptions 14],
     [ETHERNET, IPV4_noptions 15],
     [ETHERNET, ISID, IPV4_noptions 0],
     [ETHERNET, ISID, IPV4_noptions 1],
     [ETHERNET, ISID, IPV4_noptions 2],
     [ETHERNET, ISID, IPV4_noptions 3],
     [ETHERNET, ISID, IPV4_noptions 4],
     [ETHERNET, ISID, IPV4_noptions 5],
     [ETHERNET, ISID, IPV4_noptions 6],
     [ETHERNET, ISID, IPV4_noptions 7],
     [ETHERNET, ISID, IPV4_noptions 8],
     [ETHERNET, ISID, IPV4_noptions 9],
     [ETHERNET, ISID, IPV4_noptions 10],
     [ETHERNET, ISID, IPV4_noptions 11],
     [ETHERNET, ISID, IPV4_noptions 12],
     [ETHERNET, ISID, IPV4_noptions 13],
     [ETHERNET, ISID, IPV4_noptions 14],
     [ETHERNET, ISID, IPV4_noptions 15],
     [ETHERNET, VLAN, ISID, IPV4_noptions 0],
     [ETHERNET, VLAN, ISID, IPV4_noptions 1],
     [ETHERNET, VLAN, ISID, IPV4_noptions 2],
     [ETHERNET, VLAN, ISID, IPV4_noptions 3],
     [ETHERNET, VLAN, ISID, IPV4_noptions 4],
     [ETHERNET, VLAN, ISID, IPV4_noptions 5],
     [ETHERNET, VLAN, ISID, IPV4_noptions 6],
     [ETHERNET, VLAN, ISID, IPV4_noptions 7],
     [ETHERNET, VLAN, ISID, IPV4_noptions 8],
     [ETHERNET, VLAN, ISID, IPV4_noptions 9],
     [ETHERNET, VLAN, ISID, IPV4_noptions 10],
     [ETHERNET, VLAN, ISID, IPV4_noptions 11],
     [ETHERNET, VLAN, ISID, IPV4_noptions 12],
     [ETHERNET, VLAN, ISID, IPV4_noptions 13],
     [ETHERNET, VLAN, ISID, IPV4_noptions 14],
     [ETHERNET, VLAN, ISID, IPV4_noptions 15],
     [IEEE8023, IPV4_noptions 0],
     [IEEE8023, IPV4_noptions 1],
     [IEEE8023, IPV4_noptions 2],
     [IEEE8023, IPV4_noptions 3],
     [IEEE8023, IPV4_noptions 4],
     [IEEE8023, IPV4_noptions 5],
     [IEEE8023, IPV4_noptions 6],
     [IEEE8023, IPV4_noptions 7],
     [IEEE8023, IPV4_noptions 8],
     [IEEE8023, IPV4_noptions 9],
     [IEEE8023, IPV4_noptions 10],
     [IEEE8023, IPV4_noptions 11],
     [IEEE8023, IPV4_noptions 12],
     [IEEE8023, IPV4_noptions 13],
     [IEEE8023, IPV4_noptions 14],
     [IEEE8023, IPV4_noptions 15],
     [ETHERNET, VLAN, IPV4_noptions 0],
     [ETHERNET, VLAN, IPV4_noptions 1],
     [ETHERNET, VLAN, IPV4_noptions 2],
     [ETHERNET, VLAN, IPV4_noptions 3],
     [ETHERNET, VLAN, IPV4_noptions 4],
     [ETHERNET, VLAN, IPV4_noptions 5],
     [ETHERNET, VLAN, IPV4_noptions 6],
     [ETHERNET, VLAN, IPV4_noptions 7],
     [ETHERNET, VLAN, IPV4_noptions 8],
     [ETHERNET, VLAN, IPV4_noptions 9],
     [ETHERNET, VLAN, IPV4_noptions 10],
     [ETHERNET, VLAN, IPV4_noptions 11],
     [ETHERNET, VLAN, IPV4_noptions 12],
     [ETHERNET, VLAN, IPV4_noptions 13],
     [ETHERNET, VLAN, IPV4_noptions 14],
     [ETHERNET, VLAN, IPV4_noptions 15],
     [IEEE8023, VLAN, IPV4_noptions 0],
     [IEEE8023, VLAN, IPV4_noptions 1],
     [IEEE8023, VLAN, IPV4_noptions 2],
     [IEEE8023, VLAN, IPV4_noptions 3],
     [IEEE8023, VLAN, IPV4_noptions 4],
     [IEEE8023, VLAN, IPV4_noptions 5],
     [IEEE8023, VLAN, IPV4_noptions 6],
     [IEEE8023, VLAN, IPV4_noptions 7],
     [IEEE8023, VLAN, IPV4_noptions 8],
     [IEEE8023, VLAN, IPV4_noptions 9],
     [IEEE8023, VLAN, IPV4_noptions 10],
     [IEEE8023, VLAN, IPV4_noptions 11],
     [IEEE8023, VLAN, IPV4_noptions 12],
     [IEEE8023, VLAN, IPV4_noptions 13],
     [IEEE8023, VLAN, IPV4_noptions 14],
     [IEEE8023, VLAN, IPV4_noptions 15],
     [ETHERNET, VLAN, VLAN, IPV4_noptions 0],
     [ETHERNET, VLAN, VLAN, IPV4_noptions 1],
     [ETHERNET, VLAN, VLAN, IPV4_noptions 2],
     [ETHERNET, VLAN, VLAN, IPV4_noptions 3],
     [ETHERNET, VLAN, VLAN, IPV4_noptions 4],
     [ETHERNET, VLAN, VLAN, IPV4_noptions 5],
     [ETHERNET, VLAN, VLAN, IPV4_noptions 6],
     [ETHERNET, VLAN, VLAN, IPV4_noptions 7],
     [ETHERNET, VLAN, VLAN, IPV4_noptions 8],
     [ETHERNET, VLAN, VLAN, IPV4_noptions 9],
     [ETHERNET, VLAN, VLAN, IPV4_noptions 10],
     [ETHERNET, VLAN, VLAN, IPV4_noptions 11],
     [ETHERNET, VLAN, VLAN, IPV4_noptions 12],
     [ETHERNET, VLAN, VLAN, IPV4_noptions 13],
     [ETHERNET, VLAN, VLAN, IPV4_noptions 14],
     [ETHERNET, VLAN, VLAN, IPV4_noptions 15],
     [IEEE8023, VLAN, VLAN, IPV4_noptions 0],
     [IEEE8023, VLAN, VLAN, IPV4_noptions 1],
     [IEEE8023, VLAN, VLAN, IPV4_noptions 2],
     [IEEE8023, VLAN, VLAN, IPV4_noptions 3],
     [IEEE8023, VLAN, VLAN, IPV4_noptions 4],
     [IEEE8023, VLAN, VLAN, IPV4_noptions 5],
     [IEEE8023, VLAN, VLAN, IPV4_noptions 6],
     [IEEE8023, VLAN, VLAN, IPV4_noptions 7],
     [IEEE8023, VLAN, VLAN, IPV4_noptions 8],
     [IEEE8023, VLAN, VLAN, IPV4_noptions 9],
     [IEEE8023, VLAN, VLAN, IPV4_noptions 10],
     [IEEE8023, VLAN, VLAN, IPV4_noptions 11],
     [IEEE8023, VLAN, VLAN, IPV4_noptions 12],
     [IEEE8023, VLAN, VLAN, IPV4_noptions 13],
     [IEEE8023, VLAN, VLAN, IPV4_noptions 14],
     [IEEE8023, VLAN, VLAN, IPV4_noptions 15],
     [ETHERNET, IPV4_noptions 0, ICMPV4],
     [ETHERNET, IPV4_noptions 1, ICMPV4],
     [ETHERNET, IPV4_noptions 2, ICMPV4],
     [ETHERNET, IPV4_noptions 3, ICMPV4],
     [ETHERNET, IPV4_noptions 4, ICMPV4],
     [ETHERNET, IPV4_noptions 5, ICMPV4],
     [ETHERNET, IPV4_noptions 6, ICMPV4],
     [ETHERNET, IPV4_noptions 7, ICMPV4],
     [ETHERNET, IPV4_noptions 8, ICMPV4],
     [ETHERNET, IPV4_noptions 9, ICMPV4],
     [ETHERNET, IPV4_noptions 10, ICMPV4],
     [ETHERNET, IPV4_noptions 11, ICMPV4],
     [ETHERNET, IPV4_noptions 12, ICMPV4],
     [ETHERNET, IPV4_noptions 13, ICMPV4],
     [ETHERNET, IPV4_noptions 14, ICMPV4],
     [ETHERNET, IPV4_noptions 15, ICMPV4],
     [ETHERNET, ISID, IPV4_noptions 0, ICMPV4],
     [ETHERNET, ISID, IPV4_noptions 1, ICMPV4],
     [ETHERNET, ISID, IPV4_noptions 2, ICMPV4],
     [ETHERNET, ISID, IPV4_noptions 3, ICMPV4],
     [ETHERNET, ISID, IPV4_noptions 4, ICMPV4],
     [ETHERNET, ISID, IPV4_noptions 5, ICMPV4],
     [ETHERNET, ISID, IPV4_noptions 6, ICMPV4],
     [ETHERNET, ISID, IPV4_noptions 7, ICMPV4],
     [ETHERNET, ISID, IPV4_noptions 8, ICMPV4],
     [ETHERNET, ISID, IPV4_noptions 9, ICMPV4],
     [ETHERNET, ISID, IPV4_noptions 10, ICMPV4],
     [ETHERNET, ISID, IPV4_noptions 11, ICMPV4],
     [ETHERNET, ISID, IPV4_noptions 12, ICMPV4],
     [ETHERNET, ISID, IPV4_noptions 13, ICMPV4],
     [ETHERNET, ISID, IPV4_noptions 14, ICMPV4],
     [ETHERNET, ISID, IPV4_noptions 15, ICMPV4],
     [ETHERNET, VLAN, ISID, IPV4_noptions 0, ICMPV4],
     [ETHERNET, VLAN, ISID, IPV4_noptions 1, ICMPV4]]"

definition pt_enum_4 :: "pkt_type list" where
  "pt_enum_4 =
    [[ETHERNET, VLAN, ISID, IPV4_noptions 2, ICMPV4],
     [ETHERNET, VLAN, ISID, IPV4_noptions 3, ICMPV4],
     [ETHERNET, VLAN, ISID, IPV4_noptions 4, ICMPV4],
     [ETHERNET, VLAN, ISID, IPV4_noptions 5, ICMPV4],
     [ETHERNET, VLAN, ISID, IPV4_noptions 6, ICMPV4],
     [ETHERNET, VLAN, ISID, IPV4_noptions 7, ICMPV4],
     [ETHERNET, VLAN, ISID, IPV4_noptions 8, ICMPV4],
     [ETHERNET, VLAN, ISID, IPV4_noptions 9, ICMPV4],
     [ETHERNET, VLAN, ISID, IPV4_noptions 10, ICMPV4],
     [ETHERNET, VLAN, ISID, IPV4_noptions 11, ICMPV4],
     [ETHERNET, VLAN, ISID, IPV4_noptions 12, ICMPV4],
     [ETHERNET, VLAN, ISID, IPV4_noptions 13, ICMPV4],
     [ETHERNET, VLAN, ISID, IPV4_noptions 14, ICMPV4],
     [ETHERNET, VLAN, ISID, IPV4_noptions 15, ICMPV4],
     [IEEE8023, IPV4_noptions 0, ICMPV4],
     [IEEE8023, IPV4_noptions 1, ICMPV4],
     [IEEE8023, IPV4_noptions 2, ICMPV4],
     [IEEE8023, IPV4_noptions 3, ICMPV4],
     [IEEE8023, IPV4_noptions 4, ICMPV4],
     [IEEE8023, IPV4_noptions 5, ICMPV4],
     [IEEE8023, IPV4_noptions 6, ICMPV4],
     [IEEE8023, IPV4_noptions 7, ICMPV4],
     [IEEE8023, IPV4_noptions 8, ICMPV4],
     [IEEE8023, IPV4_noptions 9, ICMPV4],
     [IEEE8023, IPV4_noptions 10, ICMPV4],
     [IEEE8023, IPV4_noptions 11, ICMPV4],
     [IEEE8023, IPV4_noptions 12, ICMPV4],
     [IEEE8023, IPV4_noptions 13, ICMPV4],
     [IEEE8023, IPV4_noptions 14, ICMPV4],
     [IEEE8023, IPV4_noptions 15, ICMPV4],
     [ETHERNET, VLAN, IPV4_noptions 0, ICMPV4],
     [ETHERNET, VLAN, IPV4_noptions 1, ICMPV4],
     [ETHERNET, VLAN, IPV4_noptions 2, ICMPV4],
     [ETHERNET, VLAN, IPV4_noptions 3, ICMPV4],
     [ETHERNET, VLAN, IPV4_noptions 4, ICMPV4],
     [ETHERNET, VLAN, IPV4_noptions 5, ICMPV4],
     [ETHERNET, VLAN, IPV4_noptions 6, ICMPV4],
     [ETHERNET, VLAN, IPV4_noptions 7, ICMPV4],
     [ETHERNET, VLAN, IPV4_noptions 8, ICMPV4],
     [ETHERNET, VLAN, IPV4_noptions 9, ICMPV4],
     [ETHERNET, VLAN, IPV4_noptions 10, ICMPV4],
     [ETHERNET, VLAN, IPV4_noptions 11, ICMPV4],
     [ETHERNET, VLAN, IPV4_noptions 12, ICMPV4],
     [ETHERNET, VLAN, IPV4_noptions 13, ICMPV4],
     [ETHERNET, VLAN, IPV4_noptions 14, ICMPV4],
     [ETHERNET, VLAN, IPV4_noptions 15, ICMPV4],
     [IEEE8023, VLAN, IPV4_noptions 0, ICMPV4],
     [IEEE8023, VLAN, IPV4_noptions 1, ICMPV4],
     [IEEE8023, VLAN, IPV4_noptions 2, ICMPV4],
     [IEEE8023, VLAN, IPV4_noptions 3, ICMPV4],
     [IEEE8023, VLAN, IPV4_noptions 4, ICMPV4],
     [IEEE8023, VLAN, IPV4_noptions 5, ICMPV4],
     [IEEE8023, VLAN, IPV4_noptions 6, ICMPV4],
     [IEEE8023, VLAN, IPV4_noptions 7, ICMPV4],
     [IEEE8023, VLAN, IPV4_noptions 8, ICMPV4],
     [IEEE8023, VLAN, IPV4_noptions 9, ICMPV4],
     [IEEE8023, VLAN, IPV4_noptions 10, ICMPV4],
     [IEEE8023, VLAN, IPV4_noptions 11, ICMPV4],
     [IEEE8023, VLAN, IPV4_noptions 12, ICMPV4],
     [IEEE8023, VLAN, IPV4_noptions 13, ICMPV4],
     [IEEE8023, VLAN, IPV4_noptions 14, ICMPV4],
     [IEEE8023, VLAN, IPV4_noptions 15, ICMPV4],
     [ETHERNET, VLAN, VLAN, IPV4_noptions 0, ICMPV4],
     [ETHERNET, VLAN, VLAN, IPV4_noptions 1, ICMPV4],
     [ETHERNET, VLAN, VLAN, IPV4_noptions 2, ICMPV4],
     [ETHERNET, VLAN, VLAN, IPV4_noptions 3, ICMPV4],
     [ETHERNET, VLAN, VLAN, IPV4_noptions 4, ICMPV4],
     [ETHERNET, VLAN, VLAN, IPV4_noptions 5, ICMPV4],
     [ETHERNET, VLAN, VLAN, IPV4_noptions 6, ICMPV4],
     [ETHERNET, VLAN, VLAN, IPV4_noptions 7, ICMPV4],
     [ETHERNET, VLAN, VLAN, IPV4_noptions 8, ICMPV4],
     [ETHERNET, VLAN, VLAN, IPV4_noptions 9, ICMPV4],
     [ETHERNET, VLAN, VLAN, IPV4_noptions 10, ICMPV4],
     [ETHERNET, VLAN, VLAN, IPV4_noptions 11, ICMPV4],
     [ETHERNET, VLAN, VLAN, IPV4_noptions 12, ICMPV4],
     [ETHERNET, VLAN, VLAN, IPV4_noptions 13, ICMPV4],
     [ETHERNET, VLAN, VLAN, IPV4_noptions 14, ICMPV4],
     [ETHERNET, VLAN, VLAN, IPV4_noptions 15, ICMPV4],
     [IEEE8023, VLAN, VLAN, IPV4_noptions 0, ICMPV4],
     [IEEE8023, VLAN, VLAN, IPV4_noptions 1, ICMPV4],
     [IEEE8023, VLAN, VLAN, IPV4_noptions 2, ICMPV4],
     [IEEE8023, VLAN, VLAN, IPV4_noptions 3, ICMPV4],
     [IEEE8023, VLAN, VLAN, IPV4_noptions 4, ICMPV4],
     [IEEE8023, VLAN, VLAN, IPV4_noptions 5, ICMPV4],
     [IEEE8023, VLAN, VLAN, IPV4_noptions 6, ICMPV4],
     [IEEE8023, VLAN, VLAN, IPV4_noptions 7, ICMPV4],
     [IEEE8023, VLAN, VLAN, IPV4_noptions 8, ICMPV4],
     [IEEE8023, VLAN, VLAN, IPV4_noptions 9, ICMPV4],
     [IEEE8023, VLAN, VLAN, IPV4_noptions 10, ICMPV4],
     [IEEE8023, VLAN, VLAN, IPV4_noptions 11, ICMPV4],
     [IEEE8023, VLAN, VLAN, IPV4_noptions 12, ICMPV4],
     [IEEE8023, VLAN, VLAN, IPV4_noptions 13, ICMPV4],
     [IEEE8023, VLAN, VLAN, IPV4_noptions 14, ICMPV4],
     [IEEE8023, VLAN, VLAN, IPV4_noptions 15, ICMPV4],
     [ETHERNET, IPV4_noptions 0, TCP],
     [ETHERNET, IPV4_noptions 1, TCP],
     [ETHERNET, IPV4_noptions 2, TCP],
     [ETHERNET, IPV4_noptions 3, TCP],
     [ETHERNET, IPV4_noptions 4, TCP],
     [ETHERNET, IPV4_noptions 5, TCP],
     [ETHERNET, IPV4_noptions 6, TCP],
     [ETHERNET, IPV4_noptions 7, TCP],
     [ETHERNET, IPV4_noptions 8, TCP],
     [ETHERNET, IPV4_noptions 9, TCP],
     [ETHERNET, IPV4_noptions 10, TCP],
     [ETHERNET, IPV4_noptions 11, TCP],
     [ETHERNET, IPV4_noptions 12, TCP],
     [ETHERNET, IPV4_noptions 13, TCP],
     [ETHERNET, IPV4_noptions 14, TCP],
     [ETHERNET, IPV4_noptions 15, TCP],
     [ETHERNET, ISID, IPV4_noptions 0, TCP],
     [ETHERNET, ISID, IPV4_noptions 1, TCP],
     [ETHERNET, ISID, IPV4_noptions 2, TCP],
     [ETHERNET, ISID, IPV4_noptions 3, TCP],
     [ETHERNET, ISID, IPV4_noptions 4, TCP],
     [ETHERNET, ISID, IPV4_noptions 5, TCP],
     [ETHERNET, ISID, IPV4_noptions 6, TCP],
     [ETHERNET, ISID, IPV4_noptions 7, TCP],
     [ETHERNET, ISID, IPV4_noptions 8, TCP],
     [ETHERNET, ISID, IPV4_noptions 9, TCP],
     [ETHERNET, ISID, IPV4_noptions 10, TCP],
     [ETHERNET, ISID, IPV4_noptions 11, TCP],
     [ETHERNET, ISID, IPV4_noptions 12, TCP],
     [ETHERNET, ISID, IPV4_noptions 13, TCP],
     [ETHERNET, ISID, IPV4_noptions 14, TCP],
     [ETHERNET, ISID, IPV4_noptions 15, TCP],
     [ETHERNET, VLAN, ISID, IPV4_noptions 0, TCP],
     [ETHERNET, VLAN, ISID, IPV4_noptions 1, TCP],
     [ETHERNET, VLAN, ISID, IPV4_noptions 2, TCP],
     [ETHERNET, VLAN, ISID, IPV4_noptions 3, TCP],
     [ETHERNET, VLAN, ISID, IPV4_noptions 4, TCP],
     [ETHERNET, VLAN, ISID, IPV4_noptions 5, TCP],
     [ETHERNET, VLAN, ISID, IPV4_noptions 6, TCP],
     [ETHERNET, VLAN, ISID, IPV4_noptions 7, TCP],
     [ETHERNET, VLAN, ISID, IPV4_noptions 8, TCP],
     [ETHERNET, VLAN, ISID, IPV4_noptions 9, TCP],
     [ETHERNET, VLAN, ISID, IPV4_noptions 10, TCP],
     [ETHERNET, VLAN, ISID, IPV4_noptions 11, TCP],
     [ETHERNET, VLAN, ISID, IPV4_noptions 12, TCP],
     [ETHERNET, VLAN, ISID, IPV4_noptions 13, TCP],
     [ETHERNET, VLAN, ISID, IPV4_noptions 14, TCP],
     [ETHERNET, VLAN, ISID, IPV4_noptions 15, TCP],
     [IEEE8023, IPV4_noptions 0, TCP],
     [IEEE8023, IPV4_noptions 1, TCP],
     [IEEE8023, IPV4_noptions 2, TCP],
     [IEEE8023, IPV4_noptions 3, TCP],
     [IEEE8023, IPV4_noptions 4, TCP],
     [IEEE8023, IPV4_noptions 5, TCP],
     [IEEE8023, IPV4_noptions 6, TCP],
     [IEEE8023, IPV4_noptions 7, TCP]]"

definition pt_enum_5 :: "pkt_type list" where
  "pt_enum_5 =
    [[IEEE8023, IPV4_noptions 8, TCP],
     [IEEE8023, IPV4_noptions 9, TCP],
     [IEEE8023, IPV4_noptions 10, TCP],
     [IEEE8023, IPV4_noptions 11, TCP],
     [IEEE8023, IPV4_noptions 12, TCP],
     [IEEE8023, IPV4_noptions 13, TCP],
     [IEEE8023, IPV4_noptions 14, TCP],
     [IEEE8023, IPV4_noptions 15, TCP],
     [ETHERNET, VLAN, IPV4_noptions 0, TCP],
     [ETHERNET, VLAN, IPV4_noptions 1, TCP],
     [ETHERNET, VLAN, IPV4_noptions 2, TCP],
     [ETHERNET, VLAN, IPV4_noptions 3, TCP],
     [ETHERNET, VLAN, IPV4_noptions 4, TCP],
     [ETHERNET, VLAN, IPV4_noptions 5, TCP],
     [ETHERNET, VLAN, IPV4_noptions 6, TCP],
     [ETHERNET, VLAN, IPV4_noptions 7, TCP],
     [ETHERNET, VLAN, IPV4_noptions 8, TCP],
     [ETHERNET, VLAN, IPV4_noptions 9, TCP],
     [ETHERNET, VLAN, IPV4_noptions 10, TCP],
     [ETHERNET, VLAN, IPV4_noptions 11, TCP],
     [ETHERNET, VLAN, IPV4_noptions 12, TCP],
     [ETHERNET, VLAN, IPV4_noptions 13, TCP],
     [ETHERNET, VLAN, IPV4_noptions 14, TCP],
     [ETHERNET, VLAN, IPV4_noptions 15, TCP],
     [IEEE8023, VLAN, IPV4_noptions 0, TCP],
     [IEEE8023, VLAN, IPV4_noptions 1, TCP],
     [IEEE8023, VLAN, IPV4_noptions 2, TCP],
     [IEEE8023, VLAN, IPV4_noptions 3, TCP],
     [IEEE8023, VLAN, IPV4_noptions 4, TCP],
     [IEEE8023, VLAN, IPV4_noptions 5, TCP],
     [IEEE8023, VLAN, IPV4_noptions 6, TCP],
     [IEEE8023, VLAN, IPV4_noptions 7, TCP],
     [IEEE8023, VLAN, IPV4_noptions 8, TCP],
     [IEEE8023, VLAN, IPV4_noptions 9, TCP],
     [IEEE8023, VLAN, IPV4_noptions 10, TCP],
     [IEEE8023, VLAN, IPV4_noptions 11, TCP],
     [IEEE8023, VLAN, IPV4_noptions 12, TCP],
     [IEEE8023, VLAN, IPV4_noptions 13, TCP],
     [IEEE8023, VLAN, IPV4_noptions 14, TCP],
     [IEEE8023, VLAN, IPV4_noptions 15, TCP],
     [ETHERNET, VLAN, VLAN, IPV4_noptions 0, TCP],
     [ETHERNET, VLAN, VLAN, IPV4_noptions 1, TCP],
     [ETHERNET, VLAN, VLAN, IPV4_noptions 2, TCP],
     [ETHERNET, VLAN, VLAN, IPV4_noptions 3, TCP],
     [ETHERNET, VLAN, VLAN, IPV4_noptions 4, TCP],
     [ETHERNET, VLAN, VLAN, IPV4_noptions 5, TCP],
     [ETHERNET, VLAN, VLAN, IPV4_noptions 6, TCP],
     [ETHERNET, VLAN, VLAN, IPV4_noptions 7, TCP],
     [ETHERNET, VLAN, VLAN, IPV4_noptions 8, TCP],
     [ETHERNET, VLAN, VLAN, IPV4_noptions 9, TCP],
     [ETHERNET, VLAN, VLAN, IPV4_noptions 10, TCP],
     [ETHERNET, VLAN, VLAN, IPV4_noptions 11, TCP],
     [ETHERNET, VLAN, VLAN, IPV4_noptions 12, TCP],
     [ETHERNET, VLAN, VLAN, IPV4_noptions 13, TCP],
     [ETHERNET, VLAN, VLAN, IPV4_noptions 14, TCP],
     [ETHERNET, VLAN, VLAN, IPV4_noptions 15, TCP],
     [IEEE8023, VLAN, VLAN, IPV4_noptions 0, TCP],
     [IEEE8023, VLAN, VLAN, IPV4_noptions 1, TCP],
     [IEEE8023, VLAN, VLAN, IPV4_noptions 2, TCP],
     [IEEE8023, VLAN, VLAN, IPV4_noptions 3, TCP],
     [IEEE8023, VLAN, VLAN, IPV4_noptions 4, TCP],
     [IEEE8023, VLAN, VLAN, IPV4_noptions 5, TCP],
     [IEEE8023, VLAN, VLAN, IPV4_noptions 6, TCP],
     [IEEE8023, VLAN, VLAN, IPV4_noptions 7, TCP],
     [IEEE8023, VLAN, VLAN, IPV4_noptions 8, TCP],
     [IEEE8023, VLAN, VLAN, IPV4_noptions 9, TCP],
     [IEEE8023, VLAN, VLAN, IPV4_noptions 10, TCP],
     [IEEE8023, VLAN, VLAN, IPV4_noptions 11, TCP],
     [IEEE8023, VLAN, VLAN, IPV4_noptions 12, TCP],
     [IEEE8023, VLAN, VLAN, IPV4_noptions 13, TCP],
     [IEEE8023, VLAN, VLAN, IPV4_noptions 14, TCP],
     [IEEE8023, VLAN, VLAN, IPV4_noptions 15, TCP],
     [ETHERNET, IPV4_noptions 0, UDP],
     [ETHERNET, IPV4_noptions 1, UDP],
     [ETHERNET, IPV4_noptions 2, UDP],
     [ETHERNET, IPV4_noptions 3, UDP],
     [ETHERNET, IPV4_noptions 4, UDP],
     [ETHERNET, IPV4_noptions 5, UDP],
     [ETHERNET, IPV4_noptions 6, UDP],
     [ETHERNET, IPV4_noptions 7, UDP],
     [ETHERNET, IPV4_noptions 8, UDP],
     [ETHERNET, IPV4_noptions 9, UDP],
     [ETHERNET, IPV4_noptions 10, UDP],
     [ETHERNET, IPV4_noptions 11, UDP],
     [ETHERNET, IPV4_noptions 12, UDP],
     [ETHERNET, IPV4_noptions 13, UDP],
     [ETHERNET, IPV4_noptions 14, UDP],
     [ETHERNET, IPV4_noptions 15, UDP],
     [ETHERNET, ISID, IPV4_noptions 0, UDP],
     [ETHERNET, ISID, IPV4_noptions 1, UDP],
     [ETHERNET, ISID, IPV4_noptions 2, UDP],
     [ETHERNET, ISID, IPV4_noptions 3, UDP],
     [ETHERNET, ISID, IPV4_noptions 4, UDP],
     [ETHERNET, ISID, IPV4_noptions 5, UDP],
     [ETHERNET, ISID, IPV4_noptions 6, UDP],
     [ETHERNET, ISID, IPV4_noptions 7, UDP],
     [ETHERNET, ISID, IPV4_noptions 8, UDP],
     [ETHERNET, ISID, IPV4_noptions 9, UDP],
     [ETHERNET, ISID, IPV4_noptions 10, UDP],
     [ETHERNET, ISID, IPV4_noptions 11, UDP],
     [ETHERNET, ISID, IPV4_noptions 12, UDP],
     [ETHERNET, ISID, IPV4_noptions 13, UDP],
     [ETHERNET, ISID, IPV4_noptions 14, UDP],
     [ETHERNET, ISID, IPV4_noptions 15, UDP],
     [ETHERNET, VLAN, ISID, IPV4_noptions 0, UDP],
     [ETHERNET, VLAN, ISID, IPV4_noptions 1, UDP],
     [ETHERNET, VLAN, ISID, IPV4_noptions 2, UDP],
     [ETHERNET, VLAN, ISID, IPV4_noptions 3, UDP],
     [ETHERNET, VLAN, ISID, IPV4_noptions 4, UDP],
     [ETHERNET, VLAN, ISID, IPV4_noptions 5, UDP],
     [ETHERNET, VLAN, ISID, IPV4_noptions 6, UDP],
     [ETHERNET, VLAN, ISID, IPV4_noptions 7, UDP],
     [ETHERNET, VLAN, ISID, IPV4_noptions 8, UDP],
     [ETHERNET, VLAN, ISID, IPV4_noptions 9, UDP],
     [ETHERNET, VLAN, ISID, IPV4_noptions 10, UDP],
     [ETHERNET, VLAN, ISID, IPV4_noptions 11, UDP],
     [ETHERNET, VLAN, ISID, IPV4_noptions 12, UDP],
     [ETHERNET, VLAN, ISID, IPV4_noptions 13, UDP],
     [ETHERNET, VLAN, ISID, IPV4_noptions 14, UDP],
     [ETHERNET, VLAN, ISID, IPV4_noptions 15, UDP],
     [IEEE8023, IPV4_noptions 0, UDP],
     [IEEE8023, IPV4_noptions 1, UDP],
     [IEEE8023, IPV4_noptions 2, UDP],
     [IEEE8023, IPV4_noptions 3, UDP],
     [IEEE8023, IPV4_noptions 4, UDP],
     [IEEE8023, IPV4_noptions 5, UDP],
     [IEEE8023, IPV4_noptions 6, UDP],
     [IEEE8023, IPV4_noptions 7, UDP],
     [IEEE8023, IPV4_noptions 8, UDP],
     [IEEE8023, IPV4_noptions 9, UDP],
     [IEEE8023, IPV4_noptions 10, UDP],
     [IEEE8023, IPV4_noptions 11, UDP],
     [IEEE8023, IPV4_noptions 12, UDP],
     [IEEE8023, IPV4_noptions 13, UDP],
     [IEEE8023, IPV4_noptions 14, UDP],
     [IEEE8023, IPV4_noptions 15, UDP],
     [ETHERNET, VLAN, IPV4_noptions 0, UDP],
     [ETHERNET, VLAN, IPV4_noptions 1, UDP],
     [ETHERNET, VLAN, IPV4_noptions 2, UDP],
     [ETHERNET, VLAN, IPV4_noptions 3, UDP],
     [ETHERNET, VLAN, IPV4_noptions 4, UDP],
     [ETHERNET, VLAN, IPV4_noptions 5, UDP],
     [ETHERNET, VLAN, IPV4_noptions 6, UDP],
     [ETHERNET, VLAN, IPV4_noptions 7, UDP],
     [ETHERNET, VLAN, IPV4_noptions 8, UDP],
     [ETHERNET, VLAN, IPV4_noptions 9, UDP],
     [ETHERNET, VLAN, IPV4_noptions 10, UDP],
     [ETHERNET, VLAN, IPV4_noptions 11, UDP],
     [ETHERNET, VLAN, IPV4_noptions 12, UDP],
     [ETHERNET, VLAN, IPV4_noptions 13, UDP]]"

definition pt_enum_6 :: "pkt_type list" where
  "pt_enum_6 =
    [[ETHERNET, VLAN, IPV4_noptions 14, UDP],
     [ETHERNET, VLAN, IPV4_noptions 15, UDP],
     [IEEE8023, VLAN, IPV4_noptions 0, UDP],
     [IEEE8023, VLAN, IPV4_noptions 1, UDP],
     [IEEE8023, VLAN, IPV4_noptions 2, UDP],
     [IEEE8023, VLAN, IPV4_noptions 3, UDP],
     [IEEE8023, VLAN, IPV4_noptions 4, UDP],
     [IEEE8023, VLAN, IPV4_noptions 5, UDP],
     [IEEE8023, VLAN, IPV4_noptions 6, UDP],
     [IEEE8023, VLAN, IPV4_noptions 7, UDP],
     [IEEE8023, VLAN, IPV4_noptions 8, UDP],
     [IEEE8023, VLAN, IPV4_noptions 9, UDP],
     [IEEE8023, VLAN, IPV4_noptions 10, UDP],
     [IEEE8023, VLAN, IPV4_noptions 11, UDP],
     [IEEE8023, VLAN, IPV4_noptions 12, UDP],
     [IEEE8023, VLAN, IPV4_noptions 13, UDP],
     [IEEE8023, VLAN, IPV4_noptions 14, UDP],
     [IEEE8023, VLAN, IPV4_noptions 15, UDP],
     [ETHERNET, VLAN, VLAN, IPV4_noptions 0, UDP],
     [ETHERNET, VLAN, VLAN, IPV4_noptions 1, UDP],
     [ETHERNET, VLAN, VLAN, IPV4_noptions 2, UDP],
     [ETHERNET, VLAN, VLAN, IPV4_noptions 3, UDP],
     [ETHERNET, VLAN, VLAN, IPV4_noptions 4, UDP],
     [ETHERNET, VLAN, VLAN, IPV4_noptions 5, UDP],
     [ETHERNET, VLAN, VLAN, IPV4_noptions 6, UDP],
     [ETHERNET, VLAN, VLAN, IPV4_noptions 7, UDP],
     [ETHERNET, VLAN, VLAN, IPV4_noptions 8, UDP],
     [ETHERNET, VLAN, VLAN, IPV4_noptions 9, UDP],
     [ETHERNET, VLAN, VLAN, IPV4_noptions 10, UDP],
     [ETHERNET, VLAN, VLAN, IPV4_noptions 11, UDP],
     [ETHERNET, VLAN, VLAN, IPV4_noptions 12, UDP],
     [ETHERNET, VLAN, VLAN, IPV4_noptions 13, UDP],
     [ETHERNET, VLAN, VLAN, IPV4_noptions 14, UDP],
     [ETHERNET, VLAN, VLAN, IPV4_noptions 15, UDP],
     [IEEE8023, VLAN, VLAN, IPV4_noptions 0, UDP],
     [IEEE8023, VLAN, VLAN, IPV4_noptions 1, UDP],
     [IEEE8023, VLAN, VLAN, IPV4_noptions 2, UDP],
     [IEEE8023, VLAN, VLAN, IPV4_noptions 3, UDP],
     [IEEE8023, VLAN, VLAN, IPV4_noptions 4, UDP],
     [IEEE8023, VLAN, VLAN, IPV4_noptions 5, UDP],
     [IEEE8023, VLAN, VLAN, IPV4_noptions 6, UDP],
     [IEEE8023, VLAN, VLAN, IPV4_noptions 7, UDP],
     [IEEE8023, VLAN, VLAN, IPV4_noptions 8, UDP],
     [IEEE8023, VLAN, VLAN, IPV4_noptions 9, UDP],
     [IEEE8023, VLAN, VLAN, IPV4_noptions 10, UDP],
     [IEEE8023, VLAN, VLAN, IPV4_noptions 11, UDP],
     [IEEE8023, VLAN, VLAN, IPV4_noptions 12, UDP],
     [IEEE8023, VLAN, VLAN, IPV4_noptions 13, UDP],
     [IEEE8023, VLAN, VLAN, IPV4_noptions 14, UDP],
     [IEEE8023, VLAN, VLAN, IPV4_noptions 15, UDP],
     [ETHERNET, IPV4_noptions 0, UDP, GTPU4],
     [ETHERNET, IPV4_noptions 1, UDP, GTPU4],
     [ETHERNET, IPV4_noptions 2, UDP, GTPU4],
     [ETHERNET, IPV4_noptions 3, UDP, GTPU4],
     [ETHERNET, IPV4_noptions 4, UDP, GTPU4],
     [ETHERNET, IPV4_noptions 5, UDP, GTPU4],
     [ETHERNET, IPV4_noptions 6, UDP, GTPU4],
     [ETHERNET, IPV4_noptions 7, UDP, GTPU4],
     [ETHERNET, IPV4_noptions 8, UDP, GTPU4],
     [ETHERNET, IPV4_noptions 9, UDP, GTPU4],
     [ETHERNET, IPV4_noptions 10, UDP, GTPU4],
     [ETHERNET, IPV4_noptions 11, UDP, GTPU4],
     [ETHERNET, IPV4_noptions 12, UDP, GTPU4],
     [ETHERNET, IPV4_noptions 13, UDP, GTPU4],
     [ETHERNET, IPV4_noptions 14, UDP, GTPU4],
     [ETHERNET, IPV4_noptions 15, UDP, GTPU4],
     [ETHERNET, ISID, IPV4_noptions 0, UDP, GTPU4],
     [ETHERNET, ISID, IPV4_noptions 1, UDP, GTPU4],
     [ETHERNET, ISID, IPV4_noptions 2, UDP, GTPU4],
     [ETHERNET, ISID, IPV4_noptions 3, UDP, GTPU4],
     [ETHERNET, ISID, IPV4_noptions 4, UDP, GTPU4],
     [ETHERNET, ISID, IPV4_noptions 5, UDP, GTPU4],
     [ETHERNET, ISID, IPV4_noptions 6, UDP, GTPU4],
     [ETHERNET, ISID, IPV4_noptions 7, UDP, GTPU4],
     [ETHERNET, ISID, IPV4_noptions 8, UDP, GTPU4],
     [ETHERNET, ISID, IPV4_noptions 9, UDP, GTPU4],
     [ETHERNET, ISID, IPV4_noptions 10, UDP, GTPU4],
     [ETHERNET, ISID, IPV4_noptions 11, UDP, GTPU4],
     [ETHERNET, ISID, IPV4_noptions 12, UDP, GTPU4],
     [ETHERNET, ISID, IPV4_noptions 13, UDP, GTPU4],
     [ETHERNET, ISID, IPV4_noptions 14, UDP, GTPU4],
     [ETHERNET, ISID, IPV4_noptions 15, UDP, GTPU4],
     [ETHERNET, VLAN, ISID, IPV4_noptions 0, UDP, GTPU4],
     [ETHERNET, VLAN, ISID, IPV4_noptions 1, UDP, GTPU4],
     [ETHERNET, VLAN, ISID, IPV4_noptions 2, UDP, GTPU4],
     [ETHERNET, VLAN, ISID, IPV4_noptions 3, UDP, GTPU4],
     [ETHERNET, VLAN, ISID, IPV4_noptions 4, UDP, GTPU4],
     [ETHERNET, VLAN, ISID, IPV4_noptions 5, UDP, GTPU4],
     [ETHERNET, VLAN, ISID, IPV4_noptions 6, UDP, GTPU4],
     [ETHERNET, VLAN, ISID, IPV4_noptions 7, UDP, GTPU4],
     [ETHERNET, VLAN, ISID, IPV4_noptions 8, UDP, GTPU4],
     [ETHERNET, VLAN, ISID, IPV4_noptions 9, UDP, GTPU4],
     [ETHERNET, VLAN, ISID, IPV4_noptions 10, UDP, GTPU4],
     [ETHERNET, VLAN, ISID, IPV4_noptions 11, UDP, GTPU4],
     [ETHERNET, VLAN, ISID, IPV4_noptions 12, UDP, GTPU4],
     [ETHERNET, VLAN, ISID, IPV4_noptions 13, UDP, GTPU4],
     [ETHERNET, VLAN, ISID, IPV4_noptions 14, UDP, GTPU4],
     [ETHERNET, VLAN, ISID, IPV4_noptions 15, UDP, GTPU4],
     [IEEE8023, IPV4_noptions 0, UDP, GTPU4],
     [IEEE8023, IPV4_noptions 1, UDP, GTPU4],
     [IEEE8023, IPV4_noptions 2, UDP, GTPU4],
     [IEEE8023, IPV4_noptions 3, UDP, GTPU4],
     [IEEE8023, IPV4_noptions 4, UDP, GTPU4],
     [IEEE8023, IPV4_noptions 5, UDP, GTPU4],
     [IEEE8023, IPV4_noptions 6, UDP, GTPU4],
     [IEEE8023, IPV4_noptions 7, UDP, GTPU4],
     [IEEE8023, IPV4_noptions 8, UDP, GTPU4],
     [IEEE8023, IPV4_noptions 9, UDP, GTPU4],
     [IEEE8023, IPV4_noptions 10, UDP, GTPU4],
     [IEEE8023, IPV4_noptions 11, UDP, GTPU4],
     [IEEE8023, IPV4_noptions 12, UDP, GTPU4],
     [IEEE8023, IPV4_noptions 13, UDP, GTPU4],
     [IEEE8023, IPV4_noptions 14, UDP, GTPU4],
     [IEEE8023, IPV4_noptions 15, UDP, GTPU4],
     [ETHERNET, VLAN, IPV4_noptions 0, UDP, GTPU4],
     [ETHERNET, VLAN, IPV4_noptions 1, UDP, GTPU4],
     [ETHERNET, VLAN, IPV4_noptions 2, UDP, GTPU4],
     [ETHERNET, VLAN, IPV4_noptions 3, UDP, GTPU4],
     [ETHERNET, VLAN, IPV4_noptions 4, UDP, GTPU4],
     [ETHERNET, VLAN, IPV4_noptions 5, UDP, GTPU4],
     [ETHERNET, VLAN, IPV4_noptions 6, UDP, GTPU4],
     [ETHERNET, VLAN, IPV4_noptions 7, UDP, GTPU4],
     [ETHERNET, VLAN, IPV4_noptions 8, UDP, GTPU4],
     [ETHERNET, VLAN, IPV4_noptions 9, UDP, GTPU4],
     [ETHERNET, VLAN, IPV4_noptions 10, UDP, GTPU4],
     [ETHERNET, VLAN, IPV4_noptions 11, UDP, GTPU4],
     [ETHERNET, VLAN, IPV4_noptions 12, UDP, GTPU4],
     [ETHERNET, VLAN, IPV4_noptions 13, UDP, GTPU4],
     [ETHERNET, VLAN, IPV4_noptions 14, UDP, GTPU4],
     [ETHERNET, VLAN, IPV4_noptions 15, UDP, GTPU4],
     [IEEE8023, VLAN, IPV4_noptions 0, UDP, GTPU4],
     [IEEE8023, VLAN, IPV4_noptions 1, UDP, GTPU4],
     [IEEE8023, VLAN, IPV4_noptions 2, UDP, GTPU4],
     [IEEE8023, VLAN, IPV4_noptions 3, UDP, GTPU4],
     [IEEE8023, VLAN, IPV4_noptions 4, UDP, GTPU4],
     [IEEE8023, VLAN, IPV4_noptions 5, UDP, GTPU4],
     [IEEE8023, VLAN, IPV4_noptions 6, UDP, GTPU4],
     [IEEE8023, VLAN, IPV4_noptions 7, UDP, GTPU4],
     [IEEE8023, VLAN, IPV4_noptions 8, UDP, GTPU4],
     [IEEE8023, VLAN, IPV4_noptions 9, UDP, GTPU4],
     [IEEE8023, VLAN, IPV4_noptions 10, UDP, GTPU4],
     [IEEE8023, VLAN, IPV4_noptions 11, UDP, GTPU4],
     [IEEE8023, VLAN, IPV4_noptions 12, UDP, GTPU4],
     [IEEE8023, VLAN, IPV4_noptions 13, UDP, GTPU4],
     [IEEE8023, VLAN, IPV4_noptions 14, UDP, GTPU4],
     [IEEE8023, VLAN, IPV4_noptions 15, UDP, GTPU4],
     [ETHERNET, VLAN, VLAN, IPV4_noptions 0, UDP, GTPU4],
     [ETHERNET, VLAN, VLAN, IPV4_noptions 1, UDP, GTPU4],
     [ETHERNET, VLAN, VLAN, IPV4_noptions 2, UDP, GTPU4],
     [ETHERNET, VLAN, VLAN, IPV4_noptions 3, UDP, GTPU4]]"

definition pt_enum_7 :: "pkt_type list" where
  "pt_enum_7 =
    [[ETHERNET, VLAN, VLAN, IPV4_noptions 4, UDP, GTPU4],
     [ETHERNET, VLAN, VLAN, IPV4_noptions 5, UDP, GTPU4],
     [ETHERNET, VLAN, VLAN, IPV4_noptions 6, UDP, GTPU4],
     [ETHERNET, VLAN, VLAN, IPV4_noptions 7, UDP, GTPU4],
     [ETHERNET, VLAN, VLAN, IPV4_noptions 8, UDP, GTPU4],
     [ETHERNET, VLAN, VLAN, IPV4_noptions 9, UDP, GTPU4],
     [ETHERNET, VLAN, VLAN, IPV4_noptions 10, UDP, GTPU4],
     [ETHERNET, VLAN, VLAN, IPV4_noptions 11, UDP, GTPU4],
     [ETHERNET, VLAN, VLAN, IPV4_noptions 12, UDP, GTPU4],
     [ETHERNET, VLAN, VLAN, IPV4_noptions 13, UDP, GTPU4],
     [ETHERNET, VLAN, VLAN, IPV4_noptions 14, UDP, GTPU4],
     [ETHERNET, VLAN, VLAN, IPV4_noptions 15, UDP, GTPU4],
     [IEEE8023, VLAN, VLAN, IPV4_noptions 0, UDP, GTPU4],
     [IEEE8023, VLAN, VLAN, IPV4_noptions 1, UDP, GTPU4],
     [IEEE8023, VLAN, VLAN, IPV4_noptions 2, UDP, GTPU4],
     [IEEE8023, VLAN, VLAN, IPV4_noptions 3, UDP, GTPU4],
     [IEEE8023, VLAN, VLAN, IPV4_noptions 4, UDP, GTPU4],
     [IEEE8023, VLAN, VLAN, IPV4_noptions 5, UDP, GTPU4],
     [IEEE8023, VLAN, VLAN, IPV4_noptions 6, UDP, GTPU4],
     [IEEE8023, VLAN, VLAN, IPV4_noptions 7, UDP, GTPU4],
     [IEEE8023, VLAN, VLAN, IPV4_noptions 8, UDP, GTPU4],
     [IEEE8023, VLAN, VLAN, IPV4_noptions 9, UDP, GTPU4],
     [IEEE8023, VLAN, VLAN, IPV4_noptions 10, UDP, GTPU4],
     [IEEE8023, VLAN, VLAN, IPV4_noptions 11, UDP, GTPU4],
     [IEEE8023, VLAN, VLAN, IPV4_noptions 12, UDP, GTPU4],
     [IEEE8023, VLAN, VLAN, IPV4_noptions 13, UDP, GTPU4],
     [IEEE8023, VLAN, VLAN, IPV4_noptions 14, UDP, GTPU4],
     [IEEE8023, VLAN, VLAN, IPV4_noptions 15, UDP, GTPU4],
     [ETHERNET, IPV4_noptions 0, SCTP],
     [ETHERNET, IPV4_noptions 1, SCTP],
     [ETHERNET, IPV4_noptions 2, SCTP],
     [ETHERNET, IPV4_noptions 3, SCTP],
     [ETHERNET, IPV4_noptions 4, SCTP],
     [ETHERNET, IPV4_noptions 5, SCTP],
     [ETHERNET, IPV4_noptions 6, SCTP],
     [ETHERNET, IPV4_noptions 7, SCTP],
     [ETHERNET, IPV4_noptions 8, SCTP],
     [ETHERNET, IPV4_noptions 9, SCTP],
     [ETHERNET, IPV4_noptions 10, SCTP],
     [ETHERNET, IPV4_noptions 11, SCTP],
     [ETHERNET, IPV4_noptions 12, SCTP],
     [ETHERNET, IPV4_noptions 13, SCTP],
     [ETHERNET, IPV4_noptions 14, SCTP],
     [ETHERNET, IPV4_noptions 15, SCTP],
     [ETHERNET, ISID, IPV4_noptions 0, SCTP],
     [ETHERNET, ISID, IPV4_noptions 1, SCTP],
     [ETHERNET, ISID, IPV4_noptions 2, SCTP],
     [ETHERNET, ISID, IPV4_noptions 3, SCTP],
     [ETHERNET, ISID, IPV4_noptions 4, SCTP],
     [ETHERNET, ISID, IPV4_noptions 5, SCTP],
     [ETHERNET, ISID, IPV4_noptions 6, SCTP],
     [ETHERNET, ISID, IPV4_noptions 7, SCTP],
     [ETHERNET, ISID, IPV4_noptions 8, SCTP],
     [ETHERNET, ISID, IPV4_noptions 9, SCTP],
     [ETHERNET, ISID, IPV4_noptions 10, SCTP],
     [ETHERNET, ISID, IPV4_noptions 11, SCTP],
     [ETHERNET, ISID, IPV4_noptions 12, SCTP],
     [ETHERNET, ISID, IPV4_noptions 13, SCTP],
     [ETHERNET, ISID, IPV4_noptions 14, SCTP],
     [ETHERNET, ISID, IPV4_noptions 15, SCTP],
     [ETHERNET, VLAN, ISID, IPV4_noptions 0, SCTP],
     [ETHERNET, VLAN, ISID, IPV4_noptions 1, SCTP],
     [ETHERNET, VLAN, ISID, IPV4_noptions 2, SCTP],
     [ETHERNET, VLAN, ISID, IPV4_noptions 3, SCTP],
     [ETHERNET, VLAN, ISID, IPV4_noptions 4, SCTP],
     [ETHERNET, VLAN, ISID, IPV4_noptions 5, SCTP],
     [ETHERNET, VLAN, ISID, IPV4_noptions 6, SCTP],
     [ETHERNET, VLAN, ISID, IPV4_noptions 7, SCTP],
     [ETHERNET, VLAN, ISID, IPV4_noptions 8, SCTP],
     [ETHERNET, VLAN, ISID, IPV4_noptions 9, SCTP],
     [ETHERNET, VLAN, ISID, IPV4_noptions 10, SCTP],
     [ETHERNET, VLAN, ISID, IPV4_noptions 11, SCTP],
     [ETHERNET, VLAN, ISID, IPV4_noptions 12, SCTP],
     [ETHERNET, VLAN, ISID, IPV4_noptions 13, SCTP],
     [ETHERNET, VLAN, ISID, IPV4_noptions 14, SCTP],
     [ETHERNET, VLAN, ISID, IPV4_noptions 15, SCTP],
     [IEEE8023, IPV4_noptions 0, SCTP],
     [IEEE8023, IPV4_noptions 1, SCTP],
     [IEEE8023, IPV4_noptions 2, SCTP],
     [IEEE8023, IPV4_noptions 3, SCTP],
     [IEEE8023, IPV4_noptions 4, SCTP],
     [IEEE8023, IPV4_noptions 5, SCTP],
     [IEEE8023, IPV4_noptions 6, SCTP],
     [IEEE8023, IPV4_noptions 7, SCTP],
     [IEEE8023, IPV4_noptions 8, SCTP],
     [IEEE8023, IPV4_noptions 9, SCTP],
     [IEEE8023, IPV4_noptions 10, SCTP],
     [IEEE8023, IPV4_noptions 11, SCTP],
     [IEEE8023, IPV4_noptions 12, SCTP],
     [IEEE8023, IPV4_noptions 13, SCTP],
     [IEEE8023, IPV4_noptions 14, SCTP],
     [IEEE8023, IPV4_noptions 15, SCTP],
     [ETHERNET, VLAN, IPV4_noptions 0, SCTP],
     [ETHERNET, VLAN, IPV4_noptions 1, SCTP],
     [ETHERNET, VLAN, IPV4_noptions 2, SCTP],
     [ETHERNET, VLAN, IPV4_noptions 3, SCTP],
     [ETHERNET, VLAN, IPV4_noptions 4, SCTP],
     [ETHERNET, VLAN, IPV4_noptions 5, SCTP],
     [ETHERNET, VLAN, IPV4_noptions 6, SCTP],
     [ETHERNET, VLAN, IPV4_noptions 7, SCTP],
     [ETHERNET, VLAN, IPV4_noptions 8, SCTP],
     [ETHERNET, VLAN, IPV4_noptions 9, SCTP],
     [ETHERNET, VLAN, IPV4_noptions 10, SCTP],
     [ETHERNET, VLAN, IPV4_noptions 11, SCTP],
     [ETHERNET, VLAN, IPV4_noptions 12, SCTP],
     [ETHERNET, VLAN, IPV4_noptions 13, SCTP],
     [ETHERNET, VLAN, IPV4_noptions 14, SCTP],
     [ETHERNET, VLAN, IPV4_noptions 15, SCTP],
     [IEEE8023, VLAN, IPV4_noptions 0, SCTP],
     [IEEE8023, VLAN, IPV4_noptions 1, SCTP],
     [IEEE8023, VLAN, IPV4_noptions 2, SCTP],
     [IEEE8023, VLAN, IPV4_noptions 3, SCTP],
     [IEEE8023, VLAN, IPV4_noptions 4, SCTP],
     [IEEE8023, VLAN, IPV4_noptions 5, SCTP],
     [IEEE8023, VLAN, IPV4_noptions 6, SCTP],
     [IEEE8023, VLAN, IPV4_noptions 7, SCTP],
     [IEEE8023, VLAN, IPV4_noptions 8, SCTP],
     [IEEE8023, VLAN, IPV4_noptions 9, SCTP],
     [IEEE8023, VLAN, IPV4_noptions 10, SCTP],
     [IEEE8023, VLAN, IPV4_noptions 11, SCTP],
     [IEEE8023, VLAN, IPV4_noptions 12, SCTP],
     [IEEE8023, VLAN, IPV4_noptions 13, SCTP],
     [IEEE8023, VLAN, IPV4_noptions 14, SCTP],
     [IEEE8023, VLAN, IPV4_noptions 15, SCTP],
     [ETHERNET, VLAN, VLAN, IPV4_noptions 0, SCTP],
     [ETHERNET, VLAN, VLAN, IPV4_noptions 1, SCTP],
     [ETHERNET, VLAN, VLAN, IPV4_noptions 2, SCTP],
     [ETHERNET, VLAN, VLAN, IPV4_noptions 3, SCTP],
     [ETHERNET, VLAN, VLAN, IPV4_noptions 4, SCTP],
     [ETHERNET, VLAN, VLAN, IPV4_noptions 5, SCTP],
     [ETHERNET, VLAN, VLAN, IPV4_noptions 6, SCTP],
     [ETHERNET, VLAN, VLAN, IPV4_noptions 7, SCTP],
     [ETHERNET, VLAN, VLAN, IPV4_noptions 8, SCTP],
     [ETHERNET, VLAN, VLAN, IPV4_noptions 9, SCTP],
     [ETHERNET, VLAN, VLAN, IPV4_noptions 10, SCTP],
     [ETHERNET, VLAN, VLAN, IPV4_noptions 11, SCTP],
     [ETHERNET, VLAN, VLAN, IPV4_noptions 12, SCTP],
     [ETHERNET, VLAN, VLAN, IPV4_noptions 13, SCTP],
     [ETHERNET, VLAN, VLAN, IPV4_noptions 14, SCTP],
     [ETHERNET, VLAN, VLAN, IPV4_noptions 15, SCTP],
     [IEEE8023, VLAN, VLAN, IPV4_noptions 0, SCTP],
     [IEEE8023, VLAN, VLAN, IPV4_noptions 1, SCTP],
     [IEEE8023, VLAN, VLAN, IPV4_noptions 2, SCTP],
     [IEEE8023, VLAN, VLAN, IPV4_noptions 3, SCTP],
     [IEEE8023, VLAN, VLAN, IPV4_noptions 4, SCTP],
     [IEEE8023, VLAN, VLAN, IPV4_noptions 5, SCTP],
     [IEEE8023, VLAN, VLAN, IPV4_noptions 6, SCTP],
     [IEEE8023, VLAN, VLAN, IPV4_noptions 7, SCTP],
     [IEEE8023, VLAN, VLAN, IPV4_noptions 8, SCTP],
     [IEEE8023, VLAN, VLAN, IPV4_noptions 9, SCTP]]"

definition pt_enum_8 :: "pkt_type list" where
  "pt_enum_8 =
    [[IEEE8023, VLAN, VLAN, IPV4_noptions 10, SCTP],
     [IEEE8023, VLAN, VLAN, IPV4_noptions 11, SCTP],
     [IEEE8023, VLAN, VLAN, IPV4_noptions 12, SCTP],
     [IEEE8023, VLAN, VLAN, IPV4_noptions 13, SCTP],
     [IEEE8023, VLAN, VLAN, IPV4_noptions 14, SCTP],
     [IEEE8023, VLAN, VLAN, IPV4_noptions 15, SCTP],
     [ETHERNET, IPV4_noptions 0, GRE4],
     [ETHERNET, IPV4_noptions 1, GRE4],
     [ETHERNET, IPV4_noptions 2, GRE4],
     [ETHERNET, IPV4_noptions 3, GRE4],
     [ETHERNET, IPV4_noptions 4, GRE4],
     [ETHERNET, IPV4_noptions 5, GRE4],
     [ETHERNET, IPV4_noptions 6, GRE4],
     [ETHERNET, IPV4_noptions 7, GRE4],
     [ETHERNET, IPV4_noptions 8, GRE4],
     [ETHERNET, IPV4_noptions 9, GRE4],
     [ETHERNET, IPV4_noptions 10, GRE4],
     [ETHERNET, IPV4_noptions 11, GRE4],
     [ETHERNET, IPV4_noptions 12, GRE4],
     [ETHERNET, IPV4_noptions 13, GRE4],
     [ETHERNET, IPV4_noptions 14, GRE4],
     [ETHERNET, IPV4_noptions 15, GRE4],
     [ETHERNET, ISID, IPV4_noptions 0, GRE4],
     [ETHERNET, ISID, IPV4_noptions 1, GRE4],
     [ETHERNET, ISID, IPV4_noptions 2, GRE4],
     [ETHERNET, ISID, IPV4_noptions 3, GRE4],
     [ETHERNET, ISID, IPV4_noptions 4, GRE4],
     [ETHERNET, ISID, IPV4_noptions 5, GRE4],
     [ETHERNET, ISID, IPV4_noptions 6, GRE4],
     [ETHERNET, ISID, IPV4_noptions 7, GRE4],
     [ETHERNET, ISID, IPV4_noptions 8, GRE4],
     [ETHERNET, ISID, IPV4_noptions 9, GRE4],
     [ETHERNET, ISID, IPV4_noptions 10, GRE4],
     [ETHERNET, ISID, IPV4_noptions 11, GRE4],
     [ETHERNET, ISID, IPV4_noptions 12, GRE4],
     [ETHERNET, ISID, IPV4_noptions 13, GRE4],
     [ETHERNET, ISID, IPV4_noptions 14, GRE4],
     [ETHERNET, ISID, IPV4_noptions 15, GRE4],
     [ETHERNET, VLAN, ISID, IPV4_noptions 0, GRE4],
     [ETHERNET, VLAN, ISID, IPV4_noptions 1, GRE4],
     [ETHERNET, VLAN, ISID, IPV4_noptions 2, GRE4],
     [ETHERNET, VLAN, ISID, IPV4_noptions 3, GRE4],
     [ETHERNET, VLAN, ISID, IPV4_noptions 4, GRE4],
     [ETHERNET, VLAN, ISID, IPV4_noptions 5, GRE4],
     [ETHERNET, VLAN, ISID, IPV4_noptions 6, GRE4],
     [ETHERNET, VLAN, ISID, IPV4_noptions 7, GRE4],
     [ETHERNET, VLAN, ISID, IPV4_noptions 8, GRE4],
     [ETHERNET, VLAN, ISID, IPV4_noptions 9, GRE4],
     [ETHERNET, VLAN, ISID, IPV4_noptions 10, GRE4],
     [ETHERNET, VLAN, ISID, IPV4_noptions 11, GRE4],
     [ETHERNET, VLAN, ISID, IPV4_noptions 12, GRE4],
     [ETHERNET, VLAN, ISID, IPV4_noptions 13, GRE4],
     [ETHERNET, VLAN, ISID, IPV4_noptions 14, GRE4],
     [ETHERNET, VLAN, ISID, IPV4_noptions 15, GRE4],
     [IEEE8023, IPV4_noptions 0, GRE4],
     [IEEE8023, IPV4_noptions 1, GRE4],
     [IEEE8023, IPV4_noptions 2, GRE4],
     [IEEE8023, IPV4_noptions 3, GRE4],
     [IEEE8023, IPV4_noptions 4, GRE4],
     [IEEE8023, IPV4_noptions 5, GRE4],
     [IEEE8023, IPV4_noptions 6, GRE4],
     [IEEE8023, IPV4_noptions 7, GRE4],
     [IEEE8023, IPV4_noptions 8, GRE4],
     [IEEE8023, IPV4_noptions 9, GRE4],
     [IEEE8023, IPV4_noptions 10, GRE4],
     [IEEE8023, IPV4_noptions 11, GRE4],
     [IEEE8023, IPV4_noptions 12, GRE4],
     [IEEE8023, IPV4_noptions 13, GRE4],
     [IEEE8023, IPV4_noptions 14, GRE4],
     [IEEE8023, IPV4_noptions 15, GRE4],
     [ETHERNET, VLAN, IPV4_noptions 0, GRE4],
     [ETHERNET, VLAN, IPV4_noptions 1, GRE4],
     [ETHERNET, VLAN, IPV4_noptions 2, GRE4],
     [ETHERNET, VLAN, IPV4_noptions 3, GRE4],
     [ETHERNET, VLAN, IPV4_noptions 4, GRE4],
     [ETHERNET, VLAN, IPV4_noptions 5, GRE4],
     [ETHERNET, VLAN, IPV4_noptions 6, GRE4],
     [ETHERNET, VLAN, IPV4_noptions 7, GRE4],
     [ETHERNET, VLAN, IPV4_noptions 8, GRE4],
     [ETHERNET, VLAN, IPV4_noptions 9, GRE4],
     [ETHERNET, VLAN, IPV4_noptions 10, GRE4],
     [ETHERNET, VLAN, IPV4_noptions 11, GRE4],
     [ETHERNET, VLAN, IPV4_noptions 12, GRE4],
     [ETHERNET, VLAN, IPV4_noptions 13, GRE4],
     [ETHERNET, VLAN, IPV4_noptions 14, GRE4],
     [ETHERNET, VLAN, IPV4_noptions 15, GRE4],
     [IEEE8023, VLAN, IPV4_noptions 0, GRE4],
     [IEEE8023, VLAN, IPV4_noptions 1, GRE4],
     [IEEE8023, VLAN, IPV4_noptions 2, GRE4],
     [IEEE8023, VLAN, IPV4_noptions 3, GRE4],
     [IEEE8023, VLAN, IPV4_noptions 4, GRE4],
     [IEEE8023, VLAN, IPV4_noptions 5, GRE4],
     [IEEE8023, VLAN, IPV4_noptions 6, GRE4],
     [IEEE8023, VLAN, IPV4_noptions 7, GRE4],
     [IEEE8023, VLAN, IPV4_noptions 8, GRE4],
     [IEEE8023, VLAN, IPV4_noptions 9, GRE4],
     [IEEE8023, VLAN, IPV4_noptions 10, GRE4],
     [IEEE8023, VLAN, IPV4_noptions 11, GRE4],
     [IEEE8023, VLAN, IPV4_noptions 12, GRE4],
     [IEEE8023, VLAN, IPV4_noptions 13, GRE4],
     [IEEE8023, VLAN, IPV4_noptions 14, GRE4],
     [IEEE8023, VLAN, IPV4_noptions 15, GRE4],
     [ETHERNET, VLAN, VLAN, IPV4_noptions 0, GRE4],
     [ETHERNET, VLAN, VLAN, IPV4_noptions 1, GRE4],
     [ETHERNET, VLAN, VLAN, IPV4_noptions 2, GRE4],
     [ETHERNET, VLAN, VLAN, IPV4_noptions 3, GRE4],
     [ETHERNET, VLAN, VLAN, IPV4_noptions 4, GRE4],
     [ETHERNET, VLAN, VLAN, IPV4_noptions 5, GRE4],
     [ETHERNET, VLAN, VLAN, IPV4_noptions 6, GRE4],
     [ETHERNET, VLAN, VLAN, IPV4_noptions 7, GRE4],
     [ETHERNET, VLAN, VLAN, IPV4_noptions 8, GRE4],
     [ETHERNET, VLAN, VLAN, IPV4_noptions 9, GRE4],
     [ETHERNET, VLAN, VLAN, IPV4_noptions 10, GRE4],
     [ETHERNET, VLAN, VLAN, IPV4_noptions 11, GRE4],
     [ETHERNET, VLAN, VLAN, IPV4_noptions 12, GRE4],
     [ETHERNET, VLAN, VLAN, IPV4_noptions 13, GRE4],
     [ETHERNET, VLAN, VLAN, IPV4_noptions 14, GRE4],
     [ETHERNET, VLAN, VLAN, IPV4_noptions 15, GRE4],
     [IEEE8023, VLAN, VLAN, IPV4_noptions 0, GRE4],
     [IEEE8023, VLAN, VLAN, IPV4_noptions 1, GRE4],
     [IEEE8023, VLAN, VLAN, IPV4_noptions 2, GRE4],
     [IEEE8023, VLAN, VLAN, IPV4_noptions 3, GRE4],
     [IEEE8023, VLAN, VLAN, IPV4_noptions 4, GRE4],
     [IEEE8023, VLAN, VLAN, IPV4_noptions 5, GRE4],
     [IEEE8023, VLAN, VLAN, IPV4_noptions 6, GRE4],
     [IEEE8023, VLAN, VLAN, IPV4_noptions 7, GRE4],
     [IEEE8023, VLAN, VLAN, IPV4_noptions 8, GRE4],
     [IEEE8023, VLAN, VLAN, IPV4_noptions 9, GRE4],
     [IEEE8023, VLAN, VLAN, IPV4_noptions 10, GRE4],
     [IEEE8023, VLAN, VLAN, IPV4_noptions 11, GRE4],
     [IEEE8023, VLAN, VLAN, IPV4_noptions 12, GRE4],
     [IEEE8023, VLAN, VLAN, IPV4_noptions 13, GRE4],
     [IEEE8023, VLAN, VLAN, IPV4_noptions 14, GRE4],
     [IEEE8023, VLAN, VLAN, IPV4_noptions 15, GRE4],
     [ETHERNET, IPV6],
     [ETHERNET, ISID, IPV6],
     [ETHERNET, VLAN, ISID, IPV6],
     [IEEE8023, IPV6],
     [ETHERNET, VLAN, IPV6],
     [IEEE8023, VLAN, IPV6],
     [ETHERNET, VLAN, VLAN, IPV6],
     [IEEE8023, VLAN, VLAN, IPV6],
     [ETHERNET, IPV6, ICMPV6],
     [ETHERNET, ISID, IPV6, ICMPV6],
     [ETHERNET, VLAN, ISID, IPV6, ICMPV6],
     [IEEE8023, IPV6, ICMPV6],
     [ETHERNET, VLAN, IPV6, ICMPV6],
     [IEEE8023, VLAN, IPV6, ICMPV6],
     [ETHERNET, VLAN, VLAN, IPV6, ICMPV6],
     [IEEE8023, VLAN, VLAN, IPV6, ICMPV6]]"

definition pt_enum_9 :: "pkt_type list" where
  "pt_enum_9 =
    [[ETHERNET, IPV6, ICMPV6, Hdr PT_PROTO_ICMPV6_OPTS_LLADR_SRC],
     [ETHERNET, ISID, IPV6, ICMPV6, Hdr PT_PROTO_ICMPV6_OPTS_LLADR_SRC],
     [ETHERNET, VLAN, ISID, IPV6, ICMPV6, Hdr PT_PROTO_ICMPV6_OPTS_LLADR_SRC],
     [IEEE8023, IPV6, ICMPV6, Hdr PT_PROTO_ICMPV6_OPTS_LLADR_SRC],
     [ETHERNET, VLAN, IPV6, ICMPV6, Hdr PT_PROTO_ICMPV6_OPTS_LLADR_SRC],
     [IEEE8023, VLAN, IPV6, ICMPV6, Hdr PT_PROTO_ICMPV6_OPTS_LLADR_SRC],
     [ETHERNET, VLAN, VLAN, IPV6, ICMPV6, Hdr PT_PROTO_ICMPV6_OPTS_LLADR_SRC],
     [IEEE8023, VLAN, VLAN, IPV6, ICMPV6, Hdr PT_PROTO_ICMPV6_OPTS_LLADR_SRC],
     [ETHERNET, IPV6, ICMPV6, Hdr PT_PROTO_ICMPV6_OPTS_LLADR_TGT],
     [ETHERNET, ISID, IPV6, ICMPV6, Hdr PT_PROTO_ICMPV6_OPTS_LLADR_TGT],
     [ETHERNET, VLAN, ISID, IPV6, ICMPV6, Hdr PT_PROTO_ICMPV6_OPTS_LLADR_TGT],
     [IEEE8023, IPV6, ICMPV6, Hdr PT_PROTO_ICMPV6_OPTS_LLADR_TGT],
     [ETHERNET, VLAN, IPV6, ICMPV6, Hdr PT_PROTO_ICMPV6_OPTS_LLADR_TGT],
     [IEEE8023, VLAN, IPV6, ICMPV6, Hdr PT_PROTO_ICMPV6_OPTS_LLADR_TGT],
     [ETHERNET, VLAN, VLAN, IPV6, ICMPV6, Hdr PT_PROTO_ICMPV6_OPTS_LLADR_TGT],
     [IEEE8023, VLAN, VLAN, IPV6, ICMPV6, Hdr PT_PROTO_ICMPV6_OPTS_LLADR_TGT],
     [ETHERNET, IPV6, ICMPV6, Hdr PT_PROTO_ICMPV6_OPTS_PREFIX_INFO],
     [ETHERNET, ISID, IPV6, ICMPV6, Hdr PT_PROTO_ICMPV6_OPTS_PREFIX_INFO],
     [ETHERNET, VLAN, ISID, IPV6, ICMPV6, Hdr PT_PROTO_ICMPV6_OPTS_PREFIX_INFO],
     [IEEE8023, IPV6, ICMPV6, Hdr PT_PROTO_ICMPV6_OPTS_PREFIX_INFO],
     [ETHERNET, VLAN, IPV6, ICMPV6, Hdr PT_PROTO_ICMPV6_OPTS_PREFIX_INFO],
     [IEEE8023, VLAN, IPV6, ICMPV6, Hdr PT_PROTO_ICMPV6_OPTS_PREFIX_INFO],
     [ETHERNET, VLAN, VLAN, IPV6, ICMPV6, Hdr PT_PROTO_ICMPV6_OPTS_PREFIX_INFO],
     [IEEE8023, VLAN, VLAN, IPV6, ICMPV6, Hdr PT_PROTO_ICMPV6_OPTS_PREFIX_INFO],
     [ETHERNET, IPV6, ICMPV6, Hdr PT_PROTO_ICMPV6_RTR_SOL],
     [ETHERNET, ISID, IPV6, ICMPV6, Hdr PT_PROTO_ICMPV6_RTR_SOL],
     [ETHERNET, VLAN, ISID, IPV6, ICMPV6, Hdr PT_PROTO_ICMPV6_RTR_SOL],
     [IEEE8023, IPV6, ICMPV6, Hdr PT_PROTO_ICMPV6_RTR_SOL],
     [ETHERNET, VLAN, IPV6, ICMPV6, Hdr PT_PROTO_ICMPV6_RTR_SOL],
     [IEEE8023, VLAN, IPV6, ICMPV6, Hdr PT_PROTO_ICMPV6_RTR_SOL],
     [ETHERNET, VLAN, VLAN, IPV6, ICMPV6, Hdr PT_PROTO_ICMPV6_RTR_SOL],
     [IEEE8023, VLAN, VLAN, IPV6, ICMPV6, Hdr PT_PROTO_ICMPV6_RTR_SOL],
     [ETHERNET, IPV6, ICMPV6, Hdr PT_PROTO_ICMPV6_RTR_ADV],
     [ETHERNET, ISID, IPV6, ICMPV6, Hdr PT_PROTO_ICMPV6_RTR_ADV],
     [ETHERNET, VLAN, ISID, IPV6, ICMPV6, Hdr PT_PROTO_ICMPV6_RTR_ADV],
     [IEEE8023, IPV6, ICMPV6, Hdr PT_PROTO_ICMPV6_RTR_ADV],
     [ETHERNET, VLAN, IPV6, ICMPV6, Hdr PT_PROTO_ICMPV6_RTR_ADV],
     [IEEE8023, VLAN, IPV6, ICMPV6, Hdr PT_PROTO_ICMPV6_RTR_ADV],
     [ETHERNET, VLAN, VLAN, IPV6, ICMPV6, Hdr PT_PROTO_ICMPV6_RTR_ADV],
     [IEEE8023, VLAN, VLAN, IPV6, ICMPV6, Hdr PT_PROTO_ICMPV6_RTR_ADV],
     [ETHERNET, IPV6, ICMPV6, Hdr PT_PROTO_ICMPV6_NEIGH_SOL],
     [ETHERNET, ISID, IPV6, ICMPV6, Hdr PT_PROTO_ICMPV6_NEIGH_SOL],
     [ETHERNET, VLAN, ISID, IPV6, ICMPV6, Hdr PT_PROTO_ICMPV6_NEIGH_SOL],
     [IEEE8023, IPV6, ICMPV6, Hdr PT_PROTO_ICMPV6_NEIGH_SOL],
     [ETHERNET, VLAN, IPV6, ICMPV6, Hdr PT_PROTO_ICMPV6_NEIGH_SOL],
     [IEEE8023, VLAN, IPV6, ICMPV6, Hdr PT_PROTO_ICMPV6_NEIGH_SOL],
     [ETHERNET, VLAN, VLAN, IPV6, ICMPV6, Hdr PT_PROTO_ICMPV6_NEIGH_SOL],
     [IEEE8023, VLAN, VLAN, IPV6, ICMPV6, Hdr PT_PROTO_ICMPV6_NEIGH_SOL],
     [ETHERNET, IPV6, ICMPV6, Hdr PT_PROTO_ICMPV6_NEIGH_ADV],
     [ETHERNET, ISID, IPV6, ICMPV6, Hdr PT_PROTO_ICMPV6_NEIGH_ADV],
     [ETHERNET, VLAN, ISID, IPV6, ICMPV6, Hdr PT_PROTO_ICMPV6_NEIGH_ADV],
     [IEEE8023, IPV6, ICMPV6, Hdr PT_PROTO_ICMPV6_NEIGH_ADV],
     [ETHERNET, VLAN, IPV6, ICMPV6, Hdr PT_PROTO_ICMPV6_NEIGH_ADV],
     [IEEE8023, VLAN, IPV6, ICMPV6, Hdr PT_PROTO_ICMPV6_NEIGH_ADV],
     [ETHERNET, VLAN, VLAN, IPV6, ICMPV6, Hdr PT_PROTO_ICMPV6_NEIGH_ADV],
     [IEEE8023, VLAN, VLAN, IPV6, ICMPV6, Hdr PT_PROTO_ICMPV6_NEIGH_ADV],
     [ETHERNET, IPV6, ICMPV6, Hdr PT_PROTO_ICMPV6_RTR_SOL, Hdr PT_PROTO_ICMPV6_RTR_SOL_OPTS_LLADR_SRC],
     [ETHERNET, ISID, IPV6, ICMPV6, Hdr PT_PROTO_ICMPV6_RTR_SOL, Hdr PT_PROTO_ICMPV6_RTR_SOL_OPTS_LLADR_SRC],
     [ETHERNET, VLAN, ISID, IPV6, ICMPV6, Hdr PT_PROTO_ICMPV6_RTR_SOL, Hdr PT_PROTO_ICMPV6_RTR_SOL_OPTS_LLADR_SRC],
     [IEEE8023, IPV6, ICMPV6, Hdr PT_PROTO_ICMPV6_RTR_SOL, Hdr PT_PROTO_ICMPV6_RTR_SOL_OPTS_LLADR_SRC],
     [ETHERNET, VLAN, IPV6, ICMPV6, Hdr PT_PROTO_ICMPV6_RTR_SOL, Hdr PT_PROTO_ICMPV6_RTR_SOL_OPTS_LLADR_SRC],
     [IEEE8023, VLAN, IPV6, ICMPV6, Hdr PT_PROTO_ICMPV6_RTR_SOL, Hdr PT_PROTO_ICMPV6_RTR_SOL_OPTS_LLADR_SRC],
     [ETHERNET, VLAN, VLAN, IPV6, ICMPV6, Hdr PT_PROTO_ICMPV6_RTR_SOL, Hdr PT_PROTO_ICMPV6_RTR_SOL_OPTS_LLADR_SRC],
     [IEEE8023, VLAN, VLAN, IPV6, ICMPV6, Hdr PT_PROTO_ICMPV6_RTR_SOL, Hdr PT_PROTO_ICMPV6_RTR_SOL_OPTS_LLADR_SRC],
     [ETHERNET, IPV6, ICMPV6, Hdr PT_PROTO_ICMPV6_RTR_ADV, Hdr PT_PROTO_ICMPV6_RTR_ADV_OPTS_LLADR_SRC],
     [ETHERNET, ISID, IPV6, ICMPV6, Hdr PT_PROTO_ICMPV6_RTR_ADV, Hdr PT_PROTO_ICMPV6_RTR_ADV_OPTS_LLADR_SRC],
     [ETHERNET, VLAN, ISID, IPV6, ICMPV6, Hdr PT_PROTO_ICMPV6_RTR_ADV, Hdr PT_PROTO_ICMPV6_RTR_ADV_OPTS_LLADR_SRC],
     [IEEE8023, IPV6, ICMPV6, Hdr PT_PROTO_ICMPV6_RTR_ADV, Hdr PT_PROTO_ICMPV6_RTR_ADV_OPTS_LLADR_SRC],
     [ETHERNET, VLAN, IPV6, ICMPV6, Hdr PT_PROTO_ICMPV6_RTR_ADV, Hdr PT_PROTO_ICMPV6_RTR_ADV_OPTS_LLADR_SRC],
     [IEEE8023, VLAN, IPV6, ICMPV6, Hdr PT_PROTO_ICMPV6_RTR_ADV, Hdr PT_PROTO_ICMPV6_RTR_ADV_OPTS_LLADR_SRC],
     [ETHERNET, VLAN, VLAN, IPV6, ICMPV6, Hdr PT_PROTO_ICMPV6_RTR_ADV, Hdr PT_PROTO_ICMPV6_RTR_ADV_OPTS_LLADR_SRC],
     [IEEE8023, VLAN, VLAN, IPV6, ICMPV6, Hdr PT_PROTO_ICMPV6_RTR_ADV, Hdr PT_PROTO_ICMPV6_RTR_ADV_OPTS_LLADR_SRC],
     [ETHERNET, IPV6, ICMPV6, Hdr PT_PROTO_ICMPV6_NEIGH_SOL, Hdr PT_PROTO_ICMPV6_NEIGH_SOL_OPTS_LLADR_SRC],
     [ETHERNET, ISID, IPV6, ICMPV6, Hdr PT_PROTO_ICMPV6_NEIGH_SOL, Hdr PT_PROTO_ICMPV6_NEIGH_SOL_OPTS_LLADR_SRC],
     [ETHERNET, VLAN, ISID, IPV6, ICMPV6, Hdr PT_PROTO_ICMPV6_NEIGH_SOL, Hdr PT_PROTO_ICMPV6_NEIGH_SOL_OPTS_LLADR_SRC],
     [IEEE8023, IPV6, ICMPV6, Hdr PT_PROTO_ICMPV6_NEIGH_SOL, Hdr PT_PROTO_ICMPV6_NEIGH_SOL_OPTS_LLADR_SRC],
     [ETHERNET, VLAN, IPV6, ICMPV6, Hdr PT_PROTO_ICMPV6_NEIGH_SOL, Hdr PT_PROTO_ICMPV6_NEIGH_SOL_OPTS_LLADR_SRC],
     [IEEE8023, VLAN, IPV6, ICMPV6, Hdr PT_PROTO_ICMPV6_NEIGH_SOL, Hdr PT_PROTO_ICMPV6_NEIGH_SOL_OPTS_LLADR_SRC],
     [ETHERNET, VLAN, VLAN, IPV6, ICMPV6, Hdr PT_PROTO_ICMPV6_NEIGH_SOL, Hdr PT_PROTO_ICMPV6_NEIGH_SOL_OPTS_LLADR_SRC],
     [IEEE8023, VLAN, VLAN, IPV6, ICMPV6, Hdr PT_PROTO_ICMPV6_NEIGH_SOL, Hdr PT_PROTO_ICMPV6_NEIGH_SOL_OPTS_LLADR_SRC],
     [ETHERNET, IPV6, ICMPV6, Hdr PT_PROTO_ICMPV6_NEIGH_ADV, Hdr PT_PROTO_ICMPV6_NEIGH_ADV_OPTS_LLADR_TGT],
     [ETHERNET, ISID, IPV6, ICMPV6, Hdr PT_PROTO_ICMPV6_NEIGH_ADV, Hdr PT_PROTO_ICMPV6_NEIGH_ADV_OPTS_LLADR_TGT],
     [ETHERNET, VLAN, ISID, IPV6, ICMPV6, Hdr PT_PROTO_ICMPV6_NEIGH_ADV, Hdr PT_PROTO_ICMPV6_NEIGH_ADV_OPTS_LLADR_TGT],
     [IEEE8023, IPV6, ICMPV6, Hdr PT_PROTO_ICMPV6_NEIGH_ADV, Hdr PT_PROTO_ICMPV6_NEIGH_ADV_OPTS_LLADR_TGT],
     [ETHERNET, VLAN, IPV6, ICMPV6, Hdr PT_PROTO_ICMPV6_NEIGH_ADV, Hdr PT_PROTO_ICMPV6_NEIGH_ADV_OPTS_LLADR_TGT],
     [IEEE8023, VLAN, IPV6, ICMPV6, Hdr PT_PROTO_ICMPV6_NEIGH_ADV, Hdr PT_PROTO_ICMPV6_NEIGH_ADV_OPTS_LLADR_TGT],
     [ETHERNET, VLAN, VLAN, IPV6, ICMPV6, Hdr PT_PROTO_ICMPV6_NEIGH_ADV, Hdr PT_PROTO_ICMPV6_NEIGH_ADV_OPTS_LLADR_TGT],
     [IEEE8023, VLAN, VLAN, IPV6, ICMPV6, Hdr PT_PROTO_ICMPV6_NEIGH_ADV, Hdr PT_PROTO_ICMPV6_NEIGH_ADV_OPTS_LLADR_TGT],
     [ETHERNET, IPV6, TCP],
     [ETHERNET, ISID, IPV6, TCP],
     [ETHERNET, VLAN, ISID, IPV6, TCP],
     [IEEE8023, IPV6, TCP],
     [ETHERNET, VLAN, IPV6, TCP],
     [IEEE8023, VLAN, IPV6, TCP],
     [ETHERNET, VLAN, VLAN, IPV6, TCP],
     [IEEE8023, VLAN, VLAN, IPV6, TCP],
     [ETHERNET, IPV6, UDP],
     [ETHERNET, ISID, IPV6, UDP],
     [ETHERNET, VLAN, ISID, IPV6, UDP],
     [IEEE8023, IPV6, UDP],
     [ETHERNET, VLAN, IPV6, UDP],
     [IEEE8023, VLAN, IPV6, UDP],
     [ETHERNET, VLAN, VLAN, IPV6, UDP],
     [IEEE8023, VLAN, VLAN, IPV6, UDP],
     [ETHERNET, IPV6, UDP, GTPU6],
     [ETHERNET, ISID, IPV6, UDP, GTPU6],
     [ETHERNET, VLAN, ISID, IPV6, UDP, GTPU6],
     [IEEE8023, IPV6, UDP, GTPU6],
     [ETHERNET, VLAN, IPV6, UDP, GTPU6],
     [IEEE8023, VLAN, IPV6, UDP, GTPU6],
     [ETHERNET, VLAN, VLAN, IPV6, UDP, GTPU6],
     [IEEE8023, VLAN, VLAN, IPV6, UDP, GTPU6],
     [ETHERNET, IPV6, SCTP],
     [ETHERNET, ISID, IPV6, SCTP],
     [ETHERNET, VLAN, ISID, IPV6, SCTP],
     [IEEE8023, IPV6, SCTP],
     [ETHERNET, VLAN, IPV6, SCTP],
     [IEEE8023, VLAN, IPV6, SCTP],
     [ETHERNET, VLAN, VLAN, IPV6, SCTP],
     [IEEE8023, VLAN, VLAN, IPV6, SCTP],
     [ETHERNET, IPV6, GRE6],
     [ETHERNET, ISID, IPV6, GRE6],
     [ETHERNET, VLAN, ISID, IPV6, GRE6],
     [IEEE8023, IPV6, GRE6],
     [ETHERNET, VLAN, IPV6, GRE6],
     [IEEE8023, VLAN, IPV6, GRE6],
     [ETHERNET, VLAN, VLAN, IPV6, GRE6],
     [IEEE8023, VLAN, VLAN, IPV6, GRE6]]"

definition pt_enum :: "pkt_type list" where
  "pt_enum =
     pt_enum_1 @ pt_enum_2 @ pt_enum_3 @ pt_enum_4 @ pt_enum_5 @ pt_enum_6 @ pt_enum_7 @ pt_enum_8 @ pt_enum_9"

section \<open>The types by their structure\<close>

text \<open>What follows the link layer, in groups: within a group the link layer varies slowest.\<close>

definition upper_groups :: "pkt_type list list" where
  "upper_groups =
     [[[]], map (\<lambda>n. [MPLS_nlabels n]) [1..<33], [[PPPOE]], [[PPPOE, PPP]], [[ARPV4]]] @
     map (\<lambda>v. map (\<lambda>n. IPV4_noptions n # v) [0..<16]) ipv4_uppers @ map (\<lambda>v. [IPV6 # v]) ipv6_uppers"

definition all_types :: "pkt_type list" where
  "all_types = concat (map (\<lambda>ups. concat (map (\<lambda>l2. map ((@) l2) ups) l2_types)) upper_groups)"

lemma pt_enum_all: "pt_enum = all_types"
  by code_simp

lemma upper_groups_iff: "upper_type up \<longleftrightarrow> up \<in> set (concat upper_groups)"
proof (cases up rule: upper_type.cases)
  case (3 n hs)
  then show ?thesis by (force simp: upper_groups_def image_iff)
next
  case (4 p hs)
  then show ?thesis by (auto simp: upper_groups_def)
qed (auto simp: upper_groups_def)

lemma set_all_types: "set all_types = {t. pkt_types t}"
proof (intro set_eqI iffI)
  fix t assume "t \<in> set all_types"
  then obtain l2 up where "t = l2 @ up" "l2 \<in> set l2_types" "up \<in> set (concat upper_groups)"
    by (auto simp: all_types_def)
  then show "t \<in> {t. pkt_types t}" using pkt_types_append upper_groups_iff by blast
next
  fix t assume "t \<in> {t. pkt_types t}"
  then obtain l2 up where "t = l2 @ up" "l2 \<in> set l2_types" "upper_type up" by (blast elim: pkt_typesE)
  then show "t \<in> set all_types" unfolding upper_groups_iff by (fastforce simp: all_types_def)
qed

lemma all_types_image: "set all_types = (\<lambda>(l2, up). l2 @ up) ` (set l2_types \<times> set (concat upper_groups))"
  by (fastforce simp: all_types_def)

lemma distinct_all_types: "distinct all_types"
proof (rule card_distinct)
  have "inj_on (\<lambda>(l2, up). l2 @ up) (set l2_types \<times> set (concat upper_groups))"
  proof (rule inj_onI, clarify)
    fix l2 up l2' up'
    assume *: "l2 \<in> set l2_types" "up \<in> set (concat upper_groups)" "l2' \<in> set l2_types" "up' \<in> set (concat upper_groups)"
      and eq: "l2 @ up = l2' @ up'"
    have "l2_part (l2 @ up) = l2" "l2_part (l2' @ up') = l2'"
      using * upper_groups_iff parts_append(1) [OF l2_types_is_l2] by blast+
    then show "l2 = l2' \<and> up = up'" using eq by simp
  qed
  moreover have "distinct (concat upper_groups)" "length (concat upper_groups) = 166" by code_simp+
  moreover have "distinct l2_types" "length l2_types = 8" by code_simp+
  ultimately have "card (set all_types) = 8 * 166"
    unfolding all_types_image by (simp only: card_image card_cartesian_product distinct_card)
  moreover have "length all_types = 1328" by code_simp
  ultimately show "card (set all_types) = length all_types" by simp
qed

text \<open>C19: the enumeration is the set of the packet types, each once: a list of headers is a type exactly if it has a
  line, and no two lines have the same list.\<close>

theorem enumeration_exact: "length pt_enum = 1328 \<and> distinct pt_enum \<and> (pkt_types t \<longleftrightarrow> t \<in> set pt_enum)"
proof -
  have "length all_types = 1328" by code_simp
  then show ?thesis unfolding pt_enum_all set_all_types using distinct_all_types by simp
qed

text \<open>A table \<open>tab\<close> with one row for each type in the order of the enumeration has the values of \<open>f\<close>.\<close>

definition rows_are :: "(pkt_type \<Rightarrow> 'a) \<Rightarrow> 'a list \<Rightarrow> bool" where
  "rows_are f tab \<longleftrightarrow> list_all2 (\<lambda>t r. r = f t) pt_enum tab"

text \<open>A row that lists its entries, with \<open>-1\<close> or \<open>PT_INVALID\<close> where it lists none.\<close>

definition sparse_are :: "(pkt_type \<Rightarrow> 'c \<Rightarrow> 'a option) \<Rightarrow> ('c \<times> 'a) list list \<Rightarrow> bool" where
  "sparse_are f tab \<longleftrightarrow> list_all2 (\<lambda>t r. map_of r = f t) pt_enum tab"

lemma sparse_areI:
  assumes "map g pt_enum = tab" and "\<And>t. pkt_types t \<Longrightarrow> map_of (g t) = f t"
  shows "sparse_are f tab"
proof -
  have "\<forall>t\<in>set pt_enum. map_of (g t) = f t" using assms(2) by (simp add: pt_enum_all set_all_types)
  then show ?thesis unfolding sparse_are_def assms(1) [symmetric] by (simp add: list_all2_map2 list_all2_same)
qed

lemma rows_areI: "map f pt_enum = tab \<Longrightarrow> rows_are f tab"
  unfolding rows_are_def by (auto simp: list_all2_map2 list_all2_same)

end
