(* ===== verification/Offset_Tables.thy ===== *)
theory Offset_Tables
  imports Type_Enum
begin

text \<open>
  The tables \<open>protocol_offsets_bt\<close>, \<open>eth_type_offsets\<close> and \<open>mpls_num_of_labels\<close> of \<open>autogen_pkt_types.c\<close>, row by row,
  and that they have the values of the functions of these names. A row of offsets lists the entries that are
  not \<open>-1\<close>.
\<close>

section \<open>The offsets of headers\<close>

definition offsets_table_1 :: "(protocol \<times> nat) list list" where
  "offsets_table_1 =
    [[(PT_PROTO_ETHERNET, 0)],
     [(PT_PROTO_ETHERNET, 0), (PT_PROTO_ISID, 14)],
     [(PT_PROTO_ETHERNET, 0), (PT_PROTO_VLAN, 14), (PT_PROTO_ISID, 18)],
     [(PT_PROTO_8023, 0)],
     [(PT_PROTO_ETHERNET, 0), (PT_PROTO_VLAN, 14)],
     [(PT_PROTO_8023, 0), (PT_PROTO_VLAN, 22)],
     [(PT_PROTO_ETHERNET, 0), (PT_PROTO_VLAN, 14)],
     [(PT_PROTO_8023, 0), (PT_PROTO_VLAN, 22)],
     [(PT_PROTO_ETHERNET, 0), (PT_PROTO_MPLS, 14)],
     [(PT_PROTO_ETHERNET, 0), (PT_PROTO_MPLS, 14)],
     [(PT_PROTO_ETHERNET, 0), (PT_PROTO_MPLS, 14)],
     [(PT_PROTO_ETHERNET, 0), (PT_PROTO_MPLS, 14)],
     [(PT_PROTO_ETHERNET, 0), (PT_PROTO_MPLS, 14)],
     [(PT_PROTO_ETHERNET, 0), (PT_PROTO_MPLS, 14)],
     [(PT_PROTO_ETHERNET, 0), (PT_PROTO_MPLS, 14)],
     [(PT_PROTO_ETHERNET, 0), (PT_PROTO_MPLS, 14)],
     [(PT_PROTO_ETHERNET, 0), (PT_PROTO_MPLS, 14)],
     [(PT_PROTO_ETHERNET, 0), (PT_PROTO_MPLS, 14)],
     [(PT_PROTO_ETHERNET, 0), (PT_PROTO_MPLS, 14)],
     [(PT_PROTO_ETHERNET, 0), (PT_PROTO_MPLS, 14)],
     [(PT_PROTO_ETHERNET, 0), (PT_PROTO_MPLS, 14)],
     [(PT_PROTO_ETHERNET, 0), (PT_PROTO_MPLS, 14)],
     [(PT_PROTO_ETHERNET, 0), (PT_PROTO_MPLS, 14)],
     [(PT_PROTO_ETHERNET, 0), (PT_PROTO_MPLS, 14)],
     [(PT_PROTO_ETHERNET, 0), (PT_PROTO_MPLS, 14)],
     [(PT_PROTO_ETHERNET, 0), (PT_PROTO_MPLS, 14)],
     [(PT_PROTO_ETHERNET, 0), (PT_PROTO_MPLS, 14)],
     [(PT_PROTO_ETHERNET, 0), (PT_PROTO_MPLS, 14)],
     [(PT_PROTO_ETHERNET, 0), (PT_PROTO_MPLS, 14)],
     [(PT_PROTO_ETHERNET, 0), (PT_PROTO_MPLS, 14)],
     [(PT_PROTO_ETHERNET, 0), (PT_PROTO_MPLS, 14)],
     [(PT_PROTO_ETHERNET, 0), (PT_PROTO_MPLS, 14)],
     [(PT_PROTO_ETHERNET, 0), (PT_PROTO_MPLS, 14)],
     [(PT_PROTO_ETHERNET, 0), (PT_PROTO_MPLS, 14)],
     [(PT_PROTO_ETHERNET, 0), (PT_PROTO_MPLS, 14)],
     [(PT_PROTO_ETHERNET, 0), (PT_PROTO_MPLS, 14)],
     [(PT_PROTO_ETHERNET, 0), (PT_PROTO_MPLS, 14)],
     [(PT_PROTO_ETHERNET, 0), (PT_PROTO_MPLS, 14)],
     [(PT_PROTO_ETHERNET, 0), (PT_PROTO_MPLS, 14)],
     [(PT_PROTO_ETHERNET, 0), (PT_PROTO_MPLS, 14)],
     [(PT_PROTO_ETHERNET, 0), (PT_PROTO_ISID, 14), (PT_PROTO_MPLS, 18)],
     [(PT_PROTO_ETHERNET, 0), (PT_PROTO_ISID, 14), (PT_PROTO_MPLS, 18)],
     [(PT_PROTO_ETHERNET, 0), (PT_PROTO_ISID, 14), (PT_PROTO_MPLS, 18)],
     [(PT_PROTO_ETHERNET, 0), (PT_PROTO_ISID, 14), (PT_PROTO_MPLS, 18)],
     [(PT_PROTO_ETHERNET, 0), (PT_PROTO_ISID, 14), (PT_PROTO_MPLS, 18)],
     [(PT_PROTO_ETHERNET, 0), (PT_PROTO_ISID, 14), (PT_PROTO_MPLS, 18)],
     [(PT_PROTO_ETHERNET, 0), (PT_PROTO_ISID, 14), (PT_PROTO_MPLS, 18)],
     [(PT_PROTO_ETHERNET, 0), (PT_PROTO_ISID, 14), (PT_PROTO_MPLS, 18)],
     [(PT_PROTO_ETHERNET, 0), (PT_PROTO_ISID, 14), (PT_PROTO_MPLS, 18)],
     [(PT_PROTO_ETHERNET, 0), (PT_PROTO_ISID, 14), (PT_PROTO_MPLS, 18)],
     [(PT_PROTO_ETHERNET, 0), (PT_PROTO_ISID, 14), (PT_PROTO_MPLS, 18)],
     [(PT_PROTO_ETHERNET, 0), (PT_PROTO_ISID, 14), (PT_PROTO_MPLS, 18)],
     [(PT_PROTO_ETHERNET, 0), (PT_PROTO_ISID, 14), (PT_PROTO_MPLS, 18)],
     [(PT_PROTO_ETHERNET, 0), (PT_PROTO_ISID, 14), (PT_PROTO_MPLS, 18)],
     [(PT_PROTO_ETHERNET, 0), (PT_PROTO_ISID, 14), (PT_PROTO_MPLS, 18)],
     [(PT_PROTO_ETHERNET, 0), (PT_PROTO_ISID, 14), (PT_PROTO_MPLS, 18)],
     [(PT_PROTO_ETHERNET, 0), (PT_PROTO_ISID, 14), (PT_PROTO_MPLS, 18)],
     [(PT_PROTO_ETHERNET, 0), (PT_PROTO_ISID, 14), (PT_PROTO_MPLS, 18)],
     [(PT_PROTO_ETHERNET, 0), (PT_PROTO_ISID, 14), (PT_PROTO_MPLS, 18)],
     [(PT_PROTO_ETHERNET, 0), (PT_PROTO_ISID, 14), (PT_PROTO_MPLS, 18)],
     [(PT_PROTO_ETHERNET, 0), (PT_PROTO_ISID, 14), (PT_PROTO_MPLS, 18)],
     [(PT_PROTO_ETHERNET, 0), (PT_PROTO_ISID, 14), (PT_PROTO_MPLS, 18)],
     [(PT_PROTO_ETHERNET, 0), (PT_PROTO_ISID, 14), (PT_PROTO_MPLS, 18)],
     [(PT_PROTO_ETHERNET, 0), (PT_PROTO_ISID, 14), (PT_PROTO_MPLS, 18)],
     [(PT_PROTO_ETHERNET, 0), (PT_PROTO_ISID, 14), (PT_PROTO_MPLS, 18)],
     [(PT_PROTO_ETHERNET, 0), (PT_PROTO_ISID, 14), (PT_PROTO_MPLS, 18)],
     [(PT_PROTO_ETHERNET, 0), (PT_PROTO_ISID, 14), (PT_PROTO_MPLS, 18)],
     [(PT_PROTO_ETHERNET, 0), (PT_PROTO_ISID, 14), (PT_PROTO_MPLS, 18)],
     [(PT_PROTO_ETHERNET, 0), (PT_PROTO_ISID, 14), (PT_PROTO_MPLS, 18)],
     [(PT_PROTO_ETHERNET, 0), (PT_PROTO_ISID, 14), (PT_PROTO_MPLS, 18)],
     [(PT_PROTO_ETHERNET, 0), (PT_PROTO_ISID, 14), (PT_PROTO_MPLS, 18)],
     [(PT_PROTO_ETHERNET, 0), (PT_PROTO_ISID, 14), (PT_PROTO_MPLS, 18)],
     [(PT_PROTO_ETHERNET, 0), (PT_PROTO_VLAN, 14), (PT_PROTO_ISID, 18), (PT_PROTO_MPLS, 22)],
     [(PT_PROTO_ETHERNET, 0), (PT_PROTO_VLAN, 14), (PT_PROTO_ISID, 18), (PT_PROTO_MPLS, 22)],
     [(PT_PROTO_ETHERNET, 0), (PT_PROTO_VLAN, 14), (PT_PROTO_ISID, 18), (PT_PROTO_MPLS, 22)],
     [(PT_PROTO_ETHERNET, 0), (PT_PROTO_VLAN, 14), (PT_PROTO_ISID, 18), (PT_PROTO_MPLS, 22)],
     [(PT_PROTO_ETHERNET, 0), (PT_PROTO_VLAN, 14), (PT_PROTO_ISID, 18), (PT_PROTO_MPLS, 22)],
     [(PT_PROTO_ETHERNET, 0), (PT_PROTO_VLAN, 14), (PT_PROTO_ISID, 18), (PT_PROTO_MPLS, 22)],
     [(PT_PROTO_ETHERNET, 0), (PT_PROTO_VLAN, 14), (PT_PROTO_ISID, 18), (PT_PROTO_MPLS, 22)],
     [(PT_PROTO_ETHERNET, 0), (PT_PROTO_VLAN, 14), (PT_PROTO_ISID, 18), (PT_PROTO_MPLS, 22)],
     [(PT_PROTO_ETHERNET, 0), (PT_PROTO_VLAN, 14), (PT_PROTO_ISID, 18), (PT_PROTO_MPLS, 22)],
     [(PT_PROTO_ETHERNET, 0), (PT_PROTO_VLAN, 14), (PT_PROTO_ISID, 18), (PT_PROTO_MPLS, 22)],
     [(PT_PROTO_ETHERNET, 0), (PT_PROTO_VLAN, 14), (PT_PROTO_ISID, 18), (PT_PROTO_MPLS, 22)],
     [(PT_PROTO_ETHERNET, 0), (PT_PROTO_VLAN, 14), (PT_PROTO_ISID, 18), (PT_PROTO_MPLS, 22)],
     [(PT_PROTO_ETHERNET, 0), (PT_PROTO_VLAN, 14), (PT_PROTO_ISID, 18), (PT_PROTO_MPLS, 22)],
     [(PT_PROTO_ETHERNET, 0), (PT_PROTO_VLAN, 14), (PT_PROTO_ISID, 18), (PT_PROTO_MPLS, 22)],
     [(PT_PROTO_ETHERNET, 0), (PT_PROTO_VLAN, 14), (PT_PROTO_ISID, 18), (PT_PROTO_MPLS, 22)],
     [(PT_PROTO_ETHERNET, 0), (PT_PROTO_VLAN, 14), (PT_PROTO_ISID, 18), (PT_PROTO_MPLS, 22)],
     [(PT_PROTO_ETHERNET, 0), (PT_PROTO_VLAN, 14), (PT_PROTO_ISID, 18), (PT_PROTO_MPLS, 22)],
     [(PT_PROTO_ETHERNET, 0), (PT_PROTO_VLAN, 14), (PT_PROTO_ISID, 18), (PT_PROTO_MPLS, 22)],
     [(PT_PROTO_ETHERNET, 0), (PT_PROTO_VLAN, 14), (PT_PROTO_ISID, 18), (PT_PROTO_MPLS, 22)],
     [(PT_PROTO_ETHERNET, 0), (PT_PROTO_VLAN, 14), (PT_PROTO_ISID, 18), (PT_PROTO_MPLS, 22)],
     [(PT_PROTO_ETHERNET, 0), (PT_PROTO_VLAN, 14), (PT_PROTO_ISID, 18), (PT_PROTO_MPLS, 22)],
     [(PT_PROTO_ETHERNET, 0), (PT_PROTO_VLAN, 14), (PT_PROTO_ISID, 18), (PT_PROTO_MPLS, 22)],
     [(PT_PROTO_ETHERNET, 0), (PT_PROTO_VLAN, 14), (PT_PROTO_ISID, 18), (PT_PROTO_MPLS, 22)],
     [(PT_PROTO_ETHERNET, 0), (PT_PROTO_VLAN, 14), (PT_PROTO_ISID, 18), (PT_PROTO_MPLS, 22)],
     [(PT_PROTO_ETHERNET, 0), (PT_PROTO_VLAN, 14), (PT_PROTO_ISID, 18), (PT_PROTO_MPLS, 22)],
     [(PT_PROTO_ETHERNET, 0), (PT_PROTO_VLAN, 14), (PT_PROTO_ISID, 18), (PT_PROTO_MPLS, 22)],
     [(PT_PROTO_ETHERNET, 0), (PT_PROTO_VLAN, 14), (PT_PROTO_ISID, 18), (PT_PROTO_MPLS, 22)],
     [(PT_PROTO_ETHERNET, 0), (PT_PROTO_VLAN, 14), (PT_PROTO_ISID, 18), (PT_PROTO_MPLS, 22)],
     [(PT_PROTO_ETHERNET, 0), (PT_PROTO_VLAN, 14), (PT_PROTO_ISID, 18), (PT_PROTO_MPLS, 22)],
     [(PT_PROTO_ETHERNET, 0), (PT_PROTO_VLAN, 14), (PT_PROTO_ISID, 18), (PT_PROTO_MPLS, 22)],
     [(PT_PROTO_ETHERNET, 0), (PT_PROTO_VLAN, 14), (PT_PROTO_ISID, 18), (PT_PROTO_MPLS, 22)],
     [(PT_PROTO_ETHERNET, 0), (PT_PROTO_VLAN, 14), (PT_PROTO_ISID, 18), (PT_PROTO_MPLS, 22)],
     [(PT_PROTO_8023, 0), (PT_PROTO_MPLS, 22)],
     [(PT_PROTO_8023, 0), (PT_PROTO_MPLS, 22)],
     [(PT_PROTO_8023, 0), (PT_PROTO_MPLS, 22)],
     [(PT_PROTO_8023, 0), (PT_PROTO_MPLS, 22)],
     [(PT_PROTO_8023, 0), (PT_PROTO_MPLS, 22)],
     [(PT_PROTO_8023, 0), (PT_PROTO_MPLS, 22)],
     [(PT_PROTO_8023, 0), (PT_PROTO_MPLS, 22)],
     [(PT_PROTO_8023, 0), (PT_PROTO_MPLS, 22)],
     [(PT_PROTO_8023, 0), (PT_PROTO_MPLS, 22)],
     [(PT_PROTO_8023, 0), (PT_PROTO_MPLS, 22)],
     [(PT_PROTO_8023, 0), (PT_PROTO_MPLS, 22)],
     [(PT_PROTO_8023, 0), (PT_PROTO_MPLS, 22)],
     [(PT_PROTO_8023, 0), (PT_PROTO_MPLS, 22)],
     [(PT_PROTO_8023, 0), (PT_PROTO_MPLS, 22)],
     [(PT_PROTO_8023, 0), (PT_PROTO_MPLS, 22)],
     [(PT_PROTO_8023, 0), (PT_PROTO_MPLS, 22)],
     [(PT_PROTO_8023, 0), (PT_PROTO_MPLS, 22)],
     [(PT_PROTO_8023, 0), (PT_PROTO_MPLS, 22)],
     [(PT_PROTO_8023, 0), (PT_PROTO_MPLS, 22)],
     [(PT_PROTO_8023, 0), (PT_PROTO_MPLS, 22)],
     [(PT_PROTO_8023, 0), (PT_PROTO_MPLS, 22)],
     [(PT_PROTO_8023, 0), (PT_PROTO_MPLS, 22)],
     [(PT_PROTO_8023, 0), (PT_PROTO_MPLS, 22)],
     [(PT_PROTO_8023, 0), (PT_PROTO_MPLS, 22)],
     [(PT_PROTO_8023, 0), (PT_PROTO_MPLS, 22)],
     [(PT_PROTO_8023, 0), (PT_PROTO_MPLS, 22)],
     [(PT_PROTO_8023, 0), (PT_PROTO_MPLS, 22)],
     [(PT_PROTO_8023, 0), (PT_PROTO_MPLS, 22)],
     [(PT_PROTO_8023, 0), (PT_PROTO_MPLS, 22)],
     [(PT_PROTO_8023, 0), (PT_PROTO_MPLS, 22)],
     [(PT_PROTO_8023, 0), (PT_PROTO_MPLS, 22)],
     [(PT_PROTO_8023, 0), (PT_PROTO_MPLS, 22)],
     [(PT_PROTO_ETHERNET, 0), (PT_PROTO_VLAN, 14), (PT_PROTO_MPLS, 18)],
     [(PT_PROTO_ETHERNET, 0), (PT_PROTO_VLAN, 14), (PT_PROTO_MPLS, 18)],
     [(PT_PROTO_ETHERNET, 0), (PT_PROTO_VLAN, 14), (PT_PROTO_MPLS, 18)],
     [(PT_PROTO_ETHERNET, 0), (PT_PROTO_VLAN, 14), (PT_PROTO_MPLS, 18)],
     [(PT_PROTO_ETHERNET, 0), (PT_PROTO_VLAN, 14), (PT_PROTO_MPLS, 18)],
     [(PT_PROTO_ETHERNET, 0), (PT_PROTO_VLAN, 14), (PT_PROTO_MPLS, 18)],
     [(PT_PROTO_ETHERNET, 0), (PT_PROTO_VLAN, 14), (PT_PROTO_MPLS, 18)],
     [(PT_PROTO_ETHERNET, 0), (PT_PROTO_VLAN, 14), (PT_PROTO_MPLS, 18)],
     [(PT_PROTO_ETHERNET, 0), (PT_PROTO_VLAN, 14), (PT_PROTO_MPLS, 18)],
     [(PT_PROTO_ETHERNET, 0), (PT_PROTO_VLAN, 14), (PT_PROTO_MPLS, 18)],
     [(PT_PROTO_ETHERNET, 0), (PT_PROTO_VLAN, 14), (PT_PROTO_MPLS, 18)],
     [(PT_PROTO_ETHERNET, 0), (PT_PROTO_VLAN, 14), (PT_PROTO_MPLS, 18)],
     [(PT_PROTO_ETHERNET, 0), (PT_PROTO_VLAN, 14), (PT_PROTO_MPLS, 18)],
     [(PT_PROTO_ETHERNET, 0), (PT_PROTO_VLAN, 14), (PT_PROTO_MPLS, 18)]]"

definition offsets_table_2 :: "(protocol \<times> nat) list list" where
  "offsets_table_2 =
    [[(PT_PROTO_ETHERNET, 0), (PT_PROTO_VLAN, 14), (PT_PROTO_MPLS, 18)],
     [(PT_PROTO_ETHERNET, 0), (PT_PROTO_VLAN, 14), (PT_PROTO_MPLS, 18)],
     [(PT_PROTO_ETHERNET, 0), (PT_PROTO_VLAN, 14), (PT_PROTO_MPLS, 18)],
     [(PT_PROTO_ETHERNET, 0), (PT_PROTO_VLAN, 14), (PT_PROTO_MPLS, 18)],
     [(PT_PROTO_ETHERNET, 0), (PT_PROTO_VLAN, 14), (PT_PROTO_MPLS, 18)],
     [(PT_PROTO_ETHERNET, 0), (PT_PROTO_VLAN, 14), (PT_PROTO_MPLS, 18)],
     [(PT_PROTO_ETHERNET, 0), (PT_PROTO_VLAN, 14), (PT_PROTO_MPLS, 18)],
     [(PT_PROTO_ETHERNET, 0), (PT_PROTO_VLAN, 14), (PT_PROTO_MPLS, 18)],
     [(PT_PROTO_ETHERNET, 0), (PT_PROTO_VLAN, 14), (PT_PROTO_MPLS, 18)],
     [(PT_PROTO_ETHERNET, 0), (PT_PROTO_VLAN, 14), (PT_PROTO_MPLS, 18)],
     [(PT_PROTO_ETHERNET, 0), (PT_PROTO_VLAN, 14), (PT_PROTO_MPLS, 18)],
     [(PT_PROTO_ETHERNET, 0), (PT_PROTO_VLAN, 14), (PT_PROTO_MPLS, 18)],
     [(PT_PROTO_ETHERNET, 0), (PT_PROTO_VLAN, 14), (PT_PROTO_MPLS, 18)],
     [(PT_PROTO_ETHERNET, 0), (PT_PROTO_VLAN, 14), (PT_PROTO_MPLS, 18)],
     [(PT_PROTO_ETHERNET, 0), (PT_PROTO_VLAN, 14), (PT_PROTO_MPLS, 18)],
     [(PT_PROTO_ETHERNET, 0), (PT_PROTO_VLAN, 14), (PT_PROTO_MPLS, 18)],
     [(PT_PROTO_ETHERNET, 0), (PT_PROTO_VLAN, 14), (PT_PROTO_MPLS, 18)],
     [(PT_PROTO_ETHERNET, 0), (PT_PROTO_VLAN, 14), (PT_PROTO_MPLS, 18)],
     [(PT_PROTO_8023, 0), (PT_PROTO_VLAN, 22), (PT_PROTO_MPLS, 26)],
     [(PT_PROTO_8023, 0), (PT_PROTO_VLAN, 22), (PT_PROTO_MPLS, 26)],
     [(PT_PROTO_8023, 0), (PT_PROTO_VLAN, 22), (PT_PROTO_MPLS, 26)],
     [(PT_PROTO_8023, 0), (PT_PROTO_VLAN, 22), (PT_PROTO_MPLS, 26)],
     [(PT_PROTO_8023, 0), (PT_PROTO_VLAN, 22), (PT_PROTO_MPLS, 26)],
     [(PT_PROTO_8023, 0), (PT_PROTO_VLAN, 22), (PT_PROTO_MPLS, 26)],
     [(PT_PROTO_8023, 0), (PT_PROTO_VLAN, 22), (PT_PROTO_MPLS, 26)],
     [(PT_PROTO_8023, 0), (PT_PROTO_VLAN, 22), (PT_PROTO_MPLS, 26)],
     [(PT_PROTO_8023, 0), (PT_PROTO_VLAN, 22), (PT_PROTO_MPLS, 26)],
     [(PT_PROTO_8023, 0), (PT_PROTO_VLAN, 22), (PT_PROTO_MPLS, 26)],
     [(PT_PROTO_8023, 0), (PT_PROTO_VLAN, 22), (PT_PROTO_MPLS, 26)],
     [(PT_PROTO_8023, 0), (PT_PROTO_VLAN, 22), (PT_PROTO_MPLS, 26)],
     [(PT_PROTO_8023, 0), (PT_PROTO_VLAN, 22), (PT_PROTO_MPLS, 26)],
     [(PT_PROTO_8023, 0), (PT_PROTO_VLAN, 22), (PT_PROTO_MPLS, 26)],
     [(PT_PROTO_8023, 0), (PT_PROTO_VLAN, 22), (PT_PROTO_MPLS, 26)],
     [(PT_PROTO_8023, 0), (PT_PROTO_VLAN, 22), (PT_PROTO_MPLS, 26)],
     [(PT_PROTO_8023, 0), (PT_PROTO_VLAN, 22), (PT_PROTO_MPLS, 26)],
     [(PT_PROTO_8023, 0), (PT_PROTO_VLAN, 22), (PT_PROTO_MPLS, 26)],
     [(PT_PROTO_8023, 0), (PT_PROTO_VLAN, 22), (PT_PROTO_MPLS, 26)],
     [(PT_PROTO_8023, 0), (PT_PROTO_VLAN, 22), (PT_PROTO_MPLS, 26)],
     [(PT_PROTO_8023, 0), (PT_PROTO_VLAN, 22), (PT_PROTO_MPLS, 26)],
     [(PT_PROTO_8023, 0), (PT_PROTO_VLAN, 22), (PT_PROTO_MPLS, 26)],
     [(PT_PROTO_8023, 0), (PT_PROTO_VLAN, 22), (PT_PROTO_MPLS, 26)],
     [(PT_PROTO_8023, 0), (PT_PROTO_VLAN, 22), (PT_PROTO_MPLS, 26)],
     [(PT_PROTO_8023, 0), (PT_PROTO_VLAN, 22), (PT_PROTO_MPLS, 26)],
     [(PT_PROTO_8023, 0), (PT_PROTO_VLAN, 22), (PT_PROTO_MPLS, 26)],
     [(PT_PROTO_8023, 0), (PT_PROTO_VLAN, 22), (PT_PROTO_MPLS, 26)],
     [(PT_PROTO_8023, 0), (PT_PROTO_VLAN, 22), (PT_PROTO_MPLS, 26)],
     [(PT_PROTO_8023, 0), (PT_PROTO_VLAN, 22), (PT_PROTO_MPLS, 26)],
     [(PT_PROTO_8023, 0), (PT_PROTO_VLAN, 22), (PT_PROTO_MPLS, 26)],
     [(PT_PROTO_8023, 0), (PT_PROTO_VLAN, 22), (PT_PROTO_MPLS, 26)],
     [(PT_PROTO_8023, 0), (PT_PROTO_VLAN, 22), (PT_PROTO_MPLS, 26)],
     [(PT_PROTO_ETHERNET, 0), (PT_PROTO_VLAN, 14), (PT_PROTO_MPLS, 22)],
     [(PT_PROTO_ETHERNET, 0), (PT_PROTO_VLAN, 14), (PT_PROTO_MPLS, 22)],
     [(PT_PROTO_ETHERNET, 0), (PT_PROTO_VLAN, 14), (PT_PROTO_MPLS, 22)],
     [(PT_PROTO_ETHERNET, 0), (PT_PROTO_VLAN, 14), (PT_PROTO_MPLS, 22)],
     [(PT_PROTO_ETHERNET, 0), (PT_PROTO_VLAN, 14), (PT_PROTO_MPLS, 22)],
     [(PT_PROTO_ETHERNET, 0), (PT_PROTO_VLAN, 14), (PT_PROTO_MPLS, 22)],
     [(PT_PROTO_ETHERNET, 0), (PT_PROTO_VLAN, 14), (PT_PROTO_MPLS, 22)],
     [(PT_PROTO_ETHERNET, 0), (PT_PROTO_VLAN, 14), (PT_PROTO_MPLS, 22)],
     [(PT_PROTO_ETHERNET, 0), (PT_PROTO_VLAN, 14), (PT_PROTO_MPLS, 22)],
     [(PT_PROTO_ETHERNET, 0), (PT_PROTO_VLAN, 14), (PT_PROTO_MPLS, 22)],
     [(PT_PROTO_ETHERNET, 0), (PT_PROTO_VLAN, 14), (PT_PROTO_MPLS, 22)],
     [(PT_PROTO_ETHERNET, 0), (PT_PROTO_VLAN, 14), (PT_PROTO_MPLS, 22)],
     [(PT_PROTO_ETHERNET, 0), (PT_PROTO_VLAN, 14), (PT_PROTO_MPLS, 22)],
     [(PT_PROTO_ETHERNET, 0), (PT_PROTO_VLAN, 14), (PT_PROTO_MPLS, 22)],
     [(PT_PROTO_ETHERNET, 0), (PT_PROTO_VLAN, 14), (PT_PROTO_MPLS, 22)],
     [(PT_PROTO_ETHERNET, 0), (PT_PROTO_VLAN, 14), (PT_PROTO_MPLS, 22)],
     [(PT_PROTO_ETHERNET, 0), (PT_PROTO_VLAN, 14), (PT_PROTO_MPLS, 22)],
     [(PT_PROTO_ETHERNET, 0), (PT_PROTO_VLAN, 14), (PT_PROTO_MPLS, 22)],
     [(PT_PROTO_ETHERNET, 0), (PT_PROTO_VLAN, 14), (PT_PROTO_MPLS, 22)],
     [(PT_PROTO_ETHERNET, 0), (PT_PROTO_VLAN, 14), (PT_PROTO_MPLS, 22)],
     [(PT_PROTO_ETHERNET, 0), (PT_PROTO_VLAN, 14), (PT_PROTO_MPLS, 22)],
     [(PT_PROTO_ETHERNET, 0), (PT_PROTO_VLAN, 14), (PT_PROTO_MPLS, 22)],
     [(PT_PROTO_ETHERNET, 0), (PT_PROTO_VLAN, 14), (PT_PROTO_MPLS, 22)],
     [(PT_PROTO_ETHERNET, 0), (PT_PROTO_VLAN, 14), (PT_PROTO_MPLS, 22)],
     [(PT_PROTO_ETHERNET, 0), (PT_PROTO_VLAN, 14), (PT_PROTO_MPLS, 22)],
     [(PT_PROTO_ETHERNET, 0), (PT_PROTO_VLAN, 14), (PT_PROTO_MPLS, 22)],
     [(PT_PROTO_ETHERNET, 0), (PT_PROTO_VLAN, 14), (PT_PROTO_MPLS, 22)],
     [(PT_PROTO_ETHERNET, 0), (PT_PROTO_VLAN, 14), (PT_PROTO_MPLS, 22)],
     [(PT_PROTO_ETHERNET, 0), (PT_PROTO_VLAN, 14), (PT_PROTO_MPLS, 22)],
     [(PT_PROTO_ETHERNET, 0), (PT_PROTO_VLAN, 14), (PT_PROTO_MPLS, 22)],
     [(PT_PROTO_ETHERNET, 0), (PT_PROTO_VLAN, 14), (PT_PROTO_MPLS, 22)],
     [(PT_PROTO_ETHERNET, 0), (PT_PROTO_VLAN, 14), (PT_PROTO_MPLS, 22)],
     [(PT_PROTO_8023, 0), (PT_PROTO_VLAN, 22), (PT_PROTO_MPLS, 30)],
     [(PT_PROTO_8023, 0), (PT_PROTO_VLAN, 22), (PT_PROTO_MPLS, 30)],
     [(PT_PROTO_8023, 0), (PT_PROTO_VLAN, 22), (PT_PROTO_MPLS, 30)],
     [(PT_PROTO_8023, 0), (PT_PROTO_VLAN, 22), (PT_PROTO_MPLS, 30)],
     [(PT_PROTO_8023, 0), (PT_PROTO_VLAN, 22), (PT_PROTO_MPLS, 30)],
     [(PT_PROTO_8023, 0), (PT_PROTO_VLAN, 22), (PT_PROTO_MPLS, 30)],
     [(PT_PROTO_8023, 0), (PT_PROTO_VLAN, 22), (PT_PROTO_MPLS, 30)],
     [(PT_PROTO_8023, 0), (PT_PROTO_VLAN, 22), (PT_PROTO_MPLS, 30)],
     [(PT_PROTO_8023, 0), (PT_PROTO_VLAN, 22), (PT_PROTO_MPLS, 30)],
     [(PT_PROTO_8023, 0), (PT_PROTO_VLAN, 22), (PT_PROTO_MPLS, 30)],
     [(PT_PROTO_8023, 0), (PT_PROTO_VLAN, 22), (PT_PROTO_MPLS, 30)],
     [(PT_PROTO_8023, 0), (PT_PROTO_VLAN, 22), (PT_PROTO_MPLS, 30)],
     [(PT_PROTO_8023, 0), (PT_PROTO_VLAN, 22), (PT_PROTO_MPLS, 30)],
     [(PT_PROTO_8023, 0), (PT_PROTO_VLAN, 22), (PT_PROTO_MPLS, 30)],
     [(PT_PROTO_8023, 0), (PT_PROTO_VLAN, 22), (PT_PROTO_MPLS, 30)],
     [(PT_PROTO_8023, 0), (PT_PROTO_VLAN, 22), (PT_PROTO_MPLS, 30)],
     [(PT_PROTO_8023, 0), (PT_PROTO_VLAN, 22), (PT_PROTO_MPLS, 30)],
     [(PT_PROTO_8023, 0), (PT_PROTO_VLAN, 22), (PT_PROTO_MPLS, 30)],
     [(PT_PROTO_8023, 0), (PT_PROTO_VLAN, 22), (PT_PROTO_MPLS, 30)],
     [(PT_PROTO_8023, 0), (PT_PROTO_VLAN, 22), (PT_PROTO_MPLS, 30)],
     [(PT_PROTO_8023, 0), (PT_PROTO_VLAN, 22), (PT_PROTO_MPLS, 30)],
     [(PT_PROTO_8023, 0), (PT_PROTO_VLAN, 22), (PT_PROTO_MPLS, 30)],
     [(PT_PROTO_8023, 0), (PT_PROTO_VLAN, 22), (PT_PROTO_MPLS, 30)],
     [(PT_PROTO_8023, 0), (PT_PROTO_VLAN, 22), (PT_PROTO_MPLS, 30)],
     [(PT_PROTO_8023, 0), (PT_PROTO_VLAN, 22), (PT_PROTO_MPLS, 30)],
     [(PT_PROTO_8023, 0), (PT_PROTO_VLAN, 22), (PT_PROTO_MPLS, 30)],
     [(PT_PROTO_8023, 0), (PT_PROTO_VLAN, 22), (PT_PROTO_MPLS, 30)],
     [(PT_PROTO_8023, 0), (PT_PROTO_VLAN, 22), (PT_PROTO_MPLS, 30)],
     [(PT_PROTO_8023, 0), (PT_PROTO_VLAN, 22), (PT_PROTO_MPLS, 30)],
     [(PT_PROTO_8023, 0), (PT_PROTO_VLAN, 22), (PT_PROTO_MPLS, 30)],
     [(PT_PROTO_8023, 0), (PT_PROTO_VLAN, 22), (PT_PROTO_MPLS, 30)],
     [(PT_PROTO_8023, 0), (PT_PROTO_VLAN, 22), (PT_PROTO_MPLS, 30)],
     [(PT_PROTO_ETHERNET, 0), (PT_PROTO_PPPOE, 14)],
     [(PT_PROTO_ETHERNET, 0), (PT_PROTO_ISID, 14), (PT_PROTO_PPPOE, 18)],
     [(PT_PROTO_ETHERNET, 0), (PT_PROTO_VLAN, 14), (PT_PROTO_ISID, 18), (PT_PROTO_PPPOE, 22)],
     [(PT_PROTO_8023, 0), (PT_PROTO_PPPOE, 22)],
     [(PT_PROTO_ETHERNET, 0), (PT_PROTO_VLAN, 14), (PT_PROTO_PPPOE, 18)],
     [(PT_PROTO_8023, 0), (PT_PROTO_VLAN, 22), (PT_PROTO_PPPOE, 26)],
     [(PT_PROTO_ETHERNET, 0), (PT_PROTO_VLAN, 14), (PT_PROTO_PPPOE, 22)],
     [(PT_PROTO_8023, 0), (PT_PROTO_VLAN, 22), (PT_PROTO_PPPOE, 30)],
     [(PT_PROTO_ETHERNET, 0), (PT_PROTO_PPPOE, 14), (PT_PROTO_PPP, 20)],
     [(PT_PROTO_ETHERNET, 0), (PT_PROTO_ISID, 14), (PT_PROTO_PPPOE, 18), (PT_PROTO_PPP, 24)],
     [(PT_PROTO_ETHERNET, 0), (PT_PROTO_VLAN, 14), (PT_PROTO_ISID, 18), (PT_PROTO_PPPOE, 22), (PT_PROTO_PPP, 28)],
     [(PT_PROTO_8023, 0), (PT_PROTO_PPPOE, 22), (PT_PROTO_PPP, 28)],
     [(PT_PROTO_ETHERNET, 0), (PT_PROTO_VLAN, 14), (PT_PROTO_PPPOE, 18), (PT_PROTO_PPP, 24)],
     [(PT_PROTO_8023, 0), (PT_PROTO_VLAN, 22), (PT_PROTO_PPPOE, 26), (PT_PROTO_PPP, 32)],
     [(PT_PROTO_ETHERNET, 0), (PT_PROTO_VLAN, 14), (PT_PROTO_PPPOE, 22), (PT_PROTO_PPP, 28)],
     [(PT_PROTO_8023, 0), (PT_PROTO_VLAN, 22), (PT_PROTO_PPPOE, 30), (PT_PROTO_PPP, 36)],
     [(PT_PROTO_ETHERNET, 0), (PT_PROTO_ARPV4, 14)],
     [(PT_PROTO_ETHERNET, 0), (PT_PROTO_ISID, 14), (PT_PROTO_ARPV4, 18)],
     [(PT_PROTO_ETHERNET, 0), (PT_PROTO_VLAN, 14), (PT_PROTO_ISID, 18), (PT_PROTO_ARPV4, 22)],
     [(PT_PROTO_8023, 0), (PT_PROTO_ARPV4, 22)],
     [(PT_PROTO_ETHERNET, 0), (PT_PROTO_VLAN, 14), (PT_PROTO_ARPV4, 18)],
     [(PT_PROTO_8023, 0), (PT_PROTO_VLAN, 22), (PT_PROTO_ARPV4, 26)],
     [(PT_PROTO_ETHERNET, 0), (PT_PROTO_VLAN, 14), (PT_PROTO_ARPV4, 22)],
     [(PT_PROTO_8023, 0), (PT_PROTO_VLAN, 22), (PT_PROTO_ARPV4, 30)],
     [(PT_PROTO_ETHERNET, 0), (PT_PROTO_IPV4, 14)],
     [(PT_PROTO_ETHERNET, 0), (PT_PROTO_IPV4, 14)],
     [(PT_PROTO_ETHERNET, 0), (PT_PROTO_IPV4, 14)],
     [(PT_PROTO_ETHERNET, 0), (PT_PROTO_IPV4, 14)],
     [(PT_PROTO_ETHERNET, 0), (PT_PROTO_IPV4, 14)],
     [(PT_PROTO_ETHERNET, 0), (PT_PROTO_IPV4, 14)],
     [(PT_PROTO_ETHERNET, 0), (PT_PROTO_IPV4, 14)],
     [(PT_PROTO_ETHERNET, 0), (PT_PROTO_IPV4, 14)],
     [(PT_PROTO_ETHERNET, 0), (PT_PROTO_IPV4, 14)],
     [(PT_PROTO_ETHERNET, 0), (PT_PROTO_IPV4, 14)],
     [(PT_PROTO_ETHERNET, 0), (PT_PROTO_IPV4, 14)],
     [(PT_PROTO_ETHERNET, 0), (PT_PROTO_IPV4, 14)]]"

definition offsets_table_3 :: "(protocol \<times> nat) list list" where
  "offsets_table_3 =
    [[(PT_PROTO_ETHERNET, 0), (PT_PROTO_IPV4, 14)],
     [(PT_PROTO_ETHERNET, 0), (PT_PROTO_IPV4, 14)],
     [(PT_PROTO_ETHERNET, 0), (PT_PROTO_IPV4, 14)],
     [(PT_PROTO_ETHERNET, 0), (PT_PROTO_IPV4, 14)],
     [(PT_PROTO_ETHERNET, 0), (PT_PROTO_ISID, 14), (PT_PROTO_IPV4, 18)],
     [(PT_PROTO_ETHERNET, 0), (PT_PROTO_ISID, 14), (PT_PROTO_IPV4, 18)],
     [(PT_PROTO_ETHERNET, 0), (PT_PROTO_ISID, 14), (PT_PROTO_IPV4, 18)],
     [(PT_PROTO_ETHERNET, 0), (PT_PROTO_ISID, 14), (PT_PROTO_IPV4, 18)],
     [(PT_PROTO_ETHERNET, 0), (PT_PROTO_ISID, 14), (PT_PROTO_IPV4, 18)],
     [(PT_PROTO_ETHERNET, 0), (PT_PROTO_ISID, 14), (PT_PROTO_IPV4, 18)],
     [(PT_PROTO_ETHERNET, 0), (PT_PROTO_ISID, 14), (PT_PROTO_IPV4, 18)],
     [(PT_PROTO_ETHERNET, 0), (PT_PROTO_ISID, 14), (PT_PROTO_IPV4, 18)],
     [(PT_PROTO_ETHERNET, 0), (PT_PROTO_ISID, 14), (PT_PROTO_IPV4, 18)],
     [(PT_PROTO_ETHERNET, 0), (PT_PROTO_ISID, 14), (PT_PROTO_IPV4, 18)],
     [(PT_PROTO_ETHERNET, 0), (PT_PROTO_ISID, 14), (PT_PROTO_IPV4, 18)],
     [(PT_PROTO_ETHERNET, 0), (PT_PROTO_ISID, 14), (PT_PROTO_IPV4, 18)],
     [(PT_PROTO_ETHERNET, 0), (PT_PROTO_ISID, 14), (PT_PROTO_IPV4, 18)],
     [(PT_PROTO_ETHERNET, 0), (PT_PROTO_ISID, 14), (PT_PROTO_IPV4, 18)],
     [(PT_PROTO_ETHERNET, 0), (PT_PROTO_ISID, 14), (PT_PROTO_IPV4, 18)],
     [(PT_PROTO_ETHERNET, 0), (PT_PROTO_ISID, 14), (PT_PROTO_IPV4, 18)],
     [(PT_PROTO_ETHERNET, 0), (PT_PROTO_VLAN, 14), (PT_PROTO_ISID, 18), (PT_PROTO_IPV4, 22)],
     [(PT_PROTO_ETHERNET, 0), (PT_PROTO_VLAN, 14), (PT_PROTO_ISID, 18), (PT_PROTO_IPV4, 22)],
     [(PT_PROTO_ETHERNET, 0), (PT_PROTO_VLAN, 14), (PT_PROTO_ISID, 18), (PT_PROTO_IPV4, 22)],
     [(PT_PROTO_ETHERNET, 0), (PT_PROTO_VLAN, 14), (PT_PROTO_ISID, 18), (PT_PROTO_IPV4, 22)],
     [(PT_PROTO_ETHERNET, 0), (PT_PROTO_VLAN, 14), (PT_PROTO_ISID, 18), (PT_PROTO_IPV4, 22)],
     [(PT_PROTO_ETHERNET, 0), (PT_PROTO_VLAN, 14), (PT_PROTO_ISID, 18), (PT_PROTO_IPV4, 22)],
     [(PT_PROTO_ETHERNET, 0), (PT_PROTO_VLAN, 14), (PT_PROTO_ISID, 18), (PT_PROTO_IPV4, 22)],
     [(PT_PROTO_ETHERNET, 0), (PT_PROTO_VLAN, 14), (PT_PROTO_ISID, 18), (PT_PROTO_IPV4, 22)],
     [(PT_PROTO_ETHERNET, 0), (PT_PROTO_VLAN, 14), (PT_PROTO_ISID, 18), (PT_PROTO_IPV4, 22)],
     [(PT_PROTO_ETHERNET, 0), (PT_PROTO_VLAN, 14), (PT_PROTO_ISID, 18), (PT_PROTO_IPV4, 22)],
     [(PT_PROTO_ETHERNET, 0), (PT_PROTO_VLAN, 14), (PT_PROTO_ISID, 18), (PT_PROTO_IPV4, 22)],
     [(PT_PROTO_ETHERNET, 0), (PT_PROTO_VLAN, 14), (PT_PROTO_ISID, 18), (PT_PROTO_IPV4, 22)],
     [(PT_PROTO_ETHERNET, 0), (PT_PROTO_VLAN, 14), (PT_PROTO_ISID, 18), (PT_PROTO_IPV4, 22)],
     [(PT_PROTO_ETHERNET, 0), (PT_PROTO_VLAN, 14), (PT_PROTO_ISID, 18), (PT_PROTO_IPV4, 22)],
     [(PT_PROTO_ETHERNET, 0), (PT_PROTO_VLAN, 14), (PT_PROTO_ISID, 18), (PT_PROTO_IPV4, 22)],
     [(PT_PROTO_ETHERNET, 0), (PT_PROTO_VLAN, 14), (PT_PROTO_ISID, 18), (PT_PROTO_IPV4, 22)],
     [(PT_PROTO_8023, 0), (PT_PROTO_IPV4, 22)],
     [(PT_PROTO_8023, 0), (PT_PROTO_IPV4, 22)],
     [(PT_PROTO_8023, 0), (PT_PROTO_IPV4, 22)],
     [(PT_PROTO_8023, 0), (PT_PROTO_IPV4, 22)],
     [(PT_PROTO_8023, 0), (PT_PROTO_IPV4, 22)],
     [(PT_PROTO_8023, 0), (PT_PROTO_IPV4, 22)],
     [(PT_PROTO_8023, 0), (PT_PROTO_IPV4, 22)],
     [(PT_PROTO_8023, 0), (PT_PROTO_IPV4, 22)],
     [(PT_PROTO_8023, 0), (PT_PROTO_IPV4, 22)],
     [(PT_PROTO_8023, 0), (PT_PROTO_IPV4, 22)],
     [(PT_PROTO_8023, 0), (PT_PROTO_IPV4, 22)],
     [(PT_PROTO_8023, 0), (PT_PROTO_IPV4, 22)],
     [(PT_PROTO_8023, 0), (PT_PROTO_IPV4, 22)],
     [(PT_PROTO_8023, 0), (PT_PROTO_IPV4, 22)],
     [(PT_PROTO_8023, 0), (PT_PROTO_IPV4, 22)],
     [(PT_PROTO_8023, 0), (PT_PROTO_IPV4, 22)],
     [(PT_PROTO_ETHERNET, 0), (PT_PROTO_VLAN, 14), (PT_PROTO_IPV4, 18)],
     [(PT_PROTO_ETHERNET, 0), (PT_PROTO_VLAN, 14), (PT_PROTO_IPV4, 18)],
     [(PT_PROTO_ETHERNET, 0), (PT_PROTO_VLAN, 14), (PT_PROTO_IPV4, 18)],
     [(PT_PROTO_ETHERNET, 0), (PT_PROTO_VLAN, 14), (PT_PROTO_IPV4, 18)],
     [(PT_PROTO_ETHERNET, 0), (PT_PROTO_VLAN, 14), (PT_PROTO_IPV4, 18)],
     [(PT_PROTO_ETHERNET, 0), (PT_PROTO_VLAN, 14), (PT_PROTO_IPV4, 18)],
     [(PT_PROTO_ETHERNET, 0), (PT_PROTO_VLAN, 14), (PT_PROTO_IPV4, 18)],
     [(PT_PROTO_ETHERNET, 0), (PT_PROTO_VLAN, 14), (PT_PROTO_IPV4, 18)],
     [(PT_PROTO_ETHERNET, 0), (PT_PROTO_VLAN, 14), (PT_PROTO_IPV4, 18)],
     [(PT_PROTO_ETHERNET, 0), (PT_PROTO_VLAN, 14), (PT_PROTO_IPV4, 18)],
     [(PT_PROTO_ETHERNET, 0), (PT_PROTO_VLAN, 14), (PT_PROTO_IPV4, 18)],
     [(PT_PROTO_ETHERNET, 0), (PT_PROTO_VLAN, 14), (PT_PROTO_IPV4, 18)],
     [(PT_PROTO_ETHERNET, 0), (PT_PROTO_VLAN, 14), (PT_PROTO_IPV4, 18)],
     [(PT_PROTO_ETHERNET, 0), (PT_PROTO_VLAN, 14), (PT_PROTO_IPV4, 18)],
     [(PT_PROTO_ETHERNET, 0), (PT_PROTO_VLAN, 14), (PT_PROTO_IPV4, 18)],
     [(PT_PROTO_ETHERNET, 0), (PT_PROTO_VLAN, 14), (PT_PROTO_IPV4, 18)],
     [(PT_PROTO_8023, 0), (PT_PROTO_VLAN, 22), (PT_PROTO_IPV4, 26)],
     [(PT_PROTO_8023, 0), (PT_PROTO_VLAN, 22), (PT_PROTO_IPV4, 26)],
     [(PT_PROTO_8023, 0), (PT_PROTO_VLAN, 22), (PT_PROTO_IPV4, 26)],
     [(PT_PROTO_8023, 0), (PT_PROTO_VLAN, 22), (PT_PROTO_IPV4, 26)],
     [(PT_PROTO_8023, 0), (PT_PROTO_VLAN, 22), (PT_PROTO_IPV4, 26)],
     [(PT_PROTO_8023, 0), (PT_PROTO_VLAN, 22), (PT_PROTO_IPV4, 26)],
     [(PT_PROTO_8023, 0), (PT_PROTO_VLAN, 22), (PT_PROTO_IPV4, 26)],
     [(PT_PROTO_8023, 0), (PT_PROTO_VLAN, 22), (PT_PROTO_IPV4, 26)],
     [(PT_PROTO_8023, 0), (PT_PROTO_VLAN, 22), (PT_PROTO_IPV4, 26)],
     [(PT_PROTO_8023, 0), (PT_PROTO_VLAN, 22), (PT_PROTO_IPV4, 26)],
     [(PT_PROTO_8023, 0), (PT_PROTO_VLAN, 22), (PT_PROTO_IPV4, 26)],
     [(PT_PROTO_8023, 0), (PT_PROTO_VLAN, 22), (PT_PROTO_IPV4, 26)],
     [(PT_PROTO_8023, 0), (PT_PROTO_VLAN, 22), (PT_PROTO_IPV4, 26)],
     [(PT_PROTO_8023, 0), (PT_PROTO_VLAN, 22), (PT_PROTO_IPV4, 26)],
     [(PT_PROTO_8023, 0), (PT_PROTO_VLAN, 22), (PT_PROTO_IPV4, 26)],
     [(PT_PROTO_8023, 0), (PT_PROTO_VLAN, 22), (PT_PROTO_IPV4, 26)],
     [(PT_PROTO_ETHERNET, 0), (PT_PROTO_VLAN, 14), (PT_PROTO_IPV4, 22)],
     [(PT_PROTO_ETHERNET, 0), (PT_PROTO_VLAN, 14), (PT_PROTO_IPV4, 22)],
     [(PT_PROTO_ETHERNET, 0), (PT_PROTO_VLAN, 14), (PT_PROTO_IPV4, 22)],
     [(PT_PROTO_ETHERNET, 0), (PT_PROTO_VLAN, 14), (PT_PROTO_IPV4, 22)],
     [(PT_PROTO_ETHERNET, 0), (PT_PROTO_VLAN, 14), (PT_PROTO_IPV4, 22)],
     [(PT_PROTO_ETHERNET, 0), (PT_PROTO_VLAN, 14), (PT_PROTO_IPV4, 22)],
     [(PT_PROTO_ETHERNET, 0), (PT_PROTO_VLAN, 14), (PT_PROTO_IPV4, 22)],
     [(PT_PROTO_ETHERNET, 0), (PT_PROTO_VLAN, 14), (PT_PROTO_IPV4, 22)],
     [(PT_PROTO_ETHERNET, 0), (PT_PROTO_VLAN, 14), (PT_PROTO_IPV4, 22)],
     [(PT_PROTO_ETHERNET, 0), (PT_PROTO_VLAN, 14), (PT_PROTO_IPV4, 22)],
     [(PT_PROTO_ETHERNET, 0), (PT_PROTO_VLAN, 14), (PT_PROTO_IPV4, 22)],
     [(PT_PROTO_ETHERNET, 0), (PT_PROTO_VLAN, 14), (PT_PROTO_IPV4, 22)],
     [(PT_PROTO_ETHERNET, 0), (PT_PROTO_VLAN, 14), (PT_PROTO_IPV4, 22)],
     [(PT_PROTO_ETHERNET, 0), (PT_PROTO_VLAN, 14), (PT_PROTO_IPV4, 22)],
     [(PT_PROTO_ETHERNET, 0), (PT_PROTO_VLAN, 14), (PT_PROTO_IPV4, 22)],
     [(PT_PROTO_ETHERNET, 0), (PT_PROTO_VLAN, 14), (PT_PROTO_IPV4, 22)],
     [(PT_PROTO_8023, 0), (PT_PROTO_VLAN, 22), (PT_PROTO_IPV4, 30)],
     [(PT_PROTO_8023, 0), (PT_PROTO_VLAN, 22), (PT_PROTO_IPV4, 30)],
     [(PT_PROTO_8023, 0), (PT_PROTO_VLAN, 22), (PT_PROTO_IPV4, 30)],
     [(PT_PROTO_8023, 0), (PT_PROTO_VLAN, 22), (PT_PROTO_IPV4, 30)],
     [(PT_PROTO_8023, 0), (PT_PROTO_VLAN, 22), (PT_PROTO_IPV4, 30)],
     [(PT_PROTO_8023, 0), (PT_PROTO_VLAN, 22), (PT_PROTO_IPV4, 30)],
     [(PT_PROTO_8023, 0), (PT_PROTO_VLAN, 22), (PT_PROTO_IPV4, 30)],
     [(PT_PROTO_8023, 0), (PT_PROTO_VLAN, 22), (PT_PROTO_IPV4, 30)],
     [(PT_PROTO_8023, 0), (PT_PROTO_VLAN, 22), (PT_PROTO_IPV4, 30)],
     [(PT_PROTO_8023, 0), (PT_PROTO_VLAN, 22), (PT_PROTO_IPV4, 30)],
     [(PT_PROTO_8023, 0), (PT_PROTO_VLAN, 22), (PT_PROTO_IPV4, 30)],
     [(PT_PROTO_8023, 0), (PT_PROTO_VLAN, 22), (PT_PROTO_IPV4, 30)],
     [(PT_PROTO_8023, 0), (PT_PROTO_VLAN, 22), (PT_PROTO_IPV4, 30)],
     [(PT_PROTO_8023, 0), (PT_PROTO_VLAN, 22), (PT_PROTO_IPV4, 30)],
     [(PT_PROTO_8023, 0), (PT_PROTO_VLAN, 22), (PT_PROTO_IPV4, 30)],
     [(PT_PROTO_8023, 0), (PT_PROTO_VLAN, 22), (PT_PROTO_IPV4, 30)],
     [(PT_PROTO_ETHERNET, 0), (PT_PROTO_IPV4, 14), (PT_PROTO_ICMPV4, 34)],
     [(PT_PROTO_ETHERNET, 0), (PT_PROTO_IPV4, 14), (PT_PROTO_ICMPV4, 38)],
     [(PT_PROTO_ETHERNET, 0), (PT_PROTO_IPV4, 14), (PT_PROTO_ICMPV4, 42)],
     [(PT_PROTO_ETHERNET, 0), (PT_PROTO_IPV4, 14), (PT_PROTO_ICMPV4, 46)],
     [(PT_PROTO_ETHERNET, 0), (PT_PROTO_IPV4, 14), (PT_PROTO_ICMPV4, 50)],
     [(PT_PROTO_ETHERNET, 0), (PT_PROTO_IPV4, 14), (PT_PROTO_ICMPV4, 54)],
     [(PT_PROTO_ETHERNET, 0), (PT_PROTO_IPV4, 14), (PT_PROTO_ICMPV4, 58)],
     [(PT_PROTO_ETHERNET, 0), (PT_PROTO_IPV4, 14), (PT_PROTO_ICMPV4, 62)],
     [(PT_PROTO_ETHERNET, 0), (PT_PROTO_IPV4, 14), (PT_PROTO_ICMPV4, 66)],
     [(PT_PROTO_ETHERNET, 0), (PT_PROTO_IPV4, 14), (PT_PROTO_ICMPV4, 70)],
     [(PT_PROTO_ETHERNET, 0), (PT_PROTO_IPV4, 14), (PT_PROTO_ICMPV4, 74)],
     [(PT_PROTO_ETHERNET, 0), (PT_PROTO_IPV4, 14), (PT_PROTO_ICMPV4, 78)],
     [(PT_PROTO_ETHERNET, 0), (PT_PROTO_IPV4, 14), (PT_PROTO_ICMPV4, 82)],
     [(PT_PROTO_ETHERNET, 0), (PT_PROTO_IPV4, 14), (PT_PROTO_ICMPV4, 86)],
     [(PT_PROTO_ETHERNET, 0), (PT_PROTO_IPV4, 14), (PT_PROTO_ICMPV4, 90)],
     [(PT_PROTO_ETHERNET, 0), (PT_PROTO_IPV4, 14), (PT_PROTO_ICMPV4, 94)],
     [(PT_PROTO_ETHERNET, 0), (PT_PROTO_ISID, 14), (PT_PROTO_IPV4, 18), (PT_PROTO_ICMPV4, 38)],
     [(PT_PROTO_ETHERNET, 0), (PT_PROTO_ISID, 14), (PT_PROTO_IPV4, 18), (PT_PROTO_ICMPV4, 42)],
     [(PT_PROTO_ETHERNET, 0), (PT_PROTO_ISID, 14), (PT_PROTO_IPV4, 18), (PT_PROTO_ICMPV4, 46)],
     [(PT_PROTO_ETHERNET, 0), (PT_PROTO_ISID, 14), (PT_PROTO_IPV4, 18), (PT_PROTO_ICMPV4, 50)],
     [(PT_PROTO_ETHERNET, 0), (PT_PROTO_ISID, 14), (PT_PROTO_IPV4, 18), (PT_PROTO_ICMPV4, 54)],
     [(PT_PROTO_ETHERNET, 0), (PT_PROTO_ISID, 14), (PT_PROTO_IPV4, 18), (PT_PROTO_ICMPV4, 58)],
     [(PT_PROTO_ETHERNET, 0), (PT_PROTO_ISID, 14), (PT_PROTO_IPV4, 18), (PT_PROTO_ICMPV4, 62)],
     [(PT_PROTO_ETHERNET, 0), (PT_PROTO_ISID, 14), (PT_PROTO_IPV4, 18), (PT_PROTO_ICMPV4, 66)],
     [(PT_PROTO_ETHERNET, 0), (PT_PROTO_ISID, 14), (PT_PROTO_IPV4, 18), (PT_PROTO_ICMPV4, 70)],
     [(PT_PROTO_ETHERNET, 0), (PT_PROTO_ISID, 14), (PT_PROTO_IPV4, 18), (PT_PROTO_ICMPV4, 74)],
     [(PT_PROTO_ETHERNET, 0), (PT_PROTO_ISID, 14), (PT_PROTO_IPV4, 18), (PT_PROTO_ICMPV4, 78)],
     [(PT_PROTO_ETHERNET, 0), (PT_PROTO_ISID, 14), (PT_PROTO_IPV4, 18), (PT_PROTO_ICMPV4, 82)],
     [(PT_PROTO_ETHERNET, 0), (PT_PROTO_ISID, 14), (PT_PROTO_IPV4, 18), (PT_PROTO_ICMPV4, 86)],
     [(PT_PROTO_ETHERNET, 0), (PT_PROTO_ISID, 14), (PT_PROTO_IPV4, 18), (PT_PROTO_ICMPV4, 90)],
     [(PT_PROTO_ETHERNET, 0), (PT_PROTO_ISID, 14), (PT_PROTO_IPV4, 18), (PT_PROTO_ICMPV4, 94)],
     [(PT_PROTO_ETHERNET, 0), (PT_PROTO_ISID, 14), (PT_PROTO_IPV4, 18), (PT_PROTO_ICMPV4, 98)],
     [(PT_PROTO_ETHERNET, 0), (PT_PROTO_VLAN, 14), (PT_PROTO_ISID, 18), (PT_PROTO_IPV4, 22), (PT_PROTO_ICMPV4, 42)],
     [(PT_PROTO_ETHERNET, 0), (PT_PROTO_VLAN, 14), (PT_PROTO_ISID, 18), (PT_PROTO_IPV4, 22), (PT_PROTO_ICMPV4, 46)]]"

definition offsets_table_4 :: "(protocol \<times> nat) list list" where
  "offsets_table_4 =
    [[(PT_PROTO_ETHERNET, 0), (PT_PROTO_VLAN, 14), (PT_PROTO_ISID, 18), (PT_PROTO_IPV4, 22), (PT_PROTO_ICMPV4, 50)],
     [(PT_PROTO_ETHERNET, 0), (PT_PROTO_VLAN, 14), (PT_PROTO_ISID, 18), (PT_PROTO_IPV4, 22), (PT_PROTO_ICMPV4, 54)],
     [(PT_PROTO_ETHERNET, 0), (PT_PROTO_VLAN, 14), (PT_PROTO_ISID, 18), (PT_PROTO_IPV4, 22), (PT_PROTO_ICMPV4, 58)],
     [(PT_PROTO_ETHERNET, 0), (PT_PROTO_VLAN, 14), (PT_PROTO_ISID, 18), (PT_PROTO_IPV4, 22), (PT_PROTO_ICMPV4, 62)],
     [(PT_PROTO_ETHERNET, 0), (PT_PROTO_VLAN, 14), (PT_PROTO_ISID, 18), (PT_PROTO_IPV4, 22), (PT_PROTO_ICMPV4, 66)],
     [(PT_PROTO_ETHERNET, 0), (PT_PROTO_VLAN, 14), (PT_PROTO_ISID, 18), (PT_PROTO_IPV4, 22), (PT_PROTO_ICMPV4, 70)],
     [(PT_PROTO_ETHERNET, 0), (PT_PROTO_VLAN, 14), (PT_PROTO_ISID, 18), (PT_PROTO_IPV4, 22), (PT_PROTO_ICMPV4, 74)],
     [(PT_PROTO_ETHERNET, 0), (PT_PROTO_VLAN, 14), (PT_PROTO_ISID, 18), (PT_PROTO_IPV4, 22), (PT_PROTO_ICMPV4, 78)],
     [(PT_PROTO_ETHERNET, 0), (PT_PROTO_VLAN, 14), (PT_PROTO_ISID, 18), (PT_PROTO_IPV4, 22), (PT_PROTO_ICMPV4, 82)],
     [(PT_PROTO_ETHERNET, 0), (PT_PROTO_VLAN, 14), (PT_PROTO_ISID, 18), (PT_PROTO_IPV4, 22), (PT_PROTO_ICMPV4, 86)],
     [(PT_PROTO_ETHERNET, 0), (PT_PROTO_VLAN, 14), (PT_PROTO_ISID, 18), (PT_PROTO_IPV4, 22), (PT_PROTO_ICMPV4, 90)],
     [(PT_PROTO_ETHERNET, 0), (PT_PROTO_VLAN, 14), (PT_PROTO_ISID, 18), (PT_PROTO_IPV4, 22), (PT_PROTO_ICMPV4, 94)],
     [(PT_PROTO_ETHERNET, 0), (PT_PROTO_VLAN, 14), (PT_PROTO_ISID, 18), (PT_PROTO_IPV4, 22), (PT_PROTO_ICMPV4, 98)],
     [(PT_PROTO_ETHERNET, 0), (PT_PROTO_VLAN, 14), (PT_PROTO_ISID, 18), (PT_PROTO_IPV4, 22), (PT_PROTO_ICMPV4, 102)],
     [(PT_PROTO_8023, 0), (PT_PROTO_IPV4, 22), (PT_PROTO_ICMPV4, 42)],
     [(PT_PROTO_8023, 0), (PT_PROTO_IPV4, 22), (PT_PROTO_ICMPV4, 46)],
     [(PT_PROTO_8023, 0), (PT_PROTO_IPV4, 22), (PT_PROTO_ICMPV4, 50)],
     [(PT_PROTO_8023, 0), (PT_PROTO_IPV4, 22), (PT_PROTO_ICMPV4, 54)],
     [(PT_PROTO_8023, 0), (PT_PROTO_IPV4, 22), (PT_PROTO_ICMPV4, 58)],
     [(PT_PROTO_8023, 0), (PT_PROTO_IPV4, 22), (PT_PROTO_ICMPV4, 62)],
     [(PT_PROTO_8023, 0), (PT_PROTO_IPV4, 22), (PT_PROTO_ICMPV4, 66)],
     [(PT_PROTO_8023, 0), (PT_PROTO_IPV4, 22), (PT_PROTO_ICMPV4, 70)],
     [(PT_PROTO_8023, 0), (PT_PROTO_IPV4, 22), (PT_PROTO_ICMPV4, 74)],
     [(PT_PROTO_8023, 0), (PT_PROTO_IPV4, 22), (PT_PROTO_ICMPV4, 78)],
     [(PT_PROTO_8023, 0), (PT_PROTO_IPV4, 22), (PT_PROTO_ICMPV4, 82)],
     [(PT_PROTO_8023, 0), (PT_PROTO_IPV4, 22), (PT_PROTO_ICMPV4, 86)],
     [(PT_PROTO_8023, 0), (PT_PROTO_IPV4, 22), (PT_PROTO_ICMPV4, 90)],
     [(PT_PROTO_8023, 0), (PT_PROTO_IPV4, 22), (PT_PROTO_ICMPV4, 94)],
     [(PT_PROTO_8023, 0), (PT_PROTO_IPV4, 22), (PT_PROTO_ICMPV4, 98)],
     [(PT_PROTO_8023, 0), (PT_PROTO_IPV4, 22), (PT_PROTO_ICMPV4, 102)],
     [(PT_PROTO_ETHERNET, 0), (PT_PROTO_VLAN, 14), (PT_PROTO_IPV4, 18), (PT_PROTO_ICMPV4, 38)],
     [(PT_PROTO_ETHERNET, 0), (PT_PROTO_VLAN, 14), (PT_PROTO_IPV4, 18), (PT_PROTO_ICMPV4, 42)],
     [(PT_PROTO_ETHERNET, 0), (PT_PROTO_VLAN, 14), (PT_PROTO_IPV4, 18), (PT_PROTO_ICMPV4, 46)],
     [(PT_PROTO_ETHERNET, 0), (PT_PROTO_VLAN, 14), (PT_PROTO_IPV4, 18), (PT_PROTO_ICMPV4, 50)],
     [(PT_PROTO_ETHERNET, 0), (PT_PROTO_VLAN, 14), (PT_PROTO_IPV4, 18), (PT_PROTO_ICMPV4, 54)],
     [(PT_PROTO_ETHERNET, 0), (PT_PROTO_VLAN, 14), (PT_PROTO_IPV4, 18), (PT_PROTO_ICMPV4, 58)],
     [(PT_PROTO_ETHERNET, 0), (PT_PROTO_VLAN, 14), (PT_PROTO_IPV4, 18), (PT_PROTO_ICMPV4, 62)],
     [(PT_PROTO_ETHERNET, 0), (PT_PROTO_VLAN, 14), (PT_PROTO_IPV4, 18), (PT_PROTO_ICMPV4, 66)],
     [(PT_PROTO_ETHERNET, 0), (PT_PROTO_VLAN, 14), (PT_PROTO_IPV4, 18), (PT_PROTO_ICMPV4, 70)],
     [(PT_PROTO_ETHERNET, 0), (PT_PROTO_VLAN, 14), (PT_PROTO_IPV4, 18), (PT_PROTO_ICMPV4, 74)],
     [(PT_PROTO_ETHERNET, 0), (PT_PROTO_VLAN, 14), (PT_PROTO_IPV4, 18), (PT_PROTO_ICMPV4, 78)],
     [(PT_PROTO_ETHERNET, 0), (PT_PROTO_VLAN, 14), (PT_PROTO_IPV4, 18), (PT_PROTO_ICMPV4, 82)],
     [(PT_PROTO_ETHERNET, 0), (PT_PROTO_VLAN, 14), (PT_PROTO_IPV4, 18), (PT_PROTO_ICMPV4, 86)],
     [(PT_PROTO_ETHERNET, 0), (PT_PROTO_VLAN, 14), (PT_PROTO_IPV4, 18), (PT_PROTO_ICMPV4, 90)],
     [(PT_PROTO_ETHERNET, 0), (PT_PROTO_VLAN, 14), (PT_PROTO_IPV4, 18), (PT_PROTO_ICMPV4, 94)],
     [(PT_PROTO_ETHERNET, 0), (PT_PROTO_VLAN, 14), (PT_PROTO_IPV4, 18), (PT_PROTO_ICMPV4, 98)],
     [(PT_PROTO_8023, 0), (PT_PROTO_VLAN, 22), (PT_PROTO_IPV4, 26), (PT_PROTO_ICMPV4, 46)],
     [(PT_PROTO_8023, 0), (PT_PROTO_VLAN, 22), (PT_PROTO_IPV4, 26), (PT_PROTO_ICMPV4, 50)],
     [(PT_PROTO_8023, 0), (PT_PROTO_VLAN, 22), (PT_PROTO_IPV4, 26), (PT_PROTO_ICMPV4, 54)],
     [(PT_PROTO_8023, 0), (PT_PROTO_VLAN, 22), (PT_PROTO_IPV4, 26), (PT_PROTO_ICMPV4, 58)],
     [(PT_PROTO_8023, 0), (PT_PROTO_VLAN, 22), (PT_PROTO_IPV4, 26), (PT_PROTO_ICMPV4, 62)],
     [(PT_PROTO_8023, 0), (PT_PROTO_VLAN, 22), (PT_PROTO_IPV4, 26), (PT_PROTO_ICMPV4, 66)],
     [(PT_PROTO_8023, 0), (PT_PROTO_VLAN, 22), (PT_PROTO_IPV4, 26), (PT_PROTO_ICMPV4, 70)],
     [(PT_PROTO_8023, 0), (PT_PROTO_VLAN, 22), (PT_PROTO_IPV4, 26), (PT_PROTO_ICMPV4, 74)],
     [(PT_PROTO_8023, 0), (PT_PROTO_VLAN, 22), (PT_PROTO_IPV4, 26), (PT_PROTO_ICMPV4, 78)],
     [(PT_PROTO_8023, 0), (PT_PROTO_VLAN, 22), (PT_PROTO_IPV4, 26), (PT_PROTO_ICMPV4, 82)],
     [(PT_PROTO_8023, 0), (PT_PROTO_VLAN, 22), (PT_PROTO_IPV4, 26), (PT_PROTO_ICMPV4, 86)],
     [(PT_PROTO_8023, 0), (PT_PROTO_VLAN, 22), (PT_PROTO_IPV4, 26), (PT_PROTO_ICMPV4, 90)],
     [(PT_PROTO_8023, 0), (PT_PROTO_VLAN, 22), (PT_PROTO_IPV4, 26), (PT_PROTO_ICMPV4, 94)],
     [(PT_PROTO_8023, 0), (PT_PROTO_VLAN, 22), (PT_PROTO_IPV4, 26), (PT_PROTO_ICMPV4, 98)],
     [(PT_PROTO_8023, 0), (PT_PROTO_VLAN, 22), (PT_PROTO_IPV4, 26), (PT_PROTO_ICMPV4, 102)],
     [(PT_PROTO_8023, 0), (PT_PROTO_VLAN, 22), (PT_PROTO_IPV4, 26), (PT_PROTO_ICMPV4, 106)],
     [(PT_PROTO_ETHERNET, 0), (PT_PROTO_VLAN, 14), (PT_PROTO_IPV4, 22), (PT_PROTO_ICMPV4, 42)],
     [(PT_PROTO_ETHERNET, 0), (PT_PROTO_VLAN, 14), (PT_PROTO_IPV4, 22), (PT_PROTO_ICMPV4, 46)],
     [(PT_PROTO_ETHERNET, 0), (PT_PROTO_VLAN, 14), (PT_PROTO_IPV4, 22), (PT_PROTO_ICMPV4, 50)],
     [(PT_PROTO_ETHERNET, 0), (PT_PROTO_VLAN, 14), (PT_PROTO_IPV4, 22), (PT_PROTO_ICMPV4, 54)],
     [(PT_PROTO_ETHERNET, 0), (PT_PROTO_VLAN, 14), (PT_PROTO_IPV4, 22), (PT_PROTO_ICMPV4, 58)],
     [(PT_PROTO_ETHERNET, 0), (PT_PROTO_VLAN, 14), (PT_PROTO_IPV4, 22), (PT_PROTO_ICMPV4, 62)],
     [(PT_PROTO_ETHERNET, 0), (PT_PROTO_VLAN, 14), (PT_PROTO_IPV4, 22), (PT_PROTO_ICMPV4, 66)],
     [(PT_PROTO_ETHERNET, 0), (PT_PROTO_VLAN, 14), (PT_PROTO_IPV4, 22), (PT_PROTO_ICMPV4, 70)],
     [(PT_PROTO_ETHERNET, 0), (PT_PROTO_VLAN, 14), (PT_PROTO_IPV4, 22), (PT_PROTO_ICMPV4, 74)],
     [(PT_PROTO_ETHERNET, 0), (PT_PROTO_VLAN, 14), (PT_PROTO_IPV4, 22), (PT_PROTO_ICMPV4, 78)],
     [(PT_PROTO_ETHERNET, 0), (PT_PROTO_VLAN, 14), (PT_PROTO_IPV4, 22), (PT_PROTO_ICMPV4, 82)],
     [(PT_PROTO_ETHERNET, 0), (PT_PROTO_VLAN, 14), (PT_PROTO_IPV4, 22), (PT_PROTO_ICMPV4, 86)],
     [(PT_PROTO_ETHERNET, 0), (PT_PROTO_VLAN, 14), (PT_PROTO_IPV4, 22), (PT_PROTO_ICMPV4, 90)],
     [(PT_PROTO_ETHERNET, 0), (PT_PROTO_VLAN, 14), (PT_PROTO_IPV4, 22), (PT_PROTO_ICMPV4, 94)],
     [(PT_PROTO_ETHERNET, 0), (PT_PROTO_VLAN, 14), (PT_PROTO_IPV4, 22), (PT_PROTO_ICMPV4, 98)],
     [(PT_PROTO_ETHERNET, 0), (PT_PROTO_VLAN, 14), (PT_PROTO_IPV4, 22), (PT_PROTO_ICMPV4, 102)],
     [(PT_PROTO_8023, 0), (PT_PROTO_VLAN, 22), (PT_PROTO_IPV4, 30), (PT_PROTO_ICMPV4, 50)],
     [(PT_PROTO_8023, 0), (PT_PROTO_VLAN, 22), (PT_PROTO_IPV4, 30), (PT_PROTO_ICMPV4, 54)],
     [(PT_PROTO_8023, 0), (PT_PROTO_VLAN, 22), (PT_PROTO_IPV4, 30), (PT_PROTO_ICMPV4, 58)],
     [(PT_PROTO_8023, 0), (PT_PROTO_VLAN, 22), (PT_PROTO_IPV4, 30), (PT_PROTO_ICMPV4, 62)],
     [(PT_PROTO_8023, 0), (PT_PROTO_VLAN, 22), (PT_PROTO_IPV4, 30), (PT_PROTO_ICMPV4, 66)],
     [(PT_PROTO_8023, 0), (PT_PROTO_VLAN, 22), (PT_PROTO_IPV4, 30), (PT_PROTO_ICMPV4, 70)],
     [(PT_PROTO_8023, 0), (PT_PROTO_VLAN, 22), (PT_PROTO_IPV4, 30), (PT_PROTO_ICMPV4, 74)],
     [(PT_PROTO_8023, 0), (PT_PROTO_VLAN, 22), (PT_PROTO_IPV4, 30), (PT_PROTO_ICMPV4, 78)],
     [(PT_PROTO_8023, 0), (PT_PROTO_VLAN, 22), (PT_PROTO_IPV4, 30), (PT_PROTO_ICMPV4, 82)],
     [(PT_PROTO_8023, 0), (PT_PROTO_VLAN, 22), (PT_PROTO_IPV4, 30), (PT_PROTO_ICMPV4, 86)],
     [(PT_PROTO_8023, 0), (PT_PROTO_VLAN, 22), (PT_PROTO_IPV4, 30), (PT_PROTO_ICMPV4, 90)],
     [(PT_PROTO_8023, 0), (PT_PROTO_VLAN, 22), (PT_PROTO_IPV4, 30), (PT_PROTO_ICMPV4, 94)],
     [(PT_PROTO_8023, 0), (PT_PROTO_VLAN, 22), (PT_PROTO_IPV4, 30), (PT_PROTO_ICMPV4, 98)],
     [(PT_PROTO_8023, 0), (PT_PROTO_VLAN, 22), (PT_PROTO_IPV4, 30), (PT_PROTO_ICMPV4, 102)],
     [(PT_PROTO_8023, 0), (PT_PROTO_VLAN, 22), (PT_PROTO_IPV4, 30), (PT_PROTO_ICMPV4, 106)],
     [(PT_PROTO_8023, 0), (PT_PROTO_VLAN, 22), (PT_PROTO_IPV4, 30), (PT_PROTO_ICMPV4, 110)],
     [(PT_PROTO_ETHERNET, 0), (PT_PROTO_IPV4, 14), (PT_PROTO_TCP, 34)],
     [(PT_PROTO_ETHERNET, 0), (PT_PROTO_IPV4, 14), (PT_PROTO_TCP, 38)],
     [(PT_PROTO_ETHERNET, 0), (PT_PROTO_IPV4, 14), (PT_PROTO_TCP, 42)],
     [(PT_PROTO_ETHERNET, 0), (PT_PROTO_IPV4, 14), (PT_PROTO_TCP, 46)],
     [(PT_PROTO_ETHERNET, 0), (PT_PROTO_IPV4, 14), (PT_PROTO_TCP, 50)],
     [(PT_PROTO_ETHERNET, 0), (PT_PROTO_IPV4, 14), (PT_PROTO_TCP, 54)],
     [(PT_PROTO_ETHERNET, 0), (PT_PROTO_IPV4, 14), (PT_PROTO_TCP, 58)],
     [(PT_PROTO_ETHERNET, 0), (PT_PROTO_IPV4, 14), (PT_PROTO_TCP, 62)],
     [(PT_PROTO_ETHERNET, 0), (PT_PROTO_IPV4, 14), (PT_PROTO_TCP, 66)],
     [(PT_PROTO_ETHERNET, 0), (PT_PROTO_IPV4, 14), (PT_PROTO_TCP, 70)],
     [(PT_PROTO_ETHERNET, 0), (PT_PROTO_IPV4, 14), (PT_PROTO_TCP, 74)],
     [(PT_PROTO_ETHERNET, 0), (PT_PROTO_IPV4, 14), (PT_PROTO_TCP, 78)],
     [(PT_PROTO_ETHERNET, 0), (PT_PROTO_IPV4, 14), (PT_PROTO_TCP, 82)],
     [(PT_PROTO_ETHERNET, 0), (PT_PROTO_IPV4, 14), (PT_PROTO_TCP, 86)],
     [(PT_PROTO_ETHERNET, 0), (PT_PROTO_IPV4, 14), (PT_PROTO_TCP, 90)],
     [(PT_PROTO_ETHERNET, 0), (PT_PROTO_IPV4, 14), (PT_PROTO_TCP, 94)],
     [(PT_PROTO_ETHERNET, 0), (PT_PROTO_ISID, 14), (PT_PROTO_IPV4, 18), (PT_PROTO_TCP, 38)],
     [(PT_PROTO_ETHERNET, 0), (PT_PROTO_ISID, 14), (PT_PROTO_IPV4, 18), (PT_PROTO_TCP, 42)],
     [(PT_PROTO_ETHERNET, 0), (PT_PROTO_ISID, 14), (PT_PROTO_IPV4, 18), (PT_PROTO_TCP, 46)],
     [(PT_PROTO_ETHERNET, 0), (PT_PROTO_ISID, 14), (PT_PROTO_IPV4, 18), (PT_PROTO_TCP, 50)],
     [(PT_PROTO_ETHERNET, 0), (PT_PROTO_ISID, 14), (PT_PROTO_IPV4, 18), (PT_PROTO_TCP, 54)],
     [(PT_PROTO_ETHERNET, 0), (PT_PROTO_ISID, 14), (PT_PROTO_IPV4, 18), (PT_PROTO_TCP, 58)],
     [(PT_PROTO_ETHERNET, 0), (PT_PROTO_ISID, 14), (PT_PROTO_IPV4, 18), (PT_PROTO_TCP, 62)],
     [(PT_PROTO_ETHERNET, 0), (PT_PROTO_ISID, 14), (PT_PROTO_IPV4, 18), (PT_PROTO_TCP, 66)],
     [(PT_PROTO_ETHERNET, 0), (PT_PROTO_ISID, 14), (PT_PROTO_IPV4, 18), (PT_PROTO_TCP, 70)],
     [(PT_PROTO_ETHERNET, 0), (PT_PROTO_ISID, 14), (PT_PROTO_IPV4, 18), (PT_PROTO_TCP, 74)],
     [(PT_PROTO_ETHERNET, 0), (PT_PROTO_ISID, 14), (PT_PROTO_IPV4, 18), (PT_PROTO_TCP, 78)],
     [(PT_PROTO_ETHERNET, 0), (PT_PROTO_ISID, 14), (PT_PROTO_IPV4, 18), (PT_PROTO_TCP, 82)],
     [(PT_PROTO_ETHERNET, 0), (PT_PROTO_ISID, 14), (PT_PROTO_IPV4, 18), (PT_PROTO_TCP, 86)],
     [(PT_PROTO_ETHERNET, 0), (PT_PROTO_ISID, 14), (PT_PROTO_IPV4, 18), (PT_PROTO_TCP, 90)],
     [(PT_PROTO_ETHERNET, 0), (PT_PROTO_ISID, 14), (PT_PROTO_IPV4, 18), (PT_PROTO_TCP, 94)],
     [(PT_PROTO_ETHERNET, 0), (PT_PROTO_ISID, 14), (PT_PROTO_IPV4, 18), (PT_PROTO_TCP, 98)],
     [(PT_PROTO_ETHERNET, 0), (PT_PROTO_VLAN, 14), (PT_PROTO_ISID, 18), (PT_PROTO_IPV4, 22), (PT_PROTO_TCP, 42)],
     [(PT_PROTO_ETHERNET, 0), (PT_PROTO_VLAN, 14), (PT_PROTO_ISID, 18), (PT_PROTO_IPV4, 22), (PT_PROTO_TCP, 46)],
     [(PT_PROTO_ETHERNET, 0), (PT_PROTO_VLAN, 14), (PT_PROTO_ISID, 18), (PT_PROTO_IPV4, 22), (PT_PROTO_TCP, 50)],
     [(PT_PROTO_ETHERNET, 0), (PT_PROTO_VLAN, 14), (PT_PROTO_ISID, 18), (PT_PROTO_IPV4, 22), (PT_PROTO_TCP, 54)],
     [(PT_PROTO_ETHERNET, 0), (PT_PROTO_VLAN, 14), (PT_PROTO_ISID, 18), (PT_PROTO_IPV4, 22), (PT_PROTO_TCP, 58)],
     [(PT_PROTO_ETHERNET, 0), (PT_PROTO_VLAN, 14), (PT_PROTO_ISID, 18), (PT_PROTO_IPV4, 22), (PT_PROTO_TCP, 62)],
     [(PT_PROTO_ETHERNET, 0), (PT_PROTO_VLAN, 14), (PT_PROTO_ISID, 18), (PT_PROTO_IPV4, 22), (PT_PROTO_TCP, 66)],
     [(PT_PROTO_ETHERNET, 0), (PT_PROTO_VLAN, 14), (PT_PROTO_ISID, 18), (PT_PROTO_IPV4, 22), (PT_PROTO_TCP, 70)],
     [(PT_PROTO_ETHERNET, 0), (PT_PROTO_VLAN, 14), (PT_PROTO_ISID, 18), (PT_PROTO_IPV4, 22), (PT_PROTO_TCP, 74)],
     [(PT_PROTO_ETHERNET, 0), (PT_PROTO_VLAN, 14), (PT_PROTO_ISID, 18), (PT_PROTO_IPV4, 22), (PT_PROTO_TCP, 78)],
     [(PT_PROTO_ETHERNET, 0), (PT_PROTO_VLAN, 14), (PT_PROTO_ISID, 18), (PT_PROTO_IPV4, 22), (PT_PROTO_TCP, 82)],
     [(PT_PROTO_ETHERNET, 0), (PT_PROTO_VLAN, 14), (PT_PROTO_ISID, 18), (PT_PROTO_IPV4, 22), (PT_PROTO_TCP, 86)],
     [(PT_PROTO_ETHERNET, 0), (PT_PROTO_VLAN, 14), (PT_PROTO_ISID, 18), (PT_PROTO_IPV4, 22), (PT_PROTO_TCP, 90)],
     [(PT_PROTO_ETHERNET, 0), (PT_PROTO_VLAN, 14), (PT_PROTO_ISID, 18), (PT_PROTO_IPV4, 22), (PT_PROTO_TCP, 94)],
     [(PT_PROTO_ETHERNET, 0), (PT_PROTO_VLAN, 14), (PT_PROTO_ISID, 18), (PT_PROTO_IPV4, 22), (PT_PROTO_TCP, 98)],
     [(PT_PROTO_ETHERNET, 0), (PT_PROTO_VLAN, 14), (PT_PROTO_ISID, 18), (PT_PROTO_IPV4, 22), (PT_PROTO_TCP, 102)],
     [(PT_PROTO_8023, 0), (PT_PROTO_IPV4, 22), (PT_PROTO_TCP, 42)],
     [(PT_PROTO_8023, 0), (PT_PROTO_IPV4, 22), (PT_PROTO_TCP, 46)],
     [(PT_PROTO_8023, 0), (PT_PROTO_IPV4, 22), (PT_PROTO_TCP, 50)],
     [(PT_PROTO_8023, 0), (PT_PROTO_IPV4, 22), (PT_PROTO_TCP, 54)],
     [(PT_PROTO_8023, 0), (PT_PROTO_IPV4, 22), (PT_PROTO_TCP, 58)],
     [(PT_PROTO_8023, 0), (PT_PROTO_IPV4, 22), (PT_PROTO_TCP, 62)],
     [(PT_PROTO_8023, 0), (PT_PROTO_IPV4, 22), (PT_PROTO_TCP, 66)],
     [(PT_PROTO_8023, 0), (PT_PROTO_IPV4, 22), (PT_PROTO_TCP, 70)]]"

definition offsets_table_5 :: "(protocol \<times> nat) list list" where
  "offsets_table_5 =
    [[(PT_PROTO_8023, 0), (PT_PROTO_IPV4, 22), (PT_PROTO_TCP, 74)],
     [(PT_PROTO_8023, 0), (PT_PROTO_IPV4, 22), (PT_PROTO_TCP, 78)],
     [(PT_PROTO_8023, 0), (PT_PROTO_IPV4, 22), (PT_PROTO_TCP, 82)],
     [(PT_PROTO_8023, 0), (PT_PROTO_IPV4, 22), (PT_PROTO_TCP, 86)],
     [(PT_PROTO_8023, 0), (PT_PROTO_IPV4, 22), (PT_PROTO_TCP, 90)],
     [(PT_PROTO_8023, 0), (PT_PROTO_IPV4, 22), (PT_PROTO_TCP, 94)],
     [(PT_PROTO_8023, 0), (PT_PROTO_IPV4, 22), (PT_PROTO_TCP, 98)],
     [(PT_PROTO_8023, 0), (PT_PROTO_IPV4, 22), (PT_PROTO_TCP, 102)],
     [(PT_PROTO_ETHERNET, 0), (PT_PROTO_VLAN, 14), (PT_PROTO_IPV4, 18), (PT_PROTO_TCP, 38)],
     [(PT_PROTO_ETHERNET, 0), (PT_PROTO_VLAN, 14), (PT_PROTO_IPV4, 18), (PT_PROTO_TCP, 42)],
     [(PT_PROTO_ETHERNET, 0), (PT_PROTO_VLAN, 14), (PT_PROTO_IPV4, 18), (PT_PROTO_TCP, 46)],
     [(PT_PROTO_ETHERNET, 0), (PT_PROTO_VLAN, 14), (PT_PROTO_IPV4, 18), (PT_PROTO_TCP, 50)],
     [(PT_PROTO_ETHERNET, 0), (PT_PROTO_VLAN, 14), (PT_PROTO_IPV4, 18), (PT_PROTO_TCP, 54)],
     [(PT_PROTO_ETHERNET, 0), (PT_PROTO_VLAN, 14), (PT_PROTO_IPV4, 18), (PT_PROTO_TCP, 58)],
     [(PT_PROTO_ETHERNET, 0), (PT_PROTO_VLAN, 14), (PT_PROTO_IPV4, 18), (PT_PROTO_TCP, 62)],
     [(PT_PROTO_ETHERNET, 0), (PT_PROTO_VLAN, 14), (PT_PROTO_IPV4, 18), (PT_PROTO_TCP, 66)],
     [(PT_PROTO_ETHERNET, 0), (PT_PROTO_VLAN, 14), (PT_PROTO_IPV4, 18), (PT_PROTO_TCP, 70)],
     [(PT_PROTO_ETHERNET, 0), (PT_PROTO_VLAN, 14), (PT_PROTO_IPV4, 18), (PT_PROTO_TCP, 74)],
     [(PT_PROTO_ETHERNET, 0), (PT_PROTO_VLAN, 14), (PT_PROTO_IPV4, 18), (PT_PROTO_TCP, 78)],
     [(PT_PROTO_ETHERNET, 0), (PT_PROTO_VLAN, 14), (PT_PROTO_IPV4, 18), (PT_PROTO_TCP, 82)],
     [(PT_PROTO_ETHERNET, 0), (PT_PROTO_VLAN, 14), (PT_PROTO_IPV4, 18), (PT_PROTO_TCP, 86)],
     [(PT_PROTO_ETHERNET, 0), (PT_PROTO_VLAN, 14), (PT_PROTO_IPV4, 18), (PT_PROTO_TCP, 90)],
     [(PT_PROTO_ETHERNET, 0), (PT_PROTO_VLAN, 14), (PT_PROTO_IPV4, 18), (PT_PROTO_TCP, 94)],
     [(PT_PROTO_ETHERNET, 0), (PT_PROTO_VLAN, 14), (PT_PROTO_IPV4, 18), (PT_PROTO_TCP, 98)],
     [(PT_PROTO_8023, 0), (PT_PROTO_VLAN, 22), (PT_PROTO_IPV4, 26), (PT_PROTO_TCP, 46)],
     [(PT_PROTO_8023, 0), (PT_PROTO_VLAN, 22), (PT_PROTO_IPV4, 26), (PT_PROTO_TCP, 50)],
     [(PT_PROTO_8023, 0), (PT_PROTO_VLAN, 22), (PT_PROTO_IPV4, 26), (PT_PROTO_TCP, 54)],
     [(PT_PROTO_8023, 0), (PT_PROTO_VLAN, 22), (PT_PROTO_IPV4, 26), (PT_PROTO_TCP, 58)],
     [(PT_PROTO_8023, 0), (PT_PROTO_VLAN, 22), (PT_PROTO_IPV4, 26), (PT_PROTO_TCP, 62)],
     [(PT_PROTO_8023, 0), (PT_PROTO_VLAN, 22), (PT_PROTO_IPV4, 26), (PT_PROTO_TCP, 66)],
     [(PT_PROTO_8023, 0), (PT_PROTO_VLAN, 22), (PT_PROTO_IPV4, 26), (PT_PROTO_TCP, 70)],
     [(PT_PROTO_8023, 0), (PT_PROTO_VLAN, 22), (PT_PROTO_IPV4, 26), (PT_PROTO_TCP, 74)],
     [(PT_PROTO_8023, 0), (PT_PROTO_VLAN, 22), (PT_PROTO_IPV4, 26), (PT_PROTO_TCP, 78)],
     [(PT_PROTO_8023, 0), (PT_PROTO_VLAN, 22), (PT_PROTO_IPV4, 26), (PT_PROTO_TCP, 82)],
     [(PT_PROTO_8023, 0), (PT_PROTO_VLAN, 22), (PT_PROTO_IPV4, 26), (PT_PROTO_TCP, 86)],
     [(PT_PROTO_8023, 0), (PT_PROTO_VLAN, 22), (PT_PROTO_IPV4, 26), (PT_PROTO_TCP, 90)],
     [(PT_PROTO_8023, 0), (PT_PROTO_VLAN, 22), (PT_PROTO_IPV4, 26), (PT_PROTO_TCP, 94)],
     [(PT_PROTO_8023, 0), (PT_PROTO_VLAN, 22), (PT_PROTO_IPV4, 26), (PT_PROTO_TCP, 98)],
     [(PT_PROTO_8023, 0), (PT_PROTO_VLAN, 22), (PT_PROTO_IPV4, 26), (PT_PROTO_TCP, 102)],
     [(PT_PROTO_8023, 0), (PT_PROTO_VLAN, 22), (PT_PROTO_IPV4, 26), (PT_PROTO_TCP, 106)],
     [(PT_PROTO_ETHERNET, 0), (PT_PROTO_VLAN, 14), (PT_PROTO_IPV4, 22), (PT_PROTO_TCP, 42)],
     [(PT_PROTO_ETHERNET, 0), (PT_PROTO_VLAN, 14), (PT_PROTO_IPV4, 22), (PT_PROTO_TCP, 46)],
     [(PT_PROTO_ETHERNET, 0), (PT_PROTO_VLAN, 14), (PT_PROTO_IPV4, 22), (PT_PROTO_TCP, 50)],
     [(PT_PROTO_ETHERNET, 0), (PT_PROTO_VLAN, 14), (PT_PROTO_IPV4, 22), (PT_PROTO_TCP, 54)],
     [(PT_PROTO_ETHERNET, 0), (PT_PROTO_VLAN, 14), (PT_PROTO_IPV4, 22), (PT_PROTO_TCP, 58)],
     [(PT_PROTO_ETHERNET, 0), (PT_PROTO_VLAN, 14), (PT_PROTO_IPV4, 22), (PT_PROTO_TCP, 62)],
     [(PT_PROTO_ETHERNET, 0), (PT_PROTO_VLAN, 14), (PT_PROTO_IPV4, 22), (PT_PROTO_TCP, 66)],
     [(PT_PROTO_ETHERNET, 0), (PT_PROTO_VLAN, 14), (PT_PROTO_IPV4, 22), (PT_PROTO_TCP, 70)],
     [(PT_PROTO_ETHERNET, 0), (PT_PROTO_VLAN, 14), (PT_PROTO_IPV4, 22), (PT_PROTO_TCP, 74)],
     [(PT_PROTO_ETHERNET, 0), (PT_PROTO_VLAN, 14), (PT_PROTO_IPV4, 22), (PT_PROTO_TCP, 78)],
     [(PT_PROTO_ETHERNET, 0), (PT_PROTO_VLAN, 14), (PT_PROTO_IPV4, 22), (PT_PROTO_TCP, 82)],
     [(PT_PROTO_ETHERNET, 0), (PT_PROTO_VLAN, 14), (PT_PROTO_IPV4, 22), (PT_PROTO_TCP, 86)],
     [(PT_PROTO_ETHERNET, 0), (PT_PROTO_VLAN, 14), (PT_PROTO_IPV4, 22), (PT_PROTO_TCP, 90)],
     [(PT_PROTO_ETHERNET, 0), (PT_PROTO_VLAN, 14), (PT_PROTO_IPV4, 22), (PT_PROTO_TCP, 94)],
     [(PT_PROTO_ETHERNET, 0), (PT_PROTO_VLAN, 14), (PT_PROTO_IPV4, 22), (PT_PROTO_TCP, 98)],
     [(PT_PROTO_ETHERNET, 0), (PT_PROTO_VLAN, 14), (PT_PROTO_IPV4, 22), (PT_PROTO_TCP, 102)],
     [(PT_PROTO_8023, 0), (PT_PROTO_VLAN, 22), (PT_PROTO_IPV4, 30), (PT_PROTO_TCP, 50)],
     [(PT_PROTO_8023, 0), (PT_PROTO_VLAN, 22), (PT_PROTO_IPV4, 30), (PT_PROTO_TCP, 54)],
     [(PT_PROTO_8023, 0), (PT_PROTO_VLAN, 22), (PT_PROTO_IPV4, 30), (PT_PROTO_TCP, 58)],
     [(PT_PROTO_8023, 0), (PT_PROTO_VLAN, 22), (PT_PROTO_IPV4, 30), (PT_PROTO_TCP, 62)],
     [(PT_PROTO_8023, 0), (PT_PROTO_VLAN, 22), (PT_PROTO_IPV4, 30), (PT_PROTO_TCP, 66)],
     [(PT_PROTO_8023, 0), (PT_PROTO_VLAN, 22), (PT_PROTO_IPV4, 30), (PT_PROTO_TCP, 70)],
     [(PT_PROTO_8023, 0), (PT_PROTO_VLAN, 22), (PT_PROTO_IPV4, 30), (PT_PROTO_TCP, 74)],
     [(PT_PROTO_8023, 0), (PT_PROTO_VLAN, 22), (PT_PROTO_IPV4, 30), (PT_PROTO_TCP, 78)],
     [(PT_PROTO_8023, 0), (PT_PROTO_VLAN, 22), (PT_PROTO_IPV4, 30), (PT_PROTO_TCP, 82)],
     [(PT_PROTO_8023, 0), (PT_PROTO_VLAN, 22), (PT_PROTO_IPV4, 30), (PT_PROTO_TCP, 86)],
     [(PT_PROTO_8023, 0), (PT_PROTO_VLAN, 22), (PT_PROTO_IPV4, 30), (PT_PROTO_TCP, 90)],
     [(PT_PROTO_8023, 0), (PT_PROTO_VLAN, 22), (PT_PROTO_IPV4, 30), (PT_PROTO_TCP, 94)],
     [(PT_PROTO_8023, 0), (PT_PROTO_VLAN, 22), (PT_PROTO_IPV4, 30), (PT_PROTO_TCP, 98)],
     [(PT_PROTO_8023, 0), (PT_PROTO_VLAN, 22), (PT_PROTO_IPV4, 30), (PT_PROTO_TCP, 102)],
     [(PT_PROTO_8023, 0), (PT_PROTO_VLAN, 22), (PT_PROTO_IPV4, 30), (PT_PROTO_TCP, 106)],
     [(PT_PROTO_8023, 0), (PT_PROTO_VLAN, 22), (PT_PROTO_IPV4, 30), (PT_PROTO_TCP, 110)],
     [(PT_PROTO_ETHERNET, 0), (PT_PROTO_IPV4, 14), (PT_PROTO_UDP, 34)],
     [(PT_PROTO_ETHERNET, 0), (PT_PROTO_IPV4, 14), (PT_PROTO_UDP, 38)],
     [(PT_PROTO_ETHERNET, 0), (PT_PROTO_IPV4, 14), (PT_PROTO_UDP, 42)],
     [(PT_PROTO_ETHERNET, 0), (PT_PROTO_IPV4, 14), (PT_PROTO_UDP, 46)],
     [(PT_PROTO_ETHERNET, 0), (PT_PROTO_IPV4, 14), (PT_PROTO_UDP, 50)],
     [(PT_PROTO_ETHERNET, 0), (PT_PROTO_IPV4, 14), (PT_PROTO_UDP, 54)],
     [(PT_PROTO_ETHERNET, 0), (PT_PROTO_IPV4, 14), (PT_PROTO_UDP, 58)],
     [(PT_PROTO_ETHERNET, 0), (PT_PROTO_IPV4, 14), (PT_PROTO_UDP, 62)],
     [(PT_PROTO_ETHERNET, 0), (PT_PROTO_IPV4, 14), (PT_PROTO_UDP, 66)],
     [(PT_PROTO_ETHERNET, 0), (PT_PROTO_IPV4, 14), (PT_PROTO_UDP, 70)],
     [(PT_PROTO_ETHERNET, 0), (PT_PROTO_IPV4, 14), (PT_PROTO_UDP, 74)],
     [(PT_PROTO_ETHERNET, 0), (PT_PROTO_IPV4, 14), (PT_PROTO_UDP, 78)],
     [(PT_PROTO_ETHERNET, 0), (PT_PROTO_IPV4, 14), (PT_PROTO_UDP, 82)],
     [(PT_PROTO_ETHERNET, 0), (PT_PROTO_IPV4, 14), (PT_PROTO_UDP, 86)],
     [(PT_PROTO_ETHERNET, 0), (PT_PROTO_IPV4, 14), (PT_PROTO_UDP, 90)],
     [(PT_PROTO_ETHERNET, 0), (PT_PROTO_IPV4, 14), (PT_PROTO_UDP, 94)],
     [(PT_PROTO_ETHERNET, 0), (PT_PROTO_ISID, 14), (PT_PROTO_IPV4, 18), (PT_PROTO_UDP, 38)],
     [(PT_PROTO_ETHERNET, 0), (PT_PROTO_ISID, 14), (PT_PROTO_IPV4, 18), (PT_PROTO_UDP, 42)],
     [(PT_PROTO_ETHERNET, 0), (PT_PROTO_ISID, 14), (PT_PROTO_IPV4, 18), (PT_PROTO_UDP, 46)],
     [(PT_PROTO_ETHERNET, 0), (PT_PROTO_ISID, 14), (PT_PROTO_IPV4, 18), (PT_PROTO_UDP, 50)],
     [(PT_PROTO_ETHERNET, 0), (PT_PROTO_ISID, 14), (PT_PROTO_IPV4, 18), (PT_PROTO_UDP, 54)],
     [(PT_PROTO_ETHERNET, 0), (PT_PROTO_ISID, 14), (PT_PROTO_IPV4, 18), (PT_PROTO_UDP, 58)],
     [(PT_PROTO_ETHERNET, 0), (PT_PROTO_ISID, 14), (PT_PROTO_IPV4, 18), (PT_PROTO_UDP, 62)],
     [(PT_PROTO_ETHERNET, 0), (PT_PROTO_ISID, 14), (PT_PROTO_IPV4, 18), (PT_PROTO_UDP, 66)],
     [(PT_PROTO_ETHERNET, 0), (PT_PROTO_ISID, 14), (PT_PROTO_IPV4, 18), (PT_PROTO_UDP, 70)],
     [(PT_PROTO_ETHERNET, 0), (PT_PROTO_ISID, 14), (PT_PROTO_IPV4, 18), (PT_PROTO_UDP, 74)],
     [(PT_PROTO_ETHERNET, 0), (PT_PROTO_ISID, 14), (PT_PROTO_IPV4, 18), (PT_PROTO_UDP, 78)],
     [(PT_PROTO_ETHERNET, 0), (PT_PROTO_ISID, 14), (PT_PROTO_IPV4, 18), (PT_PROTO_UDP, 82)],
     [(PT_PROTO_ETHERNET, 0), (PT_PROTO_ISID, 14), (PT_PROTO_IPV4, 18), (PT_PROTO_UDP, 86)],
     [(PT_PROTO_ETHERNET, 0), (PT_PROTO_ISID, 14), (PT_PROTO_IPV4, 18), (PT_PROTO_UDP, 90)],
     [(PT_PROTO_ETHERNET, 0), (PT_PROTO_ISID, 14), (PT_PROTO_IPV4, 18), (PT_PROTO_UDP, 94)],
     [(PT_PROTO_ETHERNET, 0), (PT_PROTO_ISID, 14), (PT_PROTO_IPV4, 18), (PT_PROTO_UDP, 98)],
     [(PT_PROTO_ETHERNET, 0), (PT_PROTO_VLAN, 14), (PT_PROTO_ISID, 18), (PT_PROTO_IPV4, 22), (PT_PROTO_UDP, 42)],
     [(PT_PROTO_ETHERNET, 0), (PT_PROTO_VLAN, 14), (PT_PROTO_ISID, 18), (PT_PROTO_IPV4, 22), (PT_PROTO_UDP, 46)],
     [(PT_PROTO_ETHERNET, 0), (PT_PROTO_VLAN, 14), (PT_PROTO_ISID, 18), (PT_PROTO_IPV4, 22), (PT_PROTO_UDP, 50)],
     [(PT_PROTO_ETHERNET, 0), (PT_PROTO_VLAN, 14), (PT_PROTO_ISID, 18), (PT_PROTO_IPV4, 22), (PT_PROTO_UDP, 54)],
     [(PT_PROTO_ETHERNET, 0), (PT_PROTO_VLAN, 14), (PT_PROTO_ISID, 18), (PT_PROTO_IPV4, 22), (PT_PROTO_UDP, 58)],
     [(PT_PROTO_ETHERNET, 0), (PT_PROTO_VLAN, 14), (PT_PROTO_ISID, 18), (PT_PROTO_IPV4, 22), (PT_PROTO_UDP, 62)],
     [(PT_PROTO_ETHERNET, 0), (PT_PROTO_VLAN, 14), (PT_PROTO_ISID, 18), (PT_PROTO_IPV4, 22), (PT_PROTO_UDP, 66)],
     [(PT_PROTO_ETHERNET, 0), (PT_PROTO_VLAN, 14), (PT_PROTO_ISID, 18), (PT_PROTO_IPV4, 22), (PT_PROTO_UDP, 70)],
     [(PT_PROTO_ETHERNET, 0), (PT_PROTO_VLAN, 14), (PT_PROTO_ISID, 18), (PT_PROTO_IPV4, 22), (PT_PROTO_UDP, 74)],
     [(PT_PROTO_ETHERNET, 0), (PT_PROTO_VLAN, 14), (PT_PROTO_ISID, 18), (PT_PROTO_IPV4, 22), (PT_PROTO_UDP, 78)],
     [(PT_PROTO_ETHERNET, 0), (PT_PROTO_VLAN, 14), (PT_PROTO_ISID, 18), (PT_PROTO_IPV4, 22), (PT_PROTO_UDP, 82)],
     [(PT_PROTO_ETHERNET, 0), (PT_PROTO_VLAN, 14), (PT_PROTO_ISID, 18), (PT_PROTO_IPV4, 22), (PT_PROTO_UDP, 86)],
     [(PT_PROTO_ETHERNET, 0), (PT_PROTO_VLAN, 14), (PT_PROTO_ISID, 18), (PT_PROTO_IPV4, 22), (PT_PROTO_UDP, 90)],
     [(PT_PROTO_ETHERNET, 0), (PT_PROTO_VLAN, 14), (PT_PROTO_ISID, 18), (PT_PROTO_IPV4, 22), (PT_PROTO_UDP, 94)],
     [(PT_PROTO_ETHERNET, 0), (PT_PROTO_VLAN, 14), (PT_PROTO_ISID, 18), (PT_PROTO_IPV4, 22), (PT_PROTO_UDP, 98)],
     [(PT_PROTO_ETHERNET, 0), (PT_PROTO_VLAN, 14), (PT_PROTO_ISID, 18), (PT_PROTO_IPV4, 22), (PT_PROTO_UDP, 102)],
     [(PT_PROTO_8023, 0), (PT_PROTO_IPV4, 22), (PT_PROTO_UDP, 42)],
     [(PT_PROTO_8023, 0), (PT_PROTO_IPV4, 22), (PT_PROTO_UDP, 46)],
     [(PT_PROTO_8023, 0), (PT_PROTO_IPV4, 22), (PT_PROTO_UDP, 50)],
     [(PT_PROTO_8023, 0), (PT_PROTO_IPV4, 22), (PT_PROTO_UDP, 54)],
     [(PT_PROTO_8023, 0), (PT_PROTO_IPV4, 22), (PT_PROTO_UDP, 58)],
     [(PT_PROTO_8023, 0), (PT_PROTO_IPV4, 22), (PT_PROTO_UDP, 62)],
     [(PT_PROTO_8023, 0), (PT_PROTO_IPV4, 22), (PT_PROTO_UDP, 66)],
     [(PT_PROTO_8023, 0), (PT_PROTO_IPV4, 22), (PT_PROTO_UDP, 70)],
     [(PT_PROTO_8023, 0), (PT_PROTO_IPV4, 22), (PT_PROTO_UDP, 74)],
     [(PT_PROTO_8023, 0), (PT_PROTO_IPV4, 22), (PT_PROTO_UDP, 78)],
     [(PT_PROTO_8023, 0), (PT_PROTO_IPV4, 22), (PT_PROTO_UDP, 82)],
     [(PT_PROTO_8023, 0), (PT_PROTO_IPV4, 22), (PT_PROTO_UDP, 86)],
     [(PT_PROTO_8023, 0), (PT_PROTO_IPV4, 22), (PT_PROTO_UDP, 90)],
     [(PT_PROTO_8023, 0), (PT_PROTO_IPV4, 22), (PT_PROTO_UDP, 94)],
     [(PT_PROTO_8023, 0), (PT_PROTO_IPV4, 22), (PT_PROTO_UDP, 98)],
     [(PT_PROTO_8023, 0), (PT_PROTO_IPV4, 22), (PT_PROTO_UDP, 102)],
     [(PT_PROTO_ETHERNET, 0), (PT_PROTO_VLAN, 14), (PT_PROTO_IPV4, 18), (PT_PROTO_UDP, 38)],
     [(PT_PROTO_ETHERNET, 0), (PT_PROTO_VLAN, 14), (PT_PROTO_IPV4, 18), (PT_PROTO_UDP, 42)],
     [(PT_PROTO_ETHERNET, 0), (PT_PROTO_VLAN, 14), (PT_PROTO_IPV4, 18), (PT_PROTO_UDP, 46)],
     [(PT_PROTO_ETHERNET, 0), (PT_PROTO_VLAN, 14), (PT_PROTO_IPV4, 18), (PT_PROTO_UDP, 50)],
     [(PT_PROTO_ETHERNET, 0), (PT_PROTO_VLAN, 14), (PT_PROTO_IPV4, 18), (PT_PROTO_UDP, 54)],
     [(PT_PROTO_ETHERNET, 0), (PT_PROTO_VLAN, 14), (PT_PROTO_IPV4, 18), (PT_PROTO_UDP, 58)],
     [(PT_PROTO_ETHERNET, 0), (PT_PROTO_VLAN, 14), (PT_PROTO_IPV4, 18), (PT_PROTO_UDP, 62)],
     [(PT_PROTO_ETHERNET, 0), (PT_PROTO_VLAN, 14), (PT_PROTO_IPV4, 18), (PT_PROTO_UDP, 66)],
     [(PT_PROTO_ETHERNET, 0), (PT_PROTO_VLAN, 14), (PT_PROTO_IPV4, 18), (PT_PROTO_UDP, 70)],
     [(PT_PROTO_ETHERNET, 0), (PT_PROTO_VLAN, 14), (PT_PROTO_IPV4, 18), (PT_PROTO_UDP, 74)],
     [(PT_PROTO_ETHERNET, 0), (PT_PROTO_VLAN, 14), (PT_PROTO_IPV4, 18), (PT_PROTO_UDP, 78)],
     [(PT_PROTO_ETHERNET, 0), (PT_PROTO_VLAN, 14), (PT_PROTO_IPV4, 18), (PT_PROTO_UDP, 82)],
     [(PT_PROTO_ETHERNET, 0), (PT_PROTO_VLAN, 14), (PT_PROTO_IPV4, 18), (PT_PROTO_UDP, 86)],
     [(PT_PROTO_ETHERNET, 0), (PT_PROTO_VLAN, 14), (PT_PROTO_IPV4, 18), (PT_PROTO_UDP, 90)]]"

definition offsets_table_6 :: "(protocol \<times> nat) list list" where
  "offsets_table_6 =
    [[(PT_PROTO_ETHERNET, 0), (PT_PROTO_VLAN, 14), (PT_PROTO_IPV4, 18), (PT_PROTO_UDP, 94)],
     [(PT_PROTO_ETHERNET, 0), (PT_PROTO_VLAN, 14), (PT_PROTO_IPV4, 18), (PT_PROTO_UDP, 98)],
     [(PT_PROTO_8023, 0), (PT_PROTO_VLAN, 22), (PT_PROTO_IPV4, 26), (PT_PROTO_UDP, 46)],
     [(PT_PROTO_8023, 0), (PT_PROTO_VLAN, 22), (PT_PROTO_IPV4, 26), (PT_PROTO_UDP, 50)],
     [(PT_PROTO_8023, 0), (PT_PROTO_VLAN, 22), (PT_PROTO_IPV4, 26), (PT_PROTO_UDP, 54)],
     [(PT_PROTO_8023, 0), (PT_PROTO_VLAN, 22), (PT_PROTO_IPV4, 26), (PT_PROTO_UDP, 58)],
     [(PT_PROTO_8023, 0), (PT_PROTO_VLAN, 22), (PT_PROTO_IPV4, 26), (PT_PROTO_UDP, 62)],
     [(PT_PROTO_8023, 0), (PT_PROTO_VLAN, 22), (PT_PROTO_IPV4, 26), (PT_PROTO_UDP, 66)],
     [(PT_PROTO_8023, 0), (PT_PROTO_VLAN, 22), (PT_PROTO_IPV4, 26), (PT_PROTO_UDP, 70)],
     [(PT_PROTO_8023, 0), (PT_PROTO_VLAN, 22), (PT_PROTO_IPV4, 26), (PT_PROTO_UDP, 74)],
     [(PT_PROTO_8023, 0), (PT_PROTO_VLAN, 22), (PT_PROTO_IPV4, 26), (PT_PROTO_UDP, 78)],
     [(PT_PROTO_8023, 0), (PT_PROTO_VLAN, 22), (PT_PROTO_IPV4, 26), (PT_PROTO_UDP, 82)],
     [(PT_PROTO_8023, 0), (PT_PROTO_VLAN, 22), (PT_PROTO_IPV4, 26), (PT_PROTO_UDP, 86)],
     [(PT_PROTO_8023, 0), (PT_PROTO_VLAN, 22), (PT_PROTO_IPV4, 26), (PT_PROTO_UDP, 90)],
     [(PT_PROTO_8023, 0), (PT_PROTO_VLAN, 22), (PT_PROTO_IPV4, 26), (PT_PROTO_UDP, 94)],
     [(PT_PROTO_8023, 0), (PT_PROTO_VLAN, 22), (PT_PROTO_IPV4, 26), (PT_PROTO_UDP, 98)],
     [(PT_PROTO_8023, 0), (PT_PROTO_VLAN, 22), (PT_PROTO_IPV4, 26), (PT_PROTO_UDP, 102)],
     [(PT_PROTO_8023, 0), (PT_PROTO_VLAN, 22), (PT_PROTO_IPV4, 26), (PT_PROTO_UDP, 106)],
     [(PT_PROTO_ETHERNET, 0), (PT_PROTO_VLAN, 14), (PT_PROTO_IPV4, 22), (PT_PROTO_UDP, 42)],
     [(PT_PROTO_ETHERNET, 0), (PT_PROTO_VLAN, 14), (PT_PROTO_IPV4, 22), (PT_PROTO_UDP, 46)],
     [(PT_PROTO_ETHERNET, 0), (PT_PROTO_VLAN, 14), (PT_PROTO_IPV4, 22), (PT_PROTO_UDP, 50)],
     [(PT_PROTO_ETHERNET, 0), (PT_PROTO_VLAN, 14), (PT_PROTO_IPV4, 22), (PT_PROTO_UDP, 54)],
     [(PT_PROTO_ETHERNET, 0), (PT_PROTO_VLAN, 14), (PT_PROTO_IPV4, 22), (PT_PROTO_UDP, 58)],
     [(PT_PROTO_ETHERNET, 0), (PT_PROTO_VLAN, 14), (PT_PROTO_IPV4, 22), (PT_PROTO_UDP, 62)],
     [(PT_PROTO_ETHERNET, 0), (PT_PROTO_VLAN, 14), (PT_PROTO_IPV4, 22), (PT_PROTO_UDP, 66)],
     [(PT_PROTO_ETHERNET, 0), (PT_PROTO_VLAN, 14), (PT_PROTO_IPV4, 22), (PT_PROTO_UDP, 70)],
     [(PT_PROTO_ETHERNET, 0), (PT_PROTO_VLAN, 14), (PT_PROTO_IPV4, 22), (PT_PROTO_UDP, 74)],
     [(PT_PROTO_ETHERNET, 0), (PT_PROTO_VLAN, 14), (PT_PROTO_IPV4, 22), (PT_PROTO_UDP, 78)],
     [(PT_PROTO_ETHERNET, 0), (PT_PROTO_VLAN, 14), (PT_PROTO_IPV4, 22), (PT_PROTO_UDP, 82)],
     [(PT_PROTO_ETHERNET, 0), (PT_PROTO_VLAN, 14), (PT_PROTO_IPV4, 22), (PT_PROTO_UDP, 86)],
     [(PT_PROTO_ETHERNET, 0), (PT_PROTO_VLAN, 14), (PT_PROTO_IPV4, 22), (PT_PROTO_UDP, 90)],
     [(PT_PROTO_ETHERNET, 0), (PT_PROTO_VLAN, 14), (PT_PROTO_IPV4, 22), (PT_PROTO_UDP, 94)],
     [(PT_PROTO_ETHERNET, 0), (PT_PROTO_VLAN, 14), (PT_PROTO_IPV4, 22), (PT_PROTO_UDP, 98)],
     [(PT_PROTO_ETHERNET, 0), (PT_PROTO_VLAN, 14), (PT_PROTO_IPV4, 22), (PT_PROTO_UDP, 102)],
     [(PT_PROTO_8023, 0), (PT_PROTO_VLAN, 22), (PT_PROTO_IPV4, 30), (PT_PROTO_UDP, 50)],
     [(PT_PROTO_8023, 0), (PT_PROTO_VLAN, 22), (PT_PROTO_IPV4, 30), (PT_PROTO_UDP, 54)],
     [(PT_PROTO_8023, 0), (PT_PROTO_VLAN, 22), (PT_PROTO_IPV4, 30), (PT_PROTO_UDP, 58)],
     [(PT_PROTO_8023, 0), (PT_PROTO_VLAN, 22), (PT_PROTO_IPV4, 30), (PT_PROTO_UDP, 62)],
     [(PT_PROTO_8023, 0), (PT_PROTO_VLAN, 22), (PT_PROTO_IPV4, 30), (PT_PROTO_UDP, 66)],
     [(PT_PROTO_8023, 0), (PT_PROTO_VLAN, 22), (PT_PROTO_IPV4, 30), (PT_PROTO_UDP, 70)],
     [(PT_PROTO_8023, 0), (PT_PROTO_VLAN, 22), (PT_PROTO_IPV4, 30), (PT_PROTO_UDP, 74)],
     [(PT_PROTO_8023, 0), (PT_PROTO_VLAN, 22), (PT_PROTO_IPV4, 30), (PT_PROTO_UDP, 78)],
     [(PT_PROTO_8023, 0), (PT_PROTO_VLAN, 22), (PT_PROTO_IPV4, 30), (PT_PROTO_UDP, 82)],
     [(PT_PROTO_8023, 0), (PT_PROTO_VLAN, 22), (PT_PROTO_IPV4, 30), (PT_PROTO_UDP, 86)],
     [(PT_PROTO_8023, 0), (PT_PROTO_VLAN, 22), (PT_PROTO_IPV4, 30), (PT_PROTO_UDP, 90)],
     [(PT_PROTO_8023, 0), (PT_PROTO_VLAN, 22), (PT_PROTO_IPV4, 30), (PT_PROTO_UDP, 94)],
     [(PT_PROTO_8023, 0), (PT_PROTO_VLAN, 22), (PT_PROTO_IPV4, 30), (PT_PROTO_UDP, 98)],
     [(PT_PROTO_8023, 0), (PT_PROTO_VLAN, 22), (PT_PROTO_IPV4, 30), (PT_PROTO_UDP, 102)],
     [(PT_PROTO_8023, 0), (PT_PROTO_VLAN, 22), (PT_PROTO_IPV4, 30), (PT_PROTO_UDP, 106)],
     [(PT_PROTO_8023, 0), (PT_PROTO_VLAN, 22), (PT_PROTO_IPV4, 30), (PT_PROTO_UDP, 110)],
     [(PT_PROTO_ETHERNET, 0), (PT_PROTO_IPV4, 14), (PT_PROTO_UDP, 34), (PT_PROTO_GTPU4, 42)],
     [(PT_PROTO_ETHERNET, 0), (PT_PROTO_IPV4, 14), (PT_PROTO_UDP, 38), (PT_PROTO_GTPU4, 46)],
     [(PT_PROTO_ETHERNET, 0), (PT_PROTO_IPV4, 14), (PT_PROTO_UDP, 42), (PT_PROTO_GTPU4, 50)],
     [(PT_PROTO_ETHERNET, 0), (PT_PROTO_IPV4, 14), (PT_PROTO_UDP, 46), (PT_PROTO_GTPU4, 54)],
     [(PT_PROTO_ETHERNET, 0), (PT_PROTO_IPV4, 14), (PT_PROTO_UDP, 50), (PT_PROTO_GTPU4, 58)],
     [(PT_PROTO_ETHERNET, 0), (PT_PROTO_IPV4, 14), (PT_PROTO_UDP, 54), (PT_PROTO_GTPU4, 62)],
     [(PT_PROTO_ETHERNET, 0), (PT_PROTO_IPV4, 14), (PT_PROTO_UDP, 58), (PT_PROTO_GTPU4, 66)],
     [(PT_PROTO_ETHERNET, 0), (PT_PROTO_IPV4, 14), (PT_PROTO_UDP, 62), (PT_PROTO_GTPU4, 70)],
     [(PT_PROTO_ETHERNET, 0), (PT_PROTO_IPV4, 14), (PT_PROTO_UDP, 66), (PT_PROTO_GTPU4, 74)],
     [(PT_PROTO_ETHERNET, 0), (PT_PROTO_IPV4, 14), (PT_PROTO_UDP, 70), (PT_PROTO_GTPU4, 78)],
     [(PT_PROTO_ETHERNET, 0), (PT_PROTO_IPV4, 14), (PT_PROTO_UDP, 74), (PT_PROTO_GTPU4, 82)],
     [(PT_PROTO_ETHERNET, 0), (PT_PROTO_IPV4, 14), (PT_PROTO_UDP, 78), (PT_PROTO_GTPU4, 86)],
     [(PT_PROTO_ETHERNET, 0), (PT_PROTO_IPV4, 14), (PT_PROTO_UDP, 82), (PT_PROTO_GTPU4, 90)],
     [(PT_PROTO_ETHERNET, 0), (PT_PROTO_IPV4, 14), (PT_PROTO_UDP, 86), (PT_PROTO_GTPU4, 94)],
     [(PT_PROTO_ETHERNET, 0), (PT_PROTO_IPV4, 14), (PT_PROTO_UDP, 90), (PT_PROTO_GTPU4, 98)],
     [(PT_PROTO_ETHERNET, 0), (PT_PROTO_IPV4, 14), (PT_PROTO_UDP, 94), (PT_PROTO_GTPU4, 102)],
     [(PT_PROTO_ETHERNET, 0), (PT_PROTO_ISID, 14), (PT_PROTO_IPV4, 18), (PT_PROTO_UDP, 38), (PT_PROTO_GTPU4, 46)],
     [(PT_PROTO_ETHERNET, 0), (PT_PROTO_ISID, 14), (PT_PROTO_IPV4, 18), (PT_PROTO_UDP, 42), (PT_PROTO_GTPU4, 50)],
     [(PT_PROTO_ETHERNET, 0), (PT_PROTO_ISID, 14), (PT_PROTO_IPV4, 18), (PT_PROTO_UDP, 46), (PT_PROTO_GTPU4, 54)],
     [(PT_PROTO_ETHERNET, 0), (PT_PROTO_ISID, 14), (PT_PROTO_IPV4, 18), (PT_PROTO_UDP, 50), (PT_PROTO_GTPU4, 58)],
     [(PT_PROTO_ETHERNET, 0), (PT_PROTO_ISID, 14), (PT_PROTO_IPV4, 18), (PT_PROTO_UDP, 54), (PT_PROTO_GTPU4, 62)],
     [(PT_PROTO_ETHERNET, 0), (PT_PROTO_ISID, 14), (PT_PROTO_IPV4, 18), (PT_PROTO_UDP, 58), (PT_PROTO_GTPU4, 66)],
     [(PT_PROTO_ETHERNET, 0), (PT_PROTO_ISID, 14), (PT_PROTO_IPV4, 18), (PT_PROTO_UDP, 62), (PT_PROTO_GTPU4, 70)],
     [(PT_PROTO_ETHERNET, 0), (PT_PROTO_ISID, 14), (PT_PROTO_IPV4, 18), (PT_PROTO_UDP, 66), (PT_PROTO_GTPU4, 74)],
     [(PT_PROTO_ETHERNET, 0), (PT_PROTO_ISID, 14), (PT_PROTO_IPV4, 18), (PT_PROTO_UDP, 70), (PT_PROTO_GTPU4, 78)],
     [(PT_PROTO_ETHERNET, 0), (PT_PROTO_ISID, 14), (PT_PROTO_IPV4, 18), (PT_PROTO_UDP, 74), (PT_PROTO_GTPU4, 82)],
     [(PT_PROTO_ETHERNET, 0), (PT_PROTO_ISID, 14), (PT_PROTO_IPV4, 18), (PT_PROTO_UDP, 78), (PT_PROTO_GTPU4, 86)],
     [(PT_PROTO_ETHERNET, 0), (PT_PROTO_ISID, 14), (PT_PROTO_IPV4, 18), (PT_PROTO_UDP, 82), (PT_PROTO_GTPU4, 90)],
     [(PT_PROTO_ETHERNET, 0), (PT_PROTO_ISID, 14), (PT_PROTO_IPV4, 18), (PT_PROTO_UDP, 86), (PT_PROTO_GTPU4, 94)],
     [(PT_PROTO_ETHERNET, 0), (PT_PROTO_ISID, 14), (PT_PROTO_IPV4, 18), (PT_PROTO_UDP, 90), (PT_PROTO_GTPU4, 98)],
     [(PT_PROTO_ETHERNET, 0), (PT_PROTO_ISID, 14), (PT_PROTO_IPV4, 18), (PT_PROTO_UDP, 94), (PT_PROTO_GTPU4, 102)],
     [(PT_PROTO_ETHERNET, 0), (PT_PROTO_ISID, 14), (PT_PROTO_IPV4, 18), (PT_PROTO_UDP, 98), (PT_PROTO_GTPU4, 106)],
     [(PT_PROTO_ETHERNET, 0), (PT_PROTO_VLAN, 14), (PT_PROTO_ISID, 18), (PT_PROTO_IPV4, 22), (PT_PROTO_UDP, 42), (PT_PROTO_GTPU4, 50)],
     [(PT_PROTO_ETHERNET, 0), (PT_PROTO_VLAN, 14), (PT_PROTO_ISID, 18), (PT_PROTO_IPV4, 22), (PT_PROTO_UDP, 46), (PT_PROTO_GTPU4, 54)],
     [(PT_PROTO_ETHERNET, 0), (PT_PROTO_VLAN, 14), (PT_PROTO_ISID, 18), (PT_PROTO_IPV4, 22), (PT_PROTO_UDP, 50), (PT_PROTO_GTPU4, 58)],
     [(PT_PROTO_ETHERNET, 0), (PT_PROTO_VLAN, 14), (PT_PROTO_ISID, 18), (PT_PROTO_IPV4, 22), (PT_PROTO_UDP, 54), (PT_PROTO_GTPU4, 62)],
     [(PT_PROTO_ETHERNET, 0), (PT_PROTO_VLAN, 14), (PT_PROTO_ISID, 18), (PT_PROTO_IPV4, 22), (PT_PROTO_UDP, 58), (PT_PROTO_GTPU4, 66)],
     [(PT_PROTO_ETHERNET, 0), (PT_PROTO_VLAN, 14), (PT_PROTO_ISID, 18), (PT_PROTO_IPV4, 22), (PT_PROTO_UDP, 62), (PT_PROTO_GTPU4, 70)],
     [(PT_PROTO_ETHERNET, 0), (PT_PROTO_VLAN, 14), (PT_PROTO_ISID, 18), (PT_PROTO_IPV4, 22), (PT_PROTO_UDP, 66), (PT_PROTO_GTPU4, 74)],
     [(PT_PROTO_ETHERNET, 0), (PT_PROTO_VLAN, 14), (PT_PROTO_ISID, 18), (PT_PROTO_IPV4, 22), (PT_PROTO_UDP, 70), (PT_PROTO_GTPU4, 78)],
     [(PT_PROTO_ETHERNET, 0), (PT_PROTO_VLAN, 14), (PT_PROTO_ISID, 18), (PT_PROTO_IPV4, 22), (PT_PROTO_UDP, 74), (PT_PROTO_GTPU4, 82)],
     [(PT_PROTO_ETHERNET, 0), (PT_PROTO_VLAN, 14), (PT_PROTO_ISID, 18), (PT_PROTO_IPV4, 22), (PT_PROTO_UDP, 78), (PT_PROTO_GTPU4, 86)],
     [(PT_PROTO_ETHERNET, 0), (PT_PROTO_VLAN, 14), (PT_PROTO_ISID, 18), (PT_PROTO_IPV4, 22), (PT_PROTO_UDP, 82), (PT_PROTO_GTPU4, 90)],
     [(PT_PROTO_ETHERNET, 0), (PT_PROTO_VLAN, 14), (PT_PROTO_ISID, 18), (PT_PROTO_IPV4, 22), (PT_PROTO_UDP, 86), (PT_PROTO_GTPU4, 94)],
     [(PT_PROTO_ETHERNET, 0), (PT_PROTO_VLAN, 14), (PT_PROTO_ISID, 18), (PT_PROTO_IPV4, 22), (PT_PROTO_UDP, 90), (PT_PROTO_GTPU4, 98)],
     [(PT_PROTO_ETHERNET, 0), (PT_PROTO_VLAN, 14), (PT_PROTO_ISID, 18), (PT_PROTO_IPV4, 22), (PT_PROTO_UDP, 94), (PT_PROTO_GTPU4, 102)],
     [(PT_PROTO_ETHERNET, 0), (PT_PROTO_VLAN, 14), (PT_PROTO_ISID, 18), (PT_PROTO_IPV4, 22), (PT_PROTO_UDP, 98), (PT_PROTO_GTPU4, 106)],
     [(PT_PROTO_ETHERNET, 0), (PT_PROTO_VLAN, 14), (PT_PROTO_ISID, 18), (PT_PROTO_IPV4, 22), (PT_PROTO_UDP, 102), (PT_PROTO_GTPU4, 110)],
     [(PT_PROTO_8023, 0), (PT_PROTO_IPV4, 22), (PT_PROTO_UDP, 42), (PT_PROTO_GTPU4, 50)],
     [(PT_PROTO_8023, 0), (PT_PROTO_IPV4, 22), (PT_PROTO_UDP, 46), (PT_PROTO_GTPU4, 54)],
     [(PT_PROTO_8023, 0), (PT_PROTO_IPV4, 22), (PT_PROTO_UDP, 50), (PT_PROTO_GTPU4, 58)],
     [(PT_PROTO_8023, 0), (PT_PROTO_IPV4, 22), (PT_PROTO_UDP, 54), (PT_PROTO_GTPU4, 62)],
     [(PT_PROTO_8023, 0), (PT_PROTO_IPV4, 22), (PT_PROTO_UDP, 58), (PT_PROTO_GTPU4, 66)],
     [(PT_PROTO_8023, 0), (PT_PROTO_IPV4, 22), (PT_PROTO_UDP, 62), (PT_PROTO_GTPU4, 70)],
     [(PT_PROTO_8023, 0), (PT_PROTO_IPV4, 22), (PT_PROTO_UDP, 66), (PT_PROTO_GTPU4, 74)],
     [(PT_PROTO_8023, 0), (PT_PROTO_IPV4, 22), (PT_PROTO_UDP, 70), (PT_PROTO_GTPU4, 78)],
     [(PT_PROTO_8023, 0), (PT_PROTO_IPV4, 22), (PT_PROTO_UDP, 74), (PT_PROTO_GTPU4, 82)],
     [(PT_PROTO_8023, 0), (PT_PROTO_IPV4, 22), (PT_PROTO_UDP, 78), (PT_PROTO_GTPU4, 86)],
     [(PT_PROTO_8023, 0), (PT_PROTO_IPV4, 22), (PT_PROTO_UDP, 82), (PT_PROTO_GTPU4, 90)],
     [(PT_PROTO_8023, 0), (PT_PROTO_IPV4, 22), (PT_PROTO_UDP, 86), (PT_PROTO_GTPU4, 94)],
     [(PT_PROTO_8023, 0), (PT_PROTO_IPV4, 22), (PT_PROTO_UDP, 90), (PT_PROTO_GTPU4, 98)],
     [(PT_PROTO_8023, 0), (PT_PROTO_IPV4, 22), (PT_PROTO_UDP, 94), (PT_PROTO_GTPU4, 102)],
     [(PT_PROTO_8023, 0), (PT_PROTO_IPV4, 22), (PT_PROTO_UDP, 98), (PT_PROTO_GTPU4, 106)],
     [(PT_PROTO_8023, 0), (PT_PROTO_IPV4, 22), (PT_PROTO_UDP, 102), (PT_PROTO_GTPU4, 110)],
     [(PT_PROTO_ETHERNET, 0), (PT_PROTO_VLAN, 14), (PT_PROTO_IPV4, 18), (PT_PROTO_UDP, 38), (PT_PROTO_GTPU4, 46)],
     [(PT_PROTO_ETHERNET, 0), (PT_PROTO_VLAN, 14), (PT_PROTO_IPV4, 18), (PT_PROTO_UDP, 42), (PT_PROTO_GTPU4, 50)],
     [(PT_PROTO_ETHERNET, 0), (PT_PROTO_VLAN, 14), (PT_PROTO_IPV4, 18), (PT_PROTO_UDP, 46), (PT_PROTO_GTPU4, 54)],
     [(PT_PROTO_ETHERNET, 0), (PT_PROTO_VLAN, 14), (PT_PROTO_IPV4, 18), (PT_PROTO_UDP, 50), (PT_PROTO_GTPU4, 58)],
     [(PT_PROTO_ETHERNET, 0), (PT_PROTO_VLAN, 14), (PT_PROTO_IPV4, 18), (PT_PROTO_UDP, 54), (PT_PROTO_GTPU4, 62)],
     [(PT_PROTO_ETHERNET, 0), (PT_PROTO_VLAN, 14), (PT_PROTO_IPV4, 18), (PT_PROTO_UDP, 58), (PT_PROTO_GTPU4, 66)],
     [(PT_PROTO_ETHERNET, 0), (PT_PROTO_VLAN, 14), (PT_PROTO_IPV4, 18), (PT_PROTO_UDP, 62), (PT_PROTO_GTPU4, 70)],
     [(PT_PROTO_ETHERNET, 0), (PT_PROTO_VLAN, 14), (PT_PROTO_IPV4, 18), (PT_PROTO_UDP, 66), (PT_PROTO_GTPU4, 74)],
     [(PT_PROTO_ETHERNET, 0), (PT_PROTO_VLAN, 14), (PT_PROTO_IPV4, 18), (PT_PROTO_UDP, 70), (PT_PROTO_GTPU4, 78)],
     [(PT_PROTO_ETHERNET, 0), (PT_PROTO_VLAN, 14), (PT_PROTO_IPV4, 18), (PT_PROTO_UDP, 74), (PT_PROTO_GTPU4, 82)],
     [(PT_PROTO_ETHERNET, 0), (PT_PROTO_VLAN, 14), (PT_PROTO_IPV4, 18), (PT_PROTO_UDP, 78), (PT_PROTO_GTPU4, 86)],
     [(PT_PROTO_ETHERNET, 0), (PT_PROTO_VLAN, 14), (PT_PROTO_IPV4, 18), (PT_PROTO_UDP, 82), (PT_PROTO_GTPU4, 90)],
     [(PT_PROTO_ETHERNET, 0), (PT_PROTO_VLAN, 14), (PT_PROTO_IPV4, 18), (PT_PROTO_UDP, 86), (PT_PROTO_GTPU4, 94)],
     [(PT_PROTO_ETHERNET, 0), (PT_PROTO_VLAN, 14), (PT_PROTO_IPV4, 18), (PT_PROTO_UDP, 90), (PT_PROTO_GTPU4, 98)],
     [(PT_PROTO_ETHERNET, 0), (PT_PROTO_VLAN, 14), (PT_PROTO_IPV4, 18), (PT_PROTO_UDP, 94), (PT_PROTO_GTPU4, 102)],
     [(PT_PROTO_ETHERNET, 0), (PT_PROTO_VLAN, 14), (PT_PROTO_IPV4, 18), (PT_PROTO_UDP, 98), (PT_PROTO_GTPU4, 106)],
     [(PT_PROTO_8023, 0), (PT_PROTO_VLAN, 22), (PT_PROTO_IPV4, 26), (PT_PROTO_UDP, 46), (PT_PROTO_GTPU4, 54)],
     [(PT_PROTO_8023, 0), (PT_PROTO_VLAN, 22), (PT_PROTO_IPV4, 26), (PT_PROTO_UDP, 50), (PT_PROTO_GTPU4, 58)],
     [(PT_PROTO_8023, 0), (PT_PROTO_VLAN, 22), (PT_PROTO_IPV4, 26), (PT_PROTO_UDP, 54), (PT_PROTO_GTPU4, 62)],
     [(PT_PROTO_8023, 0), (PT_PROTO_VLAN, 22), (PT_PROTO_IPV4, 26), (PT_PROTO_UDP, 58), (PT_PROTO_GTPU4, 66)],
     [(PT_PROTO_8023, 0), (PT_PROTO_VLAN, 22), (PT_PROTO_IPV4, 26), (PT_PROTO_UDP, 62), (PT_PROTO_GTPU4, 70)],
     [(PT_PROTO_8023, 0), (PT_PROTO_VLAN, 22), (PT_PROTO_IPV4, 26), (PT_PROTO_UDP, 66), (PT_PROTO_GTPU4, 74)],
     [(PT_PROTO_8023, 0), (PT_PROTO_VLAN, 22), (PT_PROTO_IPV4, 26), (PT_PROTO_UDP, 70), (PT_PROTO_GTPU4, 78)],
     [(PT_PROTO_8023, 0), (PT_PROTO_VLAN, 22), (PT_PROTO_IPV4, 26), (PT_PROTO_UDP, 74), (PT_PROTO_GTPU4, 82)],
     [(PT_PROTO_8023, 0), (PT_PROTO_VLAN, 22), (PT_PROTO_IPV4, 26), (PT_PROTO_UDP, 78), (PT_PROTO_GTPU4, 86)],
     [(PT_PROTO_8023, 0), (PT_PROTO_VLAN, 22), (PT_PROTO_IPV4, 26), (PT_PROTO_UDP, 82), (PT_PROTO_GTPU4, 90)],
     [(PT_PROTO_8023, 0), (PT_PROTO_VLAN, 22), (PT_PROTO_IPV4, 26), (PT_PROTO_UDP, 86), (PT_PROTO_GTPU4, 94)],
     [(PT_PROTO_8023, 0), (PT_PROTO_VLAN, 22), (PT_PROTO_IPV4, 26), (PT_PROTO_UDP, 90), (PT_PROTO_GTPU4, 98)],
     [(PT_PROTO_8023, 0), (PT_PROTO_VLAN, 22), (PT_PROTO_IPV4, 26), (PT_PROTO_UDP, 94), (PT_PROTO_GTPU4, 102)],
     [(PT_PROTO_8023, 0), (PT_PROTO_VLAN, 22), (PT_PROTO_IPV4, 26), (PT_PROTO_UDP, 98), (PT_PROTO_GTPU4, 106)],
     [(PT_PROTO_8023, 0), (PT_PROTO_VLAN, 22), (PT_PROTO_IPV4, 26), (PT_PROTO_UDP, 102), (PT_PROTO_GTPU4, 110)],
     [(PT_PROTO_8023, 0), (PT_PROTO_VLAN, 22), (PT_PROTO_IPV4, 26), (PT_PROTO_UDP, 106), (PT_PROTO_GTPU4, 114)],
     [(PT_PROTO_ETHERNET, 0), (PT_PROTO_VLAN, 14), (PT_PROTO_IPV4, 22), (PT_PROTO_UDP, 42), (PT_PROTO_GTPU4, 50)],
     [(PT_PROTO_ETHERNET, 0), (PT_PROTO_VLAN, 14), (PT_PROTO_IPV4, 22), (PT_PROTO_UDP, 46), (PT_PROTO_GTPU4, 54)],
     [(PT_PROTO_ETHERNET, 0), (PT_PROTO_VLAN, 14), (PT_PROTO_IPV4, 22), (PT_PROTO_UDP, 50), (PT_PROTO_GTPU4, 58)],
     [(PT_PROTO_ETHERNET, 0), (PT_PROTO_VLAN, 14), (PT_PROTO_IPV4, 22), (PT_PROTO_UDP, 54), (PT_PROTO_GTPU4, 62)]]"

definition offsets_table_7 :: "(protocol \<times> nat) list list" where
  "offsets_table_7 =
    [[(PT_PROTO_ETHERNET, 0), (PT_PROTO_VLAN, 14), (PT_PROTO_IPV4, 22), (PT_PROTO_UDP, 58), (PT_PROTO_GTPU4, 66)],
     [(PT_PROTO_ETHERNET, 0), (PT_PROTO_VLAN, 14), (PT_PROTO_IPV4, 22), (PT_PROTO_UDP, 62), (PT_PROTO_GTPU4, 70)],
     [(PT_PROTO_ETHERNET, 0), (PT_PROTO_VLAN, 14), (PT_PROTO_IPV4, 22), (PT_PROTO_UDP, 66), (PT_PROTO_GTPU4, 74)],
     [(PT_PROTO_ETHERNET, 0), (PT_PROTO_VLAN, 14), (PT_PROTO_IPV4, 22), (PT_PROTO_UDP, 70), (PT_PROTO_GTPU4, 78)],
     [(PT_PROTO_ETHERNET, 0), (PT_PROTO_VLAN, 14), (PT_PROTO_IPV4, 22), (PT_PROTO_UDP, 74), (PT_PROTO_GTPU4, 82)],
     [(PT_PROTO_ETHERNET, 0), (PT_PROTO_VLAN, 14), (PT_PROTO_IPV4, 22), (PT_PROTO_UDP, 78), (PT_PROTO_GTPU4, 86)],
     [(PT_PROTO_ETHERNET, 0), (PT_PROTO_VLAN, 14), (PT_PROTO_IPV4, 22), (PT_PROTO_UDP, 82), (PT_PROTO_GTPU4, 90)],
     [(PT_PROTO_ETHERNET, 0), (PT_PROTO_VLAN, 14), (PT_PROTO_IPV4, 22), (PT_PROTO_UDP, 86), (PT_PROTO_GTPU4, 94)],
     [(PT_PROTO_ETHERNET, 0), (PT_PROTO_VLAN, 14), (PT_PROTO_IPV4, 22), (PT_PROTO_UDP, 90), (PT_PROTO_GTPU4, 98)],
     [(PT_PROTO_ETHERNET, 0), (PT_PROTO_VLAN, 14), (PT_PROTO_IPV4, 22), (PT_PROTO_UDP, 94), (PT_PROTO_GTPU4, 102)],
     [(PT_PROTO_ETHERNET, 0), (PT_PROTO_VLAN, 14), (PT_PROTO_IPV4, 22), (PT_PROTO_UDP, 98), (PT_PROTO_GTPU4, 106)],
     [(PT_PROTO_ETHERNET, 0), (PT_PROTO_VLAN, 14), (PT_PROTO_IPV4, 22), (PT_PROTO_UDP, 102), (PT_PROTO_GTPU4, 110)],
     [(PT_PROTO_8023, 0), (PT_PROTO_VLAN, 22), (PT_PROTO_IPV4, 30), (PT_PROTO_UDP, 50), (PT_PROTO_GTPU4, 58)],
     [(PT_PROTO_8023, 0), (PT_PROTO_VLAN, 22), (PT_PROTO_IPV4, 30), (PT_PROTO_UDP, 54), (PT_PROTO_GTPU4, 62)],
     [(PT_PROTO_8023, 0), (PT_PROTO_VLAN, 22), (PT_PROTO_IPV4, 30), (PT_PROTO_UDP, 58), (PT_PROTO_GTPU4, 66)],
     [(PT_PROTO_8023, 0), (PT_PROTO_VLAN, 22), (PT_PROTO_IPV4, 30), (PT_PROTO_UDP, 62), (PT_PROTO_GTPU4, 70)],
     [(PT_PROTO_8023, 0), (PT_PROTO_VLAN, 22), (PT_PROTO_IPV4, 30), (PT_PROTO_UDP, 66), (PT_PROTO_GTPU4, 74)],
     [(PT_PROTO_8023, 0), (PT_PROTO_VLAN, 22), (PT_PROTO_IPV4, 30), (PT_PROTO_UDP, 70), (PT_PROTO_GTPU4, 78)],
     [(PT_PROTO_8023, 0), (PT_PROTO_VLAN, 22), (PT_PROTO_IPV4, 30), (PT_PROTO_UDP, 74), (PT_PROTO_GTPU4, 82)],
     [(PT_PROTO_8023, 0), (PT_PROTO_VLAN, 22), (PT_PROTO_IPV4, 30), (PT_PROTO_UDP, 78), (PT_PROTO_GTPU4, 86)],
     [(PT_PROTO_8023, 0), (PT_PROTO_VLAN, 22), (PT_PROTO_IPV4, 30), (PT_PROTO_UDP, 82), (PT_PROTO_GTPU4, 90)],
     [(PT_PROTO_8023, 0), (PT_PROTO_VLAN, 22), (PT_PROTO_IPV4, 30), (PT_PROTO_UDP, 86), (PT_PROTO_GTPU4, 94)],
     [(PT_PROTO_8023, 0), (PT_PROTO_VLAN, 22), (PT_PROTO_IPV4, 30), (PT_PROTO_UDP, 90), (PT_PROTO_GTPU4, 98)],
     [(PT_PROTO_8023, 0), (PT_PROTO_VLAN, 22), (PT_PROTO_IPV4, 30), (PT_PROTO_UDP, 94), (PT_PROTO_GTPU4, 102)],
     [(PT_PROTO_8023, 0), (PT_PROTO_VLAN, 22), (PT_PROTO_IPV4, 30), (PT_PROTO_UDP, 98), (PT_PROTO_GTPU4, 106)],
     [(PT_PROTO_8023, 0), (PT_PROTO_VLAN, 22), (PT_PROTO_IPV4, 30), (PT_PROTO_UDP, 102), (PT_PROTO_GTPU4, 110)],
     [(PT_PROTO_8023, 0), (PT_PROTO_VLAN, 22), (PT_PROTO_IPV4, 30), (PT_PROTO_UDP, 106), (PT_PROTO_GTPU4, 114)],
     [(PT_PROTO_8023, 0), (PT_PROTO_VLAN, 22), (PT_PROTO_IPV4, 30), (PT_PROTO_UDP, 110), (PT_PROTO_GTPU4, 118)],
     [(PT_PROTO_ETHERNET, 0), (PT_PROTO_IPV4, 14), (PT_PROTO_SCTP, 34)],
     [(PT_PROTO_ETHERNET, 0), (PT_PROTO_IPV4, 14), (PT_PROTO_SCTP, 38)],
     [(PT_PROTO_ETHERNET, 0), (PT_PROTO_IPV4, 14), (PT_PROTO_SCTP, 42)],
     [(PT_PROTO_ETHERNET, 0), (PT_PROTO_IPV4, 14), (PT_PROTO_SCTP, 46)],
     [(PT_PROTO_ETHERNET, 0), (PT_PROTO_IPV4, 14), (PT_PROTO_SCTP, 50)],
     [(PT_PROTO_ETHERNET, 0), (PT_PROTO_IPV4, 14), (PT_PROTO_SCTP, 54)],
     [(PT_PROTO_ETHERNET, 0), (PT_PROTO_IPV4, 14), (PT_PROTO_SCTP, 58)],
     [(PT_PROTO_ETHERNET, 0), (PT_PROTO_IPV4, 14), (PT_PROTO_SCTP, 62)],
     [(PT_PROTO_ETHERNET, 0), (PT_PROTO_IPV4, 14), (PT_PROTO_SCTP, 66)],
     [(PT_PROTO_ETHERNET, 0), (PT_PROTO_IPV4, 14), (PT_PROTO_SCTP, 70)],
     [(PT_PROTO_ETHERNET, 0), (PT_PROTO_IPV4, 14), (PT_PROTO_SCTP, 74)],
     [(PT_PROTO_ETHERNET, 0), (PT_PROTO_IPV4, 14), (PT_PROTO_SCTP, 78)],
     [(PT_PROTO_ETHERNET, 0), (PT_PROTO_IPV4, 14), (PT_PROTO_SCTP, 82)],
     [(PT_PROTO_ETHERNET, 0), (PT_PROTO_IPV4, 14), (PT_PROTO_SCTP, 86)],
     [(PT_PROTO_ETHERNET, 0), (PT_PROTO_IPV4, 14), (PT_PROTO_SCTP, 90)],
     [(PT_PROTO_ETHERNET, 0), (PT_PROTO_IPV4, 14), (PT_PROTO_SCTP, 94)],
     [(PT_PROTO_ETHERNET, 0), (PT_PROTO_ISID, 14), (PT_PROTO_IPV4, 18), (PT_PROTO_SCTP, 38)],
     [(PT_PROTO_ETHERNET, 0), (PT_PROTO_ISID, 14), (PT_PROTO_IPV4, 18), (PT_PROTO_SCTP, 42)],
     [(PT_PROTO_ETHERNET, 0), (PT_PROTO_ISID, 14), (PT_PROTO_IPV4, 18), (PT_PROTO_SCTP, 46)],
     [(PT_PROTO_ETHERNET, 0), (PT_PROTO_ISID, 14), (PT_PROTO_IPV4, 18), (PT_PROTO_SCTP, 50)],
     [(PT_PROTO_ETHERNET, 0), (PT_PROTO_ISID, 14), (PT_PROTO_IPV4, 18), (PT_PROTO_SCTP, 54)],
     [(PT_PROTO_ETHERNET, 0), (PT_PROTO_ISID, 14), (PT_PROTO_IPV4, 18), (PT_PROTO_SCTP, 58)],
     [(PT_PROTO_ETHERNET, 0), (PT_PROTO_ISID, 14), (PT_PROTO_IPV4, 18), (PT_PROTO_SCTP, 62)],
     [(PT_PROTO_ETHERNET, 0), (PT_PROTO_ISID, 14), (PT_PROTO_IPV4, 18), (PT_PROTO_SCTP, 66)],
     [(PT_PROTO_ETHERNET, 0), (PT_PROTO_ISID, 14), (PT_PROTO_IPV4, 18), (PT_PROTO_SCTP, 70)],
     [(PT_PROTO_ETHERNET, 0), (PT_PROTO_ISID, 14), (PT_PROTO_IPV4, 18), (PT_PROTO_SCTP, 74)],
     [(PT_PROTO_ETHERNET, 0), (PT_PROTO_ISID, 14), (PT_PROTO_IPV4, 18), (PT_PROTO_SCTP, 78)],
     [(PT_PROTO_ETHERNET, 0), (PT_PROTO_ISID, 14), (PT_PROTO_IPV4, 18), (PT_PROTO_SCTP, 82)],
     [(PT_PROTO_ETHERNET, 0), (PT_PROTO_ISID, 14), (PT_PROTO_IPV4, 18), (PT_PROTO_SCTP, 86)],
     [(PT_PROTO_ETHERNET, 0), (PT_PROTO_ISID, 14), (PT_PROTO_IPV4, 18), (PT_PROTO_SCTP, 90)],
     [(PT_PROTO_ETHERNET, 0), (PT_PROTO_ISID, 14), (PT_PROTO_IPV4, 18), (PT_PROTO_SCTP, 94)],
     [(PT_PROTO_ETHERNET, 0), (PT_PROTO_ISID, 14), (PT_PROTO_IPV4, 18), (PT_PROTO_SCTP, 98)],
     [(PT_PROTO_ETHERNET, 0), (PT_PROTO_VLAN, 14), (PT_PROTO_ISID, 18), (PT_PROTO_IPV4, 22), (PT_PROTO_SCTP, 42)],
     [(PT_PROTO_ETHERNET, 0), (PT_PROTO_VLAN, 14), (PT_PROTO_ISID, 18), (PT_PROTO_IPV4, 22), (PT_PROTO_SCTP, 46)],
     [(PT_PROTO_ETHERNET, 0), (PT_PROTO_VLAN, 14), (PT_PROTO_ISID, 18), (PT_PROTO_IPV4, 22), (PT_PROTO_SCTP, 50)],
     [(PT_PROTO_ETHERNET, 0), (PT_PROTO_VLAN, 14), (PT_PROTO_ISID, 18), (PT_PROTO_IPV4, 22), (PT_PROTO_SCTP, 54)],
     [(PT_PROTO_ETHERNET, 0), (PT_PROTO_VLAN, 14), (PT_PROTO_ISID, 18), (PT_PROTO_IPV4, 22), (PT_PROTO_SCTP, 58)],
     [(PT_PROTO_ETHERNET, 0), (PT_PROTO_VLAN, 14), (PT_PROTO_ISID, 18), (PT_PROTO_IPV4, 22), (PT_PROTO_SCTP, 62)],
     [(PT_PROTO_ETHERNET, 0), (PT_PROTO_VLAN, 14), (PT_PROTO_ISID, 18), (PT_PROTO_IPV4, 22), (PT_PROTO_SCTP, 66)],
     [(PT_PROTO_ETHERNET, 0), (PT_PROTO_VLAN, 14), (PT_PROTO_ISID, 18), (PT_PROTO_IPV4, 22), (PT_PROTO_SCTP, 70)],
     [(PT_PROTO_ETHERNET, 0), (PT_PROTO_VLAN, 14), (PT_PROTO_ISID, 18), (PT_PROTO_IPV4, 22), (PT_PROTO_SCTP, 74)],
     [(PT_PROTO_ETHERNET, 0), (PT_PROTO_VLAN, 14), (PT_PROTO_ISID, 18), (PT_PROTO_IPV4, 22), (PT_PROTO_SCTP, 78)],
     [(PT_PROTO_ETHERNET, 0), (PT_PROTO_VLAN, 14), (PT_PROTO_ISID, 18), (PT_PROTO_IPV4, 22), (PT_PROTO_SCTP, 82)],
     [(PT_PROTO_ETHERNET, 0), (PT_PROTO_VLAN, 14), (PT_PROTO_ISID, 18), (PT_PROTO_IPV4, 22), (PT_PROTO_SCTP, 86)],
     [(PT_PROTO_ETHERNET, 0), (PT_PROTO_VLAN, 14), (PT_PROTO_ISID, 18), (PT_PROTO_IPV4, 22), (PT_PROTO_SCTP, 90)],
     [(PT_PROTO_ETHERNET, 0), (PT_PROTO_VLAN, 14), (PT_PROTO_ISID, 18), (PT_PROTO_IPV4, 22), (PT_PROTO_SCTP, 94)],
     [(PT_PROTO_ETHERNET, 0), (PT_PROTO_VLAN, 14), (PT_PROTO_ISID, 18), (PT_PROTO_IPV4, 22), (PT_PROTO_SCTP, 98)],
     [(PT_PROTO_ETHERNET, 0), (PT_PROTO_VLAN, 14), (PT_PROTO_ISID, 18), (PT_PROTO_IPV4, 22), (PT_PROTO_SCTP, 102)],
     [(PT_PROTO_8023, 0), (PT_PROTO_IPV4, 22), (PT_PROTO_SCTP, 42)],
     [(PT_PROTO_8023, 0), (PT_PROTO_IPV4, 22), (PT_PROTO_SCTP, 46)],
     [(PT_PROTO_8023, 0), (PT_PROTO_IPV4, 22), (PT_PROTO_SCTP, 50)],
     [(PT_PROTO_8023, 0), (PT_PROTO_IPV4, 22), (PT_PROTO_SCTP, 54)],
     [(PT_PROTO_8023, 0), (PT_PROTO_IPV4, 22), (PT_PROTO_SCTP, 58)],
     [(PT_PROTO_8023, 0), (PT_PROTO_IPV4, 22), (PT_PROTO_SCTP, 62)],
     [(PT_PROTO_8023, 0), (PT_PROTO_IPV4, 22), (PT_PROTO_SCTP, 66)],
     [(PT_PROTO_8023, 0), (PT_PROTO_IPV4, 22), (PT_PROTO_SCTP, 70)],
     [(PT_PROTO_8023, 0), (PT_PROTO_IPV4, 22), (PT_PROTO_SCTP, 74)],
     [(PT_PROTO_8023, 0), (PT_PROTO_IPV4, 22), (PT_PROTO_SCTP, 78)],
     [(PT_PROTO_8023, 0), (PT_PROTO_IPV4, 22), (PT_PROTO_SCTP, 82)],
     [(PT_PROTO_8023, 0), (PT_PROTO_IPV4, 22), (PT_PROTO_SCTP, 86)],
     [(PT_PROTO_8023, 0), (PT_PROTO_IPV4, 22), (PT_PROTO_SCTP, 90)],
     [(PT_PROTO_8023, 0), (PT_PROTO_IPV4, 22), (PT_PROTO_SCTP, 94)],
     [(PT_PROTO_8023, 0), (PT_PROTO_IPV4, 22), (PT_PROTO_SCTP, 98)],
     [(PT_PROTO_8023, 0), (PT_PROTO_IPV4, 22), (PT_PROTO_SCTP, 102)],
     [(PT_PROTO_ETHERNET, 0), (PT_PROTO_VLAN, 14), (PT_PROTO_IPV4, 18), (PT_PROTO_SCTP, 38)],
     [(PT_PROTO_ETHERNET, 0), (PT_PROTO_VLAN, 14), (PT_PROTO_IPV4, 18), (PT_PROTO_SCTP, 42)],
     [(PT_PROTO_ETHERNET, 0), (PT_PROTO_VLAN, 14), (PT_PROTO_IPV4, 18), (PT_PROTO_SCTP, 46)],
     [(PT_PROTO_ETHERNET, 0), (PT_PROTO_VLAN, 14), (PT_PROTO_IPV4, 18), (PT_PROTO_SCTP, 50)],
     [(PT_PROTO_ETHERNET, 0), (PT_PROTO_VLAN, 14), (PT_PROTO_IPV4, 18), (PT_PROTO_SCTP, 54)],
     [(PT_PROTO_ETHERNET, 0), (PT_PROTO_VLAN, 14), (PT_PROTO_IPV4, 18), (PT_PROTO_SCTP, 58)],
     [(PT_PROTO_ETHERNET, 0), (PT_PROTO_VLAN, 14), (PT_PROTO_IPV4, 18), (PT_PROTO_SCTP, 62)],
     [(PT_PROTO_ETHERNET, 0), (PT_PROTO_VLAN, 14), (PT_PROTO_IPV4, 18), (PT_PROTO_SCTP, 66)],
     [(PT_PROTO_ETHERNET, 0), (PT_PROTO_VLAN, 14), (PT_PROTO_IPV4, 18), (PT_PROTO_SCTP, 70)],
     [(PT_PROTO_ETHERNET, 0), (PT_PROTO_VLAN, 14), (PT_PROTO_IPV4, 18), (PT_PROTO_SCTP, 74)],
     [(PT_PROTO_ETHERNET, 0), (PT_PROTO_VLAN, 14), (PT_PROTO_IPV4, 18), (PT_PROTO_SCTP, 78)],
     [(PT_PROTO_ETHERNET, 0), (PT_PROTO_VLAN, 14), (PT_PROTO_IPV4, 18), (PT_PROTO_SCTP, 82)],
     [(PT_PROTO_ETHERNET, 0), (PT_PROTO_VLAN, 14), (PT_PROTO_IPV4, 18), (PT_PROTO_SCTP, 86)],
     [(PT_PROTO_ETHERNET, 0), (PT_PROTO_VLAN, 14), (PT_PROTO_IPV4, 18), (PT_PROTO_SCTP, 90)],
     [(PT_PROTO_ETHERNET, 0), (PT_PROTO_VLAN, 14), (PT_PROTO_IPV4, 18), (PT_PROTO_SCTP, 94)],
     [(PT_PROTO_ETHERNET, 0), (PT_PROTO_VLAN, 14), (PT_PROTO_IPV4, 18), (PT_PROTO_SCTP, 98)],
     [(PT_PROTO_8023, 0), (PT_PROTO_VLAN, 22), (PT_PROTO_IPV4, 26), (PT_PROTO_SCTP, 46)],
     [(PT_PROTO_8023, 0), (PT_PROTO_VLAN, 22), (PT_PROTO_IPV4, 26), (PT_PROTO_SCTP, 50)],
     [(PT_PROTO_8023, 0), (PT_PROTO_VLAN, 22), (PT_PROTO_IPV4, 26), (PT_PROTO_SCTP, 54)],
     [(PT_PROTO_8023, 0), (PT_PROTO_VLAN, 22), (PT_PROTO_IPV4, 26), (PT_PROTO_SCTP, 58)],
     [(PT_PROTO_8023, 0), (PT_PROTO_VLAN, 22), (PT_PROTO_IPV4, 26), (PT_PROTO_SCTP, 62)],
     [(PT_PROTO_8023, 0), (PT_PROTO_VLAN, 22), (PT_PROTO_IPV4, 26), (PT_PROTO_SCTP, 66)],
     [(PT_PROTO_8023, 0), (PT_PROTO_VLAN, 22), (PT_PROTO_IPV4, 26), (PT_PROTO_SCTP, 70)],
     [(PT_PROTO_8023, 0), (PT_PROTO_VLAN, 22), (PT_PROTO_IPV4, 26), (PT_PROTO_SCTP, 74)],
     [(PT_PROTO_8023, 0), (PT_PROTO_VLAN, 22), (PT_PROTO_IPV4, 26), (PT_PROTO_SCTP, 78)],
     [(PT_PROTO_8023, 0), (PT_PROTO_VLAN, 22), (PT_PROTO_IPV4, 26), (PT_PROTO_SCTP, 82)],
     [(PT_PROTO_8023, 0), (PT_PROTO_VLAN, 22), (PT_PROTO_IPV4, 26), (PT_PROTO_SCTP, 86)],
     [(PT_PROTO_8023, 0), (PT_PROTO_VLAN, 22), (PT_PROTO_IPV4, 26), (PT_PROTO_SCTP, 90)],
     [(PT_PROTO_8023, 0), (PT_PROTO_VLAN, 22), (PT_PROTO_IPV4, 26), (PT_PROTO_SCTP, 94)],
     [(PT_PROTO_8023, 0), (PT_PROTO_VLAN, 22), (PT_PROTO_IPV4, 26), (PT_PROTO_SCTP, 98)],
     [(PT_PROTO_8023, 0), (PT_PROTO_VLAN, 22), (PT_PROTO_IPV4, 26), (PT_PROTO_SCTP, 102)],
     [(PT_PROTO_8023, 0), (PT_PROTO_VLAN, 22), (PT_PROTO_IPV4, 26), (PT_PROTO_SCTP, 106)],
     [(PT_PROTO_ETHERNET, 0), (PT_PROTO_VLAN, 14), (PT_PROTO_IPV4, 22), (PT_PROTO_SCTP, 42)],
     [(PT_PROTO_ETHERNET, 0), (PT_PROTO_VLAN, 14), (PT_PROTO_IPV4, 22), (PT_PROTO_SCTP, 46)],
     [(PT_PROTO_ETHERNET, 0), (PT_PROTO_VLAN, 14), (PT_PROTO_IPV4, 22), (PT_PROTO_SCTP, 50)],
     [(PT_PROTO_ETHERNET, 0), (PT_PROTO_VLAN, 14), (PT_PROTO_IPV4, 22), (PT_PROTO_SCTP, 54)],
     [(PT_PROTO_ETHERNET, 0), (PT_PROTO_VLAN, 14), (PT_PROTO_IPV4, 22), (PT_PROTO_SCTP, 58)],
     [(PT_PROTO_ETHERNET, 0), (PT_PROTO_VLAN, 14), (PT_PROTO_IPV4, 22), (PT_PROTO_SCTP, 62)],
     [(PT_PROTO_ETHERNET, 0), (PT_PROTO_VLAN, 14), (PT_PROTO_IPV4, 22), (PT_PROTO_SCTP, 66)],
     [(PT_PROTO_ETHERNET, 0), (PT_PROTO_VLAN, 14), (PT_PROTO_IPV4, 22), (PT_PROTO_SCTP, 70)],
     [(PT_PROTO_ETHERNET, 0), (PT_PROTO_VLAN, 14), (PT_PROTO_IPV4, 22), (PT_PROTO_SCTP, 74)],
     [(PT_PROTO_ETHERNET, 0), (PT_PROTO_VLAN, 14), (PT_PROTO_IPV4, 22), (PT_PROTO_SCTP, 78)],
     [(PT_PROTO_ETHERNET, 0), (PT_PROTO_VLAN, 14), (PT_PROTO_IPV4, 22), (PT_PROTO_SCTP, 82)],
     [(PT_PROTO_ETHERNET, 0), (PT_PROTO_VLAN, 14), (PT_PROTO_IPV4, 22), (PT_PROTO_SCTP, 86)],
     [(PT_PROTO_ETHERNET, 0), (PT_PROTO_VLAN, 14), (PT_PROTO_IPV4, 22), (PT_PROTO_SCTP, 90)],
     [(PT_PROTO_ETHERNET, 0), (PT_PROTO_VLAN, 14), (PT_PROTO_IPV4, 22), (PT_PROTO_SCTP, 94)],
     [(PT_PROTO_ETHERNET, 0), (PT_PROTO_VLAN, 14), (PT_PROTO_IPV4, 22), (PT_PROTO_SCTP, 98)],
     [(PT_PROTO_ETHERNET, 0), (PT_PROTO_VLAN, 14), (PT_PROTO_IPV4, 22), (PT_PROTO_SCTP, 102)],
     [(PT_PROTO_8023, 0), (PT_PROTO_VLAN, 22), (PT_PROTO_IPV4, 30), (PT_PROTO_SCTP, 50)],
     [(PT_PROTO_8023, 0), (PT_PROTO_VLAN, 22), (PT_PROTO_IPV4, 30), (PT_PROTO_SCTP, 54)],
     [(PT_PROTO_8023, 0), (PT_PROTO_VLAN, 22), (PT_PROTO_IPV4, 30), (PT_PROTO_SCTP, 58)],
     [(PT_PROTO_8023, 0), (PT_PROTO_VLAN, 22), (PT_PROTO_IPV4, 30), (PT_PROTO_SCTP, 62)],
     [(PT_PROTO_8023, 0), (PT_PROTO_VLAN, 22), (PT_PROTO_IPV4, 30), (PT_PROTO_SCTP, 66)],
     [(PT_PROTO_8023, 0), (PT_PROTO_VLAN, 22), (PT_PROTO_IPV4, 30), (PT_PROTO_SCTP, 70)],
     [(PT_PROTO_8023, 0), (PT_PROTO_VLAN, 22), (PT_PROTO_IPV4, 30), (PT_PROTO_SCTP, 74)],
     [(PT_PROTO_8023, 0), (PT_PROTO_VLAN, 22), (PT_PROTO_IPV4, 30), (PT_PROTO_SCTP, 78)],
     [(PT_PROTO_8023, 0), (PT_PROTO_VLAN, 22), (PT_PROTO_IPV4, 30), (PT_PROTO_SCTP, 82)],
     [(PT_PROTO_8023, 0), (PT_PROTO_VLAN, 22), (PT_PROTO_IPV4, 30), (PT_PROTO_SCTP, 86)]]"

definition offsets_table_8 :: "(protocol \<times> nat) list list" where
  "offsets_table_8 =
    [[(PT_PROTO_8023, 0), (PT_PROTO_VLAN, 22), (PT_PROTO_IPV4, 30), (PT_PROTO_SCTP, 90)],
     [(PT_PROTO_8023, 0), (PT_PROTO_VLAN, 22), (PT_PROTO_IPV4, 30), (PT_PROTO_SCTP, 94)],
     [(PT_PROTO_8023, 0), (PT_PROTO_VLAN, 22), (PT_PROTO_IPV4, 30), (PT_PROTO_SCTP, 98)],
     [(PT_PROTO_8023, 0), (PT_PROTO_VLAN, 22), (PT_PROTO_IPV4, 30), (PT_PROTO_SCTP, 102)],
     [(PT_PROTO_8023, 0), (PT_PROTO_VLAN, 22), (PT_PROTO_IPV4, 30), (PT_PROTO_SCTP, 106)],
     [(PT_PROTO_8023, 0), (PT_PROTO_VLAN, 22), (PT_PROTO_IPV4, 30), (PT_PROTO_SCTP, 110)],
     [(PT_PROTO_ETHERNET, 0), (PT_PROTO_IPV4, 14), (PT_PROTO_GRE4, 34)],
     [(PT_PROTO_ETHERNET, 0), (PT_PROTO_IPV4, 14), (PT_PROTO_GRE4, 38)],
     [(PT_PROTO_ETHERNET, 0), (PT_PROTO_IPV4, 14), (PT_PROTO_GRE4, 42)],
     [(PT_PROTO_ETHERNET, 0), (PT_PROTO_IPV4, 14), (PT_PROTO_GRE4, 46)],
     [(PT_PROTO_ETHERNET, 0), (PT_PROTO_IPV4, 14), (PT_PROTO_GRE4, 50)],
     [(PT_PROTO_ETHERNET, 0), (PT_PROTO_IPV4, 14), (PT_PROTO_GRE4, 54)],
     [(PT_PROTO_ETHERNET, 0), (PT_PROTO_IPV4, 14), (PT_PROTO_GRE4, 58)],
     [(PT_PROTO_ETHERNET, 0), (PT_PROTO_IPV4, 14), (PT_PROTO_GRE4, 62)],
     [(PT_PROTO_ETHERNET, 0), (PT_PROTO_IPV4, 14), (PT_PROTO_GRE4, 66)],
     [(PT_PROTO_ETHERNET, 0), (PT_PROTO_IPV4, 14), (PT_PROTO_GRE4, 70)],
     [(PT_PROTO_ETHERNET, 0), (PT_PROTO_IPV4, 14), (PT_PROTO_GRE4, 74)],
     [(PT_PROTO_ETHERNET, 0), (PT_PROTO_IPV4, 14), (PT_PROTO_GRE4, 78)],
     [(PT_PROTO_ETHERNET, 0), (PT_PROTO_IPV4, 14), (PT_PROTO_GRE4, 82)],
     [(PT_PROTO_ETHERNET, 0), (PT_PROTO_IPV4, 14), (PT_PROTO_GRE4, 86)],
     [(PT_PROTO_ETHERNET, 0), (PT_PROTO_IPV4, 14), (PT_PROTO_GRE4, 90)],
     [(PT_PROTO_ETHERNET, 0), (PT_PROTO_IPV4, 14), (PT_PROTO_GRE4, 94)],
     [(PT_PROTO_ETHERNET, 0), (PT_PROTO_ISID, 14), (PT_PROTO_IPV4, 18), (PT_PROTO_GRE4, 38)],
     [(PT_PROTO_ETHERNET, 0), (PT_PROTO_ISID, 14), (PT_PROTO_IPV4, 18), (PT_PROTO_GRE4, 42)],
     [(PT_PROTO_ETHERNET, 0), (PT_PROTO_ISID, 14), (PT_PROTO_IPV4, 18), (PT_PROTO_GRE4, 46)],
     [(PT_PROTO_ETHERNET, 0), (PT_PROTO_ISID, 14), (PT_PROTO_IPV4, 18), (PT_PROTO_GRE4, 50)],
     [(PT_PROTO_ETHERNET, 0), (PT_PROTO_ISID, 14), (PT_PROTO_IPV4, 18), (PT_PROTO_GRE4, 54)],
     [(PT_PROTO_ETHERNET, 0), (PT_PROTO_ISID, 14), (PT_PROTO_IPV4, 18), (PT_PROTO_GRE4, 58)],
     [(PT_PROTO_ETHERNET, 0), (PT_PROTO_ISID, 14), (PT_PROTO_IPV4, 18), (PT_PROTO_GRE4, 62)],
     [(PT_PROTO_ETHERNET, 0), (PT_PROTO_ISID, 14), (PT_PROTO_IPV4, 18), (PT_PROTO_GRE4, 66)],
     [(PT_PROTO_ETHERNET, 0), (PT_PROTO_ISID, 14), (PT_PROTO_IPV4, 18), (PT_PROTO_GRE4, 70)],
     [(PT_PROTO_ETHERNET, 0), (PT_PROTO_ISID, 14), (PT_PROTO_IPV4, 18), (PT_PROTO_GRE4, 74)],
     [(PT_PROTO_ETHERNET, 0), (PT_PROTO_ISID, 14), (PT_PROTO_IPV4, 18), (PT_PROTO_GRE4, 78)],
     [(PT_PROTO_ETHERNET, 0), (PT_PROTO_ISID, 14), (PT_PROTO_IPV4, 18), (PT_PROTO_GRE4, 82)],
     [(PT_PROTO_ETHERNET, 0), (PT_PROTO_ISID, 14), (PT_PROTO_IPV4, 18), (PT_PROTO_GRE4, 86)],
     [(PT_PROTO_ETHERNET, 0), (PT_PROTO_ISID, 14), (PT_PROTO_IPV4, 18), (PT_PROTO_GRE4, 90)],
     [(PT_PROTO_ETHERNET, 0), (PT_PROTO_ISID, 14), (PT_PROTO_IPV4, 18), (PT_PROTO_GRE4, 94)],
     [(PT_PROTO_ETHERNET, 0), (PT_PROTO_ISID, 14), (PT_PROTO_IPV4, 18), (PT_PROTO_GRE4, 98)],
     [(PT_PROTO_ETHERNET, 0), (PT_PROTO_VLAN, 14), (PT_PROTO_ISID, 18), (PT_PROTO_IPV4, 22), (PT_PROTO_GRE4, 42)],
     [(PT_PROTO_ETHERNET, 0), (PT_PROTO_VLAN, 14), (PT_PROTO_ISID, 18), (PT_PROTO_IPV4, 22), (PT_PROTO_GRE4, 46)],
     [(PT_PROTO_ETHERNET, 0), (PT_PROTO_VLAN, 14), (PT_PROTO_ISID, 18), (PT_PROTO_IPV4, 22), (PT_PROTO_GRE4, 50)],
     [(PT_PROTO_ETHERNET, 0), (PT_PROTO_VLAN, 14), (PT_PROTO_ISID, 18), (PT_PROTO_IPV4, 22), (PT_PROTO_GRE4, 54)],
     [(PT_PROTO_ETHERNET, 0), (PT_PROTO_VLAN, 14), (PT_PROTO_ISID, 18), (PT_PROTO_IPV4, 22), (PT_PROTO_GRE4, 58)],
     [(PT_PROTO_ETHERNET, 0), (PT_PROTO_VLAN, 14), (PT_PROTO_ISID, 18), (PT_PROTO_IPV4, 22), (PT_PROTO_GRE4, 62)],
     [(PT_PROTO_ETHERNET, 0), (PT_PROTO_VLAN, 14), (PT_PROTO_ISID, 18), (PT_PROTO_IPV4, 22), (PT_PROTO_GRE4, 66)],
     [(PT_PROTO_ETHERNET, 0), (PT_PROTO_VLAN, 14), (PT_PROTO_ISID, 18), (PT_PROTO_IPV4, 22), (PT_PROTO_GRE4, 70)],
     [(PT_PROTO_ETHERNET, 0), (PT_PROTO_VLAN, 14), (PT_PROTO_ISID, 18), (PT_PROTO_IPV4, 22), (PT_PROTO_GRE4, 74)],
     [(PT_PROTO_ETHERNET, 0), (PT_PROTO_VLAN, 14), (PT_PROTO_ISID, 18), (PT_PROTO_IPV4, 22), (PT_PROTO_GRE4, 78)],
     [(PT_PROTO_ETHERNET, 0), (PT_PROTO_VLAN, 14), (PT_PROTO_ISID, 18), (PT_PROTO_IPV4, 22), (PT_PROTO_GRE4, 82)],
     [(PT_PROTO_ETHERNET, 0), (PT_PROTO_VLAN, 14), (PT_PROTO_ISID, 18), (PT_PROTO_IPV4, 22), (PT_PROTO_GRE4, 86)],
     [(PT_PROTO_ETHERNET, 0), (PT_PROTO_VLAN, 14), (PT_PROTO_ISID, 18), (PT_PROTO_IPV4, 22), (PT_PROTO_GRE4, 90)],
     [(PT_PROTO_ETHERNET, 0), (PT_PROTO_VLAN, 14), (PT_PROTO_ISID, 18), (PT_PROTO_IPV4, 22), (PT_PROTO_GRE4, 94)],
     [(PT_PROTO_ETHERNET, 0), (PT_PROTO_VLAN, 14), (PT_PROTO_ISID, 18), (PT_PROTO_IPV4, 22), (PT_PROTO_GRE4, 98)],
     [(PT_PROTO_ETHERNET, 0), (PT_PROTO_VLAN, 14), (PT_PROTO_ISID, 18), (PT_PROTO_IPV4, 22), (PT_PROTO_GRE4, 102)],
     [(PT_PROTO_8023, 0), (PT_PROTO_IPV4, 22), (PT_PROTO_GRE4, 42)],
     [(PT_PROTO_8023, 0), (PT_PROTO_IPV4, 22), (PT_PROTO_GRE4, 46)],
     [(PT_PROTO_8023, 0), (PT_PROTO_IPV4, 22), (PT_PROTO_GRE4, 50)],
     [(PT_PROTO_8023, 0), (PT_PROTO_IPV4, 22), (PT_PROTO_GRE4, 54)],
     [(PT_PROTO_8023, 0), (PT_PROTO_IPV4, 22), (PT_PROTO_GRE4, 58)],
     [(PT_PROTO_8023, 0), (PT_PROTO_IPV4, 22), (PT_PROTO_GRE4, 62)],
     [(PT_PROTO_8023, 0), (PT_PROTO_IPV4, 22), (PT_PROTO_GRE4, 66)],
     [(PT_PROTO_8023, 0), (PT_PROTO_IPV4, 22), (PT_PROTO_GRE4, 70)],
     [(PT_PROTO_8023, 0), (PT_PROTO_IPV4, 22), (PT_PROTO_GRE4, 74)],
     [(PT_PROTO_8023, 0), (PT_PROTO_IPV4, 22), (PT_PROTO_GRE4, 78)],
     [(PT_PROTO_8023, 0), (PT_PROTO_IPV4, 22), (PT_PROTO_GRE4, 82)],
     [(PT_PROTO_8023, 0), (PT_PROTO_IPV4, 22), (PT_PROTO_GRE4, 86)],
     [(PT_PROTO_8023, 0), (PT_PROTO_IPV4, 22), (PT_PROTO_GRE4, 90)],
     [(PT_PROTO_8023, 0), (PT_PROTO_IPV4, 22), (PT_PROTO_GRE4, 94)],
     [(PT_PROTO_8023, 0), (PT_PROTO_IPV4, 22), (PT_PROTO_GRE4, 98)],
     [(PT_PROTO_8023, 0), (PT_PROTO_IPV4, 22), (PT_PROTO_GRE4, 102)],
     [(PT_PROTO_ETHERNET, 0), (PT_PROTO_VLAN, 14), (PT_PROTO_IPV4, 18), (PT_PROTO_GRE4, 38)],
     [(PT_PROTO_ETHERNET, 0), (PT_PROTO_VLAN, 14), (PT_PROTO_IPV4, 18), (PT_PROTO_GRE4, 42)],
     [(PT_PROTO_ETHERNET, 0), (PT_PROTO_VLAN, 14), (PT_PROTO_IPV4, 18), (PT_PROTO_GRE4, 46)],
     [(PT_PROTO_ETHERNET, 0), (PT_PROTO_VLAN, 14), (PT_PROTO_IPV4, 18), (PT_PROTO_GRE4, 50)],
     [(PT_PROTO_ETHERNET, 0), (PT_PROTO_VLAN, 14), (PT_PROTO_IPV4, 18), (PT_PROTO_GRE4, 54)],
     [(PT_PROTO_ETHERNET, 0), (PT_PROTO_VLAN, 14), (PT_PROTO_IPV4, 18), (PT_PROTO_GRE4, 58)],
     [(PT_PROTO_ETHERNET, 0), (PT_PROTO_VLAN, 14), (PT_PROTO_IPV4, 18), (PT_PROTO_GRE4, 62)],
     [(PT_PROTO_ETHERNET, 0), (PT_PROTO_VLAN, 14), (PT_PROTO_IPV4, 18), (PT_PROTO_GRE4, 66)],
     [(PT_PROTO_ETHERNET, 0), (PT_PROTO_VLAN, 14), (PT_PROTO_IPV4, 18), (PT_PROTO_GRE4, 70)],
     [(PT_PROTO_ETHERNET, 0), (PT_PROTO_VLAN, 14), (PT_PROTO_IPV4, 18), (PT_PROTO_GRE4, 74)],
     [(PT_PROTO_ETHERNET, 0), (PT_PROTO_VLAN, 14), (PT_PROTO_IPV4, 18), (PT_PROTO_GRE4, 78)],
     [(PT_PROTO_ETHERNET, 0), (PT_PROTO_VLAN, 14), (PT_PROTO_IPV4, 18), (PT_PROTO_GRE4, 82)],
     [(PT_PROTO_ETHERNET, 0), (PT_PROTO_VLAN, 14), (PT_PROTO_IPV4, 18), (PT_PROTO_GRE4, 86)],
     [(PT_PROTO_ETHERNET, 0), (PT_PROTO_VLAN, 14), (PT_PROTO_IPV4, 18), (PT_PROTO_GRE4, 90)],
     [(PT_PROTO_ETHERNET, 0), (PT_PROTO_VLAN, 14), (PT_PROTO_IPV4, 18), (PT_PROTO_GRE4, 94)],
     [(PT_PROTO_ETHERNET, 0), (PT_PROTO_VLAN, 14), (PT_PROTO_IPV4, 18), (PT_PROTO_GRE4, 98)],
     [(PT_PROTO_8023, 0), (PT_PROTO_VLAN, 22), (PT_PROTO_IPV4, 26), (PT_PROTO_GRE4, 46)],
     [(PT_PROTO_8023, 0), (PT_PROTO_VLAN, 22), (PT_PROTO_IPV4, 26), (PT_PROTO_GRE4, 50)],
     [(PT_PROTO_8023, 0), (PT_PROTO_VLAN, 22), (PT_PROTO_IPV4, 26), (PT_PROTO_GRE4, 54)],
     [(PT_PROTO_8023, 0), (PT_PROTO_VLAN, 22), (PT_PROTO_IPV4, 26), (PT_PROTO_GRE4, 58)],
     [(PT_PROTO_8023, 0), (PT_PROTO_VLAN, 22), (PT_PROTO_IPV4, 26), (PT_PROTO_GRE4, 62)],
     [(PT_PROTO_8023, 0), (PT_PROTO_VLAN, 22), (PT_PROTO_IPV4, 26), (PT_PROTO_GRE4, 66)],
     [(PT_PROTO_8023, 0), (PT_PROTO_VLAN, 22), (PT_PROTO_IPV4, 26), (PT_PROTO_GRE4, 70)],
     [(PT_PROTO_8023, 0), (PT_PROTO_VLAN, 22), (PT_PROTO_IPV4, 26), (PT_PROTO_GRE4, 74)],
     [(PT_PROTO_8023, 0), (PT_PROTO_VLAN, 22), (PT_PROTO_IPV4, 26), (PT_PROTO_GRE4, 78)],
     [(PT_PROTO_8023, 0), (PT_PROTO_VLAN, 22), (PT_PROTO_IPV4, 26), (PT_PROTO_GRE4, 82)],
     [(PT_PROTO_8023, 0), (PT_PROTO_VLAN, 22), (PT_PROTO_IPV4, 26), (PT_PROTO_GRE4, 86)],
     [(PT_PROTO_8023, 0), (PT_PROTO_VLAN, 22), (PT_PROTO_IPV4, 26), (PT_PROTO_GRE4, 90)],
     [(PT_PROTO_8023, 0), (PT_PROTO_VLAN, 22), (PT_PROTO_IPV4, 26), (PT_PROTO_GRE4, 94)],
     [(PT_PROTO_8023, 0), (PT_PROTO_VLAN, 22), (PT_PROTO_IPV4, 26), (PT_PROTO_GRE4, 98)],
     [(PT_PROTO_8023, 0), (PT_PROTO_VLAN, 22), (PT_PROTO_IPV4, 26), (PT_PROTO_GRE4, 102)],
     [(PT_PROTO_8023, 0), (PT_PROTO_VLAN, 22), (PT_PROTO_IPV4, 26), (PT_PROTO_GRE4, 106)],
     [(PT_PROTO_ETHERNET, 0), (PT_PROTO_VLAN, 14), (PT_PROTO_IPV4, 22), (PT_PROTO_GRE4, 42)],
     [(PT_PROTO_ETHERNET, 0), (PT_PROTO_VLAN, 14), (PT_PROTO_IPV4, 22), (PT_PROTO_GRE4, 46)],
     [(PT_PROTO_ETHERNET, 0), (PT_PROTO_VLAN, 14), (PT_PROTO_IPV4, 22), (PT_PROTO_GRE4, 50)],
     [(PT_PROTO_ETHERNET, 0), (PT_PROTO_VLAN, 14), (PT_PROTO_IPV4, 22), (PT_PROTO_GRE4, 54)],
     [(PT_PROTO_ETHERNET, 0), (PT_PROTO_VLAN, 14), (PT_PROTO_IPV4, 22), (PT_PROTO_GRE4, 58)],
     [(PT_PROTO_ETHERNET, 0), (PT_PROTO_VLAN, 14), (PT_PROTO_IPV4, 22), (PT_PROTO_GRE4, 62)],
     [(PT_PROTO_ETHERNET, 0), (PT_PROTO_VLAN, 14), (PT_PROTO_IPV4, 22), (PT_PROTO_GRE4, 66)],
     [(PT_PROTO_ETHERNET, 0), (PT_PROTO_VLAN, 14), (PT_PROTO_IPV4, 22), (PT_PROTO_GRE4, 70)],
     [(PT_PROTO_ETHERNET, 0), (PT_PROTO_VLAN, 14), (PT_PROTO_IPV4, 22), (PT_PROTO_GRE4, 74)],
     [(PT_PROTO_ETHERNET, 0), (PT_PROTO_VLAN, 14), (PT_PROTO_IPV4, 22), (PT_PROTO_GRE4, 78)],
     [(PT_PROTO_ETHERNET, 0), (PT_PROTO_VLAN, 14), (PT_PROTO_IPV4, 22), (PT_PROTO_GRE4, 82)],
     [(PT_PROTO_ETHERNET, 0), (PT_PROTO_VLAN, 14), (PT_PROTO_IPV4, 22), (PT_PROTO_GRE4, 86)],
     [(PT_PROTO_ETHERNET, 0), (PT_PROTO_VLAN, 14), (PT_PROTO_IPV4, 22), (PT_PROTO_GRE4, 90)],
     [(PT_PROTO_ETHERNET, 0), (PT_PROTO_VLAN, 14), (PT_PROTO_IPV4, 22), (PT_PROTO_GRE4, 94)],
     [(PT_PROTO_ETHERNET, 0), (PT_PROTO_VLAN, 14), (PT_PROTO_IPV4, 22), (PT_PROTO_GRE4, 98)],
     [(PT_PROTO_ETHERNET, 0), (PT_PROTO_VLAN, 14), (PT_PROTO_IPV4, 22), (PT_PROTO_GRE4, 102)],
     [(PT_PROTO_8023, 0), (PT_PROTO_VLAN, 22), (PT_PROTO_IPV4, 30), (PT_PROTO_GRE4, 50)],
     [(PT_PROTO_8023, 0), (PT_PROTO_VLAN, 22), (PT_PROTO_IPV4, 30), (PT_PROTO_GRE4, 54)],
     [(PT_PROTO_8023, 0), (PT_PROTO_VLAN, 22), (PT_PROTO_IPV4, 30), (PT_PROTO_GRE4, 58)],
     [(PT_PROTO_8023, 0), (PT_PROTO_VLAN, 22), (PT_PROTO_IPV4, 30), (PT_PROTO_GRE4, 62)],
     [(PT_PROTO_8023, 0), (PT_PROTO_VLAN, 22), (PT_PROTO_IPV4, 30), (PT_PROTO_GRE4, 66)],
     [(PT_PROTO_8023, 0), (PT_PROTO_VLAN, 22), (PT_PROTO_IPV4, 30), (PT_PROTO_GRE4, 70)],
     [(PT_PROTO_8023, 0), (PT_PROTO_VLAN, 22), (PT_PROTO_IPV4, 30), (PT_PROTO_GRE4, 74)],
     [(PT_PROTO_8023, 0), (PT_PROTO_VLAN, 22), (PT_PROTO_IPV4, 30), (PT_PROTO_GRE4, 78)],
     [(PT_PROTO_8023, 0), (PT_PROTO_VLAN, 22), (PT_PROTO_IPV4, 30), (PT_PROTO_GRE4, 82)],
     [(PT_PROTO_8023, 0), (PT_PROTO_VLAN, 22), (PT_PROTO_IPV4, 30), (PT_PROTO_GRE4, 86)],
     [(PT_PROTO_8023, 0), (PT_PROTO_VLAN, 22), (PT_PROTO_IPV4, 30), (PT_PROTO_GRE4, 90)],
     [(PT_PROTO_8023, 0), (PT_PROTO_VLAN, 22), (PT_PROTO_IPV4, 30), (PT_PROTO_GRE4, 94)],
     [(PT_PROTO_8023, 0), (PT_PROTO_VLAN, 22), (PT_PROTO_IPV4, 30), (PT_PROTO_GRE4, 98)],
     [(PT_PROTO_8023, 0), (PT_PROTO_VLAN, 22), (PT_PROTO_IPV4, 30), (PT_PROTO_GRE4, 102)],
     [(PT_PROTO_8023, 0), (PT_PROTO_VLAN, 22), (PT_PROTO_IPV4, 30), (PT_PROTO_GRE4, 106)],
     [(PT_PROTO_8023, 0), (PT_PROTO_VLAN, 22), (PT_PROTO_IPV4, 30), (PT_PROTO_GRE4, 110)],
     [(PT_PROTO_ETHERNET, 0), (PT_PROTO_IPV6, 14)],
     [(PT_PROTO_ETHERNET, 0), (PT_PROTO_ISID, 14), (PT_PROTO_IPV6, 18)],
     [(PT_PROTO_ETHERNET, 0), (PT_PROTO_VLAN, 14), (PT_PROTO_ISID, 18), (PT_PROTO_IPV6, 22)],
     [(PT_PROTO_8023, 0), (PT_PROTO_IPV6, 22)],
     [(PT_PROTO_ETHERNET, 0), (PT_PROTO_VLAN, 14), (PT_PROTO_IPV6, 18)],
     [(PT_PROTO_8023, 0), (PT_PROTO_VLAN, 22), (PT_PROTO_IPV6, 26)],
     [(PT_PROTO_ETHERNET, 0), (PT_PROTO_VLAN, 14), (PT_PROTO_IPV6, 22)],
     [(PT_PROTO_8023, 0), (PT_PROTO_VLAN, 22), (PT_PROTO_IPV6, 30)],
     [(PT_PROTO_ETHERNET, 0), (PT_PROTO_IPV6, 14), (PT_PROTO_ICMPV6, 54)],
     [(PT_PROTO_ETHERNET, 0), (PT_PROTO_ISID, 14), (PT_PROTO_IPV6, 18), (PT_PROTO_ICMPV6, 58)],
     [(PT_PROTO_ETHERNET, 0), (PT_PROTO_VLAN, 14), (PT_PROTO_ISID, 18), (PT_PROTO_IPV6, 22), (PT_PROTO_ICMPV6, 62)],
     [(PT_PROTO_8023, 0), (PT_PROTO_IPV6, 22), (PT_PROTO_ICMPV6, 62)],
     [(PT_PROTO_ETHERNET, 0), (PT_PROTO_VLAN, 14), (PT_PROTO_IPV6, 18), (PT_PROTO_ICMPV6, 58)],
     [(PT_PROTO_8023, 0), (PT_PROTO_VLAN, 22), (PT_PROTO_IPV6, 26), (PT_PROTO_ICMPV6, 66)],
     [(PT_PROTO_ETHERNET, 0), (PT_PROTO_VLAN, 14), (PT_PROTO_IPV6, 22), (PT_PROTO_ICMPV6, 62)],
     [(PT_PROTO_8023, 0), (PT_PROTO_VLAN, 22), (PT_PROTO_IPV6, 30), (PT_PROTO_ICMPV6, 70)]]"

definition offsets_table_9 :: "(protocol \<times> nat) list list" where
  "offsets_table_9 =
    [[(PT_PROTO_ETHERNET, 0), (PT_PROTO_IPV6, 14), (PT_PROTO_ICMPV6, 54), (PT_PROTO_ICMPV6_OPTS_LLADR_SRC, 58)],
     [(PT_PROTO_ETHERNET, 0), (PT_PROTO_ISID, 14), (PT_PROTO_IPV6, 18), (PT_PROTO_ICMPV6, 58), (PT_PROTO_ICMPV6_OPTS_LLADR_SRC, 62)],
     [(PT_PROTO_ETHERNET, 0), (PT_PROTO_VLAN, 14), (PT_PROTO_ISID, 18), (PT_PROTO_IPV6, 22), (PT_PROTO_ICMPV6, 62), (PT_PROTO_ICMPV6_OPTS_LLADR_SRC, 66)],
     [(PT_PROTO_8023, 0), (PT_PROTO_IPV6, 22), (PT_PROTO_ICMPV6, 62), (PT_PROTO_ICMPV6_OPTS_LLADR_SRC, 66)],
     [(PT_PROTO_ETHERNET, 0), (PT_PROTO_VLAN, 14), (PT_PROTO_IPV6, 18), (PT_PROTO_ICMPV6, 58), (PT_PROTO_ICMPV6_OPTS_LLADR_SRC, 62)],
     [(PT_PROTO_8023, 0), (PT_PROTO_VLAN, 22), (PT_PROTO_IPV6, 26), (PT_PROTO_ICMPV6, 66), (PT_PROTO_ICMPV6_OPTS_LLADR_SRC, 70)],
     [(PT_PROTO_ETHERNET, 0), (PT_PROTO_VLAN, 14), (PT_PROTO_IPV6, 22), (PT_PROTO_ICMPV6, 62), (PT_PROTO_ICMPV6_OPTS_LLADR_SRC, 66)],
     [(PT_PROTO_8023, 0), (PT_PROTO_VLAN, 22), (PT_PROTO_IPV6, 30), (PT_PROTO_ICMPV6, 70), (PT_PROTO_ICMPV6_OPTS_LLADR_SRC, 74)],
     [(PT_PROTO_ETHERNET, 0), (PT_PROTO_IPV6, 14), (PT_PROTO_ICMPV6, 54), (PT_PROTO_ICMPV6_OPTS_LLADR_TGT, 58)],
     [(PT_PROTO_ETHERNET, 0), (PT_PROTO_ISID, 14), (PT_PROTO_IPV6, 18), (PT_PROTO_ICMPV6, 58), (PT_PROTO_ICMPV6_OPTS_LLADR_TGT, 62)],
     [(PT_PROTO_ETHERNET, 0), (PT_PROTO_VLAN, 14), (PT_PROTO_ISID, 18), (PT_PROTO_IPV6, 22), (PT_PROTO_ICMPV6, 62), (PT_PROTO_ICMPV6_OPTS_LLADR_TGT, 66)],
     [(PT_PROTO_8023, 0), (PT_PROTO_IPV6, 22), (PT_PROTO_ICMPV6, 62), (PT_PROTO_ICMPV6_OPTS_LLADR_TGT, 66)],
     [(PT_PROTO_ETHERNET, 0), (PT_PROTO_VLAN, 14), (PT_PROTO_IPV6, 18), (PT_PROTO_ICMPV6, 58), (PT_PROTO_ICMPV6_OPTS_LLADR_TGT, 62)],
     [(PT_PROTO_8023, 0), (PT_PROTO_VLAN, 22), (PT_PROTO_IPV6, 26), (PT_PROTO_ICMPV6, 66), (PT_PROTO_ICMPV6_OPTS_LLADR_TGT, 70)],
     [(PT_PROTO_ETHERNET, 0), (PT_PROTO_VLAN, 14), (PT_PROTO_IPV6, 22), (PT_PROTO_ICMPV6, 62), (PT_PROTO_ICMPV6_OPTS_LLADR_TGT, 66)],
     [(PT_PROTO_8023, 0), (PT_PROTO_VLAN, 22), (PT_PROTO_IPV6, 30), (PT_PROTO_ICMPV6, 70), (PT_PROTO_ICMPV6_OPTS_LLADR_TGT, 74)],
     [(PT_PROTO_ETHERNET, 0), (PT_PROTO_IPV6, 14), (PT_PROTO_ICMPV6, 54), (PT_PROTO_ICMPV6_OPTS_PREFIX_INFO, 58)],
     [(PT_PROTO_ETHERNET, 0), (PT_PROTO_ISID, 14), (PT_PROTO_IPV6, 18), (PT_PROTO_ICMPV6, 58), (PT_PROTO_ICMPV6_OPTS_PREFIX_INFO, 62)],
     [(PT_PROTO_ETHERNET, 0), (PT_PROTO_VLAN, 14), (PT_PROTO_ISID, 18), (PT_PROTO_IPV6, 22), (PT_PROTO_ICMPV6, 62), (PT_PROTO_ICMPV6_OPTS_PREFIX_INFO, 66)],
     [(PT_PROTO_8023, 0), (PT_PROTO_IPV6, 22), (PT_PROTO_ICMPV6, 62), (PT_PROTO_ICMPV6_OPTS_PREFIX_INFO, 66)],
     [(PT_PROTO_ETHERNET, 0), (PT_PROTO_VLAN, 14), (PT_PROTO_IPV6, 18), (PT_PROTO_ICMPV6, 58), (PT_PROTO_ICMPV6_OPTS_PREFIX_INFO, 62)],
     [(PT_PROTO_8023, 0), (PT_PROTO_VLAN, 22), (PT_PROTO_IPV6, 26), (PT_PROTO_ICMPV6, 66), (PT_PROTO_ICMPV6_OPTS_PREFIX_INFO, 70)],
     [(PT_PROTO_ETHERNET, 0), (PT_PROTO_VLAN, 14), (PT_PROTO_IPV6, 22), (PT_PROTO_ICMPV6, 62), (PT_PROTO_ICMPV6_OPTS_PREFIX_INFO, 66)],
     [(PT_PROTO_8023, 0), (PT_PROTO_VLAN, 22), (PT_PROTO_IPV6, 30), (PT_PROTO_ICMPV6, 70), (PT_PROTO_ICMPV6_OPTS_PREFIX_INFO, 74)],
     [(PT_PROTO_ETHERNET, 0), (PT_PROTO_IPV6, 14), (PT_PROTO_ICMPV6, 54), (PT_PROTO_ICMPV6_RTR_SOL, 58)],
     [(PT_PROTO_ETHERNET, 0), (PT_PROTO_ISID, 14), (PT_PROTO_IPV6, 18), (PT_PROTO_ICMPV6, 58), (PT_PROTO_ICMPV6_RTR_SOL, 62)],
     [(PT_PROTO_ETHERNET, 0), (PT_PROTO_VLAN, 14), (PT_PROTO_ISID, 18), (PT_PROTO_IPV6, 22), (PT_PROTO_ICMPV6, 62), (PT_PROTO_ICMPV6_RTR_SOL, 66)],
     [(PT_PROTO_8023, 0), (PT_PROTO_IPV6, 22), (PT_PROTO_ICMPV6, 62), (PT_PROTO_ICMPV6_RTR_SOL, 66)],
     [(PT_PROTO_ETHERNET, 0), (PT_PROTO_VLAN, 14), (PT_PROTO_IPV6, 18), (PT_PROTO_ICMPV6, 58), (PT_PROTO_ICMPV6_RTR_SOL, 62)],
     [(PT_PROTO_8023, 0), (PT_PROTO_VLAN, 22), (PT_PROTO_IPV6, 26), (PT_PROTO_ICMPV6, 66), (PT_PROTO_ICMPV6_RTR_SOL, 70)],
     [(PT_PROTO_ETHERNET, 0), (PT_PROTO_VLAN, 14), (PT_PROTO_IPV6, 22), (PT_PROTO_ICMPV6, 62), (PT_PROTO_ICMPV6_RTR_SOL, 66)],
     [(PT_PROTO_8023, 0), (PT_PROTO_VLAN, 22), (PT_PROTO_IPV6, 30), (PT_PROTO_ICMPV6, 70), (PT_PROTO_ICMPV6_RTR_SOL, 74)],
     [(PT_PROTO_ETHERNET, 0), (PT_PROTO_IPV6, 14), (PT_PROTO_ICMPV6, 54), (PT_PROTO_ICMPV6_RTR_ADV, 58)],
     [(PT_PROTO_ETHERNET, 0), (PT_PROTO_ISID, 14), (PT_PROTO_IPV6, 18), (PT_PROTO_ICMPV6, 58), (PT_PROTO_ICMPV6_RTR_ADV, 62)],
     [(PT_PROTO_ETHERNET, 0), (PT_PROTO_VLAN, 14), (PT_PROTO_ISID, 18), (PT_PROTO_IPV6, 22), (PT_PROTO_ICMPV6, 62), (PT_PROTO_ICMPV6_RTR_ADV, 66)],
     [(PT_PROTO_8023, 0), (PT_PROTO_IPV6, 22), (PT_PROTO_ICMPV6, 62), (PT_PROTO_ICMPV6_RTR_ADV, 66)],
     [(PT_PROTO_ETHERNET, 0), (PT_PROTO_VLAN, 14), (PT_PROTO_IPV6, 18), (PT_PROTO_ICMPV6, 58), (PT_PROTO_ICMPV6_RTR_ADV, 62)],
     [(PT_PROTO_8023, 0), (PT_PROTO_VLAN, 22), (PT_PROTO_IPV6, 26), (PT_PROTO_ICMPV6, 66), (PT_PROTO_ICMPV6_RTR_ADV, 70)],
     [(PT_PROTO_ETHERNET, 0), (PT_PROTO_VLAN, 14), (PT_PROTO_IPV6, 22), (PT_PROTO_ICMPV6, 62), (PT_PROTO_ICMPV6_RTR_ADV, 66)],
     [(PT_PROTO_8023, 0), (PT_PROTO_VLAN, 22), (PT_PROTO_IPV6, 30), (PT_PROTO_ICMPV6, 70), (PT_PROTO_ICMPV6_RTR_ADV, 74)],
     [(PT_PROTO_ETHERNET, 0), (PT_PROTO_IPV6, 14), (PT_PROTO_ICMPV6, 54), (PT_PROTO_ICMPV6_NEIGH_SOL, 58)],
     [(PT_PROTO_ETHERNET, 0), (PT_PROTO_ISID, 14), (PT_PROTO_IPV6, 18), (PT_PROTO_ICMPV6, 58), (PT_PROTO_ICMPV6_NEIGH_SOL, 62)],
     [(PT_PROTO_ETHERNET, 0), (PT_PROTO_VLAN, 14), (PT_PROTO_ISID, 18), (PT_PROTO_IPV6, 22), (PT_PROTO_ICMPV6, 62), (PT_PROTO_ICMPV6_NEIGH_SOL, 66)],
     [(PT_PROTO_8023, 0), (PT_PROTO_IPV6, 22), (PT_PROTO_ICMPV6, 62), (PT_PROTO_ICMPV6_NEIGH_SOL, 66)],
     [(PT_PROTO_ETHERNET, 0), (PT_PROTO_VLAN, 14), (PT_PROTO_IPV6, 18), (PT_PROTO_ICMPV6, 58), (PT_PROTO_ICMPV6_NEIGH_SOL, 62)],
     [(PT_PROTO_8023, 0), (PT_PROTO_VLAN, 22), (PT_PROTO_IPV6, 26), (PT_PROTO_ICMPV6, 66), (PT_PROTO_ICMPV6_NEIGH_SOL, 70)],
     [(PT_PROTO_ETHERNET, 0), (PT_PROTO_VLAN, 14), (PT_PROTO_IPV6, 22), (PT_PROTO_ICMPV6, 62), (PT_PROTO_ICMPV6_NEIGH_SOL, 66)],
     [(PT_PROTO_8023, 0), (PT_PROTO_VLAN, 22), (PT_PROTO_IPV6, 30), (PT_PROTO_ICMPV6, 70), (PT_PROTO_ICMPV6_NEIGH_SOL, 74)],
     [(PT_PROTO_ETHERNET, 0), (PT_PROTO_IPV6, 14), (PT_PROTO_ICMPV6, 54), (PT_PROTO_ICMPV6_NEIGH_ADV, 58)],
     [(PT_PROTO_ETHERNET, 0), (PT_PROTO_ISID, 14), (PT_PROTO_IPV6, 18), (PT_PROTO_ICMPV6, 58), (PT_PROTO_ICMPV6_NEIGH_ADV, 62)],
     [(PT_PROTO_ETHERNET, 0), (PT_PROTO_VLAN, 14), (PT_PROTO_ISID, 18), (PT_PROTO_IPV6, 22), (PT_PROTO_ICMPV6, 62), (PT_PROTO_ICMPV6_NEIGH_ADV, 66)],
     [(PT_PROTO_8023, 0), (PT_PROTO_IPV6, 22), (PT_PROTO_ICMPV6, 62), (PT_PROTO_ICMPV6_NEIGH_ADV, 66)],
     [(PT_PROTO_ETHERNET, 0), (PT_PROTO_VLAN, 14), (PT_PROTO_IPV6, 18), (PT_PROTO_ICMPV6, 58), (PT_PROTO_ICMPV6_NEIGH_ADV, 62)],
     [(PT_PROTO_8023, 0), (PT_PROTO_VLAN, 22), (PT_PROTO_IPV6, 26), (PT_PROTO_ICMPV6, 66), (PT_PROTO_ICMPV6_NEIGH_ADV, 70)],
     [(PT_PROTO_ETHERNET, 0), (PT_PROTO_VLAN, 14), (PT_PROTO_IPV6, 22), (PT_PROTO_ICMPV6, 62), (PT_PROTO_ICMPV6_NEIGH_ADV, 66)],
     [(PT_PROTO_8023, 0), (PT_PROTO_VLAN, 22), (PT_PROTO_IPV6, 30), (PT_PROTO_ICMPV6, 70), (PT_PROTO_ICMPV6_NEIGH_ADV, 74)],
     [(PT_PROTO_ETHERNET, 0), (PT_PROTO_IPV6, 14), (PT_PROTO_ICMPV6, 54), (PT_PROTO_ICMPV6_RTR_SOL, 58), (PT_PROTO_ICMPV6_RTR_SOL_OPTS_LLADR_SRC, 62)],
     [(PT_PROTO_ETHERNET, 0), (PT_PROTO_ISID, 14), (PT_PROTO_IPV6, 18), (PT_PROTO_ICMPV6, 58), (PT_PROTO_ICMPV6_RTR_SOL, 62), (PT_PROTO_ICMPV6_RTR_SOL_OPTS_LLADR_SRC, 66)],
     [(PT_PROTO_ETHERNET, 0), (PT_PROTO_VLAN, 14), (PT_PROTO_ISID, 18), (PT_PROTO_IPV6, 22), (PT_PROTO_ICMPV6, 62), (PT_PROTO_ICMPV6_RTR_SOL, 66), (PT_PROTO_ICMPV6_RTR_SOL_OPTS_LLADR_SRC, 70)],
     [(PT_PROTO_8023, 0), (PT_PROTO_IPV6, 22), (PT_PROTO_ICMPV6, 62), (PT_PROTO_ICMPV6_RTR_SOL, 66), (PT_PROTO_ICMPV6_RTR_SOL_OPTS_LLADR_SRC, 70)],
     [(PT_PROTO_ETHERNET, 0), (PT_PROTO_VLAN, 14), (PT_PROTO_IPV6, 18), (PT_PROTO_ICMPV6, 58), (PT_PROTO_ICMPV6_RTR_SOL, 62), (PT_PROTO_ICMPV6_RTR_SOL_OPTS_LLADR_SRC, 66)],
     [(PT_PROTO_8023, 0), (PT_PROTO_VLAN, 22), (PT_PROTO_IPV6, 26), (PT_PROTO_ICMPV6, 66), (PT_PROTO_ICMPV6_RTR_SOL, 70), (PT_PROTO_ICMPV6_RTR_SOL_OPTS_LLADR_SRC, 74)],
     [(PT_PROTO_ETHERNET, 0), (PT_PROTO_VLAN, 14), (PT_PROTO_IPV6, 22), (PT_PROTO_ICMPV6, 62), (PT_PROTO_ICMPV6_RTR_SOL, 66), (PT_PROTO_ICMPV6_RTR_SOL_OPTS_LLADR_SRC, 70)],
     [(PT_PROTO_8023, 0), (PT_PROTO_VLAN, 22), (PT_PROTO_IPV6, 30), (PT_PROTO_ICMPV6, 70), (PT_PROTO_ICMPV6_RTR_SOL, 74), (PT_PROTO_ICMPV6_RTR_SOL_OPTS_LLADR_SRC, 78)],
     [(PT_PROTO_ETHERNET, 0), (PT_PROTO_IPV6, 14), (PT_PROTO_ICMPV6, 54), (PT_PROTO_ICMPV6_RTR_ADV, 58), (PT_PROTO_ICMPV6_RTR_ADV_OPTS_LLADR_SRC, 70)],
     [(PT_PROTO_ETHERNET, 0), (PT_PROTO_ISID, 14), (PT_PROTO_IPV6, 18), (PT_PROTO_ICMPV6, 58), (PT_PROTO_ICMPV6_RTR_ADV, 62), (PT_PROTO_ICMPV6_RTR_ADV_OPTS_LLADR_SRC, 74)],
     [(PT_PROTO_ETHERNET, 0), (PT_PROTO_VLAN, 14), (PT_PROTO_ISID, 18), (PT_PROTO_IPV6, 22), (PT_PROTO_ICMPV6, 62), (PT_PROTO_ICMPV6_RTR_ADV, 66), (PT_PROTO_ICMPV6_RTR_ADV_OPTS_LLADR_SRC, 78)],
     [(PT_PROTO_8023, 0), (PT_PROTO_IPV6, 22), (PT_PROTO_ICMPV6, 62), (PT_PROTO_ICMPV6_RTR_ADV, 66), (PT_PROTO_ICMPV6_RTR_ADV_OPTS_LLADR_SRC, 78)],
     [(PT_PROTO_ETHERNET, 0), (PT_PROTO_VLAN, 14), (PT_PROTO_IPV6, 18), (PT_PROTO_ICMPV6, 58), (PT_PROTO_ICMPV6_RTR_ADV, 62), (PT_PROTO_ICMPV6_RTR_ADV_OPTS_LLADR_SRC, 74)],
     [(PT_PROTO_8023, 0), (PT_PROTO_VLAN, 22), (PT_PROTO_IPV6, 26), (PT_PROTO_ICMPV6, 66), (PT_PROTO_ICMPV6_RTR_ADV, 70), (PT_PROTO_ICMPV6_RTR_ADV_OPTS_LLADR_SRC, 82)],
     [(PT_PROTO_ETHERNET, 0), (PT_PROTO_VLAN, 14), (PT_PROTO_IPV6, 22), (PT_PROTO_ICMPV6, 62), (PT_PROTO_ICMPV6_RTR_ADV, 66), (PT_PROTO_ICMPV6_RTR_ADV_OPTS_LLADR_SRC, 78)],
     [(PT_PROTO_8023, 0), (PT_PROTO_VLAN, 22), (PT_PROTO_IPV6, 30), (PT_PROTO_ICMPV6, 70), (PT_PROTO_ICMPV6_RTR_ADV, 74), (PT_PROTO_ICMPV6_RTR_ADV_OPTS_LLADR_SRC, 86)],
     [(PT_PROTO_ETHERNET, 0), (PT_PROTO_IPV6, 14), (PT_PROTO_ICMPV6, 54), (PT_PROTO_ICMPV6_NEIGH_SOL, 58), (PT_PROTO_ICMPV6_NEIGH_SOL_OPTS_LLADR_SRC, 78)],
     [(PT_PROTO_ETHERNET, 0), (PT_PROTO_ISID, 14), (PT_PROTO_IPV6, 18), (PT_PROTO_ICMPV6, 58), (PT_PROTO_ICMPV6_NEIGH_SOL, 62), (PT_PROTO_ICMPV6_NEIGH_SOL_OPTS_LLADR_SRC, 82)],
     [(PT_PROTO_ETHERNET, 0), (PT_PROTO_VLAN, 14), (PT_PROTO_ISID, 18), (PT_PROTO_IPV6, 22), (PT_PROTO_ICMPV6, 62), (PT_PROTO_ICMPV6_NEIGH_SOL, 66), (PT_PROTO_ICMPV6_NEIGH_SOL_OPTS_LLADR_SRC, 86)],
     [(PT_PROTO_8023, 0), (PT_PROTO_IPV6, 22), (PT_PROTO_ICMPV6, 62), (PT_PROTO_ICMPV6_NEIGH_SOL, 66), (PT_PROTO_ICMPV6_NEIGH_SOL_OPTS_LLADR_SRC, 86)],
     [(PT_PROTO_ETHERNET, 0), (PT_PROTO_VLAN, 14), (PT_PROTO_IPV6, 18), (PT_PROTO_ICMPV6, 58), (PT_PROTO_ICMPV6_NEIGH_SOL, 62), (PT_PROTO_ICMPV6_NEIGH_SOL_OPTS_LLADR_SRC, 82)],
     [(PT_PROTO_8023, 0), (PT_PROTO_VLAN, 22), (PT_PROTO_IPV6, 26), (PT_PROTO_ICMPV6, 66), (PT_PROTO_ICMPV6_NEIGH_SOL, 70), (PT_PROTO_ICMPV6_NEIGH_SOL_OPTS_LLADR_SRC, 90)],
     [(PT_PROTO_ETHERNET, 0), (PT_PROTO_VLAN, 14), (PT_PROTO_IPV6, 22), (PT_PROTO_ICMPV6, 62), (PT_PROTO_ICMPV6_NEIGH_SOL, 66), (PT_PROTO_ICMPV6_NEIGH_SOL_OPTS_LLADR_SRC, 86)],
     [(PT_PROTO_8023, 0), (PT_PROTO_VLAN, 22), (PT_PROTO_IPV6, 30), (PT_PROTO_ICMPV6, 70), (PT_PROTO_ICMPV6_NEIGH_SOL, 74), (PT_PROTO_ICMPV6_NEIGH_SOL_OPTS_LLADR_SRC, 94)],
     [(PT_PROTO_ETHERNET, 0), (PT_PROTO_IPV6, 14), (PT_PROTO_ICMPV6, 54), (PT_PROTO_ICMPV6_NEIGH_ADV, 58), (PT_PROTO_ICMPV6_NEIGH_ADV_OPTS_LLADR_TGT, 78)],
     [(PT_PROTO_ETHERNET, 0), (PT_PROTO_ISID, 14), (PT_PROTO_IPV6, 18), (PT_PROTO_ICMPV6, 58), (PT_PROTO_ICMPV6_NEIGH_ADV, 62), (PT_PROTO_ICMPV6_NEIGH_ADV_OPTS_LLADR_TGT, 82)],
     [(PT_PROTO_ETHERNET, 0), (PT_PROTO_VLAN, 14), (PT_PROTO_ISID, 18), (PT_PROTO_IPV6, 22), (PT_PROTO_ICMPV6, 62), (PT_PROTO_ICMPV6_NEIGH_ADV, 66), (PT_PROTO_ICMPV6_NEIGH_ADV_OPTS_LLADR_TGT, 86)],
     [(PT_PROTO_8023, 0), (PT_PROTO_IPV6, 22), (PT_PROTO_ICMPV6, 62), (PT_PROTO_ICMPV6_NEIGH_ADV, 66), (PT_PROTO_ICMPV6_NEIGH_ADV_OPTS_LLADR_TGT, 86)],
     [(PT_PROTO_ETHERNET, 0), (PT_PROTO_VLAN, 14), (PT_PROTO_IPV6, 18), (PT_PROTO_ICMPV6, 58), (PT_PROTO_ICMPV6_NEIGH_ADV, 62), (PT_PROTO_ICMPV6_NEIGH_ADV_OPTS_LLADR_TGT, 82)],
     [(PT_PROTO_8023, 0), (PT_PROTO_VLAN, 22), (PT_PROTO_IPV6, 26), (PT_PROTO_ICMPV6, 66), (PT_PROTO_ICMPV6_NEIGH_ADV, 70), (PT_PROTO_ICMPV6_NEIGH_ADV_OPTS_LLADR_TGT, 90)],
     [(PT_PROTO_ETHERNET, 0), (PT_PROTO_VLAN, 14), (PT_PROTO_IPV6, 22), (PT_PROTO_ICMPV6, 62), (PT_PROTO_ICMPV6_NEIGH_ADV, 66), (PT_PROTO_ICMPV6_NEIGH_ADV_OPTS_LLADR_TGT, 86)],
     [(PT_PROTO_8023, 0), (PT_PROTO_VLAN, 22), (PT_PROTO_IPV6, 30), (PT_PROTO_ICMPV6, 70), (PT_PROTO_ICMPV6_NEIGH_ADV, 74), (PT_PROTO_ICMPV6_NEIGH_ADV_OPTS_LLADR_TGT, 94)],
     [(PT_PROTO_ETHERNET, 0), (PT_PROTO_IPV6, 14), (PT_PROTO_TCP, 54)],
     [(PT_PROTO_ETHERNET, 0), (PT_PROTO_ISID, 14), (PT_PROTO_IPV6, 18), (PT_PROTO_TCP, 58)],
     [(PT_PROTO_ETHERNET, 0), (PT_PROTO_VLAN, 14), (PT_PROTO_ISID, 18), (PT_PROTO_IPV6, 22), (PT_PROTO_TCP, 62)],
     [(PT_PROTO_8023, 0), (PT_PROTO_IPV6, 22), (PT_PROTO_TCP, 62)],
     [(PT_PROTO_ETHERNET, 0), (PT_PROTO_VLAN, 14), (PT_PROTO_IPV6, 18), (PT_PROTO_TCP, 58)],
     [(PT_PROTO_8023, 0), (PT_PROTO_VLAN, 22), (PT_PROTO_IPV6, 26), (PT_PROTO_TCP, 66)],
     [(PT_PROTO_ETHERNET, 0), (PT_PROTO_VLAN, 14), (PT_PROTO_IPV6, 22), (PT_PROTO_TCP, 62)],
     [(PT_PROTO_8023, 0), (PT_PROTO_VLAN, 22), (PT_PROTO_IPV6, 30), (PT_PROTO_TCP, 70)],
     [(PT_PROTO_ETHERNET, 0), (PT_PROTO_IPV6, 14), (PT_PROTO_UDP, 54)],
     [(PT_PROTO_ETHERNET, 0), (PT_PROTO_ISID, 14), (PT_PROTO_IPV6, 18), (PT_PROTO_UDP, 58)],
     [(PT_PROTO_ETHERNET, 0), (PT_PROTO_VLAN, 14), (PT_PROTO_ISID, 18), (PT_PROTO_IPV6, 22), (PT_PROTO_UDP, 62)],
     [(PT_PROTO_8023, 0), (PT_PROTO_IPV6, 22), (PT_PROTO_UDP, 62)],
     [(PT_PROTO_ETHERNET, 0), (PT_PROTO_VLAN, 14), (PT_PROTO_IPV6, 18), (PT_PROTO_UDP, 58)],
     [(PT_PROTO_8023, 0), (PT_PROTO_VLAN, 22), (PT_PROTO_IPV6, 26), (PT_PROTO_UDP, 66)],
     [(PT_PROTO_ETHERNET, 0), (PT_PROTO_VLAN, 14), (PT_PROTO_IPV6, 22), (PT_PROTO_UDP, 62)],
     [(PT_PROTO_8023, 0), (PT_PROTO_VLAN, 22), (PT_PROTO_IPV6, 30), (PT_PROTO_UDP, 70)],
     [(PT_PROTO_ETHERNET, 0), (PT_PROTO_IPV6, 14), (PT_PROTO_UDP, 54), (PT_PROTO_GTPU6, 62)],
     [(PT_PROTO_ETHERNET, 0), (PT_PROTO_ISID, 14), (PT_PROTO_IPV6, 18), (PT_PROTO_UDP, 58), (PT_PROTO_GTPU6, 66)],
     [(PT_PROTO_ETHERNET, 0), (PT_PROTO_VLAN, 14), (PT_PROTO_ISID, 18), (PT_PROTO_IPV6, 22), (PT_PROTO_UDP, 62), (PT_PROTO_GTPU6, 70)],
     [(PT_PROTO_8023, 0), (PT_PROTO_IPV6, 22), (PT_PROTO_UDP, 62), (PT_PROTO_GTPU6, 70)],
     [(PT_PROTO_ETHERNET, 0), (PT_PROTO_VLAN, 14), (PT_PROTO_IPV6, 18), (PT_PROTO_UDP, 58), (PT_PROTO_GTPU6, 66)],
     [(PT_PROTO_8023, 0), (PT_PROTO_VLAN, 22), (PT_PROTO_IPV6, 26), (PT_PROTO_UDP, 66), (PT_PROTO_GTPU6, 74)],
     [(PT_PROTO_ETHERNET, 0), (PT_PROTO_VLAN, 14), (PT_PROTO_IPV6, 22), (PT_PROTO_UDP, 62), (PT_PROTO_GTPU6, 70)],
     [(PT_PROTO_8023, 0), (PT_PROTO_VLAN, 22), (PT_PROTO_IPV6, 30), (PT_PROTO_UDP, 70), (PT_PROTO_GTPU6, 78)],
     [(PT_PROTO_ETHERNET, 0), (PT_PROTO_IPV6, 14), (PT_PROTO_SCTP, 54)],
     [(PT_PROTO_ETHERNET, 0), (PT_PROTO_ISID, 14), (PT_PROTO_IPV6, 18), (PT_PROTO_SCTP, 58)],
     [(PT_PROTO_ETHERNET, 0), (PT_PROTO_VLAN, 14), (PT_PROTO_ISID, 18), (PT_PROTO_IPV6, 22), (PT_PROTO_SCTP, 62)],
     [(PT_PROTO_8023, 0), (PT_PROTO_IPV6, 22), (PT_PROTO_SCTP, 62)],
     [(PT_PROTO_ETHERNET, 0), (PT_PROTO_VLAN, 14), (PT_PROTO_IPV6, 18), (PT_PROTO_SCTP, 58)],
     [(PT_PROTO_8023, 0), (PT_PROTO_VLAN, 22), (PT_PROTO_IPV6, 26), (PT_PROTO_SCTP, 66)],
     [(PT_PROTO_ETHERNET, 0), (PT_PROTO_VLAN, 14), (PT_PROTO_IPV6, 22), (PT_PROTO_SCTP, 62)],
     [(PT_PROTO_8023, 0), (PT_PROTO_VLAN, 22), (PT_PROTO_IPV6, 30), (PT_PROTO_SCTP, 70)],
     [(PT_PROTO_ETHERNET, 0), (PT_PROTO_IPV6, 14), (PT_PROTO_GRE6, 54)],
     [(PT_PROTO_ETHERNET, 0), (PT_PROTO_ISID, 14), (PT_PROTO_IPV6, 18), (PT_PROTO_GRE6, 58)],
     [(PT_PROTO_ETHERNET, 0), (PT_PROTO_VLAN, 14), (PT_PROTO_ISID, 18), (PT_PROTO_IPV6, 22), (PT_PROTO_GRE6, 62)],
     [(PT_PROTO_8023, 0), (PT_PROTO_IPV6, 22), (PT_PROTO_GRE6, 62)],
     [(PT_PROTO_ETHERNET, 0), (PT_PROTO_VLAN, 14), (PT_PROTO_IPV6, 18), (PT_PROTO_GRE6, 58)],
     [(PT_PROTO_8023, 0), (PT_PROTO_VLAN, 22), (PT_PROTO_IPV6, 26), (PT_PROTO_GRE6, 66)],
     [(PT_PROTO_ETHERNET, 0), (PT_PROTO_VLAN, 14), (PT_PROTO_IPV6, 22), (PT_PROTO_GRE6, 62)],
     [(PT_PROTO_8023, 0), (PT_PROTO_VLAN, 22), (PT_PROTO_IPV6, 30), (PT_PROTO_GRE6, 70)]]"

definition offsets_table :: "(protocol \<times> nat) list list" where
  "offsets_table =
     offsets_table_1 @ offsets_table_2 @ offsets_table_3 @ offsets_table_4 @ offsets_table_5 @ offsets_table_6 @ offsets_table_7 @ offsets_table_8 @ offsets_table_9"

fun offsets_from :: "nat \<Rightarrow> pkt_type \<Rightarrow> (protocol \<times> nat) list" where
  "offsets_from a [] = []"
| "offsets_from a (h # hs) = (proto_of h, a) # filter (\<lambda>x. fst x \<noteq> proto_of h) (offsets_from (a + header_size h) hs)"

lemma map_of_filter_ne: "map_of (filter (\<lambda>x. fst x \<noteq> k) xs) p = (if p = k then None else map_of xs p)"
  by (induction xs) auto

lemma offsets_from: "map_of (offsets_from a t) p = map_option ((+) a) (protocol_offsets_bt t p)"
  by (induction t arbitrary: a) (auto simp: map_of_filter_ne option.map_comp o_def add.assoc intro!: option.map_cong)

lemma offsets_table_1_rows: "map (offsets_from 0) pt_enum_1 = offsets_table_1"
  by code_simp

lemma offsets_table_2_rows: "map (offsets_from 0) pt_enum_2 = offsets_table_2"
  by code_simp

lemma offsets_table_3_rows: "map (offsets_from 0) pt_enum_3 = offsets_table_3"
  by code_simp

lemma offsets_table_4_rows: "map (offsets_from 0) pt_enum_4 = offsets_table_4"
  by code_simp

lemma offsets_table_5_rows: "map (offsets_from 0) pt_enum_5 = offsets_table_5"
  by code_simp

lemma offsets_table_6_rows: "map (offsets_from 0) pt_enum_6 = offsets_table_6"
  by code_simp

lemma offsets_table_7_rows: "map (offsets_from 0) pt_enum_7 = offsets_table_7"
  by code_simp

lemma offsets_table_8_rows: "map (offsets_from 0) pt_enum_8 = offsets_table_8"
  by code_simp

lemma offsets_table_9_rows: "map (offsets_from 0) pt_enum_9 = offsets_table_9"
  by code_simp

lemma offsets_rows: "map (offsets_from 0) pt_enum = offsets_table"
  by (simp only: pt_enum_def offsets_table_def map_append offsets_table_1_rows offsets_table_2_rows offsets_table_3_rows
      offsets_table_4_rows offsets_table_5_rows offsets_table_6_rows offsets_table_7_rows offsets_table_8_rows offsets_table_9_rows)

section \<open>The offsets of Ethertypes\<close>

definition eth_type_table_1 :: "nat list" where
  "eth_type_table_1 =
    [12,
     12,
     16,
     20,
     16,
     24,
     20,
     28,
     12,
     12,
     12,
     12,
     12,
     12,
     12,
     12,
     12,
     12,
     12,
     12,
     12,
     12,
     12,
     12,
     12,
     12,
     12,
     12,
     12,
     12,
     12,
     12,
     12,
     12,
     12,
     12,
     12,
     12,
     12,
     12,
     12,
     12,
     12,
     12,
     12,
     12,
     12,
     12,
     12,
     12,
     12,
     12,
     12,
     12,
     12,
     12,
     12,
     12,
     12,
     12,
     12,
     12,
     12,
     12,
     12,
     12,
     12,
     12,
     12,
     12,
     12,
     12,
     16,
     16,
     16,
     16,
     16,
     16,
     16,
     16,
     16,
     16,
     16,
     16,
     16,
     16,
     16,
     16,
     16,
     16,
     16,
     16,
     16,
     16,
     16,
     16,
     16,
     16,
     16,
     16,
     16,
     16,
     16,
     16,
     20,
     20,
     20,
     20,
     20,
     20,
     20,
     20,
     20,
     20,
     20,
     20,
     20,
     20,
     20,
     20,
     20,
     20,
     20,
     20,
     20,
     20,
     20,
     20,
     20,
     20,
     20,
     20,
     20,
     20,
     20,
     20,
     16,
     16,
     16,
     16,
     16,
     16,
     16,
     16,
     16,
     16,
     16,
     16,
     16,
     16]"

definition eth_type_table_2 :: "nat list" where
  "eth_type_table_2 =
    [16,
     16,
     16,
     16,
     16,
     16,
     16,
     16,
     16,
     16,
     16,
     16,
     16,
     16,
     16,
     16,
     16,
     16,
     24,
     24,
     24,
     24,
     24,
     24,
     24,
     24,
     24,
     24,
     24,
     24,
     24,
     24,
     24,
     24,
     24,
     24,
     24,
     24,
     24,
     24,
     24,
     24,
     24,
     24,
     24,
     24,
     24,
     24,
     24,
     24,
     20,
     20,
     20,
     20,
     20,
     20,
     20,
     20,
     20,
     20,
     20,
     20,
     20,
     20,
     20,
     20,
     20,
     20,
     20,
     20,
     20,
     20,
     20,
     20,
     20,
     20,
     20,
     20,
     20,
     20,
     20,
     20,
     28,
     28,
     28,
     28,
     28,
     28,
     28,
     28,
     28,
     28,
     28,
     28,
     28,
     28,
     28,
     28,
     28,
     28,
     28,
     28,
     28,
     28,
     28,
     28,
     28,
     28,
     28,
     28,
     28,
     28,
     28,
     28,
     12,
     12,
     16,
     20,
     16,
     24,
     20,
     28,
     12,
     12,
     16,
     20,
     16,
     24,
     20,
     28,
     12,
     12,
     16,
     20,
     16,
     24,
     20,
     28,
     12,
     12,
     12,
     12,
     12,
     12,
     12,
     12,
     12,
     12,
     12,
     12]"

definition eth_type_table_3 :: "nat list" where
  "eth_type_table_3 =
    [12,
     12,
     12,
     12,
     12,
     12,
     12,
     12,
     12,
     12,
     12,
     12,
     12,
     12,
     12,
     12,
     12,
     12,
     12,
     12,
     16,
     16,
     16,
     16,
     16,
     16,
     16,
     16,
     16,
     16,
     16,
     16,
     16,
     16,
     16,
     16,
     20,
     20,
     20,
     20,
     20,
     20,
     20,
     20,
     20,
     20,
     20,
     20,
     20,
     20,
     20,
     20,
     16,
     16,
     16,
     16,
     16,
     16,
     16,
     16,
     16,
     16,
     16,
     16,
     16,
     16,
     16,
     16,
     24,
     24,
     24,
     24,
     24,
     24,
     24,
     24,
     24,
     24,
     24,
     24,
     24,
     24,
     24,
     24,
     20,
     20,
     20,
     20,
     20,
     20,
     20,
     20,
     20,
     20,
     20,
     20,
     20,
     20,
     20,
     20,
     28,
     28,
     28,
     28,
     28,
     28,
     28,
     28,
     28,
     28,
     28,
     28,
     28,
     28,
     28,
     28,
     12,
     12,
     12,
     12,
     12,
     12,
     12,
     12,
     12,
     12,
     12,
     12,
     12,
     12,
     12,
     12,
     12,
     12,
     12,
     12,
     12,
     12,
     12,
     12,
     12,
     12,
     12,
     12,
     12,
     12,
     12,
     12,
     16,
     16]"

definition eth_type_table_4 :: "nat list" where
  "eth_type_table_4 =
    [16,
     16,
     16,
     16,
     16,
     16,
     16,
     16,
     16,
     16,
     16,
     16,
     16,
     16,
     20,
     20,
     20,
     20,
     20,
     20,
     20,
     20,
     20,
     20,
     20,
     20,
     20,
     20,
     20,
     20,
     16,
     16,
     16,
     16,
     16,
     16,
     16,
     16,
     16,
     16,
     16,
     16,
     16,
     16,
     16,
     16,
     24,
     24,
     24,
     24,
     24,
     24,
     24,
     24,
     24,
     24,
     24,
     24,
     24,
     24,
     24,
     24,
     20,
     20,
     20,
     20,
     20,
     20,
     20,
     20,
     20,
     20,
     20,
     20,
     20,
     20,
     20,
     20,
     28,
     28,
     28,
     28,
     28,
     28,
     28,
     28,
     28,
     28,
     28,
     28,
     28,
     28,
     28,
     28,
     12,
     12,
     12,
     12,
     12,
     12,
     12,
     12,
     12,
     12,
     12,
     12,
     12,
     12,
     12,
     12,
     12,
     12,
     12,
     12,
     12,
     12,
     12,
     12,
     12,
     12,
     12,
     12,
     12,
     12,
     12,
     12,
     16,
     16,
     16,
     16,
     16,
     16,
     16,
     16,
     16,
     16,
     16,
     16,
     16,
     16,
     16,
     16,
     20,
     20,
     20,
     20,
     20,
     20,
     20,
     20]"

definition eth_type_table_5 :: "nat list" where
  "eth_type_table_5 =
    [20,
     20,
     20,
     20,
     20,
     20,
     20,
     20,
     16,
     16,
     16,
     16,
     16,
     16,
     16,
     16,
     16,
     16,
     16,
     16,
     16,
     16,
     16,
     16,
     24,
     24,
     24,
     24,
     24,
     24,
     24,
     24,
     24,
     24,
     24,
     24,
     24,
     24,
     24,
     24,
     20,
     20,
     20,
     20,
     20,
     20,
     20,
     20,
     20,
     20,
     20,
     20,
     20,
     20,
     20,
     20,
     28,
     28,
     28,
     28,
     28,
     28,
     28,
     28,
     28,
     28,
     28,
     28,
     28,
     28,
     28,
     28,
     12,
     12,
     12,
     12,
     12,
     12,
     12,
     12,
     12,
     12,
     12,
     12,
     12,
     12,
     12,
     12,
     12,
     12,
     12,
     12,
     12,
     12,
     12,
     12,
     12,
     12,
     12,
     12,
     12,
     12,
     12,
     12,
     16,
     16,
     16,
     16,
     16,
     16,
     16,
     16,
     16,
     16,
     16,
     16,
     16,
     16,
     16,
     16,
     20,
     20,
     20,
     20,
     20,
     20,
     20,
     20,
     20,
     20,
     20,
     20,
     20,
     20,
     20,
     20,
     16,
     16,
     16,
     16,
     16,
     16,
     16,
     16,
     16,
     16,
     16,
     16,
     16,
     16]"

definition eth_type_table_6 :: "nat list" where
  "eth_type_table_6 =
    [16,
     16,
     24,
     24,
     24,
     24,
     24,
     24,
     24,
     24,
     24,
     24,
     24,
     24,
     24,
     24,
     24,
     24,
     20,
     20,
     20,
     20,
     20,
     20,
     20,
     20,
     20,
     20,
     20,
     20,
     20,
     20,
     20,
     20,
     28,
     28,
     28,
     28,
     28,
     28,
     28,
     28,
     28,
     28,
     28,
     28,
     28,
     28,
     28,
     28,
     12,
     12,
     12,
     12,
     12,
     12,
     12,
     12,
     12,
     12,
     12,
     12,
     12,
     12,
     12,
     12,
     12,
     12,
     12,
     12,
     12,
     12,
     12,
     12,
     12,
     12,
     12,
     12,
     12,
     12,
     12,
     12,
     16,
     16,
     16,
     16,
     16,
     16,
     16,
     16,
     16,
     16,
     16,
     16,
     16,
     16,
     16,
     16,
     20,
     20,
     20,
     20,
     20,
     20,
     20,
     20,
     20,
     20,
     20,
     20,
     20,
     20,
     20,
     20,
     16,
     16,
     16,
     16,
     16,
     16,
     16,
     16,
     16,
     16,
     16,
     16,
     16,
     16,
     16,
     16,
     24,
     24,
     24,
     24,
     24,
     24,
     24,
     24,
     24,
     24,
     24,
     24,
     24,
     24,
     24,
     24,
     20,
     20,
     20,
     20]"

definition eth_type_table_7 :: "nat list" where
  "eth_type_table_7 =
    [20,
     20,
     20,
     20,
     20,
     20,
     20,
     20,
     20,
     20,
     20,
     20,
     28,
     28,
     28,
     28,
     28,
     28,
     28,
     28,
     28,
     28,
     28,
     28,
     28,
     28,
     28,
     28,
     12,
     12,
     12,
     12,
     12,
     12,
     12,
     12,
     12,
     12,
     12,
     12,
     12,
     12,
     12,
     12,
     12,
     12,
     12,
     12,
     12,
     12,
     12,
     12,
     12,
     12,
     12,
     12,
     12,
     12,
     12,
     12,
     16,
     16,
     16,
     16,
     16,
     16,
     16,
     16,
     16,
     16,
     16,
     16,
     16,
     16,
     16,
     16,
     20,
     20,
     20,
     20,
     20,
     20,
     20,
     20,
     20,
     20,
     20,
     20,
     20,
     20,
     20,
     20,
     16,
     16,
     16,
     16,
     16,
     16,
     16,
     16,
     16,
     16,
     16,
     16,
     16,
     16,
     16,
     16,
     24,
     24,
     24,
     24,
     24,
     24,
     24,
     24,
     24,
     24,
     24,
     24,
     24,
     24,
     24,
     24,
     20,
     20,
     20,
     20,
     20,
     20,
     20,
     20,
     20,
     20,
     20,
     20,
     20,
     20,
     20,
     20,
     28,
     28,
     28,
     28,
     28,
     28,
     28,
     28,
     28,
     28]"

definition eth_type_table_8 :: "nat list" where
  "eth_type_table_8 =
    [28,
     28,
     28,
     28,
     28,
     28,
     12,
     12,
     12,
     12,
     12,
     12,
     12,
     12,
     12,
     12,
     12,
     12,
     12,
     12,
     12,
     12,
     12,
     12,
     12,
     12,
     12,
     12,
     12,
     12,
     12,
     12,
     12,
     12,
     12,
     12,
     12,
     12,
     16,
     16,
     16,
     16,
     16,
     16,
     16,
     16,
     16,
     16,
     16,
     16,
     16,
     16,
     16,
     16,
     20,
     20,
     20,
     20,
     20,
     20,
     20,
     20,
     20,
     20,
     20,
     20,
     20,
     20,
     20,
     20,
     16,
     16,
     16,
     16,
     16,
     16,
     16,
     16,
     16,
     16,
     16,
     16,
     16,
     16,
     16,
     16,
     24,
     24,
     24,
     24,
     24,
     24,
     24,
     24,
     24,
     24,
     24,
     24,
     24,
     24,
     24,
     24,
     20,
     20,
     20,
     20,
     20,
     20,
     20,
     20,
     20,
     20,
     20,
     20,
     20,
     20,
     20,
     20,
     28,
     28,
     28,
     28,
     28,
     28,
     28,
     28,
     28,
     28,
     28,
     28,
     28,
     28,
     28,
     28,
     12,
     12,
     16,
     20,
     16,
     24,
     20,
     28,
     12,
     12,
     16,
     20,
     16,
     24,
     20,
     28]"

definition eth_type_table_9 :: "nat list" where
  "eth_type_table_9 =
    [12,
     12,
     16,
     20,
     16,
     24,
     20,
     28,
     12,
     12,
     16,
     20,
     16,
     24,
     20,
     28,
     12,
     12,
     16,
     20,
     16,
     24,
     20,
     28,
     12,
     12,
     16,
     20,
     16,
     24,
     20,
     28,
     12,
     12,
     16,
     20,
     16,
     24,
     20,
     28,
     12,
     12,
     16,
     20,
     16,
     24,
     20,
     28,
     12,
     12,
     16,
     20,
     16,
     24,
     20,
     28,
     12,
     12,
     16,
     20,
     16,
     24,
     20,
     28,
     12,
     12,
     16,
     20,
     16,
     24,
     20,
     28,
     12,
     12,
     16,
     20,
     16,
     24,
     20,
     28,
     12,
     12,
     16,
     20,
     16,
     24,
     20,
     28,
     12,
     12,
     16,
     20,
     16,
     24,
     20,
     28,
     12,
     12,
     16,
     20,
     16,
     24,
     20,
     28,
     12,
     12,
     16,
     20,
     16,
     24,
     20,
     28,
     12,
     12,
     16,
     20,
     16,
     24,
     20,
     28,
     12,
     12,
     16,
     20,
     16,
     24,
     20,
     28]"

definition eth_type_table :: "nat list" where
  "eth_type_table =
     eth_type_table_1 @ eth_type_table_2 @ eth_type_table_3 @ eth_type_table_4 @ eth_type_table_5 @ eth_type_table_6 @ eth_type_table_7 @ eth_type_table_8 @ eth_type_table_9"

lemma eth_type_table_1_rows: "map eth_type_offsets pt_enum_1 = eth_type_table_1"
  by code_simp

lemma eth_type_table_2_rows: "map eth_type_offsets pt_enum_2 = eth_type_table_2"
  by code_simp

lemma eth_type_table_3_rows: "map eth_type_offsets pt_enum_3 = eth_type_table_3"
  by code_simp

lemma eth_type_table_4_rows: "map eth_type_offsets pt_enum_4 = eth_type_table_4"
  by code_simp

lemma eth_type_table_5_rows: "map eth_type_offsets pt_enum_5 = eth_type_table_5"
  by code_simp

lemma eth_type_table_6_rows: "map eth_type_offsets pt_enum_6 = eth_type_table_6"
  by code_simp

lemma eth_type_table_7_rows: "map eth_type_offsets pt_enum_7 = eth_type_table_7"
  by code_simp

lemma eth_type_table_8_rows: "map eth_type_offsets pt_enum_8 = eth_type_table_8"
  by code_simp

lemma eth_type_table_9_rows: "map eth_type_offsets pt_enum_9 = eth_type_table_9"
  by code_simp

lemma eth_type_rows: "map eth_type_offsets pt_enum = eth_type_table"
  by (simp only: pt_enum_def eth_type_table_def map_append eth_type_table_1_rows eth_type_table_2_rows eth_type_table_3_rows
      eth_type_table_4_rows eth_type_table_5_rows eth_type_table_6_rows eth_type_table_7_rows eth_type_table_8_rows eth_type_table_9_rows)

section \<open>The numbers of labels\<close>

definition labels_table_1 :: "nat list" where
  "labels_table_1 =
    [0,
     0,
     0,
     0,
     0,
     0,
     0,
     0,
     1,
     2,
     3,
     4,
     5,
     6,
     7,
     8,
     9,
     10,
     11,
     12,
     13,
     14,
     15,
     16,
     17,
     18,
     19,
     20,
     21,
     22,
     23,
     24,
     25,
     26,
     27,
     28,
     29,
     30,
     31,
     32,
     1,
     2,
     3,
     4,
     5,
     6,
     7,
     8,
     9,
     10,
     11,
     12,
     13,
     14,
     15,
     16,
     17,
     18,
     19,
     20,
     21,
     22,
     23,
     24,
     25,
     26,
     27,
     28,
     29,
     30,
     31,
     32,
     1,
     2,
     3,
     4,
     5,
     6,
     7,
     8,
     9,
     10,
     11,
     12,
     13,
     14,
     15,
     16,
     17,
     18,
     19,
     20,
     21,
     22,
     23,
     24,
     25,
     26,
     27,
     28,
     29,
     30,
     31,
     32,
     1,
     2,
     3,
     4,
     5,
     6,
     7,
     8,
     9,
     10,
     11,
     12,
     13,
     14,
     15,
     16,
     17,
     18,
     19,
     20,
     21,
     22,
     23,
     24,
     25,
     26,
     27,
     28,
     29,
     30,
     31,
     32,
     1,
     2,
     3,
     4,
     5,
     6,
     7,
     8,
     9,
     10,
     11,
     12,
     13,
     14]"

definition labels_table_2 :: "nat list" where
  "labels_table_2 =
    [15,
     16,
     17,
     18,
     19,
     20,
     21,
     22,
     23,
     24,
     25,
     26,
     27,
     28,
     29,
     30,
     31,
     32,
     1,
     2,
     3,
     4,
     5,
     6,
     7,
     8,
     9,
     10,
     11,
     12,
     13,
     14,
     15,
     16,
     17,
     18,
     19,
     20,
     21,
     22,
     23,
     24,
     25,
     26,
     27,
     28,
     29,
     30,
     31,
     32,
     1,
     2,
     3,
     4,
     5,
     6,
     7,
     8,
     9,
     10,
     11,
     12,
     13,
     14,
     15,
     16,
     17,
     18,
     19,
     20,
     21,
     22,
     23,
     24,
     25,
     26,
     27,
     28,
     29,
     30,
     31,
     32,
     1,
     2,
     3,
     4,
     5,
     6,
     7,
     8,
     9,
     10,
     11,
     12,
     13,
     14,
     15,
     16,
     17,
     18,
     19,
     20,
     21,
     22,
     23,
     24,
     25,
     26,
     27,
     28,
     29,
     30,
     31,
     32,
     0,
     0,
     0,
     0,
     0,
     0,
     0,
     0,
     0,
     0,
     0,
     0,
     0,
     0,
     0,
     0,
     0,
     0,
     0,
     0,
     0,
     0,
     0,
     0,
     0,
     0,
     0,
     0,
     0,
     0,
     0,
     0,
     0,
     0,
     0,
     0]"

definition labels_table_3 :: "nat list" where
  "labels_table_3 =
    [0,
     0,
     0,
     0,
     0,
     0,
     0,
     0,
     0,
     0,
     0,
     0,
     0,
     0,
     0,
     0,
     0,
     0,
     0,
     0,
     0,
     0,
     0,
     0,
     0,
     0,
     0,
     0,
     0,
     0,
     0,
     0,
     0,
     0,
     0,
     0,
     0,
     0,
     0,
     0,
     0,
     0,
     0,
     0,
     0,
     0,
     0,
     0,
     0,
     0,
     0,
     0,
     0,
     0,
     0,
     0,
     0,
     0,
     0,
     0,
     0,
     0,
     0,
     0,
     0,
     0,
     0,
     0,
     0,
     0,
     0,
     0,
     0,
     0,
     0,
     0,
     0,
     0,
     0,
     0,
     0,
     0,
     0,
     0,
     0,
     0,
     0,
     0,
     0,
     0,
     0,
     0,
     0,
     0,
     0,
     0,
     0,
     0,
     0,
     0,
     0,
     0,
     0,
     0,
     0,
     0,
     0,
     0,
     0,
     0,
     0,
     0,
     0,
     0,
     0,
     0,
     0,
     0,
     0,
     0,
     0,
     0,
     0,
     0,
     0,
     0,
     0,
     0,
     0,
     0,
     0,
     0,
     0,
     0,
     0,
     0,
     0,
     0,
     0,
     0,
     0,
     0,
     0,
     0,
     0,
     0,
     0,
     0,
     0,
     0]"

definition labels_table_4 :: "nat list" where
  "labels_table_4 =
    [0,
     0,
     0,
     0,
     0,
     0,
     0,
     0,
     0,
     0,
     0,
     0,
     0,
     0,
     0,
     0,
     0,
     0,
     0,
     0,
     0,
     0,
     0,
     0,
     0,
     0,
     0,
     0,
     0,
     0,
     0,
     0,
     0,
     0,
     0,
     0,
     0,
     0,
     0,
     0,
     0,
     0,
     0,
     0,
     0,
     0,
     0,
     0,
     0,
     0,
     0,
     0,
     0,
     0,
     0,
     0,
     0,
     0,
     0,
     0,
     0,
     0,
     0,
     0,
     0,
     0,
     0,
     0,
     0,
     0,
     0,
     0,
     0,
     0,
     0,
     0,
     0,
     0,
     0,
     0,
     0,
     0,
     0,
     0,
     0,
     0,
     0,
     0,
     0,
     0,
     0,
     0,
     0,
     0,
     0,
     0,
     0,
     0,
     0,
     0,
     0,
     0,
     0,
     0,
     0,
     0,
     0,
     0,
     0,
     0,
     0,
     0,
     0,
     0,
     0,
     0,
     0,
     0,
     0,
     0,
     0,
     0,
     0,
     0,
     0,
     0,
     0,
     0,
     0,
     0,
     0,
     0,
     0,
     0,
     0,
     0,
     0,
     0,
     0,
     0,
     0,
     0,
     0,
     0,
     0,
     0,
     0,
     0,
     0,
     0]"

definition labels_table_5 :: "nat list" where
  "labels_table_5 =
    [0,
     0,
     0,
     0,
     0,
     0,
     0,
     0,
     0,
     0,
     0,
     0,
     0,
     0,
     0,
     0,
     0,
     0,
     0,
     0,
     0,
     0,
     0,
     0,
     0,
     0,
     0,
     0,
     0,
     0,
     0,
     0,
     0,
     0,
     0,
     0,
     0,
     0,
     0,
     0,
     0,
     0,
     0,
     0,
     0,
     0,
     0,
     0,
     0,
     0,
     0,
     0,
     0,
     0,
     0,
     0,
     0,
     0,
     0,
     0,
     0,
     0,
     0,
     0,
     0,
     0,
     0,
     0,
     0,
     0,
     0,
     0,
     0,
     0,
     0,
     0,
     0,
     0,
     0,
     0,
     0,
     0,
     0,
     0,
     0,
     0,
     0,
     0,
     0,
     0,
     0,
     0,
     0,
     0,
     0,
     0,
     0,
     0,
     0,
     0,
     0,
     0,
     0,
     0,
     0,
     0,
     0,
     0,
     0,
     0,
     0,
     0,
     0,
     0,
     0,
     0,
     0,
     0,
     0,
     0,
     0,
     0,
     0,
     0,
     0,
     0,
     0,
     0,
     0,
     0,
     0,
     0,
     0,
     0,
     0,
     0,
     0,
     0,
     0,
     0,
     0,
     0,
     0,
     0,
     0,
     0,
     0,
     0,
     0,
     0]"

definition labels_table_6 :: "nat list" where
  "labels_table_6 =
    [0,
     0,
     0,
     0,
     0,
     0,
     0,
     0,
     0,
     0,
     0,
     0,
     0,
     0,
     0,
     0,
     0,
     0,
     0,
     0,
     0,
     0,
     0,
     0,
     0,
     0,
     0,
     0,
     0,
     0,
     0,
     0,
     0,
     0,
     0,
     0,
     0,
     0,
     0,
     0,
     0,
     0,
     0,
     0,
     0,
     0,
     0,
     0,
     0,
     0,
     0,
     0,
     0,
     0,
     0,
     0,
     0,
     0,
     0,
     0,
     0,
     0,
     0,
     0,
     0,
     0,
     0,
     0,
     0,
     0,
     0,
     0,
     0,
     0,
     0,
     0,
     0,
     0,
     0,
     0,
     0,
     0,
     0,
     0,
     0,
     0,
     0,
     0,
     0,
     0,
     0,
     0,
     0,
     0,
     0,
     0,
     0,
     0,
     0,
     0,
     0,
     0,
     0,
     0,
     0,
     0,
     0,
     0,
     0,
     0,
     0,
     0,
     0,
     0,
     0,
     0,
     0,
     0,
     0,
     0,
     0,
     0,
     0,
     0,
     0,
     0,
     0,
     0,
     0,
     0,
     0,
     0,
     0,
     0,
     0,
     0,
     0,
     0,
     0,
     0,
     0,
     0,
     0,
     0,
     0,
     0,
     0,
     0,
     0,
     0]"

definition labels_table_7 :: "nat list" where
  "labels_table_7 =
    [0,
     0,
     0,
     0,
     0,
     0,
     0,
     0,
     0,
     0,
     0,
     0,
     0,
     0,
     0,
     0,
     0,
     0,
     0,
     0,
     0,
     0,
     0,
     0,
     0,
     0,
     0,
     0,
     0,
     0,
     0,
     0,
     0,
     0,
     0,
     0,
     0,
     0,
     0,
     0,
     0,
     0,
     0,
     0,
     0,
     0,
     0,
     0,
     0,
     0,
     0,
     0,
     0,
     0,
     0,
     0,
     0,
     0,
     0,
     0,
     0,
     0,
     0,
     0,
     0,
     0,
     0,
     0,
     0,
     0,
     0,
     0,
     0,
     0,
     0,
     0,
     0,
     0,
     0,
     0,
     0,
     0,
     0,
     0,
     0,
     0,
     0,
     0,
     0,
     0,
     0,
     0,
     0,
     0,
     0,
     0,
     0,
     0,
     0,
     0,
     0,
     0,
     0,
     0,
     0,
     0,
     0,
     0,
     0,
     0,
     0,
     0,
     0,
     0,
     0,
     0,
     0,
     0,
     0,
     0,
     0,
     0,
     0,
     0,
     0,
     0,
     0,
     0,
     0,
     0,
     0,
     0,
     0,
     0,
     0,
     0,
     0,
     0,
     0,
     0,
     0,
     0,
     0,
     0,
     0,
     0,
     0,
     0,
     0,
     0]"

definition labels_table_8 :: "nat list" where
  "labels_table_8 =
    [0,
     0,
     0,
     0,
     0,
     0,
     0,
     0,
     0,
     0,
     0,
     0,
     0,
     0,
     0,
     0,
     0,
     0,
     0,
     0,
     0,
     0,
     0,
     0,
     0,
     0,
     0,
     0,
     0,
     0,
     0,
     0,
     0,
     0,
     0,
     0,
     0,
     0,
     0,
     0,
     0,
     0,
     0,
     0,
     0,
     0,
     0,
     0,
     0,
     0,
     0,
     0,
     0,
     0,
     0,
     0,
     0,
     0,
     0,
     0,
     0,
     0,
     0,
     0,
     0,
     0,
     0,
     0,
     0,
     0,
     0,
     0,
     0,
     0,
     0,
     0,
     0,
     0,
     0,
     0,
     0,
     0,
     0,
     0,
     0,
     0,
     0,
     0,
     0,
     0,
     0,
     0,
     0,
     0,
     0,
     0,
     0,
     0,
     0,
     0,
     0,
     0,
     0,
     0,
     0,
     0,
     0,
     0,
     0,
     0,
     0,
     0,
     0,
     0,
     0,
     0,
     0,
     0,
     0,
     0,
     0,
     0,
     0,
     0,
     0,
     0,
     0,
     0,
     0,
     0,
     0,
     0,
     0,
     0,
     0,
     0,
     0,
     0,
     0,
     0,
     0,
     0,
     0,
     0,
     0,
     0,
     0,
     0,
     0,
     0]"

definition labels_table_9 :: "nat list" where
  "labels_table_9 =
    [0,
     0,
     0,
     0,
     0,
     0,
     0,
     0,
     0,
     0,
     0,
     0,
     0,
     0,
     0,
     0,
     0,
     0,
     0,
     0,
     0,
     0,
     0,
     0,
     0,
     0,
     0,
     0,
     0,
     0,
     0,
     0,
     0,
     0,
     0,
     0,
     0,
     0,
     0,
     0,
     0,
     0,
     0,
     0,
     0,
     0,
     0,
     0,
     0,
     0,
     0,
     0,
     0,
     0,
     0,
     0,
     0,
     0,
     0,
     0,
     0,
     0,
     0,
     0,
     0,
     0,
     0,
     0,
     0,
     0,
     0,
     0,
     0,
     0,
     0,
     0,
     0,
     0,
     0,
     0,
     0,
     0,
     0,
     0,
     0,
     0,
     0,
     0,
     0,
     0,
     0,
     0,
     0,
     0,
     0,
     0,
     0,
     0,
     0,
     0,
     0,
     0,
     0,
     0,
     0,
     0,
     0,
     0,
     0,
     0,
     0,
     0,
     0,
     0,
     0,
     0,
     0,
     0,
     0,
     0,
     0,
     0,
     0,
     0,
     0,
     0,
     0,
     0]"

definition labels_table :: "nat list" where
  "labels_table =
     labels_table_1 @ labels_table_2 @ labels_table_3 @ labels_table_4 @ labels_table_5 @ labels_table_6 @ labels_table_7 @ labels_table_8 @ labels_table_9"

lemma labels_table_1_rows: "map mpls_num_of_labels pt_enum_1 = labels_table_1"
  by code_simp

lemma labels_table_2_rows: "map mpls_num_of_labels pt_enum_2 = labels_table_2"
  by code_simp

lemma labels_table_3_rows: "map mpls_num_of_labels pt_enum_3 = labels_table_3"
  by code_simp

lemma labels_table_4_rows: "map mpls_num_of_labels pt_enum_4 = labels_table_4"
  by code_simp

lemma labels_table_5_rows: "map mpls_num_of_labels pt_enum_5 = labels_table_5"
  by code_simp

lemma labels_table_6_rows: "map mpls_num_of_labels pt_enum_6 = labels_table_6"
  by code_simp

lemma labels_table_7_rows: "map mpls_num_of_labels pt_enum_7 = labels_table_7"
  by code_simp

lemma labels_table_8_rows: "map mpls_num_of_labels pt_enum_8 = labels_table_8"
  by code_simp

lemma labels_table_9_rows: "map mpls_num_of_labels pt_enum_9 = labels_table_9"
  by code_simp

lemma labels_rows: "map mpls_num_of_labels pt_enum = labels_table"
  by (simp only: pt_enum_def labels_table_def map_append labels_table_1_rows labels_table_2_rows labels_table_3_rows
      labels_table_4_rows labels_table_5_rows labels_table_6_rows labels_table_7_rows labels_table_8_rows labels_table_9_rows)

text \<open>C20: on every one of its 1328 rows and all its columns, each of the three tables has the value the
  definitions compute from the headers: the offset of the first header of a protocol, of the last Ethertype of the link
  layer, and the number of labels.\<close>

theorem offset_tables_exact:
  "sparse_are protocol_offsets_bt offsets_table \<and> rows_are eth_type_offsets eth_type_table \<and> rows_are mpls_num_of_labels labels_table"
proof (intro conjI)
  show "sparse_are protocol_offsets_bt offsets_table"
  proof (rule sparse_areI [OF offsets_rows], rule ext)
    show "map_of (offsets_from 0 t) p = protocol_offsets_bt t p" for t p
      by (cases "protocol_offsets_bt t p") (simp_all add: offsets_from)
  qed
qed (rule rows_areI, rule eth_type_rows, rule rows_areI, rule labels_rows)

end
