(* ===== verification/Push_Table.thy ===== *)
theory Push_Table
  imports Type_Enum
begin

text \<open>
  The table \<open>push_transitions\<close> of \<open>autogen_pkt_types.c\<close>, row by row (the entries that are not \<open>PT_INVALID\<close>), and that the
  definition \<open>push_transitions\<close> has its values.
\<close>

definition push_table_1 :: "(unrolled \<times> pkt_type) list list" where
  "push_table_1 =
    [[(UNROLLED PT_PROTO_MPLS, [ETHERNET, MPLS_nlabels 1]), (UNROLLED PT_PROTO_VLAN, [ETHERNET, VLAN]), (UNROLLED PT_PROTO_ISID, [ETHERNET, ISID]), (UNROLLED PT_PROTO_PPPOE, [ETHERNET, PPPOE]), (UNROLLED PT_PROTO_GRE4, [ETHERNET, IPV4_noptions 0, GRE4]), (UNROLLED PT_PROTO_GRE6, [ETHERNET, IPV6, GRE6])],
     [],
     [],
     [(UNROLLED PT_PROTO_MPLS, [IEEE8023, MPLS_nlabels 1]), (UNROLLED PT_PROTO_VLAN, [IEEE8023, VLAN]), (UNROLLED PT_PROTO_ISID, [ETHERNET, ISID]), (UNROLLED PT_PROTO_PPPOE, [IEEE8023, PPPOE]), (UNROLLED PT_PROTO_GRE4, [ETHERNET, IPV4_noptions 0, GRE4]), (UNROLLED PT_PROTO_GRE6, [ETHERNET, IPV6, GRE6])],
     [(UNROLLED PT_PROTO_MPLS, [ETHERNET, VLAN, MPLS_nlabels 1]), (UNROLLED PT_PROTO_VLAN, [ETHERNET, VLAN, VLAN]), (UNROLLED PT_PROTO_ISID, [ETHERNET, ISID]), (UNROLLED PT_PROTO_PPPOE, [ETHERNET, VLAN, PPPOE]), (UNROLLED PT_PROTO_GRE4, [ETHERNET, IPV4_noptions 0, GRE4]), (UNROLLED PT_PROTO_GRE6, [ETHERNET, IPV6, GRE6])],
     [(UNROLLED PT_PROTO_MPLS, [IEEE8023, VLAN, MPLS_nlabels 1]), (UNROLLED PT_PROTO_VLAN, [IEEE8023, VLAN, VLAN]), (UNROLLED PT_PROTO_ISID, [ETHERNET, ISID]), (UNROLLED PT_PROTO_PPPOE, [IEEE8023, VLAN, PPPOE]), (UNROLLED PT_PROTO_GRE4, [ETHERNET, IPV4_noptions 0, GRE4]), (UNROLLED PT_PROTO_GRE6, [ETHERNET, IPV6, GRE6])],
     [(UNROLLED PT_PROTO_MPLS, [ETHERNET, VLAN, VLAN, MPLS_nlabels 1]), (UNROLLED PT_PROTO_ISID, [ETHERNET, ISID]), (UNROLLED PT_PROTO_PPPOE, [ETHERNET, VLAN, VLAN, PPPOE]), (UNROLLED PT_PROTO_GRE4, [ETHERNET, IPV4_noptions 0, GRE4]), (UNROLLED PT_PROTO_GRE6, [ETHERNET, IPV6, GRE6])],
     [(UNROLLED PT_PROTO_MPLS, [IEEE8023, VLAN, VLAN, MPLS_nlabels 1]), (UNROLLED PT_PROTO_ISID, [ETHERNET, ISID]), (UNROLLED PT_PROTO_PPPOE, [IEEE8023, VLAN, VLAN, PPPOE]), (UNROLLED PT_PROTO_GRE4, [ETHERNET, IPV4_noptions 0, GRE4]), (UNROLLED PT_PROTO_GRE6, [ETHERNET, IPV6, GRE6])],
     [(UNROLLED PT_PROTO_MPLS, [ETHERNET, MPLS_nlabels 2]), (UNROLLED PT_PROTO_VLAN, [ETHERNET, VLAN, MPLS_nlabels 1]), (UNROLLED PT_PROTO_ISID, [ETHERNET, ISID]), (UNROLLED PT_PROTO_GRE4, [ETHERNET, IPV4_noptions 0, GRE4]), (UNROLLED PT_PROTO_GRE6, [ETHERNET, IPV6, GRE6])],
     [(UNROLLED PT_PROTO_MPLS, [ETHERNET, MPLS_nlabels 3]), (UNROLLED PT_PROTO_VLAN, [ETHERNET, VLAN, MPLS_nlabels 2]), (UNROLLED PT_PROTO_ISID, [ETHERNET, ISID]), (UNROLLED PT_PROTO_GRE4, [ETHERNET, IPV4_noptions 0, GRE4]), (UNROLLED PT_PROTO_GRE6, [ETHERNET, IPV6, GRE6])],
     [(UNROLLED PT_PROTO_MPLS, [ETHERNET, MPLS_nlabels 4]), (UNROLLED PT_PROTO_VLAN, [ETHERNET, VLAN, MPLS_nlabels 3]), (UNROLLED PT_PROTO_ISID, [ETHERNET, ISID]), (UNROLLED PT_PROTO_GRE4, [ETHERNET, IPV4_noptions 0, GRE4]), (UNROLLED PT_PROTO_GRE6, [ETHERNET, IPV6, GRE6])],
     [(UNROLLED PT_PROTO_MPLS, [ETHERNET, MPLS_nlabels 5]), (UNROLLED PT_PROTO_VLAN, [ETHERNET, VLAN, MPLS_nlabels 4]), (UNROLLED PT_PROTO_ISID, [ETHERNET, ISID]), (UNROLLED PT_PROTO_GRE4, [ETHERNET, IPV4_noptions 0, GRE4]), (UNROLLED PT_PROTO_GRE6, [ETHERNET, IPV6, GRE6])],
     [(UNROLLED PT_PROTO_MPLS, [ETHERNET, MPLS_nlabels 6]), (UNROLLED PT_PROTO_VLAN, [ETHERNET, VLAN, MPLS_nlabels 5]), (UNROLLED PT_PROTO_ISID, [ETHERNET, ISID]), (UNROLLED PT_PROTO_GRE4, [ETHERNET, IPV4_noptions 0, GRE4]), (UNROLLED PT_PROTO_GRE6, [ETHERNET, IPV6, GRE6])],
     [(UNROLLED PT_PROTO_MPLS, [ETHERNET, MPLS_nlabels 7]), (UNROLLED PT_PROTO_VLAN, [ETHERNET, VLAN, MPLS_nlabels 6]), (UNROLLED PT_PROTO_ISID, [ETHERNET, ISID]), (UNROLLED PT_PROTO_GRE4, [ETHERNET, IPV4_noptions 0, GRE4]), (UNROLLED PT_PROTO_GRE6, [ETHERNET, IPV6, GRE6])],
     [(UNROLLED PT_PROTO_MPLS, [ETHERNET, MPLS_nlabels 8]), (UNROLLED PT_PROTO_VLAN, [ETHERNET, VLAN, MPLS_nlabels 7]), (UNROLLED PT_PROTO_ISID, [ETHERNET, ISID]), (UNROLLED PT_PROTO_GRE4, [ETHERNET, IPV4_noptions 0, GRE4]), (UNROLLED PT_PROTO_GRE6, [ETHERNET, IPV6, GRE6])],
     [(UNROLLED PT_PROTO_MPLS, [ETHERNET, MPLS_nlabels 9]), (UNROLLED PT_PROTO_VLAN, [ETHERNET, VLAN, MPLS_nlabels 8]), (UNROLLED PT_PROTO_ISID, [ETHERNET, ISID]), (UNROLLED PT_PROTO_GRE4, [ETHERNET, IPV4_noptions 0, GRE4]), (UNROLLED PT_PROTO_GRE6, [ETHERNET, IPV6, GRE6])],
     [(UNROLLED PT_PROTO_MPLS, [ETHERNET, MPLS_nlabels 10]), (UNROLLED PT_PROTO_VLAN, [ETHERNET, VLAN, MPLS_nlabels 9]), (UNROLLED PT_PROTO_ISID, [ETHERNET, ISID]), (UNROLLED PT_PROTO_GRE4, [ETHERNET, IPV4_noptions 0, GRE4]), (UNROLLED PT_PROTO_GRE6, [ETHERNET, IPV6, GRE6])],
     [(UNROLLED PT_PROTO_MPLS, [ETHERNET, MPLS_nlabels 11]), (UNROLLED PT_PROTO_VLAN, [ETHERNET, VLAN, MPLS_nlabels 10]), (UNROLLED PT_PROTO_ISID, [ETHERNET, ISID]), (UNROLLED PT_PROTO_GRE4, [ETHERNET, IPV4_noptions 0, GRE4]), (UNROLLED PT_PROTO_GRE6, [ETHERNET, IPV6, GRE6])],
     [(UNROLLED PT_PROTO_MPLS, [ETHERNET, MPLS_nlabels 12]), (UNROLLED PT_PROTO_VLAN, [ETHERNET, VLAN, MPLS_nlabels 11]), (UNROLLED PT_PROTO_ISID, [ETHERNET, ISID]), (UNROLLED PT_PROTO_GRE4, [ETHERNET, IPV4_noptions 0, GRE4]), (UNROLLED PT_PROTO_GRE6, [ETHERNET, IPV6, GRE6])],
     [(UNROLLED PT_PROTO_MPLS, [ETHERNET, MPLS_nlabels 13]), (UNROLLED PT_PROTO_VLAN, [ETHERNET, VLAN, MPLS_nlabels 12]), (UNROLLED PT_PROTO_ISID, [ETHERNET, ISID]), (UNROLLED PT_PROTO_GRE4, [ETHERNET, IPV4_noptions 0, GRE4]), (UNROLLED PT_PROTO_GRE6, [ETHERNET, IPV6, GRE6])],
     [(UNROLLED PT_PROTO_MPLS, [ETHERNET, MPLS_nlabels 14]), (UNROLLED PT_PROTO_VLAN, [ETHERNET, VLAN, MPLS_nlabels 13]), (UNROLLED PT_PROTO_ISID, [ETHERNET, ISID]), (UNROLLED PT_PROTO_GRE4, [ETHERNET, IPV4_noptions 0, GRE4]), (UNROLLED PT_PROTO_GRE6, [ETHERNET, IPV6, GRE6])],
     [(UNROLLED PT_PROTO_MPLS, [ETHERNET, MPLS_nlabels 15]), (UNROLLED PT_PROTO_VLAN, [ETHERNET, VLAN, MPLS_nlabels 14]), (UNROLLED PT_PROTO_ISID, [ETHERNET, ISID]), (UNROLLED PT_PROTO_GRE4, [ETHERNET, IPV4_noptions 0, GRE4]), (UNROLLED PT_PROTO_GRE6, [ETHERNET, IPV6, GRE6])],
     [(UNROLLED PT_PROTO_MPLS, [ETHERNET, MPLS_nlabels 16]), (UNROLLED PT_PROTO_VLAN, [ETHERNET, VLAN, MPLS_nlabels 15]), (UNROLLED PT_PROTO_ISID, [ETHERNET, ISID]), (UNROLLED PT_PROTO_GRE4, [ETHERNET, IPV4_noptions 0, GRE4]), (UNROLLED PT_PROTO_GRE6, [ETHERNET, IPV6, GRE6])],
     [(UNROLLED PT_PROTO_MPLS, [ETHERNET, MPLS_nlabels 17]), (UNROLLED PT_PROTO_VLAN, [ETHERNET, VLAN, MPLS_nlabels 16]), (UNROLLED PT_PROTO_ISID, [ETHERNET, ISID]), (UNROLLED PT_PROTO_GRE4, [ETHERNET, IPV4_noptions 0, GRE4]), (UNROLLED PT_PROTO_GRE6, [ETHERNET, IPV6, GRE6])],
     [(UNROLLED PT_PROTO_MPLS, [ETHERNET, MPLS_nlabels 18]), (UNROLLED PT_PROTO_VLAN, [ETHERNET, VLAN, MPLS_nlabels 17]), (UNROLLED PT_PROTO_ISID, [ETHERNET, ISID]), (UNROLLED PT_PROTO_GRE4, [ETHERNET, IPV4_noptions 0, GRE4]), (UNROLLED PT_PROTO_GRE6, [ETHERNET, IPV6, GRE6])],
     [(UNROLLED PT_PROTO_MPLS, [ETHERNET, MPLS_nlabels 19]), (UNROLLED PT_PROTO_VLAN, [ETHERNET, VLAN, MPLS_nlabels 18]), (UNROLLED PT_PROTO_ISID, [ETHERNET, ISID]), (UNROLLED PT_PROTO_GRE4, [ETHERNET, IPV4_noptions 0, GRE4]), (UNROLLED PT_PROTO_GRE6, [ETHERNET, IPV6, GRE6])],
     [(UNROLLED PT_PROTO_MPLS, [ETHERNET, MPLS_nlabels 20]), (UNROLLED PT_PROTO_VLAN, [ETHERNET, VLAN, MPLS_nlabels 19]), (UNROLLED PT_PROTO_ISID, [ETHERNET, ISID]), (UNROLLED PT_PROTO_GRE4, [ETHERNET, IPV4_noptions 0, GRE4]), (UNROLLED PT_PROTO_GRE6, [ETHERNET, IPV6, GRE6])],
     [(UNROLLED PT_PROTO_MPLS, [ETHERNET, MPLS_nlabels 21]), (UNROLLED PT_PROTO_VLAN, [ETHERNET, VLAN, MPLS_nlabels 20]), (UNROLLED PT_PROTO_ISID, [ETHERNET, ISID]), (UNROLLED PT_PROTO_GRE4, [ETHERNET, IPV4_noptions 0, GRE4]), (UNROLLED PT_PROTO_GRE6, [ETHERNET, IPV6, GRE6])],
     [(UNROLLED PT_PROTO_MPLS, [ETHERNET, MPLS_nlabels 22]), (UNROLLED PT_PROTO_VLAN, [ETHERNET, VLAN, MPLS_nlabels 21]), (UNROLLED PT_PROTO_ISID, [ETHERNET, ISID]), (UNROLLED PT_PROTO_GRE4, [ETHERNET, IPV4_noptions 0, GRE4]), (UNROLLED PT_PROTO_GRE6, [ETHERNET, IPV6, GRE6])],
     [(UNROLLED PT_PROTO_MPLS, [ETHERNET, MPLS_nlabels 23]), (UNROLLED PT_PROTO_VLAN, [ETHERNET, VLAN, MPLS_nlabels 22]), (UNROLLED PT_PROTO_ISID, [ETHERNET, ISID]), (UNROLLED PT_PROTO_GRE4, [ETHERNET, IPV4_noptions 0, GRE4]), (UNROLLED PT_PROTO_GRE6, [ETHERNET, IPV6, GRE6])],
     [(UNROLLED PT_PROTO_MPLS, [ETHERNET, MPLS_nlabels 24]), (UNROLLED PT_PROTO_VLAN, [ETHERNET, VLAN, MPLS_nlabels 23]), (UNROLLED PT_PROTO_ISID, [ETHERNET, ISID]), (UNROLLED PT_PROTO_GRE4, [ETHERNET, IPV4_noptions 0, GRE4]), (UNROLLED PT_PROTO_GRE6, [ETHERNET, IPV6, GRE6])],
     [(UNROLLED PT_PROTO_MPLS, [ETHERNET, MPLS_nlabels 25]), (UNROLLED PT_PROTO_VLAN, [ETHERNET, VLAN, MPLS_nlabels 24]), (UNROLLED PT_PROTO_ISID, [ETHERNET, ISID]), (UNROLLED PT_PROTO_GRE4, [ETHERNET, IPV4_noptions 0, GRE4]), (UNROLLED PT_PROTO_GRE6, [ETHERNET, IPV6, GRE6])],
     [(UNROLLED PT_PROTO_MPLS, [ETHERNET, MPLS_nlabels 26]), (UNROLLED PT_PROTO_VLAN, [ETHERNET, VLAN, MPLS_nlabels 25]), (UNROLLED PT_PROTO_ISID, [ETHERNET, ISID]), (UNROLLED PT_PROTO_GRE4, [ETHERNET, IPV4_noptions 0, GRE4]), (UNROLLED PT_PROTO_GRE6, [ETHERNET, IPV6, GRE6])],
     [(UNROLLED PT_PROTO_MPLS, [ETHERNET, MPLS_nlabels 27]), (UNROLLED PT_PROTO_VLAN, [ETHERNET, VLAN, MPLS_nlabels 26]), (UNROLLED PT_PROTO_ISID, [ETHERNET, ISID]), (UNROLLED PT_PROTO_GRE4, [ETHERNET, IPV4_noptions 0, GRE4]), (UNROLLED PT_PROTO_GRE6, [ETHERNET, IPV6, GRE6])],
     [(UNROLLED PT_PROTO_MPLS, [ETHERNET, MPLS_nlabels 28]), (UNROLLED PT_PROTO_VLAN, [ETHERNET, VLAN, MPLS_nlabels 27]), (UNROLLED PT_PROTO_ISID, [ETHERNET, ISID]), (UNROLLED PT_PROTO_GRE4, [ETHERNET, IPV4_noptions 0, GRE4]), (UNROLLED PT_PROTO_GRE6, [ETHERNET, IPV6, GRE6])],
     [(UNROLLED PT_PROTO_MPLS, [ETHERNET, MPLS_nlabels 29]), (UNROLLED PT_PROTO_VLAN, [ETHERNET, VLAN, MPLS_nlabels 28]), (UNROLLED PT_PROTO_ISID, [ETHERNET, ISID]), (UNROLLED PT_PROTO_GRE4, [ETHERNET, IPV4_noptions 0, GRE4]), (UNROLLED PT_PROTO_GRE6, [ETHERNET, IPV6, GRE6])],
     [(UNROLLED PT_PROTO_MPLS, [ETHERNET, MPLS_nlabels 30]), (UNROLLED PT_PROTO_VLAN, [ETHERNET, VLAN, MPLS_nlabels 29]), (UNROLLED PT_PROTO_ISID, [ETHERNET, ISID]), (UNROLLED PT_PROTO_GRE4, [ETHERNET, IPV4_noptions 0, GRE4]), (UNROLLED PT_PROTO_GRE6, [ETHERNET, IPV6, GRE6])],
     [(UNROLLED PT_PROTO_MPLS, [ETHERNET, MPLS_nlabels 31]), (UNROLLED PT_PROTO_VLAN, [ETHERNET, VLAN, MPLS_nlabels 30]), (UNROLLED PT_PROTO_ISID, [ETHERNET, ISID]), (UNROLLED PT_PROTO_GRE4, [ETHERNET, IPV4_noptions 0, GRE4]), (UNROLLED PT_PROTO_GRE6, [ETHERNET, IPV6, GRE6])],
     [(UNROLLED PT_PROTO_VLAN, [ETHERNET, VLAN, MPLS_nlabels 31]), (UNROLLED PT_PROTO_ISID, [ETHERNET, ISID]), (UNROLLED PT_PROTO_GRE4, [ETHERNET, IPV4_noptions 0, GRE4]), (UNROLLED PT_PROTO_GRE6, [ETHERNET, IPV6, GRE6])],
     [(UNROLLED PT_PROTO_VLAN, [ETHERNET, VLAN, MPLS_nlabels 32]), (UNROLLED PT_PROTO_ISID, [ETHERNET, ISID]), (UNROLLED PT_PROTO_GRE4, [ETHERNET, IPV4_noptions 0, GRE4]), (UNROLLED PT_PROTO_GRE6, [ETHERNET, IPV6, GRE6])],
     [],
     [],
     [],
     [],
     [],
     [],
     [],
     [],
     [],
     [],
     [],
     [],
     [],
     [],
     [],
     [],
     [],
     [],
     [],
     [],
     [],
     [],
     [],
     [],
     [],
     [],
     [],
     [],
     [],
     [],
     [],
     [],
     [],
     [],
     [],
     [],
     [],
     [],
     [],
     [],
     [],
     [],
     [],
     [],
     [],
     [],
     [],
     [],
     [],
     [],
     [],
     [],
     [],
     [],
     [],
     [],
     [],
     [],
     [],
     [],
     [],
     [],
     [],
     [],
     [(UNROLLED PT_PROTO_MPLS, [IEEE8023, MPLS_nlabels 2]), (UNROLLED PT_PROTO_VLAN, [IEEE8023, VLAN, MPLS_nlabels 1]), (UNROLLED PT_PROTO_ISID, [ETHERNET, ISID]), (UNROLLED PT_PROTO_GRE4, [ETHERNET, IPV4_noptions 0, GRE4]), (UNROLLED PT_PROTO_GRE6, [ETHERNET, IPV6, GRE6])],
     [(UNROLLED PT_PROTO_MPLS, [IEEE8023, MPLS_nlabels 3]), (UNROLLED PT_PROTO_VLAN, [IEEE8023, VLAN, MPLS_nlabels 2]), (UNROLLED PT_PROTO_ISID, [ETHERNET, ISID]), (UNROLLED PT_PROTO_GRE4, [ETHERNET, IPV4_noptions 0, GRE4]), (UNROLLED PT_PROTO_GRE6, [ETHERNET, IPV6, GRE6])],
     [(UNROLLED PT_PROTO_MPLS, [IEEE8023, MPLS_nlabels 4]), (UNROLLED PT_PROTO_VLAN, [IEEE8023, VLAN, MPLS_nlabels 3]), (UNROLLED PT_PROTO_ISID, [ETHERNET, ISID]), (UNROLLED PT_PROTO_GRE4, [ETHERNET, IPV4_noptions 0, GRE4]), (UNROLLED PT_PROTO_GRE6, [ETHERNET, IPV6, GRE6])],
     [(UNROLLED PT_PROTO_MPLS, [IEEE8023, MPLS_nlabels 5]), (UNROLLED PT_PROTO_VLAN, [IEEE8023, VLAN, MPLS_nlabels 4]), (UNROLLED PT_PROTO_ISID, [ETHERNET, ISID]), (UNROLLED PT_PROTO_GRE4, [ETHERNET, IPV4_noptions 0, GRE4]), (UNROLLED PT_PROTO_GRE6, [ETHERNET, IPV6, GRE6])],
     [(UNROLLED PT_PROTO_MPLS, [IEEE8023, MPLS_nlabels 6]), (UNROLLED PT_PROTO_VLAN, [IEEE8023, VLAN, MPLS_nlabels 5]), (UNROLLED PT_PROTO_ISID, [ETHERNET, ISID]), (UNROLLED PT_PROTO_GRE4, [ETHERNET, IPV4_noptions 0, GRE4]), (UNROLLED PT_PROTO_GRE6, [ETHERNET, IPV6, GRE6])],
     [(UNROLLED PT_PROTO_MPLS, [IEEE8023, MPLS_nlabels 7]), (UNROLLED PT_PROTO_VLAN, [IEEE8023, VLAN, MPLS_nlabels 6]), (UNROLLED PT_PROTO_ISID, [ETHERNET, ISID]), (UNROLLED PT_PROTO_GRE4, [ETHERNET, IPV4_noptions 0, GRE4]), (UNROLLED PT_PROTO_GRE6, [ETHERNET, IPV6, GRE6])],
     [(UNROLLED PT_PROTO_MPLS, [IEEE8023, MPLS_nlabels 8]), (UNROLLED PT_PROTO_VLAN, [IEEE8023, VLAN, MPLS_nlabels 7]), (UNROLLED PT_PROTO_ISID, [ETHERNET, ISID]), (UNROLLED PT_PROTO_GRE4, [ETHERNET, IPV4_noptions 0, GRE4]), (UNROLLED PT_PROTO_GRE6, [ETHERNET, IPV6, GRE6])],
     [(UNROLLED PT_PROTO_MPLS, [IEEE8023, MPLS_nlabels 9]), (UNROLLED PT_PROTO_VLAN, [IEEE8023, VLAN, MPLS_nlabels 8]), (UNROLLED PT_PROTO_ISID, [ETHERNET, ISID]), (UNROLLED PT_PROTO_GRE4, [ETHERNET, IPV4_noptions 0, GRE4]), (UNROLLED PT_PROTO_GRE6, [ETHERNET, IPV6, GRE6])],
     [(UNROLLED PT_PROTO_MPLS, [IEEE8023, MPLS_nlabels 10]), (UNROLLED PT_PROTO_VLAN, [IEEE8023, VLAN, MPLS_nlabels 9]), (UNROLLED PT_PROTO_ISID, [ETHERNET, ISID]), (UNROLLED PT_PROTO_GRE4, [ETHERNET, IPV4_noptions 0, GRE4]), (UNROLLED PT_PROTO_GRE6, [ETHERNET, IPV6, GRE6])],
     [(UNROLLED PT_PROTO_MPLS, [IEEE8023, MPLS_nlabels 11]), (UNROLLED PT_PROTO_VLAN, [IEEE8023, VLAN, MPLS_nlabels 10]), (UNROLLED PT_PROTO_ISID, [ETHERNET, ISID]), (UNROLLED PT_PROTO_GRE4, [ETHERNET, IPV4_noptions 0, GRE4]), (UNROLLED PT_PROTO_GRE6, [ETHERNET, IPV6, GRE6])],
     [(UNROLLED PT_PROTO_MPLS, [IEEE8023, MPLS_nlabels 12]), (UNROLLED PT_PROTO_VLAN, [IEEE8023, VLAN, MPLS_nlabels 11]), (UNROLLED PT_PROTO_ISID, [ETHERNET, ISID]), (UNROLLED PT_PROTO_GRE4, [ETHERNET, IPV4_noptions 0, GRE4]), (UNROLLED PT_PROTO_GRE6, [ETHERNET, IPV6, GRE6])],
     [(UNROLLED PT_PROTO_MPLS, [IEEE8023, MPLS_nlabels 13]), (UNROLLED PT_PROTO_VLAN, [IEEE8023, VLAN, MPLS_nlabels 12]), (UNROLLED PT_PROTO_ISID, [ETHERNET, ISID]), (UNROLLED PT_PROTO_GRE4, [ETHERNET, IPV4_noptions 0, GRE4]), (UNROLLED PT_PROTO_GRE6, [ETHERNET, IPV6, GRE6])],
     [(UNROLLED PT_PROTO_MPLS, [IEEE8023, MPLS_nlabels 14]), (UNROLLED PT_PROTO_VLAN, [IEEE8023, VLAN, MPLS_nlabels 13]), (UNROLLED PT_PROTO_ISID, [ETHERNET, ISID]), (UNROLLED PT_PROTO_GRE4, [ETHERNET, IPV4_noptions 0, GRE4]), (UNROLLED PT_PROTO_GRE6, [ETHERNET, IPV6, GRE6])],
     [(UNROLLED PT_PROTO_MPLS, [IEEE8023, MPLS_nlabels 15]), (UNROLLED PT_PROTO_VLAN, [IEEE8023, VLAN, MPLS_nlabels 14]), (UNROLLED PT_PROTO_ISID, [ETHERNET, ISID]), (UNROLLED PT_PROTO_GRE4, [ETHERNET, IPV4_noptions 0, GRE4]), (UNROLLED PT_PROTO_GRE6, [ETHERNET, IPV6, GRE6])],
     [(UNROLLED PT_PROTO_MPLS, [IEEE8023, MPLS_nlabels 16]), (UNROLLED PT_PROTO_VLAN, [IEEE8023, VLAN, MPLS_nlabels 15]), (UNROLLED PT_PROTO_ISID, [ETHERNET, ISID]), (UNROLLED PT_PROTO_GRE4, [ETHERNET, IPV4_noptions 0, GRE4]), (UNROLLED PT_PROTO_GRE6, [ETHERNET, IPV6, GRE6])],
     [(UNROLLED PT_PROTO_MPLS, [IEEE8023, MPLS_nlabels 17]), (UNROLLED PT_PROTO_VLAN, [IEEE8023, VLAN, MPLS_nlabels 16]), (UNROLLED PT_PROTO_ISID, [ETHERNET, ISID]), (UNROLLED PT_PROTO_GRE4, [ETHERNET, IPV4_noptions 0, GRE4]), (UNROLLED PT_PROTO_GRE6, [ETHERNET, IPV6, GRE6])],
     [(UNROLLED PT_PROTO_MPLS, [IEEE8023, MPLS_nlabels 18]), (UNROLLED PT_PROTO_VLAN, [IEEE8023, VLAN, MPLS_nlabels 17]), (UNROLLED PT_PROTO_ISID, [ETHERNET, ISID]), (UNROLLED PT_PROTO_GRE4, [ETHERNET, IPV4_noptions 0, GRE4]), (UNROLLED PT_PROTO_GRE6, [ETHERNET, IPV6, GRE6])],
     [(UNROLLED PT_PROTO_MPLS, [IEEE8023, MPLS_nlabels 19]), (UNROLLED PT_PROTO_VLAN, [IEEE8023, VLAN, MPLS_nlabels 18]), (UNROLLED PT_PROTO_ISID, [ETHERNET, ISID]), (UNROLLED PT_PROTO_GRE4, [ETHERNET, IPV4_noptions 0, GRE4]), (UNROLLED PT_PROTO_GRE6, [ETHERNET, IPV6, GRE6])],
     [(UNROLLED PT_PROTO_MPLS, [IEEE8023, MPLS_nlabels 20]), (UNROLLED PT_PROTO_VLAN, [IEEE8023, VLAN, MPLS_nlabels 19]), (UNROLLED PT_PROTO_ISID, [ETHERNET, ISID]), (UNROLLED PT_PROTO_GRE4, [ETHERNET, IPV4_noptions 0, GRE4]), (UNROLLED PT_PROTO_GRE6, [ETHERNET, IPV6, GRE6])],
     [(UNROLLED PT_PROTO_MPLS, [IEEE8023, MPLS_nlabels 21]), (UNROLLED PT_PROTO_VLAN, [IEEE8023, VLAN, MPLS_nlabels 20]), (UNROLLED PT_PROTO_ISID, [ETHERNET, ISID]), (UNROLLED PT_PROTO_GRE4, [ETHERNET, IPV4_noptions 0, GRE4]), (UNROLLED PT_PROTO_GRE6, [ETHERNET, IPV6, GRE6])],
     [(UNROLLED PT_PROTO_MPLS, [IEEE8023, MPLS_nlabels 22]), (UNROLLED PT_PROTO_VLAN, [IEEE8023, VLAN, MPLS_nlabels 21]), (UNROLLED PT_PROTO_ISID, [ETHERNET, ISID]), (UNROLLED PT_PROTO_GRE4, [ETHERNET, IPV4_noptions 0, GRE4]), (UNROLLED PT_PROTO_GRE6, [ETHERNET, IPV6, GRE6])],
     [(UNROLLED PT_PROTO_MPLS, [IEEE8023, MPLS_nlabels 23]), (UNROLLED PT_PROTO_VLAN, [IEEE8023, VLAN, MPLS_nlabels 22]), (UNROLLED PT_PROTO_ISID, [ETHERNET, ISID]), (UNROLLED PT_PROTO_GRE4, [ETHERNET, IPV4_noptions 0, GRE4]), (UNROLLED PT_PROTO_GRE6, [ETHERNET, IPV6, GRE6])],
     [(UNROLLED PT_PROTO_MPLS, [IEEE8023, MPLS_nlabels 24]), (UNROLLED PT_PROTO_VLAN, [IEEE8023, VLAN, MPLS_nlabels 23]), (UNROLLED PT_PROTO_ISID, [ETHERNET, ISID]), (UNROLLED PT_PROTO_GRE4, [ETHERNET, IPV4_noptions 0, GRE4]), (UNROLLED PT_PROTO_GRE6, [ETHERNET, IPV6, GRE6])],
     [(UNROLLED PT_PROTO_MPLS, [IEEE8023, MPLS_nlabels 25]), (UNROLLED PT_PROTO_VLAN, [IEEE8023, VLAN, MPLS_nlabels 24]), (UNROLLED PT_PROTO_ISID, [ETHERNET, ISID]), (UNROLLED PT_PROTO_GRE4, [ETHERNET, IPV4_noptions 0, GRE4]), (UNROLLED PT_PROTO_GRE6, [ETHERNET, IPV6, GRE6])],
     [(UNROLLED PT_PROTO_MPLS, [IEEE8023, MPLS_nlabels 26]), (UNROLLED PT_PROTO_VLAN, [IEEE8023, VLAN, MPLS_nlabels 25]), (UNROLLED PT_PROTO_ISID, [ETHERNET, ISID]), (UNROLLED PT_PROTO_GRE4, [ETHERNET, IPV4_noptions 0, GRE4]), (UNROLLED PT_PROTO_GRE6, [ETHERNET, IPV6, GRE6])],
     [(UNROLLED PT_PROTO_MPLS, [IEEE8023, MPLS_nlabels 27]), (UNROLLED PT_PROTO_VLAN, [IEEE8023, VLAN, MPLS_nlabels 26]), (UNROLLED PT_PROTO_ISID, [ETHERNET, ISID]), (UNROLLED PT_PROTO_GRE4, [ETHERNET, IPV4_noptions 0, GRE4]), (UNROLLED PT_PROTO_GRE6, [ETHERNET, IPV6, GRE6])],
     [(UNROLLED PT_PROTO_MPLS, [IEEE8023, MPLS_nlabels 28]), (UNROLLED PT_PROTO_VLAN, [IEEE8023, VLAN, MPLS_nlabels 27]), (UNROLLED PT_PROTO_ISID, [ETHERNET, ISID]), (UNROLLED PT_PROTO_GRE4, [ETHERNET, IPV4_noptions 0, GRE4]), (UNROLLED PT_PROTO_GRE6, [ETHERNET, IPV6, GRE6])],
     [(UNROLLED PT_PROTO_MPLS, [IEEE8023, MPLS_nlabels 29]), (UNROLLED PT_PROTO_VLAN, [IEEE8023, VLAN, MPLS_nlabels 28]), (UNROLLED PT_PROTO_ISID, [ETHERNET, ISID]), (UNROLLED PT_PROTO_GRE4, [ETHERNET, IPV4_noptions 0, GRE4]), (UNROLLED PT_PROTO_GRE6, [ETHERNET, IPV6, GRE6])],
     [(UNROLLED PT_PROTO_MPLS, [IEEE8023, MPLS_nlabels 30]), (UNROLLED PT_PROTO_VLAN, [IEEE8023, VLAN, MPLS_nlabels 29]), (UNROLLED PT_PROTO_ISID, [ETHERNET, ISID]), (UNROLLED PT_PROTO_GRE4, [ETHERNET, IPV4_noptions 0, GRE4]), (UNROLLED PT_PROTO_GRE6, [ETHERNET, IPV6, GRE6])],
     [(UNROLLED PT_PROTO_MPLS, [IEEE8023, MPLS_nlabels 31]), (UNROLLED PT_PROTO_VLAN, [IEEE8023, VLAN, MPLS_nlabels 30]), (UNROLLED PT_PROTO_ISID, [ETHERNET, ISID]), (UNROLLED PT_PROTO_GRE4, [ETHERNET, IPV4_noptions 0, GRE4]), (UNROLLED PT_PROTO_GRE6, [ETHERNET, IPV6, GRE6])],
     [(UNROLLED PT_PROTO_VLAN, [IEEE8023, VLAN, MPLS_nlabels 31]), (UNROLLED PT_PROTO_ISID, [ETHERNET, ISID]), (UNROLLED PT_PROTO_GRE4, [ETHERNET, IPV4_noptions 0, GRE4]), (UNROLLED PT_PROTO_GRE6, [ETHERNET, IPV6, GRE6])],
     [(UNROLLED PT_PROTO_VLAN, [IEEE8023, VLAN, MPLS_nlabels 32]), (UNROLLED PT_PROTO_ISID, [ETHERNET, ISID]), (UNROLLED PT_PROTO_GRE4, [ETHERNET, IPV4_noptions 0, GRE4]), (UNROLLED PT_PROTO_GRE6, [ETHERNET, IPV6, GRE6])],
     [(UNROLLED PT_PROTO_MPLS, [ETHERNET, VLAN, MPLS_nlabels 2]), (UNROLLED PT_PROTO_VLAN, [ETHERNET, VLAN, VLAN, MPLS_nlabels 1]), (UNROLLED PT_PROTO_ISID, [ETHERNET, ISID]), (UNROLLED PT_PROTO_GRE4, [ETHERNET, IPV4_noptions 0, GRE4]), (UNROLLED PT_PROTO_GRE6, [ETHERNET, IPV6, GRE6])],
     [(UNROLLED PT_PROTO_MPLS, [ETHERNET, VLAN, MPLS_nlabels 3]), (UNROLLED PT_PROTO_VLAN, [ETHERNET, VLAN, VLAN, MPLS_nlabels 2]), (UNROLLED PT_PROTO_ISID, [ETHERNET, ISID]), (UNROLLED PT_PROTO_GRE4, [ETHERNET, IPV4_noptions 0, GRE4]), (UNROLLED PT_PROTO_GRE6, [ETHERNET, IPV6, GRE6])],
     [(UNROLLED PT_PROTO_MPLS, [ETHERNET, VLAN, MPLS_nlabels 4]), (UNROLLED PT_PROTO_VLAN, [ETHERNET, VLAN, VLAN, MPLS_nlabels 3]), (UNROLLED PT_PROTO_ISID, [ETHERNET, ISID]), (UNROLLED PT_PROTO_GRE4, [ETHERNET, IPV4_noptions 0, GRE4]), (UNROLLED PT_PROTO_GRE6, [ETHERNET, IPV6, GRE6])],
     [(UNROLLED PT_PROTO_MPLS, [ETHERNET, VLAN, MPLS_nlabels 5]), (UNROLLED PT_PROTO_VLAN, [ETHERNET, VLAN, VLAN, MPLS_nlabels 4]), (UNROLLED PT_PROTO_ISID, [ETHERNET, ISID]), (UNROLLED PT_PROTO_GRE4, [ETHERNET, IPV4_noptions 0, GRE4]), (UNROLLED PT_PROTO_GRE6, [ETHERNET, IPV6, GRE6])],
     [(UNROLLED PT_PROTO_MPLS, [ETHERNET, VLAN, MPLS_nlabels 6]), (UNROLLED PT_PROTO_VLAN, [ETHERNET, VLAN, VLAN, MPLS_nlabels 5]), (UNROLLED PT_PROTO_ISID, [ETHERNET, ISID]), (UNROLLED PT_PROTO_GRE4, [ETHERNET, IPV4_noptions 0, GRE4]), (UNROLLED PT_PROTO_GRE6, [ETHERNET, IPV6, GRE6])],
     [(UNROLLED PT_PROTO_MPLS, [ETHERNET, VLAN, MPLS_nlabels 7]), (UNROLLED PT_PROTO_VLAN, [ETHERNET, VLAN, VLAN, MPLS_nlabels 6]), (UNROLLED PT_PROTO_ISID, [ETHERNET, ISID]), (UNROLLED PT_PROTO_GRE4, [ETHERNET, IPV4_noptions 0, GRE4]), (UNROLLED PT_PROTO_GRE6, [ETHERNET, IPV6, GRE6])],
     [(UNROLLED PT_PROTO_MPLS, [ETHERNET, VLAN, MPLS_nlabels 8]), (UNROLLED PT_PROTO_VLAN, [ETHERNET, VLAN, VLAN, MPLS_nlabels 7]), (UNROLLED PT_PROTO_ISID, [ETHERNET, ISID]), (UNROLLED PT_PROTO_GRE4, [ETHERNET, IPV4_noptions 0, GRE4]), (UNROLLED PT_PROTO_GRE6, [ETHERNET, IPV6, GRE6])],
     [(UNROLLED PT_PROTO_MPLS, [ETHERNET, VLAN, MPLS_nlabels 9]), (UNROLLED PT_PROTO_VLAN, [ETHERNET, VLAN, VLAN, MPLS_nlabels 8]), (UNROLLED PT_PROTO_ISID, [ETHERNET, ISID]), (UNROLLED PT_PROTO_GRE4, [ETHERNET, IPV4_noptions 0, GRE4]), (UNROLLED PT_PROTO_GRE6, [ETHERNET, IPV6, GRE6])],
     [(UNROLLED PT_PROTO_MPLS, [ETHERNET, VLAN, MPLS_nlabels 10]), (UNROLLED PT_PROTO_VLAN, [ETHERNET, VLAN, VLAN, MPLS_nlabels 9]), (UNROLLED PT_PROTO_ISID, [ETHERNET, ISID]), (UNROLLED PT_PROTO_GRE4, [ETHERNET, IPV4_noptions 0, GRE4]), (UNROLLED PT_PROTO_GRE6, [ETHERNET, IPV6, GRE6])],
     [(UNROLLED PT_PROTO_MPLS, [ETHERNET, VLAN, MPLS_nlabels 11]), (UNROLLED PT_PROTO_VLAN, [ETHERNET, VLAN, VLAN, MPLS_nlabels 10]), (UNROLLED PT_PROTO_ISID, [ETHERNET, ISID]), (UNROLLED PT_PROTO_GRE4, [ETHERNET, IPV4_noptions 0, GRE4]), (UNROLLED PT_PROTO_GRE6, [ETHERNET, IPV6, GRE6])],
     [(UNROLLED PT_PROTO_MPLS, [ETHERNET, VLAN, MPLS_nlabels 12]), (UNROLLED PT_PROTO_VLAN, [ETHERNET, VLAN, VLAN, MPLS_nlabels 11]), (UNROLLED PT_PROTO_ISID, [ETHERNET, ISID]), (UNROLLED PT_PROTO_GRE4, [ETHERNET, IPV4_noptions 0, GRE4]), (UNROLLED PT_PROTO_GRE6, [ETHERNET, IPV6, GRE6])],
     [(UNROLLED PT_PROTO_MPLS, [ETHERNET, VLAN, MPLS_nlabels 13]), (UNROLLED PT_PROTO_VLAN, [ETHERNET, VLAN, VLAN, MPLS_nlabels 12]), (UNROLLED PT_PROTO_ISID, [ETHERNET, ISID]), (UNROLLED PT_PROTO_GRE4, [ETHERNET, IPV4_noptions 0, GRE4]), (UNROLLED PT_PROTO_GRE6, [ETHERNET, IPV6, GRE6])],
     [(UNROLLED PT_PROTO_MPLS, [ETHERNET, VLAN, MPLS_nlabels 14]), (UNROLLED PT_PROTO_VLAN, [ETHERNET, VLAN, VLAN, MPLS_nlabels 13]), (UNROLLED PT_PROTO_ISID, [ETHERNET, ISID]), (UNROLLED PT_PROTO_GRE4, [ETHERNET, IPV4_noptions 0, GRE4]), (UNROLLED PT_PROTO_GRE6, [ETHERNET, IPV6, GRE6])],
     [(UNROLLED PT_PROTO_MPLS, [ETHERNET, VLAN, MPLS_nlabels 15]), (UNROLLED PT_PROTO_VLAN, [ETHERNET, VLAN, VLAN, MPLS_nlabels 14]), (UNROLLED PT_PROTO_ISID, [ETHERNET, ISID]), (UNROLLED PT_PROTO_GRE4, [ETHERNET, IPV4_noptions 0, GRE4]), (UNROLLED PT_PROTO_GRE6, [ETHERNET, IPV6, GRE6])]]"

definition push_table_2 :: "(unrolled \<times> pkt_type) list list" where
  "push_table_2 =
    [[(UNROLLED PT_PROTO_MPLS, [ETHERNET, VLAN, MPLS_nlabels 16]), (UNROLLED PT_PROTO_VLAN, [ETHERNET, VLAN, VLAN, MPLS_nlabels 15]), (UNROLLED PT_PROTO_ISID, [ETHERNET, ISID]), (UNROLLED PT_PROTO_GRE4, [ETHERNET, IPV4_noptions 0, GRE4]), (UNROLLED PT_PROTO_GRE6, [ETHERNET, IPV6, GRE6])],
     [(UNROLLED PT_PROTO_MPLS, [ETHERNET, VLAN, MPLS_nlabels 17]), (UNROLLED PT_PROTO_VLAN, [ETHERNET, VLAN, VLAN, MPLS_nlabels 16]), (UNROLLED PT_PROTO_ISID, [ETHERNET, ISID]), (UNROLLED PT_PROTO_GRE4, [ETHERNET, IPV4_noptions 0, GRE4]), (UNROLLED PT_PROTO_GRE6, [ETHERNET, IPV6, GRE6])],
     [(UNROLLED PT_PROTO_MPLS, [ETHERNET, VLAN, MPLS_nlabels 18]), (UNROLLED PT_PROTO_VLAN, [ETHERNET, VLAN, VLAN, MPLS_nlabels 17]), (UNROLLED PT_PROTO_ISID, [ETHERNET, ISID]), (UNROLLED PT_PROTO_GRE4, [ETHERNET, IPV4_noptions 0, GRE4]), (UNROLLED PT_PROTO_GRE6, [ETHERNET, IPV6, GRE6])],
     [(UNROLLED PT_PROTO_MPLS, [ETHERNET, VLAN, MPLS_nlabels 19]), (UNROLLED PT_PROTO_VLAN, [ETHERNET, VLAN, VLAN, MPLS_nlabels 18]), (UNROLLED PT_PROTO_ISID, [ETHERNET, ISID]), (UNROLLED PT_PROTO_GRE4, [ETHERNET, IPV4_noptions 0, GRE4]), (UNROLLED PT_PROTO_GRE6, [ETHERNET, IPV6, GRE6])],
     [(UNROLLED PT_PROTO_MPLS, [ETHERNET, VLAN, MPLS_nlabels 20]), (UNROLLED PT_PROTO_VLAN, [ETHERNET, VLAN, VLAN, MPLS_nlabels 19]), (UNROLLED PT_PROTO_ISID, [ETHERNET, ISID]), (UNROLLED PT_PROTO_GRE4, [ETHERNET, IPV4_noptions 0, GRE4]), (UNROLLED PT_PROTO_GRE6, [ETHERNET, IPV6, GRE6])],
     [(UNROLLED PT_PROTO_MPLS, [ETHERNET, VLAN, MPLS_nlabels 21]), (UNROLLED PT_PROTO_VLAN, [ETHERNET, VLAN, VLAN, MPLS_nlabels 20]), (UNROLLED PT_PROTO_ISID, [ETHERNET, ISID]), (UNROLLED PT_PROTO_GRE4, [ETHERNET, IPV4_noptions 0, GRE4]), (UNROLLED PT_PROTO_GRE6, [ETHERNET, IPV6, GRE6])],
     [(UNROLLED PT_PROTO_MPLS, [ETHERNET, VLAN, MPLS_nlabels 22]), (UNROLLED PT_PROTO_VLAN, [ETHERNET, VLAN, VLAN, MPLS_nlabels 21]), (UNROLLED PT_PROTO_ISID, [ETHERNET, ISID]), (UNROLLED PT_PROTO_GRE4, [ETHERNET, IPV4_noptions 0, GRE4]), (UNROLLED PT_PROTO_GRE6, [ETHERNET, IPV6, GRE6])],
     [(UNROLLED PT_PROTO_MPLS, [ETHERNET, VLAN, MPLS_nlabels 23]), (UNROLLED PT_PROTO_VLAN, [ETHERNET, VLAN, VLAN, MPLS_nlabels 22]), (UNROLLED PT_PROTO_ISID, [ETHERNET, ISID]), (UNROLLED PT_PROTO_GRE4, [ETHERNET, IPV4_noptions 0, GRE4]), (UNROLLED PT_PROTO_GRE6, [ETHERNET, IPV6, GRE6])],
     [(UNROLLED PT_PROTO_MPLS, [ETHERNET, VLAN, MPLS_nlabels 24]), (UNROLLED PT_PROTO_VLAN, [ETHERNET, VLAN, VLAN, MPLS_nlabels 23]), (UNROLLED PT_PROTO_ISID, [ETHERNET, ISID]), (UNROLLED PT_PROTO_GRE4, [ETHERNET, IPV4_noptions 0, GRE4]), (UNROLLED PT_PROTO_GRE6, [ETHERNET, IPV6, GRE6])],
     [(UNROLLED PT_PROTO_MPLS, [ETHERNET, VLAN, MPLS_nlabels 25]), (UNROLLED PT_PROTO_VLAN, [ETHERNET, VLAN, VLAN, MPLS_nlabels 24]), (UNROLLED PT_PROTO_ISID, [ETHERNET, ISID]), (UNROLLED PT_PROTO_GRE4, [ETHERNET, IPV4_noptions 0, GRE4]), (UNROLLED PT_PROTO_GRE6, [ETHERNET, IPV6, GRE6])],
     [(UNROLLED PT_PROTO_MPLS, [ETHERNET, VLAN, MPLS_nlabels 26]), (UNROLLED PT_PROTO_VLAN, [ETHERNET, VLAN, VLAN, MPLS_nlabels 25]), (UNROLLED PT_PROTO_ISID, [ETHERNET, ISID]), (UNROLLED PT_PROTO_GRE4, [ETHERNET, IPV4_noptions 0, GRE4]), (UNROLLED PT_PROTO_GRE6, [ETHERNET, IPV6, GRE6])],
     [(UNROLLED PT_PROTO_MPLS, [ETHERNET, VLAN, MPLS_nlabels 27]), (UNROLLED PT_PROTO_VLAN, [ETHERNET, VLAN, VLAN, MPLS_nlabels 26]), (UNROLLED PT_PROTO_ISID, [ETHERNET, ISID]), (UNROLLED PT_PROTO_GRE4, [ETHERNET, IPV4_noptions 0, GRE4]), (UNROLLED PT_PROTO_GRE6, [ETHERNET, IPV6, GRE6])],
     [(UNROLLED PT_PROTO_MPLS, [ETHERNET, VLAN, MPLS_nlabels 28]), (UNROLLED PT_PROTO_VLAN, [ETHERNET, VLAN, VLAN, MPLS_nlabels 27]), (UNROLLED PT_PROTO_ISID, [ETHERNET, ISID]), (UNROLLED PT_PROTO_GRE4, [ETHERNET, IPV4_noptions 0, GRE4]), (UNROLLED PT_PROTO_GRE6, [ETHERNET, IPV6, GRE6])],
     [(UNROLLED PT_PROTO_MPLS, [ETHERNET, VLAN, MPLS_nlabels 29]), (UNROLLED PT_PROTO_VLAN, [ETHERNET, VLAN, VLAN, MPLS_nlabels 28]), (UNROLLED PT_PROTO_ISID, [ETHERNET, ISID]), (UNROLLED PT_PROTO_GRE4, [ETHERNET, IPV4_noptions 0, GRE4]), (UNROLLED PT_PROTO_GRE6, [ETHERNET, IPV6, GRE6])],
     [(UNROLLED PT_PROTO_MPLS, [ETHERNET, VLAN, MPLS_nlabels 30]), (UNROLLED PT_PROTO_VLAN, [ETHERNET, VLAN, VLAN, MPLS_nlabels 29]), (UNROLLED PT_PROTO_ISID, [ETHERNET, ISID]), (UNROLLED PT_PROTO_GRE4, [ETHERNET, IPV4_noptions 0, GRE4]), (UNROLLED PT_PROTO_GRE6, [ETHERNET, IPV6, GRE6])],
     [(UNROLLED PT_PROTO_MPLS, [ETHERNET, VLAN, MPLS_nlabels 31]), (UNROLLED PT_PROTO_VLAN, [ETHERNET, VLAN, VLAN, MPLS_nlabels 30]), (UNROLLED PT_PROTO_ISID, [ETHERNET, ISID]), (UNROLLED PT_PROTO_GRE4, [ETHERNET, IPV4_noptions 0, GRE4]), (UNROLLED PT_PROTO_GRE6, [ETHERNET, IPV6, GRE6])],
     [(UNROLLED PT_PROTO_VLAN, [ETHERNET, VLAN, VLAN, MPLS_nlabels 31]), (UNROLLED PT_PROTO_ISID, [ETHERNET, ISID]), (UNROLLED PT_PROTO_GRE4, [ETHERNET, IPV4_noptions 0, GRE4]), (UNROLLED PT_PROTO_GRE6, [ETHERNET, IPV6, GRE6])],
     [(UNROLLED PT_PROTO_VLAN, [ETHERNET, VLAN, VLAN, MPLS_nlabels 32]), (UNROLLED PT_PROTO_ISID, [ETHERNET, ISID]), (UNROLLED PT_PROTO_GRE4, [ETHERNET, IPV4_noptions 0, GRE4]), (UNROLLED PT_PROTO_GRE6, [ETHERNET, IPV6, GRE6])],
     [(UNROLLED PT_PROTO_MPLS, [IEEE8023, VLAN, MPLS_nlabels 2]), (UNROLLED PT_PROTO_VLAN, [IEEE8023, VLAN, VLAN, MPLS_nlabels 1]), (UNROLLED PT_PROTO_ISID, [ETHERNET, ISID]), (UNROLLED PT_PROTO_GRE4, [ETHERNET, IPV4_noptions 0, GRE4]), (UNROLLED PT_PROTO_GRE6, [ETHERNET, IPV6, GRE6])],
     [(UNROLLED PT_PROTO_MPLS, [IEEE8023, VLAN, MPLS_nlabels 3]), (UNROLLED PT_PROTO_VLAN, [IEEE8023, VLAN, VLAN, MPLS_nlabels 2]), (UNROLLED PT_PROTO_ISID, [ETHERNET, ISID]), (UNROLLED PT_PROTO_GRE4, [ETHERNET, IPV4_noptions 0, GRE4]), (UNROLLED PT_PROTO_GRE6, [ETHERNET, IPV6, GRE6])],
     [(UNROLLED PT_PROTO_MPLS, [IEEE8023, VLAN, MPLS_nlabels 4]), (UNROLLED PT_PROTO_VLAN, [IEEE8023, VLAN, VLAN, MPLS_nlabels 3]), (UNROLLED PT_PROTO_ISID, [ETHERNET, ISID]), (UNROLLED PT_PROTO_GRE4, [ETHERNET, IPV4_noptions 0, GRE4]), (UNROLLED PT_PROTO_GRE6, [ETHERNET, IPV6, GRE6])],
     [(UNROLLED PT_PROTO_MPLS, [IEEE8023, VLAN, MPLS_nlabels 5]), (UNROLLED PT_PROTO_VLAN, [IEEE8023, VLAN, VLAN, MPLS_nlabels 4]), (UNROLLED PT_PROTO_ISID, [ETHERNET, ISID]), (UNROLLED PT_PROTO_GRE4, [ETHERNET, IPV4_noptions 0, GRE4]), (UNROLLED PT_PROTO_GRE6, [ETHERNET, IPV6, GRE6])],
     [(UNROLLED PT_PROTO_MPLS, [IEEE8023, VLAN, MPLS_nlabels 6]), (UNROLLED PT_PROTO_VLAN, [IEEE8023, VLAN, VLAN, MPLS_nlabels 5]), (UNROLLED PT_PROTO_ISID, [ETHERNET, ISID]), (UNROLLED PT_PROTO_GRE4, [ETHERNET, IPV4_noptions 0, GRE4]), (UNROLLED PT_PROTO_GRE6, [ETHERNET, IPV6, GRE6])],
     [(UNROLLED PT_PROTO_MPLS, [IEEE8023, VLAN, MPLS_nlabels 7]), (UNROLLED PT_PROTO_VLAN, [IEEE8023, VLAN, VLAN, MPLS_nlabels 6]), (UNROLLED PT_PROTO_ISID, [ETHERNET, ISID]), (UNROLLED PT_PROTO_GRE4, [ETHERNET, IPV4_noptions 0, GRE4]), (UNROLLED PT_PROTO_GRE6, [ETHERNET, IPV6, GRE6])],
     [(UNROLLED PT_PROTO_MPLS, [IEEE8023, VLAN, MPLS_nlabels 8]), (UNROLLED PT_PROTO_VLAN, [IEEE8023, VLAN, VLAN, MPLS_nlabels 7]), (UNROLLED PT_PROTO_ISID, [ETHERNET, ISID]), (UNROLLED PT_PROTO_GRE4, [ETHERNET, IPV4_noptions 0, GRE4]), (UNROLLED PT_PROTO_GRE6, [ETHERNET, IPV6, GRE6])],
     [(UNROLLED PT_PROTO_MPLS, [IEEE8023, VLAN, MPLS_nlabels 9]), (UNROLLED PT_PROTO_VLAN, [IEEE8023, VLAN, VLAN, MPLS_nlabels 8]), (UNROLLED PT_PROTO_ISID, [ETHERNET, ISID]), (UNROLLED PT_PROTO_GRE4, [ETHERNET, IPV4_noptions 0, GRE4]), (UNROLLED PT_PROTO_GRE6, [ETHERNET, IPV6, GRE6])],
     [(UNROLLED PT_PROTO_MPLS, [IEEE8023, VLAN, MPLS_nlabels 10]), (UNROLLED PT_PROTO_VLAN, [IEEE8023, VLAN, VLAN, MPLS_nlabels 9]), (UNROLLED PT_PROTO_ISID, [ETHERNET, ISID]), (UNROLLED PT_PROTO_GRE4, [ETHERNET, IPV4_noptions 0, GRE4]), (UNROLLED PT_PROTO_GRE6, [ETHERNET, IPV6, GRE6])],
     [(UNROLLED PT_PROTO_MPLS, [IEEE8023, VLAN, MPLS_nlabels 11]), (UNROLLED PT_PROTO_VLAN, [IEEE8023, VLAN, VLAN, MPLS_nlabels 10]), (UNROLLED PT_PROTO_ISID, [ETHERNET, ISID]), (UNROLLED PT_PROTO_GRE4, [ETHERNET, IPV4_noptions 0, GRE4]), (UNROLLED PT_PROTO_GRE6, [ETHERNET, IPV6, GRE6])],
     [(UNROLLED PT_PROTO_MPLS, [IEEE8023, VLAN, MPLS_nlabels 12]), (UNROLLED PT_PROTO_VLAN, [IEEE8023, VLAN, VLAN, MPLS_nlabels 11]), (UNROLLED PT_PROTO_ISID, [ETHERNET, ISID]), (UNROLLED PT_PROTO_GRE4, [ETHERNET, IPV4_noptions 0, GRE4]), (UNROLLED PT_PROTO_GRE6, [ETHERNET, IPV6, GRE6])],
     [(UNROLLED PT_PROTO_MPLS, [IEEE8023, VLAN, MPLS_nlabels 13]), (UNROLLED PT_PROTO_VLAN, [IEEE8023, VLAN, VLAN, MPLS_nlabels 12]), (UNROLLED PT_PROTO_ISID, [ETHERNET, ISID]), (UNROLLED PT_PROTO_GRE4, [ETHERNET, IPV4_noptions 0, GRE4]), (UNROLLED PT_PROTO_GRE6, [ETHERNET, IPV6, GRE6])],
     [(UNROLLED PT_PROTO_MPLS, [IEEE8023, VLAN, MPLS_nlabels 14]), (UNROLLED PT_PROTO_VLAN, [IEEE8023, VLAN, VLAN, MPLS_nlabels 13]), (UNROLLED PT_PROTO_ISID, [ETHERNET, ISID]), (UNROLLED PT_PROTO_GRE4, [ETHERNET, IPV4_noptions 0, GRE4]), (UNROLLED PT_PROTO_GRE6, [ETHERNET, IPV6, GRE6])],
     [(UNROLLED PT_PROTO_MPLS, [IEEE8023, VLAN, MPLS_nlabels 15]), (UNROLLED PT_PROTO_VLAN, [IEEE8023, VLAN, VLAN, MPLS_nlabels 14]), (UNROLLED PT_PROTO_ISID, [ETHERNET, ISID]), (UNROLLED PT_PROTO_GRE4, [ETHERNET, IPV4_noptions 0, GRE4]), (UNROLLED PT_PROTO_GRE6, [ETHERNET, IPV6, GRE6])],
     [(UNROLLED PT_PROTO_MPLS, [IEEE8023, VLAN, MPLS_nlabels 16]), (UNROLLED PT_PROTO_VLAN, [IEEE8023, VLAN, VLAN, MPLS_nlabels 15]), (UNROLLED PT_PROTO_ISID, [ETHERNET, ISID]), (UNROLLED PT_PROTO_GRE4, [ETHERNET, IPV4_noptions 0, GRE4]), (UNROLLED PT_PROTO_GRE6, [ETHERNET, IPV6, GRE6])],
     [(UNROLLED PT_PROTO_MPLS, [IEEE8023, VLAN, MPLS_nlabels 17]), (UNROLLED PT_PROTO_VLAN, [IEEE8023, VLAN, VLAN, MPLS_nlabels 16]), (UNROLLED PT_PROTO_ISID, [ETHERNET, ISID]), (UNROLLED PT_PROTO_GRE4, [ETHERNET, IPV4_noptions 0, GRE4]), (UNROLLED PT_PROTO_GRE6, [ETHERNET, IPV6, GRE6])],
     [(UNROLLED PT_PROTO_MPLS, [IEEE8023, VLAN, MPLS_nlabels 18]), (UNROLLED PT_PROTO_VLAN, [IEEE8023, VLAN, VLAN, MPLS_nlabels 17]), (UNROLLED PT_PROTO_ISID, [ETHERNET, ISID]), (UNROLLED PT_PROTO_GRE4, [ETHERNET, IPV4_noptions 0, GRE4]), (UNROLLED PT_PROTO_GRE6, [ETHERNET, IPV6, GRE6])],
     [(UNROLLED PT_PROTO_MPLS, [IEEE8023, VLAN, MPLS_nlabels 19]), (UNROLLED PT_PROTO_VLAN, [IEEE8023, VLAN, VLAN, MPLS_nlabels 18]), (UNROLLED PT_PROTO_ISID, [ETHERNET, ISID]), (UNROLLED PT_PROTO_GRE4, [ETHERNET, IPV4_noptions 0, GRE4]), (UNROLLED PT_PROTO_GRE6, [ETHERNET, IPV6, GRE6])],
     [(UNROLLED PT_PROTO_MPLS, [IEEE8023, VLAN, MPLS_nlabels 20]), (UNROLLED PT_PROTO_VLAN, [IEEE8023, VLAN, VLAN, MPLS_nlabels 19]), (UNROLLED PT_PROTO_ISID, [ETHERNET, ISID]), (UNROLLED PT_PROTO_GRE4, [ETHERNET, IPV4_noptions 0, GRE4]), (UNROLLED PT_PROTO_GRE6, [ETHERNET, IPV6, GRE6])],
     [(UNROLLED PT_PROTO_MPLS, [IEEE8023, VLAN, MPLS_nlabels 21]), (UNROLLED PT_PROTO_VLAN, [IEEE8023, VLAN, VLAN, MPLS_nlabels 20]), (UNROLLED PT_PROTO_ISID, [ETHERNET, ISID]), (UNROLLED PT_PROTO_GRE4, [ETHERNET, IPV4_noptions 0, GRE4]), (UNROLLED PT_PROTO_GRE6, [ETHERNET, IPV6, GRE6])],
     [(UNROLLED PT_PROTO_MPLS, [IEEE8023, VLAN, MPLS_nlabels 22]), (UNROLLED PT_PROTO_VLAN, [IEEE8023, VLAN, VLAN, MPLS_nlabels 21]), (UNROLLED PT_PROTO_ISID, [ETHERNET, ISID]), (UNROLLED PT_PROTO_GRE4, [ETHERNET, IPV4_noptions 0, GRE4]), (UNROLLED PT_PROTO_GRE6, [ETHERNET, IPV6, GRE6])],
     [(UNROLLED PT_PROTO_MPLS, [IEEE8023, VLAN, MPLS_nlabels 23]), (UNROLLED PT_PROTO_VLAN, [IEEE8023, VLAN, VLAN, MPLS_nlabels 22]), (UNROLLED PT_PROTO_ISID, [ETHERNET, ISID]), (UNROLLED PT_PROTO_GRE4, [ETHERNET, IPV4_noptions 0, GRE4]), (UNROLLED PT_PROTO_GRE6, [ETHERNET, IPV6, GRE6])],
     [(UNROLLED PT_PROTO_MPLS, [IEEE8023, VLAN, MPLS_nlabels 24]), (UNROLLED PT_PROTO_VLAN, [IEEE8023, VLAN, VLAN, MPLS_nlabels 23]), (UNROLLED PT_PROTO_ISID, [ETHERNET, ISID]), (UNROLLED PT_PROTO_GRE4, [ETHERNET, IPV4_noptions 0, GRE4]), (UNROLLED PT_PROTO_GRE6, [ETHERNET, IPV6, GRE6])],
     [(UNROLLED PT_PROTO_MPLS, [IEEE8023, VLAN, MPLS_nlabels 25]), (UNROLLED PT_PROTO_VLAN, [IEEE8023, VLAN, VLAN, MPLS_nlabels 24]), (UNROLLED PT_PROTO_ISID, [ETHERNET, ISID]), (UNROLLED PT_PROTO_GRE4, [ETHERNET, IPV4_noptions 0, GRE4]), (UNROLLED PT_PROTO_GRE6, [ETHERNET, IPV6, GRE6])],
     [(UNROLLED PT_PROTO_MPLS, [IEEE8023, VLAN, MPLS_nlabels 26]), (UNROLLED PT_PROTO_VLAN, [IEEE8023, VLAN, VLAN, MPLS_nlabels 25]), (UNROLLED PT_PROTO_ISID, [ETHERNET, ISID]), (UNROLLED PT_PROTO_GRE4, [ETHERNET, IPV4_noptions 0, GRE4]), (UNROLLED PT_PROTO_GRE6, [ETHERNET, IPV6, GRE6])],
     [(UNROLLED PT_PROTO_MPLS, [IEEE8023, VLAN, MPLS_nlabels 27]), (UNROLLED PT_PROTO_VLAN, [IEEE8023, VLAN, VLAN, MPLS_nlabels 26]), (UNROLLED PT_PROTO_ISID, [ETHERNET, ISID]), (UNROLLED PT_PROTO_GRE4, [ETHERNET, IPV4_noptions 0, GRE4]), (UNROLLED PT_PROTO_GRE6, [ETHERNET, IPV6, GRE6])],
     [(UNROLLED PT_PROTO_MPLS, [IEEE8023, VLAN, MPLS_nlabels 28]), (UNROLLED PT_PROTO_VLAN, [IEEE8023, VLAN, VLAN, MPLS_nlabels 27]), (UNROLLED PT_PROTO_ISID, [ETHERNET, ISID]), (UNROLLED PT_PROTO_GRE4, [ETHERNET, IPV4_noptions 0, GRE4]), (UNROLLED PT_PROTO_GRE6, [ETHERNET, IPV6, GRE6])],
     [(UNROLLED PT_PROTO_MPLS, [IEEE8023, VLAN, MPLS_nlabels 29]), (UNROLLED PT_PROTO_VLAN, [IEEE8023, VLAN, VLAN, MPLS_nlabels 28]), (UNROLLED PT_PROTO_ISID, [ETHERNET, ISID]), (UNROLLED PT_PROTO_GRE4, [ETHERNET, IPV4_noptions 0, GRE4]), (UNROLLED PT_PROTO_GRE6, [ETHERNET, IPV6, GRE6])],
     [(UNROLLED PT_PROTO_MPLS, [IEEE8023, VLAN, MPLS_nlabels 30]), (UNROLLED PT_PROTO_VLAN, [IEEE8023, VLAN, VLAN, MPLS_nlabels 29]), (UNROLLED PT_PROTO_ISID, [ETHERNET, ISID]), (UNROLLED PT_PROTO_GRE4, [ETHERNET, IPV4_noptions 0, GRE4]), (UNROLLED PT_PROTO_GRE6, [ETHERNET, IPV6, GRE6])],
     [(UNROLLED PT_PROTO_MPLS, [IEEE8023, VLAN, MPLS_nlabels 31]), (UNROLLED PT_PROTO_VLAN, [IEEE8023, VLAN, VLAN, MPLS_nlabels 30]), (UNROLLED PT_PROTO_ISID, [ETHERNET, ISID]), (UNROLLED PT_PROTO_GRE4, [ETHERNET, IPV4_noptions 0, GRE4]), (UNROLLED PT_PROTO_GRE6, [ETHERNET, IPV6, GRE6])],
     [(UNROLLED PT_PROTO_VLAN, [IEEE8023, VLAN, VLAN, MPLS_nlabels 31]), (UNROLLED PT_PROTO_ISID, [ETHERNET, ISID]), (UNROLLED PT_PROTO_GRE4, [ETHERNET, IPV4_noptions 0, GRE4]), (UNROLLED PT_PROTO_GRE6, [ETHERNET, IPV6, GRE6])],
     [(UNROLLED PT_PROTO_VLAN, [IEEE8023, VLAN, VLAN, MPLS_nlabels 32]), (UNROLLED PT_PROTO_ISID, [ETHERNET, ISID]), (UNROLLED PT_PROTO_GRE4, [ETHERNET, IPV4_noptions 0, GRE4]), (UNROLLED PT_PROTO_GRE6, [ETHERNET, IPV6, GRE6])],
     [(UNROLLED PT_PROTO_MPLS, [ETHERNET, VLAN, VLAN, MPLS_nlabels 2]), (UNROLLED PT_PROTO_ISID, [ETHERNET, ISID]), (UNROLLED PT_PROTO_GRE4, [ETHERNET, IPV4_noptions 0, GRE4]), (UNROLLED PT_PROTO_GRE6, [ETHERNET, IPV6, GRE6])],
     [(UNROLLED PT_PROTO_MPLS, [ETHERNET, VLAN, VLAN, MPLS_nlabels 3]), (UNROLLED PT_PROTO_ISID, [ETHERNET, ISID]), (UNROLLED PT_PROTO_GRE4, [ETHERNET, IPV4_noptions 0, GRE4]), (UNROLLED PT_PROTO_GRE6, [ETHERNET, IPV6, GRE6])],
     [(UNROLLED PT_PROTO_MPLS, [ETHERNET, VLAN, VLAN, MPLS_nlabels 4]), (UNROLLED PT_PROTO_ISID, [ETHERNET, ISID]), (UNROLLED PT_PROTO_GRE4, [ETHERNET, IPV4_noptions 0, GRE4]), (UNROLLED PT_PROTO_GRE6, [ETHERNET, IPV6, GRE6])],
     [(UNROLLED PT_PROTO_MPLS, [ETHERNET, VLAN, VLAN, MPLS_nlabels 5]), (UNROLLED PT_PROTO_ISID, [ETHERNET, ISID]), (UNROLLED PT_PROTO_GRE4, [ETHERNET, IPV4_noptions 0, GRE4]), (UNROLLED PT_PROTO_GRE6, [ETHERNET, IPV6, GRE6])],
     [(UNROLLED PT_PROTO_MPLS, [ETHERNET, VLAN, VLAN, MPLS_nlabels 6]), (UNROLLED PT_PROTO_ISID, [ETHERNET, ISID]), (UNROLLED PT_PROTO_GRE4, [ETHERNET, IPV4_noptions 0, GRE4]), (UNROLLED PT_PROTO_GRE6, [ETHERNET, IPV6, GRE6])],
     [(UNROLLED PT_PROTO_MPLS, [ETHERNET, VLAN, VLAN, MPLS_nlabels 7]), (UNROLLED PT_PROTO_ISID, [ETHERNET, ISID]), (UNROLLED PT_PROTO_GRE4, [ETHERNET, IPV4_noptions 0, GRE4]), (UNROLLED PT_PROTO_GRE6, [ETHERNET, IPV6, GRE6])],
     [(UNROLLED PT_PROTO_MPLS, [ETHERNET, VLAN, VLAN, MPLS_nlabels 8]), (UNROLLED PT_PROTO_ISID, [ETHERNET, ISID]), (UNROLLED PT_PROTO_GRE4, [ETHERNET, IPV4_noptions 0, GRE4]), (UNROLLED PT_PROTO_GRE6, [ETHERNET, IPV6, GRE6])],
     [(UNROLLED PT_PROTO_MPLS, [ETHERNET, VLAN, VLAN, MPLS_nlabels 9]), (UNROLLED PT_PROTO_ISID, [ETHERNET, ISID]), (UNROLLED PT_PROTO_GRE4, [ETHERNET, IPV4_noptions 0, GRE4]), (UNROLLED PT_PROTO_GRE6, [ETHERNET, IPV6, GRE6])],
     [(UNROLLED PT_PROTO_MPLS, [ETHERNET, VLAN, VLAN, MPLS_nlabels 10]), (UNROLLED PT_PROTO_ISID, [ETHERNET, ISID]), (UNROLLED PT_PROTO_GRE4, [ETHERNET, IPV4_noptions 0, GRE4]), (UNROLLED PT_PROTO_GRE6, [ETHERNET, IPV6, GRE6])],
     [(UNROLLED PT_PROTO_MPLS, [ETHERNET, VLAN, VLAN, MPLS_nlabels 11]), (UNROLLED PT_PROTO_ISID, [ETHERNET, ISID]), (UNROLLED PT_PROTO_GRE4, [ETHERNET, IPV4_noptions 0, GRE4]), (UNROLLED PT_PROTO_GRE6, [ETHERNET, IPV6, GRE6])],
     [(UNROLLED PT_PROTO_MPLS, [ETHERNET, VLAN, VLAN, MPLS_nlabels 12]), (UNROLLED PT_PROTO_ISID, [ETHERNET, ISID]), (UNROLLED PT_PROTO_GRE4, [ETHERNET, IPV4_noptions 0, GRE4]), (UNROLLED PT_PROTO_GRE6, [ETHERNET, IPV6, GRE6])],
     [(UNROLLED PT_PROTO_MPLS, [ETHERNET, VLAN, VLAN, MPLS_nlabels 13]), (UNROLLED PT_PROTO_ISID, [ETHERNET, ISID]), (UNROLLED PT_PROTO_GRE4, [ETHERNET, IPV4_noptions 0, GRE4]), (UNROLLED PT_PROTO_GRE6, [ETHERNET, IPV6, GRE6])],
     [(UNROLLED PT_PROTO_MPLS, [ETHERNET, VLAN, VLAN, MPLS_nlabels 14]), (UNROLLED PT_PROTO_ISID, [ETHERNET, ISID]), (UNROLLED PT_PROTO_GRE4, [ETHERNET, IPV4_noptions 0, GRE4]), (UNROLLED PT_PROTO_GRE6, [ETHERNET, IPV6, GRE6])],
     [(UNROLLED PT_PROTO_MPLS, [ETHERNET, VLAN, VLAN, MPLS_nlabels 15]), (UNROLLED PT_PROTO_ISID, [ETHERNET, ISID]), (UNROLLED PT_PROTO_GRE4, [ETHERNET, IPV4_noptions 0, GRE4]), (UNROLLED PT_PROTO_GRE6, [ETHERNET, IPV6, GRE6])],
     [(UNROLLED PT_PROTO_MPLS, [ETHERNET, VLAN, VLAN, MPLS_nlabels 16]), (UNROLLED PT_PROTO_ISID, [ETHERNET, ISID]), (UNROLLED PT_PROTO_GRE4, [ETHERNET, IPV4_noptions 0, GRE4]), (UNROLLED PT_PROTO_GRE6, [ETHERNET, IPV6, GRE6])],
     [(UNROLLED PT_PROTO_MPLS, [ETHERNET, VLAN, VLAN, MPLS_nlabels 17]), (UNROLLED PT_PROTO_ISID, [ETHERNET, ISID]), (UNROLLED PT_PROTO_GRE4, [ETHERNET, IPV4_noptions 0, GRE4]), (UNROLLED PT_PROTO_GRE6, [ETHERNET, IPV6, GRE6])],
     [(UNROLLED PT_PROTO_MPLS, [ETHERNET, VLAN, VLAN, MPLS_nlabels 18]), (UNROLLED PT_PROTO_ISID, [ETHERNET, ISID]), (UNROLLED PT_PROTO_GRE4, [ETHERNET, IPV4_noptions 0, GRE4]), (UNROLLED PT_PROTO_GRE6, [ETHERNET, IPV6, GRE6])],
     [(UNROLLED PT_PROTO_MPLS, [ETHERNET, VLAN, VLAN, MPLS_nlabels 19]), (UNROLLED PT_PROTO_ISID, [ETHERNET, ISID]), (UNROLLED PT_PROTO_GRE4, [ETHERNET, IPV4_noptions 0, GRE4]), (UNROLLED PT_PROTO_GRE6, [ETHERNET, IPV6, GRE6])],
     [(UNROLLED PT_PROTO_MPLS, [ETHERNET, VLAN, VLAN, MPLS_nlabels 20]), (UNROLLED PT_PROTO_ISID, [ETHERNET, ISID]), (UNROLLED PT_PROTO_GRE4, [ETHERNET, IPV4_noptions 0, GRE4]), (UNROLLED PT_PROTO_GRE6, [ETHERNET, IPV6, GRE6])],
     [(UNROLLED PT_PROTO_MPLS, [ETHERNET, VLAN, VLAN, MPLS_nlabels 21]), (UNROLLED PT_PROTO_ISID, [ETHERNET, ISID]), (UNROLLED PT_PROTO_GRE4, [ETHERNET, IPV4_noptions 0, GRE4]), (UNROLLED PT_PROTO_GRE6, [ETHERNET, IPV6, GRE6])],
     [(UNROLLED PT_PROTO_MPLS, [ETHERNET, VLAN, VLAN, MPLS_nlabels 22]), (UNROLLED PT_PROTO_ISID, [ETHERNET, ISID]), (UNROLLED PT_PROTO_GRE4, [ETHERNET, IPV4_noptions 0, GRE4]), (UNROLLED PT_PROTO_GRE6, [ETHERNET, IPV6, GRE6])],
     [(UNROLLED PT_PROTO_MPLS, [ETHERNET, VLAN, VLAN, MPLS_nlabels 23]), (UNROLLED PT_PROTO_ISID, [ETHERNET, ISID]), (UNROLLED PT_PROTO_GRE4, [ETHERNET, IPV4_noptions 0, GRE4]), (UNROLLED PT_PROTO_GRE6, [ETHERNET, IPV6, GRE6])],
     [(UNROLLED PT_PROTO_MPLS, [ETHERNET, VLAN, VLAN, MPLS_nlabels 24]), (UNROLLED PT_PROTO_ISID, [ETHERNET, ISID]), (UNROLLED PT_PROTO_GRE4, [ETHERNET, IPV4_noptions 0, GRE4]), (UNROLLED PT_PROTO_GRE6, [ETHERNET, IPV6, GRE6])],
     [(UNROLLED PT_PROTO_MPLS, [ETHERNET, VLAN, VLAN, MPLS_nlabels 25]), (UNROLLED PT_PROTO_ISID, [ETHERNET, ISID]), (UNROLLED PT_PROTO_GRE4, [ETHERNET, IPV4_noptions 0, GRE4]), (UNROLLED PT_PROTO_GRE6, [ETHERNET, IPV6, GRE6])],
     [(UNROLLED PT_PROTO_MPLS, [ETHERNET, VLAN, VLAN, MPLS_nlabels 26]), (UNROLLED PT_PROTO_ISID, [ETHERNET, ISID]), (UNROLLED PT_PROTO_GRE4, [ETHERNET, IPV4_noptions 0, GRE4]), (UNROLLED PT_PROTO_GRE6, [ETHERNET, IPV6, GRE6])],
     [(UNROLLED PT_PROTO_MPLS, [ETHERNET, VLAN, VLAN, MPLS_nlabels 27]), (UNROLLED PT_PROTO_ISID, [ETHERNET, ISID]), (UNROLLED PT_PROTO_GRE4, [ETHERNET, IPV4_noptions 0, GRE4]), (UNROLLED PT_PROTO_GRE6, [ETHERNET, IPV6, GRE6])],
     [(UNROLLED PT_PROTO_MPLS, [ETHERNET, VLAN, VLAN, MPLS_nlabels 28]), (UNROLLED PT_PROTO_ISID, [ETHERNET, ISID]), (UNROLLED PT_PROTO_GRE4, [ETHERNET, IPV4_noptions 0, GRE4]), (UNROLLED PT_PROTO_GRE6, [ETHERNET, IPV6, GRE6])],
     [(UNROLLED PT_PROTO_MPLS, [ETHERNET, VLAN, VLAN, MPLS_nlabels 29]), (UNROLLED PT_PROTO_ISID, [ETHERNET, ISID]), (UNROLLED PT_PROTO_GRE4, [ETHERNET, IPV4_noptions 0, GRE4]), (UNROLLED PT_PROTO_GRE6, [ETHERNET, IPV6, GRE6])],
     [(UNROLLED PT_PROTO_MPLS, [ETHERNET, VLAN, VLAN, MPLS_nlabels 30]), (UNROLLED PT_PROTO_ISID, [ETHERNET, ISID]), (UNROLLED PT_PROTO_GRE4, [ETHERNET, IPV4_noptions 0, GRE4]), (UNROLLED PT_PROTO_GRE6, [ETHERNET, IPV6, GRE6])],
     [(UNROLLED PT_PROTO_MPLS, [ETHERNET, VLAN, VLAN, MPLS_nlabels 31]), (UNROLLED PT_PROTO_ISID, [ETHERNET, ISID]), (UNROLLED PT_PROTO_GRE4, [ETHERNET, IPV4_noptions 0, GRE4]), (UNROLLED PT_PROTO_GRE6, [ETHERNET, IPV6, GRE6])],
     [(UNROLLED PT_PROTO_ISID, [ETHERNET, ISID]), (UNROLLED PT_PROTO_GRE4, [ETHERNET, IPV4_noptions 0, GRE4]), (UNROLLED PT_PROTO_GRE6, [ETHERNET, IPV6, GRE6])],
     [(UNROLLED PT_PROTO_ISID, [ETHERNET, ISID]), (UNROLLED PT_PROTO_GRE4, [ETHERNET, IPV4_noptions 0, GRE4]), (UNROLLED PT_PROTO_GRE6, [ETHERNET, IPV6, GRE6])],
     [(UNROLLED PT_PROTO_MPLS, [IEEE8023, VLAN, VLAN, MPLS_nlabels 2]), (UNROLLED PT_PROTO_ISID, [ETHERNET, ISID]), (UNROLLED PT_PROTO_GRE4, [ETHERNET, IPV4_noptions 0, GRE4]), (UNROLLED PT_PROTO_GRE6, [ETHERNET, IPV6, GRE6])],
     [(UNROLLED PT_PROTO_MPLS, [IEEE8023, VLAN, VLAN, MPLS_nlabels 3]), (UNROLLED PT_PROTO_ISID, [ETHERNET, ISID]), (UNROLLED PT_PROTO_GRE4, [ETHERNET, IPV4_noptions 0, GRE4]), (UNROLLED PT_PROTO_GRE6, [ETHERNET, IPV6, GRE6])],
     [(UNROLLED PT_PROTO_MPLS, [IEEE8023, VLAN, VLAN, MPLS_nlabels 4]), (UNROLLED PT_PROTO_ISID, [ETHERNET, ISID]), (UNROLLED PT_PROTO_GRE4, [ETHERNET, IPV4_noptions 0, GRE4]), (UNROLLED PT_PROTO_GRE6, [ETHERNET, IPV6, GRE6])],
     [(UNROLLED PT_PROTO_MPLS, [IEEE8023, VLAN, VLAN, MPLS_nlabels 5]), (UNROLLED PT_PROTO_ISID, [ETHERNET, ISID]), (UNROLLED PT_PROTO_GRE4, [ETHERNET, IPV4_noptions 0, GRE4]), (UNROLLED PT_PROTO_GRE6, [ETHERNET, IPV6, GRE6])],
     [(UNROLLED PT_PROTO_MPLS, [IEEE8023, VLAN, VLAN, MPLS_nlabels 6]), (UNROLLED PT_PROTO_ISID, [ETHERNET, ISID]), (UNROLLED PT_PROTO_GRE4, [ETHERNET, IPV4_noptions 0, GRE4]), (UNROLLED PT_PROTO_GRE6, [ETHERNET, IPV6, GRE6])],
     [(UNROLLED PT_PROTO_MPLS, [IEEE8023, VLAN, VLAN, MPLS_nlabels 7]), (UNROLLED PT_PROTO_ISID, [ETHERNET, ISID]), (UNROLLED PT_PROTO_GRE4, [ETHERNET, IPV4_noptions 0, GRE4]), (UNROLLED PT_PROTO_GRE6, [ETHERNET, IPV6, GRE6])],
     [(UNROLLED PT_PROTO_MPLS, [IEEE8023, VLAN, VLAN, MPLS_nlabels 8]), (UNROLLED PT_PROTO_ISID, [ETHERNET, ISID]), (UNROLLED PT_PROTO_GRE4, [ETHERNET, IPV4_noptions 0, GRE4]), (UNROLLED PT_PROTO_GRE6, [ETHERNET, IPV6, GRE6])],
     [(UNROLLED PT_PROTO_MPLS, [IEEE8023, VLAN, VLAN, MPLS_nlabels 9]), (UNROLLED PT_PROTO_ISID, [ETHERNET, ISID]), (UNROLLED PT_PROTO_GRE4, [ETHERNET, IPV4_noptions 0, GRE4]), (UNROLLED PT_PROTO_GRE6, [ETHERNET, IPV6, GRE6])],
     [(UNROLLED PT_PROTO_MPLS, [IEEE8023, VLAN, VLAN, MPLS_nlabels 10]), (UNROLLED PT_PROTO_ISID, [ETHERNET, ISID]), (UNROLLED PT_PROTO_GRE4, [ETHERNET, IPV4_noptions 0, GRE4]), (UNROLLED PT_PROTO_GRE6, [ETHERNET, IPV6, GRE6])],
     [(UNROLLED PT_PROTO_MPLS, [IEEE8023, VLAN, VLAN, MPLS_nlabels 11]), (UNROLLED PT_PROTO_ISID, [ETHERNET, ISID]), (UNROLLED PT_PROTO_GRE4, [ETHERNET, IPV4_noptions 0, GRE4]), (UNROLLED PT_PROTO_GRE6, [ETHERNET, IPV6, GRE6])],
     [(UNROLLED PT_PROTO_MPLS, [IEEE8023, VLAN, VLAN, MPLS_nlabels 12]), (UNROLLED PT_PROTO_ISID, [ETHERNET, ISID]), (UNROLLED PT_PROTO_GRE4, [ETHERNET, IPV4_noptions 0, GRE4]), (UNROLLED PT_PROTO_GRE6, [ETHERNET, IPV6, GRE6])],
     [(UNROLLED PT_PROTO_MPLS, [IEEE8023, VLAN, VLAN, MPLS_nlabels 13]), (UNROLLED PT_PROTO_ISID, [ETHERNET, ISID]), (UNROLLED PT_PROTO_GRE4, [ETHERNET, IPV4_noptions 0, GRE4]), (UNROLLED PT_PROTO_GRE6, [ETHERNET, IPV6, GRE6])],
     [(UNROLLED PT_PROTO_MPLS, [IEEE8023, VLAN, VLAN, MPLS_nlabels 14]), (UNROLLED PT_PROTO_ISID, [ETHERNET, ISID]), (UNROLLED PT_PROTO_GRE4, [ETHERNET, IPV4_noptions 0, GRE4]), (UNROLLED PT_PROTO_GRE6, [ETHERNET, IPV6, GRE6])],
     [(UNROLLED PT_PROTO_MPLS, [IEEE8023, VLAN, VLAN, MPLS_nlabels 15]), (UNROLLED PT_PROTO_ISID, [ETHERNET, ISID]), (UNROLLED PT_PROTO_GRE4, [ETHERNET, IPV4_noptions 0, GRE4]), (UNROLLED PT_PROTO_GRE6, [ETHERNET, IPV6, GRE6])],
     [(UNROLLED PT_PROTO_MPLS, [IEEE8023, VLAN, VLAN, MPLS_nlabels 16]), (UNROLLED PT_PROTO_ISID, [ETHERNET, ISID]), (UNROLLED PT_PROTO_GRE4, [ETHERNET, IPV4_noptions 0, GRE4]), (UNROLLED PT_PROTO_GRE6, [ETHERNET, IPV6, GRE6])],
     [(UNROLLED PT_PROTO_MPLS, [IEEE8023, VLAN, VLAN, MPLS_nlabels 17]), (UNROLLED PT_PROTO_ISID, [ETHERNET, ISID]), (UNROLLED PT_PROTO_GRE4, [ETHERNET, IPV4_noptions 0, GRE4]), (UNROLLED PT_PROTO_GRE6, [ETHERNET, IPV6, GRE6])],
     [(UNROLLED PT_PROTO_MPLS, [IEEE8023, VLAN, VLAN, MPLS_nlabels 18]), (UNROLLED PT_PROTO_ISID, [ETHERNET, ISID]), (UNROLLED PT_PROTO_GRE4, [ETHERNET, IPV4_noptions 0, GRE4]), (UNROLLED PT_PROTO_GRE6, [ETHERNET, IPV6, GRE6])],
     [(UNROLLED PT_PROTO_MPLS, [IEEE8023, VLAN, VLAN, MPLS_nlabels 19]), (UNROLLED PT_PROTO_ISID, [ETHERNET, ISID]), (UNROLLED PT_PROTO_GRE4, [ETHERNET, IPV4_noptions 0, GRE4]), (UNROLLED PT_PROTO_GRE6, [ETHERNET, IPV6, GRE6])],
     [(UNROLLED PT_PROTO_MPLS, [IEEE8023, VLAN, VLAN, MPLS_nlabels 20]), (UNROLLED PT_PROTO_ISID, [ETHERNET, ISID]), (UNROLLED PT_PROTO_GRE4, [ETHERNET, IPV4_noptions 0, GRE4]), (UNROLLED PT_PROTO_GRE6, [ETHERNET, IPV6, GRE6])],
     [(UNROLLED PT_PROTO_MPLS, [IEEE8023, VLAN, VLAN, MPLS_nlabels 21]), (UNROLLED PT_PROTO_ISID, [ETHERNET, ISID]), (UNROLLED PT_PROTO_GRE4, [ETHERNET, IPV4_noptions 0, GRE4]), (UNROLLED PT_PROTO_GRE6, [ETHERNET, IPV6, GRE6])],
     [(UNROLLED PT_PROTO_MPLS, [IEEE8023, VLAN, VLAN, MPLS_nlabels 22]), (UNROLLED PT_PROTO_ISID, [ETHERNET, ISID]), (UNROLLED PT_PROTO_GRE4, [ETHERNET, IPV4_noptions 0, GRE4]), (UNROLLED PT_PROTO_GRE6, [ETHERNET, IPV6, GRE6])],
     [(UNROLLED PT_PROTO_MPLS, [IEEE8023, VLAN, VLAN, MPLS_nlabels 23]), (UNROLLED PT_PROTO_ISID, [ETHERNET, ISID]), (UNROLLED PT_PROTO_GRE4, [ETHERNET, IPV4_noptions 0, GRE4]), (UNROLLED PT_PROTO_GRE6, [ETHERNET, IPV6, GRE6])],
     [(UNROLLED PT_PROTO_MPLS, [IEEE8023, VLAN, VLAN, MPLS_nlabels 24]), (UNROLLED PT_PROTO_ISID, [ETHERNET, ISID]), (UNROLLED PT_PROTO_GRE4, [ETHERNET, IPV4_noptions 0, GRE4]), (UNROLLED PT_PROTO_GRE6, [ETHERNET, IPV6, GRE6])],
     [(UNROLLED PT_PROTO_MPLS, [IEEE8023, VLAN, VLAN, MPLS_nlabels 25]), (UNROLLED PT_PROTO_ISID, [ETHERNET, ISID]), (UNROLLED PT_PROTO_GRE4, [ETHERNET, IPV4_noptions 0, GRE4]), (UNROLLED PT_PROTO_GRE6, [ETHERNET, IPV6, GRE6])],
     [(UNROLLED PT_PROTO_MPLS, [IEEE8023, VLAN, VLAN, MPLS_nlabels 26]), (UNROLLED PT_PROTO_ISID, [ETHERNET, ISID]), (UNROLLED PT_PROTO_GRE4, [ETHERNET, IPV4_noptions 0, GRE4]), (UNROLLED PT_PROTO_GRE6, [ETHERNET, IPV6, GRE6])],
     [(UNROLLED PT_PROTO_MPLS, [IEEE8023, VLAN, VLAN, MPLS_nlabels 27]), (UNROLLED PT_PROTO_ISID, [ETHERNET, ISID]), (UNROLLED PT_PROTO_GRE4, [ETHERNET, IPV4_noptions 0, GRE4]), (UNROLLED PT_PROTO_GRE6, [ETHERNET, IPV6, GRE6])],
     [(UNROLLED PT_PROTO_MPLS, [IEEE8023, VLAN, VLAN, MPLS_nlabels 28]), (UNROLLED PT_PROTO_ISID, [ETHERNET, ISID]), (UNROLLED PT_PROTO_GRE4, [ETHERNET, IPV4_noptions 0, GRE4]), (UNROLLED PT_PROTO_GRE6, [ETHERNET, IPV6, GRE6])],
     [(UNROLLED PT_PROTO_MPLS, [IEEE8023, VLAN, VLAN, MPLS_nlabels 29]), (UNROLLED PT_PROTO_ISID, [ETHERNET, ISID]), (UNROLLED PT_PROTO_GRE4, [ETHERNET, IPV4_noptions 0, GRE4]), (UNROLLED PT_PROTO_GRE6, [ETHERNET, IPV6, GRE6])],
     [(UNROLLED PT_PROTO_MPLS, [IEEE8023, VLAN, VLAN, MPLS_nlabels 30]), (UNROLLED PT_PROTO_ISID, [ETHERNET, ISID]), (UNROLLED PT_PROTO_GRE4, [ETHERNET, IPV4_noptions 0, GRE4]), (UNROLLED PT_PROTO_GRE6, [ETHERNET, IPV6, GRE6])],
     [(UNROLLED PT_PROTO_MPLS, [IEEE8023, VLAN, VLAN, MPLS_nlabels 31]), (UNROLLED PT_PROTO_ISID, [ETHERNET, ISID]), (UNROLLED PT_PROTO_GRE4, [ETHERNET, IPV4_noptions 0, GRE4]), (UNROLLED PT_PROTO_GRE6, [ETHERNET, IPV6, GRE6])],
     [(UNROLLED PT_PROTO_ISID, [ETHERNET, ISID]), (UNROLLED PT_PROTO_GRE4, [ETHERNET, IPV4_noptions 0, GRE4]), (UNROLLED PT_PROTO_GRE6, [ETHERNET, IPV6, GRE6])],
     [(UNROLLED PT_PROTO_ISID, [ETHERNET, ISID]), (UNROLLED PT_PROTO_GRE4, [ETHERNET, IPV4_noptions 0, GRE4]), (UNROLLED PT_PROTO_GRE6, [ETHERNET, IPV6, GRE6])],
     [(UNROLLED PT_PROTO_MPLS, [ETHERNET, MPLS_nlabels 1]), (UNROLLED PT_PROTO_VLAN, [ETHERNET, VLAN, PPPOE]), (UNROLLED PT_PROTO_ISID, [ETHERNET, ISID]), (UNROLLED PT_PROTO_PPP, [ETHERNET, PPPOE, PPP]), (UNROLLED PT_PROTO_GRE4, [ETHERNET, IPV4_noptions 0, GRE4]), (UNROLLED PT_PROTO_GRE6, [ETHERNET, IPV6, GRE6])],
     [],
     [],
     [(UNROLLED PT_PROTO_MPLS, [IEEE8023, MPLS_nlabels 1]), (UNROLLED PT_PROTO_VLAN, [IEEE8023, VLAN, PPPOE]), (UNROLLED PT_PROTO_ISID, [ETHERNET, ISID]), (UNROLLED PT_PROTO_PPP, [IEEE8023, PPPOE, PPP]), (UNROLLED PT_PROTO_GRE4, [ETHERNET, IPV4_noptions 0, GRE4]), (UNROLLED PT_PROTO_GRE6, [ETHERNET, IPV6, GRE6])],
     [(UNROLLED PT_PROTO_MPLS, [ETHERNET, VLAN, MPLS_nlabels 1]), (UNROLLED PT_PROTO_VLAN, [ETHERNET, VLAN, VLAN, PPPOE]), (UNROLLED PT_PROTO_ISID, [ETHERNET, ISID]), (UNROLLED PT_PROTO_PPP, [ETHERNET, VLAN, PPPOE, PPP]), (UNROLLED PT_PROTO_GRE4, [ETHERNET, IPV4_noptions 0, GRE4]), (UNROLLED PT_PROTO_GRE6, [ETHERNET, IPV6, GRE6])],
     [(UNROLLED PT_PROTO_MPLS, [IEEE8023, VLAN, MPLS_nlabels 1]), (UNROLLED PT_PROTO_VLAN, [IEEE8023, VLAN, VLAN, PPPOE]), (UNROLLED PT_PROTO_ISID, [ETHERNET, ISID]), (UNROLLED PT_PROTO_PPP, [IEEE8023, VLAN, PPPOE, PPP]), (UNROLLED PT_PROTO_GRE4, [ETHERNET, IPV4_noptions 0, GRE4]), (UNROLLED PT_PROTO_GRE6, [ETHERNET, IPV6, GRE6])],
     [(UNROLLED PT_PROTO_MPLS, [ETHERNET, VLAN, VLAN, MPLS_nlabels 1]), (UNROLLED PT_PROTO_ISID, [ETHERNET, ISID]), (UNROLLED PT_PROTO_PPP, [ETHERNET, VLAN, VLAN, PPPOE, PPP]), (UNROLLED PT_PROTO_GRE4, [ETHERNET, IPV4_noptions 0, GRE4]), (UNROLLED PT_PROTO_GRE6, [ETHERNET, IPV6, GRE6])],
     [(UNROLLED PT_PROTO_MPLS, [IEEE8023, VLAN, VLAN, MPLS_nlabels 1]), (UNROLLED PT_PROTO_ISID, [ETHERNET, ISID]), (UNROLLED PT_PROTO_PPP, [IEEE8023, VLAN, VLAN, PPPOE, PPP]), (UNROLLED PT_PROTO_GRE4, [ETHERNET, IPV4_noptions 0, GRE4]), (UNROLLED PT_PROTO_GRE6, [ETHERNET, IPV6, GRE6])],
     [(UNROLLED PT_PROTO_MPLS, [ETHERNET, MPLS_nlabels 1]), (UNROLLED PT_PROTO_VLAN, [ETHERNET, VLAN, PPPOE, PPP]), (UNROLLED PT_PROTO_ISID, [ETHERNET, ISID]), (UNROLLED PT_PROTO_GRE4, [ETHERNET, IPV4_noptions 0, GRE4]), (UNROLLED PT_PROTO_GRE6, [ETHERNET, IPV6, GRE6])],
     [],
     [],
     [(UNROLLED PT_PROTO_MPLS, [IEEE8023, MPLS_nlabels 1]), (UNROLLED PT_PROTO_VLAN, [IEEE8023, VLAN, PPPOE, PPP]), (UNROLLED PT_PROTO_ISID, [ETHERNET, ISID]), (UNROLLED PT_PROTO_GRE4, [ETHERNET, IPV4_noptions 0, GRE4]), (UNROLLED PT_PROTO_GRE6, [ETHERNET, IPV6, GRE6])],
     [(UNROLLED PT_PROTO_MPLS, [ETHERNET, VLAN, MPLS_nlabels 1]), (UNROLLED PT_PROTO_VLAN, [ETHERNET, VLAN, VLAN, PPPOE, PPP]), (UNROLLED PT_PROTO_ISID, [ETHERNET, ISID]), (UNROLLED PT_PROTO_GRE4, [ETHERNET, IPV4_noptions 0, GRE4]), (UNROLLED PT_PROTO_GRE6, [ETHERNET, IPV6, GRE6])],
     [(UNROLLED PT_PROTO_MPLS, [IEEE8023, VLAN, MPLS_nlabels 1]), (UNROLLED PT_PROTO_VLAN, [IEEE8023, VLAN, VLAN, PPPOE, PPP]), (UNROLLED PT_PROTO_ISID, [ETHERNET, ISID]), (UNROLLED PT_PROTO_GRE4, [ETHERNET, IPV4_noptions 0, GRE4]), (UNROLLED PT_PROTO_GRE6, [ETHERNET, IPV6, GRE6])],
     [(UNROLLED PT_PROTO_MPLS, [ETHERNET, VLAN, VLAN, MPLS_nlabels 1]), (UNROLLED PT_PROTO_ISID, [ETHERNET, ISID]), (UNROLLED PT_PROTO_GRE4, [ETHERNET, IPV4_noptions 0, GRE4]), (UNROLLED PT_PROTO_GRE6, [ETHERNET, IPV6, GRE6])],
     [(UNROLLED PT_PROTO_MPLS, [IEEE8023, VLAN, VLAN, MPLS_nlabels 1]), (UNROLLED PT_PROTO_ISID, [ETHERNET, ISID]), (UNROLLED PT_PROTO_GRE4, [ETHERNET, IPV4_noptions 0, GRE4]), (UNROLLED PT_PROTO_GRE6, [ETHERNET, IPV6, GRE6])],
     [(UNROLLED PT_PROTO_MPLS, [ETHERNET, MPLS_nlabels 1]), (UNROLLED PT_PROTO_VLAN, [ETHERNET, VLAN, ARPV4]), (UNROLLED PT_PROTO_ISID, [ETHERNET, ISID]), (UNROLLED PT_PROTO_PPPOE, [ETHERNET, PPPOE]), (UNROLLED PT_PROTO_GRE4, [ETHERNET, IPV4_noptions 0, GRE4]), (UNROLLED PT_PROTO_GRE6, [ETHERNET, IPV6, GRE6])],
     [],
     [],
     [(UNROLLED PT_PROTO_MPLS, [IEEE8023, MPLS_nlabels 1]), (UNROLLED PT_PROTO_VLAN, [IEEE8023, VLAN, ARPV4]), (UNROLLED PT_PROTO_ISID, [ETHERNET, ISID]), (UNROLLED PT_PROTO_PPPOE, [IEEE8023, PPPOE]), (UNROLLED PT_PROTO_GRE4, [ETHERNET, IPV4_noptions 0, GRE4]), (UNROLLED PT_PROTO_GRE6, [ETHERNET, IPV6, GRE6])],
     [(UNROLLED PT_PROTO_MPLS, [ETHERNET, VLAN, MPLS_nlabels 1]), (UNROLLED PT_PROTO_VLAN, [ETHERNET, VLAN, VLAN, ARPV4]), (UNROLLED PT_PROTO_ISID, [ETHERNET, ISID]), (UNROLLED PT_PROTO_PPPOE, [ETHERNET, VLAN, PPPOE]), (UNROLLED PT_PROTO_GRE4, [ETHERNET, IPV4_noptions 0, GRE4]), (UNROLLED PT_PROTO_GRE6, [ETHERNET, IPV6, GRE6])],
     [(UNROLLED PT_PROTO_MPLS, [IEEE8023, VLAN, MPLS_nlabels 1]), (UNROLLED PT_PROTO_VLAN, [IEEE8023, VLAN, VLAN, ARPV4]), (UNROLLED PT_PROTO_ISID, [ETHERNET, ISID]), (UNROLLED PT_PROTO_PPPOE, [IEEE8023, VLAN, PPPOE]), (UNROLLED PT_PROTO_GRE4, [ETHERNET, IPV4_noptions 0, GRE4]), (UNROLLED PT_PROTO_GRE6, [ETHERNET, IPV6, GRE6])],
     [(UNROLLED PT_PROTO_MPLS, [ETHERNET, VLAN, VLAN, MPLS_nlabels 1]), (UNROLLED PT_PROTO_ISID, [ETHERNET, ISID]), (UNROLLED PT_PROTO_PPPOE, [ETHERNET, VLAN, VLAN, PPPOE]), (UNROLLED PT_PROTO_GRE4, [ETHERNET, IPV4_noptions 0, GRE4]), (UNROLLED PT_PROTO_GRE6, [ETHERNET, IPV6, GRE6])],
     [(UNROLLED PT_PROTO_MPLS, [IEEE8023, VLAN, VLAN, MPLS_nlabels 1]), (UNROLLED PT_PROTO_ISID, [ETHERNET, ISID]), (UNROLLED PT_PROTO_PPPOE, [IEEE8023, VLAN, VLAN, PPPOE]), (UNROLLED PT_PROTO_GRE4, [ETHERNET, IPV4_noptions 0, GRE4]), (UNROLLED PT_PROTO_GRE6, [ETHERNET, IPV6, GRE6])],
     [(UNROLLED PT_PROTO_MPLS, [ETHERNET, MPLS_nlabels 1]), (UNROLLED PT_PROTO_VLAN, [ETHERNET, VLAN, IPV4_noptions 0]), (UNROLLED PT_PROTO_ISID, [ETHERNET, ISID]), (UNROLLED PT_PROTO_PPPOE, [ETHERNET, PPPOE]), (UNROLLED PT_PROTO_GTPU4, [ETHERNET, IPV4_noptions 0, UDP, GTPU4]), (UNROLLED PT_PROTO_GTPU6, [ETHERNET, IPV6, UDP, GTPU6]), (UNROLLED PT_PROTO_GRE4, [ETHERNET, IPV4_noptions 0, GRE4]), (UNROLLED PT_PROTO_GRE6, [ETHERNET, IPV6, GRE6])],
     [(UNROLLED PT_PROTO_MPLS, [ETHERNET, MPLS_nlabels 1]), (UNROLLED PT_PROTO_VLAN, [ETHERNET, VLAN, IPV4_noptions 1]), (UNROLLED PT_PROTO_ISID, [ETHERNET, ISID]), (UNROLLED PT_PROTO_PPPOE, [ETHERNET, PPPOE]), (UNROLLED PT_PROTO_GRE4, [ETHERNET, IPV4_noptions 0, GRE4]), (UNROLLED PT_PROTO_GRE6, [ETHERNET, IPV6, GRE6])],
     [(UNROLLED PT_PROTO_MPLS, [ETHERNET, MPLS_nlabels 1]), (UNROLLED PT_PROTO_VLAN, [ETHERNET, VLAN, IPV4_noptions 2]), (UNROLLED PT_PROTO_ISID, [ETHERNET, ISID]), (UNROLLED PT_PROTO_PPPOE, [ETHERNET, PPPOE]), (UNROLLED PT_PROTO_GRE4, [ETHERNET, IPV4_noptions 0, GRE4]), (UNROLLED PT_PROTO_GRE6, [ETHERNET, IPV6, GRE6])],
     [(UNROLLED PT_PROTO_MPLS, [ETHERNET, MPLS_nlabels 1]), (UNROLLED PT_PROTO_VLAN, [ETHERNET, VLAN, IPV4_noptions 3]), (UNROLLED PT_PROTO_ISID, [ETHERNET, ISID]), (UNROLLED PT_PROTO_PPPOE, [ETHERNET, PPPOE]), (UNROLLED PT_PROTO_GRE4, [ETHERNET, IPV4_noptions 0, GRE4]), (UNROLLED PT_PROTO_GRE6, [ETHERNET, IPV6, GRE6])],
     [(UNROLLED PT_PROTO_MPLS, [ETHERNET, MPLS_nlabels 1]), (UNROLLED PT_PROTO_VLAN, [ETHERNET, VLAN, IPV4_noptions 4]), (UNROLLED PT_PROTO_ISID, [ETHERNET, ISID]), (UNROLLED PT_PROTO_PPPOE, [ETHERNET, PPPOE]), (UNROLLED PT_PROTO_GRE4, [ETHERNET, IPV4_noptions 0, GRE4]), (UNROLLED PT_PROTO_GRE6, [ETHERNET, IPV6, GRE6])],
     [(UNROLLED PT_PROTO_MPLS, [ETHERNET, MPLS_nlabels 1]), (UNROLLED PT_PROTO_VLAN, [ETHERNET, VLAN, IPV4_noptions 5]), (UNROLLED PT_PROTO_ISID, [ETHERNET, ISID]), (UNROLLED PT_PROTO_PPPOE, [ETHERNET, PPPOE]), (UNROLLED PT_PROTO_GRE4, [ETHERNET, IPV4_noptions 0, GRE4]), (UNROLLED PT_PROTO_GRE6, [ETHERNET, IPV6, GRE6])],
     [(UNROLLED PT_PROTO_MPLS, [ETHERNET, MPLS_nlabels 1]), (UNROLLED PT_PROTO_VLAN, [ETHERNET, VLAN, IPV4_noptions 6]), (UNROLLED PT_PROTO_ISID, [ETHERNET, ISID]), (UNROLLED PT_PROTO_PPPOE, [ETHERNET, PPPOE]), (UNROLLED PT_PROTO_GRE4, [ETHERNET, IPV4_noptions 0, GRE4]), (UNROLLED PT_PROTO_GRE6, [ETHERNET, IPV6, GRE6])],
     [(UNROLLED PT_PROTO_MPLS, [ETHERNET, MPLS_nlabels 1]), (UNROLLED PT_PROTO_VLAN, [ETHERNET, VLAN, IPV4_noptions 7]), (UNROLLED PT_PROTO_ISID, [ETHERNET, ISID]), (UNROLLED PT_PROTO_PPPOE, [ETHERNET, PPPOE]), (UNROLLED PT_PROTO_GRE4, [ETHERNET, IPV4_noptions 0, GRE4]), (UNROLLED PT_PROTO_GRE6, [ETHERNET, IPV6, GRE6])],
     [(UNROLLED PT_PROTO_MPLS, [ETHERNET, MPLS_nlabels 1]), (UNROLLED PT_PROTO_VLAN, [ETHERNET, VLAN, IPV4_noptions 8]), (UNROLLED PT_PROTO_ISID, [ETHERNET, ISID]), (UNROLLED PT_PROTO_PPPOE, [ETHERNET, PPPOE]), (UNROLLED PT_PROTO_GRE4, [ETHERNET, IPV4_noptions 0, GRE4]), (UNROLLED PT_PROTO_GRE6, [ETHERNET, IPV6, GRE6])],
     [(UNROLLED PT_PROTO_MPLS, [ETHERNET, MPLS_nlabels 1]), (UNROLLED PT_PROTO_VLAN, [ETHERNET, VLAN, IPV4_noptions 9]), (UNROLLED PT_PROTO_ISID, [ETHERNET, ISID]), (UNROLLED PT_PROTO_PPPOE, [ETHERNET, PPPOE]), (UNROLLED PT_PROTO_GRE4, [ETHERNET, IPV4_noptions 0, GRE4]), (UNROLLED PT_PROTO_GRE6, [ETHERNET, IPV6, GRE6])],
     [(UNROLLED PT_PROTO_MPLS, [ETHERNET, MPLS_nlabels 1]), (UNROLLED PT_PROTO_VLAN, [ETHERNET, VLAN, IPV4_noptions 10]), (UNROLLED PT_PROTO_ISID, [ETHERNET, ISID]), (UNROLLED PT_PROTO_PPPOE, [ETHERNET, PPPOE]), (UNROLLED PT_PROTO_GRE4, [ETHERNET, IPV4_noptions 0, GRE4]), (UNROLLED PT_PROTO_GRE6, [ETHERNET, IPV6, GRE6])],
     [(UNROLLED PT_PROTO_MPLS, [ETHERNET, MPLS_nlabels 1]), (UNROLLED PT_PROTO_VLAN, [ETHERNET, VLAN, IPV4_noptions 11]), (UNROLLED PT_PROTO_ISID, [ETHERNET, ISID]), (UNROLLED PT_PROTO_PPPOE, [ETHERNET, PPPOE]), (UNROLLED PT_PROTO_GRE4, [ETHERNET, IPV4_noptions 0, GRE4]), (UNROLLED PT_PROTO_GRE6, [ETHERNET, IPV6, GRE6])]]"

definition push_table_3 :: "(unrolled \<times> pkt_type) list list" where
  "push_table_3 =
    [[(UNROLLED PT_PROTO_MPLS, [ETHERNET, MPLS_nlabels 1]), (UNROLLED PT_PROTO_VLAN, [ETHERNET, VLAN, IPV4_noptions 12]), (UNROLLED PT_PROTO_ISID, [ETHERNET, ISID]), (UNROLLED PT_PROTO_PPPOE, [ETHERNET, PPPOE]), (UNROLLED PT_PROTO_GRE4, [ETHERNET, IPV4_noptions 0, GRE4]), (UNROLLED PT_PROTO_GRE6, [ETHERNET, IPV6, GRE6])],
     [(UNROLLED PT_PROTO_MPLS, [ETHERNET, MPLS_nlabels 1]), (UNROLLED PT_PROTO_VLAN, [ETHERNET, VLAN, IPV4_noptions 13]), (UNROLLED PT_PROTO_ISID, [ETHERNET, ISID]), (UNROLLED PT_PROTO_PPPOE, [ETHERNET, PPPOE]), (UNROLLED PT_PROTO_GRE4, [ETHERNET, IPV4_noptions 0, GRE4]), (UNROLLED PT_PROTO_GRE6, [ETHERNET, IPV6, GRE6])],
     [(UNROLLED PT_PROTO_MPLS, [ETHERNET, MPLS_nlabels 1]), (UNROLLED PT_PROTO_VLAN, [ETHERNET, VLAN, IPV4_noptions 14]), (UNROLLED PT_PROTO_ISID, [ETHERNET, ISID]), (UNROLLED PT_PROTO_PPPOE, [ETHERNET, PPPOE]), (UNROLLED PT_PROTO_GRE4, [ETHERNET, IPV4_noptions 0, GRE4]), (UNROLLED PT_PROTO_GRE6, [ETHERNET, IPV6, GRE6])],
     [(UNROLLED PT_PROTO_MPLS, [ETHERNET, MPLS_nlabels 1]), (UNROLLED PT_PROTO_VLAN, [ETHERNET, VLAN, IPV4_noptions 15]), (UNROLLED PT_PROTO_ISID, [ETHERNET, ISID]), (UNROLLED PT_PROTO_PPPOE, [ETHERNET, PPPOE]), (UNROLLED PT_PROTO_GRE4, [ETHERNET, IPV4_noptions 0, GRE4]), (UNROLLED PT_PROTO_GRE6, [ETHERNET, IPV6, GRE6])],
     [],
     [],
     [],
     [],
     [],
     [],
     [],
     [],
     [],
     [],
     [],
     [],
     [],
     [],
     [],
     [],
     [],
     [],
     [],
     [],
     [],
     [],
     [],
     [],
     [],
     [],
     [],
     [],
     [],
     [],
     [],
     [],
     [(UNROLLED PT_PROTO_MPLS, [IEEE8023, MPLS_nlabels 1]), (UNROLLED PT_PROTO_VLAN, [IEEE8023, VLAN, IPV4_noptions 0]), (UNROLLED PT_PROTO_ISID, [ETHERNET, ISID]), (UNROLLED PT_PROTO_PPPOE, [IEEE8023, PPPOE]), (UNROLLED PT_PROTO_GTPU4, [IEEE8023, IPV4_noptions 0, UDP, GTPU4]), (UNROLLED PT_PROTO_GTPU6, [IEEE8023, IPV6, UDP, GTPU6]), (UNROLLED PT_PROTO_GRE4, [ETHERNET, IPV4_noptions 0, GRE4]), (UNROLLED PT_PROTO_GRE6, [ETHERNET, IPV6, GRE6])],
     [(UNROLLED PT_PROTO_MPLS, [IEEE8023, MPLS_nlabels 1]), (UNROLLED PT_PROTO_VLAN, [IEEE8023, VLAN, IPV4_noptions 1]), (UNROLLED PT_PROTO_ISID, [ETHERNET, ISID]), (UNROLLED PT_PROTO_PPPOE, [IEEE8023, PPPOE]), (UNROLLED PT_PROTO_GRE4, [ETHERNET, IPV4_noptions 0, GRE4]), (UNROLLED PT_PROTO_GRE6, [ETHERNET, IPV6, GRE6])],
     [(UNROLLED PT_PROTO_MPLS, [IEEE8023, MPLS_nlabels 1]), (UNROLLED PT_PROTO_VLAN, [IEEE8023, VLAN, IPV4_noptions 2]), (UNROLLED PT_PROTO_ISID, [ETHERNET, ISID]), (UNROLLED PT_PROTO_PPPOE, [IEEE8023, PPPOE]), (UNROLLED PT_PROTO_GRE4, [ETHERNET, IPV4_noptions 0, GRE4]), (UNROLLED PT_PROTO_GRE6, [ETHERNET, IPV6, GRE6])],
     [(UNROLLED PT_PROTO_MPLS, [IEEE8023, MPLS_nlabels 1]), (UNROLLED PT_PROTO_VLAN, [IEEE8023, VLAN, IPV4_noptions 3]), (UNROLLED PT_PROTO_ISID, [ETHERNET, ISID]), (UNROLLED PT_PROTO_PPPOE, [IEEE8023, PPPOE]), (UNROLLED PT_PROTO_GRE4, [ETHERNET, IPV4_noptions 0, GRE4]), (UNROLLED PT_PROTO_GRE6, [ETHERNET, IPV6, GRE6])],
     [(UNROLLED PT_PROTO_MPLS, [IEEE8023, MPLS_nlabels 1]), (UNROLLED PT_PROTO_VLAN, [IEEE8023, VLAN, IPV4_noptions 4]), (UNROLLED PT_PROTO_ISID, [ETHERNET, ISID]), (UNROLLED PT_PROTO_PPPOE, [IEEE8023, PPPOE]), (UNROLLED PT_PROTO_GRE4, [ETHERNET, IPV4_noptions 0, GRE4]), (UNROLLED PT_PROTO_GRE6, [ETHERNET, IPV6, GRE6])],
     [(UNROLLED PT_PROTO_MPLS, [IEEE8023, MPLS_nlabels 1]), (UNROLLED PT_PROTO_VLAN, [IEEE8023, VLAN, IPV4_noptions 5]), (UNROLLED PT_PROTO_ISID, [ETHERNET, ISID]), (UNROLLED PT_PROTO_PPPOE, [IEEE8023, PPPOE]), (UNROLLED PT_PROTO_GRE4, [ETHERNET, IPV4_noptions 0, GRE4]), (UNROLLED PT_PROTO_GRE6, [ETHERNET, IPV6, GRE6])],
     [(UNROLLED PT_PROTO_MPLS, [IEEE8023, MPLS_nlabels 1]), (UNROLLED PT_PROTO_VLAN, [IEEE8023, VLAN, IPV4_noptions 6]), (UNROLLED PT_PROTO_ISID, [ETHERNET, ISID]), (UNROLLED PT_PROTO_PPPOE, [IEEE8023, PPPOE]), (UNROLLED PT_PROTO_GRE4, [ETHERNET, IPV4_noptions 0, GRE4]), (UNROLLED PT_PROTO_GRE6, [ETHERNET, IPV6, GRE6])],
     [(UNROLLED PT_PROTO_MPLS, [IEEE8023, MPLS_nlabels 1]), (UNROLLED PT_PROTO_VLAN, [IEEE8023, VLAN, IPV4_noptions 7]), (UNROLLED PT_PROTO_ISID, [ETHERNET, ISID]), (UNROLLED PT_PROTO_PPPOE, [IEEE8023, PPPOE]), (UNROLLED PT_PROTO_GRE4, [ETHERNET, IPV4_noptions 0, GRE4]), (UNROLLED PT_PROTO_GRE6, [ETHERNET, IPV6, GRE6])],
     [(UNROLLED PT_PROTO_MPLS, [IEEE8023, MPLS_nlabels 1]), (UNROLLED PT_PROTO_VLAN, [IEEE8023, VLAN, IPV4_noptions 8]), (UNROLLED PT_PROTO_ISID, [ETHERNET, ISID]), (UNROLLED PT_PROTO_PPPOE, [IEEE8023, PPPOE]), (UNROLLED PT_PROTO_GRE4, [ETHERNET, IPV4_noptions 0, GRE4]), (UNROLLED PT_PROTO_GRE6, [ETHERNET, IPV6, GRE6])],
     [(UNROLLED PT_PROTO_MPLS, [IEEE8023, MPLS_nlabels 1]), (UNROLLED PT_PROTO_VLAN, [IEEE8023, VLAN, IPV4_noptions 9]), (UNROLLED PT_PROTO_ISID, [ETHERNET, ISID]), (UNROLLED PT_PROTO_PPPOE, [IEEE8023, PPPOE]), (UNROLLED PT_PROTO_GRE4, [ETHERNET, IPV4_noptions 0, GRE4]), (UNROLLED PT_PROTO_GRE6, [ETHERNET, IPV6, GRE6])],
     [(UNROLLED PT_PROTO_MPLS, [IEEE8023, MPLS_nlabels 1]), (UNROLLED PT_PROTO_VLAN, [IEEE8023, VLAN, IPV4_noptions 10]), (UNROLLED PT_PROTO_ISID, [ETHERNET, ISID]), (UNROLLED PT_PROTO_PPPOE, [IEEE8023, PPPOE]), (UNROLLED PT_PROTO_GRE4, [ETHERNET, IPV4_noptions 0, GRE4]), (UNROLLED PT_PROTO_GRE6, [ETHERNET, IPV6, GRE6])],
     [(UNROLLED PT_PROTO_MPLS, [IEEE8023, MPLS_nlabels 1]), (UNROLLED PT_PROTO_VLAN, [IEEE8023, VLAN, IPV4_noptions 11]), (UNROLLED PT_PROTO_ISID, [ETHERNET, ISID]), (UNROLLED PT_PROTO_PPPOE, [IEEE8023, PPPOE]), (UNROLLED PT_PROTO_GRE4, [ETHERNET, IPV4_noptions 0, GRE4]), (UNROLLED PT_PROTO_GRE6, [ETHERNET, IPV6, GRE6])],
     [(UNROLLED PT_PROTO_MPLS, [IEEE8023, MPLS_nlabels 1]), (UNROLLED PT_PROTO_VLAN, [IEEE8023, VLAN, IPV4_noptions 12]), (UNROLLED PT_PROTO_ISID, [ETHERNET, ISID]), (UNROLLED PT_PROTO_PPPOE, [IEEE8023, PPPOE]), (UNROLLED PT_PROTO_GRE4, [ETHERNET, IPV4_noptions 0, GRE4]), (UNROLLED PT_PROTO_GRE6, [ETHERNET, IPV6, GRE6])],
     [(UNROLLED PT_PROTO_MPLS, [IEEE8023, MPLS_nlabels 1]), (UNROLLED PT_PROTO_VLAN, [IEEE8023, VLAN, IPV4_noptions 13]), (UNROLLED PT_PROTO_ISID, [ETHERNET, ISID]), (UNROLLED PT_PROTO_PPPOE, [IEEE8023, PPPOE]), (UNROLLED PT_PROTO_GRE4, [ETHERNET, IPV4_noptions 0, GRE4]), (UNROLLED PT_PROTO_GRE6, [ETHERNET, IPV6, GRE6])],
     [(UNROLLED PT_PROTO_MPLS, [IEEE8023, MPLS_nlabels 1]), (UNROLLED PT_PROTO_VLAN, [IEEE8023, VLAN, IPV4_noptions 14]), (UNROLLED PT_PROTO_ISID, [ETHERNET, ISID]), (UNROLLED PT_PROTO_PPPOE, [IEEE8023, PPPOE]), (UNROLLED PT_PROTO_GRE4, [ETHERNET, IPV4_noptions 0, GRE4]), (UNROLLED PT_PROTO_GRE6, [ETHERNET, IPV6, GRE6])],
     [(UNROLLED PT_PROTO_MPLS, [IEEE8023, MPLS_nlabels 1]), (UNROLLED PT_PROTO_VLAN, [IEEE8023, VLAN, IPV4_noptions 15]), (UNROLLED PT_PROTO_ISID, [ETHERNET, ISID]), (UNROLLED PT_PROTO_PPPOE, [IEEE8023, PPPOE]), (UNROLLED PT_PROTO_GRE4, [ETHERNET, IPV4_noptions 0, GRE4]), (UNROLLED PT_PROTO_GRE6, [ETHERNET, IPV6, GRE6])],
     [(UNROLLED PT_PROTO_MPLS, [ETHERNET, VLAN, MPLS_nlabels 1]), (UNROLLED PT_PROTO_VLAN, [ETHERNET, VLAN, VLAN, IPV4_noptions 0]), (UNROLLED PT_PROTO_ISID, [ETHERNET, ISID]), (UNROLLED PT_PROTO_PPPOE, [ETHERNET, VLAN, PPPOE]), (UNROLLED PT_PROTO_GRE4, [ETHERNET, IPV4_noptions 0, GRE4]), (UNROLLED PT_PROTO_GRE6, [ETHERNET, IPV6, GRE6])],
     [(UNROLLED PT_PROTO_MPLS, [ETHERNET, VLAN, MPLS_nlabels 1]), (UNROLLED PT_PROTO_VLAN, [ETHERNET, VLAN, VLAN, IPV4_noptions 1]), (UNROLLED PT_PROTO_ISID, [ETHERNET, ISID]), (UNROLLED PT_PROTO_PPPOE, [ETHERNET, VLAN, PPPOE]), (UNROLLED PT_PROTO_GRE4, [ETHERNET, IPV4_noptions 0, GRE4]), (UNROLLED PT_PROTO_GRE6, [ETHERNET, IPV6, GRE6])],
     [(UNROLLED PT_PROTO_MPLS, [ETHERNET, VLAN, MPLS_nlabels 1]), (UNROLLED PT_PROTO_VLAN, [ETHERNET, VLAN, VLAN, IPV4_noptions 2]), (UNROLLED PT_PROTO_ISID, [ETHERNET, ISID]), (UNROLLED PT_PROTO_PPPOE, [ETHERNET, VLAN, PPPOE]), (UNROLLED PT_PROTO_GRE4, [ETHERNET, IPV4_noptions 0, GRE4]), (UNROLLED PT_PROTO_GRE6, [ETHERNET, IPV6, GRE6])],
     [(UNROLLED PT_PROTO_MPLS, [ETHERNET, VLAN, MPLS_nlabels 1]), (UNROLLED PT_PROTO_VLAN, [ETHERNET, VLAN, VLAN, IPV4_noptions 3]), (UNROLLED PT_PROTO_ISID, [ETHERNET, ISID]), (UNROLLED PT_PROTO_PPPOE, [ETHERNET, VLAN, PPPOE]), (UNROLLED PT_PROTO_GRE4, [ETHERNET, IPV4_noptions 0, GRE4]), (UNROLLED PT_PROTO_GRE6, [ETHERNET, IPV6, GRE6])],
     [(UNROLLED PT_PROTO_MPLS, [ETHERNET, VLAN, MPLS_nlabels 1]), (UNROLLED PT_PROTO_VLAN, [ETHERNET, VLAN, VLAN, IPV4_noptions 4]), (UNROLLED PT_PROTO_ISID, [ETHERNET, ISID]), (UNROLLED PT_PROTO_PPPOE, [ETHERNET, VLAN, PPPOE]), (UNROLLED PT_PROTO_GRE4, [ETHERNET, IPV4_noptions 0, GRE4]), (UNROLLED PT_PROTO_GRE6, [ETHERNET, IPV6, GRE6])],
     [(UNROLLED PT_PROTO_MPLS, [ETHERNET, VLAN, MPLS_nlabels 1]), (UNROLLED PT_PROTO_VLAN, [ETHERNET, VLAN, VLAN, IPV4_noptions 5]), (UNROLLED PT_PROTO_ISID, [ETHERNET, ISID]), (UNROLLED PT_PROTO_PPPOE, [ETHERNET, VLAN, PPPOE]), (UNROLLED PT_PROTO_GRE4, [ETHERNET, IPV4_noptions 0, GRE4]), (UNROLLED PT_PROTO_GRE6, [ETHERNET, IPV6, GRE6])],
     [(UNROLLED PT_PROTO_MPLS, [ETHERNET, VLAN, MPLS_nlabels 1]), (UNROLLED PT_PROTO_VLAN, [ETHERNET, VLAN, VLAN, IPV4_noptions 6]), (UNROLLED PT_PROTO_ISID, [ETHERNET, ISID]), (UNROLLED PT_PROTO_PPPOE, [ETHERNET, VLAN, PPPOE]), (UNROLLED PT_PROTO_GRE4, [ETHERNET, IPV4_noptions 0, GRE4]), (UNROLLED PT_PROTO_GRE6, [ETHERNET, IPV6, GRE6])],
     [(UNROLLED PT_PROTO_MPLS, [ETHERNET, VLAN, MPLS_nlabels 1]), (UNROLLED PT_PROTO_VLAN, [ETHERNET, VLAN, VLAN, IPV4_noptions 7]), (UNROLLED PT_PROTO_ISID, [ETHERNET, ISID]), (UNROLLED PT_PROTO_PPPOE, [ETHERNET, VLAN, PPPOE]), (UNROLLED PT_PROTO_GRE4, [ETHERNET, IPV4_noptions 0, GRE4]), (UNROLLED PT_PROTO_GRE6, [ETHERNET, IPV6, GRE6])],
     [(UNROLLED PT_PROTO_MPLS, [ETHERNET, VLAN, MPLS_nlabels 1]), (UNROLLED PT_PROTO_VLAN, [ETHERNET, VLAN, VLAN, IPV4_noptions 8]), (UNROLLED PT_PROTO_ISID, [ETHERNET, ISID]), (UNROLLED PT_PROTO_PPPOE, [ETHERNET, VLAN, PPPOE]), (UNROLLED PT_PROTO_GRE4, [ETHERNET, IPV4_noptions 0, GRE4]), (UNROLLED PT_PROTO_GRE6, [ETHERNET, IPV6, GRE6])],
     [(UNROLLED PT_PROTO_MPLS, [ETHERNET, VLAN, MPLS_nlabels 1]), (UNROLLED PT_PROTO_VLAN, [ETHERNET, VLAN, VLAN, IPV4_noptions 9]), (UNROLLED PT_PROTO_ISID, [ETHERNET, ISID]), (UNROLLED PT_PROTO_PPPOE, [ETHERNET, VLAN, PPPOE]), (UNROLLED PT_PROTO_GRE4, [ETHERNET, IPV4_noptions 0, GRE4]), (UNROLLED PT_PROTO_GRE6, [ETHERNET, IPV6, GRE6])],
     [(UNROLLED PT_PROTO_MPLS, [ETHERNET, VLAN, MPLS_nlabels 1]), (UNROLLED PT_PROTO_VLAN, [ETHERNET, VLAN, VLAN, IPV4_noptions 10]), (UNROLLED PT_PROTO_ISID, [ETHERNET, ISID]), (UNROLLED PT_PROTO_PPPOE, [ETHERNET, VLAN, PPPOE]), (UNROLLED PT_PROTO_GRE4, [ETHERNET, IPV4_noptions 0, GRE4]), (UNROLLED PT_PROTO_GRE6, [ETHERNET, IPV6, GRE6])],
     [(UNROLLED PT_PROTO_MPLS, [ETHERNET, VLAN, MPLS_nlabels 1]), (UNROLLED PT_PROTO_VLAN, [ETHERNET, VLAN, VLAN, IPV4_noptions 11]), (UNROLLED PT_PROTO_ISID, [ETHERNET, ISID]), (UNROLLED PT_PROTO_PPPOE, [ETHERNET, VLAN, PPPOE]), (UNROLLED PT_PROTO_GRE4, [ETHERNET, IPV4_noptions 0, GRE4]), (UNROLLED PT_PROTO_GRE6, [ETHERNET, IPV6, GRE6])],
     [(UNROLLED PT_PROTO_MPLS, [ETHERNET, VLAN, MPLS_nlabels 1]), (UNROLLED PT_PROTO_VLAN, [ETHERNET, VLAN, VLAN, IPV4_noptions 12]), (UNROLLED PT_PROTO_ISID, [ETHERNET, ISID]), (UNROLLED PT_PROTO_PPPOE, [ETHERNET, VLAN, PPPOE]), (UNROLLED PT_PROTO_GRE4, [ETHERNET, IPV4_noptions 0, GRE4]), (UNROLLED PT_PROTO_GRE6, [ETHERNET, IPV6, GRE6])],
     [(UNROLLED PT_PROTO_MPLS, [ETHERNET, VLAN, MPLS_nlabels 1]), (UNROLLED PT_PROTO_VLAN, [ETHERNET, VLAN, VLAN, IPV4_noptions 13]), (UNROLLED PT_PROTO_ISID, [ETHERNET, ISID]), (UNROLLED PT_PROTO_PPPOE, [ETHERNET, VLAN, PPPOE]), (UNROLLED PT_PROTO_GRE4, [ETHERNET, IPV4_noptions 0, GRE4]), (UNROLLED PT_PROTO_GRE6, [ETHERNET, IPV6, GRE6])],
     [(UNROLLED PT_PROTO_MPLS, [ETHERNET, VLAN, MPLS_nlabels 1]), (UNROLLED PT_PROTO_VLAN, [ETHERNET, VLAN, VLAN, IPV4_noptions 14]), (UNROLLED PT_PROTO_ISID, [ETHERNET, ISID]), (UNROLLED PT_PROTO_PPPOE, [ETHERNET, VLAN, PPPOE]), (UNROLLED PT_PROTO_GRE4, [ETHERNET, IPV4_noptions 0, GRE4]), (UNROLLED PT_PROTO_GRE6, [ETHERNET, IPV6, GRE6])],
     [(UNROLLED PT_PROTO_MPLS, [ETHERNET, VLAN, MPLS_nlabels 1]), (UNROLLED PT_PROTO_VLAN, [ETHERNET, VLAN, VLAN, IPV4_noptions 15]), (UNROLLED PT_PROTO_ISID, [ETHERNET, ISID]), (UNROLLED PT_PROTO_PPPOE, [ETHERNET, VLAN, PPPOE]), (UNROLLED PT_PROTO_GRE4, [ETHERNET, IPV4_noptions 0, GRE4]), (UNROLLED PT_PROTO_GRE6, [ETHERNET, IPV6, GRE6])],
     [(UNROLLED PT_PROTO_MPLS, [IEEE8023, VLAN, MPLS_nlabels 1]), (UNROLLED PT_PROTO_VLAN, [IEEE8023, VLAN, VLAN, IPV4_noptions 0]), (UNROLLED PT_PROTO_ISID, [ETHERNET, ISID]), (UNROLLED PT_PROTO_PPPOE, [IEEE8023, VLAN, PPPOE]), (UNROLLED PT_PROTO_GRE4, [ETHERNET, IPV4_noptions 0, GRE4]), (UNROLLED PT_PROTO_GRE6, [ETHERNET, IPV6, GRE6])],
     [(UNROLLED PT_PROTO_MPLS, [IEEE8023, VLAN, MPLS_nlabels 1]), (UNROLLED PT_PROTO_VLAN, [IEEE8023, VLAN, VLAN, IPV4_noptions 1]), (UNROLLED PT_PROTO_ISID, [ETHERNET, ISID]), (UNROLLED PT_PROTO_PPPOE, [IEEE8023, VLAN, PPPOE]), (UNROLLED PT_PROTO_GRE4, [ETHERNET, IPV4_noptions 0, GRE4]), (UNROLLED PT_PROTO_GRE6, [ETHERNET, IPV6, GRE6])],
     [(UNROLLED PT_PROTO_MPLS, [IEEE8023, VLAN, MPLS_nlabels 1]), (UNROLLED PT_PROTO_VLAN, [IEEE8023, VLAN, VLAN, IPV4_noptions 2]), (UNROLLED PT_PROTO_ISID, [ETHERNET, ISID]), (UNROLLED PT_PROTO_PPPOE, [IEEE8023, VLAN, PPPOE]), (UNROLLED PT_PROTO_GRE4, [ETHERNET, IPV4_noptions 0, GRE4]), (UNROLLED PT_PROTO_GRE6, [ETHERNET, IPV6, GRE6])],
     [(UNROLLED PT_PROTO_MPLS, [IEEE8023, VLAN, MPLS_nlabels 1]), (UNROLLED PT_PROTO_VLAN, [IEEE8023, VLAN, VLAN, IPV4_noptions 3]), (UNROLLED PT_PROTO_ISID, [ETHERNET, ISID]), (UNROLLED PT_PROTO_PPPOE, [IEEE8023, VLAN, PPPOE]), (UNROLLED PT_PROTO_GRE4, [ETHERNET, IPV4_noptions 0, GRE4]), (UNROLLED PT_PROTO_GRE6, [ETHERNET, IPV6, GRE6])],
     [(UNROLLED PT_PROTO_MPLS, [IEEE8023, VLAN, MPLS_nlabels 1]), (UNROLLED PT_PROTO_VLAN, [IEEE8023, VLAN, VLAN, IPV4_noptions 4]), (UNROLLED PT_PROTO_ISID, [ETHERNET, ISID]), (UNROLLED PT_PROTO_PPPOE, [IEEE8023, VLAN, PPPOE]), (UNROLLED PT_PROTO_GRE4, [ETHERNET, IPV4_noptions 0, GRE4]), (UNROLLED PT_PROTO_GRE6, [ETHERNET, IPV6, GRE6])],
     [(UNROLLED PT_PROTO_MPLS, [IEEE8023, VLAN, MPLS_nlabels 1]), (UNROLLED PT_PROTO_VLAN, [IEEE8023, VLAN, VLAN, IPV4_noptions 5]), (UNROLLED PT_PROTO_ISID, [ETHERNET, ISID]), (UNROLLED PT_PROTO_PPPOE, [IEEE8023, VLAN, PPPOE]), (UNROLLED PT_PROTO_GRE4, [ETHERNET, IPV4_noptions 0, GRE4]), (UNROLLED PT_PROTO_GRE6, [ETHERNET, IPV6, GRE6])],
     [(UNROLLED PT_PROTO_MPLS, [IEEE8023, VLAN, MPLS_nlabels 1]), (UNROLLED PT_PROTO_VLAN, [IEEE8023, VLAN, VLAN, IPV4_noptions 6]), (UNROLLED PT_PROTO_ISID, [ETHERNET, ISID]), (UNROLLED PT_PROTO_PPPOE, [IEEE8023, VLAN, PPPOE]), (UNROLLED PT_PROTO_GRE4, [ETHERNET, IPV4_noptions 0, GRE4]), (UNROLLED PT_PROTO_GRE6, [ETHERNET, IPV6, GRE6])],
     [(UNROLLED PT_PROTO_MPLS, [IEEE8023, VLAN, MPLS_nlabels 1]), (UNROLLED PT_PROTO_VLAN, [IEEE8023, VLAN, VLAN, IPV4_noptions 7]), (UNROLLED PT_PROTO_ISID, [ETHERNET, ISID]), (UNROLLED PT_PROTO_PPPOE, [IEEE8023, VLAN, PPPOE]), (UNROLLED PT_PROTO_GRE4, [ETHERNET, IPV4_noptions 0, GRE4]), (UNROLLED PT_PROTO_GRE6, [ETHERNET, IPV6, GRE6])],
     [(UNROLLED PT_PROTO_MPLS, [IEEE8023, VLAN, MPLS_nlabels 1]), (UNROLLED PT_PROTO_VLAN, [IEEE8023, VLAN, VLAN, IPV4_noptions 8]), (UNROLLED PT_PROTO_ISID, [ETHERNET, ISID]), (UNROLLED PT_PROTO_PPPOE, [IEEE8023, VLAN, PPPOE]), (UNROLLED PT_PROTO_GRE4, [ETHERNET, IPV4_noptions 0, GRE4]), (UNROLLED PT_PROTO_GRE6, [ETHERNET, IPV6, GRE6])],
     [(UNROLLED PT_PROTO_MPLS, [IEEE8023, VLAN, MPLS_nlabels 1]), (UNROLLED PT_PROTO_VLAN, [IEEE8023, VLAN, VLAN, IPV4_noptions 9]), (UNROLLED PT_PROTO_ISID, [ETHERNET, ISID]), (UNROLLED PT_PROTO_PPPOE, [IEEE8023, VLAN, PPPOE]), (UNROLLED PT_PROTO_GRE4, [ETHERNET, IPV4_noptions 0, GRE4]), (UNROLLED PT_PROTO_GRE6, [ETHERNET, IPV6, GRE6])],
     [(UNROLLED PT_PROTO_MPLS, [IEEE8023, VLAN, MPLS_nlabels 1]), (UNROLLED PT_PROTO_VLAN, [IEEE8023, VLAN, VLAN, IPV4_noptions 10]), (UNROLLED PT_PROTO_ISID, [ETHERNET, ISID]), (UNROLLED PT_PROTO_PPPOE, [IEEE8023, VLAN, PPPOE]), (UNROLLED PT_PROTO_GRE4, [ETHERNET, IPV4_noptions 0, GRE4]), (UNROLLED PT_PROTO_GRE6, [ETHERNET, IPV6, GRE6])],
     [(UNROLLED PT_PROTO_MPLS, [IEEE8023, VLAN, MPLS_nlabels 1]), (UNROLLED PT_PROTO_VLAN, [IEEE8023, VLAN, VLAN, IPV4_noptions 11]), (UNROLLED PT_PROTO_ISID, [ETHERNET, ISID]), (UNROLLED PT_PROTO_PPPOE, [IEEE8023, VLAN, PPPOE]), (UNROLLED PT_PROTO_GRE4, [ETHERNET, IPV4_noptions 0, GRE4]), (UNROLLED PT_PROTO_GRE6, [ETHERNET, IPV6, GRE6])],
     [(UNROLLED PT_PROTO_MPLS, [IEEE8023, VLAN, MPLS_nlabels 1]), (UNROLLED PT_PROTO_VLAN, [IEEE8023, VLAN, VLAN, IPV4_noptions 12]), (UNROLLED PT_PROTO_ISID, [ETHERNET, ISID]), (UNROLLED PT_PROTO_PPPOE, [IEEE8023, VLAN, PPPOE]), (UNROLLED PT_PROTO_GRE4, [ETHERNET, IPV4_noptions 0, GRE4]), (UNROLLED PT_PROTO_GRE6, [ETHERNET, IPV6, GRE6])],
     [(UNROLLED PT_PROTO_MPLS, [IEEE8023, VLAN, MPLS_nlabels 1]), (UNROLLED PT_PROTO_VLAN, [IEEE8023, VLAN, VLAN, IPV4_noptions 13]), (UNROLLED PT_PROTO_ISID, [ETHERNET, ISID]), (UNROLLED PT_PROTO_PPPOE, [IEEE8023, VLAN, PPPOE]), (UNROLLED PT_PROTO_GRE4, [ETHERNET, IPV4_noptions 0, GRE4]), (UNROLLED PT_PROTO_GRE6, [ETHERNET, IPV6, GRE6])],
     [(UNROLLED PT_PROTO_MPLS, [IEEE8023, VLAN, MPLS_nlabels 1]), (UNROLLED PT_PROTO_VLAN, [IEEE8023, VLAN, VLAN, IPV4_noptions 14]), (UNROLLED PT_PROTO_ISID, [ETHERNET, ISID]), (UNROLLED PT_PROTO_PPPOE, [IEEE8023, VLAN, PPPOE]), (UNROLLED PT_PROTO_GRE4, [ETHERNET, IPV4_noptions 0, GRE4]), (UNROLLED PT_PROTO_GRE6, [ETHERNET, IPV6, GRE6])],
     [(UNROLLED PT_PROTO_MPLS, [IEEE8023, VLAN, MPLS_nlabels 1]), (UNROLLED PT_PROTO_VLAN, [IEEE8023, VLAN, VLAN, IPV4_noptions 15]), (UNROLLED PT_PROTO_ISID, [ETHERNET, ISID]), (UNROLLED PT_PROTO_PPPOE, [IEEE8023, VLAN, PPPOE]), (UNROLLED PT_PROTO_GRE4, [ETHERNET, IPV4_noptions 0, GRE4]), (UNROLLED PT_PROTO_GRE6, [ETHERNET, IPV6, GRE6])],
     [(UNROLLED PT_PROTO_MPLS, [ETHERNET, VLAN, VLAN, MPLS_nlabels 1]), (UNROLLED PT_PROTO_ISID, [ETHERNET, ISID]), (UNROLLED PT_PROTO_PPPOE, [ETHERNET, VLAN, VLAN, PPPOE]), (UNROLLED PT_PROTO_GRE4, [ETHERNET, IPV4_noptions 0, GRE4]), (UNROLLED PT_PROTO_GRE6, [ETHERNET, IPV6, GRE6])],
     [(UNROLLED PT_PROTO_MPLS, [ETHERNET, VLAN, VLAN, MPLS_nlabels 1]), (UNROLLED PT_PROTO_ISID, [ETHERNET, ISID]), (UNROLLED PT_PROTO_PPPOE, [ETHERNET, VLAN, VLAN, PPPOE]), (UNROLLED PT_PROTO_GRE4, [ETHERNET, IPV4_noptions 0, GRE4]), (UNROLLED PT_PROTO_GRE6, [ETHERNET, IPV6, GRE6])],
     [(UNROLLED PT_PROTO_MPLS, [ETHERNET, VLAN, VLAN, MPLS_nlabels 1]), (UNROLLED PT_PROTO_ISID, [ETHERNET, ISID]), (UNROLLED PT_PROTO_PPPOE, [ETHERNET, VLAN, VLAN, PPPOE]), (UNROLLED PT_PROTO_GRE4, [ETHERNET, IPV4_noptions 0, GRE4]), (UNROLLED PT_PROTO_GRE6, [ETHERNET, IPV6, GRE6])],
     [(UNROLLED PT_PROTO_MPLS, [ETHERNET, VLAN, VLAN, MPLS_nlabels 1]), (UNROLLED PT_PROTO_ISID, [ETHERNET, ISID]), (UNROLLED PT_PROTO_PPPOE, [ETHERNET, VLAN, VLAN, PPPOE]), (UNROLLED PT_PROTO_GRE4, [ETHERNET, IPV4_noptions 0, GRE4]), (UNROLLED PT_PROTO_GRE6, [ETHERNET, IPV6, GRE6])],
     [(UNROLLED PT_PROTO_MPLS, [ETHERNET, VLAN, VLAN, MPLS_nlabels 1]), (UNROLLED PT_PROTO_ISID, [ETHERNET, ISID]), (UNROLLED PT_PROTO_PPPOE, [ETHERNET, VLAN, VLAN, PPPOE]), (UNROLLED PT_PROTO_GRE4, [ETHERNET, IPV4_noptions 0, GRE4]), (UNROLLED PT_PROTO_GRE6, [ETHERNET, IPV6, GRE6])],
     [(UNROLLED PT_PROTO_MPLS, [ETHERNET, VLAN, VLAN, MPLS_nlabels 1]), (UNROLLED PT_PROTO_ISID, [ETHERNET, ISID]), (UNROLLED PT_PROTO_PPPOE, [ETHERNET, VLAN, VLAN, PPPOE]), (UNROLLED PT_PROTO_GRE4, [ETHERNET, IPV4_noptions 0, GRE4]), (UNROLLED PT_PROTO_GRE6, [ETHERNET, IPV6, GRE6])],
     [(UNROLLED PT_PROTO_MPLS, [ETHERNET, VLAN, VLAN, MPLS_nlabels 1]), (UNROLLED PT_PROTO_ISID, [ETHERNET, ISID]), (UNROLLED PT_PROTO_PPPOE, [ETHERNET, VLAN, VLAN, PPPOE]), (UNROLLED PT_PROTO_GRE4, [ETHERNET, IPV4_noptions 0, GRE4]), (UNROLLED PT_PROTO_GRE6, [ETHERNET, IPV6, GRE6])],
     [(UNROLLED PT_PROTO_MPLS, [ETHERNET, VLAN, VLAN, MPLS_nlabels 1]), (UNROLLED PT_PROTO_ISID, [ETHERNET, ISID]), (UNROLLED PT_PROTO_PPPOE, [ETHERNET, VLAN, VLAN, PPPOE]), (UNROLLED PT_PROTO_GRE4, [ETHERNET, IPV4_noptions 0, GRE4]), (UNROLLED PT_PROTO_GRE6, [ETHERNET, IPV6, GRE6])],
     [(UNROLLED PT_PROTO_MPLS, [ETHERNET, VLAN, VLAN, MPLS_nlabels 1]), (UNROLLED PT_PROTO_ISID, [ETHERNET, ISID]), (UNROLLED PT_PROTO_PPPOE, [ETHERNET, VLAN, VLAN, PPPOE]), (UNROLLED PT_PROTO_GRE4, [ETHERNET, IPV4_noptions 0, GRE4]), (UNROLLED PT_PROTO_GRE6, [ETHERNET, IPV6, GRE6])],
     [(UNROLLED PT_PROTO_MPLS, [ETHERNET, VLAN, VLAN, MPLS_nlabels 1]), (UNROLLED PT_PROTO_ISID, [ETHERNET, ISID]), (UNROLLED PT_PROTO_PPPOE, [ETHERNET, VLAN, VLAN, PPPOE]), (UNROLLED PT_PROTO_GRE4, [ETHERNET, IPV4_noptions 0, GRE4]), (UNROLLED PT_PROTO_GRE6, [ETHERNET, IPV6, GRE6])],
     [(UNROLLED PT_PROTO_MPLS, [ETHERNET, VLAN, VLAN, MPLS_nlabels 1]), (UNROLLED PT_PROTO_ISID, [ETHERNET, ISID]), (UNROLLED PT_PROTO_PPPOE, [ETHERNET, VLAN, VLAN, PPPOE]), (UNROLLED PT_PROTO_GRE4, [ETHERNET, IPV4_noptions 0, GRE4]), (UNROLLED PT_PROTO_GRE6, [ETHERNET, IPV6, GRE6])],
     [(UNROLLED PT_PROTO_MPLS, [ETHERNET, VLAN, VLAN, MPLS_nlabels 1]), (UNROLLED PT_PROTO_ISID, [ETHERNET, ISID]), (UNROLLED PT_PROTO_PPPOE, [ETHERNET, VLAN, VLAN, PPPOE]), (UNROLLED PT_PROTO_GRE4, [ETHERNET, IPV4_noptions 0, GRE4]), (UNROLLED PT_PROTO_GRE6, [ETHERNET, IPV6, GRE6])],
     [(UNROLLED PT_PROTO_MPLS, [ETHERNET, VLAN, VLAN, MPLS_nlabels 1]), (UNROLLED PT_PROTO_ISID, [ETHERNET, ISID]), (UNROLLED PT_PROTO_PPPOE, [ETHERNET, VLAN, VLAN, PPPOE]), (UNROLLED PT_PROTO_GRE4, [ETHERNET, IPV4_noptions 0, GRE4]), (UNROLLED PT_PROTO_GRE6, [ETHERNET, IPV6, GRE6])],
     [(UNROLLED PT_PROTO_MPLS, [ETHERNET, VLAN, VLAN, MPLS_nlabels 1]), (UNROLLED PT_PROTO_ISID, [ETHERNET, ISID]), (UNROLLED PT_PROTO_PPPOE, [ETHERNET, VLAN, VLAN, PPPOE]), (UNROLLED PT_PROTO_GRE4, [ETHERNET, IPV4_noptions 0, GRE4]), (UNROLLED PT_PROTO_GRE6, [ETHERNET, IPV6, GRE6])],
     [(UNROLLED PT_PROTO_MPLS, [ETHERNET, VLAN, VLAN, MPLS_nlabels 1]), (UNROLLED PT_PROTO_ISID, [ETHERNET, ISID]), (UNROLLED PT_PROTO_PPPOE, [ETHERNET, VLAN, VLAN, PPPOE]), (UNROLLED PT_PROTO_GRE4, [ETHERNET, IPV4_noptions 0, GRE4]), (UNROLLED PT_PROTO_GRE6, [ETHERNET, IPV6, GRE6])],
     [(UNROLLED PT_PROTO_MPLS, [ETHERNET, VLAN, VLAN, MPLS_nlabels 1]), (UNROLLED PT_PROTO_ISID, [ETHERNET, ISID]), (UNROLLED PT_PROTO_PPPOE, [ETHERNET, VLAN, VLAN, PPPOE]), (UNROLLED PT_PROTO_GRE4, [ETHERNET, IPV4_noptions 0, GRE4]), (UNROLLED PT_PROTO_GRE6, [ETHERNET, IPV6, GRE6])],
     [(UNROLLED PT_PROTO_MPLS, [IEEE8023, VLAN, VLAN, MPLS_nlabels 1]), (UNROLLED PT_PROTO_ISID, [ETHERNET, ISID]), (UNROLLED PT_PROTO_PPPOE, [IEEE8023, VLAN, VLAN, PPPOE]), (UNROLLED PT_PROTO_GRE4, [ETHERNET, IPV4_noptions 0, GRE4]), (UNROLLED PT_PROTO_GRE6, [ETHERNET, IPV6, GRE6])],
     [(UNROLLED PT_PROTO_MPLS, [IEEE8023, VLAN, VLAN, MPLS_nlabels 1]), (UNROLLED PT_PROTO_ISID, [ETHERNET, ISID]), (UNROLLED PT_PROTO_PPPOE, [IEEE8023, VLAN, VLAN, PPPOE]), (UNROLLED PT_PROTO_GRE4, [ETHERNET, IPV4_noptions 0, GRE4]), (UNROLLED PT_PROTO_GRE6, [ETHERNET, IPV6, GRE6])],
     [(UNROLLED PT_PROTO_MPLS, [IEEE8023, VLAN, VLAN, MPLS_nlabels 1]), (UNROLLED PT_PROTO_ISID, [ETHERNET, ISID]), (UNROLLED PT_PROTO_PPPOE, [IEEE8023, VLAN, VLAN, PPPOE]), (UNROLLED PT_PROTO_GRE4, [ETHERNET, IPV4_noptions 0, GRE4]), (UNROLLED PT_PROTO_GRE6, [ETHERNET, IPV6, GRE6])],
     [(UNROLLED PT_PROTO_MPLS, [IEEE8023, VLAN, VLAN, MPLS_nlabels 1]), (UNROLLED PT_PROTO_ISID, [ETHERNET, ISID]), (UNROLLED PT_PROTO_PPPOE, [IEEE8023, VLAN, VLAN, PPPOE]), (UNROLLED PT_PROTO_GRE4, [ETHERNET, IPV4_noptions 0, GRE4]), (UNROLLED PT_PROTO_GRE6, [ETHERNET, IPV6, GRE6])],
     [(UNROLLED PT_PROTO_MPLS, [IEEE8023, VLAN, VLAN, MPLS_nlabels 1]), (UNROLLED PT_PROTO_ISID, [ETHERNET, ISID]), (UNROLLED PT_PROTO_PPPOE, [IEEE8023, VLAN, VLAN, PPPOE]), (UNROLLED PT_PROTO_GRE4, [ETHERNET, IPV4_noptions 0, GRE4]), (UNROLLED PT_PROTO_GRE6, [ETHERNET, IPV6, GRE6])],
     [(UNROLLED PT_PROTO_MPLS, [IEEE8023, VLAN, VLAN, MPLS_nlabels 1]), (UNROLLED PT_PROTO_ISID, [ETHERNET, ISID]), (UNROLLED PT_PROTO_PPPOE, [IEEE8023, VLAN, VLAN, PPPOE]), (UNROLLED PT_PROTO_GRE4, [ETHERNET, IPV4_noptions 0, GRE4]), (UNROLLED PT_PROTO_GRE6, [ETHERNET, IPV6, GRE6])],
     [(UNROLLED PT_PROTO_MPLS, [IEEE8023, VLAN, VLAN, MPLS_nlabels 1]), (UNROLLED PT_PROTO_ISID, [ETHERNET, ISID]), (UNROLLED PT_PROTO_PPPOE, [IEEE8023, VLAN, VLAN, PPPOE]), (UNROLLED PT_PROTO_GRE4, [ETHERNET, IPV4_noptions 0, GRE4]), (UNROLLED PT_PROTO_GRE6, [ETHERNET, IPV6, GRE6])],
     [(UNROLLED PT_PROTO_MPLS, [IEEE8023, VLAN, VLAN, MPLS_nlabels 1]), (UNROLLED PT_PROTO_ISID, [ETHERNET, ISID]), (UNROLLED PT_PROTO_PPPOE, [IEEE8023, VLAN, VLAN, PPPOE]), (UNROLLED PT_PROTO_GRE4, [ETHERNET, IPV4_noptions 0, GRE4]), (UNROLLED PT_PROTO_GRE6, [ETHERNET, IPV6, GRE6])],
     [(UNROLLED PT_PROTO_MPLS, [IEEE8023, VLAN, VLAN, MPLS_nlabels 1]), (UNROLLED PT_PROTO_ISID, [ETHERNET, ISID]), (UNROLLED PT_PROTO_PPPOE, [IEEE8023, VLAN, VLAN, PPPOE]), (UNROLLED PT_PROTO_GRE4, [ETHERNET, IPV4_noptions 0, GRE4]), (UNROLLED PT_PROTO_GRE6, [ETHERNET, IPV6, GRE6])],
     [(UNROLLED PT_PROTO_MPLS, [IEEE8023, VLAN, VLAN, MPLS_nlabels 1]), (UNROLLED PT_PROTO_ISID, [ETHERNET, ISID]), (UNROLLED PT_PROTO_PPPOE, [IEEE8023, VLAN, VLAN, PPPOE]), (UNROLLED PT_PROTO_GRE4, [ETHERNET, IPV4_noptions 0, GRE4]), (UNROLLED PT_PROTO_GRE6, [ETHERNET, IPV6, GRE6])],
     [(UNROLLED PT_PROTO_MPLS, [IEEE8023, VLAN, VLAN, MPLS_nlabels 1]), (UNROLLED PT_PROTO_ISID, [ETHERNET, ISID]), (UNROLLED PT_PROTO_PPPOE, [IEEE8023, VLAN, VLAN, PPPOE]), (UNROLLED PT_PROTO_GRE4, [ETHERNET, IPV4_noptions 0, GRE4]), (UNROLLED PT_PROTO_GRE6, [ETHERNET, IPV6, GRE6])],
     [(UNROLLED PT_PROTO_MPLS, [IEEE8023, VLAN, VLAN, MPLS_nlabels 1]), (UNROLLED PT_PROTO_ISID, [ETHERNET, ISID]), (UNROLLED PT_PROTO_PPPOE, [IEEE8023, VLAN, VLAN, PPPOE]), (UNROLLED PT_PROTO_GRE4, [ETHERNET, IPV4_noptions 0, GRE4]), (UNROLLED PT_PROTO_GRE6, [ETHERNET, IPV6, GRE6])],
     [(UNROLLED PT_PROTO_MPLS, [IEEE8023, VLAN, VLAN, MPLS_nlabels 1]), (UNROLLED PT_PROTO_ISID, [ETHERNET, ISID]), (UNROLLED PT_PROTO_PPPOE, [IEEE8023, VLAN, VLAN, PPPOE]), (UNROLLED PT_PROTO_GRE4, [ETHERNET, IPV4_noptions 0, GRE4]), (UNROLLED PT_PROTO_GRE6, [ETHERNET, IPV6, GRE6])],
     [(UNROLLED PT_PROTO_MPLS, [IEEE8023, VLAN, VLAN, MPLS_nlabels 1]), (UNROLLED PT_PROTO_ISID, [ETHERNET, ISID]), (UNROLLED PT_PROTO_PPPOE, [IEEE8023, VLAN, VLAN, PPPOE]), (UNROLLED PT_PROTO_GRE4, [ETHERNET, IPV4_noptions 0, GRE4]), (UNROLLED PT_PROTO_GRE6, [ETHERNET, IPV6, GRE6])],
     [(UNROLLED PT_PROTO_MPLS, [IEEE8023, VLAN, VLAN, MPLS_nlabels 1]), (UNROLLED PT_PROTO_ISID, [ETHERNET, ISID]), (UNROLLED PT_PROTO_PPPOE, [IEEE8023, VLAN, VLAN, PPPOE]), (UNROLLED PT_PROTO_GRE4, [ETHERNET, IPV4_noptions 0, GRE4]), (UNROLLED PT_PROTO_GRE6, [ETHERNET, IPV6, GRE6])],
     [(UNROLLED PT_PROTO_MPLS, [IEEE8023, VLAN, VLAN, MPLS_nlabels 1]), (UNROLLED PT_PROTO_ISID, [ETHERNET, ISID]), (UNROLLED PT_PROTO_PPPOE, [IEEE8023, VLAN, VLAN, PPPOE]), (UNROLLED PT_PROTO_GRE4, [ETHERNET, IPV4_noptions 0, GRE4]), (UNROLLED PT_PROTO_GRE6, [ETHERNET, IPV6, GRE6])],
     [(UNROLLED PT_PROTO_MPLS, [ETHERNET, MPLS_nlabels 1]), (UNROLLED PT_PROTO_VLAN, [ETHERNET, VLAN, IPV4_noptions 0, ICMPV4]), (UNROLLED PT_PROTO_ISID, [ETHERNET, ISID]), (UNROLLED PT_PROTO_PPPOE, [ETHERNET, PPPOE]), (UNROLLED PT_PROTO_GTPU4, [ETHERNET, IPV4_noptions 0, UDP, GTPU4]), (UNROLLED PT_PROTO_GTPU6, [ETHERNET, IPV6, UDP, GTPU6]), (UNROLLED PT_PROTO_GRE4, [ETHERNET, IPV4_noptions 0, GRE4]), (UNROLLED PT_PROTO_GRE6, [ETHERNET, IPV6, GRE6])],
     [(UNROLLED PT_PROTO_MPLS, [ETHERNET, MPLS_nlabels 1]), (UNROLLED PT_PROTO_VLAN, [ETHERNET, VLAN, IPV4_noptions 1, ICMPV4]), (UNROLLED PT_PROTO_ISID, [ETHERNET, ISID]), (UNROLLED PT_PROTO_PPPOE, [ETHERNET, PPPOE]), (UNROLLED PT_PROTO_GRE4, [ETHERNET, IPV4_noptions 0, GRE4]), (UNROLLED PT_PROTO_GRE6, [ETHERNET, IPV6, GRE6])],
     [(UNROLLED PT_PROTO_MPLS, [ETHERNET, MPLS_nlabels 1]), (UNROLLED PT_PROTO_VLAN, [ETHERNET, VLAN, IPV4_noptions 2, ICMPV4]), (UNROLLED PT_PROTO_ISID, [ETHERNET, ISID]), (UNROLLED PT_PROTO_PPPOE, [ETHERNET, PPPOE]), (UNROLLED PT_PROTO_GRE4, [ETHERNET, IPV4_noptions 0, GRE4]), (UNROLLED PT_PROTO_GRE6, [ETHERNET, IPV6, GRE6])],
     [(UNROLLED PT_PROTO_MPLS, [ETHERNET, MPLS_nlabels 1]), (UNROLLED PT_PROTO_VLAN, [ETHERNET, VLAN, IPV4_noptions 3, ICMPV4]), (UNROLLED PT_PROTO_ISID, [ETHERNET, ISID]), (UNROLLED PT_PROTO_PPPOE, [ETHERNET, PPPOE]), (UNROLLED PT_PROTO_GRE4, [ETHERNET, IPV4_noptions 0, GRE4]), (UNROLLED PT_PROTO_GRE6, [ETHERNET, IPV6, GRE6])],
     [(UNROLLED PT_PROTO_MPLS, [ETHERNET, MPLS_nlabels 1]), (UNROLLED PT_PROTO_VLAN, [ETHERNET, VLAN, IPV4_noptions 4, ICMPV4]), (UNROLLED PT_PROTO_ISID, [ETHERNET, ISID]), (UNROLLED PT_PROTO_PPPOE, [ETHERNET, PPPOE]), (UNROLLED PT_PROTO_GRE4, [ETHERNET, IPV4_noptions 0, GRE4]), (UNROLLED PT_PROTO_GRE6, [ETHERNET, IPV6, GRE6])],
     [(UNROLLED PT_PROTO_MPLS, [ETHERNET, MPLS_nlabels 1]), (UNROLLED PT_PROTO_VLAN, [ETHERNET, VLAN, IPV4_noptions 5, ICMPV4]), (UNROLLED PT_PROTO_ISID, [ETHERNET, ISID]), (UNROLLED PT_PROTO_PPPOE, [ETHERNET, PPPOE]), (UNROLLED PT_PROTO_GRE4, [ETHERNET, IPV4_noptions 0, GRE4]), (UNROLLED PT_PROTO_GRE6, [ETHERNET, IPV6, GRE6])],
     [(UNROLLED PT_PROTO_MPLS, [ETHERNET, MPLS_nlabels 1]), (UNROLLED PT_PROTO_VLAN, [ETHERNET, VLAN, IPV4_noptions 6, ICMPV4]), (UNROLLED PT_PROTO_ISID, [ETHERNET, ISID]), (UNROLLED PT_PROTO_PPPOE, [ETHERNET, PPPOE]), (UNROLLED PT_PROTO_GRE4, [ETHERNET, IPV4_noptions 0, GRE4]), (UNROLLED PT_PROTO_GRE6, [ETHERNET, IPV6, GRE6])],
     [(UNROLLED PT_PROTO_MPLS, [ETHERNET, MPLS_nlabels 1]), (UNROLLED PT_PROTO_VLAN, [ETHERNET, VLAN, IPV4_noptions 7, ICMPV4]), (UNROLLED PT_PROTO_ISID, [ETHERNET, ISID]), (UNROLLED PT_PROTO_PPPOE, [ETHERNET, PPPOE]), (UNROLLED PT_PROTO_GRE4, [ETHERNET, IPV4_noptions 0, GRE4]), (UNROLLED PT_PROTO_GRE6, [ETHERNET, IPV6, GRE6])],
     [(UNROLLED PT_PROTO_MPLS, [ETHERNET, MPLS_nlabels 1]), (UNROLLED PT_PROTO_VLAN, [ETHERNET, VLAN, IPV4_noptions 8, ICMPV4]), (UNROLLED PT_PROTO_ISID, [ETHERNET, ISID]), (UNROLLED PT_PROTO_PPPOE, [ETHERNET, PPPOE]), (UNROLLED PT_PROTO_GRE4, [ETHERNET, IPV4_noptions 0, GRE4]), (UNROLLED PT_PROTO_GRE6, [ETHERNET, IPV6, GRE6])],
     [(UNROLLED PT_PROTO_MPLS, [ETHERNET, MPLS_nlabels 1]), (UNROLLED PT_PROTO_VLAN, [ETHERNET, VLAN, IPV4_noptions 9, ICMPV4]), (UNROLLED PT_PROTO_ISID, [ETHERNET, ISID]), (UNROLLED PT_PROTO_PPPOE, [ETHERNET, PPPOE]), (UNROLLED PT_PROTO_GRE4, [ETHERNET, IPV4_noptions 0, GRE4]), (UNROLLED PT_PROTO_GRE6, [ETHERNET, IPV6, GRE6])],
     [(UNROLLED PT_PROTO_MPLS, [ETHERNET, MPLS_nlabels 1]), (UNROLLED PT_PROTO_VLAN, [ETHERNET, VLAN, IPV4_noptions 10, ICMPV4]), (UNROLLED PT_PROTO_ISID, [ETHERNET, ISID]), (UNROLLED PT_PROTO_PPPOE, [ETHERNET, PPPOE]), (UNROLLED PT_PROTO_GRE4, [ETHERNET, IPV4_noptions 0, GRE4]), (UNROLLED PT_PROTO_GRE6, [ETHERNET, IPV6, GRE6])],
     [(UNROLLED PT_PROTO_MPLS, [ETHERNET, MPLS_nlabels 1]), (UNROLLED PT_PROTO_VLAN, [ETHERNET, VLAN, IPV4_noptions 11, ICMPV4]), (UNROLLED PT_PROTO_ISID, [ETHERNET, ISID]), (UNROLLED PT_PROTO_PPPOE, [ETHERNET, PPPOE]), (UNROLLED PT_PROTO_GRE4, [ETHERNET, IPV4_noptions 0, GRE4]), (UNROLLED PT_PROTO_GRE6, [ETHERNET, IPV6, GRE6])],
     [(UNROLLED PT_PROTO_MPLS, [ETHERNET, MPLS_nlabels 1]), (UNROLLED PT_PROTO_VLAN, [ETHERNET, VLAN, IPV4_noptions 12, ICMPV4]), (UNROLLED PT_PROTO_ISID, [ETHERNET, ISID]), (UNROLLED PT_PROTO_PPPOE, [ETHERNET, PPPOE]), (UNROLLED PT_PROTO_GRE4, [ETHERNET, IPV4_noptions 0, GRE4]), (UNROLLED PT_PROTO_GRE6, [ETHERNET, IPV6, GRE6])],
     [(UNROLLED PT_PROTO_MPLS, [ETHERNET, MPLS_nlabels 1]), (UNROLLED PT_PROTO_VLAN, [ETHERNET, VLAN, IPV4_noptions 13, ICMPV4]), (UNROLLED PT_PROTO_ISID, [ETHERNET, ISID]), (UNROLLED PT_PROTO_PPPOE, [ETHERNET, PPPOE]), (UNROLLED PT_PROTO_GRE4, [ETHERNET, IPV4_noptions 0, GRE4]), (UNROLLED PT_PROTO_GRE6, [ETHERNET, IPV6, GRE6])],
     [(UNROLLED PT_PROTO_MPLS, [ETHERNET, MPLS_nlabels 1]), (UNROLLED PT_PROTO_VLAN, [ETHERNET, VLAN, IPV4_noptions 14, ICMPV4]), (UNROLLED PT_PROTO_ISID, [ETHERNET, ISID]), (UNROLLED PT_PROTO_PPPOE, [ETHERNET, PPPOE]), (UNROLLED PT_PROTO_GRE4, [ETHERNET, IPV4_noptions 0, GRE4]), (UNROLLED PT_PROTO_GRE6, [ETHERNET, IPV6, GRE6])],
     [(UNROLLED PT_PROTO_MPLS, [ETHERNET, MPLS_nlabels 1]), (UNROLLED PT_PROTO_VLAN, [ETHERNET, VLAN, IPV4_noptions 15, ICMPV4]), (UNROLLED PT_PROTO_ISID, [ETHERNET, ISID]), (UNROLLED PT_PROTO_PPPOE, [ETHERNET, PPPOE]), (UNROLLED PT_PROTO_GRE4, [ETHERNET, IPV4_noptions 0, GRE4]), (UNROLLED PT_PROTO_GRE6, [ETHERNET, IPV6, GRE6])],
     [],
     [],
     [],
     [],
     [],
     [],
     [],
     [],
     [],
     [],
     [],
     [],
     [],
     [],
     [],
     [],
     [],
     []]"

definition push_table_4 :: "(unrolled \<times> pkt_type) list list" where
  "push_table_4 =
    [[],
     [],
     [],
     [],
     [],
     [],
     [],
     [],
     [],
     [],
     [],
     [],
     [],
     [],
     [(UNROLLED PT_PROTO_MPLS, [IEEE8023, MPLS_nlabels 1]), (UNROLLED PT_PROTO_VLAN, [IEEE8023, VLAN, IPV4_noptions 0, ICMPV4]), (UNROLLED PT_PROTO_ISID, [ETHERNET, ISID]), (UNROLLED PT_PROTO_PPPOE, [IEEE8023, PPPOE]), (UNROLLED PT_PROTO_GTPU4, [IEEE8023, IPV4_noptions 0, UDP, GTPU4]), (UNROLLED PT_PROTO_GTPU6, [IEEE8023, IPV6, UDP, GTPU6]), (UNROLLED PT_PROTO_GRE4, [ETHERNET, IPV4_noptions 0, GRE4]), (UNROLLED PT_PROTO_GRE6, [ETHERNET, IPV6, GRE6])],
     [(UNROLLED PT_PROTO_MPLS, [IEEE8023, MPLS_nlabels 1]), (UNROLLED PT_PROTO_VLAN, [IEEE8023, VLAN, IPV4_noptions 1, ICMPV4]), (UNROLLED PT_PROTO_ISID, [ETHERNET, ISID]), (UNROLLED PT_PROTO_PPPOE, [IEEE8023, PPPOE]), (UNROLLED PT_PROTO_GRE4, [ETHERNET, IPV4_noptions 0, GRE4]), (UNROLLED PT_PROTO_GRE6, [ETHERNET, IPV6, GRE6])],
     [(UNROLLED PT_PROTO_MPLS, [IEEE8023, MPLS_nlabels 1]), (UNROLLED PT_PROTO_VLAN, [IEEE8023, VLAN, IPV4_noptions 2, ICMPV4]), (UNROLLED PT_PROTO_ISID, [ETHERNET, ISID]), (UNROLLED PT_PROTO_PPPOE, [IEEE8023, PPPOE]), (UNROLLED PT_PROTO_GRE4, [ETHERNET, IPV4_noptions 0, GRE4]), (UNROLLED PT_PROTO_GRE6, [ETHERNET, IPV6, GRE6])],
     [(UNROLLED PT_PROTO_MPLS, [IEEE8023, MPLS_nlabels 1]), (UNROLLED PT_PROTO_VLAN, [IEEE8023, VLAN, IPV4_noptions 3, ICMPV4]), (UNROLLED PT_PROTO_ISID, [ETHERNET, ISID]), (UNROLLED PT_PROTO_PPPOE, [IEEE8023, PPPOE]), (UNROLLED PT_PROTO_GRE4, [ETHERNET, IPV4_noptions 0, GRE4]), (UNROLLED PT_PROTO_GRE6, [ETHERNET, IPV6, GRE6])],
     [(UNROLLED PT_PROTO_MPLS, [IEEE8023, MPLS_nlabels 1]), (UNROLLED PT_PROTO_VLAN, [IEEE8023, VLAN, IPV4_noptions 4, ICMPV4]), (UNROLLED PT_PROTO_ISID, [ETHERNET, ISID]), (UNROLLED PT_PROTO_PPPOE, [IEEE8023, PPPOE]), (UNROLLED PT_PROTO_GRE4, [ETHERNET, IPV4_noptions 0, GRE4]), (UNROLLED PT_PROTO_GRE6, [ETHERNET, IPV6, GRE6])],
     [(UNROLLED PT_PROTO_MPLS, [IEEE8023, MPLS_nlabels 1]), (UNROLLED PT_PROTO_VLAN, [IEEE8023, VLAN, IPV4_noptions 5, ICMPV4]), (UNROLLED PT_PROTO_ISID, [ETHERNET, ISID]), (UNROLLED PT_PROTO_PPPOE, [IEEE8023, PPPOE]), (UNROLLED PT_PROTO_GRE4, [ETHERNET, IPV4_noptions 0, GRE4]), (UNROLLED PT_PROTO_GRE6, [ETHERNET, IPV6, GRE6])],
     [(UNROLLED PT_PROTO_MPLS, [IEEE8023, MPLS_nlabels 1]), (UNROLLED PT_PROTO_VLAN, [IEEE8023, VLAN, IPV4_noptions 6, ICMPV4]), (UNROLLED PT_PROTO_ISID, [ETHERNET, ISID]), (UNROLLED PT_PROTO_PPPOE, [IEEE8023, PPPOE]), (UNROLLED PT_PROTO_GRE4, [ETHERNET, IPV4_noptions 0, GRE4]), (UNROLLED PT_PROTO_GRE6, [ETHERNET, IPV6, GRE6])],
     [(UNROLLED PT_PROTO_MPLS, [IEEE8023, MPLS_nlabels 1]), (UNROLLED PT_PROTO_VLAN, [IEEE8023, VLAN, IPV4_noptions 7, ICMPV4]), (UNROLLED PT_PROTO_ISID, [ETHERNET, ISID]), (UNROLLED PT_PROTO_PPPOE, [IEEE8023, PPPOE]), (UNROLLED PT_PROTO_GRE4, [ETHERNET, IPV4_noptions 0, GRE4]), (UNROLLED PT_PROTO_GRE6, [ETHERNET, IPV6, GRE6])],
     [(UNROLLED PT_PROTO_MPLS, [IEEE8023, MPLS_nlabels 1]), (UNROLLED PT_PROTO_VLAN, [IEEE8023, VLAN, IPV4_noptions 8, ICMPV4]), (UNROLLED PT_PROTO_ISID, [ETHERNET, ISID]), (UNROLLED PT_PROTO_PPPOE, [IEEE8023, PPPOE]), (UNROLLED PT_PROTO_GRE4, [ETHERNET, IPV4_noptions 0, GRE4]), (UNROLLED PT_PROTO_GRE6, [ETHERNET, IPV6, GRE6])],
     [(UNROLLED PT_PROTO_MPLS, [IEEE8023, MPLS_nlabels 1]), (UNROLLED PT_PROTO_VLAN, [IEEE8023, VLAN, IPV4_noptions 9, ICMPV4]), (UNROLLED PT_PROTO_ISID, [ETHERNET, ISID]), (UNROLLED PT_PROTO_PPPOE, [IEEE8023, PPPOE]), (UNROLLED PT_PROTO_GRE4, [ETHERNET, IPV4_noptions 0, GRE4]), (UNROLLED PT_PROTO_GRE6, [ETHERNET, IPV6, GRE6])],
     [(UNROLLED PT_PROTO_MPLS, [IEEE8023, MPLS_nlabels 1]), (UNROLLED PT_PROTO_VLAN, [IEEE8023, VLAN, IPV4_noptions 10, ICMPV4]), (UNROLLED PT_PROTO_ISID, [ETHERNET, ISID]), (UNROLLED PT_PROTO_PPPOE, [IEEE8023, PPPOE]), (UNROLLED PT_PROTO_GRE4, [ETHERNET, IPV4_noptions 0, GRE4]), (UNROLLED PT_PROTO_GRE6, [ETHERNET, IPV6, GRE6])],
     [(UNROLLED PT_PROTO_MPLS, [IEEE8023, MPLS_nlabels 1]), (UNROLLED PT_PROTO_VLAN, [IEEE8023, VLAN, IPV4_noptions 11, ICMPV4]), (UNROLLED PT_PROTO_ISID, [ETHERNET, ISID]), (UNROLLED PT_PROTO_PPPOE, [IEEE8023, PPPOE]), (UNROLLED PT_PROTO_GRE4, [ETHERNET, IPV4_noptions 0, GRE4]), (UNROLLED PT_PROTO_GRE6, [ETHERNET, IPV6, GRE6])],
     [(UNROLLED PT_PROTO_MPLS, [IEEE8023, MPLS_nlabels 1]), (UNROLLED PT_PROTO_VLAN, [IEEE8023, VLAN, IPV4_noptions 12, ICMPV4]), (UNROLLED PT_PROTO_ISID, [ETHERNET, ISID]), (UNROLLED PT_PROTO_PPPOE, [IEEE8023, PPPOE]), (UNROLLED PT_PROTO_GRE4, [ETHERNET, IPV4_noptions 0, GRE4]), (UNROLLED PT_PROTO_GRE6, [ETHERNET, IPV6, GRE6])],
     [(UNROLLED PT_PROTO_MPLS, [IEEE8023, MPLS_nlabels 1]), (UNROLLED PT_PROTO_VLAN, [IEEE8023, VLAN, IPV4_noptions 13, ICMPV4]), (UNROLLED PT_PROTO_ISID, [ETHERNET, ISID]), (UNROLLED PT_PROTO_PPPOE, [IEEE8023, PPPOE]), (UNROLLED PT_PROTO_GRE4, [ETHERNET, IPV4_noptions 0, GRE4]), (UNROLLED PT_PROTO_GRE6, [ETHERNET, IPV6, GRE6])],
     [(UNROLLED PT_PROTO_MPLS, [IEEE8023, MPLS_nlabels 1]), (UNROLLED PT_PROTO_VLAN, [IEEE8023, VLAN, IPV4_noptions 14, ICMPV4]), (UNROLLED PT_PROTO_ISID, [ETHERNET, ISID]), (UNROLLED PT_PROTO_PPPOE, [IEEE8023, PPPOE]), (UNROLLED PT_PROTO_GRE4, [ETHERNET, IPV4_noptions 0, GRE4]), (UNROLLED PT_PROTO_GRE6, [ETHERNET, IPV6, GRE6])],
     [(UNROLLED PT_PROTO_MPLS, [IEEE8023, MPLS_nlabels 1]), (UNROLLED PT_PROTO_VLAN, [IEEE8023, VLAN, IPV4_noptions 15, ICMPV4]), (UNROLLED PT_PROTO_ISID, [ETHERNET, ISID]), (UNROLLED PT_PROTO_PPPOE, [IEEE8023, PPPOE]), (UNROLLED PT_PROTO_GRE4, [ETHERNET, IPV4_noptions 0, GRE4]), (UNROLLED PT_PROTO_GRE6, [ETHERNET, IPV6, GRE6])],
     [(UNROLLED PT_PROTO_MPLS, [ETHERNET, VLAN, MPLS_nlabels 1]), (UNROLLED PT_PROTO_VLAN, [ETHERNET, VLAN, VLAN, IPV4_noptions 0, ICMPV4]), (UNROLLED PT_PROTO_ISID, [ETHERNET, ISID]), (UNROLLED PT_PROTO_PPPOE, [ETHERNET, VLAN, PPPOE]), (UNROLLED PT_PROTO_GRE4, [ETHERNET, IPV4_noptions 0, GRE4]), (UNROLLED PT_PROTO_GRE6, [ETHERNET, IPV6, GRE6])],
     [(UNROLLED PT_PROTO_MPLS, [ETHERNET, VLAN, MPLS_nlabels 1]), (UNROLLED PT_PROTO_VLAN, [ETHERNET, VLAN, VLAN, IPV4_noptions 1, ICMPV4]), (UNROLLED PT_PROTO_ISID, [ETHERNET, ISID]), (UNROLLED PT_PROTO_PPPOE, [ETHERNET, VLAN, PPPOE]), (UNROLLED PT_PROTO_GRE4, [ETHERNET, IPV4_noptions 0, GRE4]), (UNROLLED PT_PROTO_GRE6, [ETHERNET, IPV6, GRE6])],
     [(UNROLLED PT_PROTO_MPLS, [ETHERNET, VLAN, MPLS_nlabels 1]), (UNROLLED PT_PROTO_VLAN, [ETHERNET, VLAN, VLAN, IPV4_noptions 2, ICMPV4]), (UNROLLED PT_PROTO_ISID, [ETHERNET, ISID]), (UNROLLED PT_PROTO_PPPOE, [ETHERNET, VLAN, PPPOE]), (UNROLLED PT_PROTO_GRE4, [ETHERNET, IPV4_noptions 0, GRE4]), (UNROLLED PT_PROTO_GRE6, [ETHERNET, IPV6, GRE6])],
     [(UNROLLED PT_PROTO_MPLS, [ETHERNET, VLAN, MPLS_nlabels 1]), (UNROLLED PT_PROTO_VLAN, [ETHERNET, VLAN, VLAN, IPV4_noptions 3, ICMPV4]), (UNROLLED PT_PROTO_ISID, [ETHERNET, ISID]), (UNROLLED PT_PROTO_PPPOE, [ETHERNET, VLAN, PPPOE]), (UNROLLED PT_PROTO_GRE4, [ETHERNET, IPV4_noptions 0, GRE4]), (UNROLLED PT_PROTO_GRE6, [ETHERNET, IPV6, GRE6])],
     [(UNROLLED PT_PROTO_MPLS, [ETHERNET, VLAN, MPLS_nlabels 1]), (UNROLLED PT_PROTO_VLAN, [ETHERNET, VLAN, VLAN, IPV4_noptions 4, ICMPV4]), (UNROLLED PT_PROTO_ISID, [ETHERNET, ISID]), (UNROLLED PT_PROTO_PPPOE, [ETHERNET, VLAN, PPPOE]), (UNROLLED PT_PROTO_GRE4, [ETHERNET, IPV4_noptions 0, GRE4]), (UNROLLED PT_PROTO_GRE6, [ETHERNET, IPV6, GRE6])],
     [(UNROLLED PT_PROTO_MPLS, [ETHERNET, VLAN, MPLS_nlabels 1]), (UNROLLED PT_PROTO_VLAN, [ETHERNET, VLAN, VLAN, IPV4_noptions 5, ICMPV4]), (UNROLLED PT_PROTO_ISID, [ETHERNET, ISID]), (UNROLLED PT_PROTO_PPPOE, [ETHERNET, VLAN, PPPOE]), (UNROLLED PT_PROTO_GRE4, [ETHERNET, IPV4_noptions 0, GRE4]), (UNROLLED PT_PROTO_GRE6, [ETHERNET, IPV6, GRE6])],
     [(UNROLLED PT_PROTO_MPLS, [ETHERNET, VLAN, MPLS_nlabels 1]), (UNROLLED PT_PROTO_VLAN, [ETHERNET, VLAN, VLAN, IPV4_noptions 6, ICMPV4]), (UNROLLED PT_PROTO_ISID, [ETHERNET, ISID]), (UNROLLED PT_PROTO_PPPOE, [ETHERNET, VLAN, PPPOE]), (UNROLLED PT_PROTO_GRE4, [ETHERNET, IPV4_noptions 0, GRE4]), (UNROLLED PT_PROTO_GRE6, [ETHERNET, IPV6, GRE6])],
     [(UNROLLED PT_PROTO_MPLS, [ETHERNET, VLAN, MPLS_nlabels 1]), (UNROLLED PT_PROTO_VLAN, [ETHERNET, VLAN, VLAN, IPV4_noptions 7, ICMPV4]), (UNROLLED PT_PROTO_ISID, [ETHERNET, ISID]), (UNROLLED PT_PROTO_PPPOE, [ETHERNET, VLAN, PPPOE]), (UNROLLED PT_PROTO_GRE4, [ETHERNET, IPV4_noptions 0, GRE4]), (UNROLLED PT_PROTO_GRE6, [ETHERNET, IPV6, GRE6])],
     [(UNROLLED PT_PROTO_MPLS, [ETHERNET, VLAN, MPLS_nlabels 1]), (UNROLLED PT_PROTO_VLAN, [ETHERNET, VLAN, VLAN, IPV4_noptions 8, ICMPV4]), (UNROLLED PT_PROTO_ISID, [ETHERNET, ISID]), (UNROLLED PT_PROTO_PPPOE, [ETHERNET, VLAN, PPPOE]), (UNROLLED PT_PROTO_GRE4, [ETHERNET, IPV4_noptions 0, GRE4]), (UNROLLED PT_PROTO_GRE6, [ETHERNET, IPV6, GRE6])],
     [(UNROLLED PT_PROTO_MPLS, [ETHERNET, VLAN, MPLS_nlabels 1]), (UNROLLED PT_PROTO_VLAN, [ETHERNET, VLAN, VLAN, IPV4_noptions 9, ICMPV4]), (UNROLLED PT_PROTO_ISID, [ETHERNET, ISID]), (UNROLLED PT_PROTO_PPPOE, [ETHERNET, VLAN, PPPOE]), (UNROLLED PT_PROTO_GRE4, [ETHERNET, IPV4_noptions 0, GRE4]), (UNROLLED PT_PROTO_GRE6, [ETHERNET, IPV6, GRE6])],
     [(UNROLLED PT_PROTO_MPLS, [ETHERNET, VLAN, MPLS_nlabels 1]), (UNROLLED PT_PROTO_VLAN, [ETHERNET, VLAN, VLAN, IPV4_noptions 10, ICMPV4]), (UNROLLED PT_PROTO_ISID, [ETHERNET, ISID]), (UNROLLED PT_PROTO_PPPOE, [ETHERNET, VLAN, PPPOE]), (UNROLLED PT_PROTO_GRE4, [ETHERNET, IPV4_noptions 0, GRE4]), (UNROLLED PT_PROTO_GRE6, [ETHERNET, IPV6, GRE6])],
     [(UNROLLED PT_PROTO_MPLS, [ETHERNET, VLAN, MPLS_nlabels 1]), (UNROLLED PT_PROTO_VLAN, [ETHERNET, VLAN, VLAN, IPV4_noptions 11, ICMPV4]), (UNROLLED PT_PROTO_ISID, [ETHERNET, ISID]), (UNROLLED PT_PROTO_PPPOE, [ETHERNET, VLAN, PPPOE]), (UNROLLED PT_PROTO_GRE4, [ETHERNET, IPV4_noptions 0, GRE4]), (UNROLLED PT_PROTO_GRE6, [ETHERNET, IPV6, GRE6])],
     [(UNROLLED PT_PROTO_MPLS, [ETHERNET, VLAN, MPLS_nlabels 1]), (UNROLLED PT_PROTO_VLAN, [ETHERNET, VLAN, VLAN, IPV4_noptions 12, ICMPV4]), (UNROLLED PT_PROTO_ISID, [ETHERNET, ISID]), (UNROLLED PT_PROTO_PPPOE, [ETHERNET, VLAN, PPPOE]), (UNROLLED PT_PROTO_GRE4, [ETHERNET, IPV4_noptions 0, GRE4]), (UNROLLED PT_PROTO_GRE6, [ETHERNET, IPV6, GRE6])],
     [(UNROLLED PT_PROTO_MPLS, [ETHERNET, VLAN, MPLS_nlabels 1]), (UNROLLED PT_PROTO_VLAN, [ETHERNET, VLAN, VLAN, IPV4_noptions 13, ICMPV4]), (UNROLLED PT_PROTO_ISID, [ETHERNET, ISID]), (UNROLLED PT_PROTO_PPPOE, [ETHERNET, VLAN, PPPOE]), (UNROLLED PT_PROTO_GRE4, [ETHERNET, IPV4_noptions 0, GRE4]), (UNROLLED PT_PROTO_GRE6, [ETHERNET, IPV6, GRE6])],
     [(UNROLLED PT_PROTO_MPLS, [ETHERNET, VLAN, MPLS_nlabels 1]), (UNROLLED PT_PROTO_VLAN, [ETHERNET, VLAN, VLAN, IPV4_noptions 14, ICMPV4]), (UNROLLED PT_PROTO_ISID, [ETHERNET, ISID]), (UNROLLED PT_PROTO_PPPOE, [ETHERNET, VLAN, PPPOE]), (UNROLLED PT_PROTO_GRE4, [ETHERNET, IPV4_noptions 0, GRE4]), (UNROLLED PT_PROTO_GRE6, [ETHERNET, IPV6, GRE6])],
     [(UNROLLED PT_PROTO_MPLS, [ETHERNET, VLAN, MPLS_nlabels 1]), (UNROLLED PT_PROTO_VLAN, [ETHERNET, VLAN, VLAN, IPV4_noptions 15, ICMPV4]), (UNROLLED PT_PROTO_ISID, [ETHERNET, ISID]), (UNROLLED PT_PROTO_PPPOE, [ETHERNET, VLAN, PPPOE]), (UNROLLED PT_PROTO_GRE4, [ETHERNET, IPV4_noptions 0, GRE4]), (UNROLLED PT_PROTO_GRE6, [ETHERNET, IPV6, GRE6])],
     [(UNROLLED PT_PROTO_MPLS, [IEEE8023, VLAN, MPLS_nlabels 1]), (UNROLLED PT_PROTO_VLAN, [IEEE8023, VLAN, VLAN, IPV4_noptions 0, ICMPV4]), (UNROLLED PT_PROTO_ISID, [ETHERNET, ISID]), (UNROLLED PT_PROTO_PPPOE, [IEEE8023, VLAN, PPPOE]), (UNROLLED PT_PROTO_GRE4, [ETHERNET, IPV4_noptions 0, GRE4]), (UNROLLED PT_PROTO_GRE6, [ETHERNET, IPV6, GRE6])],
     [(UNROLLED PT_PROTO_MPLS, [IEEE8023, VLAN, MPLS_nlabels 1]), (UNROLLED PT_PROTO_VLAN, [IEEE8023, VLAN, VLAN, IPV4_noptions 1, ICMPV4]), (UNROLLED PT_PROTO_ISID, [ETHERNET, ISID]), (UNROLLED PT_PROTO_PPPOE, [IEEE8023, VLAN, PPPOE]), (UNROLLED PT_PROTO_GRE4, [ETHERNET, IPV4_noptions 0, GRE4]), (UNROLLED PT_PROTO_GRE6, [ETHERNET, IPV6, GRE6])],
     [(UNROLLED PT_PROTO_MPLS, [IEEE8023, VLAN, MPLS_nlabels 1]), (UNROLLED PT_PROTO_VLAN, [IEEE8023, VLAN, VLAN, IPV4_noptions 2, ICMPV4]), (UNROLLED PT_PROTO_ISID, [ETHERNET, ISID]), (UNROLLED PT_PROTO_PPPOE, [IEEE8023, VLAN, PPPOE]), (UNROLLED PT_PROTO_GRE4, [ETHERNET, IPV4_noptions 0, GRE4]), (UNROLLED PT_PROTO_GRE6, [ETHERNET, IPV6, GRE6])],
     [(UNROLLED PT_PROTO_MPLS, [IEEE8023, VLAN, MPLS_nlabels 1]), (UNROLLED PT_PROTO_VLAN, [IEEE8023, VLAN, VLAN, IPV4_noptions 3, ICMPV4]), (UNROLLED PT_PROTO_ISID, [ETHERNET, ISID]), (UNROLLED PT_PROTO_PPPOE, [IEEE8023, VLAN, PPPOE]), (UNROLLED PT_PROTO_GRE4, [ETHERNET, IPV4_noptions 0, GRE4]), (UNROLLED PT_PROTO_GRE6, [ETHERNET, IPV6, GRE6])],
     [(UNROLLED PT_PROTO_MPLS, [IEEE8023, VLAN, MPLS_nlabels 1]), (UNROLLED PT_PROTO_VLAN, [IEEE8023, VLAN, VLAN, IPV4_noptions 4, ICMPV4]), (UNROLLED PT_PROTO_ISID, [ETHERNET, ISID]), (UNROLLED PT_PROTO_PPPOE, [IEEE8023, VLAN, PPPOE]), (UNROLLED PT_PROTO_GRE4, [ETHERNET, IPV4_noptions 0, GRE4]), (UNROLLED PT_PROTO_GRE6, [ETHERNET, IPV6, GRE6])],
     [(UNROLLED PT_PROTO_MPLS, [IEEE8023, VLAN, MPLS_nlabels 1]), (UNROLLED PT_PROTO_VLAN, [IEEE8023, VLAN, VLAN, IPV4_noptions 5, ICMPV4]), (UNROLLED PT_PROTO_ISID, [ETHERNET, ISID]), (UNROLLED PT_PROTO_PPPOE, [IEEE8023, VLAN, PPPOE]), (UNROLLED PT_PROTO_GRE4, [ETHERNET, IPV4_noptions 0, GRE4]), (UNROLLED PT_PROTO_GRE6, [ETHERNET, IPV6, GRE6])],
     [(UNROLLED PT_PROTO_MPLS, [IEEE8023, VLAN, MPLS_nlabels 1]), (UNROLLED PT_PROTO_VLAN, [IEEE8023, VLAN, VLAN, IPV4_noptions 6, ICMPV4]), (UNROLLED PT_PROTO_ISID, [ETHERNET, ISID]), (UNROLLED PT_PROTO_PPPOE, [IEEE8023, VLAN, PPPOE]), (UNROLLED PT_PROTO_GRE4, [ETHERNET, IPV4_noptions 0, GRE4]), (UNROLLED PT_PROTO_GRE6, [ETHERNET, IPV6, GRE6])],
     [(UNROLLED PT_PROTO_MPLS, [IEEE8023, VLAN, MPLS_nlabels 1]), (UNROLLED PT_PROTO_VLAN, [IEEE8023, VLAN, VLAN, IPV4_noptions 7, ICMPV4]), (UNROLLED PT_PROTO_ISID, [ETHERNET, ISID]), (UNROLLED PT_PROTO_PPPOE, [IEEE8023, VLAN, PPPOE]), (UNROLLED PT_PROTO_GRE4, [ETHERNET, IPV4_noptions 0, GRE4]), (UNROLLED PT_PROTO_GRE6, [ETHERNET, IPV6, GRE6])],
     [(UNROLLED PT_PROTO_MPLS, [IEEE8023, VLAN, MPLS_nlabels 1]), (UNROLLED PT_PROTO_VLAN, [IEEE8023, VLAN, VLAN, IPV4_noptions 8, ICMPV4]), (UNROLLED PT_PROTO_ISID, [ETHERNET, ISID]), (UNROLLED PT_PROTO_PPPOE, [IEEE8023, VLAN, PPPOE]), (UNROLLED PT_PROTO_GRE4, [ETHERNET, IPV4_noptions 0, GRE4]), (UNROLLED PT_PROTO_GRE6, [ETHERNET, IPV6, GRE6])],
     [(UNROLLED PT_PROTO_MPLS, [IEEE8023, VLAN, MPLS_nlabels 1]), (UNROLLED PT_PROTO_VLAN, [IEEE8023, VLAN, VLAN, IPV4_noptions 9, ICMPV4]), (UNROLLED PT_PROTO_ISID, [ETHERNET, ISID]), (UNROLLED PT_PROTO_PPPOE, [IEEE8023, VLAN, PPPOE]), (UNROLLED PT_PROTO_GRE4, [ETHERNET, IPV4_noptions 0, GRE4]), (UNROLLED PT_PROTO_GRE6, [ETHERNET, IPV6, GRE6])],
     [(UNROLLED PT_PROTO_MPLS, [IEEE8023, VLAN, MPLS_nlabels 1]), (UNROLLED PT_PROTO_VLAN, [IEEE8023, VLAN, VLAN, IPV4_noptions 10, ICMPV4]), (UNROLLED PT_PROTO_ISID, [ETHERNET, ISID]), (UNROLLED PT_PROTO_PPPOE, [IEEE8023, VLAN, PPPOE]), (UNROLLED PT_PROTO_GRE4, [ETHERNET, IPV4_noptions 0, GRE4]), (UNROLLED PT_PROTO_GRE6, [ETHERNET, IPV6, GRE6])],
     [(UNROLLED PT_PROTO_MPLS, [IEEE8023, VLAN, MPLS_nlabels 1]), (UNROLLED PT_PROTO_VLAN, [IEEE8023, VLAN, VLAN, IPV4_noptions 11, ICMPV4]), (UNROLLED PT_PROTO_ISID, [ETHERNET, ISID]), (UNROLLED PT_PROTO_PPPOE, [IEEE8023, VLAN, PPPOE]), (UNROLLED PT_PROTO_GRE4, [ETHERNET, IPV4_noptions 0, GRE4]), (UNROLLED PT_PROTO_GRE6, [ETHERNET, IPV6, GRE6])],
     [(UNROLLED PT_PROTO_MPLS, [IEEE8023, VLAN, MPLS_nlabels 1]), (UNROLLED PT_PROTO_VLAN, [IEEE8023, VLAN, VLAN, IPV4_noptions 12, ICMPV4]), (UNROLLED PT_PROTO_ISID, [ETHERNET, ISID]), (UNROLLED PT_PROTO_PPPOE, [IEEE8023, VLAN, PPPOE]), (UNROLLED PT_PROTO_GRE4, [ETHERNET, IPV4_noptions 0, GRE4]), (UNROLLED PT_PROTO_GRE6, [ETHERNET, IPV6, GRE6])],
     [(UNROLLED PT_PROTO_MPLS, [IEEE8023, VLAN, MPLS_nlabels 1]), (UNROLLED PT_PROTO_VLAN, [IEEE8023, VLAN, VLAN, IPV4_noptions 13, ICMPV4]), (UNROLLED PT_PROTO_ISID, [ETHERNET, ISID]), (UNROLLED PT_PROTO_PPPOE, [IEEE8023, VLAN, PPPOE]), (UNROLLED PT_PROTO_GRE4, [ETHERNET, IPV4_noptions 0, GRE4]), (UNROLLED PT_PROTO_GRE6, [ETHERNET, IPV6, GRE6])],
     [(UNROLLED PT_PROTO_MPLS, [IEEE8023, VLAN, MPLS_nlabels 1]), (UNROLLED PT_PROTO_VLAN, [IEEE8023, VLAN, VLAN, IPV4_noptions 14, ICMPV4]), (UNROLLED PT_PROTO_ISID, [ETHERNET, ISID]), (UNROLLED PT_PROTO_PPPOE, [IEEE8023, VLAN, PPPOE]), (UNROLLED PT_PROTO_GRE4, [ETHERNET, IPV4_noptions 0, GRE4]), (UNROLLED PT_PROTO_GRE6, [ETHERNET, IPV6, GRE6])],
     [(UNROLLED PT_PROTO_MPLS, [IEEE8023, VLAN, MPLS_nlabels 1]), (UNROLLED PT_PROTO_VLAN, [IEEE8023, VLAN, VLAN, IPV4_noptions 15, ICMPV4]), (UNROLLED PT_PROTO_ISID, [ETHERNET, ISID]), (UNROLLED PT_PROTO_PPPOE, [IEEE8023, VLAN, PPPOE]), (UNROLLED PT_PROTO_GRE4, [ETHERNET, IPV4_noptions 0, GRE4]), (UNROLLED PT_PROTO_GRE6, [ETHERNET, IPV6, GRE6])],
     [(UNROLLED PT_PROTO_MPLS, [ETHERNET, VLAN, VLAN, MPLS_nlabels 1]), (UNROLLED PT_PROTO_ISID, [ETHERNET, ISID]), (UNROLLED PT_PROTO_PPPOE, [ETHERNET, VLAN, VLAN, PPPOE]), (UNROLLED PT_PROTO_GRE4, [ETHERNET, IPV4_noptions 0, GRE4]), (UNROLLED PT_PROTO_GRE6, [ETHERNET, IPV6, GRE6])],
     [(UNROLLED PT_PROTO_MPLS, [ETHERNET, VLAN, VLAN, MPLS_nlabels 1]), (UNROLLED PT_PROTO_ISID, [ETHERNET, ISID]), (UNROLLED PT_PROTO_PPPOE, [ETHERNET, VLAN, VLAN, PPPOE]), (UNROLLED PT_PROTO_GRE4, [ETHERNET, IPV4_noptions 0, GRE4]), (UNROLLED PT_PROTO_GRE6, [ETHERNET, IPV6, GRE6])],
     [(UNROLLED PT_PROTO_MPLS, [ETHERNET, VLAN, VLAN, MPLS_nlabels 1]), (UNROLLED PT_PROTO_ISID, [ETHERNET, ISID]), (UNROLLED PT_PROTO_PPPOE, [ETHERNET, VLAN, VLAN, PPPOE]), (UNROLLED PT_PROTO_GRE4, [ETHERNET, IPV4_noptions 0, GRE4]), (UNROLLED PT_PROTO_GRE6, [ETHERNET, IPV6, GRE6])],
     [(UNROLLED PT_PROTO_MPLS, [ETHERNET, VLAN, VLAN, MPLS_nlabels 1]), (UNROLLED PT_PROTO_ISID, [ETHERNET, ISID]), (UNROLLED PT_PROTO_PPPOE, [ETHERNET, VLAN, VLAN, PPPOE]), (UNROLLED PT_PROTO_GRE4, [ETHERNET, IPV4_noptions 0, GRE4]), (UNROLLED PT_PROTO_GRE6, [ETHERNET, IPV6, GRE6])],
     [(UNROLLED PT_PROTO_MPLS, [ETHERNET, VLAN, VLAN, MPLS_nlabels 1]), (UNROLLED PT_PROTO_ISID, [ETHERNET, ISID]), (UNROLLED PT_PROTO_PPPOE, [ETHERNET, VLAN, VLAN, PPPOE]), (UNROLLED PT_PROTO_GRE4, [ETHERNET, IPV4_noptions 0, GRE4]), (UNROLLED PT_PROTO_GRE6, [ETHERNET, IPV6, GRE6])],
     [(UNROLLED PT_PROTO_MPLS, [ETHERNET, VLAN, VLAN, MPLS_nlabels 1]), (UNROLLED PT_PROTO_ISID, [ETHERNET, ISID]), (UNROLLED PT_PROTO_PPPOE, [ETHERNET, VLAN, VLAN, PPPOE]), (UNROLLED PT_PROTO_GRE4, [ETHERNET, IPV4_noptions 0, GRE4]), (UNROLLED PT_PROTO_GRE6, [ETHERNET, IPV6, GRE6])],
     [(UNROLLED PT_PROTO_MPLS, [ETHERNET, VLAN, VLAN, MPLS_nlabels 1]), (UNROLLED PT_PROTO_ISID, [ETHERNET, ISID]), (UNROLLED PT_PROTO_PPPOE, [ETHERNET, VLAN, VLAN, PPPOE]), (UNROLLED PT_PROTO_GRE4, [ETHERNET, IPV4_noptions 0, GRE4]), (UNROLLED PT_PROTO_GRE6, [ETHERNET, IPV6, GRE6])],
     [(UNROLLED PT_PROTO_MPLS, [ETHERNET, VLAN, VLAN, MPLS_nlabels 1]), (UNROLLED PT_PROTO_ISID, [ETHERNET, ISID]), (UNROLLED PT_PROTO_PPPOE, [ETHERNET, VLAN, VLAN, PPPOE]), (UNROLLED PT_PROTO_GRE4, [ETHERNET, IPV4_noptions 0, GRE4]), (UNROLLED PT_PROTO_GRE6, [ETHERNET, IPV6, GRE6])],
     [(UNROLLED PT_PROTO_MPLS, [ETHERNET, VLAN, VLAN, MPLS_nlabels 1]), (UNROLLED PT_PROTO_ISID, [ETHERNET, ISID]), (UNROLLED PT_PROTO_PPPOE, [ETHERNET, VLAN, VLAN, PPPOE]), (UNROLLED PT_PROTO_GRE4, [ETHERNET, IPV4_noptions 0, GRE4]), (UNROLLED PT_PROTO_GRE6, [ETHERNET, IPV6, GRE6])],
     [(UNROLLED PT_PROTO_MPLS, [ETHERNET, VLAN, VLAN, MPLS_nlabels 1]), (UNROLLED PT_PROTO_ISID, [ETHERNET, ISID]), (UNROLLED PT_PROTO_PPPOE, [ETHERNET, VLAN, VLAN, PPPOE]), (UNROLLED PT_PROTO_GRE4, [ETHERNET, IPV4_noptions 0, GRE4]), (UNROLLED PT_PROTO_GRE6, [ETHERNET, IPV6, GRE6])],
     [(UNROLLED PT_PROTO_MPLS, [ETHERNET, VLAN, VLAN, MPLS_nlabels 1]), (UNROLLED PT_PROTO_ISID, [ETHERNET, ISID]), (UNROLLED PT_PROTO_PPPOE, [ETHERNET, VLAN, VLAN, PPPOE]), (UNROLLED PT_PROTO_GRE4, [ETHERNET, IPV4_noptions 0, GRE4]), (UNROLLED PT_PROTO_GRE6, [ETHERNET, IPV6, GRE6])],
     [(UNROLLED PT_PROTO_MPLS, [ETHERNET, VLAN, VLAN, MPLS_nlabels 1]), (UNROLLED PT_PROTO_ISID, [ETHERNET, ISID]), (UNROLLED PT_PROTO_PPPOE, [ETHERNET, VLAN, VLAN, PPPOE]), (UNROLLED PT_PROTO_GRE4, [ETHERNET, IPV4_noptions 0, GRE4]), (UNROLLED PT_PROTO_GRE6, [ETHERNET, IPV6, GRE6])],
     [(UNROLLED PT_PROTO_MPLS, [ETHERNET, VLAN, VLAN, MPLS_nlabels 1]), (UNROLLED PT_PROTO_ISID, [ETHERNET, ISID]), (UNROLLED PT_PROTO_PPPOE, [ETHERNET, VLAN, VLAN, PPPOE]), (UNROLLED PT_PROTO_GRE4, [ETHERNET, IPV4_noptions 0, GRE4]), (UNROLLED PT_PROTO_GRE6, [ETHERNET, IPV6, GRE6])],
     [(UNROLLED PT_PROTO_MPLS, [ETHERNET, VLAN, VLAN, MPLS_nlabels 1]), (UNROLLED PT_PROTO_ISID, [ETHERNET, ISID]), (UNROLLED PT_PROTO_PPPOE, [ETHERNET, VLAN, VLAN, PPPOE]), (UNROLLED PT_PROTO_GRE4, [ETHERNET, IPV4_noptions 0, GRE4]), (UNROLLED PT_PROTO_GRE6, [ETHERNET, IPV6, GRE6])],
     [(UNROLLED PT_PROTO_MPLS, [ETHERNET, VLAN, VLAN, MPLS_nlabels 1]), (UNROLLED PT_PROTO_ISID, [ETHERNET, ISID]), (UNROLLED PT_PROTO_PPPOE, [ETHERNET, VLAN, VLAN, PPPOE]), (UNROLLED PT_PROTO_GRE4, [ETHERNET, IPV4_noptions 0, GRE4]), (UNROLLED PT_PROTO_GRE6, [ETHERNET, IPV6, GRE6])],
     [(UNROLLED PT_PROTO_MPLS, [ETHERNET, VLAN, VLAN, MPLS_nlabels 1]), (UNROLLED PT_PROTO_ISID, [ETHERNET, ISID]), (UNROLLED PT_PROTO_PPPOE, [ETHERNET, VLAN, VLAN, PPPOE]), (UNROLLED PT_PROTO_GRE4, [ETHERNET, IPV4_noptions 0, GRE4]), (UNROLLED PT_PROTO_GRE6, [ETHERNET, IPV6, GRE6])],
     [(UNROLLED PT_PROTO_MPLS, [IEEE8023, VLAN, VLAN, MPLS_nlabels 1]), (UNROLLED PT_PROTO_ISID, [ETHERNET, ISID]), (UNROLLED PT_PROTO_PPPOE, [IEEE8023, VLAN, VLAN, PPPOE]), (UNROLLED PT_PROTO_GRE4, [ETHERNET, IPV4_noptions 0, GRE4]), (UNROLLED PT_PROTO_GRE6, [ETHERNET, IPV6, GRE6])],
     [(UNROLLED PT_PROTO_MPLS, [IEEE8023, VLAN, VLAN, MPLS_nlabels 1]), (UNROLLED PT_PROTO_ISID, [ETHERNET, ISID]), (UNROLLED PT_PROTO_PPPOE, [IEEE8023, VLAN, VLAN, PPPOE]), (UNROLLED PT_PROTO_GRE4, [ETHERNET, IPV4_noptions 0, GRE4]), (UNROLLED PT_PROTO_GRE6, [ETHERNET, IPV6, GRE6])],
     [(UNROLLED PT_PROTO_MPLS, [IEEE8023, VLAN, VLAN, MPLS_nlabels 1]), (UNROLLED PT_PROTO_ISID, [ETHERNET, ISID]), (UNROLLED PT_PROTO_PPPOE, [IEEE8023, VLAN, VLAN, PPPOE]), (UNROLLED PT_PROTO_GRE4, [ETHERNET, IPV4_noptions 0, GRE4]), (UNROLLED PT_PROTO_GRE6, [ETHERNET, IPV6, GRE6])],
     [(UNROLLED PT_PROTO_MPLS, [IEEE8023, VLAN, VLAN, MPLS_nlabels 1]), (UNROLLED PT_PROTO_ISID, [ETHERNET, ISID]), (UNROLLED PT_PROTO_PPPOE, [IEEE8023, VLAN, VLAN, PPPOE]), (UNROLLED PT_PROTO_GRE4, [ETHERNET, IPV4_noptions 0, GRE4]), (UNROLLED PT_PROTO_GRE6, [ETHERNET, IPV6, GRE6])],
     [(UNROLLED PT_PROTO_MPLS, [IEEE8023, VLAN, VLAN, MPLS_nlabels 1]), (UNROLLED PT_PROTO_ISID, [ETHERNET, ISID]), (UNROLLED PT_PROTO_PPPOE, [IEEE8023, VLAN, VLAN, PPPOE]), (UNROLLED PT_PROTO_GRE4, [ETHERNET, IPV4_noptions 0, GRE4]), (UNROLLED PT_PROTO_GRE6, [ETHERNET, IPV6, GRE6])],
     [(UNROLLED PT_PROTO_MPLS, [IEEE8023, VLAN, VLAN, MPLS_nlabels 1]), (UNROLLED PT_PROTO_ISID, [ETHERNET, ISID]), (UNROLLED PT_PROTO_PPPOE, [IEEE8023, VLAN, VLAN, PPPOE]), (UNROLLED PT_PROTO_GRE4, [ETHERNET, IPV4_noptions 0, GRE4]), (UNROLLED PT_PROTO_GRE6, [ETHERNET, IPV6, GRE6])],
     [(UNROLLED PT_PROTO_MPLS, [IEEE8023, VLAN, VLAN, MPLS_nlabels 1]), (UNROLLED PT_PROTO_ISID, [ETHERNET, ISID]), (UNROLLED PT_PROTO_PPPOE, [IEEE8023, VLAN, VLAN, PPPOE]), (UNROLLED PT_PROTO_GRE4, [ETHERNET, IPV4_noptions 0, GRE4]), (UNROLLED PT_PROTO_GRE6, [ETHERNET, IPV6, GRE6])],
     [(UNROLLED PT_PROTO_MPLS, [IEEE8023, VLAN, VLAN, MPLS_nlabels 1]), (UNROLLED PT_PROTO_ISID, [ETHERNET, ISID]), (UNROLLED PT_PROTO_PPPOE, [IEEE8023, VLAN, VLAN, PPPOE]), (UNROLLED PT_PROTO_GRE4, [ETHERNET, IPV4_noptions 0, GRE4]), (UNROLLED PT_PROTO_GRE6, [ETHERNET, IPV6, GRE6])],
     [(UNROLLED PT_PROTO_MPLS, [IEEE8023, VLAN, VLAN, MPLS_nlabels 1]), (UNROLLED PT_PROTO_ISID, [ETHERNET, ISID]), (UNROLLED PT_PROTO_PPPOE, [IEEE8023, VLAN, VLAN, PPPOE]), (UNROLLED PT_PROTO_GRE4, [ETHERNET, IPV4_noptions 0, GRE4]), (UNROLLED PT_PROTO_GRE6, [ETHERNET, IPV6, GRE6])],
     [(UNROLLED PT_PROTO_MPLS, [IEEE8023, VLAN, VLAN, MPLS_nlabels 1]), (UNROLLED PT_PROTO_ISID, [ETHERNET, ISID]), (UNROLLED PT_PROTO_PPPOE, [IEEE8023, VLAN, VLAN, PPPOE]), (UNROLLED PT_PROTO_GRE4, [ETHERNET, IPV4_noptions 0, GRE4]), (UNROLLED PT_PROTO_GRE6, [ETHERNET, IPV6, GRE6])],
     [(UNROLLED PT_PROTO_MPLS, [IEEE8023, VLAN, VLAN, MPLS_nlabels 1]), (UNROLLED PT_PROTO_ISID, [ETHERNET, ISID]), (UNROLLED PT_PROTO_PPPOE, [IEEE8023, VLAN, VLAN, PPPOE]), (UNROLLED PT_PROTO_GRE4, [ETHERNET, IPV4_noptions 0, GRE4]), (UNROLLED PT_PROTO_GRE6, [ETHERNET, IPV6, GRE6])],
     [(UNROLLED PT_PROTO_MPLS, [IEEE8023, VLAN, VLAN, MPLS_nlabels 1]), (UNROLLED PT_PROTO_ISID, [ETHERNET, ISID]), (UNROLLED PT_PROTO_PPPOE, [IEEE8023, VLAN, VLAN, PPPOE]), (UNROLLED PT_PROTO_GRE4, [ETHERNET, IPV4_noptions 0, GRE4]), (UNROLLED PT_PROTO_GRE6, [ETHERNET, IPV6, GRE6])],
     [(UNROLLED PT_PROTO_MPLS, [IEEE8023, VLAN, VLAN, MPLS_nlabels 1]), (UNROLLED PT_PROTO_ISID, [ETHERNET, ISID]), (UNROLLED PT_PROTO_PPPOE, [IEEE8023, VLAN, VLAN, PPPOE]), (UNROLLED PT_PROTO_GRE4, [ETHERNET, IPV4_noptions 0, GRE4]), (UNROLLED PT_PROTO_GRE6, [ETHERNET, IPV6, GRE6])],
     [(UNROLLED PT_PROTO_MPLS, [IEEE8023, VLAN, VLAN, MPLS_nlabels 1]), (UNROLLED PT_PROTO_ISID, [ETHERNET, ISID]), (UNROLLED PT_PROTO_PPPOE, [IEEE8023, VLAN, VLAN, PPPOE]), (UNROLLED PT_PROTO_GRE4, [ETHERNET, IPV4_noptions 0, GRE4]), (UNROLLED PT_PROTO_GRE6, [ETHERNET, IPV6, GRE6])],
     [(UNROLLED PT_PROTO_MPLS, [IEEE8023, VLAN, VLAN, MPLS_nlabels 1]), (UNROLLED PT_PROTO_ISID, [ETHERNET, ISID]), (UNROLLED PT_PROTO_PPPOE, [IEEE8023, VLAN, VLAN, PPPOE]), (UNROLLED PT_PROTO_GRE4, [ETHERNET, IPV4_noptions 0, GRE4]), (UNROLLED PT_PROTO_GRE6, [ETHERNET, IPV6, GRE6])],
     [(UNROLLED PT_PROTO_MPLS, [IEEE8023, VLAN, VLAN, MPLS_nlabels 1]), (UNROLLED PT_PROTO_ISID, [ETHERNET, ISID]), (UNROLLED PT_PROTO_PPPOE, [IEEE8023, VLAN, VLAN, PPPOE]), (UNROLLED PT_PROTO_GRE4, [ETHERNET, IPV4_noptions 0, GRE4]), (UNROLLED PT_PROTO_GRE6, [ETHERNET, IPV6, GRE6])],
     [(UNROLLED PT_PROTO_MPLS, [ETHERNET, MPLS_nlabels 1]), (UNROLLED PT_PROTO_VLAN, [ETHERNET, VLAN, IPV4_noptions 0, TCP]), (UNROLLED PT_PROTO_ISID, [ETHERNET, ISID]), (UNROLLED PT_PROTO_PPPOE, [ETHERNET, PPPOE]), (UNROLLED PT_PROTO_GTPU4, [ETHERNET, IPV4_noptions 0, UDP, GTPU4]), (UNROLLED PT_PROTO_GTPU6, [ETHERNET, IPV6, UDP, GTPU6]), (UNROLLED PT_PROTO_GRE4, [ETHERNET, IPV4_noptions 0, GRE4]), (UNROLLED PT_PROTO_GRE6, [ETHERNET, IPV6, GRE6])],
     [(UNROLLED PT_PROTO_MPLS, [ETHERNET, MPLS_nlabels 1]), (UNROLLED PT_PROTO_VLAN, [ETHERNET, VLAN, IPV4_noptions 1, TCP]), (UNROLLED PT_PROTO_ISID, [ETHERNET, ISID]), (UNROLLED PT_PROTO_PPPOE, [ETHERNET, PPPOE]), (UNROLLED PT_PROTO_GRE4, [ETHERNET, IPV4_noptions 0, GRE4]), (UNROLLED PT_PROTO_GRE6, [ETHERNET, IPV6, GRE6])],
     [(UNROLLED PT_PROTO_MPLS, [ETHERNET, MPLS_nlabels 1]), (UNROLLED PT_PROTO_VLAN, [ETHERNET, VLAN, IPV4_noptions 2, TCP]), (UNROLLED PT_PROTO_ISID, [ETHERNET, ISID]), (UNROLLED PT_PROTO_PPPOE, [ETHERNET, PPPOE]), (UNROLLED PT_PROTO_GRE4, [ETHERNET, IPV4_noptions 0, GRE4]), (UNROLLED PT_PROTO_GRE6, [ETHERNET, IPV6, GRE6])],
     [(UNROLLED PT_PROTO_MPLS, [ETHERNET, MPLS_nlabels 1]), (UNROLLED PT_PROTO_VLAN, [ETHERNET, VLAN, IPV4_noptions 3, TCP]), (UNROLLED PT_PROTO_ISID, [ETHERNET, ISID]), (UNROLLED PT_PROTO_PPPOE, [ETHERNET, PPPOE]), (UNROLLED PT_PROTO_GRE4, [ETHERNET, IPV4_noptions 0, GRE4]), (UNROLLED PT_PROTO_GRE6, [ETHERNET, IPV6, GRE6])],
     [(UNROLLED PT_PROTO_MPLS, [ETHERNET, MPLS_nlabels 1]), (UNROLLED PT_PROTO_VLAN, [ETHERNET, VLAN, IPV4_noptions 4, TCP]), (UNROLLED PT_PROTO_ISID, [ETHERNET, ISID]), (UNROLLED PT_PROTO_PPPOE, [ETHERNET, PPPOE]), (UNROLLED PT_PROTO_GRE4, [ETHERNET, IPV4_noptions 0, GRE4]), (UNROLLED PT_PROTO_GRE6, [ETHERNET, IPV6, GRE6])],
     [(UNROLLED PT_PROTO_MPLS, [ETHERNET, MPLS_nlabels 1]), (UNROLLED PT_PROTO_VLAN, [ETHERNET, VLAN, IPV4_noptions 5, TCP]), (UNROLLED PT_PROTO_ISID, [ETHERNET, ISID]), (UNROLLED PT_PROTO_PPPOE, [ETHERNET, PPPOE]), (UNROLLED PT_PROTO_GRE4, [ETHERNET, IPV4_noptions 0, GRE4]), (UNROLLED PT_PROTO_GRE6, [ETHERNET, IPV6, GRE6])],
     [(UNROLLED PT_PROTO_MPLS, [ETHERNET, MPLS_nlabels 1]), (UNROLLED PT_PROTO_VLAN, [ETHERNET, VLAN, IPV4_noptions 6, TCP]), (UNROLLED PT_PROTO_ISID, [ETHERNET, ISID]), (UNROLLED PT_PROTO_PPPOE, [ETHERNET, PPPOE]), (UNROLLED PT_PROTO_GRE4, [ETHERNET, IPV4_noptions 0, GRE4]), (UNROLLED PT_PROTO_GRE6, [ETHERNET, IPV6, GRE6])],
     [(UNROLLED PT_PROTO_MPLS, [ETHERNET, MPLS_nlabels 1]), (UNROLLED PT_PROTO_VLAN, [ETHERNET, VLAN, IPV4_noptions 7, TCP]), (UNROLLED PT_PROTO_ISID, [ETHERNET, ISID]), (UNROLLED PT_PROTO_PPPOE, [ETHERNET, PPPOE]), (UNROLLED PT_PROTO_GRE4, [ETHERNET, IPV4_noptions 0, GRE4]), (UNROLLED PT_PROTO_GRE6, [ETHERNET, IPV6, GRE6])],
     [(UNROLLED PT_PROTO_MPLS, [ETHERNET, MPLS_nlabels 1]), (UNROLLED PT_PROTO_VLAN, [ETHERNET, VLAN, IPV4_noptions 8, TCP]), (UNROLLED PT_PROTO_ISID, [ETHERNET, ISID]), (UNROLLED PT_PROTO_PPPOE, [ETHERNET, PPPOE]), (UNROLLED PT_PROTO_GRE4, [ETHERNET, IPV4_noptions 0, GRE4]), (UNROLLED PT_PROTO_GRE6, [ETHERNET, IPV6, GRE6])],
     [(UNROLLED PT_PROTO_MPLS, [ETHERNET, MPLS_nlabels 1]), (UNROLLED PT_PROTO_VLAN, [ETHERNET, VLAN, IPV4_noptions 9, TCP]), (UNROLLED PT_PROTO_ISID, [ETHERNET, ISID]), (UNROLLED PT_PROTO_PPPOE, [ETHERNET, PPPOE]), (UNROLLED PT_PROTO_GRE4, [ETHERNET, IPV4_noptions 0, GRE4]), (UNROLLED PT_PROTO_GRE6, [ETHERNET, IPV6, GRE6])],
     [(UNROLLED PT_PROTO_MPLS, [ETHERNET, MPLS_nlabels 1]), (UNROLLED PT_PROTO_VLAN, [ETHERNET, VLAN, IPV4_noptions 10, TCP]), (UNROLLED PT_PROTO_ISID, [ETHERNET, ISID]), (UNROLLED PT_PROTO_PPPOE, [ETHERNET, PPPOE]), (UNROLLED PT_PROTO_GRE4, [ETHERNET, IPV4_noptions 0, GRE4]), (UNROLLED PT_PROTO_GRE6, [ETHERNET, IPV6, GRE6])],
     [(UNROLLED PT_PROTO_MPLS, [ETHERNET, MPLS_nlabels 1]), (UNROLLED PT_PROTO_VLAN, [ETHERNET, VLAN, IPV4_noptions 11, TCP]), (UNROLLED PT_PROTO_ISID, [ETHERNET, ISID]), (UNROLLED PT_PROTO_PPPOE, [ETHERNET, PPPOE]), (UNROLLED PT_PROTO_GRE4, [ETHERNET, IPV4_noptions 0, GRE4]), (UNROLLED PT_PROTO_GRE6, [ETHERNET, IPV6, GRE6])],
     [(UNROLLED PT_PROTO_MPLS, [ETHERNET, MPLS_nlabels 1]), (UNROLLED PT_PROTO_VLAN, [ETHERNET, VLAN, IPV4_noptions 12, TCP]), (UNROLLED PT_PROTO_ISID, [ETHERNET, ISID]), (UNROLLED PT_PROTO_PPPOE, [ETHERNET, PPPOE]), (UNROLLED PT_PROTO_GRE4, [ETHERNET, IPV4_noptions 0, GRE4]), (UNROLLED PT_PROTO_GRE6, [ETHERNET, IPV6, GRE6])],
     [(UNROLLED PT_PROTO_MPLS, [ETHERNET, MPLS_nlabels 1]), (UNROLLED PT_PROTO_VLAN, [ETHERNET, VLAN, IPV4_noptions 13, TCP]), (UNROLLED PT_PROTO_ISID, [ETHERNET, ISID]), (UNROLLED PT_PROTO_PPPOE, [ETHERNET, PPPOE]), (UNROLLED PT_PROTO_GRE4, [ETHERNET, IPV4_noptions 0, GRE4]), (UNROLLED PT_PROTO_GRE6, [ETHERNET, IPV6, GRE6])],
     [(UNROLLED PT_PROTO_MPLS, [ETHERNET, MPLS_nlabels 1]), (UNROLLED PT_PROTO_VLAN, [ETHERNET, VLAN, IPV4_noptions 14, TCP]), (UNROLLED PT_PROTO_ISID, [ETHERNET, ISID]), (UNROLLED PT_PROTO_PPPOE, [ETHERNET, PPPOE]), (UNROLLED PT_PROTO_GRE4, [ETHERNET, IPV4_noptions 0, GRE4]), (UNROLLED PT_PROTO_GRE6, [ETHERNET, IPV6, GRE6])],
     [(UNROLLED PT_PROTO_MPLS, [ETHERNET, MPLS_nlabels 1]), (UNROLLED PT_PROTO_VLAN, [ETHERNET, VLAN, IPV4_noptions 15, TCP]), (UNROLLED PT_PROTO_ISID, [ETHERNET, ISID]), (UNROLLED PT_PROTO_PPPOE, [ETHERNET, PPPOE]), (UNROLLED PT_PROTO_GRE4, [ETHERNET, IPV4_noptions 0, GRE4]), (UNROLLED PT_PROTO_GRE6, [ETHERNET, IPV6, GRE6])],
     [],
     [],
     [],
     [],
     [],
     [],
     [],
     [],
     [],
     [],
     [],
     [],
     [],
     [],
     [],
     [],
     [],
     [],
     [],
     [],
     [],
     [],
     [],
     [],
     [],
     [],
     [],
     [],
     [],
     [],
     [],
     [],
     [(UNROLLED PT_PROTO_MPLS, [IEEE8023, MPLS_nlabels 1]), (UNROLLED PT_PROTO_VLAN, [IEEE8023, VLAN, IPV4_noptions 0, TCP]), (UNROLLED PT_PROTO_ISID, [ETHERNET, ISID]), (UNROLLED PT_PROTO_PPPOE, [IEEE8023, PPPOE]), (UNROLLED PT_PROTO_GTPU4, [IEEE8023, IPV4_noptions 0, UDP, GTPU4]), (UNROLLED PT_PROTO_GTPU6, [IEEE8023, IPV6, UDP, GTPU6]), (UNROLLED PT_PROTO_GRE4, [ETHERNET, IPV4_noptions 0, GRE4]), (UNROLLED PT_PROTO_GRE6, [ETHERNET, IPV6, GRE6])],
     [(UNROLLED PT_PROTO_MPLS, [IEEE8023, MPLS_nlabels 1]), (UNROLLED PT_PROTO_VLAN, [IEEE8023, VLAN, IPV4_noptions 1, TCP]), (UNROLLED PT_PROTO_ISID, [ETHERNET, ISID]), (UNROLLED PT_PROTO_PPPOE, [IEEE8023, PPPOE]), (UNROLLED PT_PROTO_GRE4, [ETHERNET, IPV4_noptions 0, GRE4]), (UNROLLED PT_PROTO_GRE6, [ETHERNET, IPV6, GRE6])],
     [(UNROLLED PT_PROTO_MPLS, [IEEE8023, MPLS_nlabels 1]), (UNROLLED PT_PROTO_VLAN, [IEEE8023, VLAN, IPV4_noptions 2, TCP]), (UNROLLED PT_PROTO_ISID, [ETHERNET, ISID]), (UNROLLED PT_PROTO_PPPOE, [IEEE8023, PPPOE]), (UNROLLED PT_PROTO_GRE4, [ETHERNET, IPV4_noptions 0, GRE4]), (UNROLLED PT_PROTO_GRE6, [ETHERNET, IPV6, GRE6])],
     [(UNROLLED PT_PROTO_MPLS, [IEEE8023, MPLS_nlabels 1]), (UNROLLED PT_PROTO_VLAN, [IEEE8023, VLAN, IPV4_noptions 3, TCP]), (UNROLLED PT_PROTO_ISID, [ETHERNET, ISID]), (UNROLLED PT_PROTO_PPPOE, [IEEE8023, PPPOE]), (UNROLLED PT_PROTO_GRE4, [ETHERNET, IPV4_noptions 0, GRE4]), (UNROLLED PT_PROTO_GRE6, [ETHERNET, IPV6, GRE6])],
     [(UNROLLED PT_PROTO_MPLS, [IEEE8023, MPLS_nlabels 1]), (UNROLLED PT_PROTO_VLAN, [IEEE8023, VLAN, IPV4_noptions 4, TCP]), (UNROLLED PT_PROTO_ISID, [ETHERNET, ISID]), (UNROLLED PT_PROTO_PPPOE, [IEEE8023, PPPOE]), (UNROLLED PT_PROTO_GRE4, [ETHERNET, IPV4_noptions 0, GRE4]), (UNROLLED PT_PROTO_GRE6, [ETHERNET, IPV6, GRE6])],
     [(UNROLLED PT_PROTO_MPLS, [IEEE8023, MPLS_nlabels 1]), (UNROLLED PT_PROTO_VLAN, [IEEE8023, VLAN, IPV4_noptions 5, TCP]), (UNROLLED PT_PROTO_ISID, [ETHERNET, ISID]), (UNROLLED PT_PROTO_PPPOE, [IEEE8023, PPPOE]), (UNROLLED PT_PROTO_GRE4, [ETHERNET, IPV4_noptions 0, GRE4]), (UNROLLED PT_PROTO_GRE6, [ETHERNET, IPV6, GRE6])],
     [(UNROLLED PT_PROTO_MPLS, [IEEE8023, MPLS_nlabels 1]), (UNROLLED PT_PROTO_VLAN, [IEEE8023, VLAN, IPV4_noptions 6, TCP]), (UNROLLED PT_PROTO_ISID, [ETHERNET, ISID]), (UNROLLED PT_PROTO_PPPOE, [IEEE8023, PPPOE]), (UNROLLED PT_PROTO_GRE4, [ETHERNET, IPV4_noptions 0, GRE4]), (UNROLLED PT_PROTO_GRE6, [ETHERNET, IPV6, GRE6])],
     [(UNROLLED PT_PROTO_MPLS, [IEEE8023, MPLS_nlabels 1]), (UNROLLED PT_PROTO_VLAN, [IEEE8023, VLAN, IPV4_noptions 7, TCP]), (UNROLLED PT_PROTO_ISID, [ETHERNET, ISID]), (UNROLLED PT_PROTO_PPPOE, [IEEE8023, PPPOE]), (UNROLLED PT_PROTO_GRE4, [ETHERNET, IPV4_noptions 0, GRE4]), (UNROLLED PT_PROTO_GRE6, [ETHERNET, IPV6, GRE6])]]"

definition push_table_5 :: "(unrolled \<times> pkt_type) list list" where
  "push_table_5 =
    [[(UNROLLED PT_PROTO_MPLS, [IEEE8023, MPLS_nlabels 1]), (UNROLLED PT_PROTO_VLAN, [IEEE8023, VLAN, IPV4_noptions 8, TCP]), (UNROLLED PT_PROTO_ISID, [ETHERNET, ISID]), (UNROLLED PT_PROTO_PPPOE, [IEEE8023, PPPOE]), (UNROLLED PT_PROTO_GRE4, [ETHERNET, IPV4_noptions 0, GRE4]), (UNROLLED PT_PROTO_GRE6, [ETHERNET, IPV6, GRE6])],
     [(UNROLLED PT_PROTO_MPLS, [IEEE8023, MPLS_nlabels 1]), (UNROLLED PT_PROTO_VLAN, [IEEE8023, VLAN, IPV4_noptions 9, TCP]), (UNROLLED PT_PROTO_ISID, [ETHERNET, ISID]), (UNROLLED PT_PROTO_PPPOE, [IEEE8023, PPPOE]), (UNROLLED PT_PROTO_GRE4, [ETHERNET, IPV4_noptions 0, GRE4]), (UNROLLED PT_PROTO_GRE6, [ETHERNET, IPV6, GRE6])],
     [(UNROLLED PT_PROTO_MPLS, [IEEE8023, MPLS_nlabels 1]), (UNROLLED PT_PROTO_VLAN, [IEEE8023, VLAN, IPV4_noptions 10, TCP]), (UNROLLED PT_PROTO_ISID, [ETHERNET, ISID]), (UNROLLED PT_PROTO_PPPOE, [IEEE8023, PPPOE]), (UNROLLED PT_PROTO_GRE4, [ETHERNET, IPV4_noptions 0, GRE4]), (UNROLLED PT_PROTO_GRE6, [ETHERNET, IPV6, GRE6])],
     [(UNROLLED PT_PROTO_MPLS, [IEEE8023, MPLS_nlabels 1]), (UNROLLED PT_PROTO_VLAN, [IEEE8023, VLAN, IPV4_noptions 11, TCP]), (UNROLLED PT_PROTO_ISID, [ETHERNET, ISID]), (UNROLLED PT_PROTO_PPPOE, [IEEE8023, PPPOE]), (UNROLLED PT_PROTO_GRE4, [ETHERNET, IPV4_noptions 0, GRE4]), (UNROLLED PT_PROTO_GRE6, [ETHERNET, IPV6, GRE6])],
     [(UNROLLED PT_PROTO_MPLS, [IEEE8023, MPLS_nlabels 1]), (UNROLLED PT_PROTO_VLAN, [IEEE8023, VLAN, IPV4_noptions 12, TCP]), (UNROLLED PT_PROTO_ISID, [ETHERNET, ISID]), (UNROLLED PT_PROTO_PPPOE, [IEEE8023, PPPOE]), (UNROLLED PT_PROTO_GRE4, [ETHERNET, IPV4_noptions 0, GRE4]), (UNROLLED PT_PROTO_GRE6, [ETHERNET, IPV6, GRE6])],
     [(UNROLLED PT_PROTO_MPLS, [IEEE8023, MPLS_nlabels 1]), (UNROLLED PT_PROTO_VLAN, [IEEE8023, VLAN, IPV4_noptions 13, TCP]), (UNROLLED PT_PROTO_ISID, [ETHERNET, ISID]), (UNROLLED PT_PROTO_PPPOE, [IEEE8023, PPPOE]), (UNROLLED PT_PROTO_GRE4, [ETHERNET, IPV4_noptions 0, GRE4]), (UNROLLED PT_PROTO_GRE6, [ETHERNET, IPV6, GRE6])],
     [(UNROLLED PT_PROTO_MPLS, [IEEE8023, MPLS_nlabels 1]), (UNROLLED PT_PROTO_VLAN, [IEEE8023, VLAN, IPV4_noptions 14, TCP]), (UNROLLED PT_PROTO_ISID, [ETHERNET, ISID]), (UNROLLED PT_PROTO_PPPOE, [IEEE8023, PPPOE]), (UNROLLED PT_PROTO_GRE4, [ETHERNET, IPV4_noptions 0, GRE4]), (UNROLLED PT_PROTO_GRE6, [ETHERNET, IPV6, GRE6])],
     [(UNROLLED PT_PROTO_MPLS, [IEEE8023, MPLS_nlabels 1]), (UNROLLED PT_PROTO_VLAN, [IEEE8023, VLAN, IPV4_noptions 15, TCP]), (UNROLLED PT_PROTO_ISID, [ETHERNET, ISID]), (UNROLLED PT_PROTO_PPPOE, [IEEE8023, PPPOE]), (UNROLLED PT_PROTO_GRE4, [ETHERNET, IPV4_noptions 0, GRE4]), (UNROLLED PT_PROTO_GRE6, [ETHERNET, IPV6, GRE6])],
     [(UNROLLED PT_PROTO_MPLS, [ETHERNET, VLAN, MPLS_nlabels 1]), (UNROLLED PT_PROTO_VLAN, [ETHERNET, VLAN, VLAN, IPV4_noptions 0, TCP]), (UNROLLED PT_PROTO_ISID, [ETHERNET, ISID]), (UNROLLED PT_PROTO_PPPOE, [ETHERNET, VLAN, PPPOE]), (UNROLLED PT_PROTO_GRE4, [ETHERNET, IPV4_noptions 0, GRE4]), (UNROLLED PT_PROTO_GRE6, [ETHERNET, IPV6, GRE6])],
     [(UNROLLED PT_PROTO_MPLS, [ETHERNET, VLAN, MPLS_nlabels 1]), (UNROLLED PT_PROTO_VLAN, [ETHERNET, VLAN, VLAN, IPV4_noptions 1, TCP]), (UNROLLED PT_PROTO_ISID, [ETHERNET, ISID]), (UNROLLED PT_PROTO_PPPOE, [ETHERNET, VLAN, PPPOE]), (UNROLLED PT_PROTO_GRE4, [ETHERNET, IPV4_noptions 0, GRE4]), (UNROLLED PT_PROTO_GRE6, [ETHERNET, IPV6, GRE6])],
     [(UNROLLED PT_PROTO_MPLS, [ETHERNET, VLAN, MPLS_nlabels 1]), (UNROLLED PT_PROTO_VLAN, [ETHERNET, VLAN, VLAN, IPV4_noptions 2, TCP]), (UNROLLED PT_PROTO_ISID, [ETHERNET, ISID]), (UNROLLED PT_PROTO_PPPOE, [ETHERNET, VLAN, PPPOE]), (UNROLLED PT_PROTO_GRE4, [ETHERNET, IPV4_noptions 0, GRE4]), (UNROLLED PT_PROTO_GRE6, [ETHERNET, IPV6, GRE6])],
     [(UNROLLED PT_PROTO_MPLS, [ETHERNET, VLAN, MPLS_nlabels 1]), (UNROLLED PT_PROTO_VLAN, [ETHERNET, VLAN, VLAN, IPV4_noptions 3, TCP]), (UNROLLED PT_PROTO_ISID, [ETHERNET, ISID]), (UNROLLED PT_PROTO_PPPOE, [ETHERNET, VLAN, PPPOE]), (UNROLLED PT_PROTO_GRE4, [ETHERNET, IPV4_noptions 0, GRE4]), (UNROLLED PT_PROTO_GRE6, [ETHERNET, IPV6, GRE6])],
     [(UNROLLED PT_PROTO_MPLS, [ETHERNET, VLAN, MPLS_nlabels 1]), (UNROLLED PT_PROTO_VLAN, [ETHERNET, VLAN, VLAN, IPV4_noptions 4, TCP]), (UNROLLED PT_PROTO_ISID, [ETHERNET, ISID]), (UNROLLED PT_PROTO_PPPOE, [ETHERNET, VLAN, PPPOE]), (UNROLLED PT_PROTO_GRE4, [ETHERNET, IPV4_noptions 0, GRE4]), (UNROLLED PT_PROTO_GRE6, [ETHERNET, IPV6, GRE6])],
     [(UNROLLED PT_PROTO_MPLS, [ETHERNET, VLAN, MPLS_nlabels 1]), (UNROLLED PT_PROTO_VLAN, [ETHERNET, VLAN, VLAN, IPV4_noptions 5, TCP]), (UNROLLED PT_PROTO_ISID, [ETHERNET, ISID]), (UNROLLED PT_PROTO_PPPOE, [ETHERNET, VLAN, PPPOE]), (UNROLLED PT_PROTO_GRE4, [ETHERNET, IPV4_noptions 0, GRE4]), (UNROLLED PT_PROTO_GRE6, [ETHERNET, IPV6, GRE6])],
     [(UNROLLED PT_PROTO_MPLS, [ETHERNET, VLAN, MPLS_nlabels 1]), (UNROLLED PT_PROTO_VLAN, [ETHERNET, VLAN, VLAN, IPV4_noptions 6, TCP]), (UNROLLED PT_PROTO_ISID, [ETHERNET, ISID]), (UNROLLED PT_PROTO_PPPOE, [ETHERNET, VLAN, PPPOE]), (UNROLLED PT_PROTO_GRE4, [ETHERNET, IPV4_noptions 0, GRE4]), (UNROLLED PT_PROTO_GRE6, [ETHERNET, IPV6, GRE6])],
     [(UNROLLED PT_PROTO_MPLS, [ETHERNET, VLAN, MPLS_nlabels 1]), (UNROLLED PT_PROTO_VLAN, [ETHERNET, VLAN, VLAN, IPV4_noptions 7, TCP]), (UNROLLED PT_PROTO_ISID, [ETHERNET, ISID]), (UNROLLED PT_PROTO_PPPOE, [ETHERNET, VLAN, PPPOE]), (UNROLLED PT_PROTO_GRE4, [ETHERNET, IPV4_noptions 0, GRE4]), (UNROLLED PT_PROTO_GRE6, [ETHERNET, IPV6, GRE6])],
     [(UNROLLED PT_PROTO_MPLS, [ETHERNET, VLAN, MPLS_nlabels 1]), (UNROLLED PT_PROTO_VLAN, [ETHERNET, VLAN, VLAN, IPV4_noptions 8, TCP]), (UNROLLED PT_PROTO_ISID, [ETHERNET, ISID]), (UNROLLED PT_PROTO_PPPOE, [ETHERNET, VLAN, PPPOE]), (UNROLLED PT_PROTO_GRE4, [ETHERNET, IPV4_noptions 0, GRE4]), (UNROLLED PT_PROTO_GRE6, [ETHERNET, IPV6, GRE6])],
     [(UNROLLED PT_PROTO_MPLS, [ETHERNET, VLAN, MPLS_nlabels 1]), (UNROLLED PT_PROTO_VLAN, [ETHERNET, VLAN, VLAN, IPV4_noptions 9, TCP]), (UNROLLED PT_PROTO_ISID, [ETHERNET, ISID]), (UNROLLED PT_PROTO_PPPOE, [ETHERNET, VLAN, PPPOE]), (UNROLLED PT_PROTO_GRE4, [ETHERNET, IPV4_noptions 0, GRE4]), (UNROLLED PT_PROTO_GRE6, [ETHERNET, IPV6, GRE6])],
     [(UNROLLED PT_PROTO_MPLS, [ETHERNET, VLAN, MPLS_nlabels 1]), (UNROLLED PT_PROTO_VLAN, [ETHERNET, VLAN, VLAN, IPV4_noptions 10, TCP]), (UNROLLED PT_PROTO_ISID, [ETHERNET, ISID]), (UNROLLED PT_PROTO_PPPOE, [ETHERNET, VLAN, PPPOE]), (UNROLLED PT_PROTO_GRE4, [ETHERNET, IPV4_noptions 0, GRE4]), (UNROLLED PT_PROTO_GRE6, [ETHERNET, IPV6, GRE6])],
     [(UNROLLED PT_PROTO_MPLS, [ETHERNET, VLAN, MPLS_nlabels 1]), (UNROLLED PT_PROTO_VLAN, [ETHERNET, VLAN, VLAN, IPV4_noptions 11, TCP]), (UNROLLED PT_PROTO_ISID, [ETHERNET, ISID]), (UNROLLED PT_PROTO_PPPOE, [ETHERNET, VLAN, PPPOE]), (UNROLLED PT_PROTO_GRE4, [ETHERNET, IPV4_noptions 0, GRE4]), (UNROLLED PT_PROTO_GRE6, [ETHERNET, IPV6, GRE6])],
     [(UNROLLED PT_PROTO_MPLS, [ETHERNET, VLAN, MPLS_nlabels 1]), (UNROLLED PT_PROTO_VLAN, [ETHERNET, VLAN, VLAN, IPV4_noptions 12, TCP]), (UNROLLED PT_PROTO_ISID, [ETHERNET, ISID]), (UNROLLED PT_PROTO_PPPOE, [ETHERNET, VLAN, PPPOE]), (UNROLLED PT_PROTO_GRE4, [ETHERNET, IPV4_noptions 0, GRE4]), (UNROLLED PT_PROTO_GRE6, [ETHERNET, IPV6, GRE6])],
     [(UNROLLED PT_PROTO_MPLS, [ETHERNET, VLAN, MPLS_nlabels 1]), (UNROLLED PT_PROTO_VLAN, [ETHERNET, VLAN, VLAN, IPV4_noptions 13, TCP]), (UNROLLED PT_PROTO_ISID, [ETHERNET, ISID]), (UNROLLED PT_PROTO_PPPOE, [ETHERNET, VLAN, PPPOE]), (UNROLLED PT_PROTO_GRE4, [ETHERNET, IPV4_noptions 0, GRE4]), (UNROLLED PT_PROTO_GRE6, [ETHERNET, IPV6, GRE6])],
     [(UNROLLED PT_PROTO_MPLS, [ETHERNET, VLAN, MPLS_nlabels 1]), (UNROLLED PT_PROTO_VLAN, [ETHERNET, VLAN, VLAN, IPV4_noptions 14, TCP]), (UNROLLED PT_PROTO_ISID, [ETHERNET, ISID]), (UNROLLED PT_PROTO_PPPOE, [ETHERNET, VLAN, PPPOE]), (UNROLLED PT_PROTO_GRE4, [ETHERNET, IPV4_noptions 0, GRE4]), (UNROLLED PT_PROTO_GRE6, [ETHERNET, IPV6, GRE6])],
     [(UNROLLED PT_PROTO_MPLS, [ETHERNET, VLAN, MPLS_nlabels 1]), (UNROLLED PT_PROTO_VLAN, [ETHERNET, VLAN, VLAN, IPV4_noptions 15, TCP]), (UNROLLED PT_PROTO_ISID, [ETHERNET, ISID]), (UNROLLED PT_PROTO_PPPOE, [ETHERNET, VLAN, PPPOE]), (UNROLLED PT_PROTO_GRE4, [ETHERNET, IPV4_noptions 0, GRE4]), (UNROLLED PT_PROTO_GRE6, [ETHERNET, IPV6, GRE6])],
     [(UNROLLED PT_PROTO_MPLS, [IEEE8023, VLAN, MPLS_nlabels 1]), (UNROLLED PT_PROTO_VLAN, [IEEE8023, VLAN, VLAN, IPV4_noptions 0, TCP]), (UNROLLED PT_PROTO_ISID, [ETHERNET, ISID]), (UNROLLED PT_PROTO_PPPOE, [IEEE8023, VLAN, PPPOE]), (UNROLLED PT_PROTO_GRE4, [ETHERNET, IPV4_noptions 0, GRE4]), (UNROLLED PT_PROTO_GRE6, [ETHERNET, IPV6, GRE6])],
     [(UNROLLED PT_PROTO_MPLS, [IEEE8023, VLAN, MPLS_nlabels 1]), (UNROLLED PT_PROTO_VLAN, [IEEE8023, VLAN, VLAN, IPV4_noptions 1, TCP]), (UNROLLED PT_PROTO_ISID, [ETHERNET, ISID]), (UNROLLED PT_PROTO_PPPOE, [IEEE8023, VLAN, PPPOE]), (UNROLLED PT_PROTO_GRE4, [ETHERNET, IPV4_noptions 0, GRE4]), (UNROLLED PT_PROTO_GRE6, [ETHERNET, IPV6, GRE6])],
     [(UNROLLED PT_PROTO_MPLS, [IEEE8023, VLAN, MPLS_nlabels 1]), (UNROLLED PT_PROTO_VLAN, [IEEE8023, VLAN, VLAN, IPV4_noptions 2, TCP]), (UNROLLED PT_PROTO_ISID, [ETHERNET, ISID]), (UNROLLED PT_PROTO_PPPOE, [IEEE8023, VLAN, PPPOE]), (UNROLLED PT_PROTO_GRE4, [ETHERNET, IPV4_noptions 0, GRE4]), (UNROLLED PT_PROTO_GRE6, [ETHERNET, IPV6, GRE6])],
     [(UNROLLED PT_PROTO_MPLS, [IEEE8023, VLAN, MPLS_nlabels 1]), (UNROLLED PT_PROTO_VLAN, [IEEE8023, VLAN, VLAN, IPV4_noptions 3, TCP]), (UNROLLED PT_PROTO_ISID, [ETHERNET, ISID]), (UNROLLED PT_PROTO_PPPOE, [IEEE8023, VLAN, PPPOE]), (UNROLLED PT_PROTO_GRE4, [ETHERNET, IPV4_noptions 0, GRE4]), (UNROLLED PT_PROTO_GRE6, [ETHERNET, IPV6, GRE6])],
     [(UNROLLED PT_PROTO_MPLS, [IEEE8023, VLAN, MPLS_nlabels 1]), (UNROLLED PT_PROTO_VLAN, [IEEE8023, VLAN, VLAN, IPV4_noptions 4, TCP]), (UNROLLED PT_PROTO_ISID, [ETHERNET, ISID]), (UNROLLED PT_PROTO_PPPOE, [IEEE8023, VLAN, PPPOE]), (UNROLLED PT_PROTO_GRE4, [ETHERNET, IPV4_noptions 0, GRE4]), (UNROLLED PT_PROTO_GRE6, [ETHERNET, IPV6, GRE6])],
     [(UNROLLED PT_PROTO_MPLS, [IEEE8023, VLAN, MPLS_nlabels 1]), (UNROLLED PT_PROTO_VLAN, [IEEE8023, VLAN, VLAN, IPV4_noptions 5, TCP]), (UNROLLED PT_PROTO_ISID, [ETHERNET, ISID]), (UNROLLED PT_PROTO_PPPOE, [IEEE8023, VLAN, PPPOE]), (UNROLLED PT_PROTO_GRE4, [ETHERNET, IPV4_noptions 0, GRE4]), (UNROLLED PT_PROTO_GRE6, [ETHERNET, IPV6, GRE6])],
     [(UNROLLED PT_PROTO_MPLS, [IEEE8023, VLAN, MPLS_nlabels 1]), (UNROLLED PT_PROTO_VLAN, [IEEE8023, VLAN, VLAN, IPV4_noptions 6, TCP]), (UNROLLED PT_PROTO_ISID, [ETHERNET, ISID]), (UNROLLED PT_PROTO_PPPOE, [IEEE8023, VLAN, PPPOE]), (UNROLLED PT_PROTO_GRE4, [ETHERNET, IPV4_noptions 0, GRE4]), (UNROLLED PT_PROTO_GRE6, [ETHERNET, IPV6, GRE6])],
     [(UNROLLED PT_PROTO_MPLS, [IEEE8023, VLAN, MPLS_nlabels 1]), (UNROLLED PT_PROTO_VLAN, [IEEE8023, VLAN, VLAN, IPV4_noptions 7, TCP]), (UNROLLED PT_PROTO_ISID, [ETHERNET, ISID]), (UNROLLED PT_PROTO_PPPOE, [IEEE8023, VLAN, PPPOE]), (UNROLLED PT_PROTO_GRE4, [ETHERNET, IPV4_noptions 0, GRE4]), (UNROLLED PT_PROTO_GRE6, [ETHERNET, IPV6, GRE6])],
     [(UNROLLED PT_PROTO_MPLS, [IEEE8023, VLAN, MPLS_nlabels 1]), (UNROLLED PT_PROTO_VLAN, [IEEE8023, VLAN, VLAN, IPV4_noptions 8, TCP]), (UNROLLED PT_PROTO_ISID, [ETHERNET, ISID]), (UNROLLED PT_PROTO_PPPOE, [IEEE8023, VLAN, PPPOE]), (UNROLLED PT_PROTO_GRE4, [ETHERNET, IPV4_noptions 0, GRE4]), (UNROLLED PT_PROTO_GRE6, [ETHERNET, IPV6, GRE6])],
     [(UNROLLED PT_PROTO_MPLS, [IEEE8023, VLAN, MPLS_nlabels 1]), (UNROLLED PT_PROTO_VLAN, [IEEE8023, VLAN, VLAN, IPV4_noptions 9, TCP]), (UNROLLED PT_PROTO_ISID, [ETHERNET, ISID]), (UNROLLED PT_PROTO_PPPOE, [IEEE8023, VLAN, PPPOE]), (UNROLLED PT_PROTO_GRE4, [ETHERNET, IPV4_noptions 0, GRE4]), (UNROLLED PT_PROTO_GRE6, [ETHERNET, IPV6, GRE6])],
     [(UNROLLED PT_PROTO_MPLS, [IEEE8023, VLAN, MPLS_nlabels 1]), (UNROLLED PT_PROTO_VLAN, [IEEE8023, VLAN, VLAN, IPV4_noptions 10, TCP]), (UNROLLED PT_PROTO_ISID, [ETHERNET, ISID]), (UNROLLED PT_PROTO_PPPOE, [IEEE8023, VLAN, PPPOE]), (UNROLLED PT_PROTO_GRE4, [ETHERNET, IPV4_noptions 0, GRE4]), (UNROLLED PT_PROTO_GRE6, [ETHERNET, IPV6, GRE6])],
     [(UNROLLED PT_PROTO_MPLS, [IEEE8023, VLAN, MPLS_nlabels 1]), (UNROLLED PT_PROTO_VLAN, [IEEE8023, VLAN, VLAN, IPV4_noptions 11, TCP]), (UNROLLED PT_PROTO_ISID, [ETHERNET, ISID]), (UNROLLED PT_PROTO_PPPOE, [IEEE8023, VLAN, PPPOE]), (UNROLLED PT_PROTO_GRE4, [ETHERNET, IPV4_noptions 0, GRE4]), (UNROLLED PT_PROTO_GRE6, [ETHERNET, IPV6, GRE6])],
     [(UNROLLED PT_PROTO_MPLS, [IEEE8023, VLAN, MPLS_nlabels 1]), (UNROLLED PT_PROTO_VLAN, [IEEE8023, VLAN, VLAN, IPV4_noptions 12, TCP]), (UNROLLED PT_PROTO_ISID, [ETHERNET, ISID]), (UNROLLED PT_PROTO_PPPOE, [IEEE8023, VLAN, PPPOE]), (UNROLLED PT_PROTO_GRE4, [ETHERNET, IPV4_noptions 0, GRE4]), (UNROLLED PT_PROTO_GRE6, [ETHERNET, IPV6, GRE6])],
     [(UNROLLED PT_PROTO_MPLS, [IEEE8023, VLAN, MPLS_nlabels 1]), (UNROLLED PT_PROTO_VLAN, [IEEE8023, VLAN, VLAN, IPV4_noptions 13, TCP]), (UNROLLED PT_PROTO_ISID, [ETHERNET, ISID]), (UNROLLED PT_PROTO_PPPOE, [IEEE8023, VLAN, PPPOE]), (UNROLLED PT_PROTO_GRE4, [ETHERNET, IPV4_noptions 0, GRE4]), (UNROLLED PT_PROTO_GRE6, [ETHERNET, IPV6, GRE6])],
     [(UNROLLED PT_PROTO_MPLS, [IEEE8023, VLAN, MPLS_nlabels 1]), (UNROLLED PT_PROTO_VLAN, [IEEE8023, VLAN, VLAN, IPV4_noptions 14, TCP]), (UNROLLED PT_PROTO_ISID, [ETHERNET, ISID]), (UNROLLED PT_PROTO_PPPOE, [IEEE8023, VLAN, PPPOE]), (UNROLLED PT_PROTO_GRE4, [ETHERNET, IPV4_noptions 0, GRE4]), (UNROLLED PT_PROTO_GRE6, [ETHERNET, IPV6, GRE6])],
     [(UNROLLED PT_PROTO_MPLS, [IEEE8023, VLAN, MPLS_nlabels 1]), (UNROLLED PT_PROTO_VLAN, [IEEE8023, VLAN, VLAN, IPV4_noptions 15, TCP]), (UNROLLED PT_PROTO_ISID, [ETHERNET, ISID]), (UNROLLED PT_PROTO_PPPOE, [IEEE8023, VLAN, PPPOE]), (UNROLLED PT_PROTO_GRE4, [ETHERNET, IPV4_noptions 0, GRE4]), (UNROLLED PT_PROTO_GRE6, [ETHERNET, IPV6, GRE6])],
     [(UNROLLED PT_PROTO_MPLS, [ETHERNET, VLAN, VLAN, MPLS_nlabels 1]), (UNROLLED PT_PROTO_ISID, [ETHERNET, ISID]), (UNROLLED PT_PROTO_PPPOE, [ETHERNET, VLAN, VLAN, PPPOE]), (UNROLLED PT_PROTO_GRE4, [ETHERNET, IPV4_noptions 0, GRE4]), (UNROLLED PT_PROTO_GRE6, [ETHERNET, IPV6, GRE6])],
     [(UNROLLED PT_PROTO_MPLS, [ETHERNET, VLAN, VLAN, MPLS_nlabels 1]), (UNROLLED PT_PROTO_ISID, [ETHERNET, ISID]), (UNROLLED PT_PROTO_PPPOE, [ETHERNET, VLAN, VLAN, PPPOE]), (UNROLLED PT_PROTO_GRE4, [ETHERNET, IPV4_noptions 0, GRE4]), (UNROLLED PT_PROTO_GRE6, [ETHERNET, IPV6, GRE6])],
     [(UNROLLED PT_PROTO_MPLS, [ETHERNET, VLAN, VLAN, MPLS_nlabels 1]), (UNROLLED PT_PROTO_ISID, [ETHERNET, ISID]), (UNROLLED PT_PROTO_PPPOE, [ETHERNET, VLAN, VLAN, PPPOE]), (UNROLLED PT_PROTO_GRE4, [ETHERNET, IPV4_noptions 0, GRE4]), (UNROLLED PT_PROTO_GRE6, [ETHERNET, IPV6, GRE6])],
     [(UNROLLED PT_PROTO_MPLS, [ETHERNET, VLAN, VLAN, MPLS_nlabels 1]), (UNROLLED PT_PROTO_ISID, [ETHERNET, ISID]), (UNROLLED PT_PROTO_PPPOE, [ETHERNET, VLAN, VLAN, PPPOE]), (UNROLLED PT_PROTO_GRE4, [ETHERNET, IPV4_noptions 0, GRE4]), (UNROLLED PT_PROTO_GRE6, [ETHERNET, IPV6, GRE6])],
     [(UNROLLED PT_PROTO_MPLS, [ETHERNET, VLAN, VLAN, MPLS_nlabels 1]), (UNROLLED PT_PROTO_ISID, [ETHERNET, ISID]), (UNROLLED PT_PROTO_PPPOE, [ETHERNET, VLAN, VLAN, PPPOE]), (UNROLLED PT_PROTO_GRE4, [ETHERNET, IPV4_noptions 0, GRE4]), (UNROLLED PT_PROTO_GRE6, [ETHERNET, IPV6, GRE6])],
     [(UNROLLED PT_PROTO_MPLS, [ETHERNET, VLAN, VLAN, MPLS_nlabels 1]), (UNROLLED PT_PROTO_ISID, [ETHERNET, ISID]), (UNROLLED PT_PROTO_PPPOE, [ETHERNET, VLAN, VLAN, PPPOE]), (UNROLLED PT_PROTO_GRE4, [ETHERNET, IPV4_noptions 0, GRE4]), (UNROLLED PT_PROTO_GRE6, [ETHERNET, IPV6, GRE6])],
     [(UNROLLED PT_PROTO_MPLS, [ETHERNET, VLAN, VLAN, MPLS_nlabels 1]), (UNROLLED PT_PROTO_ISID, [ETHERNET, ISID]), (UNROLLED PT_PROTO_PPPOE, [ETHERNET, VLAN, VLAN, PPPOE]), (UNROLLED PT_PROTO_GRE4, [ETHERNET, IPV4_noptions 0, GRE4]), (UNROLLED PT_PROTO_GRE6, [ETHERNET, IPV6, GRE6])],
     [(UNROLLED PT_PROTO_MPLS, [ETHERNET, VLAN, VLAN, MPLS_nlabels 1]), (UNROLLED PT_PROTO_ISID, [ETHERNET, ISID]), (UNROLLED PT_PROTO_PPPOE, [ETHERNET, VLAN, VLAN, PPPOE]), (UNROLLED PT_PROTO_GRE4, [ETHERNET, IPV4_noptions 0, GRE4]), (UNROLLED PT_PROTO_GRE6, [ETHERNET, IPV6, GRE6])],
     [(UNROLLED PT_PROTO_MPLS, [ETHERNET, VLAN, VLAN, MPLS_nlabels 1]), (UNROLLED PT_PROTO_ISID, [ETHERNET, ISID]), (UNROLLED PT_PROTO_PPPOE, [ETHERNET, VLAN, VLAN, PPPOE]), (UNROLLED PT_PROTO_GRE4, [ETHERNET, IPV4_noptions 0, GRE4]), (UNROLLED PT_PROTO_GRE6, [ETHERNET, IPV6, GRE6])],
     [(UNROLLED PT_PROTO_MPLS, [ETHERNET, VLAN, VLAN, MPLS_nlabels 1]), (UNROLLED PT_PROTO_ISID, [ETHERNET, ISID]), (UNROLLED PT_PROTO_PPPOE, [ETHERNET, VLAN, VLAN, PPPOE]), (UNROLLED PT_PROTO_GRE4, [ETHERNET, IPV4_noptions 0, GRE4]), (UNROLLED PT_PROTO_GRE6, [ETHERNET, IPV6, GRE6])],
     [(UNROLLED PT_PROTO_MPLS, [ETHERNET, VLAN, VLAN, MPLS_nlabels 1]), (UNROLLED PT_PROTO_ISID, [ETHERNET, ISID]), (UNROLLED PT_PROTO_PPPOE, [ETHERNET, VLAN, VLAN, PPPOE]), (UNROLLED PT_PROTO_GRE4, [ETHERNET, IPV4_noptions 0, GRE4]), (UNROLLED PT_PROTO_GRE6, [ETHERNET, IPV6, GRE6])],
     [(UNROLLED PT_PROTO_MPLS, [ETHERNET, VLAN, VLAN, MPLS_nlabels 1]), (UNROLLED PT_PROTO_ISID, [ETHERNET, ISID]), (UNROLLED PT_PROTO_PPPOE, [ETHERNET, VLAN, VLAN, PPPOE]), (UNROLLED PT_PROTO_GRE4, [ETHERNET, IPV4_noptions 0, GRE4]), (UNROLLED PT_PROTO_GRE6, [ETHERNET, IPV6, GRE6])],
     [(UNROLLED PT_PROTO_MPLS, [ETHERNET, VLAN, VLAN, MPLS_nlabels 1]), (UNROLLED PT_PROTO_ISID, [ETHERNET, ISID]), (UNROLLED PT_PROTO_PPPOE, [ETHERNET, VLAN, VLAN, PPPOE]), (UNROLLED PT_PROTO_GRE4, [ETHERNET, IPV4_noptions 0, GRE4]), (UNROLLED PT_PROTO_GRE6, [ETHERNET, IPV6, GRE6])],
     [(UNROLLED PT_PROTO_MPLS, [ETHERNET, VLAN, VLAN, MPLS_nlabels 1]), (UNROLLED PT_PROTO_ISID, [ETHERNET, ISID]), (UNROLLED PT_PROTO_PPPOE, [ETHERNET, VLAN, VLAN, PPPOE]), (UNROLLED PT_PROTO_GRE4, [ETHERNET, IPV4_noptions 0, GRE4]), (UNROLLED PT_PROTO_GRE6, [ETHERNET, IPV6, GRE6])],
     [(UNROLLED PT_PROTO_MPLS, [ETHERNET, VLAN, VLAN, MPLS_nlabels 1]), (UNROLLED PT_PROTO_ISID, [ETHERNET, ISID]), (UNROLLED PT_PROTO_PPPOE, [ETHERNET, VLAN, VLAN, PPPOE]), (UNROLLED PT_PROTO_GRE4, [ETHERNET, IPV4_noptions 0, GRE4]), (UNROLLED PT_PROTO_GRE6, [ETHERNET, IPV6, GRE6])],
     [(UNROLLED PT_PROTO_MPLS, [ETHERNET, VLAN, VLAN, MPLS_nlabels 1]), (UNROLLED PT_PROTO_ISID, [ETHERNET, ISID]), (UNROLLED PT_PROTO_PPPOE, [ETHERNET, VLAN, VLAN, PPPOE]), (UNROLLED PT_PROTO_GRE4, [ETHERNET, IPV4_noptions 0, GRE4]), (UNROLLED PT_PROTO_GRE6, [ETHERNET, IPV6, GRE6])],
     [(UNROLLED PT_PROTO_MPLS, [IEEE8023, VLAN, VLAN, MPLS_nlabels 1]), (UNROLLED PT_PROTO_ISID, [ETHERNET, ISID]), (UNROLLED PT_PROTO_PPPOE, [IEEE8023, VLAN, VLAN, PPPOE]), (UNROLLED PT_PROTO_GRE4, [ETHERNET, IPV4_noptions 0, GRE4]), (UNROLLED PT_PROTO_GRE6, [ETHERNET, IPV6, GRE6])],
     [(UNROLLED PT_PROTO_MPLS, [IEEE8023, VLAN, VLAN, MPLS_nlabels 1]), (UNROLLED PT_PROTO_ISID, [ETHERNET, ISID]), (UNROLLED PT_PROTO_PPPOE, [IEEE8023, VLAN, VLAN, PPPOE]), (UNROLLED PT_PROTO_GRE4, [ETHERNET, IPV4_noptions 0, GRE4]), (UNROLLED PT_PROTO_GRE6, [ETHERNET, IPV6, GRE6])],
     [(UNROLLED PT_PROTO_MPLS, [IEEE8023, VLAN, VLAN, MPLS_nlabels 1]), (UNROLLED PT_PROTO_ISID, [ETHERNET, ISID]), (UNROLLED PT_PROTO_PPPOE, [IEEE8023, VLAN, VLAN, PPPOE]), (UNROLLED PT_PROTO_GRE4, [ETHERNET, IPV4_noptions 0, GRE4]), (UNROLLED PT_PROTO_GRE6, [ETHERNET, IPV6, GRE6])],
     [(UNROLLED PT_PROTO_MPLS, [IEEE8023, VLAN, VLAN, MPLS_nlabels 1]), (UNROLLED PT_PROTO_ISID, [ETHERNET, ISID]), (UNROLLED PT_PROTO_PPPOE, [IEEE8023, VLAN, VLAN, PPPOE]), (UNROLLED PT_PROTO_GRE4, [ETHERNET, IPV4_noptions 0, GRE4]), (UNROLLED PT_PROTO_GRE6, [ETHERNET, IPV6, GRE6])],
     [(UNROLLED PT_PROTO_MPLS, [IEEE8023, VLAN, VLAN, MPLS_nlabels 1]), (UNROLLED PT_PROTO_ISID, [ETHERNET, ISID]), (UNROLLED PT_PROTO_PPPOE, [IEEE8023, VLAN, VLAN, PPPOE]), (UNROLLED PT_PROTO_GRE4, [ETHERNET, IPV4_noptions 0, GRE4]), (UNROLLED PT_PROTO_GRE6, [ETHERNET, IPV6, GRE6])],
     [(UNROLLED PT_PROTO_MPLS, [IEEE8023, VLAN, VLAN, MPLS_nlabels 1]), (UNROLLED PT_PROTO_ISID, [ETHERNET, ISID]), (UNROLLED PT_PROTO_PPPOE, [IEEE8023, VLAN, VLAN, PPPOE]), (UNROLLED PT_PROTO_GRE4, [ETHERNET, IPV4_noptions 0, GRE4]), (UNROLLED PT_PROTO_GRE6, [ETHERNET, IPV6, GRE6])],
     [(UNROLLED PT_PROTO_MPLS, [IEEE8023, VLAN, VLAN, MPLS_nlabels 1]), (UNROLLED PT_PROTO_ISID, [ETHERNET, ISID]), (UNROLLED PT_PROTO_PPPOE, [IEEE8023, VLAN, VLAN, PPPOE]), (UNROLLED PT_PROTO_GRE4, [ETHERNET, IPV4_noptions 0, GRE4]), (UNROLLED PT_PROTO_GRE6, [ETHERNET, IPV6, GRE6])],
     [(UNROLLED PT_PROTO_MPLS, [IEEE8023, VLAN, VLAN, MPLS_nlabels 1]), (UNROLLED PT_PROTO_ISID, [ETHERNET, ISID]), (UNROLLED PT_PROTO_PPPOE, [IEEE8023, VLAN, VLAN, PPPOE]), (UNROLLED PT_PROTO_GRE4, [ETHERNET, IPV4_noptions 0, GRE4]), (UNROLLED PT_PROTO_GRE6, [ETHERNET, IPV6, GRE6])],
     [(UNROLLED PT_PROTO_MPLS, [IEEE8023, VLAN, VLAN, MPLS_nlabels 1]), (UNROLLED PT_PROTO_ISID, [ETHERNET, ISID]), (UNROLLED PT_PROTO_PPPOE, [IEEE8023, VLAN, VLAN, PPPOE]), (UNROLLED PT_PROTO_GRE4, [ETHERNET, IPV4_noptions 0, GRE4]), (UNROLLED PT_PROTO_GRE6, [ETHERNET, IPV6, GRE6])],
     [(UNROLLED PT_PROTO_MPLS, [IEEE8023, VLAN, VLAN, MPLS_nlabels 1]), (UNROLLED PT_PROTO_ISID, [ETHERNET, ISID]), (UNROLLED PT_PROTO_PPPOE, [IEEE8023, VLAN, VLAN, PPPOE]), (UNROLLED PT_PROTO_GRE4, [ETHERNET, IPV4_noptions 0, GRE4]), (UNROLLED PT_PROTO_GRE6, [ETHERNET, IPV6, GRE6])],
     [(UNROLLED PT_PROTO_MPLS, [IEEE8023, VLAN, VLAN, MPLS_nlabels 1]), (UNROLLED PT_PROTO_ISID, [ETHERNET, ISID]), (UNROLLED PT_PROTO_PPPOE, [IEEE8023, VLAN, VLAN, PPPOE]), (UNROLLED PT_PROTO_GRE4, [ETHERNET, IPV4_noptions 0, GRE4]), (UNROLLED PT_PROTO_GRE6, [ETHERNET, IPV6, GRE6])],
     [(UNROLLED PT_PROTO_MPLS, [IEEE8023, VLAN, VLAN, MPLS_nlabels 1]), (UNROLLED PT_PROTO_ISID, [ETHERNET, ISID]), (UNROLLED PT_PROTO_PPPOE, [IEEE8023, VLAN, VLAN, PPPOE]), (UNROLLED PT_PROTO_GRE4, [ETHERNET, IPV4_noptions 0, GRE4]), (UNROLLED PT_PROTO_GRE6, [ETHERNET, IPV6, GRE6])],
     [(UNROLLED PT_PROTO_MPLS, [IEEE8023, VLAN, VLAN, MPLS_nlabels 1]), (UNROLLED PT_PROTO_ISID, [ETHERNET, ISID]), (UNROLLED PT_PROTO_PPPOE, [IEEE8023, VLAN, VLAN, PPPOE]), (UNROLLED PT_PROTO_GRE4, [ETHERNET, IPV4_noptions 0, GRE4]), (UNROLLED PT_PROTO_GRE6, [ETHERNET, IPV6, GRE6])],
     [(UNROLLED PT_PROTO_MPLS, [IEEE8023, VLAN, VLAN, MPLS_nlabels 1]), (UNROLLED PT_PROTO_ISID, [ETHERNET, ISID]), (UNROLLED PT_PROTO_PPPOE, [IEEE8023, VLAN, VLAN, PPPOE]), (UNROLLED PT_PROTO_GRE4, [ETHERNET, IPV4_noptions 0, GRE4]), (UNROLLED PT_PROTO_GRE6, [ETHERNET, IPV6, GRE6])],
     [(UNROLLED PT_PROTO_MPLS, [IEEE8023, VLAN, VLAN, MPLS_nlabels 1]), (UNROLLED PT_PROTO_ISID, [ETHERNET, ISID]), (UNROLLED PT_PROTO_PPPOE, [IEEE8023, VLAN, VLAN, PPPOE]), (UNROLLED PT_PROTO_GRE4, [ETHERNET, IPV4_noptions 0, GRE4]), (UNROLLED PT_PROTO_GRE6, [ETHERNET, IPV6, GRE6])],
     [(UNROLLED PT_PROTO_MPLS, [IEEE8023, VLAN, VLAN, MPLS_nlabels 1]), (UNROLLED PT_PROTO_ISID, [ETHERNET, ISID]), (UNROLLED PT_PROTO_PPPOE, [IEEE8023, VLAN, VLAN, PPPOE]), (UNROLLED PT_PROTO_GRE4, [ETHERNET, IPV4_noptions 0, GRE4]), (UNROLLED PT_PROTO_GRE6, [ETHERNET, IPV6, GRE6])],
     [(UNROLLED PT_PROTO_MPLS, [ETHERNET, MPLS_nlabels 1]), (UNROLLED PT_PROTO_VLAN, [ETHERNET, VLAN, IPV4_noptions 0, UDP]), (UNROLLED PT_PROTO_ISID, [ETHERNET, ISID]), (UNROLLED PT_PROTO_PPPOE, [ETHERNET, PPPOE]), (UNROLLED PT_PROTO_GTPU4, [ETHERNET, IPV4_noptions 0, UDP, GTPU4]), (UNROLLED PT_PROTO_GTPU6, [ETHERNET, IPV6, UDP, GTPU6]), (UNROLLED PT_PROTO_GRE4, [ETHERNET, IPV4_noptions 0, GRE4]), (UNROLLED PT_PROTO_GRE6, [ETHERNET, IPV6, GRE6])],
     [(UNROLLED PT_PROTO_MPLS, [ETHERNET, MPLS_nlabels 1]), (UNROLLED PT_PROTO_VLAN, [ETHERNET, VLAN, IPV4_noptions 1, UDP]), (UNROLLED PT_PROTO_ISID, [ETHERNET, ISID]), (UNROLLED PT_PROTO_PPPOE, [ETHERNET, PPPOE]), (UNROLLED PT_PROTO_GRE4, [ETHERNET, IPV4_noptions 0, GRE4]), (UNROLLED PT_PROTO_GRE6, [ETHERNET, IPV6, GRE6])],
     [(UNROLLED PT_PROTO_MPLS, [ETHERNET, MPLS_nlabels 1]), (UNROLLED PT_PROTO_VLAN, [ETHERNET, VLAN, IPV4_noptions 2, UDP]), (UNROLLED PT_PROTO_ISID, [ETHERNET, ISID]), (UNROLLED PT_PROTO_PPPOE, [ETHERNET, PPPOE]), (UNROLLED PT_PROTO_GRE4, [ETHERNET, IPV4_noptions 0, GRE4]), (UNROLLED PT_PROTO_GRE6, [ETHERNET, IPV6, GRE6])],
     [(UNROLLED PT_PROTO_MPLS, [ETHERNET, MPLS_nlabels 1]), (UNROLLED PT_PROTO_VLAN, [ETHERNET, VLAN, IPV4_noptions 3, UDP]), (UNROLLED PT_PROTO_ISID, [ETHERNET, ISID]), (UNROLLED PT_PROTO_PPPOE, [ETHERNET, PPPOE]), (UNROLLED PT_PROTO_GRE4, [ETHERNET, IPV4_noptions 0, GRE4]), (UNROLLED PT_PROTO_GRE6, [ETHERNET, IPV6, GRE6])],
     [(UNROLLED PT_PROTO_MPLS, [ETHERNET, MPLS_nlabels 1]), (UNROLLED PT_PROTO_VLAN, [ETHERNET, VLAN, IPV4_noptions 4, UDP]), (UNROLLED PT_PROTO_ISID, [ETHERNET, ISID]), (UNROLLED PT_PROTO_PPPOE, [ETHERNET, PPPOE]), (UNROLLED PT_PROTO_GRE4, [ETHERNET, IPV4_noptions 0, GRE4]), (UNROLLED PT_PROTO_GRE6, [ETHERNET, IPV6, GRE6])],
     [(UNROLLED PT_PROTO_MPLS, [ETHERNET, MPLS_nlabels 1]), (UNROLLED PT_PROTO_VLAN, [ETHERNET, VLAN, IPV4_noptions 5, UDP]), (UNROLLED PT_PROTO_ISID, [ETHERNET, ISID]), (UNROLLED PT_PROTO_PPPOE, [ETHERNET, PPPOE]), (UNROLLED PT_PROTO_GRE4, [ETHERNET, IPV4_noptions 0, GRE4]), (UNROLLED PT_PROTO_GRE6, [ETHERNET, IPV6, GRE6])],
     [(UNROLLED PT_PROTO_MPLS, [ETHERNET, MPLS_nlabels 1]), (UNROLLED PT_PROTO_VLAN, [ETHERNET, VLAN, IPV4_noptions 6, UDP]), (UNROLLED PT_PROTO_ISID, [ETHERNET, ISID]), (UNROLLED PT_PROTO_PPPOE, [ETHERNET, PPPOE]), (UNROLLED PT_PROTO_GRE4, [ETHERNET, IPV4_noptions 0, GRE4]), (UNROLLED PT_PROTO_GRE6, [ETHERNET, IPV6, GRE6])],
     [(UNROLLED PT_PROTO_MPLS, [ETHERNET, MPLS_nlabels 1]), (UNROLLED PT_PROTO_VLAN, [ETHERNET, VLAN, IPV4_noptions 7, UDP]), (UNROLLED PT_PROTO_ISID, [ETHERNET, ISID]), (UNROLLED PT_PROTO_PPPOE, [ETHERNET, PPPOE]), (UNROLLED PT_PROTO_GRE4, [ETHERNET, IPV4_noptions 0, GRE4]), (UNROLLED PT_PROTO_GRE6, [ETHERNET, IPV6, GRE6])],
     [(UNROLLED PT_PROTO_MPLS, [ETHERNET, MPLS_nlabels 1]), (UNROLLED PT_PROTO_VLAN, [ETHERNET, VLAN, IPV4_noptions 8, UDP]), (UNROLLED PT_PROTO_ISID, [ETHERNET, ISID]), (UNROLLED PT_PROTO_PPPOE, [ETHERNET, PPPOE]), (UNROLLED PT_PROTO_GRE4, [ETHERNET, IPV4_noptions 0, GRE4]), (UNROLLED PT_PROTO_GRE6, [ETHERNET, IPV6, GRE6])],
     [(UNROLLED PT_PROTO_MPLS, [ETHERNET, MPLS_nlabels 1]), (UNROLLED PT_PROTO_VLAN, [ETHERNET, VLAN, IPV4_noptions 9, UDP]), (UNROLLED PT_PROTO_ISID, [ETHERNET, ISID]), (UNROLLED PT_PROTO_PPPOE, [ETHERNET, PPPOE]), (UNROLLED PT_PROTO_GRE4, [ETHERNET, IPV4_noptions 0, GRE4]), (UNROLLED PT_PROTO_GRE6, [ETHERNET, IPV6, GRE6])],
     [(UNROLLED PT_PROTO_MPLS, [ETHERNET, MPLS_nlabels 1]), (UNROLLED PT_PROTO_VLAN, [ETHERNET, VLAN, IPV4_noptions 10, UDP]), (UNROLLED PT_PROTO_ISID, [ETHERNET, ISID]), (UNROLLED PT_PROTO_PPPOE, [ETHERNET, PPPOE]), (UNROLLED PT_PROTO_GRE4, [ETHERNET, IPV4_noptions 0, GRE4]), (UNROLLED PT_PROTO_GRE6, [ETHERNET, IPV6, GRE6])],
     [(UNROLLED PT_PROTO_MPLS, [ETHERNET, MPLS_nlabels 1]), (UNROLLED PT_PROTO_VLAN, [ETHERNET, VLAN, IPV4_noptions 11, UDP]), (UNROLLED PT_PROTO_ISID, [ETHERNET, ISID]), (UNROLLED PT_PROTO_PPPOE, [ETHERNET, PPPOE]), (UNROLLED PT_PROTO_GRE4, [ETHERNET, IPV4_noptions 0, GRE4]), (UNROLLED PT_PROTO_GRE6, [ETHERNET, IPV6, GRE6])],
     [(UNROLLED PT_PROTO_MPLS, [ETHERNET, MPLS_nlabels 1]), (UNROLLED PT_PROTO_VLAN, [ETHERNET, VLAN, IPV4_noptions 12, UDP]), (UNROLLED PT_PROTO_ISID, [ETHERNET, ISID]), (UNROLLED PT_PROTO_PPPOE, [ETHERNET, PPPOE]), (UNROLLED PT_PROTO_GRE4, [ETHERNET, IPV4_noptions 0, GRE4]), (UNROLLED PT_PROTO_GRE6, [ETHERNET, IPV6, GRE6])],
     [(UNROLLED PT_PROTO_MPLS, [ETHERNET, MPLS_nlabels 1]), (UNROLLED PT_PROTO_VLAN, [ETHERNET, VLAN, IPV4_noptions 13, UDP]), (UNROLLED PT_PROTO_ISID, [ETHERNET, ISID]), (UNROLLED PT_PROTO_PPPOE, [ETHERNET, PPPOE]), (UNROLLED PT_PROTO_GRE4, [ETHERNET, IPV4_noptions 0, GRE4]), (UNROLLED PT_PROTO_GRE6, [ETHERNET, IPV6, GRE6])],
     [(UNROLLED PT_PROTO_MPLS, [ETHERNET, MPLS_nlabels 1]), (UNROLLED PT_PROTO_VLAN, [ETHERNET, VLAN, IPV4_noptions 14, UDP]), (UNROLLED PT_PROTO_ISID, [ETHERNET, ISID]), (UNROLLED PT_PROTO_PPPOE, [ETHERNET, PPPOE]), (UNROLLED PT_PROTO_GRE4, [ETHERNET, IPV4_noptions 0, GRE4]), (UNROLLED PT_PROTO_GRE6, [ETHERNET, IPV6, GRE6])],
     [(UNROLLED PT_PROTO_MPLS, [ETHERNET, MPLS_nlabels 1]), (UNROLLED PT_PROTO_VLAN, [ETHERNET, VLAN, IPV4_noptions 15, UDP]), (UNROLLED PT_PROTO_ISID, [ETHERNET, ISID]), (UNROLLED PT_PROTO_PPPOE, [ETHERNET, PPPOE]), (UNROLLED PT_PROTO_GRE4, [ETHERNET, IPV4_noptions 0, GRE4]), (UNROLLED PT_PROTO_GRE6, [ETHERNET, IPV6, GRE6])],
     [],
     [],
     [],
     [],
     [],
     [],
     [],
     [],
     [],
     [],
     [],
     [],
     [],
     [],
     [],
     [],
     [],
     [],
     [],
     [],
     [],
     [],
     [],
     [],
     [],
     [],
     [],
     [],
     [],
     [],
     [],
     [],
     [(UNROLLED PT_PROTO_MPLS, [IEEE8023, MPLS_nlabels 1]), (UNROLLED PT_PROTO_VLAN, [IEEE8023, VLAN, IPV4_noptions 0, UDP]), (UNROLLED PT_PROTO_ISID, [ETHERNET, ISID]), (UNROLLED PT_PROTO_PPPOE, [IEEE8023, PPPOE]), (UNROLLED PT_PROTO_GTPU4, [IEEE8023, IPV4_noptions 0, UDP, GTPU4]), (UNROLLED PT_PROTO_GTPU6, [IEEE8023, IPV6, UDP, GTPU6]), (UNROLLED PT_PROTO_GRE4, [ETHERNET, IPV4_noptions 0, GRE4]), (UNROLLED PT_PROTO_GRE6, [ETHERNET, IPV6, GRE6])],
     [(UNROLLED PT_PROTO_MPLS, [IEEE8023, MPLS_nlabels 1]), (UNROLLED PT_PROTO_VLAN, [IEEE8023, VLAN, IPV4_noptions 1, UDP]), (UNROLLED PT_PROTO_ISID, [ETHERNET, ISID]), (UNROLLED PT_PROTO_PPPOE, [IEEE8023, PPPOE]), (UNROLLED PT_PROTO_GRE4, [ETHERNET, IPV4_noptions 0, GRE4]), (UNROLLED PT_PROTO_GRE6, [ETHERNET, IPV6, GRE6])],
     [(UNROLLED PT_PROTO_MPLS, [IEEE8023, MPLS_nlabels 1]), (UNROLLED PT_PROTO_VLAN, [IEEE8023, VLAN, IPV4_noptions 2, UDP]), (UNROLLED PT_PROTO_ISID, [ETHERNET, ISID]), (UNROLLED PT_PROTO_PPPOE, [IEEE8023, PPPOE]), (UNROLLED PT_PROTO_GRE4, [ETHERNET, IPV4_noptions 0, GRE4]), (UNROLLED PT_PROTO_GRE6, [ETHERNET, IPV6, GRE6])],
     [(UNROLLED PT_PROTO_MPLS, [IEEE8023, MPLS_nlabels 1]), (UNROLLED PT_PROTO_VLAN, [IEEE8023, VLAN, IPV4_noptions 3, UDP]), (UNROLLED PT_PROTO_ISID, [ETHERNET, ISID]), (UNROLLED PT_PROTO_PPPOE, [IEEE8023, PPPOE]), (UNROLLED PT_PROTO_GRE4, [ETHERNET, IPV4_noptions 0, GRE4]), (UNROLLED PT_PROTO_GRE6, [ETHERNET, IPV6, GRE6])],
     [(UNROLLED PT_PROTO_MPLS, [IEEE8023, MPLS_nlabels 1]), (UNROLLED PT_PROTO_VLAN, [IEEE8023, VLAN, IPV4_noptions 4, UDP]), (UNROLLED PT_PROTO_ISID, [ETHERNET, ISID]), (UNROLLED PT_PROTO_PPPOE, [IEEE8023, PPPOE]), (UNROLLED PT_PROTO_GRE4, [ETHERNET, IPV4_noptions 0, GRE4]), (UNROLLED PT_PROTO_GRE6, [ETHERNET, IPV6, GRE6])],
     [(UNROLLED PT_PROTO_MPLS, [IEEE8023, MPLS_nlabels 1]), (UNROLLED PT_PROTO_VLAN, [IEEE8023, VLAN, IPV4_noptions 5, UDP]), (UNROLLED PT_PROTO_ISID, [ETHERNET, ISID]), (UNROLLED PT_PROTO_PPPOE, [IEEE8023, PPPOE]), (UNROLLED PT_PROTO_GRE4, [ETHERNET, IPV4_noptions 0, GRE4]), (UNROLLED PT_PROTO_GRE6, [ETHERNET, IPV6, GRE6])],
     [(UNROLLED PT_PROTO_MPLS, [IEEE8023, MPLS_nlabels 1]), (UNROLLED PT_PROTO_VLAN, [IEEE8023, VLAN, IPV4_noptions 6, UDP]), (UNROLLED PT_PROTO_ISID, [ETHERNET, ISID]), (UNROLLED PT_PROTO_PPPOE, [IEEE8023, PPPOE]), (UNROLLED PT_PROTO_GRE4, [ETHERNET, IPV4_noptions 0, GRE4]), (UNROLLED PT_PROTO_GRE6, [ETHERNET, IPV6, GRE6])],
     [(UNROLLED PT_PROTO_MPLS, [IEEE8023, MPLS_nlabels 1]), (UNROLLED PT_PROTO_VLAN, [IEEE8023, VLAN, IPV4_noptions 7, UDP]), (UNROLLED PT_PROTO_ISID, [ETHERNET, ISID]), (UNROLLED PT_PROTO_PPPOE, [IEEE8023, PPPOE]), (UNROLLED PT_PROTO_GRE4, [ETHERNET, IPV4_noptions 0, GRE4]), (UNROLLED PT_PROTO_GRE6, [ETHERNET, IPV6, GRE6])],
     [(UNROLLED PT_PROTO_MPLS, [IEEE8023, MPLS_nlabels 1]), (UNROLLED PT_PROTO_VLAN, [IEEE8023, VLAN, IPV4_noptions 8, UDP]), (UNROLLED PT_PROTO_ISID, [ETHERNET, ISID]), (UNROLLED PT_PROTO_PPPOE, [IEEE8023, PPPOE]), (UNROLLED PT_PROTO_GRE4, [ETHERNET, IPV4_noptions 0, GRE4]), (UNROLLED PT_PROTO_GRE6, [ETHERNET, IPV6, GRE6])],
     [(UNROLLED PT_PROTO_MPLS, [IEEE8023, MPLS_nlabels 1]), (UNROLLED PT_PROTO_VLAN, [IEEE8023, VLAN, IPV4_noptions 9, UDP]), (UNROLLED PT_PROTO_ISID, [ETHERNET, ISID]), (UNROLLED PT_PROTO_PPPOE, [IEEE8023, PPPOE]), (UNROLLED PT_PROTO_GRE4, [ETHERNET, IPV4_noptions 0, GRE4]), (UNROLLED PT_PROTO_GRE6, [ETHERNET, IPV6, GRE6])],
     [(UNROLLED PT_PROTO_MPLS, [IEEE8023, MPLS_nlabels 1]), (UNROLLED PT_PROTO_VLAN, [IEEE8023, VLAN, IPV4_noptions 10, UDP]), (UNROLLED PT_PROTO_ISID, [ETHERNET, ISID]), (UNROLLED PT_PROTO_PPPOE, [IEEE8023, PPPOE]), (UNROLLED PT_PROTO_GRE4, [ETHERNET, IPV4_noptions 0, GRE4]), (UNROLLED PT_PROTO_GRE6, [ETHERNET, IPV6, GRE6])],
     [(UNROLLED PT_PROTO_MPLS, [IEEE8023, MPLS_nlabels 1]), (UNROLLED PT_PROTO_VLAN, [IEEE8023, VLAN, IPV4_noptions 11, UDP]), (UNROLLED PT_PROTO_ISID, [ETHERNET, ISID]), (UNROLLED PT_PROTO_PPPOE, [IEEE8023, PPPOE]), (UNROLLED PT_PROTO_GRE4, [ETHERNET, IPV4_noptions 0, GRE4]), (UNROLLED PT_PROTO_GRE6, [ETHERNET, IPV6, GRE6])],
     [(UNROLLED PT_PROTO_MPLS, [IEEE8023, MPLS_nlabels 1]), (UNROLLED PT_PROTO_VLAN, [IEEE8023, VLAN, IPV4_noptions 12, UDP]), (UNROLLED PT_PROTO_ISID, [ETHERNET, ISID]), (UNROLLED PT_PROTO_PPPOE, [IEEE8023, PPPOE]), (UNROLLED PT_PROTO_GRE4, [ETHERNET, IPV4_noptions 0, GRE4]), (UNROLLED PT_PROTO_GRE6, [ETHERNET, IPV6, GRE6])],
     [(UNROLLED PT_PROTO_MPLS, [IEEE8023, MPLS_nlabels 1]), (UNROLLED PT_PROTO_VLAN, [IEEE8023, VLAN, IPV4_noptions 13, UDP]), (UNROLLED PT_PROTO_ISID, [ETHERNET, ISID]), (UNROLLED PT_PROTO_PPPOE, [IEEE8023, PPPOE]), (UNROLLED PT_PROTO_GRE4, [ETHERNET, IPV4_noptions 0, GRE4]), (UNROLLED PT_PROTO_GRE6, [ETHERNET, IPV6, GRE6])],
     [(UNROLLED PT_PROTO_MPLS, [IEEE8023, MPLS_nlabels 1]), (UNROLLED PT_PROTO_VLAN, [IEEE8023, VLAN, IPV4_noptions 14, UDP]), (UNROLLED PT_PROTO_ISID, [ETHERNET, ISID]), (UNROLLED PT_PROTO_PPPOE, [IEEE8023, PPPOE]), (UNROLLED PT_PROTO_GRE4, [ETHERNET, IPV4_noptions 0, GRE4]), (UNROLLED PT_PROTO_GRE6, [ETHERNET, IPV6, GRE6])],
     [(UNROLLED PT_PROTO_MPLS, [IEEE8023, MPLS_nlabels 1]), (UNROLLED PT_PROTO_VLAN, [IEEE8023, VLAN, IPV4_noptions 15, UDP]), (UNROLLED PT_PROTO_ISID, [ETHERNET, ISID]), (UNROLLED PT_PROTO_PPPOE, [IEEE8023, PPPOE]), (UNROLLED PT_PROTO_GRE4, [ETHERNET, IPV4_noptions 0, GRE4]), (UNROLLED PT_PROTO_GRE6, [ETHERNET, IPV6, GRE6])],
     [(UNROLLED PT_PROTO_MPLS, [ETHERNET, VLAN, MPLS_nlabels 1]), (UNROLLED PT_PROTO_VLAN, [ETHERNET, VLAN, VLAN, IPV4_noptions 0, UDP]), (UNROLLED PT_PROTO_ISID, [ETHERNET, ISID]), (UNROLLED PT_PROTO_PPPOE, [ETHERNET, VLAN, PPPOE]), (UNROLLED PT_PROTO_GRE4, [ETHERNET, IPV4_noptions 0, GRE4]), (UNROLLED PT_PROTO_GRE6, [ETHERNET, IPV6, GRE6])],
     [(UNROLLED PT_PROTO_MPLS, [ETHERNET, VLAN, MPLS_nlabels 1]), (UNROLLED PT_PROTO_VLAN, [ETHERNET, VLAN, VLAN, IPV4_noptions 1, UDP]), (UNROLLED PT_PROTO_ISID, [ETHERNET, ISID]), (UNROLLED PT_PROTO_PPPOE, [ETHERNET, VLAN, PPPOE]), (UNROLLED PT_PROTO_GRE4, [ETHERNET, IPV4_noptions 0, GRE4]), (UNROLLED PT_PROTO_GRE6, [ETHERNET, IPV6, GRE6])],
     [(UNROLLED PT_PROTO_MPLS, [ETHERNET, VLAN, MPLS_nlabels 1]), (UNROLLED PT_PROTO_VLAN, [ETHERNET, VLAN, VLAN, IPV4_noptions 2, UDP]), (UNROLLED PT_PROTO_ISID, [ETHERNET, ISID]), (UNROLLED PT_PROTO_PPPOE, [ETHERNET, VLAN, PPPOE]), (UNROLLED PT_PROTO_GRE4, [ETHERNET, IPV4_noptions 0, GRE4]), (UNROLLED PT_PROTO_GRE6, [ETHERNET, IPV6, GRE6])],
     [(UNROLLED PT_PROTO_MPLS, [ETHERNET, VLAN, MPLS_nlabels 1]), (UNROLLED PT_PROTO_VLAN, [ETHERNET, VLAN, VLAN, IPV4_noptions 3, UDP]), (UNROLLED PT_PROTO_ISID, [ETHERNET, ISID]), (UNROLLED PT_PROTO_PPPOE, [ETHERNET, VLAN, PPPOE]), (UNROLLED PT_PROTO_GRE4, [ETHERNET, IPV4_noptions 0, GRE4]), (UNROLLED PT_PROTO_GRE6, [ETHERNET, IPV6, GRE6])],
     [(UNROLLED PT_PROTO_MPLS, [ETHERNET, VLAN, MPLS_nlabels 1]), (UNROLLED PT_PROTO_VLAN, [ETHERNET, VLAN, VLAN, IPV4_noptions 4, UDP]), (UNROLLED PT_PROTO_ISID, [ETHERNET, ISID]), (UNROLLED PT_PROTO_PPPOE, [ETHERNET, VLAN, PPPOE]), (UNROLLED PT_PROTO_GRE4, [ETHERNET, IPV4_noptions 0, GRE4]), (UNROLLED PT_PROTO_GRE6, [ETHERNET, IPV6, GRE6])],
     [(UNROLLED PT_PROTO_MPLS, [ETHERNET, VLAN, MPLS_nlabels 1]), (UNROLLED PT_PROTO_VLAN, [ETHERNET, VLAN, VLAN, IPV4_noptions 5, UDP]), (UNROLLED PT_PROTO_ISID, [ETHERNET, ISID]), (UNROLLED PT_PROTO_PPPOE, [ETHERNET, VLAN, PPPOE]), (UNROLLED PT_PROTO_GRE4, [ETHERNET, IPV4_noptions 0, GRE4]), (UNROLLED PT_PROTO_GRE6, [ETHERNET, IPV6, GRE6])],
     [(UNROLLED PT_PROTO_MPLS, [ETHERNET, VLAN, MPLS_nlabels 1]), (UNROLLED PT_PROTO_VLAN, [ETHERNET, VLAN, VLAN, IPV4_noptions 6, UDP]), (UNROLLED PT_PROTO_ISID, [ETHERNET, ISID]), (UNROLLED PT_PROTO_PPPOE, [ETHERNET, VLAN, PPPOE]), (UNROLLED PT_PROTO_GRE4, [ETHERNET, IPV4_noptions 0, GRE4]), (UNROLLED PT_PROTO_GRE6, [ETHERNET, IPV6, GRE6])],
     [(UNROLLED PT_PROTO_MPLS, [ETHERNET, VLAN, MPLS_nlabels 1]), (UNROLLED PT_PROTO_VLAN, [ETHERNET, VLAN, VLAN, IPV4_noptions 7, UDP]), (UNROLLED PT_PROTO_ISID, [ETHERNET, ISID]), (UNROLLED PT_PROTO_PPPOE, [ETHERNET, VLAN, PPPOE]), (UNROLLED PT_PROTO_GRE4, [ETHERNET, IPV4_noptions 0, GRE4]), (UNROLLED PT_PROTO_GRE6, [ETHERNET, IPV6, GRE6])],
     [(UNROLLED PT_PROTO_MPLS, [ETHERNET, VLAN, MPLS_nlabels 1]), (UNROLLED PT_PROTO_VLAN, [ETHERNET, VLAN, VLAN, IPV4_noptions 8, UDP]), (UNROLLED PT_PROTO_ISID, [ETHERNET, ISID]), (UNROLLED PT_PROTO_PPPOE, [ETHERNET, VLAN, PPPOE]), (UNROLLED PT_PROTO_GRE4, [ETHERNET, IPV4_noptions 0, GRE4]), (UNROLLED PT_PROTO_GRE6, [ETHERNET, IPV6, GRE6])],
     [(UNROLLED PT_PROTO_MPLS, [ETHERNET, VLAN, MPLS_nlabels 1]), (UNROLLED PT_PROTO_VLAN, [ETHERNET, VLAN, VLAN, IPV4_noptions 9, UDP]), (UNROLLED PT_PROTO_ISID, [ETHERNET, ISID]), (UNROLLED PT_PROTO_PPPOE, [ETHERNET, VLAN, PPPOE]), (UNROLLED PT_PROTO_GRE4, [ETHERNET, IPV4_noptions 0, GRE4]), (UNROLLED PT_PROTO_GRE6, [ETHERNET, IPV6, GRE6])],
     [(UNROLLED PT_PROTO_MPLS, [ETHERNET, VLAN, MPLS_nlabels 1]), (UNROLLED PT_PROTO_VLAN, [ETHERNET, VLAN, VLAN, IPV4_noptions 10, UDP]), (UNROLLED PT_PROTO_ISID, [ETHERNET, ISID]), (UNROLLED PT_PROTO_PPPOE, [ETHERNET, VLAN, PPPOE]), (UNROLLED PT_PROTO_GRE4, [ETHERNET, IPV4_noptions 0, GRE4]), (UNROLLED PT_PROTO_GRE6, [ETHERNET, IPV6, GRE6])],
     [(UNROLLED PT_PROTO_MPLS, [ETHERNET, VLAN, MPLS_nlabels 1]), (UNROLLED PT_PROTO_VLAN, [ETHERNET, VLAN, VLAN, IPV4_noptions 11, UDP]), (UNROLLED PT_PROTO_ISID, [ETHERNET, ISID]), (UNROLLED PT_PROTO_PPPOE, [ETHERNET, VLAN, PPPOE]), (UNROLLED PT_PROTO_GRE4, [ETHERNET, IPV4_noptions 0, GRE4]), (UNROLLED PT_PROTO_GRE6, [ETHERNET, IPV6, GRE6])],
     [(UNROLLED PT_PROTO_MPLS, [ETHERNET, VLAN, MPLS_nlabels 1]), (UNROLLED PT_PROTO_VLAN, [ETHERNET, VLAN, VLAN, IPV4_noptions 12, UDP]), (UNROLLED PT_PROTO_ISID, [ETHERNET, ISID]), (UNROLLED PT_PROTO_PPPOE, [ETHERNET, VLAN, PPPOE]), (UNROLLED PT_PROTO_GRE4, [ETHERNET, IPV4_noptions 0, GRE4]), (UNROLLED PT_PROTO_GRE6, [ETHERNET, IPV6, GRE6])],
     [(UNROLLED PT_PROTO_MPLS, [ETHERNET, VLAN, MPLS_nlabels 1]), (UNROLLED PT_PROTO_VLAN, [ETHERNET, VLAN, VLAN, IPV4_noptions 13, UDP]), (UNROLLED PT_PROTO_ISID, [ETHERNET, ISID]), (UNROLLED PT_PROTO_PPPOE, [ETHERNET, VLAN, PPPOE]), (UNROLLED PT_PROTO_GRE4, [ETHERNET, IPV4_noptions 0, GRE4]), (UNROLLED PT_PROTO_GRE6, [ETHERNET, IPV6, GRE6])]]"

definition push_table_6 :: "(unrolled \<times> pkt_type) list list" where
  "push_table_6 =
    [[(UNROLLED PT_PROTO_MPLS, [ETHERNET, VLAN, MPLS_nlabels 1]), (UNROLLED PT_PROTO_VLAN, [ETHERNET, VLAN, VLAN, IPV4_noptions 14, UDP]), (UNROLLED PT_PROTO_ISID, [ETHERNET, ISID]), (UNROLLED PT_PROTO_PPPOE, [ETHERNET, VLAN, PPPOE]), (UNROLLED PT_PROTO_GRE4, [ETHERNET, IPV4_noptions 0, GRE4]), (UNROLLED PT_PROTO_GRE6, [ETHERNET, IPV6, GRE6])],
     [(UNROLLED PT_PROTO_MPLS, [ETHERNET, VLAN, MPLS_nlabels 1]), (UNROLLED PT_PROTO_VLAN, [ETHERNET, VLAN, VLAN, IPV4_noptions 15, UDP]), (UNROLLED PT_PROTO_ISID, [ETHERNET, ISID]), (UNROLLED PT_PROTO_PPPOE, [ETHERNET, VLAN, PPPOE]), (UNROLLED PT_PROTO_GRE4, [ETHERNET, IPV4_noptions 0, GRE4]), (UNROLLED PT_PROTO_GRE6, [ETHERNET, IPV6, GRE6])],
     [(UNROLLED PT_PROTO_MPLS, [IEEE8023, VLAN, MPLS_nlabels 1]), (UNROLLED PT_PROTO_VLAN, [IEEE8023, VLAN, VLAN, IPV4_noptions 0, UDP]), (UNROLLED PT_PROTO_ISID, [ETHERNET, ISID]), (UNROLLED PT_PROTO_PPPOE, [IEEE8023, VLAN, PPPOE]), (UNROLLED PT_PROTO_GRE4, [ETHERNET, IPV4_noptions 0, GRE4]), (UNROLLED PT_PROTO_GRE6, [ETHERNET, IPV6, GRE6])],
     [(UNROLLED PT_PROTO_MPLS, [IEEE8023, VLAN, MPLS_nlabels 1]), (UNROLLED PT_PROTO_VLAN, [IEEE8023, VLAN, VLAN, IPV4_noptions 1, UDP]), (UNROLLED PT_PROTO_ISID, [ETHERNET, ISID]), (UNROLLED PT_PROTO_PPPOE, [IEEE8023, VLAN, PPPOE]), (UNROLLED PT_PROTO_GRE4, [ETHERNET, IPV4_noptions 0, GRE4]), (UNROLLED PT_PROTO_GRE6, [ETHERNET, IPV6, GRE6])],
     [(UNROLLED PT_PROTO_MPLS, [IEEE8023, VLAN, MPLS_nlabels 1]), (UNROLLED PT_PROTO_VLAN, [IEEE8023, VLAN, VLAN, IPV4_noptions 2, UDP]), (UNROLLED PT_PROTO_ISID, [ETHERNET, ISID]), (UNROLLED PT_PROTO_PPPOE, [IEEE8023, VLAN, PPPOE]), (UNROLLED PT_PROTO_GRE4, [ETHERNET, IPV4_noptions 0, GRE4]), (UNROLLED PT_PROTO_GRE6, [ETHERNET, IPV6, GRE6])],
     [(UNROLLED PT_PROTO_MPLS, [IEEE8023, VLAN, MPLS_nlabels 1]), (UNROLLED PT_PROTO_VLAN, [IEEE8023, VLAN, VLAN, IPV4_noptions 3, UDP]), (UNROLLED PT_PROTO_ISID, [ETHERNET, ISID]), (UNROLLED PT_PROTO_PPPOE, [IEEE8023, VLAN, PPPOE]), (UNROLLED PT_PROTO_GRE4, [ETHERNET, IPV4_noptions 0, GRE4]), (UNROLLED PT_PROTO_GRE6, [ETHERNET, IPV6, GRE6])],
     [(UNROLLED PT_PROTO_MPLS, [IEEE8023, VLAN, MPLS_nlabels 1]), (UNROLLED PT_PROTO_VLAN, [IEEE8023, VLAN, VLAN, IPV4_noptions 4, UDP]), (UNROLLED PT_PROTO_ISID, [ETHERNET, ISID]), (UNROLLED PT_PROTO_PPPOE, [IEEE8023, VLAN, PPPOE]), (UNROLLED PT_PROTO_GRE4, [ETHERNET, IPV4_noptions 0, GRE4]), (UNROLLED PT_PROTO_GRE6, [ETHERNET, IPV6, GRE6])],
     [(UNROLLED PT_PROTO_MPLS, [IEEE8023, VLAN, MPLS_nlabels 1]), (UNROLLED PT_PROTO_VLAN, [IEEE8023, VLAN, VLAN, IPV4_noptions 5, UDP]), (UNROLLED PT_PROTO_ISID, [ETHERNET, ISID]), (UNROLLED PT_PROTO_PPPOE, [IEEE8023, VLAN, PPPOE]), (UNROLLED PT_PROTO_GRE4, [ETHERNET, IPV4_noptions 0, GRE4]), (UNROLLED PT_PROTO_GRE6, [ETHERNET, IPV6, GRE6])],
     [(UNROLLED PT_PROTO_MPLS, [IEEE8023, VLAN, MPLS_nlabels 1]), (UNROLLED PT_PROTO_VLAN, [IEEE8023, VLAN, VLAN, IPV4_noptions 6, UDP]), (UNROLLED PT_PROTO_ISID, [ETHERNET, ISID]), (UNROLLED PT_PROTO_PPPOE, [IEEE8023, VLAN, PPPOE]), (UNROLLED PT_PROTO_GRE4, [ETHERNET, IPV4_noptions 0, GRE4]), (UNROLLED PT_PROTO_GRE6, [ETHERNET, IPV6, GRE6])],
     [(UNROLLED PT_PROTO_MPLS, [IEEE8023, VLAN, MPLS_nlabels 1]), (UNROLLED PT_PROTO_VLAN, [IEEE8023, VLAN, VLAN, IPV4_noptions 7, UDP]), (UNROLLED PT_PROTO_ISID, [ETHERNET, ISID]), (UNROLLED PT_PROTO_PPPOE, [IEEE8023, VLAN, PPPOE]), (UNROLLED PT_PROTO_GRE4, [ETHERNET, IPV4_noptions 0, GRE4]), (UNROLLED PT_PROTO_GRE6, [ETHERNET, IPV6, GRE6])],
     [(UNROLLED PT_PROTO_MPLS, [IEEE8023, VLAN, MPLS_nlabels 1]), (UNROLLED PT_PROTO_VLAN, [IEEE8023, VLAN, VLAN, IPV4_noptions 8, UDP]), (UNROLLED PT_PROTO_ISID, [ETHERNET, ISID]), (UNROLLED PT_PROTO_PPPOE, [IEEE8023, VLAN, PPPOE]), (UNROLLED PT_PROTO_GRE4, [ETHERNET, IPV4_noptions 0, GRE4]), (UNROLLED PT_PROTO_GRE6, [ETHERNET, IPV6, GRE6])],
     [(UNROLLED PT_PROTO_MPLS, [IEEE8023, VLAN, MPLS_nlabels 1]), (UNROLLED PT_PROTO_VLAN, [IEEE8023, VLAN, VLAN, IPV4_noptions 9, UDP]), (UNROLLED PT_PROTO_ISID, [ETHERNET, ISID]), (UNROLLED PT_PROTO_PPPOE, [IEEE8023, VLAN, PPPOE]), (UNROLLED PT_PROTO_GRE4, [ETHERNET, IPV4_noptions 0, GRE4]), (UNROLLED PT_PROTO_GRE6, [ETHERNET, IPV6, GRE6])],
     [(UNROLLED PT_PROTO_MPLS, [IEEE8023, VLAN, MPLS_nlabels 1]), (UNROLLED PT_PROTO_VLAN, [IEEE8023, VLAN, VLAN, IPV4_noptions 10, UDP]), (UNROLLED PT_PROTO_ISID, [ETHERNET, ISID]), (UNROLLED PT_PROTO_PPPOE, [IEEE8023, VLAN, PPPOE]), (UNROLLED PT_PROTO_GRE4, [ETHERNET, IPV4_noptions 0, GRE4]), (UNROLLED PT_PROTO_GRE6, [ETHERNET, IPV6, GRE6])],
     [(UNROLLED PT_PROTO_MPLS, [IEEE8023, VLAN, MPLS_nlabels 1]), (UNROLLED PT_PROTO_VLAN, [IEEE8023, VLAN, VLAN, IPV4_noptions 11, UDP]), (UNROLLED PT_PROTO_ISID, [ETHERNET, ISID]), (UNROLLED PT_PROTO_PPPOE, [IEEE8023, VLAN, PPPOE]), (UNROLLED PT_PROTO_GRE4, [ETHERNET, IPV4_noptions 0, GRE4]), (UNROLLED PT_PROTO_GRE6, [ETHERNET, IPV6, GRE6])],
     [(UNROLLED PT_PROTO_MPLS, [IEEE8023, VLAN, MPLS_nlabels 1]), (UNROLLED PT_PROTO_VLAN, [IEEE8023, VLAN, VLAN, IPV4_noptions 12, UDP]), (UNROLLED PT_PROTO_ISID, [ETHERNET, ISID]), (UNROLLED PT_PROTO_PPPOE, [IEEE8023, VLAN, PPPOE]), (UNROLLED PT_PROTO_GRE4, [ETHERNET, IPV4_noptions 0, GRE4]), (UNROLLED PT_PROTO_GRE6, [ETHERNET, IPV6, GRE6])],
     [(UNROLLED PT_PROTO_MPLS, [IEEE8023, VLAN, MPLS_nlabels 1]), (UNROLLED PT_PROTO_VLAN, [IEEE8023, VLAN, VLAN, IPV4_noptions 13, UDP]), (UNROLLED PT_PROTO_ISID, [ETHERNET, ISID]), (UNROLLED PT_PROTO_PPPOE, [IEEE8023, VLAN, PPPOE]), (UNROLLED PT_PROTO_GRE4, [ETHERNET, IPV4_noptions 0, GRE4]), (UNROLLED PT_PROTO_GRE6, [ETHERNET, IPV6, GRE6])],
     [(UNROLLED PT_PROTO_MPLS, [IEEE8023, VLAN, MPLS_nlabels 1]), (UNROLLED PT_PROTO_VLAN, [IEEE8023, VLAN, VLAN, IPV4_noptions 14, UDP]), (UNROLLED PT_PROTO_ISID, [ETHERNET, ISID]), (UNROLLED PT_PROTO_PPPOE, [IEEE8023, VLAN, PPPOE]), (UNROLLED PT_PROTO_GRE4, [ETHERNET, IPV4_noptions 0, GRE4]), (UNROLLED PT_PROTO_GRE6, [ETHERNET, IPV6, GRE6])],
     [(UNROLLED PT_PROTO_MPLS, [IEEE8023, VLAN, MPLS_nlabels 1]), (UNROLLED PT_PROTO_VLAN, [IEEE8023, VLAN, VLAN, IPV4_noptions 15, UDP]), (UNROLLED PT_PROTO_ISID, [ETHERNET, ISID]), (UNROLLED PT_PROTO_PPPOE, [IEEE8023, VLAN, PPPOE]), (UNROLLED PT_PROTO_GRE4, [ETHERNET, IPV4_noptions 0, GRE4]), (UNROLLED PT_PROTO_GRE6, [ETHERNET, IPV6, GRE6])],
     [(UNROLLED PT_PROTO_MPLS, [ETHERNET, VLAN, VLAN, MPLS_nlabels 1]), (UNROLLED PT_PROTO_ISID, [ETHERNET, ISID]), (UNROLLED PT_PROTO_PPPOE, [ETHERNET, VLAN, VLAN, PPPOE]), (UNROLLED PT_PROTO_GRE4, [ETHERNET, IPV4_noptions 0, GRE4]), (UNROLLED PT_PROTO_GRE6, [ETHERNET, IPV6, GRE6])],
     [(UNROLLED PT_PROTO_MPLS, [ETHERNET, VLAN, VLAN, MPLS_nlabels 1]), (UNROLLED PT_PROTO_ISID, [ETHERNET, ISID]), (UNROLLED PT_PROTO_PPPOE, [ETHERNET, VLAN, VLAN, PPPOE]), (UNROLLED PT_PROTO_GRE4, [ETHERNET, IPV4_noptions 0, GRE4]), (UNROLLED PT_PROTO_GRE6, [ETHERNET, IPV6, GRE6])],
     [(UNROLLED PT_PROTO_MPLS, [ETHERNET, VLAN, VLAN, MPLS_nlabels 1]), (UNROLLED PT_PROTO_ISID, [ETHERNET, ISID]), (UNROLLED PT_PROTO_PPPOE, [ETHERNET, VLAN, VLAN, PPPOE]), (UNROLLED PT_PROTO_GRE4, [ETHERNET, IPV4_noptions 0, GRE4]), (UNROLLED PT_PROTO_GRE6, [ETHERNET, IPV6, GRE6])],
     [(UNROLLED PT_PROTO_MPLS, [ETHERNET, VLAN, VLAN, MPLS_nlabels 1]), (UNROLLED PT_PROTO_ISID, [ETHERNET, ISID]), (UNROLLED PT_PROTO_PPPOE, [ETHERNET, VLAN, VLAN, PPPOE]), (UNROLLED PT_PROTO_GRE4, [ETHERNET, IPV4_noptions 0, GRE4]), (UNROLLED PT_PROTO_GRE6, [ETHERNET, IPV6, GRE6])],
     [(UNROLLED PT_PROTO_MPLS, [ETHERNET, VLAN, VLAN, MPLS_nlabels 1]), (UNROLLED PT_PROTO_ISID, [ETHERNET, ISID]), (UNROLLED PT_PROTO_PPPOE, [ETHERNET, VLAN, VLAN, PPPOE]), (UNROLLED PT_PROTO_GRE4, [ETHERNET, IPV4_noptions 0, GRE4]), (UNROLLED PT_PROTO_GRE6, [ETHERNET, IPV6, GRE6])],
     [(UNROLLED PT_PROTO_MPLS, [ETHERNET, VLAN, VLAN, MPLS_nlabels 1]), (UNROLLED PT_PROTO_ISID, [ETHERNET, ISID]), (UNROLLED PT_PROTO_PPPOE, [ETHERNET, VLAN, VLAN, PPPOE]), (UNROLLED PT_PROTO_GRE4, [ETHERNET, IPV4_noptions 0, GRE4]), (UNROLLED PT_PROTO_GRE6, [ETHERNET, IPV6, GRE6])],
     [(UNROLLED PT_PROTO_MPLS, [ETHERNET, VLAN, VLAN, MPLS_nlabels 1]), (UNROLLED PT_PROTO_ISID, [ETHERNET, ISID]), (UNROLLED PT_PROTO_PPPOE, [ETHERNET, VLAN, VLAN, PPPOE]), (UNROLLED PT_PROTO_GRE4, [ETHERNET, IPV4_noptions 0, GRE4]), (UNROLLED PT_PROTO_GRE6, [ETHERNET, IPV6, GRE6])],
     [(UNROLLED PT_PROTO_MPLS, [ETHERNET, VLAN, VLAN, MPLS_nlabels 1]), (UNROLLED PT_PROTO_ISID, [ETHERNET, ISID]), (UNROLLED PT_PROTO_PPPOE, [ETHERNET, VLAN, VLAN, PPPOE]), (UNROLLED PT_PROTO_GRE4, [ETHERNET, IPV4_noptions 0, GRE4]), (UNROLLED PT_PROTO_GRE6, [ETHERNET, IPV6, GRE6])],
     [(UNROLLED PT_PROTO_MPLS, [ETHERNET, VLAN, VLAN, MPLS_nlabels 1]), (UNROLLED PT_PROTO_ISID, [ETHERNET, ISID]), (UNROLLED PT_PROTO_PPPOE, [ETHERNET, VLAN, VLAN, PPPOE]), (UNROLLED PT_PROTO_GRE4, [ETHERNET, IPV4_noptions 0, GRE4]), (UNROLLED PT_PROTO_GRE6, [ETHERNET, IPV6, GRE6])],
     [(UNROLLED PT_PROTO_MPLS, [ETHERNET, VLAN, VLAN, MPLS_nlabels 1]), (UNROLLED PT_PROTO_ISID, [ETHERNET, ISID]), (UNROLLED PT_PROTO_PPPOE, [ETHERNET, VLAN, VLAN, PPPOE]), (UNROLLED PT_PROTO_GRE4, [ETHERNET, IPV4_noptions 0, GRE4]), (UNROLLED PT_PROTO_GRE6, [ETHERNET, IPV6, GRE6])],
     [(UNROLLED PT_PROTO_MPLS, [ETHERNET, VLAN, VLAN, MPLS_nlabels 1]), (UNROLLED PT_PROTO_ISID, [ETHERNET, ISID]), (UNROLLED PT_PROTO_PPPOE, [ETHERNET, VLAN, VLAN, PPPOE]), (UNROLLED PT_PROTO_GRE4, [ETHERNET, IPV4_noptions 0, GRE4]), (UNROLLED PT_PROTO_GRE6, [ETHERNET, IPV6, GRE6])],
     [(UNROLLED PT_PROTO_MPLS, [ETHERNET, VLAN, VLAN, MPLS_nlabels 1]), (UNROLLED PT_PROTO_ISID, [ETHERNET, ISID]), (UNROLLED PT_PROTO_PPPOE, [ETHERNET, VLAN, VLAN, PPPOE]), (UNROLLED PT_PROTO_GRE4, [ETHERNET, IPV4_noptions 0, GRE4]), (UNROLLED PT_PROTO_GRE6, [ETHERNET, IPV6, GRE6])],
     [(UNROLLED PT_PROTO_MPLS, [ETHERNET, VLAN, VLAN, MPLS_nlabels 1]), (UNROLLED PT_PROTO_ISID, [ETHERNET, ISID]), (UNROLLED PT_PROTO_PPPOE, [ETHERNET, VLAN, VLAN, PPPOE]), (UNROLLED PT_PROTO_GRE4, [ETHERNET, IPV4_noptions 0, GRE4]), (UNROLLED PT_PROTO_GRE6, [ETHERNET, IPV6, GRE6])],
     [(UNROLLED PT_PROTO_MPLS, [ETHERNET, VLAN, VLAN, MPLS_nlabels 1]), (UNROLLED PT_PROTO_ISID, [ETHERNET, ISID]), (UNROLLED PT_PROTO_PPPOE, [ETHERNET, VLAN, VLAN, PPPOE]), (UNROLLED PT_PROTO_GRE4, [ETHERNET, IPV4_noptions 0, GRE4]), (UNROLLED PT_PROTO_GRE6, [ETHERNET, IPV6, GRE6])],
     [(UNROLLED PT_PROTO_MPLS, [ETHERNET, VLAN, VLAN, MPLS_nlabels 1]), (UNROLLED PT_PROTO_ISID, [ETHERNET, ISID]), (UNROLLED PT_PROTO_PPPOE, [ETHERNET, VLAN, VLAN, PPPOE]), (UNROLLED PT_PROTO_GRE4, [ETHERNET, IPV4_noptions 0, GRE4]), (UNROLLED PT_PROTO_GRE6, [ETHERNET, IPV6, GRE6])],
     [(UNROLLED PT_PROTO_MPLS, [ETHERNET, VLAN, VLAN, MPLS_nlabels 1]), (UNROLLED PT_PROTO_ISID, [ETHERNET, ISID]), (UNROLLED PT_PROTO_PPPOE, [ETHERNET, VLAN, VLAN, PPPOE]), (UNROLLED PT_PROTO_GRE4, [ETHERNET, IPV4_noptions 0, GRE4]), (UNROLLED PT_PROTO_GRE6, [ETHERNET, IPV6, GRE6])],
     [(UNROLLED PT_PROTO_MPLS, [IEEE8023, VLAN, VLAN, MPLS_nlabels 1]), (UNROLLED PT_PROTO_ISID, [ETHERNET, ISID]), (UNROLLED PT_PROTO_PPPOE, [IEEE8023, VLAN, VLAN, PPPOE]), (UNROLLED PT_PROTO_GRE4, [ETHERNET, IPV4_noptions 0, GRE4]), (UNROLLED PT_PROTO_GRE6, [ETHERNET, IPV6, GRE6])],
     [(UNROLLED PT_PROTO_MPLS, [IEEE8023, VLAN, VLAN, MPLS_nlabels 1]), (UNROLLED PT_PROTO_ISID, [ETHERNET, ISID]), (UNROLLED PT_PROTO_PPPOE, [IEEE8023, VLAN, VLAN, PPPOE]), (UNROLLED PT_PROTO_GRE4, [ETHERNET, IPV4_noptions 0, GRE4]), (UNROLLED PT_PROTO_GRE6, [ETHERNET, IPV6, GRE6])],
     [(UNROLLED PT_PROTO_MPLS, [IEEE8023, VLAN, VLAN, MPLS_nlabels 1]), (UNROLLED PT_PROTO_ISID, [ETHERNET, ISID]), (UNROLLED PT_PROTO_PPPOE, [IEEE8023, VLAN, VLAN, PPPOE]), (UNROLLED PT_PROTO_GRE4, [ETHERNET, IPV4_noptions 0, GRE4]), (UNROLLED PT_PROTO_GRE6, [ETHERNET, IPV6, GRE6])],
     [(UNROLLED PT_PROTO_MPLS, [IEEE8023, VLAN, VLAN, MPLS_nlabels 1]), (UNROLLED PT_PROTO_ISID, [ETHERNET, ISID]), (UNROLLED PT_PROTO_PPPOE, [IEEE8023, VLAN, VLAN, PPPOE]), (UNROLLED PT_PROTO_GRE4, [ETHERNET, IPV4_noptions 0, GRE4]), (UNROLLED PT_PROTO_GRE6, [ETHERNET, IPV6, GRE6])],
     [(UNROLLED PT_PROTO_MPLS, [IEEE8023, VLAN, VLAN, MPLS_nlabels 1]), (UNROLLED PT_PROTO_ISID, [ETHERNET, ISID]), (UNROLLED PT_PROTO_PPPOE, [IEEE8023, VLAN, VLAN, PPPOE]), (UNROLLED PT_PROTO_GRE4, [ETHERNET, IPV4_noptions 0, GRE4]), (UNROLLED PT_PROTO_GRE6, [ETHERNET, IPV6, GRE6])],
     [(UNROLLED PT_PROTO_MPLS, [IEEE8023, VLAN, VLAN, MPLS_nlabels 1]), (UNROLLED PT_PROTO_ISID, [ETHERNET, ISID]), (UNROLLED PT_PROTO_PPPOE, [IEEE8023, VLAN, VLAN, PPPOE]), (UNROLLED PT_PROTO_GRE4, [ETHERNET, IPV4_noptions 0, GRE4]), (UNROLLED PT_PROTO_GRE6, [ETHERNET, IPV6, GRE6])],
     [(UNROLLED PT_PROTO_MPLS, [IEEE8023, VLAN, VLAN, MPLS_nlabels 1]), (UNROLLED PT_PROTO_ISID, [ETHERNET, ISID]), (UNROLLED PT_PROTO_PPPOE, [IEEE8023, VLAN, VLAN, PPPOE]), (UNROLLED PT_PROTO_GRE4, [ETHERNET, IPV4_noptions 0, GRE4]), (UNROLLED PT_PROTO_GRE6, [ETHERNET, IPV6, GRE6])],
     [(UNROLLED PT_PROTO_MPLS, [IEEE8023, VLAN, VLAN, MPLS_nlabels 1]), (UNROLLED PT_PROTO_ISID, [ETHERNET, ISID]), (UNROLLED PT_PROTO_PPPOE, [IEEE8023, VLAN, VLAN, PPPOE]), (UNROLLED PT_PROTO_GRE4, [ETHERNET, IPV4_noptions 0, GRE4]), (UNROLLED PT_PROTO_GRE6, [ETHERNET, IPV6, GRE6])],
     [(UNROLLED PT_PROTO_MPLS, [IEEE8023, VLAN, VLAN, MPLS_nlabels 1]), (UNROLLED PT_PROTO_ISID, [ETHERNET, ISID]), (UNROLLED PT_PROTO_PPPOE, [IEEE8023, VLAN, VLAN, PPPOE]), (UNROLLED PT_PROTO_GRE4, [ETHERNET, IPV4_noptions 0, GRE4]), (UNROLLED PT_PROTO_GRE6, [ETHERNET, IPV6, GRE6])],
     [(UNROLLED PT_PROTO_MPLS, [IEEE8023, VLAN, VLAN, MPLS_nlabels 1]), (UNROLLED PT_PROTO_ISID, [ETHERNET, ISID]), (UNROLLED PT_PROTO_PPPOE, [IEEE8023, VLAN, VLAN, PPPOE]), (UNROLLED PT_PROTO_GRE4, [ETHERNET, IPV4_noptions 0, GRE4]), (UNROLLED PT_PROTO_GRE6, [ETHERNET, IPV6, GRE6])],
     [(UNROLLED PT_PROTO_MPLS, [IEEE8023, VLAN, VLAN, MPLS_nlabels 1]), (UNROLLED PT_PROTO_ISID, [ETHERNET, ISID]), (UNROLLED PT_PROTO_PPPOE, [IEEE8023, VLAN, VLAN, PPPOE]), (UNROLLED PT_PROTO_GRE4, [ETHERNET, IPV4_noptions 0, GRE4]), (UNROLLED PT_PROTO_GRE6, [ETHERNET, IPV6, GRE6])],
     [(UNROLLED PT_PROTO_MPLS, [IEEE8023, VLAN, VLAN, MPLS_nlabels 1]), (UNROLLED PT_PROTO_ISID, [ETHERNET, ISID]), (UNROLLED PT_PROTO_PPPOE, [IEEE8023, VLAN, VLAN, PPPOE]), (UNROLLED PT_PROTO_GRE4, [ETHERNET, IPV4_noptions 0, GRE4]), (UNROLLED PT_PROTO_GRE6, [ETHERNET, IPV6, GRE6])],
     [(UNROLLED PT_PROTO_MPLS, [IEEE8023, VLAN, VLAN, MPLS_nlabels 1]), (UNROLLED PT_PROTO_ISID, [ETHERNET, ISID]), (UNROLLED PT_PROTO_PPPOE, [IEEE8023, VLAN, VLAN, PPPOE]), (UNROLLED PT_PROTO_GRE4, [ETHERNET, IPV4_noptions 0, GRE4]), (UNROLLED PT_PROTO_GRE6, [ETHERNET, IPV6, GRE6])],
     [(UNROLLED PT_PROTO_MPLS, [IEEE8023, VLAN, VLAN, MPLS_nlabels 1]), (UNROLLED PT_PROTO_ISID, [ETHERNET, ISID]), (UNROLLED PT_PROTO_PPPOE, [IEEE8023, VLAN, VLAN, PPPOE]), (UNROLLED PT_PROTO_GRE4, [ETHERNET, IPV4_noptions 0, GRE4]), (UNROLLED PT_PROTO_GRE6, [ETHERNET, IPV6, GRE6])],
     [(UNROLLED PT_PROTO_MPLS, [IEEE8023, VLAN, VLAN, MPLS_nlabels 1]), (UNROLLED PT_PROTO_ISID, [ETHERNET, ISID]), (UNROLLED PT_PROTO_PPPOE, [IEEE8023, VLAN, VLAN, PPPOE]), (UNROLLED PT_PROTO_GRE4, [ETHERNET, IPV4_noptions 0, GRE4]), (UNROLLED PT_PROTO_GRE6, [ETHERNET, IPV6, GRE6])],
     [(UNROLLED PT_PROTO_MPLS, [IEEE8023, VLAN, VLAN, MPLS_nlabels 1]), (UNROLLED PT_PROTO_ISID, [ETHERNET, ISID]), (UNROLLED PT_PROTO_PPPOE, [IEEE8023, VLAN, VLAN, PPPOE]), (UNROLLED PT_PROTO_GRE4, [ETHERNET, IPV4_noptions 0, GRE4]), (UNROLLED PT_PROTO_GRE6, [ETHERNET, IPV6, GRE6])],
     [(UNROLLED PT_PROTO_MPLS, [ETHERNET, MPLS_nlabels 1]), (UNROLLED PT_PROTO_VLAN, [ETHERNET, VLAN, IPV4_noptions 0, UDP, GTPU4]), (UNROLLED PT_PROTO_ISID, [ETHERNET, ISID]), (UNROLLED PT_PROTO_PPPOE, [ETHERNET, PPPOE]), (UNROLLED PT_PROTO_GRE4, [ETHERNET, IPV4_noptions 0, GRE4]), (UNROLLED PT_PROTO_GRE6, [ETHERNET, IPV6, GRE6])],
     [(UNROLLED PT_PROTO_MPLS, [ETHERNET, MPLS_nlabels 1]), (UNROLLED PT_PROTO_VLAN, [ETHERNET, VLAN, IPV4_noptions 1, UDP, GTPU4]), (UNROLLED PT_PROTO_ISID, [ETHERNET, ISID]), (UNROLLED PT_PROTO_PPPOE, [ETHERNET, PPPOE]), (UNROLLED PT_PROTO_GRE4, [ETHERNET, IPV4_noptions 0, GRE4]), (UNROLLED PT_PROTO_GRE6, [ETHERNET, IPV6, GRE6])],
     [(UNROLLED PT_PROTO_MPLS, [ETHERNET, MPLS_nlabels 1]), (UNROLLED PT_PROTO_VLAN, [ETHERNET, VLAN, IPV4_noptions 2, UDP, GTPU4]), (UNROLLED PT_PROTO_ISID, [ETHERNET, ISID]), (UNROLLED PT_PROTO_PPPOE, [ETHERNET, PPPOE]), (UNROLLED PT_PROTO_GRE4, [ETHERNET, IPV4_noptions 0, GRE4]), (UNROLLED PT_PROTO_GRE6, [ETHERNET, IPV6, GRE6])],
     [(UNROLLED PT_PROTO_MPLS, [ETHERNET, MPLS_nlabels 1]), (UNROLLED PT_PROTO_VLAN, [ETHERNET, VLAN, IPV4_noptions 3, UDP, GTPU4]), (UNROLLED PT_PROTO_ISID, [ETHERNET, ISID]), (UNROLLED PT_PROTO_PPPOE, [ETHERNET, PPPOE]), (UNROLLED PT_PROTO_GRE4, [ETHERNET, IPV4_noptions 0, GRE4]), (UNROLLED PT_PROTO_GRE6, [ETHERNET, IPV6, GRE6])],
     [(UNROLLED PT_PROTO_MPLS, [ETHERNET, MPLS_nlabels 1]), (UNROLLED PT_PROTO_VLAN, [ETHERNET, VLAN, IPV4_noptions 4, UDP, GTPU4]), (UNROLLED PT_PROTO_ISID, [ETHERNET, ISID]), (UNROLLED PT_PROTO_PPPOE, [ETHERNET, PPPOE]), (UNROLLED PT_PROTO_GRE4, [ETHERNET, IPV4_noptions 0, GRE4]), (UNROLLED PT_PROTO_GRE6, [ETHERNET, IPV6, GRE6])],
     [(UNROLLED PT_PROTO_MPLS, [ETHERNET, MPLS_nlabels 1]), (UNROLLED PT_PROTO_VLAN, [ETHERNET, VLAN, IPV4_noptions 5, UDP, GTPU4]), (UNROLLED PT_PROTO_ISID, [ETHERNET, ISID]), (UNROLLED PT_PROTO_PPPOE, [ETHERNET, PPPOE]), (UNROLLED PT_PROTO_GRE4, [ETHERNET, IPV4_noptions 0, GRE4]), (UNROLLED PT_PROTO_GRE6, [ETHERNET, IPV6, GRE6])],
     [(UNROLLED PT_PROTO_MPLS, [ETHERNET, MPLS_nlabels 1]), (UNROLLED PT_PROTO_VLAN, [ETHERNET, VLAN, IPV4_noptions 6, UDP, GTPU4]), (UNROLLED PT_PROTO_ISID, [ETHERNET, ISID]), (UNROLLED PT_PROTO_PPPOE, [ETHERNET, PPPOE]), (UNROLLED PT_PROTO_GRE4, [ETHERNET, IPV4_noptions 0, GRE4]), (UNROLLED PT_PROTO_GRE6, [ETHERNET, IPV6, GRE6])],
     [(UNROLLED PT_PROTO_MPLS, [ETHERNET, MPLS_nlabels 1]), (UNROLLED PT_PROTO_VLAN, [ETHERNET, VLAN, IPV4_noptions 7, UDP, GTPU4]), (UNROLLED PT_PROTO_ISID, [ETHERNET, ISID]), (UNROLLED PT_PROTO_PPPOE, [ETHERNET, PPPOE]), (UNROLLED PT_PROTO_GRE4, [ETHERNET, IPV4_noptions 0, GRE4]), (UNROLLED PT_PROTO_GRE6, [ETHERNET, IPV6, GRE6])],
     [(UNROLLED PT_PROTO_MPLS, [ETHERNET, MPLS_nlabels 1]), (UNROLLED PT_PROTO_VLAN, [ETHERNET, VLAN, IPV4_noptions 8, UDP, GTPU4]), (UNROLLED PT_PROTO_ISID, [ETHERNET, ISID]), (UNROLLED PT_PROTO_PPPOE, [ETHERNET, PPPOE]), (UNROLLED PT_PROTO_GRE4, [ETHERNET, IPV4_noptions 0, GRE4]), (UNROLLED PT_PROTO_GRE6, [ETHERNET, IPV6, GRE6])],
     [(UNROLLED PT_PROTO_MPLS, [ETHERNET, MPLS_nlabels 1]), (UNROLLED PT_PROTO_VLAN, [ETHERNET, VLAN, IPV4_noptions 9, UDP, GTPU4]), (UNROLLED PT_PROTO_ISID, [ETHERNET, ISID]), (UNROLLED PT_PROTO_PPPOE, [ETHERNET, PPPOE]), (UNROLLED PT_PROTO_GRE4, [ETHERNET, IPV4_noptions 0, GRE4]), (UNROLLED PT_PROTO_GRE6, [ETHERNET, IPV6, GRE6])],
     [(UNROLLED PT_PROTO_MPLS, [ETHERNET, MPLS_nlabels 1]), (UNROLLED PT_PROTO_VLAN, [ETHERNET, VLAN, IPV4_noptions 10, UDP, GTPU4]), (UNROLLED PT_PROTO_ISID, [ETHERNET, ISID]), (UNROLLED PT_PROTO_PPPOE, [ETHERNET, PPPOE]), (UNROLLED PT_PROTO_GRE4, [ETHERNET, IPV4_noptions 0, GRE4]), (UNROLLED PT_PROTO_GRE6, [ETHERNET, IPV6, GRE6])],
     [(UNROLLED PT_PROTO_MPLS, [ETHERNET, MPLS_nlabels 1]), (UNROLLED PT_PROTO_VLAN, [ETHERNET, VLAN, IPV4_noptions 11, UDP, GTPU4]), (UNROLLED PT_PROTO_ISID, [ETHERNET, ISID]), (UNROLLED PT_PROTO_PPPOE, [ETHERNET, PPPOE]), (UNROLLED PT_PROTO_GRE4, [ETHERNET, IPV4_noptions 0, GRE4]), (UNROLLED PT_PROTO_GRE6, [ETHERNET, IPV6, GRE6])],
     [(UNROLLED PT_PROTO_MPLS, [ETHERNET, MPLS_nlabels 1]), (UNROLLED PT_PROTO_VLAN, [ETHERNET, VLAN, IPV4_noptions 12, UDP, GTPU4]), (UNROLLED PT_PROTO_ISID, [ETHERNET, ISID]), (UNROLLED PT_PROTO_PPPOE, [ETHERNET, PPPOE]), (UNROLLED PT_PROTO_GRE4, [ETHERNET, IPV4_noptions 0, GRE4]), (UNROLLED PT_PROTO_GRE6, [ETHERNET, IPV6, GRE6])],
     [(UNROLLED PT_PROTO_MPLS, [ETHERNET, MPLS_nlabels 1]), (UNROLLED PT_PROTO_VLAN, [ETHERNET, VLAN, IPV4_noptions 13, UDP, GTPU4]), (UNROLLED PT_PROTO_ISID, [ETHERNET, ISID]), (UNROLLED PT_PROTO_PPPOE, [ETHERNET, PPPOE]), (UNROLLED PT_PROTO_GRE4, [ETHERNET, IPV4_noptions 0, GRE4]), (UNROLLED PT_PROTO_GRE6, [ETHERNET, IPV6, GRE6])],
     [(UNROLLED PT_PROTO_MPLS, [ETHERNET, MPLS_nlabels 1]), (UNROLLED PT_PROTO_VLAN, [ETHERNET, VLAN, IPV4_noptions 14, UDP, GTPU4]), (UNROLLED PT_PROTO_ISID, [ETHERNET, ISID]), (UNROLLED PT_PROTO_PPPOE, [ETHERNET, PPPOE]), (UNROLLED PT_PROTO_GRE4, [ETHERNET, IPV4_noptions 0, GRE4]), (UNROLLED PT_PROTO_GRE6, [ETHERNET, IPV6, GRE6])],
     [(UNROLLED PT_PROTO_MPLS, [ETHERNET, MPLS_nlabels 1]), (UNROLLED PT_PROTO_VLAN, [ETHERNET, VLAN, IPV4_noptions 15, UDP, GTPU4]), (UNROLLED PT_PROTO_ISID, [ETHERNET, ISID]), (UNROLLED PT_PROTO_PPPOE, [ETHERNET, PPPOE]), (UNROLLED PT_PROTO_GRE4, [ETHERNET, IPV4_noptions 0, GRE4]), (UNROLLED PT_PROTO_GRE6, [ETHERNET, IPV6, GRE6])],
     [],
     [],
     [],
     [],
     [],
     [],
     [],
     [],
     [],
     [],
     [],
     [],
     [],
     [],
     [],
     [],
     [],
     [],
     [],
     [],
     [],
     [],
     [],
     [],
     [],
     [],
     [],
     [],
     [],
     [],
     [],
     [],
     [(UNROLLED PT_PROTO_MPLS, [IEEE8023, MPLS_nlabels 1]), (UNROLLED PT_PROTO_VLAN, [IEEE8023, VLAN, IPV4_noptions 0, UDP, GTPU4]), (UNROLLED PT_PROTO_ISID, [ETHERNET, ISID]), (UNROLLED PT_PROTO_PPPOE, [IEEE8023, PPPOE]), (UNROLLED PT_PROTO_GRE4, [ETHERNET, IPV4_noptions 0, GRE4]), (UNROLLED PT_PROTO_GRE6, [ETHERNET, IPV6, GRE6])],
     [(UNROLLED PT_PROTO_MPLS, [IEEE8023, MPLS_nlabels 1]), (UNROLLED PT_PROTO_VLAN, [IEEE8023, VLAN, IPV4_noptions 1, UDP, GTPU4]), (UNROLLED PT_PROTO_ISID, [ETHERNET, ISID]), (UNROLLED PT_PROTO_PPPOE, [IEEE8023, PPPOE]), (UNROLLED PT_PROTO_GRE4, [ETHERNET, IPV4_noptions 0, GRE4]), (UNROLLED PT_PROTO_GRE6, [ETHERNET, IPV6, GRE6])],
     [(UNROLLED PT_PROTO_MPLS, [IEEE8023, MPLS_nlabels 1]), (UNROLLED PT_PROTO_VLAN, [IEEE8023, VLAN, IPV4_noptions 2, UDP, GTPU4]), (UNROLLED PT_PROTO_ISID, [ETHERNET, ISID]), (UNROLLED PT_PROTO_PPPOE, [IEEE8023, PPPOE]), (UNROLLED PT_PROTO_GRE4, [ETHERNET, IPV4_noptions 0, GRE4]), (UNROLLED PT_PROTO_GRE6, [ETHERNET, IPV6, GRE6])],
     [(UNROLLED PT_PROTO_MPLS, [IEEE8023, MPLS_nlabels 1]), (UNROLLED PT_PROTO_VLAN, [IEEE8023, VLAN, IPV4_noptions 3, UDP, GTPU4]), (UNROLLED PT_PROTO_ISID, [ETHERNET, ISID]), (UNROLLED PT_PROTO_PPPOE, [IEEE8023, PPPOE]), (UNROLLED PT_PROTO_GRE4, [ETHERNET, IPV4_noptions 0, GRE4]), (UNROLLED PT_PROTO_GRE6, [ETHERNET, IPV6, GRE6])],
     [(UNROLLED PT_PROTO_MPLS, [IEEE8023, MPLS_nlabels 1]), (UNROLLED PT_PROTO_VLAN, [IEEE8023, VLAN, IPV4_noptions 4, UDP, GTPU4]), (UNROLLED PT_PROTO_ISID, [ETHERNET, ISID]), (UNROLLED PT_PROTO_PPPOE, [IEEE8023, PPPOE]), (UNROLLED PT_PROTO_GRE4, [ETHERNET, IPV4_noptions 0, GRE4]), (UNROLLED PT_PROTO_GRE6, [ETHERNET, IPV6, GRE6])],
     [(UNROLLED PT_PROTO_MPLS, [IEEE8023, MPLS_nlabels 1]), (UNROLLED PT_PROTO_VLAN, [IEEE8023, VLAN, IPV4_noptions 5, UDP, GTPU4]), (UNROLLED PT_PROTO_ISID, [ETHERNET, ISID]), (UNROLLED PT_PROTO_PPPOE, [IEEE8023, PPPOE]), (UNROLLED PT_PROTO_GRE4, [ETHERNET, IPV4_noptions 0, GRE4]), (UNROLLED PT_PROTO_GRE6, [ETHERNET, IPV6, GRE6])],
     [(UNROLLED PT_PROTO_MPLS, [IEEE8023, MPLS_nlabels 1]), (UNROLLED PT_PROTO_VLAN, [IEEE8023, VLAN, IPV4_noptions 6, UDP, GTPU4]), (UNROLLED PT_PROTO_ISID, [ETHERNET, ISID]), (UNROLLED PT_PROTO_PPPOE, [IEEE8023, PPPOE]), (UNROLLED PT_PROTO_GRE4, [ETHERNET, IPV4_noptions 0, GRE4]), (UNROLLED PT_PROTO_GRE6, [ETHERNET, IPV6, GRE6])],
     [(UNROLLED PT_PROTO_MPLS, [IEEE8023, MPLS_nlabels 1]), (UNROLLED PT_PROTO_VLAN, [IEEE8023, VLAN, IPV4_noptions 7, UDP, GTPU4]), (UNROLLED PT_PROTO_ISID, [ETHERNET, ISID]), (UNROLLED PT_PROTO_PPPOE, [IEEE8023, PPPOE]), (UNROLLED PT_PROTO_GRE4, [ETHERNET, IPV4_noptions 0, GRE4]), (UNROLLED PT_PROTO_GRE6, [ETHERNET, IPV6, GRE6])],
     [(UNROLLED PT_PROTO_MPLS, [IEEE8023, MPLS_nlabels 1]), (UNROLLED PT_PROTO_VLAN, [IEEE8023, VLAN, IPV4_noptions 8, UDP, GTPU4]), (UNROLLED PT_PROTO_ISID, [ETHERNET, ISID]), (UNROLLED PT_PROTO_PPPOE, [IEEE8023, PPPOE]), (UNROLLED PT_PROTO_GRE4, [ETHERNET, IPV4_noptions 0, GRE4]), (UNROLLED PT_PROTO_GRE6, [ETHERNET, IPV6, GRE6])],
     [(UNROLLED PT_PROTO_MPLS, [IEEE8023, MPLS_nlabels 1]), (UNROLLED PT_PROTO_VLAN, [IEEE8023, VLAN, IPV4_noptions 9, UDP, GTPU4]), (UNROLLED PT_PROTO_ISID, [ETHERNET, ISID]), (UNROLLED PT_PROTO_PPPOE, [IEEE8023, PPPOE]), (UNROLLED PT_PROTO_GRE4, [ETHERNET, IPV4_noptions 0, GRE4]), (UNROLLED PT_PROTO_GRE6, [ETHERNET, IPV6, GRE6])],
     [(UNROLLED PT_PROTO_MPLS, [IEEE8023, MPLS_nlabels 1]), (UNROLLED PT_PROTO_VLAN, [IEEE8023, VLAN, IPV4_noptions 10, UDP, GTPU4]), (UNROLLED PT_PROTO_ISID, [ETHERNET, ISID]), (UNROLLED PT_PROTO_PPPOE, [IEEE8023, PPPOE]), (UNROLLED PT_PROTO_GRE4, [ETHERNET, IPV4_noptions 0, GRE4]), (UNROLLED PT_PROTO_GRE6, [ETHERNET, IPV6, GRE6])],
     [(UNROLLED PT_PROTO_MPLS, [IEEE8023, MPLS_nlabels 1]), (UNROLLED PT_PROTO_VLAN, [IEEE8023, VLAN, IPV4_noptions 11, UDP, GTPU4]), (UNROLLED PT_PROTO_ISID, [ETHERNET, ISID]), (UNROLLED PT_PROTO_PPPOE, [IEEE8023, PPPOE]), (UNROLLED PT_PROTO_GRE4, [ETHERNET, IPV4_noptions 0, GRE4]), (UNROLLED PT_PROTO_GRE6, [ETHERNET, IPV6, GRE6])],
     [(UNROLLED PT_PROTO_MPLS, [IEEE8023, MPLS_nlabels 1]), (UNROLLED PT_PROTO_VLAN, [IEEE8023, VLAN, IPV4_noptions 12, UDP, GTPU4]), (UNROLLED PT_PROTO_ISID, [ETHERNET, ISID]), (UNROLLED PT_PROTO_PPPOE, [IEEE8023, PPPOE]), (UNROLLED PT_PROTO_GRE4, [ETHERNET, IPV4_noptions 0, GRE4]), (UNROLLED PT_PROTO_GRE6, [ETHERNET, IPV6, GRE6])],
     [(UNROLLED PT_PROTO_MPLS, [IEEE8023, MPLS_nlabels 1]), (UNROLLED PT_PROTO_VLAN, [IEEE8023, VLAN, IPV4_noptions 13, UDP, GTPU4]), (UNROLLED PT_PROTO_ISID, [ETHERNET, ISID]), (UNROLLED PT_PROTO_PPPOE, [IEEE8023, PPPOE]), (UNROLLED PT_PROTO_GRE4, [ETHERNET, IPV4_noptions 0, GRE4]), (UNROLLED PT_PROTO_GRE6, [ETHERNET, IPV6, GRE6])],
     [(UNROLLED PT_PROTO_MPLS, [IEEE8023, MPLS_nlabels 1]), (UNROLLED PT_PROTO_VLAN, [IEEE8023, VLAN, IPV4_noptions 14, UDP, GTPU4]), (UNROLLED PT_PROTO_ISID, [ETHERNET, ISID]), (UNROLLED PT_PROTO_PPPOE, [IEEE8023, PPPOE]), (UNROLLED PT_PROTO_GRE4, [ETHERNET, IPV4_noptions 0, GRE4]), (UNROLLED PT_PROTO_GRE6, [ETHERNET, IPV6, GRE6])],
     [(UNROLLED PT_PROTO_MPLS, [IEEE8023, MPLS_nlabels 1]), (UNROLLED PT_PROTO_VLAN, [IEEE8023, VLAN, IPV4_noptions 15, UDP, GTPU4]), (UNROLLED PT_PROTO_ISID, [ETHERNET, ISID]), (UNROLLED PT_PROTO_PPPOE, [IEEE8023, PPPOE]), (UNROLLED PT_PROTO_GRE4, [ETHERNET, IPV4_noptions 0, GRE4]), (UNROLLED PT_PROTO_GRE6, [ETHERNET, IPV6, GRE6])],
     [(UNROLLED PT_PROTO_MPLS, [ETHERNET, VLAN, MPLS_nlabels 1]), (UNROLLED PT_PROTO_VLAN, [ETHERNET, VLAN, VLAN, IPV4_noptions 0, UDP, GTPU4]), (UNROLLED PT_PROTO_ISID, [ETHERNET, ISID]), (UNROLLED PT_PROTO_PPPOE, [ETHERNET, VLAN, PPPOE]), (UNROLLED PT_PROTO_GRE4, [ETHERNET, IPV4_noptions 0, GRE4]), (UNROLLED PT_PROTO_GRE6, [ETHERNET, IPV6, GRE6])],
     [(UNROLLED PT_PROTO_MPLS, [ETHERNET, VLAN, MPLS_nlabels 1]), (UNROLLED PT_PROTO_VLAN, [ETHERNET, VLAN, VLAN, IPV4_noptions 1, UDP, GTPU4]), (UNROLLED PT_PROTO_ISID, [ETHERNET, ISID]), (UNROLLED PT_PROTO_PPPOE, [ETHERNET, VLAN, PPPOE]), (UNROLLED PT_PROTO_GRE4, [ETHERNET, IPV4_noptions 0, GRE4]), (UNROLLED PT_PROTO_GRE6, [ETHERNET, IPV6, GRE6])],
     [(UNROLLED PT_PROTO_MPLS, [ETHERNET, VLAN, MPLS_nlabels 1]), (UNROLLED PT_PROTO_VLAN, [ETHERNET, VLAN, VLAN, IPV4_noptions 2, UDP, GTPU4]), (UNROLLED PT_PROTO_ISID, [ETHERNET, ISID]), (UNROLLED PT_PROTO_PPPOE, [ETHERNET, VLAN, PPPOE]), (UNROLLED PT_PROTO_GRE4, [ETHERNET, IPV4_noptions 0, GRE4]), (UNROLLED PT_PROTO_GRE6, [ETHERNET, IPV6, GRE6])],
     [(UNROLLED PT_PROTO_MPLS, [ETHERNET, VLAN, MPLS_nlabels 1]), (UNROLLED PT_PROTO_VLAN, [ETHERNET, VLAN, VLAN, IPV4_noptions 3, UDP, GTPU4]), (UNROLLED PT_PROTO_ISID, [ETHERNET, ISID]), (UNROLLED PT_PROTO_PPPOE, [ETHERNET, VLAN, PPPOE]), (UNROLLED PT_PROTO_GRE4, [ETHERNET, IPV4_noptions 0, GRE4]), (UNROLLED PT_PROTO_GRE6, [ETHERNET, IPV6, GRE6])],
     [(UNROLLED PT_PROTO_MPLS, [ETHERNET, VLAN, MPLS_nlabels 1]), (UNROLLED PT_PROTO_VLAN, [ETHERNET, VLAN, VLAN, IPV4_noptions 4, UDP, GTPU4]), (UNROLLED PT_PROTO_ISID, [ETHERNET, ISID]), (UNROLLED PT_PROTO_PPPOE, [ETHERNET, VLAN, PPPOE]), (UNROLLED PT_PROTO_GRE4, [ETHERNET, IPV4_noptions 0, GRE4]), (UNROLLED PT_PROTO_GRE6, [ETHERNET, IPV6, GRE6])],
     [(UNROLLED PT_PROTO_MPLS, [ETHERNET, VLAN, MPLS_nlabels 1]), (UNROLLED PT_PROTO_VLAN, [ETHERNET, VLAN, VLAN, IPV4_noptions 5, UDP, GTPU4]), (UNROLLED PT_PROTO_ISID, [ETHERNET, ISID]), (UNROLLED PT_PROTO_PPPOE, [ETHERNET, VLAN, PPPOE]), (UNROLLED PT_PROTO_GRE4, [ETHERNET, IPV4_noptions 0, GRE4]), (UNROLLED PT_PROTO_GRE6, [ETHERNET, IPV6, GRE6])],
     [(UNROLLED PT_PROTO_MPLS, [ETHERNET, VLAN, MPLS_nlabels 1]), (UNROLLED PT_PROTO_VLAN, [ETHERNET, VLAN, VLAN, IPV4_noptions 6, UDP, GTPU4]), (UNROLLED PT_PROTO_ISID, [ETHERNET, ISID]), (UNROLLED PT_PROTO_PPPOE, [ETHERNET, VLAN, PPPOE]), (UNROLLED PT_PROTO_GRE4, [ETHERNET, IPV4_noptions 0, GRE4]), (UNROLLED PT_PROTO_GRE6, [ETHERNET, IPV6, GRE6])],
     [(UNROLLED PT_PROTO_MPLS, [ETHERNET, VLAN, MPLS_nlabels 1]), (UNROLLED PT_PROTO_VLAN, [ETHERNET, VLAN, VLAN, IPV4_noptions 7, UDP, GTPU4]), (UNROLLED PT_PROTO_ISID, [ETHERNET, ISID]), (UNROLLED PT_PROTO_PPPOE, [ETHERNET, VLAN, PPPOE]), (UNROLLED PT_PROTO_GRE4, [ETHERNET, IPV4_noptions 0, GRE4]), (UNROLLED PT_PROTO_GRE6, [ETHERNET, IPV6, GRE6])],
     [(UNROLLED PT_PROTO_MPLS, [ETHERNET, VLAN, MPLS_nlabels 1]), (UNROLLED PT_PROTO_VLAN, [ETHERNET, VLAN, VLAN, IPV4_noptions 8, UDP, GTPU4]), (UNROLLED PT_PROTO_ISID, [ETHERNET, ISID]), (UNROLLED PT_PROTO_PPPOE, [ETHERNET, VLAN, PPPOE]), (UNROLLED PT_PROTO_GRE4, [ETHERNET, IPV4_noptions 0, GRE4]), (UNROLLED PT_PROTO_GRE6, [ETHERNET, IPV6, GRE6])],
     [(UNROLLED PT_PROTO_MPLS, [ETHERNET, VLAN, MPLS_nlabels 1]), (UNROLLED PT_PROTO_VLAN, [ETHERNET, VLAN, VLAN, IPV4_noptions 9, UDP, GTPU4]), (UNROLLED PT_PROTO_ISID, [ETHERNET, ISID]), (UNROLLED PT_PROTO_PPPOE, [ETHERNET, VLAN, PPPOE]), (UNROLLED PT_PROTO_GRE4, [ETHERNET, IPV4_noptions 0, GRE4]), (UNROLLED PT_PROTO_GRE6, [ETHERNET, IPV6, GRE6])],
     [(UNROLLED PT_PROTO_MPLS, [ETHERNET, VLAN, MPLS_nlabels 1]), (UNROLLED PT_PROTO_VLAN, [ETHERNET, VLAN, VLAN, IPV4_noptions 10, UDP, GTPU4]), (UNROLLED PT_PROTO_ISID, [ETHERNET, ISID]), (UNROLLED PT_PROTO_PPPOE, [ETHERNET, VLAN, PPPOE]), (UNROLLED PT_PROTO_GRE4, [ETHERNET, IPV4_noptions 0, GRE4]), (UNROLLED PT_PROTO_GRE6, [ETHERNET, IPV6, GRE6])],
     [(UNROLLED PT_PROTO_MPLS, [ETHERNET, VLAN, MPLS_nlabels 1]), (UNROLLED PT_PROTO_VLAN, [ETHERNET, VLAN, VLAN, IPV4_noptions 11, UDP, GTPU4]), (UNROLLED PT_PROTO_ISID, [ETHERNET, ISID]), (UNROLLED PT_PROTO_PPPOE, [ETHERNET, VLAN, PPPOE]), (UNROLLED PT_PROTO_GRE4, [ETHERNET, IPV4_noptions 0, GRE4]), (UNROLLED PT_PROTO_GRE6, [ETHERNET, IPV6, GRE6])],
     [(UNROLLED PT_PROTO_MPLS, [ETHERNET, VLAN, MPLS_nlabels 1]), (UNROLLED PT_PROTO_VLAN, [ETHERNET, VLAN, VLAN, IPV4_noptions 12, UDP, GTPU4]), (UNROLLED PT_PROTO_ISID, [ETHERNET, ISID]), (UNROLLED PT_PROTO_PPPOE, [ETHERNET, VLAN, PPPOE]), (UNROLLED PT_PROTO_GRE4, [ETHERNET, IPV4_noptions 0, GRE4]), (UNROLLED PT_PROTO_GRE6, [ETHERNET, IPV6, GRE6])],
     [(UNROLLED PT_PROTO_MPLS, [ETHERNET, VLAN, MPLS_nlabels 1]), (UNROLLED PT_PROTO_VLAN, [ETHERNET, VLAN, VLAN, IPV4_noptions 13, UDP, GTPU4]), (UNROLLED PT_PROTO_ISID, [ETHERNET, ISID]), (UNROLLED PT_PROTO_PPPOE, [ETHERNET, VLAN, PPPOE]), (UNROLLED PT_PROTO_GRE4, [ETHERNET, IPV4_noptions 0, GRE4]), (UNROLLED PT_PROTO_GRE6, [ETHERNET, IPV6, GRE6])],
     [(UNROLLED PT_PROTO_MPLS, [ETHERNET, VLAN, MPLS_nlabels 1]), (UNROLLED PT_PROTO_VLAN, [ETHERNET, VLAN, VLAN, IPV4_noptions 14, UDP, GTPU4]), (UNROLLED PT_PROTO_ISID, [ETHERNET, ISID]), (UNROLLED PT_PROTO_PPPOE, [ETHERNET, VLAN, PPPOE]), (UNROLLED PT_PROTO_GRE4, [ETHERNET, IPV4_noptions 0, GRE4]), (UNROLLED PT_PROTO_GRE6, [ETHERNET, IPV6, GRE6])],
     [(UNROLLED PT_PROTO_MPLS, [ETHERNET, VLAN, MPLS_nlabels 1]), (UNROLLED PT_PROTO_VLAN, [ETHERNET, VLAN, VLAN, IPV4_noptions 15, UDP, GTPU4]), (UNROLLED PT_PROTO_ISID, [ETHERNET, ISID]), (UNROLLED PT_PROTO_PPPOE, [ETHERNET, VLAN, PPPOE]), (UNROLLED PT_PROTO_GRE4, [ETHERNET, IPV4_noptions 0, GRE4]), (UNROLLED PT_PROTO_GRE6, [ETHERNET, IPV6, GRE6])],
     [(UNROLLED PT_PROTO_MPLS, [IEEE8023, VLAN, MPLS_nlabels 1]), (UNROLLED PT_PROTO_VLAN, [IEEE8023, VLAN, VLAN, IPV4_noptions 0, UDP, GTPU4]), (UNROLLED PT_PROTO_ISID, [ETHERNET, ISID]), (UNROLLED PT_PROTO_PPPOE, [IEEE8023, VLAN, PPPOE]), (UNROLLED PT_PROTO_GRE4, [ETHERNET, IPV4_noptions 0, GRE4]), (UNROLLED PT_PROTO_GRE6, [ETHERNET, IPV6, GRE6])],
     [(UNROLLED PT_PROTO_MPLS, [IEEE8023, VLAN, MPLS_nlabels 1]), (UNROLLED PT_PROTO_VLAN, [IEEE8023, VLAN, VLAN, IPV4_noptions 1, UDP, GTPU4]), (UNROLLED PT_PROTO_ISID, [ETHERNET, ISID]), (UNROLLED PT_PROTO_PPPOE, [IEEE8023, VLAN, PPPOE]), (UNROLLED PT_PROTO_GRE4, [ETHERNET, IPV4_noptions 0, GRE4]), (UNROLLED PT_PROTO_GRE6, [ETHERNET, IPV6, GRE6])],
     [(UNROLLED PT_PROTO_MPLS, [IEEE8023, VLAN, MPLS_nlabels 1]), (UNROLLED PT_PROTO_VLAN, [IEEE8023, VLAN, VLAN, IPV4_noptions 2, UDP, GTPU4]), (UNROLLED PT_PROTO_ISID, [ETHERNET, ISID]), (UNROLLED PT_PROTO_PPPOE, [IEEE8023, VLAN, PPPOE]), (UNROLLED PT_PROTO_GRE4, [ETHERNET, IPV4_noptions 0, GRE4]), (UNROLLED PT_PROTO_GRE6, [ETHERNET, IPV6, GRE6])],
     [(UNROLLED PT_PROTO_MPLS, [IEEE8023, VLAN, MPLS_nlabels 1]), (UNROLLED PT_PROTO_VLAN, [IEEE8023, VLAN, VLAN, IPV4_noptions 3, UDP, GTPU4]), (UNROLLED PT_PROTO_ISID, [ETHERNET, ISID]), (UNROLLED PT_PROTO_PPPOE, [IEEE8023, VLAN, PPPOE]), (UNROLLED PT_PROTO_GRE4, [ETHERNET, IPV4_noptions 0, GRE4]), (UNROLLED PT_PROTO_GRE6, [ETHERNET, IPV6, GRE6])],
     [(UNROLLED PT_PROTO_MPLS, [IEEE8023, VLAN, MPLS_nlabels 1]), (UNROLLED PT_PROTO_VLAN, [IEEE8023, VLAN, VLAN, IPV4_noptions 4, UDP, GTPU4]), (UNROLLED PT_PROTO_ISID, [ETHERNET, ISID]), (UNROLLED PT_PROTO_PPPOE, [IEEE8023, VLAN, PPPOE]), (UNROLLED PT_PROTO_GRE4, [ETHERNET, IPV4_noptions 0, GRE4]), (UNROLLED PT_PROTO_GRE6, [ETHERNET, IPV6, GRE6])],
     [(UNROLLED PT_PROTO_MPLS, [IEEE8023, VLAN, MPLS_nlabels 1]), (UNROLLED PT_PROTO_VLAN, [IEEE8023, VLAN, VLAN, IPV4_noptions 5, UDP, GTPU4]), (UNROLLED PT_PROTO_ISID, [ETHERNET, ISID]), (UNROLLED PT_PROTO_PPPOE, [IEEE8023, VLAN, PPPOE]), (UNROLLED PT_PROTO_GRE4, [ETHERNET, IPV4_noptions 0, GRE4]), (UNROLLED PT_PROTO_GRE6, [ETHERNET, IPV6, GRE6])],
     [(UNROLLED PT_PROTO_MPLS, [IEEE8023, VLAN, MPLS_nlabels 1]), (UNROLLED PT_PROTO_VLAN, [IEEE8023, VLAN, VLAN, IPV4_noptions 6, UDP, GTPU4]), (UNROLLED PT_PROTO_ISID, [ETHERNET, ISID]), (UNROLLED PT_PROTO_PPPOE, [IEEE8023, VLAN, PPPOE]), (UNROLLED PT_PROTO_GRE4, [ETHERNET, IPV4_noptions 0, GRE4]), (UNROLLED PT_PROTO_GRE6, [ETHERNET, IPV6, GRE6])],
     [(UNROLLED PT_PROTO_MPLS, [IEEE8023, VLAN, MPLS_nlabels 1]), (UNROLLED PT_PROTO_VLAN, [IEEE8023, VLAN, VLAN, IPV4_noptions 7, UDP, GTPU4]), (UNROLLED PT_PROTO_ISID, [ETHERNET, ISID]), (UNROLLED PT_PROTO_PPPOE, [IEEE8023, VLAN, PPPOE]), (UNROLLED PT_PROTO_GRE4, [ETHERNET, IPV4_noptions 0, GRE4]), (UNROLLED PT_PROTO_GRE6, [ETHERNET, IPV6, GRE6])],
     [(UNROLLED PT_PROTO_MPLS, [IEEE8023, VLAN, MPLS_nlabels 1]), (UNROLLED PT_PROTO_VLAN, [IEEE8023, VLAN, VLAN, IPV4_noptions 8, UDP, GTPU4]), (UNROLLED PT_PROTO_ISID, [ETHERNET, ISID]), (UNROLLED PT_PROTO_PPPOE, [IEEE8023, VLAN, PPPOE]), (UNROLLED PT_PROTO_GRE4, [ETHERNET, IPV4_noptions 0, GRE4]), (UNROLLED PT_PROTO_GRE6, [ETHERNET, IPV6, GRE6])],
     [(UNROLLED PT_PROTO_MPLS, [IEEE8023, VLAN, MPLS_nlabels 1]), (UNROLLED PT_PROTO_VLAN, [IEEE8023, VLAN, VLAN, IPV4_noptions 9, UDP, GTPU4]), (UNROLLED PT_PROTO_ISID, [ETHERNET, ISID]), (UNROLLED PT_PROTO_PPPOE, [IEEE8023, VLAN, PPPOE]), (UNROLLED PT_PROTO_GRE4, [ETHERNET, IPV4_noptions 0, GRE4]), (UNROLLED PT_PROTO_GRE6, [ETHERNET, IPV6, GRE6])],
     [(UNROLLED PT_PROTO_MPLS, [IEEE8023, VLAN, MPLS_nlabels 1]), (UNROLLED PT_PROTO_VLAN, [IEEE8023, VLAN, VLAN, IPV4_noptions 10, UDP, GTPU4]), (UNROLLED PT_PROTO_ISID, [ETHERNET, ISID]), (UNROLLED PT_PROTO_PPPOE, [IEEE8023, VLAN, PPPOE]), (UNROLLED PT_PROTO_GRE4, [ETHERNET, IPV4_noptions 0, GRE4]), (UNROLLED PT_PROTO_GRE6, [ETHERNET, IPV6, GRE6])],
     [(UNROLLED PT_PROTO_MPLS, [IEEE8023, VLAN, MPLS_nlabels 1]), (UNROLLED PT_PROTO_VLAN, [IEEE8023, VLAN, VLAN, IPV4_noptions 11, UDP, GTPU4]), (UNROLLED PT_PROTO_ISID, [ETHERNET, ISID]), (UNROLLED PT_PROTO_PPPOE, [IEEE8023, VLAN, PPPOE]), (UNROLLED PT_PROTO_GRE4, [ETHERNET, IPV4_noptions 0, GRE4]), (UNROLLED PT_PROTO_GRE6, [ETHERNET, IPV6, GRE6])],
     [(UNROLLED PT_PROTO_MPLS, [IEEE8023, VLAN, MPLS_nlabels 1]), (UNROLLED PT_PROTO_VLAN, [IEEE8023, VLAN, VLAN, IPV4_noptions 12, UDP, GTPU4]), (UNROLLED PT_PROTO_ISID, [ETHERNET, ISID]), (UNROLLED PT_PROTO_PPPOE, [IEEE8023, VLAN, PPPOE]), (UNROLLED PT_PROTO_GRE4, [ETHERNET, IPV4_noptions 0, GRE4]), (UNROLLED PT_PROTO_GRE6, [ETHERNET, IPV6, GRE6])],
     [(UNROLLED PT_PROTO_MPLS, [IEEE8023, VLAN, MPLS_nlabels 1]), (UNROLLED PT_PROTO_VLAN, [IEEE8023, VLAN, VLAN, IPV4_noptions 13, UDP, GTPU4]), (UNROLLED PT_PROTO_ISID, [ETHERNET, ISID]), (UNROLLED PT_PROTO_PPPOE, [IEEE8023, VLAN, PPPOE]), (UNROLLED PT_PROTO_GRE4, [ETHERNET, IPV4_noptions 0, GRE4]), (UNROLLED PT_PROTO_GRE6, [ETHERNET, IPV6, GRE6])],
     [(UNROLLED PT_PROTO_MPLS, [IEEE8023, VLAN, MPLS_nlabels 1]), (UNROLLED PT_PROTO_VLAN, [IEEE8023, VLAN, VLAN, IPV4_noptions 14, UDP, GTPU4]), (UNROLLED PT_PROTO_ISID, [ETHERNET, ISID]), (UNROLLED PT_PROTO_PPPOE, [IEEE8023, VLAN, PPPOE]), (UNROLLED PT_PROTO_GRE4, [ETHERNET, IPV4_noptions 0, GRE4]), (UNROLLED PT_PROTO_GRE6, [ETHERNET, IPV6, GRE6])],
     [(UNROLLED PT_PROTO_MPLS, [IEEE8023, VLAN, MPLS_nlabels 1]), (UNROLLED PT_PROTO_VLAN, [IEEE8023, VLAN, VLAN, IPV4_noptions 15, UDP, GTPU4]), (UNROLLED PT_PROTO_ISID, [ETHERNET, ISID]), (UNROLLED PT_PROTO_PPPOE, [IEEE8023, VLAN, PPPOE]), (UNROLLED PT_PROTO_GRE4, [ETHERNET, IPV4_noptions 0, GRE4]), (UNROLLED PT_PROTO_GRE6, [ETHERNET, IPV6, GRE6])],
     [(UNROLLED PT_PROTO_MPLS, [ETHERNET, VLAN, VLAN, MPLS_nlabels 1]), (UNROLLED PT_PROTO_ISID, [ETHERNET, ISID]), (UNROLLED PT_PROTO_PPPOE, [ETHERNET, VLAN, VLAN, PPPOE]), (UNROLLED PT_PROTO_GRE4, [ETHERNET, IPV4_noptions 0, GRE4]), (UNROLLED PT_PROTO_GRE6, [ETHERNET, IPV6, GRE6])],
     [(UNROLLED PT_PROTO_MPLS, [ETHERNET, VLAN, VLAN, MPLS_nlabels 1]), (UNROLLED PT_PROTO_ISID, [ETHERNET, ISID]), (UNROLLED PT_PROTO_PPPOE, [ETHERNET, VLAN, VLAN, PPPOE]), (UNROLLED PT_PROTO_GRE4, [ETHERNET, IPV4_noptions 0, GRE4]), (UNROLLED PT_PROTO_GRE6, [ETHERNET, IPV6, GRE6])],
     [(UNROLLED PT_PROTO_MPLS, [ETHERNET, VLAN, VLAN, MPLS_nlabels 1]), (UNROLLED PT_PROTO_ISID, [ETHERNET, ISID]), (UNROLLED PT_PROTO_PPPOE, [ETHERNET, VLAN, VLAN, PPPOE]), (UNROLLED PT_PROTO_GRE4, [ETHERNET, IPV4_noptions 0, GRE4]), (UNROLLED PT_PROTO_GRE6, [ETHERNET, IPV6, GRE6])],
     [(UNROLLED PT_PROTO_MPLS, [ETHERNET, VLAN, VLAN, MPLS_nlabels 1]), (UNROLLED PT_PROTO_ISID, [ETHERNET, ISID]), (UNROLLED PT_PROTO_PPPOE, [ETHERNET, VLAN, VLAN, PPPOE]), (UNROLLED PT_PROTO_GRE4, [ETHERNET, IPV4_noptions 0, GRE4]), (UNROLLED PT_PROTO_GRE6, [ETHERNET, IPV6, GRE6])]]"

definition push_table_7 :: "(unrolled \<times> pkt_type) list list" where
  "push_table_7 =
    [[(UNROLLED PT_PROTO_MPLS, [ETHERNET, VLAN, VLAN, MPLS_nlabels 1]), (UNROLLED PT_PROTO_ISID, [ETHERNET, ISID]), (UNROLLED PT_PROTO_PPPOE, [ETHERNET, VLAN, VLAN, PPPOE]), (UNROLLED PT_PROTO_GRE4, [ETHERNET, IPV4_noptions 0, GRE4]), (UNROLLED PT_PROTO_GRE6, [ETHERNET, IPV6, GRE6])],
     [(UNROLLED PT_PROTO_MPLS, [ETHERNET, VLAN, VLAN, MPLS_nlabels 1]), (UNROLLED PT_PROTO_ISID, [ETHERNET, ISID]), (UNROLLED PT_PROTO_PPPOE, [ETHERNET, VLAN, VLAN, PPPOE]), (UNROLLED PT_PROTO_GRE4, [ETHERNET, IPV4_noptions 0, GRE4]), (UNROLLED PT_PROTO_GRE6, [ETHERNET, IPV6, GRE6])],
     [(UNROLLED PT_PROTO_MPLS, [ETHERNET, VLAN, VLAN, MPLS_nlabels 1]), (UNROLLED PT_PROTO_ISID, [ETHERNET, ISID]), (UNROLLED PT_PROTO_PPPOE, [ETHERNET, VLAN, VLAN, PPPOE]), (UNROLLED PT_PROTO_GRE4, [ETHERNET, IPV4_noptions 0, GRE4]), (UNROLLED PT_PROTO_GRE6, [ETHERNET, IPV6, GRE6])],
     [(UNROLLED PT_PROTO_MPLS, [ETHERNET, VLAN, VLAN, MPLS_nlabels 1]), (UNROLLED PT_PROTO_ISID, [ETHERNET, ISID]), (UNROLLED PT_PROTO_PPPOE, [ETHERNET, VLAN, VLAN, PPPOE]), (UNROLLED PT_PROTO_GRE4, [ETHERNET, IPV4_noptions 0, GRE4]), (UNROLLED PT_PROTO_GRE6, [ETHERNET, IPV6, GRE6])],
     [(UNROLLED PT_PROTO_MPLS, [ETHERNET, VLAN, VLAN, MPLS_nlabels 1]), (UNROLLED PT_PROTO_ISID, [ETHERNET, ISID]), (UNROLLED PT_PROTO_PPPOE, [ETHERNET, VLAN, VLAN, PPPOE]), (UNROLLED PT_PROTO_GRE4, [ETHERNET, IPV4_noptions 0, GRE4]), (UNROLLED PT_PROTO_GRE6, [ETHERNET, IPV6, GRE6])],
     [(UNROLLED PT_PROTO_MPLS, [ETHERNET, VLAN, VLAN, MPLS_nlabels 1]), (UNROLLED PT_PROTO_ISID, [ETHERNET, ISID]), (UNROLLED PT_PROTO_PPPOE, [ETHERNET, VLAN, VLAN, PPPOE]), (UNROLLED PT_PROTO_GRE4, [ETHERNET, IPV4_noptions 0, GRE4]), (UNROLLED PT_PROTO_GRE6, [ETHERNET, IPV6, GRE6])],
     [(UNROLLED PT_PROTO_MPLS, [ETHERNET, VLAN, VLAN, MPLS_nlabels 1]), (UNROLLED PT_PROTO_ISID, [ETHERNET, ISID]), (UNROLLED PT_PROTO_PPPOE, [ETHERNET, VLAN, VLAN, PPPOE]), (UNROLLED PT_PROTO_GRE4, [ETHERNET, IPV4_noptions 0, GRE4]), (UNROLLED PT_PROTO_GRE6, [ETHERNET, IPV6, GRE6])],
     [(UNROLLED PT_PROTO_MPLS, [ETHERNET, VLAN, VLAN, MPLS_nlabels 1]), (UNROLLED PT_PROTO_ISID, [ETHERNET, ISID]), (UNROLLED PT_PROTO_PPPOE, [ETHERNET, VLAN, VLAN, PPPOE]), (UNROLLED PT_PROTO_GRE4, [ETHERNET, IPV4_noptions 0, GRE4]), (UNROLLED PT_PROTO_GRE6, [ETHERNET, IPV6, GRE6])],
     [(UNROLLED PT_PROTO_MPLS, [ETHERNET, VLAN, VLAN, MPLS_nlabels 1]), (UNROLLED PT_PROTO_ISID, [ETHERNET, ISID]), (UNROLLED PT_PROTO_PPPOE, [ETHERNET, VLAN, VLAN, PPPOE]), (UNROLLED PT_PROTO_GRE4, [ETHERNET, IPV4_noptions 0, GRE4]), (UNROLLED PT_PROTO_GRE6, [ETHERNET, IPV6, GRE6])],
     [(UNROLLED PT_PROTO_MPLS, [ETHERNET, VLAN, VLAN, MPLS_nlabels 1]), (UNROLLED PT_PROTO_ISID, [ETHERNET, ISID]), (UNROLLED PT_PROTO_PPPOE, [ETHERNET, VLAN, VLAN, PPPOE]), (UNROLLED PT_PROTO_GRE4, [ETHERNET, IPV4_noptions 0, GRE4]), (UNROLLED PT_PROTO_GRE6, [ETHERNET, IPV6, GRE6])],
     [(UNROLLED PT_PROTO_MPLS, [ETHERNET, VLAN, VLAN, MPLS_nlabels 1]), (UNROLLED PT_PROTO_ISID, [ETHERNET, ISID]), (UNROLLED PT_PROTO_PPPOE, [ETHERNET, VLAN, VLAN, PPPOE]), (UNROLLED PT_PROTO_GRE4, [ETHERNET, IPV4_noptions 0, GRE4]), (UNROLLED PT_PROTO_GRE6, [ETHERNET, IPV6, GRE6])],
     [(UNROLLED PT_PROTO_MPLS, [ETHERNET, VLAN, VLAN, MPLS_nlabels 1]), (UNROLLED PT_PROTO_ISID, [ETHERNET, ISID]), (UNROLLED PT_PROTO_PPPOE, [ETHERNET, VLAN, VLAN, PPPOE]), (UNROLLED PT_PROTO_GRE4, [ETHERNET, IPV4_noptions 0, GRE4]), (UNROLLED PT_PROTO_GRE6, [ETHERNET, IPV6, GRE6])],
     [(UNROLLED PT_PROTO_MPLS, [IEEE8023, VLAN, VLAN, MPLS_nlabels 1]), (UNROLLED PT_PROTO_ISID, [ETHERNET, ISID]), (UNROLLED PT_PROTO_PPPOE, [IEEE8023, VLAN, VLAN, PPPOE]), (UNROLLED PT_PROTO_GRE4, [ETHERNET, IPV4_noptions 0, GRE4]), (UNROLLED PT_PROTO_GRE6, [ETHERNET, IPV6, GRE6])],
     [(UNROLLED PT_PROTO_MPLS, [IEEE8023, VLAN, VLAN, MPLS_nlabels 1]), (UNROLLED PT_PROTO_ISID, [ETHERNET, ISID]), (UNROLLED PT_PROTO_PPPOE, [IEEE8023, VLAN, VLAN, PPPOE]), (UNROLLED PT_PROTO_GRE4, [ETHERNET, IPV4_noptions 0, GRE4]), (UNROLLED PT_PROTO_GRE6, [ETHERNET, IPV6, GRE6])],
     [(UNROLLED PT_PROTO_MPLS, [IEEE8023, VLAN, VLAN, MPLS_nlabels 1]), (UNROLLED PT_PROTO_ISID, [ETHERNET, ISID]), (UNROLLED PT_PROTO_PPPOE, [IEEE8023, VLAN, VLAN, PPPOE]), (UNROLLED PT_PROTO_GRE4, [ETHERNET, IPV4_noptions 0, GRE4]), (UNROLLED PT_PROTO_GRE6, [ETHERNET, IPV6, GRE6])],
     [(UNROLLED PT_PROTO_MPLS, [IEEE8023, VLAN, VLAN, MPLS_nlabels 1]), (UNROLLED PT_PROTO_ISID, [ETHERNET, ISID]), (UNROLLED PT_PROTO_PPPOE, [IEEE8023, VLAN, VLAN, PPPOE]), (UNROLLED PT_PROTO_GRE4, [ETHERNET, IPV4_noptions 0, GRE4]), (UNROLLED PT_PROTO_GRE6, [ETHERNET, IPV6, GRE6])],
     [(UNROLLED PT_PROTO_MPLS, [IEEE8023, VLAN, VLAN, MPLS_nlabels 1]), (UNROLLED PT_PROTO_ISID, [ETHERNET, ISID]), (UNROLLED PT_PROTO_PPPOE, [IEEE8023, VLAN, VLAN, PPPOE]), (UNROLLED PT_PROTO_GRE4, [ETHERNET, IPV4_noptions 0, GRE4]), (UNROLLED PT_PROTO_GRE6, [ETHERNET, IPV6, GRE6])],
     [(UNROLLED PT_PROTO_MPLS, [IEEE8023, VLAN, VLAN, MPLS_nlabels 1]), (UNROLLED PT_PROTO_ISID, [ETHERNET, ISID]), (UNROLLED PT_PROTO_PPPOE, [IEEE8023, VLAN, VLAN, PPPOE]), (UNROLLED PT_PROTO_GRE4, [ETHERNET, IPV4_noptions 0, GRE4]), (UNROLLED PT_PROTO_GRE6, [ETHERNET, IPV6, GRE6])],
     [(UNROLLED PT_PROTO_MPLS, [IEEE8023, VLAN, VLAN, MPLS_nlabels 1]), (UNROLLED PT_PROTO_ISID, [ETHERNET, ISID]), (UNROLLED PT_PROTO_PPPOE, [IEEE8023, VLAN, VLAN, PPPOE]), (UNROLLED PT_PROTO_GRE4, [ETHERNET, IPV4_noptions 0, GRE4]), (UNROLLED PT_PROTO_GRE6, [ETHERNET, IPV6, GRE6])],
     [(UNROLLED PT_PROTO_MPLS, [IEEE8023, VLAN, VLAN, MPLS_nlabels 1]), (UNROLLED PT_PROTO_ISID, [ETHERNET, ISID]), (UNROLLED PT_PROTO_PPPOE, [IEEE8023, VLAN, VLAN, PPPOE]), (UNROLLED PT_PROTO_GRE4, [ETHERNET, IPV4_noptions 0, GRE4]), (UNROLLED PT_PROTO_GRE6, [ETHERNET, IPV6, GRE6])],
     [(UNROLLED PT_PROTO_MPLS, [IEEE8023, VLAN, VLAN, MPLS_nlabels 1]), (UNROLLED PT_PROTO_ISID, [ETHERNET, ISID]), (UNROLLED PT_PROTO_PPPOE, [IEEE8023, VLAN, VLAN, PPPOE]), (UNROLLED PT_PROTO_GRE4, [ETHERNET, IPV4_noptions 0, GRE4]), (UNROLLED PT_PROTO_GRE6, [ETHERNET, IPV6, GRE6])],
     [(UNROLLED PT_PROTO_MPLS, [IEEE8023, VLAN, VLAN, MPLS_nlabels 1]), (UNROLLED PT_PROTO_ISID, [ETHERNET, ISID]), (UNROLLED PT_PROTO_PPPOE, [IEEE8023, VLAN, VLAN, PPPOE]), (UNROLLED PT_PROTO_GRE4, [ETHERNET, IPV4_noptions 0, GRE4]), (UNROLLED PT_PROTO_GRE6, [ETHERNET, IPV6, GRE6])],
     [(UNROLLED PT_PROTO_MPLS, [IEEE8023, VLAN, VLAN, MPLS_nlabels 1]), (UNROLLED PT_PROTO_ISID, [ETHERNET, ISID]), (UNROLLED PT_PROTO_PPPOE, [IEEE8023, VLAN, VLAN, PPPOE]), (UNROLLED PT_PROTO_GRE4, [ETHERNET, IPV4_noptions 0, GRE4]), (UNROLLED PT_PROTO_GRE6, [ETHERNET, IPV6, GRE6])],
     [(UNROLLED PT_PROTO_MPLS, [IEEE8023, VLAN, VLAN, MPLS_nlabels 1]), (UNROLLED PT_PROTO_ISID, [ETHERNET, ISID]), (UNROLLED PT_PROTO_PPPOE, [IEEE8023, VLAN, VLAN, PPPOE]), (UNROLLED PT_PROTO_GRE4, [ETHERNET, IPV4_noptions 0, GRE4]), (UNROLLED PT_PROTO_GRE6, [ETHERNET, IPV6, GRE6])],
     [(UNROLLED PT_PROTO_MPLS, [IEEE8023, VLAN, VLAN, MPLS_nlabels 1]), (UNROLLED PT_PROTO_ISID, [ETHERNET, ISID]), (UNROLLED PT_PROTO_PPPOE, [IEEE8023, VLAN, VLAN, PPPOE]), (UNROLLED PT_PROTO_GRE4, [ETHERNET, IPV4_noptions 0, GRE4]), (UNROLLED PT_PROTO_GRE6, [ETHERNET, IPV6, GRE6])],
     [(UNROLLED PT_PROTO_MPLS, [IEEE8023, VLAN, VLAN, MPLS_nlabels 1]), (UNROLLED PT_PROTO_ISID, [ETHERNET, ISID]), (UNROLLED PT_PROTO_PPPOE, [IEEE8023, VLAN, VLAN, PPPOE]), (UNROLLED PT_PROTO_GRE4, [ETHERNET, IPV4_noptions 0, GRE4]), (UNROLLED PT_PROTO_GRE6, [ETHERNET, IPV6, GRE6])],
     [(UNROLLED PT_PROTO_MPLS, [IEEE8023, VLAN, VLAN, MPLS_nlabels 1]), (UNROLLED PT_PROTO_ISID, [ETHERNET, ISID]), (UNROLLED PT_PROTO_PPPOE, [IEEE8023, VLAN, VLAN, PPPOE]), (UNROLLED PT_PROTO_GRE4, [ETHERNET, IPV4_noptions 0, GRE4]), (UNROLLED PT_PROTO_GRE6, [ETHERNET, IPV6, GRE6])],
     [(UNROLLED PT_PROTO_MPLS, [IEEE8023, VLAN, VLAN, MPLS_nlabels 1]), (UNROLLED PT_PROTO_ISID, [ETHERNET, ISID]), (UNROLLED PT_PROTO_PPPOE, [IEEE8023, VLAN, VLAN, PPPOE]), (UNROLLED PT_PROTO_GRE4, [ETHERNET, IPV4_noptions 0, GRE4]), (UNROLLED PT_PROTO_GRE6, [ETHERNET, IPV6, GRE6])],
     [(UNROLLED PT_PROTO_MPLS, [ETHERNET, MPLS_nlabels 1]), (UNROLLED PT_PROTO_VLAN, [ETHERNET, VLAN, IPV4_noptions 0, SCTP]), (UNROLLED PT_PROTO_ISID, [ETHERNET, ISID]), (UNROLLED PT_PROTO_PPPOE, [ETHERNET, PPPOE]), (UNROLLED PT_PROTO_GTPU4, [ETHERNET, IPV4_noptions 0, UDP, GTPU4]), (UNROLLED PT_PROTO_GTPU6, [ETHERNET, IPV6, UDP, GTPU6]), (UNROLLED PT_PROTO_GRE4, [ETHERNET, IPV4_noptions 0, GRE4]), (UNROLLED PT_PROTO_GRE6, [ETHERNET, IPV6, GRE6])],
     [(UNROLLED PT_PROTO_MPLS, [ETHERNET, MPLS_nlabels 1]), (UNROLLED PT_PROTO_VLAN, [ETHERNET, VLAN, IPV4_noptions 1, SCTP]), (UNROLLED PT_PROTO_ISID, [ETHERNET, ISID]), (UNROLLED PT_PROTO_PPPOE, [ETHERNET, PPPOE]), (UNROLLED PT_PROTO_GRE4, [ETHERNET, IPV4_noptions 0, GRE4]), (UNROLLED PT_PROTO_GRE6, [ETHERNET, IPV6, GRE6])],
     [(UNROLLED PT_PROTO_MPLS, [ETHERNET, MPLS_nlabels 1]), (UNROLLED PT_PROTO_VLAN, [ETHERNET, VLAN, IPV4_noptions 2, SCTP]), (UNROLLED PT_PROTO_ISID, [ETHERNET, ISID]), (UNROLLED PT_PROTO_PPPOE, [ETHERNET, PPPOE]), (UNROLLED PT_PROTO_GRE4, [ETHERNET, IPV4_noptions 0, GRE4]), (UNROLLED PT_PROTO_GRE6, [ETHERNET, IPV6, GRE6])],
     [(UNROLLED PT_PROTO_MPLS, [ETHERNET, MPLS_nlabels 1]), (UNROLLED PT_PROTO_VLAN, [ETHERNET, VLAN, IPV4_noptions 3, SCTP]), (UNROLLED PT_PROTO_ISID, [ETHERNET, ISID]), (UNROLLED PT_PROTO_PPPOE, [ETHERNET, PPPOE]), (UNROLLED PT_PROTO_GRE4, [ETHERNET, IPV4_noptions 0, GRE4]), (UNROLLED PT_PROTO_GRE6, [ETHERNET, IPV6, GRE6])],
     [(UNROLLED PT_PROTO_MPLS, [ETHERNET, MPLS_nlabels 1]), (UNROLLED PT_PROTO_VLAN, [ETHERNET, VLAN, IPV4_noptions 4, SCTP]), (UNROLLED PT_PROTO_ISID, [ETHERNET, ISID]), (UNROLLED PT_PROTO_PPPOE, [ETHERNET, PPPOE]), (UNROLLED PT_PROTO_GRE4, [ETHERNET, IPV4_noptions 0, GRE4]), (UNROLLED PT_PROTO_GRE6, [ETHERNET, IPV6, GRE6])],
     [(UNROLLED PT_PROTO_MPLS, [ETHERNET, MPLS_nlabels 1]), (UNROLLED PT_PROTO_VLAN, [ETHERNET, VLAN, IPV4_noptions 5, SCTP]), (UNROLLED PT_PROTO_ISID, [ETHERNET, ISID]), (UNROLLED PT_PROTO_PPPOE, [ETHERNET, PPPOE]), (UNROLLED PT_PROTO_GRE4, [ETHERNET, IPV4_noptions 0, GRE4]), (UNROLLED PT_PROTO_GRE6, [ETHERNET, IPV6, GRE6])],
     [(UNROLLED PT_PROTO_MPLS, [ETHERNET, MPLS_nlabels 1]), (UNROLLED PT_PROTO_VLAN, [ETHERNET, VLAN, IPV4_noptions 6, SCTP]), (UNROLLED PT_PROTO_ISID, [ETHERNET, ISID]), (UNROLLED PT_PROTO_PPPOE, [ETHERNET, PPPOE]), (UNROLLED PT_PROTO_GRE4, [ETHERNET, IPV4_noptions 0, GRE4]), (UNROLLED PT_PROTO_GRE6, [ETHERNET, IPV6, GRE6])],
     [(UNROLLED PT_PROTO_MPLS, [ETHERNET, MPLS_nlabels 1]), (UNROLLED PT_PROTO_VLAN, [ETHERNET, VLAN, IPV4_noptions 7, SCTP]), (UNROLLED PT_PROTO_ISID, [ETHERNET, ISID]), (UNROLLED PT_PROTO_PPPOE, [ETHERNET, PPPOE]), (UNROLLED PT_PROTO_GRE4, [ETHERNET, IPV4_noptions 0, GRE4]), (UNROLLED PT_PROTO_GRE6, [ETHERNET, IPV6, GRE6])],
     [(UNROLLED PT_PROTO_MPLS, [ETHERNET, MPLS_nlabels 1]), (UNROLLED PT_PROTO_VLAN, [ETHERNET, VLAN, IPV4_noptions 8, SCTP]), (UNROLLED PT_PROTO_ISID, [ETHERNET, ISID]), (UNROLLED PT_PROTO_PPPOE, [ETHERNET, PPPOE]), (UNROLLED PT_PROTO_GRE4, [ETHERNET, IPV4_noptions 0, GRE4]), (UNROLLED PT_PROTO_GRE6, [ETHERNET, IPV6, GRE6])],
     [(UNROLLED PT_PROTO_MPLS, [ETHERNET, MPLS_nlabels 1]), (UNROLLED PT_PROTO_VLAN, [ETHERNET, VLAN, IPV4_noptions 9, SCTP]), (UNROLLED PT_PROTO_ISID, [ETHERNET, ISID]), (UNROLLED PT_PROTO_PPPOE, [ETHERNET, PPPOE]), (UNROLLED PT_PROTO_GRE4, [ETHERNET, IPV4_noptions 0, GRE4]), (UNROLLED PT_PROTO_GRE6, [ETHERNET, IPV6, GRE6])],
     [(UNROLLED PT_PROTO_MPLS, [ETHERNET, MPLS_nlabels 1]), (UNROLLED PT_PROTO_VLAN, [ETHERNET, VLAN, IPV4_noptions 10, SCTP]), (UNROLLED PT_PROTO_ISID, [ETHERNET, ISID]), (UNROLLED PT_PROTO_PPPOE, [ETHERNET, PPPOE]), (UNROLLED PT_PROTO_GRE4, [ETHERNET, IPV4_noptions 0, GRE4]), (UNROLLED PT_PROTO_GRE6, [ETHERNET, IPV6, GRE6])],
     [(UNROLLED PT_PROTO_MPLS, [ETHERNET, MPLS_nlabels 1]), (UNROLLED PT_PROTO_VLAN, [ETHERNET, VLAN, IPV4_noptions 11, SCTP]), (UNROLLED PT_PROTO_ISID, [ETHERNET, ISID]), (UNROLLED PT_PROTO_PPPOE, [ETHERNET, PPPOE]), (UNROLLED PT_PROTO_GRE4, [ETHERNET, IPV4_noptions 0, GRE4]), (UNROLLED PT_PROTO_GRE6, [ETHERNET, IPV6, GRE6])],
     [(UNROLLED PT_PROTO_MPLS, [ETHERNET, MPLS_nlabels 1]), (UNROLLED PT_PROTO_VLAN, [ETHERNET, VLAN, IPV4_noptions 12, SCTP]), (UNROLLED PT_PROTO_ISID, [ETHERNET, ISID]), (UNROLLED PT_PROTO_PPPOE, [ETHERNET, PPPOE]), (UNROLLED PT_PROTO_GRE4, [ETHERNET, IPV4_noptions 0, GRE4]), (UNROLLED PT_PROTO_GRE6, [ETHERNET, IPV6, GRE6])],
     [(UNROLLED PT_PROTO_MPLS, [ETHERNET, MPLS_nlabels 1]), (UNROLLED PT_PROTO_VLAN, [ETHERNET, VLAN, IPV4_noptions 13, SCTP]), (UNROLLED PT_PROTO_ISID, [ETHERNET, ISID]), (UNROLLED PT_PROTO_PPPOE, [ETHERNET, PPPOE]), (UNROLLED PT_PROTO_GRE4, [ETHERNET, IPV4_noptions 0, GRE4]), (UNROLLED PT_PROTO_GRE6, [ETHERNET, IPV6, GRE6])],
     [(UNROLLED PT_PROTO_MPLS, [ETHERNET, MPLS_nlabels 1]), (UNROLLED PT_PROTO_VLAN, [ETHERNET, VLAN, IPV4_noptions 14, SCTP]), (UNROLLED PT_PROTO_ISID, [ETHERNET, ISID]), (UNROLLED PT_PROTO_PPPOE, [ETHERNET, PPPOE]), (UNROLLED PT_PROTO_GRE4, [ETHERNET, IPV4_noptions 0, GRE4]), (UNROLLED PT_PROTO_GRE6, [ETHERNET, IPV6, GRE6])],
     [(UNROLLED PT_PROTO_MPLS, [ETHERNET, MPLS_nlabels 1]), (UNROLLED PT_PROTO_VLAN, [ETHERNET, VLAN, IPV4_noptions 15, SCTP]), (UNROLLED PT_PROTO_ISID, [ETHERNET, ISID]), (UNROLLED PT_PROTO_PPPOE, [ETHERNET, PPPOE]), (UNROLLED PT_PROTO_GRE4, [ETHERNET, IPV4_noptions 0, GRE4]), (UNROLLED PT_PROTO_GRE6, [ETHERNET, IPV6, GRE6])],
     [],
     [],
     [],
     [],
     [],
     [],
     [],
     [],
     [],
     [],
     [],
     [],
     [],
     [],
     [],
     [],
     [],
     [],
     [],
     [],
     [],
     [],
     [],
     [],
     [],
     [],
     [],
     [],
     [],
     [],
     [],
     [],
     [(UNROLLED PT_PROTO_MPLS, [IEEE8023, MPLS_nlabels 1]), (UNROLLED PT_PROTO_VLAN, [IEEE8023, VLAN, IPV4_noptions 0, SCTP]), (UNROLLED PT_PROTO_ISID, [ETHERNET, ISID]), (UNROLLED PT_PROTO_PPPOE, [IEEE8023, PPPOE]), (UNROLLED PT_PROTO_GTPU4, [IEEE8023, IPV4_noptions 0, UDP, GTPU4]), (UNROLLED PT_PROTO_GTPU6, [IEEE8023, IPV6, UDP, GTPU6]), (UNROLLED PT_PROTO_GRE4, [ETHERNET, IPV4_noptions 0, GRE4]), (UNROLLED PT_PROTO_GRE6, [ETHERNET, IPV6, GRE6])],
     [(UNROLLED PT_PROTO_MPLS, [IEEE8023, MPLS_nlabels 1]), (UNROLLED PT_PROTO_VLAN, [IEEE8023, VLAN, IPV4_noptions 1, SCTP]), (UNROLLED PT_PROTO_ISID, [ETHERNET, ISID]), (UNROLLED PT_PROTO_PPPOE, [IEEE8023, PPPOE]), (UNROLLED PT_PROTO_GRE4, [ETHERNET, IPV4_noptions 0, GRE4]), (UNROLLED PT_PROTO_GRE6, [ETHERNET, IPV6, GRE6])],
     [(UNROLLED PT_PROTO_MPLS, [IEEE8023, MPLS_nlabels 1]), (UNROLLED PT_PROTO_VLAN, [IEEE8023, VLAN, IPV4_noptions 2, SCTP]), (UNROLLED PT_PROTO_ISID, [ETHERNET, ISID]), (UNROLLED PT_PROTO_PPPOE, [IEEE8023, PPPOE]), (UNROLLED PT_PROTO_GRE4, [ETHERNET, IPV4_noptions 0, GRE4]), (UNROLLED PT_PROTO_GRE6, [ETHERNET, IPV6, GRE6])],
     [(UNROLLED PT_PROTO_MPLS, [IEEE8023, MPLS_nlabels 1]), (UNROLLED PT_PROTO_VLAN, [IEEE8023, VLAN, IPV4_noptions 3, SCTP]), (UNROLLED PT_PROTO_ISID, [ETHERNET, ISID]), (UNROLLED PT_PROTO_PPPOE, [IEEE8023, PPPOE]), (UNROLLED PT_PROTO_GRE4, [ETHERNET, IPV4_noptions 0, GRE4]), (UNROLLED PT_PROTO_GRE6, [ETHERNET, IPV6, GRE6])],
     [(UNROLLED PT_PROTO_MPLS, [IEEE8023, MPLS_nlabels 1]), (UNROLLED PT_PROTO_VLAN, [IEEE8023, VLAN, IPV4_noptions 4, SCTP]), (UNROLLED PT_PROTO_ISID, [ETHERNET, ISID]), (UNROLLED PT_PROTO_PPPOE, [IEEE8023, PPPOE]), (UNROLLED PT_PROTO_GRE4, [ETHERNET, IPV4_noptions 0, GRE4]), (UNROLLED PT_PROTO_GRE6, [ETHERNET, IPV6, GRE6])],
     [(UNROLLED PT_PROTO_MPLS, [IEEE8023, MPLS_nlabels 1]), (UNROLLED PT_PROTO_VLAN, [IEEE8023, VLAN, IPV4_noptions 5, SCTP]), (UNROLLED PT_PROTO_ISID, [ETHERNET, ISID]), (UNROLLED PT_PROTO_PPPOE, [IEEE8023, PPPOE]), (UNROLLED PT_PROTO_GRE4, [ETHERNET, IPV4_noptions 0, GRE4]), (UNROLLED PT_PROTO_GRE6, [ETHERNET, IPV6, GRE6])],
     [(UNROLLED PT_PROTO_MPLS, [IEEE8023, MPLS_nlabels 1]), (UNROLLED PT_PROTO_VLAN, [IEEE8023, VLAN, IPV4_noptions 6, SCTP]), (UNROLLED PT_PROTO_ISID, [ETHERNET, ISID]), (UNROLLED PT_PROTO_PPPOE, [IEEE8023, PPPOE]), (UNROLLED PT_PROTO_GRE4, [ETHERNET, IPV4_noptions 0, GRE4]), (UNROLLED PT_PROTO_GRE6, [ETHERNET, IPV6, GRE6])],
     [(UNROLLED PT_PROTO_MPLS, [IEEE8023, MPLS_nlabels 1]), (UNROLLED PT_PROTO_VLAN, [IEEE8023, VLAN, IPV4_noptions 7, SCTP]), (UNROLLED PT_PROTO_ISID, [ETHERNET, ISID]), (UNROLLED PT_PROTO_PPPOE, [IEEE8023, PPPOE]), (UNROLLED PT_PROTO_GRE4, [ETHERNET, IPV4_noptions 0, GRE4]), (UNROLLED PT_PROTO_GRE6, [ETHERNET, IPV6, GRE6])],
     [(UNROLLED PT_PROTO_MPLS, [IEEE8023, MPLS_nlabels 1]), (UNROLLED PT_PROTO_VLAN, [IEEE8023, VLAN, IPV4_noptions 8, SCTP]), (UNROLLED PT_PROTO_ISID, [ETHERNET, ISID]), (UNROLLED PT_PROTO_PPPOE, [IEEE8023, PPPOE]), (UNROLLED PT_PROTO_GRE4, [ETHERNET, IPV4_noptions 0, GRE4]), (UNROLLED PT_PROTO_GRE6, [ETHERNET, IPV6, GRE6])],
     [(UNROLLED PT_PROTO_MPLS, [IEEE8023, MPLS_nlabels 1]), (UNROLLED PT_PROTO_VLAN, [IEEE8023, VLAN, IPV4_noptions 9, SCTP]), (UNROLLED PT_PROTO_ISID, [ETHERNET, ISID]), (UNROLLED PT_PROTO_PPPOE, [IEEE8023, PPPOE]), (UNROLLED PT_PROTO_GRE4, [ETHERNET, IPV4_noptions 0, GRE4]), (UNROLLED PT_PROTO_GRE6, [ETHERNET, IPV6, GRE6])],
     [(UNROLLED PT_PROTO_MPLS, [IEEE8023, MPLS_nlabels 1]), (UNROLLED PT_PROTO_VLAN, [IEEE8023, VLAN, IPV4_noptions 10, SCTP]), (UNROLLED PT_PROTO_ISID, [ETHERNET, ISID]), (UNROLLED PT_PROTO_PPPOE, [IEEE8023, PPPOE]), (UNROLLED PT_PROTO_GRE4, [ETHERNET, IPV4_noptions 0, GRE4]), (UNROLLED PT_PROTO_GRE6, [ETHERNET, IPV6, GRE6])],
     [(UNROLLED PT_PROTO_MPLS, [IEEE8023, MPLS_nlabels 1]), (UNROLLED PT_PROTO_VLAN, [IEEE8023, VLAN, IPV4_noptions 11, SCTP]), (UNROLLED PT_PROTO_ISID, [ETHERNET, ISID]), (UNROLLED PT_PROTO_PPPOE, [IEEE8023, PPPOE]), (UNROLLED PT_PROTO_GRE4, [ETHERNET, IPV4_noptions 0, GRE4]), (UNROLLED PT_PROTO_GRE6, [ETHERNET, IPV6, GRE6])],
     [(UNROLLED PT_PROTO_MPLS, [IEEE8023, MPLS_nlabels 1]), (UNROLLED PT_PROTO_VLAN, [IEEE8023, VLAN, IPV4_noptions 12, SCTP]), (UNROLLED PT_PROTO_ISID, [ETHERNET, ISID]), (UNROLLED PT_PROTO_PPPOE, [IEEE8023, PPPOE]), (UNROLLED PT_PROTO_GRE4, [ETHERNET, IPV4_noptions 0, GRE4]), (UNROLLED PT_PROTO_GRE6, [ETHERNET, IPV6, GRE6])],
     [(UNROLLED PT_PROTO_MPLS, [IEEE8023, MPLS_nlabels 1]), (UNROLLED PT_PROTO_VLAN, [IEEE8023, VLAN, IPV4_noptions 13, SCTP]), (UNROLLED PT_PROTO_ISID, [ETHERNET, ISID]), (UNROLLED PT_PROTO_PPPOE, [IEEE8023, PPPOE]), (UNROLLED PT_PROTO_GRE4, [ETHERNET, IPV4_noptions 0, GRE4]), (UNROLLED PT_PROTO_GRE6, [ETHERNET, IPV6, GRE6])],
     [(UNROLLED PT_PROTO_MPLS, [IEEE8023, MPLS_nlabels 1]), (UNROLLED PT_PROTO_VLAN, [IEEE8023, VLAN, IPV4_noptions 14, SCTP]), (UNROLLED PT_PROTO_ISID, [ETHERNET, ISID]), (UNROLLED PT_PROTO_PPPOE, [IEEE8023, PPPOE]), (UNROLLED PT_PROTO_GRE4, [ETHERNET, IPV4_noptions 0, GRE4]), (UNROLLED PT_PROTO_GRE6, [ETHERNET, IPV6, GRE6])],
     [(UNROLLED PT_PROTO_MPLS, [IEEE8023, MPLS_nlabels 1]), (UNROLLED PT_PROTO_VLAN, [IEEE8023, VLAN, IPV4_noptions 15, SCTP]), (UNROLLED PT_PROTO_ISID, [ETHERNET, ISID]), (UNROLLED PT_PROTO_PPPOE, [IEEE8023, PPPOE]), (UNROLLED PT_PROTO_GRE4, [ETHERNET, IPV4_noptions 0, GRE4]), (UNROLLED PT_PROTO_GRE6, [ETHERNET, IPV6, GRE6])],
     [(UNROLLED PT_PROTO_MPLS, [ETHERNET, VLAN, MPLS_nlabels 1]), (UNROLLED PT_PROTO_VLAN, [ETHERNET, VLAN, VLAN, IPV4_noptions 0, SCTP]), (UNROLLED PT_PROTO_ISID, [ETHERNET, ISID]), (UNROLLED PT_PROTO_PPPOE, [ETHERNET, VLAN, PPPOE]), (UNROLLED PT_PROTO_GRE4, [ETHERNET, IPV4_noptions 0, GRE4]), (UNROLLED PT_PROTO_GRE6, [ETHERNET, IPV6, GRE6])],
     [(UNROLLED PT_PROTO_MPLS, [ETHERNET, VLAN, MPLS_nlabels 1]), (UNROLLED PT_PROTO_VLAN, [ETHERNET, VLAN, VLAN, IPV4_noptions 1, SCTP]), (UNROLLED PT_PROTO_ISID, [ETHERNET, ISID]), (UNROLLED PT_PROTO_PPPOE, [ETHERNET, VLAN, PPPOE]), (UNROLLED PT_PROTO_GRE4, [ETHERNET, IPV4_noptions 0, GRE4]), (UNROLLED PT_PROTO_GRE6, [ETHERNET, IPV6, GRE6])],
     [(UNROLLED PT_PROTO_MPLS, [ETHERNET, VLAN, MPLS_nlabels 1]), (UNROLLED PT_PROTO_VLAN, [ETHERNET, VLAN, VLAN, IPV4_noptions 2, SCTP]), (UNROLLED PT_PROTO_ISID, [ETHERNET, ISID]), (UNROLLED PT_PROTO_PPPOE, [ETHERNET, VLAN, PPPOE]), (UNROLLED PT_PROTO_GRE4, [ETHERNET, IPV4_noptions 0, GRE4]), (UNROLLED PT_PROTO_GRE6, [ETHERNET, IPV6, GRE6])],
     [(UNROLLED PT_PROTO_MPLS, [ETHERNET, VLAN, MPLS_nlabels 1]), (UNROLLED PT_PROTO_VLAN, [ETHERNET, VLAN, VLAN, IPV4_noptions 3, SCTP]), (UNROLLED PT_PROTO_ISID, [ETHERNET, ISID]), (UNROLLED PT_PROTO_PPPOE, [ETHERNET, VLAN, PPPOE]), (UNROLLED PT_PROTO_GRE4, [ETHERNET, IPV4_noptions 0, GRE4]), (UNROLLED PT_PROTO_GRE6, [ETHERNET, IPV6, GRE6])],
     [(UNROLLED PT_PROTO_MPLS, [ETHERNET, VLAN, MPLS_nlabels 1]), (UNROLLED PT_PROTO_VLAN, [ETHERNET, VLAN, VLAN, IPV4_noptions 4, SCTP]), (UNROLLED PT_PROTO_ISID, [ETHERNET, ISID]), (UNROLLED PT_PROTO_PPPOE, [ETHERNET, VLAN, PPPOE]), (UNROLLED PT_PROTO_GRE4, [ETHERNET, IPV4_noptions 0, GRE4]), (UNROLLED PT_PROTO_GRE6, [ETHERNET, IPV6, GRE6])],
     [(UNROLLED PT_PROTO_MPLS, [ETHERNET, VLAN, MPLS_nlabels 1]), (UNROLLED PT_PROTO_VLAN, [ETHERNET, VLAN, VLAN, IPV4_noptions 5, SCTP]), (UNROLLED PT_PROTO_ISID, [ETHERNET, ISID]), (UNROLLED PT_PROTO_PPPOE, [ETHERNET, VLAN, PPPOE]), (UNROLLED PT_PROTO_GRE4, [ETHERNET, IPV4_noptions 0, GRE4]), (UNROLLED PT_PROTO_GRE6, [ETHERNET, IPV6, GRE6])],
     [(UNROLLED PT_PROTO_MPLS, [ETHERNET, VLAN, MPLS_nlabels 1]), (UNROLLED PT_PROTO_VLAN, [ETHERNET, VLAN, VLAN, IPV4_noptions 6, SCTP]), (UNROLLED PT_PROTO_ISID, [ETHERNET, ISID]), (UNROLLED PT_PROTO_PPPOE, [ETHERNET, VLAN, PPPOE]), (UNROLLED PT_PROTO_GRE4, [ETHERNET, IPV4_noptions 0, GRE4]), (UNROLLED PT_PROTO_GRE6, [ETHERNET, IPV6, GRE6])],
     [(UNROLLED PT_PROTO_MPLS, [ETHERNET, VLAN, MPLS_nlabels 1]), (UNROLLED PT_PROTO_VLAN, [ETHERNET, VLAN, VLAN, IPV4_noptions 7, SCTP]), (UNROLLED PT_PROTO_ISID, [ETHERNET, ISID]), (UNROLLED PT_PROTO_PPPOE, [ETHERNET, VLAN, PPPOE]), (UNROLLED PT_PROTO_GRE4, [ETHERNET, IPV4_noptions 0, GRE4]), (UNROLLED PT_PROTO_GRE6, [ETHERNET, IPV6, GRE6])],
     [(UNROLLED PT_PROTO_MPLS, [ETHERNET, VLAN, MPLS_nlabels 1]), (UNROLLED PT_PROTO_VLAN, [ETHERNET, VLAN, VLAN, IPV4_noptions 8, SCTP]), (UNROLLED PT_PROTO_ISID, [ETHERNET, ISID]), (UNROLLED PT_PROTO_PPPOE, [ETHERNET, VLAN, PPPOE]), (UNROLLED PT_PROTO_GRE4, [ETHERNET, IPV4_noptions 0, GRE4]), (UNROLLED PT_PROTO_GRE6, [ETHERNET, IPV6, GRE6])],
     [(UNROLLED PT_PROTO_MPLS, [ETHERNET, VLAN, MPLS_nlabels 1]), (UNROLLED PT_PROTO_VLAN, [ETHERNET, VLAN, VLAN, IPV4_noptions 9, SCTP]), (UNROLLED PT_PROTO_ISID, [ETHERNET, ISID]), (UNROLLED PT_PROTO_PPPOE, [ETHERNET, VLAN, PPPOE]), (UNROLLED PT_PROTO_GRE4, [ETHERNET, IPV4_noptions 0, GRE4]), (UNROLLED PT_PROTO_GRE6, [ETHERNET, IPV6, GRE6])],
     [(UNROLLED PT_PROTO_MPLS, [ETHERNET, VLAN, MPLS_nlabels 1]), (UNROLLED PT_PROTO_VLAN, [ETHERNET, VLAN, VLAN, IPV4_noptions 10, SCTP]), (UNROLLED PT_PROTO_ISID, [ETHERNET, ISID]), (UNROLLED PT_PROTO_PPPOE, [ETHERNET, VLAN, PPPOE]), (UNROLLED PT_PROTO_GRE4, [ETHERNET, IPV4_noptions 0, GRE4]), (UNROLLED PT_PROTO_GRE6, [ETHERNET, IPV6, GRE6])],
     [(UNROLLED PT_PROTO_MPLS, [ETHERNET, VLAN, MPLS_nlabels 1]), (UNROLLED PT_PROTO_VLAN, [ETHERNET, VLAN, VLAN, IPV4_noptions 11, SCTP]), (UNROLLED PT_PROTO_ISID, [ETHERNET, ISID]), (UNROLLED PT_PROTO_PPPOE, [ETHERNET, VLAN, PPPOE]), (UNROLLED PT_PROTO_GRE4, [ETHERNET, IPV4_noptions 0, GRE4]), (UNROLLED PT_PROTO_GRE6, [ETHERNET, IPV6, GRE6])],
     [(UNROLLED PT_PROTO_MPLS, [ETHERNET, VLAN, MPLS_nlabels 1]), (UNROLLED PT_PROTO_VLAN, [ETHERNET, VLAN, VLAN, IPV4_noptions 12, SCTP]), (UNROLLED PT_PROTO_ISID, [ETHERNET, ISID]), (UNROLLED PT_PROTO_PPPOE, [ETHERNET, VLAN, PPPOE]), (UNROLLED PT_PROTO_GRE4, [ETHERNET, IPV4_noptions 0, GRE4]), (UNROLLED PT_PROTO_GRE6, [ETHERNET, IPV6, GRE6])],
     [(UNROLLED PT_PROTO_MPLS, [ETHERNET, VLAN, MPLS_nlabels 1]), (UNROLLED PT_PROTO_VLAN, [ETHERNET, VLAN, VLAN, IPV4_noptions 13, SCTP]), (UNROLLED PT_PROTO_ISID, [ETHERNET, ISID]), (UNROLLED PT_PROTO_PPPOE, [ETHERNET, VLAN, PPPOE]), (UNROLLED PT_PROTO_GRE4, [ETHERNET, IPV4_noptions 0, GRE4]), (UNROLLED PT_PROTO_GRE6, [ETHERNET, IPV6, GRE6])],
     [(UNROLLED PT_PROTO_MPLS, [ETHERNET, VLAN, MPLS_nlabels 1]), (UNROLLED PT_PROTO_VLAN, [ETHERNET, VLAN, VLAN, IPV4_noptions 14, SCTP]), (UNROLLED PT_PROTO_ISID, [ETHERNET, ISID]), (UNROLLED PT_PROTO_PPPOE, [ETHERNET, VLAN, PPPOE]), (UNROLLED PT_PROTO_GRE4, [ETHERNET, IPV4_noptions 0, GRE4]), (UNROLLED PT_PROTO_GRE6, [ETHERNET, IPV6, GRE6])],
     [(UNROLLED PT_PROTO_MPLS, [ETHERNET, VLAN, MPLS_nlabels 1]), (UNROLLED PT_PROTO_VLAN, [ETHERNET, VLAN, VLAN, IPV4_noptions 15, SCTP]), (UNROLLED PT_PROTO_ISID, [ETHERNET, ISID]), (UNROLLED PT_PROTO_PPPOE, [ETHERNET, VLAN, PPPOE]), (UNROLLED PT_PROTO_GRE4, [ETHERNET, IPV4_noptions 0, GRE4]), (UNROLLED PT_PROTO_GRE6, [ETHERNET, IPV6, GRE6])],
     [(UNROLLED PT_PROTO_MPLS, [IEEE8023, VLAN, MPLS_nlabels 1]), (UNROLLED PT_PROTO_VLAN, [IEEE8023, VLAN, VLAN, IPV4_noptions 0, SCTP]), (UNROLLED PT_PROTO_ISID, [ETHERNET, ISID]), (UNROLLED PT_PROTO_PPPOE, [IEEE8023, VLAN, PPPOE]), (UNROLLED PT_PROTO_GRE4, [ETHERNET, IPV4_noptions 0, GRE4]), (UNROLLED PT_PROTO_GRE6, [ETHERNET, IPV6, GRE6])],
     [(UNROLLED PT_PROTO_MPLS, [IEEE8023, VLAN, MPLS_nlabels 1]), (UNROLLED PT_PROTO_VLAN, [IEEE8023, VLAN, VLAN, IPV4_noptions 1, SCTP]), (UNROLLED PT_PROTO_ISID, [ETHERNET, ISID]), (UNROLLED PT_PROTO_PPPOE, [IEEE8023, VLAN, PPPOE]), (UNROLLED PT_PROTO_GRE4, [ETHERNET, IPV4_noptions 0, GRE4]), (UNROLLED PT_PROTO_GRE6, [ETHERNET, IPV6, GRE6])],
     [(UNROLLED PT_PROTO_MPLS, [IEEE8023, VLAN, MPLS_nlabels 1]), (UNROLLED PT_PROTO_VLAN, [IEEE8023, VLAN, VLAN, IPV4_noptions 2, SCTP]), (UNROLLED PT_PROTO_ISID, [ETHERNET, ISID]), (UNROLLED PT_PROTO_PPPOE, [IEEE8023, VLAN, PPPOE]), (UNROLLED PT_PROTO_GRE4, [ETHERNET, IPV4_noptions 0, GRE4]), (UNROLLED PT_PROTO_GRE6, [ETHERNET, IPV6, GRE6])],
     [(UNROLLED PT_PROTO_MPLS, [IEEE8023, VLAN, MPLS_nlabels 1]), (UNROLLED PT_PROTO_VLAN, [IEEE8023, VLAN, VLAN, IPV4_noptions 3, SCTP]), (UNROLLED PT_PROTO_ISID, [ETHERNET, ISID]), (UNROLLED PT_PROTO_PPPOE, [IEEE8023, VLAN, PPPOE]), (UNROLLED PT_PROTO_GRE4, [ETHERNET, IPV4_noptions 0, GRE4]), (UNROLLED PT_PROTO_GRE6, [ETHERNET, IPV6, GRE6])],
     [(UNROLLED PT_PROTO_MPLS, [IEEE8023, VLAN, MPLS_nlabels 1]), (UNROLLED PT_PROTO_VLAN, [IEEE8023, VLAN, VLAN, IPV4_noptions 4, SCTP]), (UNROLLED PT_PROTO_ISID, [ETHERNET, ISID]), (UNROLLED PT_PROTO_PPPOE, [IEEE8023, VLAN, PPPOE]), (UNROLLED PT_PROTO_GRE4, [ETHERNET, IPV4_noptions 0, GRE4]), (UNROLLED PT_PROTO_GRE6, [ETHERNET, IPV6, GRE6])],
     [(UNROLLED PT_PROTO_MPLS, [IEEE8023, VLAN, MPLS_nlabels 1]), (UNROLLED PT_PROTO_VLAN, [IEEE8023, VLAN, VLAN, IPV4_noptions 5, SCTP]), (UNROLLED PT_PROTO_ISID, [ETHERNET, ISID]), (UNROLLED PT_PROTO_PPPOE, [IEEE8023, VLAN, PPPOE]), (UNROLLED PT_PROTO_GRE4, [ETHERNET, IPV4_noptions 0, GRE4]), (UNROLLED PT_PROTO_GRE6, [ETHERNET, IPV6, GRE6])],
     [(UNROLLED PT_PROTO_MPLS, [IEEE8023, VLAN, MPLS_nlabels 1]), (UNROLLED PT_PROTO_VLAN, [IEEE8023, VLAN, VLAN, IPV4_noptions 6, SCTP]), (UNROLLED PT_PROTO_ISID, [ETHERNET, ISID]), (UNROLLED PT_PROTO_PPPOE, [IEEE8023, VLAN, PPPOE]), (UNROLLED PT_PROTO_GRE4, [ETHERNET, IPV4_noptions 0, GRE4]), (UNROLLED PT_PROTO_GRE6, [ETHERNET, IPV6, GRE6])],
     [(UNROLLED PT_PROTO_MPLS, [IEEE8023, VLAN, MPLS_nlabels 1]), (UNROLLED PT_PROTO_VLAN, [IEEE8023, VLAN, VLAN, IPV4_noptions 7, SCTP]), (UNROLLED PT_PROTO_ISID, [ETHERNET, ISID]), (UNROLLED PT_PROTO_PPPOE, [IEEE8023, VLAN, PPPOE]), (UNROLLED PT_PROTO_GRE4, [ETHERNET, IPV4_noptions 0, GRE4]), (UNROLLED PT_PROTO_GRE6, [ETHERNET, IPV6, GRE6])],
     [(UNROLLED PT_PROTO_MPLS, [IEEE8023, VLAN, MPLS_nlabels 1]), (UNROLLED PT_PROTO_VLAN, [IEEE8023, VLAN, VLAN, IPV4_noptions 8, SCTP]), (UNROLLED PT_PROTO_ISID, [ETHERNET, ISID]), (UNROLLED PT_PROTO_PPPOE, [IEEE8023, VLAN, PPPOE]), (UNROLLED PT_PROTO_GRE4, [ETHERNET, IPV4_noptions 0, GRE4]), (UNROLLED PT_PROTO_GRE6, [ETHERNET, IPV6, GRE6])],
     [(UNROLLED PT_PROTO_MPLS, [IEEE8023, VLAN, MPLS_nlabels 1]), (UNROLLED PT_PROTO_VLAN, [IEEE8023, VLAN, VLAN, IPV4_noptions 9, SCTP]), (UNROLLED PT_PROTO_ISID, [ETHERNET, ISID]), (UNROLLED PT_PROTO_PPPOE, [IEEE8023, VLAN, PPPOE]), (UNROLLED PT_PROTO_GRE4, [ETHERNET, IPV4_noptions 0, GRE4]), (UNROLLED PT_PROTO_GRE6, [ETHERNET, IPV6, GRE6])],
     [(UNROLLED PT_PROTO_MPLS, [IEEE8023, VLAN, MPLS_nlabels 1]), (UNROLLED PT_PROTO_VLAN, [IEEE8023, VLAN, VLAN, IPV4_noptions 10, SCTP]), (UNROLLED PT_PROTO_ISID, [ETHERNET, ISID]), (UNROLLED PT_PROTO_PPPOE, [IEEE8023, VLAN, PPPOE]), (UNROLLED PT_PROTO_GRE4, [ETHERNET, IPV4_noptions 0, GRE4]), (UNROLLED PT_PROTO_GRE6, [ETHERNET, IPV6, GRE6])],
     [(UNROLLED PT_PROTO_MPLS, [IEEE8023, VLAN, MPLS_nlabels 1]), (UNROLLED PT_PROTO_VLAN, [IEEE8023, VLAN, VLAN, IPV4_noptions 11, SCTP]), (UNROLLED PT_PROTO_ISID, [ETHERNET, ISID]), (UNROLLED PT_PROTO_PPPOE, [IEEE8023, VLAN, PPPOE]), (UNROLLED PT_PROTO_GRE4, [ETHERNET, IPV4_noptions 0, GRE4]), (UNROLLED PT_PROTO_GRE6, [ETHERNET, IPV6, GRE6])],
     [(UNROLLED PT_PROTO_MPLS, [IEEE8023, VLAN, MPLS_nlabels 1]), (UNROLLED PT_PROTO_VLAN, [IEEE8023, VLAN, VLAN, IPV4_noptions 12, SCTP]), (UNROLLED PT_PROTO_ISID, [ETHERNET, ISID]), (UNROLLED PT_PROTO_PPPOE, [IEEE8023, VLAN, PPPOE]), (UNROLLED PT_PROTO_GRE4, [ETHERNET, IPV4_noptions 0, GRE4]), (UNROLLED PT_PROTO_GRE6, [ETHERNET, IPV6, GRE6])],
     [(UNROLLED PT_PROTO_MPLS, [IEEE8023, VLAN, MPLS_nlabels 1]), (UNROLLED PT_PROTO_VLAN, [IEEE8023, VLAN, VLAN, IPV4_noptions 13, SCTP]), (UNROLLED PT_PROTO_ISID, [ETHERNET, ISID]), (UNROLLED PT_PROTO_PPPOE, [IEEE8023, VLAN, PPPOE]), (UNROLLED PT_PROTO_GRE4, [ETHERNET, IPV4_noptions 0, GRE4]), (UNROLLED PT_PROTO_GRE6, [ETHERNET, IPV6, GRE6])],
     [(UNROLLED PT_PROTO_MPLS, [IEEE8023, VLAN, MPLS_nlabels 1]), (UNROLLED PT_PROTO_VLAN, [IEEE8023, VLAN, VLAN, IPV4_noptions 14, SCTP]), (UNROLLED PT_PROTO_ISID, [ETHERNET, ISID]), (UNROLLED PT_PROTO_PPPOE, [IEEE8023, VLAN, PPPOE]), (UNROLLED PT_PROTO_GRE4, [ETHERNET, IPV4_noptions 0, GRE4]), (UNROLLED PT_PROTO_GRE6, [ETHERNET, IPV6, GRE6])],
     [(UNROLLED PT_PROTO_MPLS, [IEEE8023, VLAN, MPLS_nlabels 1]), (UNROLLED PT_PROTO_VLAN, [IEEE8023, VLAN, VLAN, IPV4_noptions 15, SCTP]), (UNROLLED PT_PROTO_ISID, [ETHERNET, ISID]), (UNROLLED PT_PROTO_PPPOE, [IEEE8023, VLAN, PPPOE]), (UNROLLED PT_PROTO_GRE4, [ETHERNET, IPV4_noptions 0, GRE4]), (UNROLLED PT_PROTO_GRE6, [ETHERNET, IPV6, GRE6])],
     [(UNROLLED PT_PROTO_MPLS, [ETHERNET, VLAN, VLAN, MPLS_nlabels 1]), (UNROLLED PT_PROTO_ISID, [ETHERNET, ISID]), (UNROLLED PT_PROTO_PPPOE, [ETHERNET, VLAN, VLAN, PPPOE]), (UNROLLED PT_PROTO_GRE4, [ETHERNET, IPV4_noptions 0, GRE4]), (UNROLLED PT_PROTO_GRE6, [ETHERNET, IPV6, GRE6])],
     [(UNROLLED PT_PROTO_MPLS, [ETHERNET, VLAN, VLAN, MPLS_nlabels 1]), (UNROLLED PT_PROTO_ISID, [ETHERNET, ISID]), (UNROLLED PT_PROTO_PPPOE, [ETHERNET, VLAN, VLAN, PPPOE]), (UNROLLED PT_PROTO_GRE4, [ETHERNET, IPV4_noptions 0, GRE4]), (UNROLLED PT_PROTO_GRE6, [ETHERNET, IPV6, GRE6])],
     [(UNROLLED PT_PROTO_MPLS, [ETHERNET, VLAN, VLAN, MPLS_nlabels 1]), (UNROLLED PT_PROTO_ISID, [ETHERNET, ISID]), (UNROLLED PT_PROTO_PPPOE, [ETHERNET, VLAN, VLAN, PPPOE]), (UNROLLED PT_PROTO_GRE4, [ETHERNET, IPV4_noptions 0, GRE4]), (UNROLLED PT_PROTO_GRE6, [ETHERNET, IPV6, GRE6])],
     [(UNROLLED PT_PROTO_MPLS, [ETHERNET, VLAN, VLAN, MPLS_nlabels 1]), (UNROLLED PT_PROTO_ISID, [ETHERNET, ISID]), (UNROLLED PT_PROTO_PPPOE, [ETHERNET, VLAN, VLAN, PPPOE]), (UNROLLED PT_PROTO_GRE4, [ETHERNET, IPV4_noptions 0, GRE4]), (UNROLLED PT_PROTO_GRE6, [ETHERNET, IPV6, GRE6])],
     [(UNROLLED PT_PROTO_MPLS, [ETHERNET, VLAN, VLAN, MPLS_nlabels 1]), (UNROLLED PT_PROTO_ISID, [ETHERNET, ISID]), (UNROLLED PT_PROTO_PPPOE, [ETHERNET, VLAN, VLAN, PPPOE]), (UNROLLED PT_PROTO_GRE4, [ETHERNET, IPV4_noptions 0, GRE4]), (UNROLLED PT_PROTO_GRE6, [ETHERNET, IPV6, GRE6])],
     [(UNROLLED PT_PROTO_MPLS, [ETHERNET, VLAN, VLAN, MPLS_nlabels 1]), (UNROLLED PT_PROTO_ISID, [ETHERNET, ISID]), (UNROLLED PT_PROTO_PPPOE, [ETHERNET, VLAN, VLAN, PPPOE]), (UNROLLED PT_PROTO_GRE4, [ETHERNET, IPV4_noptions 0, GRE4]), (UNROLLED PT_PROTO_GRE6, [ETHERNET, IPV6, GRE6])],
     [(UNROLLED PT_PROTO_MPLS, [ETHERNET, VLAN, VLAN, MPLS_nlabels 1]), (UNROLLED PT_PROTO_ISID, [ETHERNET, ISID]), (UNROLLED PT_PROTO_PPPOE, [ETHERNET, VLAN, VLAN, PPPOE]), (UNROLLED PT_PROTO_GRE4, [ETHERNET, IPV4_noptions 0, GRE4]), (UNROLLED PT_PROTO_GRE6, [ETHERNET, IPV6, GRE6])],
     [(UNROLLED PT_PROTO_MPLS, [ETHERNET, VLAN, VLAN, MPLS_nlabels 1]), (UNROLLED PT_PROTO_ISID, [ETHERNET, ISID]), (UNROLLED PT_PROTO_PPPOE, [ETHERNET, VLAN, VLAN, PPPOE]), (UNROLLED PT_PROTO_GRE4, [ETHERNET, IPV4_noptions 0, GRE4]), (UNROLLED PT_PROTO_GRE6, [ETHERNET, IPV6, GRE6])],
     [(UNROLLED PT_PROTO_MPLS, [ETHERNET, VLAN, VLAN, MPLS_nlabels 1]), (UNROLLED PT_PROTO_ISID, [ETHERNET, ISID]), (UNROLLED PT_PROTO_PPPOE, [ETHERNET, VLAN, VLAN, PPPOE]), (UNROLLED PT_PROTO_GRE4, [ETHERNET, IPV4_noptions 0, GRE4]), (UNROLLED PT_PROTO_GRE6, [ETHERNET, IPV6, GRE6])],
     [(UNROLLED PT_PROTO_MPLS, [ETHERNET, VLAN, VLAN, MPLS_nlabels 1]), (UNROLLED PT_PROTO_ISID, [ETHERNET, ISID]), (UNROLLED PT_PROTO_PPPOE, [ETHERNET, VLAN, VLAN, PPPOE]), (UNROLLED PT_PROTO_GRE4, [ETHERNET, IPV4_noptions 0, GRE4]), (UNROLLED PT_PROTO_GRE6, [ETHERNET, IPV6, GRE6])],
     [(UNROLLED PT_PROTO_MPLS, [ETHERNET, VLAN, VLAN, MPLS_nlabels 1]), (UNROLLED PT_PROTO_ISID, [ETHERNET, ISID]), (UNROLLED PT_PROTO_PPPOE, [ETHERNET, VLAN, VLAN, PPPOE]), (UNROLLED PT_PROTO_GRE4, [ETHERNET, IPV4_noptions 0, GRE4]), (UNROLLED PT_PROTO_GRE6, [ETHERNET, IPV6, GRE6])],
     [(UNROLLED PT_PROTO_MPLS, [ETHERNET, VLAN, VLAN, MPLS_nlabels 1]), (UNROLLED PT_PROTO_ISID, [ETHERNET, ISID]), (UNROLLED PT_PROTO_PPPOE, [ETHERNET, VLAN, VLAN, PPPOE]), (UNROLLED PT_PROTO_GRE4, [ETHERNET, IPV4_noptions 0, GRE4]), (UNROLLED PT_PROTO_GRE6, [ETHERNET, IPV6, GRE6])],
     [(UNROLLED PT_PROTO_MPLS, [ETHERNET, VLAN, VLAN, MPLS_nlabels 1]), (UNROLLED PT_PROTO_ISID, [ETHERNET, ISID]), (UNROLLED PT_PROTO_PPPOE, [ETHERNET, VLAN, VLAN, PPPOE]), (UNROLLED PT_PROTO_GRE4, [ETHERNET, IPV4_noptions 0, GRE4]), (UNROLLED PT_PROTO_GRE6, [ETHERNET, IPV6, GRE6])],
     [(UNROLLED PT_PROTO_MPLS, [ETHERNET, VLAN, VLAN, MPLS_nlabels 1]), (UNROLLED PT_PROTO_ISID, [ETHERNET, ISID]), (UNROLLED PT_PROTO_PPPOE, [ETHERNET, VLAN, VLAN, PPPOE]), (UNROLLED PT_PROTO_GRE4, [ETHERNET, IPV4_noptions 0, GRE4]), (UNROLLED PT_PROTO_GRE6, [ETHERNET, IPV6, GRE6])],
     [(UNROLLED PT_PROTO_MPLS, [ETHERNET, VLAN, VLAN, MPLS_nlabels 1]), (UNROLLED PT_PROTO_ISID, [ETHERNET, ISID]), (UNROLLED PT_PROTO_PPPOE, [ETHERNET, VLAN, VLAN, PPPOE]), (UNROLLED PT_PROTO_GRE4, [ETHERNET, IPV4_noptions 0, GRE4]), (UNROLLED PT_PROTO_GRE6, [ETHERNET, IPV6, GRE6])],
     [(UNROLLED PT_PROTO_MPLS, [ETHERNET, VLAN, VLAN, MPLS_nlabels 1]), (UNROLLED PT_PROTO_ISID, [ETHERNET, ISID]), (UNROLLED PT_PROTO_PPPOE, [ETHERNET, VLAN, VLAN, PPPOE]), (UNROLLED PT_PROTO_GRE4, [ETHERNET, IPV4_noptions 0, GRE4]), (UNROLLED PT_PROTO_GRE6, [ETHERNET, IPV6, GRE6])],
     [(UNROLLED PT_PROTO_MPLS, [IEEE8023, VLAN, VLAN, MPLS_nlabels 1]), (UNROLLED PT_PROTO_ISID, [ETHERNET, ISID]), (UNROLLED PT_PROTO_PPPOE, [IEEE8023, VLAN, VLAN, PPPOE]), (UNROLLED PT_PROTO_GRE4, [ETHERNET, IPV4_noptions 0, GRE4]), (UNROLLED PT_PROTO_GRE6, [ETHERNET, IPV6, GRE6])],
     [(UNROLLED PT_PROTO_MPLS, [IEEE8023, VLAN, VLAN, MPLS_nlabels 1]), (UNROLLED PT_PROTO_ISID, [ETHERNET, ISID]), (UNROLLED PT_PROTO_PPPOE, [IEEE8023, VLAN, VLAN, PPPOE]), (UNROLLED PT_PROTO_GRE4, [ETHERNET, IPV4_noptions 0, GRE4]), (UNROLLED PT_PROTO_GRE6, [ETHERNET, IPV6, GRE6])],
     [(UNROLLED PT_PROTO_MPLS, [IEEE8023, VLAN, VLAN, MPLS_nlabels 1]), (UNROLLED PT_PROTO_ISID, [ETHERNET, ISID]), (UNROLLED PT_PROTO_PPPOE, [IEEE8023, VLAN, VLAN, PPPOE]), (UNROLLED PT_PROTO_GRE4, [ETHERNET, IPV4_noptions 0, GRE4]), (UNROLLED PT_PROTO_GRE6, [ETHERNET, IPV6, GRE6])],
     [(UNROLLED PT_PROTO_MPLS, [IEEE8023, VLAN, VLAN, MPLS_nlabels 1]), (UNROLLED PT_PROTO_ISID, [ETHERNET, ISID]), (UNROLLED PT_PROTO_PPPOE, [IEEE8023, VLAN, VLAN, PPPOE]), (UNROLLED PT_PROTO_GRE4, [ETHERNET, IPV4_noptions 0, GRE4]), (UNROLLED PT_PROTO_GRE6, [ETHERNET, IPV6, GRE6])],
     [(UNROLLED PT_PROTO_MPLS, [IEEE8023, VLAN, VLAN, MPLS_nlabels 1]), (UNROLLED PT_PROTO_ISID, [ETHERNET, ISID]), (UNROLLED PT_PROTO_PPPOE, [IEEE8023, VLAN, VLAN, PPPOE]), (UNROLLED PT_PROTO_GRE4, [ETHERNET, IPV4_noptions 0, GRE4]), (UNROLLED PT_PROTO_GRE6, [ETHERNET, IPV6, GRE6])],
     [(UNROLLED PT_PROTO_MPLS, [IEEE8023, VLAN, VLAN, MPLS_nlabels 1]), (UNROLLED PT_PROTO_ISID, [ETHERNET, ISID]), (UNROLLED PT_PROTO_PPPOE, [IEEE8023, VLAN, VLAN, PPPOE]), (UNROLLED PT_PROTO_GRE4, [ETHERNET, IPV4_noptions 0, GRE4]), (UNROLLED PT_PROTO_GRE6, [ETHERNET, IPV6, GRE6])],
     [(UNROLLED PT_PROTO_MPLS, [IEEE8023, VLAN, VLAN, MPLS_nlabels 1]), (UNROLLED PT_PROTO_ISID, [ETHERNET, ISID]), (UNROLLED PT_PROTO_PPPOE, [IEEE8023, VLAN, VLAN, PPPOE]), (UNROLLED PT_PROTO_GRE4, [ETHERNET, IPV4_noptions 0, GRE4]), (UNROLLED PT_PROTO_GRE6, [ETHERNET, IPV6, GRE6])],
     [(UNROLLED PT_PROTO_MPLS, [IEEE8023, VLAN, VLAN, MPLS_nlabels 1]), (UNROLLED PT_PROTO_ISID, [ETHERNET, ISID]), (UNROLLED PT_PROTO_PPPOE, [IEEE8023, VLAN, VLAN, PPPOE]), (UNROLLED PT_PROTO_GRE4, [ETHERNET, IPV4_noptions 0, GRE4]), (UNROLLED PT_PROTO_GRE6, [ETHERNET, IPV6, GRE6])],
     [(UNROLLED PT_PROTO_MPLS, [IEEE8023, VLAN, VLAN, MPLS_nlabels 1]), (UNROLLED PT_PROTO_ISID, [ETHERNET, ISID]), (UNROLLED PT_PROTO_PPPOE, [IEEE8023, VLAN, VLAN, PPPOE]), (UNROLLED PT_PROTO_GRE4, [ETHERNET, IPV4_noptions 0, GRE4]), (UNROLLED PT_PROTO_GRE6, [ETHERNET, IPV6, GRE6])],
     [(UNROLLED PT_PROTO_MPLS, [IEEE8023, VLAN, VLAN, MPLS_nlabels 1]), (UNROLLED PT_PROTO_ISID, [ETHERNET, ISID]), (UNROLLED PT_PROTO_PPPOE, [IEEE8023, VLAN, VLAN, PPPOE]), (UNROLLED PT_PROTO_GRE4, [ETHERNET, IPV4_noptions 0, GRE4]), (UNROLLED PT_PROTO_GRE6, [ETHERNET, IPV6, GRE6])]]"

definition push_table_8 :: "(unrolled \<times> pkt_type) list list" where
  "push_table_8 =
    [[(UNROLLED PT_PROTO_MPLS, [IEEE8023, VLAN, VLAN, MPLS_nlabels 1]), (UNROLLED PT_PROTO_ISID, [ETHERNET, ISID]), (UNROLLED PT_PROTO_PPPOE, [IEEE8023, VLAN, VLAN, PPPOE]), (UNROLLED PT_PROTO_GRE4, [ETHERNET, IPV4_noptions 0, GRE4]), (UNROLLED PT_PROTO_GRE6, [ETHERNET, IPV6, GRE6])],
     [(UNROLLED PT_PROTO_MPLS, [IEEE8023, VLAN, VLAN, MPLS_nlabels 1]), (UNROLLED PT_PROTO_ISID, [ETHERNET, ISID]), (UNROLLED PT_PROTO_PPPOE, [IEEE8023, VLAN, VLAN, PPPOE]), (UNROLLED PT_PROTO_GRE4, [ETHERNET, IPV4_noptions 0, GRE4]), (UNROLLED PT_PROTO_GRE6, [ETHERNET, IPV6, GRE6])],
     [(UNROLLED PT_PROTO_MPLS, [IEEE8023, VLAN, VLAN, MPLS_nlabels 1]), (UNROLLED PT_PROTO_ISID, [ETHERNET, ISID]), (UNROLLED PT_PROTO_PPPOE, [IEEE8023, VLAN, VLAN, PPPOE]), (UNROLLED PT_PROTO_GRE4, [ETHERNET, IPV4_noptions 0, GRE4]), (UNROLLED PT_PROTO_GRE6, [ETHERNET, IPV6, GRE6])],
     [(UNROLLED PT_PROTO_MPLS, [IEEE8023, VLAN, VLAN, MPLS_nlabels 1]), (UNROLLED PT_PROTO_ISID, [ETHERNET, ISID]), (UNROLLED PT_PROTO_PPPOE, [IEEE8023, VLAN, VLAN, PPPOE]), (UNROLLED PT_PROTO_GRE4, [ETHERNET, IPV4_noptions 0, GRE4]), (UNROLLED PT_PROTO_GRE6, [ETHERNET, IPV6, GRE6])],
     [(UNROLLED PT_PROTO_MPLS, [IEEE8023, VLAN, VLAN, MPLS_nlabels 1]), (UNROLLED PT_PROTO_ISID, [ETHERNET, ISID]), (UNROLLED PT_PROTO_PPPOE, [IEEE8023, VLAN, VLAN, PPPOE]), (UNROLLED PT_PROTO_GRE4, [ETHERNET, IPV4_noptions 0, GRE4]), (UNROLLED PT_PROTO_GRE6, [ETHERNET, IPV6, GRE6])],
     [(UNROLLED PT_PROTO_MPLS, [IEEE8023, VLAN, VLAN, MPLS_nlabels 1]), (UNROLLED PT_PROTO_ISID, [ETHERNET, ISID]), (UNROLLED PT_PROTO_PPPOE, [IEEE8023, VLAN, VLAN, PPPOE]), (UNROLLED PT_PROTO_GRE4, [ETHERNET, IPV4_noptions 0, GRE4]), (UNROLLED PT_PROTO_GRE6, [ETHERNET, IPV6, GRE6])],
     [(UNROLLED PT_PROTO_MPLS, [ETHERNET, MPLS_nlabels 1]), (UNROLLED PT_PROTO_VLAN, [ETHERNET, VLAN, IPV4_noptions 0, GRE4]), (UNROLLED PT_PROTO_ISID, [ETHERNET, ISID]), (UNROLLED PT_PROTO_PPPOE, [ETHERNET, PPPOE]), (UNROLLED PT_PROTO_GTPU4, [ETHERNET, IPV4_noptions 0, UDP, GTPU4]), (UNROLLED PT_PROTO_GTPU6, [ETHERNET, IPV6, UDP, GTPU6])],
     [(UNROLLED PT_PROTO_MPLS, [ETHERNET, MPLS_nlabels 1]), (UNROLLED PT_PROTO_VLAN, [ETHERNET, VLAN, IPV4_noptions 1, GRE4]), (UNROLLED PT_PROTO_ISID, [ETHERNET, ISID]), (UNROLLED PT_PROTO_PPPOE, [ETHERNET, PPPOE])],
     [(UNROLLED PT_PROTO_MPLS, [ETHERNET, MPLS_nlabels 1]), (UNROLLED PT_PROTO_VLAN, [ETHERNET, VLAN, IPV4_noptions 2, GRE4]), (UNROLLED PT_PROTO_ISID, [ETHERNET, ISID]), (UNROLLED PT_PROTO_PPPOE, [ETHERNET, PPPOE])],
     [(UNROLLED PT_PROTO_MPLS, [ETHERNET, MPLS_nlabels 1]), (UNROLLED PT_PROTO_VLAN, [ETHERNET, VLAN, IPV4_noptions 3, GRE4]), (UNROLLED PT_PROTO_ISID, [ETHERNET, ISID]), (UNROLLED PT_PROTO_PPPOE, [ETHERNET, PPPOE])],
     [(UNROLLED PT_PROTO_MPLS, [ETHERNET, MPLS_nlabels 1]), (UNROLLED PT_PROTO_VLAN, [ETHERNET, VLAN, IPV4_noptions 4, GRE4]), (UNROLLED PT_PROTO_ISID, [ETHERNET, ISID]), (UNROLLED PT_PROTO_PPPOE, [ETHERNET, PPPOE])],
     [(UNROLLED PT_PROTO_MPLS, [ETHERNET, MPLS_nlabels 1]), (UNROLLED PT_PROTO_VLAN, [ETHERNET, VLAN, IPV4_noptions 5, GRE4]), (UNROLLED PT_PROTO_ISID, [ETHERNET, ISID]), (UNROLLED PT_PROTO_PPPOE, [ETHERNET, PPPOE])],
     [(UNROLLED PT_PROTO_MPLS, [ETHERNET, MPLS_nlabels 1]), (UNROLLED PT_PROTO_VLAN, [ETHERNET, VLAN, IPV4_noptions 6, GRE4]), (UNROLLED PT_PROTO_ISID, [ETHERNET, ISID]), (UNROLLED PT_PROTO_PPPOE, [ETHERNET, PPPOE])],
     [(UNROLLED PT_PROTO_MPLS, [ETHERNET, MPLS_nlabels 1]), (UNROLLED PT_PROTO_VLAN, [ETHERNET, VLAN, IPV4_noptions 7, GRE4]), (UNROLLED PT_PROTO_ISID, [ETHERNET, ISID]), (UNROLLED PT_PROTO_PPPOE, [ETHERNET, PPPOE])],
     [(UNROLLED PT_PROTO_MPLS, [ETHERNET, MPLS_nlabels 1]), (UNROLLED PT_PROTO_VLAN, [ETHERNET, VLAN, IPV4_noptions 8, GRE4]), (UNROLLED PT_PROTO_ISID, [ETHERNET, ISID]), (UNROLLED PT_PROTO_PPPOE, [ETHERNET, PPPOE])],
     [(UNROLLED PT_PROTO_MPLS, [ETHERNET, MPLS_nlabels 1]), (UNROLLED PT_PROTO_VLAN, [ETHERNET, VLAN, IPV4_noptions 9, GRE4]), (UNROLLED PT_PROTO_ISID, [ETHERNET, ISID]), (UNROLLED PT_PROTO_PPPOE, [ETHERNET, PPPOE])],
     [(UNROLLED PT_PROTO_MPLS, [ETHERNET, MPLS_nlabels 1]), (UNROLLED PT_PROTO_VLAN, [ETHERNET, VLAN, IPV4_noptions 10, GRE4]), (UNROLLED PT_PROTO_ISID, [ETHERNET, ISID]), (UNROLLED PT_PROTO_PPPOE, [ETHERNET, PPPOE])],
     [(UNROLLED PT_PROTO_MPLS, [ETHERNET, MPLS_nlabels 1]), (UNROLLED PT_PROTO_VLAN, [ETHERNET, VLAN, IPV4_noptions 11, GRE4]), (UNROLLED PT_PROTO_ISID, [ETHERNET, ISID]), (UNROLLED PT_PROTO_PPPOE, [ETHERNET, PPPOE])],
     [(UNROLLED PT_PROTO_MPLS, [ETHERNET, MPLS_nlabels 1]), (UNROLLED PT_PROTO_VLAN, [ETHERNET, VLAN, IPV4_noptions 12, GRE4]), (UNROLLED PT_PROTO_ISID, [ETHERNET, ISID]), (UNROLLED PT_PROTO_PPPOE, [ETHERNET, PPPOE])],
     [(UNROLLED PT_PROTO_MPLS, [ETHERNET, MPLS_nlabels 1]), (UNROLLED PT_PROTO_VLAN, [ETHERNET, VLAN, IPV4_noptions 13, GRE4]), (UNROLLED PT_PROTO_ISID, [ETHERNET, ISID]), (UNROLLED PT_PROTO_PPPOE, [ETHERNET, PPPOE])],
     [(UNROLLED PT_PROTO_MPLS, [ETHERNET, MPLS_nlabels 1]), (UNROLLED PT_PROTO_VLAN, [ETHERNET, VLAN, IPV4_noptions 14, GRE4]), (UNROLLED PT_PROTO_ISID, [ETHERNET, ISID]), (UNROLLED PT_PROTO_PPPOE, [ETHERNET, PPPOE])],
     [(UNROLLED PT_PROTO_MPLS, [ETHERNET, MPLS_nlabels 1]), (UNROLLED PT_PROTO_VLAN, [ETHERNET, VLAN, IPV4_noptions 15, GRE4]), (UNROLLED PT_PROTO_ISID, [ETHERNET, ISID]), (UNROLLED PT_PROTO_PPPOE, [ETHERNET, PPPOE])],
     [],
     [],
     [],
     [],
     [],
     [],
     [],
     [],
     [],
     [],
     [],
     [],
     [],
     [],
     [],
     [],
     [],
     [],
     [],
     [],
     [],
     [],
     [],
     [],
     [],
     [],
     [],
     [],
     [],
     [],
     [],
     [],
     [(UNROLLED PT_PROTO_MPLS, [IEEE8023, MPLS_nlabels 1]), (UNROLLED PT_PROTO_VLAN, [IEEE8023, VLAN, IPV4_noptions 0, GRE4]), (UNROLLED PT_PROTO_ISID, [ETHERNET, ISID]), (UNROLLED PT_PROTO_PPPOE, [IEEE8023, PPPOE]), (UNROLLED PT_PROTO_GTPU4, [IEEE8023, IPV4_noptions 0, UDP, GTPU4]), (UNROLLED PT_PROTO_GTPU6, [IEEE8023, IPV6, UDP, GTPU6])],
     [(UNROLLED PT_PROTO_MPLS, [IEEE8023, MPLS_nlabels 1]), (UNROLLED PT_PROTO_VLAN, [IEEE8023, VLAN, IPV4_noptions 1, GRE4]), (UNROLLED PT_PROTO_ISID, [ETHERNET, ISID]), (UNROLLED PT_PROTO_PPPOE, [IEEE8023, PPPOE])],
     [(UNROLLED PT_PROTO_MPLS, [IEEE8023, MPLS_nlabels 1]), (UNROLLED PT_PROTO_VLAN, [IEEE8023, VLAN, IPV4_noptions 2, GRE4]), (UNROLLED PT_PROTO_ISID, [ETHERNET, ISID]), (UNROLLED PT_PROTO_PPPOE, [IEEE8023, PPPOE])],
     [(UNROLLED PT_PROTO_MPLS, [IEEE8023, MPLS_nlabels 1]), (UNROLLED PT_PROTO_VLAN, [IEEE8023, VLAN, IPV4_noptions 3, GRE4]), (UNROLLED PT_PROTO_ISID, [ETHERNET, ISID]), (UNROLLED PT_PROTO_PPPOE, [IEEE8023, PPPOE])],
     [(UNROLLED PT_PROTO_MPLS, [IEEE8023, MPLS_nlabels 1]), (UNROLLED PT_PROTO_VLAN, [IEEE8023, VLAN, IPV4_noptions 4, GRE4]), (UNROLLED PT_PROTO_ISID, [ETHERNET, ISID]), (UNROLLED PT_PROTO_PPPOE, [IEEE8023, PPPOE])],
     [(UNROLLED PT_PROTO_MPLS, [IEEE8023, MPLS_nlabels 1]), (UNROLLED PT_PROTO_VLAN, [IEEE8023, VLAN, IPV4_noptions 5, GRE4]), (UNROLLED PT_PROTO_ISID, [ETHERNET, ISID]), (UNROLLED PT_PROTO_PPPOE, [IEEE8023, PPPOE])],
     [(UNROLLED PT_PROTO_MPLS, [IEEE8023, MPLS_nlabels 1]), (UNROLLED PT_PROTO_VLAN, [IEEE8023, VLAN, IPV4_noptions 6, GRE4]), (UNROLLED PT_PROTO_ISID, [ETHERNET, ISID]), (UNROLLED PT_PROTO_PPPOE, [IEEE8023, PPPOE])],
     [(UNROLLED PT_PROTO_MPLS, [IEEE8023, MPLS_nlabels 1]), (UNROLLED PT_PROTO_VLAN, [IEEE8023, VLAN, IPV4_noptions 7, GRE4]), (UNROLLED PT_PROTO_ISID, [ETHERNET, ISID]), (UNROLLED PT_PROTO_PPPOE, [IEEE8023, PPPOE])],
     [(UNROLLED PT_PROTO_MPLS, [IEEE8023, MPLS_nlabels 1]), (UNROLLED PT_PROTO_VLAN, [IEEE8023, VLAN, IPV4_noptions 8, GRE4]), (UNROLLED PT_PROTO_ISID, [ETHERNET, ISID]), (UNROLLED PT_PROTO_PPPOE, [IEEE8023, PPPOE])],
     [(UNROLLED PT_PROTO_MPLS, [IEEE8023, MPLS_nlabels 1]), (UNROLLED PT_PROTO_VLAN, [IEEE8023, VLAN, IPV4_noptions 9, GRE4]), (UNROLLED PT_PROTO_ISID, [ETHERNET, ISID]), (UNROLLED PT_PROTO_PPPOE, [IEEE8023, PPPOE])],
     [(UNROLLED PT_PROTO_MPLS, [IEEE8023, MPLS_nlabels 1]), (UNROLLED PT_PROTO_VLAN, [IEEE8023, VLAN, IPV4_noptions 10, GRE4]), (UNROLLED PT_PROTO_ISID, [ETHERNET, ISID]), (UNROLLED PT_PROTO_PPPOE, [IEEE8023, PPPOE])],
     [(UNROLLED PT_PROTO_MPLS, [IEEE8023, MPLS_nlabels 1]), (UNROLLED PT_PROTO_VLAN, [IEEE8023, VLAN, IPV4_noptions 11, GRE4]), (UNROLLED PT_PROTO_ISID, [ETHERNET, ISID]), (UNROLLED PT_PROTO_PPPOE, [IEEE8023, PPPOE])],
     [(UNROLLED PT_PROTO_MPLS, [IEEE8023, MPLS_nlabels 1]), (UNROLLED PT_PROTO_VLAN, [IEEE8023, VLAN, IPV4_noptions 12, GRE4]), (UNROLLED PT_PROTO_ISID, [ETHERNET, ISID]), (UNROLLED PT_PROTO_PPPOE, [IEEE8023, PPPOE])],
     [(UNROLLED PT_PROTO_MPLS, [IEEE8023, MPLS_nlabels 1]), (UNROLLED PT_PROTO_VLAN, [IEEE8023, VLAN, IPV4_noptions 13, GRE4]), (UNROLLED PT_PROTO_ISID, [ETHERNET, ISID]), (UNROLLED PT_PROTO_PPPOE, [IEEE8023, PPPOE])],
     [(UNROLLED PT_PROTO_MPLS, [IEEE8023, MPLS_nlabels 1]), (UNROLLED PT_PROTO_VLAN, [IEEE8023, VLAN, IPV4_noptions 14, GRE4]), (UNROLLED PT_PROTO_ISID, [ETHERNET, ISID]), (UNROLLED PT_PROTO_PPPOE, [IEEE8023, PPPOE])],
     [(UNROLLED PT_PROTO_MPLS, [IEEE8023, MPLS_nlabels 1]), (UNROLLED PT_PROTO_VLAN, [IEEE8023, VLAN, IPV4_noptions 15, GRE4]), (UNROLLED PT_PROTO_ISID, [ETHERNET, ISID]), (UNROLLED PT_PROTO_PPPOE, [IEEE8023, PPPOE])],
     [(UNROLLED PT_PROTO_MPLS, [ETHERNET, VLAN, MPLS_nlabels 1]), (UNROLLED PT_PROTO_VLAN, [ETHERNET, VLAN, VLAN, IPV4_noptions 0, GRE4]), (UNROLLED PT_PROTO_ISID, [ETHERNET, ISID]), (UNROLLED PT_PROTO_PPPOE, [ETHERNET, VLAN, PPPOE])],
     [(UNROLLED PT_PROTO_MPLS, [ETHERNET, VLAN, MPLS_nlabels 1]), (UNROLLED PT_PROTO_VLAN, [ETHERNET, VLAN, VLAN, IPV4_noptions 1, GRE4]), (UNROLLED PT_PROTO_ISID, [ETHERNET, ISID]), (UNROLLED PT_PROTO_PPPOE, [ETHERNET, VLAN, PPPOE])],
     [(UNROLLED PT_PROTO_MPLS, [ETHERNET, VLAN, MPLS_nlabels 1]), (UNROLLED PT_PROTO_VLAN, [ETHERNET, VLAN, VLAN, IPV4_noptions 2, GRE4]), (UNROLLED PT_PROTO_ISID, [ETHERNET, ISID]), (UNROLLED PT_PROTO_PPPOE, [ETHERNET, VLAN, PPPOE])],
     [(UNROLLED PT_PROTO_MPLS, [ETHERNET, VLAN, MPLS_nlabels 1]), (UNROLLED PT_PROTO_VLAN, [ETHERNET, VLAN, VLAN, IPV4_noptions 3, GRE4]), (UNROLLED PT_PROTO_ISID, [ETHERNET, ISID]), (UNROLLED PT_PROTO_PPPOE, [ETHERNET, VLAN, PPPOE])],
     [(UNROLLED PT_PROTO_MPLS, [ETHERNET, VLAN, MPLS_nlabels 1]), (UNROLLED PT_PROTO_VLAN, [ETHERNET, VLAN, VLAN, IPV4_noptions 4, GRE4]), (UNROLLED PT_PROTO_ISID, [ETHERNET, ISID]), (UNROLLED PT_PROTO_PPPOE, [ETHERNET, VLAN, PPPOE])],
     [(UNROLLED PT_PROTO_MPLS, [ETHERNET, VLAN, MPLS_nlabels 1]), (UNROLLED PT_PROTO_VLAN, [ETHERNET, VLAN, VLAN, IPV4_noptions 5, GRE4]), (UNROLLED PT_PROTO_ISID, [ETHERNET, ISID]), (UNROLLED PT_PROTO_PPPOE, [ETHERNET, VLAN, PPPOE])],
     [(UNROLLED PT_PROTO_MPLS, [ETHERNET, VLAN, MPLS_nlabels 1]), (UNROLLED PT_PROTO_VLAN, [ETHERNET, VLAN, VLAN, IPV4_noptions 6, GRE4]), (UNROLLED PT_PROTO_ISID, [ETHERNET, ISID]), (UNROLLED PT_PROTO_PPPOE, [ETHERNET, VLAN, PPPOE])],
     [(UNROLLED PT_PROTO_MPLS, [ETHERNET, VLAN, MPLS_nlabels 1]), (UNROLLED PT_PROTO_VLAN, [ETHERNET, VLAN, VLAN, IPV4_noptions 7, GRE4]), (UNROLLED PT_PROTO_ISID, [ETHERNET, ISID]), (UNROLLED PT_PROTO_PPPOE, [ETHERNET, VLAN, PPPOE])],
     [(UNROLLED PT_PROTO_MPLS, [ETHERNET, VLAN, MPLS_nlabels 1]), (UNROLLED PT_PROTO_VLAN, [ETHERNET, VLAN, VLAN, IPV4_noptions 8, GRE4]), (UNROLLED PT_PROTO_ISID, [ETHERNET, ISID]), (UNROLLED PT_PROTO_PPPOE, [ETHERNET, VLAN, PPPOE])],
     [(UNROLLED PT_PROTO_MPLS, [ETHERNET, VLAN, MPLS_nlabels 1]), (UNROLLED PT_PROTO_VLAN, [ETHERNET, VLAN, VLAN, IPV4_noptions 9, GRE4]), (UNROLLED PT_PROTO_ISID, [ETHERNET, ISID]), (UNROLLED PT_PROTO_PPPOE, [ETHERNET, VLAN, PPPOE])],
     [(UNROLLED PT_PROTO_MPLS, [ETHERNET, VLAN, MPLS_nlabels 1]), (UNROLLED PT_PROTO_VLAN, [ETHERNET, VLAN, VLAN, IPV4_noptions 10, GRE4]), (UNROLLED PT_PROTO_ISID, [ETHERNET, ISID]), (UNROLLED PT_PROTO_PPPOE, [ETHERNET, VLAN, PPPOE])],
     [(UNROLLED PT_PROTO_MPLS, [ETHERNET, VLAN, MPLS_nlabels 1]), (UNROLLED PT_PROTO_VLAN, [ETHERNET, VLAN, VLAN, IPV4_noptions 11, GRE4]), (UNROLLED PT_PROTO_ISID, [ETHERNET, ISID]), (UNROLLED PT_PROTO_PPPOE, [ETHERNET, VLAN, PPPOE])],
     [(UNROLLED PT_PROTO_MPLS, [ETHERNET, VLAN, MPLS_nlabels 1]), (UNROLLED PT_PROTO_VLAN, [ETHERNET, VLAN, VLAN, IPV4_noptions 12, GRE4]), (UNROLLED PT_PROTO_ISID, [ETHERNET, ISID]), (UNROLLED PT_PROTO_PPPOE, [ETHERNET, VLAN, PPPOE])],
     [(UNROLLED PT_PROTO_MPLS, [ETHERNET, VLAN, MPLS_nlabels 1]), (UNROLLED PT_PROTO_VLAN, [ETHERNET, VLAN, VLAN, IPV4_noptions 13, GRE4]), (UNROLLED PT_PROTO_ISID, [ETHERNET, ISID]), (UNROLLED PT_PROTO_PPPOE, [ETHERNET, VLAN, PPPOE])],
     [(UNROLLED PT_PROTO_MPLS, [ETHERNET, VLAN, MPLS_nlabels 1]), (UNROLLED PT_PROTO_VLAN, [ETHERNET, VLAN, VLAN, IPV4_noptions 14, GRE4]), (UNROLLED PT_PROTO_ISID, [ETHERNET, ISID]), (UNROLLED PT_PROTO_PPPOE, [ETHERNET, VLAN, PPPOE])],
     [(UNROLLED PT_PROTO_MPLS, [ETHERNET, VLAN, MPLS_nlabels 1]), (UNROLLED PT_PROTO_VLAN, [ETHERNET, VLAN, VLAN, IPV4_noptions 15, GRE4]), (UNROLLED PT_PROTO_ISID, [ETHERNET, ISID]), (UNROLLED PT_PROTO_PPPOE, [ETHERNET, VLAN, PPPOE])],
     [(UNROLLED PT_PROTO_MPLS, [IEEE8023, VLAN, MPLS_nlabels 1]), (UNROLLED PT_PROTO_VLAN, [IEEE8023, VLAN, VLAN, IPV4_noptions 0, GRE4]), (UNROLLED PT_PROTO_ISID, [ETHERNET, ISID]), (UNROLLED PT_PROTO_PPPOE, [IEEE8023, VLAN, PPPOE])],
     [(UNROLLED PT_PROTO_MPLS, [IEEE8023, VLAN, MPLS_nlabels 1]), (UNROLLED PT_PROTO_VLAN, [IEEE8023, VLAN, VLAN, IPV4_noptions 1, GRE4]), (UNROLLED PT_PROTO_ISID, [ETHERNET, ISID]), (UNROLLED PT_PROTO_PPPOE, [IEEE8023, VLAN, PPPOE])],
     [(UNROLLED PT_PROTO_MPLS, [IEEE8023, VLAN, MPLS_nlabels 1]), (UNROLLED PT_PROTO_VLAN, [IEEE8023, VLAN, VLAN, IPV4_noptions 2, GRE4]), (UNROLLED PT_PROTO_ISID, [ETHERNET, ISID]), (UNROLLED PT_PROTO_PPPOE, [IEEE8023, VLAN, PPPOE])],
     [(UNROLLED PT_PROTO_MPLS, [IEEE8023, VLAN, MPLS_nlabels 1]), (UNROLLED PT_PROTO_VLAN, [IEEE8023, VLAN, VLAN, IPV4_noptions 3, GRE4]), (UNROLLED PT_PROTO_ISID, [ETHERNET, ISID]), (UNROLLED PT_PROTO_PPPOE, [IEEE8023, VLAN, PPPOE])],
     [(UNROLLED PT_PROTO_MPLS, [IEEE8023, VLAN, MPLS_nlabels 1]), (UNROLLED PT_PROTO_VLAN, [IEEE8023, VLAN, VLAN, IPV4_noptions 4, GRE4]), (UNROLLED PT_PROTO_ISID, [ETHERNET, ISID]), (UNROLLED PT_PROTO_PPPOE, [IEEE8023, VLAN, PPPOE])],
     [(UNROLLED PT_PROTO_MPLS, [IEEE8023, VLAN, MPLS_nlabels 1]), (UNROLLED PT_PROTO_VLAN, [IEEE8023, VLAN, VLAN, IPV4_noptions 5, GRE4]), (UNROLLED PT_PROTO_ISID, [ETHERNET, ISID]), (UNROLLED PT_PROTO_PPPOE, [IEEE8023, VLAN, PPPOE])],
     [(UNROLLED PT_PROTO_MPLS, [IEEE8023, VLAN, MPLS_nlabels 1]), (UNROLLED PT_PROTO_VLAN, [IEEE8023, VLAN, VLAN, IPV4_noptions 6, GRE4]), (UNROLLED PT_PROTO_ISID, [ETHERNET, ISID]), (UNROLLED PT_PROTO_PPPOE, [IEEE8023, VLAN, PPPOE])],
     [(UNROLLED PT_PROTO_MPLS, [IEEE8023, VLAN, MPLS_nlabels 1]), (UNROLLED PT_PROTO_VLAN, [IEEE8023, VLAN, VLAN, IPV4_noptions 7, GRE4]), (UNROLLED PT_PROTO_ISID, [ETHERNET, ISID]), (UNROLLED PT_PROTO_PPPOE, [IEEE8023, VLAN, PPPOE])],
     [(UNROLLED PT_PROTO_MPLS, [IEEE8023, VLAN, MPLS_nlabels 1]), (UNROLLED PT_PROTO_VLAN, [IEEE8023, VLAN, VLAN, IPV4_noptions 8, GRE4]), (UNROLLED PT_PROTO_ISID, [ETHERNET, ISID]), (UNROLLED PT_PROTO_PPPOE, [IEEE8023, VLAN, PPPOE])],
     [(UNROLLED PT_PROTO_MPLS, [IEEE8023, VLAN, MPLS_nlabels 1]), (UNROLLED PT_PROTO_VLAN, [IEEE8023, VLAN, VLAN, IPV4_noptions 9, GRE4]), (UNROLLED PT_PROTO_ISID, [ETHERNET, ISID]), (UNROLLED PT_PROTO_PPPOE, [IEEE8023, VLAN, PPPOE])],
     [(UNROLLED PT_PROTO_MPLS, [IEEE8023, VLAN, MPLS_nlabels 1]), (UNROLLED PT_PROTO_VLAN, [IEEE8023, VLAN, VLAN, IPV4_noptions 10, GRE4]), (UNROLLED PT_PROTO_ISID, [ETHERNET, ISID]), (UNROLLED PT_PROTO_PPPOE, [IEEE8023, VLAN, PPPOE])],
     [(UNROLLED PT_PROTO_MPLS, [IEEE8023, VLAN, MPLS_nlabels 1]), (UNROLLED PT_PROTO_VLAN, [IEEE8023, VLAN, VLAN, IPV4_noptions 11, GRE4]), (UNROLLED PT_PROTO_ISID, [ETHERNET, ISID]), (UNROLLED PT_PROTO_PPPOE, [IEEE8023, VLAN, PPPOE])],
     [(UNROLLED PT_PROTO_MPLS, [IEEE8023, VLAN, MPLS_nlabels 1]), (UNROLLED PT_PROTO_VLAN, [IEEE8023, VLAN, VLAN, IPV4_noptions 12, GRE4]), (UNROLLED PT_PROTO_ISID, [ETHERNET, ISID]), (UNROLLED PT_PROTO_PPPOE, [IEEE8023, VLAN, PPPOE])],
     [(UNROLLED PT_PROTO_MPLS, [IEEE8023, VLAN, MPLS_nlabels 1]), (UNROLLED PT_PROTO_VLAN, [IEEE8023, VLAN, VLAN, IPV4_noptions 13, GRE4]), (UNROLLED PT_PROTO_ISID, [ETHERNET, ISID]), (UNROLLED PT_PROTO_PPPOE, [IEEE8023, VLAN, PPPOE])],
     [(UNROLLED PT_PROTO_MPLS, [IEEE8023, VLAN, MPLS_nlabels 1]), (UNROLLED PT_PROTO_VLAN, [IEEE8023, VLAN, VLAN, IPV4_noptions 14, GRE4]), (UNROLLED PT_PROTO_ISID, [ETHERNET, ISID]), (UNROLLED PT_PROTO_PPPOE, [IEEE8023, VLAN, PPPOE])],
     [(UNROLLED PT_PROTO_MPLS, [IEEE8023, VLAN, MPLS_nlabels 1]), (UNROLLED PT_PROTO_VLAN, [IEEE8023, VLAN, VLAN, IPV4_noptions 15, GRE4]), (UNROLLED PT_PROTO_ISID, [ETHERNET, ISID]), (UNROLLED PT_PROTO_PPPOE, [IEEE8023, VLAN, PPPOE])],
     [(UNROLLED PT_PROTO_MPLS, [ETHERNET, VLAN, VLAN, MPLS_nlabels 1]), (UNROLLED PT_PROTO_ISID, [ETHERNET, ISID]), (UNROLLED PT_PROTO_PPPOE, [ETHERNET, VLAN, VLAN, PPPOE])],
     [(UNROLLED PT_PROTO_MPLS, [ETHERNET, VLAN, VLAN, MPLS_nlabels 1]), (UNROLLED PT_PROTO_ISID, [ETHERNET, ISID]), (UNROLLED PT_PROTO_PPPOE, [ETHERNET, VLAN, VLAN, PPPOE])],
     [(UNROLLED PT_PROTO_MPLS, [ETHERNET, VLAN, VLAN, MPLS_nlabels 1]), (UNROLLED PT_PROTO_ISID, [ETHERNET, ISID]), (UNROLLED PT_PROTO_PPPOE, [ETHERNET, VLAN, VLAN, PPPOE])],
     [(UNROLLED PT_PROTO_MPLS, [ETHERNET, VLAN, VLAN, MPLS_nlabels 1]), (UNROLLED PT_PROTO_ISID, [ETHERNET, ISID]), (UNROLLED PT_PROTO_PPPOE, [ETHERNET, VLAN, VLAN, PPPOE])],
     [(UNROLLED PT_PROTO_MPLS, [ETHERNET, VLAN, VLAN, MPLS_nlabels 1]), (UNROLLED PT_PROTO_ISID, [ETHERNET, ISID]), (UNROLLED PT_PROTO_PPPOE, [ETHERNET, VLAN, VLAN, PPPOE])],
     [(UNROLLED PT_PROTO_MPLS, [ETHERNET, VLAN, VLAN, MPLS_nlabels 1]), (UNROLLED PT_PROTO_ISID, [ETHERNET, ISID]), (UNROLLED PT_PROTO_PPPOE, [ETHERNET, VLAN, VLAN, PPPOE])],
     [(UNROLLED PT_PROTO_MPLS, [ETHERNET, VLAN, VLAN, MPLS_nlabels 1]), (UNROLLED PT_PROTO_ISID, [ETHERNET, ISID]), (UNROLLED PT_PROTO_PPPOE, [ETHERNET, VLAN, VLAN, PPPOE])],
     [(UNROLLED PT_PROTO_MPLS, [ETHERNET, VLAN, VLAN, MPLS_nlabels 1]), (UNROLLED PT_PROTO_ISID, [ETHERNET, ISID]), (UNROLLED PT_PROTO_PPPOE, [ETHERNET, VLAN, VLAN, PPPOE])],
     [(UNROLLED PT_PROTO_MPLS, [ETHERNET, VLAN, VLAN, MPLS_nlabels 1]), (UNROLLED PT_PROTO_ISID, [ETHERNET, ISID]), (UNROLLED PT_PROTO_PPPOE, [ETHERNET, VLAN, VLAN, PPPOE])],
     [(UNROLLED PT_PROTO_MPLS, [ETHERNET, VLAN, VLAN, MPLS_nlabels 1]), (UNROLLED PT_PROTO_ISID, [ETHERNET, ISID]), (UNROLLED PT_PROTO_PPPOE, [ETHERNET, VLAN, VLAN, PPPOE])],
     [(UNROLLED PT_PROTO_MPLS, [ETHERNET, VLAN, VLAN, MPLS_nlabels 1]), (UNROLLED PT_PROTO_ISID, [ETHERNET, ISID]), (UNROLLED PT_PROTO_PPPOE, [ETHERNET, VLAN, VLAN, PPPOE])],
     [(UNROLLED PT_PROTO_MPLS, [ETHERNET, VLAN, VLAN, MPLS_nlabels 1]), (UNROLLED PT_PROTO_ISID, [ETHERNET, ISID]), (UNROLLED PT_PROTO_PPPOE, [ETHERNET, VLAN, VLAN, PPPOE])],
     [(UNROLLED PT_PROTO_MPLS, [ETHERNET, VLAN, VLAN, MPLS_nlabels 1]), (UNROLLED PT_PROTO_ISID, [ETHERNET, ISID]), (UNROLLED PT_PROTO_PPPOE, [ETHERNET, VLAN, VLAN, PPPOE])],
     [(UNROLLED PT_PROTO_MPLS, [ETHERNET, VLAN, VLAN, MPLS_nlabels 1]), (UNROLLED PT_PROTO_ISID, [ETHERNET, ISID]), (UNROLLED PT_PROTO_PPPOE, [ETHERNET, VLAN, VLAN, PPPOE])],
     [(UNROLLED PT_PROTO_MPLS, [ETHERNET, VLAN, VLAN, MPLS_nlabels 1]), (UNROLLED PT_PROTO_ISID, [ETHERNET, ISID]), (UNROLLED PT_PROTO_PPPOE, [ETHERNET, VLAN, VLAN, PPPOE])],
     [(UNROLLED PT_PROTO_MPLS, [ETHERNET, VLAN, VLAN, MPLS_nlabels 1]), (UNROLLED PT_PROTO_ISID, [ETHERNET, ISID]), (UNROLLED PT_PROTO_PPPOE, [ETHERNET, VLAN, VLAN, PPPOE])],
     [(UNROLLED PT_PROTO_MPLS, [IEEE8023, VLAN, VLAN, MPLS_nlabels 1]), (UNROLLED PT_PROTO_ISID, [ETHERNET, ISID]), (UNROLLED PT_PROTO_PPPOE, [IEEE8023, VLAN, VLAN, PPPOE])],
     [(UNROLLED PT_PROTO_MPLS, [IEEE8023, VLAN, VLAN, MPLS_nlabels 1]), (UNROLLED PT_PROTO_ISID, [ETHERNET, ISID]), (UNROLLED PT_PROTO_PPPOE, [IEEE8023, VLAN, VLAN, PPPOE])],
     [(UNROLLED PT_PROTO_MPLS, [IEEE8023, VLAN, VLAN, MPLS_nlabels 1]), (UNROLLED PT_PROTO_ISID, [ETHERNET, ISID]), (UNROLLED PT_PROTO_PPPOE, [IEEE8023, VLAN, VLAN, PPPOE])],
     [(UNROLLED PT_PROTO_MPLS, [IEEE8023, VLAN, VLAN, MPLS_nlabels 1]), (UNROLLED PT_PROTO_ISID, [ETHERNET, ISID]), (UNROLLED PT_PROTO_PPPOE, [IEEE8023, VLAN, VLAN, PPPOE])],
     [(UNROLLED PT_PROTO_MPLS, [IEEE8023, VLAN, VLAN, MPLS_nlabels 1]), (UNROLLED PT_PROTO_ISID, [ETHERNET, ISID]), (UNROLLED PT_PROTO_PPPOE, [IEEE8023, VLAN, VLAN, PPPOE])],
     [(UNROLLED PT_PROTO_MPLS, [IEEE8023, VLAN, VLAN, MPLS_nlabels 1]), (UNROLLED PT_PROTO_ISID, [ETHERNET, ISID]), (UNROLLED PT_PROTO_PPPOE, [IEEE8023, VLAN, VLAN, PPPOE])],
     [(UNROLLED PT_PROTO_MPLS, [IEEE8023, VLAN, VLAN, MPLS_nlabels 1]), (UNROLLED PT_PROTO_ISID, [ETHERNET, ISID]), (UNROLLED PT_PROTO_PPPOE, [IEEE8023, VLAN, VLAN, PPPOE])],
     [(UNROLLED PT_PROTO_MPLS, [IEEE8023, VLAN, VLAN, MPLS_nlabels 1]), (UNROLLED PT_PROTO_ISID, [ETHERNET, ISID]), (UNROLLED PT_PROTO_PPPOE, [IEEE8023, VLAN, VLAN, PPPOE])],
     [(UNROLLED PT_PROTO_MPLS, [IEEE8023, VLAN, VLAN, MPLS_nlabels 1]), (UNROLLED PT_PROTO_ISID, [ETHERNET, ISID]), (UNROLLED PT_PROTO_PPPOE, [IEEE8023, VLAN, VLAN, PPPOE])],
     [(UNROLLED PT_PROTO_MPLS, [IEEE8023, VLAN, VLAN, MPLS_nlabels 1]), (UNROLLED PT_PROTO_ISID, [ETHERNET, ISID]), (UNROLLED PT_PROTO_PPPOE, [IEEE8023, VLAN, VLAN, PPPOE])],
     [(UNROLLED PT_PROTO_MPLS, [IEEE8023, VLAN, VLAN, MPLS_nlabels 1]), (UNROLLED PT_PROTO_ISID, [ETHERNET, ISID]), (UNROLLED PT_PROTO_PPPOE, [IEEE8023, VLAN, VLAN, PPPOE])],
     [(UNROLLED PT_PROTO_MPLS, [IEEE8023, VLAN, VLAN, MPLS_nlabels 1]), (UNROLLED PT_PROTO_ISID, [ETHERNET, ISID]), (UNROLLED PT_PROTO_PPPOE, [IEEE8023, VLAN, VLAN, PPPOE])],
     [(UNROLLED PT_PROTO_MPLS, [IEEE8023, VLAN, VLAN, MPLS_nlabels 1]), (UNROLLED PT_PROTO_ISID, [ETHERNET, ISID]), (UNROLLED PT_PROTO_PPPOE, [IEEE8023, VLAN, VLAN, PPPOE])],
     [(UNROLLED PT_PROTO_MPLS, [IEEE8023, VLAN, VLAN, MPLS_nlabels 1]), (UNROLLED PT_PROTO_ISID, [ETHERNET, ISID]), (UNROLLED PT_PROTO_PPPOE, [IEEE8023, VLAN, VLAN, PPPOE])],
     [(UNROLLED PT_PROTO_MPLS, [IEEE8023, VLAN, VLAN, MPLS_nlabels 1]), (UNROLLED PT_PROTO_ISID, [ETHERNET, ISID]), (UNROLLED PT_PROTO_PPPOE, [IEEE8023, VLAN, VLAN, PPPOE])],
     [(UNROLLED PT_PROTO_MPLS, [IEEE8023, VLAN, VLAN, MPLS_nlabels 1]), (UNROLLED PT_PROTO_ISID, [ETHERNET, ISID]), (UNROLLED PT_PROTO_PPPOE, [IEEE8023, VLAN, VLAN, PPPOE])],
     [(UNROLLED PT_PROTO_MPLS, [ETHERNET, MPLS_nlabels 1]), (UNROLLED PT_PROTO_VLAN, [ETHERNET, VLAN, IPV6]), (UNROLLED PT_PROTO_ISID, [ETHERNET, ISID]), (UNROLLED PT_PROTO_PPPOE, [ETHERNET, PPPOE]), (UNROLLED PT_PROTO_GTPU4, [ETHERNET, IPV4_noptions 0, UDP, GTPU4]), (UNROLLED PT_PROTO_GTPU6, [ETHERNET, IPV6, UDP, GTPU6]), (UNROLLED PT_PROTO_GRE4, [ETHERNET, IPV4_noptions 0, GRE4]), (UNROLLED PT_PROTO_GRE6, [ETHERNET, IPV6, GRE6])],
     [],
     [],
     [(UNROLLED PT_PROTO_MPLS, [IEEE8023, MPLS_nlabels 1]), (UNROLLED PT_PROTO_VLAN, [IEEE8023, VLAN, IPV6]), (UNROLLED PT_PROTO_ISID, [ETHERNET, ISID]), (UNROLLED PT_PROTO_PPPOE, [IEEE8023, PPPOE]), (UNROLLED PT_PROTO_GTPU4, [IEEE8023, IPV4_noptions 0, UDP, GTPU4]), (UNROLLED PT_PROTO_GTPU6, [IEEE8023, IPV6, UDP, GTPU6]), (UNROLLED PT_PROTO_GRE4, [ETHERNET, IPV4_noptions 0, GRE4]), (UNROLLED PT_PROTO_GRE6, [ETHERNET, IPV6, GRE6])],
     [(UNROLLED PT_PROTO_MPLS, [ETHERNET, VLAN, MPLS_nlabels 1]), (UNROLLED PT_PROTO_VLAN, [ETHERNET, VLAN, VLAN, IPV6]), (UNROLLED PT_PROTO_ISID, [ETHERNET, ISID]), (UNROLLED PT_PROTO_PPPOE, [ETHERNET, VLAN, PPPOE]), (UNROLLED PT_PROTO_GRE4, [ETHERNET, IPV4_noptions 0, GRE4]), (UNROLLED PT_PROTO_GRE6, [ETHERNET, IPV6, GRE6])],
     [(UNROLLED PT_PROTO_MPLS, [IEEE8023, VLAN, MPLS_nlabels 1]), (UNROLLED PT_PROTO_VLAN, [IEEE8023, VLAN, VLAN, IPV6]), (UNROLLED PT_PROTO_ISID, [ETHERNET, ISID]), (UNROLLED PT_PROTO_PPPOE, [IEEE8023, VLAN, PPPOE]), (UNROLLED PT_PROTO_GRE4, [ETHERNET, IPV4_noptions 0, GRE4]), (UNROLLED PT_PROTO_GRE6, [ETHERNET, IPV6, GRE6])],
     [(UNROLLED PT_PROTO_MPLS, [ETHERNET, VLAN, VLAN, MPLS_nlabels 1]), (UNROLLED PT_PROTO_ISID, [ETHERNET, ISID]), (UNROLLED PT_PROTO_PPPOE, [ETHERNET, VLAN, VLAN, PPPOE]), (UNROLLED PT_PROTO_GRE4, [ETHERNET, IPV4_noptions 0, GRE4]), (UNROLLED PT_PROTO_GRE6, [ETHERNET, IPV6, GRE6])],
     [(UNROLLED PT_PROTO_MPLS, [IEEE8023, VLAN, VLAN, MPLS_nlabels 1]), (UNROLLED PT_PROTO_ISID, [ETHERNET, ISID]), (UNROLLED PT_PROTO_PPPOE, [IEEE8023, VLAN, VLAN, PPPOE]), (UNROLLED PT_PROTO_GRE4, [ETHERNET, IPV4_noptions 0, GRE4]), (UNROLLED PT_PROTO_GRE6, [ETHERNET, IPV6, GRE6])],
     [(UNROLLED PT_PROTO_MPLS, [ETHERNET, MPLS_nlabels 1]), (UNROLLED PT_PROTO_VLAN, [ETHERNET, VLAN, IPV6, ICMPV6]), (UNROLLED PT_PROTO_ISID, [ETHERNET, ISID]), (UNROLLED PT_PROTO_PPPOE, [ETHERNET, PPPOE]), (UNROLLED PT_PROTO_GTPU4, [ETHERNET, IPV4_noptions 0, UDP, GTPU4]), (UNROLLED PT_PROTO_GTPU6, [ETHERNET, IPV6, UDP, GTPU6]), (UNROLLED PT_PROTO_GRE4, [ETHERNET, IPV4_noptions 0, GRE4]), (UNROLLED PT_PROTO_GRE6, [ETHERNET, IPV6, GRE6])],
     [],
     [],
     [(UNROLLED PT_PROTO_MPLS, [IEEE8023, MPLS_nlabels 1]), (UNROLLED PT_PROTO_VLAN, [IEEE8023, VLAN, IPV6, ICMPV6]), (UNROLLED PT_PROTO_ISID, [ETHERNET, ISID]), (UNROLLED PT_PROTO_PPPOE, [IEEE8023, PPPOE]), (UNROLLED PT_PROTO_GTPU4, [IEEE8023, IPV4_noptions 0, UDP, GTPU4]), (UNROLLED PT_PROTO_GTPU6, [IEEE8023, IPV6, UDP, GTPU6]), (UNROLLED PT_PROTO_GRE4, [ETHERNET, IPV4_noptions 0, GRE4]), (UNROLLED PT_PROTO_GRE6, [ETHERNET, IPV6, GRE6])],
     [(UNROLLED PT_PROTO_MPLS, [ETHERNET, VLAN, MPLS_nlabels 1]), (UNROLLED PT_PROTO_VLAN, [ETHERNET, VLAN, VLAN, IPV6, ICMPV6]), (UNROLLED PT_PROTO_ISID, [ETHERNET, ISID]), (UNROLLED PT_PROTO_PPPOE, [ETHERNET, VLAN, PPPOE]), (UNROLLED PT_PROTO_GRE4, [ETHERNET, IPV4_noptions 0, GRE4]), (UNROLLED PT_PROTO_GRE6, [ETHERNET, IPV6, GRE6])],
     [(UNROLLED PT_PROTO_MPLS, [IEEE8023, VLAN, MPLS_nlabels 1]), (UNROLLED PT_PROTO_VLAN, [IEEE8023, VLAN, VLAN, IPV6, ICMPV6]), (UNROLLED PT_PROTO_ISID, [ETHERNET, ISID]), (UNROLLED PT_PROTO_PPPOE, [IEEE8023, VLAN, PPPOE]), (UNROLLED PT_PROTO_GRE4, [ETHERNET, IPV4_noptions 0, GRE4]), (UNROLLED PT_PROTO_GRE6, [ETHERNET, IPV6, GRE6])],
     [(UNROLLED PT_PROTO_MPLS, [ETHERNET, VLAN, VLAN, MPLS_nlabels 1]), (UNROLLED PT_PROTO_ISID, [ETHERNET, ISID]), (UNROLLED PT_PROTO_PPPOE, [ETHERNET, VLAN, VLAN, PPPOE]), (UNROLLED PT_PROTO_GRE4, [ETHERNET, IPV4_noptions 0, GRE4]), (UNROLLED PT_PROTO_GRE6, [ETHERNET, IPV6, GRE6])],
     [(UNROLLED PT_PROTO_MPLS, [IEEE8023, VLAN, VLAN, MPLS_nlabels 1]), (UNROLLED PT_PROTO_ISID, [ETHERNET, ISID]), (UNROLLED PT_PROTO_PPPOE, [IEEE8023, VLAN, VLAN, PPPOE]), (UNROLLED PT_PROTO_GRE4, [ETHERNET, IPV4_noptions 0, GRE4]), (UNROLLED PT_PROTO_GRE6, [ETHERNET, IPV6, GRE6])]]"

definition push_table_9 :: "(unrolled \<times> pkt_type) list list" where
  "push_table_9 =
    [[(UNROLLED PT_PROTO_MPLS, [ETHERNET, MPLS_nlabels 1]), (UNROLLED PT_PROTO_VLAN, [ETHERNET, VLAN, IPV6, ICMPV6, Hdr PT_PROTO_ICMPV6_OPTS_LLADR_SRC]), (UNROLLED PT_PROTO_ISID, [ETHERNET, ISID]), (UNROLLED PT_PROTO_PPPOE, [ETHERNET, PPPOE]), (UNROLLED PT_PROTO_GTPU4, [ETHERNET, IPV4_noptions 0, UDP, GTPU4]), (UNROLLED PT_PROTO_GTPU6, [ETHERNET, IPV6, UDP, GTPU6]), (UNROLLED PT_PROTO_GRE4, [ETHERNET, IPV4_noptions 0, GRE4]), (UNROLLED PT_PROTO_GRE6, [ETHERNET, IPV6, GRE6])],
     [],
     [],
     [(UNROLLED PT_PROTO_MPLS, [IEEE8023, MPLS_nlabels 1]), (UNROLLED PT_PROTO_VLAN, [IEEE8023, VLAN, IPV6, ICMPV6, Hdr PT_PROTO_ICMPV6_OPTS_LLADR_SRC]), (UNROLLED PT_PROTO_ISID, [ETHERNET, ISID]), (UNROLLED PT_PROTO_PPPOE, [IEEE8023, PPPOE]), (UNROLLED PT_PROTO_GTPU4, [IEEE8023, IPV4_noptions 0, UDP, GTPU4]), (UNROLLED PT_PROTO_GTPU6, [IEEE8023, IPV6, UDP, GTPU6]), (UNROLLED PT_PROTO_GRE4, [ETHERNET, IPV4_noptions 0, GRE4]), (UNROLLED PT_PROTO_GRE6, [ETHERNET, IPV6, GRE6])],
     [(UNROLLED PT_PROTO_MPLS, [ETHERNET, VLAN, MPLS_nlabels 1]), (UNROLLED PT_PROTO_VLAN, [ETHERNET, VLAN, VLAN, IPV6, ICMPV6, Hdr PT_PROTO_ICMPV6_OPTS_LLADR_SRC]), (UNROLLED PT_PROTO_ISID, [ETHERNET, ISID]), (UNROLLED PT_PROTO_PPPOE, [ETHERNET, VLAN, PPPOE]), (UNROLLED PT_PROTO_GRE4, [ETHERNET, IPV4_noptions 0, GRE4]), (UNROLLED PT_PROTO_GRE6, [ETHERNET, IPV6, GRE6])],
     [(UNROLLED PT_PROTO_MPLS, [IEEE8023, VLAN, MPLS_nlabels 1]), (UNROLLED PT_PROTO_VLAN, [IEEE8023, VLAN, VLAN, IPV6, ICMPV6, Hdr PT_PROTO_ICMPV6_OPTS_LLADR_SRC]), (UNROLLED PT_PROTO_ISID, [ETHERNET, ISID]), (UNROLLED PT_PROTO_PPPOE, [IEEE8023, VLAN, PPPOE]), (UNROLLED PT_PROTO_GRE4, [ETHERNET, IPV4_noptions 0, GRE4]), (UNROLLED PT_PROTO_GRE6, [ETHERNET, IPV6, GRE6])],
     [(UNROLLED PT_PROTO_MPLS, [ETHERNET, VLAN, VLAN, MPLS_nlabels 1]), (UNROLLED PT_PROTO_ISID, [ETHERNET, ISID]), (UNROLLED PT_PROTO_PPPOE, [ETHERNET, VLAN, VLAN, PPPOE]), (UNROLLED PT_PROTO_GRE4, [ETHERNET, IPV4_noptions 0, GRE4]), (UNROLLED PT_PROTO_GRE6, [ETHERNET, IPV6, GRE6])],
     [(UNROLLED PT_PROTO_MPLS, [IEEE8023, VLAN, VLAN, MPLS_nlabels 1]), (UNROLLED PT_PROTO_ISID, [ETHERNET, ISID]), (UNROLLED PT_PROTO_PPPOE, [IEEE8023, VLAN, VLAN, PPPOE]), (UNROLLED PT_PROTO_GRE4, [ETHERNET, IPV4_noptions 0, GRE4]), (UNROLLED PT_PROTO_GRE6, [ETHERNET, IPV6, GRE6])],
     [(UNROLLED PT_PROTO_MPLS, [ETHERNET, MPLS_nlabels 1]), (UNROLLED PT_PROTO_VLAN, [ETHERNET, VLAN, IPV6, ICMPV6, Hdr PT_PROTO_ICMPV6_OPTS_LLADR_TGT]), (UNROLLED PT_PROTO_ISID, [ETHERNET, ISID]), (UNROLLED PT_PROTO_PPPOE, [ETHERNET, PPPOE]), (UNROLLED PT_PROTO_GTPU4, [ETHERNET, IPV4_noptions 0, UDP, GTPU4]), (UNROLLED PT_PROTO_GTPU6, [ETHERNET, IPV6, UDP, GTPU6]), (UNROLLED PT_PROTO_GRE4, [ETHERNET, IPV4_noptions 0, GRE4]), (UNROLLED PT_PROTO_GRE6, [ETHERNET, IPV6, GRE6])],
     [],
     [],
     [(UNROLLED PT_PROTO_MPLS, [IEEE8023, MPLS_nlabels 1]), (UNROLLED PT_PROTO_VLAN, [IEEE8023, VLAN, IPV6, ICMPV6, Hdr PT_PROTO_ICMPV6_OPTS_LLADR_TGT]), (UNROLLED PT_PROTO_ISID, [ETHERNET, ISID]), (UNROLLED PT_PROTO_PPPOE, [IEEE8023, PPPOE]), (UNROLLED PT_PROTO_GTPU4, [IEEE8023, IPV4_noptions 0, UDP, GTPU4]), (UNROLLED PT_PROTO_GTPU6, [IEEE8023, IPV6, UDP, GTPU6]), (UNROLLED PT_PROTO_GRE4, [ETHERNET, IPV4_noptions 0, GRE4]), (UNROLLED PT_PROTO_GRE6, [ETHERNET, IPV6, GRE6])],
     [(UNROLLED PT_PROTO_MPLS, [ETHERNET, VLAN, MPLS_nlabels 1]), (UNROLLED PT_PROTO_VLAN, [ETHERNET, VLAN, VLAN, IPV6, ICMPV6, Hdr PT_PROTO_ICMPV6_OPTS_LLADR_TGT]), (UNROLLED PT_PROTO_ISID, [ETHERNET, ISID]), (UNROLLED PT_PROTO_PPPOE, [ETHERNET, VLAN, PPPOE]), (UNROLLED PT_PROTO_GRE4, [ETHERNET, IPV4_noptions 0, GRE4]), (UNROLLED PT_PROTO_GRE6, [ETHERNET, IPV6, GRE6])],
     [(UNROLLED PT_PROTO_MPLS, [IEEE8023, VLAN, MPLS_nlabels 1]), (UNROLLED PT_PROTO_VLAN, [IEEE8023, VLAN, VLAN, IPV6, ICMPV6, Hdr PT_PROTO_ICMPV6_OPTS_LLADR_TGT]), (UNROLLED PT_PROTO_ISID, [ETHERNET, ISID]), (UNROLLED PT_PROTO_PPPOE, [IEEE8023, VLAN, PPPOE]), (UNROLLED PT_PROTO_GRE4, [ETHERNET, IPV4_noptions 0, GRE4]), (UNROLLED PT_PROTO_GRE6, [ETHERNET, IPV6, GRE6])],
     [(UNROLLED PT_PROTO_MPLS, [ETHERNET, VLAN, VLAN, MPLS_nlabels 1]), (UNROLLED PT_PROTO_ISID, [ETHERNET, ISID]), (UNROLLED PT_PROTO_PPPOE, [ETHERNET, VLAN, VLAN, PPPOE]), (UNROLLED PT_PROTO_GRE4, [ETHERNET, IPV4_noptions 0, GRE4]), (UNROLLED PT_PROTO_GRE6, [ETHERNET, IPV6, GRE6])],
     [(UNROLLED PT_PROTO_MPLS, [IEEE8023, VLAN, VLAN, MPLS_nlabels 1]), (UNROLLED PT_PROTO_ISID, [ETHERNET, ISID]), (UNROLLED PT_PROTO_PPPOE, [IEEE8023, VLAN, VLAN, PPPOE]), (UNROLLED PT_PROTO_GRE4, [ETHERNET, IPV4_noptions 0, GRE4]), (UNROLLED PT_PROTO_GRE6, [ETHERNET, IPV6, GRE6])],
     [(UNROLLED PT_PROTO_MPLS, [ETHERNET, MPLS_nlabels 1]), (UNROLLED PT_PROTO_VLAN, [ETHERNET, VLAN, IPV6, ICMPV6, Hdr PT_PROTO_ICMPV6_OPTS_PREFIX_INFO]), (UNROLLED PT_PROTO_ISID, [ETHERNET, ISID]), (UNROLLED PT_PROTO_PPPOE, [ETHERNET, PPPOE]), (UNROLLED PT_PROTO_GTPU4, [ETHERNET, IPV4_noptions 0, UDP, GTPU4]), (UNROLLED PT_PROTO_GTPU6, [ETHERNET, IPV6, UDP, GTPU6]), (UNROLLED PT_PROTO_GRE4, [ETHERNET, IPV4_noptions 0, GRE4]), (UNROLLED PT_PROTO_GRE6, [ETHERNET, IPV6, GRE6])],
     [],
     [],
     [(UNROLLED PT_PROTO_MPLS, [IEEE8023, MPLS_nlabels 1]), (UNROLLED PT_PROTO_VLAN, [IEEE8023, VLAN, IPV6, ICMPV6, Hdr PT_PROTO_ICMPV6_OPTS_PREFIX_INFO]), (UNROLLED PT_PROTO_ISID, [ETHERNET, ISID]), (UNROLLED PT_PROTO_PPPOE, [IEEE8023, PPPOE]), (UNROLLED PT_PROTO_GTPU4, [IEEE8023, IPV4_noptions 0, UDP, GTPU4]), (UNROLLED PT_PROTO_GTPU6, [IEEE8023, IPV6, UDP, GTPU6]), (UNROLLED PT_PROTO_GRE4, [ETHERNET, IPV4_noptions 0, GRE4]), (UNROLLED PT_PROTO_GRE6, [ETHERNET, IPV6, GRE6])],
     [(UNROLLED PT_PROTO_MPLS, [ETHERNET, VLAN, MPLS_nlabels 1]), (UNROLLED PT_PROTO_VLAN, [ETHERNET, VLAN, VLAN, IPV6, ICMPV6, Hdr PT_PROTO_ICMPV6_OPTS_PREFIX_INFO]), (UNROLLED PT_PROTO_ISID, [ETHERNET, ISID]), (UNROLLED PT_PROTO_PPPOE, [ETHERNET, VLAN, PPPOE]), (UNROLLED PT_PROTO_GRE4, [ETHERNET, IPV4_noptions 0, GRE4]), (UNROLLED PT_PROTO_GRE6, [ETHERNET, IPV6, GRE6])],
     [(UNROLLED PT_PROTO_MPLS, [IEEE8023, VLAN, MPLS_nlabels 1]), (UNROLLED PT_PROTO_VLAN, [IEEE8023, VLAN, VLAN, IPV6, ICMPV6, Hdr PT_PROTO_ICMPV6_OPTS_PREFIX_INFO]), (UNROLLED PT_PROTO_ISID, [ETHERNET, ISID]), (UNROLLED PT_PROTO_PPPOE, [IEEE8023, VLAN, PPPOE]), (UNROLLED PT_PROTO_GRE4, [ETHERNET, IPV4_noptions 0, GRE4]), (UNROLLED PT_PROTO_GRE6, [ETHERNET, IPV6, GRE6])],
     [(UNROLLED PT_PROTO_MPLS, [ETHERNET, VLAN, VLAN, MPLS_nlabels 1]), (UNROLLED PT_PROTO_ISID, [ETHERNET, ISID]), (UNROLLED PT_PROTO_PPPOE, [ETHERNET, VLAN, VLAN, PPPOE]), (UNROLLED PT_PROTO_GRE4, [ETHERNET, IPV4_noptions 0, GRE4]), (UNROLLED PT_PROTO_GRE6, [ETHERNET, IPV6, GRE6])],
     [(UNROLLED PT_PROTO_MPLS, [IEEE8023, VLAN, VLAN, MPLS_nlabels 1]), (UNROLLED PT_PROTO_ISID, [ETHERNET, ISID]), (UNROLLED PT_PROTO_PPPOE, [IEEE8023, VLAN, VLAN, PPPOE]), (UNROLLED PT_PROTO_GRE4, [ETHERNET, IPV4_noptions 0, GRE4]), (UNROLLED PT_PROTO_GRE6, [ETHERNET, IPV6, GRE6])],
     [(UNROLLED PT_PROTO_MPLS, [ETHERNET, MPLS_nlabels 1]), (UNROLLED PT_PROTO_VLAN, [ETHERNET, VLAN, IPV6, ICMPV6, Hdr PT_PROTO_ICMPV6_RTR_SOL]), (UNROLLED PT_PROTO_ISID, [ETHERNET, ISID]), (UNROLLED PT_PROTO_PPPOE, [ETHERNET, PPPOE]), (UNROLLED PT_PROTO_GTPU4, [ETHERNET, IPV4_noptions 0, UDP, GTPU4]), (UNROLLED PT_PROTO_GTPU6, [ETHERNET, IPV6, UDP, GTPU6]), (UNROLLED PT_PROTO_GRE4, [ETHERNET, IPV4_noptions 0, GRE4]), (UNROLLED PT_PROTO_GRE6, [ETHERNET, IPV6, GRE6])],
     [],
     [],
     [(UNROLLED PT_PROTO_MPLS, [IEEE8023, MPLS_nlabels 1]), (UNROLLED PT_PROTO_VLAN, [IEEE8023, VLAN, IPV6, ICMPV6, Hdr PT_PROTO_ICMPV6_RTR_SOL]), (UNROLLED PT_PROTO_ISID, [ETHERNET, ISID]), (UNROLLED PT_PROTO_PPPOE, [IEEE8023, PPPOE]), (UNROLLED PT_PROTO_GTPU4, [IEEE8023, IPV4_noptions 0, UDP, GTPU4]), (UNROLLED PT_PROTO_GTPU6, [IEEE8023, IPV6, UDP, GTPU6]), (UNROLLED PT_PROTO_GRE4, [ETHERNET, IPV4_noptions 0, GRE4]), (UNROLLED PT_PROTO_GRE6, [ETHERNET, IPV6, GRE6])],
     [(UNROLLED PT_PROTO_MPLS, [ETHERNET, VLAN, MPLS_nlabels 1]), (UNROLLED PT_PROTO_VLAN, [ETHERNET, VLAN, VLAN, IPV6, ICMPV6, Hdr PT_PROTO_ICMPV6_RTR_SOL]), (UNROLLED PT_PROTO_ISID, [ETHERNET, ISID]), (UNROLLED PT_PROTO_PPPOE, [ETHERNET, VLAN, PPPOE]), (UNROLLED PT_PROTO_GRE4, [ETHERNET, IPV4_noptions 0, GRE4]), (UNROLLED PT_PROTO_GRE6, [ETHERNET, IPV6, GRE6])],
     [(UNROLLED PT_PROTO_MPLS, [IEEE8023, VLAN, MPLS_nlabels 1]), (UNROLLED PT_PROTO_VLAN, [IEEE8023, VLAN, VLAN, IPV6, ICMPV6, Hdr PT_PROTO_ICMPV6_RTR_SOL]), (UNROLLED PT_PROTO_ISID, [ETHERNET, ISID]), (UNROLLED PT_PROTO_PPPOE, [IEEE8023, VLAN, PPPOE]), (UNROLLED PT_PROTO_GRE4, [ETHERNET, IPV4_noptions 0, GRE4]), (UNROLLED PT_PROTO_GRE6, [ETHERNET, IPV6, GRE6])],
     [(UNROLLED PT_PROTO_MPLS, [ETHERNET, VLAN, VLAN, MPLS_nlabels 1]), (UNROLLED PT_PROTO_ISID, [ETHERNET, ISID]), (UNROLLED PT_PROTO_PPPOE, [ETHERNET, VLAN, VLAN, PPPOE]), (UNROLLED PT_PROTO_GRE4, [ETHERNET, IPV4_noptions 0, GRE4]), (UNROLLED PT_PROTO_GRE6, [ETHERNET, IPV6, GRE6])],
     [(UNROLLED PT_PROTO_MPLS, [IEEE8023, VLAN, VLAN, MPLS_nlabels 1]), (UNROLLED PT_PROTO_ISID, [ETHERNET, ISID]), (UNROLLED PT_PROTO_PPPOE, [IEEE8023, VLAN, VLAN, PPPOE]), (UNROLLED PT_PROTO_GRE4, [ETHERNET, IPV4_noptions 0, GRE4]), (UNROLLED PT_PROTO_GRE6, [ETHERNET, IPV6, GRE6])],
     [(UNROLLED PT_PROTO_MPLS, [ETHERNET, MPLS_nlabels 1]), (UNROLLED PT_PROTO_VLAN, [ETHERNET, VLAN, IPV6, ICMPV6, Hdr PT_PROTO_ICMPV6_RTR_ADV]), (UNROLLED PT_PROTO_ISID, [ETHERNET, ISID]), (UNROLLED PT_PROTO_PPPOE, [ETHERNET, PPPOE]), (UNROLLED PT_PROTO_GTPU4, [ETHERNET, IPV4_noptions 0, UDP, GTPU4]), (UNROLLED PT_PROTO_GTPU6, [ETHERNET, IPV6, UDP, GTPU6]), (UNROLLED PT_PROTO_GRE4, [ETHERNET, IPV4_noptions 0, GRE4]), (UNROLLED PT_PROTO_GRE6, [ETHERNET, IPV6, GRE6])],
     [],
     [],
     [(UNROLLED PT_PROTO_MPLS, [IEEE8023, MPLS_nlabels 1]), (UNROLLED PT_PROTO_VLAN, [IEEE8023, VLAN, IPV6, ICMPV6, Hdr PT_PROTO_ICMPV6_RTR_ADV]), (UNROLLED PT_PROTO_ISID, [ETHERNET, ISID]), (UNROLLED PT_PROTO_PPPOE, [IEEE8023, PPPOE]), (UNROLLED PT_PROTO_GTPU4, [IEEE8023, IPV4_noptions 0, UDP, GTPU4]), (UNROLLED PT_PROTO_GTPU6, [IEEE8023, IPV6, UDP, GTPU6]), (UNROLLED PT_PROTO_GRE4, [ETHERNET, IPV4_noptions 0, GRE4]), (UNROLLED PT_PROTO_GRE6, [ETHERNET, IPV6, GRE6])],
     [(UNROLLED PT_PROTO_MPLS, [ETHERNET, VLAN, MPLS_nlabels 1]), (UNROLLED PT_PROTO_VLAN, [ETHERNET, VLAN, VLAN, IPV6, ICMPV6, Hdr PT_PROTO_ICMPV6_RTR_ADV]), (UNROLLED PT_PROTO_ISID, [ETHERNET, ISID]), (UNROLLED PT_PROTO_PPPOE, [ETHERNET, VLAN, PPPOE]), (UNROLLED PT_PROTO_GRE4, [ETHERNET, IPV4_noptions 0, GRE4]), (UNROLLED PT_PROTO_GRE6, [ETHERNET, IPV6, GRE6])],
     [(UNROLLED PT_PROTO_MPLS, [IEEE8023, VLAN, MPLS_nlabels 1]), (UNROLLED PT_PROTO_VLAN, [IEEE8023, VLAN, VLAN, IPV6, ICMPV6, Hdr PT_PROTO_ICMPV6_RTR_ADV]), (UNROLLED PT_PROTO_ISID, [ETHERNET, ISID]), (UNROLLED PT_PROTO_PPPOE, [IEEE8023, VLAN, PPPOE]), (UNROLLED PT_PROTO_GRE4, [ETHERNET, IPV4_noptions 0, GRE4]), (UNROLLED PT_PROTO_GRE6, [ETHERNET, IPV6, GRE6])],
     [(UNROLLED PT_PROTO_MPLS, [ETHERNET, VLAN, VLAN, MPLS_nlabels 1]), (UNROLLED PT_PROTO_ISID, [ETHERNET, ISID]), (UNROLLED PT_PROTO_PPPOE, [ETHERNET, VLAN, VLAN, PPPOE]), (UNROLLED PT_PROTO_GRE4, [ETHERNET, IPV4_noptions 0, GRE4]), (UNROLLED PT_PROTO_GRE6, [ETHERNET, IPV6, GRE6])],
     [(UNROLLED PT_PROTO_MPLS, [IEEE8023, VLAN, VLAN, MPLS_nlabels 1]), (UNROLLED PT_PROTO_ISID, [ETHERNET, ISID]), (UNROLLED PT_PROTO_PPPOE, [IEEE8023, VLAN, VLAN, PPPOE]), (UNROLLED PT_PROTO_GRE4, [ETHERNET, IPV4_noptions 0, GRE4]), (UNROLLED PT_PROTO_GRE6, [ETHERNET, IPV6, GRE6])],
     [(UNROLLED PT_PROTO_MPLS, [ETHERNET, MPLS_nlabels 1]), (UNROLLED PT_PROTO_VLAN, [ETHERNET, VLAN, IPV6, ICMPV6, Hdr PT_PROTO_ICMPV6_NEIGH_SOL]), (UNROLLED PT_PROTO_ISID, [ETHERNET, ISID]), (UNROLLED PT_PROTO_PPPOE, [ETHERNET, PPPOE]), (UNROLLED PT_PROTO_GTPU4, [ETHERNET, IPV4_noptions 0, UDP, GTPU4]), (UNROLLED PT_PROTO_GTPU6, [ETHERNET, IPV6, UDP, GTPU6]), (UNROLLED PT_PROTO_GRE4, [ETHERNET, IPV4_noptions 0, GRE4]), (UNROLLED PT_PROTO_GRE6, [ETHERNET, IPV6, GRE6])],
     [],
     [],
     [(UNROLLED PT_PROTO_MPLS, [IEEE8023, MPLS_nlabels 1]), (UNROLLED PT_PROTO_VLAN, [IEEE8023, VLAN, IPV6, ICMPV6, Hdr PT_PROTO_ICMPV6_NEIGH_SOL]), (UNROLLED PT_PROTO_ISID, [ETHERNET, ISID]), (UNROLLED PT_PROTO_PPPOE, [IEEE8023, PPPOE]), (UNROLLED PT_PROTO_GTPU4, [IEEE8023, IPV4_noptions 0, UDP, GTPU4]), (UNROLLED PT_PROTO_GTPU6, [IEEE8023, IPV6, UDP, GTPU6]), (UNROLLED PT_PROTO_GRE4, [ETHERNET, IPV4_noptions 0, GRE4]), (UNROLLED PT_PROTO_GRE6, [ETHERNET, IPV6, GRE6])],
     [(UNROLLED PT_PROTO_MPLS, [ETHERNET, VLAN, MPLS_nlabels 1]), (UNROLLED PT_PROTO_VLAN, [ETHERNET, VLAN, VLAN, IPV6, ICMPV6, Hdr PT_PROTO_ICMPV6_NEIGH_SOL]), (UNROLLED PT_PROTO_ISID, [ETHERNET, ISID]), (UNROLLED PT_PROTO_PPPOE, [ETHERNET, VLAN, PPPOE]), (UNROLLED PT_PROTO_GRE4, [ETHERNET, IPV4_noptions 0, GRE4]), (UNROLLED PT_PROTO_GRE6, [ETHERNET, IPV6, GRE6])],
     [(UNROLLED PT_PROTO_MPLS, [IEEE8023, VLAN, MPLS_nlabels 1]), (UNROLLED PT_PROTO_VLAN, [IEEE8023, VLAN, VLAN, IPV6, ICMPV6, Hdr PT_PROTO_ICMPV6_NEIGH_SOL]), (UNROLLED PT_PROTO_ISID, [ETHERNET, ISID]), (UNROLLED PT_PROTO_PPPOE, [IEEE8023, VLAN, PPPOE]), (UNROLLED PT_PROTO_GRE4, [ETHERNET, IPV4_noptions 0, GRE4]), (UNROLLED PT_PROTO_GRE6, [ETHERNET, IPV6, GRE6])],
     [(UNROLLED PT_PROTO_MPLS, [ETHERNET, VLAN, VLAN, MPLS_nlabels 1]), (UNROLLED PT_PROTO_ISID, [ETHERNET, ISID]), (UNROLLED PT_PROTO_PPPOE, [ETHERNET, VLAN, VLAN, PPPOE]), (UNROLLED PT_PROTO_GRE4, [ETHERNET, IPV4_noptions 0, GRE4]), (UNROLLED PT_PROTO_GRE6, [ETHERNET, IPV6, GRE6])],
     [(UNROLLED PT_PROTO_MPLS, [IEEE8023, VLAN, VLAN, MPLS_nlabels 1]), (UNROLLED PT_PROTO_ISID, [ETHERNET, ISID]), (UNROLLED PT_PROTO_PPPOE, [IEEE8023, VLAN, VLAN, PPPOE]), (UNROLLED PT_PROTO_GRE4, [ETHERNET, IPV4_noptions 0, GRE4]), (UNROLLED PT_PROTO_GRE6, [ETHERNET, IPV6, GRE6])],
     [(UNROLLED PT_PROTO_MPLS, [ETHERNET, MPLS_nlabels 1]), (UNROLLED PT_PROTO_VLAN, [ETHERNET, VLAN, IPV6, ICMPV6, Hdr PT_PROTO_ICMPV6_NEIGH_ADV]), (UNROLLED PT_PROTO_ISID, [ETHERNET, ISID]), (UNROLLED PT_PROTO_PPPOE, [ETHERNET, PPPOE]), (UNROLLED PT_PROTO_GTPU4, [ETHERNET, IPV4_noptions 0, UDP, GTPU4]), (UNROLLED PT_PROTO_GTPU6, [ETHERNET, IPV6, UDP, GTPU6]), (UNROLLED PT_PROTO_GRE4, [ETHERNET, IPV4_noptions 0, GRE4]), (UNROLLED PT_PROTO_GRE6, [ETHERNET, IPV6, GRE6])],
     [],
     [],
     [(UNROLLED PT_PROTO_MPLS, [IEEE8023, MPLS_nlabels 1]), (UNROLLED PT_PROTO_VLAN, [IEEE8023, VLAN, IPV6, ICMPV6, Hdr PT_PROTO_ICMPV6_NEIGH_ADV]), (UNROLLED PT_PROTO_ISID, [ETHERNET, ISID]), (UNROLLED PT_PROTO_PPPOE, [IEEE8023, PPPOE]), (UNROLLED PT_PROTO_GTPU4, [IEEE8023, IPV4_noptions 0, UDP, GTPU4]), (UNROLLED PT_PROTO_GTPU6, [IEEE8023, IPV6, UDP, GTPU6]), (UNROLLED PT_PROTO_GRE4, [ETHERNET, IPV4_noptions 0, GRE4]), (UNROLLED PT_PROTO_GRE6, [ETHERNET, IPV6, GRE6])],
     [(UNROLLED PT_PROTO_MPLS, [ETHERNET, VLAN, MPLS_nlabels 1]), (UNROLLED PT_PROTO_VLAN, [ETHERNET, VLAN, VLAN, IPV6, ICMPV6, Hdr PT_PROTO_ICMPV6_NEIGH_ADV]), (UNROLLED PT_PROTO_ISID, [ETHERNET, ISID]), (UNROLLED PT_PROTO_PPPOE, [ETHERNET, VLAN, PPPOE]), (UNROLLED PT_PROTO_GRE4, [ETHERNET, IPV4_noptions 0, GRE4]), (UNROLLED PT_PROTO_GRE6, [ETHERNET, IPV6, GRE6])],
     [(UNROLLED PT_PROTO_MPLS, [IEEE8023, VLAN, MPLS_nlabels 1]), (UNROLLED PT_PROTO_VLAN, [IEEE8023, VLAN, VLAN, IPV6, ICMPV6, Hdr PT_PROTO_ICMPV6_NEIGH_ADV]), (UNROLLED PT_PROTO_ISID, [ETHERNET, ISID]), (UNROLLED PT_PROTO_PPPOE, [IEEE8023, VLAN, PPPOE]), (UNROLLED PT_PROTO_GRE4, [ETHERNET, IPV4_noptions 0, GRE4]), (UNROLLED PT_PROTO_GRE6, [ETHERNET, IPV6, GRE6])],
     [(UNROLLED PT_PROTO_MPLS, [ETHERNET, VLAN, VLAN, MPLS_nlabels 1]), (UNROLLED PT_PROTO_ISID, [ETHERNET, ISID]), (UNROLLED PT_PROTO_PPPOE, [ETHERNET, VLAN, VLAN, PPPOE]), (UNROLLED PT_PROTO_GRE4, [ETHERNET, IPV4_noptions 0, GRE4]), (UNROLLED PT_PROTO_GRE6, [ETHERNET, IPV6, GRE6])],
     [(UNROLLED PT_PROTO_MPLS, [IEEE8023, VLAN, VLAN, MPLS_nlabels 1]), (UNROLLED PT_PROTO_ISID, [ETHERNET, ISID]), (UNROLLED PT_PROTO_PPPOE, [IEEE8023, VLAN, VLAN, PPPOE]), (UNROLLED PT_PROTO_GRE4, [ETHERNET, IPV4_noptions 0, GRE4]), (UNROLLED PT_PROTO_GRE6, [ETHERNET, IPV6, GRE6])],
     [(UNROLLED PT_PROTO_MPLS, [ETHERNET, MPLS_nlabels 1]), (UNROLLED PT_PROTO_VLAN, [ETHERNET, VLAN, IPV6, ICMPV6, Hdr PT_PROTO_ICMPV6_RTR_SOL, Hdr PT_PROTO_ICMPV6_RTR_SOL_OPTS_LLADR_SRC]), (UNROLLED PT_PROTO_ISID, [ETHERNET, ISID]), (UNROLLED PT_PROTO_PPPOE, [ETHERNET, PPPOE]), (UNROLLED PT_PROTO_GTPU4, [ETHERNET, IPV4_noptions 0, UDP, GTPU4]), (UNROLLED PT_PROTO_GTPU6, [ETHERNET, IPV6, UDP, GTPU6]), (UNROLLED PT_PROTO_GRE4, [ETHERNET, IPV4_noptions 0, GRE4]), (UNROLLED PT_PROTO_GRE6, [ETHERNET, IPV6, GRE6])],
     [],
     [],
     [(UNROLLED PT_PROTO_MPLS, [IEEE8023, MPLS_nlabels 1]), (UNROLLED PT_PROTO_VLAN, [IEEE8023, VLAN, IPV6, ICMPV6, Hdr PT_PROTO_ICMPV6_RTR_SOL, Hdr PT_PROTO_ICMPV6_RTR_SOL_OPTS_LLADR_SRC]), (UNROLLED PT_PROTO_ISID, [ETHERNET, ISID]), (UNROLLED PT_PROTO_PPPOE, [IEEE8023, PPPOE]), (UNROLLED PT_PROTO_GTPU4, [IEEE8023, IPV4_noptions 0, UDP, GTPU4]), (UNROLLED PT_PROTO_GTPU6, [IEEE8023, IPV6, UDP, GTPU6]), (UNROLLED PT_PROTO_GRE4, [ETHERNET, IPV4_noptions 0, GRE4]), (UNROLLED PT_PROTO_GRE6, [ETHERNET, IPV6, GRE6])],
     [(UNROLLED PT_PROTO_MPLS, [ETHERNET, VLAN, MPLS_nlabels 1]), (UNROLLED PT_PROTO_VLAN, [ETHERNET, VLAN, VLAN, IPV6, ICMPV6, Hdr PT_PROTO_ICMPV6_RTR_SOL, Hdr PT_PROTO_ICMPV6_RTR_SOL_OPTS_LLADR_SRC]), (UNROLLED PT_PROTO_ISID, [ETHERNET, ISID]), (UNROLLED PT_PROTO_PPPOE, [ETHERNET, VLAN, PPPOE]), (UNROLLED PT_PROTO_GRE4, [ETHERNET, IPV4_noptions 0, GRE4]), (UNROLLED PT_PROTO_GRE6, [ETHERNET, IPV6, GRE6])],
     [(UNROLLED PT_PROTO_MPLS, [IEEE8023, VLAN, MPLS_nlabels 1]), (UNROLLED PT_PROTO_VLAN, [IEEE8023, VLAN, VLAN, IPV6, ICMPV6, Hdr PT_PROTO_ICMPV6_RTR_SOL, Hdr PT_PROTO_ICMPV6_RTR_SOL_OPTS_LLADR_SRC]), (UNROLLED PT_PROTO_ISID, [ETHERNET, ISID]), (UNROLLED PT_PROTO_PPPOE, [IEEE8023, VLAN, PPPOE]), (UNROLLED PT_PROTO_GRE4, [ETHERNET, IPV4_noptions 0, GRE4]), (UNROLLED PT_PROTO_GRE6, [ETHERNET, IPV6, GRE6])],
     [(UNROLLED PT_PROTO_MPLS, [ETHERNET, VLAN, VLAN, MPLS_nlabels 1]), (UNROLLED PT_PROTO_ISID, [ETHERNET, ISID]), (UNROLLED PT_PROTO_PPPOE, [ETHERNET, VLAN, VLAN, PPPOE]), (UNROLLED PT_PROTO_GRE4, [ETHERNET, IPV4_noptions 0, GRE4]), (UNROLLED PT_PROTO_GRE6, [ETHERNET, IPV6, GRE6])],
     [(UNROLLED PT_PROTO_MPLS, [IEEE8023, VLAN, VLAN, MPLS_nlabels 1]), (UNROLLED PT_PROTO_ISID, [ETHERNET, ISID]), (UNROLLED PT_PROTO_PPPOE, [IEEE8023, VLAN, VLAN, PPPOE]), (UNROLLED PT_PROTO_GRE4, [ETHERNET, IPV4_noptions 0, GRE4]), (UNROLLED PT_PROTO_GRE6, [ETHERNET, IPV6, GRE6])],
     [(UNROLLED PT_PROTO_MPLS, [ETHERNET, MPLS_nlabels 1]), (UNROLLED PT_PROTO_VLAN, [ETHERNET, VLAN, IPV6, ICMPV6, Hdr PT_PROTO_ICMPV6_RTR_ADV, Hdr PT_PROTO_ICMPV6_RTR_ADV_OPTS_LLADR_SRC]), (UNROLLED PT_PROTO_ISID, [ETHERNET, ISID]), (UNROLLED PT_PROTO_PPPOE, [ETHERNET, PPPOE]), (UNROLLED PT_PROTO_GTPU4, [ETHERNET, IPV4_noptions 0, UDP, GTPU4]), (UNROLLED PT_PROTO_GTPU6, [ETHERNET, IPV6, UDP, GTPU6]), (UNROLLED PT_PROTO_GRE4, [ETHERNET, IPV4_noptions 0, GRE4]), (UNROLLED PT_PROTO_GRE6, [ETHERNET, IPV6, GRE6])],
     [],
     [],
     [(UNROLLED PT_PROTO_MPLS, [IEEE8023, MPLS_nlabels 1]), (UNROLLED PT_PROTO_VLAN, [IEEE8023, VLAN, IPV6, ICMPV6, Hdr PT_PROTO_ICMPV6_RTR_ADV, Hdr PT_PROTO_ICMPV6_RTR_ADV_OPTS_LLADR_SRC]), (UNROLLED PT_PROTO_ISID, [ETHERNET, ISID]), (UNROLLED PT_PROTO_PPPOE, [IEEE8023, PPPOE]), (UNROLLED PT_PROTO_GTPU4, [IEEE8023, IPV4_noptions 0, UDP, GTPU4]), (UNROLLED PT_PROTO_GTPU6, [IEEE8023, IPV6, UDP, GTPU6]), (UNROLLED PT_PROTO_GRE4, [ETHERNET, IPV4_noptions 0, GRE4]), (UNROLLED PT_PROTO_GRE6, [ETHERNET, IPV6, GRE6])],
     [(UNROLLED PT_PROTO_MPLS, [ETHERNET, VLAN, MPLS_nlabels 1]), (UNROLLED PT_PROTO_VLAN, [ETHERNET, VLAN, VLAN, IPV6, ICMPV6, Hdr PT_PROTO_ICMPV6_RTR_ADV, Hdr PT_PROTO_ICMPV6_RTR_ADV_OPTS_LLADR_SRC]), (UNROLLED PT_PROTO_ISID, [ETHERNET, ISID]), (UNROLLED PT_PROTO_PPPOE, [ETHERNET, VLAN, PPPOE]), (UNROLLED PT_PROTO_GRE4, [ETHERNET, IPV4_noptions 0, GRE4]), (UNROLLED PT_PROTO_GRE6, [ETHERNET, IPV6, GRE6])],
     [(UNROLLED PT_PROTO_MPLS, [IEEE8023, VLAN, MPLS_nlabels 1]), (UNROLLED PT_PROTO_VLAN, [IEEE8023, VLAN, VLAN, IPV6, ICMPV6, Hdr PT_PROTO_ICMPV6_RTR_ADV, Hdr PT_PROTO_ICMPV6_RTR_ADV_OPTS_LLADR_SRC]), (UNROLLED PT_PROTO_ISID, [ETHERNET, ISID]), (UNROLLED PT_PROTO_PPPOE, [IEEE8023, VLAN, PPPOE]), (UNROLLED PT_PROTO_GRE4, [ETHERNET, IPV4_noptions 0, GRE4]), (UNROLLED PT_PROTO_GRE6, [ETHERNET, IPV6, GRE6])],
     [(UNROLLED PT_PROTO_MPLS, [ETHERNET, VLAN, VLAN, MPLS_nlabels 1]), (UNROLLED PT_PROTO_ISID, [ETHERNET, ISID]), (UNROLLED PT_PROTO_PPPOE, [ETHERNET, VLAN, VLAN, PPPOE]), (UNROLLED PT_PROTO_GRE4, [ETHERNET, IPV4_noptions 0, GRE4]), (UNROLLED PT_PROTO_GRE6, [ETHERNET, IPV6, GRE6])],
     [(UNROLLED PT_PROTO_MPLS, [IEEE8023, VLAN, VLAN, MPLS_nlabels 1]), (UNROLLED PT_PROTO_ISID, [ETHERNET, ISID]), (UNROLLED PT_PROTO_PPPOE, [IEEE8023, VLAN, VLAN, PPPOE]), (UNROLLED PT_PROTO_GRE4, [ETHERNET, IPV4_noptions 0, GRE4]), (UNROLLED PT_PROTO_GRE6, [ETHERNET, IPV6, GRE6])],
     [(UNROLLED PT_PROTO_MPLS, [ETHERNET, MPLS_nlabels 1]), (UNROLLED PT_PROTO_VLAN, [ETHERNET, VLAN, IPV6, ICMPV6, Hdr PT_PROTO_ICMPV6_NEIGH_SOL, Hdr PT_PROTO_ICMPV6_NEIGH_SOL_OPTS_LLADR_SRC]), (UNROLLED PT_PROTO_ISID, [ETHERNET, ISID]), (UNROLLED PT_PROTO_PPPOE, [ETHERNET, PPPOE]), (UNROLLED PT_PROTO_GTPU4, [ETHERNET, IPV4_noptions 0, UDP, GTPU4]), (UNROLLED PT_PROTO_GTPU6, [ETHERNET, IPV6, UDP, GTPU6]), (UNROLLED PT_PROTO_GRE4, [ETHERNET, IPV4_noptions 0, GRE4]), (UNROLLED PT_PROTO_GRE6, [ETHERNET, IPV6, GRE6])],
     [],
     [],
     [(UNROLLED PT_PROTO_MPLS, [IEEE8023, MPLS_nlabels 1]), (UNROLLED PT_PROTO_VLAN, [IEEE8023, VLAN, IPV6, ICMPV6, Hdr PT_PROTO_ICMPV6_NEIGH_SOL, Hdr PT_PROTO_ICMPV6_NEIGH_SOL_OPTS_LLADR_SRC]), (UNROLLED PT_PROTO_ISID, [ETHERNET, ISID]), (UNROLLED PT_PROTO_PPPOE, [IEEE8023, PPPOE]), (UNROLLED PT_PROTO_GTPU4, [IEEE8023, IPV4_noptions 0, UDP, GTPU4]), (UNROLLED PT_PROTO_GTPU6, [IEEE8023, IPV6, UDP, GTPU6]), (UNROLLED PT_PROTO_GRE4, [ETHERNET, IPV4_noptions 0, GRE4]), (UNROLLED PT_PROTO_GRE6, [ETHERNET, IPV6, GRE6])],
     [(UNROLLED PT_PROTO_MPLS, [ETHERNET, VLAN, MPLS_nlabels 1]), (UNROLLED PT_PROTO_VLAN, [ETHERNET, VLAN, VLAN, IPV6, ICMPV6, Hdr PT_PROTO_ICMPV6_NEIGH_SOL, Hdr PT_PROTO_ICMPV6_NEIGH_SOL_OPTS_LLADR_SRC]), (UNROLLED PT_PROTO_ISID, [ETHERNET, ISID]), (UNROLLED PT_PROTO_PPPOE, [ETHERNET, VLAN, PPPOE]), (UNROLLED PT_PROTO_GRE4, [ETHERNET, IPV4_noptions 0, GRE4]), (UNROLLED PT_PROTO_GRE6, [ETHERNET, IPV6, GRE6])],
     [(UNROLLED PT_PROTO_MPLS, [IEEE8023, VLAN, MPLS_nlabels 1]), (UNROLLED PT_PROTO_VLAN, [IEEE8023, VLAN, VLAN, IPV6, ICMPV6, Hdr PT_PROTO_ICMPV6_NEIGH_SOL, Hdr PT_PROTO_ICMPV6_NEIGH_SOL_OPTS_LLADR_SRC]), (UNROLLED PT_PROTO_ISID, [ETHERNET, ISID]), (UNROLLED PT_PROTO_PPPOE, [IEEE8023, VLAN, PPPOE]), (UNROLLED PT_PROTO_GRE4, [ETHERNET, IPV4_noptions 0, GRE4]), (UNROLLED PT_PROTO_GRE6, [ETHERNET, IPV6, GRE6])],
     [(UNROLLED PT_PROTO_MPLS, [ETHERNET, VLAN, VLAN, MPLS_nlabels 1]), (UNROLLED PT_PROTO_ISID, [ETHERNET, ISID]), (UNROLLED PT_PROTO_PPPOE, [ETHERNET, VLAN, VLAN, PPPOE]), (UNROLLED PT_PROTO_GRE4, [ETHERNET, IPV4_noptions 0, GRE4]), (UNROLLED PT_PROTO_GRE6, [ETHERNET, IPV6, GRE6])],
     [(UNROLLED PT_PROTO_MPLS, [IEEE8023, VLAN, VLAN, MPLS_nlabels 1]), (UNROLLED PT_PROTO_ISID, [ETHERNET, ISID]), (UNROLLED PT_PROTO_PPPOE, [IEEE8023, VLAN, VLAN, PPPOE]), (UNROLLED PT_PROTO_GRE4, [ETHERNET, IPV4_noptions 0, GRE4]), (UNROLLED PT_PROTO_GRE6, [ETHERNET, IPV6, GRE6])],
     [(UNROLLED PT_PROTO_MPLS, [ETHERNET, MPLS_nlabels 1]), (UNROLLED PT_PROTO_VLAN, [ETHERNET, VLAN, IPV6, ICMPV6, Hdr PT_PROTO_ICMPV6_NEIGH_ADV, Hdr PT_PROTO_ICMPV6_NEIGH_ADV_OPTS_LLADR_TGT]), (UNROLLED PT_PROTO_ISID, [ETHERNET, ISID]), (UNROLLED PT_PROTO_PPPOE, [ETHERNET, PPPOE]), (UNROLLED PT_PROTO_GTPU4, [ETHERNET, IPV4_noptions 0, UDP, GTPU4]), (UNROLLED PT_PROTO_GTPU6, [ETHERNET, IPV6, UDP, GTPU6]), (UNROLLED PT_PROTO_GRE4, [ETHERNET, IPV4_noptions 0, GRE4]), (UNROLLED PT_PROTO_GRE6, [ETHERNET, IPV6, GRE6])],
     [],
     [],
     [(UNROLLED PT_PROTO_MPLS, [IEEE8023, MPLS_nlabels 1]), (UNROLLED PT_PROTO_VLAN, [IEEE8023, VLAN, IPV6, ICMPV6, Hdr PT_PROTO_ICMPV6_NEIGH_ADV, Hdr PT_PROTO_ICMPV6_NEIGH_ADV_OPTS_LLADR_TGT]), (UNROLLED PT_PROTO_ISID, [ETHERNET, ISID]), (UNROLLED PT_PROTO_PPPOE, [IEEE8023, PPPOE]), (UNROLLED PT_PROTO_GTPU4, [IEEE8023, IPV4_noptions 0, UDP, GTPU4]), (UNROLLED PT_PROTO_GTPU6, [IEEE8023, IPV6, UDP, GTPU6]), (UNROLLED PT_PROTO_GRE4, [ETHERNET, IPV4_noptions 0, GRE4]), (UNROLLED PT_PROTO_GRE6, [ETHERNET, IPV6, GRE6])],
     [(UNROLLED PT_PROTO_MPLS, [ETHERNET, VLAN, MPLS_nlabels 1]), (UNROLLED PT_PROTO_VLAN, [ETHERNET, VLAN, VLAN, IPV6, ICMPV6, Hdr PT_PROTO_ICMPV6_NEIGH_ADV, Hdr PT_PROTO_ICMPV6_NEIGH_ADV_OPTS_LLADR_TGT]), (UNROLLED PT_PROTO_ISID, [ETHERNET, ISID]), (UNROLLED PT_PROTO_PPPOE, [ETHERNET, VLAN, PPPOE]), (UNROLLED PT_PROTO_GRE4, [ETHERNET, IPV4_noptions 0, GRE4]), (UNROLLED PT_PROTO_GRE6, [ETHERNET, IPV6, GRE6])],
     [(UNROLLED PT_PROTO_MPLS, [IEEE8023, VLAN, MPLS_nlabels 1]), (UNROLLED PT_PROTO_VLAN, [IEEE8023, VLAN, VLAN, IPV6, ICMPV6, Hdr PT_PROTO_ICMPV6_NEIGH_ADV, Hdr PT_PROTO_ICMPV6_NEIGH_ADV_OPTS_LLADR_TGT]), (UNROLLED PT_PROTO_ISID, [ETHERNET, ISID]), (UNROLLED PT_PROTO_PPPOE, [IEEE8023, VLAN, PPPOE]), (UNROLLED PT_PROTO_GRE4, [ETHERNET, IPV4_noptions 0, GRE4]), (UNROLLED PT_PROTO_GRE6, [ETHERNET, IPV6, GRE6])],
     [(UNROLLED PT_PROTO_MPLS, [ETHERNET, VLAN, VLAN, MPLS_nlabels 1]), (UNROLLED PT_PROTO_ISID, [ETHERNET, ISID]), (UNROLLED PT_PROTO_PPPOE, [ETHERNET, VLAN, VLAN, PPPOE]), (UNROLLED PT_PROTO_GRE4, [ETHERNET, IPV4_noptions 0, GRE4]), (UNROLLED PT_PROTO_GRE6, [ETHERNET, IPV6, GRE6])],
     [(UNROLLED PT_PROTO_MPLS, [IEEE8023, VLAN, VLAN, MPLS_nlabels 1]), (UNROLLED PT_PROTO_ISID, [ETHERNET, ISID]), (UNROLLED PT_PROTO_PPPOE, [IEEE8023, VLAN, VLAN, PPPOE]), (UNROLLED PT_PROTO_GRE4, [ETHERNET, IPV4_noptions 0, GRE4]), (UNROLLED PT_PROTO_GRE6, [ETHERNET, IPV6, GRE6])],
     [(UNROLLED PT_PROTO_MPLS, [ETHERNET, MPLS_nlabels 1]), (UNROLLED PT_PROTO_VLAN, [ETHERNET, VLAN, IPV6, TCP]), (UNROLLED PT_PROTO_ISID, [ETHERNET, ISID]), (UNROLLED PT_PROTO_PPPOE, [ETHERNET, PPPOE]), (UNROLLED PT_PROTO_GTPU4, [ETHERNET, IPV4_noptions 0, UDP, GTPU4]), (UNROLLED PT_PROTO_GTPU6, [ETHERNET, IPV6, UDP, GTPU6]), (UNROLLED PT_PROTO_GRE4, [ETHERNET, IPV4_noptions 0, GRE4]), (UNROLLED PT_PROTO_GRE6, [ETHERNET, IPV6, GRE6])],
     [],
     [],
     [(UNROLLED PT_PROTO_MPLS, [IEEE8023, MPLS_nlabels 1]), (UNROLLED PT_PROTO_VLAN, [IEEE8023, VLAN, IPV6, TCP]), (UNROLLED PT_PROTO_ISID, [ETHERNET, ISID]), (UNROLLED PT_PROTO_PPPOE, [IEEE8023, PPPOE]), (UNROLLED PT_PROTO_GTPU4, [IEEE8023, IPV4_noptions 0, UDP, GTPU4]), (UNROLLED PT_PROTO_GTPU6, [IEEE8023, IPV6, UDP, GTPU6]), (UNROLLED PT_PROTO_GRE4, [ETHERNET, IPV4_noptions 0, GRE4]), (UNROLLED PT_PROTO_GRE6, [ETHERNET, IPV6, GRE6])],
     [(UNROLLED PT_PROTO_MPLS, [ETHERNET, VLAN, MPLS_nlabels 1]), (UNROLLED PT_PROTO_VLAN, [ETHERNET, VLAN, VLAN, IPV6, TCP]), (UNROLLED PT_PROTO_ISID, [ETHERNET, ISID]), (UNROLLED PT_PROTO_PPPOE, [ETHERNET, VLAN, PPPOE]), (UNROLLED PT_PROTO_GRE4, [ETHERNET, IPV4_noptions 0, GRE4]), (UNROLLED PT_PROTO_GRE6, [ETHERNET, IPV6, GRE6])],
     [(UNROLLED PT_PROTO_MPLS, [IEEE8023, VLAN, MPLS_nlabels 1]), (UNROLLED PT_PROTO_VLAN, [IEEE8023, VLAN, VLAN, IPV6, TCP]), (UNROLLED PT_PROTO_ISID, [ETHERNET, ISID]), (UNROLLED PT_PROTO_PPPOE, [IEEE8023, VLAN, PPPOE]), (UNROLLED PT_PROTO_GRE4, [ETHERNET, IPV4_noptions 0, GRE4]), (UNROLLED PT_PROTO_GRE6, [ETHERNET, IPV6, GRE6])],
     [(UNROLLED PT_PROTO_MPLS, [ETHERNET, VLAN, VLAN, MPLS_nlabels 1]), (UNROLLED PT_PROTO_ISID, [ETHERNET, ISID]), (UNROLLED PT_PROTO_PPPOE, [ETHERNET, VLAN, VLAN, PPPOE]), (UNROLLED PT_PROTO_GRE4, [ETHERNET, IPV4_noptions 0, GRE4]), (UNROLLED PT_PROTO_GRE6, [ETHERNET, IPV6, GRE6])],
     [(UNROLLED PT_PROTO_MPLS, [IEEE8023, VLAN, VLAN, MPLS_nlabels 1]), (UNROLLED PT_PROTO_ISID, [ETHERNET, ISID]), (UNROLLED PT_PROTO_PPPOE, [IEEE8023, VLAN, VLAN, PPPOE]), (UNROLLED PT_PROTO_GRE4, [ETHERNET, IPV4_noptions 0, GRE4]), (UNROLLED PT_PROTO_GRE6, [ETHERNET, IPV6, GRE6])],
     [(UNROLLED PT_PROTO_MPLS, [ETHERNET, MPLS_nlabels 1]), (UNROLLED PT_PROTO_VLAN, [ETHERNET, VLAN, IPV6, UDP]), (UNROLLED PT_PROTO_ISID, [ETHERNET, ISID]), (UNROLLED PT_PROTO_PPPOE, [ETHERNET, PPPOE]), (UNROLLED PT_PROTO_GTPU4, [ETHERNET, IPV4_noptions 0, UDP, GTPU4]), (UNROLLED PT_PROTO_GTPU6, [ETHERNET, IPV6, UDP, GTPU6]), (UNROLLED PT_PROTO_GRE4, [ETHERNET, IPV4_noptions 0, GRE4]), (UNROLLED PT_PROTO_GRE6, [ETHERNET, IPV6, GRE6])],
     [],
     [],
     [(UNROLLED PT_PROTO_MPLS, [IEEE8023, MPLS_nlabels 1]), (UNROLLED PT_PROTO_VLAN, [IEEE8023, VLAN, IPV6, UDP]), (UNROLLED PT_PROTO_ISID, [ETHERNET, ISID]), (UNROLLED PT_PROTO_PPPOE, [IEEE8023, PPPOE]), (UNROLLED PT_PROTO_GTPU4, [IEEE8023, IPV4_noptions 0, UDP, GTPU4]), (UNROLLED PT_PROTO_GTPU6, [IEEE8023, IPV6, UDP, GTPU6]), (UNROLLED PT_PROTO_GRE4, [ETHERNET, IPV4_noptions 0, GRE4]), (UNROLLED PT_PROTO_GRE6, [ETHERNET, IPV6, GRE6])],
     [(UNROLLED PT_PROTO_MPLS, [ETHERNET, VLAN, MPLS_nlabels 1]), (UNROLLED PT_PROTO_VLAN, [ETHERNET, VLAN, VLAN, IPV6, UDP]), (UNROLLED PT_PROTO_ISID, [ETHERNET, ISID]), (UNROLLED PT_PROTO_PPPOE, [ETHERNET, VLAN, PPPOE]), (UNROLLED PT_PROTO_GRE4, [ETHERNET, IPV4_noptions 0, GRE4]), (UNROLLED PT_PROTO_GRE6, [ETHERNET, IPV6, GRE6])],
     [(UNROLLED PT_PROTO_MPLS, [IEEE8023, VLAN, MPLS_nlabels 1]), (UNROLLED PT_PROTO_VLAN, [IEEE8023, VLAN, VLAN, IPV6, UDP]), (UNROLLED PT_PROTO_ISID, [ETHERNET, ISID]), (UNROLLED PT_PROTO_PPPOE, [IEEE8023, VLAN, PPPOE]), (UNROLLED PT_PROTO_GRE4, [ETHERNET, IPV4_noptions 0, GRE4]), (UNROLLED PT_PROTO_GRE6, [ETHERNET, IPV6, GRE6])],
     [(UNROLLED PT_PROTO_MPLS, [ETHERNET, VLAN, VLAN, MPLS_nlabels 1]), (UNROLLED PT_PROTO_ISID, [ETHERNET, ISID]), (UNROLLED PT_PROTO_PPPOE, [ETHERNET, VLAN, VLAN, PPPOE]), (UNROLLED PT_PROTO_GRE4, [ETHERNET, IPV4_noptions 0, GRE4]), (UNROLLED PT_PROTO_GRE6, [ETHERNET, IPV6, GRE6])],
     [(UNROLLED PT_PROTO_MPLS, [IEEE8023, VLAN, VLAN, MPLS_nlabels 1]), (UNROLLED PT_PROTO_ISID, [ETHERNET, ISID]), (UNROLLED PT_PROTO_PPPOE, [IEEE8023, VLAN, VLAN, PPPOE]), (UNROLLED PT_PROTO_GRE4, [ETHERNET, IPV4_noptions 0, GRE4]), (UNROLLED PT_PROTO_GRE6, [ETHERNET, IPV6, GRE6])],
     [(UNROLLED PT_PROTO_MPLS, [ETHERNET, MPLS_nlabels 1]), (UNROLLED PT_PROTO_VLAN, [ETHERNET, VLAN, IPV6, UDP, GTPU6]), (UNROLLED PT_PROTO_ISID, [ETHERNET, ISID]), (UNROLLED PT_PROTO_PPPOE, [ETHERNET, PPPOE]), (UNROLLED PT_PROTO_GRE4, [ETHERNET, IPV4_noptions 0, GRE4]), (UNROLLED PT_PROTO_GRE6, [ETHERNET, IPV6, GRE6])],
     [],
     [],
     [(UNROLLED PT_PROTO_MPLS, [IEEE8023, MPLS_nlabels 1]), (UNROLLED PT_PROTO_VLAN, [IEEE8023, VLAN, IPV6, UDP, GTPU6]), (UNROLLED PT_PROTO_ISID, [ETHERNET, ISID]), (UNROLLED PT_PROTO_PPPOE, [IEEE8023, PPPOE]), (UNROLLED PT_PROTO_GRE4, [ETHERNET, IPV4_noptions 0, GRE4]), (UNROLLED PT_PROTO_GRE6, [ETHERNET, IPV6, GRE6])],
     [(UNROLLED PT_PROTO_MPLS, [ETHERNET, VLAN, MPLS_nlabels 1]), (UNROLLED PT_PROTO_VLAN, [ETHERNET, VLAN, VLAN, IPV6, UDP, GTPU6]), (UNROLLED PT_PROTO_ISID, [ETHERNET, ISID]), (UNROLLED PT_PROTO_PPPOE, [ETHERNET, VLAN, PPPOE]), (UNROLLED PT_PROTO_GRE4, [ETHERNET, IPV4_noptions 0, GRE4]), (UNROLLED PT_PROTO_GRE6, [ETHERNET, IPV6, GRE6])],
     [(UNROLLED PT_PROTO_MPLS, [IEEE8023, VLAN, MPLS_nlabels 1]), (UNROLLED PT_PROTO_VLAN, [IEEE8023, VLAN, VLAN, IPV6, UDP, GTPU6]), (UNROLLED PT_PROTO_ISID, [ETHERNET, ISID]), (UNROLLED PT_PROTO_PPPOE, [IEEE8023, VLAN, PPPOE]), (UNROLLED PT_PROTO_GRE4, [ETHERNET, IPV4_noptions 0, GRE4]), (UNROLLED PT_PROTO_GRE6, [ETHERNET, IPV6, GRE6])],
     [(UNROLLED PT_PROTO_MPLS, [ETHERNET, VLAN, VLAN, MPLS_nlabels 1]), (UNROLLED PT_PROTO_ISID, [ETHERNET, ISID]), (UNROLLED PT_PROTO_PPPOE, [ETHERNET, VLAN, VLAN, PPPOE]), (UNROLLED PT_PROTO_GRE4, [ETHERNET, IPV4_noptions 0, GRE4]), (UNROLLED PT_PROTO_GRE6, [ETHERNET, IPV6, GRE6])],
     [(UNROLLED PT_PROTO_MPLS, [IEEE8023, VLAN, VLAN, MPLS_nlabels 1]), (UNROLLED PT_PROTO_ISID, [ETHERNET, ISID]), (UNROLLED PT_PROTO_PPPOE, [IEEE8023, VLAN, VLAN, PPPOE]), (UNROLLED PT_PROTO_GRE4, [ETHERNET, IPV4_noptions 0, GRE4]), (UNROLLED PT_PROTO_GRE6, [ETHERNET, IPV6, GRE6])],
     [(UNROLLED PT_PROTO_MPLS, [ETHERNET, MPLS_nlabels 1]), (UNROLLED PT_PROTO_VLAN, [ETHERNET, VLAN, IPV6, SCTP]), (UNROLLED PT_PROTO_ISID, [ETHERNET, ISID]), (UNROLLED PT_PROTO_PPPOE, [ETHERNET, PPPOE]), (UNROLLED PT_PROTO_GTPU4, [ETHERNET, IPV4_noptions 0, UDP, GTPU4]), (UNROLLED PT_PROTO_GTPU6, [ETHERNET, IPV6, UDP, GTPU6]), (UNROLLED PT_PROTO_GRE4, [ETHERNET, IPV4_noptions 0, GRE4]), (UNROLLED PT_PROTO_GRE6, [ETHERNET, IPV6, GRE6])],
     [],
     [],
     [(UNROLLED PT_PROTO_MPLS, [IEEE8023, MPLS_nlabels 1]), (UNROLLED PT_PROTO_VLAN, [IEEE8023, VLAN, IPV6, SCTP]), (UNROLLED PT_PROTO_ISID, [ETHERNET, ISID]), (UNROLLED PT_PROTO_PPPOE, [IEEE8023, PPPOE]), (UNROLLED PT_PROTO_GTPU4, [IEEE8023, IPV4_noptions 0, UDP, GTPU4]), (UNROLLED PT_PROTO_GTPU6, [IEEE8023, IPV6, UDP, GTPU6]), (UNROLLED PT_PROTO_GRE4, [ETHERNET, IPV4_noptions 0, GRE4]), (UNROLLED PT_PROTO_GRE6, [ETHERNET, IPV6, GRE6])],
     [(UNROLLED PT_PROTO_MPLS, [ETHERNET, VLAN, MPLS_nlabels 1]), (UNROLLED PT_PROTO_VLAN, [ETHERNET, VLAN, VLAN, IPV6, SCTP]), (UNROLLED PT_PROTO_ISID, [ETHERNET, ISID]), (UNROLLED PT_PROTO_PPPOE, [ETHERNET, VLAN, PPPOE]), (UNROLLED PT_PROTO_GRE4, [ETHERNET, IPV4_noptions 0, GRE4]), (UNROLLED PT_PROTO_GRE6, [ETHERNET, IPV6, GRE6])],
     [(UNROLLED PT_PROTO_MPLS, [IEEE8023, VLAN, MPLS_nlabels 1]), (UNROLLED PT_PROTO_VLAN, [IEEE8023, VLAN, VLAN, IPV6, SCTP]), (UNROLLED PT_PROTO_ISID, [ETHERNET, ISID]), (UNROLLED PT_PROTO_PPPOE, [IEEE8023, VLAN, PPPOE]), (UNROLLED PT_PROTO_GRE4, [ETHERNET, IPV4_noptions 0, GRE4]), (UNROLLED PT_PROTO_GRE6, [ETHERNET, IPV6, GRE6])],
     [(UNROLLED PT_PROTO_MPLS, [ETHERNET, VLAN, VLAN, MPLS_nlabels 1]), (UNROLLED PT_PROTO_ISID, [ETHERNET, ISID]), (UNROLLED PT_PROTO_PPPOE, [ETHERNET, VLAN, VLAN, PPPOE]), (UNROLLED PT_PROTO_GRE4, [ETHERNET, IPV4_noptions 0, GRE4]), (UNROLLED PT_PROTO_GRE6, [ETHERNET, IPV6, GRE6])],
     [(UNROLLED PT_PROTO_MPLS, [IEEE8023, VLAN, VLAN, MPLS_nlabels 1]), (UNROLLED PT_PROTO_ISID, [ETHERNET, ISID]), (UNROLLED PT_PROTO_PPPOE, [IEEE8023, VLAN, VLAN, PPPOE]), (UNROLLED PT_PROTO_GRE4, [ETHERNET, IPV4_noptions 0, GRE4]), (UNROLLED PT_PROTO_GRE6, [ETHERNET, IPV6, GRE6])],
     [(UNROLLED PT_PROTO_MPLS, [ETHERNET, MPLS_nlabels 1]), (UNROLLED PT_PROTO_VLAN, [ETHERNET, VLAN, IPV6, GRE6]), (UNROLLED PT_PROTO_ISID, [ETHERNET, ISID]), (UNROLLED PT_PROTO_PPPOE, [ETHERNET, PPPOE]), (UNROLLED PT_PROTO_GTPU4, [ETHERNET, IPV4_noptions 0, UDP, GTPU4]), (UNROLLED PT_PROTO_GTPU6, [ETHERNET, IPV6, UDP, GTPU6])],
     [],
     [],
     [(UNROLLED PT_PROTO_MPLS, [IEEE8023, MPLS_nlabels 1]), (UNROLLED PT_PROTO_VLAN, [IEEE8023, VLAN, IPV6, GRE6]), (UNROLLED PT_PROTO_ISID, [ETHERNET, ISID]), (UNROLLED PT_PROTO_PPPOE, [IEEE8023, PPPOE]), (UNROLLED PT_PROTO_GTPU4, [IEEE8023, IPV4_noptions 0, UDP, GTPU4]), (UNROLLED PT_PROTO_GTPU6, [IEEE8023, IPV6, UDP, GTPU6])],
     [(UNROLLED PT_PROTO_MPLS, [ETHERNET, VLAN, MPLS_nlabels 1]), (UNROLLED PT_PROTO_VLAN, [ETHERNET, VLAN, VLAN, IPV6, GRE6]), (UNROLLED PT_PROTO_ISID, [ETHERNET, ISID]), (UNROLLED PT_PROTO_PPPOE, [ETHERNET, VLAN, PPPOE])],
     [(UNROLLED PT_PROTO_MPLS, [IEEE8023, VLAN, MPLS_nlabels 1]), (UNROLLED PT_PROTO_VLAN, [IEEE8023, VLAN, VLAN, IPV6, GRE6]), (UNROLLED PT_PROTO_ISID, [ETHERNET, ISID]), (UNROLLED PT_PROTO_PPPOE, [IEEE8023, VLAN, PPPOE])],
     [(UNROLLED PT_PROTO_MPLS, [ETHERNET, VLAN, VLAN, MPLS_nlabels 1]), (UNROLLED PT_PROTO_ISID, [ETHERNET, ISID]), (UNROLLED PT_PROTO_PPPOE, [ETHERNET, VLAN, VLAN, PPPOE])],
     [(UNROLLED PT_PROTO_MPLS, [IEEE8023, VLAN, VLAN, MPLS_nlabels 1]), (UNROLLED PT_PROTO_ISID, [ETHERNET, ISID]), (UNROLLED PT_PROTO_PPPOE, [IEEE8023, VLAN, VLAN, PPPOE])]]"

definition push_table :: "(unrolled \<times> pkt_type) list list" where
  "push_table =
     push_table_1 @ push_table_2 @ push_table_3 @ push_table_4 @ push_table_5 @ push_table_6 @ push_table_7 @ push_table_8 @ push_table_9"

text \<open>A row as a list of the valid entries.\<close>

definition entry :: "bool \<Rightarrow> protocol \<Rightarrow> pkt_type \<Rightarrow> (unrolled \<times> pkt_type) list" where
  "entry b p t = (if b then [(UNROLLED p, t)] else [])"

definition push_row :: "pkt_type \<Rightarrow> (unrolled \<times> pkt_type) list" where
  "push_row t =
     (if has t PT_PROTO_ISID then []
      else
        let n = mpls_num_of_labels t; l2 = l2_part t;
          tunnel = (IPV4_noptions 0 \<in> set t \<or> has t PT_PROTO_IPV6) \<and> \<not> has t PT_PROTO_VLAN \<and>
            \<not> has t PT_PROTO_GTPU4 \<and> \<not> has t PT_PROTO_GTPU6;
          gre = has t PT_PROTO_GRE4 \<or> has t PT_PROTO_GRE6
        in entry (has t PT_PROTO_MPLS \<longrightarrow> n + 1 < 32) PT_PROTO_MPLS
             (l2 @ [MPLS_nlabels (if has t PT_PROTO_MPLS then n + 1 else 1)]) @
           entry (length (filter ((=) VLAN) t) \<noteq> 2) PT_PROTO_VLAN (hd t # VLAN # tl t) @
           entry True PT_PROTO_ISID [ETHERNET, ISID] @
           entry (\<not> has t PT_PROTO_PPPOE \<and> \<not> has t PT_PROTO_MPLS) PT_PROTO_PPPOE (l2 @ [PPPOE]) @
           entry (has t PT_PROTO_PPPOE \<and> \<not> has t PT_PROTO_PPP) PT_PROTO_PPP (t @ [PPP]) @
           entry tunnel PT_PROTO_GTPU4 (l2 @ [IPV4_noptions 0, UDP, GTPU4]) @
           entry tunnel PT_PROTO_GTPU6 (l2 @ [IPV6, UDP, GTPU6]) @
           entry (\<not> gre) PT_PROTO_GRE4 [ETHERNET, IPV4_noptions 0, GRE4] @
           entry (\<not> gre) PT_PROTO_GRE6 [ETHERNET, IPV6, GRE6])"

lemma map_of_entry: "map_of (entry b p t @ xs) u = (if b \<and> u = UNROLLED p then Some t else map_of xs u)"
  "map_of (entry b p t) u = (if b \<and> u = UNROLLED p then Some t else None)"
  by (auto simp: entry_def)

lemma push_row: "map_of (push_row t) = push_transitions t"
proof
  fix u show "map_of (push_row t) u = push_transitions t u"
  proof (cases u)
    case (UNROLLED p)
    then show ?thesis
      by (cases p) (simp_all add: push_row_def push_transitions_def map_of_entry Let_def del: map_of_append)
  qed (simp add: push_row_def push_transitions_def map_of_entry Let_def del: map_of_append)
qed

lemma push_table_1_rows: "map push_row pt_enum_1 = push_table_1"
  by code_simp

lemma push_table_2_rows: "map push_row pt_enum_2 = push_table_2"
  by code_simp

lemma push_table_3_rows: "map push_row pt_enum_3 = push_table_3"
  by code_simp

lemma push_table_4_rows: "map push_row pt_enum_4 = push_table_4"
  by code_simp

lemma push_table_5_rows: "map push_row pt_enum_5 = push_table_5"
  by code_simp

lemma push_table_6_rows: "map push_row pt_enum_6 = push_table_6"
  by code_simp

lemma push_table_7_rows: "map push_row pt_enum_7 = push_table_7"
  by code_simp

lemma push_table_8_rows: "map push_row pt_enum_8 = push_table_8"
  by code_simp

lemma push_table_9_rows: "map push_row pt_enum_9 = push_table_9"
  by code_simp

lemma push_rows: "map push_row pt_enum = push_table"
  by (simp only: pt_enum_def push_table_def map_append push_table_1_rows push_table_2_rows push_table_3_rows push_table_4_rows push_table_5_rows push_table_6_rows push_table_7_rows push_table_8_rows push_table_9_rows)

lemma push_transitions_rows: "sparse_are push_transitions push_table"
  by (rule sparse_areI [OF push_rows push_row])

end
