(* ===== verification/Parse_Table.thy ===== *)
theory Parse_Table
  imports Type_Enum
begin

text \<open>
  The table \<open>parse_transitions\<close> of \<open>autogen_pkt_types.c\<close>, row by row (the entries that are not \<open>PT_INVALID\<close>), and that the
  definition \<open>parse_transitions\<close> has its values.
\<close>

definition parse_table_1 :: "(unrolled \<times> pkt_type) list list" where
  "parse_table_1 =
    [[(UNROLLED PT_PROTO_ISID, [ETHERNET, ISID]), (UNROLLED PT_PROTO_VLAN, [ETHERNET, VLAN]), (UNROLLED PT_PROTO_MPLS, [ETHERNET, MPLS_nlabels 1]), (UNROLLED PT_PROTO_PPPOE, [ETHERNET, PPPOE]), (UNROLLED PT_PROTO_ARPV4, [ETHERNET, ARPV4]), (UNROLLED_IPV4_noptions 0, [ETHERNET, IPV4_noptions 0]), (UNROLLED_IPV4_noptions 1, [ETHERNET, IPV4_noptions 1]), (UNROLLED_IPV4_noptions 2, [ETHERNET, IPV4_noptions 2]), (UNROLLED_IPV4_noptions 3, [ETHERNET, IPV4_noptions 3]), (UNROLLED_IPV4_noptions 4, [ETHERNET, IPV4_noptions 4]), (UNROLLED_IPV4_noptions 5, [ETHERNET, IPV4_noptions 5]), (UNROLLED_IPV4_noptions 6, [ETHERNET, IPV4_noptions 6]), (UNROLLED_IPV4_noptions 7, [ETHERNET, IPV4_noptions 7]), (UNROLLED_IPV4_noptions 8, [ETHERNET, IPV4_noptions 8]), (UNROLLED_IPV4_noptions 9, [ETHERNET, IPV4_noptions 9]), (UNROLLED_IPV4_noptions 10, [ETHERNET, IPV4_noptions 10]), (UNROLLED_IPV4_noptions 11, [ETHERNET, IPV4_noptions 11]), (UNROLLED_IPV4_noptions 12, [ETHERNET, IPV4_noptions 12]), (UNROLLED_IPV4_noptions 13, [ETHERNET, IPV4_noptions 13]), (UNROLLED_IPV4_noptions 14, [ETHERNET, IPV4_noptions 14]), (UNROLLED_IPV4_noptions 15, [ETHERNET, IPV4_noptions 15]), (UNROLLED PT_PROTO_IPV6, [ETHERNET, IPV6])],
     [(UNROLLED PT_PROTO_MPLS, [ETHERNET, ISID, MPLS_nlabels 1]), (UNROLLED PT_PROTO_PPPOE, [ETHERNET, ISID, PPPOE]), (UNROLLED PT_PROTO_ARPV4, [ETHERNET, ISID, ARPV4]), (UNROLLED_IPV4_noptions 0, [ETHERNET, ISID, IPV4_noptions 0]), (UNROLLED_IPV4_noptions 1, [ETHERNET, ISID, IPV4_noptions 1]), (UNROLLED_IPV4_noptions 2, [ETHERNET, ISID, IPV4_noptions 2]), (UNROLLED_IPV4_noptions 3, [ETHERNET, ISID, IPV4_noptions 3]), (UNROLLED_IPV4_noptions 4, [ETHERNET, ISID, IPV4_noptions 4]), (UNROLLED_IPV4_noptions 5, [ETHERNET, ISID, IPV4_noptions 5]), (UNROLLED_IPV4_noptions 6, [ETHERNET, ISID, IPV4_noptions 6]), (UNROLLED_IPV4_noptions 7, [ETHERNET, ISID, IPV4_noptions 7]), (UNROLLED_IPV4_noptions 8, [ETHERNET, ISID, IPV4_noptions 8]), (UNROLLED_IPV4_noptions 9, [ETHERNET, ISID, IPV4_noptions 9]), (UNROLLED_IPV4_noptions 10, [ETHERNET, ISID, IPV4_noptions 10]), (UNROLLED_IPV4_noptions 11, [ETHERNET, ISID, IPV4_noptions 11]), (UNROLLED_IPV4_noptions 12, [ETHERNET, ISID, IPV4_noptions 12]), (UNROLLED_IPV4_noptions 13, [ETHERNET, ISID, IPV4_noptions 13]), (UNROLLED_IPV4_noptions 14, [ETHERNET, ISID, IPV4_noptions 14]), (UNROLLED_IPV4_noptions 15, [ETHERNET, ISID, IPV4_noptions 15]), (UNROLLED PT_PROTO_IPV6, [ETHERNET, ISID, IPV6])],
     [(UNROLLED PT_PROTO_MPLS, [ETHERNET, VLAN, ISID, MPLS_nlabels 1]), (UNROLLED PT_PROTO_PPPOE, [ETHERNET, VLAN, ISID, PPPOE]), (UNROLLED PT_PROTO_ARPV4, [ETHERNET, VLAN, ISID, ARPV4]), (UNROLLED_IPV4_noptions 0, [ETHERNET, VLAN, ISID, IPV4_noptions 0]), (UNROLLED_IPV4_noptions 1, [ETHERNET, VLAN, ISID, IPV4_noptions 1]), (UNROLLED_IPV4_noptions 2, [ETHERNET, VLAN, ISID, IPV4_noptions 2]), (UNROLLED_IPV4_noptions 3, [ETHERNET, VLAN, ISID, IPV4_noptions 3]), (UNROLLED_IPV4_noptions 4, [ETHERNET, VLAN, ISID, IPV4_noptions 4]), (UNROLLED_IPV4_noptions 5, [ETHERNET, VLAN, ISID, IPV4_noptions 5]), (UNROLLED_IPV4_noptions 6, [ETHERNET, VLAN, ISID, IPV4_noptions 6]), (UNROLLED_IPV4_noptions 7, [ETHERNET, VLAN, ISID, IPV4_noptions 7]), (UNROLLED_IPV4_noptions 8, [ETHERNET, VLAN, ISID, IPV4_noptions 8]), (UNROLLED_IPV4_noptions 9, [ETHERNET, VLAN, ISID, IPV4_noptions 9]), (UNROLLED_IPV4_noptions 10, [ETHERNET, VLAN, ISID, IPV4_noptions 10]), (UNROLLED_IPV4_noptions 11, [ETHERNET, VLAN, ISID, IPV4_noptions 11]), (UNROLLED_IPV4_noptions 12, [ETHERNET, VLAN, ISID, IPV4_noptions 12]), (UNROLLED_IPV4_noptions 13, [ETHERNET, VLAN, ISID, IPV4_noptions 13]), (UNROLLED_IPV4_noptions 14, [ETHERNET, VLAN, ISID, IPV4_noptions 14]), (UNROLLED_IPV4_noptions 15, [ETHERNET, VLAN, ISID, IPV4_noptions 15]), (UNROLLED PT_PROTO_IPV6, [ETHERNET, VLAN, ISID, IPV6])],
     [(UNROLLED PT_PROTO_VLAN, [IEEE8023, VLAN]), (UNROLLED PT_PROTO_MPLS, [IEEE8023, MPLS_nlabels 1]), (UNROLLED PT_PROTO_PPPOE, [IEEE8023, PPPOE]), (UNROLLED PT_PROTO_ARPV4, [IEEE8023, ARPV4]), (UNROLLED_IPV4_noptions 0, [IEEE8023, IPV4_noptions 0]), (UNROLLED_IPV4_noptions 1, [IEEE8023, IPV4_noptions 1]), (UNROLLED_IPV4_noptions 2, [IEEE8023, IPV4_noptions 2]), (UNROLLED_IPV4_noptions 3, [IEEE8023, IPV4_noptions 3]), (UNROLLED_IPV4_noptions 4, [IEEE8023, IPV4_noptions 4]), (UNROLLED_IPV4_noptions 5, [IEEE8023, IPV4_noptions 5]), (UNROLLED_IPV4_noptions 6, [IEEE8023, IPV4_noptions 6]), (UNROLLED_IPV4_noptions 7, [IEEE8023, IPV4_noptions 7]), (UNROLLED_IPV4_noptions 8, [IEEE8023, IPV4_noptions 8]), (UNROLLED_IPV4_noptions 9, [IEEE8023, IPV4_noptions 9]), (UNROLLED_IPV4_noptions 10, [IEEE8023, IPV4_noptions 10]), (UNROLLED_IPV4_noptions 11, [IEEE8023, IPV4_noptions 11]), (UNROLLED_IPV4_noptions 12, [IEEE8023, IPV4_noptions 12]), (UNROLLED_IPV4_noptions 13, [IEEE8023, IPV4_noptions 13]), (UNROLLED_IPV4_noptions 14, [IEEE8023, IPV4_noptions 14]), (UNROLLED_IPV4_noptions 15, [IEEE8023, IPV4_noptions 15]), (UNROLLED PT_PROTO_IPV6, [IEEE8023, IPV6])],
     [(UNROLLED PT_PROTO_ISID, [ETHERNET, VLAN, ISID]), (UNROLLED PT_PROTO_VLAN, [ETHERNET, VLAN, VLAN]), (UNROLLED PT_PROTO_MPLS, [ETHERNET, VLAN, MPLS_nlabels 1]), (UNROLLED PT_PROTO_PPPOE, [ETHERNET, VLAN, PPPOE]), (UNROLLED PT_PROTO_ARPV4, [ETHERNET, VLAN, ARPV4]), (UNROLLED_IPV4_noptions 0, [ETHERNET, VLAN, IPV4_noptions 0]), (UNROLLED_IPV4_noptions 1, [ETHERNET, VLAN, IPV4_noptions 1]), (UNROLLED_IPV4_noptions 2, [ETHERNET, VLAN, IPV4_noptions 2]), (UNROLLED_IPV4_noptions 3, [ETHERNET, VLAN, IPV4_noptions 3]), (UNROLLED_IPV4_noptions 4, [ETHERNET, VLAN, IPV4_noptions 4]), (UNROLLED_IPV4_noptions 5, [ETHERNET, VLAN, IPV4_noptions 5]), (UNROLLED_IPV4_noptions 6, [ETHERNET, VLAN, IPV4_noptions 6]), (UNROLLED_IPV4_noptions 7, [ETHERNET, VLAN, IPV4_noptions 7]), (UNROLLED_IPV4_noptions 8, [ETHERNET, VLAN, IPV4_noptions 8]), (UNROLLED_IPV4_noptions 9, [ETHERNET, VLAN, IPV4_noptions 9]), (UNROLLED_IPV4_noptions 10, [ETHERNET, VLAN, IPV4_noptions 10]), (UNROLLED_IPV4_noptions 11, [ETHERNET, VLAN, IPV4_noptions 11]), (UNROLLED_IPV4_noptions 12, [ETHERNET, VLAN, IPV4_noptions 12]), (UNROLLED_IPV4_noptions 13, [ETHERNET, VLAN, IPV4_noptions 13]), (UNROLLED_IPV4_noptions 14, [ETHERNET, VLAN, IPV4_noptions 14]), (UNROLLED_IPV4_noptions 15, [ETHERNET, VLAN, IPV4_noptions 15]), (UNROLLED PT_PROTO_IPV6, [ETHERNET, VLAN, IPV6])],
     [(UNROLLED PT_PROTO_VLAN, [IEEE8023, VLAN, VLAN]), (UNROLLED PT_PROTO_MPLS, [IEEE8023, VLAN, MPLS_nlabels 1]), (UNROLLED PT_PROTO_PPPOE, [IEEE8023, VLAN, PPPOE]), (UNROLLED PT_PROTO_ARPV4, [IEEE8023, VLAN, ARPV4]), (UNROLLED_IPV4_noptions 0, [IEEE8023, VLAN, IPV4_noptions 0]), (UNROLLED_IPV4_noptions 1, [IEEE8023, VLAN, IPV4_noptions 1]), (UNROLLED_IPV4_noptions 2, [IEEE8023, VLAN, IPV4_noptions 2]), (UNROLLED_IPV4_noptions 3, [IEEE8023, VLAN, IPV4_noptions 3]), (UNROLLED_IPV4_noptions 4, [IEEE8023, VLAN, IPV4_noptions 4]), (UNROLLED_IPV4_noptions 5, [IEEE8023, VLAN, IPV4_noptions 5]), (UNROLLED_IPV4_noptions 6, [IEEE8023, VLAN, IPV4_noptions 6]), (UNROLLED_IPV4_noptions 7, [IEEE8023, VLAN, IPV4_noptions 7]), (UNROLLED_IPV4_noptions 8, [IEEE8023, VLAN, IPV4_noptions 8]), (UNROLLED_IPV4_noptions 9, [IEEE8023, VLAN, IPV4_noptions 9]), (UNROLLED_IPV4_noptions 10, [IEEE8023, VLAN, IPV4_noptions 10]), (UNROLLED_IPV4_noptions 11, [IEEE8023, VLAN, IPV4_noptions 11]), (UNROLLED_IPV4_noptions 12, [IEEE8023, VLAN, IPV4_noptions 12]), (UNROLLED_IPV4_noptions 13, [IEEE8023, VLAN, IPV4_noptions 13]), (UNROLLED_IPV4_noptions 14, [IEEE8023, VLAN, IPV4_noptions 14]), (UNROLLED_IPV4_noptions 15, [IEEE8023, VLAN, IPV4_noptions 15]), (UNROLLED PT_PROTO_IPV6, [IEEE8023, VLAN, IPV6])],
     [(UNROLLED PT_PROTO_MPLS, [ETHERNET, VLAN, VLAN, MPLS_nlabels 1]), (UNROLLED PT_PROTO_PPPOE, [ETHERNET, VLAN, VLAN, PPPOE]), (UNROLLED PT_PROTO_ARPV4, [ETHERNET, VLAN, VLAN, ARPV4]), (UNROLLED_IPV4_noptions 0, [ETHERNET, VLAN, VLAN, IPV4_noptions 0]), (UNROLLED_IPV4_noptions 1, [ETHERNET, VLAN, VLAN, IPV4_noptions 1]), (UNROLLED_IPV4_noptions 2, [ETHERNET, VLAN, VLAN, IPV4_noptions 2]), (UNROLLED_IPV4_noptions 3, [ETHERNET, VLAN, VLAN, IPV4_noptions 3]), (UNROLLED_IPV4_noptions 4, [ETHERNET, VLAN, VLAN, IPV4_noptions 4]), (UNROLLED_IPV4_noptions 5, [ETHERNET, VLAN, VLAN, IPV4_noptions 5]), (UNROLLED_IPV4_noptions 6, [ETHERNET, VLAN, VLAN, IPV4_noptions 6]), (UNROLLED_IPV4_noptions 7, [ETHERNET, VLAN, VLAN, IPV4_noptions 7]), (UNROLLED_IPV4_noptions 8, [ETHERNET, VLAN, VLAN, IPV4_noptions 8]), (UNROLLED_IPV4_noptions 9, [ETHERNET, VLAN, VLAN, IPV4_noptions 9]), (UNROLLED_IPV4_noptions 10, [ETHERNET, VLAN, VLAN, IPV4_noptions 10]), (UNROLLED_IPV4_noptions 11, [ETHERNET, VLAN, VLAN, IPV4_noptions 11]), (UNROLLED_IPV4_noptions 12, [ETHERNET, VLAN, VLAN, IPV4_noptions 12]), (UNROLLED_IPV4_noptions 13, [ETHERNET, VLAN, VLAN, IPV4_noptions 13]), (UNROLLED_IPV4_noptions 14, [ETHERNET, VLAN, VLAN, IPV4_noptions 14]), (UNROLLED_IPV4_noptions 15, [ETHERNET, VLAN, VLAN, IPV4_noptions 15]), (UNROLLED PT_PROTO_IPV6, [ETHERNET, VLAN, VLAN, IPV6])],
     [(UNROLLED PT_PROTO_MPLS, [IEEE8023, VLAN, VLAN, MPLS_nlabels 1]), (UNROLLED PT_PROTO_PPPOE, [IEEE8023, VLAN, VLAN, PPPOE]), (UNROLLED PT_PROTO_ARPV4, [IEEE8023, VLAN, VLAN, ARPV4]), (UNROLLED_IPV4_noptions 0, [IEEE8023, VLAN, VLAN, IPV4_noptions 0]), (UNROLLED_IPV4_noptions 1, [IEEE8023, VLAN, VLAN, IPV4_noptions 1]), (UNROLLED_IPV4_noptions 2, [IEEE8023, VLAN, VLAN, IPV4_noptions 2]), (UNROLLED_IPV4_noptions 3, [IEEE8023, VLAN, VLAN, IPV4_noptions 3]), (UNROLLED_IPV4_noptions 4, [IEEE8023, VLAN, VLAN, IPV4_noptions 4]), (UNROLLED_IPV4_noptions 5, [IEEE8023, VLAN, VLAN, IPV4_noptions 5]), (UNROLLED_IPV4_noptions 6, [IEEE8023, VLAN, VLAN, IPV4_noptions 6]), (UNROLLED_IPV4_noptions 7, [IEEE8023, VLAN, VLAN, IPV4_noptions 7]), (UNROLLED_IPV4_noptions 8, [IEEE8023, VLAN, VLAN, IPV4_noptions 8]), (UNROLLED_IPV4_noptions 9, [IEEE8023, VLAN, VLAN, IPV4_noptions 9]), (UNROLLED_IPV4_noptions 10, [IEEE8023, VLAN, VLAN, IPV4_noptions 10]), (UNROLLED_IPV4_noptions 11, [IEEE8023, VLAN, VLAN, IPV4_noptions 11]), (UNROLLED_IPV4_noptions 12, [IEEE8023, VLAN, VLAN, IPV4_noptions 12]), (UNROLLED_IPV4_noptions 13, [IEEE8023, VLAN, VLAN, IPV4_noptions 13]), (UNROLLED_IPV4_noptions 14, [IEEE8023, VLAN, VLAN, IPV4_noptions 14]), (UNROLLED_IPV4_noptions 15, [IEEE8023, VLAN, VLAN, IPV4_noptions 15]), (UNROLLED PT_PROTO_IPV6, [IEEE8023, VLAN, VLAN, IPV6])],
     [(UNROLLED PT_PROTO_MPLS, [ETHERNET, MPLS_nlabels 2])],
     [(UNROLLED PT_PROTO_MPLS, [ETHERNET, MPLS_nlabels 3])],
     [(UNROLLED PT_PROTO_MPLS, [ETHERNET, MPLS_nlabels 4])],
     [(UNROLLED PT_PROTO_MPLS, [ETHERNET, MPLS_nlabels 5])],
     [(UNROLLED PT_PROTO_MPLS, [ETHERNET, MPLS_nlabels 6])],
     [(UNROLLED PT_PROTO_MPLS, [ETHERNET, MPLS_nlabels 7])],
     [(UNROLLED PT_PROTO_MPLS, [ETHERNET, MPLS_nlabels 8])],
     [(UNROLLED PT_PROTO_MPLS, [ETHERNET, MPLS_nlabels 9])],
     [(UNROLLED PT_PROTO_MPLS, [ETHERNET, MPLS_nlabels 10])],
     [(UNROLLED PT_PROTO_MPLS, [ETHERNET, MPLS_nlabels 11])],
     [(UNROLLED PT_PROTO_MPLS, [ETHERNET, MPLS_nlabels 12])],
     [(UNROLLED PT_PROTO_MPLS, [ETHERNET, MPLS_nlabels 13])],
     [(UNROLLED PT_PROTO_MPLS, [ETHERNET, MPLS_nlabels 14])],
     [(UNROLLED PT_PROTO_MPLS, [ETHERNET, MPLS_nlabels 15])],
     [(UNROLLED PT_PROTO_MPLS, [ETHERNET, MPLS_nlabels 16])],
     [(UNROLLED PT_PROTO_MPLS, [ETHERNET, MPLS_nlabels 17])],
     [(UNROLLED PT_PROTO_MPLS, [ETHERNET, MPLS_nlabels 18])],
     [(UNROLLED PT_PROTO_MPLS, [ETHERNET, MPLS_nlabels 19])],
     [(UNROLLED PT_PROTO_MPLS, [ETHERNET, MPLS_nlabels 20])],
     [(UNROLLED PT_PROTO_MPLS, [ETHERNET, MPLS_nlabels 21])],
     [(UNROLLED PT_PROTO_MPLS, [ETHERNET, MPLS_nlabels 22])],
     [(UNROLLED PT_PROTO_MPLS, [ETHERNET, MPLS_nlabels 23])],
     [(UNROLLED PT_PROTO_MPLS, [ETHERNET, MPLS_nlabels 24])],
     [(UNROLLED PT_PROTO_MPLS, [ETHERNET, MPLS_nlabels 25])],
     [(UNROLLED PT_PROTO_MPLS, [ETHERNET, MPLS_nlabels 26])],
     [(UNROLLED PT_PROTO_MPLS, [ETHERNET, MPLS_nlabels 27])],
     [(UNROLLED PT_PROTO_MPLS, [ETHERNET, MPLS_nlabels 28])],
     [(UNROLLED PT_PROTO_MPLS, [ETHERNET, MPLS_nlabels 29])],
     [(UNROLLED PT_PROTO_MPLS, [ETHERNET, MPLS_nlabels 30])],
     [(UNROLLED PT_PROTO_MPLS, [ETHERNET, MPLS_nlabels 31])],
     [(UNROLLED PT_PROTO_MPLS, [ETHERNET, MPLS_nlabels 32])],
     [],
     [(UNROLLED PT_PROTO_MPLS, [ETHERNET, ISID, MPLS_nlabels 2])],
     [(UNROLLED PT_PROTO_MPLS, [ETHERNET, ISID, MPLS_nlabels 3])],
     [(UNROLLED PT_PROTO_MPLS, [ETHERNET, ISID, MPLS_nlabels 4])],
     [(UNROLLED PT_PROTO_MPLS, [ETHERNET, ISID, MPLS_nlabels 5])],
     [(UNROLLED PT_PROTO_MPLS, [ETHERNET, ISID, MPLS_nlabels 6])],
     [(UNROLLED PT_PROTO_MPLS, [ETHERNET, ISID, MPLS_nlabels 7])],
     [(UNROLLED PT_PROTO_MPLS, [ETHERNET, ISID, MPLS_nlabels 8])],
     [(UNROLLED PT_PROTO_MPLS, [ETHERNET, ISID, MPLS_nlabels 9])],
     [(UNROLLED PT_PROTO_MPLS, [ETHERNET, ISID, MPLS_nlabels 10])],
     [(UNROLLED PT_PROTO_MPLS, [ETHERNET, ISID, MPLS_nlabels 11])],
     [(UNROLLED PT_PROTO_MPLS, [ETHERNET, ISID, MPLS_nlabels 12])],
     [(UNROLLED PT_PROTO_MPLS, [ETHERNET, ISID, MPLS_nlabels 13])],
     [(UNROLLED PT_PROTO_MPLS, [ETHERNET, ISID, MPLS_nlabels 14])],
     [(UNROLLED PT_PROTO_MPLS, [ETHERNET, ISID, MPLS_nlabels 15])],
     [(UNROLLED PT_PROTO_MPLS, [ETHERNET, ISID, MPLS_nlabels 16])],
     [(UNROLLED PT_PROTO_MPLS, [ETHERNET, ISID, MPLS_nlabels 17])],
     [(UNROLLED PT_PROTO_MPLS, [ETHERNET, ISID, MPLS_nlabels 18])],
     [(UNROLLED PT_PROTO_MPLS, [ETHERNET, ISID, MPLS_nlabels 19])],
     [(UNROLLED PT_PROTO_MPLS, [ETHERNET, ISID, MPLS_nlabels 20])],
     [(UNROLLED PT_PROTO_MPLS, [ETHERNET, ISID, MPLS_nlabels 21])],
     [(UNROLLED PT_PROTO_MPLS, [ETHERNET, ISID, MPLS_nlabels 22])],
     [(UNROLLED PT_PROTO_MPLS, [ETHERNET, ISID, MPLS_nlabels 23])],
     [(UNROLLED PT_PROTO_MPLS, [ETHERNET, ISID, MPLS_nlabels 24])],
     [(UNROLLED PT_PROTO_MPLS, [ETHERNET, ISID, MPLS_nlabels 25])],
     [(UNROLLED PT_PROTO_MPLS, [ETHERNET, ISID, MPLS_nlabels 26])],
     [(UNROLLED PT_PROTO_MPLS, [ETHERNET, ISID, MPLS_nlabels 27])],
     [(UNROLLED PT_PROTO_MPLS, [ETHERNET, ISID, MPLS_nlabels 28])],
     [(UNROLLED PT_PROTO_MPLS, [ETHERNET, ISID, MPLS_nlabels 29])],
     [(UNROLLED PT_PROTO_MPLS, [ETHERNET, ISID, MPLS_nlabels 30])],
     [(UNROLLED PT_PROTO_MPLS, [ETHERNET, ISID, MPLS_nlabels 31])],
     [(UNROLLED PT_PROTO_MPLS, [ETHERNET, ISID, MPLS_nlabels 32])],
     [],
     [(UNROLLED PT_PROTO_MPLS, [ETHERNET, VLAN, ISID, MPLS_nlabels 2])],
     [(UNROLLED PT_PROTO_MPLS, [ETHERNET, VLAN, ISID, MPLS_nlabels 3])],
     [(UNROLLED PT_PROTO_MPLS, [ETHERNET, VLAN, ISID, MPLS_nlabels 4])],
     [(UNROLLED PT_PROTO_MPLS, [ETHERNET, VLAN, ISID, MPLS_nlabels 5])],
     [(UNROLLED PT_PROTO_MPLS, [ETHERNET, VLAN, ISID, MPLS_nlabels 6])],
     [(UNROLLED PT_PROTO_MPLS, [ETHERNET, VLAN, ISID, MPLS_nlabels 7])],
     [(UNROLLED PT_PROTO_MPLS, [ETHERNET, VLAN, ISID, MPLS_nlabels 8])],
     [(UNROLLED PT_PROTO_MPLS, [ETHERNET, VLAN, ISID, MPLS_nlabels 9])],
     [(UNROLLED PT_PROTO_MPLS, [ETHERNET, VLAN, ISID, MPLS_nlabels 10])],
     [(UNROLLED PT_PROTO_MPLS, [ETHERNET, VLAN, ISID, MPLS_nlabels 11])],
     [(UNROLLED PT_PROTO_MPLS, [ETHERNET, VLAN, ISID, MPLS_nlabels 12])],
     [(UNROLLED PT_PROTO_MPLS, [ETHERNET, VLAN, ISID, MPLS_nlabels 13])],
     [(UNROLLED PT_PROTO_MPLS, [ETHERNET, VLAN, ISID, MPLS_nlabels 14])],
     [(UNROLLED PT_PROTO_MPLS, [ETHERNET, VLAN, ISID, MPLS_nlabels 15])],
     [(UNROLLED PT_PROTO_MPLS, [ETHERNET, VLAN, ISID, MPLS_nlabels 16])],
     [(UNROLLED PT_PROTO_MPLS, [ETHERNET, VLAN, ISID, MPLS_nlabels 17])],
     [(UNROLLED PT_PROTO_MPLS, [ETHERNET, VLAN, ISID, MPLS_nlabels 18])],
     [(UNROLLED PT_PROTO_MPLS, [ETHERNET, VLAN, ISID, MPLS_nlabels 19])],
     [(UNROLLED PT_PROTO_MPLS, [ETHERNET, VLAN, ISID, MPLS_nlabels 20])],
     [(UNROLLED PT_PROTO_MPLS, [ETHERNET, VLAN, ISID, MPLS_nlabels 21])],
     [(UNROLLED PT_PROTO_MPLS, [ETHERNET, VLAN, ISID, MPLS_nlabels 22])],
     [(UNROLLED PT_PROTO_MPLS, [ETHERNET, VLAN, ISID, MPLS_nlabels 23])],
     [(UNROLLED PT_PROTO_MPLS, [ETHERNET, VLAN, ISID, MPLS_nlabels 24])],
     [(UNROLLED PT_PROTO_MPLS, [ETHERNET, VLAN, ISID, MPLS_nlabels 25])],
     [(UNROLLED PT_PROTO_MPLS, [ETHERNET, VLAN, ISID, MPLS_nlabels 26])],
     [(UNROLLED PT_PROTO_MPLS, [ETHERNET, VLAN, ISID, MPLS_nlabels 27])],
     [(UNROLLED PT_PROTO_MPLS, [ETHERNET, VLAN, ISID, MPLS_nlabels 28])],
     [(UNROLLED PT_PROTO_MPLS, [ETHERNET, VLAN, ISID, MPLS_nlabels 29])],
     [(UNROLLED PT_PROTO_MPLS, [ETHERNET, VLAN, ISID, MPLS_nlabels 30])],
     [(UNROLLED PT_PROTO_MPLS, [ETHERNET, VLAN, ISID, MPLS_nlabels 31])],
     [(UNROLLED PT_PROTO_MPLS, [ETHERNET, VLAN, ISID, MPLS_nlabels 32])],
     [],
     [(UNROLLED PT_PROTO_MPLS, [IEEE8023, MPLS_nlabels 2])],
     [(UNROLLED PT_PROTO_MPLS, [IEEE8023, MPLS_nlabels 3])],
     [(UNROLLED PT_PROTO_MPLS, [IEEE8023, MPLS_nlabels 4])],
     [(UNROLLED PT_PROTO_MPLS, [IEEE8023, MPLS_nlabels 5])],
     [(UNROLLED PT_PROTO_MPLS, [IEEE8023, MPLS_nlabels 6])],
     [(UNROLLED PT_PROTO_MPLS, [IEEE8023, MPLS_nlabels 7])],
     [(UNROLLED PT_PROTO_MPLS, [IEEE8023, MPLS_nlabels 8])],
     [(UNROLLED PT_PROTO_MPLS, [IEEE8023, MPLS_nlabels 9])],
     [(UNROLLED PT_PROTO_MPLS, [IEEE8023, MPLS_nlabels 10])],
     [(UNROLLED PT_PROTO_MPLS, [IEEE8023, MPLS_nlabels 11])],
     [(UNROLLED PT_PROTO_MPLS, [IEEE8023, MPLS_nlabels 12])],
     [(UNROLLED PT_PROTO_MPLS, [IEEE8023, MPLS_nlabels 13])],
     [(UNROLLED PT_PROTO_MPLS, [IEEE8023, MPLS_nlabels 14])],
     [(UNROLLED PT_PROTO_MPLS, [IEEE8023, MPLS_nlabels 15])],
     [(UNROLLED PT_PROTO_MPLS, [IEEE8023, MPLS_nlabels 16])],
     [(UNROLLED PT_PROTO_MPLS, [IEEE8023, MPLS_nlabels 17])],
     [(UNROLLED PT_PROTO_MPLS, [IEEE8023, MPLS_nlabels 18])],
     [(UNROLLED PT_PROTO_MPLS, [IEEE8023, MPLS_nlabels 19])],
     [(UNROLLED PT_PROTO_MPLS, [IEEE8023, MPLS_nlabels 20])],
     [(UNROLLED PT_PROTO_MPLS, [IEEE8023, MPLS_nlabels 21])],
     [(UNROLLED PT_PROTO_MPLS, [IEEE8023, MPLS_nlabels 22])],
     [(UNROLLED PT_PROTO_MPLS, [IEEE8023, MPLS_nlabels 23])],
     [(UNROLLED PT_PROTO_MPLS, [IEEE8023, MPLS_nlabels 24])],
     [(UNROLLED PT_PROTO_MPLS, [IEEE8023, MPLS_nlabels 25])],
     [(UNROLLED PT_PROTO_MPLS, [IEEE8023, MPLS_nlabels 26])],
     [(UNROLLED PT_PROTO_MPLS, [IEEE8023, MPLS_nlabels 27])],
     [(UNROLLED PT_PROTO_MPLS, [IEEE8023, MPLS_nlabels 28])],
     [(UNROLLED PT_PROTO_MPLS, [IEEE8023, MPLS_nlabels 29])],
     [(UNROLLED PT_PROTO_MPLS, [IEEE8023, MPLS_nlabels 30])],
     [(UNROLLED PT_PROTO_MPLS, [IEEE8023, MPLS_nlabels 31])],
     [(UNROLLED PT_PROTO_MPLS, [IEEE8023, MPLS_nlabels 32])],
     [],
     [(UNROLLED PT_PROTO_MPLS, [ETHERNET, VLAN, MPLS_nlabels 2])],
     [(UNROLLED PT_PROTO_MPLS, [ETHERNET, VLAN, MPLS_nlabels 3])],
     [(UNROLLED PT_PROTO_MPLS, [ETHERNET, VLAN, MPLS_nlabels 4])],
     [(UNROLLED PT_PROTO_MPLS, [ETHERNET, VLAN, MPLS_nlabels 5])],
     [(UNROLLED PT_PROTO_MPLS, [ETHERNET, VLAN, MPLS_nlabels 6])],
     [(UNROLLED PT_PROTO_MPLS, [ETHERNET, VLAN, MPLS_nlabels 7])],
     [(UNROLLED PT_PROTO_MPLS, [ETHERNET, VLAN, MPLS_nlabels 8])],
     [(UNROLLED PT_PROTO_MPLS, [ETHERNET, VLAN, MPLS_nlabels 9])],
     [(UNROLLED PT_PROTO_MPLS, [ETHERNET, VLAN, MPLS_nlabels 10])],
     [(UNROLLED PT_PROTO_MPLS, [ETHERNET, VLAN, MPLS_nlabels 11])],
     [(UNROLLED PT_PROTO_MPLS, [ETHERNET, VLAN, MPLS_nlabels 12])],
     [(UNROLLED PT_PROTO_MPLS, [ETHERNET, VLAN, MPLS_nlabels 13])],
     [(UNROLLED PT_PROTO_MPLS, [ETHERNET, VLAN, MPLS_nlabels 14])],
     [(UNROLLED PT_PROTO_MPLS, [ETHERNET, VLAN, MPLS_nlabels 15])]]"

definition parse_table_2 :: "(unrolled \<times> pkt_type) list list" where
  "parse_table_2 =
    [[(UNROLLED PT_PROTO_MPLS, [ETHERNET, VLAN, MPLS_nlabels 16])],
     [(UNROLLED PT_PROTO_MPLS, [ETHERNET, VLAN, MPLS_nlabels 17])],
     [(UNROLLED PT_PROTO_MPLS, [ETHERNET, VLAN, MPLS_nlabels 18])],
     [(UNROLLED PT_PROTO_MPLS, [ETHERNET, VLAN, MPLS_nlabels 19])],
     [(UNROLLED PT_PROTO_MPLS, [ETHERNET, VLAN, MPLS_nlabels 20])],
     [(UNROLLED PT_PROTO_MPLS, [ETHERNET, VLAN, MPLS_nlabels 21])],
     [(UNROLLED PT_PROTO_MPLS, [ETHERNET, VLAN, MPLS_nlabels 22])],
     [(UNROLLED PT_PROTO_MPLS, [ETHERNET, VLAN, MPLS_nlabels 23])],
     [(UNROLLED PT_PROTO_MPLS, [ETHERNET, VLAN, MPLS_nlabels 24])],
     [(UNROLLED PT_PROTO_MPLS, [ETHERNET, VLAN, MPLS_nlabels 25])],
     [(UNROLLED PT_PROTO_MPLS, [ETHERNET, VLAN, MPLS_nlabels 26])],
     [(UNROLLED PT_PROTO_MPLS, [ETHERNET, VLAN, MPLS_nlabels 27])],
     [(UNROLLED PT_PROTO_MPLS, [ETHERNET, VLAN, MPLS_nlabels 28])],
     [(UNROLLED PT_PROTO_MPLS, [ETHERNET, VLAN, MPLS_nlabels 29])],
     [(UNROLLED PT_PROTO_MPLS, [ETHERNET, VLAN, MPLS_nlabels 30])],
     [(UNROLLED PT_PROTO_MPLS, [ETHERNET, VLAN, MPLS_nlabels 31])],
     [(UNROLLED PT_PROTO_MPLS, [ETHERNET, VLAN, MPLS_nlabels 32])],
     [],
     [(UNROLLED PT_PROTO_MPLS, [IEEE8023, VLAN, MPLS_nlabels 2])],
     [(UNROLLED PT_PROTO_MPLS, [IEEE8023, VLAN, MPLS_nlabels 3])],
     [(UNROLLED PT_PROTO_MPLS, [IEEE8023, VLAN, MPLS_nlabels 4])],
     [(UNROLLED PT_PROTO_MPLS, [IEEE8023, VLAN, MPLS_nlabels 5])],
     [(UNROLLED PT_PROTO_MPLS, [IEEE8023, VLAN, MPLS_nlabels 6])],
     [(UNROLLED PT_PROTO_MPLS, [IEEE8023, VLAN, MPLS_nlabels 7])],
     [(UNROLLED PT_PROTO_MPLS, [IEEE8023, VLAN, MPLS_nlabels 8])],
     [(UNROLLED PT_PROTO_MPLS, [IEEE8023, VLAN, MPLS_nlabels 9])],
     [(UNROLLED PT_PROTO_MPLS, [IEEE8023, VLAN, MPLS_nlabels 10])],
     [(UNROLLED PT_PROTO_MPLS, [IEEE8023, VLAN, MPLS_nlabels 11])],
     [(UNROLLED PT_PROTO_MPLS, [IEEE8023, VLAN, MPLS_nlabels 12])],
     [(UNROLLED PT_PROTO_MPLS, [IEEE8023, VLAN, MPLS_nlabels 13])],
     [(UNROLLED PT_PROTO_MPLS, [IEEE8023, VLAN, MPLS_nlabels 14])],
     [(UNROLLED PT_PROTO_MPLS, [IEEE8023, VLAN, MPLS_nlabels 15])],
     [(UNROLLED PT_PROTO_MPLS, [IEEE8023, VLAN, MPLS_nlabels 16])],
     [(UNROLLED PT_PROTO_MPLS, [IEEE8023, VLAN, MPLS_nlabels 17])],
     [(UNROLLED PT_PROTO_MPLS, [IEEE8023, VLAN, MPLS_nlabels 18])],
     [(UNROLLED PT_PROTO_MPLS, [IEEE8023, VLAN, MPLS_nlabels 19])],
     [(UNROLLED PT_PROTO_MPLS, [IEEE8023, VLAN, MPLS_nlabels 20])],
     [(UNROLLED PT_PROTO_MPLS, [IEEE8023, VLAN, MPLS_nlabels 21])],
     [(UNROLLED PT_PROTO_MPLS, [IEEE8023, VLAN, MPLS_nlabels 22])],
     [(UNROLLED PT_PROTO_MPLS, [IEEE8023, VLAN, MPLS_nlabels 23])],
     [(UNROLLED PT_PROTO_MPLS, [IEEE8023, VLAN, MPLS_nlabels 24])],
     [(UNROLLED PT_PROTO_MPLS, [IEEE8023, VLAN, MPLS_nlabels 25])],
     [(UNROLLED PT_PROTO_MPLS, [IEEE8023, VLAN, MPLS_nlabels 26])],
     [(UNROLLED PT_PROTO_MPLS, [IEEE8023, VLAN, MPLS_nlabels 27])],
     [(UNROLLED PT_PROTO_MPLS, [IEEE8023, VLAN, MPLS_nlabels 28])],
     [(UNROLLED PT_PROTO_MPLS, [IEEE8023, VLAN, MPLS_nlabels 29])],
     [(UNROLLED PT_PROTO_MPLS, [IEEE8023, VLAN, MPLS_nlabels 30])],
     [(UNROLLED PT_PROTO_MPLS, [IEEE8023, VLAN, MPLS_nlabels 31])],
     [(UNROLLED PT_PROTO_MPLS, [IEEE8023, VLAN, MPLS_nlabels 32])],
     [],
     [(UNROLLED PT_PROTO_MPLS, [ETHERNET, VLAN, VLAN, MPLS_nlabels 2])],
     [(UNROLLED PT_PROTO_MPLS, [ETHERNET, VLAN, VLAN, MPLS_nlabels 3])],
     [(UNROLLED PT_PROTO_MPLS, [ETHERNET, VLAN, VLAN, MPLS_nlabels 4])],
     [(UNROLLED PT_PROTO_MPLS, [ETHERNET, VLAN, VLAN, MPLS_nlabels 5])],
     [(UNROLLED PT_PROTO_MPLS, [ETHERNET, VLAN, VLAN, MPLS_nlabels 6])],
     [(UNROLLED PT_PROTO_MPLS, [ETHERNET, VLAN, VLAN, MPLS_nlabels 7])],
     [(UNROLLED PT_PROTO_MPLS, [ETHERNET, VLAN, VLAN, MPLS_nlabels 8])],
     [(UNROLLED PT_PROTO_MPLS, [ETHERNET, VLAN, VLAN, MPLS_nlabels 9])],
     [(UNROLLED PT_PROTO_MPLS, [ETHERNET, VLAN, VLAN, MPLS_nlabels 10])],
     [(UNROLLED PT_PROTO_MPLS, [ETHERNET, VLAN, VLAN, MPLS_nlabels 11])],
     [(UNROLLED PT_PROTO_MPLS, [ETHERNET, VLAN, VLAN, MPLS_nlabels 12])],
     [(UNROLLED PT_PROTO_MPLS, [ETHERNET, VLAN, VLAN, MPLS_nlabels 13])],
     [(UNROLLED PT_PROTO_MPLS, [ETHERNET, VLAN, VLAN, MPLS_nlabels 14])],
     [(UNROLLED PT_PROTO_MPLS, [ETHERNET, VLAN, VLAN, MPLS_nlabels 15])],
     [(UNROLLED PT_PROTO_MPLS, [ETHERNET, VLAN, VLAN, MPLS_nlabels 16])],
     [(UNROLLED PT_PROTO_MPLS, [ETHERNET, VLAN, VLAN, MPLS_nlabels 17])],
     [(UNROLLED PT_PROTO_MPLS, [ETHERNET, VLAN, VLAN, MPLS_nlabels 18])],
     [(UNROLLED PT_PROTO_MPLS, [ETHERNET, VLAN, VLAN, MPLS_nlabels 19])],
     [(UNROLLED PT_PROTO_MPLS, [ETHERNET, VLAN, VLAN, MPLS_nlabels 20])],
     [(UNROLLED PT_PROTO_MPLS, [ETHERNET, VLAN, VLAN, MPLS_nlabels 21])],
     [(UNROLLED PT_PROTO_MPLS, [ETHERNET, VLAN, VLAN, MPLS_nlabels 22])],
     [(UNROLLED PT_PROTO_MPLS, [ETHERNET, VLAN, VLAN, MPLS_nlabels 23])],
     [(UNROLLED PT_PROTO_MPLS, [ETHERNET, VLAN, VLAN, MPLS_nlabels 24])],
     [(UNROLLED PT_PROTO_MPLS, [ETHERNET, VLAN, VLAN, MPLS_nlabels 25])],
     [(UNROLLED PT_PROTO_MPLS, [ETHERNET, VLAN, VLAN, MPLS_nlabels 26])],
     [(UNROLLED PT_PROTO_MPLS, [ETHERNET, VLAN, VLAN, MPLS_nlabels 27])],
     [(UNROLLED PT_PROTO_MPLS, [ETHERNET, VLAN, VLAN, MPLS_nlabels 28])],
     [(UNROLLED PT_PROTO_MPLS, [ETHERNET, VLAN, VLAN, MPLS_nlabels 29])],
     [(UNROLLED PT_PROTO_MPLS, [ETHERNET, VLAN, VLAN, MPLS_nlabels 30])],
     [(UNROLLED PT_PROTO_MPLS, [ETHERNET, VLAN, VLAN, MPLS_nlabels 31])],
     [(UNROLLED PT_PROTO_MPLS, [ETHERNET, VLAN, VLAN, MPLS_nlabels 32])],
     [],
     [(UNROLLED PT_PROTO_MPLS, [IEEE8023, VLAN, VLAN, MPLS_nlabels 2])],
     [(UNROLLED PT_PROTO_MPLS, [IEEE8023, VLAN, VLAN, MPLS_nlabels 3])],
     [(UNROLLED PT_PROTO_MPLS, [IEEE8023, VLAN, VLAN, MPLS_nlabels 4])],
     [(UNROLLED PT_PROTO_MPLS, [IEEE8023, VLAN, VLAN, MPLS_nlabels 5])],
     [(UNROLLED PT_PROTO_MPLS, [IEEE8023, VLAN, VLAN, MPLS_nlabels 6])],
     [(UNROLLED PT_PROTO_MPLS, [IEEE8023, VLAN, VLAN, MPLS_nlabels 7])],
     [(UNROLLED PT_PROTO_MPLS, [IEEE8023, VLAN, VLAN, MPLS_nlabels 8])],
     [(UNROLLED PT_PROTO_MPLS, [IEEE8023, VLAN, VLAN, MPLS_nlabels 9])],
     [(UNROLLED PT_PROTO_MPLS, [IEEE8023, VLAN, VLAN, MPLS_nlabels 10])],
     [(UNROLLED PT_PROTO_MPLS, [IEEE8023, VLAN, VLAN, MPLS_nlabels 11])],
     [(UNROLLED PT_PROTO_MPLS, [IEEE8023, VLAN, VLAN, MPLS_nlabels 12])],
     [(UNROLLED PT_PROTO_MPLS, [IEEE8023, VLAN, VLAN, MPLS_nlabels 13])],
     [(UNROLLED PT_PROTO_MPLS, [IEEE8023, VLAN, VLAN, MPLS_nlabels 14])],
     [(UNROLLED PT_PROTO_MPLS, [IEEE8023, VLAN, VLAN, MPLS_nlabels 15])],
     [(UNROLLED PT_PROTO_MPLS, [IEEE8023, VLAN, VLAN, MPLS_nlabels 16])],
     [(UNROLLED PT_PROTO_MPLS, [IEEE8023, VLAN, VLAN, MPLS_nlabels 17])],
     [(UNROLLED PT_PROTO_MPLS, [IEEE8023, VLAN, VLAN, MPLS_nlabels 18])],
     [(UNROLLED PT_PROTO_MPLS, [IEEE8023, VLAN, VLAN, MPLS_nlabels 19])],
     [(UNROLLED PT_PROTO_MPLS, [IEEE8023, VLAN, VLAN, MPLS_nlabels 20])],
     [(UNROLLED PT_PROTO_MPLS, [IEEE8023, VLAN, VLAN, MPLS_nlabels 21])],
     [(UNROLLED PT_PROTO_MPLS, [IEEE8023, VLAN, VLAN, MPLS_nlabels 22])],
     [(UNROLLED PT_PROTO_MPLS, [IEEE8023, VLAN, VLAN, MPLS_nlabels 23])],
     [(UNROLLED PT_PROTO_MPLS, [IEEE8023, VLAN, VLAN, MPLS_nlabels 24])],
     [(UNROLLED PT_PROTO_MPLS, [IEEE8023, VLAN, VLAN, MPLS_nlabels 25])],
     [(UNROLLED PT_PROTO_MPLS, [IEEE8023, VLAN, VLAN, MPLS_nlabels 26])],
     [(UNROLLED PT_PROTO_MPLS, [IEEE8023, VLAN, VLAN, MPLS_nlabels 27])],
     [(UNROLLED PT_PROTO_MPLS, [IEEE8023, VLAN, VLAN, MPLS_nlabels 28])],
     [(UNROLLED PT_PROTO_MPLS, [IEEE8023, VLAN, VLAN, MPLS_nlabels 29])],
     [(UNROLLED PT_PROTO_MPLS, [IEEE8023, VLAN, VLAN, MPLS_nlabels 30])],
     [(UNROLLED PT_PROTO_MPLS, [IEEE8023, VLAN, VLAN, MPLS_nlabels 31])],
     [(UNROLLED PT_PROTO_MPLS, [IEEE8023, VLAN, VLAN, MPLS_nlabels 32])],
     [],
     [(UNROLLED PT_PROTO_PPP, [ETHERNET, PPPOE, PPP])],
     [(UNROLLED PT_PROTO_PPP, [ETHERNET, ISID, PPPOE, PPP])],
     [(UNROLLED PT_PROTO_PPP, [ETHERNET, VLAN, ISID, PPPOE, PPP])],
     [(UNROLLED PT_PROTO_PPP, [IEEE8023, PPPOE, PPP])],
     [(UNROLLED PT_PROTO_PPP, [ETHERNET, VLAN, PPPOE, PPP])],
     [(UNROLLED PT_PROTO_PPP, [IEEE8023, VLAN, PPPOE, PPP])],
     [(UNROLLED PT_PROTO_PPP, [ETHERNET, VLAN, VLAN, PPPOE, PPP])],
     [(UNROLLED PT_PROTO_PPP, [IEEE8023, VLAN, VLAN, PPPOE, PPP])],
     [],
     [],
     [],
     [],
     [],
     [],
     [],
     [],
     [],
     [],
     [],
     [],
     [],
     [],
     [],
     [],
     [(UNROLLED PT_PROTO_ICMPV4, [ETHERNET, IPV4_noptions 0, ICMPV4]), (UNROLLED PT_PROTO_TCP, [ETHERNET, IPV4_noptions 0, TCP]), (UNROLLED PT_PROTO_UDP, [ETHERNET, IPV4_noptions 0, UDP]), (UNROLLED PT_PROTO_SCTP, [ETHERNET, IPV4_noptions 0, SCTP]), (UNROLLED PT_PROTO_GRE4, [ETHERNET, IPV4_noptions 0, GRE4])],
     [(UNROLLED PT_PROTO_ICMPV4, [ETHERNET, IPV4_noptions 1, ICMPV4]), (UNROLLED PT_PROTO_TCP, [ETHERNET, IPV4_noptions 1, TCP]), (UNROLLED PT_PROTO_UDP, [ETHERNET, IPV4_noptions 1, UDP]), (UNROLLED PT_PROTO_SCTP, [ETHERNET, IPV4_noptions 1, SCTP]), (UNROLLED PT_PROTO_GRE4, [ETHERNET, IPV4_noptions 1, GRE4])],
     [(UNROLLED PT_PROTO_ICMPV4, [ETHERNET, IPV4_noptions 2, ICMPV4]), (UNROLLED PT_PROTO_TCP, [ETHERNET, IPV4_noptions 2, TCP]), (UNROLLED PT_PROTO_UDP, [ETHERNET, IPV4_noptions 2, UDP]), (UNROLLED PT_PROTO_SCTP, [ETHERNET, IPV4_noptions 2, SCTP]), (UNROLLED PT_PROTO_GRE4, [ETHERNET, IPV4_noptions 2, GRE4])],
     [(UNROLLED PT_PROTO_ICMPV4, [ETHERNET, IPV4_noptions 3, ICMPV4]), (UNROLLED PT_PROTO_TCP, [ETHERNET, IPV4_noptions 3, TCP]), (UNROLLED PT_PROTO_UDP, [ETHERNET, IPV4_noptions 3, UDP]), (UNROLLED PT_PROTO_SCTP, [ETHERNET, IPV4_noptions 3, SCTP]), (UNROLLED PT_PROTO_GRE4, [ETHERNET, IPV4_noptions 3, GRE4])],
     [(UNROLLED PT_PROTO_ICMPV4, [ETHERNET, IPV4_noptions 4, ICMPV4]), (UNROLLED PT_PROTO_TCP, [ETHERNET, IPV4_noptions 4, TCP]), (UNROLLED PT_PROTO_UDP, [ETHERNET, IPV4_noptions 4, UDP]), (UNROLLED PT_PROTO_SCTP, [ETHERNET, IPV4_noptions 4, SCTP]), (UNROLLED PT_PROTO_GRE4, [ETHERNET, IPV4_noptions 4, GRE4])],
     [(UNROLLED PT_PROTO_ICMPV4, [ETHERNET, IPV4_noptions 5, ICMPV4]), (UNROLLED PT_PROTO_TCP, [ETHERNET, IPV4_noptions 5, TCP]), (UNROLLED PT_PROTO_UDP, [ETHERNET, IPV4_noptions 5, UDP]), (UNROLLED PT_PROTO_SCTP, [ETHERNET, IPV4_noptions 5, SCTP]), (UNROLLED PT_PROTO_GRE4, [ETHERNET, IPV4_noptions 5, GRE4])],
     [(UNROLLED PT_PROTO_ICMPV4, [ETHERNET, IPV4_noptions 6, ICMPV4]), (UNROLLED PT_PROTO_TCP, [ETHERNET, IPV4_noptions 6, TCP]), (UNROLLED PT_PROTO_UDP, [ETHERNET, IPV4_noptions 6, UDP]), (UNROLLED PT_PROTO_SCTP, [ETHERNET, IPV4_noptions 6, SCTP]), (UNROLLED PT_PROTO_GRE4, [ETHERNET, IPV4_noptions 6, GRE4])],
     [(UNROLLED PT_PROTO_ICMPV4, [ETHERNET, IPV4_noptions 7, ICMPV4]), (UNROLLED PT_PROTO_TCP, [ETHERNET, IPV4_noptions 7, TCP]), (UNROLLED PT_PROTO_UDP, [ETHERNET, IPV4_noptions 7, UDP]), (UNROLLED PT_PROTO_SCTP, [ETHERNET, IPV4_noptions 7, SCTP]), (UNROLLED PT_PROTO_GRE4, [ETHERNET, IPV4_noptions 7, GRE4])],
     [(UNROLLED PT_PROTO_ICMPV4, [ETHERNET, IPV4_noptions 8, ICMPV4]), (UNROLLED PT_PROTO_TCP, [ETHERNET, IPV4_noptions 8, TCP]), (UNROLLED PT_PROTO_UDP, [ETHERNET, IPV4_noptions 8, UDP]), (UNROLLED PT_PROTO_SCTP, [ETHERNET, IPV4_noptions 8, SCTP]), (UNROLLED PT_PROTO_GRE4, [ETHERNET, IPV4_noptions 8, GRE4])],
     [(UNROLLED PT_PROTO_ICMPV4, [ETHERNET, IPV4_noptions 9, ICMPV4]), (UNROLLED PT_PROTO_TCP, [ETHERNET, IPV4_noptions 9, TCP]), (UNROLLED PT_PROTO_UDP, [ETHERNET, IPV4_noptions 9, UDP]), (UNROLLED PT_PROTO_SCTP, [ETHERNET, IPV4_noptions 9, SCTP]), (UNROLLED PT_PROTO_GRE4, [ETHERNET, IPV4_noptions 9, GRE4])],
     [(UNROLLED PT_PROTO_ICMPV4, [ETHERNET, IPV4_noptions 10, ICMPV4]), (UNROLLED PT_PROTO_TCP, [ETHERNET, IPV4_noptions 10, TCP]), (UNROLLED PT_PROTO_UDP, [ETHERNET, IPV4_noptions 10, UDP]), (UNROLLED PT_PROTO_SCTP, [ETHERNET, IPV4_noptions 10, SCTP]), (UNROLLED PT_PROTO_GRE4, [ETHERNET, IPV4_noptions 10, GRE4])],
     [(UNROLLED PT_PROTO_ICMPV4, [ETHERNET, IPV4_noptions 11, ICMPV4]), (UNROLLED PT_PROTO_TCP, [ETHERNET, IPV4_noptions 11, TCP]), (UNROLLED PT_PROTO_UDP, [ETHERNET, IPV4_noptions 11, UDP]), (UNROLLED PT_PROTO_SCTP, [ETHERNET, IPV4_noptions 11, SCTP]), (UNROLLED PT_PROTO_GRE4, [ETHERNET, IPV4_noptions 11, GRE4])]]"

definition parse_table_3 :: "(unrolled \<times> pkt_type) list list" where
  "parse_table_3 =
    [[(UNROLLED PT_PROTO_ICMPV4, [ETHERNET, IPV4_noptions 12, ICMPV4]), (UNROLLED PT_PROTO_TCP, [ETHERNET, IPV4_noptions 12, TCP]), (UNROLLED PT_PROTO_UDP, [ETHERNET, IPV4_noptions 12, UDP]), (UNROLLED PT_PROTO_SCTP, [ETHERNET, IPV4_noptions 12, SCTP]), (UNROLLED PT_PROTO_GRE4, [ETHERNET, IPV4_noptions 12, GRE4])],
     [(UNROLLED PT_PROTO_ICMPV4, [ETHERNET, IPV4_noptions 13, ICMPV4]), (UNROLLED PT_PROTO_TCP, [ETHERNET, IPV4_noptions 13, TCP]), (UNROLLED PT_PROTO_UDP, [ETHERNET, IPV4_noptions 13, UDP]), (UNROLLED PT_PROTO_SCTP, [ETHERNET, IPV4_noptions 13, SCTP]), (UNROLLED PT_PROTO_GRE4, [ETHERNET, IPV4_noptions 13, GRE4])],
     [(UNROLLED PT_PROTO_ICMPV4, [ETHERNET, IPV4_noptions 14, ICMPV4]), (UNROLLED PT_PROTO_TCP, [ETHERNET, IPV4_noptions 14, TCP]), (UNROLLED PT_PROTO_UDP, [ETHERNET, IPV4_noptions 14, UDP]), (UNROLLED PT_PROTO_SCTP, [ETHERNET, IPV4_noptions 14, SCTP]), (UNROLLED PT_PROTO_GRE4, [ETHERNET, IPV4_noptions 14, GRE4])],
     [(UNROLLED PT_PROTO_ICMPV4, [ETHERNET, IPV4_noptions 15, ICMPV4]), (UNROLLED PT_PROTO_TCP, [ETHERNET, IPV4_noptions 15, TCP]), (UNROLLED PT_PROTO_UDP, [ETHERNET, IPV4_noptions 15, UDP]), (UNROLLED PT_PROTO_SCTP, [ETHERNET, IPV4_noptions 15, SCTP]), (UNROLLED PT_PROTO_GRE4, [ETHERNET, IPV4_noptions 15, GRE4])],
     [(UNROLLED PT_PROTO_ICMPV4, [ETHERNET, ISID, IPV4_noptions 0, ICMPV4]), (UNROLLED PT_PROTO_TCP, [ETHERNET, ISID, IPV4_noptions 0, TCP]), (UNROLLED PT_PROTO_UDP, [ETHERNET, ISID, IPV4_noptions 0, UDP]), (UNROLLED PT_PROTO_SCTP, [ETHERNET, ISID, IPV4_noptions 0, SCTP]), (UNROLLED PT_PROTO_GRE4, [ETHERNET, ISID, IPV4_noptions 0, GRE4])],
     [(UNROLLED PT_PROTO_ICMPV4, [ETHERNET, ISID, IPV4_noptions 1, ICMPV4]), (UNROLLED PT_PROTO_TCP, [ETHERNET, ISID, IPV4_noptions 1, TCP]), (UNROLLED PT_PROTO_UDP, [ETHERNET, ISID, IPV4_noptions 1, UDP]), (UNROLLED PT_PROTO_SCTP, [ETHERNET, ISID, IPV4_noptions 1, SCTP]), (UNROLLED PT_PROTO_GRE4, [ETHERNET, ISID, IPV4_noptions 1, GRE4])],
     [(UNROLLED PT_PROTO_ICMPV4, [ETHERNET, ISID, IPV4_noptions 2, ICMPV4]), (UNROLLED PT_PROTO_TCP, [ETHERNET, ISID, IPV4_noptions 2, TCP]), (UNROLLED PT_PROTO_UDP, [ETHERNET, ISID, IPV4_noptions 2, UDP]), (UNROLLED PT_PROTO_SCTP, [ETHERNET, ISID, IPV4_noptions 2, SCTP]), (UNROLLED PT_PROTO_GRE4, [ETHERNET, ISID, IPV4_noptions 2, GRE4])],
     [(UNROLLED PT_PROTO_ICMPV4, [ETHERNET, ISID, IPV4_noptions 3, ICMPV4]), (UNROLLED PT_PROTO_TCP, [ETHERNET, ISID, IPV4_noptions 3, TCP]), (UNROLLED PT_PROTO_UDP, [ETHERNET, ISID, IPV4_noptions 3, UDP]), (UNROLLED PT_PROTO_SCTP, [ETHERNET, ISID, IPV4_noptions 3, SCTP]), (UNROLLED PT_PROTO_GRE4, [ETHERNET, ISID, IPV4_noptions 3, GRE4])],
     [(UNROLLED PT_PROTO_ICMPV4, [ETHERNET, ISID, IPV4_noptions 4, ICMPV4]), (UNROLLED PT_PROTO_TCP, [ETHERNET, ISID, IPV4_noptions 4, TCP]), (UNROLLED PT_PROTO_UDP, [ETHERNET, ISID, IPV4_noptions 4, UDP]), (UNROLLED PT_PROTO_SCTP, [ETHERNET, ISID, IPV4_noptions 4, SCTP]), (UNROLLED PT_PROTO_GRE4, [ETHERNET, ISID, IPV4_noptions 4, GRE4])],
     [(UNROLLED PT_PROTO_ICMPV4, [ETHERNET, ISID, IPV4_noptions 5, ICMPV4]), (UNROLLED PT_PROTO_TCP, [ETHERNET, ISID, IPV4_noptions 5, TCP]), (UNROLLED PT_PROTO_UDP, [ETHERNET, ISID, IPV4_noptions 5, UDP]), (UNROLLED PT_PROTO_SCTP, [ETHERNET, ISID, IPV4_noptions 5, SCTP]), (UNROLLED PT_PROTO_GRE4, [ETHERNET, ISID, IPV4_noptions 5, GRE4])],
     [(UNROLLED PT_PROTO_ICMPV4, [ETHERNET, ISID, IPV4_noptions 6, ICMPV4]), (UNROLLED PT_PROTO_TCP, [ETHERNET, ISID, IPV4_noptions 6, TCP]), (UNROLLED PT_PROTO_UDP, [ETHERNET, ISID, IPV4_noptions 6, UDP]), (UNROLLED PT_PROTO_SCTP, [ETHERNET, ISID, IPV4_noptions 6, SCTP]), (UNROLLED PT_PROTO_GRE4, [ETHERNET, ISID, IPV4_noptions 6, GRE4])],
     [(UNROLLED PT_PROTO_ICMPV4, [ETHERNET, ISID, IPV4_noptions 7, ICMPV4]), (UNROLLED PT_PROTO_TCP, [ETHERNET, ISID, IPV4_noptions 7, TCP]), (UNROLLED PT_PROTO_UDP, [ETHERNET, ISID, IPV4_noptions 7, UDP]), (UNROLLED PT_PROTO_SCTP, [ETHERNET, ISID, IPV4_noptions 7, SCTP]), (UNROLLED PT_PROTO_GRE4, [ETHERNET, ISID, IPV4_noptions 7, GRE4])],
     [(UNROLLED PT_PROTO_ICMPV4, [ETHERNET, ISID, IPV4_noptions 8, ICMPV4]), (UNROLLED PT_PROTO_TCP, [ETHERNET, ISID, IPV4_noptions 8, TCP]), (UNROLLED PT_PROTO_UDP, [ETHERNET, ISID, IPV4_noptions 8, UDP]), (UNROLLED PT_PROTO_SCTP, [ETHERNET, ISID, IPV4_noptions 8, SCTP]), (UNROLLED PT_PROTO_GRE4, [ETHERNET, ISID, IPV4_noptions 8, GRE4])],
     [(UNROLLED PT_PROTO_ICMPV4, [ETHERNET, ISID, IPV4_noptions 9, ICMPV4]), (UNROLLED PT_PROTO_TCP, [ETHERNET, ISID, IPV4_noptions 9, TCP]), (UNROLLED PT_PROTO_UDP, [ETHERNET, ISID, IPV4_noptions 9, UDP]), (UNROLLED PT_PROTO_SCTP, [ETHERNET, ISID, IPV4_noptions 9, SCTP]), (UNROLLED PT_PROTO_GRE4, [ETHERNET, ISID, IPV4_noptions 9, GRE4])],
     [(UNROLLED PT_PROTO_ICMPV4, [ETHERNET, ISID, IPV4_noptions 10, ICMPV4]), (UNROLLED PT_PROTO_TCP, [ETHERNET, ISID, IPV4_noptions 10, TCP]), (UNROLLED PT_PROTO_UDP, [ETHERNET, ISID, IPV4_noptions 10, UDP]), (UNROLLED PT_PROTO_SCTP, [ETHERNET, ISID, IPV4_noptions 10, SCTP]), (UNROLLED PT_PROTO_GRE4, [ETHERNET, ISID, IPV4_noptions 10, GRE4])],
     [(UNROLLED PT_PROTO_ICMPV4, [ETHERNET, ISID, IPV4_noptions 11, ICMPV4]), (UNROLLED PT_PROTO_TCP, [ETHERNET, ISID, IPV4_noptions 11, TCP]), (UNROLLED PT_PROTO_UDP, [ETHERNET, ISID, IPV4_noptions 11, UDP]), (UNROLLED PT_PROTO_SCTP, [ETHERNET, ISID, IPV4_noptions 11, SCTP]), (UNROLLED PT_PROTO_GRE4, [ETHERNET, ISID, IPV4_noptions 11, GRE4])],
     [(UNROLLED PT_PROTO_ICMPV4, [ETHERNET, ISID, IPV4_noptions 12, ICMPV4]), (UNROLLED PT_PROTO_TCP, [ETHERNET, ISID, IPV4_noptions 12, TCP]), (UNROLLED PT_PROTO_UDP, [ETHERNET, ISID, IPV4_noptions 12, UDP]), (UNROLLED PT_PROTO_SCTP, [ETHERNET, ISID, IPV4_noptions 12, SCTP]), (UNROLLED PT_PROTO_GRE4, [ETHERNET, ISID, IPV4_noptions 12, GRE4])],
     [(UNROLLED PT_PROTO_ICMPV4, [ETHERNET, ISID, IPV4_noptions 13, ICMPV4]), (UNROLLED PT_PROTO_TCP, [ETHERNET, ISID, IPV4_noptions 13, TCP]), (UNROLLED PT_PROTO_UDP, [ETHERNET, ISID, IPV4_noptions 13, UDP]), (UNROLLED PT_PROTO_SCTP, [ETHERNET, ISID, IPV4_noptions 13, SCTP]), (UNROLLED PT_PROTO_GRE4, [ETHERNET, ISID, IPV4_noptions 13, GRE4])],
     [(UNROLLED PT_PROTO_ICMPV4, [ETHERNET, ISID, IPV4_noptions 14, ICMPV4]), (UNROLLED PT_PROTO_TCP, [ETHERNET, ISID, IPV4_noptions 14, TCP]), (UNROLLED PT_PROTO_UDP, [ETHERNET, ISID, IPV4_noptions 14, UDP]), (UNROLLED PT_PROTO_SCTP, [ETHERNET, ISID, IPV4_noptions 14, SCTP]), (UNROLLED PT_PROTO_GRE4, [ETHERNET, ISID, IPV4_noptions 14, GRE4])],
     [(UNROLLED PT_PROTO_ICMPV4, [ETHERNET, ISID, IPV4_noptions 15, ICMPV4]), (UNROLLED PT_PROTO_TCP, [ETHERNET, ISID, IPV4_noptions 15, TCP]), (UNROLLED PT_PROTO_UDP, [ETHERNET, ISID, IPV4_noptions 15, UDP]), (UNROLLED PT_PROTO_SCTP, [ETHERNET, ISID, IPV4_noptions 15, SCTP]), (UNROLLED PT_PROTO_GRE4, [ETHERNET, ISID, IPV4_noptions 15, GRE4])],
     [(UNROLLED PT_PROTO_ICMPV4, [ETHERNET, VLAN, ISID, IPV4_noptions 0, ICMPV4]), (UNROLLED PT_PROTO_TCP, [ETHERNET, VLAN, ISID, IPV4_noptions 0, TCP]), (UNROLLED PT_PROTO_UDP, [ETHERNET, VLAN, ISID, IPV4_noptions 0, UDP]), (UNROLLED PT_PROTO_SCTP, [ETHERNET, VLAN, ISID, IPV4_noptions 0, SCTP]), (UNROLLED PT_PROTO_GRE4, [ETHERNET, VLAN, ISID, IPV4_noptions 0, GRE4])],
     [(UNROLLED PT_PROTO_ICMPV4, [ETHERNET, VLAN, ISID, IPV4_noptions 1, ICMPV4]), (UNROLLED PT_PROTO_TCP, [ETHERNET, VLAN, ISID, IPV4_noptions 1, TCP]), (UNROLLED PT_PROTO_UDP, [ETHERNET, VLAN, ISID, IPV4_noptions 1, UDP]), (UNROLLED PT_PROTO_SCTP, [ETHERNET, VLAN, ISID, IPV4_noptions 1, SCTP]), (UNROLLED PT_PROTO_GRE4, [ETHERNET, VLAN, ISID, IPV4_noptions 1, GRE4])],
     [(UNROLLED PT_PROTO_ICMPV4, [ETHERNET, VLAN, ISID, IPV4_noptions 2, ICMPV4]), (UNROLLED PT_PROTO_TCP, [ETHERNET, VLAN, ISID, IPV4_noptions 2, TCP]), (UNROLLED PT_PROTO_UDP, [ETHERNET, VLAN, ISID, IPV4_noptions 2, UDP]), (UNROLLED PT_PROTO_SCTP, [ETHERNET, VLAN, ISID, IPV4_noptions 2, SCTP]), (UNROLLED PT_PROTO_GRE4, [ETHERNET, VLAN, ISID, IPV4_noptions 2, GRE4])],
     [(UNROLLED PT_PROTO_ICMPV4, [ETHERNET, VLAN, ISID, IPV4_noptions 3, ICMPV4]), (UNROLLED PT_PROTO_TCP, [ETHERNET, VLAN, ISID, IPV4_noptions 3, TCP]), (UNROLLED PT_PROTO_UDP, [ETHERNET, VLAN, ISID, IPV4_noptions 3, UDP]), (UNROLLED PT_PROTO_SCTP, [ETHERNET, VLAN, ISID, IPV4_noptions 3, SCTP]), (UNROLLED PT_PROTO_GRE4, [ETHERNET, VLAN, ISID, IPV4_noptions 3, GRE4])],
     [(UNROLLED PT_PROTO_ICMPV4, [ETHERNET, VLAN, ISID, IPV4_noptions 4, ICMPV4]), (UNROLLED PT_PROTO_TCP, [ETHERNET, VLAN, ISID, IPV4_noptions 4, TCP]), (UNROLLED PT_PROTO_UDP, [ETHERNET, VLAN, ISID, IPV4_noptions 4, UDP]), (UNROLLED PT_PROTO_SCTP, [ETHERNET, VLAN, ISID, IPV4_noptions 4, SCTP]), (UNROLLED PT_PROTO_GRE4, [ETHERNET, VLAN, ISID, IPV4_noptions 4, GRE4])],
     [(UNROLLED PT_PROTO_ICMPV4, [ETHERNET, VLAN, ISID, IPV4_noptions 5, ICMPV4]), (UNROLLED PT_PROTO_TCP, [ETHERNET, VLAN, ISID, IPV4_noptions 5, TCP]), (UNROLLED PT_PROTO_UDP, [ETHERNET, VLAN, ISID, IPV4_noptions 5, UDP]), (UNROLLED PT_PROTO_SCTP, [ETHERNET, VLAN, ISID, IPV4_noptions 5, SCTP]), (UNROLLED PT_PROTO_GRE4, [ETHERNET, VLAN, ISID, IPV4_noptions 5, GRE4])],
     [(UNROLLED PT_PROTO_ICMPV4, [ETHERNET, VLAN, ISID, IPV4_noptions 6, ICMPV4]), (UNROLLED PT_PROTO_TCP, [ETHERNET, VLAN, ISID, IPV4_noptions 6, TCP]), (UNROLLED PT_PROTO_UDP, [ETHERNET, VLAN, ISID, IPV4_noptions 6, UDP]), (UNROLLED PT_PROTO_SCTP, [ETHERNET, VLAN, ISID, IPV4_noptions 6, SCTP]), (UNROLLED PT_PROTO_GRE4, [ETHERNET, VLAN, ISID, IPV4_noptions 6, GRE4])],
     [(UNROLLED PT_PROTO_ICMPV4, [ETHERNET, VLAN, ISID, IPV4_noptions 7, ICMPV4]), (UNROLLED PT_PROTO_TCP, [ETHERNET, VLAN, ISID, IPV4_noptions 7, TCP]), (UNROLLED PT_PROTO_UDP, [ETHERNET, VLAN, ISID, IPV4_noptions 7, UDP]), (UNROLLED PT_PROTO_SCTP, [ETHERNET, VLAN, ISID, IPV4_noptions 7, SCTP]), (UNROLLED PT_PROTO_GRE4, [ETHERNET, VLAN, ISID, IPV4_noptions 7, GRE4])],
     [(UNROLLED PT_PROTO_ICMPV4, [ETHERNET, VLAN, ISID, IPV4_noptions 8, ICMPV4]), (UNROLLED PT_PROTO_TCP, [ETHERNET, VLAN, ISID, IPV4_noptions 8, TCP]), (UNROLLED PT_PROTO_UDP, [ETHERNET, VLAN, ISID, IPV4_noptions 8, UDP]), (UNROLLED PT_PROTO_SCTP, [ETHERNET, VLAN, ISID, IPV4_noptions 8, SCTP]), (UNROLLED PT_PROTO_GRE4, [ETHERNET, VLAN, ISID, IPV4_noptions 8, GRE4])],
     [(UNROLLED PT_PROTO_ICMPV4, [ETHERNET, VLAN, ISID, IPV4_noptions 9, ICMPV4]), (UNROLLED PT_PROTO_TCP, [ETHERNET, VLAN, ISID, IPV4_noptions 9, TCP]), (UNROLLED PT_PROTO_UDP, [ETHERNET, VLAN, ISID, IPV4_noptions 9, UDP]), (UNROLLED PT_PROTO_SCTP, [ETHERNET, VLAN, ISID, IPV4_noptions 9, SCTP]), (UNROLLED PT_PROTO_GRE4, [ETHERNET, VLAN, ISID, IPV4_noptions 9, GRE4])],
     [(UNROLLED PT_PROTO_ICMPV4, [ETHERNET, VLAN, ISID, IPV4_noptions 10, ICMPV4]), (UNROLLED PT_PROTO_TCP, [ETHERNET, VLAN, ISID, IPV4_noptions 10, TCP]), (UNROLLED PT_PROTO_UDP, [ETHERNET, VLAN, ISID, IPV4_noptions 10, UDP]), (UNROLLED PT_PROTO_SCTP, [ETHERNET, VLAN, ISID, IPV4_noptions 10, SCTP]), (UNROLLED PT_PROTO_GRE4, [ETHERNET, VLAN, ISID, IPV4_noptions 10, GRE4])],
     [(UNROLLED PT_PROTO_ICMPV4, [ETHERNET, VLAN, ISID, IPV4_noptions 11, ICMPV4]), (UNROLLED PT_PROTO_TCP, [ETHERNET, VLAN, ISID, IPV4_noptions 11, TCP]), (UNROLLED PT_PROTO_UDP, [ETHERNET, VLAN, ISID, IPV4_noptions 11, UDP]), (UNROLLED PT_PROTO_SCTP, [ETHERNET, VLAN, ISID, IPV4_noptions 11, SCTP]), (UNROLLED PT_PROTO_GRE4, [ETHERNET, VLAN, ISID, IPV4_noptions 11, GRE4])],
     [(UNROLLED PT_PROTO_ICMPV4, [ETHERNET, VLAN, ISID, IPV4_noptions 12, ICMPV4]), (UNROLLED PT_PROTO_TCP, [ETHERNET, VLAN, ISID, IPV4_noptions 12, TCP]), (UNROLLED PT_PROTO_UDP, [ETHERNET, VLAN, ISID, IPV4_noptions 12, UDP]), (UNROLLED PT_PROTO_SCTP, [ETHERNET, VLAN, ISID, IPV4_noptions 12, SCTP]), (UNROLLED PT_PROTO_GRE4, [ETHERNET, VLAN, ISID, IPV4_noptions 12, GRE4])],
     [(UNROLLED PT_PROTO_ICMPV4, [ETHERNET, VLAN, ISID, IPV4_noptions 13, ICMPV4]), (UNROLLED PT_PROTO_TCP, [ETHERNET, VLAN, ISID, IPV4_noptions 13, TCP]), (UNROLLED PT_PROTO_UDP, [ETHERNET, VLAN, ISID, IPV4_noptions 13, UDP]), (UNROLLED PT_PROTO_SCTP, [ETHERNET, VLAN, ISID, IPV4_noptions 13, SCTP]), (UNROLLED PT_PROTO_GRE4, [ETHERNET, VLAN, ISID, IPV4_noptions 13, GRE4])],
     [(UNROLLED PT_PROTO_ICMPV4, [ETHERNET, VLAN, ISID, IPV4_noptions 14, ICMPV4]), (UNROLLED PT_PROTO_TCP, [ETHERNET, VLAN, ISID, IPV4_noptions 14, TCP]), (UNROLLED PT_PROTO_UDP, [ETHERNET, VLAN, ISID, IPV4_noptions 14, UDP]), (UNROLLED PT_PROTO_SCTP, [ETHERNET, VLAN, ISID, IPV4_noptions 14, SCTP]), (UNROLLED PT_PROTO_GRE4, [ETHERNET, VLAN, ISID, IPV4_noptions 14, GRE4])],
     [(UNROLLED PT_PROTO_ICMPV4, [ETHERNET, VLAN, ISID, IPV4_noptions 15, ICMPV4]), (UNROLLED PT_PROTO_TCP, [ETHERNET, VLAN, ISID, IPV4_noptions 15, TCP]), (UNROLLED PT_PROTO_UDP, [ETHERNET, VLAN, ISID, IPV4_noptions 15, UDP]), (UNROLLED PT_PROTO_SCTP, [ETHERNET, VLAN, ISID, IPV4_noptions 15, SCTP]), (UNROLLED PT_PROTO_GRE4, [ETHERNET, VLAN, ISID, IPV4_noptions 15, GRE4])],
     [(UNROLLED PT_PROTO_ICMPV4, [IEEE8023, IPV4_noptions 0, ICMPV4]), (UNROLLED PT_PROTO_TCP, [IEEE8023, IPV4_noptions 0, TCP]), (UNROLLED PT_PROTO_UDP, [IEEE8023, IPV4_noptions 0, UDP]), (UNROLLED PT_PROTO_SCTP, [IEEE8023, IPV4_noptions 0, SCTP]), (UNROLLED PT_PROTO_GRE4, [IEEE8023, IPV4_noptions 0, GRE4])],
     [(UNROLLED PT_PROTO_ICMPV4, [IEEE8023, IPV4_noptions 1, ICMPV4]), (UNROLLED PT_PROTO_TCP, [IEEE8023, IPV4_noptions 1, TCP]), (UNROLLED PT_PROTO_UDP, [IEEE8023, IPV4_noptions 1, UDP]), (UNROLLED PT_PROTO_SCTP, [IEEE8023, IPV4_noptions 1, SCTP]), (UNROLLED PT_PROTO_GRE4, [IEEE8023, IPV4_noptions 1, GRE4])],
     [(UNROLLED PT_PROTO_ICMPV4, [IEEE8023, IPV4_noptions 2, ICMPV4]), (UNROLLED PT_PROTO_TCP, [IEEE8023, IPV4_noptions 2, TCP]), (UNROLLED PT_PROTO_UDP, [IEEE8023, IPV4_noptions 2, UDP]), (UNROLLED PT_PROTO_SCTP, [IEEE8023, IPV4_noptions 2, SCTP]), (UNROLLED PT_PROTO_GRE4, [IEEE8023, IPV4_noptions 2, GRE4])],
     [(UNROLLED PT_PROTO_ICMPV4, [IEEE8023, IPV4_noptions 3, ICMPV4]), (UNROLLED PT_PROTO_TCP, [IEEE8023, IPV4_noptions 3, TCP]), (UNROLLED PT_PROTO_UDP, [IEEE8023, IPV4_noptions 3, UDP]), (UNROLLED PT_PROTO_SCTP, [IEEE8023, IPV4_noptions 3, SCTP]), (UNROLLED PT_PROTO_GRE4, [IEEE8023, IPV4_noptions 3, GRE4])],
     [(UNROLLED PT_PROTO_ICMPV4, [IEEE8023, IPV4_noptions 4, ICMPV4]), (UNROLLED PT_PROTO_TCP, [IEEE8023, IPV4_noptions 4, TCP]), (UNROLLED PT_PROTO_UDP, [IEEE8023, IPV4_noptions 4, UDP]), (UNROLLED PT_PROTO_SCTP, [IEEE8023, IPV4_noptions 4, SCTP]), (UNROLLED PT_PROTO_GRE4, [IEEE8023, IPV4_noptions 4, GRE4])],
     [(UNROLLED PT_PROTO_ICMPV4, [IEEE8023, IPV4_noptions 5, ICMPV4]), (UNROLLED PT_PROTO_TCP, [IEEE8023, IPV4_noptions 5, TCP]), (UNROLLED PT_PROTO_UDP, [IEEE8023, IPV4_noptions 5, UDP]), (UNROLLED PT_PROTO_SCTP, [IEEE8023, IPV4_noptions 5, SCTP]), (UNROLLED PT_PROTO_GRE4, [IEEE8023, IPV4_noptions 5, GRE4])],
     [(UNROLLED PT_PROTO_ICMPV4, [IEEE8023, IPV4_noptions 6, ICMPV4]), (UNROLLED PT_PROTO_TCP, [IEEE8023, IPV4_noptions 6, TCP]), (UNROLLED PT_PROTO_UDP, [IEEE8023, IPV4_noptions 6, UDP]), (UNROLLED PT_PROTO_SCTP, [IEEE8023, IPV4_noptions 6, SCTP]), (UNROLLED PT_PROTO_GRE4, [IEEE8023, IPV4_noptions 6, GRE4])],
     [(UNROLLED PT_PROTO_ICMPV4, [IEEE8023, IPV4_noptions 7, ICMPV4]), (UNROLLED PT_PROTO_TCP, [IEEE8023, IPV4_noptions 7, TCP]), (UNROLLED PT_PROTO_UDP, [IEEE8023, IPV4_noptions 7, UDP]), (UNROLLED PT_PROTO_SCTP, [IEEE8023, IPV4_noptions 7, SCTP]), (UNROLLED PT_PROTO_GRE4, [IEEE8023, IPV4_noptions 7, GRE4])],
     [(UNROLLED PT_PROTO_ICMPV4, [IEEE8023, IPV4_noptions 8, ICMPV4]), (UNROLLED PT_PROTO_TCP, [IEEE8023, IPV4_noptions 8, TCP]), (UNROLLED PT_PROTO_UDP, [IEEE8023, IPV4_noptions 8, UDP]), (UNROLLED PT_PROTO_SCTP, [IEEE8023, IPV4_noptions 8, SCTP]), (UNROLLED PT_PROTO_GRE4, [IEEE8023, IPV4_noptions 8, GRE4])],
     [(UNROLLED PT_PROTO_ICMPV4, [IEEE8023, IPV4_noptions 9, ICMPV4]), (UNROLLED PT_PROTO_TCP, [IEEE8023, IPV4_noptions 9, TCP]), (UNROLLED PT_PROTO_UDP, [IEEE8023, IPV4_noptions 9, UDP]), (UNROLLED PT_PROTO_SCTP, [IEEE8023, IPV4_noptions 9, SCTP]), (UNROLLED PT_PROTO_GRE4, [IEEE8023, IPV4_noptions 9, GRE4])],
     [(UNROLLED PT_PROTO_ICMPV4, [IEEE8023, IPV4_noptions 10, ICMPV4]), (UNROLLED PT_PROTO_TCP, [IEEE8023, IPV4_noptions 10, TCP]), (UNROLLED PT_PROTO_UDP, [IEEE8023, IPV4_noptions 10, UDP]), (UNROLLED PT_PROTO_SCTP, [IEEE8023, IPV4_noptions 10, SCTP]), (UNROLLED PT_PROTO_GRE4, [IEEE8023, IPV4_noptions 10, GRE4])],
     [(UNROLLED PT_PROTO_ICMPV4, [IEEE8023, IPV4_noptions 11, ICMPV4]), (UNROLLED PT_PROTO_TCP, [IEEE8023, IPV4_noptions 11, TCP]), (UNROLLED PT_PROTO_UDP, [IEEE8023, IPV4_noptions 11, UDP]), (UNROLLED PT_PROTO_SCTP, [IEEE8023, IPV4_noptions 11, SCTP]), (UNROLLED PT_PROTO_GRE4, [IEEE8023, IPV4_noptions 11, GRE4])],
     [(UNROLLED PT_PROTO_ICMPV4, [IEEE8023, IPV4_noptions 12, ICMPV4]), (UNROLLED PT_PROTO_TCP, [IEEE8023, IPV4_noptions 12, TCP]), (UNROLLED PT_PROTO_UDP, [IEEE8023, IPV4_noptions 12, UDP]), (UNROLLED PT_PROTO_SCTP, [IEEE8023, IPV4_noptions 12, SCTP]), (UNROLLED PT_PROTO_GRE4, [IEEE8023, IPV4_noptions 12, GRE4])],
     [(UNROLLED PT_PROTO_ICMPV4, [IEEE8023, IPV4_noptions 13, ICMPV4]), (UNROLLED PT_PROTO_TCP, [IEEE8023, IPV4_noptions 13, TCP]), (UNROLLED PT_PROTO_UDP, [IEEE8023, IPV4_noptions 13, UDP]), (UNROLLED PT_PROTO_SCTP, [IEEE8023, IPV4_noptions 13, SCTP]), (UNROLLED PT_PROTO_GRE4, [IEEE8023, IPV4_noptions 13, GRE4])],
     [(UNROLLED PT_PROTO_ICMPV4, [IEEE8023, IPV4_noptions 14, ICMPV4]), (UNROLLED PT_PROTO_TCP, [IEEE8023, IPV4_noptions 14, TCP]), (UNROLLED PT_PROTO_UDP, [IEEE8023, IPV4_noptions 14, UDP]), (UNROLLED PT_PROTO_SCTP, [IEEE8023, IPV4_noptions 14, SCTP]), (UNROLLED PT_PROTO_GRE4, [IEEE8023, IPV4_noptions 14, GRE4])],
     [(UNROLLED PT_PROTO_ICMPV4, [IEEE8023, IPV4_noptions 15, ICMPV4]), (UNROLLED PT_PROTO_TCP, [IEEE8023, IPV4_noptions 15, TCP]), (UNROLLED PT_PROTO_UDP, [IEEE8023, IPV4_noptions 15, UDP]), (UNROLLED PT_PROTO_SCTP, [IEEE8023, IPV4_noptions 15, SCTP]), (UNROLLED PT_PROTO_GRE4, [IEEE8023, IPV4_noptions 15, GRE4])],
     [(UNROLLED PT_PROTO_ICMPV4, [ETHERNET, VLAN, IPV4_noptions 0, ICMPV4]), (UNROLLED PT_PROTO_TCP, [ETHERNET, VLAN, IPV4_noptions 0, TCP]), (UNROLLED PT_PROTO_UDP, [ETHERNET, VLAN, IPV4_noptions 0, UDP]), (UNROLLED PT_PROTO_SCTP, [ETHERNET, VLAN, IPV4_noptions 0, SCTP]), (UNROLLED PT_PROTO_GRE4, [ETHERNET, VLAN, IPV4_noptions 0, GRE4])],
     [(UNROLLED PT_PROTO_ICMPV4, [ETHERNET, VLAN, IPV4_noptions 1, ICMPV4]), (UNROLLED PT_PROTO_TCP, [ETHERNET, VLAN, IPV4_noptions 1, TCP]), (UNROLLED PT_PROTO_UDP, [ETHERNET, VLAN, IPV4_noptions 1, UDP]), (UNROLLED PT_PROTO_SCTP, [ETHERNET, VLAN, IPV4_noptions 1, SCTP]), (UNROLLED PT_PROTO_GRE4, [ETHERNET, VLAN, IPV4_noptions 1, GRE4])],
     [(UNROLLED PT_PROTO_ICMPV4, [ETHERNET, VLAN, IPV4_noptions 2, ICMPV4]), (UNROLLED PT_PROTO_TCP, [ETHERNET, VLAN, IPV4_noptions 2, TCP]), (UNROLLED PT_PROTO_UDP, [ETHERNET, VLAN, IPV4_noptions 2, UDP]), (UNROLLED PT_PROTO_SCTP, [ETHERNET, VLAN, IPV4_noptions 2, SCTP]), (UNROLLED PT_PROTO_GRE4, [ETHERNET, VLAN, IPV4_noptions 2, GRE4])],
     [(UNROLLED PT_PROTO_ICMPV4, [ETHERNET, VLAN, IPV4_noptions 3, ICMPV4]), (UNROLLED PT_PROTO_TCP, [ETHERNET, VLAN, IPV4_noptions 3, TCP]), (UNROLLED PT_PROTO_UDP, [ETHERNET, VLAN, IPV4_noptions 3, UDP]), (UNROLLED PT_PROTO_SCTP, [ETHERNET, VLAN, IPV4_noptions 3, SCTP]), (UNROLLED PT_PROTO_GRE4, [ETHERNET, VLAN, IPV4_noptions 3, GRE4])],
     [(UNROLLED PT_PROTO_ICMPV4, [ETHERNET, VLAN, IPV4_noptions 4, ICMPV4]), (UNROLLED PT_PROTO_TCP, [ETHERNET, VLAN, IPV4_noptions 4, TCP]), (UNROLLED PT_PROTO_UDP, [ETHERNET, VLAN, IPV4_noptions 4, UDP]), (UNROLLED PT_PROTO_SCTP, [ETHERNET, VLAN, IPV4_noptions 4, SCTP]), (UNROLLED PT_PROTO_GRE4, [ETHERNET, VLAN, IPV4_noptions 4, GRE4])],
     [(UNROLLED PT_PROTO_ICMPV4, [ETHERNET, VLAN, IPV4_noptions 5, ICMPV4]), (UNROLLED PT_PROTO_TCP, [ETHERNET, VLAN, IPV4_noptions 5, TCP]), (UNROLLED PT_PROTO_UDP, [ETHERNET, VLAN, IPV4_noptions 5, UDP]), (UNROLLED PT_PROTO_SCTP, [ETHERNET, VLAN, IPV4_noptions 5, SCTP]), (UNROLLED PT_PROTO_GRE4, [ETHERNET, VLAN, IPV4_noptions 5, GRE4])],
     [(UNROLLED PT_PROTO_ICMPV4, [ETHERNET, VLAN, IPV4_noptions 6, ICMPV4]), (UNROLLED PT_PROTO_TCP, [ETHERNET, VLAN, IPV4_noptions 6, TCP]), (UNROLLED PT_PROTO_UDP, [ETHERNET, VLAN, IPV4_noptions 6, UDP]), (UNROLLED PT_PROTO_SCTP, [ETHERNET, VLAN, IPV4_noptions 6, SCTP]), (UNROLLED PT_PROTO_GRE4, [ETHERNET, VLAN, IPV4_noptions 6, GRE4])],
     [(UNROLLED PT_PROTO_ICMPV4, [ETHERNET, VLAN, IPV4_noptions 7, ICMPV4]), (UNROLLED PT_PROTO_TCP, [ETHERNET, VLAN, IPV4_noptions 7, TCP]), (UNROLLED PT_PROTO_UDP, [ETHERNET, VLAN, IPV4_noptions 7, UDP]), (UNROLLED PT_PROTO_SCTP, [ETHERNET, VLAN, IPV4_noptions 7, SCTP]), (UNROLLED PT_PROTO_GRE4, [ETHERNET, VLAN, IPV4_noptions 7, GRE4])],
     [(UNROLLED PT_PROTO_ICMPV4, [ETHERNET, VLAN, IPV4_noptions 8, ICMPV4]), (UNROLLED PT_PROTO_TCP, [ETHERNET, VLAN, IPV4_noptions 8, TCP]), (UNROLLED PT_PROTO_UDP, [ETHERNET, VLAN, IPV4_noptions 8, UDP]), (UNROLLED PT_PROTO_SCTP, [ETHERNET, VLAN, IPV4_noptions 8, SCTP]), (UNROLLED PT_PROTO_GRE4, [ETHERNET, VLAN, IPV4_noptions 8, GRE4])],
     [(UNROLLED PT_PROTO_ICMPV4, [ETHERNET, VLAN, IPV4_noptions 9, ICMPV4]), (UNROLLED PT_PROTO_TCP, [ETHERNET, VLAN, IPV4_noptions 9, TCP]), (UNROLLED PT_PROTO_UDP, [ETHERNET, VLAN, IPV4_noptions 9, UDP]), (UNROLLED PT_PROTO_SCTP, [ETHERNET, VLAN, IPV4_noptions 9, SCTP]), (UNROLLED PT_PROTO_GRE4, [ETHERNET, VLAN, IPV4_noptions 9, GRE4])],
     [(UNROLLED PT_PROTO_ICMPV4, [ETHERNET, VLAN, IPV4_noptions 10, ICMPV4]), (UNROLLED PT_PROTO_TCP, [ETHERNET, VLAN, IPV4_noptions 10, TCP]), (UNROLLED PT_PROTO_UDP, [ETHERNET, VLAN, IPV4_noptions 10, UDP]), (UNROLLED PT_PROTO_SCTP, [ETHERNET, VLAN, IPV4_noptions 10, SCTP]), (UNROLLED PT_PROTO_GRE4, [ETHERNET, VLAN, IPV4_noptions 10, GRE4])],
     [(UNROLLED PT_PROTO_ICMPV4, [ETHERNET, VLAN, IPV4_noptions 11, ICMPV4]), (UNROLLED PT_PROTO_TCP, [ETHERNET, VLAN, IPV4_noptions 11, TCP]), (UNROLLED PT_PROTO_UDP, [ETHERNET, VLAN, IPV4_noptions 11, UDP]), (UNROLLED PT_PROTO_SCTP, [ETHERNET, VLAN, IPV4_noptions 11, SCTP]), (UNROLLED PT_PROTO_GRE4, [ETHERNET, VLAN, IPV4_noptions 11, GRE4])],
     [(UNROLLED PT_PROTO_ICMPV4, [ETHERNET, VLAN, IPV4_noptions 12, ICMPV4]), (UNROLLED PT_PROTO_TCP, [ETHERNET, VLAN, IPV4_noptions 12, TCP]), (UNROLLED PT_PROTO_UDP, [ETHERNET, VLAN, IPV4_noptions 12, UDP]), (UNROLLED PT_PROTO_SCTP, [ETHERNET, VLAN, IPV4_noptions 12, SCTP]), (UNROLLED PT_PROTO_GRE4, [ETHERNET, VLAN, IPV4_noptions 12, GRE4])],
     [(UNROLLED PT_PROTO_ICMPV4, [ETHERNET, VLAN, IPV4_noptions 13, ICMPV4]), (UNROLLED PT_PROTO_TCP, [ETHERNET, VLAN, IPV4_noptions 13, TCP]), (UNROLLED PT_PROTO_UDP, [ETHERNET, VLAN, IPV4_noptions 13, UDP]), (UNROLLED PT_PROTO_SCTP, [ETHERNET, VLAN, IPV4_noptions 13, SCTP]), (UNROLLED PT_PROTO_GRE4, [ETHERNET, VLAN, IPV4_noptions 13, GRE4])],
     [(UNROLLED PT_PROTO_ICMPV4, [ETHERNET, VLAN, IPV4_noptions 14, ICMPV4]), (UNROLLED PT_PROTO_TCP, [ETHERNET, VLAN, IPV4_noptions 14, TCP]), (UNROLLED PT_PROTO_UDP, [ETHERNET, VLAN, IPV4_noptions 14, UDP]), (UNROLLED PT_PROTO_SCTP, [ETHERNET, VLAN, IPV4_noptions 14, SCTP]), (UNROLLED PT_PROTO_GRE4, [ETHERNET, VLAN, IPV4_noptions 14, GRE4])],
     [(UNROLLED PT_PROTO_ICMPV4, [ETHERNET, VLAN, IPV4_noptions 15, ICMPV4]), (UNROLLED PT_PROTO_TCP, [ETHERNET, VLAN, IPV4_noptions 15, TCP]), (UNROLLED PT_PROTO_UDP, [ETHERNET, VLAN, IPV4_noptions 15, UDP]), (UNROLLED PT_PROTO_SCTP, [ETHERNET, VLAN, IPV4_noptions 15, SCTP]), (UNROLLED PT_PROTO_GRE4, [ETHERNET, VLAN, IPV4_noptions 15, GRE4])],
     [(UNROLLED PT_PROTO_ICMPV4, [IEEE8023, VLAN, IPV4_noptions 0, ICMPV4]), (UNROLLED PT_PROTO_TCP, [IEEE8023, VLAN, IPV4_noptions 0, TCP]), (UNROLLED PT_PROTO_UDP, [IEEE8023, VLAN, IPV4_noptions 0, UDP]), (UNROLLED PT_PROTO_SCTP, [IEEE8023, VLAN, IPV4_noptions 0, SCTP]), (UNROLLED PT_PROTO_GRE4, [IEEE8023, VLAN, IPV4_noptions 0, GRE4])],
     [(UNROLLED PT_PROTO_ICMPV4, [IEEE8023, VLAN, IPV4_noptions 1, ICMPV4]), (UNROLLED PT_PROTO_TCP, [IEEE8023, VLAN, IPV4_noptions 1, TCP]), (UNROLLED PT_PROTO_UDP, [IEEE8023, VLAN, IPV4_noptions 1, UDP]), (UNROLLED PT_PROTO_SCTP, [IEEE8023, VLAN, IPV4_noptions 1, SCTP]), (UNROLLED PT_PROTO_GRE4, [IEEE8023, VLAN, IPV4_noptions 1, GRE4])],
     [(UNROLLED PT_PROTO_ICMPV4, [IEEE8023, VLAN, IPV4_noptions 2, ICMPV4]), (UNROLLED PT_PROTO_TCP, [IEEE8023, VLAN, IPV4_noptions 2, TCP]), (UNROLLED PT_PROTO_UDP, [IEEE8023, VLAN, IPV4_noptions 2, UDP]), (UNROLLED PT_PROTO_SCTP, [IEEE8023, VLAN, IPV4_noptions 2, SCTP]), (UNROLLED PT_PROTO_GRE4, [IEEE8023, VLAN, IPV4_noptions 2, GRE4])],
     [(UNROLLED PT_PROTO_ICMPV4, [IEEE8023, VLAN, IPV4_noptions 3, ICMPV4]), (UNROLLED PT_PROTO_TCP, [IEEE8023, VLAN, IPV4_noptions 3, TCP]), (UNROLLED PT_PROTO_UDP, [IEEE8023, VLAN, IPV4_noptions 3, UDP]), (UNROLLED PT_PROTO_SCTP, [IEEE8023, VLAN, IPV4_noptions 3, SCTP]), (UNROLLED PT_PROTO_GRE4, [IEEE8023, VLAN, IPV4_noptions 3, GRE4])],
     [(UNROLLED PT_PROTO_ICMPV4, [IEEE8023, VLAN, IPV4_noptions 4, ICMPV4]), (UNROLLED PT_PROTO_TCP, [IEEE8023, VLAN, IPV4_noptions 4, TCP]), (UNROLLED PT_PROTO_UDP, [IEEE8023, VLAN, IPV4_noptions 4, UDP]), (UNROLLED PT_PROTO_SCTP, [IEEE8023, VLAN, IPV4_noptions 4, SCTP]), (UNROLLED PT_PROTO_GRE4, [IEEE8023, VLAN, IPV4_noptions 4, GRE4])],
     [(UNROLLED PT_PROTO_ICMPV4, [IEEE8023, VLAN, IPV4_noptions 5, ICMPV4]), (UNROLLED PT_PROTO_TCP, [IEEE8023, VLAN, IPV4_noptions 5, TCP]), (UNROLLED PT_PROTO_UDP, [IEEE8023, VLAN, IPV4_noptions 5, UDP]), (UNROLLED PT_PROTO_SCTP, [IEEE8023, VLAN, IPV4_noptions 5, SCTP]), (UNROLLED PT_PROTO_GRE4, [IEEE8023, VLAN, IPV4_noptions 5, GRE4])],
     [(UNROLLED PT_PROTO_ICMPV4, [IEEE8023, VLAN, IPV4_noptions 6, ICMPV4]), (UNROLLED PT_PROTO_TCP, [IEEE8023, VLAN, IPV4_noptions 6, TCP]), (UNROLLED PT_PROTO_UDP, [IEEE8023, VLAN, IPV4_noptions 6, UDP]), (UNROLLED PT_PROTO_SCTP, [IEEE8023, VLAN, IPV4_noptions 6, SCTP]), (UNROLLED PT_PROTO_GRE4, [IEEE8023, VLAN, IPV4_noptions 6, GRE4])],
     [(UNROLLED PT_PROTO_ICMPV4, [IEEE8023, VLAN, IPV4_noptions 7, ICMPV4]), (UNROLLED PT_PROTO_TCP, [IEEE8023, VLAN, IPV4_noptions 7, TCP]), (UNROLLED PT_PROTO_UDP, [IEEE8023, VLAN, IPV4_noptions 7, UDP]), (UNROLLED PT_PROTO_SCTP, [IEEE8023, VLAN, IPV4_noptions 7, SCTP]), (UNROLLED PT_PROTO_GRE4, [IEEE8023, VLAN, IPV4_noptions 7, GRE4])],
     [(UNROLLED PT_PROTO_ICMPV4, [IEEE8023, VLAN, IPV4_noptions 8, ICMPV4]), (UNROLLED PT_PROTO_TCP, [IEEE8023, VLAN, IPV4_noptions 8, TCP]), (UNROLLED PT_PROTO_UDP, [IEEE8023, VLAN, IPV4_noptions 8, UDP]), (UNROLLED PT_PROTO_SCTP, [IEEE8023, VLAN, IPV4_noptions 8, SCTP]), (UNROLLED PT_PROTO_GRE4, [IEEE8023, VLAN, IPV4_noptions 8, GRE4])],
     [(UNROLLED PT_PROTO_ICMPV4, [IEEE8023, VLAN, IPV4_noptions 9, ICMPV4]), (UNROLLED PT_PROTO_TCP, [IEEE8023, VLAN, IPV4_noptions 9, TCP]), (UNROLLED PT_PROTO_UDP, [IEEE8023, VLAN, IPV4_noptions 9, UDP]), (UNROLLED PT_PROTO_SCTP, [IEEE8023, VLAN, IPV4_noptions 9, SCTP]), (UNROLLED PT_PROTO_GRE4, [IEEE8023, VLAN, IPV4_noptions 9, GRE4])],
     [(UNROLLED PT_PROTO_ICMPV4, [IEEE8023, VLAN, IPV4_noptions 10, ICMPV4]), (UNROLLED PT_PROTO_TCP, [IEEE8023, VLAN, IPV4_noptions 10, TCP]), (UNROLLED PT_PROTO_UDP, [IEEE8023, VLAN, IPV4_noptions 10, UDP]), (UNROLLED PT_PROTO_SCTP, [IEEE8023, VLAN, IPV4_noptions 10, SCTP]), (UNROLLED PT_PROTO_GRE4, [IEEE8023, VLAN, IPV4_noptions 10, GRE4])],
     [(UNROLLED PT_PROTO_ICMPV4, [IEEE8023, VLAN, IPV4_noptions 11, ICMPV4]), (UNROLLED PT_PROTO_TCP, [IEEE8023, VLAN, IPV4_noptions 11, TCP]), (UNROLLED PT_PROTO_UDP, [IEEE8023, VLAN, IPV4_noptions 11, UDP]), (UNROLLED PT_PROTO_SCTP, [IEEE8023, VLAN, IPV4_noptions 11, SCTP]), (UNROLLED PT_PROTO_GRE4, [IEEE8023, VLAN, IPV4_noptions 11, GRE4])],
     [(UNROLLED PT_PROTO_ICMPV4, [IEEE8023, VLAN, IPV4_noptions 12, ICMPV4]), (UNROLLED PT_PROTO_TCP, [IEEE8023, VLAN, IPV4_noptions 12, TCP]), (UNROLLED PT_PROTO_UDP, [IEEE8023, VLAN, IPV4_noptions 12, UDP]), (UNROLLED PT_PROTO_SCTP, [IEEE8023, VLAN, IPV4_noptions 12, SCTP]), (UNROLLED PT_PROTO_GRE4, [IEEE8023, VLAN, IPV4_noptions 12, GRE4])],
     [(UNROLLED PT_PROTO_ICMPV4, [IEEE8023, VLAN, IPV4_noptions 13, ICMPV4]), (UNROLLED PT_PROTO_TCP, [IEEE8023, VLAN, IPV4_noptions 13, TCP]), (UNROLLED PT_PROTO_UDP, [IEEE8023, VLAN, IPV4_noptions 13, UDP]), (UNROLLED PT_PROTO_SCTP, [IEEE8023, VLAN, IPV4_noptions 13, SCTP]), (UNROLLED PT_PROTO_GRE4, [IEEE8023, VLAN, IPV4_noptions 13, GRE4])],
     [(UNROLLED PT_PROTO_ICMPV4, [IEEE8023, VLAN, IPV4_noptions 14, ICMPV4]), (UNROLLED PT_PROTO_TCP, [IEEE8023, VLAN, IPV4_noptions 14, TCP]), (UNROLLED PT_PROTO_UDP, [IEEE8023, VLAN, IPV4_noptions 14, UDP]), (UNROLLED PT_PROTO_SCTP, [IEEE8023, VLAN, IPV4_noptions 14, SCTP]), (UNROLLED PT_PROTO_GRE4, [IEEE8023, VLAN, IPV4_noptions 14, GRE4])],
     [(UNROLLED PT_PROTO_ICMPV4, [IEEE8023, VLAN, IPV4_noptions 15, ICMPV4]), (UNROLLED PT_PROTO_TCP, [IEEE8023, VLAN, IPV4_noptions 15, TCP]), (UNROLLED PT_PROTO_UDP, [IEEE8023, VLAN, IPV4_noptions 15, UDP]), (UNROLLED PT_PROTO_SCTP, [IEEE8023, VLAN, IPV4_noptions 15, SCTP]), (UNROLLED PT_PROTO_GRE4, [IEEE8023, VLAN, IPV4_noptions 15, GRE4])],
     [(UNROLLED PT_PROTO_ICMPV4, [ETHERNET, VLAN, VLAN, IPV4_noptions 0, ICMPV4]), (UNROLLED PT_PROTO_TCP, [ETHERNET, VLAN, VLAN, IPV4_noptions 0, TCP]), (UNROLLED PT_PROTO_UDP, [ETHERNET, VLAN, VLAN, IPV4_noptions 0, UDP]), (UNROLLED PT_PROTO_SCTP, [ETHERNET, VLAN, VLAN, IPV4_noptions 0, SCTP]), (UNROLLED PT_PROTO_GRE4, [ETHERNET, VLAN, VLAN, IPV4_noptions 0, GRE4])],
     [(UNROLLED PT_PROTO_ICMPV4, [ETHERNET, VLAN, VLAN, IPV4_noptions 1, ICMPV4]), (UNROLLED PT_PROTO_TCP, [ETHERNET, VLAN, VLAN, IPV4_noptions 1, TCP]), (UNROLLED PT_PROTO_UDP, [ETHERNET, VLAN, VLAN, IPV4_noptions 1, UDP]), (UNROLLED PT_PROTO_SCTP, [ETHERNET, VLAN, VLAN, IPV4_noptions 1, SCTP]), (UNROLLED PT_PROTO_GRE4, [ETHERNET, VLAN, VLAN, IPV4_noptions 1, GRE4])],
     [(UNROLLED PT_PROTO_ICMPV4, [ETHERNET, VLAN, VLAN, IPV4_noptions 2, ICMPV4]), (UNROLLED PT_PROTO_TCP, [ETHERNET, VLAN, VLAN, IPV4_noptions 2, TCP]), (UNROLLED PT_PROTO_UDP, [ETHERNET, VLAN, VLAN, IPV4_noptions 2, UDP]), (UNROLLED PT_PROTO_SCTP, [ETHERNET, VLAN, VLAN, IPV4_noptions 2, SCTP]), (UNROLLED PT_PROTO_GRE4, [ETHERNET, VLAN, VLAN, IPV4_noptions 2, GRE4])],
     [(UNROLLED PT_PROTO_ICMPV4, [ETHERNET, VLAN, VLAN, IPV4_noptions 3, ICMPV4]), (UNROLLED PT_PROTO_TCP, [ETHERNET, VLAN, VLAN, IPV4_noptions 3, TCP]), (UNROLLED PT_PROTO_UDP, [ETHERNET, VLAN, VLAN, IPV4_noptions 3, UDP]), (UNROLLED PT_PROTO_SCTP, [ETHERNET, VLAN, VLAN, IPV4_noptions 3, SCTP]), (UNROLLED PT_PROTO_GRE4, [ETHERNET, VLAN, VLAN, IPV4_noptions 3, GRE4])],
     [(UNROLLED PT_PROTO_ICMPV4, [ETHERNET, VLAN, VLAN, IPV4_noptions 4, ICMPV4]), (UNROLLED PT_PROTO_TCP, [ETHERNET, VLAN, VLAN, IPV4_noptions 4, TCP]), (UNROLLED PT_PROTO_UDP, [ETHERNET, VLAN, VLAN, IPV4_noptions 4, UDP]), (UNROLLED PT_PROTO_SCTP, [ETHERNET, VLAN, VLAN, IPV4_noptions 4, SCTP]), (UNROLLED PT_PROTO_GRE4, [ETHERNET, VLAN, VLAN, IPV4_noptions 4, GRE4])],
     [(UNROLLED PT_PROTO_ICMPV4, [ETHERNET, VLAN, VLAN, IPV4_noptions 5, ICMPV4]), (UNROLLED PT_PROTO_TCP, [ETHERNET, VLAN, VLAN, IPV4_noptions 5, TCP]), (UNROLLED PT_PROTO_UDP, [ETHERNET, VLAN, VLAN, IPV4_noptions 5, UDP]), (UNROLLED PT_PROTO_SCTP, [ETHERNET, VLAN, VLAN, IPV4_noptions 5, SCTP]), (UNROLLED PT_PROTO_GRE4, [ETHERNET, VLAN, VLAN, IPV4_noptions 5, GRE4])],
     [(UNROLLED PT_PROTO_ICMPV4, [ETHERNET, VLAN, VLAN, IPV4_noptions 6, ICMPV4]), (UNROLLED PT_PROTO_TCP, [ETHERNET, VLAN, VLAN, IPV4_noptions 6, TCP]), (UNROLLED PT_PROTO_UDP, [ETHERNET, VLAN, VLAN, IPV4_noptions 6, UDP]), (UNROLLED PT_PROTO_SCTP, [ETHERNET, VLAN, VLAN, IPV4_noptions 6, SCTP]), (UNROLLED PT_PROTO_GRE4, [ETHERNET, VLAN, VLAN, IPV4_noptions 6, GRE4])],
     [(UNROLLED PT_PROTO_ICMPV4, [ETHERNET, VLAN, VLAN, IPV4_noptions 7, ICMPV4]), (UNROLLED PT_PROTO_TCP, [ETHERNET, VLAN, VLAN, IPV4_noptions 7, TCP]), (UNROLLED PT_PROTO_UDP, [ETHERNET, VLAN, VLAN, IPV4_noptions 7, UDP]), (UNROLLED PT_PROTO_SCTP, [ETHERNET, VLAN, VLAN, IPV4_noptions 7, SCTP]), (UNROLLED PT_PROTO_GRE4, [ETHERNET, VLAN, VLAN, IPV4_noptions 7, GRE4])],
     [(UNROLLED PT_PROTO_ICMPV4, [ETHERNET, VLAN, VLAN, IPV4_noptions 8, ICMPV4]), (UNROLLED PT_PROTO_TCP, [ETHERNET, VLAN, VLAN, IPV4_noptions 8, TCP]), (UNROLLED PT_PROTO_UDP, [ETHERNET, VLAN, VLAN, IPV4_noptions 8, UDP]), (UNROLLED PT_PROTO_SCTP, [ETHERNET, VLAN, VLAN, IPV4_noptions 8, SCTP]), (UNROLLED PT_PROTO_GRE4, [ETHERNET, VLAN, VLAN, IPV4_noptions 8, GRE4])],
     [(UNROLLED PT_PROTO_ICMPV4, [ETHERNET, VLAN, VLAN, IPV4_noptions 9, ICMPV4]), (UNROLLED PT_PROTO_TCP, [ETHERNET, VLAN, VLAN, IPV4_noptions 9, TCP]), (UNROLLED PT_PROTO_UDP, [ETHERNET, VLAN, VLAN, IPV4_noptions 9, UDP]), (UNROLLED PT_PROTO_SCTP, [ETHERNET, VLAN, VLAN, IPV4_noptions 9, SCTP]), (UNROLLED PT_PROTO_GRE4, [ETHERNET, VLAN, VLAN, IPV4_noptions 9, GRE4])],
     [(UNROLLED PT_PROTO_ICMPV4, [ETHERNET, VLAN, VLAN, IPV4_noptions 10, ICMPV4]), (UNROLLED PT_PROTO_TCP, [ETHERNET, VLAN, VLAN, IPV4_noptions 10, TCP]), (UNROLLED PT_PROTO_UDP, [ETHERNET, VLAN, VLAN, IPV4_noptions 10, UDP]), (UNROLLED PT_PROTO_SCTP, [ETHERNET, VLAN, VLAN, IPV4_noptions 10, SCTP]), (UNROLLED PT_PROTO_GRE4, [ETHERNET, VLAN, VLAN, IPV4_noptions 10, GRE4])],
     [(UNROLLED PT_PROTO_ICMPV4, [ETHERNET, VLAN, VLAN, IPV4_noptions 11, ICMPV4]), (UNROLLED PT_PROTO_TCP, [ETHERNET, VLAN, VLAN, IPV4_noptions 11, TCP]), (UNROLLED PT_PROTO_UDP, [ETHERNET, VLAN, VLAN, IPV4_noptions 11, UDP]), (UNROLLED PT_PROTO_SCTP, [ETHERNET, VLAN, VLAN, IPV4_noptions 11, SCTP]), (UNROLLED PT_PROTO_GRE4, [ETHERNET, VLAN, VLAN, IPV4_noptions 11, GRE4])],
     [(UNROLLED PT_PROTO_ICMPV4, [ETHERNET, VLAN, VLAN, IPV4_noptions 12, ICMPV4]), (UNROLLED PT_PROTO_TCP, [ETHERNET, VLAN, VLAN, IPV4_noptions 12, TCP]), (UNROLLED PT_PROTO_UDP, [ETHERNET, VLAN, VLAN, IPV4_noptions 12, UDP]), (UNROLLED PT_PROTO_SCTP, [ETHERNET, VLAN, VLAN, IPV4_noptions 12, SCTP]), (UNROLLED PT_PROTO_GRE4, [ETHERNET, VLAN, VLAN, IPV4_noptions 12, GRE4])],
     [(UNROLLED PT_PROTO_ICMPV4, [ETHERNET, VLAN, VLAN, IPV4_noptions 13, ICMPV4]), (UNROLLED PT_PROTO_TCP, [ETHERNET, VLAN, VLAN, IPV4_noptions 13, TCP]), (UNROLLED PT_PROTO_UDP, [ETHERNET, VLAN, VLAN, IPV4_noptions 13, UDP]), (UNROLLED PT_PROTO_SCTP, [ETHERNET, VLAN, VLAN, IPV4_noptions 13, SCTP]), (UNROLLED PT_PROTO_GRE4, [ETHERNET, VLAN, VLAN, IPV4_noptions 13, GRE4])],
     [(UNROLLED PT_PROTO_ICMPV4, [ETHERNET, VLAN, VLAN, IPV4_noptions 14, ICMPV4]), (UNROLLED PT_PROTO_TCP, [ETHERNET, VLAN, VLAN, IPV4_noptions 14, TCP]), (UNROLLED PT_PROTO_UDP, [ETHERNET, VLAN, VLAN, IPV4_noptions 14, UDP]), (UNROLLED PT_PROTO_SCTP, [ETHERNET, VLAN, VLAN, IPV4_noptions 14, SCTP]), (UNROLLED PT_PROTO_GRE4, [ETHERNET, VLAN, VLAN, IPV4_noptions 14, GRE4])],
     [(UNROLLED PT_PROTO_ICMPV4, [ETHERNET, VLAN, VLAN, IPV4_noptions 15, ICMPV4]), (UNROLLED PT_PROTO_TCP, [ETHERNET, VLAN, VLAN, IPV4_noptions 15, TCP]), (UNROLLED PT_PROTO_UDP, [ETHERNET, VLAN, VLAN, IPV4_noptions 15, UDP]), (UNROLLED PT_PROTO_SCTP, [ETHERNET, VLAN, VLAN, IPV4_noptions 15, SCTP]), (UNROLLED PT_PROTO_GRE4, [ETHERNET, VLAN, VLAN, IPV4_noptions 15, GRE4])],
     [(UNROLLED PT_PROTO_ICMPV4, [IEEE8023, VLAN, VLAN, IPV4_noptions 0, ICMPV4]), (UNROLLED PT_PROTO_TCP, [IEEE8023, VLAN, VLAN, IPV4_noptions 0, TCP]), (UNROLLED PT_PROTO_UDP, [IEEE8023, VLAN, VLAN, IPV4_noptions 0, UDP]), (UNROLLED PT_PROTO_SCTP, [IEEE8023, VLAN, VLAN, IPV4_noptions 0, SCTP]), (UNROLLED PT_PROTO_GRE4, [IEEE8023, VLAN, VLAN, IPV4_noptions 0, GRE4])],
     [(UNROLLED PT_PROTO_ICMPV4, [IEEE8023, VLAN, VLAN, IPV4_noptions 1, ICMPV4]), (UNROLLED PT_PROTO_TCP, [IEEE8023, VLAN, VLAN, IPV4_noptions 1, TCP]), (UNROLLED PT_PROTO_UDP, [IEEE8023, VLAN, VLAN, IPV4_noptions 1, UDP]), (UNROLLED PT_PROTO_SCTP, [IEEE8023, VLAN, VLAN, IPV4_noptions 1, SCTP]), (UNROLLED PT_PROTO_GRE4, [IEEE8023, VLAN, VLAN, IPV4_noptions 1, GRE4])],
     [(UNROLLED PT_PROTO_ICMPV4, [IEEE8023, VLAN, VLAN, IPV4_noptions 2, ICMPV4]), (UNROLLED PT_PROTO_TCP, [IEEE8023, VLAN, VLAN, IPV4_noptions 2, TCP]), (UNROLLED PT_PROTO_UDP, [IEEE8023, VLAN, VLAN, IPV4_noptions 2, UDP]), (UNROLLED PT_PROTO_SCTP, [IEEE8023, VLAN, VLAN, IPV4_noptions 2, SCTP]), (UNROLLED PT_PROTO_GRE4, [IEEE8023, VLAN, VLAN, IPV4_noptions 2, GRE4])],
     [(UNROLLED PT_PROTO_ICMPV4, [IEEE8023, VLAN, VLAN, IPV4_noptions 3, ICMPV4]), (UNROLLED PT_PROTO_TCP, [IEEE8023, VLAN, VLAN, IPV4_noptions 3, TCP]), (UNROLLED PT_PROTO_UDP, [IEEE8023, VLAN, VLAN, IPV4_noptions 3, UDP]), (UNROLLED PT_PROTO_SCTP, [IEEE8023, VLAN, VLAN, IPV4_noptions 3, SCTP]), (UNROLLED PT_PROTO_GRE4, [IEEE8023, VLAN, VLAN, IPV4_noptions 3, GRE4])],
     [(UNROLLED PT_PROTO_ICMPV4, [IEEE8023, VLAN, VLAN, IPV4_noptions 4, ICMPV4]), (UNROLLED PT_PROTO_TCP, [IEEE8023, VLAN, VLAN, IPV4_noptions 4, TCP]), (UNROLLED PT_PROTO_UDP, [IEEE8023, VLAN, VLAN, IPV4_noptions 4, UDP]), (UNROLLED PT_PROTO_SCTP, [IEEE8023, VLAN, VLAN, IPV4_noptions 4, SCTP]), (UNROLLED PT_PROTO_GRE4, [IEEE8023, VLAN, VLAN, IPV4_noptions 4, GRE4])],
     [(UNROLLED PT_PROTO_ICMPV4, [IEEE8023, VLAN, VLAN, IPV4_noptions 5, ICMPV4]), (UNROLLED PT_PROTO_TCP, [IEEE8023, VLAN, VLAN, IPV4_noptions 5, TCP]), (UNROLLED PT_PROTO_UDP, [IEEE8023, VLAN, VLAN, IPV4_noptions 5, UDP]), (UNROLLED PT_PROTO_SCTP, [IEEE8023, VLAN, VLAN, IPV4_noptions 5, SCTP]), (UNROLLED PT_PROTO_GRE4, [IEEE8023, VLAN, VLAN, IPV4_noptions 5, GRE4])],
     [(UNROLLED PT_PROTO_ICMPV4, [IEEE8023, VLAN, VLAN, IPV4_noptions 6, ICMPV4]), (UNROLLED PT_PROTO_TCP, [IEEE8023, VLAN, VLAN, IPV4_noptions 6, TCP]), (UNROLLED PT_PROTO_UDP, [IEEE8023, VLAN, VLAN, IPV4_noptions 6, UDP]), (UNROLLED PT_PROTO_SCTP, [IEEE8023, VLAN, VLAN, IPV4_noptions 6, SCTP]), (UNROLLED PT_PROTO_GRE4, [IEEE8023, VLAN, VLAN, IPV4_noptions 6, GRE4])],
     [(UNROLLED PT_PROTO_ICMPV4, [IEEE8023, VLAN, VLAN, IPV4_noptions 7, ICMPV4]), (UNROLLED PT_PROTO_TCP, [IEEE8023, VLAN, VLAN, IPV4_noptions 7, TCP]), (UNROLLED PT_PROTO_UDP, [IEEE8023, VLAN, VLAN, IPV4_noptions 7, UDP]), (UNROLLED PT_PROTO_SCTP, [IEEE8023, VLAN, VLAN, IPV4_noptions 7, SCTP]), (UNROLLED PT_PROTO_GRE4, [IEEE8023, VLAN, VLAN, IPV4_noptions 7, GRE4])],
     [(UNROLLED PT_PROTO_ICMPV4, [IEEE8023, VLAN, VLAN, IPV4_noptions 8, ICMPV4]), (UNROLLED PT_PROTO_TCP, [IEEE8023, VLAN, VLAN, IPV4_noptions 8, TCP]), (UNROLLED PT_PROTO_UDP, [IEEE8023, VLAN, VLAN, IPV4_noptions 8, UDP]), (UNROLLED PT_PROTO_SCTP, [IEEE8023, VLAN, VLAN, IPV4_noptions 8, SCTP]), (UNROLLED PT_PROTO_GRE4, [IEEE8023, VLAN, VLAN, IPV4_noptions 8, GRE4])],
     [(UNROLLED PT_PROTO_ICMPV4, [IEEE8023, VLAN, VLAN, IPV4_noptions 9, ICMPV4]), (UNROLLED PT_PROTO_TCP, [IEEE8023, VLAN, VLAN, IPV4_noptions 9, TCP]), (UNROLLED PT_PROTO_UDP, [IEEE8023, VLAN, VLAN, IPV4_noptions 9, UDP]), (UNROLLED PT_PROTO_SCTP, [IEEE8023, VLAN, VLAN, IPV4_noptions 9, SCTP]), (UNROLLED PT_PROTO_GRE4, [IEEE8023, VLAN, VLAN, IPV4_noptions 9, GRE4])],
     [(UNROLLED PT_PROTO_ICMPV4, [IEEE8023, VLAN, VLAN, IPV4_noptions 10, ICMPV4]), (UNROLLED PT_PROTO_TCP, [IEEE8023, VLAN, VLAN, IPV4_noptions 10, TCP]), (UNROLLED PT_PROTO_UDP, [IEEE8023, VLAN, VLAN, IPV4_noptions 10, UDP]), (UNROLLED PT_PROTO_SCTP, [IEEE8023, VLAN, VLAN, IPV4_noptions 10, SCTP]), (UNROLLED PT_PROTO_GRE4, [IEEE8023, VLAN, VLAN, IPV4_noptions 10, GRE4])],
     [(UNROLLED PT_PROTO_ICMPV4, [IEEE8023, VLAN, VLAN, IPV4_noptions 11, ICMPV4]), (UNROLLED PT_PROTO_TCP, [IEEE8023, VLAN, VLAN, IPV4_noptions 11, TCP]), (UNROLLED PT_PROTO_UDP, [IEEE8023, VLAN, VLAN, IPV4_noptions 11, UDP]), (UNROLLED PT_PROTO_SCTP, [IEEE8023, VLAN, VLAN, IPV4_noptions 11, SCTP]), (UNROLLED PT_PROTO_GRE4, [IEEE8023, VLAN, VLAN, IPV4_noptions 11, GRE4])],
     [(UNROLLED PT_PROTO_ICMPV4, [IEEE8023, VLAN, VLAN, IPV4_noptions 12, ICMPV4]), (UNROLLED PT_PROTO_TCP, [IEEE8023, VLAN, VLAN, IPV4_noptions 12, TCP]), (UNROLLED PT_PROTO_UDP, [IEEE8023, VLAN, VLAN, IPV4_noptions 12, UDP]), (UNROLLED PT_PROTO_SCTP, [IEEE8023, VLAN, VLAN, IPV4_noptions 12, SCTP]), (UNROLLED PT_PROTO_GRE4, [IEEE8023, VLAN, VLAN, IPV4_noptions 12, GRE4])],
     [(UNROLLED PT_PROTO_ICMPV4, [IEEE8023, VLAN, VLAN, IPV4_noptions 13, ICMPV4]), (UNROLLED PT_PROTO_TCP, [IEEE8023, VLAN, VLAN, IPV4_noptions 13, TCP]), (UNROLLED PT_PROTO_UDP, [IEEE8023, VLAN, VLAN, IPV4_noptions 13, UDP]), (UNROLLED PT_PROTO_SCTP, [IEEE8023, VLAN, VLAN, IPV4_noptions 13, SCTP]), (UNROLLED PT_PROTO_GRE4, [IEEE8023, VLAN, VLAN, IPV4_noptions 13, GRE4])],
     [(UNROLLED PT_PROTO_ICMPV4, [IEEE8023, VLAN, VLAN, IPV4_noptions 14, ICMPV4]), (UNROLLED PT_PROTO_TCP, [IEEE8023, VLAN, VLAN, IPV4_noptions 14, TCP]), (UNROLLED PT_PROTO_UDP, [IEEE8023, VLAN, VLAN, IPV4_noptions 14, UDP]), (UNROLLED PT_PROTO_SCTP, [IEEE8023, VLAN, VLAN, IPV4_noptions 14, SCTP]), (UNROLLED PT_PROTO_GRE4, [IEEE8023, VLAN, VLAN, IPV4_noptions 14, GRE4])],
     [(UNROLLED PT_PROTO_ICMPV4, [IEEE8023, VLAN, VLAN, IPV4_noptions 15, ICMPV4]), (UNROLLED PT_PROTO_TCP, [IEEE8023, VLAN, VLAN, IPV4_noptions 15, TCP]), (UNROLLED PT_PROTO_UDP, [IEEE8023, VLAN, VLAN, IPV4_noptions 15, UDP]), (UNROLLED PT_PROTO_SCTP, [IEEE8023, VLAN, VLAN, IPV4_noptions 15, SCTP]), (UNROLLED PT_PROTO_GRE4, [IEEE8023, VLAN, VLAN, IPV4_noptions 15, GRE4])],
     [],
     [],
     [],
     [],
     [],
     [],
     [],
     [],
     [],
     [],
     [],
     [],
     [],
     [],
     [],
     [],
     [],
     [],
     [],
     [],
     [],
     [],
     [],
     [],
     [],
     [],
     [],
     [],
     [],
     [],
     [],
     [],
     [],
     []]"

definition parse_table_4 :: "(unrolled \<times> pkt_type) list list" where
  "parse_table_4 =
    [[],
     [],
     [],
     [],
     [],
     [],
     [],
     [],
     [],
     [],
     [],
     [],
     [],
     [],
     [],
     [],
     [],
     [],
     [],
     [],
     [],
     [],
     [],
     [],
     [],
     [],
     [],
     [],
     [],
     [],
     [],
     [],
     [],
     [],
     [],
     [],
     [],
     [],
     [],
     [],
     [],
     [],
     [],
     [],
     [],
     [],
     [],
     [],
     [],
     [],
     [],
     [],
     [],
     [],
     [],
     [],
     [],
     [],
     [],
     [],
     [],
     [],
     [],
     [],
     [],
     [],
     [],
     [],
     [],
     [],
     [],
     [],
     [],
     [],
     [],
     [],
     [],
     [],
     [],
     [],
     [],
     [],
     [],
     [],
     [],
     [],
     [],
     [],
     [],
     [],
     [],
     [],
     [],
     [],
     [],
     [],
     [],
     [],
     [],
     [],
     [],
     [],
     [],
     [],
     [],
     [],
     [],
     [],
     [],
     [],
     [],
     [],
     [],
     [],
     [],
     [],
     [],
     [],
     [],
     [],
     [],
     [],
     [],
     [],
     [],
     [],
     [],
     [],
     [],
     [],
     [],
     [],
     [],
     [],
     [],
     [],
     [],
     [],
     [],
     [],
     [],
     [],
     [],
     [],
     [],
     [],
     [],
     [],
     [],
     []]"

definition parse_table_5 :: "(unrolled \<times> pkt_type) list list" where
  "parse_table_5 =
    [[],
     [],
     [],
     [],
     [],
     [],
     [],
     [],
     [],
     [],
     [],
     [],
     [],
     [],
     [],
     [],
     [],
     [],
     [],
     [],
     [],
     [],
     [],
     [],
     [],
     [],
     [],
     [],
     [],
     [],
     [],
     [],
     [],
     [],
     [],
     [],
     [],
     [],
     [],
     [],
     [],
     [],
     [],
     [],
     [],
     [],
     [],
     [],
     [],
     [],
     [],
     [],
     [],
     [],
     [],
     [],
     [],
     [],
     [],
     [],
     [],
     [],
     [],
     [],
     [],
     [],
     [],
     [],
     [],
     [],
     [],
     [],
     [(UNROLLED PT_PROTO_GTPU4, [ETHERNET, IPV4_noptions 0, UDP, GTPU4])],
     [(UNROLLED PT_PROTO_GTPU4, [ETHERNET, IPV4_noptions 1, UDP, GTPU4])],
     [(UNROLLED PT_PROTO_GTPU4, [ETHERNET, IPV4_noptions 2, UDP, GTPU4])],
     [(UNROLLED PT_PROTO_GTPU4, [ETHERNET, IPV4_noptions 3, UDP, GTPU4])],
     [(UNROLLED PT_PROTO_GTPU4, [ETHERNET, IPV4_noptions 4, UDP, GTPU4])],
     [(UNROLLED PT_PROTO_GTPU4, [ETHERNET, IPV4_noptions 5, UDP, GTPU4])],
     [(UNROLLED PT_PROTO_GTPU4, [ETHERNET, IPV4_noptions 6, UDP, GTPU4])],
     [(UNROLLED PT_PROTO_GTPU4, [ETHERNET, IPV4_noptions 7, UDP, GTPU4])],
     [(UNROLLED PT_PROTO_GTPU4, [ETHERNET, IPV4_noptions 8, UDP, GTPU4])],
     [(UNROLLED PT_PROTO_GTPU4, [ETHERNET, IPV4_noptions 9, UDP, GTPU4])],
     [(UNROLLED PT_PROTO_GTPU4, [ETHERNET, IPV4_noptions 10, UDP, GTPU4])],
     [(UNROLLED PT_PROTO_GTPU4, [ETHERNET, IPV4_noptions 11, UDP, GTPU4])],
     [(UNROLLED PT_PROTO_GTPU4, [ETHERNET, IPV4_noptions 12, UDP, GTPU4])],
     [(UNROLLED PT_PROTO_GTPU4, [ETHERNET, IPV4_noptions 13, UDP, GTPU4])],
     [(UNROLLED PT_PROTO_GTPU4, [ETHERNET, IPV4_noptions 14, UDP, GTPU4])],
     [(UNROLLED PT_PROTO_GTPU4, [ETHERNET, IPV4_noptions 15, UDP, GTPU4])],
     [(UNROLLED PT_PROTO_GTPU4, [ETHERNET, ISID, IPV4_noptions 0, UDP, GTPU4])],
     [(UNROLLED PT_PROTO_GTPU4, [ETHERNET, ISID, IPV4_noptions 1, UDP, GTPU4])],
     [(UNROLLED PT_PROTO_GTPU4, [ETHERNET, ISID, IPV4_noptions 2, UDP, GTPU4])],
     [(UNROLLED PT_PROTO_GTPU4, [ETHERNET, ISID, IPV4_noptions 3, UDP, GTPU4])],
     [(UNROLLED PT_PROTO_GTPU4, [ETHERNET, ISID, IPV4_noptions 4, UDP, GTPU4])],
     [(UNROLLED PT_PROTO_GTPU4, [ETHERNET, ISID, IPV4_noptions 5, UDP, GTPU4])],
     [(UNROLLED PT_PROTO_GTPU4, [ETHERNET, ISID, IPV4_noptions 6, UDP, GTPU4])],
     [(UNROLLED PT_PROTO_GTPU4, [ETHERNET, ISID, IPV4_noptions 7, UDP, GTPU4])],
     [(UNROLLED PT_PROTO_GTPU4, [ETHERNET, ISID, IPV4_noptions 8, UDP, GTPU4])],
     [(UNROLLED PT_PROTO_GTPU4, [ETHERNET, ISID, IPV4_noptions 9, UDP, GTPU4])],
     [(UNROLLED PT_PROTO_GTPU4, [ETHERNET, ISID, IPV4_noptions 10, UDP, GTPU4])],
     [(UNROLLED PT_PROTO_GTPU4, [ETHERNET, ISID, IPV4_noptions 11, UDP, GTPU4])],
     [(UNROLLED PT_PROTO_GTPU4, [ETHERNET, ISID, IPV4_noptions 12, UDP, GTPU4])],
     [(UNROLLED PT_PROTO_GTPU4, [ETHERNET, ISID, IPV4_noptions 13, UDP, GTPU4])],
     [(UNROLLED PT_PROTO_GTPU4, [ETHERNET, ISID, IPV4_noptions 14, UDP, GTPU4])],
     [(UNROLLED PT_PROTO_GTPU4, [ETHERNET, ISID, IPV4_noptions 15, UDP, GTPU4])],
     [(UNROLLED PT_PROTO_GTPU4, [ETHERNET, VLAN, ISID, IPV4_noptions 0, UDP, GTPU4])],
     [(UNROLLED PT_PROTO_GTPU4, [ETHERNET, VLAN, ISID, IPV4_noptions 1, UDP, GTPU4])],
     [(UNROLLED PT_PROTO_GTPU4, [ETHERNET, VLAN, ISID, IPV4_noptions 2, UDP, GTPU4])],
     [(UNROLLED PT_PROTO_GTPU4, [ETHERNET, VLAN, ISID, IPV4_noptions 3, UDP, GTPU4])],
     [(UNROLLED PT_PROTO_GTPU4, [ETHERNET, VLAN, ISID, IPV4_noptions 4, UDP, GTPU4])],
     [(UNROLLED PT_PROTO_GTPU4, [ETHERNET, VLAN, ISID, IPV4_noptions 5, UDP, GTPU4])],
     [(UNROLLED PT_PROTO_GTPU4, [ETHERNET, VLAN, ISID, IPV4_noptions 6, UDP, GTPU4])],
     [(UNROLLED PT_PROTO_GTPU4, [ETHERNET, VLAN, ISID, IPV4_noptions 7, UDP, GTPU4])],
     [(UNROLLED PT_PROTO_GTPU4, [ETHERNET, VLAN, ISID, IPV4_noptions 8, UDP, GTPU4])],
     [(UNROLLED PT_PROTO_GTPU4, [ETHERNET, VLAN, ISID, IPV4_noptions 9, UDP, GTPU4])],
     [(UNROLLED PT_PROTO_GTPU4, [ETHERNET, VLAN, ISID, IPV4_noptions 10, UDP, GTPU4])],
     [(UNROLLED PT_PROTO_GTPU4, [ETHERNET, VLAN, ISID, IPV4_noptions 11, UDP, GTPU4])],
     [(UNROLLED PT_PROTO_GTPU4, [ETHERNET, VLAN, ISID, IPV4_noptions 12, UDP, GTPU4])],
     [(UNROLLED PT_PROTO_GTPU4, [ETHERNET, VLAN, ISID, IPV4_noptions 13, UDP, GTPU4])],
     [(UNROLLED PT_PROTO_GTPU4, [ETHERNET, VLAN, ISID, IPV4_noptions 14, UDP, GTPU4])],
     [(UNROLLED PT_PROTO_GTPU4, [ETHERNET, VLAN, ISID, IPV4_noptions 15, UDP, GTPU4])],
     [(UNROLLED PT_PROTO_GTPU4, [IEEE8023, IPV4_noptions 0, UDP, GTPU4])],
     [(UNROLLED PT_PROTO_GTPU4, [IEEE8023, IPV4_noptions 1, UDP, GTPU4])],
     [(UNROLLED PT_PROTO_GTPU4, [IEEE8023, IPV4_noptions 2, UDP, GTPU4])],
     [(UNROLLED PT_PROTO_GTPU4, [IEEE8023, IPV4_noptions 3, UDP, GTPU4])],
     [(UNROLLED PT_PROTO_GTPU4, [IEEE8023, IPV4_noptions 4, UDP, GTPU4])],
     [(UNROLLED PT_PROTO_GTPU4, [IEEE8023, IPV4_noptions 5, UDP, GTPU4])],
     [(UNROLLED PT_PROTO_GTPU4, [IEEE8023, IPV4_noptions 6, UDP, GTPU4])],
     [(UNROLLED PT_PROTO_GTPU4, [IEEE8023, IPV4_noptions 7, UDP, GTPU4])],
     [(UNROLLED PT_PROTO_GTPU4, [IEEE8023, IPV4_noptions 8, UDP, GTPU4])],
     [(UNROLLED PT_PROTO_GTPU4, [IEEE8023, IPV4_noptions 9, UDP, GTPU4])],
     [(UNROLLED PT_PROTO_GTPU4, [IEEE8023, IPV4_noptions 10, UDP, GTPU4])],
     [(UNROLLED PT_PROTO_GTPU4, [IEEE8023, IPV4_noptions 11, UDP, GTPU4])],
     [(UNROLLED PT_PROTO_GTPU4, [IEEE8023, IPV4_noptions 12, UDP, GTPU4])],
     [(UNROLLED PT_PROTO_GTPU4, [IEEE8023, IPV4_noptions 13, UDP, GTPU4])],
     [(UNROLLED PT_PROTO_GTPU4, [IEEE8023, IPV4_noptions 14, UDP, GTPU4])],
     [(UNROLLED PT_PROTO_GTPU4, [IEEE8023, IPV4_noptions 15, UDP, GTPU4])],
     [(UNROLLED PT_PROTO_GTPU4, [ETHERNET, VLAN, IPV4_noptions 0, UDP, GTPU4])],
     [(UNROLLED PT_PROTO_GTPU4, [ETHERNET, VLAN, IPV4_noptions 1, UDP, GTPU4])],
     [(UNROLLED PT_PROTO_GTPU4, [ETHERNET, VLAN, IPV4_noptions 2, UDP, GTPU4])],
     [(UNROLLED PT_PROTO_GTPU4, [ETHERNET, VLAN, IPV4_noptions 3, UDP, GTPU4])],
     [(UNROLLED PT_PROTO_GTPU4, [ETHERNET, VLAN, IPV4_noptions 4, UDP, GTPU4])],
     [(UNROLLED PT_PROTO_GTPU4, [ETHERNET, VLAN, IPV4_noptions 5, UDP, GTPU4])],
     [(UNROLLED PT_PROTO_GTPU4, [ETHERNET, VLAN, IPV4_noptions 6, UDP, GTPU4])],
     [(UNROLLED PT_PROTO_GTPU4, [ETHERNET, VLAN, IPV4_noptions 7, UDP, GTPU4])],
     [(UNROLLED PT_PROTO_GTPU4, [ETHERNET, VLAN, IPV4_noptions 8, UDP, GTPU4])],
     [(UNROLLED PT_PROTO_GTPU4, [ETHERNET, VLAN, IPV4_noptions 9, UDP, GTPU4])],
     [(UNROLLED PT_PROTO_GTPU4, [ETHERNET, VLAN, IPV4_noptions 10, UDP, GTPU4])],
     [(UNROLLED PT_PROTO_GTPU4, [ETHERNET, VLAN, IPV4_noptions 11, UDP, GTPU4])],
     [(UNROLLED PT_PROTO_GTPU4, [ETHERNET, VLAN, IPV4_noptions 12, UDP, GTPU4])],
     [(UNROLLED PT_PROTO_GTPU4, [ETHERNET, VLAN, IPV4_noptions 13, UDP, GTPU4])]]"

definition parse_table_6 :: "(unrolled \<times> pkt_type) list list" where
  "parse_table_6 =
    [[(UNROLLED PT_PROTO_GTPU4, [ETHERNET, VLAN, IPV4_noptions 14, UDP, GTPU4])],
     [(UNROLLED PT_PROTO_GTPU4, [ETHERNET, VLAN, IPV4_noptions 15, UDP, GTPU4])],
     [(UNROLLED PT_PROTO_GTPU4, [IEEE8023, VLAN, IPV4_noptions 0, UDP, GTPU4])],
     [(UNROLLED PT_PROTO_GTPU4, [IEEE8023, VLAN, IPV4_noptions 1, UDP, GTPU4])],
     [(UNROLLED PT_PROTO_GTPU4, [IEEE8023, VLAN, IPV4_noptions 2, UDP, GTPU4])],
     [(UNROLLED PT_PROTO_GTPU4, [IEEE8023, VLAN, IPV4_noptions 3, UDP, GTPU4])],
     [(UNROLLED PT_PROTO_GTPU4, [IEEE8023, VLAN, IPV4_noptions 4, UDP, GTPU4])],
     [(UNROLLED PT_PROTO_GTPU4, [IEEE8023, VLAN, IPV4_noptions 5, UDP, GTPU4])],
     [(UNROLLED PT_PROTO_GTPU4, [IEEE8023, VLAN, IPV4_noptions 6, UDP, GTPU4])],
     [(UNROLLED PT_PROTO_GTPU4, [IEEE8023, VLAN, IPV4_noptions 7, UDP, GTPU4])],
     [(UNROLLED PT_PROTO_GTPU4, [IEEE8023, VLAN, IPV4_noptions 8, UDP, GTPU4])],
     [(UNROLLED PT_PROTO_GTPU4, [IEEE8023, VLAN, IPV4_noptions 9, UDP, GTPU4])],
     [(UNROLLED PT_PROTO_GTPU4, [IEEE8023, VLAN, IPV4_noptions 10, UDP, GTPU4])],
     [(UNROLLED PT_PROTO_GTPU4, [IEEE8023, VLAN, IPV4_noptions 11, UDP, GTPU4])],
     [(UNROLLED PT_PROTO_GTPU4, [IEEE8023, VLAN, IPV4_noptions 12, UDP, GTPU4])],
     [(UNROLLED PT_PROTO_GTPU4, [IEEE8023, VLAN, IPV4_noptions 13, UDP, GTPU4])],
     [(UNROLLED PT_PROTO_GTPU4, [IEEE8023, VLAN, IPV4_noptions 14, UDP, GTPU4])],
     [(UNROLLED PT_PROTO_GTPU4, [IEEE8023, VLAN, IPV4_noptions 15, UDP, GTPU4])],
     [(UNROLLED PT_PROTO_GTPU4, [ETHERNET, VLAN, VLAN, IPV4_noptions 0, UDP, GTPU4])],
     [(UNROLLED PT_PROTO_GTPU4, [ETHERNET, VLAN, VLAN, IPV4_noptions 1, UDP, GTPU4])],
     [(UNROLLED PT_PROTO_GTPU4, [ETHERNET, VLAN, VLAN, IPV4_noptions 2, UDP, GTPU4])],
     [(UNROLLED PT_PROTO_GTPU4, [ETHERNET, VLAN, VLAN, IPV4_noptions 3, UDP, GTPU4])],
     [(UNROLLED PT_PROTO_GTPU4, [ETHERNET, VLAN, VLAN, IPV4_noptions 4, UDP, GTPU4])],
     [(UNROLLED PT_PROTO_GTPU4, [ETHERNET, VLAN, VLAN, IPV4_noptions 5, UDP, GTPU4])],
     [(UNROLLED PT_PROTO_GTPU4, [ETHERNET, VLAN, VLAN, IPV4_noptions 6, UDP, GTPU4])],
     [(UNROLLED PT_PROTO_GTPU4, [ETHERNET, VLAN, VLAN, IPV4_noptions 7, UDP, GTPU4])],
     [(UNROLLED PT_PROTO_GTPU4, [ETHERNET, VLAN, VLAN, IPV4_noptions 8, UDP, GTPU4])],
     [(UNROLLED PT_PROTO_GTPU4, [ETHERNET, VLAN, VLAN, IPV4_noptions 9, UDP, GTPU4])],
     [(UNROLLED PT_PROTO_GTPU4, [ETHERNET, VLAN, VLAN, IPV4_noptions 10, UDP, GTPU4])],
     [(UNROLLED PT_PROTO_GTPU4, [ETHERNET, VLAN, VLAN, IPV4_noptions 11, UDP, GTPU4])],
     [(UNROLLED PT_PROTO_GTPU4, [ETHERNET, VLAN, VLAN, IPV4_noptions 12, UDP, GTPU4])],
     [(UNROLLED PT_PROTO_GTPU4, [ETHERNET, VLAN, VLAN, IPV4_noptions 13, UDP, GTPU4])],
     [(UNROLLED PT_PROTO_GTPU4, [ETHERNET, VLAN, VLAN, IPV4_noptions 14, UDP, GTPU4])],
     [(UNROLLED PT_PROTO_GTPU4, [ETHERNET, VLAN, VLAN, IPV4_noptions 15, UDP, GTPU4])],
     [(UNROLLED PT_PROTO_GTPU4, [IEEE8023, VLAN, VLAN, IPV4_noptions 0, UDP, GTPU4])],
     [(UNROLLED PT_PROTO_GTPU4, [IEEE8023, VLAN, VLAN, IPV4_noptions 1, UDP, GTPU4])],
     [(UNROLLED PT_PROTO_GTPU4, [IEEE8023, VLAN, VLAN, IPV4_noptions 2, UDP, GTPU4])],
     [(UNROLLED PT_PROTO_GTPU4, [IEEE8023, VLAN, VLAN, IPV4_noptions 3, UDP, GTPU4])],
     [(UNROLLED PT_PROTO_GTPU4, [IEEE8023, VLAN, VLAN, IPV4_noptions 4, UDP, GTPU4])],
     [(UNROLLED PT_PROTO_GTPU4, [IEEE8023, VLAN, VLAN, IPV4_noptions 5, UDP, GTPU4])],
     [(UNROLLED PT_PROTO_GTPU4, [IEEE8023, VLAN, VLAN, IPV4_noptions 6, UDP, GTPU4])],
     [(UNROLLED PT_PROTO_GTPU4, [IEEE8023, VLAN, VLAN, IPV4_noptions 7, UDP, GTPU4])],
     [(UNROLLED PT_PROTO_GTPU4, [IEEE8023, VLAN, VLAN, IPV4_noptions 8, UDP, GTPU4])],
     [(UNROLLED PT_PROTO_GTPU4, [IEEE8023, VLAN, VLAN, IPV4_noptions 9, UDP, GTPU4])],
     [(UNROLLED PT_PROTO_GTPU4, [IEEE8023, VLAN, VLAN, IPV4_noptions 10, UDP, GTPU4])],
     [(UNROLLED PT_PROTO_GTPU4, [IEEE8023, VLAN, VLAN, IPV4_noptions 11, UDP, GTPU4])],
     [(UNROLLED PT_PROTO_GTPU4, [IEEE8023, VLAN, VLAN, IPV4_noptions 12, UDP, GTPU4])],
     [(UNROLLED PT_PROTO_GTPU4, [IEEE8023, VLAN, VLAN, IPV4_noptions 13, UDP, GTPU4])],
     [(UNROLLED PT_PROTO_GTPU4, [IEEE8023, VLAN, VLAN, IPV4_noptions 14, UDP, GTPU4])],
     [(UNROLLED PT_PROTO_GTPU4, [IEEE8023, VLAN, VLAN, IPV4_noptions 15, UDP, GTPU4])],
     [],
     [],
     [],
     [],
     [],
     [],
     [],
     [],
     [],
     [],
     [],
     [],
     [],
     [],
     [],
     [],
     [],
     [],
     [],
     [],
     [],
     [],
     [],
     [],
     [],
     [],
     [],
     [],
     [],
     [],
     [],
     [],
     [],
     [],
     [],
     [],
     [],
     [],
     [],
     [],
     [],
     [],
     [],
     [],
     [],
     [],
     [],
     [],
     [],
     [],
     [],
     [],
     [],
     [],
     [],
     [],
     [],
     [],
     [],
     [],
     [],
     [],
     [],
     [],
     [],
     [],
     [],
     [],
     [],
     [],
     [],
     [],
     [],
     [],
     [],
     [],
     [],
     [],
     [],
     [],
     [],
     [],
     [],
     [],
     [],
     [],
     [],
     [],
     [],
     [],
     [],
     [],
     [],
     [],
     [],
     [],
     [],
     [],
     [],
     []]"

definition parse_table_7 :: "(unrolled \<times> pkt_type) list list" where
  "parse_table_7 =
    [[],
     [],
     [],
     [],
     [],
     [],
     [],
     [],
     [],
     [],
     [],
     [],
     [],
     [],
     [],
     [],
     [],
     [],
     [],
     [],
     [],
     [],
     [],
     [],
     [],
     [],
     [],
     [],
     [],
     [],
     [],
     [],
     [],
     [],
     [],
     [],
     [],
     [],
     [],
     [],
     [],
     [],
     [],
     [],
     [],
     [],
     [],
     [],
     [],
     [],
     [],
     [],
     [],
     [],
     [],
     [],
     [],
     [],
     [],
     [],
     [],
     [],
     [],
     [],
     [],
     [],
     [],
     [],
     [],
     [],
     [],
     [],
     [],
     [],
     [],
     [],
     [],
     [],
     [],
     [],
     [],
     [],
     [],
     [],
     [],
     [],
     [],
     [],
     [],
     [],
     [],
     [],
     [],
     [],
     [],
     [],
     [],
     [],
     [],
     [],
     [],
     [],
     [],
     [],
     [],
     [],
     [],
     [],
     [],
     [],
     [],
     [],
     [],
     [],
     [],
     [],
     [],
     [],
     [],
     [],
     [],
     [],
     [],
     [],
     [],
     [],
     [],
     [],
     [],
     [],
     [],
     [],
     [],
     [],
     [],
     [],
     [],
     [],
     [],
     [],
     [],
     [],
     [],
     [],
     [],
     [],
     [],
     [],
     [],
     []]"

definition parse_table_8 :: "(unrolled \<times> pkt_type) list list" where
  "parse_table_8 =
    [[],
     [],
     [],
     [],
     [],
     [],
     [],
     [],
     [],
     [],
     [],
     [],
     [],
     [],
     [],
     [],
     [],
     [],
     [],
     [],
     [],
     [],
     [],
     [],
     [],
     [],
     [],
     [],
     [],
     [],
     [],
     [],
     [],
     [],
     [],
     [],
     [],
     [],
     [],
     [],
     [],
     [],
     [],
     [],
     [],
     [],
     [],
     [],
     [],
     [],
     [],
     [],
     [],
     [],
     [],
     [],
     [],
     [],
     [],
     [],
     [],
     [],
     [],
     [],
     [],
     [],
     [],
     [],
     [],
     [],
     [],
     [],
     [],
     [],
     [],
     [],
     [],
     [],
     [],
     [],
     [],
     [],
     [],
     [],
     [],
     [],
     [],
     [],
     [],
     [],
     [],
     [],
     [],
     [],
     [],
     [],
     [],
     [],
     [],
     [],
     [],
     [],
     [],
     [],
     [],
     [],
     [],
     [],
     [],
     [],
     [],
     [],
     [],
     [],
     [],
     [],
     [],
     [],
     [],
     [],
     [],
     [],
     [],
     [],
     [],
     [],
     [],
     [],
     [],
     [],
     [],
     [],
     [],
     [],
     [(UNROLLED PT_PROTO_ICMPV6, [ETHERNET, IPV6, ICMPV6]), (UNROLLED PT_PROTO_TCP, [ETHERNET, IPV6, TCP]), (UNROLLED PT_PROTO_UDP, [ETHERNET, IPV6, UDP]), (UNROLLED PT_PROTO_SCTP, [ETHERNET, IPV6, SCTP]), (UNROLLED PT_PROTO_GRE6, [ETHERNET, IPV6, GRE6])],
     [(UNROLLED PT_PROTO_ICMPV6, [ETHERNET, ISID, IPV6, ICMPV6]), (UNROLLED PT_PROTO_TCP, [ETHERNET, ISID, IPV6, TCP]), (UNROLLED PT_PROTO_UDP, [ETHERNET, ISID, IPV6, UDP]), (UNROLLED PT_PROTO_SCTP, [ETHERNET, ISID, IPV6, SCTP]), (UNROLLED PT_PROTO_GRE6, [ETHERNET, ISID, IPV6, GRE6])],
     [(UNROLLED PT_PROTO_ICMPV6, [ETHERNET, VLAN, ISID, IPV6, ICMPV6]), (UNROLLED PT_PROTO_TCP, [ETHERNET, VLAN, ISID, IPV6, TCP]), (UNROLLED PT_PROTO_UDP, [ETHERNET, VLAN, ISID, IPV6, UDP]), (UNROLLED PT_PROTO_SCTP, [ETHERNET, VLAN, ISID, IPV6, SCTP]), (UNROLLED PT_PROTO_GRE6, [ETHERNET, VLAN, ISID, IPV6, GRE6])],
     [(UNROLLED PT_PROTO_ICMPV6, [IEEE8023, IPV6, ICMPV6]), (UNROLLED PT_PROTO_TCP, [IEEE8023, IPV6, TCP]), (UNROLLED PT_PROTO_UDP, [IEEE8023, IPV6, UDP]), (UNROLLED PT_PROTO_SCTP, [IEEE8023, IPV6, SCTP]), (UNROLLED PT_PROTO_GRE6, [IEEE8023, IPV6, GRE6])],
     [(UNROLLED PT_PROTO_ICMPV6, [ETHERNET, VLAN, IPV6, ICMPV6]), (UNROLLED PT_PROTO_TCP, [ETHERNET, VLAN, IPV6, TCP]), (UNROLLED PT_PROTO_UDP, [ETHERNET, VLAN, IPV6, UDP]), (UNROLLED PT_PROTO_SCTP, [ETHERNET, VLAN, IPV6, SCTP]), (UNROLLED PT_PROTO_GRE6, [ETHERNET, VLAN, IPV6, GRE6])],
     [(UNROLLED PT_PROTO_ICMPV6, [IEEE8023, VLAN, IPV6, ICMPV6]), (UNROLLED PT_PROTO_TCP, [IEEE8023, VLAN, IPV6, TCP]), (UNROLLED PT_PROTO_UDP, [IEEE8023, VLAN, IPV6, UDP]), (UNROLLED PT_PROTO_SCTP, [IEEE8023, VLAN, IPV6, SCTP]), (UNROLLED PT_PROTO_GRE6, [IEEE8023, VLAN, IPV6, GRE6])],
     [(UNROLLED PT_PROTO_ICMPV6, [ETHERNET, VLAN, VLAN, IPV6, ICMPV6]), (UNROLLED PT_PROTO_TCP, [ETHERNET, VLAN, VLAN, IPV6, TCP]), (UNROLLED PT_PROTO_UDP, [ETHERNET, VLAN, VLAN, IPV6, UDP]), (UNROLLED PT_PROTO_SCTP, [ETHERNET, VLAN, VLAN, IPV6, SCTP]), (UNROLLED PT_PROTO_GRE6, [ETHERNET, VLAN, VLAN, IPV6, GRE6])],
     [(UNROLLED PT_PROTO_ICMPV6, [IEEE8023, VLAN, VLAN, IPV6, ICMPV6]), (UNROLLED PT_PROTO_TCP, [IEEE8023, VLAN, VLAN, IPV6, TCP]), (UNROLLED PT_PROTO_UDP, [IEEE8023, VLAN, VLAN, IPV6, UDP]), (UNROLLED PT_PROTO_SCTP, [IEEE8023, VLAN, VLAN, IPV6, SCTP]), (UNROLLED PT_PROTO_GRE6, [IEEE8023, VLAN, VLAN, IPV6, GRE6])],
     [(UNROLLED PT_PROTO_ICMPV6_OPTS_LLADR_SRC, [ETHERNET, IPV6, ICMPV6, Hdr PT_PROTO_ICMPV6_OPTS_LLADR_SRC]), (UNROLLED PT_PROTO_ICMPV6_OPTS_LLADR_TGT, [ETHERNET, IPV6, ICMPV6, Hdr PT_PROTO_ICMPV6_OPTS_LLADR_TGT]), (UNROLLED PT_PROTO_ICMPV6_OPTS_PREFIX_INFO, [ETHERNET, IPV6, ICMPV6, Hdr PT_PROTO_ICMPV6_OPTS_PREFIX_INFO]), (UNROLLED PT_PROTO_ICMPV6_RTR_SOL, [ETHERNET, IPV6, ICMPV6, Hdr PT_PROTO_ICMPV6_RTR_SOL]), (UNROLLED PT_PROTO_ICMPV6_RTR_ADV, [ETHERNET, IPV6, ICMPV6, Hdr PT_PROTO_ICMPV6_RTR_ADV]), (UNROLLED PT_PROTO_ICMPV6_NEIGH_SOL, [ETHERNET, IPV6, ICMPV6, Hdr PT_PROTO_ICMPV6_NEIGH_SOL]), (UNROLLED PT_PROTO_ICMPV6_NEIGH_ADV, [ETHERNET, IPV6, ICMPV6, Hdr PT_PROTO_ICMPV6_NEIGH_ADV])],
     [(UNROLLED PT_PROTO_ICMPV6_OPTS_LLADR_SRC, [ETHERNET, ISID, IPV6, ICMPV6, Hdr PT_PROTO_ICMPV6_OPTS_LLADR_SRC]), (UNROLLED PT_PROTO_ICMPV6_OPTS_LLADR_TGT, [ETHERNET, ISID, IPV6, ICMPV6, Hdr PT_PROTO_ICMPV6_OPTS_LLADR_TGT]), (UNROLLED PT_PROTO_ICMPV6_OPTS_PREFIX_INFO, [ETHERNET, ISID, IPV6, ICMPV6, Hdr PT_PROTO_ICMPV6_OPTS_PREFIX_INFO]), (UNROLLED PT_PROTO_ICMPV6_RTR_SOL, [ETHERNET, ISID, IPV6, ICMPV6, Hdr PT_PROTO_ICMPV6_RTR_SOL]), (UNROLLED PT_PROTO_ICMPV6_RTR_ADV, [ETHERNET, ISID, IPV6, ICMPV6, Hdr PT_PROTO_ICMPV6_RTR_ADV]), (UNROLLED PT_PROTO_ICMPV6_NEIGH_SOL, [ETHERNET, ISID, IPV6, ICMPV6, Hdr PT_PROTO_ICMPV6_NEIGH_SOL]), (UNROLLED PT_PROTO_ICMPV6_NEIGH_ADV, [ETHERNET, ISID, IPV6, ICMPV6, Hdr PT_PROTO_ICMPV6_NEIGH_ADV])],
     [(UNROLLED PT_PROTO_ICMPV6_OPTS_LLADR_SRC, [ETHERNET, VLAN, ISID, IPV6, ICMPV6, Hdr PT_PROTO_ICMPV6_OPTS_LLADR_SRC]), (UNROLLED PT_PROTO_ICMPV6_OPTS_LLADR_TGT, [ETHERNET, VLAN, ISID, IPV6, ICMPV6, Hdr PT_PROTO_ICMPV6_OPTS_LLADR_TGT]), (UNROLLED PT_PROTO_ICMPV6_OPTS_PREFIX_INFO, [ETHERNET, VLAN, ISID, IPV6, ICMPV6, Hdr PT_PROTO_ICMPV6_OPTS_PREFIX_INFO]), (UNROLLED PT_PROTO_ICMPV6_RTR_SOL, [ETHERNET, VLAN, ISID, IPV6, ICMPV6, Hdr PT_PROTO_ICMPV6_RTR_SOL]), (UNROLLED PT_PROTO_ICMPV6_RTR_ADV, [ETHERNET, VLAN, ISID, IPV6, ICMPV6, Hdr PT_PROTO_ICMPV6_RTR_ADV]), (UNROLLED PT_PROTO_ICMPV6_NEIGH_SOL, [ETHERNET, VLAN, ISID, IPV6, ICMPV6, Hdr PT_PROTO_ICMPV6_NEIGH_SOL]), (UNROLLED PT_PROTO_ICMPV6_NEIGH_ADV, [ETHERNET, VLAN, ISID, IPV6, ICMPV6, Hdr PT_PROTO_ICMPV6_NEIGH_ADV])],
     [(UNROLLED PT_PROTO_ICMPV6_OPTS_LLADR_SRC, [IEEE8023, IPV6, ICMPV6, Hdr PT_PROTO_ICMPV6_OPTS_LLADR_SRC]), (UNROLLED PT_PROTO_ICMPV6_OPTS_LLADR_TGT, [IEEE8023, IPV6, ICMPV6, Hdr PT_PROTO_ICMPV6_OPTS_LLADR_TGT]), (UNROLLED PT_PROTO_ICMPV6_OPTS_PREFIX_INFO, [IEEE8023, IPV6, ICMPV6, Hdr PT_PROTO_ICMPV6_OPTS_PREFIX_INFO]), (UNROLLED PT_PROTO_ICMPV6_RTR_SOL, [IEEE8023, IPV6, ICMPV6, Hdr PT_PROTO_ICMPV6_RTR_SOL]), (UNROLLED PT_PROTO_ICMPV6_RTR_ADV, [IEEE8023, IPV6, ICMPV6, Hdr PT_PROTO_ICMPV6_RTR_ADV]), (UNROLLED PT_PROTO_ICMPV6_NEIGH_SOL, [IEEE8023, IPV6, ICMPV6, Hdr PT_PROTO_ICMPV6_NEIGH_SOL]), (UNROLLED PT_PROTO_ICMPV6_NEIGH_ADV, [IEEE8023, IPV6, ICMPV6, Hdr PT_PROTO_ICMPV6_NEIGH_ADV])],
     [(UNROLLED PT_PROTO_ICMPV6_OPTS_LLADR_SRC, [ETHERNET, VLAN, IPV6, ICMPV6, Hdr PT_PROTO_ICMPV6_OPTS_LLADR_SRC]), (UNROLLED PT_PROTO_ICMPV6_OPTS_LLADR_TGT, [ETHERNET, VLAN, IPV6, ICMPV6, Hdr PT_PROTO_ICMPV6_OPTS_LLADR_TGT]), (UNROLLED PT_PROTO_ICMPV6_OPTS_PREFIX_INFO, [ETHERNET, VLAN, IPV6, ICMPV6, Hdr PT_PROTO_ICMPV6_OPTS_PREFIX_INFO]), (UNROLLED PT_PROTO_ICMPV6_RTR_SOL, [ETHERNET, VLAN, IPV6, ICMPV6, Hdr PT_PROTO_ICMPV6_RTR_SOL]), (UNROLLED PT_PROTO_ICMPV6_RTR_ADV, [ETHERNET, VLAN, IPV6, ICMPV6, Hdr PT_PROTO_ICMPV6_RTR_ADV]), (UNROLLED PT_PROTO_ICMPV6_NEIGH_SOL, [ETHERNET, VLAN, IPV6, ICMPV6, Hdr PT_PROTO_ICMPV6_NEIGH_SOL]), (UNROLLED PT_PROTO_ICMPV6_NEIGH_ADV, [ETHERNET, VLAN, IPV6, ICMPV6, Hdr PT_PROTO_ICMPV6_NEIGH_ADV])],
     [(UNROLLED PT_PROTO_ICMPV6_OPTS_LLADR_SRC, [IEEE8023, VLAN, IPV6, ICMPV6, Hdr PT_PROTO_ICMPV6_OPTS_LLADR_SRC]), (UNROLLED PT_PROTO_ICMPV6_OPTS_LLADR_TGT, [IEEE8023, VLAN, IPV6, ICMPV6, Hdr PT_PROTO_ICMPV6_OPTS_LLADR_TGT]), (UNROLLED PT_PROTO_ICMPV6_OPTS_PREFIX_INFO, [IEEE8023, VLAN, IPV6, ICMPV6, Hdr PT_PROTO_ICMPV6_OPTS_PREFIX_INFO]), (UNROLLED PT_PROTO_ICMPV6_RTR_SOL, [IEEE8023, VLAN, IPV6, ICMPV6, Hdr PT_PROTO_ICMPV6_RTR_SOL]), (UNROLLED PT_PROTO_ICMPV6_RTR_ADV, [IEEE8023, VLAN, IPV6, ICMPV6, Hdr PT_PROTO_ICMPV6_RTR_ADV]), (UNROLLED PT_PROTO_ICMPV6_NEIGH_SOL, [IEEE8023, VLAN, IPV6, ICMPV6, Hdr PT_PROTO_ICMPV6_NEIGH_SOL]), (UNROLLED PT_PROTO_ICMPV6_NEIGH_ADV, [IEEE8023, VLAN, IPV6, ICMPV6, Hdr PT_PROTO_ICMPV6_NEIGH_ADV])],
     [(UNROLLED PT_PROTO_ICMPV6_OPTS_LLADR_SRC, [ETHERNET, VLAN, VLAN, IPV6, ICMPV6, Hdr PT_PROTO_ICMPV6_OPTS_LLADR_SRC]), (UNROLLED PT_PROTO_ICMPV6_OPTS_LLADR_TGT, [ETHERNET, VLAN, VLAN, IPV6, ICMPV6, Hdr PT_PROTO_ICMPV6_OPTS_LLADR_TGT]), (UNROLLED PT_PROTO_ICMPV6_OPTS_PREFIX_INFO, [ETHERNET, VLAN, VLAN, IPV6, ICMPV6, Hdr PT_PROTO_ICMPV6_OPTS_PREFIX_INFO]), (UNROLLED PT_PROTO_ICMPV6_RTR_SOL, [ETHERNET, VLAN, VLAN, IPV6, ICMPV6, Hdr PT_PROTO_ICMPV6_RTR_SOL]), (UNROLLED PT_PROTO_ICMPV6_RTR_ADV, [ETHERNET, VLAN, VLAN, IPV6, ICMPV6, Hdr PT_PROTO_ICMPV6_RTR_ADV]), (UNROLLED PT_PROTO_ICMPV6_NEIGH_SOL, [ETHERNET, VLAN, VLAN, IPV6, ICMPV6, Hdr PT_PROTO_ICMPV6_NEIGH_SOL]), (UNROLLED PT_PROTO_ICMPV6_NEIGH_ADV, [ETHERNET, VLAN, VLAN, IPV6, ICMPV6, Hdr PT_PROTO_ICMPV6_NEIGH_ADV])],
     [(UNROLLED PT_PROTO_ICMPV6_OPTS_LLADR_SRC, [IEEE8023, VLAN, VLAN, IPV6, ICMPV6, Hdr PT_PROTO_ICMPV6_OPTS_LLADR_SRC]), (UNROLLED PT_PROTO_ICMPV6_OPTS_LLADR_TGT, [IEEE8023, VLAN, VLAN, IPV6, ICMPV6, Hdr PT_PROTO_ICMPV6_OPTS_LLADR_TGT]), (UNROLLED PT_PROTO_ICMPV6_OPTS_PREFIX_INFO, [IEEE8023, VLAN, VLAN, IPV6, ICMPV6, Hdr PT_PROTO_ICMPV6_OPTS_PREFIX_INFO]), (UNROLLED PT_PROTO_ICMPV6_RTR_SOL, [IEEE8023, VLAN, VLAN, IPV6, ICMPV6, Hdr PT_PROTO_ICMPV6_RTR_SOL]), (UNROLLED PT_PROTO_ICMPV6_RTR_ADV, [IEEE8023, VLAN, VLAN, IPV6, ICMPV6, Hdr PT_PROTO_ICMPV6_RTR_ADV]), (UNROLLED PT_PROTO_ICMPV6_NEIGH_SOL, [IEEE8023, VLAN, VLAN, IPV6, ICMPV6, Hdr PT_PROTO_ICMPV6_NEIGH_SOL]), (UNROLLED PT_PROTO_ICMPV6_NEIGH_ADV, [IEEE8023, VLAN, VLAN, IPV6, ICMPV6, Hdr PT_PROTO_ICMPV6_NEIGH_ADV])]]"

definition parse_table_9 :: "(unrolled \<times> pkt_type) list list" where
  "parse_table_9 =
    [[],
     [],
     [],
     [],
     [],
     [],
     [],
     [],
     [],
     [],
     [],
     [],
     [],
     [],
     [],
     [],
     [],
     [],
     [],
     [],
     [],
     [],
     [],
     [],
     [(UNROLLED PT_PROTO_ICMPV6_RTR_SOL_OPTS_LLADR_SRC, [ETHERNET, IPV6, ICMPV6, Hdr PT_PROTO_ICMPV6_RTR_SOL, Hdr PT_PROTO_ICMPV6_RTR_SOL_OPTS_LLADR_SRC])],
     [(UNROLLED PT_PROTO_ICMPV6_RTR_SOL_OPTS_LLADR_SRC, [ETHERNET, ISID, IPV6, ICMPV6, Hdr PT_PROTO_ICMPV6_RTR_SOL, Hdr PT_PROTO_ICMPV6_RTR_SOL_OPTS_LLADR_SRC])],
     [(UNROLLED PT_PROTO_ICMPV6_RTR_SOL_OPTS_LLADR_SRC, [ETHERNET, VLAN, ISID, IPV6, ICMPV6, Hdr PT_PROTO_ICMPV6_RTR_SOL, Hdr PT_PROTO_ICMPV6_RTR_SOL_OPTS_LLADR_SRC])],
     [(UNROLLED PT_PROTO_ICMPV6_RTR_SOL_OPTS_LLADR_SRC, [IEEE8023, IPV6, ICMPV6, Hdr PT_PROTO_ICMPV6_RTR_SOL, Hdr PT_PROTO_ICMPV6_RTR_SOL_OPTS_LLADR_SRC])],
     [(UNROLLED PT_PROTO_ICMPV6_RTR_SOL_OPTS_LLADR_SRC, [ETHERNET, VLAN, IPV6, ICMPV6, Hdr PT_PROTO_ICMPV6_RTR_SOL, Hdr PT_PROTO_ICMPV6_RTR_SOL_OPTS_LLADR_SRC])],
     [(UNROLLED PT_PROTO_ICMPV6_RTR_SOL_OPTS_LLADR_SRC, [IEEE8023, VLAN, IPV6, ICMPV6, Hdr PT_PROTO_ICMPV6_RTR_SOL, Hdr PT_PROTO_ICMPV6_RTR_SOL_OPTS_LLADR_SRC])],
     [(UNROLLED PT_PROTO_ICMPV6_RTR_SOL_OPTS_LLADR_SRC, [ETHERNET, VLAN, VLAN, IPV6, ICMPV6, Hdr PT_PROTO_ICMPV6_RTR_SOL, Hdr PT_PROTO_ICMPV6_RTR_SOL_OPTS_LLADR_SRC])],
     [(UNROLLED PT_PROTO_ICMPV6_RTR_SOL_OPTS_LLADR_SRC, [IEEE8023, VLAN, VLAN, IPV6, ICMPV6, Hdr PT_PROTO_ICMPV6_RTR_SOL, Hdr PT_PROTO_ICMPV6_RTR_SOL_OPTS_LLADR_SRC])],
     [(UNROLLED PT_PROTO_ICMPV6_RTR_ADV_OPTS_LLADR_SRC, [ETHERNET, IPV6, ICMPV6, Hdr PT_PROTO_ICMPV6_RTR_ADV, Hdr PT_PROTO_ICMPV6_RTR_ADV_OPTS_LLADR_SRC])],
     [(UNROLLED PT_PROTO_ICMPV6_RTR_ADV_OPTS_LLADR_SRC, [ETHERNET, ISID, IPV6, ICMPV6, Hdr PT_PROTO_ICMPV6_RTR_ADV, Hdr PT_PROTO_ICMPV6_RTR_ADV_OPTS_LLADR_SRC])],
     [(UNROLLED PT_PROTO_ICMPV6_RTR_ADV_OPTS_LLADR_SRC, [ETHERNET, VLAN, ISID, IPV6, ICMPV6, Hdr PT_PROTO_ICMPV6_RTR_ADV, Hdr PT_PROTO_ICMPV6_RTR_ADV_OPTS_LLADR_SRC])],
     [(UNROLLED PT_PROTO_ICMPV6_RTR_ADV_OPTS_LLADR_SRC, [IEEE8023, IPV6, ICMPV6, Hdr PT_PROTO_ICMPV6_RTR_ADV, Hdr PT_PROTO_ICMPV6_RTR_ADV_OPTS_LLADR_SRC])],
     [(UNROLLED PT_PROTO_ICMPV6_RTR_ADV_OPTS_LLADR_SRC, [ETHERNET, VLAN, IPV6, ICMPV6, Hdr PT_PROTO_ICMPV6_RTR_ADV, Hdr PT_PROTO_ICMPV6_RTR_ADV_OPTS_LLADR_SRC])],
     [(UNROLLED PT_PROTO_ICMPV6_RTR_ADV_OPTS_LLADR_SRC, [IEEE8023, VLAN, IPV6, ICMPV6, Hdr PT_PROTO_ICMPV6_RTR_ADV, Hdr PT_PROTO_ICMPV6_RTR_ADV_OPTS_LLADR_SRC])],
     [(UNROLLED PT_PROTO_ICMPV6_RTR_ADV_OPTS_LLADR_SRC, [ETHERNET, VLAN, VLAN, IPV6, ICMPV6, Hdr PT_PROTO_ICMPV6_RTR_ADV, Hdr PT_PROTO_ICMPV6_RTR_ADV_OPTS_LLADR_SRC])],
     [(UNROLLED PT_PROTO_ICMPV6_RTR_ADV_OPTS_LLADR_SRC, [IEEE8023, VLAN, VLAN, IPV6, ICMPV6, Hdr PT_PROTO_ICMPV6_RTR_ADV, Hdr PT_PROTO_ICMPV6_RTR_ADV_OPTS_LLADR_SRC])],
     [(UNROLLED PT_PROTO_ICMPV6_NEIGH_SOL_OPTS_LLADR_SRC, [ETHERNET, IPV6, ICMPV6, Hdr PT_PROTO_ICMPV6_NEIGH_SOL, Hdr PT_PROTO_ICMPV6_NEIGH_SOL_OPTS_LLADR_SRC])],
     [(UNROLLED PT_PROTO_ICMPV6_NEIGH_SOL_OPTS_LLADR_SRC, [ETHERNET, ISID, IPV6, ICMPV6, Hdr PT_PROTO_ICMPV6_NEIGH_SOL, Hdr PT_PROTO_ICMPV6_NEIGH_SOL_OPTS_LLADR_SRC])],
     [(UNROLLED PT_PROTO_ICMPV6_NEIGH_SOL_OPTS_LLADR_SRC, [ETHERNET, VLAN, ISID, IPV6, ICMPV6, Hdr PT_PROTO_ICMPV6_NEIGH_SOL, Hdr PT_PROTO_ICMPV6_NEIGH_SOL_OPTS_LLADR_SRC])],
     [(UNROLLED PT_PROTO_ICMPV6_NEIGH_SOL_OPTS_LLADR_SRC, [IEEE8023, IPV6, ICMPV6, Hdr PT_PROTO_ICMPV6_NEIGH_SOL, Hdr PT_PROTO_ICMPV6_NEIGH_SOL_OPTS_LLADR_SRC])],
     [(UNROLLED PT_PROTO_ICMPV6_NEIGH_SOL_OPTS_LLADR_SRC, [ETHERNET, VLAN, IPV6, ICMPV6, Hdr PT_PROTO_ICMPV6_NEIGH_SOL, Hdr PT_PROTO_ICMPV6_NEIGH_SOL_OPTS_LLADR_SRC])],
     [(UNROLLED PT_PROTO_ICMPV6_NEIGH_SOL_OPTS_LLADR_SRC, [IEEE8023, VLAN, IPV6, ICMPV6, Hdr PT_PROTO_ICMPV6_NEIGH_SOL, Hdr PT_PROTO_ICMPV6_NEIGH_SOL_OPTS_LLADR_SRC])],
     [(UNROLLED PT_PROTO_ICMPV6_NEIGH_SOL_OPTS_LLADR_SRC, [ETHERNET, VLAN, VLAN, IPV6, ICMPV6, Hdr PT_PROTO_ICMPV6_NEIGH_SOL, Hdr PT_PROTO_ICMPV6_NEIGH_SOL_OPTS_LLADR_SRC])],
     [(UNROLLED PT_PROTO_ICMPV6_NEIGH_SOL_OPTS_LLADR_SRC, [IEEE8023, VLAN, VLAN, IPV6, ICMPV6, Hdr PT_PROTO_ICMPV6_NEIGH_SOL, Hdr PT_PROTO_ICMPV6_NEIGH_SOL_OPTS_LLADR_SRC])],
     [(UNROLLED PT_PROTO_ICMPV6_NEIGH_ADV_OPTS_LLADR_TGT, [ETHERNET, IPV6, ICMPV6, Hdr PT_PROTO_ICMPV6_NEIGH_ADV, Hdr PT_PROTO_ICMPV6_NEIGH_ADV_OPTS_LLADR_TGT])],
     [(UNROLLED PT_PROTO_ICMPV6_NEIGH_ADV_OPTS_LLADR_TGT, [ETHERNET, ISID, IPV6, ICMPV6, Hdr PT_PROTO_ICMPV6_NEIGH_ADV, Hdr PT_PROTO_ICMPV6_NEIGH_ADV_OPTS_LLADR_TGT])],
     [(UNROLLED PT_PROTO_ICMPV6_NEIGH_ADV_OPTS_LLADR_TGT, [ETHERNET, VLAN, ISID, IPV6, ICMPV6, Hdr PT_PROTO_ICMPV6_NEIGH_ADV, Hdr PT_PROTO_ICMPV6_NEIGH_ADV_OPTS_LLADR_TGT])],
     [(UNROLLED PT_PROTO_ICMPV6_NEIGH_ADV_OPTS_LLADR_TGT, [IEEE8023, IPV6, ICMPV6, Hdr PT_PROTO_ICMPV6_NEIGH_ADV, Hdr PT_PROTO_ICMPV6_NEIGH_ADV_OPTS_LLADR_TGT])],
     [(UNROLLED PT_PROTO_ICMPV6_NEIGH_ADV_OPTS_LLADR_TGT, [ETHERNET, VLAN, IPV6, ICMPV6, Hdr PT_PROTO_ICMPV6_NEIGH_ADV, Hdr PT_PROTO_ICMPV6_NEIGH_ADV_OPTS_LLADR_TGT])],
     [(UNROLLED PT_PROTO_ICMPV6_NEIGH_ADV_OPTS_LLADR_TGT, [IEEE8023, VLAN, IPV6, ICMPV6, Hdr PT_PROTO_ICMPV6_NEIGH_ADV, Hdr PT_PROTO_ICMPV6_NEIGH_ADV_OPTS_LLADR_TGT])],
     [(UNROLLED PT_PROTO_ICMPV6_NEIGH_ADV_OPTS_LLADR_TGT, [ETHERNET, VLAN, VLAN, IPV6, ICMPV6, Hdr PT_PROTO_ICMPV6_NEIGH_ADV, Hdr PT_PROTO_ICMPV6_NEIGH_ADV_OPTS_LLADR_TGT])],
     [(UNROLLED PT_PROTO_ICMPV6_NEIGH_ADV_OPTS_LLADR_TGT, [IEEE8023, VLAN, VLAN, IPV6, ICMPV6, Hdr PT_PROTO_ICMPV6_NEIGH_ADV, Hdr PT_PROTO_ICMPV6_NEIGH_ADV_OPTS_LLADR_TGT])],
     [],
     [],
     [],
     [],
     [],
     [],
     [],
     [],
     [],
     [],
     [],
     [],
     [],
     [],
     [],
     [],
     [],
     [],
     [],
     [],
     [],
     [],
     [],
     [],
     [],
     [],
     [],
     [],
     [],
     [],
     [],
     [],
     [],
     [],
     [],
     [],
     [],
     [],
     [],
     [],
     [(UNROLLED PT_PROTO_GTPU6, [ETHERNET, IPV6, UDP, GTPU6])],
     [(UNROLLED PT_PROTO_GTPU6, [ETHERNET, ISID, IPV6, UDP, GTPU6])],
     [(UNROLLED PT_PROTO_GTPU6, [ETHERNET, VLAN, ISID, IPV6, UDP, GTPU6])],
     [(UNROLLED PT_PROTO_GTPU6, [IEEE8023, IPV6, UDP, GTPU6])],
     [(UNROLLED PT_PROTO_GTPU6, [ETHERNET, VLAN, IPV6, UDP, GTPU6])],
     [(UNROLLED PT_PROTO_GTPU6, [IEEE8023, VLAN, IPV6, UDP, GTPU6])],
     [(UNROLLED PT_PROTO_GTPU6, [ETHERNET, VLAN, VLAN, IPV6, UDP, GTPU6])],
     [(UNROLLED PT_PROTO_GTPU6, [IEEE8023, VLAN, VLAN, IPV6, UDP, GTPU6])],
     [],
     [],
     [],
     [],
     [],
     [],
     [],
     [],
     [],
     [],
     [],
     [],
     [],
     [],
     [],
     [],
     [],
     [],
     [],
     [],
     [],
     [],
     [],
     []]"

definition parse_table :: "(unrolled \<times> pkt_type) list list" where
  "parse_table =
     parse_table_1 @ parse_table_2 @ parse_table_3 @ parse_table_4 @ parse_table_5 @ parse_table_6 @ parse_table_7 @ parse_table_8 @ parse_table_9"

text \<open>A row as a list of the valid entries: the types that are one header longer.\<close>

definition longer :: "pkt_type list \<Rightarrow> pkt_type \<Rightarrow> pkt_type \<Rightarrow> (unrolled \<times> pkt_type) list" where
  "longer ts pre hs =
     map (\<lambda>v. (UNROLLED (proto_of (last v)), pre @ v)) (filter (\<lambda>v. v \<noteq> [] \<and> butlast v = hs) ts)"

fun upper_row :: "pkt_type \<Rightarrow> pkt_type \<Rightarrow> (unrolled \<times> pkt_type) list" where
  "upper_row l2 [] =
     [(UNROLLED PT_PROTO_MPLS, l2 @ [MPLS_nlabels 1]), (UNROLLED PT_PROTO_PPPOE, l2 @ [PPPOE]),
      (UNROLLED PT_PROTO_ARPV4, l2 @ [ARPV4])] @
     map (\<lambda>n. (UNROLLED_IPV4_noptions n, l2 @ [IPV4_noptions n])) [0..<16] @ [(UNROLLED PT_PROTO_IPV6, l2 @ [IPV6])]"
| "upper_row l2 (MPLS_nlabels n # hs) =
     (if n < 32 then [(UNROLLED PT_PROTO_MPLS, l2 @ [MPLS_nlabels (n + 1)])] else [])"
| "upper_row l2 (IPV4_noptions n # hs) = longer ipv4_uppers (l2 @ [IPV4_noptions n]) hs"
| "upper_row l2 (Hdr p # hs) =
     (if p = PT_PROTO_IPV6 then longer ipv6_uppers (l2 @ [IPV6]) hs
      else if p = PT_PROTO_PPPOE \<and> hs = [] then [(UNROLLED PT_PROTO_PPP, l2 @ [PPPOE, PPP])] else [])"

definition parse_row :: "pkt_type \<Rightarrow> (unrolled \<times> pkt_type) list" where
  "parse_row t = (if upper_part t = [] then longer l2_types [] t else []) @ upper_row (l2_part t) (upper_part t)"

lemma map_of_longer:
  assumes "\<forall>v\<in>set ts. \<forall>h\<in>set v. \<exists>p. h = Hdr p"
  shows "map_of (longer ts pre hs) (UNROLLED p) = (if hs @ [Hdr p] \<in> set ts then Some (pre @ hs @ [Hdr p]) else None)"
    and "map_of (longer ts pre hs) (UNROLLED_IPV4_noptions n) = None"
proof -
  have key: "v \<noteq> [] \<and> butlast v = hs \<and> proto_of (last v) = p \<longleftrightarrow> v = hs @ [Hdr p]" if inn: "v \<in> set ts" for v
  proof (cases v rule: rev_cases)
    case (snoc ys y)
    then obtain q where "y = Hdr q" using assms inn by force
    then show ?thesis using snoc by auto
  qed simp
  show "map_of (longer ts pre hs) (UNROLLED p) = (if hs @ [Hdr p] \<in> set ts then Some (pre @ hs @ [Hdr p]) else None)"
    using key
  proof (induction ts)
    case (Cons v ts)
    then show ?case using Cons.prems [of v] by (cases "v = hs @ [Hdr p]") (auto simp: longer_def)
  qed (simp add: longer_def)
  show "map_of (longer ts pre hs) (UNROLLED_IPV4_noptions n) = None"
    unfolding longer_def by (induction ts) auto
qed

lemma parse_step_plain:
  assumes "t \<noteq> []" and "\<And>n. last t \<noteq> MPLS_nlabels n"
  shows "parse_step t (UNROLLED p) = t @ [if p = PT_PROTO_MPLS then MPLS_nlabels 1 else Hdr p]"
proof (cases t rule: rev_cases)
  case (snoc ys y)
  then show ?thesis using assms(2) by (cases y) (auto simp: parse_step_def)
qed (use assms(1) in simp)

lemma plain_headers:
  "\<forall>v\<in>set l2_types. \<forall>h\<in>set v. \<exists>p. h = Hdr p" "\<forall>v\<in>set ipv4_uppers. \<forall>h\<in>set v. \<exists>p. h = Hdr p"
  "\<forall>v\<in>set ipv6_uppers. \<forall>h\<in>set v. \<exists>p. h = Hdr p"
  by (simp_all add: l2_types_def ipv4_uppers_def ipv6_uppers_def)

lemma pkt_types_snoc:
  assumes "l2 \<in> set l2_types" and "upper_type up" and "up \<noteq> []"
  shows "pkt_types (l2 @ up @ vs) \<longleftrightarrow> upper_type (up @ vs)"
proof -
  obtain h hs where up: "up = h # hs" using assms(3) by (cases up) auto
  then have "\<not> is_l2 h" using upper_type_not_l2 assms(2) by blast
  then have "l2_part (l2 @ up @ vs) = l2" "upper_part (l2 @ up @ vs) = up @ vs"
    using l2_types_is_l2 [OF assms(1)] up by (simp_all add: l2_part_def upper_part_def)
  then show ?thesis using assms(1) by (simp add: pkt_types_def)
qed

lemma map_of_options: "map_of (map (\<lambda>n. (UNROLLED_IPV4_noptions n, f n)) [0..<16] @ xs) u =
    (case u of UNROLLED_IPV4_noptions n \<Rightarrow> if n < 16 then Some (f n) else map_of xs u | UNROLLED p \<Rightarrow> map_of xs u)"
proof -
  have "map_of (map (\<lambda>n. (UNROLLED_IPV4_noptions n, f n)) ns) u =
      (case u of UNROLLED_IPV4_noptions n \<Rightarrow> if n \<in> set ns then Some (f n) else None | UNROLLED p \<Rightarrow> None)" for ns
    by (induction ns) (auto split: unrolled.splits)
  then show ?thesis by (auto simp: map_add_def split: unrolled.splits option.splits)
qed

lemma parse_row_l2:
  assumes "l2 \<in> set l2_types"
  shows "map_of (longer l2_types [] l2 @ upper_row l2 []) = parse_transitions l2"
proof
  fix u
  have valid: "pkt_types (l2 @ [h]) \<longleftrightarrow> (if is_l2 h then l2 @ [h] \<in> set l2_types else upper_type [h])" for h
    using l2_types_is_l2 [OF assms] assms by (simp add: pkt_types_def l2_part_def upper_part_def)
  show "map_of (longer l2_types [] l2 @ upper_row l2 []) u = parse_transitions l2 u"
  proof (cases u)
    case (UNROLLED p)
    have "map_of (longer l2_types [] l2 @ upper_row l2 []) u =
        (if l2 @ [Hdr p] \<in> set l2_types then Some (l2 @ [Hdr p]) else map_of (upper_row l2 []) u)"
      using map_of_longer(1) [OF plain_headers(1), of "[]" l2 p] UNROLLED by (simp add: map_add_def)
    moreover have "parse_step l2 u = l2 @ [if p = PT_PROTO_MPLS then MPLS_nlabels 1 else Hdr p]"
      unfolding UNROLLED by (rule parse_step_plain) (use assms in \<open>auto simp: l2_types_def\<close>)
    moreover have "map_of (upper_row l2 []) (UNROLLED p) = (if p = PT_PROTO_MPLS then Some (l2 @ [MPLS_nlabels 1])
        else if p \<in> {PT_PROTO_PPPOE, PT_PROTO_ARPV4, PT_PROTO_IPV6} then Some (l2 @ [Hdr p]) else None)"
      by (auto simp: map_of_options simp del: map_of_append)
    moreover have "l2 @ [Hdr p] \<in> set l2_types \<longrightarrow> is_l2 (Hdr p)" using l2_types_is_l2 by fastforce
    moreover have "is_l2 (Hdr p) \<longrightarrow> p \<notin> {PT_PROTO_PPPOE, PT_PROTO_ARPV4, PT_PROTO_IPV6} \<and> p \<noteq> PT_PROTO_MPLS"
      by (auto simp: is_l2_def)
    moreover have "\<not> is_l2 (MPLS_nlabels 1)" "upper_type [MPLS_nlabels 1]" by (simp_all add: is_l2_def)
    moreover have "upper_type [Hdr p] \<longleftrightarrow> p \<in> {PT_PROTO_PPPOE, PT_PROTO_ARPV4, PT_PROTO_IPV6}"
      by (simp add: ipv6_uppers_def)
    ultimately show ?thesis
      unfolding UNROLLED parse_transitions_def by (cases "p = PT_PROTO_MPLS"; cases "is_l2 (Hdr p)") (simp_all only: valid if_True if_False simp_thms)
  next
    case (UNROLLED_IPV4_noptions n)
    have "map_of (longer l2_types [] l2 @ upper_row l2 []) u = map_of (upper_row l2 []) u"
      using map_of_longer(2) [OF plain_headers(1), of "[]" l2 n] UNROLLED_IPV4_noptions by (simp add: map_add_def)
    moreover have "\<not> is_l2 (IPV4_noptions n)" by (simp add: is_l2_def)
    ultimately show ?thesis using UNROLLED_IPV4_noptions
      by (auto simp: map_of_options parse_transitions_def parse_step_def valid ipv4_uppers_def simp del: map_of_append)
  qed
qed

text \<open>A header \<open>x\<close> that the members of \<open>ts\<close> can follow.\<close>

lemma longer_row:
  assumes "l2 \<in> set l2_types" and plain: "\<forall>v\<in>set ts. \<forall>h\<in>set v. \<exists>p. h = Hdr p" and "hs \<in> set ts"
    and valid: "\<And>vs. upper_type (x # vs) \<longleftrightarrow> vs \<in> set ts" and "\<And>n. x \<noteq> MPLS_nlabels n"
    and no_mpls: "\<forall>v\<in>set ts. Hdr PT_PROTO_MPLS \<notin> set v"
  shows "map_of (longer ts (l2 @ [x]) hs) = parse_transitions (l2 @ x # hs)"
proof
  fix u
  have val: "pkt_types (l2 @ x # hs @ vs) \<longleftrightarrow> hs @ vs \<in> set ts" for vs
    using pkt_types_snoc [OF assms(1), of "x # hs" vs] assms(3) valid by simp
  have new: "hs @ [h] \<notin> set ts" if "\<And>p. h \<noteq> Hdr p" for h using plain that by fastforce
  show "map_of (longer ts (l2 @ [x]) hs) u = parse_transitions (l2 @ x # hs) u"
  proof (cases u)
    case (UNROLLED q)
    show ?thesis
    proof (cases "q = PT_PROTO_MPLS")
      case True
      have "last (x # hs) \<noteq> MPLS_nlabels n" for n
        using plain assms(3,5) last_in_set [of hs] by (cases "hs = []") fastforce+
      then have "parse_step (l2 @ x # hs) u = l2 @ x # hs @ [MPLS_nlabels 1]"
        using UNROLLED True parse_step_plain [of "l2 @ x # hs" q] by simp
      moreover have "hs @ [Hdr PT_PROTO_MPLS] \<notin> set ts" using no_mpls by force
      ultimately show ?thesis using UNROLLED True val new [of "MPLS_nlabels 1"]
        by (simp add: map_of_longer [OF plain] parse_transitions_def)
    qed (use UNROLLED val in \<open>simp add: map_of_longer [OF plain] parse_transitions_def parse_step_def\<close>)
  qed (use val new in \<open>simp add: map_of_longer [OF plain] parse_transitions_def parse_step_def\<close>)
qed

lemma parse_row_upper:
  assumes "l2 \<in> set l2_types" and "upper_type up" and "up \<noteq> []"
  shows "map_of (upper_row l2 up) = parse_transitions (l2 @ up)"
proof (cases up rule: upper_type.cases)
  case (2 n hs)
  have "parse_transitions (l2 @ up) u = (if u = UNROLLED PT_PROTO_MPLS
      then if n < 32 then Some (l2 @ [MPLS_nlabels (n + 1)]) else None else None)" for u
  proof -
    have "pkt_types (l2 @ [MPLS_nlabels (n + 1)]) \<longleftrightarrow> n < 32"
      using pkt_types_append [OF assms(1), of "[MPLS_nlabels (n + 1)]"] pkt_types_parts(2) [of "l2 @ [MPLS_nlabels (n + 1)]"]
        l2_types_is_l2 [OF assms(1)] by (auto simp: upper_part_def is_l2_def)
    then show ?thesis using assms(2) 2 pkt_types_snoc [OF assms]
      by (auto simp: parse_transitions_def parse_step_def split: unrolled.splits)
  qed
  then show ?thesis using 2 assms(2) by auto
next
  case (3 n hs)
  moreover have "\<forall>v\<in>set ipv4_uppers. Hdr PT_PROTO_MPLS \<notin> set v" by (simp add: ipv4_uppers_def)
  ultimately show ?thesis using longer_row [OF assms(1) plain_headers(2), of hs "IPV4_noptions n"] assms(2) by simp
next
  case (4 p hs)
  then consider (v6) "p = PT_PROTO_IPV6" "hs \<in> set ipv6_uppers" | (pppoe) "p = PT_PROTO_PPPOE" "hs = []"
    | (ppp) "p = PT_PROTO_PPPOE" "hs = [PPP]" | (arp) "p = PT_PROTO_ARPV4" "hs = []"
    using assms(2) by (auto split: if_splits)
  then show ?thesis
  proof cases
    case v6
    moreover have "\<forall>v\<in>set ipv6_uppers. Hdr PT_PROTO_MPLS \<notin> set v" by (simp add: ipv6_uppers_def)
    ultimately show ?thesis using longer_row [OF assms(1) plain_headers(3), of hs IPV6] 4 by simp
  qed (use pkt_types_snoc [OF assms] in \<open>auto simp: 4 fun_eq_iff parse_transitions_def parse_step_def split: unrolled.splits\<close>)
qed (use assms(3) in simp)

lemma parse_row:
  assumes "pkt_types t"
  shows "map_of (parse_row t) = parse_transitions t"
proof -
  obtain l2 up where t: "t = l2 @ up" "l2 \<in> set l2_types" "upper_type up" using assms by (rule pkt_typesE)
  have "l2_part t = l2" "upper_part t = up" using t parts_append [OF l2_types_is_l2] by auto
  then show ?thesis using parse_row_l2 [OF t(2)] parse_row_upper [OF t(2,3)] t(1) by (cases "up = []") (simp_all add: parse_row_def)
qed

lemma parse_table_1_rows: "map parse_row pt_enum_1 = parse_table_1"
  by code_simp

lemma parse_table_2_rows: "map parse_row pt_enum_2 = parse_table_2"
  by code_simp

lemma parse_table_3_rows: "map parse_row pt_enum_3 = parse_table_3"
  by code_simp

lemma parse_table_4_rows: "map parse_row pt_enum_4 = parse_table_4"
  by code_simp

lemma parse_table_5_rows: "map parse_row pt_enum_5 = parse_table_5"
  by code_simp

lemma parse_table_6_rows: "map parse_row pt_enum_6 = parse_table_6"
  by code_simp

lemma parse_table_7_rows: "map parse_row pt_enum_7 = parse_table_7"
  by code_simp

lemma parse_table_8_rows: "map parse_row pt_enum_8 = parse_table_8"
  by code_simp

lemma parse_table_9_rows: "map parse_row pt_enum_9 = parse_table_9"
  by code_simp

lemma parse_rows: "map parse_row pt_enum = parse_table"
  by (simp only: pt_enum_def parse_table_def map_append parse_table_1_rows parse_table_2_rows parse_table_3_rows parse_table_4_rows parse_table_5_rows parse_table_6_rows parse_table_7_rows parse_table_8_rows parse_table_9_rows)

lemma parse_transitions_rows: "sparse_are parse_transitions parse_table"
  by (rule sparse_areI [OF parse_rows parse_row])

end
