(* ===== verification/Pop_Table.thy ===== *)
theory Pop_Table
  imports Push_Table Parse_Table
begin

text \<open>
  The table \<open>pop_transitions\<close> of \<open>autogen_pkt_types.c\<close>, row by row (the entries that are not \<open>PT_INVALID\<close>), and that the
  definition \<open>pop_transitions\<close> has its values.
\<close>

definition pop_table_1 :: "(unrolled \<times> pkt_type) list list" where
  "pop_table_1 =
    [[(UNROLLED PT_PROTO_PPPOE, [ETHERNET])],
     [(UNROLLED PT_PROTO_ISID, [ETHERNET, ISID])],
     [],
     [(UNROLLED PT_PROTO_PPPOE, [IEEE8023])],
     [(UNROLLED PT_PROTO_VLAN, [ETHERNET]), (UNROLLED PT_PROTO_PPPOE, [ETHERNET, VLAN])],
     [(UNROLLED PT_PROTO_VLAN, [IEEE8023]), (UNROLLED PT_PROTO_PPPOE, [IEEE8023, VLAN])],
     [(UNROLLED PT_PROTO_VLAN, [ETHERNET, VLAN]), (UNROLLED PT_PROTO_PPPOE, [ETHERNET, VLAN, VLAN])],
     [(UNROLLED PT_PROTO_VLAN, [IEEE8023, VLAN]), (UNROLLED PT_PROTO_PPPOE, [IEEE8023, VLAN, VLAN])],
     [(UNROLLED PT_PROTO_MPLS, [ETHERNET]), (UNROLLED PT_PROTO_PPPOE, [ETHERNET, MPLS_nlabels 1])],
     [(UNROLLED PT_PROTO_MPLS, [ETHERNET, MPLS_nlabels 1]), (UNROLLED PT_PROTO_PPPOE, [ETHERNET, MPLS_nlabels 2])],
     [(UNROLLED PT_PROTO_MPLS, [ETHERNET, MPLS_nlabels 2]), (UNROLLED PT_PROTO_PPPOE, [ETHERNET, MPLS_nlabels 3])],
     [(UNROLLED PT_PROTO_MPLS, [ETHERNET, MPLS_nlabels 3]), (UNROLLED PT_PROTO_PPPOE, [ETHERNET, MPLS_nlabels 4])],
     [(UNROLLED PT_PROTO_MPLS, [ETHERNET, MPLS_nlabels 4]), (UNROLLED PT_PROTO_PPPOE, [ETHERNET, MPLS_nlabels 5])],
     [(UNROLLED PT_PROTO_MPLS, [ETHERNET, MPLS_nlabels 5]), (UNROLLED PT_PROTO_PPPOE, [ETHERNET, MPLS_nlabels 6])],
     [(UNROLLED PT_PROTO_MPLS, [ETHERNET, MPLS_nlabels 6]), (UNROLLED PT_PROTO_PPPOE, [ETHERNET, MPLS_nlabels 7])],
     [(UNROLLED PT_PROTO_MPLS, [ETHERNET, MPLS_nlabels 7]), (UNROLLED PT_PROTO_PPPOE, [ETHERNET, MPLS_nlabels 8])],
     [(UNROLLED PT_PROTO_MPLS, [ETHERNET, MPLS_nlabels 8]), (UNROLLED PT_PROTO_PPPOE, [ETHERNET, MPLS_nlabels 9])],
     [(UNROLLED PT_PROTO_MPLS, [ETHERNET, MPLS_nlabels 9]), (UNROLLED PT_PROTO_PPPOE, [ETHERNET, MPLS_nlabels 10])],
     [(UNROLLED PT_PROTO_MPLS, [ETHERNET, MPLS_nlabels 10]), (UNROLLED PT_PROTO_PPPOE, [ETHERNET, MPLS_nlabels 11])],
     [(UNROLLED PT_PROTO_MPLS, [ETHERNET, MPLS_nlabels 11]), (UNROLLED PT_PROTO_PPPOE, [ETHERNET, MPLS_nlabels 12])],
     [(UNROLLED PT_PROTO_MPLS, [ETHERNET, MPLS_nlabels 12]), (UNROLLED PT_PROTO_PPPOE, [ETHERNET, MPLS_nlabels 13])],
     [(UNROLLED PT_PROTO_MPLS, [ETHERNET, MPLS_nlabels 13]), (UNROLLED PT_PROTO_PPPOE, [ETHERNET, MPLS_nlabels 14])],
     [(UNROLLED PT_PROTO_MPLS, [ETHERNET, MPLS_nlabels 14]), (UNROLLED PT_PROTO_PPPOE, [ETHERNET, MPLS_nlabels 15])],
     [(UNROLLED PT_PROTO_MPLS, [ETHERNET, MPLS_nlabels 15]), (UNROLLED PT_PROTO_PPPOE, [ETHERNET, MPLS_nlabels 16])],
     [(UNROLLED PT_PROTO_MPLS, [ETHERNET, MPLS_nlabels 16]), (UNROLLED PT_PROTO_PPPOE, [ETHERNET, MPLS_nlabels 17])],
     [(UNROLLED PT_PROTO_MPLS, [ETHERNET, MPLS_nlabels 17]), (UNROLLED PT_PROTO_PPPOE, [ETHERNET, MPLS_nlabels 18])],
     [(UNROLLED PT_PROTO_MPLS, [ETHERNET, MPLS_nlabels 18]), (UNROLLED PT_PROTO_PPPOE, [ETHERNET, MPLS_nlabels 19])],
     [(UNROLLED PT_PROTO_MPLS, [ETHERNET, MPLS_nlabels 19]), (UNROLLED PT_PROTO_PPPOE, [ETHERNET, MPLS_nlabels 20])],
     [(UNROLLED PT_PROTO_MPLS, [ETHERNET, MPLS_nlabels 20]), (UNROLLED PT_PROTO_PPPOE, [ETHERNET, MPLS_nlabels 21])],
     [(UNROLLED PT_PROTO_MPLS, [ETHERNET, MPLS_nlabels 21]), (UNROLLED PT_PROTO_PPPOE, [ETHERNET, MPLS_nlabels 22])],
     [(UNROLLED PT_PROTO_MPLS, [ETHERNET, MPLS_nlabels 22]), (UNROLLED PT_PROTO_PPPOE, [ETHERNET, MPLS_nlabels 23])],
     [(UNROLLED PT_PROTO_MPLS, [ETHERNET, MPLS_nlabels 23]), (UNROLLED PT_PROTO_PPPOE, [ETHERNET, MPLS_nlabels 24])],
     [(UNROLLED PT_PROTO_MPLS, [ETHERNET, MPLS_nlabels 24]), (UNROLLED PT_PROTO_PPPOE, [ETHERNET, MPLS_nlabels 25])],
     [(UNROLLED PT_PROTO_MPLS, [ETHERNET, MPLS_nlabels 25]), (UNROLLED PT_PROTO_PPPOE, [ETHERNET, MPLS_nlabels 26])],
     [(UNROLLED PT_PROTO_MPLS, [ETHERNET, MPLS_nlabels 26]), (UNROLLED PT_PROTO_PPPOE, [ETHERNET, MPLS_nlabels 27])],
     [(UNROLLED PT_PROTO_MPLS, [ETHERNET, MPLS_nlabels 27]), (UNROLLED PT_PROTO_PPPOE, [ETHERNET, MPLS_nlabels 28])],
     [(UNROLLED PT_PROTO_MPLS, [ETHERNET, MPLS_nlabels 28]), (UNROLLED PT_PROTO_PPPOE, [ETHERNET, MPLS_nlabels 29])],
     [(UNROLLED PT_PROTO_MPLS, [ETHERNET, MPLS_nlabels 29]), (UNROLLED PT_PROTO_PPPOE, [ETHERNET, MPLS_nlabels 30])],
     [(UNROLLED PT_PROTO_MPLS, [ETHERNET, MPLS_nlabels 30]), (UNROLLED PT_PROTO_PPPOE, [ETHERNET, MPLS_nlabels 31])],
     [(UNROLLED PT_PROTO_MPLS, [ETHERNET, MPLS_nlabels 31]), (UNROLLED PT_PROTO_PPPOE, [ETHERNET, MPLS_nlabels 32])],
     [(UNROLLED PT_PROTO_ISID, [ETHERNET, MPLS_nlabels 1])],
     [(UNROLLED PT_PROTO_ISID, [ETHERNET, MPLS_nlabels 2])],
     [(UNROLLED PT_PROTO_ISID, [ETHERNET, MPLS_nlabels 3])],
     [(UNROLLED PT_PROTO_ISID, [ETHERNET, MPLS_nlabels 4])],
     [(UNROLLED PT_PROTO_ISID, [ETHERNET, MPLS_nlabels 5])],
     [(UNROLLED PT_PROTO_ISID, [ETHERNET, MPLS_nlabels 6])],
     [(UNROLLED PT_PROTO_ISID, [ETHERNET, MPLS_nlabels 7])],
     [(UNROLLED PT_PROTO_ISID, [ETHERNET, MPLS_nlabels 8])],
     [(UNROLLED PT_PROTO_ISID, [ETHERNET, MPLS_nlabels 9])],
     [(UNROLLED PT_PROTO_ISID, [ETHERNET, MPLS_nlabels 10])],
     [(UNROLLED PT_PROTO_ISID, [ETHERNET, MPLS_nlabels 11])],
     [(UNROLLED PT_PROTO_ISID, [ETHERNET, MPLS_nlabels 12])],
     [(UNROLLED PT_PROTO_ISID, [ETHERNET, MPLS_nlabels 13])],
     [(UNROLLED PT_PROTO_ISID, [ETHERNET, MPLS_nlabels 14])],
     [(UNROLLED PT_PROTO_ISID, [ETHERNET, MPLS_nlabels 15])],
     [(UNROLLED PT_PROTO_ISID, [ETHERNET, MPLS_nlabels 16])],
     [(UNROLLED PT_PROTO_ISID, [ETHERNET, MPLS_nlabels 17])],
     [(UNROLLED PT_PROTO_ISID, [ETHERNET, MPLS_nlabels 18])],
     [(UNROLLED PT_PROTO_ISID, [ETHERNET, MPLS_nlabels 19])],
     [(UNROLLED PT_PROTO_ISID, [ETHERNET, MPLS_nlabels 20])],
     [(UNROLLED PT_PROTO_ISID, [ETHERNET, MPLS_nlabels 21])],
     [(UNROLLED PT_PROTO_ISID, [ETHERNET, MPLS_nlabels 22])],
     [(UNROLLED PT_PROTO_ISID, [ETHERNET, MPLS_nlabels 23])],
     [(UNROLLED PT_PROTO_ISID, [ETHERNET, MPLS_nlabels 24])],
     [(UNROLLED PT_PROTO_ISID, [ETHERNET, MPLS_nlabels 25])],
     [(UNROLLED PT_PROTO_ISID, [ETHERNET, MPLS_nlabels 26])],
     [(UNROLLED PT_PROTO_ISID, [ETHERNET, MPLS_nlabels 27])],
     [(UNROLLED PT_PROTO_ISID, [ETHERNET, MPLS_nlabels 28])],
     [(UNROLLED PT_PROTO_ISID, [ETHERNET, MPLS_nlabels 29])],
     [(UNROLLED PT_PROTO_ISID, [ETHERNET, MPLS_nlabels 30])],
     [(UNROLLED PT_PROTO_ISID, [ETHERNET, MPLS_nlabels 31])],
     [(UNROLLED PT_PROTO_ISID, [ETHERNET, MPLS_nlabels 32])],
     [],
     [],
     [],
     [],
     [],
     [],
     [],
     [],
     [],
     [],
     [],
     [],
     [],
     [],
     [],
     [],
     [],
     [],
     [],
     [],
     [],
     [],
     [],
     [],
     [],
     [],
     [],
     [],
     [],
     [],
     [],
     [],
     [(UNROLLED PT_PROTO_MPLS, [IEEE8023]), (UNROLLED PT_PROTO_PPPOE, [IEEE8023, MPLS_nlabels 1])],
     [(UNROLLED PT_PROTO_MPLS, [IEEE8023, MPLS_nlabels 1]), (UNROLLED PT_PROTO_PPPOE, [IEEE8023, MPLS_nlabels 2])],
     [(UNROLLED PT_PROTO_MPLS, [IEEE8023, MPLS_nlabels 2]), (UNROLLED PT_PROTO_PPPOE, [IEEE8023, MPLS_nlabels 3])],
     [(UNROLLED PT_PROTO_MPLS, [IEEE8023, MPLS_nlabels 3]), (UNROLLED PT_PROTO_PPPOE, [IEEE8023, MPLS_nlabels 4])],
     [(UNROLLED PT_PROTO_MPLS, [IEEE8023, MPLS_nlabels 4]), (UNROLLED PT_PROTO_PPPOE, [IEEE8023, MPLS_nlabels 5])],
     [(UNROLLED PT_PROTO_MPLS, [IEEE8023, MPLS_nlabels 5]), (UNROLLED PT_PROTO_PPPOE, [IEEE8023, MPLS_nlabels 6])],
     [(UNROLLED PT_PROTO_MPLS, [IEEE8023, MPLS_nlabels 6]), (UNROLLED PT_PROTO_PPPOE, [IEEE8023, MPLS_nlabels 7])],
     [(UNROLLED PT_PROTO_MPLS, [IEEE8023, MPLS_nlabels 7]), (UNROLLED PT_PROTO_PPPOE, [IEEE8023, MPLS_nlabels 8])],
     [(UNROLLED PT_PROTO_MPLS, [IEEE8023, MPLS_nlabels 8]), (UNROLLED PT_PROTO_PPPOE, [IEEE8023, MPLS_nlabels 9])],
     [(UNROLLED PT_PROTO_MPLS, [IEEE8023, MPLS_nlabels 9]), (UNROLLED PT_PROTO_PPPOE, [IEEE8023, MPLS_nlabels 10])],
     [(UNROLLED PT_PROTO_MPLS, [IEEE8023, MPLS_nlabels 10]), (UNROLLED PT_PROTO_PPPOE, [IEEE8023, MPLS_nlabels 11])],
     [(UNROLLED PT_PROTO_MPLS, [IEEE8023, MPLS_nlabels 11]), (UNROLLED PT_PROTO_PPPOE, [IEEE8023, MPLS_nlabels 12])],
     [(UNROLLED PT_PROTO_MPLS, [IEEE8023, MPLS_nlabels 12]), (UNROLLED PT_PROTO_PPPOE, [IEEE8023, MPLS_nlabels 13])],
     [(UNROLLED PT_PROTO_MPLS, [IEEE8023, MPLS_nlabels 13]), (UNROLLED PT_PROTO_PPPOE, [IEEE8023, MPLS_nlabels 14])],
     [(UNROLLED PT_PROTO_MPLS, [IEEE8023, MPLS_nlabels 14]), (UNROLLED PT_PROTO_PPPOE, [IEEE8023, MPLS_nlabels 15])],
     [(UNROLLED PT_PROTO_MPLS, [IEEE8023, MPLS_nlabels 15]), (UNROLLED PT_PROTO_PPPOE, [IEEE8023, MPLS_nlabels 16])],
     [(UNROLLED PT_PROTO_MPLS, [IEEE8023, MPLS_nlabels 16]), (UNROLLED PT_PROTO_PPPOE, [IEEE8023, MPLS_nlabels 17])],
     [(UNROLLED PT_PROTO_MPLS, [IEEE8023, MPLS_nlabels 17]), (UNROLLED PT_PROTO_PPPOE, [IEEE8023, MPLS_nlabels 18])],
     [(UNROLLED PT_PROTO_MPLS, [IEEE8023, MPLS_nlabels 18]), (UNROLLED PT_PROTO_PPPOE, [IEEE8023, MPLS_nlabels 19])],
     [(UNROLLED PT_PROTO_MPLS, [IEEE8023, MPLS_nlabels 19]), (UNROLLED PT_PROTO_PPPOE, [IEEE8023, MPLS_nlabels 20])],
     [(UNROLLED PT_PROTO_MPLS, [IEEE8023, MPLS_nlabels 20]), (UNROLLED PT_PROTO_PPPOE, [IEEE8023, MPLS_nlabels 21])],
     [(UNROLLED PT_PROTO_MPLS, [IEEE8023, MPLS_nlabels 21]), (UNROLLED PT_PROTO_PPPOE, [IEEE8023, MPLS_nlabels 22])],
     [(UNROLLED PT_PROTO_MPLS, [IEEE8023, MPLS_nlabels 22]), (UNROLLED PT_PROTO_PPPOE, [IEEE8023, MPLS_nlabels 23])],
     [(UNROLLED PT_PROTO_MPLS, [IEEE8023, MPLS_nlabels 23]), (UNROLLED PT_PROTO_PPPOE, [IEEE8023, MPLS_nlabels 24])],
     [(UNROLLED PT_PROTO_MPLS, [IEEE8023, MPLS_nlabels 24]), (UNROLLED PT_PROTO_PPPOE, [IEEE8023, MPLS_nlabels 25])],
     [(UNROLLED PT_PROTO_MPLS, [IEEE8023, MPLS_nlabels 25]), (UNROLLED PT_PROTO_PPPOE, [IEEE8023, MPLS_nlabels 26])],
     [(UNROLLED PT_PROTO_MPLS, [IEEE8023, MPLS_nlabels 26]), (UNROLLED PT_PROTO_PPPOE, [IEEE8023, MPLS_nlabels 27])],
     [(UNROLLED PT_PROTO_MPLS, [IEEE8023, MPLS_nlabels 27]), (UNROLLED PT_PROTO_PPPOE, [IEEE8023, MPLS_nlabels 28])],
     [(UNROLLED PT_PROTO_MPLS, [IEEE8023, MPLS_nlabels 28]), (UNROLLED PT_PROTO_PPPOE, [IEEE8023, MPLS_nlabels 29])],
     [(UNROLLED PT_PROTO_MPLS, [IEEE8023, MPLS_nlabels 29]), (UNROLLED PT_PROTO_PPPOE, [IEEE8023, MPLS_nlabels 30])],
     [(UNROLLED PT_PROTO_MPLS, [IEEE8023, MPLS_nlabels 30]), (UNROLLED PT_PROTO_PPPOE, [IEEE8023, MPLS_nlabels 31])],
     [(UNROLLED PT_PROTO_MPLS, [IEEE8023, MPLS_nlabels 31]), (UNROLLED PT_PROTO_PPPOE, [IEEE8023, MPLS_nlabels 32])],
     [(UNROLLED PT_PROTO_MPLS, [ETHERNET, VLAN]), (UNROLLED PT_PROTO_VLAN, [ETHERNET, MPLS_nlabels 1]), (UNROLLED PT_PROTO_PPPOE, [ETHERNET, VLAN, MPLS_nlabels 1])],
     [(UNROLLED PT_PROTO_MPLS, [ETHERNET, VLAN, MPLS_nlabels 1]), (UNROLLED PT_PROTO_VLAN, [ETHERNET, MPLS_nlabels 2]), (UNROLLED PT_PROTO_PPPOE, [ETHERNET, VLAN, MPLS_nlabels 2])],
     [(UNROLLED PT_PROTO_MPLS, [ETHERNET, VLAN, MPLS_nlabels 2]), (UNROLLED PT_PROTO_VLAN, [ETHERNET, MPLS_nlabels 3]), (UNROLLED PT_PROTO_PPPOE, [ETHERNET, VLAN, MPLS_nlabels 3])],
     [(UNROLLED PT_PROTO_MPLS, [ETHERNET, VLAN, MPLS_nlabels 3]), (UNROLLED PT_PROTO_VLAN, [ETHERNET, MPLS_nlabels 4]), (UNROLLED PT_PROTO_PPPOE, [ETHERNET, VLAN, MPLS_nlabels 4])],
     [(UNROLLED PT_PROTO_MPLS, [ETHERNET, VLAN, MPLS_nlabels 4]), (UNROLLED PT_PROTO_VLAN, [ETHERNET, MPLS_nlabels 5]), (UNROLLED PT_PROTO_PPPOE, [ETHERNET, VLAN, MPLS_nlabels 5])],
     [(UNROLLED PT_PROTO_MPLS, [ETHERNET, VLAN, MPLS_nlabels 5]), (UNROLLED PT_PROTO_VLAN, [ETHERNET, MPLS_nlabels 6]), (UNROLLED PT_PROTO_PPPOE, [ETHERNET, VLAN, MPLS_nlabels 6])],
     [(UNROLLED PT_PROTO_MPLS, [ETHERNET, VLAN, MPLS_nlabels 6]), (UNROLLED PT_PROTO_VLAN, [ETHERNET, MPLS_nlabels 7]), (UNROLLED PT_PROTO_PPPOE, [ETHERNET, VLAN, MPLS_nlabels 7])],
     [(UNROLLED PT_PROTO_MPLS, [ETHERNET, VLAN, MPLS_nlabels 7]), (UNROLLED PT_PROTO_VLAN, [ETHERNET, MPLS_nlabels 8]), (UNROLLED PT_PROTO_PPPOE, [ETHERNET, VLAN, MPLS_nlabels 8])],
     [(UNROLLED PT_PROTO_MPLS, [ETHERNET, VLAN, MPLS_nlabels 8]), (UNROLLED PT_PROTO_VLAN, [ETHERNET, MPLS_nlabels 9]), (UNROLLED PT_PROTO_PPPOE, [ETHERNET, VLAN, MPLS_nlabels 9])],
     [(UNROLLED PT_PROTO_MPLS, [ETHERNET, VLAN, MPLS_nlabels 9]), (UNROLLED PT_PROTO_VLAN, [ETHERNET, MPLS_nlabels 10]), (UNROLLED PT_PROTO_PPPOE, [ETHERNET, VLAN, MPLS_nlabels 10])],
     [(UNROLLED PT_PROTO_MPLS, [ETHERNET, VLAN, MPLS_nlabels 10]), (UNROLLED PT_PROTO_VLAN, [ETHERNET, MPLS_nlabels 11]), (UNROLLED PT_PROTO_PPPOE, [ETHERNET, VLAN, MPLS_nlabels 11])],
     [(UNROLLED PT_PROTO_MPLS, [ETHERNET, VLAN, MPLS_nlabels 11]), (UNROLLED PT_PROTO_VLAN, [ETHERNET, MPLS_nlabels 12]), (UNROLLED PT_PROTO_PPPOE, [ETHERNET, VLAN, MPLS_nlabels 12])],
     [(UNROLLED PT_PROTO_MPLS, [ETHERNET, VLAN, MPLS_nlabels 12]), (UNROLLED PT_PROTO_VLAN, [ETHERNET, MPLS_nlabels 13]), (UNROLLED PT_PROTO_PPPOE, [ETHERNET, VLAN, MPLS_nlabels 13])],
     [(UNROLLED PT_PROTO_MPLS, [ETHERNET, VLAN, MPLS_nlabels 13]), (UNROLLED PT_PROTO_VLAN, [ETHERNET, MPLS_nlabels 14]), (UNROLLED PT_PROTO_PPPOE, [ETHERNET, VLAN, MPLS_nlabels 14])]]"

definition pop_table_2 :: "(unrolled \<times> pkt_type) list list" where
  "pop_table_2 =
    [[(UNROLLED PT_PROTO_MPLS, [ETHERNET, VLAN, MPLS_nlabels 14]), (UNROLLED PT_PROTO_VLAN, [ETHERNET, MPLS_nlabels 15]), (UNROLLED PT_PROTO_PPPOE, [ETHERNET, VLAN, MPLS_nlabels 15])],
     [(UNROLLED PT_PROTO_MPLS, [ETHERNET, VLAN, MPLS_nlabels 15]), (UNROLLED PT_PROTO_VLAN, [ETHERNET, MPLS_nlabels 16]), (UNROLLED PT_PROTO_PPPOE, [ETHERNET, VLAN, MPLS_nlabels 16])],
     [(UNROLLED PT_PROTO_MPLS, [ETHERNET, VLAN, MPLS_nlabels 16]), (UNROLLED PT_PROTO_VLAN, [ETHERNET, MPLS_nlabels 17]), (UNROLLED PT_PROTO_PPPOE, [ETHERNET, VLAN, MPLS_nlabels 17])],
     [(UNROLLED PT_PROTO_MPLS, [ETHERNET, VLAN, MPLS_nlabels 17]), (UNROLLED PT_PROTO_VLAN, [ETHERNET, MPLS_nlabels 18]), (UNROLLED PT_PROTO_PPPOE, [ETHERNET, VLAN, MPLS_nlabels 18])],
     [(UNROLLED PT_PROTO_MPLS, [ETHERNET, VLAN, MPLS_nlabels 18]), (UNROLLED PT_PROTO_VLAN, [ETHERNET, MPLS_nlabels 19]), (UNROLLED PT_PROTO_PPPOE, [ETHERNET, VLAN, MPLS_nlabels 19])],
     [(UNROLLED PT_PROTO_MPLS, [ETHERNET, VLAN, MPLS_nlabels 19]), (UNROLLED PT_PROTO_VLAN, [ETHERNET, MPLS_nlabels 20]), (UNROLLED PT_PROTO_PPPOE, [ETHERNET, VLAN, MPLS_nlabels 20])],
     [(UNROLLED PT_PROTO_MPLS, [ETHERNET, VLAN, MPLS_nlabels 20]), (UNROLLED PT_PROTO_VLAN, [ETHERNET, MPLS_nlabels 21]), (UNROLLED PT_PROTO_PPPOE, [ETHERNET, VLAN, MPLS_nlabels 21])],
     [(UNROLLED PT_PROTO_MPLS, [ETHERNET, VLAN, MPLS_nlabels 21]), (UNROLLED PT_PROTO_VLAN, [ETHERNET, MPLS_nlabels 22]), (UNROLLED PT_PROTO_PPPOE, [ETHERNET, VLAN, MPLS_nlabels 22])],
     [(UNROLLED PT_PROTO_MPLS, [ETHERNET, VLAN, MPLS_nlabels 22]), (UNROLLED PT_PROTO_VLAN, [ETHERNET, MPLS_nlabels 23]), (UNROLLED PT_PROTO_PPPOE, [ETHERNET, VLAN, MPLS_nlabels 23])],
     [(UNROLLED PT_PROTO_MPLS, [ETHERNET, VLAN, MPLS_nlabels 23]), (UNROLLED PT_PROTO_VLAN, [ETHERNET, MPLS_nlabels 24]), (UNROLLED PT_PROTO_PPPOE, [ETHERNET, VLAN, MPLS_nlabels 24])],
     [(UNROLLED PT_PROTO_MPLS, [ETHERNET, VLAN, MPLS_nlabels 24]), (UNROLLED PT_PROTO_VLAN, [ETHERNET, MPLS_nlabels 25]), (UNROLLED PT_PROTO_PPPOE, [ETHERNET, VLAN, MPLS_nlabels 25])],
     [(UNROLLED PT_PROTO_MPLS, [ETHERNET, VLAN, MPLS_nlabels 25]), (UNROLLED PT_PROTO_VLAN, [ETHERNET, MPLS_nlabels 26]), (UNROLLED PT_PROTO_PPPOE, [ETHERNET, VLAN, MPLS_nlabels 26])],
     [(UNROLLED PT_PROTO_MPLS, [ETHERNET, VLAN, MPLS_nlabels 26]), (UNROLLED PT_PROTO_VLAN, [ETHERNET, MPLS_nlabels 27]), (UNROLLED PT_PROTO_PPPOE, [ETHERNET, VLAN, MPLS_nlabels 27])],
     [(UNROLLED PT_PROTO_MPLS, [ETHERNET, VLAN, MPLS_nlabels 27]), (UNROLLED PT_PROTO_VLAN, [ETHERNET, MPLS_nlabels 28]), (UNROLLED PT_PROTO_PPPOE, [ETHERNET, VLAN, MPLS_nlabels 28])],
     [(UNROLLED PT_PROTO_MPLS, [ETHERNET, VLAN, MPLS_nlabels 28]), (UNROLLED PT_PROTO_VLAN, [ETHERNET, MPLS_nlabels 29]), (UNROLLED PT_PROTO_PPPOE, [ETHERNET, VLAN, MPLS_nlabels 29])],
     [(UNROLLED PT_PROTO_MPLS, [ETHERNET, VLAN, MPLS_nlabels 29]), (UNROLLED PT_PROTO_VLAN, [ETHERNET, MPLS_nlabels 30]), (UNROLLED PT_PROTO_PPPOE, [ETHERNET, VLAN, MPLS_nlabels 30])],
     [(UNROLLED PT_PROTO_MPLS, [ETHERNET, VLAN, MPLS_nlabels 30]), (UNROLLED PT_PROTO_VLAN, [ETHERNET, MPLS_nlabels 31]), (UNROLLED PT_PROTO_PPPOE, [ETHERNET, VLAN, MPLS_nlabels 31])],
     [(UNROLLED PT_PROTO_MPLS, [ETHERNET, VLAN, MPLS_nlabels 31]), (UNROLLED PT_PROTO_VLAN, [ETHERNET, MPLS_nlabels 32]), (UNROLLED PT_PROTO_PPPOE, [ETHERNET, VLAN, MPLS_nlabels 32])],
     [(UNROLLED PT_PROTO_MPLS, [IEEE8023, VLAN]), (UNROLLED PT_PROTO_VLAN, [IEEE8023, MPLS_nlabels 1]), (UNROLLED PT_PROTO_PPPOE, [IEEE8023, VLAN, MPLS_nlabels 1])],
     [(UNROLLED PT_PROTO_MPLS, [IEEE8023, VLAN, MPLS_nlabels 1]), (UNROLLED PT_PROTO_VLAN, [IEEE8023, MPLS_nlabels 2]), (UNROLLED PT_PROTO_PPPOE, [IEEE8023, VLAN, MPLS_nlabels 2])],
     [(UNROLLED PT_PROTO_MPLS, [IEEE8023, VLAN, MPLS_nlabels 2]), (UNROLLED PT_PROTO_VLAN, [IEEE8023, MPLS_nlabels 3]), (UNROLLED PT_PROTO_PPPOE, [IEEE8023, VLAN, MPLS_nlabels 3])],
     [(UNROLLED PT_PROTO_MPLS, [IEEE8023, VLAN, MPLS_nlabels 3]), (UNROLLED PT_PROTO_VLAN, [IEEE8023, MPLS_nlabels 4]), (UNROLLED PT_PROTO_PPPOE, [IEEE8023, VLAN, MPLS_nlabels 4])],
     [(UNROLLED PT_PROTO_MPLS, [IEEE8023, VLAN, MPLS_nlabels 4]), (UNROLLED PT_PROTO_VLAN, [IEEE8023, MPLS_nlabels 5]), (UNROLLED PT_PROTO_PPPOE, [IEEE8023, VLAN, MPLS_nlabels 5])],
     [(UNROLLED PT_PROTO_MPLS, [IEEE8023, VLAN, MPLS_nlabels 5]), (UNROLLED PT_PROTO_VLAN, [IEEE8023, MPLS_nlabels 6]), (UNROLLED PT_PROTO_PPPOE, [IEEE8023, VLAN, MPLS_nlabels 6])],
     [(UNROLLED PT_PROTO_MPLS, [IEEE8023, VLAN, MPLS_nlabels 6]), (UNROLLED PT_PROTO_VLAN, [IEEE8023, MPLS_nlabels 7]), (UNROLLED PT_PROTO_PPPOE, [IEEE8023, VLAN, MPLS_nlabels 7])],
     [(UNROLLED PT_PROTO_MPLS, [IEEE8023, VLAN, MPLS_nlabels 7]), (UNROLLED PT_PROTO_VLAN, [IEEE8023, MPLS_nlabels 8]), (UNROLLED PT_PROTO_PPPOE, [IEEE8023, VLAN, MPLS_nlabels 8])],
     [(UNROLLED PT_PROTO_MPLS, [IEEE8023, VLAN, MPLS_nlabels 8]), (UNROLLED PT_PROTO_VLAN, [IEEE8023, MPLS_nlabels 9]), (UNROLLED PT_PROTO_PPPOE, [IEEE8023, VLAN, MPLS_nlabels 9])],
     [(UNROLLED PT_PROTO_MPLS, [IEEE8023, VLAN, MPLS_nlabels 9]), (UNROLLED PT_PROTO_VLAN, [IEEE8023, MPLS_nlabels 10]), (UNROLLED PT_PROTO_PPPOE, [IEEE8023, VLAN, MPLS_nlabels 10])],
     [(UNROLLED PT_PROTO_MPLS, [IEEE8023, VLAN, MPLS_nlabels 10]), (UNROLLED PT_PROTO_VLAN, [IEEE8023, MPLS_nlabels 11]), (UNROLLED PT_PROTO_PPPOE, [IEEE8023, VLAN, MPLS_nlabels 11])],
     [(UNROLLED PT_PROTO_MPLS, [IEEE8023, VLAN, MPLS_nlabels 11]), (UNROLLED PT_PROTO_VLAN, [IEEE8023, MPLS_nlabels 12]), (UNROLLED PT_PROTO_PPPOE, [IEEE8023, VLAN, MPLS_nlabels 12])],
     [(UNROLLED PT_PROTO_MPLS, [IEEE8023, VLAN, MPLS_nlabels 12]), (UNROLLED PT_PROTO_VLAN, [IEEE8023, MPLS_nlabels 13]), (UNROLLED PT_PROTO_PPPOE, [IEEE8023, VLAN, MPLS_nlabels 13])],
     [(UNROLLED PT_PROTO_MPLS, [IEEE8023, VLAN, MPLS_nlabels 13]), (UNROLLED PT_PROTO_VLAN, [IEEE8023, MPLS_nlabels 14]), (UNROLLED PT_PROTO_PPPOE, [IEEE8023, VLAN, MPLS_nlabels 14])],
     [(UNROLLED PT_PROTO_MPLS, [IEEE8023, VLAN, MPLS_nlabels 14]), (UNROLLED PT_PROTO_VLAN, [IEEE8023, MPLS_nlabels 15]), (UNROLLED PT_PROTO_PPPOE, [IEEE8023, VLAN, MPLS_nlabels 15])],
     [(UNROLLED PT_PROTO_MPLS, [IEEE8023, VLAN, MPLS_nlabels 15]), (UNROLLED PT_PROTO_VLAN, [IEEE8023, MPLS_nlabels 16]), (UNROLLED PT_PROTO_PPPOE, [IEEE8023, VLAN, MPLS_nlabels 16])],
     [(UNROLLED PT_PROTO_MPLS, [IEEE8023, VLAN, MPLS_nlabels 16]), (UNROLLED PT_PROTO_VLAN, [IEEE8023, MPLS_nlabels 17]), (UNROLLED PT_PROTO_PPPOE, [IEEE8023, VLAN, MPLS_nlabels 17])],
     [(UNROLLED PT_PROTO_MPLS, [IEEE8023, VLAN, MPLS_nlabels 17]), (UNROLLED PT_PROTO_VLAN, [IEEE8023, MPLS_nlabels 18]), (UNROLLED PT_PROTO_PPPOE, [IEEE8023, VLAN, MPLS_nlabels 18])],
     [(UNROLLED PT_PROTO_MPLS, [IEEE8023, VLAN, MPLS_nlabels 18]), (UNROLLED PT_PROTO_VLAN, [IEEE8023, MPLS_nlabels 19]), (UNROLLED PT_PROTO_PPPOE, [IEEE8023, VLAN, MPLS_nlabels 19])],
     [(UNROLLED PT_PROTO_MPLS, [IEEE8023, VLAN, MPLS_nlabels 19]), (UNROLLED PT_PROTO_VLAN, [IEEE8023, MPLS_nlabels 20]), (UNROLLED PT_PROTO_PPPOE, [IEEE8023, VLAN, MPLS_nlabels 20])],
     [(UNROLLED PT_PROTO_MPLS, [IEEE8023, VLAN, MPLS_nlabels 20]), (UNROLLED PT_PROTO_VLAN, [IEEE8023, MPLS_nlabels 21]), (UNROLLED PT_PROTO_PPPOE, [IEEE8023, VLAN, MPLS_nlabels 21])],
     [(UNROLLED PT_PROTO_MPLS, [IEEE8023, VLAN, MPLS_nlabels 21]), (UNROLLED PT_PROTO_VLAN, [IEEE8023, MPLS_nlabels 22]), (UNROLLED PT_PROTO_PPPOE, [IEEE8023, VLAN, MPLS_nlabels 22])],
     [(UNROLLED PT_PROTO_MPLS, [IEEE8023, VLAN, MPLS_nlabels 22]), (UNROLLED PT_PROTO_VLAN, [IEEE8023, MPLS_nlabels 23]), (UNROLLED PT_PROTO_PPPOE, [IEEE8023, VLAN, MPLS_nlabels 23])],
     [(UNROLLED PT_PROTO_MPLS, [IEEE8023, VLAN, MPLS_nlabels 23]), (UNROLLED PT_PROTO_VLAN, [IEEE8023, MPLS_nlabels 24]), (UNROLLED PT_PROTO_PPPOE, [IEEE8023, VLAN, MPLS_nlabels 24])],
     [(UNROLLED PT_PROTO_MPLS, [IEEE8023, VLAN, MPLS_nlabels 24]), (UNROLLED PT_PROTO_VLAN, [IEEE8023, MPLS_nlabels 25]), (UNROLLED PT_PROTO_PPPOE, [IEEE8023, VLAN, MPLS_nlabels 25])],
     [(UNROLLED PT_PROTO_MPLS, [IEEE8023, VLAN, MPLS_nlabels 25]), (UNROLLED PT_PROTO_VLAN, [IEEE8023, MPLS_nlabels 26]), (UNROLLED PT_PROTO_PPPOE, [IEEE8023, VLAN, MPLS_nlabels 26])],
     [(UNROLLED PT_PROTO_MPLS, [IEEE8023, VLAN, MPLS_nlabels 26]), (UNROLLED PT_PROTO_VLAN, [IEEE8023, MPLS_nlabels 27]), (UNROLLED PT_PROTO_PPPOE, [IEEE8023, VLAN, MPLS_nlabels 27])],
     [(UNROLLED PT_PROTO_MPLS, [IEEE8023, VLAN, MPLS_nlabels 27]), (UNROLLED PT_PROTO_VLAN, [IEEE8023, MPLS_nlabels 28]), (UNROLLED PT_PROTO_PPPOE, [IEEE8023, VLAN, MPLS_nlabels 28])],
     [(UNROLLED PT_PROTO_MPLS, [IEEE8023, VLAN, MPLS_nlabels 28]), (UNROLLED PT_PROTO_VLAN, [IEEE8023, MPLS_nlabels 29]), (UNROLLED PT_PROTO_PPPOE, [IEEE8023, VLAN, MPLS_nlabels 29])],
     [(UNROLLED PT_PROTO_MPLS, [IEEE8023, VLAN, MPLS_nlabels 29]), (UNROLLED PT_PROTO_VLAN, [IEEE8023, MPLS_nlabels 30]), (UNROLLED PT_PROTO_PPPOE, [IEEE8023, VLAN, MPLS_nlabels 30])],
     [(UNROLLED PT_PROTO_MPLS, [IEEE8023, VLAN, MPLS_nlabels 30]), (UNROLLED PT_PROTO_VLAN, [IEEE8023, MPLS_nlabels 31]), (UNROLLED PT_PROTO_PPPOE, [IEEE8023, VLAN, MPLS_nlabels 31])],
     [(UNROLLED PT_PROTO_MPLS, [IEEE8023, VLAN, MPLS_nlabels 31]), (UNROLLED PT_PROTO_VLAN, [IEEE8023, MPLS_nlabels 32]), (UNROLLED PT_PROTO_PPPOE, [IEEE8023, VLAN, MPLS_nlabels 32])],
     [(UNROLLED PT_PROTO_MPLS, [ETHERNET, VLAN, VLAN]), (UNROLLED PT_PROTO_VLAN, [ETHERNET, VLAN, MPLS_nlabels 1]), (UNROLLED PT_PROTO_PPPOE, [ETHERNET, VLAN, VLAN, MPLS_nlabels 1])],
     [(UNROLLED PT_PROTO_MPLS, [ETHERNET, VLAN, VLAN, MPLS_nlabels 1]), (UNROLLED PT_PROTO_VLAN, [ETHERNET, VLAN, MPLS_nlabels 2]), (UNROLLED PT_PROTO_PPPOE, [ETHERNET, VLAN, VLAN, MPLS_nlabels 2])],
     [(UNROLLED PT_PROTO_MPLS, [ETHERNET, VLAN, VLAN, MPLS_nlabels 2]), (UNROLLED PT_PROTO_VLAN, [ETHERNET, VLAN, MPLS_nlabels 3]), (UNROLLED PT_PROTO_PPPOE, [ETHERNET, VLAN, VLAN, MPLS_nlabels 3])],
     [(UNROLLED PT_PROTO_MPLS, [ETHERNET, VLAN, VLAN, MPLS_nlabels 3]), (UNROLLED PT_PROTO_VLAN, [ETHERNET, VLAN, MPLS_nlabels 4]), (UNROLLED PT_PROTO_PPPOE, [ETHERNET, VLAN, VLAN, MPLS_nlabels 4])],
     [(UNROLLED PT_PROTO_MPLS, [ETHERNET, VLAN, VLAN, MPLS_nlabels 4]), (UNROLLED PT_PROTO_VLAN, [ETHERNET, VLAN, MPLS_nlabels 5]), (UNROLLED PT_PROTO_PPPOE, [ETHERNET, VLAN, VLAN, MPLS_nlabels 5])],
     [(UNROLLED PT_PROTO_MPLS, [ETHERNET, VLAN, VLAN, MPLS_nlabels 5]), (UNROLLED PT_PROTO_VLAN, [ETHERNET, VLAN, MPLS_nlabels 6]), (UNROLLED PT_PROTO_PPPOE, [ETHERNET, VLAN, VLAN, MPLS_nlabels 6])],
     [(UNROLLED PT_PROTO_MPLS, [ETHERNET, VLAN, VLAN, MPLS_nlabels 6]), (UNROLLED PT_PROTO_VLAN, [ETHERNET, VLAN, MPLS_nlabels 7]), (UNROLLED PT_PROTO_PPPOE, [ETHERNET, VLAN, VLAN, MPLS_nlabels 7])],
     [(UNROLLED PT_PROTO_MPLS, [ETHERNET, VLAN, VLAN, MPLS_nlabels 7]), (UNROLLED PT_PROTO_VLAN, [ETHERNET, VLAN, MPLS_nlabels 8]), (UNROLLED PT_PROTO_PPPOE, [ETHERNET, VLAN, VLAN, MPLS_nlabels 8])],
     [(UNROLLED PT_PROTO_MPLS, [ETHERNET, VLAN, VLAN, MPLS_nlabels 8]), (UNROLLED PT_PROTO_VLAN, [ETHERNET, VLAN, MPLS_nlabels 9]), (UNROLLED PT_PROTO_PPPOE, [ETHERNET, VLAN, VLAN, MPLS_nlabels 9])],
     [(UNROLLED PT_PROTO_MPLS, [ETHERNET, VLAN, VLAN, MPLS_nlabels 9]), (UNROLLED PT_PROTO_VLAN, [ETHERNET, VLAN, MPLS_nlabels 10]), (UNROLLED PT_PROTO_PPPOE, [ETHERNET, VLAN, VLAN, MPLS_nlabels 10])],
     [(UNROLLED PT_PROTO_MPLS, [ETHERNET, VLAN, VLAN, MPLS_nlabels 10]), (UNROLLED PT_PROTO_VLAN, [ETHERNET, VLAN, MPLS_nlabels 11]), (UNROLLED PT_PROTO_PPPOE, [ETHERNET, VLAN, VLAN, MPLS_nlabels 11])],
     [(UNROLLED PT_PROTO_MPLS, [ETHERNET, VLAN, VLAN, MPLS_nlabels 11]), (UNROLLED PT_PROTO_VLAN, [ETHERNET, VLAN, MPLS_nlabels 12]), (UNROLLED PT_PROTO_PPPOE, [ETHERNET, VLAN, VLAN, MPLS_nlabels 12])],
     [(UNROLLED PT_PROTO_MPLS, [ETHERNET, VLAN, VLAN, MPLS_nlabels 12]), (UNROLLED PT_PROTO_VLAN, [ETHERNET, VLAN, MPLS_nlabels 13]), (UNROLLED PT_PROTO_PPPOE, [ETHERNET, VLAN, VLAN, MPLS_nlabels 13])],
     [(UNROLLED PT_PROTO_MPLS, [ETHERNET, VLAN, VLAN, MPLS_nlabels 13]), (UNROLLED PT_PROTO_VLAN, [ETHERNET, VLAN, MPLS_nlabels 14]), (UNROLLED PT_PROTO_PPPOE, [ETHERNET, VLAN, VLAN, MPLS_nlabels 14])],
     [(UNROLLED PT_PROTO_MPLS, [ETHERNET, VLAN, VLAN, MPLS_nlabels 14]), (UNROLLED PT_PROTO_VLAN, [ETHERNET, VLAN, MPLS_nlabels 15]), (UNROLLED PT_PROTO_PPPOE, [ETHERNET, VLAN, VLAN, MPLS_nlabels 15])],
     [(UNROLLED PT_PROTO_MPLS, [ETHERNET, VLAN, VLAN, MPLS_nlabels 15]), (UNROLLED PT_PROTO_VLAN, [ETHERNET, VLAN, MPLS_nlabels 16]), (UNROLLED PT_PROTO_PPPOE, [ETHERNET, VLAN, VLAN, MPLS_nlabels 16])],
     [(UNROLLED PT_PROTO_MPLS, [ETHERNET, VLAN, VLAN, MPLS_nlabels 16]), (UNROLLED PT_PROTO_VLAN, [ETHERNET, VLAN, MPLS_nlabels 17]), (UNROLLED PT_PROTO_PPPOE, [ETHERNET, VLAN, VLAN, MPLS_nlabels 17])],
     [(UNROLLED PT_PROTO_MPLS, [ETHERNET, VLAN, VLAN, MPLS_nlabels 17]), (UNROLLED PT_PROTO_VLAN, [ETHERNET, VLAN, MPLS_nlabels 18]), (UNROLLED PT_PROTO_PPPOE, [ETHERNET, VLAN, VLAN, MPLS_nlabels 18])],
     [(UNROLLED PT_PROTO_MPLS, [ETHERNET, VLAN, VLAN, MPLS_nlabels 18]), (UNROLLED PT_PROTO_VLAN, [ETHERNET, VLAN, MPLS_nlabels 19]), (UNROLLED PT_PROTO_PPPOE, [ETHERNET, VLAN, VLAN, MPLS_nlabels 19])],
     [(UNROLLED PT_PROTO_MPLS, [ETHERNET, VLAN, VLAN, MPLS_nlabels 19]), (UNROLLED PT_PROTO_VLAN, [ETHERNET, VLAN, MPLS_nlabels 20]), (UNROLLED PT_PROTO_PPPOE, [ETHERNET, VLAN, VLAN, MPLS_nlabels 20])],
     [(UNROLLED PT_PROTO_MPLS, [ETHERNET, VLAN, VLAN, MPLS_nlabels 20]), (UNROLLED PT_PROTO_VLAN, [ETHERNET, VLAN, MPLS_nlabels 21]), (UNROLLED PT_PROTO_PPPOE, [ETHERNET, VLAN, VLAN, MPLS_nlabels 21])],
     [(UNROLLED PT_PROTO_MPLS, [ETHERNET, VLAN, VLAN, MPLS_nlabels 21]), (UNROLLED PT_PROTO_VLAN, [ETHERNET, VLAN, MPLS_nlabels 22]), (UNROLLED PT_PROTO_PPPOE, [ETHERNET, VLAN, VLAN, MPLS_nlabels 22])],
     [(UNROLLED PT_PROTO_MPLS, [ETHERNET, VLAN, VLAN, MPLS_nlabels 22]), (UNROLLED PT_PROTO_VLAN, [ETHERNET, VLAN, MPLS_nlabels 23]), (UNROLLED PT_PROTO_PPPOE, [ETHERNET, VLAN, VLAN, MPLS_nlabels 23])],
     [(UNROLLED PT_PROTO_MPLS, [ETHERNET, VLAN, VLAN, MPLS_nlabels 23]), (UNROLLED PT_PROTO_VLAN, [ETHERNET, VLAN, MPLS_nlabels 24]), (UNROLLED PT_PROTO_PPPOE, [ETHERNET, VLAN, VLAN, MPLS_nlabels 24])],
     [(UNROLLED PT_PROTO_MPLS, [ETHERNET, VLAN, VLAN, MPLS_nlabels 24]), (UNROLLED PT_PROTO_VLAN, [ETHERNET, VLAN, MPLS_nlabels 25]), (UNROLLED PT_PROTO_PPPOE, [ETHERNET, VLAN, VLAN, MPLS_nlabels 25])],
     [(UNROLLED PT_PROTO_MPLS, [ETHERNET, VLAN, VLAN, MPLS_nlabels 25]), (UNROLLED PT_PROTO_VLAN, [ETHERNET, VLAN, MPLS_nlabels 26]), (UNROLLED PT_PROTO_PPPOE, [ETHERNET, VLAN, VLAN, MPLS_nlabels 26])],
     [(UNROLLED PT_PROTO_MPLS, [ETHERNET, VLAN, VLAN, MPLS_nlabels 26]), (UNROLLED PT_PROTO_VLAN, [ETHERNET, VLAN, MPLS_nlabels 27]), (UNROLLED PT_PROTO_PPPOE, [ETHERNET, VLAN, VLAN, MPLS_nlabels 27])],
     [(UNROLLED PT_PROTO_MPLS, [ETHERNET, VLAN, VLAN, MPLS_nlabels 27]), (UNROLLED PT_PROTO_VLAN, [ETHERNET, VLAN, MPLS_nlabels 28]), (UNROLLED PT_PROTO_PPPOE, [ETHERNET, VLAN, VLAN, MPLS_nlabels 28])],
     [(UNROLLED PT_PROTO_MPLS, [ETHERNET, VLAN, VLAN, MPLS_nlabels 28]), (UNROLLED PT_PROTO_VLAN, [ETHERNET, VLAN, MPLS_nlabels 29]), (UNROLLED PT_PROTO_PPPOE, [ETHERNET, VLAN, VLAN, MPLS_nlabels 29])],
     [(UNROLLED PT_PROTO_MPLS, [ETHERNET, VLAN, VLAN, MPLS_nlabels 29]), (UNROLLED PT_PROTO_VLAN, [ETHERNET, VLAN, MPLS_nlabels 30]), (UNROLLED PT_PROTO_PPPOE, [ETHERNET, VLAN, VLAN, MPLS_nlabels 30])],
     [(UNROLLED PT_PROTO_MPLS, [ETHERNET, VLAN, VLAN, MPLS_nlabels 30]), (UNROLLED PT_PROTO_VLAN, [ETHERNET, VLAN, MPLS_nlabels 31]), (UNROLLED PT_PROTO_PPPOE, [ETHERNET, VLAN, VLAN, MPLS_nlabels 31])],
     [(UNROLLED PT_PROTO_MPLS, [ETHERNET, VLAN, VLAN, MPLS_nlabels 31]), (UNROLLED PT_PROTO_VLAN, [ETHERNET, VLAN, MPLS_nlabels 32]), (UNROLLED PT_PROTO_PPPOE, [ETHERNET, VLAN, VLAN, MPLS_nlabels 32])],
     [(UNROLLED PT_PROTO_MPLS, [IEEE8023, VLAN, VLAN]), (UNROLLED PT_PROTO_VLAN, [IEEE8023, VLAN, MPLS_nlabels 1]), (UNROLLED PT_PROTO_PPPOE, [IEEE8023, VLAN, VLAN, MPLS_nlabels 1])],
     [(UNROLLED PT_PROTO_MPLS, [IEEE8023, VLAN, VLAN, MPLS_nlabels 1]), (UNROLLED PT_PROTO_VLAN, [IEEE8023, VLAN, MPLS_nlabels 2]), (UNROLLED PT_PROTO_PPPOE, [IEEE8023, VLAN, VLAN, MPLS_nlabels 2])],
     [(UNROLLED PT_PROTO_MPLS, [IEEE8023, VLAN, VLAN, MPLS_nlabels 2]), (UNROLLED PT_PROTO_VLAN, [IEEE8023, VLAN, MPLS_nlabels 3]), (UNROLLED PT_PROTO_PPPOE, [IEEE8023, VLAN, VLAN, MPLS_nlabels 3])],
     [(UNROLLED PT_PROTO_MPLS, [IEEE8023, VLAN, VLAN, MPLS_nlabels 3]), (UNROLLED PT_PROTO_VLAN, [IEEE8023, VLAN, MPLS_nlabels 4]), (UNROLLED PT_PROTO_PPPOE, [IEEE8023, VLAN, VLAN, MPLS_nlabels 4])],
     [(UNROLLED PT_PROTO_MPLS, [IEEE8023, VLAN, VLAN, MPLS_nlabels 4]), (UNROLLED PT_PROTO_VLAN, [IEEE8023, VLAN, MPLS_nlabels 5]), (UNROLLED PT_PROTO_PPPOE, [IEEE8023, VLAN, VLAN, MPLS_nlabels 5])],
     [(UNROLLED PT_PROTO_MPLS, [IEEE8023, VLAN, VLAN, MPLS_nlabels 5]), (UNROLLED PT_PROTO_VLAN, [IEEE8023, VLAN, MPLS_nlabels 6]), (UNROLLED PT_PROTO_PPPOE, [IEEE8023, VLAN, VLAN, MPLS_nlabels 6])],
     [(UNROLLED PT_PROTO_MPLS, [IEEE8023, VLAN, VLAN, MPLS_nlabels 6]), (UNROLLED PT_PROTO_VLAN, [IEEE8023, VLAN, MPLS_nlabels 7]), (UNROLLED PT_PROTO_PPPOE, [IEEE8023, VLAN, VLAN, MPLS_nlabels 7])],
     [(UNROLLED PT_PROTO_MPLS, [IEEE8023, VLAN, VLAN, MPLS_nlabels 7]), (UNROLLED PT_PROTO_VLAN, [IEEE8023, VLAN, MPLS_nlabels 8]), (UNROLLED PT_PROTO_PPPOE, [IEEE8023, VLAN, VLAN, MPLS_nlabels 8])],
     [(UNROLLED PT_PROTO_MPLS, [IEEE8023, VLAN, VLAN, MPLS_nlabels 8]), (UNROLLED PT_PROTO_VLAN, [IEEE8023, VLAN, MPLS_nlabels 9]), (UNROLLED PT_PROTO_PPPOE, [IEEE8023, VLAN, VLAN, MPLS_nlabels 9])],
     [(UNROLLED PT_PROTO_MPLS, [IEEE8023, VLAN, VLAN, MPLS_nlabels 9]), (UNROLLED PT_PROTO_VLAN, [IEEE8023, VLAN, MPLS_nlabels 10]), (UNROLLED PT_PROTO_PPPOE, [IEEE8023, VLAN, VLAN, MPLS_nlabels 10])],
     [(UNROLLED PT_PROTO_MPLS, [IEEE8023, VLAN, VLAN, MPLS_nlabels 10]), (UNROLLED PT_PROTO_VLAN, [IEEE8023, VLAN, MPLS_nlabels 11]), (UNROLLED PT_PROTO_PPPOE, [IEEE8023, VLAN, VLAN, MPLS_nlabels 11])],
     [(UNROLLED PT_PROTO_MPLS, [IEEE8023, VLAN, VLAN, MPLS_nlabels 11]), (UNROLLED PT_PROTO_VLAN, [IEEE8023, VLAN, MPLS_nlabels 12]), (UNROLLED PT_PROTO_PPPOE, [IEEE8023, VLAN, VLAN, MPLS_nlabels 12])],
     [(UNROLLED PT_PROTO_MPLS, [IEEE8023, VLAN, VLAN, MPLS_nlabels 12]), (UNROLLED PT_PROTO_VLAN, [IEEE8023, VLAN, MPLS_nlabels 13]), (UNROLLED PT_PROTO_PPPOE, [IEEE8023, VLAN, VLAN, MPLS_nlabels 13])],
     [(UNROLLED PT_PROTO_MPLS, [IEEE8023, VLAN, VLAN, MPLS_nlabels 13]), (UNROLLED PT_PROTO_VLAN, [IEEE8023, VLAN, MPLS_nlabels 14]), (UNROLLED PT_PROTO_PPPOE, [IEEE8023, VLAN, VLAN, MPLS_nlabels 14])],
     [(UNROLLED PT_PROTO_MPLS, [IEEE8023, VLAN, VLAN, MPLS_nlabels 14]), (UNROLLED PT_PROTO_VLAN, [IEEE8023, VLAN, MPLS_nlabels 15]), (UNROLLED PT_PROTO_PPPOE, [IEEE8023, VLAN, VLAN, MPLS_nlabels 15])],
     [(UNROLLED PT_PROTO_MPLS, [IEEE8023, VLAN, VLAN, MPLS_nlabels 15]), (UNROLLED PT_PROTO_VLAN, [IEEE8023, VLAN, MPLS_nlabels 16]), (UNROLLED PT_PROTO_PPPOE, [IEEE8023, VLAN, VLAN, MPLS_nlabels 16])],
     [(UNROLLED PT_PROTO_MPLS, [IEEE8023, VLAN, VLAN, MPLS_nlabels 16]), (UNROLLED PT_PROTO_VLAN, [IEEE8023, VLAN, MPLS_nlabels 17]), (UNROLLED PT_PROTO_PPPOE, [IEEE8023, VLAN, VLAN, MPLS_nlabels 17])],
     [(UNROLLED PT_PROTO_MPLS, [IEEE8023, VLAN, VLAN, MPLS_nlabels 17]), (UNROLLED PT_PROTO_VLAN, [IEEE8023, VLAN, MPLS_nlabels 18]), (UNROLLED PT_PROTO_PPPOE, [IEEE8023, VLAN, VLAN, MPLS_nlabels 18])],
     [(UNROLLED PT_PROTO_MPLS, [IEEE8023, VLAN, VLAN, MPLS_nlabels 18]), (UNROLLED PT_PROTO_VLAN, [IEEE8023, VLAN, MPLS_nlabels 19]), (UNROLLED PT_PROTO_PPPOE, [IEEE8023, VLAN, VLAN, MPLS_nlabels 19])],
     [(UNROLLED PT_PROTO_MPLS, [IEEE8023, VLAN, VLAN, MPLS_nlabels 19]), (UNROLLED PT_PROTO_VLAN, [IEEE8023, VLAN, MPLS_nlabels 20]), (UNROLLED PT_PROTO_PPPOE, [IEEE8023, VLAN, VLAN, MPLS_nlabels 20])],
     [(UNROLLED PT_PROTO_MPLS, [IEEE8023, VLAN, VLAN, MPLS_nlabels 20]), (UNROLLED PT_PROTO_VLAN, [IEEE8023, VLAN, MPLS_nlabels 21]), (UNROLLED PT_PROTO_PPPOE, [IEEE8023, VLAN, VLAN, MPLS_nlabels 21])],
     [(UNROLLED PT_PROTO_MPLS, [IEEE8023, VLAN, VLAN, MPLS_nlabels 21]), (UNROLLED PT_PROTO_VLAN, [IEEE8023, VLAN, MPLS_nlabels 22]), (UNROLLED PT_PROTO_PPPOE, [IEEE8023, VLAN, VLAN, MPLS_nlabels 22])],
     [(UNROLLED PT_PROTO_MPLS, [IEEE8023, VLAN, VLAN, MPLS_nlabels 22]), (UNROLLED PT_PROTO_VLAN, [IEEE8023, VLAN, MPLS_nlabels 23]), (UNROLLED PT_PROTO_PPPOE, [IEEE8023, VLAN, VLAN, MPLS_nlabels 23])],
     [(UNROLLED PT_PROTO_MPLS, [IEEE8023, VLAN, VLAN, MPLS_nlabels 23]), (UNROLLED PT_PROTO_VLAN, [IEEE8023, VLAN, MPLS_nlabels 24]), (UNROLLED PT_PROTO_PPPOE, [IEEE8023, VLAN, VLAN, MPLS_nlabels 24])],
     [(UNROLLED PT_PROTO_MPLS, [IEEE8023, VLAN, VLAN, MPLS_nlabels 24]), (UNROLLED PT_PROTO_VLAN, [IEEE8023, VLAN, MPLS_nlabels 25]), (UNROLLED PT_PROTO_PPPOE, [IEEE8023, VLAN, VLAN, MPLS_nlabels 25])],
     [(UNROLLED PT_PROTO_MPLS, [IEEE8023, VLAN, VLAN, MPLS_nlabels 25]), (UNROLLED PT_PROTO_VLAN, [IEEE8023, VLAN, MPLS_nlabels 26]), (UNROLLED PT_PROTO_PPPOE, [IEEE8023, VLAN, VLAN, MPLS_nlabels 26])],
     [(UNROLLED PT_PROTO_MPLS, [IEEE8023, VLAN, VLAN, MPLS_nlabels 26]), (UNROLLED PT_PROTO_VLAN, [IEEE8023, VLAN, MPLS_nlabels 27]), (UNROLLED PT_PROTO_PPPOE, [IEEE8023, VLAN, VLAN, MPLS_nlabels 27])],
     [(UNROLLED PT_PROTO_MPLS, [IEEE8023, VLAN, VLAN, MPLS_nlabels 27]), (UNROLLED PT_PROTO_VLAN, [IEEE8023, VLAN, MPLS_nlabels 28]), (UNROLLED PT_PROTO_PPPOE, [IEEE8023, VLAN, VLAN, MPLS_nlabels 28])],
     [(UNROLLED PT_PROTO_MPLS, [IEEE8023, VLAN, VLAN, MPLS_nlabels 28]), (UNROLLED PT_PROTO_VLAN, [IEEE8023, VLAN, MPLS_nlabels 29]), (UNROLLED PT_PROTO_PPPOE, [IEEE8023, VLAN, VLAN, MPLS_nlabels 29])],
     [(UNROLLED PT_PROTO_MPLS, [IEEE8023, VLAN, VLAN, MPLS_nlabels 29]), (UNROLLED PT_PROTO_VLAN, [IEEE8023, VLAN, MPLS_nlabels 30]), (UNROLLED PT_PROTO_PPPOE, [IEEE8023, VLAN, VLAN, MPLS_nlabels 30])],
     [(UNROLLED PT_PROTO_MPLS, [IEEE8023, VLAN, VLAN, MPLS_nlabels 30]), (UNROLLED PT_PROTO_VLAN, [IEEE8023, VLAN, MPLS_nlabels 31]), (UNROLLED PT_PROTO_PPPOE, [IEEE8023, VLAN, VLAN, MPLS_nlabels 31])],
     [(UNROLLED PT_PROTO_MPLS, [IEEE8023, VLAN, VLAN, MPLS_nlabels 31]), (UNROLLED PT_PROTO_VLAN, [IEEE8023, VLAN, MPLS_nlabels 32]), (UNROLLED PT_PROTO_PPPOE, [IEEE8023, VLAN, VLAN, MPLS_nlabels 32])],
     [(UNROLLED PT_PROTO_PPPOE, [ETHERNET])],
     [(UNROLLED PT_PROTO_ISID, [ETHERNET, PPPOE])],
     [],
     [(UNROLLED PT_PROTO_PPPOE, [IEEE8023])],
     [(UNROLLED PT_PROTO_VLAN, [ETHERNET, PPPOE]), (UNROLLED PT_PROTO_PPPOE, [ETHERNET, VLAN])],
     [(UNROLLED PT_PROTO_VLAN, [IEEE8023, PPPOE]), (UNROLLED PT_PROTO_PPPOE, [IEEE8023, VLAN])],
     [(UNROLLED PT_PROTO_VLAN, [ETHERNET, VLAN, PPPOE]), (UNROLLED PT_PROTO_PPPOE, [ETHERNET, VLAN, VLAN])],
     [(UNROLLED PT_PROTO_VLAN, [IEEE8023, VLAN, PPPOE]), (UNROLLED PT_PROTO_PPPOE, [IEEE8023, VLAN, VLAN])],
     [(UNROLLED PT_PROTO_PPP, [ETHERNET, PPPOE])],
     [(UNROLLED PT_PROTO_ISID, [ETHERNET, PPPOE, PPP])],
     [],
     [(UNROLLED PT_PROTO_PPP, [IEEE8023, PPPOE])],
     [(UNROLLED PT_PROTO_VLAN, [ETHERNET, PPPOE, PPP]), (UNROLLED PT_PROTO_PPP, [ETHERNET, VLAN, PPPOE])],
     [(UNROLLED PT_PROTO_VLAN, [IEEE8023, PPPOE, PPP]), (UNROLLED PT_PROTO_PPP, [IEEE8023, VLAN, PPPOE])],
     [(UNROLLED PT_PROTO_VLAN, [ETHERNET, VLAN, PPPOE, PPP]), (UNROLLED PT_PROTO_PPP, [ETHERNET, VLAN, VLAN, PPPOE])],
     [(UNROLLED PT_PROTO_VLAN, [IEEE8023, VLAN, PPPOE, PPP]), (UNROLLED PT_PROTO_PPP, [IEEE8023, VLAN, VLAN, PPPOE])],
     [(UNROLLED PT_PROTO_PPPOE, [ETHERNET, ARPV4])],
     [(UNROLLED PT_PROTO_ISID, [ETHERNET, ARPV4])],
     [],
     [(UNROLLED PT_PROTO_PPPOE, [IEEE8023, ARPV4])],
     [(UNROLLED PT_PROTO_VLAN, [ETHERNET, ARPV4]), (UNROLLED PT_PROTO_PPPOE, [ETHERNET, VLAN, ARPV4])],
     [(UNROLLED PT_PROTO_VLAN, [IEEE8023, ARPV4]), (UNROLLED PT_PROTO_PPPOE, [IEEE8023, VLAN, ARPV4])],
     [(UNROLLED PT_PROTO_VLAN, [ETHERNET, VLAN, ARPV4]), (UNROLLED PT_PROTO_PPPOE, [ETHERNET, VLAN, VLAN, ARPV4])],
     [(UNROLLED PT_PROTO_VLAN, [IEEE8023, VLAN, ARPV4]), (UNROLLED PT_PROTO_PPPOE, [IEEE8023, VLAN, VLAN, ARPV4])],
     [(UNROLLED PT_PROTO_PPPOE, [ETHERNET, IPV4_noptions 0])],
     [(UNROLLED PT_PROTO_PPPOE, [ETHERNET, IPV4_noptions 1])],
     [(UNROLLED PT_PROTO_PPPOE, [ETHERNET, IPV4_noptions 2])],
     [(UNROLLED PT_PROTO_PPPOE, [ETHERNET, IPV4_noptions 3])],
     [(UNROLLED PT_PROTO_PPPOE, [ETHERNET, IPV4_noptions 4])],
     [(UNROLLED PT_PROTO_PPPOE, [ETHERNET, IPV4_noptions 5])],
     [(UNROLLED PT_PROTO_PPPOE, [ETHERNET, IPV4_noptions 6])],
     [(UNROLLED PT_PROTO_PPPOE, [ETHERNET, IPV4_noptions 7])],
     [(UNROLLED PT_PROTO_PPPOE, [ETHERNET, IPV4_noptions 8])],
     [(UNROLLED PT_PROTO_PPPOE, [ETHERNET, IPV4_noptions 9])],
     [(UNROLLED PT_PROTO_PPPOE, [ETHERNET, IPV4_noptions 10])],
     [(UNROLLED PT_PROTO_PPPOE, [ETHERNET, IPV4_noptions 11])]]"

definition pop_table_3 :: "(unrolled \<times> pkt_type) list list" where
  "pop_table_3 =
    [[(UNROLLED PT_PROTO_PPPOE, [ETHERNET, IPV4_noptions 12])],
     [(UNROLLED PT_PROTO_PPPOE, [ETHERNET, IPV4_noptions 13])],
     [(UNROLLED PT_PROTO_PPPOE, [ETHERNET, IPV4_noptions 14])],
     [(UNROLLED PT_PROTO_PPPOE, [ETHERNET, IPV4_noptions 15])],
     [(UNROLLED PT_PROTO_ISID, [ETHERNET, IPV4_noptions 0])],
     [(UNROLLED PT_PROTO_ISID, [ETHERNET, IPV4_noptions 1])],
     [(UNROLLED PT_PROTO_ISID, [ETHERNET, IPV4_noptions 2])],
     [(UNROLLED PT_PROTO_ISID, [ETHERNET, IPV4_noptions 3])],
     [(UNROLLED PT_PROTO_ISID, [ETHERNET, IPV4_noptions 4])],
     [(UNROLLED PT_PROTO_ISID, [ETHERNET, IPV4_noptions 5])],
     [(UNROLLED PT_PROTO_ISID, [ETHERNET, IPV4_noptions 6])],
     [(UNROLLED PT_PROTO_ISID, [ETHERNET, IPV4_noptions 7])],
     [(UNROLLED PT_PROTO_ISID, [ETHERNET, IPV4_noptions 8])],
     [(UNROLLED PT_PROTO_ISID, [ETHERNET, IPV4_noptions 9])],
     [(UNROLLED PT_PROTO_ISID, [ETHERNET, IPV4_noptions 10])],
     [(UNROLLED PT_PROTO_ISID, [ETHERNET, IPV4_noptions 11])],
     [(UNROLLED PT_PROTO_ISID, [ETHERNET, IPV4_noptions 12])],
     [(UNROLLED PT_PROTO_ISID, [ETHERNET, IPV4_noptions 13])],
     [(UNROLLED PT_PROTO_ISID, [ETHERNET, IPV4_noptions 14])],
     [(UNROLLED PT_PROTO_ISID, [ETHERNET, IPV4_noptions 15])],
     [],
     [],
     [],
     [],
     [],
     [],
     [],
     [],
     [],
     [],
     [],
     [],
     [],
     [],
     [],
     [],
     [(UNROLLED PT_PROTO_PPPOE, [IEEE8023, IPV4_noptions 0])],
     [(UNROLLED PT_PROTO_PPPOE, [IEEE8023, IPV4_noptions 1])],
     [(UNROLLED PT_PROTO_PPPOE, [IEEE8023, IPV4_noptions 2])],
     [(UNROLLED PT_PROTO_PPPOE, [IEEE8023, IPV4_noptions 3])],
     [(UNROLLED PT_PROTO_PPPOE, [IEEE8023, IPV4_noptions 4])],
     [(UNROLLED PT_PROTO_PPPOE, [IEEE8023, IPV4_noptions 5])],
     [(UNROLLED PT_PROTO_PPPOE, [IEEE8023, IPV4_noptions 6])],
     [(UNROLLED PT_PROTO_PPPOE, [IEEE8023, IPV4_noptions 7])],
     [(UNROLLED PT_PROTO_PPPOE, [IEEE8023, IPV4_noptions 8])],
     [(UNROLLED PT_PROTO_PPPOE, [IEEE8023, IPV4_noptions 9])],
     [(UNROLLED PT_PROTO_PPPOE, [IEEE8023, IPV4_noptions 10])],
     [(UNROLLED PT_PROTO_PPPOE, [IEEE8023, IPV4_noptions 11])],
     [(UNROLLED PT_PROTO_PPPOE, [IEEE8023, IPV4_noptions 12])],
     [(UNROLLED PT_PROTO_PPPOE, [IEEE8023, IPV4_noptions 13])],
     [(UNROLLED PT_PROTO_PPPOE, [IEEE8023, IPV4_noptions 14])],
     [(UNROLLED PT_PROTO_PPPOE, [IEEE8023, IPV4_noptions 15])],
     [(UNROLLED PT_PROTO_VLAN, [ETHERNET, IPV4_noptions 0]), (UNROLLED PT_PROTO_PPPOE, [ETHERNET, VLAN, IPV4_noptions 0])],
     [(UNROLLED PT_PROTO_VLAN, [ETHERNET, IPV4_noptions 1]), (UNROLLED PT_PROTO_PPPOE, [ETHERNET, VLAN, IPV4_noptions 1])],
     [(UNROLLED PT_PROTO_VLAN, [ETHERNET, IPV4_noptions 2]), (UNROLLED PT_PROTO_PPPOE, [ETHERNET, VLAN, IPV4_noptions 2])],
     [(UNROLLED PT_PROTO_VLAN, [ETHERNET, IPV4_noptions 3]), (UNROLLED PT_PROTO_PPPOE, [ETHERNET, VLAN, IPV4_noptions 3])],
     [(UNROLLED PT_PROTO_VLAN, [ETHERNET, IPV4_noptions 4]), (UNROLLED PT_PROTO_PPPOE, [ETHERNET, VLAN, IPV4_noptions 4])],
     [(UNROLLED PT_PROTO_VLAN, [ETHERNET, IPV4_noptions 5]), (UNROLLED PT_PROTO_PPPOE, [ETHERNET, VLAN, IPV4_noptions 5])],
     [(UNROLLED PT_PROTO_VLAN, [ETHERNET, IPV4_noptions 6]), (UNROLLED PT_PROTO_PPPOE, [ETHERNET, VLAN, IPV4_noptions 6])],
     [(UNROLLED PT_PROTO_VLAN, [ETHERNET, IPV4_noptions 7]), (UNROLLED PT_PROTO_PPPOE, [ETHERNET, VLAN, IPV4_noptions 7])],
     [(UNROLLED PT_PROTO_VLAN, [ETHERNET, IPV4_noptions 8]), (UNROLLED PT_PROTO_PPPOE, [ETHERNET, VLAN, IPV4_noptions 8])],
     [(UNROLLED PT_PROTO_VLAN, [ETHERNET, IPV4_noptions 9]), (UNROLLED PT_PROTO_PPPOE, [ETHERNET, VLAN, IPV4_noptions 9])],
     [(UNROLLED PT_PROTO_VLAN, [ETHERNET, IPV4_noptions 10]), (UNROLLED PT_PROTO_PPPOE, [ETHERNET, VLAN, IPV4_noptions 10])],
     [(UNROLLED PT_PROTO_VLAN, [ETHERNET, IPV4_noptions 11]), (UNROLLED PT_PROTO_PPPOE, [ETHERNET, VLAN, IPV4_noptions 11])],
     [(UNROLLED PT_PROTO_VLAN, [ETHERNET, IPV4_noptions 12]), (UNROLLED PT_PROTO_PPPOE, [ETHERNET, VLAN, IPV4_noptions 12])],
     [(UNROLLED PT_PROTO_VLAN, [ETHERNET, IPV4_noptions 13]), (UNROLLED PT_PROTO_PPPOE, [ETHERNET, VLAN, IPV4_noptions 13])],
     [(UNROLLED PT_PROTO_VLAN, [ETHERNET, IPV4_noptions 14]), (UNROLLED PT_PROTO_PPPOE, [ETHERNET, VLAN, IPV4_noptions 14])],
     [(UNROLLED PT_PROTO_VLAN, [ETHERNET, IPV4_noptions 15]), (UNROLLED PT_PROTO_PPPOE, [ETHERNET, VLAN, IPV4_noptions 15])],
     [(UNROLLED PT_PROTO_VLAN, [IEEE8023, IPV4_noptions 0]), (UNROLLED PT_PROTO_PPPOE, [IEEE8023, VLAN, IPV4_noptions 0])],
     [(UNROLLED PT_PROTO_VLAN, [IEEE8023, IPV4_noptions 1]), (UNROLLED PT_PROTO_PPPOE, [IEEE8023, VLAN, IPV4_noptions 1])],
     [(UNROLLED PT_PROTO_VLAN, [IEEE8023, IPV4_noptions 2]), (UNROLLED PT_PROTO_PPPOE, [IEEE8023, VLAN, IPV4_noptions 2])],
     [(UNROLLED PT_PROTO_VLAN, [IEEE8023, IPV4_noptions 3]), (UNROLLED PT_PROTO_PPPOE, [IEEE8023, VLAN, IPV4_noptions 3])],
     [(UNROLLED PT_PROTO_VLAN, [IEEE8023, IPV4_noptions 4]), (UNROLLED PT_PROTO_PPPOE, [IEEE8023, VLAN, IPV4_noptions 4])],
     [(UNROLLED PT_PROTO_VLAN, [IEEE8023, IPV4_noptions 5]), (UNROLLED PT_PROTO_PPPOE, [IEEE8023, VLAN, IPV4_noptions 5])],
     [(UNROLLED PT_PROTO_VLAN, [IEEE8023, IPV4_noptions 6]), (UNROLLED PT_PROTO_PPPOE, [IEEE8023, VLAN, IPV4_noptions 6])],
     [(UNROLLED PT_PROTO_VLAN, [IEEE8023, IPV4_noptions 7]), (UNROLLED PT_PROTO_PPPOE, [IEEE8023, VLAN, IPV4_noptions 7])],
     [(UNROLLED PT_PROTO_VLAN, [IEEE8023, IPV4_noptions 8]), (UNROLLED PT_PROTO_PPPOE, [IEEE8023, VLAN, IPV4_noptions 8])],
     [(UNROLLED PT_PROTO_VLAN, [IEEE8023, IPV4_noptions 9]), (UNROLLED PT_PROTO_PPPOE, [IEEE8023, VLAN, IPV4_noptions 9])],
     [(UNROLLED PT_PROTO_VLAN, [IEEE8023, IPV4_noptions 10]), (UNROLLED PT_PROTO_PPPOE, [IEEE8023, VLAN, IPV4_noptions 10])],
     [(UNROLLED PT_PROTO_VLAN, [IEEE8023, IPV4_noptions 11]), (UNROLLED PT_PROTO_PPPOE, [IEEE8023, VLAN, IPV4_noptions 11])],
     [(UNROLLED PT_PROTO_VLAN, [IEEE8023, IPV4_noptions 12]), (UNROLLED PT_PROTO_PPPOE, [IEEE8023, VLAN, IPV4_noptions 12])],
     [(UNROLLED PT_PROTO_VLAN, [IEEE8023, IPV4_noptions 13]), (UNROLLED PT_PROTO_PPPOE, [IEEE8023, VLAN, IPV4_noptions 13])],
     [(UNROLLED PT_PROTO_VLAN, [IEEE8023, IPV4_noptions 14]), (UNROLLED PT_PROTO_PPPOE, [IEEE8023, VLAN, IPV4_noptions 14])],
     [(UNROLLED PT_PROTO_VLAN, [IEEE8023, IPV4_noptions 15]), (UNROLLED PT_PROTO_PPPOE, [IEEE8023, VLAN, IPV4_noptions 15])],
     [(UNROLLED PT_PROTO_VLAN, [ETHERNET, VLAN, IPV4_noptions 0]), (UNROLLED PT_PROTO_PPPOE, [ETHERNET, VLAN, VLAN, IPV4_noptions 0])],
     [(UNROLLED PT_PROTO_VLAN, [ETHERNET, VLAN, IPV4_noptions 1]), (UNROLLED PT_PROTO_PPPOE, [ETHERNET, VLAN, VLAN, IPV4_noptions 1])],
     [(UNROLLED PT_PROTO_VLAN, [ETHERNET, VLAN, IPV4_noptions 2]), (UNROLLED PT_PROTO_PPPOE, [ETHERNET, VLAN, VLAN, IPV4_noptions 2])],
     [(UNROLLED PT_PROTO_VLAN, [ETHERNET, VLAN, IPV4_noptions 3]), (UNROLLED PT_PROTO_PPPOE, [ETHERNET, VLAN, VLAN, IPV4_noptions 3])],
     [(UNROLLED PT_PROTO_VLAN, [ETHERNET, VLAN, IPV4_noptions 4]), (UNROLLED PT_PROTO_PPPOE, [ETHERNET, VLAN, VLAN, IPV4_noptions 4])],
     [(UNROLLED PT_PROTO_VLAN, [ETHERNET, VLAN, IPV4_noptions 5]), (UNROLLED PT_PROTO_PPPOE, [ETHERNET, VLAN, VLAN, IPV4_noptions 5])],
     [(UNROLLED PT_PROTO_VLAN, [ETHERNET, VLAN, IPV4_noptions 6]), (UNROLLED PT_PROTO_PPPOE, [ETHERNET, VLAN, VLAN, IPV4_noptions 6])],
     [(UNROLLED PT_PROTO_VLAN, [ETHERNET, VLAN, IPV4_noptions 7]), (UNROLLED PT_PROTO_PPPOE, [ETHERNET, VLAN, VLAN, IPV4_noptions 7])],
     [(UNROLLED PT_PROTO_VLAN, [ETHERNET, VLAN, IPV4_noptions 8]), (UNROLLED PT_PROTO_PPPOE, [ETHERNET, VLAN, VLAN, IPV4_noptions 8])],
     [(UNROLLED PT_PROTO_VLAN, [ETHERNET, VLAN, IPV4_noptions 9]), (UNROLLED PT_PROTO_PPPOE, [ETHERNET, VLAN, VLAN, IPV4_noptions 9])],
     [(UNROLLED PT_PROTO_VLAN, [ETHERNET, VLAN, IPV4_noptions 10]), (UNROLLED PT_PROTO_PPPOE, [ETHERNET, VLAN, VLAN, IPV4_noptions 10])],
     [(UNROLLED PT_PROTO_VLAN, [ETHERNET, VLAN, IPV4_noptions 11]), (UNROLLED PT_PROTO_PPPOE, [ETHERNET, VLAN, VLAN, IPV4_noptions 11])],
     [(UNROLLED PT_PROTO_VLAN, [ETHERNET, VLAN, IPV4_noptions 12]), (UNROLLED PT_PROTO_PPPOE, [ETHERNET, VLAN, VLAN, IPV4_noptions 12])],
     [(UNROLLED PT_PROTO_VLAN, [ETHERNET, VLAN, IPV4_noptions 13]), (UNROLLED PT_PROTO_PPPOE, [ETHERNET, VLAN, VLAN, IPV4_noptions 13])],
     [(UNROLLED PT_PROTO_VLAN, [ETHERNET, VLAN, IPV4_noptions 14]), (UNROLLED PT_PROTO_PPPOE, [ETHERNET, VLAN, VLAN, IPV4_noptions 14])],
     [(UNROLLED PT_PROTO_VLAN, [ETHERNET, VLAN, IPV4_noptions 15]), (UNROLLED PT_PROTO_PPPOE, [ETHERNET, VLAN, VLAN, IPV4_noptions 15])],
     [(UNROLLED PT_PROTO_VLAN, [IEEE8023, VLAN, IPV4_noptions 0]), (UNROLLED PT_PROTO_PPPOE, [IEEE8023, VLAN, VLAN, IPV4_noptions 0])],
     [(UNROLLED PT_PROTO_VLAN, [IEEE8023, VLAN, IPV4_noptions 1]), (UNROLLED PT_PROTO_PPPOE, [IEEE8023, VLAN, VLAN, IPV4_noptions 1])],
     [(UNROLLED PT_PROTO_VLAN, [IEEE8023, VLAN, IPV4_noptions 2]), (UNROLLED PT_PROTO_PPPOE, [IEEE8023, VLAN, VLAN, IPV4_noptions 2])],
     [(UNROLLED PT_PROTO_VLAN, [IEEE8023, VLAN, IPV4_noptions 3]), (UNROLLED PT_PROTO_PPPOE, [IEEE8023, VLAN, VLAN, IPV4_noptions 3])],
     [(UNROLLED PT_PROTO_VLAN, [IEEE8023, VLAN, IPV4_noptions 4]), (UNROLLED PT_PROTO_PPPOE, [IEEE8023, VLAN, VLAN, IPV4_noptions 4])],
     [(UNROLLED PT_PROTO_VLAN, [IEEE8023, VLAN, IPV4_noptions 5]), (UNROLLED PT_PROTO_PPPOE, [IEEE8023, VLAN, VLAN, IPV4_noptions 5])],
     [(UNROLLED PT_PROTO_VLAN, [IEEE8023, VLAN, IPV4_noptions 6]), (UNROLLED PT_PROTO_PPPOE, [IEEE8023, VLAN, VLAN, IPV4_noptions 6])],
     [(UNROLLED PT_PROTO_VLAN, [IEEE8023, VLAN, IPV4_noptions 7]), (UNROLLED PT_PROTO_PPPOE, [IEEE8023, VLAN, VLAN, IPV4_noptions 7])],
     [(UNROLLED PT_PROTO_VLAN, [IEEE8023, VLAN, IPV4_noptions 8]), (UNROLLED PT_PROTO_PPPOE, [IEEE8023, VLAN, VLAN, IPV4_noptions 8])],
     [(UNROLLED PT_PROTO_VLAN, [IEEE8023, VLAN, IPV4_noptions 9]), (UNROLLED PT_PROTO_PPPOE, [IEEE8023, VLAN, VLAN, IPV4_noptions 9])],
     [(UNROLLED PT_PROTO_VLAN, [IEEE8023, VLAN, IPV4_noptions 10]), (UNROLLED PT_PROTO_PPPOE, [IEEE8023, VLAN, VLAN, IPV4_noptions 10])],
     [(UNROLLED PT_PROTO_VLAN, [IEEE8023, VLAN, IPV4_noptions 11]), (UNROLLED PT_PROTO_PPPOE, [IEEE8023, VLAN, VLAN, IPV4_noptions 11])],
     [(UNROLLED PT_PROTO_VLAN, [IEEE8023, VLAN, IPV4_noptions 12]), (UNROLLED PT_PROTO_PPPOE, [IEEE8023, VLAN, VLAN, IPV4_noptions 12])],
     [(UNROLLED PT_PROTO_VLAN, [IEEE8023, VLAN, IPV4_noptions 13]), (UNROLLED PT_PROTO_PPPOE, [IEEE8023, VLAN, VLAN, IPV4_noptions 13])],
     [(UNROLLED PT_PROTO_VLAN, [IEEE8023, VLAN, IPV4_noptions 14]), (UNROLLED PT_PROTO_PPPOE, [IEEE8023, VLAN, VLAN, IPV4_noptions 14])],
     [(UNROLLED PT_PROTO_VLAN, [IEEE8023, VLAN, IPV4_noptions 15]), (UNROLLED PT_PROTO_PPPOE, [IEEE8023, VLAN, VLAN, IPV4_noptions 15])],
     [(UNROLLED PT_PROTO_PPPOE, [ETHERNET, IPV4_noptions 0, ICMPV4])],
     [(UNROLLED PT_PROTO_PPPOE, [ETHERNET, IPV4_noptions 1, ICMPV4])],
     [(UNROLLED PT_PROTO_PPPOE, [ETHERNET, IPV4_noptions 2, ICMPV4])],
     [(UNROLLED PT_PROTO_PPPOE, [ETHERNET, IPV4_noptions 3, ICMPV4])],
     [(UNROLLED PT_PROTO_PPPOE, [ETHERNET, IPV4_noptions 4, ICMPV4])],
     [(UNROLLED PT_PROTO_PPPOE, [ETHERNET, IPV4_noptions 5, ICMPV4])],
     [(UNROLLED PT_PROTO_PPPOE, [ETHERNET, IPV4_noptions 6, ICMPV4])],
     [(UNROLLED PT_PROTO_PPPOE, [ETHERNET, IPV4_noptions 7, ICMPV4])],
     [(UNROLLED PT_PROTO_PPPOE, [ETHERNET, IPV4_noptions 8, ICMPV4])],
     [(UNROLLED PT_PROTO_PPPOE, [ETHERNET, IPV4_noptions 9, ICMPV4])],
     [(UNROLLED PT_PROTO_PPPOE, [ETHERNET, IPV4_noptions 10, ICMPV4])],
     [(UNROLLED PT_PROTO_PPPOE, [ETHERNET, IPV4_noptions 11, ICMPV4])],
     [(UNROLLED PT_PROTO_PPPOE, [ETHERNET, IPV4_noptions 12, ICMPV4])],
     [(UNROLLED PT_PROTO_PPPOE, [ETHERNET, IPV4_noptions 13, ICMPV4])],
     [(UNROLLED PT_PROTO_PPPOE, [ETHERNET, IPV4_noptions 14, ICMPV4])],
     [(UNROLLED PT_PROTO_PPPOE, [ETHERNET, IPV4_noptions 15, ICMPV4])],
     [(UNROLLED PT_PROTO_ISID, [ETHERNET, IPV4_noptions 0, ICMPV4])],
     [(UNROLLED PT_PROTO_ISID, [ETHERNET, IPV4_noptions 1, ICMPV4])],
     [(UNROLLED PT_PROTO_ISID, [ETHERNET, IPV4_noptions 2, ICMPV4])],
     [(UNROLLED PT_PROTO_ISID, [ETHERNET, IPV4_noptions 3, ICMPV4])],
     [(UNROLLED PT_PROTO_ISID, [ETHERNET, IPV4_noptions 4, ICMPV4])],
     [(UNROLLED PT_PROTO_ISID, [ETHERNET, IPV4_noptions 5, ICMPV4])],
     [(UNROLLED PT_PROTO_ISID, [ETHERNET, IPV4_noptions 6, ICMPV4])],
     [(UNROLLED PT_PROTO_ISID, [ETHERNET, IPV4_noptions 7, ICMPV4])],
     [(UNROLLED PT_PROTO_ISID, [ETHERNET, IPV4_noptions 8, ICMPV4])],
     [(UNROLLED PT_PROTO_ISID, [ETHERNET, IPV4_noptions 9, ICMPV4])],
     [(UNROLLED PT_PROTO_ISID, [ETHERNET, IPV4_noptions 10, ICMPV4])],
     [(UNROLLED PT_PROTO_ISID, [ETHERNET, IPV4_noptions 11, ICMPV4])],
     [(UNROLLED PT_PROTO_ISID, [ETHERNET, IPV4_noptions 12, ICMPV4])],
     [(UNROLLED PT_PROTO_ISID, [ETHERNET, IPV4_noptions 13, ICMPV4])],
     [(UNROLLED PT_PROTO_ISID, [ETHERNET, IPV4_noptions 14, ICMPV4])],
     [(UNROLLED PT_PROTO_ISID, [ETHERNET, IPV4_noptions 15, ICMPV4])],
     [],
     []]"

definition pop_table_4 :: "(unrolled \<times> pkt_type) list list" where
  "pop_table_4 =
    [[],
     [],
     [],
     [],
     [],
     [],
     [],
     [],
     [],
     [],
     [],
     [],
     [],
     [],
     [(UNROLLED PT_PROTO_PPPOE, [IEEE8023, IPV4_noptions 0, ICMPV4])],
     [(UNROLLED PT_PROTO_PPPOE, [IEEE8023, IPV4_noptions 1, ICMPV4])],
     [(UNROLLED PT_PROTO_PPPOE, [IEEE8023, IPV4_noptions 2, ICMPV4])],
     [(UNROLLED PT_PROTO_PPPOE, [IEEE8023, IPV4_noptions 3, ICMPV4])],
     [(UNROLLED PT_PROTO_PPPOE, [IEEE8023, IPV4_noptions 4, ICMPV4])],
     [(UNROLLED PT_PROTO_PPPOE, [IEEE8023, IPV4_noptions 5, ICMPV4])],
     [(UNROLLED PT_PROTO_PPPOE, [IEEE8023, IPV4_noptions 6, ICMPV4])],
     [(UNROLLED PT_PROTO_PPPOE, [IEEE8023, IPV4_noptions 7, ICMPV4])],
     [(UNROLLED PT_PROTO_PPPOE, [IEEE8023, IPV4_noptions 8, ICMPV4])],
     [(UNROLLED PT_PROTO_PPPOE, [IEEE8023, IPV4_noptions 9, ICMPV4])],
     [(UNROLLED PT_PROTO_PPPOE, [IEEE8023, IPV4_noptions 10, ICMPV4])],
     [(UNROLLED PT_PROTO_PPPOE, [IEEE8023, IPV4_noptions 11, ICMPV4])],
     [(UNROLLED PT_PROTO_PPPOE, [IEEE8023, IPV4_noptions 12, ICMPV4])],
     [(UNROLLED PT_PROTO_PPPOE, [IEEE8023, IPV4_noptions 13, ICMPV4])],
     [(UNROLLED PT_PROTO_PPPOE, [IEEE8023, IPV4_noptions 14, ICMPV4])],
     [(UNROLLED PT_PROTO_PPPOE, [IEEE8023, IPV4_noptions 15, ICMPV4])],
     [(UNROLLED PT_PROTO_VLAN, [ETHERNET, IPV4_noptions 0, ICMPV4]), (UNROLLED PT_PROTO_PPPOE, [ETHERNET, VLAN, IPV4_noptions 0, ICMPV4])],
     [(UNROLLED PT_PROTO_VLAN, [ETHERNET, IPV4_noptions 1, ICMPV4]), (UNROLLED PT_PROTO_PPPOE, [ETHERNET, VLAN, IPV4_noptions 1, ICMPV4])],
     [(UNROLLED PT_PROTO_VLAN, [ETHERNET, IPV4_noptions 2, ICMPV4]), (UNROLLED PT_PROTO_PPPOE, [ETHERNET, VLAN, IPV4_noptions 2, ICMPV4])],
     [(UNROLLED PT_PROTO_VLAN, [ETHERNET, IPV4_noptions 3, ICMPV4]), (UNROLLED PT_PROTO_PPPOE, [ETHERNET, VLAN, IPV4_noptions 3, ICMPV4])],
     [(UNROLLED PT_PROTO_VLAN, [ETHERNET, IPV4_noptions 4, ICMPV4]), (UNROLLED PT_PROTO_PPPOE, [ETHERNET, VLAN, IPV4_noptions 4, ICMPV4])],
     [(UNROLLED PT_PROTO_VLAN, [ETHERNET, IPV4_noptions 5, ICMPV4]), (UNROLLED PT_PROTO_PPPOE, [ETHERNET, VLAN, IPV4_noptions 5, ICMPV4])],
     [(UNROLLED PT_PROTO_VLAN, [ETHERNET, IPV4_noptions 6, ICMPV4]), (UNROLLED PT_PROTO_PPPOE, [ETHERNET, VLAN, IPV4_noptions 6, ICMPV4])],
     [(UNROLLED PT_PROTO_VLAN, [ETHERNET, IPV4_noptions 7, ICMPV4]), (UNROLLED PT_PROTO_PPPOE, [ETHERNET, VLAN, IPV4_noptions 7, ICMPV4])],
     [(UNROLLED PT_PROTO_VLAN, [ETHERNET, IPV4_noptions 8, ICMPV4]), (UNROLLED PT_PROTO_PPPOE, [ETHERNET, VLAN, IPV4_noptions 8, ICMPV4])],
     [(UNROLLED PT_PROTO_VLAN, [ETHERNET, IPV4_noptions 9, ICMPV4]), (UNROLLED PT_PROTO_PPPOE, [ETHERNET, VLAN, IPV4_noptions 9, ICMPV4])],
     [(UNROLLED PT_PROTO_VLAN, [ETHERNET, IPV4_noptions 10, ICMPV4]), (UNROLLED PT_PROTO_PPPOE, [ETHERNET, VLAN, IPV4_noptions 10, ICMPV4])],
     [(UNROLLED PT_PROTO_VLAN, [ETHERNET, IPV4_noptions 11, ICMPV4]), (UNROLLED PT_PROTO_PPPOE, [ETHERNET, VLAN, IPV4_noptions 11, ICMPV4])],
     [(UNROLLED PT_PROTO_VLAN, [ETHERNET, IPV4_noptions 12, ICMPV4]), (UNROLLED PT_PROTO_PPPOE, [ETHERNET, VLAN, IPV4_noptions 12, ICMPV4])],
     [(UNROLLED PT_PROTO_VLAN, [ETHERNET, IPV4_noptions 13, ICMPV4]), (UNROLLED PT_PROTO_PPPOE, [ETHERNET, VLAN, IPV4_noptions 13, ICMPV4])],
     [(UNROLLED PT_PROTO_VLAN, [ETHERNET, IPV4_noptions 14, ICMPV4]), (UNROLLED PT_PROTO_PPPOE, [ETHERNET, VLAN, IPV4_noptions 14, ICMPV4])],
     [(UNROLLED PT_PROTO_VLAN, [ETHERNET, IPV4_noptions 15, ICMPV4]), (UNROLLED PT_PROTO_PPPOE, [ETHERNET, VLAN, IPV4_noptions 15, ICMPV4])],
     [(UNROLLED PT_PROTO_VLAN, [IEEE8023, IPV4_noptions 0, ICMPV4]), (UNROLLED PT_PROTO_PPPOE, [IEEE8023, VLAN, IPV4_noptions 0, ICMPV4])],
     [(UNROLLED PT_PROTO_VLAN, [IEEE8023, IPV4_noptions 1, ICMPV4]), (UNROLLED PT_PROTO_PPPOE, [IEEE8023, VLAN, IPV4_noptions 1, ICMPV4])],
     [(UNROLLED PT_PROTO_VLAN, [IEEE8023, IPV4_noptions 2, ICMPV4]), (UNROLLED PT_PROTO_PPPOE, [IEEE8023, VLAN, IPV4_noptions 2, ICMPV4])],
     [(UNROLLED PT_PROTO_VLAN, [IEEE8023, IPV4_noptions 3, ICMPV4]), (UNROLLED PT_PROTO_PPPOE, [IEEE8023, VLAN, IPV4_noptions 3, ICMPV4])],
     [(UNROLLED PT_PROTO_VLAN, [IEEE8023, IPV4_noptions 4, ICMPV4]), (UNROLLED PT_PROTO_PPPOE, [IEEE8023, VLAN, IPV4_noptions 4, ICMPV4])],
     [(UNROLLED PT_PROTO_VLAN, [IEEE8023, IPV4_noptions 5, ICMPV4]), (UNROLLED PT_PROTO_PPPOE, [IEEE8023, VLAN, IPV4_noptions 5, ICMPV4])],
     [(UNROLLED PT_PROTO_VLAN, [IEEE8023, IPV4_noptions 6, ICMPV4]), (UNROLLED PT_PROTO_PPPOE, [IEEE8023, VLAN, IPV4_noptions 6, ICMPV4])],
     [(UNROLLED PT_PROTO_VLAN, [IEEE8023, IPV4_noptions 7, ICMPV4]), (UNROLLED PT_PROTO_PPPOE, [IEEE8023, VLAN, IPV4_noptions 7, ICMPV4])],
     [(UNROLLED PT_PROTO_VLAN, [IEEE8023, IPV4_noptions 8, ICMPV4]), (UNROLLED PT_PROTO_PPPOE, [IEEE8023, VLAN, IPV4_noptions 8, ICMPV4])],
     [(UNROLLED PT_PROTO_VLAN, [IEEE8023, IPV4_noptions 9, ICMPV4]), (UNROLLED PT_PROTO_PPPOE, [IEEE8023, VLAN, IPV4_noptions 9, ICMPV4])],
     [(UNROLLED PT_PROTO_VLAN, [IEEE8023, IPV4_noptions 10, ICMPV4]), (UNROLLED PT_PROTO_PPPOE, [IEEE8023, VLAN, IPV4_noptions 10, ICMPV4])],
     [(UNROLLED PT_PROTO_VLAN, [IEEE8023, IPV4_noptions 11, ICMPV4]), (UNROLLED PT_PROTO_PPPOE, [IEEE8023, VLAN, IPV4_noptions 11, ICMPV4])],
     [(UNROLLED PT_PROTO_VLAN, [IEEE8023, IPV4_noptions 12, ICMPV4]), (UNROLLED PT_PROTO_PPPOE, [IEEE8023, VLAN, IPV4_noptions 12, ICMPV4])],
     [(UNROLLED PT_PROTO_VLAN, [IEEE8023, IPV4_noptions 13, ICMPV4]), (UNROLLED PT_PROTO_PPPOE, [IEEE8023, VLAN, IPV4_noptions 13, ICMPV4])],
     [(UNROLLED PT_PROTO_VLAN, [IEEE8023, IPV4_noptions 14, ICMPV4]), (UNROLLED PT_PROTO_PPPOE, [IEEE8023, VLAN, IPV4_noptions 14, ICMPV4])],
     [(UNROLLED PT_PROTO_VLAN, [IEEE8023, IPV4_noptions 15, ICMPV4]), (UNROLLED PT_PROTO_PPPOE, [IEEE8023, VLAN, IPV4_noptions 15, ICMPV4])],
     [(UNROLLED PT_PROTO_VLAN, [ETHERNET, VLAN, IPV4_noptions 0, ICMPV4]), (UNROLLED PT_PROTO_PPPOE, [ETHERNET, VLAN, VLAN, IPV4_noptions 0, ICMPV4])],
     [(UNROLLED PT_PROTO_VLAN, [ETHERNET, VLAN, IPV4_noptions 1, ICMPV4]), (UNROLLED PT_PROTO_PPPOE, [ETHERNET, VLAN, VLAN, IPV4_noptions 1, ICMPV4])],
     [(UNROLLED PT_PROTO_VLAN, [ETHERNET, VLAN, IPV4_noptions 2, ICMPV4]), (UNROLLED PT_PROTO_PPPOE, [ETHERNET, VLAN, VLAN, IPV4_noptions 2, ICMPV4])],
     [(UNROLLED PT_PROTO_VLAN, [ETHERNET, VLAN, IPV4_noptions 3, ICMPV4]), (UNROLLED PT_PROTO_PPPOE, [ETHERNET, VLAN, VLAN, IPV4_noptions 3, ICMPV4])],
     [(UNROLLED PT_PROTO_VLAN, [ETHERNET, VLAN, IPV4_noptions 4, ICMPV4]), (UNROLLED PT_PROTO_PPPOE, [ETHERNET, VLAN, VLAN, IPV4_noptions 4, ICMPV4])],
     [(UNROLLED PT_PROTO_VLAN, [ETHERNET, VLAN, IPV4_noptions 5, ICMPV4]), (UNROLLED PT_PROTO_PPPOE, [ETHERNET, VLAN, VLAN, IPV4_noptions 5, ICMPV4])],
     [(UNROLLED PT_PROTO_VLAN, [ETHERNET, VLAN, IPV4_noptions 6, ICMPV4]), (UNROLLED PT_PROTO_PPPOE, [ETHERNET, VLAN, VLAN, IPV4_noptions 6, ICMPV4])],
     [(UNROLLED PT_PROTO_VLAN, [ETHERNET, VLAN, IPV4_noptions 7, ICMPV4]), (UNROLLED PT_PROTO_PPPOE, [ETHERNET, VLAN, VLAN, IPV4_noptions 7, ICMPV4])],
     [(UNROLLED PT_PROTO_VLAN, [ETHERNET, VLAN, IPV4_noptions 8, ICMPV4]), (UNROLLED PT_PROTO_PPPOE, [ETHERNET, VLAN, VLAN, IPV4_noptions 8, ICMPV4])],
     [(UNROLLED PT_PROTO_VLAN, [ETHERNET, VLAN, IPV4_noptions 9, ICMPV4]), (UNROLLED PT_PROTO_PPPOE, [ETHERNET, VLAN, VLAN, IPV4_noptions 9, ICMPV4])],
     [(UNROLLED PT_PROTO_VLAN, [ETHERNET, VLAN, IPV4_noptions 10, ICMPV4]), (UNROLLED PT_PROTO_PPPOE, [ETHERNET, VLAN, VLAN, IPV4_noptions 10, ICMPV4])],
     [(UNROLLED PT_PROTO_VLAN, [ETHERNET, VLAN, IPV4_noptions 11, ICMPV4]), (UNROLLED PT_PROTO_PPPOE, [ETHERNET, VLAN, VLAN, IPV4_noptions 11, ICMPV4])],
     [(UNROLLED PT_PROTO_VLAN, [ETHERNET, VLAN, IPV4_noptions 12, ICMPV4]), (UNROLLED PT_PROTO_PPPOE, [ETHERNET, VLAN, VLAN, IPV4_noptions 12, ICMPV4])],
     [(UNROLLED PT_PROTO_VLAN, [ETHERNET, VLAN, IPV4_noptions 13, ICMPV4]), (UNROLLED PT_PROTO_PPPOE, [ETHERNET, VLAN, VLAN, IPV4_noptions 13, ICMPV4])],
     [(UNROLLED PT_PROTO_VLAN, [ETHERNET, VLAN, IPV4_noptions 14, ICMPV4]), (UNROLLED PT_PROTO_PPPOE, [ETHERNET, VLAN, VLAN, IPV4_noptions 14, ICMPV4])],
     [(UNROLLED PT_PROTO_VLAN, [ETHERNET, VLAN, IPV4_noptions 15, ICMPV4]), (UNROLLED PT_PROTO_PPPOE, [ETHERNET, VLAN, VLAN, IPV4_noptions 15, ICMPV4])],
     [(UNROLLED PT_PROTO_VLAN, [IEEE8023, VLAN, IPV4_noptions 0, ICMPV4]), (UNROLLED PT_PROTO_PPPOE, [IEEE8023, VLAN, VLAN, IPV4_noptions 0, ICMPV4])],
     [(UNROLLED PT_PROTO_VLAN, [IEEE8023, VLAN, IPV4_noptions 1, ICMPV4]), (UNROLLED PT_PROTO_PPPOE, [IEEE8023, VLAN, VLAN, IPV4_noptions 1, ICMPV4])],
     [(UNROLLED PT_PROTO_VLAN, [IEEE8023, VLAN, IPV4_noptions 2, ICMPV4]), (UNROLLED PT_PROTO_PPPOE, [IEEE8023, VLAN, VLAN, IPV4_noptions 2, ICMPV4])],
     [(UNROLLED PT_PROTO_VLAN, [IEEE8023, VLAN, IPV4_noptions 3, ICMPV4]), (UNROLLED PT_PROTO_PPPOE, [IEEE8023, VLAN, VLAN, IPV4_noptions 3, ICMPV4])],
     [(UNROLLED PT_PROTO_VLAN, [IEEE8023, VLAN, IPV4_noptions 4, ICMPV4]), (UNROLLED PT_PROTO_PPPOE, [IEEE8023, VLAN, VLAN, IPV4_noptions 4, ICMPV4])],
     [(UNROLLED PT_PROTO_VLAN, [IEEE8023, VLAN, IPV4_noptions 5, ICMPV4]), (UNROLLED PT_PROTO_PPPOE, [IEEE8023, VLAN, VLAN, IPV4_noptions 5, ICMPV4])],
     [(UNROLLED PT_PROTO_VLAN, [IEEE8023, VLAN, IPV4_noptions 6, ICMPV4]), (UNROLLED PT_PROTO_PPPOE, [IEEE8023, VLAN, VLAN, IPV4_noptions 6, ICMPV4])],
     [(UNROLLED PT_PROTO_VLAN, [IEEE8023, VLAN, IPV4_noptions 7, ICMPV4]), (UNROLLED PT_PROTO_PPPOE, [IEEE8023, VLAN, VLAN, IPV4_noptions 7, ICMPV4])],
     [(UNROLLED PT_PROTO_VLAN, [IEEE8023, VLAN, IPV4_noptions 8, ICMPV4]), (UNROLLED PT_PROTO_PPPOE, [IEEE8023, VLAN, VLAN, IPV4_noptions 8, ICMPV4])],
     [(UNROLLED PT_PROTO_VLAN, [IEEE8023, VLAN, IPV4_noptions 9, ICMPV4]), (UNROLLED PT_PROTO_PPPOE, [IEEE8023, VLAN, VLAN, IPV4_noptions 9, ICMPV4])],
     [(UNROLLED PT_PROTO_VLAN, [IEEE8023, VLAN, IPV4_noptions 10, ICMPV4]), (UNROLLED PT_PROTO_PPPOE, [IEEE8023, VLAN, VLAN, IPV4_noptions 10, ICMPV4])],
     [(UNROLLED PT_PROTO_VLAN, [IEEE8023, VLAN, IPV4_noptions 11, ICMPV4]), (UNROLLED PT_PROTO_PPPOE, [IEEE8023, VLAN, VLAN, IPV4_noptions 11, ICMPV4])],
     [(UNROLLED PT_PROTO_VLAN, [IEEE8023, VLAN, IPV4_noptions 12, ICMPV4]), (UNROLLED PT_PROTO_PPPOE, [IEEE8023, VLAN, VLAN, IPV4_noptions 12, ICMPV4])],
     [(UNROLLED PT_PROTO_VLAN, [IEEE8023, VLAN, IPV4_noptions 13, ICMPV4]), (UNROLLED PT_PROTO_PPPOE, [IEEE8023, VLAN, VLAN, IPV4_noptions 13, ICMPV4])],
     [(UNROLLED PT_PROTO_VLAN, [IEEE8023, VLAN, IPV4_noptions 14, ICMPV4]), (UNROLLED PT_PROTO_PPPOE, [IEEE8023, VLAN, VLAN, IPV4_noptions 14, ICMPV4])],
     [(UNROLLED PT_PROTO_VLAN, [IEEE8023, VLAN, IPV4_noptions 15, ICMPV4]), (UNROLLED PT_PROTO_PPPOE, [IEEE8023, VLAN, VLAN, IPV4_noptions 15, ICMPV4])],
     [(UNROLLED PT_PROTO_PPPOE, [ETHERNET, IPV4_noptions 0, TCP])],
     [(UNROLLED PT_PROTO_PPPOE, [ETHERNET, IPV4_noptions 1, TCP])],
     [(UNROLLED PT_PROTO_PPPOE, [ETHERNET, IPV4_noptions 2, TCP])],
     [(UNROLLED PT_PROTO_PPPOE, [ETHERNET, IPV4_noptions 3, TCP])],
     [(UNROLLED PT_PROTO_PPPOE, [ETHERNET, IPV4_noptions 4, TCP])],
     [(UNROLLED PT_PROTO_PPPOE, [ETHERNET, IPV4_noptions 5, TCP])],
     [(UNROLLED PT_PROTO_PPPOE, [ETHERNET, IPV4_noptions 6, TCP])],
     [(UNROLLED PT_PROTO_PPPOE, [ETHERNET, IPV4_noptions 7, TCP])],
     [(UNROLLED PT_PROTO_PPPOE, [ETHERNET, IPV4_noptions 8, TCP])],
     [(UNROLLED PT_PROTO_PPPOE, [ETHERNET, IPV4_noptions 9, TCP])],
     [(UNROLLED PT_PROTO_PPPOE, [ETHERNET, IPV4_noptions 10, TCP])],
     [(UNROLLED PT_PROTO_PPPOE, [ETHERNET, IPV4_noptions 11, TCP])],
     [(UNROLLED PT_PROTO_PPPOE, [ETHERNET, IPV4_noptions 12, TCP])],
     [(UNROLLED PT_PROTO_PPPOE, [ETHERNET, IPV4_noptions 13, TCP])],
     [(UNROLLED PT_PROTO_PPPOE, [ETHERNET, IPV4_noptions 14, TCP])],
     [(UNROLLED PT_PROTO_PPPOE, [ETHERNET, IPV4_noptions 15, TCP])],
     [(UNROLLED PT_PROTO_ISID, [ETHERNET, IPV4_noptions 0, TCP])],
     [(UNROLLED PT_PROTO_ISID, [ETHERNET, IPV4_noptions 1, TCP])],
     [(UNROLLED PT_PROTO_ISID, [ETHERNET, IPV4_noptions 2, TCP])],
     [(UNROLLED PT_PROTO_ISID, [ETHERNET, IPV4_noptions 3, TCP])],
     [(UNROLLED PT_PROTO_ISID, [ETHERNET, IPV4_noptions 4, TCP])],
     [(UNROLLED PT_PROTO_ISID, [ETHERNET, IPV4_noptions 5, TCP])],
     [(UNROLLED PT_PROTO_ISID, [ETHERNET, IPV4_noptions 6, TCP])],
     [(UNROLLED PT_PROTO_ISID, [ETHERNET, IPV4_noptions 7, TCP])],
     [(UNROLLED PT_PROTO_ISID, [ETHERNET, IPV4_noptions 8, TCP])],
     [(UNROLLED PT_PROTO_ISID, [ETHERNET, IPV4_noptions 9, TCP])],
     [(UNROLLED PT_PROTO_ISID, [ETHERNET, IPV4_noptions 10, TCP])],
     [(UNROLLED PT_PROTO_ISID, [ETHERNET, IPV4_noptions 11, TCP])],
     [(UNROLLED PT_PROTO_ISID, [ETHERNET, IPV4_noptions 12, TCP])],
     [(UNROLLED PT_PROTO_ISID, [ETHERNET, IPV4_noptions 13, TCP])],
     [(UNROLLED PT_PROTO_ISID, [ETHERNET, IPV4_noptions 14, TCP])],
     [(UNROLLED PT_PROTO_ISID, [ETHERNET, IPV4_noptions 15, TCP])],
     [],
     [],
     [],
     [],
     [],
     [],
     [],
     [],
     [],
     [],
     [],
     [],
     [],
     [],
     [],
     [],
     [(UNROLLED PT_PROTO_PPPOE, [IEEE8023, IPV4_noptions 0, TCP])],
     [(UNROLLED PT_PROTO_PPPOE, [IEEE8023, IPV4_noptions 1, TCP])],
     [(UNROLLED PT_PROTO_PPPOE, [IEEE8023, IPV4_noptions 2, TCP])],
     [(UNROLLED PT_PROTO_PPPOE, [IEEE8023, IPV4_noptions 3, TCP])],
     [(UNROLLED PT_PROTO_PPPOE, [IEEE8023, IPV4_noptions 4, TCP])],
     [(UNROLLED PT_PROTO_PPPOE, [IEEE8023, IPV4_noptions 5, TCP])],
     [(UNROLLED PT_PROTO_PPPOE, [IEEE8023, IPV4_noptions 6, TCP])],
     [(UNROLLED PT_PROTO_PPPOE, [IEEE8023, IPV4_noptions 7, TCP])]]"

definition pop_table_5 :: "(unrolled \<times> pkt_type) list list" where
  "pop_table_5 =
    [[(UNROLLED PT_PROTO_PPPOE, [IEEE8023, IPV4_noptions 8, TCP])],
     [(UNROLLED PT_PROTO_PPPOE, [IEEE8023, IPV4_noptions 9, TCP])],
     [(UNROLLED PT_PROTO_PPPOE, [IEEE8023, IPV4_noptions 10, TCP])],
     [(UNROLLED PT_PROTO_PPPOE, [IEEE8023, IPV4_noptions 11, TCP])],
     [(UNROLLED PT_PROTO_PPPOE, [IEEE8023, IPV4_noptions 12, TCP])],
     [(UNROLLED PT_PROTO_PPPOE, [IEEE8023, IPV4_noptions 13, TCP])],
     [(UNROLLED PT_PROTO_PPPOE, [IEEE8023, IPV4_noptions 14, TCP])],
     [(UNROLLED PT_PROTO_PPPOE, [IEEE8023, IPV4_noptions 15, TCP])],
     [(UNROLLED PT_PROTO_VLAN, [ETHERNET, IPV4_noptions 0, TCP]), (UNROLLED PT_PROTO_PPPOE, [ETHERNET, VLAN, IPV4_noptions 0, TCP])],
     [(UNROLLED PT_PROTO_VLAN, [ETHERNET, IPV4_noptions 1, TCP]), (UNROLLED PT_PROTO_PPPOE, [ETHERNET, VLAN, IPV4_noptions 1, TCP])],
     [(UNROLLED PT_PROTO_VLAN, [ETHERNET, IPV4_noptions 2, TCP]), (UNROLLED PT_PROTO_PPPOE, [ETHERNET, VLAN, IPV4_noptions 2, TCP])],
     [(UNROLLED PT_PROTO_VLAN, [ETHERNET, IPV4_noptions 3, TCP]), (UNROLLED PT_PROTO_PPPOE, [ETHERNET, VLAN, IPV4_noptions 3, TCP])],
     [(UNROLLED PT_PROTO_VLAN, [ETHERNET, IPV4_noptions 4, TCP]), (UNROLLED PT_PROTO_PPPOE, [ETHERNET, VLAN, IPV4_noptions 4, TCP])],
     [(UNROLLED PT_PROTO_VLAN, [ETHERNET, IPV4_noptions 5, TCP]), (UNROLLED PT_PROTO_PPPOE, [ETHERNET, VLAN, IPV4_noptions 5, TCP])],
     [(UNROLLED PT_PROTO_VLAN, [ETHERNET, IPV4_noptions 6, TCP]), (UNROLLED PT_PROTO_PPPOE, [ETHERNET, VLAN, IPV4_noptions 6, TCP])],
     [(UNROLLED PT_PROTO_VLAN, [ETHERNET, IPV4_noptions 7, TCP]), (UNROLLED PT_PROTO_PPPOE, [ETHERNET, VLAN, IPV4_noptions 7, TCP])],
     [(UNROLLED PT_PROTO_VLAN, [ETHERNET, IPV4_noptions 8, TCP]), (UNROLLED PT_PROTO_PPPOE, [ETHERNET, VLAN, IPV4_noptions 8, TCP])],
     [(UNROLLED PT_PROTO_VLAN, [ETHERNET, IPV4_noptions 9, TCP]), (UNROLLED PT_PROTO_PPPOE, [ETHERNET, VLAN, IPV4_noptions 9, TCP])],
     [(UNROLLED PT_PROTO_VLAN, [ETHERNET, IPV4_noptions 10, TCP]), (UNROLLED PT_PROTO_PPPOE, [ETHERNET, VLAN, IPV4_noptions 10, TCP])],
     [(UNROLLED PT_PROTO_VLAN, [ETHERNET, IPV4_noptions 11, TCP]), (UNROLLED PT_PROTO_PPPOE, [ETHERNET, VLAN, IPV4_noptions 11, TCP])],
     [(UNROLLED PT_PROTO_VLAN, [ETHERNET, IPV4_noptions 12, TCP]), (UNROLLED PT_PROTO_PPPOE, [ETHERNET, VLAN, IPV4_noptions 12, TCP])],
     [(UNROLLED PT_PROTO_VLAN, [ETHERNET, IPV4_noptions 13, TCP]), (UNROLLED PT_PROTO_PPPOE, [ETHERNET, VLAN, IPV4_noptions 13, TCP])],
     [(UNROLLED PT_PROTO_VLAN, [ETHERNET, IPV4_noptions 14, TCP]), (UNROLLED PT_PROTO_PPPOE, [ETHERNET, VLAN, IPV4_noptions 14, TCP])],
     [(UNROLLED PT_PROTO_VLAN, [ETHERNET, IPV4_noptions 15, TCP]), (UNROLLED PT_PROTO_PPPOE, [ETHERNET, VLAN, IPV4_noptions 15, TCP])],
     [(UNROLLED PT_PROTO_VLAN, [IEEE8023, IPV4_noptions 0, TCP]), (UNROLLED PT_PROTO_PPPOE, [IEEE8023, VLAN, IPV4_noptions 0, TCP])],
     [(UNROLLED PT_PROTO_VLAN, [IEEE8023, IPV4_noptions 1, TCP]), (UNROLLED PT_PROTO_PPPOE, [IEEE8023, VLAN, IPV4_noptions 1, TCP])],
     [(UNROLLED PT_PROTO_VLAN, [IEEE8023, IPV4_noptions 2, TCP]), (UNROLLED PT_PROTO_PPPOE, [IEEE8023, VLAN, IPV4_noptions 2, TCP])],
     [(UNROLLED PT_PROTO_VLAN, [IEEE8023, IPV4_noptions 3, TCP]), (UNROLLED PT_PROTO_PPPOE, [IEEE8023, VLAN, IPV4_noptions 3, TCP])],
     [(UNROLLED PT_PROTO_VLAN, [IEEE8023, IPV4_noptions 4, TCP]), (UNROLLED PT_PROTO_PPPOE, [IEEE8023, VLAN, IPV4_noptions 4, TCP])],
     [(UNROLLED PT_PROTO_VLAN, [IEEE8023, IPV4_noptions 5, TCP]), (UNROLLED PT_PROTO_PPPOE, [IEEE8023, VLAN, IPV4_noptions 5, TCP])],
     [(UNROLLED PT_PROTO_VLAN, [IEEE8023, IPV4_noptions 6, TCP]), (UNROLLED PT_PROTO_PPPOE, [IEEE8023, VLAN, IPV4_noptions 6, TCP])],
     [(UNROLLED PT_PROTO_VLAN, [IEEE8023, IPV4_noptions 7, TCP]), (UNROLLED PT_PROTO_PPPOE, [IEEE8023, VLAN, IPV4_noptions 7, TCP])],
     [(UNROLLED PT_PROTO_VLAN, [IEEE8023, IPV4_noptions 8, TCP]), (UNROLLED PT_PROTO_PPPOE, [IEEE8023, VLAN, IPV4_noptions 8, TCP])],
     [(UNROLLED PT_PROTO_VLAN, [IEEE8023, IPV4_noptions 9, TCP]), (UNROLLED PT_PROTO_PPPOE, [IEEE8023, VLAN, IPV4_noptions 9, TCP])],
     [(UNROLLED PT_PROTO_VLAN, [IEEE8023, IPV4_noptions 10, TCP]), (UNROLLED PT_PROTO_PPPOE, [IEEE8023, VLAN, IPV4_noptions 10, TCP])],
     [(UNROLLED PT_PROTO_VLAN, [IEEE8023, IPV4_noptions 11, TCP]), (UNROLLED PT_PROTO_PPPOE, [IEEE8023, VLAN, IPV4_noptions 11, TCP])],
     [(UNROLLED PT_PROTO_VLAN, [IEEE8023, IPV4_noptions 12, TCP]), (UNROLLED PT_PROTO_PPPOE, [IEEE8023, VLAN, IPV4_noptions 12, TCP])],
     [(UNROLLED PT_PROTO_VLAN, [IEEE8023, IPV4_noptions 13, TCP]), (UNROLLED PT_PROTO_PPPOE, [IEEE8023, VLAN, IPV4_noptions 13, TCP])],
     [(UNROLLED PT_PROTO_VLAN, [IEEE8023, IPV4_noptions 14, TCP]), (UNROLLED PT_PROTO_PPPOE, [IEEE8023, VLAN, IPV4_noptions 14, TCP])],
     [(UNROLLED PT_PROTO_VLAN, [IEEE8023, IPV4_noptions 15, TCP]), (UNROLLED PT_PROTO_PPPOE, [IEEE8023, VLAN, IPV4_noptions 15, TCP])],
     [(UNROLLED PT_PROTO_VLAN, [ETHERNET, VLAN, IPV4_noptions 0, TCP]), (UNROLLED PT_PROTO_PPPOE, [ETHERNET, VLAN, VLAN, IPV4_noptions 0, TCP])],
     [(UNROLLED PT_PROTO_VLAN, [ETHERNET, VLAN, IPV4_noptions 1, TCP]), (UNROLLED PT_PROTO_PPPOE, [ETHERNET, VLAN, VLAN, IPV4_noptions 1, TCP])],
     [(UNROLLED PT_PROTO_VLAN, [ETHERNET, VLAN, IPV4_noptions 2, TCP]), (UNROLLED PT_PROTO_PPPOE, [ETHERNET, VLAN, VLAN, IPV4_noptions 2, TCP])],
     [(UNROLLED PT_PROTO_VLAN, [ETHERNET, VLAN, IPV4_noptions 3, TCP]), (UNROLLED PT_PROTO_PPPOE, [ETHERNET, VLAN, VLAN, IPV4_noptions 3, TCP])],
     [(UNROLLED PT_PROTO_VLAN, [ETHERNET, VLAN, IPV4_noptions 4, TCP]), (UNROLLED PT_PROTO_PPPOE, [ETHERNET, VLAN, VLAN, IPV4_noptions 4, TCP])],
     [(UNROLLED PT_PROTO_VLAN, [ETHERNET, VLAN, IPV4_noptions 5, TCP]), (UNROLLED PT_PROTO_PPPOE, [ETHERNET, VLAN, VLAN, IPV4_noptions 5, TCP])],
     [(UNROLLED PT_PROTO_VLAN, [ETHERNET, VLAN, IPV4_noptions 6, TCP]), (UNROLLED PT_PROTO_PPPOE, [ETHERNET, VLAN, VLAN, IPV4_noptions 6, TCP])],
     [(UNROLLED PT_PROTO_VLAN, [ETHERNET, VLAN, IPV4_noptions 7, TCP]), (UNROLLED PT_PROTO_PPPOE, [ETHERNET, VLAN, VLAN, IPV4_noptions 7, TCP])],
     [(UNROLLED PT_PROTO_VLAN, [ETHERNET, VLAN, IPV4_noptions 8, TCP]), (UNROLLED PT_PROTO_PPPOE, [ETHERNET, VLAN, VLAN, IPV4_noptions 8, TCP])],
     [(UNROLLED PT_PROTO_VLAN, [ETHERNET, VLAN, IPV4_noptions 9, TCP]), (UNROLLED PT_PROTO_PPPOE, [ETHERNET, VLAN, VLAN, IPV4_noptions 9, TCP])],
     [(UNROLLED PT_PROTO_VLAN, [ETHERNET, VLAN, IPV4_noptions 10, TCP]), (UNROLLED PT_PROTO_PPPOE, [ETHERNET, VLAN, VLAN, IPV4_noptions 10, TCP])],
     [(UNROLLED PT_PROTO_VLAN, [ETHERNET, VLAN, IPV4_noptions 11, TCP]), (UNROLLED PT_PROTO_PPPOE, [ETHERNET, VLAN, VLAN, IPV4_noptions 11, TCP])],
     [(UNROLLED PT_PROTO_VLAN, [ETHERNET, VLAN, IPV4_noptions 12, TCP]), (UNROLLED PT_PROTO_PPPOE, [ETHERNET, VLAN, VLAN, IPV4_noptions 12, TCP])],
     [(UNROLLED PT_PROTO_VLAN, [ETHERNET, VLAN, IPV4_noptions 13, TCP]), (UNROLLED PT_PROTO_PPPOE, [ETHERNET, VLAN, VLAN, IPV4_noptions 13, TCP])],
     [(UNROLLED PT_PROTO_VLAN, [ETHERNET, VLAN, IPV4_noptions 14, TCP]), (UNROLLED PT_PROTO_PPPOE, [ETHERNET, VLAN, VLAN, IPV4_noptions 14, TCP])],
     [(UNROLLED PT_PROTO_VLAN, [ETHERNET, VLAN, IPV4_noptions 15, TCP]), (UNROLLED PT_PROTO_PPPOE, [ETHERNET, VLAN, VLAN, IPV4_noptions 15, TCP])],
     [(UNROLLED PT_PROTO_VLAN, [IEEE8023, VLAN, IPV4_noptions 0, TCP]), (UNROLLED PT_PROTO_PPPOE, [IEEE8023, VLAN, VLAN, IPV4_noptions 0, TCP])],
     [(UNROLLED PT_PROTO_VLAN, [IEEE8023, VLAN, IPV4_noptions 1, TCP]), (UNROLLED PT_PROTO_PPPOE, [IEEE8023, VLAN, VLAN, IPV4_noptions 1, TCP])],
     [(UNROLLED PT_PROTO_VLAN, [IEEE8023, VLAN, IPV4_noptions 2, TCP]), (UNROLLED PT_PROTO_PPPOE, [IEEE8023, VLAN, VLAN, IPV4_noptions 2, TCP])],
     [(UNROLLED PT_PROTO_VLAN, [IEEE8023, VLAN, IPV4_noptions 3, TCP]), (UNROLLED PT_PROTO_PPPOE, [IEEE8023, VLAN, VLAN, IPV4_noptions 3, TCP])],
     [(UNROLLED PT_PROTO_VLAN, [IEEE8023, VLAN, IPV4_noptions 4, TCP]), (UNROLLED PT_PROTO_PPPOE, [IEEE8023, VLAN, VLAN, IPV4_noptions 4, TCP])],
     [(UNROLLED PT_PROTO_VLAN, [IEEE8023, VLAN, IPV4_noptions 5, TCP]), (UNROLLED PT_PROTO_PPPOE, [IEEE8023, VLAN, VLAN, IPV4_noptions 5, TCP])],
     [(UNROLLED PT_PROTO_VLAN, [IEEE8023, VLAN, IPV4_noptions 6, TCP]), (UNROLLED PT_PROTO_PPPOE, [IEEE8023, VLAN, VLAN, IPV4_noptions 6, TCP])],
     [(UNROLLED PT_PROTO_VLAN, [IEEE8023, VLAN, IPV4_noptions 7, TCP]), (UNROLLED PT_PROTO_PPPOE, [IEEE8023, VLAN, VLAN, IPV4_noptions 7, TCP])],
     [(UNROLLED PT_PROTO_VLAN, [IEEE8023, VLAN, IPV4_noptions 8, TCP]), (UNROLLED PT_PROTO_PPPOE, [IEEE8023, VLAN, VLAN, IPV4_noptions 8, TCP])],
     [(UNROLLED PT_PROTO_VLAN, [IEEE8023, VLAN, IPV4_noptions 9, TCP]), (UNROLLED PT_PROTO_PPPOE, [IEEE8023, VLAN, VLAN, IPV4_noptions 9, TCP])],
     [(UNROLLED PT_PROTO_VLAN, [IEEE8023, VLAN, IPV4_noptions 10, TCP]), (UNROLLED PT_PROTO_PPPOE, [IEEE8023, VLAN, VLAN, IPV4_noptions 10, TCP])],
     [(UNROLLED PT_PROTO_VLAN, [IEEE8023, VLAN, IPV4_noptions 11, TCP]), (UNROLLED PT_PROTO_PPPOE, [IEEE8023, VLAN, VLAN, IPV4_noptions 11, TCP])],
     [(UNROLLED PT_PROTO_VLAN, [IEEE8023, VLAN, IPV4_noptions 12, TCP]), (UNROLLED PT_PROTO_PPPOE, [IEEE8023, VLAN, VLAN, IPV4_noptions 12, TCP])],
     [(UNROLLED PT_PROTO_VLAN, [IEEE8023, VLAN, IPV4_noptions 13, TCP]), (UNROLLED PT_PROTO_PPPOE, [IEEE8023, VLAN, VLAN, IPV4_noptions 13, TCP])],
     [(UNROLLED PT_PROTO_VLAN, [IEEE8023, VLAN, IPV4_noptions 14, TCP]), (UNROLLED PT_PROTO_PPPOE, [IEEE8023, VLAN, VLAN, IPV4_noptions 14, TCP])],
     [(UNROLLED PT_PROTO_VLAN, [IEEE8023, VLAN, IPV4_noptions 15, TCP]), (UNROLLED PT_PROTO_PPPOE, [IEEE8023, VLAN, VLAN, IPV4_noptions 15, TCP])],
     [(UNROLLED PT_PROTO_PPPOE, [ETHERNET, IPV4_noptions 0, UDP])],
     [(UNROLLED PT_PROTO_PPPOE, [ETHERNET, IPV4_noptions 1, UDP])],
     [(UNROLLED PT_PROTO_PPPOE, [ETHERNET, IPV4_noptions 2, UDP])],
     [(UNROLLED PT_PROTO_PPPOE, [ETHERNET, IPV4_noptions 3, UDP])],
     [(UNROLLED PT_PROTO_PPPOE, [ETHERNET, IPV4_noptions 4, UDP])],
     [(UNROLLED PT_PROTO_PPPOE, [ETHERNET, IPV4_noptions 5, UDP])],
     [(UNROLLED PT_PROTO_PPPOE, [ETHERNET, IPV4_noptions 6, UDP])],
     [(UNROLLED PT_PROTO_PPPOE, [ETHERNET, IPV4_noptions 7, UDP])],
     [(UNROLLED PT_PROTO_PPPOE, [ETHERNET, IPV4_noptions 8, UDP])],
     [(UNROLLED PT_PROTO_PPPOE, [ETHERNET, IPV4_noptions 9, UDP])],
     [(UNROLLED PT_PROTO_PPPOE, [ETHERNET, IPV4_noptions 10, UDP])],
     [(UNROLLED PT_PROTO_PPPOE, [ETHERNET, IPV4_noptions 11, UDP])],
     [(UNROLLED PT_PROTO_PPPOE, [ETHERNET, IPV4_noptions 12, UDP])],
     [(UNROLLED PT_PROTO_PPPOE, [ETHERNET, IPV4_noptions 13, UDP])],
     [(UNROLLED PT_PROTO_PPPOE, [ETHERNET, IPV4_noptions 14, UDP])],
     [(UNROLLED PT_PROTO_PPPOE, [ETHERNET, IPV4_noptions 15, UDP])],
     [(UNROLLED PT_PROTO_ISID, [ETHERNET, IPV4_noptions 0, UDP])],
     [(UNROLLED PT_PROTO_ISID, [ETHERNET, IPV4_noptions 1, UDP])],
     [(UNROLLED PT_PROTO_ISID, [ETHERNET, IPV4_noptions 2, UDP])],
     [(UNROLLED PT_PROTO_ISID, [ETHERNET, IPV4_noptions 3, UDP])],
     [(UNROLLED PT_PROTO_ISID, [ETHERNET, IPV4_noptions 4, UDP])],
     [(UNROLLED PT_PROTO_ISID, [ETHERNET, IPV4_noptions 5, UDP])],
     [(UNROLLED PT_PROTO_ISID, [ETHERNET, IPV4_noptions 6, UDP])],
     [(UNROLLED PT_PROTO_ISID, [ETHERNET, IPV4_noptions 7, UDP])],
     [(UNROLLED PT_PROTO_ISID, [ETHERNET, IPV4_noptions 8, UDP])],
     [(UNROLLED PT_PROTO_ISID, [ETHERNET, IPV4_noptions 9, UDP])],
     [(UNROLLED PT_PROTO_ISID, [ETHERNET, IPV4_noptions 10, UDP])],
     [(UNROLLED PT_PROTO_ISID, [ETHERNET, IPV4_noptions 11, UDP])],
     [(UNROLLED PT_PROTO_ISID, [ETHERNET, IPV4_noptions 12, UDP])],
     [(UNROLLED PT_PROTO_ISID, [ETHERNET, IPV4_noptions 13, UDP])],
     [(UNROLLED PT_PROTO_ISID, [ETHERNET, IPV4_noptions 14, UDP])],
     [(UNROLLED PT_PROTO_ISID, [ETHERNET, IPV4_noptions 15, UDP])],
     [],
     [],
     [],
     [],
     [],
     [],
     [],
     [],
     [],
     [],
     [],
     [],
     [],
     [],
     [],
     [],
     [(UNROLLED PT_PROTO_PPPOE, [IEEE8023, IPV4_noptions 0, UDP])],
     [(UNROLLED PT_PROTO_PPPOE, [IEEE8023, IPV4_noptions 1, UDP])],
     [(UNROLLED PT_PROTO_PPPOE, [IEEE8023, IPV4_noptions 2, UDP])],
     [(UNROLLED PT_PROTO_PPPOE, [IEEE8023, IPV4_noptions 3, UDP])],
     [(UNROLLED PT_PROTO_PPPOE, [IEEE8023, IPV4_noptions 4, UDP])],
     [(UNROLLED PT_PROTO_PPPOE, [IEEE8023, IPV4_noptions 5, UDP])],
     [(UNROLLED PT_PROTO_PPPOE, [IEEE8023, IPV4_noptions 6, UDP])],
     [(UNROLLED PT_PROTO_PPPOE, [IEEE8023, IPV4_noptions 7, UDP])],
     [(UNROLLED PT_PROTO_PPPOE, [IEEE8023, IPV4_noptions 8, UDP])],
     [(UNROLLED PT_PROTO_PPPOE, [IEEE8023, IPV4_noptions 9, UDP])],
     [(UNROLLED PT_PROTO_PPPOE, [IEEE8023, IPV4_noptions 10, UDP])],
     [(UNROLLED PT_PROTO_PPPOE, [IEEE8023, IPV4_noptions 11, UDP])],
     [(UNROLLED PT_PROTO_PPPOE, [IEEE8023, IPV4_noptions 12, UDP])],
     [(UNROLLED PT_PROTO_PPPOE, [IEEE8023, IPV4_noptions 13, UDP])],
     [(UNROLLED PT_PROTO_PPPOE, [IEEE8023, IPV4_noptions 14, UDP])],
     [(UNROLLED PT_PROTO_PPPOE, [IEEE8023, IPV4_noptions 15, UDP])],
     [(UNROLLED PT_PROTO_VLAN, [ETHERNET, IPV4_noptions 0, UDP]), (UNROLLED PT_PROTO_PPPOE, [ETHERNET, VLAN, IPV4_noptions 0, UDP])],
     [(UNROLLED PT_PROTO_VLAN, [ETHERNET, IPV4_noptions 1, UDP]), (UNROLLED PT_PROTO_PPPOE, [ETHERNET, VLAN, IPV4_noptions 1, UDP])],
     [(UNROLLED PT_PROTO_VLAN, [ETHERNET, IPV4_noptions 2, UDP]), (UNROLLED PT_PROTO_PPPOE, [ETHERNET, VLAN, IPV4_noptions 2, UDP])],
     [(UNROLLED PT_PROTO_VLAN, [ETHERNET, IPV4_noptions 3, UDP]), (UNROLLED PT_PROTO_PPPOE, [ETHERNET, VLAN, IPV4_noptions 3, UDP])],
     [(UNROLLED PT_PROTO_VLAN, [ETHERNET, IPV4_noptions 4, UDP]), (UNROLLED PT_PROTO_PPPOE, [ETHERNET, VLAN, IPV4_noptions 4, UDP])],
     [(UNROLLED PT_PROTO_VLAN, [ETHERNET, IPV4_noptions 5, UDP]), (UNROLLED PT_PROTO_PPPOE, [ETHERNET, VLAN, IPV4_noptions 5, UDP])],
     [(UNROLLED PT_PROTO_VLAN, [ETHERNET, IPV4_noptions 6, UDP]), (UNROLLED PT_PROTO_PPPOE, [ETHERNET, VLAN, IPV4_noptions 6, UDP])],
     [(UNROLLED PT_PROTO_VLAN, [ETHERNET, IPV4_noptions 7, UDP]), (UNROLLED PT_PROTO_PPPOE, [ETHERNET, VLAN, IPV4_noptions 7, UDP])],
     [(UNROLLED PT_PROTO_VLAN, [ETHERNET, IPV4_noptions 8, UDP]), (UNROLLED PT_PROTO_PPPOE, [ETHERNET, VLAN, IPV4_noptions 8, UDP])],
     [(UNROLLED PT_PROTO_VLAN, [ETHERNET, IPV4_noptions 9, UDP]), (UNROLLED PT_PROTO_PPPOE, [ETHERNET, VLAN, IPV4_noptions 9, UDP])],
     [(UNROLLED PT_PROTO_VLAN, [ETHERNET, IPV4_noptions 10, UDP]), (UNROLLED PT_PROTO_PPPOE, [ETHERNET, VLAN, IPV4_noptions 10, UDP])],
     [(UNROLLED PT_PROTO_VLAN, [ETHERNET, IPV4_noptions 11, UDP]), (UNROLLED PT_PROTO_PPPOE, [ETHERNET, VLAN, IPV4_noptions 11, UDP])],
     [(UNROLLED PT_PROTO_VLAN, [ETHERNET, IPV4_noptions 12, UDP]), (UNROLLED PT_PROTO_PPPOE, [ETHERNET, VLAN, IPV4_noptions 12, UDP])],
     [(UNROLLED PT_PROTO_VLAN, [ETHERNET, IPV4_noptions 13, UDP]), (UNROLLED PT_PROTO_PPPOE, [ETHERNET, VLAN, IPV4_noptions 13, UDP])]]"

definition pop_table_6 :: "(unrolled \<times> pkt_type) list list" where
  "pop_table_6 =
    [[(UNROLLED PT_PROTO_VLAN, [ETHERNET, IPV4_noptions 14, UDP]), (UNROLLED PT_PROTO_PPPOE, [ETHERNET, VLAN, IPV4_noptions 14, UDP])],
     [(UNROLLED PT_PROTO_VLAN, [ETHERNET, IPV4_noptions 15, UDP]), (UNROLLED PT_PROTO_PPPOE, [ETHERNET, VLAN, IPV4_noptions 15, UDP])],
     [(UNROLLED PT_PROTO_VLAN, [IEEE8023, IPV4_noptions 0, UDP]), (UNROLLED PT_PROTO_PPPOE, [IEEE8023, VLAN, IPV4_noptions 0, UDP])],
     [(UNROLLED PT_PROTO_VLAN, [IEEE8023, IPV4_noptions 1, UDP]), (UNROLLED PT_PROTO_PPPOE, [IEEE8023, VLAN, IPV4_noptions 1, UDP])],
     [(UNROLLED PT_PROTO_VLAN, [IEEE8023, IPV4_noptions 2, UDP]), (UNROLLED PT_PROTO_PPPOE, [IEEE8023, VLAN, IPV4_noptions 2, UDP])],
     [(UNROLLED PT_PROTO_VLAN, [IEEE8023, IPV4_noptions 3, UDP]), (UNROLLED PT_PROTO_PPPOE, [IEEE8023, VLAN, IPV4_noptions 3, UDP])],
     [(UNROLLED PT_PROTO_VLAN, [IEEE8023, IPV4_noptions 4, UDP]), (UNROLLED PT_PROTO_PPPOE, [IEEE8023, VLAN, IPV4_noptions 4, UDP])],
     [(UNROLLED PT_PROTO_VLAN, [IEEE8023, IPV4_noptions 5, UDP]), (UNROLLED PT_PROTO_PPPOE, [IEEE8023, VLAN, IPV4_noptions 5, UDP])],
     [(UNROLLED PT_PROTO_VLAN, [IEEE8023, IPV4_noptions 6, UDP]), (UNROLLED PT_PROTO_PPPOE, [IEEE8023, VLAN, IPV4_noptions 6, UDP])],
     [(UNROLLED PT_PROTO_VLAN, [IEEE8023, IPV4_noptions 7, UDP]), (UNROLLED PT_PROTO_PPPOE, [IEEE8023, VLAN, IPV4_noptions 7, UDP])],
     [(UNROLLED PT_PROTO_VLAN, [IEEE8023, IPV4_noptions 8, UDP]), (UNROLLED PT_PROTO_PPPOE, [IEEE8023, VLAN, IPV4_noptions 8, UDP])],
     [(UNROLLED PT_PROTO_VLAN, [IEEE8023, IPV4_noptions 9, UDP]), (UNROLLED PT_PROTO_PPPOE, [IEEE8023, VLAN, IPV4_noptions 9, UDP])],
     [(UNROLLED PT_PROTO_VLAN, [IEEE8023, IPV4_noptions 10, UDP]), (UNROLLED PT_PROTO_PPPOE, [IEEE8023, VLAN, IPV4_noptions 10, UDP])],
     [(UNROLLED PT_PROTO_VLAN, [IEEE8023, IPV4_noptions 11, UDP]), (UNROLLED PT_PROTO_PPPOE, [IEEE8023, VLAN, IPV4_noptions 11, UDP])],
     [(UNROLLED PT_PROTO_VLAN, [IEEE8023, IPV4_noptions 12, UDP]), (UNROLLED PT_PROTO_PPPOE, [IEEE8023, VLAN, IPV4_noptions 12, UDP])],
     [(UNROLLED PT_PROTO_VLAN, [IEEE8023, IPV4_noptions 13, UDP]), (UNROLLED PT_PROTO_PPPOE, [IEEE8023, VLAN, IPV4_noptions 13, UDP])],
     [(UNROLLED PT_PROTO_VLAN, [IEEE8023, IPV4_noptions 14, UDP]), (UNROLLED PT_PROTO_PPPOE, [IEEE8023, VLAN, IPV4_noptions 14, UDP])],
     [(UNROLLED PT_PROTO_VLAN, [IEEE8023, IPV4_noptions 15, UDP]), (UNROLLED PT_PROTO_PPPOE, [IEEE8023, VLAN, IPV4_noptions 15, UDP])],
     [(UNROLLED PT_PROTO_VLAN, [ETHERNET, VLAN, IPV4_noptions 0, UDP]), (UNROLLED PT_PROTO_PPPOE, [ETHERNET, VLAN, VLAN, IPV4_noptions 0, UDP])],
     [(UNROLLED PT_PROTO_VLAN, [ETHERNET, VLAN, IPV4_noptions 1, UDP]), (UNROLLED PT_PROTO_PPPOE, [ETHERNET, VLAN, VLAN, IPV4_noptions 1, UDP])],
     [(UNROLLED PT_PROTO_VLAN, [ETHERNET, VLAN, IPV4_noptions 2, UDP]), (UNROLLED PT_PROTO_PPPOE, [ETHERNET, VLAN, VLAN, IPV4_noptions 2, UDP])],
     [(UNROLLED PT_PROTO_VLAN, [ETHERNET, VLAN, IPV4_noptions 3, UDP]), (UNROLLED PT_PROTO_PPPOE, [ETHERNET, VLAN, VLAN, IPV4_noptions 3, UDP])],
     [(UNROLLED PT_PROTO_VLAN, [ETHERNET, VLAN, IPV4_noptions 4, UDP]), (UNROLLED PT_PROTO_PPPOE, [ETHERNET, VLAN, VLAN, IPV4_noptions 4, UDP])],
     [(UNROLLED PT_PROTO_VLAN, [ETHERNET, VLAN, IPV4_noptions 5, UDP]), (UNROLLED PT_PROTO_PPPOE, [ETHERNET, VLAN, VLAN, IPV4_noptions 5, UDP])],
     [(UNROLLED PT_PROTO_VLAN, [ETHERNET, VLAN, IPV4_noptions 6, UDP]), (UNROLLED PT_PROTO_PPPOE, [ETHERNET, VLAN, VLAN, IPV4_noptions 6, UDP])],
     [(UNROLLED PT_PROTO_VLAN, [ETHERNET, VLAN, IPV4_noptions 7, UDP]), (UNROLLED PT_PROTO_PPPOE, [ETHERNET, VLAN, VLAN, IPV4_noptions 7, UDP])],
     [(UNROLLED PT_PROTO_VLAN, [ETHERNET, VLAN, IPV4_noptions 8, UDP]), (UNROLLED PT_PROTO_PPPOE, [ETHERNET, VLAN, VLAN, IPV4_noptions 8, UDP])],
     [(UNROLLED PT_PROTO_VLAN, [ETHERNET, VLAN, IPV4_noptions 9, UDP]), (UNROLLED PT_PROTO_PPPOE, [ETHERNET, VLAN, VLAN, IPV4_noptions 9, UDP])],
     [(UNROLLED PT_PROTO_VLAN, [ETHERNET, VLAN, IPV4_noptions 10, UDP]), (UNROLLED PT_PROTO_PPPOE, [ETHERNET, VLAN, VLAN, IPV4_noptions 10, UDP])],
     [(UNROLLED PT_PROTO_VLAN, [ETHERNET, VLAN, IPV4_noptions 11, UDP]), (UNROLLED PT_PROTO_PPPOE, [ETHERNET, VLAN, VLAN, IPV4_noptions 11, UDP])],
     [(UNROLLED PT_PROTO_VLAN, [ETHERNET, VLAN, IPV4_noptions 12, UDP]), (UNROLLED PT_PROTO_PPPOE, [ETHERNET, VLAN, VLAN, IPV4_noptions 12, UDP])],
     [(UNROLLED PT_PROTO_VLAN, [ETHERNET, VLAN, IPV4_noptions 13, UDP]), (UNROLLED PT_PROTO_PPPOE, [ETHERNET, VLAN, VLAN, IPV4_noptions 13, UDP])],
     [(UNROLLED PT_PROTO_VLAN, [ETHERNET, VLAN, IPV4_noptions 14, UDP]), (UNROLLED PT_PROTO_PPPOE, [ETHERNET, VLAN, VLAN, IPV4_noptions 14, UDP])],
     [(UNROLLED PT_PROTO_VLAN, [ETHERNET, VLAN, IPV4_noptions 15, UDP]), (UNROLLED PT_PROTO_PPPOE, [ETHERNET, VLAN, VLAN, IPV4_noptions 15, UDP])],
     [(UNROLLED PT_PROTO_VLAN, [IEEE8023, VLAN, IPV4_noptions 0, UDP]), (UNROLLED PT_PROTO_PPPOE, [IEEE8023, VLAN, VLAN, IPV4_noptions 0, UDP])],
     [(UNROLLED PT_PROTO_VLAN, [IEEE8023, VLAN, IPV4_noptions 1, UDP]), (UNROLLED PT_PROTO_PPPOE, [IEEE8023, VLAN, VLAN, IPV4_noptions 1, UDP])],
     [(UNROLLED PT_PROTO_VLAN, [IEEE8023, VLAN, IPV4_noptions 2, UDP]), (UNROLLED PT_PROTO_PPPOE, [IEEE8023, VLAN, VLAN, IPV4_noptions 2, UDP])],
     [(UNROLLED PT_PROTO_VLAN, [IEEE8023, VLAN, IPV4_noptions 3, UDP]), (UNROLLED PT_PROTO_PPPOE, [IEEE8023, VLAN, VLAN, IPV4_noptions 3, UDP])],
     [(UNROLLED PT_PROTO_VLAN, [IEEE8023, VLAN, IPV4_noptions 4, UDP]), (UNROLLED PT_PROTO_PPPOE, [IEEE8023, VLAN, VLAN, IPV4_noptions 4, UDP])],
     [(UNROLLED PT_PROTO_VLAN, [IEEE8023, VLAN, IPV4_noptions 5, UDP]), (UNROLLED PT_PROTO_PPPOE, [IEEE8023, VLAN, VLAN, IPV4_noptions 5, UDP])],
     [(UNROLLED PT_PROTO_VLAN, [IEEE8023, VLAN, IPV4_noptions 6, UDP]), (UNROLLED PT_PROTO_PPPOE, [IEEE8023, VLAN, VLAN, IPV4_noptions 6, UDP])],
     [(UNROLLED PT_PROTO_VLAN, [IEEE8023, VLAN, IPV4_noptions 7, UDP]), (UNROLLED PT_PROTO_PPPOE, [IEEE8023, VLAN, VLAN, IPV4_noptions 7, UDP])],
     [(UNROLLED PT_PROTO_VLAN, [IEEE8023, VLAN, IPV4_noptions 8, UDP]), (UNROLLED PT_PROTO_PPPOE, [IEEE8023, VLAN, VLAN, IPV4_noptions 8, UDP])],
     [(UNROLLED PT_PROTO_VLAN, [IEEE8023, VLAN, IPV4_noptions 9, UDP]), (UNROLLED PT_PROTO_PPPOE, [IEEE8023, VLAN, VLAN, IPV4_noptions 9, UDP])],
     [(UNROLLED PT_PROTO_VLAN, [IEEE8023, VLAN, IPV4_noptions 10, UDP]), (UNROLLED PT_PROTO_PPPOE, [IEEE8023, VLAN, VLAN, IPV4_noptions 10, UDP])],
     [(UNROLLED PT_PROTO_VLAN, [IEEE8023, VLAN, IPV4_noptions 11, UDP]), (UNROLLED PT_PROTO_PPPOE, [IEEE8023, VLAN, VLAN, IPV4_noptions 11, UDP])],
     [(UNROLLED PT_PROTO_VLAN, [IEEE8023, VLAN, IPV4_noptions 12, UDP]), (UNROLLED PT_PROTO_PPPOE, [IEEE8023, VLAN, VLAN, IPV4_noptions 12, UDP])],
     [(UNROLLED PT_PROTO_VLAN, [IEEE8023, VLAN, IPV4_noptions 13, UDP]), (UNROLLED PT_PROTO_PPPOE, [IEEE8023, VLAN, VLAN, IPV4_noptions 13, UDP])],
     [(UNROLLED PT_PROTO_VLAN, [IEEE8023, VLAN, IPV4_noptions 14, UDP]), (UNROLLED PT_PROTO_PPPOE, [IEEE8023, VLAN, VLAN, IPV4_noptions 14, UDP])],
     [(UNROLLED PT_PROTO_VLAN, [IEEE8023, VLAN, IPV4_noptions 15, UDP]), (UNROLLED PT_PROTO_PPPOE, [IEEE8023, VLAN, VLAN, IPV4_noptions 15, UDP])],
     [(UNROLLED PT_PROTO_PPPOE, [ETHERNET, IPV4_noptions 0, UDP, GTPU4]), (UNROLLED PT_PROTO_GTPU4, [ETHERNET])],
     [(UNROLLED PT_PROTO_PPPOE, [ETHERNET, IPV4_noptions 1, UDP, GTPU4]), (UNROLLED PT_PROTO_GTPU4, [ETHERNET])],
     [(UNROLLED PT_PROTO_PPPOE, [ETHERNET, IPV4_noptions 2, UDP, GTPU4]), (UNROLLED PT_PROTO_GTPU4, [ETHERNET])],
     [(UNROLLED PT_PROTO_PPPOE, [ETHERNET, IPV4_noptions 3, UDP, GTPU4]), (UNROLLED PT_PROTO_GTPU4, [ETHERNET])],
     [(UNROLLED PT_PROTO_PPPOE, [ETHERNET, IPV4_noptions 4, UDP, GTPU4]), (UNROLLED PT_PROTO_GTPU4, [ETHERNET])],
     [(UNROLLED PT_PROTO_PPPOE, [ETHERNET, IPV4_noptions 5, UDP, GTPU4]), (UNROLLED PT_PROTO_GTPU4, [ETHERNET])],
     [(UNROLLED PT_PROTO_PPPOE, [ETHERNET, IPV4_noptions 6, UDP, GTPU4]), (UNROLLED PT_PROTO_GTPU4, [ETHERNET])],
     [(UNROLLED PT_PROTO_PPPOE, [ETHERNET, IPV4_noptions 7, UDP, GTPU4]), (UNROLLED PT_PROTO_GTPU4, [ETHERNET])],
     [(UNROLLED PT_PROTO_PPPOE, [ETHERNET, IPV4_noptions 8, UDP, GTPU4]), (UNROLLED PT_PROTO_GTPU4, [ETHERNET])],
     [(UNROLLED PT_PROTO_PPPOE, [ETHERNET, IPV4_noptions 9, UDP, GTPU4]), (UNROLLED PT_PROTO_GTPU4, [ETHERNET])],
     [(UNROLLED PT_PROTO_PPPOE, [ETHERNET, IPV4_noptions 10, UDP, GTPU4]), (UNROLLED PT_PROTO_GTPU4, [ETHERNET])],
     [(UNROLLED PT_PROTO_PPPOE, [ETHERNET, IPV4_noptions 11, UDP, GTPU4]), (UNROLLED PT_PROTO_GTPU4, [ETHERNET])],
     [(UNROLLED PT_PROTO_PPPOE, [ETHERNET, IPV4_noptions 12, UDP, GTPU4]), (UNROLLED PT_PROTO_GTPU4, [ETHERNET])],
     [(UNROLLED PT_PROTO_PPPOE, [ETHERNET, IPV4_noptions 13, UDP, GTPU4]), (UNROLLED PT_PROTO_GTPU4, [ETHERNET])],
     [(UNROLLED PT_PROTO_PPPOE, [ETHERNET, IPV4_noptions 14, UDP, GTPU4]), (UNROLLED PT_PROTO_GTPU4, [ETHERNET])],
     [(UNROLLED PT_PROTO_PPPOE, [ETHERNET, IPV4_noptions 15, UDP, GTPU4]), (UNROLLED PT_PROTO_GTPU4, [ETHERNET])],
     [(UNROLLED PT_PROTO_ISID, [ETHERNET, IPV4_noptions 0, UDP, GTPU4])],
     [(UNROLLED PT_PROTO_ISID, [ETHERNET, IPV4_noptions 1, UDP, GTPU4])],
     [(UNROLLED PT_PROTO_ISID, [ETHERNET, IPV4_noptions 2, UDP, GTPU4])],
     [(UNROLLED PT_PROTO_ISID, [ETHERNET, IPV4_noptions 3, UDP, GTPU4])],
     [(UNROLLED PT_PROTO_ISID, [ETHERNET, IPV4_noptions 4, UDP, GTPU4])],
     [(UNROLLED PT_PROTO_ISID, [ETHERNET, IPV4_noptions 5, UDP, GTPU4])],
     [(UNROLLED PT_PROTO_ISID, [ETHERNET, IPV4_noptions 6, UDP, GTPU4])],
     [(UNROLLED PT_PROTO_ISID, [ETHERNET, IPV4_noptions 7, UDP, GTPU4])],
     [(UNROLLED PT_PROTO_ISID, [ETHERNET, IPV4_noptions 8, UDP, GTPU4])],
     [(UNROLLED PT_PROTO_ISID, [ETHERNET, IPV4_noptions 9, UDP, GTPU4])],
     [(UNROLLED PT_PROTO_ISID, [ETHERNET, IPV4_noptions 10, UDP, GTPU4])],
     [(UNROLLED PT_PROTO_ISID, [ETHERNET, IPV4_noptions 11, UDP, GTPU4])],
     [(UNROLLED PT_PROTO_ISID, [ETHERNET, IPV4_noptions 12, UDP, GTPU4])],
     [(UNROLLED PT_PROTO_ISID, [ETHERNET, IPV4_noptions 13, UDP, GTPU4])],
     [(UNROLLED PT_PROTO_ISID, [ETHERNET, IPV4_noptions 14, UDP, GTPU4])],
     [(UNROLLED PT_PROTO_ISID, [ETHERNET, IPV4_noptions 15, UDP, GTPU4])],
     [],
     [],
     [],
     [],
     [],
     [],
     [],
     [],
     [],
     [],
     [],
     [],
     [],
     [],
     [],
     [],
     [(UNROLLED PT_PROTO_PPPOE, [IEEE8023, IPV4_noptions 0, UDP, GTPU4]), (UNROLLED PT_PROTO_GTPU4, [IEEE8023])],
     [(UNROLLED PT_PROTO_PPPOE, [IEEE8023, IPV4_noptions 1, UDP, GTPU4]), (UNROLLED PT_PROTO_GTPU4, [IEEE8023])],
     [(UNROLLED PT_PROTO_PPPOE, [IEEE8023, IPV4_noptions 2, UDP, GTPU4]), (UNROLLED PT_PROTO_GTPU4, [IEEE8023])],
     [(UNROLLED PT_PROTO_PPPOE, [IEEE8023, IPV4_noptions 3, UDP, GTPU4]), (UNROLLED PT_PROTO_GTPU4, [IEEE8023])],
     [(UNROLLED PT_PROTO_PPPOE, [IEEE8023, IPV4_noptions 4, UDP, GTPU4]), (UNROLLED PT_PROTO_GTPU4, [IEEE8023])],
     [(UNROLLED PT_PROTO_PPPOE, [IEEE8023, IPV4_noptions 5, UDP, GTPU4]), (UNROLLED PT_PROTO_GTPU4, [IEEE8023])],
     [(UNROLLED PT_PROTO_PPPOE, [IEEE8023, IPV4_noptions 6, UDP, GTPU4]), (UNROLLED PT_PROTO_GTPU4, [IEEE8023])],
     [(UNROLLED PT_PROTO_PPPOE, [IEEE8023, IPV4_noptions 7, UDP, GTPU4]), (UNROLLED PT_PROTO_GTPU4, [IEEE8023])],
     [(UNROLLED PT_PROTO_PPPOE, [IEEE8023, IPV4_noptions 8, UDP, GTPU4]), (UNROLLED PT_PROTO_GTPU4, [IEEE8023])],
     [(UNROLLED PT_PROTO_PPPOE, [IEEE8023, IPV4_noptions 9, UDP, GTPU4]), (UNROLLED PT_PROTO_GTPU4, [IEEE8023])],
     [(UNROLLED PT_PROTO_PPPOE, [IEEE8023, IPV4_noptions 10, UDP, GTPU4]), (UNROLLED PT_PROTO_GTPU4, [IEEE8023])],
     [(UNROLLED PT_PROTO_PPPOE, [IEEE8023, IPV4_noptions 11, UDP, GTPU4]), (UNROLLED PT_PROTO_GTPU4, [IEEE8023])],
     [(UNROLLED PT_PROTO_PPPOE, [IEEE8023, IPV4_noptions 12, UDP, GTPU4]), (UNROLLED PT_PROTO_GTPU4, [IEEE8023])],
     [(UNROLLED PT_PROTO_PPPOE, [IEEE8023, IPV4_noptions 13, UDP, GTPU4]), (UNROLLED PT_PROTO_GTPU4, [IEEE8023])],
     [(UNROLLED PT_PROTO_PPPOE, [IEEE8023, IPV4_noptions 14, UDP, GTPU4]), (UNROLLED PT_PROTO_GTPU4, [IEEE8023])],
     [(UNROLLED PT_PROTO_PPPOE, [IEEE8023, IPV4_noptions 15, UDP, GTPU4]), (UNROLLED PT_PROTO_GTPU4, [IEEE8023])],
     [(UNROLLED PT_PROTO_VLAN, [ETHERNET, IPV4_noptions 0, UDP, GTPU4]), (UNROLLED PT_PROTO_PPPOE, [ETHERNET, VLAN, IPV4_noptions 0, UDP, GTPU4])],
     [(UNROLLED PT_PROTO_VLAN, [ETHERNET, IPV4_noptions 1, UDP, GTPU4]), (UNROLLED PT_PROTO_PPPOE, [ETHERNET, VLAN, IPV4_noptions 1, UDP, GTPU4])],
     [(UNROLLED PT_PROTO_VLAN, [ETHERNET, IPV4_noptions 2, UDP, GTPU4]), (UNROLLED PT_PROTO_PPPOE, [ETHERNET, VLAN, IPV4_noptions 2, UDP, GTPU4])],
     [(UNROLLED PT_PROTO_VLAN, [ETHERNET, IPV4_noptions 3, UDP, GTPU4]), (UNROLLED PT_PROTO_PPPOE, [ETHERNET, VLAN, IPV4_noptions 3, UDP, GTPU4])],
     [(UNROLLED PT_PROTO_VLAN, [ETHERNET, IPV4_noptions 4, UDP, GTPU4]), (UNROLLED PT_PROTO_PPPOE, [ETHERNET, VLAN, IPV4_noptions 4, UDP, GTPU4])],
     [(UNROLLED PT_PROTO_VLAN, [ETHERNET, IPV4_noptions 5, UDP, GTPU4]), (UNROLLED PT_PROTO_PPPOE, [ETHERNET, VLAN, IPV4_noptions 5, UDP, GTPU4])],
     [(UNROLLED PT_PROTO_VLAN, [ETHERNET, IPV4_noptions 6, UDP, GTPU4]), (UNROLLED PT_PROTO_PPPOE, [ETHERNET, VLAN, IPV4_noptions 6, UDP, GTPU4])],
     [(UNROLLED PT_PROTO_VLAN, [ETHERNET, IPV4_noptions 7, UDP, GTPU4]), (UNROLLED PT_PROTO_PPPOE, [ETHERNET, VLAN, IPV4_noptions 7, UDP, GTPU4])],
     [(UNROLLED PT_PROTO_VLAN, [ETHERNET, IPV4_noptions 8, UDP, GTPU4]), (UNROLLED PT_PROTO_PPPOE, [ETHERNET, VLAN, IPV4_noptions 8, UDP, GTPU4])],
     [(UNROLLED PT_PROTO_VLAN, [ETHERNET, IPV4_noptions 9, UDP, GTPU4]), (UNROLLED PT_PROTO_PPPOE, [ETHERNET, VLAN, IPV4_noptions 9, UDP, GTPU4])],
     [(UNROLLED PT_PROTO_VLAN, [ETHERNET, IPV4_noptions 10, UDP, GTPU4]), (UNROLLED PT_PROTO_PPPOE, [ETHERNET, VLAN, IPV4_noptions 10, UDP, GTPU4])],
     [(UNROLLED PT_PROTO_VLAN, [ETHERNET, IPV4_noptions 11, UDP, GTPU4]), (UNROLLED PT_PROTO_PPPOE, [ETHERNET, VLAN, IPV4_noptions 11, UDP, GTPU4])],
     [(UNROLLED PT_PROTO_VLAN, [ETHERNET, IPV4_noptions 12, UDP, GTPU4]), (UNROLLED PT_PROTO_PPPOE, [ETHERNET, VLAN, IPV4_noptions 12, UDP, GTPU4])],
     [(UNROLLED PT_PROTO_VLAN, [ETHERNET, IPV4_noptions 13, UDP, GTPU4]), (UNROLLED PT_PROTO_PPPOE, [ETHERNET, VLAN, IPV4_noptions 13, UDP, GTPU4])],
     [(UNROLLED PT_PROTO_VLAN, [ETHERNET, IPV4_noptions 14, UDP, GTPU4]), (UNROLLED PT_PROTO_PPPOE, [ETHERNET, VLAN, IPV4_noptions 14, UDP, GTPU4])],
     [(UNROLLED PT_PROTO_VLAN, [ETHERNET, IPV4_noptions 15, UDP, GTPU4]), (UNROLLED PT_PROTO_PPPOE, [ETHERNET, VLAN, IPV4_noptions 15, UDP, GTPU4])],
     [(UNROLLED PT_PROTO_VLAN, [IEEE8023, IPV4_noptions 0, UDP, GTPU4]), (UNROLLED PT_PROTO_PPPOE, [IEEE8023, VLAN, IPV4_noptions 0, UDP, GTPU4])],
     [(UNROLLED PT_PROTO_VLAN, [IEEE8023, IPV4_noptions 1, UDP, GTPU4]), (UNROLLED PT_PROTO_PPPOE, [IEEE8023, VLAN, IPV4_noptions 1, UDP, GTPU4])],
     [(UNROLLED PT_PROTO_VLAN, [IEEE8023, IPV4_noptions 2, UDP, GTPU4]), (UNROLLED PT_PROTO_PPPOE, [IEEE8023, VLAN, IPV4_noptions 2, UDP, GTPU4])],
     [(UNROLLED PT_PROTO_VLAN, [IEEE8023, IPV4_noptions 3, UDP, GTPU4]), (UNROLLED PT_PROTO_PPPOE, [IEEE8023, VLAN, IPV4_noptions 3, UDP, GTPU4])],
     [(UNROLLED PT_PROTO_VLAN, [IEEE8023, IPV4_noptions 4, UDP, GTPU4]), (UNROLLED PT_PROTO_PPPOE, [IEEE8023, VLAN, IPV4_noptions 4, UDP, GTPU4])],
     [(UNROLLED PT_PROTO_VLAN, [IEEE8023, IPV4_noptions 5, UDP, GTPU4]), (UNROLLED PT_PROTO_PPPOE, [IEEE8023, VLAN, IPV4_noptions 5, UDP, GTPU4])],
     [(UNROLLED PT_PROTO_VLAN, [IEEE8023, IPV4_noptions 6, UDP, GTPU4]), (UNROLLED PT_PROTO_PPPOE, [IEEE8023, VLAN, IPV4_noptions 6, UDP, GTPU4])],
     [(UNROLLED PT_PROTO_VLAN, [IEEE8023, IPV4_noptions 7, UDP, GTPU4]), (UNROLLED PT_PROTO_PPPOE, [IEEE8023, VLAN, IPV4_noptions 7, UDP, GTPU4])],
     [(UNROLLED PT_PROTO_VLAN, [IEEE8023, IPV4_noptions 8, UDP, GTPU4]), (UNROLLED PT_PROTO_PPPOE, [IEEE8023, VLAN, IPV4_noptions 8, UDP, GTPU4])],
     [(UNROLLED PT_PROTO_VLAN, [IEEE8023, IPV4_noptions 9, UDP, GTPU4]), (UNROLLED PT_PROTO_PPPOE, [IEEE8023, VLAN, IPV4_noptions 9, UDP, GTPU4])],
     [(UNROLLED PT_PROTO_VLAN, [IEEE8023, IPV4_noptions 10, UDP, GTPU4]), (UNROLLED PT_PROTO_PPPOE, [IEEE8023, VLAN, IPV4_noptions 10, UDP, GTPU4])],
     [(UNROLLED PT_PROTO_VLAN, [IEEE8023, IPV4_noptions 11, UDP, GTPU4]), (UNROLLED PT_PROTO_PPPOE, [IEEE8023, VLAN, IPV4_noptions 11, UDP, GTPU4])],
     [(UNROLLED PT_PROTO_VLAN, [IEEE8023, IPV4_noptions 12, UDP, GTPU4]), (UNROLLED PT_PROTO_PPPOE, [IEEE8023, VLAN, IPV4_noptions 12, UDP, GTPU4])],
     [(UNROLLED PT_PROTO_VLAN, [IEEE8023, IPV4_noptions 13, UDP, GTPU4]), (UNROLLED PT_PROTO_PPPOE, [IEEE8023, VLAN, IPV4_noptions 13, UDP, GTPU4])],
     [(UNROLLED PT_PROTO_VLAN, [IEEE8023, IPV4_noptions 14, UDP, GTPU4]), (UNROLLED PT_PROTO_PPPOE, [IEEE8023, VLAN, IPV4_noptions 14, UDP, GTPU4])],
     [(UNROLLED PT_PROTO_VLAN, [IEEE8023, IPV4_noptions 15, UDP, GTPU4]), (UNROLLED PT_PROTO_PPPOE, [IEEE8023, VLAN, IPV4_noptions 15, UDP, GTPU4])],
     [(UNROLLED PT_PROTO_VLAN, [ETHERNET, VLAN, IPV4_noptions 0, UDP, GTPU4]), (UNROLLED PT_PROTO_PPPOE, [ETHERNET, VLAN, VLAN, IPV4_noptions 0, UDP, GTPU4])],
     [(UNROLLED PT_PROTO_VLAN, [ETHERNET, VLAN, IPV4_noptions 1, UDP, GTPU4]), (UNROLLED PT_PROTO_PPPOE, [ETHERNET, VLAN, VLAN, IPV4_noptions 1, UDP, GTPU4])],
     [(UNROLLED PT_PROTO_VLAN, [ETHERNET, VLAN, IPV4_noptions 2, UDP, GTPU4]), (UNROLLED PT_PROTO_PPPOE, [ETHERNET, VLAN, VLAN, IPV4_noptions 2, UDP, GTPU4])],
     [(UNROLLED PT_PROTO_VLAN, [ETHERNET, VLAN, IPV4_noptions 3, UDP, GTPU4]), (UNROLLED PT_PROTO_PPPOE, [ETHERNET, VLAN, VLAN, IPV4_noptions 3, UDP, GTPU4])]]"

definition pop_table_7 :: "(unrolled \<times> pkt_type) list list" where
  "pop_table_7 =
    [[(UNROLLED PT_PROTO_VLAN, [ETHERNET, VLAN, IPV4_noptions 4, UDP, GTPU4]), (UNROLLED PT_PROTO_PPPOE, [ETHERNET, VLAN, VLAN, IPV4_noptions 4, UDP, GTPU4])],
     [(UNROLLED PT_PROTO_VLAN, [ETHERNET, VLAN, IPV4_noptions 5, UDP, GTPU4]), (UNROLLED PT_PROTO_PPPOE, [ETHERNET, VLAN, VLAN, IPV4_noptions 5, UDP, GTPU4])],
     [(UNROLLED PT_PROTO_VLAN, [ETHERNET, VLAN, IPV4_noptions 6, UDP, GTPU4]), (UNROLLED PT_PROTO_PPPOE, [ETHERNET, VLAN, VLAN, IPV4_noptions 6, UDP, GTPU4])],
     [(UNROLLED PT_PROTO_VLAN, [ETHERNET, VLAN, IPV4_noptions 7, UDP, GTPU4]), (UNROLLED PT_PROTO_PPPOE, [ETHERNET, VLAN, VLAN, IPV4_noptions 7, UDP, GTPU4])],
     [(UNROLLED PT_PROTO_VLAN, [ETHERNET, VLAN, IPV4_noptions 8, UDP, GTPU4]), (UNROLLED PT_PROTO_PPPOE, [ETHERNET, VLAN, VLAN, IPV4_noptions 8, UDP, GTPU4])],
     [(UNROLLED PT_PROTO_VLAN, [ETHERNET, VLAN, IPV4_noptions 9, UDP, GTPU4]), (UNROLLED PT_PROTO_PPPOE, [ETHERNET, VLAN, VLAN, IPV4_noptions 9, UDP, GTPU4])],
     [(UNROLLED PT_PROTO_VLAN, [ETHERNET, VLAN, IPV4_noptions 10, UDP, GTPU4]), (UNROLLED PT_PROTO_PPPOE, [ETHERNET, VLAN, VLAN, IPV4_noptions 10, UDP, GTPU4])],
     [(UNROLLED PT_PROTO_VLAN, [ETHERNET, VLAN, IPV4_noptions 11, UDP, GTPU4]), (UNROLLED PT_PROTO_PPPOE, [ETHERNET, VLAN, VLAN, IPV4_noptions 11, UDP, GTPU4])],
     [(UNROLLED PT_PROTO_VLAN, [ETHERNET, VLAN, IPV4_noptions 12, UDP, GTPU4]), (UNROLLED PT_PROTO_PPPOE, [ETHERNET, VLAN, VLAN, IPV4_noptions 12, UDP, GTPU4])],
     [(UNROLLED PT_PROTO_VLAN, [ETHERNET, VLAN, IPV4_noptions 13, UDP, GTPU4]), (UNROLLED PT_PROTO_PPPOE, [ETHERNET, VLAN, VLAN, IPV4_noptions 13, UDP, GTPU4])],
     [(UNROLLED PT_PROTO_VLAN, [ETHERNET, VLAN, IPV4_noptions 14, UDP, GTPU4]), (UNROLLED PT_PROTO_PPPOE, [ETHERNET, VLAN, VLAN, IPV4_noptions 14, UDP, GTPU4])],
     [(UNROLLED PT_PROTO_VLAN, [ETHERNET, VLAN, IPV4_noptions 15, UDP, GTPU4]), (UNROLLED PT_PROTO_PPPOE, [ETHERNET, VLAN, VLAN, IPV4_noptions 15, UDP, GTPU4])],
     [(UNROLLED PT_PROTO_VLAN, [IEEE8023, VLAN, IPV4_noptions 0, UDP, GTPU4]), (UNROLLED PT_PROTO_PPPOE, [IEEE8023, VLAN, VLAN, IPV4_noptions 0, UDP, GTPU4])],
     [(UNROLLED PT_PROTO_VLAN, [IEEE8023, VLAN, IPV4_noptions 1, UDP, GTPU4]), (UNROLLED PT_PROTO_PPPOE, [IEEE8023, VLAN, VLAN, IPV4_noptions 1, UDP, GTPU4])],
     [(UNROLLED PT_PROTO_VLAN, [IEEE8023, VLAN, IPV4_noptions 2, UDP, GTPU4]), (UNROLLED PT_PROTO_PPPOE, [IEEE8023, VLAN, VLAN, IPV4_noptions 2, UDP, GTPU4])],
     [(UNROLLED PT_PROTO_VLAN, [IEEE8023, VLAN, IPV4_noptions 3, UDP, GTPU4]), (UNROLLED PT_PROTO_PPPOE, [IEEE8023, VLAN, VLAN, IPV4_noptions 3, UDP, GTPU4])],
     [(UNROLLED PT_PROTO_VLAN, [IEEE8023, VLAN, IPV4_noptions 4, UDP, GTPU4]), (UNROLLED PT_PROTO_PPPOE, [IEEE8023, VLAN, VLAN, IPV4_noptions 4, UDP, GTPU4])],
     [(UNROLLED PT_PROTO_VLAN, [IEEE8023, VLAN, IPV4_noptions 5, UDP, GTPU4]), (UNROLLED PT_PROTO_PPPOE, [IEEE8023, VLAN, VLAN, IPV4_noptions 5, UDP, GTPU4])],
     [(UNROLLED PT_PROTO_VLAN, [IEEE8023, VLAN, IPV4_noptions 6, UDP, GTPU4]), (UNROLLED PT_PROTO_PPPOE, [IEEE8023, VLAN, VLAN, IPV4_noptions 6, UDP, GTPU4])],
     [(UNROLLED PT_PROTO_VLAN, [IEEE8023, VLAN, IPV4_noptions 7, UDP, GTPU4]), (UNROLLED PT_PROTO_PPPOE, [IEEE8023, VLAN, VLAN, IPV4_noptions 7, UDP, GTPU4])],
     [(UNROLLED PT_PROTO_VLAN, [IEEE8023, VLAN, IPV4_noptions 8, UDP, GTPU4]), (UNROLLED PT_PROTO_PPPOE, [IEEE8023, VLAN, VLAN, IPV4_noptions 8, UDP, GTPU4])],
     [(UNROLLED PT_PROTO_VLAN, [IEEE8023, VLAN, IPV4_noptions 9, UDP, GTPU4]), (UNROLLED PT_PROTO_PPPOE, [IEEE8023, VLAN, VLAN, IPV4_noptions 9, UDP, GTPU4])],
     [(UNROLLED PT_PROTO_VLAN, [IEEE8023, VLAN, IPV4_noptions 10, UDP, GTPU4]), (UNROLLED PT_PROTO_PPPOE, [IEEE8023, VLAN, VLAN, IPV4_noptions 10, UDP, GTPU4])],
     [(UNROLLED PT_PROTO_VLAN, [IEEE8023, VLAN, IPV4_noptions 11, UDP, GTPU4]), (UNROLLED PT_PROTO_PPPOE, [IEEE8023, VLAN, VLAN, IPV4_noptions 11, UDP, GTPU4])],
     [(UNROLLED PT_PROTO_VLAN, [IEEE8023, VLAN, IPV4_noptions 12, UDP, GTPU4]), (UNROLLED PT_PROTO_PPPOE, [IEEE8023, VLAN, VLAN, IPV4_noptions 12, UDP, GTPU4])],
     [(UNROLLED PT_PROTO_VLAN, [IEEE8023, VLAN, IPV4_noptions 13, UDP, GTPU4]), (UNROLLED PT_PROTO_PPPOE, [IEEE8023, VLAN, VLAN, IPV4_noptions 13, UDP, GTPU4])],
     [(UNROLLED PT_PROTO_VLAN, [IEEE8023, VLAN, IPV4_noptions 14, UDP, GTPU4]), (UNROLLED PT_PROTO_PPPOE, [IEEE8023, VLAN, VLAN, IPV4_noptions 14, UDP, GTPU4])],
     [(UNROLLED PT_PROTO_VLAN, [IEEE8023, VLAN, IPV4_noptions 15, UDP, GTPU4]), (UNROLLED PT_PROTO_PPPOE, [IEEE8023, VLAN, VLAN, IPV4_noptions 15, UDP, GTPU4])],
     [(UNROLLED PT_PROTO_PPPOE, [ETHERNET, IPV4_noptions 0, SCTP])],
     [(UNROLLED PT_PROTO_PPPOE, [ETHERNET, IPV4_noptions 1, SCTP])],
     [(UNROLLED PT_PROTO_PPPOE, [ETHERNET, IPV4_noptions 2, SCTP])],
     [(UNROLLED PT_PROTO_PPPOE, [ETHERNET, IPV4_noptions 3, SCTP])],
     [(UNROLLED PT_PROTO_PPPOE, [ETHERNET, IPV4_noptions 4, SCTP])],
     [(UNROLLED PT_PROTO_PPPOE, [ETHERNET, IPV4_noptions 5, SCTP])],
     [(UNROLLED PT_PROTO_PPPOE, [ETHERNET, IPV4_noptions 6, SCTP])],
     [(UNROLLED PT_PROTO_PPPOE, [ETHERNET, IPV4_noptions 7, SCTP])],
     [(UNROLLED PT_PROTO_PPPOE, [ETHERNET, IPV4_noptions 8, SCTP])],
     [(UNROLLED PT_PROTO_PPPOE, [ETHERNET, IPV4_noptions 9, SCTP])],
     [(UNROLLED PT_PROTO_PPPOE, [ETHERNET, IPV4_noptions 10, SCTP])],
     [(UNROLLED PT_PROTO_PPPOE, [ETHERNET, IPV4_noptions 11, SCTP])],
     [(UNROLLED PT_PROTO_PPPOE, [ETHERNET, IPV4_noptions 12, SCTP])],
     [(UNROLLED PT_PROTO_PPPOE, [ETHERNET, IPV4_noptions 13, SCTP])],
     [(UNROLLED PT_PROTO_PPPOE, [ETHERNET, IPV4_noptions 14, SCTP])],
     [(UNROLLED PT_PROTO_PPPOE, [ETHERNET, IPV4_noptions 15, SCTP])],
     [(UNROLLED PT_PROTO_ISID, [ETHERNET, IPV4_noptions 0, SCTP])],
     [(UNROLLED PT_PROTO_ISID, [ETHERNET, IPV4_noptions 1, SCTP])],
     [(UNROLLED PT_PROTO_ISID, [ETHERNET, IPV4_noptions 2, SCTP])],
     [(UNROLLED PT_PROTO_ISID, [ETHERNET, IPV4_noptions 3, SCTP])],
     [(UNROLLED PT_PROTO_ISID, [ETHERNET, IPV4_noptions 4, SCTP])],
     [(UNROLLED PT_PROTO_ISID, [ETHERNET, IPV4_noptions 5, SCTP])],
     [(UNROLLED PT_PROTO_ISID, [ETHERNET, IPV4_noptions 6, SCTP])],
     [(UNROLLED PT_PROTO_ISID, [ETHERNET, IPV4_noptions 7, SCTP])],
     [(UNROLLED PT_PROTO_ISID, [ETHERNET, IPV4_noptions 8, SCTP])],
     [(UNROLLED PT_PROTO_ISID, [ETHERNET, IPV4_noptions 9, SCTP])],
     [(UNROLLED PT_PROTO_ISID, [ETHERNET, IPV4_noptions 10, SCTP])],
     [(UNROLLED PT_PROTO_ISID, [ETHERNET, IPV4_noptions 11, SCTP])],
     [(UNROLLED PT_PROTO_ISID, [ETHERNET, IPV4_noptions 12, SCTP])],
     [(UNROLLED PT_PROTO_ISID, [ETHERNET, IPV4_noptions 13, SCTP])],
     [(UNROLLED PT_PROTO_ISID, [ETHERNET, IPV4_noptions 14, SCTP])],
     [(UNROLLED PT_PROTO_ISID, [ETHERNET, IPV4_noptions 15, SCTP])],
     [],
     [],
     [],
     [],
     [],
     [],
     [],
     [],
     [],
     [],
     [],
     [],
     [],
     [],
     [],
     [],
     [(UNROLLED PT_PROTO_PPPOE, [IEEE8023, IPV4_noptions 0, SCTP])],
     [(UNROLLED PT_PROTO_PPPOE, [IEEE8023, IPV4_noptions 1, SCTP])],
     [(UNROLLED PT_PROTO_PPPOE, [IEEE8023, IPV4_noptions 2, SCTP])],
     [(UNROLLED PT_PROTO_PPPOE, [IEEE8023, IPV4_noptions 3, SCTP])],
     [(UNROLLED PT_PROTO_PPPOE, [IEEE8023, IPV4_noptions 4, SCTP])],
     [(UNROLLED PT_PROTO_PPPOE, [IEEE8023, IPV4_noptions 5, SCTP])],
     [(UNROLLED PT_PROTO_PPPOE, [IEEE8023, IPV4_noptions 6, SCTP])],
     [(UNROLLED PT_PROTO_PPPOE, [IEEE8023, IPV4_noptions 7, SCTP])],
     [(UNROLLED PT_PROTO_PPPOE, [IEEE8023, IPV4_noptions 8, SCTP])],
     [(UNROLLED PT_PROTO_PPPOE, [IEEE8023, IPV4_noptions 9, SCTP])],
     [(UNROLLED PT_PROTO_PPPOE, [IEEE8023, IPV4_noptions 10, SCTP])],
     [(UNROLLED PT_PROTO_PPPOE, [IEEE8023, IPV4_noptions 11, SCTP])],
     [(UNROLLED PT_PROTO_PPPOE, [IEEE8023, IPV4_noptions 12, SCTP])],
     [(UNROLLED PT_PROTO_PPPOE, [IEEE8023, IPV4_noptions 13, SCTP])],
     [(UNROLLED PT_PROTO_PPPOE, [IEEE8023, IPV4_noptions 14, SCTP])],
     [(UNROLLED PT_PROTO_PPPOE, [IEEE8023, IPV4_noptions 15, SCTP])],
     [(UNROLLED PT_PROTO_VLAN, [ETHERNET, IPV4_noptions 0, SCTP]), (UNROLLED PT_PROTO_PPPOE, [ETHERNET, VLAN, IPV4_noptions 0, SCTP])],
     [(UNROLLED PT_PROTO_VLAN, [ETHERNET, IPV4_noptions 1, SCTP]), (UNROLLED PT_PROTO_PPPOE, [ETHERNET, VLAN, IPV4_noptions 1, SCTP])],
     [(UNROLLED PT_PROTO_VLAN, [ETHERNET, IPV4_noptions 2, SCTP]), (UNROLLED PT_PROTO_PPPOE, [ETHERNET, VLAN, IPV4_noptions 2, SCTP])],
     [(UNROLLED PT_PROTO_VLAN, [ETHERNET, IPV4_noptions 3, SCTP]), (UNROLLED PT_PROTO_PPPOE, [ETHERNET, VLAN, IPV4_noptions 3, SCTP])],
     [(UNROLLED PT_PROTO_VLAN, [ETHERNET, IPV4_noptions 4, SCTP]), (UNROLLED PT_PROTO_PPPOE, [ETHERNET, VLAN, IPV4_noptions 4, SCTP])],
     [(UNROLLED PT_PROTO_VLAN, [ETHERNET, IPV4_noptions 5, SCTP]), (UNROLLED PT_PROTO_PPPOE, [ETHERNET, VLAN, IPV4_noptions 5, SCTP])],
     [(UNROLLED PT_PROTO_VLAN, [ETHERNET, IPV4_noptions 6, SCTP]), (UNROLLED PT_PROTO_PPPOE, [ETHERNET, VLAN, IPV4_noptions 6, SCTP])],
     [(UNROLLED PT_PROTO_VLAN, [ETHERNET, IPV4_noptions 7, SCTP]), (UNROLLED PT_PROTO_PPPOE, [ETHERNET, VLAN, IPV4_noptions 7, SCTP])],
     [(UNROLLED PT_PROTO_VLAN, [ETHERNET, IPV4_noptions 8, SCTP]), (UNROLLED PT_PROTO_PPPOE, [ETHERNET, VLAN, IPV4_noptions 8, SCTP])],
     [(UNROLLED PT_PROTO_VLAN, [ETHERNET, IPV4_noptions 9, SCTP]), (UNROLLED PT_PROTO_PPPOE, [ETHERNET, VLAN, IPV4_noptions 9, SCTP])],
     [(UNROLLED PT_PROTO_VLAN, [ETHERNET, IPV4_noptions 10, SCTP]), (UNROLLED PT_PROTO_PPPOE, [ETHERNET, VLAN, IPV4_noptions 10, SCTP])],
     [(UNROLLED PT_PROTO_VLAN, [ETHERNET, IPV4_noptions 11, SCTP]), (UNROLLED PT_PROTO_PPPOE, [ETHERNET, VLAN, IPV4_noptions 11, SCTP])],
     [(UNROLLED PT_PROTO_VLAN, [ETHERNET, IPV4_noptions 12, SCTP]), (UNROLLED PT_PROTO_PPPOE, [ETHERNET, VLAN, IPV4_noptions 12, SCTP])],
     [(UNROLLED PT_PROTO_VLAN, [ETHERNET, IPV4_noptions 13, SCTP]), (UNROLLED PT_PROTO_PPPOE, [ETHERNET, VLAN, IPV4_noptions 13, SCTP])],
     [(UNROLLED PT_PROTO_VLAN, [ETHERNET, IPV4_noptions 14, SCTP]), (UNROLLED PT_PROTO_PPPOE, [ETHERNET, VLAN, IPV4_noptions 14, SCTP])],
     [(UNROLLED PT_PROTO_VLAN, [ETHERNET, IPV4_noptions 15, SCTP]), (UNROLLED PT_PROTO_PPPOE, [ETHERNET, VLAN, IPV4_noptions 15, SCTP])],
     [(UNROLLED PT_PROTO_VLAN, [IEEE8023, IPV4_noptions 0, SCTP]), (UNROLLED PT_PROTO_PPPOE, [IEEE8023, VLAN, IPV4_noptions 0, SCTP])],
     [(UNROLLED PT_PROTO_VLAN, [IEEE8023, IPV4_noptions 1, SCTP]), (UNROLLED PT_PROTO_PPPOE, [IEEE8023, VLAN, IPV4_noptions 1, SCTP])],
     [(UNROLLED PT_PROTO_VLAN, [IEEE8023, IPV4_noptions 2, SCTP]), (UNROLLED PT_PROTO_PPPOE, [IEEE8023, VLAN, IPV4_noptions 2, SCTP])],
     [(UNROLLED PT_PROTO_VLAN, [IEEE8023, IPV4_noptions 3, SCTP]), (UNROLLED PT_PROTO_PPPOE, [IEEE8023, VLAN, IPV4_noptions 3, SCTP])],
     [(UNROLLED PT_PROTO_VLAN, [IEEE8023, IPV4_noptions 4, SCTP]), (UNROLLED PT_PROTO_PPPOE, [IEEE8023, VLAN, IPV4_noptions 4, SCTP])],
     [(UNROLLED PT_PROTO_VLAN, [IEEE8023, IPV4_noptions 5, SCTP]), (UNROLLED PT_PROTO_PPPOE, [IEEE8023, VLAN, IPV4_noptions 5, SCTP])],
     [(UNROLLED PT_PROTO_VLAN, [IEEE8023, IPV4_noptions 6, SCTP]), (UNROLLED PT_PROTO_PPPOE, [IEEE8023, VLAN, IPV4_noptions 6, SCTP])],
     [(UNROLLED PT_PROTO_VLAN, [IEEE8023, IPV4_noptions 7, SCTP]), (UNROLLED PT_PROTO_PPPOE, [IEEE8023, VLAN, IPV4_noptions 7, SCTP])],
     [(UNROLLED PT_PROTO_VLAN, [IEEE8023, IPV4_noptions 8, SCTP]), (UNROLLED PT_PROTO_PPPOE, [IEEE8023, VLAN, IPV4_noptions 8, SCTP])],
     [(UNROLLED PT_PROTO_VLAN, [IEEE8023, IPV4_noptions 9, SCTP]), (UNROLLED PT_PROTO_PPPOE, [IEEE8023, VLAN, IPV4_noptions 9, SCTP])],
     [(UNROLLED PT_PROTO_VLAN, [IEEE8023, IPV4_noptions 10, SCTP]), (UNROLLED PT_PROTO_PPPOE, [IEEE8023, VLAN, IPV4_noptions 10, SCTP])],
     [(UNROLLED PT_PROTO_VLAN, [IEEE8023, IPV4_noptions 11, SCTP]), (UNROLLED PT_PROTO_PPPOE, [IEEE8023, VLAN, IPV4_noptions 11, SCTP])],
     [(UNROLLED PT_PROTO_VLAN, [IEEE8023, IPV4_noptions 12, SCTP]), (UNROLLED PT_PROTO_PPPOE, [IEEE8023, VLAN, IPV4_noptions 12, SCTP])],
     [(UNROLLED PT_PROTO_VLAN, [IEEE8023, IPV4_noptions 13, SCTP]), (UNROLLED PT_PROTO_PPPOE, [IEEE8023, VLAN, IPV4_noptions 13, SCTP])],
     [(UNROLLED PT_PROTO_VLAN, [IEEE8023, IPV4_noptions 14, SCTP]), (UNROLLED PT_PROTO_PPPOE, [IEEE8023, VLAN, IPV4_noptions 14, SCTP])],
     [(UNROLLED PT_PROTO_VLAN, [IEEE8023, IPV4_noptions 15, SCTP]), (UNROLLED PT_PROTO_PPPOE, [IEEE8023, VLAN, IPV4_noptions 15, SCTP])],
     [(UNROLLED PT_PROTO_VLAN, [ETHERNET, VLAN, IPV4_noptions 0, SCTP]), (UNROLLED PT_PROTO_PPPOE, [ETHERNET, VLAN, VLAN, IPV4_noptions 0, SCTP])],
     [(UNROLLED PT_PROTO_VLAN, [ETHERNET, VLAN, IPV4_noptions 1, SCTP]), (UNROLLED PT_PROTO_PPPOE, [ETHERNET, VLAN, VLAN, IPV4_noptions 1, SCTP])],
     [(UNROLLED PT_PROTO_VLAN, [ETHERNET, VLAN, IPV4_noptions 2, SCTP]), (UNROLLED PT_PROTO_PPPOE, [ETHERNET, VLAN, VLAN, IPV4_noptions 2, SCTP])],
     [(UNROLLED PT_PROTO_VLAN, [ETHERNET, VLAN, IPV4_noptions 3, SCTP]), (UNROLLED PT_PROTO_PPPOE, [ETHERNET, VLAN, VLAN, IPV4_noptions 3, SCTP])],
     [(UNROLLED PT_PROTO_VLAN, [ETHERNET, VLAN, IPV4_noptions 4, SCTP]), (UNROLLED PT_PROTO_PPPOE, [ETHERNET, VLAN, VLAN, IPV4_noptions 4, SCTP])],
     [(UNROLLED PT_PROTO_VLAN, [ETHERNET, VLAN, IPV4_noptions 5, SCTP]), (UNROLLED PT_PROTO_PPPOE, [ETHERNET, VLAN, VLAN, IPV4_noptions 5, SCTP])],
     [(UNROLLED PT_PROTO_VLAN, [ETHERNET, VLAN, IPV4_noptions 6, SCTP]), (UNROLLED PT_PROTO_PPPOE, [ETHERNET, VLAN, VLAN, IPV4_noptions 6, SCTP])],
     [(UNROLLED PT_PROTO_VLAN, [ETHERNET, VLAN, IPV4_noptions 7, SCTP]), (UNROLLED PT_PROTO_PPPOE, [ETHERNET, VLAN, VLAN, IPV4_noptions 7, SCTP])],
     [(UNROLLED PT_PROTO_VLAN, [ETHERNET, VLAN, IPV4_noptions 8, SCTP]), (UNROLLED PT_PROTO_PPPOE, [ETHERNET, VLAN, VLAN, IPV4_noptions 8, SCTP])],
     [(UNROLLED PT_PROTO_VLAN, [ETHERNET, VLAN, IPV4_noptions 9, SCTP]), (UNROLLED PT_PROTO_PPPOE, [ETHERNET, VLAN, VLAN, IPV4_noptions 9, SCTP])],
     [(UNROLLED PT_PROTO_VLAN, [ETHERNET, VLAN, IPV4_noptions 10, SCTP]), (UNROLLED PT_PROTO_PPPOE, [ETHERNET, VLAN, VLAN, IPV4_noptions 10, SCTP])],
     [(UNROLLED PT_PROTO_VLAN, [ETHERNET, VLAN, IPV4_noptions 11, SCTP]), (UNROLLED PT_PROTO_PPPOE, [ETHERNET, VLAN, VLAN, IPV4_noptions 11, SCTP])],
     [(UNROLLED PT_PROTO_VLAN, [ETHERNET, VLAN, IPV4_noptions 12, SCTP]), (UNROLLED PT_PROTO_PPPOE, [ETHERNET, VLAN, VLAN, IPV4_noptions 12, SCTP])],
     [(UNROLLED PT_PROTO_VLAN, [ETHERNET, VLAN, IPV4_noptions 13, SCTP]), (UNROLLED PT_PROTO_PPPOE, [ETHERNET, VLAN, VLAN, IPV4_noptions 13, SCTP])],
     [(UNROLLED PT_PROTO_VLAN, [ETHERNET, VLAN, IPV4_noptions 14, SCTP]), (UNROLLED PT_PROTO_PPPOE, [ETHERNET, VLAN, VLAN, IPV4_noptions 14, SCTP])],
     [(UNROLLED PT_PROTO_VLAN, [ETHERNET, VLAN, IPV4_noptions 15, SCTP]), (UNROLLED PT_PROTO_PPPOE, [ETHERNET, VLAN, VLAN, IPV4_noptions 15, SCTP])],
     [(UNROLLED PT_PROTO_VLAN, [IEEE8023, VLAN, IPV4_noptions 0, SCTP]), (UNROLLED PT_PROTO_PPPOE, [IEEE8023, VLAN, VLAN, IPV4_noptions 0, SCTP])],
     [(UNROLLED PT_PROTO_VLAN, [IEEE8023, VLAN, IPV4_noptions 1, SCTP]), (UNROLLED PT_PROTO_PPPOE, [IEEE8023, VLAN, VLAN, IPV4_noptions 1, SCTP])],
     [(UNROLLED PT_PROTO_VLAN, [IEEE8023, VLAN, IPV4_noptions 2, SCTP]), (UNROLLED PT_PROTO_PPPOE, [IEEE8023, VLAN, VLAN, IPV4_noptions 2, SCTP])],
     [(UNROLLED PT_PROTO_VLAN, [IEEE8023, VLAN, IPV4_noptions 3, SCTP]), (UNROLLED PT_PROTO_PPPOE, [IEEE8023, VLAN, VLAN, IPV4_noptions 3, SCTP])],
     [(UNROLLED PT_PROTO_VLAN, [IEEE8023, VLAN, IPV4_noptions 4, SCTP]), (UNROLLED PT_PROTO_PPPOE, [IEEE8023, VLAN, VLAN, IPV4_noptions 4, SCTP])],
     [(UNROLLED PT_PROTO_VLAN, [IEEE8023, VLAN, IPV4_noptions 5, SCTP]), (UNROLLED PT_PROTO_PPPOE, [IEEE8023, VLAN, VLAN, IPV4_noptions 5, SCTP])],
     [(UNROLLED PT_PROTO_VLAN, [IEEE8023, VLAN, IPV4_noptions 6, SCTP]), (UNROLLED PT_PROTO_PPPOE, [IEEE8023, VLAN, VLAN, IPV4_noptions 6, SCTP])],
     [(UNROLLED PT_PROTO_VLAN, [IEEE8023, VLAN, IPV4_noptions 7, SCTP]), (UNROLLED PT_PROTO_PPPOE, [IEEE8023, VLAN, VLAN, IPV4_noptions 7, SCTP])],
     [(UNROLLED PT_PROTO_VLAN, [IEEE8023, VLAN, IPV4_noptions 8, SCTP]), (UNROLLED PT_PROTO_PPPOE, [IEEE8023, VLAN, VLAN, IPV4_noptions 8, SCTP])],
     [(UNROLLED PT_PROTO_VLAN, [IEEE8023, VLAN, IPV4_noptions 9, SCTP]), (UNROLLED PT_PROTO_PPPOE, [IEEE8023, VLAN, VLAN, IPV4_noptions 9, SCTP])]]"

definition pop_table_8 :: "(unrolled \<times> pkt_type) list list" where
  "pop_table_8 =
    [[(UNROLLED PT_PROTO_VLAN, [IEEE8023, VLAN, IPV4_noptions 10, SCTP]), (UNROLLED PT_PROTO_PPPOE, [IEEE8023, VLAN, VLAN, IPV4_noptions 10, SCTP])],
     [(UNROLLED PT_PROTO_VLAN, [IEEE8023, VLAN, IPV4_noptions 11, SCTP]), (UNROLLED PT_PROTO_PPPOE, [IEEE8023, VLAN, VLAN, IPV4_noptions 11, SCTP])],
     [(UNROLLED PT_PROTO_VLAN, [IEEE8023, VLAN, IPV4_noptions 12, SCTP]), (UNROLLED PT_PROTO_PPPOE, [IEEE8023, VLAN, VLAN, IPV4_noptions 12, SCTP])],
     [(UNROLLED PT_PROTO_VLAN, [IEEE8023, VLAN, IPV4_noptions 13, SCTP]), (UNROLLED PT_PROTO_PPPOE, [IEEE8023, VLAN, VLAN, IPV4_noptions 13, SCTP])],
     [(UNROLLED PT_PROTO_VLAN, [IEEE8023, VLAN, IPV4_noptions 14, SCTP]), (UNROLLED PT_PROTO_PPPOE, [IEEE8023, VLAN, VLAN, IPV4_noptions 14, SCTP])],
     [(UNROLLED PT_PROTO_VLAN, [IEEE8023, VLAN, IPV4_noptions 15, SCTP]), (UNROLLED PT_PROTO_PPPOE, [IEEE8023, VLAN, VLAN, IPV4_noptions 15, SCTP])],
     [(UNROLLED PT_PROTO_PPPOE, [ETHERNET, IPV4_noptions 0, GRE4]), (UNROLLED PT_PROTO_GRE4, [ETHERNET])],
     [(UNROLLED PT_PROTO_PPPOE, [ETHERNET, IPV4_noptions 1, GRE4]), (UNROLLED PT_PROTO_GRE4, [ETHERNET])],
     [(UNROLLED PT_PROTO_PPPOE, [ETHERNET, IPV4_noptions 2, GRE4]), (UNROLLED PT_PROTO_GRE4, [ETHERNET])],
     [(UNROLLED PT_PROTO_PPPOE, [ETHERNET, IPV4_noptions 3, GRE4]), (UNROLLED PT_PROTO_GRE4, [ETHERNET])],
     [(UNROLLED PT_PROTO_PPPOE, [ETHERNET, IPV4_noptions 4, GRE4]), (UNROLLED PT_PROTO_GRE4, [ETHERNET])],
     [(UNROLLED PT_PROTO_PPPOE, [ETHERNET, IPV4_noptions 5, GRE4]), (UNROLLED PT_PROTO_GRE4, [ETHERNET])],
     [(UNROLLED PT_PROTO_PPPOE, [ETHERNET, IPV4_noptions 6, GRE4]), (UNROLLED PT_PROTO_GRE4, [ETHERNET])],
     [(UNROLLED PT_PROTO_PPPOE, [ETHERNET, IPV4_noptions 7, GRE4]), (UNROLLED PT_PROTO_GRE4, [ETHERNET])],
     [(UNROLLED PT_PROTO_PPPOE, [ETHERNET, IPV4_noptions 8, GRE4]), (UNROLLED PT_PROTO_GRE4, [ETHERNET])],
     [(UNROLLED PT_PROTO_PPPOE, [ETHERNET, IPV4_noptions 9, GRE4]), (UNROLLED PT_PROTO_GRE4, [ETHERNET])],
     [(UNROLLED PT_PROTO_PPPOE, [ETHERNET, IPV4_noptions 10, GRE4]), (UNROLLED PT_PROTO_GRE4, [ETHERNET])],
     [(UNROLLED PT_PROTO_PPPOE, [ETHERNET, IPV4_noptions 11, GRE4]), (UNROLLED PT_PROTO_GRE4, [ETHERNET])],
     [(UNROLLED PT_PROTO_PPPOE, [ETHERNET, IPV4_noptions 12, GRE4]), (UNROLLED PT_PROTO_GRE4, [ETHERNET])],
     [(UNROLLED PT_PROTO_PPPOE, [ETHERNET, IPV4_noptions 13, GRE4]), (UNROLLED PT_PROTO_GRE4, [ETHERNET])],
     [(UNROLLED PT_PROTO_PPPOE, [ETHERNET, IPV4_noptions 14, GRE4]), (UNROLLED PT_PROTO_GRE4, [ETHERNET])],
     [(UNROLLED PT_PROTO_PPPOE, [ETHERNET, IPV4_noptions 15, GRE4]), (UNROLLED PT_PROTO_GRE4, [ETHERNET])],
     [(UNROLLED PT_PROTO_ISID, [ETHERNET, IPV4_noptions 0, GRE4])],
     [(UNROLLED PT_PROTO_ISID, [ETHERNET, IPV4_noptions 1, GRE4])],
     [(UNROLLED PT_PROTO_ISID, [ETHERNET, IPV4_noptions 2, GRE4])],
     [(UNROLLED PT_PROTO_ISID, [ETHERNET, IPV4_noptions 3, GRE4])],
     [(UNROLLED PT_PROTO_ISID, [ETHERNET, IPV4_noptions 4, GRE4])],
     [(UNROLLED PT_PROTO_ISID, [ETHERNET, IPV4_noptions 5, GRE4])],
     [(UNROLLED PT_PROTO_ISID, [ETHERNET, IPV4_noptions 6, GRE4])],
     [(UNROLLED PT_PROTO_ISID, [ETHERNET, IPV4_noptions 7, GRE4])],
     [(UNROLLED PT_PROTO_ISID, [ETHERNET, IPV4_noptions 8, GRE4])],
     [(UNROLLED PT_PROTO_ISID, [ETHERNET, IPV4_noptions 9, GRE4])],
     [(UNROLLED PT_PROTO_ISID, [ETHERNET, IPV4_noptions 10, GRE4])],
     [(UNROLLED PT_PROTO_ISID, [ETHERNET, IPV4_noptions 11, GRE4])],
     [(UNROLLED PT_PROTO_ISID, [ETHERNET, IPV4_noptions 12, GRE4])],
     [(UNROLLED PT_PROTO_ISID, [ETHERNET, IPV4_noptions 13, GRE4])],
     [(UNROLLED PT_PROTO_ISID, [ETHERNET, IPV4_noptions 14, GRE4])],
     [(UNROLLED PT_PROTO_ISID, [ETHERNET, IPV4_noptions 15, GRE4])],
     [],
     [],
     [],
     [],
     [],
     [],
     [],
     [],
     [],
     [],
     [],
     [],
     [],
     [],
     [],
     [],
     [(UNROLLED PT_PROTO_PPPOE, [IEEE8023, IPV4_noptions 0, GRE4]), (UNROLLED PT_PROTO_GRE4, [IEEE8023])],
     [(UNROLLED PT_PROTO_PPPOE, [IEEE8023, IPV4_noptions 1, GRE4]), (UNROLLED PT_PROTO_GRE4, [IEEE8023])],
     [(UNROLLED PT_PROTO_PPPOE, [IEEE8023, IPV4_noptions 2, GRE4]), (UNROLLED PT_PROTO_GRE4, [IEEE8023])],
     [(UNROLLED PT_PROTO_PPPOE, [IEEE8023, IPV4_noptions 3, GRE4]), (UNROLLED PT_PROTO_GRE4, [IEEE8023])],
     [(UNROLLED PT_PROTO_PPPOE, [IEEE8023, IPV4_noptions 4, GRE4]), (UNROLLED PT_PROTO_GRE4, [IEEE8023])],
     [(UNROLLED PT_PROTO_PPPOE, [IEEE8023, IPV4_noptions 5, GRE4]), (UNROLLED PT_PROTO_GRE4, [IEEE8023])],
     [(UNROLLED PT_PROTO_PPPOE, [IEEE8023, IPV4_noptions 6, GRE4]), (UNROLLED PT_PROTO_GRE4, [IEEE8023])],
     [(UNROLLED PT_PROTO_PPPOE, [IEEE8023, IPV4_noptions 7, GRE4]), (UNROLLED PT_PROTO_GRE4, [IEEE8023])],
     [(UNROLLED PT_PROTO_PPPOE, [IEEE8023, IPV4_noptions 8, GRE4]), (UNROLLED PT_PROTO_GRE4, [IEEE8023])],
     [(UNROLLED PT_PROTO_PPPOE, [IEEE8023, IPV4_noptions 9, GRE4]), (UNROLLED PT_PROTO_GRE4, [IEEE8023])],
     [(UNROLLED PT_PROTO_PPPOE, [IEEE8023, IPV4_noptions 10, GRE4]), (UNROLLED PT_PROTO_GRE4, [IEEE8023])],
     [(UNROLLED PT_PROTO_PPPOE, [IEEE8023, IPV4_noptions 11, GRE4]), (UNROLLED PT_PROTO_GRE4, [IEEE8023])],
     [(UNROLLED PT_PROTO_PPPOE, [IEEE8023, IPV4_noptions 12, GRE4]), (UNROLLED PT_PROTO_GRE4, [IEEE8023])],
     [(UNROLLED PT_PROTO_PPPOE, [IEEE8023, IPV4_noptions 13, GRE4]), (UNROLLED PT_PROTO_GRE4, [IEEE8023])],
     [(UNROLLED PT_PROTO_PPPOE, [IEEE8023, IPV4_noptions 14, GRE4]), (UNROLLED PT_PROTO_GRE4, [IEEE8023])],
     [(UNROLLED PT_PROTO_PPPOE, [IEEE8023, IPV4_noptions 15, GRE4]), (UNROLLED PT_PROTO_GRE4, [IEEE8023])],
     [(UNROLLED PT_PROTO_VLAN, [ETHERNET, IPV4_noptions 0, GRE4]), (UNROLLED PT_PROTO_PPPOE, [ETHERNET, VLAN, IPV4_noptions 0, GRE4])],
     [(UNROLLED PT_PROTO_VLAN, [ETHERNET, IPV4_noptions 1, GRE4]), (UNROLLED PT_PROTO_PPPOE, [ETHERNET, VLAN, IPV4_noptions 1, GRE4])],
     [(UNROLLED PT_PROTO_VLAN, [ETHERNET, IPV4_noptions 2, GRE4]), (UNROLLED PT_PROTO_PPPOE, [ETHERNET, VLAN, IPV4_noptions 2, GRE4])],
     [(UNROLLED PT_PROTO_VLAN, [ETHERNET, IPV4_noptions 3, GRE4]), (UNROLLED PT_PROTO_PPPOE, [ETHERNET, VLAN, IPV4_noptions 3, GRE4])],
     [(UNROLLED PT_PROTO_VLAN, [ETHERNET, IPV4_noptions 4, GRE4]), (UNROLLED PT_PROTO_PPPOE, [ETHERNET, VLAN, IPV4_noptions 4, GRE4])],
     [(UNROLLED PT_PROTO_VLAN, [ETHERNET, IPV4_noptions 5, GRE4]), (UNROLLED PT_PROTO_PPPOE, [ETHERNET, VLAN, IPV4_noptions 5, GRE4])],
     [(UNROLLED PT_PROTO_VLAN, [ETHERNET, IPV4_noptions 6, GRE4]), (UNROLLED PT_PROTO_PPPOE, [ETHERNET, VLAN, IPV4_noptions 6, GRE4])],
     [(UNROLLED PT_PROTO_VLAN, [ETHERNET, IPV4_noptions 7, GRE4]), (UNROLLED PT_PROTO_PPPOE, [ETHERNET, VLAN, IPV4_noptions 7, GRE4])],
     [(UNROLLED PT_PROTO_VLAN, [ETHERNET, IPV4_noptions 8, GRE4]), (UNROLLED PT_PROTO_PPPOE, [ETHERNET, VLAN, IPV4_noptions 8, GRE4])],
     [(UNROLLED PT_PROTO_VLAN, [ETHERNET, IPV4_noptions 9, GRE4]), (UNROLLED PT_PROTO_PPPOE, [ETHERNET, VLAN, IPV4_noptions 9, GRE4])],
     [(UNROLLED PT_PROTO_VLAN, [ETHERNET, IPV4_noptions 10, GRE4]), (UNROLLED PT_PROTO_PPPOE, [ETHERNET, VLAN, IPV4_noptions 10, GRE4])],
     [(UNROLLED PT_PROTO_VLAN, [ETHERNET, IPV4_noptions 11, GRE4]), (UNROLLED PT_PROTO_PPPOE, [ETHERNET, VLAN, IPV4_noptions 11, GRE4])],
     [(UNROLLED PT_PROTO_VLAN, [ETHERNET, IPV4_noptions 12, GRE4]), (UNROLLED PT_PROTO_PPPOE, [ETHERNET, VLAN, IPV4_noptions 12, GRE4])],
     [(UNROLLED PT_PROTO_VLAN, [ETHERNET, IPV4_noptions 13, GRE4]), (UNROLLED PT_PROTO_PPPOE, [ETHERNET, VLAN, IPV4_noptions 13, GRE4])],
     [(UNROLLED PT_PROTO_VLAN, [ETHERNET, IPV4_noptions 14, GRE4]), (UNROLLED PT_PROTO_PPPOE, [ETHERNET, VLAN, IPV4_noptions 14, GRE4])],
     [(UNROLLED PT_PROTO_VLAN, [ETHERNET, IPV4_noptions 15, GRE4]), (UNROLLED PT_PROTO_PPPOE, [ETHERNET, VLAN, IPV4_noptions 15, GRE4])],
     [(UNROLLED PT_PROTO_VLAN, [IEEE8023, IPV4_noptions 0, GRE4]), (UNROLLED PT_PROTO_PPPOE, [IEEE8023, VLAN, IPV4_noptions 0, GRE4])],
     [(UNROLLED PT_PROTO_VLAN, [IEEE8023, IPV4_noptions 1, GRE4]), (UNROLLED PT_PROTO_PPPOE, [IEEE8023, VLAN, IPV4_noptions 1, GRE4])],
     [(UNROLLED PT_PROTO_VLAN, [IEEE8023, IPV4_noptions 2, GRE4]), (UNROLLED PT_PROTO_PPPOE, [IEEE8023, VLAN, IPV4_noptions 2, GRE4])],
     [(UNROLLED PT_PROTO_VLAN, [IEEE8023, IPV4_noptions 3, GRE4]), (UNROLLED PT_PROTO_PPPOE, [IEEE8023, VLAN, IPV4_noptions 3, GRE4])],
     [(UNROLLED PT_PROTO_VLAN, [IEEE8023, IPV4_noptions 4, GRE4]), (UNROLLED PT_PROTO_PPPOE, [IEEE8023, VLAN, IPV4_noptions 4, GRE4])],
     [(UNROLLED PT_PROTO_VLAN, [IEEE8023, IPV4_noptions 5, GRE4]), (UNROLLED PT_PROTO_PPPOE, [IEEE8023, VLAN, IPV4_noptions 5, GRE4])],
     [(UNROLLED PT_PROTO_VLAN, [IEEE8023, IPV4_noptions 6, GRE4]), (UNROLLED PT_PROTO_PPPOE, [IEEE8023, VLAN, IPV4_noptions 6, GRE4])],
     [(UNROLLED PT_PROTO_VLAN, [IEEE8023, IPV4_noptions 7, GRE4]), (UNROLLED PT_PROTO_PPPOE, [IEEE8023, VLAN, IPV4_noptions 7, GRE4])],
     [(UNROLLED PT_PROTO_VLAN, [IEEE8023, IPV4_noptions 8, GRE4]), (UNROLLED PT_PROTO_PPPOE, [IEEE8023, VLAN, IPV4_noptions 8, GRE4])],
     [(UNROLLED PT_PROTO_VLAN, [IEEE8023, IPV4_noptions 9, GRE4]), (UNROLLED PT_PROTO_PPPOE, [IEEE8023, VLAN, IPV4_noptions 9, GRE4])],
     [(UNROLLED PT_PROTO_VLAN, [IEEE8023, IPV4_noptions 10, GRE4]), (UNROLLED PT_PROTO_PPPOE, [IEEE8023, VLAN, IPV4_noptions 10, GRE4])],
     [(UNROLLED PT_PROTO_VLAN, [IEEE8023, IPV4_noptions 11, GRE4]), (UNROLLED PT_PROTO_PPPOE, [IEEE8023, VLAN, IPV4_noptions 11, GRE4])],
     [(UNROLLED PT_PROTO_VLAN, [IEEE8023, IPV4_noptions 12, GRE4]), (UNROLLED PT_PROTO_PPPOE, [IEEE8023, VLAN, IPV4_noptions 12, GRE4])],
     [(UNROLLED PT_PROTO_VLAN, [IEEE8023, IPV4_noptions 13, GRE4]), (UNROLLED PT_PROTO_PPPOE, [IEEE8023, VLAN, IPV4_noptions 13, GRE4])],
     [(UNROLLED PT_PROTO_VLAN, [IEEE8023, IPV4_noptions 14, GRE4]), (UNROLLED PT_PROTO_PPPOE, [IEEE8023, VLAN, IPV4_noptions 14, GRE4])],
     [(UNROLLED PT_PROTO_VLAN, [IEEE8023, IPV4_noptions 15, GRE4]), (UNROLLED PT_PROTO_PPPOE, [IEEE8023, VLAN, IPV4_noptions 15, GRE4])],
     [(UNROLLED PT_PROTO_VLAN, [ETHERNET, VLAN, IPV4_noptions 0, GRE4]), (UNROLLED PT_PROTO_PPPOE, [ETHERNET, VLAN, VLAN, IPV4_noptions 0, GRE4])],
     [(UNROLLED PT_PROTO_VLAN, [ETHERNET, VLAN, IPV4_noptions 1, GRE4]), (UNROLLED PT_PROTO_PPPOE, [ETHERNET, VLAN, VLAN, IPV4_noptions 1, GRE4])],
     [(UNROLLED PT_PROTO_VLAN, [ETHERNET, VLAN, IPV4_noptions 2, GRE4]), (UNROLLED PT_PROTO_PPPOE, [ETHERNET, VLAN, VLAN, IPV4_noptions 2, GRE4])],
     [(UNROLLED PT_PROTO_VLAN, [ETHERNET, VLAN, IPV4_noptions 3, GRE4]), (UNROLLED PT_PROTO_PPPOE, [ETHERNET, VLAN, VLAN, IPV4_noptions 3, GRE4])],
     [(UNROLLED PT_PROTO_VLAN, [ETHERNET, VLAN, IPV4_noptions 4, GRE4]), (UNROLLED PT_PROTO_PPPOE, [ETHERNET, VLAN, VLAN, IPV4_noptions 4, GRE4])],
     [(UNROLLED PT_PROTO_VLAN, [ETHERNET, VLAN, IPV4_noptions 5, GRE4]), (UNROLLED PT_PROTO_PPPOE, [ETHERNET, VLAN, VLAN, IPV4_noptions 5, GRE4])],
     [(UNROLLED PT_PROTO_VLAN, [ETHERNET, VLAN, IPV4_noptions 6, GRE4]), (UNROLLED PT_PROTO_PPPOE, [ETHERNET, VLAN, VLAN, IPV4_noptions 6, GRE4])],
     [(UNROLLED PT_PROTO_VLAN, [ETHERNET, VLAN, IPV4_noptions 7, GRE4]), (UNROLLED PT_PROTO_PPPOE, [ETHERNET, VLAN, VLAN, IPV4_noptions 7, GRE4])],
     [(UNROLLED PT_PROTO_VLAN, [ETHERNET, VLAN, IPV4_noptions 8, GRE4]), (UNROLLED PT_PROTO_PPPOE, [ETHERNET, VLAN, VLAN, IPV4_noptions 8, GRE4])],
     [(UNROLLED PT_PROTO_VLAN, [ETHERNET, VLAN, IPV4_noptions 9, GRE4]), (UNROLLED PT_PROTO_PPPOE, [ETHERNET, VLAN, VLAN, IPV4_noptions 9, GRE4])],
     [(UNROLLED PT_PROTO_VLAN, [ETHERNET, VLAN, IPV4_noptions 10, GRE4]), (UNROLLED PT_PROTO_PPPOE, [ETHERNET, VLAN, VLAN, IPV4_noptions 10, GRE4])],
     [(UNROLLED PT_PROTO_VLAN, [ETHERNET, VLAN, IPV4_noptions 11, GRE4]), (UNROLLED PT_PROTO_PPPOE, [ETHERNET, VLAN, VLAN, IPV4_noptions 11, GRE4])],
     [(UNROLLED PT_PROTO_VLAN, [ETHERNET, VLAN, IPV4_noptions 12, GRE4]), (UNROLLED PT_PROTO_PPPOE, [ETHERNET, VLAN, VLAN, IPV4_noptions 12, GRE4])],
     [(UNROLLED PT_PROTO_VLAN, [ETHERNET, VLAN, IPV4_noptions 13, GRE4]), (UNROLLED PT_PROTO_PPPOE, [ETHERNET, VLAN, VLAN, IPV4_noptions 13, GRE4])],
     [(UNROLLED PT_PROTO_VLAN, [ETHERNET, VLAN, IPV4_noptions 14, GRE4]), (UNROLLED PT_PROTO_PPPOE, [ETHERNET, VLAN, VLAN, IPV4_noptions 14, GRE4])],
     [(UNROLLED PT_PROTO_VLAN, [ETHERNET, VLAN, IPV4_noptions 15, GRE4]), (UNROLLED PT_PROTO_PPPOE, [ETHERNET, VLAN, VLAN, IPV4_noptions 15, GRE4])],
     [(UNROLLED PT_PROTO_VLAN, [IEEE8023, VLAN, IPV4_noptions 0, GRE4]), (UNROLLED PT_PROTO_PPPOE, [IEEE8023, VLAN, VLAN, IPV4_noptions 0, GRE4])],
     [(UNROLLED PT_PROTO_VLAN, [IEEE8023, VLAN, IPV4_noptions 1, GRE4]), (UNROLLED PT_PROTO_PPPOE, [IEEE8023, VLAN, VLAN, IPV4_noptions 1, GRE4])],
     [(UNROLLED PT_PROTO_VLAN, [IEEE8023, VLAN, IPV4_noptions 2, GRE4]), (UNROLLED PT_PROTO_PPPOE, [IEEE8023, VLAN, VLAN, IPV4_noptions 2, GRE4])],
     [(UNROLLED PT_PROTO_VLAN, [IEEE8023, VLAN, IPV4_noptions 3, GRE4]), (UNROLLED PT_PROTO_PPPOE, [IEEE8023, VLAN, VLAN, IPV4_noptions 3, GRE4])],
     [(UNROLLED PT_PROTO_VLAN, [IEEE8023, VLAN, IPV4_noptions 4, GRE4]), (UNROLLED PT_PROTO_PPPOE, [IEEE8023, VLAN, VLAN, IPV4_noptions 4, GRE4])],
     [(UNROLLED PT_PROTO_VLAN, [IEEE8023, VLAN, IPV4_noptions 5, GRE4]), (UNROLLED PT_PROTO_PPPOE, [IEEE8023, VLAN, VLAN, IPV4_noptions 5, GRE4])],
     [(UNROLLED PT_PROTO_VLAN, [IEEE8023, VLAN, IPV4_noptions 6, GRE4]), (UNROLLED PT_PROTO_PPPOE, [IEEE8023, VLAN, VLAN, IPV4_noptions 6, GRE4])],
     [(UNROLLED PT_PROTO_VLAN, [IEEE8023, VLAN, IPV4_noptions 7, GRE4]), (UNROLLED PT_PROTO_PPPOE, [IEEE8023, VLAN, VLAN, IPV4_noptions 7, GRE4])],
     [(UNROLLED PT_PROTO_VLAN, [IEEE8023, VLAN, IPV4_noptions 8, GRE4]), (UNROLLED PT_PROTO_PPPOE, [IEEE8023, VLAN, VLAN, IPV4_noptions 8, GRE4])],
     [(UNROLLED PT_PROTO_VLAN, [IEEE8023, VLAN, IPV4_noptions 9, GRE4]), (UNROLLED PT_PROTO_PPPOE, [IEEE8023, VLAN, VLAN, IPV4_noptions 9, GRE4])],
     [(UNROLLED PT_PROTO_VLAN, [IEEE8023, VLAN, IPV4_noptions 10, GRE4]), (UNROLLED PT_PROTO_PPPOE, [IEEE8023, VLAN, VLAN, IPV4_noptions 10, GRE4])],
     [(UNROLLED PT_PROTO_VLAN, [IEEE8023, VLAN, IPV4_noptions 11, GRE4]), (UNROLLED PT_PROTO_PPPOE, [IEEE8023, VLAN, VLAN, IPV4_noptions 11, GRE4])],
     [(UNROLLED PT_PROTO_VLAN, [IEEE8023, VLAN, IPV4_noptions 12, GRE4]), (UNROLLED PT_PROTO_PPPOE, [IEEE8023, VLAN, VLAN, IPV4_noptions 12, GRE4])],
     [(UNROLLED PT_PROTO_VLAN, [IEEE8023, VLAN, IPV4_noptions 13, GRE4]), (UNROLLED PT_PROTO_PPPOE, [IEEE8023, VLAN, VLAN, IPV4_noptions 13, GRE4])],
     [(UNROLLED PT_PROTO_VLAN, [IEEE8023, VLAN, IPV4_noptions 14, GRE4]), (UNROLLED PT_PROTO_PPPOE, [IEEE8023, VLAN, VLAN, IPV4_noptions 14, GRE4])],
     [(UNROLLED PT_PROTO_VLAN, [IEEE8023, VLAN, IPV4_noptions 15, GRE4]), (UNROLLED PT_PROTO_PPPOE, [IEEE8023, VLAN, VLAN, IPV4_noptions 15, GRE4])],
     [(UNROLLED PT_PROTO_PPPOE, [ETHERNET, IPV6])],
     [(UNROLLED PT_PROTO_ISID, [ETHERNET, IPV6])],
     [],
     [(UNROLLED PT_PROTO_PPPOE, [IEEE8023, IPV6])],
     [(UNROLLED PT_PROTO_VLAN, [ETHERNET, IPV6]), (UNROLLED PT_PROTO_PPPOE, [ETHERNET, VLAN, IPV6])],
     [(UNROLLED PT_PROTO_VLAN, [IEEE8023, IPV6]), (UNROLLED PT_PROTO_PPPOE, [IEEE8023, VLAN, IPV6])],
     [(UNROLLED PT_PROTO_VLAN, [ETHERNET, VLAN, IPV6]), (UNROLLED PT_PROTO_PPPOE, [ETHERNET, VLAN, VLAN, IPV6])],
     [(UNROLLED PT_PROTO_VLAN, [IEEE8023, VLAN, IPV6]), (UNROLLED PT_PROTO_PPPOE, [IEEE8023, VLAN, VLAN, IPV6])],
     [(UNROLLED PT_PROTO_PPPOE, [ETHERNET, IPV6, ICMPV6])],
     [(UNROLLED PT_PROTO_ISID, [ETHERNET, IPV6, ICMPV6])],
     [],
     [(UNROLLED PT_PROTO_PPPOE, [IEEE8023, IPV6, ICMPV6])],
     [(UNROLLED PT_PROTO_VLAN, [ETHERNET, IPV6, ICMPV6]), (UNROLLED PT_PROTO_PPPOE, [ETHERNET, VLAN, IPV6, ICMPV6])],
     [(UNROLLED PT_PROTO_VLAN, [IEEE8023, IPV6, ICMPV6]), (UNROLLED PT_PROTO_PPPOE, [IEEE8023, VLAN, IPV6, ICMPV6])],
     [(UNROLLED PT_PROTO_VLAN, [ETHERNET, VLAN, IPV6, ICMPV6]), (UNROLLED PT_PROTO_PPPOE, [ETHERNET, VLAN, VLAN, IPV6, ICMPV6])],
     [(UNROLLED PT_PROTO_VLAN, [IEEE8023, VLAN, IPV6, ICMPV6]), (UNROLLED PT_PROTO_PPPOE, [IEEE8023, VLAN, VLAN, IPV6, ICMPV6])]]"

definition pop_table_9 :: "(unrolled \<times> pkt_type) list list" where
  "pop_table_9 =
    [[(UNROLLED PT_PROTO_PPPOE, [ETHERNET, IPV6, ICMPV6, Hdr PT_PROTO_ICMPV6_OPTS_LLADR_SRC])],
     [(UNROLLED PT_PROTO_ISID, [ETHERNET, IPV6, ICMPV6, Hdr PT_PROTO_ICMPV6_OPTS_LLADR_SRC])],
     [],
     [(UNROLLED PT_PROTO_PPPOE, [IEEE8023, IPV6, ICMPV6, Hdr PT_PROTO_ICMPV6_OPTS_LLADR_SRC])],
     [(UNROLLED PT_PROTO_VLAN, [ETHERNET, IPV6, ICMPV6, Hdr PT_PROTO_ICMPV6_OPTS_LLADR_SRC]), (UNROLLED PT_PROTO_PPPOE, [ETHERNET, VLAN, IPV6, ICMPV6, Hdr PT_PROTO_ICMPV6_OPTS_LLADR_SRC])],
     [(UNROLLED PT_PROTO_VLAN, [IEEE8023, IPV6, ICMPV6, Hdr PT_PROTO_ICMPV6_OPTS_LLADR_SRC]), (UNROLLED PT_PROTO_PPPOE, [IEEE8023, VLAN, IPV6, ICMPV6, Hdr PT_PROTO_ICMPV6_OPTS_LLADR_SRC])],
     [(UNROLLED PT_PROTO_VLAN, [ETHERNET, VLAN, IPV6, ICMPV6, Hdr PT_PROTO_ICMPV6_OPTS_LLADR_SRC]), (UNROLLED PT_PROTO_PPPOE, [ETHERNET, VLAN, VLAN, IPV6, ICMPV6, Hdr PT_PROTO_ICMPV6_OPTS_LLADR_SRC])],
     [(UNROLLED PT_PROTO_VLAN, [IEEE8023, VLAN, IPV6, ICMPV6, Hdr PT_PROTO_ICMPV6_OPTS_LLADR_SRC]), (UNROLLED PT_PROTO_PPPOE, [IEEE8023, VLAN, VLAN, IPV6, ICMPV6, Hdr PT_PROTO_ICMPV6_OPTS_LLADR_SRC])],
     [(UNROLLED PT_PROTO_PPPOE, [ETHERNET, IPV6, ICMPV6, Hdr PT_PROTO_ICMPV6_OPTS_LLADR_TGT])],
     [(UNROLLED PT_PROTO_ISID, [ETHERNET, IPV6, ICMPV6, Hdr PT_PROTO_ICMPV6_OPTS_LLADR_TGT])],
     [],
     [(UNROLLED PT_PROTO_PPPOE, [IEEE8023, IPV6, ICMPV6, Hdr PT_PROTO_ICMPV6_OPTS_LLADR_TGT])],
     [(UNROLLED PT_PROTO_VLAN, [ETHERNET, IPV6, ICMPV6, Hdr PT_PROTO_ICMPV6_OPTS_LLADR_TGT]), (UNROLLED PT_PROTO_PPPOE, [ETHERNET, VLAN, IPV6, ICMPV6, Hdr PT_PROTO_ICMPV6_OPTS_LLADR_TGT])],
     [(UNROLLED PT_PROTO_VLAN, [IEEE8023, IPV6, ICMPV6, Hdr PT_PROTO_ICMPV6_OPTS_LLADR_TGT]), (UNROLLED PT_PROTO_PPPOE, [IEEE8023, VLAN, IPV6, ICMPV6, Hdr PT_PROTO_ICMPV6_OPTS_LLADR_TGT])],
     [(UNROLLED PT_PROTO_VLAN, [ETHERNET, VLAN, IPV6, ICMPV6, Hdr PT_PROTO_ICMPV6_OPTS_LLADR_TGT]), (UNROLLED PT_PROTO_PPPOE, [ETHERNET, VLAN, VLAN, IPV6, ICMPV6, Hdr PT_PROTO_ICMPV6_OPTS_LLADR_TGT])],
     [(UNROLLED PT_PROTO_VLAN, [IEEE8023, VLAN, IPV6, ICMPV6, Hdr PT_PROTO_ICMPV6_OPTS_LLADR_TGT]), (UNROLLED PT_PROTO_PPPOE, [IEEE8023, VLAN, VLAN, IPV6, ICMPV6, Hdr PT_PROTO_ICMPV6_OPTS_LLADR_TGT])],
     [(UNROLLED PT_PROTO_PPPOE, [ETHERNET, IPV6, ICMPV6, Hdr PT_PROTO_ICMPV6_OPTS_PREFIX_INFO])],
     [(UNROLLED PT_PROTO_ISID, [ETHERNET, IPV6, ICMPV6, Hdr PT_PROTO_ICMPV6_OPTS_PREFIX_INFO])],
     [],
     [(UNROLLED PT_PROTO_PPPOE, [IEEE8023, IPV6, ICMPV6, Hdr PT_PROTO_ICMPV6_OPTS_PREFIX_INFO])],
     [(UNROLLED PT_PROTO_VLAN, [ETHERNET, IPV6, ICMPV6, Hdr PT_PROTO_ICMPV6_OPTS_PREFIX_INFO]), (UNROLLED PT_PROTO_PPPOE, [ETHERNET, VLAN, IPV6, ICMPV6, Hdr PT_PROTO_ICMPV6_OPTS_PREFIX_INFO])],
     [(UNROLLED PT_PROTO_VLAN, [IEEE8023, IPV6, ICMPV6, Hdr PT_PROTO_ICMPV6_OPTS_PREFIX_INFO]), (UNROLLED PT_PROTO_PPPOE, [IEEE8023, VLAN, IPV6, ICMPV6, Hdr PT_PROTO_ICMPV6_OPTS_PREFIX_INFO])],
     [(UNROLLED PT_PROTO_VLAN, [ETHERNET, VLAN, IPV6, ICMPV6, Hdr PT_PROTO_ICMPV6_OPTS_PREFIX_INFO]), (UNROLLED PT_PROTO_PPPOE, [ETHERNET, VLAN, VLAN, IPV6, ICMPV6, Hdr PT_PROTO_ICMPV6_OPTS_PREFIX_INFO])],
     [(UNROLLED PT_PROTO_VLAN, [IEEE8023, VLAN, IPV6, ICMPV6, Hdr PT_PROTO_ICMPV6_OPTS_PREFIX_INFO]), (UNROLLED PT_PROTO_PPPOE, [IEEE8023, VLAN, VLAN, IPV6, ICMPV6, Hdr PT_PROTO_ICMPV6_OPTS_PREFIX_INFO])],
     [(UNROLLED PT_PROTO_PPPOE, [ETHERNET, IPV6, ICMPV6, Hdr PT_PROTO_ICMPV6_RTR_SOL])],
     [(UNROLLED PT_PROTO_ISID, [ETHERNET, IPV6, ICMPV6, Hdr PT_PROTO_ICMPV6_RTR_SOL])],
     [],
     [(UNROLLED PT_PROTO_PPPOE, [IEEE8023, IPV6, ICMPV6, Hdr PT_PROTO_ICMPV6_RTR_SOL])],
     [(UNROLLED PT_PROTO_VLAN, [ETHERNET, IPV6, ICMPV6, Hdr PT_PROTO_ICMPV6_RTR_SOL]), (UNROLLED PT_PROTO_PPPOE, [ETHERNET, VLAN, IPV6, ICMPV6, Hdr PT_PROTO_ICMPV6_RTR_SOL])],
     [(UNROLLED PT_PROTO_VLAN, [IEEE8023, IPV6, ICMPV6, Hdr PT_PROTO_ICMPV6_RTR_SOL]), (UNROLLED PT_PROTO_PPPOE, [IEEE8023, VLAN, IPV6, ICMPV6, Hdr PT_PROTO_ICMPV6_RTR_SOL])],
     [(UNROLLED PT_PROTO_VLAN, [ETHERNET, VLAN, IPV6, ICMPV6, Hdr PT_PROTO_ICMPV6_RTR_SOL]), (UNROLLED PT_PROTO_PPPOE, [ETHERNET, VLAN, VLAN, IPV6, ICMPV6, Hdr PT_PROTO_ICMPV6_RTR_SOL])],
     [(UNROLLED PT_PROTO_VLAN, [IEEE8023, VLAN, IPV6, ICMPV6, Hdr PT_PROTO_ICMPV6_RTR_SOL]), (UNROLLED PT_PROTO_PPPOE, [IEEE8023, VLAN, VLAN, IPV6, ICMPV6, Hdr PT_PROTO_ICMPV6_RTR_SOL])],
     [(UNROLLED PT_PROTO_PPPOE, [ETHERNET, IPV6, ICMPV6, Hdr PT_PROTO_ICMPV6_RTR_ADV])],
     [(UNROLLED PT_PROTO_ISID, [ETHERNET, IPV6, ICMPV6, Hdr PT_PROTO_ICMPV6_RTR_ADV])],
     [],
     [(UNROLLED PT_PROTO_PPPOE, [IEEE8023, IPV6, ICMPV6, Hdr PT_PROTO_ICMPV6_RTR_ADV])],
     [(UNROLLED PT_PROTO_VLAN, [ETHERNET, IPV6, ICMPV6, Hdr PT_PROTO_ICMPV6_RTR_ADV]), (UNROLLED PT_PROTO_PPPOE, [ETHERNET, VLAN, IPV6, ICMPV6, Hdr PT_PROTO_ICMPV6_RTR_ADV])],
     [(UNROLLED PT_PROTO_VLAN, [IEEE8023, IPV6, ICMPV6, Hdr PT_PROTO_ICMPV6_RTR_ADV]), (UNROLLED PT_PROTO_PPPOE, [IEEE8023, VLAN, IPV6, ICMPV6, Hdr PT_PROTO_ICMPV6_RTR_ADV])],
     [(UNROLLED PT_PROTO_VLAN, [ETHERNET, VLAN, IPV6, ICMPV6, Hdr PT_PROTO_ICMPV6_RTR_ADV]), (UNROLLED PT_PROTO_PPPOE, [ETHERNET, VLAN, VLAN, IPV6, ICMPV6, Hdr PT_PROTO_ICMPV6_RTR_ADV])],
     [(UNROLLED PT_PROTO_VLAN, [IEEE8023, VLAN, IPV6, ICMPV6, Hdr PT_PROTO_ICMPV6_RTR_ADV]), (UNROLLED PT_PROTO_PPPOE, [IEEE8023, VLAN, VLAN, IPV6, ICMPV6, Hdr PT_PROTO_ICMPV6_RTR_ADV])],
     [(UNROLLED PT_PROTO_PPPOE, [ETHERNET, IPV6, ICMPV6, Hdr PT_PROTO_ICMPV6_NEIGH_SOL])],
     [(UNROLLED PT_PROTO_ISID, [ETHERNET, IPV6, ICMPV6, Hdr PT_PROTO_ICMPV6_NEIGH_SOL])],
     [],
     [(UNROLLED PT_PROTO_PPPOE, [IEEE8023, IPV6, ICMPV6, Hdr PT_PROTO_ICMPV6_NEIGH_SOL])],
     [(UNROLLED PT_PROTO_VLAN, [ETHERNET, IPV6, ICMPV6, Hdr PT_PROTO_ICMPV6_NEIGH_SOL]), (UNROLLED PT_PROTO_PPPOE, [ETHERNET, VLAN, IPV6, ICMPV6, Hdr PT_PROTO_ICMPV6_NEIGH_SOL])],
     [(UNROLLED PT_PROTO_VLAN, [IEEE8023, IPV6, ICMPV6, Hdr PT_PROTO_ICMPV6_NEIGH_SOL]), (UNROLLED PT_PROTO_PPPOE, [IEEE8023, VLAN, IPV6, ICMPV6, Hdr PT_PROTO_ICMPV6_NEIGH_SOL])],
     [(UNROLLED PT_PROTO_VLAN, [ETHERNET, VLAN, IPV6, ICMPV6, Hdr PT_PROTO_ICMPV6_NEIGH_SOL]), (UNROLLED PT_PROTO_PPPOE, [ETHERNET, VLAN, VLAN, IPV6, ICMPV6, Hdr PT_PROTO_ICMPV6_NEIGH_SOL])],
     [(UNROLLED PT_PROTO_VLAN, [IEEE8023, VLAN, IPV6, ICMPV6, Hdr PT_PROTO_ICMPV6_NEIGH_SOL]), (UNROLLED PT_PROTO_PPPOE, [IEEE8023, VLAN, VLAN, IPV6, ICMPV6, Hdr PT_PROTO_ICMPV6_NEIGH_SOL])],
     [(UNROLLED PT_PROTO_PPPOE, [ETHERNET, IPV6, ICMPV6, Hdr PT_PROTO_ICMPV6_NEIGH_ADV])],
     [(UNROLLED PT_PROTO_ISID, [ETHERNET, IPV6, ICMPV6, Hdr PT_PROTO_ICMPV6_NEIGH_ADV])],
     [],
     [(UNROLLED PT_PROTO_PPPOE, [IEEE8023, IPV6, ICMPV6, Hdr PT_PROTO_ICMPV6_NEIGH_ADV])],
     [(UNROLLED PT_PROTO_VLAN, [ETHERNET, IPV6, ICMPV6, Hdr PT_PROTO_ICMPV6_NEIGH_ADV]), (UNROLLED PT_PROTO_PPPOE, [ETHERNET, VLAN, IPV6, ICMPV6, Hdr PT_PROTO_ICMPV6_NEIGH_ADV])],
     [(UNROLLED PT_PROTO_VLAN, [IEEE8023, IPV6, ICMPV6, Hdr PT_PROTO_ICMPV6_NEIGH_ADV]), (UNROLLED PT_PROTO_PPPOE, [IEEE8023, VLAN, IPV6, ICMPV6, Hdr PT_PROTO_ICMPV6_NEIGH_ADV])],
     [(UNROLLED PT_PROTO_VLAN, [ETHERNET, VLAN, IPV6, ICMPV6, Hdr PT_PROTO_ICMPV6_NEIGH_ADV]), (UNROLLED PT_PROTO_PPPOE, [ETHERNET, VLAN, VLAN, IPV6, ICMPV6, Hdr PT_PROTO_ICMPV6_NEIGH_ADV])],
     [(UNROLLED PT_PROTO_VLAN, [IEEE8023, VLAN, IPV6, ICMPV6, Hdr PT_PROTO_ICMPV6_NEIGH_ADV]), (UNROLLED PT_PROTO_PPPOE, [IEEE8023, VLAN, VLAN, IPV6, ICMPV6, Hdr PT_PROTO_ICMPV6_NEIGH_ADV])],
     [(UNROLLED PT_PROTO_PPPOE, [ETHERNET, IPV6, ICMPV6, Hdr PT_PROTO_ICMPV6_RTR_SOL, Hdr PT_PROTO_ICMPV6_RTR_SOL_OPTS_LLADR_SRC])],
     [(UNROLLED PT_PROTO_ISID, [ETHERNET, IPV6, ICMPV6, Hdr PT_PROTO_ICMPV6_RTR_SOL, Hdr PT_PROTO_ICMPV6_RTR_SOL_OPTS_LLADR_SRC])],
     [],
     [(UNROLLED PT_PROTO_PPPOE, [IEEE8023, IPV6, ICMPV6, Hdr PT_PROTO_ICMPV6_RTR_SOL, Hdr PT_PROTO_ICMPV6_RTR_SOL_OPTS_LLADR_SRC])],
     [(UNROLLED PT_PROTO_VLAN, [ETHERNET, IPV6, ICMPV6, Hdr PT_PROTO_ICMPV6_RTR_SOL, Hdr PT_PROTO_ICMPV6_RTR_SOL_OPTS_LLADR_SRC]), (UNROLLED PT_PROTO_PPPOE, [ETHERNET, VLAN, IPV6, ICMPV6, Hdr PT_PROTO_ICMPV6_RTR_SOL, Hdr PT_PROTO_ICMPV6_RTR_SOL_OPTS_LLADR_SRC])],
     [(UNROLLED PT_PROTO_VLAN, [IEEE8023, IPV6, ICMPV6, Hdr PT_PROTO_ICMPV6_RTR_SOL, Hdr PT_PROTO_ICMPV6_RTR_SOL_OPTS_LLADR_SRC]), (UNROLLED PT_PROTO_PPPOE, [IEEE8023, VLAN, IPV6, ICMPV6, Hdr PT_PROTO_ICMPV6_RTR_SOL, Hdr PT_PROTO_ICMPV6_RTR_SOL_OPTS_LLADR_SRC])],
     [(UNROLLED PT_PROTO_VLAN, [ETHERNET, VLAN, IPV6, ICMPV6, Hdr PT_PROTO_ICMPV6_RTR_SOL, Hdr PT_PROTO_ICMPV6_RTR_SOL_OPTS_LLADR_SRC]), (UNROLLED PT_PROTO_PPPOE, [ETHERNET, VLAN, VLAN, IPV6, ICMPV6, Hdr PT_PROTO_ICMPV6_RTR_SOL, Hdr PT_PROTO_ICMPV6_RTR_SOL_OPTS_LLADR_SRC])],
     [(UNROLLED PT_PROTO_VLAN, [IEEE8023, VLAN, IPV6, ICMPV6, Hdr PT_PROTO_ICMPV6_RTR_SOL, Hdr PT_PROTO_ICMPV6_RTR_SOL_OPTS_LLADR_SRC]), (UNROLLED PT_PROTO_PPPOE, [IEEE8023, VLAN, VLAN, IPV6, ICMPV6, Hdr PT_PROTO_ICMPV6_RTR_SOL, Hdr PT_PROTO_ICMPV6_RTR_SOL_OPTS_LLADR_SRC])],
     [(UNROLLED PT_PROTO_PPPOE, [ETHERNET, IPV6, ICMPV6, Hdr PT_PROTO_ICMPV6_RTR_ADV, Hdr PT_PROTO_ICMPV6_RTR_ADV_OPTS_LLADR_SRC])],
     [(UNROLLED PT_PROTO_ISID, [ETHERNET, IPV6, ICMPV6, Hdr PT_PROTO_ICMPV6_RTR_ADV, Hdr PT_PROTO_ICMPV6_RTR_ADV_OPTS_LLADR_SRC])],
     [],
     [(UNROLLED PT_PROTO_PPPOE, [IEEE8023, IPV6, ICMPV6, Hdr PT_PROTO_ICMPV6_RTR_ADV, Hdr PT_PROTO_ICMPV6_RTR_ADV_OPTS_LLADR_SRC])],
     [(UNROLLED PT_PROTO_VLAN, [ETHERNET, IPV6, ICMPV6, Hdr PT_PROTO_ICMPV6_RTR_ADV, Hdr PT_PROTO_ICMPV6_RTR_ADV_OPTS_LLADR_SRC]), (UNROLLED PT_PROTO_PPPOE, [ETHERNET, VLAN, IPV6, ICMPV6, Hdr PT_PROTO_ICMPV6_RTR_ADV, Hdr PT_PROTO_ICMPV6_RTR_ADV_OPTS_LLADR_SRC])],
     [(UNROLLED PT_PROTO_VLAN, [IEEE8023, IPV6, ICMPV6, Hdr PT_PROTO_ICMPV6_RTR_ADV, Hdr PT_PROTO_ICMPV6_RTR_ADV_OPTS_LLADR_SRC]), (UNROLLED PT_PROTO_PPPOE, [IEEE8023, VLAN, IPV6, ICMPV6, Hdr PT_PROTO_ICMPV6_RTR_ADV, Hdr PT_PROTO_ICMPV6_RTR_ADV_OPTS_LLADR_SRC])],
     [(UNROLLED PT_PROTO_VLAN, [ETHERNET, VLAN, IPV6, ICMPV6, Hdr PT_PROTO_ICMPV6_RTR_ADV, Hdr PT_PROTO_ICMPV6_RTR_ADV_OPTS_LLADR_SRC]), (UNROLLED PT_PROTO_PPPOE, [ETHERNET, VLAN, VLAN, IPV6, ICMPV6, Hdr PT_PROTO_ICMPV6_RTR_ADV, Hdr PT_PROTO_ICMPV6_RTR_ADV_OPTS_LLADR_SRC])],
     [(UNROLLED PT_PROTO_VLAN, [IEEE8023, VLAN, IPV6, ICMPV6, Hdr PT_PROTO_ICMPV6_RTR_ADV, Hdr PT_PROTO_ICMPV6_RTR_ADV_OPTS_LLADR_SRC]), (UNROLLED PT_PROTO_PPPOE, [IEEE8023, VLAN, VLAN, IPV6, ICMPV6, Hdr PT_PROTO_ICMPV6_RTR_ADV, Hdr PT_PROTO_ICMPV6_RTR_ADV_OPTS_LLADR_SRC])],
     [(UNROLLED PT_PROTO_PPPOE, [ETHERNET, IPV6, ICMPV6, Hdr PT_PROTO_ICMPV6_NEIGH_SOL, Hdr PT_PROTO_ICMPV6_NEIGH_SOL_OPTS_LLADR_SRC])],
     [(UNROLLED PT_PROTO_ISID, [ETHERNET, IPV6, ICMPV6, Hdr PT_PROTO_ICMPV6_NEIGH_SOL, Hdr PT_PROTO_ICMPV6_NEIGH_SOL_OPTS_LLADR_SRC])],
     [],
     [(UNROLLED PT_PROTO_PPPOE, [IEEE8023, IPV6, ICMPV6, Hdr PT_PROTO_ICMPV6_NEIGH_SOL, Hdr PT_PROTO_ICMPV6_NEIGH_SOL_OPTS_LLADR_SRC])],
     [(UNROLLED PT_PROTO_VLAN, [ETHERNET, IPV6, ICMPV6, Hdr PT_PROTO_ICMPV6_NEIGH_SOL, Hdr PT_PROTO_ICMPV6_NEIGH_SOL_OPTS_LLADR_SRC]), (UNROLLED PT_PROTO_PPPOE, [ETHERNET, VLAN, IPV6, ICMPV6, Hdr PT_PROTO_ICMPV6_NEIGH_SOL, Hdr PT_PROTO_ICMPV6_NEIGH_SOL_OPTS_LLADR_SRC])],
     [(UNROLLED PT_PROTO_VLAN, [IEEE8023, IPV6, ICMPV6, Hdr PT_PROTO_ICMPV6_NEIGH_SOL, Hdr PT_PROTO_ICMPV6_NEIGH_SOL_OPTS_LLADR_SRC]), (UNROLLED PT_PROTO_PPPOE, [IEEE8023, VLAN, IPV6, ICMPV6, Hdr PT_PROTO_ICMPV6_NEIGH_SOL, Hdr PT_PROTO_ICMPV6_NEIGH_SOL_OPTS_LLADR_SRC])],
     [(UNROLLED PT_PROTO_VLAN, [ETHERNET, VLAN, IPV6, ICMPV6, Hdr PT_PROTO_ICMPV6_NEIGH_SOL, Hdr PT_PROTO_ICMPV6_NEIGH_SOL_OPTS_LLADR_SRC]), (UNROLLED PT_PROTO_PPPOE, [ETHERNET, VLAN, VLAN, IPV6, ICMPV6, Hdr PT_PROTO_ICMPV6_NEIGH_SOL, Hdr PT_PROTO_ICMPV6_NEIGH_SOL_OPTS_LLADR_SRC])],
     [(UNROLLED PT_PROTO_VLAN, [IEEE8023, VLAN, IPV6, ICMPV6, Hdr PT_PROTO_ICMPV6_NEIGH_SOL, Hdr PT_PROTO_ICMPV6_NEIGH_SOL_OPTS_LLADR_SRC]), (UNROLLED PT_PROTO_PPPOE, [IEEE8023, VLAN, VLAN, IPV6, ICMPV6, Hdr PT_PROTO_ICMPV6_NEIGH_SOL, Hdr PT_PROTO_ICMPV6_NEIGH_SOL_OPTS_LLADR_SRC])],
     [(UNROLLED PT_PROTO_PPPOE, [ETHERNET, IPV6, ICMPV6, Hdr PT_PROTO_ICMPV6_NEIGH_ADV, Hdr PT_PROTO_ICMPV6_NEIGH_ADV_OPTS_LLADR_TGT])],
     [(UNROLLED PT_PROTO_ISID, [ETHERNET, IPV6, ICMPV6, Hdr PT_PROTO_ICMPV6_NEIGH_ADV, Hdr PT_PROTO_ICMPV6_NEIGH_ADV_OPTS_LLADR_TGT])],
     [],
     [(UNROLLED PT_PROTO_PPPOE, [IEEE8023, IPV6, ICMPV6, Hdr PT_PROTO_ICMPV6_NEIGH_ADV, Hdr PT_PROTO_ICMPV6_NEIGH_ADV_OPTS_LLADR_TGT])],
     [(UNROLLED PT_PROTO_VLAN, [ETHERNET, IPV6, ICMPV6, Hdr PT_PROTO_ICMPV6_NEIGH_ADV, Hdr PT_PROTO_ICMPV6_NEIGH_ADV_OPTS_LLADR_TGT]), (UNROLLED PT_PROTO_PPPOE, [ETHERNET, VLAN, IPV6, ICMPV6, Hdr PT_PROTO_ICMPV6_NEIGH_ADV, Hdr PT_PROTO_ICMPV6_NEIGH_ADV_OPTS_LLADR_TGT])],
     [(UNROLLED PT_PROTO_VLAN, [IEEE8023, IPV6, ICMPV6, Hdr PT_PROTO_ICMPV6_NEIGH_ADV, Hdr PT_PROTO_ICMPV6_NEIGH_ADV_OPTS_LLADR_TGT]), (UNROLLED PT_PROTO_PPPOE, [IEEE8023, VLAN, IPV6, ICMPV6, Hdr PT_PROTO_ICMPV6_NEIGH_ADV, Hdr PT_PROTO_ICMPV6_NEIGH_ADV_OPTS_LLADR_TGT])],
     [(UNROLLED PT_PROTO_VLAN, [ETHERNET, VLAN, IPV6, ICMPV6, Hdr PT_PROTO_ICMPV6_NEIGH_ADV, Hdr PT_PROTO_ICMPV6_NEIGH_ADV_OPTS_LLADR_TGT]), (UNROLLED PT_PROTO_PPPOE, [ETHERNET, VLAN, VLAN, IPV6, ICMPV6, Hdr PT_PROTO_ICMPV6_NEIGH_ADV, Hdr PT_PROTO_ICMPV6_NEIGH_ADV_OPTS_LLADR_TGT])],
     [(UNROLLED PT_PROTO_VLAN, [IEEE8023, VLAN, IPV6, ICMPV6, Hdr PT_PROTO_ICMPV6_NEIGH_ADV, Hdr PT_PROTO_ICMPV6_NEIGH_ADV_OPTS_LLADR_TGT]), (UNROLLED PT_PROTO_PPPOE, [IEEE8023, VLAN, VLAN, IPV6, ICMPV6, Hdr PT_PROTO_ICMPV6_NEIGH_ADV, Hdr PT_PROTO_ICMPV6_NEIGH_ADV_OPTS_LLADR_TGT])],
     [(UNROLLED PT_PROTO_PPPOE, [ETHERNET, IPV6, TCP])],
     [(UNROLLED PT_PROTO_ISID, [ETHERNET, IPV6, TCP])],
     [],
     [(UNROLLED PT_PROTO_PPPOE, [IEEE8023, IPV6, TCP])],
     [(UNROLLED PT_PROTO_VLAN, [ETHERNET, IPV6, TCP]), (UNROLLED PT_PROTO_PPPOE, [ETHERNET, VLAN, IPV6, TCP])],
     [(UNROLLED PT_PROTO_VLAN, [IEEE8023, IPV6, TCP]), (UNROLLED PT_PROTO_PPPOE, [IEEE8023, VLAN, IPV6, TCP])],
     [(UNROLLED PT_PROTO_VLAN, [ETHERNET, VLAN, IPV6, TCP]), (UNROLLED PT_PROTO_PPPOE, [ETHERNET, VLAN, VLAN, IPV6, TCP])],
     [(UNROLLED PT_PROTO_VLAN, [IEEE8023, VLAN, IPV6, TCP]), (UNROLLED PT_PROTO_PPPOE, [IEEE8023, VLAN, VLAN, IPV6, TCP])],
     [(UNROLLED PT_PROTO_PPPOE, [ETHERNET, IPV6, UDP])],
     [(UNROLLED PT_PROTO_ISID, [ETHERNET, IPV6, UDP])],
     [],
     [(UNROLLED PT_PROTO_PPPOE, [IEEE8023, IPV6, UDP])],
     [(UNROLLED PT_PROTO_VLAN, [ETHERNET, IPV6, UDP]), (UNROLLED PT_PROTO_PPPOE, [ETHERNET, VLAN, IPV6, UDP])],
     [(UNROLLED PT_PROTO_VLAN, [IEEE8023, IPV6, UDP]), (UNROLLED PT_PROTO_PPPOE, [IEEE8023, VLAN, IPV6, UDP])],
     [(UNROLLED PT_PROTO_VLAN, [ETHERNET, VLAN, IPV6, UDP]), (UNROLLED PT_PROTO_PPPOE, [ETHERNET, VLAN, VLAN, IPV6, UDP])],
     [(UNROLLED PT_PROTO_VLAN, [IEEE8023, VLAN, IPV6, UDP]), (UNROLLED PT_PROTO_PPPOE, [IEEE8023, VLAN, VLAN, IPV6, UDP])],
     [(UNROLLED PT_PROTO_PPPOE, [ETHERNET, IPV6, UDP, GTPU6]), (UNROLLED PT_PROTO_GTPU6, [ETHERNET])],
     [(UNROLLED PT_PROTO_ISID, [ETHERNET, IPV6, UDP, GTPU6])],
     [],
     [(UNROLLED PT_PROTO_PPPOE, [IEEE8023, IPV6, UDP, GTPU6]), (UNROLLED PT_PROTO_GTPU6, [IEEE8023])],
     [(UNROLLED PT_PROTO_VLAN, [ETHERNET, IPV6, UDP, GTPU6]), (UNROLLED PT_PROTO_PPPOE, [ETHERNET, VLAN, IPV6, UDP, GTPU6])],
     [(UNROLLED PT_PROTO_VLAN, [IEEE8023, IPV6, UDP, GTPU6]), (UNROLLED PT_PROTO_PPPOE, [IEEE8023, VLAN, IPV6, UDP, GTPU6])],
     [(UNROLLED PT_PROTO_VLAN, [ETHERNET, VLAN, IPV6, UDP, GTPU6]), (UNROLLED PT_PROTO_PPPOE, [ETHERNET, VLAN, VLAN, IPV6, UDP, GTPU6])],
     [(UNROLLED PT_PROTO_VLAN, [IEEE8023, VLAN, IPV6, UDP, GTPU6]), (UNROLLED PT_PROTO_PPPOE, [IEEE8023, VLAN, VLAN, IPV6, UDP, GTPU6])],
     [(UNROLLED PT_PROTO_PPPOE, [ETHERNET, IPV6, SCTP])],
     [(UNROLLED PT_PROTO_ISID, [ETHERNET, IPV6, SCTP])],
     [],
     [(UNROLLED PT_PROTO_PPPOE, [IEEE8023, IPV6, SCTP])],
     [(UNROLLED PT_PROTO_VLAN, [ETHERNET, IPV6, SCTP]), (UNROLLED PT_PROTO_PPPOE, [ETHERNET, VLAN, IPV6, SCTP])],
     [(UNROLLED PT_PROTO_VLAN, [IEEE8023, IPV6, SCTP]), (UNROLLED PT_PROTO_PPPOE, [IEEE8023, VLAN, IPV6, SCTP])],
     [(UNROLLED PT_PROTO_VLAN, [ETHERNET, VLAN, IPV6, SCTP]), (UNROLLED PT_PROTO_PPPOE, [ETHERNET, VLAN, VLAN, IPV6, SCTP])],
     [(UNROLLED PT_PROTO_VLAN, [IEEE8023, VLAN, IPV6, SCTP]), (UNROLLED PT_PROTO_PPPOE, [IEEE8023, VLAN, VLAN, IPV6, SCTP])],
     [(UNROLLED PT_PROTO_PPPOE, [ETHERNET, IPV6, GRE6]), (UNROLLED PT_PROTO_GRE6, [ETHERNET])],
     [(UNROLLED PT_PROTO_ISID, [ETHERNET, IPV6, GRE6])],
     [],
     [(UNROLLED PT_PROTO_PPPOE, [IEEE8023, IPV6, GRE6]), (UNROLLED PT_PROTO_GRE6, [IEEE8023])],
     [(UNROLLED PT_PROTO_VLAN, [ETHERNET, IPV6, GRE6]), (UNROLLED PT_PROTO_PPPOE, [ETHERNET, VLAN, IPV6, GRE6])],
     [(UNROLLED PT_PROTO_VLAN, [IEEE8023, IPV6, GRE6]), (UNROLLED PT_PROTO_PPPOE, [IEEE8023, VLAN, IPV6, GRE6])],
     [(UNROLLED PT_PROTO_VLAN, [ETHERNET, VLAN, IPV6, GRE6]), (UNROLLED PT_PROTO_PPPOE, [ETHERNET, VLAN, VLAN, IPV6, GRE6])],
     [(UNROLLED PT_PROTO_VLAN, [IEEE8023, VLAN, IPV6, GRE6]), (UNROLLED PT_PROTO_PPPOE, [IEEE8023, VLAN, VLAN, IPV6, GRE6])]]"

definition pop_table :: "(unrolled \<times> pkt_type) list list" where
  "pop_table =
     pop_table_1 @ pop_table_2 @ pop_table_3 @ pop_table_4 @ pop_table_5 @ pop_table_6 @ pop_table_7 @ pop_table_8 @ pop_table_9"

text \<open>A row as a list of the valid entries.\<close>

definition pop_row :: "pkt_type \<Rightarrow> (unrolled \<times> pkt_type) list" where
  "pop_row t =
     (let l2 = l2_part t; n = mpls_num_of_labels t; v = has t PT_PROTO_VLAN; ppp = has t PT_PROTO_PPP in
      if has t PT_PROTO_ISID then entry (\<not> v) PT_PROTO_ISID (if t = [ETHERNET, ISID] then t else remove1 ISID t)
      else entry (has t PT_PROTO_MPLS) PT_PROTO_MPLS (if 1 < n then l2 @ [MPLS_nlabels (n - 1)] else l2) @
           entry v PT_PROTO_VLAN (remove1 VLAN t) @
           entry (\<not> ppp) PT_PROTO_PPPOE (remove1 PPPOE t) @
           entry ppp PT_PROTO_PPP (remove1 PPP t) @
           entry (has t PT_PROTO_GTPU4 \<and> \<not> v) PT_PROTO_GTPU4 l2 @
           entry (has t PT_PROTO_GTPU6 \<and> \<not> v) PT_PROTO_GTPU6 l2 @
           entry (has t PT_PROTO_GRE4 \<and> \<not> v) PT_PROTO_GRE4 l2 @
           entry (has t PT_PROTO_GRE6 \<and> \<not> v) PT_PROTO_GRE6 l2)"

lemma pop_row: "map_of (pop_row t) = pop_transitions t"
proof
  fix u show "map_of (pop_row t) u = pop_transitions t u"
  proof (cases u)
    case (UNROLLED p)
    then show ?thesis
      by (cases p) (simp_all add: pop_row_def pop_transitions_def map_of_entry Let_def del: map_of_append)
  qed (simp add: pop_row_def pop_transitions_def map_of_entry Let_def del: map_of_append)
qed

lemma pop_table_1_rows: "map pop_row pt_enum_1 = pop_table_1"
  by code_simp

lemma pop_table_2_rows: "map pop_row pt_enum_2 = pop_table_2"
  by code_simp

lemma pop_table_3_rows: "map pop_row pt_enum_3 = pop_table_3"
  by code_simp

lemma pop_table_4_rows: "map pop_row pt_enum_4 = pop_table_4"
  by code_simp

lemma pop_table_5_rows: "map pop_row pt_enum_5 = pop_table_5"
  by code_simp

lemma pop_table_6_rows: "map pop_row pt_enum_6 = pop_table_6"
  by code_simp

lemma pop_table_7_rows: "map pop_row pt_enum_7 = pop_table_7"
  by code_simp

lemma pop_table_8_rows: "map pop_row pt_enum_8 = pop_table_8"
  by code_simp

lemma pop_table_9_rows: "map pop_row pt_enum_9 = pop_table_9"
  by code_simp

lemma pop_rows: "map pop_row pt_enum = pop_table"
  by (simp only: pt_enum_def pop_table_def map_append pop_table_1_rows pop_table_2_rows pop_table_3_rows pop_table_4_rows pop_table_5_rows pop_table_6_rows pop_table_7_rows pop_table_8_rows pop_table_9_rows)

text \<open>C21: on every one of the 1328 rows and on all columns of the tables of transitions, the definitions have the value of
  the table: parsing a header, pushing and popping a tag lead from a type to the type the table names, or nowhere
  where it says \<open>PT_INVALID\<close>.\<close>

theorem transition_tables_exact:
  "sparse_are parse_transitions parse_table \<and> sparse_are push_transitions push_table \<and> sparse_are pop_transitions pop_table"
  using parse_transitions_rows push_transitions_rows sparse_areI [OF pop_rows pop_row] by blast

end
