(* ===== verification/Of_Messages.thy ===== *)
theory Of_Messages
  imports Prelude
begin

text \<open>
  The data the OpenFlow 1.2 and 1.3 translation (\<open>openflow/openflow12\<close>, \<open>openflow/openflow13\<close>, below
  \<open>src/xdpd\<close>) works on: what the getters of a message return, what the accessors of the entries of the pipeline
  return, and the calls through which the translation builds the one from the other.

  Both sides belong to the ROFL library. A message is therefore the record of the results of its getters
  (\<open>None\<close> where a getter throws), an object of the pipeline the record of the results of its accessors, and what
  the code does to either is the sequence of its calls. How a call and a later result are related is not defined
  here; theorems that need it name it as a hypothesis.

  Values are numbers of 128 bits. A MAC or IP address is the number its bytes denote in network order, which is what
  \<open>get_mac\<close>, \<open>get_addr_hbo\<close> and \<open>pack\<close> followed by \<open>NTOHB128\<close> give.
\<close>

section \<open>Fields, matches and actions\<close>

text \<open>The fields of a match in OXM messages: those of OpenFlow and the experimenter fields.\<close>

datatype ofb =
    OXM_IN_PORT | OXM_IN_PHY_PORT | OXM_METADATA | OXM_ETH_DST | OXM_ETH_SRC | OXM_ETH_TYPE | OXM_VLAN_VID
    | OXM_VLAN_PCP | OXM_ARP_OP | OXM_ARP_SHA | OXM_ARP_SPA | OXM_ARP_THA | OXM_ARP_TPA | OXM_IP_DSCP
    | OXM_IP_ECN | OXM_IP_PROTO | OXM_IPV4_SRC | OXM_IPV4_DST | OXM_TCP_SRC | OXM_TCP_DST | OXM_UDP_SRC
    | OXM_UDP_DST | OXM_SCTP_SRC | OXM_SCTP_DST | OXM_ICMPV4_TYPE | OXM_ICMPV4_CODE | OXM_IPV6_SRC
    | OXM_IPV6_DST | OXM_IPV6_FLABEL | OXM_ICMPV6_TYPE | OXM_ICMPV6_CODE | OXM_IPV6_ND_TARGET | OXM_IPV6_ND_SLL
    | OXM_IPV6_ND_TLL | OXM_MPLS_LABEL | OXM_MPLS_TC | OXM_MPLS_BOS | OXM_TUNNEL_ID | OXM_PBB_ISID
    | OXM_IPV6_EXTHDR

datatype ofx =
    OXM_PPPOE_CODE | OXM_PPPOE_TYPE | OXM_PPPOE_SID | OXM_PPP_PROT | OXM_GTP_MSG_TYPE | OXM_GTP_TEID
    | OXM_CAPWAP_WBID | OXM_CAPWAP_RID | OXM_CAPWAP_FLAGS | OXM_WLAN_FC | OXM_WLAN_TYPE | OXM_WLAN_SUBTYPE
    | OXM_WLAN_DIRECTION | OXM_WLAN_ADDRESS_1 | OXM_WLAN_ADDRESS_2 | OXM_WLAN_ADDRESS_3 | OXM_GRE_VERSION
    | OXM_GRE_PROT_TYPE | OXM_GRE_KEY

datatype oxm = OFB ofb | OFX ofx

text \<open>The kinds of match of the pipeline are the fields: \<open>OF1X_MATCH_ETH_DST\<close> is \<open>OF1X_MATCH (OFB OXM_ETH_DST)\<close>. Of its
  actions those that set such a field are \<open>OF1X_AT_SET_FIELD\<close> with the field; four more, of OpenFlow 1.0 only, set a field of
  whichever protocol the packet has.\<close>

datatype match_type = OF1X_MATCH oxm

datatype action_type =
    OF1X_AT_NO_ACTION | OF1X_AT_COPY_TTL_IN | OF1X_AT_POP_VLAN | OF1X_AT_POP_MPLS | OF1X_AT_POP_PBB
    | OF1X_AT_POP_GRE | OF1X_AT_POP_WLAN | OF1X_AT_POP_PPPOE | OF1X_AT_POP_GTP | OF1X_AT_POP_CAPWAP
    | OF1X_AT_PUSH_CAPWAP | OF1X_AT_PUSH_GTP | OF1X_AT_PUSH_PPPOE | OF1X_AT_PUSH_WLAN | OF1X_AT_PUSH_GRE
    | OF1X_AT_PUSH_PBB | OF1X_AT_PUSH_MPLS | OF1X_AT_PUSH_VLAN | OF1X_AT_COPY_TTL_OUT | OF1X_AT_DEC_NW_TTL
    | OF1X_AT_SET_NW_TTL | OF1X_AT_DEC_MPLS_TTL | OF1X_AT_SET_MPLS_TTL | OF1X_AT_SET_QUEUE | OF1X_AT_GROUP
    | OF1X_AT_EXPERIMENTER | OF1X_AT_OUTPUT | OF1X_AT_SET_FIELD_NW_SRC | OF1X_AT_SET_FIELD_NW_DST
    | OF1X_AT_SET_FIELD_TP_SRC | OF1X_AT_SET_FIELD_TP_DST | OF1X_AT_SET_FIELD oxm

datatype vlan_presence = OF1X_MATCH_VLAN_NONE | OF1X_MATCH_VLAN_ANY | OF1X_MATCH_VLAN_SPECIFIC

text \<open>Constants of the library and of the build.\<close>

datatype port_feature =
    PORT_FEATURE_10MB_HD | PORT_FEATURE_10MB_FD | PORT_FEATURE_100MB_HD | PORT_FEATURE_100MB_FD
  | PORT_FEATURE_1GB_HD | PORT_FEATURE_1GB_FD | PORT_FEATURE_10GB_FD | PORT_FEATURE_40GB_FD
  | PORT_FEATURE_100GB_FD | PORT_FEATURE_1TB_FD

record ofp =
  OFPVID_PRESENT :: u16
  OFPVID_NONE :: u16
  OFPFF_SEND_FLOW_REM :: u16
  PORT_FEATURE :: "port_feature \<Rightarrow> u32"
  EXPERIMENTAL :: bool
  OF_NDEBUG :: bool

section \<open>Conversions to the integer types of C\<close>

definition as_u8 :: "u128 \<Rightarrow> u128" where "as_u8 v = ucast (ucast v :: u8)"
definition as_u16 :: "u128 \<Rightarrow> u128" where "as_u16 v = ucast (ucast v :: u16)"
definition as_u32 :: "u128 \<Rightarrow> u128" where "as_u32 v = ucast (ucast v :: u32)"
definition as_u48 :: "u128 \<Rightarrow> u128" where "as_u48 v = ucast (ucast v :: 48 word)"
definition as_u64 :: "u128 \<Rightarrow> u128" where "as_u64 v = ucast (ucast v :: u64)"

lemma as_uN: "as_u8 v = take_bit 8 v" "as_u16 v = take_bit 16 v" "as_u32 v = take_bit 32 v"
  "as_u48 v = take_bit 48 v" "as_u64 v = take_bit 64 v"
  unfolding as_u8_def as_u16_def as_u32_def as_u48_def as_u64_def
  by (auto intro!: bit_word_eqI simp: bit_simps)

section \<open>Messages\<close>

text \<open>A match: the value and the mask each field has.\<close>

record cofmatch =
  oxm_value :: "oxm \<Rightarrow> u128 option"
  oxm_mask :: "oxm \<Rightarrow> u128 option"

text \<open>The field of a set-field action: its class and number, and its getters.\<close>

datatype oxm_id = OFPXMC_OPENFLOW_BASIC ofb | OFPXMC_EXPERIMENTER ofx | OFPXMC_other

record coxmatch =
  oxm_id :: oxm_id
  u8value :: "u8 option"
  u16value :: "u16 option"
  u24value :: "u32 option"
  u32value :: "u32 option"
  u64value :: "u64 option"
  u128value :: "u128 option"
  u48value_as_lladdr :: "u64 option"

text \<open>An action of a message with what its getters return. An experimenter action has an experimenter, a type of
  action and an Ethertype; \<open>'x\<close> is what a set-field action holds.\<close>

datatype exp_id = PPPOE_EXP_ID | GTP_EXP_ID | CAPWAP_EXP_ID | WLAN_EXP_ID | GRE_EXP_ID | OTHER_EXP_ID

datatype exp_type = ACTION_PUSH | ACTION_POP | ACTION_other

datatype 'x cofaction =
    OFPAT_OUTPUT u32 u32
  | OFPAT_COPY_TTL_OUT
  | OFPAT_COPY_TTL_IN
  | OFPAT_SET_MPLS_TTL u8
  | OFPAT_DEC_MPLS_TTL
  | OFPAT_PUSH_VLAN u16
  | OFPAT_POP_VLAN
  | OFPAT_PUSH_MPLS u16
  | OFPAT_POP_MPLS u16
  | OFPAT_PUSH_PBB u16
  | OFPAT_POP_PBB
  | OFPAT_SET_QUEUE u32
  | OFPAT_GROUP u32
  | OFPAT_SET_NW_TTL u8
  | OFPAT_DEC_NW_TTL
  | OFPAT_SET_FIELD 'x
  | OFPAT_EXPERIMENTER exp_id exp_type u16
  | OFPAT_other

text \<open>A field for a set-field action in a message, made with a value by the constructor of its class
  (\<open>coxmatch_ofb_eth_dst\<close> and so on).\<close>

datatype new_oxm = new_coxmatch oxm u128

text \<open>The instructions of a message the translation makes, with the actions by their indices.\<close>

datatype cofinstruction =
    inst_apply_actions "(nat \<times> new_oxm cofaction) list"
  | inst_clear_actions
  | inst_write_actions "(nat \<times> new_oxm cofaction) list"
  | inst_write_metadata u64 u64
  | inst_goto_table u8
  | inst_meter u32

text \<open>Exceptions.\<close>

datatype of_exception = eFlowModUnknown | eBadActionBadType | eNotImplemented | getter_exception

text \<open>A flow-mod: the fields of its header, its match and the instructions it has.\<close>

record flow_mod =
  fm_flags :: u16
  fm_priority :: u16
  fm_cookie :: u64
  fm_cookie_mask :: u64
  fm_idle_timeout :: u16
  fm_hard_timeout :: u16
  fm_match :: cofmatch
  fm_apply_actions :: "coxmatch cofaction list option"
  fm_clear_actions :: bool
  fm_experimenter :: bool
  fm_goto_table :: "u8 option"
  fm_write_actions :: "coxmatch cofaction list option"
  fm_write_metadata :: "(u64 \<times> u64) option"

text \<open>A bucket of a group-mod, and of a reply with the buckets of a group.\<close>

record cofbucket =
  bk_actions :: "coxmatch cofaction list"
  bk_weight :: u16
  bk_watch_port :: u32
  bk_watch_group :: u32

record reply_bucket =
  rb_actions :: "(nat \<times> new_oxm cofaction) list"
  rb_watch_port :: u32
  rb_watch_group :: u32
  rb_weight :: u16

section \<open>Objects of the pipeline\<close>

record of1x_match =
  m_type :: match_type
  vlan_present :: vlan_presence
  match_value8 :: u8
  match_value16 :: u16
  match_value32 :: u32
  match_value64 :: u64
  match_value128 :: u128
  match_mask8 :: u8
  match_mask16 :: u16
  match_mask32 :: u32
  match_mask64 :: u64
  match_mask128 :: u128

record of1x_packet_action =
  a_type :: action_type
  action_field8 :: u8
  action_field16 :: u16
  action_field32 :: u32
  action_field64 :: u64
  action_field128 :: u128
  send_len :: u32

datatype instruction_type =
    OF1X_IT_NO_INSTRUCTION | OF1X_IT_APPLY_ACTIONS | OF1X_IT_CLEAR_ACTIONS | OF1X_IT_WRITE_ACTIONS
  | OF1X_IT_WRITE_METADATA | OF1X_IT_EXPERIMENTER | OF1X_IT_GOTO_TABLE | OF1X_IT_METER

text \<open>The actions of Write-Actions are an array of which the first \<open>num_of_actions\<close> are used.\<close>

record of1x_instruction =
  i_type :: instruction_type
  apply_actions :: "of1x_packet_action list"
  write_actions :: "of1x_packet_action list"
  num_of_actions :: nat
  metadata :: u64
  metadata_mask :: u64
  go_to_table :: u8

text \<open>The description of a bucket of a group.\<close>

record of1x_stats_bucket =
  b_actions :: "of1x_packet_action list"
  b_port :: u32
  b_group :: u32
  b_weight :: u16

section \<open>Calls\<close>

text \<open>Calls that make an object of the pipeline: the initialisers of matches, by the kind of match they make, and the
  one of actions, whose argument is the union of the integer types with all bytes outside the member written zero
  (\<open>wrap_uint_t\<close> after \<open>memset\<close>).\<close>

datatype match_call =
    init_match match_type u128
  | init_masked_match match_type u128 u128
  | init_vlan_vid_match u128 u128 vlan_presence

datatype action_call = init_packet_action action_type u128 u32

text \<open>Calls that add an instruction to a flow entry. The lists of actions are those pushed into the group or set in
  the set of actions before; \<open>None\<close> in such a list is a \<open>NULL\<close> passed for an action, and \<open>None\<close> in the place of the
  list is a \<open>NULL\<close> passed for the group or the set itself. A call in a list stands for the pointer it returned.\<close>

datatype instruction_call =
    add_apply_actions "action_call option list option"
  | add_clear_actions
  | add_experimenter
  | add_goto_table u8
  | add_write_actions "action_call option list option"
  | add_write_metadata u64 u64

record of1x_flow_entry =
  notify_removal :: bool
  e_priority :: u16
  e_cookie :: u64
  e_cookie_mask :: u64
  e_flags :: u16
  e_idle_timeout :: u16
  e_hard_timeout :: u16
  e_matches :: "match_call list"
  inst_grp :: "instruction_call list"

text \<open>A bucket made by \<open>of1x_init_bucket\<close>: weight, watched port and group, and its actions.\<close>

datatype bucket_call = init_bucket u16 u32 u32 "action_call option list option"

text \<open>What a translation has allocated.\<close>

datatype allocated = Flow_entry | Action_group | Write_actions

text \<open>The initialisers of a flow entry, of a group of actions and of a set of actions may return \<open>NULL\<close>; \<open>allocates\<close>
  says which of them do not. A new group or set is empty.\<close>

definition new_list :: "(allocated \<Rightarrow> bool) \<Rightarrow> allocated \<Rightarrow> action_call option list option" where
  "new_list allocates a = (if allocates a then Some [] else None)"

definition lost_if :: "(allocated \<Rightarrow> bool) \<Rightarrow> allocated \<Rightarrow> allocated list" where
  "lost_if allocates a = (if allocates a then [a] else [])"

text \<open>Calls that set a field of a match in a message: with a value, or with a value and a mask.\<close>

datatype set_call = set_match oxm u128 | set_masked_match oxm u128 u128

text \<open>What the switch announces in its features: kinds of action (\<open>OFPAT_OUTPUT\<close> is \<open>PAT_OUTPUT\<close>) and of
  instruction (\<open>OFPIT_METER\<close> is \<open>PIT_METER\<close>).\<close>

datatype ofpat =
    PAT_OUTPUT | PAT_COPY_TTL_OUT | PAT_COPY_TTL_IN | PAT_SET_MPLS_TTL | PAT_DEC_MPLS_TTL | PAT_PUSH_VLAN
  | PAT_POP_VLAN | PAT_PUSH_MPLS | PAT_POP_MPLS | PAT_PUSH_PBB | PAT_POP_PBB | PAT_SET_QUEUE | PAT_GROUP
  | PAT_SET_NW_TTL | PAT_DEC_NW_TTL | PAT_SET_FIELD

datatype ofpit =
    PIT_APPLY_ACTIONS | PIT_CLEAR_ACTIONS | PIT_WRITE_ACTIONS | PIT_WRITE_METADATA | PIT_GOTO_TABLE | PIT_METER

section \<open>Control\<close>

text \<open>Going on after a call that may throw.\<close>

definition or_throw :: "'e + 'a \<Rightarrow> ('a \<Rightarrow> 'e + 'b) \<Rightarrow> 'e + 'b" where
  "or_throw r f = (case r of Inl e \<Rightarrow> Inl e | Inr x \<Rightarrow> f x)"

lemma or_throw_simps [simp]: "or_throw (Inl e) f = Inl e" "or_throw (Inr x) f = f x"
  by (simp_all add: or_throw_def)

lemma or_throw_Inr_iff: "or_throw r f = Inr y \<longleftrightarrow> (\<exists>x. r = Inr x \<and> f x = Inr y)"
  by (cases r) simp_all

text \<open>\<open>try\<close> blocks one after the other: a block whose getters throw does nothing.\<close>

definition tries :: "'a option list \<Rightarrow> 'a list" where
  "tries xs = concat (map (\<lambda>x. case x of None \<Rightarrow> [] | Some y \<Rightarrow> [y]) xs)"

lemma tries_simps [simp]:
  "tries [] = []" "tries (None # xs) = tries xs" "tries (Some y # xs) = y # tries xs"
  by (simp_all add: tries_def)

lemma tries_append: "tries (xs @ ys) = tries xs @ tries ys"
  by (simp add: tries_def)

lemma tries_map_Some [simp]: "tries (map Some xs) = xs"
  by (induction xs) simp_all

lemma set_tries: "set (tries xs) = {y. Some y \<in> set xs}"
  by (induction xs) (auto split: option.splits simp: tries_def)

end
