(* ===== verification/Of13_Translation.thy ===== *)
theory Of13_Translation
  imports Of_Messages
begin

text \<open>
  The translation between OpenFlow 1.3 and the pipeline, \<open>openflow/openflow13/of13_translation_utils.cc\<close>: flow-mods and
  buckets of groups to the calls that make them, entries of the pipeline and fields of packets back to the calls
  that fill a message, and what the switch announces it can do. The long switches of the code are cut into several
  definitions.
\<close>

section \<open>From a message to the pipeline: matches\<close>

text \<open>The VLAN identifier: whether the packet must have a tag, and with which identifier.\<close>

definition of13_vlan_present :: "ofp \<Rightarrow> u128 \<Rightarrow> u128 \<Rightarrow> vlan_presence" where
  "of13_vlan_present P value vmask =
     (if value = ucast (OFPVID_PRESENT P) \<and> vmask = ucast (OFPVID_PRESENT P) then OF1X_MATCH_VLAN_ANY
      else if value = ucast (OFPVID_NONE P) \<and> vmask = 0xFFFF then OF1X_MATCH_VLAN_NONE
      else OF1X_MATCH_VLAN_SPECIFIC)"

definition of13_link_matches :: "ofp \<Rightarrow> cofmatch \<Rightarrow> match_call list" where
  "of13_link_matches P c = tries
    [do { v \<leftarrow> oxm_value c (OFB OXM_IN_PORT); Some (init_match (OF1X_MATCH (OFB OXM_IN_PORT)) v) },
     do { v \<leftarrow> oxm_value c (OFB OXM_IN_PHY_PORT); Some (init_match (OF1X_MATCH (OFB OXM_IN_PHY_PORT)) v) },
     do { v \<leftarrow> oxm_value c (OFB OXM_METADATA); k \<leftarrow> oxm_mask c (OFB OXM_METADATA);
            Some (init_masked_match (OF1X_MATCH (OFB OXM_METADATA)) v k) },
     do { v \<leftarrow> oxm_value c (OFB OXM_ETH_SRC); k \<leftarrow> oxm_mask c (OFB OXM_ETH_SRC);
            Some (init_masked_match (OF1X_MATCH (OFB OXM_ETH_SRC)) (as_u64 v) (as_u64 k)) },
     do { v \<leftarrow> oxm_value c (OFB OXM_ETH_DST); k \<leftarrow> oxm_mask c (OFB OXM_ETH_DST);
            Some (init_masked_match (OF1X_MATCH (OFB OXM_ETH_DST)) (as_u64 v) (as_u64 k)) },
     do { v \<leftarrow> oxm_value c (OFB OXM_ETH_TYPE); Some (init_match (OF1X_MATCH (OFB OXM_ETH_TYPE)) v) },
     do { v \<leftarrow> oxm_value c (OFB OXM_VLAN_VID); k \<leftarrow> oxm_mask c (OFB OXM_VLAN_VID);
            let value = as_u16 v; let vmask = as_u16 k;
            Some (init_vlan_vid_match value vmask (of13_vlan_present P value vmask)) },
     do { v \<leftarrow> oxm_value c (OFB OXM_VLAN_PCP); Some (init_match (OF1X_MATCH (OFB OXM_VLAN_PCP)) v) },
     do { v \<leftarrow> oxm_value c (OFB OXM_IP_DSCP); Some (init_match (OF1X_MATCH (OFB OXM_IP_DSCP)) v) },
     do { v \<leftarrow> oxm_value c (OFB OXM_IP_ECN); Some (init_match (OF1X_MATCH (OFB OXM_IP_ECN)) v) },
     do { v \<leftarrow> oxm_value c (OFB OXM_IP_PROTO); Some (init_match (OF1X_MATCH (OFB OXM_IP_PROTO)) v) }]"

definition of13_l3_l4_matches :: "cofmatch \<Rightarrow> match_call list" where
  "of13_l3_l4_matches c = tries
    [do { v \<leftarrow> oxm_value c (OFB OXM_IPV4_SRC); k \<leftarrow> oxm_mask c (OFB OXM_IPV4_SRC);
            Some (init_masked_match (OF1X_MATCH (OFB OXM_IPV4_SRC)) v k) },
     do { v \<leftarrow> oxm_value c (OFB OXM_IPV4_DST); k \<leftarrow> oxm_mask c (OFB OXM_IPV4_DST);
            Some (init_masked_match (OF1X_MATCH (OFB OXM_IPV4_DST)) v k) },
     do { v \<leftarrow> oxm_value c (OFB OXM_TCP_SRC); Some (init_match (OF1X_MATCH (OFB OXM_TCP_SRC)) v) },
     do { v \<leftarrow> oxm_value c (OFB OXM_TCP_DST); Some (init_match (OF1X_MATCH (OFB OXM_TCP_DST)) v) },
     do { v \<leftarrow> oxm_value c (OFB OXM_UDP_SRC); Some (init_match (OF1X_MATCH (OFB OXM_UDP_SRC)) v) },
     do { v \<leftarrow> oxm_value c (OFB OXM_UDP_DST); Some (init_match (OF1X_MATCH (OFB OXM_UDP_DST)) v) },
     do { v \<leftarrow> oxm_value c (OFB OXM_SCTP_SRC); Some (init_match (OF1X_MATCH (OFB OXM_SCTP_SRC)) v) },
     do { v \<leftarrow> oxm_value c (OFB OXM_SCTP_DST); Some (init_match (OF1X_MATCH (OFB OXM_SCTP_DST)) v) },
     do { v \<leftarrow> oxm_value c (OFB OXM_ICMPV4_TYPE); Some (init_match (OF1X_MATCH (OFB OXM_ICMPV4_TYPE)) v) },
     do { v \<leftarrow> oxm_value c (OFB OXM_ICMPV4_CODE); Some (init_match (OF1X_MATCH (OFB OXM_ICMPV4_CODE)) v) },
     do { v \<leftarrow> oxm_value c (OFB OXM_ARP_OP); Some (init_match (OF1X_MATCH (OFB OXM_ARP_OP)) v) }]"

definition of13_arp_ipv6_matches :: "cofmatch \<Rightarrow> match_call list" where
  "of13_arp_ipv6_matches c = tries
    [do { v \<leftarrow> oxm_value c (OFB OXM_ARP_SHA); k \<leftarrow> oxm_mask c (OFB OXM_ARP_SHA);
            Some (init_masked_match (OF1X_MATCH (OFB OXM_ARP_SHA)) (as_u64 v) (as_u64 k)) },
     do { v \<leftarrow> oxm_value c (OFB OXM_ARP_SPA); k \<leftarrow> oxm_mask c (OFB OXM_ARP_SPA);
            Some (init_masked_match (OF1X_MATCH (OFB OXM_ARP_SPA)) v k) },
     do { v \<leftarrow> oxm_value c (OFB OXM_ARP_THA); k \<leftarrow> oxm_mask c (OFB OXM_ARP_THA);
            Some (init_masked_match (OF1X_MATCH (OFB OXM_ARP_THA)) (as_u64 v) (as_u64 k)) },
     do { v \<leftarrow> oxm_value c (OFB OXM_ARP_TPA); k \<leftarrow> oxm_mask c (OFB OXM_ARP_TPA);
            Some (init_masked_match (OF1X_MATCH (OFB OXM_ARP_TPA)) v k) },
     do { v \<leftarrow> oxm_value c (OFB OXM_IPV6_SRC); k \<leftarrow> oxm_mask c (OFB OXM_IPV6_SRC);
            Some (init_masked_match (OF1X_MATCH (OFB OXM_IPV6_SRC)) v k) },
     do { v \<leftarrow> oxm_value c (OFB OXM_IPV6_DST); k \<leftarrow> oxm_mask c (OFB OXM_IPV6_DST);
            Some (init_masked_match (OF1X_MATCH (OFB OXM_IPV6_DST)) v k) },
     do { v \<leftarrow> oxm_value c (OFB OXM_IPV6_FLABEL); k \<leftarrow> oxm_mask c (OFB OXM_IPV6_FLABEL);
            Some (init_masked_match (OF1X_MATCH (OFB OXM_IPV6_FLABEL)) v k) }]"

definition of13_icmpv6_mpls_matches :: "cofmatch \<Rightarrow> match_call list" where
  "of13_icmpv6_mpls_matches c = tries
    [do { v \<leftarrow> oxm_value c (OFB OXM_ICMPV6_TYPE); Some (init_match (OF1X_MATCH (OFB OXM_ICMPV6_TYPE)) v) },
     do { v \<leftarrow> oxm_value c (OFB OXM_ICMPV6_CODE); Some (init_match (OF1X_MATCH (OFB OXM_ICMPV6_CODE)) v) },
     do { v \<leftarrow> oxm_value c (OFB OXM_IPV6_ND_TARGET); Some (init_match (OF1X_MATCH (OFB OXM_IPV6_ND_TARGET)) v) },
     do { v \<leftarrow> oxm_value c (OFB OXM_IPV6_ND_SLL); Some (init_match (OF1X_MATCH (OFB OXM_IPV6_ND_SLL)) (as_u64 v)) },
     do { v \<leftarrow> oxm_value c (OFB OXM_IPV6_ND_TLL); Some (init_match (OF1X_MATCH (OFB OXM_IPV6_ND_TLL)) (as_u64 v)) },
     do { v \<leftarrow> oxm_value c (OFB OXM_MPLS_LABEL); Some (init_match (OF1X_MATCH (OFB OXM_MPLS_LABEL)) (as_u32 v)) },
     do { v \<leftarrow> oxm_value c (OFB OXM_MPLS_TC); Some (init_match (OF1X_MATCH (OFB OXM_MPLS_TC)) v) },
     do { v \<leftarrow> oxm_value c (OFB OXM_MPLS_BOS); Some (init_match (OF1X_MATCH (OFB OXM_MPLS_BOS)) v) },
     do { v \<leftarrow> oxm_value c (OFB OXM_TUNNEL_ID); k \<leftarrow> oxm_mask c (OFB OXM_TUNNEL_ID);
            Some (init_masked_match (OF1X_MATCH (OFB OXM_TUNNEL_ID)) (as_u64 v) (as_u64 k)) },
     do { v \<leftarrow> oxm_value c (OFB OXM_PBB_ISID); k \<leftarrow> oxm_mask c (OFB OXM_PBB_ISID);
            Some (init_masked_match (OF1X_MATCH (OFB OXM_PBB_ISID)) (as_u32 v) (as_u32 k)) }]"

definition of13_experimental_matches :: "cofmatch \<Rightarrow> match_call list" where
  "of13_experimental_matches c = tries
    [do { v \<leftarrow> oxm_value c (OFX OXM_PPPOE_CODE); Some (init_match (OF1X_MATCH (OFX OXM_PPPOE_CODE)) (as_u8 v)) },
     do { v \<leftarrow> oxm_value c (OFX OXM_PPPOE_TYPE); Some (init_match (OF1X_MATCH (OFX OXM_PPPOE_TYPE)) (as_u8 v)) },
     do { v \<leftarrow> oxm_value c (OFX OXM_PPPOE_SID); Some (init_match (OF1X_MATCH (OFX OXM_PPPOE_SID)) (as_u16 v)) },
     do { v \<leftarrow> oxm_value c (OFX OXM_PPP_PROT); Some (init_match (OF1X_MATCH (OFX OXM_PPP_PROT)) (as_u16 v)) },
     do { v \<leftarrow> oxm_value c (OFX OXM_GTP_MSG_TYPE); Some (init_match (OF1X_MATCH (OFX OXM_GTP_MSG_TYPE)) (as_u8 v)) },
     do { v \<leftarrow> oxm_value c (OFX OXM_GTP_TEID); k \<leftarrow> oxm_mask c (OFX OXM_GTP_TEID);
            Some (init_masked_match (OF1X_MATCH (OFX OXM_GTP_TEID)) (as_u32 v) (as_u32 k)) },
     do { v \<leftarrow> oxm_value c (OFX OXM_CAPWAP_WBID); k \<leftarrow> oxm_mask c (OFX OXM_CAPWAP_WBID);
            Some (init_masked_match (OF1X_MATCH (OFX OXM_CAPWAP_WBID)) (as_u8 v) (as_u8 k)) },
     do { v \<leftarrow> oxm_value c (OFX OXM_CAPWAP_RID); k \<leftarrow> oxm_mask c (OFX OXM_CAPWAP_RID);
            Some (init_masked_match (OF1X_MATCH (OFX OXM_CAPWAP_RID)) (as_u8 v) (as_u8 k)) },
     do { v \<leftarrow> oxm_value c (OFX OXM_CAPWAP_FLAGS); k \<leftarrow> oxm_mask c (OFX OXM_CAPWAP_FLAGS);
            Some (init_masked_match (OF1X_MATCH (OFX OXM_CAPWAP_FLAGS)) (as_u16 v) (as_u16 k)) },
     do { v \<leftarrow> oxm_value c (OFX OXM_WLAN_FC); k \<leftarrow> oxm_mask c (OFX OXM_WLAN_FC);
            Some (init_masked_match (OF1X_MATCH (OFX OXM_WLAN_FC)) (as_u16 v) (as_u16 k)) },
     do { v \<leftarrow> oxm_value c (OFX OXM_WLAN_TYPE); k \<leftarrow> oxm_mask c (OFX OXM_WLAN_TYPE);
            Some (init_masked_match (OF1X_MATCH (OFX OXM_WLAN_TYPE)) (as_u8 v) (as_u8 k)) },
     do { v \<leftarrow> oxm_value c (OFX OXM_WLAN_SUBTYPE); k \<leftarrow> oxm_mask c (OFX OXM_WLAN_SUBTYPE);
            Some (init_masked_match (OF1X_MATCH (OFX OXM_WLAN_SUBTYPE)) (as_u8 v) (as_u8 k)) },
     do { v \<leftarrow> oxm_value c (OFX OXM_WLAN_DIRECTION); k \<leftarrow> oxm_mask c (OFX OXM_WLAN_DIRECTION);
            Some (init_masked_match (OF1X_MATCH (OFX OXM_WLAN_DIRECTION)) (as_u8 v) (as_u8 k)) },
     do { v \<leftarrow> oxm_value c (OFX OXM_WLAN_ADDRESS_1); k \<leftarrow> oxm_mask c (OFX OXM_WLAN_ADDRESS_1);
            Some (init_masked_match (OF1X_MATCH (OFX OXM_WLAN_ADDRESS_1)) (as_u48 v) (as_u48 k)) },
     do { v \<leftarrow> oxm_value c (OFX OXM_WLAN_ADDRESS_2); k \<leftarrow> oxm_mask c (OFX OXM_WLAN_ADDRESS_2);
            Some (init_masked_match (OF1X_MATCH (OFX OXM_WLAN_ADDRESS_2)) (as_u48 v) (as_u48 k)) },
     do { v \<leftarrow> oxm_value c (OFX OXM_WLAN_ADDRESS_3); k \<leftarrow> oxm_mask c (OFX OXM_WLAN_ADDRESS_3);
            Some (init_masked_match (OF1X_MATCH (OFX OXM_WLAN_ADDRESS_3)) (as_u48 v) (as_u48 k)) },
     do { v \<leftarrow> oxm_value c (OFX OXM_GRE_VERSION); Some (init_match (OF1X_MATCH (OFX OXM_GRE_VERSION)) (as_u16 v)) },
     do { v \<leftarrow> oxm_value c (OFX OXM_GRE_PROT_TYPE); Some (init_match (OF1X_MATCH (OFX OXM_GRE_PROT_TYPE)) (as_u16 v)) },
     do { v \<leftarrow> oxm_value c (OFX OXM_GRE_KEY); Some (init_match (OF1X_MATCH (OFX OXM_GRE_KEY)) (as_u32 v)) }]"

text \<open>The matches a message makes, in the order the code adds them to the flow entry.\<close>

definition of13_map_flow_entry_matches :: "ofp \<Rightarrow> cofmatch \<Rightarrow> match_call list" where
  "of13_map_flow_entry_matches P c = of13_link_matches P c @ of13_l3_l4_matches c @ of13_arp_ipv6_matches c @
     of13_icmpv6_mpls_matches c @ (if EXPERIMENTAL P then of13_experimental_matches c else [])"

section \<open>From a message to the pipeline: actions\<close>

text \<open>
  The result is the action: \<open>Some None\<close> is the \<open>NULL\<close> that \<open>action\<close> holds at the beginning of a round,
  \<open>None\<close> an exception of a getter.
\<close>

definition of13_set_field_2 :: "ofb \<Rightarrow> coxmatch \<Rightarrow> action_call option option" where
  "of13_set_field_2 f x = (case f of
       OXM_VLAN_VID \<Rightarrow> map_option (\<lambda>v. Some (init_packet_action (OF1X_AT_SET_FIELD (OFB OXM_VLAN_VID)) (ucast v) 0)) (u16value x)
     | OXM_VLAN_PCP \<Rightarrow> map_option (\<lambda>v. Some (init_packet_action (OF1X_AT_SET_FIELD (OFB OXM_VLAN_PCP)) (ucast v) 0)) (u8value x)
     | OXM_TCP_DST \<Rightarrow> map_option (\<lambda>v. Some (init_packet_action (OF1X_AT_SET_FIELD (OFB OXM_TCP_DST)) (ucast v) 0)) (u16value x)
     | OXM_TCP_SRC \<Rightarrow> map_option (\<lambda>v. Some (init_packet_action (OF1X_AT_SET_FIELD (OFB OXM_TCP_SRC)) (ucast v) 0)) (u16value x)
     | OXM_UDP_DST \<Rightarrow> map_option (\<lambda>v. Some (init_packet_action (OF1X_AT_SET_FIELD (OFB OXM_UDP_DST)) (ucast v) 0)) (u16value x)
     | OXM_UDP_SRC \<Rightarrow> map_option (\<lambda>v. Some (init_packet_action (OF1X_AT_SET_FIELD (OFB OXM_UDP_SRC)) (ucast v) 0)) (u16value x)
     | OXM_SCTP_DST \<Rightarrow> map_option (\<lambda>v. Some (init_packet_action (OF1X_AT_SET_FIELD (OFB OXM_SCTP_DST)) (ucast v) 0)) (u16value x)
     | OXM_SCTP_SRC \<Rightarrow> map_option (\<lambda>v. Some (init_packet_action (OF1X_AT_SET_FIELD (OFB OXM_SCTP_SRC)) (ucast v) 0)) (u16value x)
     | OXM_IPV6_SRC \<Rightarrow> map_option (\<lambda>v. Some (init_packet_action (OF1X_AT_SET_FIELD (OFB OXM_IPV6_SRC)) v 0)) (u128value x)
     | OXM_IPV6_DST \<Rightarrow> map_option (\<lambda>v. Some (init_packet_action (OF1X_AT_SET_FIELD (OFB OXM_IPV6_DST)) v 0)) (u128value x)
     | OXM_IPV6_FLABEL \<Rightarrow> map_option (\<lambda>v. Some (init_packet_action (OF1X_AT_SET_FIELD (OFB OXM_IPV6_FLABEL)) (ucast v) 0)) (u32value x)
     | OXM_IPV6_ND_TARGET \<Rightarrow> map_option (\<lambda>v. Some (init_packet_action (OF1X_AT_SET_FIELD (OFB OXM_IPV6_ND_TARGET)) v 0)) (u128value x)
     | OXM_IPV6_ND_SLL \<Rightarrow> map_option (\<lambda>v. Some (init_packet_action (OF1X_AT_SET_FIELD (OFB OXM_IPV6_ND_SLL)) (ucast v) 0)) (u48value_as_lladdr x)
     | OXM_IPV6_ND_TLL \<Rightarrow> map_option (\<lambda>v. Some (init_packet_action (OF1X_AT_SET_FIELD (OFB OXM_IPV6_ND_TLL)) (ucast v) 0)) (u48value_as_lladdr x)
     | OXM_ICMPV6_TYPE \<Rightarrow> map_option (\<lambda>v. Some (init_packet_action (OF1X_AT_SET_FIELD (OFB OXM_ICMPV6_TYPE)) (ucast v) 0)) (u8value x)
     | OXM_ICMPV6_CODE \<Rightarrow> map_option (\<lambda>v. Some (init_packet_action (OF1X_AT_SET_FIELD (OFB OXM_ICMPV6_CODE)) (ucast v) 0)) (u8value x)
     | OXM_TUNNEL_ID \<Rightarrow> map_option (\<lambda>v. Some (init_packet_action (OF1X_AT_SET_FIELD (OFB OXM_TUNNEL_ID)) (ucast v) 0)) (u64value x)
     | OXM_PBB_ISID \<Rightarrow> map_option (\<lambda>v. Some (init_packet_action (OF1X_AT_SET_FIELD (OFB OXM_PBB_ISID)) (ucast v) 0)) (u24value x)
     | OXM_IPV6_EXTHDR \<Rightarrow> map_option (\<lambda>v. Some (init_packet_action (OF1X_AT_SET_FIELD (OFB OXM_IPV6_EXTHDR)) (ucast v) 0)) (u16value x)
     | _ \<Rightarrow> Some None)"

definition of13_set_field_1 :: "ofb \<Rightarrow> coxmatch \<Rightarrow> action_call option option" where
  "of13_set_field_1 f x = (case f of
       OXM_ETH_DST \<Rightarrow> map_option (\<lambda>v. Some (init_packet_action (OF1X_AT_SET_FIELD (OFB OXM_ETH_DST)) (ucast v) 0)) (u48value_as_lladdr x)
     | OXM_ETH_SRC \<Rightarrow> map_option (\<lambda>v. Some (init_packet_action (OF1X_AT_SET_FIELD (OFB OXM_ETH_SRC)) (ucast v) 0)) (u48value_as_lladdr x)
     | OXM_ETH_TYPE \<Rightarrow> map_option (\<lambda>v. Some (init_packet_action (OF1X_AT_SET_FIELD (OFB OXM_ETH_TYPE)) (ucast v) 0)) (u16value x)
     | OXM_ARP_OP \<Rightarrow> map_option (\<lambda>v. Some (init_packet_action (OF1X_AT_SET_FIELD (OFB OXM_ARP_OP)) (ucast v) 0)) (u16value x)
     | OXM_ARP_SHA \<Rightarrow> map_option (\<lambda>v. Some (init_packet_action (OF1X_AT_SET_FIELD (OFB OXM_ARP_SHA)) (ucast v) 0)) (u48value_as_lladdr x)
     | OXM_ARP_SPA \<Rightarrow> map_option (\<lambda>v. Some (init_packet_action (OF1X_AT_SET_FIELD (OFB OXM_ARP_SPA)) (ucast v) 0)) (u32value x)
     | OXM_ARP_THA \<Rightarrow> map_option (\<lambda>v. Some (init_packet_action (OF1X_AT_SET_FIELD (OFB OXM_ARP_THA)) (ucast v) 0)) (u48value_as_lladdr x)
     | OXM_ARP_TPA \<Rightarrow> map_option (\<lambda>v. Some (init_packet_action (OF1X_AT_SET_FIELD (OFB OXM_ARP_TPA)) (ucast v) 0)) (u32value x)
     | OXM_ICMPV4_CODE \<Rightarrow> map_option (\<lambda>v. Some (init_packet_action (OF1X_AT_SET_FIELD (OFB OXM_ICMPV4_CODE)) (ucast v) 0)) (u8value x)
     | OXM_ICMPV4_TYPE \<Rightarrow> map_option (\<lambda>v. Some (init_packet_action (OF1X_AT_SET_FIELD (OFB OXM_ICMPV4_TYPE)) (ucast v) 0)) (u8value x)
     | OXM_IPV4_DST \<Rightarrow> map_option (\<lambda>v. Some (init_packet_action (OF1X_AT_SET_FIELD (OFB OXM_IPV4_DST)) (ucast v) 0)) (u32value x)
     | OXM_IPV4_SRC \<Rightarrow> map_option (\<lambda>v. Some (init_packet_action (OF1X_AT_SET_FIELD (OFB OXM_IPV4_SRC)) (ucast v) 0)) (u32value x)
     | OXM_IP_DSCP \<Rightarrow> map_option (\<lambda>v. Some (init_packet_action (OF1X_AT_SET_FIELD (OFB OXM_IP_DSCP)) (ucast v) 0)) (u8value x)
     | OXM_IP_ECN \<Rightarrow> map_option (\<lambda>v. Some (init_packet_action (OF1X_AT_SET_FIELD (OFB OXM_IP_ECN)) (ucast v) 0)) (u8value x)
     | OXM_IP_PROTO \<Rightarrow> map_option (\<lambda>v. Some (init_packet_action (OF1X_AT_SET_FIELD (OFB OXM_IP_PROTO)) (ucast v) 0)) (u8value x)
     | OXM_MPLS_LABEL \<Rightarrow> map_option (\<lambda>v. Some (init_packet_action (OF1X_AT_SET_FIELD (OFB OXM_MPLS_LABEL)) (ucast v) 0)) (u32value x)
     | OXM_MPLS_TC \<Rightarrow> map_option (\<lambda>v. Some (init_packet_action (OF1X_AT_SET_FIELD (OFB OXM_MPLS_TC)) (ucast v) 0)) (u8value x)
     | OXM_MPLS_BOS \<Rightarrow> map_option (\<lambda>v. Some (init_packet_action (OF1X_AT_SET_FIELD (OFB OXM_MPLS_BOS)) (ucast v) 0)) (u8value x)
     | _ \<Rightarrow> of13_set_field_2 f x)"

definition of13_set_field_experimental :: "ofx \<Rightarrow> coxmatch \<Rightarrow> action_call option option" where
  "of13_set_field_experimental f x = (case f of
       OXM_PPPOE_CODE \<Rightarrow> map_option (\<lambda>v. Some (init_packet_action (OF1X_AT_SET_FIELD (OFX OXM_PPPOE_CODE)) (ucast v) 0)) (u8value x)
     | OXM_PPPOE_TYPE \<Rightarrow> map_option (\<lambda>v. Some (init_packet_action (OF1X_AT_SET_FIELD (OFX OXM_PPPOE_TYPE)) (ucast v) 0)) (u8value x)
     | OXM_PPPOE_SID \<Rightarrow> map_option (\<lambda>v. Some (init_packet_action (OF1X_AT_SET_FIELD (OFX OXM_PPPOE_SID)) (ucast v) 0)) (u16value x)
     | OXM_PPP_PROT \<Rightarrow> map_option (\<lambda>v. Some (init_packet_action (OF1X_AT_SET_FIELD (OFX OXM_PPP_PROT)) (ucast v) 0)) (u16value x)
     | OXM_GTP_MSG_TYPE \<Rightarrow> map_option (\<lambda>v. Some (init_packet_action (OF1X_AT_SET_FIELD (OFX OXM_GTP_MSG_TYPE)) (ucast v) 0)) (u8value x)
     | OXM_GTP_TEID \<Rightarrow> map_option (\<lambda>v. Some (init_packet_action (OF1X_AT_SET_FIELD (OFX OXM_GTP_TEID)) (ucast v) 0)) (u32value x)
     | OXM_CAPWAP_WBID \<Rightarrow> map_option (\<lambda>v. Some (init_packet_action (OF1X_AT_SET_FIELD (OFX OXM_CAPWAP_WBID)) (ucast v) 0)) (u8value x)
     | OXM_CAPWAP_RID \<Rightarrow> map_option (\<lambda>v. Some (init_packet_action (OF1X_AT_SET_FIELD (OFX OXM_CAPWAP_RID)) (ucast v) 0)) (u8value x)
     | OXM_CAPWAP_FLAGS \<Rightarrow> map_option (\<lambda>v. Some (init_packet_action (OF1X_AT_SET_FIELD (OFX OXM_CAPWAP_FLAGS)) (ucast v) 0)) (u16value x)
     | OXM_WLAN_FC \<Rightarrow> map_option (\<lambda>v. Some (init_packet_action (OF1X_AT_SET_FIELD (OFX OXM_WLAN_FC)) (ucast v) 0)) (u16value x)
     | OXM_WLAN_TYPE \<Rightarrow> map_option (\<lambda>v. Some (init_packet_action (OF1X_AT_SET_FIELD (OFX OXM_WLAN_TYPE)) (ucast v) 0)) (u8value x)
     | OXM_WLAN_SUBTYPE \<Rightarrow> map_option (\<lambda>v. Some (init_packet_action (OF1X_AT_SET_FIELD (OFX OXM_WLAN_SUBTYPE)) (ucast v) 0)) (u8value x)
     | OXM_WLAN_DIRECTION \<Rightarrow> map_option (\<lambda>v. Some (init_packet_action (OF1X_AT_SET_FIELD (OFX OXM_WLAN_DIRECTION)) (ucast v) 0)) (u8value x)
     | OXM_WLAN_ADDRESS_1 \<Rightarrow> map_option (\<lambda>v. Some (init_packet_action (OF1X_AT_SET_FIELD (OFX OXM_WLAN_ADDRESS_1)) (ucast v) 0)) (u48value_as_lladdr x)
     | OXM_WLAN_ADDRESS_2 \<Rightarrow> map_option (\<lambda>v. Some (init_packet_action (OF1X_AT_SET_FIELD (OFX OXM_WLAN_ADDRESS_2)) (ucast v) 0)) (u48value_as_lladdr x)
     | OXM_WLAN_ADDRESS_3 \<Rightarrow> map_option (\<lambda>v. Some (init_packet_action (OF1X_AT_SET_FIELD (OFX OXM_WLAN_ADDRESS_3)) (ucast v) 0)) (u48value_as_lladdr x)
     | OXM_GRE_VERSION \<Rightarrow> map_option (\<lambda>v. Some (init_packet_action (OF1X_AT_SET_FIELD (OFX OXM_GRE_VERSION)) (ucast v) 0)) (u16value x)
     | OXM_GRE_PROT_TYPE \<Rightarrow> map_option (\<lambda>v. Some (init_packet_action (OF1X_AT_SET_FIELD (OFX OXM_GRE_PROT_TYPE)) (ucast v) 0)) (u16value x)
     | OXM_GRE_KEY \<Rightarrow> map_option (\<lambda>v. Some (init_packet_action (OF1X_AT_SET_FIELD (OFX OXM_GRE_KEY)) (ucast v) 0)) (u32value x))"

definition of13_set_field :: "ofp \<Rightarrow> coxmatch \<Rightarrow> action_call option option" where
  "of13_set_field P x = (case oxm_id x of
       OFPXMC_OPENFLOW_BASIC f \<Rightarrow> of13_set_field_1 f x
     | OFPXMC_EXPERIMENTER f \<Rightarrow> if EXPERIMENTAL P then of13_set_field_experimental f x else Some None
     | OFPXMC_other \<Rightarrow> Some None)"

definition of13_experimenter :: "exp_id \<Rightarrow> exp_type \<Rightarrow> u16 \<Rightarrow> action_call option" where
  "of13_experimenter i t e = (case (i, t) of
       (PPPOE_EXP_ID, ACTION_PUSH) \<Rightarrow> Some (init_packet_action OF1X_AT_PUSH_PPPOE (ucast e) 0)
     | (PPPOE_EXP_ID, ACTION_POP) \<Rightarrow> Some (init_packet_action OF1X_AT_POP_PPPOE (ucast e) 0)
     | (GTP_EXP_ID, ACTION_PUSH) \<Rightarrow> Some (init_packet_action OF1X_AT_PUSH_GTP (ucast e) 0)
     | (GTP_EXP_ID, ACTION_POP) \<Rightarrow> Some (init_packet_action OF1X_AT_POP_GTP (ucast e) 0)
     | (CAPWAP_EXP_ID, ACTION_PUSH) \<Rightarrow> Some (init_packet_action OF1X_AT_PUSH_CAPWAP (ucast e) 0)
     | (CAPWAP_EXP_ID, ACTION_POP) \<Rightarrow> Some (init_packet_action OF1X_AT_POP_CAPWAP (ucast e) 0)
     | (WLAN_EXP_ID, ACTION_PUSH) \<Rightarrow> Some (init_packet_action OF1X_AT_PUSH_WLAN (ucast e) 0)
     | (WLAN_EXP_ID, ACTION_POP) \<Rightarrow> Some (init_packet_action OF1X_AT_POP_WLAN (ucast e) 0)
     | (GRE_EXP_ID, ACTION_PUSH) \<Rightarrow> Some (init_packet_action OF1X_AT_PUSH_GRE (ucast e) 0)
     | (GRE_EXP_ID, ACTION_POP) \<Rightarrow> Some (init_packet_action OF1X_AT_POP_GRE (ucast e) 0)
     | _ \<Rightarrow> None)"

definition of13_action :: "ofp \<Rightarrow> coxmatch cofaction \<Rightarrow> action_call option option" where
  "of13_action P a = (case a of
       OFPAT_OUTPUT port_no max_len \<Rightarrow> Some (Some (init_packet_action OF1X_AT_OUTPUT (ucast port_no) max_len))
     | OFPAT_COPY_TTL_OUT \<Rightarrow> Some (Some (init_packet_action OF1X_AT_COPY_TTL_OUT 0 0))
     | OFPAT_COPY_TTL_IN \<Rightarrow> Some (Some (init_packet_action OF1X_AT_COPY_TTL_IN 0 0))
     | OFPAT_SET_MPLS_TTL mpls_ttl \<Rightarrow> Some (Some (init_packet_action OF1X_AT_SET_MPLS_TTL (ucast mpls_ttl) 0))
     | OFPAT_DEC_MPLS_TTL \<Rightarrow> Some (Some (init_packet_action OF1X_AT_DEC_MPLS_TTL 0 0))
     | OFPAT_PUSH_VLAN eth_type \<Rightarrow> Some (Some (init_packet_action OF1X_AT_PUSH_VLAN (ucast eth_type) 0))
     | OFPAT_POP_VLAN \<Rightarrow> Some (Some (init_packet_action OF1X_AT_POP_VLAN 0 0))
     | OFPAT_PUSH_MPLS eth_type \<Rightarrow> Some (Some (init_packet_action OF1X_AT_PUSH_MPLS (ucast eth_type) 0))
     | OFPAT_POP_MPLS eth_type \<Rightarrow> Some (Some (init_packet_action OF1X_AT_POP_MPLS (ucast eth_type) 0))
     | OFPAT_PUSH_PBB eth_type \<Rightarrow> Some (Some (init_packet_action OF1X_AT_PUSH_PBB (ucast eth_type) 0))
     | OFPAT_POP_PBB \<Rightarrow> Some (Some (init_packet_action OF1X_AT_POP_PBB 0 0))
     | OFPAT_SET_QUEUE queue_id \<Rightarrow> Some (Some (init_packet_action OF1X_AT_SET_QUEUE (ucast queue_id) 0))
     | OFPAT_GROUP group_id \<Rightarrow> Some (Some (init_packet_action OF1X_AT_GROUP (ucast group_id) 0))
     | OFPAT_SET_NW_TTL nw_ttl \<Rightarrow> Some (Some (init_packet_action OF1X_AT_SET_NW_TTL (ucast nw_ttl) 0))
     | OFPAT_DEC_NW_TTL \<Rightarrow> Some (Some (init_packet_action OF1X_AT_DEC_NW_TTL 0 0))
     | OFPAT_SET_FIELD x \<Rightarrow> of13_set_field P x
     | OFPAT_EXPERIMENTER i t e \<Rightarrow> Some (if EXPERIMENTAL P then of13_experimenter i t e else None)
     | _ \<Rightarrow> Some None)"

text \<open>One round for each action of the message, in the order of their indices. The action goes into the group of the
  instruction Apply-Actions, into the set of Write-Actions, or into both, as far as they are not \<open>NULL\<close>;
  \<open>None\<close> is an exception, which ends the loop.\<close>

fun of13_map_flow_entry_actions :: "ofp \<Rightarrow> coxmatch cofaction list \<Rightarrow> action_call option list option \<Rightarrow>
    action_call option list option \<Rightarrow> (action_call option list option \<times> action_call option list option) option" where
  "of13_map_flow_entry_actions P [] apply write = Some (apply, write)"
| "of13_map_flow_entry_actions P (a # as) apply write = do {
     action \<leftarrow> of13_action P a;
     of13_map_flow_entry_actions P as (map_option (\<lambda>g. g @ [action]) apply) (map_option (\<lambda>g. g @ [action]) write) }"

section \<open>From a message to the pipeline: flow entries and buckets\<close>

text \<open>A new flow entry with the fields of the header; the library may fail to make one.\<close>

definition of13_new_entry :: "ofp \<Rightarrow> flow_mod \<Rightarrow> of1x_flow_entry" where
  "of13_new_entry P m =
    \<lparr> notify_removal = (fm_flags m AND OFPFF_SEND_FLOW_REM P \<noteq> 0), e_priority = fm_priority m,
      e_cookie = fm_cookie m, e_cookie_mask = fm_cookie_mask m, e_flags = fm_flags m,
      e_idle_timeout = fm_idle_timeout m, e_hard_timeout = fm_hard_timeout m, e_matches = [], inst_grp = [] \<rparr>"

text \<open>The instructions Clear-Actions, Experimenter and Goto-Table, which hold no actions.\<close>

definition of13_plain_instructions :: "flow_mod \<Rightarrow> instruction_call list" where
  "of13_plain_instructions m =
     (if fm_clear_actions m then [add_clear_actions] else []) @
     (if fm_experimenter m then [add_experimenter] else []) @
     (case fm_goto_table m of Some t \<Rightarrow> [add_goto_table t] | None \<Rightarrow> [])"

definition of13_metadata_instruction :: "flow_mod \<Rightarrow> instruction_call list" where
  "of13_metadata_instruction m =
     (case fm_write_metadata m of Some (v, k) \<Rightarrow> [add_write_metadata v k] | None \<Rightarrow> [])"

text \<open>
  The result is the flow entry or the exception, with what has been allocated and is neither freed nor in the result
  when the function ends. A group or set that could not be allocated is not tested for and is passed on as \<open>NULL\<close>.
\<close>

definition of13_map_flow_entry ::
    "ofp \<Rightarrow> (allocated \<Rightarrow> bool) \<Rightarrow> flow_mod \<Rightarrow> ((of_exception + of1x_flow_entry) \<times> allocated list)" where
  "of13_map_flow_entry P allocates m =
     (if \<not> allocates Flow_entry then (Inl eFlowModUnknown, [])
      else let e = (of13_new_entry P m)\<lparr>e_matches := of13_map_flow_entry_matches P (fm_match m)\<rparr>
           in case (case fm_apply_actions m of None \<Rightarrow> Some []
                    | Some as \<Rightarrow> map_option (\<lambda>(apply, _). [add_apply_actions apply])
                       (of13_map_flow_entry_actions P as (new_list allocates Action_group) None)) of
              None \<Rightarrow> (Inl eFlowModUnknown, [])
            | Some apply \<Rightarrow>
               (case fm_write_actions m of
                  None \<Rightarrow> (Inr (e\<lparr>inst_grp := apply @ of13_plain_instructions m @ of13_metadata_instruction m\<rparr>), [])
                | Some as \<Rightarrow>
                   (case of13_map_flow_entry_actions P as None (new_list allocates Write_actions) of
                      None \<Rightarrow> (Inl eFlowModUnknown, lost_if allocates Write_actions)
                    | Some (_, write) \<Rightarrow>
                       (Inr (e\<lparr>inst_grp := apply @ of13_plain_instructions m @ [add_write_actions write] @ of13_metadata_instruction m\<rparr>), []))))"

text \<open>One bucket for each of the message, with its own group of actions. An exception leaves the group of that round
  allocated.\<close>

fun of13_map_bucket_list ::
    "ofp \<Rightarrow> (allocated \<Rightarrow> bool) \<Rightarrow> cofbucket list \<Rightarrow> bucket_call list \<Rightarrow> (of_exception + bucket_call list) \<times> allocated list" where
  "of13_map_bucket_list P allocates [] list = (Inr list, [])"
| "of13_map_bucket_list P allocates (b # bs) list =
     (case of13_map_flow_entry_actions P (bk_actions b) (new_list allocates Action_group) None of
        None \<Rightarrow> (Inl getter_exception, lost_if allocates Action_group)
      | Some (apply, _) \<Rightarrow>
         of13_map_bucket_list P allocates bs (list @ [init_bucket (bk_weight b) (bk_watch_port b) (bk_watch_group b) apply]))"

section \<open>From the pipeline to a message: matches\<close>

definition of13_reverse_vlan_vid :: "ofp \<Rightarrow> of1x_match \<Rightarrow> set_call list" where
  "of13_reverse_vlan_vid P m = (case vlan_present m of
       OF1X_MATCH_VLAN_SPECIFIC \<Rightarrow>
         if match_mask16 m = 0x0FFF then [set_match (OFB OXM_VLAN_VID) (ucast (match_value16 m OR OFPVID_PRESENT P))]
         else [set_masked_match (OFB OXM_VLAN_VID) (ucast (match_value16 m)) (ucast (match_mask16 m))]
     | OF1X_MATCH_VLAN_NONE \<Rightarrow> [set_match (OFB OXM_VLAN_VID) (ucast (OFPVID_NONE P))]
     | OF1X_MATCH_VLAN_ANY \<Rightarrow> [set_masked_match (OFB OXM_VLAN_VID) (ucast (OFPVID_PRESENT P)) (ucast (OFPVID_PRESENT P))])"

definition of13_reverse_match_2 :: "ofb \<Rightarrow> of1x_match \<Rightarrow> set_call list" where
  "of13_reverse_match_2 f m = (case f of
       OXM_UDP_SRC \<Rightarrow> [set_match (OFB OXM_UDP_SRC) (ucast (match_value16 m))]
     | OXM_UDP_DST \<Rightarrow> [set_match (OFB OXM_UDP_DST) (ucast (match_value16 m))]
     | OXM_SCTP_SRC \<Rightarrow> [set_match (OFB OXM_SCTP_SRC) (ucast (match_value16 m))]
     | OXM_SCTP_DST \<Rightarrow> [set_match (OFB OXM_SCTP_DST) (ucast (match_value16 m))]
     | OXM_ICMPV4_TYPE \<Rightarrow> [set_match (OFB OXM_ICMPV4_TYPE) (ucast (match_value8 m))]
     | OXM_ICMPV4_CODE \<Rightarrow> [set_match (OFB OXM_ICMPV4_CODE) (ucast (match_value8 m))]
     | OXM_IPV6_SRC \<Rightarrow> [set_masked_match (OFB OXM_IPV6_SRC) (ucast (match_value128 m)) (ucast (match_mask128 m))]
     | OXM_IPV6_DST \<Rightarrow> [set_masked_match (OFB OXM_IPV6_DST) (ucast (match_value128 m)) (ucast (match_mask128 m))]
     | OXM_IPV6_FLABEL \<Rightarrow> [set_masked_match (OFB OXM_IPV6_FLABEL) (ucast (match_value32 m)) (ucast (match_mask32 m))]
     | OXM_ICMPV6_TYPE \<Rightarrow> [set_match (OFB OXM_ICMPV6_TYPE) (ucast (match_value8 m))]
     | OXM_ICMPV6_CODE \<Rightarrow> [set_match (OFB OXM_ICMPV6_CODE) (ucast (match_value8 m))]
     | OXM_IPV6_ND_TARGET \<Rightarrow> [set_match (OFB OXM_IPV6_ND_TARGET) (ucast (match_value128 m))]
     | OXM_IPV6_ND_SLL \<Rightarrow> [set_match (OFB OXM_IPV6_ND_SLL) (ucast (match_value64 m))]
     | OXM_IPV6_ND_TLL \<Rightarrow> [set_match (OFB OXM_IPV6_ND_TLL) (ucast (match_value64 m))]
     | OXM_MPLS_LABEL \<Rightarrow> [set_match (OFB OXM_MPLS_LABEL) (ucast (match_value32 m))]
     | OXM_MPLS_TC \<Rightarrow> [set_match (OFB OXM_MPLS_TC) (ucast (match_value8 m))]
     | OXM_MPLS_BOS \<Rightarrow> [set_match (OFB OXM_MPLS_BOS) (ucast (match_value8 m))]
     | OXM_TUNNEL_ID \<Rightarrow> [set_match (OFB OXM_TUNNEL_ID) (ucast (match_value64 m))]
     | OXM_PBB_ISID \<Rightarrow> [set_masked_match (OFB OXM_PBB_ISID) (ucast (match_value32 m)) (ucast (match_mask32 m))]
     | OXM_IPV6_EXTHDR \<Rightarrow> [set_match (OFB OXM_IPV6_EXTHDR) (ucast (match_value16 m))]
     | _ \<Rightarrow> [])"

definition of13_reverse_match_1 :: "ofp \<Rightarrow> ofb \<Rightarrow> of1x_match \<Rightarrow> set_call list" where
  "of13_reverse_match_1 P f m = (case f of
       OXM_IN_PORT \<Rightarrow> [set_match (OFB OXM_IN_PORT) (ucast (match_value32 m))]
     | OXM_IN_PHY_PORT \<Rightarrow> [set_match (OFB OXM_IN_PHY_PORT) (ucast (match_value32 m))]
     | OXM_METADATA \<Rightarrow> [set_masked_match (OFB OXM_METADATA) (ucast (match_value64 m)) (ucast (match_mask64 m))]
     | OXM_ETH_DST \<Rightarrow> [set_masked_match (OFB OXM_ETH_DST) (ucast (match_value64 m)) (ucast (match_mask64 m))]
     | OXM_ETH_SRC \<Rightarrow> [set_masked_match (OFB OXM_ETH_SRC) (ucast (match_value64 m)) (ucast (match_mask64 m))]
     | OXM_ETH_TYPE \<Rightarrow> [set_match (OFB OXM_ETH_TYPE) (ucast (match_value16 m))]
     | OXM_VLAN_VID \<Rightarrow> of13_reverse_vlan_vid P m
     | OXM_VLAN_PCP \<Rightarrow> [set_match (OFB OXM_VLAN_PCP) (ucast (match_value8 m))]
     | OXM_ARP_OP \<Rightarrow> [set_match (OFB OXM_ARP_OP) (ucast (match_value16 m))]
     | OXM_ARP_SHA \<Rightarrow> [set_masked_match (OFB OXM_ARP_SHA) (ucast (match_value64 m)) (ucast (match_mask64 m))]
     | OXM_ARP_SPA \<Rightarrow> [set_masked_match (OFB OXM_ARP_SPA) (ucast (match_value32 m)) (ucast (match_mask32 m))]
     | OXM_ARP_THA \<Rightarrow> [set_masked_match (OFB OXM_ARP_THA) (ucast (match_value64 m)) (ucast (match_mask64 m))]
     | OXM_ARP_TPA \<Rightarrow> [set_masked_match (OFB OXM_ARP_TPA) (ucast (match_value32 m)) (ucast (match_mask32 m))]
     | OXM_IP_DSCP \<Rightarrow> [set_match (OFB OXM_IP_DSCP) (ucast (match_value8 m))]
     | OXM_IP_ECN \<Rightarrow> [set_match (OFB OXM_IP_ECN) (ucast (match_value8 m))]
     | OXM_IP_PROTO \<Rightarrow> [set_match (OFB OXM_IP_PROTO) (ucast (match_value8 m))]
     | OXM_IPV4_SRC \<Rightarrow> [set_masked_match (OFB OXM_IPV4_SRC) (ucast (match_value32 m)) (ucast (match_mask32 m))]
     | OXM_IPV4_DST \<Rightarrow> [set_masked_match (OFB OXM_IPV4_DST) (ucast (match_value32 m)) (ucast (match_mask32 m))]
     | OXM_TCP_SRC \<Rightarrow> [set_match (OFB OXM_TCP_SRC) (ucast (match_value16 m))]
     | OXM_TCP_DST \<Rightarrow> [set_match (OFB OXM_TCP_DST) (ucast (match_value16 m))]
     | _ \<Rightarrow> of13_reverse_match_2 f m)"

definition of13_reverse_match_experimental :: "ofx \<Rightarrow> of1x_match \<Rightarrow> set_call list" where
  "of13_reverse_match_experimental f m = (case f of
       OXM_PPPOE_CODE \<Rightarrow> [set_match (OFX OXM_PPPOE_CODE) (ucast (match_value8 m))]
     | OXM_PPPOE_TYPE \<Rightarrow> [set_match (OFX OXM_PPPOE_TYPE) (ucast (match_value8 m))]
     | OXM_PPPOE_SID \<Rightarrow> [set_match (OFX OXM_PPPOE_SID) (ucast (match_value16 m))]
     | OXM_PPP_PROT \<Rightarrow> [set_match (OFX OXM_PPP_PROT) (ucast (match_value16 m))]
     | OXM_GTP_MSG_TYPE \<Rightarrow> [set_match (OFX OXM_GTP_MSG_TYPE) (ucast (match_value8 m))]
     | OXM_GTP_TEID \<Rightarrow> [set_masked_match (OFX OXM_GTP_TEID) (ucast (match_value32 m)) (ucast (match_mask32 m))]
     | OXM_CAPWAP_WBID \<Rightarrow> [set_masked_match (OFX OXM_CAPWAP_WBID) (ucast (match_value8 m)) (ucast (match_mask8 m))]
     | OXM_CAPWAP_RID \<Rightarrow> [set_masked_match (OFX OXM_CAPWAP_RID) (ucast (match_value8 m)) (ucast (match_mask8 m))]
     | OXM_CAPWAP_FLAGS \<Rightarrow> [set_masked_match (OFX OXM_CAPWAP_FLAGS) (ucast (match_value16 m)) (ucast (match_mask16 m))]
     | OXM_WLAN_FC \<Rightarrow> [set_masked_match (OFX OXM_WLAN_FC) (ucast (match_value16 m)) (ucast (match_mask16 m))]
     | OXM_WLAN_TYPE \<Rightarrow> [set_masked_match (OFX OXM_WLAN_TYPE) (ucast (match_value8 m)) (ucast (match_mask8 m))]
     | OXM_WLAN_SUBTYPE \<Rightarrow> [set_masked_match (OFX OXM_WLAN_SUBTYPE) (ucast (match_value8 m)) (ucast (match_mask8 m))]
     | OXM_WLAN_DIRECTION \<Rightarrow> [set_masked_match (OFX OXM_WLAN_DIRECTION) (ucast (match_value8 m)) (ucast (match_mask8 m))]
     | OXM_WLAN_ADDRESS_1 \<Rightarrow> [set_masked_match (OFX OXM_WLAN_ADDRESS_1) (ucast (match_value64 m)) (ucast (match_mask64 m))]
     | OXM_WLAN_ADDRESS_2 \<Rightarrow> [set_masked_match (OFX OXM_WLAN_ADDRESS_2) (ucast (match_value64 m)) (ucast (match_mask64 m))]
     | OXM_WLAN_ADDRESS_3 \<Rightarrow> [set_masked_match (OFX OXM_WLAN_ADDRESS_3) (ucast (match_value64 m)) (ucast (match_mask64 m))]
     | OXM_GRE_VERSION \<Rightarrow> [set_match (OFX OXM_GRE_VERSION) (ucast (match_value16 m))]
     | OXM_GRE_PROT_TYPE \<Rightarrow> [set_match (OFX OXM_GRE_PROT_TYPE) (ucast (match_value16 m))]
     | OXM_GRE_KEY \<Rightarrow> [set_match (OFX OXM_GRE_KEY) (ucast (match_value32 m))])"

definition of13_reverse_match :: "ofp \<Rightarrow> of1x_match \<Rightarrow> set_call list" where
  "of13_reverse_match P m = (case m_type m of
       OF1X_MATCH (OFB f) \<Rightarrow> of13_reverse_match_1 P f m
     | OF1X_MATCH (OFX f) \<Rightarrow> if EXPERIMENTAL P then of13_reverse_match_experimental f m else [])"

fun of13_map_reverse_flow_entry_matches :: "ofp \<Rightarrow> of1x_match list \<Rightarrow> set_call list" where
  "of13_map_reverse_flow_entry_matches P [] = []"
| "of13_map_reverse_flow_entry_matches P (m # ms) = of13_reverse_match P m @ of13_map_reverse_flow_entry_matches P ms"

section \<open>From the pipeline to a message: actions\<close>

definition of13_reverse_set_field_2 :: "ofp \<Rightarrow> ofb \<Rightarrow> of1x_packet_action \<Rightarrow> of_exception + new_oxm option" where
  "of13_reverse_set_field_2 P f a = (case f of
       OXM_UDP_DST \<Rightarrow> Inr (Some (new_coxmatch (OFB OXM_UDP_DST) (ucast (action_field16 a))))
     | OXM_SCTP_SRC \<Rightarrow> Inr (Some (new_coxmatch (OFB OXM_SCTP_SRC) (ucast (action_field16 a))))
     | OXM_SCTP_DST \<Rightarrow> Inr (Some (new_coxmatch (OFB OXM_SCTP_DST) (ucast (action_field16 a))))
     | OXM_ICMPV4_TYPE \<Rightarrow> Inr (Some (new_coxmatch (OFB OXM_ICMPV4_TYPE) (ucast (action_field8 a))))
     | OXM_ICMPV4_CODE \<Rightarrow> Inr (Some (new_coxmatch (OFB OXM_ICMPV4_CODE) (ucast (action_field8 a))))
     | OXM_IPV6_SRC \<Rightarrow> Inr (Some (new_coxmatch (OFB OXM_IPV6_SRC) (ucast (action_field128 a))))
     | OXM_IPV6_DST \<Rightarrow> Inr (Some (new_coxmatch (OFB OXM_IPV6_DST) (ucast (action_field128 a))))
     | OXM_IPV6_FLABEL \<Rightarrow> Inr (Some (new_coxmatch (OFB OXM_IPV6_FLABEL) (ucast (action_field32 a))))
     | OXM_IPV6_ND_TARGET \<Rightarrow> Inr (Some (new_coxmatch (OFB OXM_IPV6_ND_TARGET) (ucast (action_field128 a))))
     | OXM_IPV6_ND_SLL \<Rightarrow> Inr (Some (new_coxmatch (OFB OXM_IPV6_ND_SLL) (ucast (action_field64 a))))
     | OXM_IPV6_ND_TLL \<Rightarrow> Inr (Some (new_coxmatch (OFB OXM_IPV6_ND_TLL) (ucast (action_field64 a))))
     | OXM_ICMPV6_TYPE \<Rightarrow> Inr (Some (new_coxmatch (OFB OXM_ICMPV6_TYPE) (ucast (action_field8 a))))
     | OXM_ICMPV6_CODE \<Rightarrow> Inr (Some (new_coxmatch (OFB OXM_ICMPV6_CODE) (ucast (action_field8 a))))
     | OXM_MPLS_LABEL \<Rightarrow> Inr (Some (new_coxmatch (OFB OXM_MPLS_LABEL) (ucast (action_field32 a))))
     | OXM_MPLS_TC \<Rightarrow> Inr (Some (new_coxmatch (OFB OXM_MPLS_TC) (ucast (action_field8 a))))
     | OXM_MPLS_BOS \<Rightarrow> Inr (Some (new_coxmatch (OFB OXM_MPLS_BOS) (ucast (action_field8 a))))
     | OXM_TUNNEL_ID \<Rightarrow> Inr (Some (new_coxmatch (OFB OXM_TUNNEL_ID) (ucast (action_field64 a))))
     | OXM_PBB_ISID \<Rightarrow> Inr (Some (new_coxmatch (OFB OXM_PBB_ISID) (ucast (action_field32 a))))
     | OXM_IPV6_EXTHDR \<Rightarrow> Inl (if OF_NDEBUG P then eBadActionBadType else eNotImplemented)
     | _ \<Rightarrow> Inr None)"

definition of13_reverse_set_field_1 :: "ofp \<Rightarrow> ofb \<Rightarrow> of1x_packet_action \<Rightarrow> of_exception + new_oxm option" where
  "of13_reverse_set_field_1 P f a = (case f of
       OXM_ETH_DST \<Rightarrow> Inr (Some (new_coxmatch (OFB OXM_ETH_DST) (ucast (action_field64 a))))
     | OXM_ETH_SRC \<Rightarrow> Inr (Some (new_coxmatch (OFB OXM_ETH_SRC) (ucast (action_field64 a))))
     | OXM_ETH_TYPE \<Rightarrow> Inr (Some (new_coxmatch (OFB OXM_ETH_TYPE) (ucast (action_field16 a))))
     | OXM_VLAN_VID \<Rightarrow> Inr (Some (new_coxmatch (OFB OXM_VLAN_VID) (ucast (action_field16 a OR OFPVID_PRESENT P))))
     | OXM_VLAN_PCP \<Rightarrow> Inr (Some (new_coxmatch (OFB OXM_VLAN_PCP) (ucast (action_field8 a))))
     | OXM_ARP_OP \<Rightarrow> Inr (Some (new_coxmatch (OFB OXM_ARP_OP) (ucast (action_field16 a))))
     | OXM_ARP_SHA \<Rightarrow> Inr (Some (new_coxmatch (OFB OXM_ARP_SHA) (ucast (action_field64 a))))
     | OXM_ARP_SPA \<Rightarrow> Inr (Some (new_coxmatch (OFB OXM_ARP_SPA) (ucast (action_field32 a))))
     | OXM_ARP_THA \<Rightarrow> Inr (Some (new_coxmatch (OFB OXM_ARP_THA) (ucast (action_field64 a))))
     | OXM_ARP_TPA \<Rightarrow> Inr (Some (new_coxmatch (OFB OXM_ARP_TPA) (ucast (action_field32 a))))
     | OXM_IP_DSCP \<Rightarrow> Inr (Some (new_coxmatch (OFB OXM_IP_DSCP) (ucast (action_field8 a))))
     | OXM_IP_ECN \<Rightarrow> Inr (Some (new_coxmatch (OFB OXM_IP_ECN) (ucast (action_field8 a))))
     | OXM_IP_PROTO \<Rightarrow> Inr (Some (new_coxmatch (OFB OXM_IP_PROTO) (ucast (action_field8 a))))
     | OXM_IPV4_SRC \<Rightarrow> Inr (Some (new_coxmatch (OFB OXM_IPV4_SRC) (ucast (action_field32 a))))
     | OXM_IPV4_DST \<Rightarrow> Inr (Some (new_coxmatch (OFB OXM_IPV4_DST) (ucast (action_field32 a))))
     | OXM_TCP_SRC \<Rightarrow> Inr (Some (new_coxmatch (OFB OXM_TCP_SRC) (ucast (action_field16 a))))
     | OXM_TCP_DST \<Rightarrow> Inr (Some (new_coxmatch (OFB OXM_TCP_DST) (ucast (action_field16 a))))
     | OXM_UDP_SRC \<Rightarrow> Inr (Some (new_coxmatch (OFB OXM_UDP_SRC) (ucast (action_field16 a))))
     | _ \<Rightarrow> of13_reverse_set_field_2 P f a)"

definition of13_reverse_set_field_experimental :: "ofx \<Rightarrow> of1x_packet_action \<Rightarrow> of_exception + new_oxm option" where
  "of13_reverse_set_field_experimental f a = (case f of
       OXM_PPPOE_CODE \<Rightarrow> Inr (Some (new_coxmatch (OFX OXM_PPPOE_CODE) (ucast (action_field8 a))))
     | OXM_PPPOE_TYPE \<Rightarrow> Inr (Some (new_coxmatch (OFX OXM_PPPOE_TYPE) (ucast (action_field8 a))))
     | OXM_PPPOE_SID \<Rightarrow> Inr (Some (new_coxmatch (OFX OXM_PPPOE_SID) (ucast (action_field16 a))))
     | OXM_PPP_PROT \<Rightarrow> Inr (Some (new_coxmatch (OFX OXM_PPP_PROT) (ucast (action_field16 a))))
     | OXM_GTP_MSG_TYPE \<Rightarrow> Inr (Some (new_coxmatch (OFX OXM_GTP_MSG_TYPE) (ucast (action_field8 a))))
     | OXM_GTP_TEID \<Rightarrow> Inr (Some (new_coxmatch (OFX OXM_GTP_TEID) (ucast (action_field32 a))))
     | OXM_CAPWAP_WBID \<Rightarrow> Inr (Some (new_coxmatch (OFX OXM_CAPWAP_WBID) (ucast (action_field8 a))))
     | OXM_CAPWAP_RID \<Rightarrow> Inr (Some (new_coxmatch (OFX OXM_CAPWAP_RID) (ucast (action_field8 a))))
     | OXM_CAPWAP_FLAGS \<Rightarrow> Inr (Some (new_coxmatch (OFX OXM_CAPWAP_FLAGS) (ucast (action_field8 a))))
     | OXM_WLAN_FC \<Rightarrow> Inr (Some (new_coxmatch (OFX OXM_WLAN_FC) (ucast (action_field16 a))))
     | OXM_WLAN_TYPE \<Rightarrow> Inr (Some (new_coxmatch (OFX OXM_WLAN_TYPE) (ucast (action_field8 a))))
     | OXM_WLAN_SUBTYPE \<Rightarrow> Inr (Some (new_coxmatch (OFX OXM_WLAN_SUBTYPE) (ucast (action_field8 a))))
     | OXM_WLAN_DIRECTION \<Rightarrow> Inr (Some (new_coxmatch (OFX OXM_WLAN_DIRECTION) (ucast (action_field8 a))))
     | OXM_WLAN_ADDRESS_1 \<Rightarrow> Inr (Some (new_coxmatch (OFX OXM_WLAN_ADDRESS_1) (ucast (action_field64 a))))
     | OXM_WLAN_ADDRESS_2 \<Rightarrow> Inr (Some (new_coxmatch (OFX OXM_WLAN_ADDRESS_2) (ucast (action_field64 a))))
     | OXM_WLAN_ADDRESS_3 \<Rightarrow> Inr (Some (new_coxmatch (OFX OXM_WLAN_ADDRESS_3) (ucast (action_field64 a))))
     | OXM_GRE_VERSION \<Rightarrow> Inr (Some (new_coxmatch (OFX OXM_GRE_VERSION) (ucast (action_field16 a))))
     | OXM_GRE_PROT_TYPE \<Rightarrow> Inr (Some (new_coxmatch (OFX OXM_GRE_PROT_TYPE) (ucast (action_field16 a))))
     | OXM_GRE_KEY \<Rightarrow> Inr (Some (new_coxmatch (OFX OXM_GRE_KEY) (ucast (action_field32 a)))))"

definition of13_map_reverse_flow_entry_action :: "ofp \<Rightarrow> of1x_packet_action \<Rightarrow> of_exception + new_oxm cofaction option" where
  "of13_map_reverse_flow_entry_action P a = (case a_type a of
       OF1X_AT_NO_ACTION \<Rightarrow> Inr None
     | OF1X_AT_COPY_TTL_IN \<Rightarrow> Inr (Some OFPAT_COPY_TTL_IN)
     | OF1X_AT_POP_VLAN \<Rightarrow> Inr (Some OFPAT_POP_VLAN)
     | OF1X_AT_POP_MPLS \<Rightarrow> Inr (Some (OFPAT_POP_MPLS (action_field16 a)))
     | OF1X_AT_POP_PBB \<Rightarrow> Inr (Some OFPAT_POP_PBB)
     | OF1X_AT_POP_GRE \<Rightarrow> (if EXPERIMENTAL P then Inr (Some (OFPAT_EXPERIMENTER GRE_EXP_ID ACTION_POP (action_field16 a))) else Inr None)
     | OF1X_AT_POP_WLAN \<Rightarrow> (if EXPERIMENTAL P then Inr (Some (OFPAT_EXPERIMENTER WLAN_EXP_ID ACTION_POP (action_field16 a))) else Inr None)
     | OF1X_AT_POP_PPPOE \<Rightarrow> (if EXPERIMENTAL P then Inr (Some (OFPAT_EXPERIMENTER PPPOE_EXP_ID ACTION_POP (action_field16 a))) else Inr None)
     | OF1X_AT_POP_GTP \<Rightarrow> (if EXPERIMENTAL P then Inr (Some (OFPAT_EXPERIMENTER GTP_EXP_ID ACTION_POP (action_field16 a))) else Inr None)
     | OF1X_AT_POP_CAPWAP \<Rightarrow> (if EXPERIMENTAL P then Inr (Some (OFPAT_EXPERIMENTER CAPWAP_EXP_ID ACTION_POP (action_field16 a))) else Inr None)
     | OF1X_AT_PUSH_CAPWAP \<Rightarrow> (if EXPERIMENTAL P then Inr (Some (OFPAT_EXPERIMENTER CAPWAP_EXP_ID ACTION_PUSH (action_field16 a))) else Inr None)
     | OF1X_AT_PUSH_GTP \<Rightarrow> (if EXPERIMENTAL P then Inr (Some (OFPAT_EXPERIMENTER GTP_EXP_ID ACTION_PUSH (action_field16 a))) else Inr None)
     | OF1X_AT_PUSH_PPPOE \<Rightarrow> (if EXPERIMENTAL P then Inr (Some (OFPAT_EXPERIMENTER PPPOE_EXP_ID ACTION_PUSH (action_field16 a))) else Inr None)
     | OF1X_AT_PUSH_WLAN \<Rightarrow> (if EXPERIMENTAL P then Inr (Some (OFPAT_EXPERIMENTER WLAN_EXP_ID ACTION_PUSH (action_field16 a))) else Inr None)
     | OF1X_AT_PUSH_GRE \<Rightarrow> (if EXPERIMENTAL P then Inr (Some (OFPAT_EXPERIMENTER GRE_EXP_ID ACTION_PUSH (action_field16 a))) else Inr None)
     | OF1X_AT_PUSH_PBB \<Rightarrow> Inr (Some (OFPAT_PUSH_PBB (action_field16 a)))
     | OF1X_AT_PUSH_MPLS \<Rightarrow> Inr (Some (OFPAT_PUSH_MPLS (action_field16 a)))
     | OF1X_AT_PUSH_VLAN \<Rightarrow> Inr (Some (OFPAT_PUSH_VLAN (action_field16 a)))
     | OF1X_AT_COPY_TTL_OUT \<Rightarrow> Inr (Some OFPAT_COPY_TTL_OUT)
     | OF1X_AT_DEC_NW_TTL \<Rightarrow> Inr (Some OFPAT_DEC_NW_TTL)
     | OF1X_AT_SET_NW_TTL \<Rightarrow> Inr (Some (OFPAT_SET_NW_TTL (action_field8 a)))
     | OF1X_AT_DEC_MPLS_TTL \<Rightarrow> Inr (Some OFPAT_DEC_MPLS_TTL)
     | OF1X_AT_SET_MPLS_TTL \<Rightarrow> Inr (Some (OFPAT_SET_MPLS_TTL (action_field8 a)))
     | OF1X_AT_SET_QUEUE \<Rightarrow> Inr (Some (OFPAT_SET_QUEUE (ucast (action_field8 a))))
     | OF1X_AT_GROUP \<Rightarrow> Inr (Some (OFPAT_GROUP (action_field32 a)))
     | OF1X_AT_EXPERIMENTER \<Rightarrow> Inr None
     | OF1X_AT_OUTPUT \<Rightarrow> Inr (Some (OFPAT_OUTPUT (action_field32 a) (send_len a)))
     | OF1X_AT_SET_FIELD (OFB f) \<Rightarrow> map_sum id (map_option OFPAT_SET_FIELD) (of13_reverse_set_field_1 P f a)
     | OF1X_AT_SET_FIELD (OFX f) \<Rightarrow>
         if EXPERIMENTAL P then map_sum id (map_option OFPAT_SET_FIELD) (of13_reverse_set_field_experimental f a) else Inr None
     | _ \<Rightarrow> Inr None)"

text \<open>A list of actions: those that are \<open>OF1X_AT_NO_ACTION\<close> are skipped, each other one takes an index.\<close>

fun of13_reverse_actions :: "ofp \<Rightarrow> nat \<Rightarrow> of1x_packet_action list \<Rightarrow> of_exception + (nat \<times> new_oxm cofaction) list" where
  "of13_reverse_actions P index [] = Inr []"
| "of13_reverse_actions P index (a # as) =
     (if a_type a = OF1X_AT_NO_ACTION then of13_reverse_actions P index as
      else or_throw (of13_map_reverse_flow_entry_action P a) (\<lambda>r.
           or_throw (of13_reverse_actions P (index + 1) as) (\<lambda>rs.
           Inr (case r of None \<Rightarrow> rs | Some x \<Rightarrow> (index, x) # rs))))"

section \<open>From the pipeline to a message: instructions and buckets\<close>

definition of13_reverse_write_actions :: "ofp \<Rightarrow> of1x_instruction \<Rightarrow> of_exception + cofinstruction" where
  "of13_reverse_write_actions P i = map_sum id inst_write_actions (of13_reverse_actions P 0 (take (num_of_actions i) (write_actions i)))"

definition of13_reverse_instruction :: "ofp \<Rightarrow> of1x_instruction \<Rightarrow> of_exception + cofinstruction list" where
  "of13_reverse_instruction P i = (case i_type i of
       OF1X_IT_APPLY_ACTIONS \<Rightarrow> map_sum id (\<lambda>as. [inst_apply_actions as]) (of13_reverse_actions P 0 (apply_actions i))
     | OF1X_IT_CLEAR_ACTIONS \<Rightarrow> Inr [inst_clear_actions]
     | OF1X_IT_WRITE_ACTIONS \<Rightarrow> map_sum id (\<lambda>x. [x]) (of13_reverse_write_actions P i)
     | OF1X_IT_WRITE_METADATA \<Rightarrow> Inr [inst_write_metadata (metadata i) (metadata_mask i)]
     | OF1X_IT_GOTO_TABLE \<Rightarrow> Inr [inst_goto_table (go_to_table i)]
     | OF1X_IT_METER \<Rightarrow> Inr [inst_meter 0]
     | _ \<Rightarrow> Inr [])"

fun of13_map_reverse_flow_entry_instructions :: "ofp \<Rightarrow> of1x_instruction list \<Rightarrow> of_exception + cofinstruction list" where
  "of13_map_reverse_flow_entry_instructions P [] = Inr []"
| "of13_map_reverse_flow_entry_instructions P (i # is) =
     or_throw (of13_reverse_instruction P i) (\<lambda>xs.
     or_throw (of13_map_reverse_flow_entry_instructions P is) (\<lambda>ys. Inr (xs @ ys)))"

fun of13_map_reverse_bucket_list :: "ofp \<Rightarrow> of1x_stats_bucket list \<Rightarrow> of_exception + reply_bucket list" where
  "of13_map_reverse_bucket_list P [] = Inr []"
| "of13_map_reverse_bucket_list P (b # bs) =
     or_throw (of13_reverse_actions P 0 (b_actions b)) (\<lambda>as.
     or_throw (of13_map_reverse_bucket_list P bs) (\<lambda>rs.
     Inr (\<lparr> rb_actions = as, rb_watch_port = b_port b, rb_watch_group = b_group b, rb_weight = b_weight b \<rparr> # rs)))"

section \<open>The fields of a packet for the controller\<close>

text \<open>A field of the packet is reported if its value is not zero; \<open>pm\<close> gives the values.\<close>

definition of13_reverse_packet_basic :: "(oxm \<Rightarrow> u128) \<Rightarrow> set_call list" where
  "of13_reverse_packet_basic pm = tries
    [if pm (OFB OXM_IN_PORT) \<noteq> 0 then Some (set_match (OFB OXM_IN_PORT) (pm (OFB OXM_IN_PORT))) else None,
     if pm (OFB OXM_IN_PHY_PORT) \<noteq> 0 then Some (set_match (OFB OXM_IN_PHY_PORT) (pm (OFB OXM_IN_PHY_PORT))) else None,
     if pm (OFB OXM_METADATA) \<noteq> 0 then Some (set_match (OFB OXM_METADATA) (pm (OFB OXM_METADATA))) else None,
     if pm (OFB OXM_ETH_DST) \<noteq> 0 then Some (set_match (OFB OXM_ETH_DST) (pm (OFB OXM_ETH_DST))) else None,
     if pm (OFB OXM_ETH_SRC) \<noteq> 0 then Some (set_match (OFB OXM_ETH_SRC) (pm (OFB OXM_ETH_SRC))) else None,
     if pm (OFB OXM_ETH_TYPE) \<noteq> 0 then Some (set_match (OFB OXM_ETH_TYPE) (pm (OFB OXM_ETH_TYPE))) else None,
     if pm (OFB OXM_VLAN_VID) \<noteq> 0 then Some (set_match (OFB OXM_VLAN_VID) (pm (OFB OXM_VLAN_VID))) else None,
     if pm (OFB OXM_VLAN_PCP) \<noteq> 0 then Some (set_match (OFB OXM_VLAN_PCP) (pm (OFB OXM_VLAN_PCP))) else None,
     if pm (OFB OXM_ARP_OP) \<noteq> 0 then Some (set_match (OFB OXM_ARP_OP) (pm (OFB OXM_ARP_OP))) else None,
     if pm (OFB OXM_ARP_SHA) \<noteq> 0 then Some (set_match (OFB OXM_ARP_SHA) (pm (OFB OXM_ARP_SHA))) else None,
     if pm (OFB OXM_ARP_SPA) \<noteq> 0 then Some (set_match (OFB OXM_ARP_SPA) (pm (OFB OXM_ARP_SPA))) else None,
     if pm (OFB OXM_ARP_THA) \<noteq> 0 then Some (set_match (OFB OXM_ARP_THA) (pm (OFB OXM_ARP_THA))) else None,
     if pm (OFB OXM_ARP_TPA) \<noteq> 0 then Some (set_match (OFB OXM_ARP_TPA) (pm (OFB OXM_ARP_TPA))) else None,
     if pm (OFB OXM_IP_DSCP) \<noteq> 0 then Some (set_match (OFB OXM_IP_DSCP) (pm (OFB OXM_IP_DSCP))) else None,
     if pm (OFB OXM_IP_ECN) \<noteq> 0 then Some (set_match (OFB OXM_IP_ECN) (pm (OFB OXM_IP_ECN))) else None,
     if pm (OFB OXM_IP_PROTO) \<noteq> 0 then Some (set_match (OFB OXM_IP_PROTO) (pm (OFB OXM_IP_PROTO))) else None,
     if pm (OFB OXM_IPV4_SRC) \<noteq> 0 then Some (set_match (OFB OXM_IPV4_SRC) (pm (OFB OXM_IPV4_SRC))) else None,
     if pm (OFB OXM_IPV4_DST) \<noteq> 0 then Some (set_match (OFB OXM_IPV4_DST) (pm (OFB OXM_IPV4_DST))) else None,
     if pm (OFB OXM_TCP_SRC) \<noteq> 0 then Some (set_match (OFB OXM_TCP_SRC) (pm (OFB OXM_TCP_SRC))) else None,
     if pm (OFB OXM_TCP_DST) \<noteq> 0 then Some (set_match (OFB OXM_TCP_DST) (pm (OFB OXM_TCP_DST))) else None,
     if pm (OFB OXM_UDP_SRC) \<noteq> 0 then Some (set_match (OFB OXM_UDP_SRC) (pm (OFB OXM_UDP_SRC))) else None,
     if pm (OFB OXM_UDP_DST) \<noteq> 0 then Some (set_match (OFB OXM_UDP_DST) (pm (OFB OXM_UDP_DST))) else None,
     if pm (OFB OXM_SCTP_SRC) \<noteq> 0 then Some (set_match (OFB OXM_SCTP_SRC) (pm (OFB OXM_SCTP_SRC))) else None,
     if pm (OFB OXM_SCTP_DST) \<noteq> 0 then Some (set_match (OFB OXM_SCTP_DST) (pm (OFB OXM_SCTP_DST))) else None,
     if pm (OFB OXM_ICMPV4_TYPE) \<noteq> 0 then Some (set_match (OFB OXM_ICMPV4_TYPE) (pm (OFB OXM_ICMPV4_TYPE))) else None,
     if pm (OFB OXM_ICMPV4_CODE) \<noteq> 0 then Some (set_match (OFB OXM_ICMPV4_CODE) (pm (OFB OXM_ICMPV4_CODE))) else None,
     if pm (OFB OXM_IPV6_SRC) \<noteq> 0 then Some (set_match (OFB OXM_IPV6_SRC) (pm (OFB OXM_IPV6_SRC))) else None,
     if pm (OFB OXM_IPV6_DST) \<noteq> 0 then Some (set_match (OFB OXM_IPV6_DST) (pm (OFB OXM_IPV6_DST))) else None,
     if pm (OFB OXM_IPV6_FLABEL) \<noteq> 0 then Some (set_match (OFB OXM_IPV6_FLABEL) (pm (OFB OXM_IPV6_FLABEL))) else None,
     if pm (OFB OXM_IPV6_ND_TARGET) \<noteq> 0 then Some (set_match (OFB OXM_IPV6_ND_TARGET) (pm (OFB OXM_IPV6_ND_TARGET))) else None,
     if pm (OFB OXM_IPV6_ND_SLL) \<noteq> 0 then Some (set_match (OFB OXM_IPV6_ND_SLL) (pm (OFB OXM_IPV6_ND_SLL))) else None,
     if pm (OFB OXM_IPV6_ND_TLL) \<noteq> 0 then Some (set_match (OFB OXM_IPV6_ND_TLL) (pm (OFB OXM_IPV6_ND_TLL))) else None,
     if pm (OFB OXM_ICMPV6_TYPE) \<noteq> 0 then Some (set_match (OFB OXM_ICMPV6_TYPE) (pm (OFB OXM_ICMPV6_TYPE))) else None,
     if pm (OFB OXM_ICMPV6_CODE) \<noteq> 0 then Some (set_match (OFB OXM_ICMPV6_CODE) (pm (OFB OXM_ICMPV6_CODE))) else None,
     if pm (OFB OXM_MPLS_LABEL) \<noteq> 0 then Some (set_match (OFB OXM_MPLS_LABEL) (pm (OFB OXM_MPLS_LABEL))) else None,
     if pm (OFB OXM_MPLS_TC) \<noteq> 0 then Some (set_match (OFB OXM_MPLS_TC) (pm (OFB OXM_MPLS_TC))) else None,
     if pm (OFB OXM_MPLS_BOS) \<noteq> 0 then Some (set_match (OFB OXM_MPLS_BOS) (pm (OFB OXM_MPLS_BOS))) else None,
     if pm (OFB OXM_TUNNEL_ID) \<noteq> 0 then Some (set_match (OFB OXM_TUNNEL_ID) (pm (OFB OXM_TUNNEL_ID))) else None,
     if pm (OFB OXM_PBB_ISID) \<noteq> 0 then Some (set_match (OFB OXM_PBB_ISID) (pm (OFB OXM_PBB_ISID))) else None,
     if pm (OFB OXM_IPV6_EXTHDR) \<noteq> 0 then Some (set_match (OFB OXM_IPV6_EXTHDR) (pm (OFB OXM_IPV6_EXTHDR))) else None]"

definition of13_reverse_packet_experimental :: "(oxm \<Rightarrow> u128) \<Rightarrow> set_call list" where
  "of13_reverse_packet_experimental pm = tries
    [if pm (OFX OXM_PPPOE_CODE) \<noteq> 0 then Some (set_match (OFX OXM_PPPOE_CODE) (pm (OFX OXM_PPPOE_CODE))) else None,
     if pm (OFX OXM_PPPOE_TYPE) \<noteq> 0 then Some (set_match (OFX OXM_PPPOE_TYPE) (pm (OFX OXM_PPPOE_TYPE))) else None,
     if pm (OFX OXM_PPPOE_SID) \<noteq> 0 then Some (set_match (OFX OXM_PPPOE_SID) (pm (OFX OXM_PPPOE_SID))) else None,
     if pm (OFX OXM_PPP_PROT) \<noteq> 0 then Some (set_match (OFX OXM_PPP_PROT) (pm (OFX OXM_PPP_PROT))) else None,
     if pm (OFX OXM_GTP_MSG_TYPE) \<noteq> 0 then Some (set_match (OFX OXM_GTP_MSG_TYPE) (pm (OFX OXM_GTP_MSG_TYPE))) else None,
     if pm (OFX OXM_GTP_TEID) \<noteq> 0 then Some (set_match (OFX OXM_GTP_TEID) (pm (OFX OXM_GTP_TEID))) else None,
     if pm (OFX OXM_CAPWAP_WBID) \<noteq> 0 then Some (set_match (OFX OXM_CAPWAP_WBID) (pm (OFX OXM_CAPWAP_WBID))) else None,
     if pm (OFX OXM_CAPWAP_RID) \<noteq> 0 then Some (set_match (OFX OXM_CAPWAP_RID) (pm (OFX OXM_CAPWAP_RID))) else None,
     if pm (OFX OXM_CAPWAP_FLAGS) \<noteq> 0 then Some (set_match (OFX OXM_CAPWAP_FLAGS) (pm (OFX OXM_CAPWAP_FLAGS))) else None,
     if pm (OFX OXM_WLAN_FC) \<noteq> 0 then Some (set_match (OFX OXM_WLAN_FC) (pm (OFX OXM_WLAN_FC))) else None,
     if pm (OFX OXM_WLAN_TYPE) \<noteq> 0 then Some (set_match (OFX OXM_WLAN_TYPE) (pm (OFX OXM_WLAN_TYPE))) else None,
     if pm (OFX OXM_WLAN_SUBTYPE) \<noteq> 0 then Some (set_match (OFX OXM_WLAN_SUBTYPE) (pm (OFX OXM_WLAN_SUBTYPE))) else None,
     if pm (OFX OXM_WLAN_DIRECTION) \<noteq> 0 then Some (set_match (OFX OXM_WLAN_DIRECTION) (pm (OFX OXM_WLAN_DIRECTION))) else None,
     if pm (OFX OXM_WLAN_ADDRESS_1) \<noteq> 0 then Some (set_match (OFX OXM_WLAN_ADDRESS_1) (pm (OFX OXM_WLAN_ADDRESS_1))) else None,
     if pm (OFX OXM_WLAN_ADDRESS_2) \<noteq> 0 then Some (set_match (OFX OXM_WLAN_ADDRESS_2) (pm (OFX OXM_WLAN_ADDRESS_2))) else None,
     if pm (OFX OXM_WLAN_ADDRESS_3) \<noteq> 0 then Some (set_match (OFX OXM_WLAN_ADDRESS_3) (pm (OFX OXM_WLAN_ADDRESS_3))) else None,
     if pm (OFX OXM_GRE_VERSION) \<noteq> 0 then Some (set_match (OFX OXM_GRE_VERSION) (pm (OFX OXM_GRE_VERSION))) else None,
     if pm (OFX OXM_GRE_PROT_TYPE) \<noteq> 0 then Some (set_match (OFX OXM_GRE_PROT_TYPE) (pm (OFX OXM_GRE_PROT_TYPE))) else None,
     if pm (OFX OXM_GRE_KEY) \<noteq> 0 then Some (set_match (OFX OXM_GRE_KEY) (pm (OFX OXM_GRE_KEY))) else None]"

definition of13_map_reverse_packet_matches :: "ofp \<Rightarrow> (oxm \<Rightarrow> u128) \<Rightarrow> set_call list" where
  "of13_map_reverse_packet_matches P pm =
     of13_reverse_packet_basic pm @ (if EXPERIMENTAL P then of13_reverse_packet_experimental pm else [])"

section \<open>What the switch announces\<close>

definition of13_map_bitmap_matches :: "(match_type \<Rightarrow> bool) \<Rightarrow> ofb list" where
  "of13_map_bitmap_matches is_set = tries
    [if is_set (OF1X_MATCH (OFB OXM_IN_PORT)) then Some OXM_IN_PORT else None,
     if is_set (OF1X_MATCH (OFB OXM_IN_PHY_PORT)) then Some OXM_IN_PHY_PORT else None,
     if is_set (OF1X_MATCH (OFB OXM_METADATA)) then Some OXM_METADATA else None,
     if is_set (OF1X_MATCH (OFB OXM_ETH_DST)) then Some OXM_ETH_DST else None,
     if is_set (OF1X_MATCH (OFB OXM_ETH_SRC)) then Some OXM_ETH_SRC else None,
     if is_set (OF1X_MATCH (OFB OXM_ETH_TYPE)) then Some OXM_ETH_TYPE else None,
     if is_set (OF1X_MATCH (OFB OXM_VLAN_VID)) then Some OXM_VLAN_VID else None,
     if is_set (OF1X_MATCH (OFB OXM_VLAN_PCP)) then Some OXM_VLAN_PCP else None,
     if is_set (OF1X_MATCH (OFB OXM_MPLS_LABEL)) then Some OXM_MPLS_LABEL else None,
     if is_set (OF1X_MATCH (OFB OXM_MPLS_BOS)) then Some OXM_MPLS_BOS else None,
     if is_set (OF1X_MATCH (OFB OXM_MPLS_TC)) then Some OXM_MPLS_TC else None,
     if is_set (OF1X_MATCH (OFB OXM_ARP_OP)) then Some OXM_ARP_OP else None,
     if is_set (OF1X_MATCH (OFB OXM_ARP_SPA)) then Some OXM_ARP_SPA else None,
     if is_set (OF1X_MATCH (OFB OXM_ARP_TPA)) then Some OXM_ARP_TPA else None,
     if is_set (OF1X_MATCH (OFB OXM_ARP_SHA)) then Some OXM_ARP_SHA else None,
     if is_set (OF1X_MATCH (OFB OXM_ARP_THA)) then Some OXM_ARP_THA else None,
     if is_set (OF1X_MATCH (OFB OXM_IP_DSCP)) then Some OXM_IP_DSCP else None,
     if is_set (OF1X_MATCH (OFB OXM_IP_ECN)) then Some OXM_IP_ECN else None,
     if is_set (OF1X_MATCH (OFB OXM_IP_PROTO)) then Some OXM_IP_PROTO else None,
     if is_set (OF1X_MATCH (OFB OXM_IPV4_SRC)) then Some OXM_IPV4_SRC else None,
     if is_set (OF1X_MATCH (OFB OXM_IPV4_DST)) then Some OXM_IPV4_DST else None,
     if is_set (OF1X_MATCH (OFB OXM_IPV6_SRC)) then Some OXM_IPV6_SRC else None,
     if is_set (OF1X_MATCH (OFB OXM_IPV6_DST)) then Some OXM_IPV6_DST else None,
     if is_set (OF1X_MATCH (OFB OXM_IPV6_FLABEL)) then Some OXM_IPV6_FLABEL else None,
     if is_set (OF1X_MATCH (OFB OXM_ICMPV6_TYPE)) then Some OXM_ICMPV6_TYPE else None,
     if is_set (OF1X_MATCH (OFB OXM_ICMPV6_CODE)) then Some OXM_ICMPV6_CODE else None,
     if is_set (OF1X_MATCH (OFB OXM_IPV6_ND_TARGET)) then Some OXM_IPV6_ND_TARGET else None,
     if is_set (OF1X_MATCH (OFB OXM_IPV6_ND_SLL)) then Some OXM_IPV6_ND_SLL else None,
     if is_set (OF1X_MATCH (OFB OXM_IPV6_ND_TLL)) then Some OXM_IPV6_ND_TLL else None,
     if is_set (OF1X_MATCH (OFB OXM_TCP_SRC)) then Some OXM_TCP_SRC else None,
     if is_set (OF1X_MATCH (OFB OXM_TCP_DST)) then Some OXM_TCP_DST else None,
     if is_set (OF1X_MATCH (OFB OXM_UDP_SRC)) then Some OXM_UDP_SRC else None,
     if is_set (OF1X_MATCH (OFB OXM_UDP_DST)) then Some OXM_UDP_DST else None,
     if is_set (OF1X_MATCH (OFB OXM_SCTP_SRC)) then Some OXM_SCTP_SRC else None,
     if is_set (OF1X_MATCH (OFB OXM_SCTP_DST)) then Some OXM_SCTP_DST else None,
     if is_set (OF1X_MATCH (OFB OXM_ICMPV4_TYPE)) then Some OXM_ICMPV4_TYPE else None,
     if is_set (OF1X_MATCH (OFB OXM_ICMPV4_CODE)) then Some OXM_ICMPV4_CODE else None,
     if is_set (OF1X_MATCH (OFB OXM_PBB_ISID)) then Some OXM_PBB_ISID else None,
     if is_set (OF1X_MATCH (OFB OXM_TUNNEL_ID)) then Some OXM_TUNNEL_ID else None]"

definition of13_map_bitmap_set_fields :: "(action_type \<Rightarrow> bool) \<Rightarrow> ofb list" where
  "of13_map_bitmap_set_fields is_set = tries
    [if is_set (OF1X_AT_SET_FIELD (OFB OXM_ETH_DST)) then Some OXM_ETH_DST else None,
     if is_set (OF1X_AT_SET_FIELD (OFB OXM_ETH_SRC)) then Some OXM_ETH_SRC else None,
     if is_set (OF1X_AT_SET_FIELD (OFB OXM_ETH_TYPE)) then Some OXM_ETH_TYPE else None,
     if is_set (OF1X_AT_SET_FIELD (OFB OXM_MPLS_LABEL)) then Some OXM_MPLS_LABEL else None,
     if is_set (OF1X_AT_SET_FIELD (OFB OXM_MPLS_TC)) then Some OXM_MPLS_TC else None,
     if is_set (OF1X_AT_SET_FIELD (OFB OXM_MPLS_BOS)) then Some OXM_MPLS_BOS else None,
     if is_set (OF1X_AT_SET_FIELD (OFB OXM_VLAN_VID)) then Some OXM_VLAN_VID else None,
     if is_set (OF1X_AT_SET_FIELD (OFB OXM_VLAN_PCP)) then Some OXM_VLAN_PCP else None,
     if is_set (OF1X_AT_SET_FIELD (OFB OXM_ARP_OP)) then Some OXM_ARP_OP else None,
     if is_set (OF1X_AT_SET_FIELD (OFB OXM_ARP_SHA)) then Some OXM_ARP_SHA else None,
     if is_set (OF1X_AT_SET_FIELD (OFB OXM_ARP_SPA)) then Some OXM_ARP_SPA else None,
     if is_set (OF1X_AT_SET_FIELD (OFB OXM_ARP_THA)) then Some OXM_ARP_THA else None,
     if is_set (OF1X_AT_SET_FIELD (OFB OXM_ARP_TPA)) then Some OXM_ARP_TPA else None,
     if is_set (OF1X_AT_SET_FIELD (OFB OXM_IP_DSCP)) then Some OXM_IP_DSCP else None,
     if is_set (OF1X_AT_SET_FIELD (OFB OXM_IP_ECN)) then Some OXM_IP_ECN else None,
     if is_set (OF1X_AT_SET_FIELD (OFB OXM_IP_PROTO)) then Some OXM_IP_PROTO else None,
     if is_set (OF1X_AT_SET_FIELD (OFB OXM_IPV4_SRC)) then Some OXM_IPV4_SRC else None,
     if is_set (OF1X_AT_SET_FIELD (OFB OXM_IPV4_DST)) then Some OXM_IPV4_DST else None,
     if is_set (OF1X_AT_SET_FIELD (OFB OXM_IPV6_SRC)) then Some OXM_IPV6_SRC else None,
     if is_set (OF1X_AT_SET_FIELD (OFB OXM_IPV6_DST)) then Some OXM_IPV6_DST else None,
     if is_set (OF1X_AT_SET_FIELD (OFB OXM_IPV6_FLABEL)) then Some OXM_IPV6_FLABEL else None,
     if is_set (OF1X_AT_SET_FIELD (OFB OXM_IPV6_ND_TARGET)) then Some OXM_IPV6_ND_TARGET else None,
     if is_set (OF1X_AT_SET_FIELD (OFB OXM_IPV6_ND_SLL)) then Some OXM_IPV6_ND_SLL else None,
     if is_set (OF1X_AT_SET_FIELD (OFB OXM_IPV6_ND_TLL)) then Some OXM_IPV6_ND_TLL else None,
     if is_set (OF1X_AT_SET_FIELD (OFB OXM_IPV6_EXTHDR)) then Some OXM_IPV6_EXTHDR else None,
     if is_set (OF1X_AT_SET_FIELD (OFB OXM_TCP_SRC)) then Some OXM_TCP_SRC else None,
     if is_set (OF1X_AT_SET_FIELD (OFB OXM_TCP_DST)) then Some OXM_TCP_DST else None,
     if is_set (OF1X_AT_SET_FIELD (OFB OXM_UDP_SRC)) then Some OXM_UDP_SRC else None,
     if is_set (OF1X_AT_SET_FIELD (OFB OXM_UDP_DST)) then Some OXM_UDP_DST else None,
     if is_set (OF1X_AT_SET_FIELD (OFB OXM_SCTP_SRC)) then Some OXM_SCTP_SRC else None,
     if is_set (OF1X_AT_SET_FIELD (OFB OXM_SCTP_DST)) then Some OXM_SCTP_DST else None,
     if is_set (OF1X_AT_SET_FIELD (OFB OXM_ICMPV4_TYPE)) then Some OXM_ICMPV4_TYPE else None,
     if is_set (OF1X_AT_SET_FIELD (OFB OXM_ICMPV4_CODE)) then Some OXM_ICMPV4_CODE else None,
     if is_set (OF1X_AT_SET_FIELD (OFB OXM_ICMPV6_TYPE)) then Some OXM_ICMPV6_TYPE else None,
     if is_set (OF1X_AT_SET_FIELD (OFB OXM_ICMPV6_CODE)) then Some OXM_ICMPV6_CODE else None,
     if is_set (OF1X_AT_SET_FIELD (OFB OXM_PBB_ISID)) then Some OXM_PBB_ISID else None,
     if is_set (OF1X_AT_SET_FIELD (OFB OXM_TUNNEL_ID)) then Some OXM_TUNNEL_ID else None]"

definition of13_map_bitmap_actions :: "(action_type \<Rightarrow> bool) \<Rightarrow> ofpat list" where
  "of13_map_bitmap_actions is_set = tries
    [if is_set OF1X_AT_COPY_TTL_IN then Some PAT_COPY_TTL_IN else None,
     if is_set OF1X_AT_POP_VLAN then Some PAT_POP_VLAN else None,
     if is_set OF1X_AT_POP_MPLS then Some PAT_POP_MPLS else None,
     if is_set OF1X_AT_POP_PBB then Some PAT_POP_PBB else None,
     if is_set OF1X_AT_PUSH_PBB then Some PAT_PUSH_PBB else None,
     if is_set OF1X_AT_PUSH_MPLS then Some PAT_PUSH_MPLS else None,
     if is_set OF1X_AT_PUSH_VLAN then Some PAT_PUSH_VLAN else None,
     if is_set OF1X_AT_COPY_TTL_OUT then Some PAT_COPY_TTL_OUT else None,
     if is_set OF1X_AT_DEC_NW_TTL then Some PAT_DEC_NW_TTL else None,
     if is_set OF1X_AT_DEC_MPLS_TTL then Some PAT_DEC_MPLS_TTL else None,
     if is_set OF1X_AT_SET_MPLS_TTL then Some PAT_SET_MPLS_TTL else None,
     if is_set OF1X_AT_SET_NW_TTL then Some PAT_SET_NW_TTL else None,
     if is_set OF1X_AT_SET_QUEUE then Some PAT_SET_QUEUE else None,
     if is_set OF1X_AT_GROUP then Some PAT_GROUP else None,
     if is_set OF1X_AT_OUTPUT then Some PAT_OUTPUT else None,
     Some PAT_SET_FIELD]"

definition of13_map_bitmap_instructions :: "(instruction_type \<Rightarrow> bool) \<Rightarrow> ofpit list" where
  "of13_map_bitmap_instructions is_set = tries
    [if is_set OF1X_IT_APPLY_ACTIONS then Some PIT_APPLY_ACTIONS else None,
     if is_set OF1X_IT_CLEAR_ACTIONS then Some PIT_CLEAR_ACTIONS else None,
     if is_set OF1X_IT_WRITE_ACTIONS then Some PIT_WRITE_ACTIONS else None,
     if is_set OF1X_IT_WRITE_METADATA then Some PIT_WRITE_METADATA else None,
     if is_set OF1X_IT_GOTO_TABLE then Some PIT_GOTO_TABLE else None,
     if is_set OF1X_IT_METER then Some PIT_METER else None]"

definition get_port_speed_kb :: "ofp \<Rightarrow> u32 \<Rightarrow> u32" where
  "get_port_speed_kb P features = (let has = (\<lambda>c. features AND PORT_FEATURE P c \<noteq> 0) in
     if has PORT_FEATURE_1TB_FD then 1000000000
     else if has PORT_FEATURE_100GB_FD then 100000000
     else if has PORT_FEATURE_40GB_FD then 40000000
     else if has PORT_FEATURE_1GB_FD \<or> has PORT_FEATURE_1GB_HD then 1000000
     else if has PORT_FEATURE_100MB_FD \<or> has PORT_FEATURE_100MB_HD then 100000
     else if has PORT_FEATURE_10MB_FD \<or> has PORT_FEATURE_10MB_HD then 10000
     else 0)"

end
