(* ===== verification/Of_Roundtrip.thy ===== *)
theory Of_Roundtrip
  imports Of13_Translation Of12_Translation "HOL-Library.Multiset"
begin

text \<open>
  What the OpenFlow translations do, under named hypotheses on the library: \<open>stores\<close> and \<open>stores_action\<close> say what the
  accessors of an object return after the call that made it, \<open>reports\<close> what a message has after its fields have been
  set, \<open>says\<close> that a received field is the one that is made again. Matches and actions survive the way into the
  pipeline and back, with the exceptions the theorems name, and so do the instructions of a flow-mod (\<open>stores_group\<close> says
  how the library keeps them); what is announced is what is translated; OpenFlow 1.2 agrees with 1.3 but for what it
  leaves out. \<open>example_match\<close>, \<open>example_action\<close>, \<open>example_instruction\<close> and \<open>example_cofmatch\<close> meet the hypotheses.
\<close>

section \<open>Widths of the fields\<close>

text \<open>The width of the integers through which a match of a field is read, and the width of the field in a message (an
  address of Ethernet has 48 bits). A field without a mask is reported with a mask of all ones of that width.\<close>

definition field_bits :: "oxm \<Rightarrow> nat" where
  "field_bits f = (
     if f \<in> {OFB OXM_VLAN_PCP, OFB OXM_IP_DSCP, OFB OXM_IP_ECN, OFB OXM_IP_PROTO, OFB OXM_ICMPV4_TYPE,
     OFB OXM_ICMPV4_CODE, OFB OXM_ICMPV6_TYPE, OFB OXM_ICMPV6_CODE, OFB OXM_MPLS_TC, OFB OXM_MPLS_BOS,
     OFX OXM_PPPOE_CODE, OFX OXM_PPPOE_TYPE, OFX OXM_GTP_MSG_TYPE, OFX OXM_CAPWAP_WBID, OFX OXM_CAPWAP_RID,
     OFX OXM_WLAN_TYPE, OFX OXM_WLAN_SUBTYPE, OFX OXM_WLAN_DIRECTION} then 8
     else if f \<in> {OFB OXM_ETH_TYPE, OFB OXM_VLAN_VID, OFB OXM_ARP_OP, OFB OXM_TCP_SRC, OFB OXM_TCP_DST, OFB OXM_UDP_SRC,
     OFB OXM_UDP_DST, OFB OXM_SCTP_SRC, OFB OXM_SCTP_DST, OFB OXM_IPV6_EXTHDR, OFX OXM_PPPOE_SID,
     OFX OXM_PPP_PROT, OFX OXM_CAPWAP_FLAGS, OFX OXM_WLAN_FC, OFX OXM_GRE_VERSION, OFX OXM_GRE_PROT_TYPE} then 16
     else if f \<in> {OFB OXM_IN_PORT, OFB OXM_IN_PHY_PORT, OFB OXM_ARP_SPA, OFB OXM_ARP_TPA, OFB OXM_IPV4_SRC, OFB OXM_IPV4_DST,
     OFB OXM_IPV6_FLABEL, OFB OXM_MPLS_LABEL, OFB OXM_PBB_ISID, OFX OXM_GTP_TEID, OFX OXM_GRE_KEY} then 32
     else if f \<in> {OFB OXM_IPV6_SRC, OFB OXM_IPV6_DST, OFB OXM_IPV6_ND_TARGET} then 128
     else 64)"

definition mac_fields :: "oxm set" where
  "mac_fields = {OFB OXM_ETH_SRC, OFB OXM_ETH_DST, OFB OXM_ARP_SHA, OFB OXM_ARP_THA, OFB OXM_IPV6_ND_SLL,
     OFB OXM_IPV6_ND_TLL, OFX OXM_WLAN_ADDRESS_1, OFX OXM_WLAN_ADDRESS_2, OFX OXM_WLAN_ADDRESS_3}"

definition oxm_bits :: "oxm \<Rightarrow> nat" where
  "oxm_bits f = (if f \<in> mac_fields then 48 else field_bits f)"

text \<open>The fields that may have a mask, of those the translation reads.\<close>

definition maskable :: "oxm set" where
  "maskable = {OFB OXM_METADATA, OFB OXM_ETH_SRC, OFB OXM_ETH_DST, OFB OXM_IPV4_SRC, OFB OXM_IPV4_DST, OFB OXM_ARP_SHA,
     OFB OXM_ARP_SPA, OFB OXM_ARP_THA, OFB OXM_ARP_TPA, OFB OXM_IPV6_SRC, OFB OXM_IPV6_DST, OFB OXM_IPV6_FLABEL,
     OFB OXM_TUNNEL_ID, OFB OXM_PBB_ISID, OFX OXM_GTP_TEID, OFX OXM_CAPWAP_WBID, OFX OXM_CAPWAP_RID,
     OFX OXM_CAPWAP_FLAGS, OFX OXM_WLAN_FC, OFX OXM_WLAN_TYPE, OFX OXM_WLAN_SUBTYPE, OFX OXM_WLAN_DIRECTION,
     OFX OXM_WLAN_ADDRESS_1, OFX OXM_WLAN_ADDRESS_2, OFX OXM_WLAN_ADDRESS_3, OFB OXM_VLAN_VID,
     OFB OXM_IPV6_EXTHDR}"

text \<open>The fields in the order in which the translation of a message reads them.\<close>

definition basic_order :: "oxm list" where
  "basic_order = [OFB OXM_IN_PORT, OFB OXM_IN_PHY_PORT, OFB OXM_METADATA, OFB OXM_ETH_SRC, OFB OXM_ETH_DST, OFB OXM_ETH_TYPE,
     OFB OXM_VLAN_VID, OFB OXM_VLAN_PCP, OFB OXM_IP_DSCP, OFB OXM_IP_ECN, OFB OXM_IP_PROTO, OFB OXM_IPV4_SRC,
     OFB OXM_IPV4_DST, OFB OXM_TCP_SRC, OFB OXM_TCP_DST, OFB OXM_UDP_SRC, OFB OXM_UDP_DST, OFB OXM_SCTP_SRC,
     OFB OXM_SCTP_DST, OFB OXM_ICMPV4_TYPE, OFB OXM_ICMPV4_CODE, OFB OXM_ARP_OP, OFB OXM_ARP_SHA,
     OFB OXM_ARP_SPA, OFB OXM_ARP_THA, OFB OXM_ARP_TPA, OFB OXM_IPV6_SRC, OFB OXM_IPV6_DST, OFB OXM_IPV6_FLABEL,
     OFB OXM_ICMPV6_TYPE, OFB OXM_ICMPV6_CODE, OFB OXM_IPV6_ND_TARGET, OFB OXM_IPV6_ND_SLL, OFB OXM_IPV6_ND_TLL,
     OFB OXM_MPLS_LABEL, OFB OXM_MPLS_TC, OFB OXM_MPLS_BOS, OFB OXM_TUNNEL_ID, OFB OXM_PBB_ISID]"

definition experimental_order :: "oxm list" where
  "experimental_order = [OFX OXM_PPPOE_CODE, OFX OXM_PPPOE_TYPE, OFX OXM_PPPOE_SID, OFX OXM_PPP_PROT, OFX OXM_GTP_MSG_TYPE,
     OFX OXM_GTP_TEID, OFX OXM_CAPWAP_WBID, OFX OXM_CAPWAP_RID, OFX OXM_CAPWAP_FLAGS, OFX OXM_WLAN_FC,
     OFX OXM_WLAN_TYPE, OFX OXM_WLAN_SUBTYPE, OFX OXM_WLAN_DIRECTION, OFX OXM_WLAN_ADDRESS_1,
     OFX OXM_WLAN_ADDRESS_2, OFX OXM_WLAN_ADDRESS_3, OFX OXM_GRE_VERSION, OFX OXM_GRE_PROT_TYPE, OFX OXM_GRE_KEY]"

section \<open>What is relied on of the library\<close>

text \<open>The number a match of the pipeline holds, read with the accessor of \<open>n\<close> bits, and its mask.\<close>

definition value_of :: "nat \<Rightarrow> of1x_match \<Rightarrow> u128" where
  "value_of n m = (if n = 8 then ucast (match_value8 m) else if n = 16 then ucast (match_value16 m)
     else if n = 32 then ucast (match_value32 m) else if n = 64 then ucast (match_value64 m) else match_value128 m)"

definition mask_of :: "nat \<Rightarrow> of1x_match \<Rightarrow> u128" where
  "mask_of n m = (if n = 8 then ucast (match_mask8 m) else if n = 16 then ucast (match_mask16 m)
     else if n = 32 then ucast (match_mask32 m) else if n = 64 then ucast (match_mask64 m) else match_mask128 m)"

text \<open>
  A match made by an initialiser has the kind it is named after, and the accessors of its width return the value and
  the mask. Of the VLAN identifier the library keeps 12 bits of value and mask, which is what the translation back
  expects when it compares the mask with \<open>0x0fff\<close>.
\<close>

fun stores :: "match_call \<Rightarrow> of1x_match \<Rightarrow> bool" where
  "stores (init_match (OF1X_MATCH f) v) m \<longleftrightarrow>
     m_type m = OF1X_MATCH f \<and> value_of (field_bits f) m = take_bit (field_bits f) v"
| "stores (init_masked_match (OF1X_MATCH f) v k) m \<longleftrightarrow>
     m_type m = OF1X_MATCH f \<and> value_of (field_bits f) m = take_bit (field_bits f) v \<and>
     mask_of (field_bits f) m = take_bit (field_bits f) k"
| "stores (init_vlan_vid_match v k p) m \<longleftrightarrow>
     m_type m = OF1X_MATCH (OFB OXM_VLAN_VID) \<and> vlan_present m = p \<and>
     match_value16 m = ucast v AND 0x0FFF \<and> match_mask16 m = ucast k AND 0x0FFF"

text \<open>
  A match of a message to which the fields have been set by \<open>calls\<close> has for each field what the last call for it has
  set, all ones for the mask if there was none; it has no other field.
\<close>

definition ones :: "oxm \<Rightarrow> u128" where
  "ones f = mask (oxm_bits f)"

fun last_set :: "oxm \<Rightarrow> set_call list \<Rightarrow> (u128 \<times> u128) option" where
  "last_set f [] = None"
| "last_set f (set_match g v # cs) =
     (case last_set f cs of None \<Rightarrow> if g = f then Some (v, ones f) else None | Some r \<Rightarrow> Some r)"
| "last_set f (set_masked_match g v k # cs) =
     (case last_set f cs of None \<Rightarrow> if g = f then Some (v, k) else None | Some r \<Rightarrow> Some r)"

definition reports :: "set_call list \<Rightarrow> cofmatch \<Rightarrow> bool" where
  "reports calls c \<longleftrightarrow> (\<forall>f. oxm_value c f = map_option fst (last_set f calls) \<and>
                            oxm_mask c f = map_option snd (last_set f calls))"

text \<open>A match as a message can have it: a field has a value and a mask or neither, both fit, and only a maskable field
  has a mask that is not all ones.\<close>

definition well_formed_match :: "cofmatch \<Rightarrow> bool" where
  "well_formed_match c \<longleftrightarrow> (\<forall>f.
     (case (oxm_value c f, oxm_mask c f) of
        (None, None) \<Rightarrow> True
      | (Some v, Some k) \<Rightarrow> take_bit (oxm_bits f) v = v \<and> take_bit (oxm_bits f) k = k \<and> (f \<notin> maskable \<longrightarrow> k = ones f)
      | _ \<Rightarrow> False))"

text \<open>The values of the constants in OpenFlow 1.2 and 1.3.\<close>

definition vid_constants :: "ofp \<Rightarrow> bool" where
  "vid_constants P \<longleftrightarrow> OFPVID_PRESENT P = 0x1000 \<and> OFPVID_NONE P = 0"

section \<open>A match, field by field\<close>

text \<open>What the translation makes of one field.\<close>

definition match_entry :: "ofp \<Rightarrow> cofmatch \<Rightarrow> oxm \<Rightarrow> match_call option" where
  "match_entry P c f = do { v \<leftarrow> oxm_value c f; k \<leftarrow> oxm_mask c f;
     Some (if f = OFB OXM_VLAN_VID then init_vlan_vid_match v k (of13_vlan_present P v k)
           else if f \<in> maskable then init_masked_match (OF1X_MATCH f) v k else init_match (OF1X_MATCH f) v) }"

lemma field_bits_cases: "field_bits f \<in> {8, 16, 32, 64, 128}"
  by (simp add: field_bits_def)

lemma well_formed_cases:
  assumes "well_formed_match c"
  shows "oxm_value c f = None \<and> oxm_mask c f = None \<or>
    (\<exists>v k. oxm_value c f = Some v \<and> oxm_mask c f = Some k \<and>
           take_bit (oxm_bits f) v = v \<and> take_bit (oxm_bits f) k = k \<and> (f \<notin> maskable \<longrightarrow> k = ones f))"
  using assms unfolding well_formed_match_def by (auto split: option.splits dest!: spec [of _ f])

lemma oxm_bits_le: "oxm_bits f \<le> field_bits f"
  by (auto simp: oxm_bits_def mac_fields_def field_bits_def)

lemma fits_field:
  assumes "take_bit (oxm_bits f) (v::u128) = v"
  shows "take_bit (field_bits f) v = v"
proof -
  have "take_bit (field_bits f) (take_bit (oxm_bits f) v) = take_bit (oxm_bits f) v"
    using oxm_bits_le [of f] by (simp only: take_bit_take_bit) (simp add: min_absorb2)
  then show ?thesis using assms by simp
qed

definition arg_conv :: "oxm \<Rightarrow> u128 \<Rightarrow> u128" where
  "arg_conv f v = (
     if f \<in> {OFX OXM_PPPOE_CODE, OFX OXM_PPPOE_TYPE, OFX OXM_GTP_MSG_TYPE, OFX OXM_CAPWAP_WBID, OFX OXM_CAPWAP_RID,
     OFX OXM_WLAN_TYPE, OFX OXM_WLAN_SUBTYPE, OFX OXM_WLAN_DIRECTION} then as_u8 v
     else if f \<in> {OFX OXM_PPPOE_SID, OFX OXM_PPP_PROT, OFX OXM_CAPWAP_FLAGS, OFX OXM_WLAN_FC, OFX OXM_GRE_VERSION,
     OFX OXM_GRE_PROT_TYPE} then as_u16 v
     else if f \<in> {OFB OXM_MPLS_LABEL, OFB OXM_PBB_ISID, OFX OXM_GTP_TEID, OFX OXM_GRE_KEY} then as_u32 v
     else if f \<in> {OFX OXM_WLAN_ADDRESS_1, OFX OXM_WLAN_ADDRESS_2, OFX OXM_WLAN_ADDRESS_3} then as_u48 v
     else if f \<in> {OFB OXM_ETH_SRC, OFB OXM_ETH_DST, OFB OXM_ARP_SHA, OFB OXM_ARP_THA, OFB OXM_IPV6_ND_SLL,
     OFB OXM_IPV6_ND_TLL, OFB OXM_TUNNEL_ID} then as_u64 v
     else v)"

text \<open>The block of the code for one field: the conversions to the type of its variables, and the call.\<close>

definition match_block :: "ofp \<Rightarrow> cofmatch \<Rightarrow> oxm \<Rightarrow> match_call option" where
  "match_block P c f =
     (if f = OFB OXM_VLAN_VID then do { v \<leftarrow> oxm_value c f; k \<leftarrow> oxm_mask c f;
        Some (init_vlan_vid_match (as_u16 v) (as_u16 k) (of13_vlan_present P (as_u16 v) (as_u16 k))) }
      else if f \<in> maskable then do { v \<leftarrow> oxm_value c f; k \<leftarrow> oxm_mask c f;
        Some (init_masked_match (OF1X_MATCH f) (arg_conv f v) (arg_conv f k)) }
      else do { v \<leftarrow> oxm_value c f; Some (init_match (OF1X_MATCH f) (arg_conv f v)) })"

lemma take_bit_more:
  assumes "take_bit 48 (v::u128) = v"
  shows "take_bit 64 v = v"
proof -
  have "take_bit 64 (take_bit 48 v) = take_bit 48 v" by (simp only: take_bit_take_bit) simp
  then show ?thesis using assms by simp
qed

lemmas bits_defs = as_uN oxm_bits_def mac_fields_def field_bits_def

lemma arg_conv_fits:
  assumes "take_bit (oxm_bits f) v = v"
  shows "arg_conv f v = v"
proof (cases f)
  case (OFB g)
  then show ?thesis using assms by (cases g) (simp_all add: arg_conv_def bits_defs take_bit_more)
next
  case (OFX g)
  then show ?thesis using assms by (cases g) (simp_all add: arg_conv_def bits_defs take_bit_more)
qed

lemmas of13_match_defs = of13_map_flow_entry_matches_def of13_link_matches_def of13_l3_l4_matches_def
  of13_arp_ipv6_matches_def of13_icmpv6_mpls_matches_def of13_experimental_matches_def

definition field_order :: "ofp \<Rightarrow> oxm list" where
  "field_order P = basic_order @ (if EXPERIMENTAL P then experimental_order else [])"

lemma of13_matches_are_blocks:
  "of13_map_flow_entry_matches P c = tries (map (match_block P c) (field_order P))"
  unfolding of13_match_defs field_order_def basic_order_def experimental_order_def
  by (simp add: match_block_def maskable_def arg_conv_def Let_def flip: tries_append)

lemma distinct_field_order: "distinct (field_order P)"
  by (simp add: field_order_def basic_order_def experimental_order_def)

lemma match_block_entry: "well_formed_match c \<Longrightarrow> match_block P c f = match_entry P c f"
  using well_formed_cases [of c f]
  by (auto simp: match_block_def match_entry_def arg_conv_fits bits_defs)

lemma of13_matches_are_entries:
  "well_formed_match c \<Longrightarrow> of13_map_flow_entry_matches P c = tries (map (match_entry P c) (field_order P))"
  by (simp add: of13_matches_are_blocks match_block_entry [THEN ext])

section \<open>Back from the pipeline\<close>

fun set_field :: "set_call \<Rightarrow> oxm" where
  "set_field (set_match f v) = f"
| "set_field (set_masked_match f v k) = f"

lemma last_set_other: "set_field s \<noteq> f \<Longrightarrow> last_set f (s # cs) = last_set f cs"
  by (cases s) (auto split: option.splits)

lemma last_set_append: "last_set f (xs @ ys) = (case last_set f ys of None \<Rightarrow> last_set f xs | Some r \<Rightarrow> Some r)"
proof (induction xs)
  case (Cons s xs)
  then show ?case by (cases s) (auto split: option.splits)
qed (auto split: option.splits)

lemma of13_reverse_concat:
  "of13_map_reverse_flow_entry_matches P ms = concat (map (of13_reverse_match P) ms)"
  by (induction ms) simp_all

text \<open>Matches made from distinct fields, each turned back into one call for its field: the last call for a field is the
  one for its own match.\<close>

lemma last_set_absent:
  assumes "list_all2 stores (tries (map E fs)) ms"
    and one: "\<And>g call m. g \<in> set fs \<Longrightarrow> E g = Some call \<Longrightarrow> stores call m \<Longrightarrow> \<exists>s. tr m = [s] \<and> set_field s = g"
    and "f \<notin> set fs \<or> E f = None"
  shows "last_set f (concat (map tr ms)) = None"
  using assms
proof (induction fs arbitrary: ms)
  case (Cons g fs)
  show ?case
  proof (cases "E g")
    case None
    then show ?thesis using Cons by auto
  next
    case (Some call)
    then obtain m ms' where ms: "ms = m # ms'" "stores call m" "list_all2 stores (tries (map E fs)) ms'"
      using Cons.prems(1) by (auto simp: list_all2_Cons1)
    obtain s where s: "tr m = [s]" "set_field s = g" using Cons.prems(2) [of g call m] Some ms by auto
    have "g \<noteq> f" using Cons.prems(3) Some by auto
    moreover have "last_set f (concat (map tr ms')) = None"
      using Cons.IH [OF ms(3)] Cons.prems(2,3) by auto
    ultimately show ?thesis using s ms(1) by (simp add: last_set_other)
  qed
qed simp

lemma last_set_present:
  assumes "list_all2 stores (tries (map E fs)) ms" and "distinct fs"
    and one: "\<And>g call m. g \<in> set fs \<Longrightarrow> E g = Some call \<Longrightarrow> stores call m \<Longrightarrow> \<exists>s. tr m = [s] \<and> set_field s = g"
    and "f \<in> set fs" and "E f = Some call"
  shows "\<exists>m. stores call m \<and> last_set f (concat (map tr ms)) = last_set f (tr m)"
  using assms
proof (induction fs arbitrary: ms)
  case (Cons g fs)
  show ?case
  proof (cases "E g")
    case None
    then show ?thesis using Cons by auto
  next
    case (Some gcall)
    then obtain m ms' where ms: "ms = m # ms'" "stores gcall m" "list_all2 stores (tries (map E fs)) ms'"
      using Cons.prems(1) by (auto simp: list_all2_Cons1)
    obtain s where s: "tr m = [s]" "set_field s = g" using Cons.prems(3) [of g gcall m] Some ms by auto
    show ?thesis
    proof (cases "g = f")
      case True
      then have "last_set f (concat (map tr ms')) = None"
        using last_set_absent [OF ms(3), of tr f] Cons.prems(2,3) by auto
      then have "last_set f (concat (map tr ms)) = last_set f (tr m)"
        by (simp add: ms(1) last_set_append)
      then show ?thesis using ms True Some Cons.prems(5) by auto
    next
      case False
      then have "f \<in> set fs" using Cons.prems(4) by simp
      then obtain m' where "stores call m'" "last_set f (concat (map tr ms')) = last_set f (tr m')"
        using Cons.IH [OF ms(3)] Cons.prems(2,3,5) by auto
      moreover have "last_set f (concat (map tr ms)) = last_set f (concat (map tr ms'))"
        using False s ms(1) by (simp add: last_set_other)
      ultimately show ?thesis by auto
    qed
  qed
qed simp

lemma of13_reverse_stored:
  assumes wf: "well_formed_match c" and e: "match_entry P c f = Some call" and st: "stores call m"
    and "f \<noteq> OFB OXM_VLAN_VID" and "EXPERIMENTAL P \<or> (\<exists>g. f = OFB g)"
  shows "\<exists>v k. oxm_value c f = Some v \<and> oxm_mask c f = Some k \<and> of13_reverse_match P m =
     [if f \<in> maskable \<and> f \<noteq> OFB OXM_TUNNEL_ID \<and> f \<noteq> OFB OXM_IPV6_EXTHDR then set_masked_match f v k else set_match f v]"
proof -
  obtain v k where vk: "oxm_value c f = Some v" "oxm_mask c f = Some k"
    "take_bit (oxm_bits f) v = v" "take_bit (oxm_bits f) k = k"
    using e well_formed_cases [OF wf, of f] by (auto simp: match_entry_def bind_Some_iff)
  note fits = vk(3,4) [THEN fits_field]
  have call: "call = (if f \<in> maskable then init_masked_match (OF1X_MATCH f) v k else init_match (OF1X_MATCH f) v)"
    using e vk(1,2) assms(4) by (auto simp: match_entry_def)
  have t: "m_type m = OF1X_MATCH f" "value_of (field_bits f) m = v" "f \<in> maskable \<Longrightarrow> mask_of (field_bits f) m = k"
    using st fits by (auto simp: call split: if_splits)
  have "of13_reverse_match P m =
     [if f \<in> maskable \<and> f \<noteq> OFB OXM_TUNNEL_ID \<and> f \<noteq> OFB OXM_IPV6_EXTHDR then set_masked_match f v k else set_match f v]"
  proof (cases f)
    case (OFB g)
    then show ?thesis using t assms(4) unfolding of13_reverse_match_def
      by (cases g) (simp_all add: of13_reverse_match_1_def of13_reverse_match_2_def value_of_def mask_of_def field_bits_def maskable_def)
  next
    case (OFX g)
    then show ?thesis using t assms(5) unfolding of13_reverse_match_def
      by (cases g) (simp_all add: of13_reverse_match_experimental_def value_of_def mask_of_def field_bits_def maskable_def)
  qed
  then show ?thesis using vk by blast
qed

lemma vlan_entry:
  assumes wf: "well_formed_match c" and e: "match_entry P c (OFB OXM_VLAN_VID) = Some call" and st: "stores call m"
  shows "\<exists>v k. oxm_value c (OFB OXM_VLAN_VID) = Some v \<and> oxm_mask c (OFB OXM_VLAN_VID) = Some k \<and>
     take_bit 16 v = v \<and> take_bit 16 k = k \<and> m_type m = OF1X_MATCH (OFB OXM_VLAN_VID) \<and>
     vlan_present m = of13_vlan_present P v k \<and>
     match_value16 m = ucast v AND 0x0FFF \<and> match_mask16 m = ucast k AND 0x0FFF"
  using well_formed_cases [OF wf, of "OFB OXM_VLAN_VID"] e st
  by (auto simp: match_entry_def oxm_bits_def mac_fields_def field_bits_def)

lemma vlan_reverse: "m_type m = OF1X_MATCH (OFB OXM_VLAN_VID) \<Longrightarrow> of13_reverse_match P m = of13_reverse_vlan_vid P m"
  by (simp add: of13_reverse_match_def of13_reverse_match_1_def)

lemma vlan_one_call: "\<exists>s. of13_reverse_vlan_vid P m = [s] \<and> set_field s = OFB OXM_VLAN_VID"
  by (cases "vlan_present m") (simp_all add: of13_reverse_vlan_vid_def)

text \<open>The VLAN matches of OpenFlow without a partial mask: no tag, any tag, one identifier.\<close>

definition plain_vlan :: "u128 \<Rightarrow> u128 \<Rightarrow> bool" where
  "plain_vlan v k \<longleftrightarrow> v = 0 \<and> k = 0xFFFF \<or> v = 0x1000 \<and> k = 0x1000 \<or> v = (v AND 0x0FFF) OR 0x1000 \<and> k = 0xFFFF"

lemma ucast_masked: "ucast ((ucast (v::u128) :: u16) AND 0x0FFF) = v AND (0x0FFF :: u128)"
proof -
  have "v AND 0x0FFF = take_bit 12 v" by (simp add: take_bit_eq_mask mask_eq_exp_minus_1)
  moreover have "(ucast v :: u16) AND 0x0FFF = take_bit 12 (ucast v)" by (simp add: take_bit_eq_mask mask_eq_exp_minus_1)
  ultimately show ?thesis by (auto intro!: bit_word_eqI simp: bit_simps)
qed

lemma ucast_masked_or: "ucast (((ucast (v::u128) :: u16) AND 0x0FFF) OR 0x1000) = (v AND 0x0FFF) OR (0x1000 :: u128)"
  by (simp only: unsigned_or_eq ucast_masked) simp

lemma vlan_last_set:
  assumes K: "vid_constants P" and "plain_vlan v k" and "vlan_present m = of13_vlan_present P v k"
    and m: "match_value16 m = ucast v AND 0x0FFF" "match_mask16 m = ucast k AND 0x0FFF"
  shows "last_set (OFB OXM_VLAN_VID) (of13_reverse_vlan_vid P m) = Some (v, k)"
proof -
  have o: "ones (OFB OXM_VLAN_VID) = 0xFFFF"
    by (simp add: ones_def oxm_bits_def mac_fields_def field_bits_def mask_eq_exp_minus_1)
  consider "v = 0" "k = 0xFFFF" | "v = 0x1000" "k = 0x1000" | "v = (v AND 0x0FFF) OR 0x1000" "k = 0xFFFF"
    using assms(2) by (auto simp: plain_vlan_def)
  then show ?thesis
  proof cases
    case 3
    have "v \<noteq> 0" by (subst 3(1)) (simp add: or_eq_0_iff)
    then have "vlan_present m = OF1X_MATCH_VLAN_SPECIFIC"
      using assms(3) 3(2) K by (simp add: of13_vlan_present_def vid_constants_def)
    then show ?thesis using m 3 o K
      by (simp add: of13_reverse_vlan_vid_def vid_constants_def ucast_masked_or)
  qed (use assms o in \<open>simp_all add: of13_vlan_present_def of13_reverse_vlan_vid_def vid_constants_def\<close>)
qed

lemma one_call:
  assumes "well_formed_match c" and "f \<in> set (field_order P)" and "match_entry P c f = Some call" and "stores call m"
  shows "\<exists>s. of13_reverse_match P m = [s] \<and> set_field s = f"
proof (cases "f = OFB OXM_VLAN_VID")
  case True
  then show ?thesis
    using vlan_entry [OF assms(1) assms(3) [unfolded True] assms(4)] vlan_reverse vlan_one_call by metis
next
  case False
  have "EXPERIMENTAL P \<or> (\<exists>g. f = OFB g)"
    using assms(2) by (auto simp: field_order_def basic_order_def split: if_splits)
  then show ?thesis using of13_reverse_stored [OF assms(1,3,4) False] by auto
qed

lemma in_field_order: "f \<in> set (field_order P) \<longleftrightarrow> f \<noteq> OFB OXM_IPV6_EXTHDR \<and> (EXPERIMENTAL P \<or> (\<exists>g. f = OFB g))"
proof (cases f)
  case (OFB g)
  then show ?thesis by (cases g) (simp_all add: field_order_def basic_order_def experimental_order_def)
next
  case (OFX g)
  then show ?thesis by (cases g) (simp_all add: field_order_def basic_order_def experimental_order_def)
qed

lemma round_trip_entry:
  assumes wf: "well_formed_match c" and st: "list_all2 stores (of13_map_flow_entry_matches P c) ms"
    and "f \<in> set (field_order P)"
  shows "match_entry P c f = None \<and> last_set f (of13_map_reverse_flow_entry_matches P ms) = None \<or>
    (\<exists>call m. match_entry P c f = Some call \<and> stores call m \<and>
       last_set f (of13_map_reverse_flow_entry_matches P ms) = last_set f (of13_reverse_match P m))"
proof (cases "match_entry P c f")
  case None
  then show ?thesis
    using last_set_absent [OF st [unfolded of13_matches_are_entries [OF wf]], of "of13_reverse_match P" f]
      one_call [OF wf] by (simp add: of13_reverse_concat)
next
  case (Some call)
  then show ?thesis
    using last_set_present [OF st [unfolded of13_matches_are_entries [OF wf]] distinct_field_order, of "of13_reverse_match P" f call]
      one_call [OF wf] assms(3) by (auto simp: of13_reverse_concat)
qed

section \<open>Round trip of a match\<close>

text \<open>C27: the match of a message, installed and reported back by the library's accessors, is the same match: each
  field the code translates has the value and the mask it had, or is absent as it was. Not covered are a tunnel identifier
  with a mask and a VLAN identifier with a partial mask, which come back changed, and the IPv6 extension
  header, which is never installed.\<close>

theorem of13_match_round_trip:
  assumes "well_formed_match c" and "vid_constants P"
    and "list_all2 stores (of13_map_flow_entry_matches P c) ms"
    and "reports (of13_map_reverse_flow_entry_matches P ms) c'"
    and "EXPERIMENTAL P \<or> (\<exists>g. f = OFB g)" and "f \<noteq> OFB OXM_IPV6_EXTHDR"
    and "f = OFB OXM_TUNNEL_ID \<Longrightarrow> oxm_mask c f = None \<or> oxm_mask c f = Some (ones f)"
    and "\<And>v k. f = OFB OXM_VLAN_VID \<Longrightarrow> oxm_value c f = Some v \<Longrightarrow> oxm_mask c f = Some k \<Longrightarrow> plain_vlan v k"
  shows "oxm_value c' f = oxm_value c f \<and> oxm_mask c' f = oxm_mask c f"
proof -
  let ?r = "last_set f (of13_map_reverse_flow_entry_matches P ms)"
  have c': "oxm_value c' f = map_option fst ?r" "oxm_mask c' f = map_option snd ?r"
    using assms(4) by (auto simp: reports_def)
  have "f \<in> set (field_order P)" using assms(5,6) in_field_order by simp
  from round_trip_entry [OF assms(1,3) this] show ?thesis
  proof (elim disjE exE conjE)
    assume "match_entry P c f = None" "?r = None"
    then show ?thesis using c' well_formed_cases [OF assms(1), of f] by (auto simp: match_entry_def)
  next
    fix call m
    assume e: "match_entry P c f = Some call" "stores call m" and r: "?r = last_set f (of13_reverse_match P m)"
    show ?thesis
    proof (cases "f = OFB OXM_VLAN_VID")
      case True
      obtain v k where vk: "oxm_value c f = Some v" "oxm_mask c f = Some k" "m_type m = OF1X_MATCH f"
        "vlan_present m = of13_vlan_present P v k" "match_value16 m = ucast v AND 0x0FFF" "match_mask16 m = ucast k AND 0x0FFF"
        using vlan_entry [OF assms(1) e(1) [unfolded True] e(2)] True by auto
      have "plain_vlan v k" using assms(8) True vk(1,2) by blast
      then have "?r = Some (v, k)"
        using vlan_last_set [OF assms(2) _ vk(4,5,6)] r vlan_reverse [OF vk(3) [unfolded True]] True by simp
      then show ?thesis using c' vk by simp
    next
      case False
      obtain v k where vk: "oxm_value c f = Some v" "oxm_mask c f = Some k" and
        s: "of13_reverse_match P m = [if f \<in> maskable \<and> f \<noteq> OFB OXM_TUNNEL_ID \<and> f \<noteq> OFB OXM_IPV6_EXTHDR
              then set_masked_match f v k else set_match f v]"
        using of13_reverse_stored [OF assms(1) e False assms(5)] by auto
      have "k = ones f" if "\<not> (f \<in> maskable \<and> f \<noteq> OFB OXM_TUNNEL_ID \<and> f \<noteq> OFB OXM_IPV6_EXTHDR)"
        using that assms(6,7) vk well_formed_cases [OF assms(1), of f] by auto
      then show ?thesis using c' r s vk by (auto split: if_splits)
    qed
  qed
qed

section \<open>A concrete library\<close>

text \<open>Matches and messages that do what is relied on, to show that the hypotheses can hold.\<close>

definition example_ofp :: ofp where
  "example_ofp = \<lparr> OFPVID_PRESENT = 0x1000, OFPVID_NONE = 0, OFPFF_SEND_FLOW_REM = 1,
     PORT_FEATURE = (\<lambda>f. case f of PORT_FEATURE_10MB_HD \<Rightarrow> 1 | PORT_FEATURE_10MB_FD \<Rightarrow> 2 | PORT_FEATURE_100MB_HD \<Rightarrow> 4
       | PORT_FEATURE_100MB_FD \<Rightarrow> 8 | PORT_FEATURE_1GB_HD \<Rightarrow> 16 | PORT_FEATURE_1GB_FD \<Rightarrow> 32 | PORT_FEATURE_10GB_FD \<Rightarrow> 64
       | PORT_FEATURE_40GB_FD \<Rightarrow> 128 | PORT_FEATURE_100GB_FD \<Rightarrow> 256 | PORT_FEATURE_1TB_FD \<Rightarrow> 512),
     EXPERIMENTAL = True, OF_NDEBUG = True \<rparr>"

definition example_fields :: "match_type \<Rightarrow> vlan_presence \<Rightarrow> u128 \<Rightarrow> u128 \<Rightarrow> of1x_match" where
  "example_fields t p v k = \<lparr> m_type = t, vlan_present = p,
     match_value8 = ucast v, match_value16 = ucast v, match_value32 = ucast v, match_value64 = ucast v, match_value128 = v,
     match_mask8 = ucast k, match_mask16 = ucast k, match_mask32 = ucast k, match_mask64 = ucast k, match_mask128 = k \<rparr>"

fun example_match :: "match_call \<Rightarrow> of1x_match" where
  "example_match (init_match t v) = example_fields t OF1X_MATCH_VLAN_NONE v 0"
| "example_match (init_masked_match t v k) = example_fields t OF1X_MATCH_VLAN_NONE v k"
| "example_match (init_vlan_vid_match v k p) = example_fields (OF1X_MATCH (OFB OXM_VLAN_VID)) p (v AND 0x0FFF) (k AND 0x0FFF)"

lemma example_value: "value_of (field_bits f) (example_fields t p v k) = take_bit (field_bits f) v"
  "mask_of (field_bits f) (example_fields t p v k) = take_bit (field_bits f) k"
  using field_bits_cases [of f] by (auto simp: value_of_def mask_of_def example_fields_def as_uN [unfolded as_u8_def as_u16_def as_u32_def as_u64_def] take_bit_word_eq_self)

lemma example_stores: "stores call (example_match call)"
proof (cases call)
  case (init_match t v)
  then show ?thesis by (cases t) (simp add: example_value, simp add: example_fields_def)
next
  case (init_masked_match t v k)
  then show ?thesis by (cases t) (simp add: example_value, simp add: example_fields_def)
next
  case (init_vlan_vid_match v k p)
  then show ?thesis by (simp add: example_fields_def unsigned_and_eq)
qed

lemma example_list_stores: "list_all2 stores calls (map example_match calls)"
  by (simp add: list_all2_map2 list_all2_same example_stores)

definition example_cofmatch :: "set_call list \<Rightarrow> cofmatch" where
  "example_cofmatch calls = \<lparr> oxm_value = (\<lambda>f. map_option fst (last_set f calls)), oxm_mask = (\<lambda>f. map_option snd (last_set f calls)) \<rparr>"

lemma example_reports: "reports calls (example_cofmatch calls)"
  by (simp add: reports_def example_cofmatch_def)

text \<open>A match on VLAN 100, IPv4 and a prefix of the source address.\<close>

definition example_msg :: cofmatch where
  "example_msg = \<lparr>
     oxm_value = (\<lambda>_. None)(OFB OXM_VLAN_VID := Some 0x1064, OFB OXM_ETH_TYPE := Some 0x0800, OFB OXM_IPV4_SRC := Some 0x0A000000),
     oxm_mask = (\<lambda>_. None)(OFB OXM_VLAN_VID := Some 0xFFFF, OFB OXM_ETH_TYPE := Some 0xFFFF, OFB OXM_IPV4_SRC := Some 0xFF000000) \<rparr>"

lemma example_msg_well_formed: "well_formed_match example_msg"
  by (simp add: well_formed_match_def example_msg_def ones_def maskable_def oxm_bits_def mac_fields_def field_bits_def
      mask_eq_exp_minus_1)

theorem of13_match_round_trip_witness:
  "oxm_value (example_cofmatch (of13_map_reverse_flow_entry_matches example_ofp
       (map example_match (of13_map_flow_entry_matches example_ofp example_msg)))) (OFB OXM_VLAN_VID) = Some 0x1064"
proof -
  have "oxm_value (example_cofmatch (of13_map_reverse_flow_entry_matches example_ofp
       (map example_match (of13_map_flow_entry_matches example_ofp example_msg)))) (OFB OXM_VLAN_VID) =
     oxm_value example_msg (OFB OXM_VLAN_VID)"
    by (rule of13_match_round_trip [THEN conjunct1, OF example_msg_well_formed _ example_list_stores example_reports])
       (simp_all add: vid_constants_def example_ofp_def example_msg_def plain_vlan_def)
  then show ?thesis by (simp add: example_msg_def)
qed

lemma of13_losses:
  assumes "well_formed_match c"
    and "list_all2 stores (of13_map_flow_entry_matches P c) ms"
    and "reports (of13_map_reverse_flow_entry_matches P ms) c'"
  shows "oxm_value c' (OFB OXM_IPV6_EXTHDR) = None"
    "oxm_mask c (OFB OXM_TUNNEL_ID) = Some k \<Longrightarrow> oxm_mask c' (OFB OXM_TUNNEL_ID) = Some (ones (OFB OXM_TUNNEL_ID))"
    "oxm_value c (OFB OXM_VLAN_VID) = Some v \<Longrightarrow> oxm_mask c (OFB OXM_VLAN_VID) = Some j \<Longrightarrow>
      of13_vlan_present P v j = OF1X_MATCH_VLAN_SPECIFIC \<Longrightarrow> j AND 0x0FFF \<noteq> 0x0FFF \<Longrightarrow>
      oxm_value c' (OFB OXM_VLAN_VID) = Some (v AND 0x0FFF) \<and> oxm_mask c' (OFB OXM_VLAN_VID) = Some (j AND 0x0FFF)"
proof -
  let ?r = "\<lambda>f. last_set f (of13_map_reverse_flow_entry_matches P ms)"
  have c': "oxm_value c' f = map_option fst (?r f)" "oxm_mask c' f = map_option snd (?r f)" for f
    using assms(3) by (auto simp: reports_def)
  show "oxm_value c' (OFB OXM_IPV6_EXTHDR) = None"
    using last_set_absent [OF assms(2) [unfolded of13_matches_are_entries [OF assms(1)]], of "of13_reverse_match P" "OFB OXM_IPV6_EXTHDR"]
      one_call [OF assms(1)] c' in_field_order by (auto simp: of13_reverse_concat)
  show "oxm_mask c' (OFB OXM_TUNNEL_ID) = Some (ones (OFB OXM_TUNNEL_ID))" if k: "oxm_mask c (OFB OXM_TUNNEL_ID) = Some k"
  proof -
    have "match_entry P c (OFB OXM_TUNNEL_ID) \<noteq> None"
      using k well_formed_cases [OF assms(1), of "OFB OXM_TUNNEL_ID"] by (auto simp: match_entry_def)
    then obtain call m where e: "match_entry P c (OFB OXM_TUNNEL_ID) = Some call" "stores call m"
      and r: "?r (OFB OXM_TUNNEL_ID) = last_set (OFB OXM_TUNNEL_ID) (of13_reverse_match P m)"
      using round_trip_entry [OF assms(1,2), of "OFB OXM_TUNNEL_ID"] in_field_order by auto
    show ?thesis using of13_reverse_stored [OF assms(1) e] c' r by auto
  qed
  show "oxm_value c' (OFB OXM_VLAN_VID) = Some (v AND 0x0FFF) \<and> oxm_mask c' (OFB OXM_VLAN_VID) = Some (j AND 0x0FFF)"
    if h: "oxm_value c (OFB OXM_VLAN_VID) = Some v" "oxm_mask c (OFB OXM_VLAN_VID) = Some j"
      "of13_vlan_present P v j = OF1X_MATCH_VLAN_SPECIFIC" "j AND 0x0FFF \<noteq> 0x0FFF"
  proof -
    have "match_entry P c (OFB OXM_VLAN_VID) \<noteq> None" using h by (auto simp: match_entry_def)
    then obtain call m where e: "match_entry P c (OFB OXM_VLAN_VID) = Some call" "stores call m"
      and r: "?r (OFB OXM_VLAN_VID) = last_set (OFB OXM_VLAN_VID) (of13_reverse_match P m)"
      using round_trip_entry [OF assms(1,2), of "OFB OXM_VLAN_VID"] in_field_order by auto
    have m: "m_type m = OF1X_MATCH (OFB OXM_VLAN_VID)" "vlan_present m = OF1X_MATCH_VLAN_SPECIFIC"
      "match_value16 m = ucast v AND 0x0FFF" "match_mask16 m = ucast j AND 0x0FFF"
      using vlan_entry [OF assms(1) e] h by auto
    have "match_mask16 m \<noteq> 0x0FFF"
    proof
      assume "match_mask16 m = 0x0FFF"
      then have "j AND 0x0FFF = ucast (0x0FFF :: u16)" using ucast_masked [of j] m(4) by simp
      then show False using h(4) by simp
    qed
    then show ?thesis using c' r vlan_reverse [OF m(1)] m by (simp add: of13_reverse_vlan_vid_def ucast_masked)
  qed
qed

text \<open>C38: what the round trip loses. An IPv6 extension header in a message is never installed, so the entry matches more
  than was asked for. The mask of a tunnel identifier is installed but reported as a full mask. A VLAN identifier with a
  partial mask is reported without the bit that says that the tag must be present.\<close>

theorem of13_match_losses:
  assumes "well_formed_match c"
    and "list_all2 stores (of13_map_flow_entry_matches P c) ms"
    and "reports (of13_map_reverse_flow_entry_matches P ms) c'"
  shows "oxm_value c' (OFB OXM_IPV6_EXTHDR) = None \<and>
    (oxm_mask c (OFB OXM_TUNNEL_ID) \<noteq> None \<longrightarrow> oxm_mask c' (OFB OXM_TUNNEL_ID) = Some (ones (OFB OXM_TUNNEL_ID))) \<and>
    (\<forall>v k. oxm_value c (OFB OXM_VLAN_VID) = Some v \<and> oxm_mask c (OFB OXM_VLAN_VID) = Some k \<and>
      of13_vlan_present P v k = OF1X_MATCH_VLAN_SPECIFIC \<and> k AND 0x0FFF \<noteq> 0x0FFF \<longrightarrow>
      oxm_value c' (OFB OXM_VLAN_VID) = Some (v AND 0x0FFF) \<and> oxm_mask c' (OFB OXM_VLAN_VID) = Some (k AND 0x0FFF))"
  using of13_losses [OF assms] by blast

text \<open>A tunnel identifier with a mask, VLAN identifiers 0x60 to 0x6f, and an extension header.\<close>

definition lossy_msg :: cofmatch where
  "lossy_msg = \<lparr>
     oxm_value = (\<lambda>_. None)(OFB OXM_VLAN_VID := Some 0x1060, OFB OXM_TUNNEL_ID := Some 0x500, OFB OXM_IPV6_EXTHDR := Some 1),
     oxm_mask = (\<lambda>_. None)(OFB OXM_VLAN_VID := Some 0x1FF0, OFB OXM_TUNNEL_ID := Some 0xFF00, OFB OXM_IPV6_EXTHDR := Some 0xFFFF) \<rparr>"

lemma lossy_msg_well_formed: "well_formed_match lossy_msg"
  by (simp add: well_formed_match_def lossy_msg_def ones_def maskable_def oxm_bits_def mac_fields_def field_bits_def
      mask_eq_exp_minus_1)

theorem of13_match_losses_witness:
  "let c' = example_cofmatch (of13_map_reverse_flow_entry_matches example_ofp
       (map example_match (of13_map_flow_entry_matches example_ofp lossy_msg)))
   in oxm_value c' (OFB OXM_IPV6_EXTHDR) = None \<and> oxm_mask c' (OFB OXM_TUNNEL_ID) = Some (ones (OFB OXM_TUNNEL_ID)) \<and>
      oxm_value c' (OFB OXM_VLAN_VID) = Some 0x60 \<and> oxm_mask c' (OFB OXM_VLAN_VID) = Some 0xFF0"
  using of13_match_losses [OF lossy_msg_well_formed example_list_stores example_reports, of example_ofp]
  by (simp add: Let_def lossy_msg_def example_ofp_def of13_vlan_present_def)

section \<open>Round trip of a list of actions\<close>

text \<open>The library's action has the kind and the bytes it was made with, whatever member of the union is read.\<close>

fun stores_action :: "action_call \<Rightarrow> of1x_packet_action \<Rightarrow> bool" where
  "stores_action (init_packet_action t w l) a \<longleftrightarrow> a_type a = t \<and> action_field8 a = ucast w \<and> action_field16 a = ucast w \<and>
     action_field32 a = ucast w \<and> action_field64 a = ucast w \<and> action_field128 a = w \<and> send_len a = l"

text \<open>A field in a set-field action of a message is the one that is made with the field and the value.\<close>

fun says :: "coxmatch \<Rightarrow> new_oxm \<Rightarrow> bool" where
  "says x (new_coxmatch f v) \<longleftrightarrow>
     oxm_id x = (case f of OFB g \<Rightarrow> OFPXMC_OPENFLOW_BASIC g | OFX g \<Rightarrow> OFPXMC_EXPERIMENTER g) \<and>
     take_bit (oxm_bits f) v = v \<and>
     (if f \<in> mac_fields then u48value_as_lladdr x = Some (ucast v)
      else if f = OFB OXM_PBB_ISID then u24value x = Some (ucast v)
      else if field_bits f = 8 then u8value x = Some (ucast v)
      else if field_bits f = 16 then u16value x = Some (ucast v)
      else if field_bits f = 32 then u32value x = Some (ucast v)
      else if field_bits f = 64 then u64value x = Some (ucast v)
      else u128value x = Some v)"

text \<open>
  The actions that come back as they were: all of OpenFlow but a queue above 255, an experimenter's if the build has the
  extensions, and a field is set if the switch can set it, the VLAN identifier has the bit for a present tag and the
  flags of CAPWAP fit into a byte. The extension header of IPv6 cannot be reported.
\<close>

fun kept :: "ofp \<Rightarrow> new_oxm cofaction \<Rightarrow> bool" where
  "kept P (OFPAT_SET_QUEUE q) \<longleftrightarrow> q < 256"
| "kept P (OFPAT_EXPERIMENTER i t e) \<longleftrightarrow> EXPERIMENTAL P \<and> i \<noteq> OTHER_EXP_ID \<and> t \<noteq> ACTION_other"
| "kept P (OFPAT_SET_FIELD (new_coxmatch f v)) \<longleftrightarrow>
     (EXPERIMENTAL P \<or> (\<exists>g. f = OFB g)) \<and>
     f \<notin> {OFB OXM_IN_PORT, OFB OXM_IN_PHY_PORT, OFB OXM_METADATA, OFB OXM_IPV6_EXTHDR} \<and>
     (f = OFB OXM_VLAN_VID \<longrightarrow> v OR 0x1000 = v) \<and> (f = OFX OXM_CAPWAP_FLAGS \<longrightarrow> v < 256)"
| "kept P OFPAT_other \<longleftrightarrow> False"
| "kept P _ \<longleftrightarrow> True"

lemma ucast_fits: "take_bit 8 (v::u128) = v \<Longrightarrow> ucast (ucast v :: u8) = v"
  "take_bit 16 v = v \<Longrightarrow> ucast (ucast v :: u16) = v" "take_bit 32 v = v \<Longrightarrow> ucast (ucast v :: u32) = v"
  "take_bit 64 v = v \<Longrightarrow> ucast (ucast v :: u64) = v"
  using as_uN [of v, unfolded as_u8_def as_u16_def as_u32_def as_u64_def] by simp_all

lemma ucast_small:
  assumes "(v::u128) < 256"
  shows "ucast (ucast v :: u8) = v"
proof -
  have "unat v < 2 ^ 8" using assms by (simp add: word_less_nat_alt)
  then have "take_bit 8 v = v" by (intro word_unat_eq_iff [THEN iffD2]) (simp add: unsigned_take_bit_eq take_bit_nat_eq_self)
  then show ?thesis by (rule ucast_fits)
qed

lemma ucast_small32:
  assumes "(q::u32) < 256"
  shows "ucast (ucast q :: u8) = q"
proof -
  have "unat q < 2 ^ 8" using assms by (simp add: word_less_nat_alt)
  then have "take_bit 8 q = q" by (intro word_unat_eq_iff [THEN iffD2]) (simp add: unsigned_take_bit_eq take_bit_nat_eq_self)
  moreover have "ucast (ucast q :: u8) = take_bit 8 q" by (rule bit_word_eqI) (auto simp: bit_simps)
  ultimately show ?thesis by simp
qed

lemma ucast_queue: "(ucast (ucast (q::u32) :: u128) :: u8) = ucast q"
  by (rule bit_word_eqI) (auto simp: bit_simps)

lemma ucast_wide: "ucast (ucast (a::u8) :: u128) = a" "ucast (ucast (b::u16) :: u128) = b" "ucast (ucast (c::u32) :: u128) = c"
  by (rule bit_word_eqI; auto simp: bit_simps)+

lemma ucast_byte: "ucast (ucast (q::u32) :: u8) = q AND mask 8"
  by (rule bit_word_eqI) (auto simp: bit_simps)

lemma ucast_present:
  assumes "take_bit 16 (v::u128) = v" and "v OR 0x1000 = v"
  shows "ucast ((ucast v :: u16) OR 0x1000) = v"
  using assms by (simp add: unsigned_or_eq ucast_fits)

lemmas set_field_defs = of13_set_field_1_def of13_set_field_2_def of13_set_field_experimental_def
  of13_reverse_set_field_1_def of13_reverse_set_field_2_def of13_reverse_set_field_experimental_def

lemma set_field_round_trip:
  assumes "vid_constants P" and "says x (new_coxmatch f v)" and "kept P (OFPAT_SET_FIELD (new_coxmatch f v))"
  shows "\<exists>w. of13_set_field P x = Some (Some (init_packet_action (OF1X_AT_SET_FIELD f) w 0)) \<and>
    (\<forall>pa. stores_action (init_packet_action (OF1X_AT_SET_FIELD f) w 0) pa \<longrightarrow>
       of13_map_reverse_flow_entry_action P pa = Inr (Some (OFPAT_SET_FIELD (new_coxmatch f v))))"
proof (cases f)
  case (OFB g)
  then show ?thesis using assms unfolding of13_set_field_def of13_map_reverse_flow_entry_action_def
    by (cases g) (simp_all add: set_field_defs field_bits_def mac_fields_def oxm_bits_def vid_constants_def
        ucast_fits take_bit_more ucast_present)
next
  case (OFX g)
  then show ?thesis using assms unfolding of13_set_field_def of13_map_reverse_flow_entry_action_def
    by (cases g) (simp_all add: set_field_defs field_bits_def mac_fields_def oxm_bits_def
        ucast_fits take_bit_more ucast_small)
qed

lemma action_round_trip:
  assumes "vid_constants P" and "rel_cofaction says a a'" and "kept P a'"
  shows "\<exists>t w l. of13_action P a = Some (Some (init_packet_action t w l)) \<and> t \<noteq> OF1X_AT_NO_ACTION \<and>
    (\<forall>pa. stores_action (init_packet_action t w l) pa \<longrightarrow> of13_map_reverse_flow_entry_action P pa = Inr (Some a'))"
proof (cases a')
  case (OFPAT_SET_FIELD y)
  obtain f v where y: "y = new_coxmatch f v" by (cases y)
  then obtain x where "a = OFPAT_SET_FIELD x" "says x (new_coxmatch f v)"
    using assms(2) OFPAT_SET_FIELD by (cases a) auto
  then show ?thesis using set_field_round_trip [of P x f v] assms OFPAT_SET_FIELD y by (auto simp: of13_action_def)
next
  case (OFPAT_SET_QUEUE q)
  then have "ucast (ucast (ucast q :: u128) :: u8) = q" using assms(3) by (simp add: ucast_small32 ucast_queue)
  then show ?thesis using assms OFPAT_SET_QUEUE
    by (cases a) (auto simp: of13_action_def of13_map_reverse_flow_entry_action_def)
next
  case (OFPAT_EXPERIMENTER i t e)
  then show ?thesis using assms
    by (cases a; cases i; cases t) (auto simp: of13_action_def of13_experimenter_def of13_map_reverse_flow_entry_action_def ucast_wide)
qed (use assms in \<open>cases a; simp add: of13_action_def of13_map_reverse_flow_entry_action_def ucast_wide\<close>)+

text \<open>C28: a list of actions, put into a group and reported back, is the same list with the indices from zero on, if
  each of its actions is one that comes back as it was.\<close>

theorem of13_actions_round_trip:
  assumes "vid_constants P" and "list_all2 (rel_cofaction says) as as'" and "\<forall>a\<in>set as'. kept P a"
  shows "\<exists>calls. of13_map_flow_entry_actions P as (Some []) None = Some (Some (map Some calls), None) \<and>
    (\<forall>pas. list_all2 stores_action calls pas \<longrightarrow> of13_reverse_actions P 0 pas = Inr (enumerate 0 as'))"
proof -
  have "\<exists>calls. of13_map_flow_entry_actions P as (Some g) None = Some (Some (g @ map Some calls), None) \<and>
    (\<forall>pas. list_all2 stores_action calls pas \<longrightarrow> of13_reverse_actions P n pas = Inr (enumerate n as'))" for g n
    using assms(2,3)
  proof (induction as as' arbitrary: g n rule: list_all2_induct)
    case Nil
    show ?case by (rule exI [of _ "[]"]) simp
  next
    case (Cons a as a' as')
    obtain t w l where a: "of13_action P a = Some (Some (init_packet_action t w l))" "t \<noteq> OF1X_AT_NO_ACTION"
      and r: "\<And>pa. stores_action (init_packet_action t w l) pa \<Longrightarrow> of13_map_reverse_flow_entry_action P pa = Inr (Some a')"
      using action_round_trip [OF assms(1) Cons.hyps(1)] Cons.prems by auto
    obtain calls where c: "of13_map_flow_entry_actions P as (Some (g @ [Some (init_packet_action t w l)])) None =
         Some (Some ((g @ [Some (init_packet_action t w l)]) @ map Some calls), None)"
      and s: "\<And>pas. list_all2 stores_action calls pas \<Longrightarrow> of13_reverse_actions P (Suc n) pas = Inr (enumerate (Suc n) as')"
      using Cons.IH [of "g @ [Some (init_packet_action t w l)]" "Suc n"] Cons.prems by auto
    have "of13_reverse_actions P n pas = Inr (enumerate n (a' # as'))"
      if "list_all2 stores_action (init_packet_action t w l # calls) pas" for pas
      using that r s a(2) by (auto simp: list_all2_Cons1)
    then show ?case using a c by (intro exI [of _ "init_packet_action t w l # calls"]) simp
  qed
  from this [of "[]" 0] show ?thesis by simp
qed

definition example_action :: "action_call \<Rightarrow> of1x_packet_action" where
  "example_action call = (case call of init_packet_action t w l \<Rightarrow>
     \<lparr> a_type = t, action_field8 = ucast w, action_field16 = ucast w, action_field32 = ucast w, action_field64 = ucast w,
       action_field128 = w, send_len = l \<rparr>)"

lemma example_stores_action: "stores_action call (example_action call)"
  by (cases call) (simp add: example_action_def)

text \<open>Set the VLAN identifier to 100 and send to port 2.\<close>

definition example_actions :: "coxmatch cofaction list" where
  "example_actions =
    [OFPAT_SET_FIELD \<lparr> oxm_id = OFPXMC_OPENFLOW_BASIC OXM_VLAN_VID, u8value = None, u16value = Some 0x1064, u24value = None,
       u32value = None, u64value = None, u128value = None, u48value_as_lladdr = None \<rparr>,
     OFPAT_OUTPUT 2 0xFFFF]"

theorem of13_actions_round_trip_witness:
  "\<exists>calls. of13_map_flow_entry_actions example_ofp example_actions (Some []) None = Some (Some (map Some calls), None) \<and>
     of13_reverse_actions example_ofp 0 (map example_action calls) =
       Inr [(0, OFPAT_SET_FIELD (new_coxmatch (OFB OXM_VLAN_VID) 0x1064)), (1, OFPAT_OUTPUT 2 0xFFFF)]"
proof -
  let ?as = "[OFPAT_SET_FIELD (new_coxmatch (OFB OXM_VLAN_VID) 0x1064), OFPAT_OUTPUT 2 0xFFFF]"
  have "list_all2 (rel_cofaction says) example_actions ?as"
    by (simp add: example_actions_def oxm_bits_def mac_fields_def field_bits_def)
  moreover have "\<forall>a\<in>set ?as. kept example_ofp a" by (simp add: example_ofp_def)
  moreover have "vid_constants example_ofp" by (simp add: vid_constants_def example_ofp_def)
  ultimately obtain calls where
    "of13_map_flow_entry_actions example_ofp example_actions (Some []) None = Some (Some (map Some calls), None)"
    "\<forall>pas. list_all2 stores_action calls pas \<longrightarrow> of13_reverse_actions example_ofp 0 pas = Inr (enumerate 0 ?as)"
    using of13_actions_round_trip [of example_ofp example_actions ?as] by blast
  moreover have "list_all2 stores_action calls (map example_action calls)"
    by (simp add: list_all2_map2 list_all2_same example_stores_action)
  ultimately show ?thesis by (intro exI [of _ calls]) simp
qed

text \<open>C39: what a report on actions gets wrong. A queue comes back modulo 256. With one action that sets the extension
  header of IPv6, which a flow-mod may contain, the whole report is an exception. An action of an unknown type, or one
  that sets a field the switch cannot set, is put into the group as \<open>NULL\<close>.\<close>

theorem of13_action_losses:
  assumes "list_all2 stores_action calls pas"
  shows "(of13_map_flow_entry_actions P [OFPAT_SET_QUEUE q] (Some []) None = Some (Some (map Some calls), None) \<longrightarrow>
      of13_reverse_actions P 0 pas = Inr [(0, OFPAT_SET_QUEUE (q AND 0xFF))]) \<and>
    (init_packet_action (OF1X_AT_SET_FIELD (OFB OXM_IPV6_EXTHDR)) w 0 \<in> set calls \<longrightarrow>
      (\<exists>e. of13_reverse_actions P n pas = Inl e)) \<and>
    (u16value x = Some v \<and> oxm_id x = OFPXMC_OPENFLOW_BASIC OXM_IPV6_EXTHDR \<longrightarrow>
      of13_map_flow_entry_actions P [OFPAT_SET_FIELD x] (Some []) None =
        Some (Some [Some (init_packet_action (OF1X_AT_SET_FIELD (OFB OXM_IPV6_EXTHDR)) (ucast v) 0)], None)) \<and>
    of13_map_flow_entry_actions P [OFPAT_other] (Some []) None = Some (Some [None], None)"
proof (intro conjI impI)
  assume "of13_map_flow_entry_actions P [OFPAT_SET_QUEUE q] (Some []) None = Some (Some (map Some calls), None)"
  then have "calls = [init_packet_action OF1X_AT_SET_QUEUE (ucast q) 0]" by (auto simp: of13_action_def)
  moreover have "ucast (ucast q :: u8) = q AND 0xFF"
    by (simp add: take_bit_eq_mask mask_eq_exp_minus_1 ucast_byte)
  ultimately show "of13_reverse_actions P 0 pas = Inr [(0, OFPAT_SET_QUEUE (q AND 0xFF))]"
    using assms by (auto simp: list_all2_Cons1 of13_map_reverse_flow_entry_action_def ucast_queue)
next
  assume "init_packet_action (OF1X_AT_SET_FIELD (OFB OXM_IPV6_EXTHDR)) w 0 \<in> set calls"
  with assms show "\<exists>e. of13_reverse_actions P n pas = Inl e"
  proof (induction calls pas arbitrary: n rule: list_all2_induct)
    case (Cons call calls pa pas)
    show ?case
    proof (cases "call = init_packet_action (OF1X_AT_SET_FIELD (OFB OXM_IPV6_EXTHDR)) w 0")
      case True
      then have "\<exists>e. of13_map_reverse_flow_entry_action P pa = Inl e"
        using Cons.hyps(1) by (simp add: of13_map_reverse_flow_entry_action_def set_field_defs)
      moreover have "a_type pa \<noteq> OF1X_AT_NO_ACTION" using True Cons.hyps(1) by simp
      ultimately show ?thesis by auto
    next
      case False
      then obtain e where "of13_reverse_actions P n pas = Inl e" using Cons by auto
      moreover obtain e' where "of13_reverse_actions P (n + 1) pas = Inl e'" using Cons False by auto
      ultimately show ?thesis by (cases "of13_map_reverse_flow_entry_action P pa") auto
    qed
  qed simp
qed (auto simp: of13_action_def of13_set_field_def set_field_defs)

theorem of13_action_losses_witness:
  "of13_reverse_actions example_ofp 0 [example_action (init_packet_action OF1X_AT_SET_QUEUE 300 0)] = Inr [(0, OFPAT_SET_QUEUE 44)] \<and>
   (\<exists>e. of13_reverse_actions example_ofp 0 (map example_action [init_packet_action OF1X_AT_OUTPUT 2 128,
      init_packet_action (OF1X_AT_SET_FIELD (OFB OXM_IPV6_EXTHDR)) 5 0]) = Inl e)"
proof
  let ?c = "init_packet_action OF1X_AT_SET_QUEUE 300 0"
  have "list_all2 stores_action [?c] [example_action ?c]" by (simp add: example_stores_action)
  from of13_action_losses [OF this, of example_ofp 300]
  show "of13_reverse_actions example_ofp 0 [example_action ?c] = Inr [(0, OFPAT_SET_QUEUE 44)]" by (simp add: of13_action_def)
  let ?cs = "[init_packet_action OF1X_AT_OUTPUT 2 128, init_packet_action (OF1X_AT_SET_FIELD (OFB OXM_IPV6_EXTHDR)) 5 0]"
  have "list_all2 stores_action ?cs (map example_action ?cs)" by (simp add: example_stores_action)
  from of13_action_losses [OF this, of example_ofp 0 5 0]
  show "\<exists>e. of13_reverse_actions example_ofp 0 (map example_action ?cs) = Inl e" by simp
qed

section \<open>A flow entry, installed and reported\<close>

text \<open>A list of actions throws if a getter of one of its fields does; otherwise it makes one action, or \<open>NULL\<close>, for
  each.\<close>

definition throws :: "ofp \<Rightarrow> coxmatch cofaction list \<Rightarrow> bool" where
  "throws P as \<longleftrightarrow> (\<exists>a\<in>set as. of13_action P a = None)"

definition made :: "ofp \<Rightarrow> coxmatch cofaction list \<Rightarrow> action_call option list" where
  "made P as = map (\<lambda>a. the (of13_action P a)) as"

lemma of13_actions_outcome:
  "of13_map_flow_entry_actions P acts app wr =
     (if throws P acts then None
      else Some (map_option (\<lambda>g. g @ made P acts) app, map_option (\<lambda>g. g @ made P acts) wr))"
  by (induction acts arbitrary: app wr) (auto simp: throws_def made_def option.map_comp comp_def option.map_ident)

definition in_case :: "('a \<Rightarrow> 'b) \<Rightarrow> 'a option \<Rightarrow> 'b list" where
  "in_case f x = (case x of None \<Rightarrow> [] | Some y \<Rightarrow> [f y])"

lemma in_case_simps [simp]: "in_case f None = []" "in_case f (Some y) = [f y]"
  by (simp_all add: in_case_def)

text \<open>Every outcome of a flow-mod. The set of actions of Write-Actions is lost when one of its own actions throws; a
  group or set that cannot be allocated is installed as \<open>NULL\<close>.\<close>

lemma of13_flow_entry_outcome:
  "of13_map_flow_entry P allocates m =
     (if \<not> allocates Flow_entry then (Inl eFlowModUnknown, [])
      else if \<exists>as. fm_apply_actions m = Some as \<and> throws P as then (Inl eFlowModUnknown, [])
      else if \<exists>as. fm_write_actions m = Some as \<and> throws P as then (Inl eFlowModUnknown, lost_if allocates Write_actions)
      else (Inr ((of13_new_entry P m)\<lparr>
              e_matches := of13_map_flow_entry_matches P (fm_match m),
              inst_grp := in_case (\<lambda>as. add_apply_actions (map_option (\<lambda>g. g @ made P as) (new_list allocates Action_group)))
                  (fm_apply_actions m) @
                of13_plain_instructions m @
                in_case (\<lambda>as. add_write_actions (map_option (\<lambda>g. g @ made P as) (new_list allocates Write_actions)))
                  (fm_write_actions m) @
                of13_metadata_instruction m \<rparr>), []))"
  by (cases "fm_apply_actions m"; cases "fm_write_actions m") (auto simp: of13_map_flow_entry_def of13_actions_outcome Let_def)

text \<open>What the library keeps of an instruction: the kind and the operands; the actions of Apply-Actions as a list in
  their order, those of Write-Actions as an array with a place for each kind, in which some places are empty.\<close>

fun stores_instruction :: "instruction_call \<Rightarrow> of1x_instruction \<Rightarrow> bool" where
  "stores_instruction (add_apply_actions g) i \<longleftrightarrow> i_type i = OF1X_IT_APPLY_ACTIONS \<and>
     (\<exists>calls. g = Some (map Some calls) \<and> list_all2 stores_action calls (apply_actions i))"
| "stores_instruction (add_write_actions g) i \<longleftrightarrow> i_type i = OF1X_IT_WRITE_ACTIONS \<and>
     (\<exists>calls pas. g = Some (map Some calls) \<and> list_all2 stores_action calls pas \<and>
        mset pas = mset (filter (\<lambda>a. a_type a \<noteq> OF1X_AT_NO_ACTION) (take (num_of_actions i) (write_actions i))))"
| "stores_instruction add_clear_actions i \<longleftrightarrow> i_type i = OF1X_IT_CLEAR_ACTIONS"
| "stores_instruction add_experimenter i \<longleftrightarrow> i_type i = OF1X_IT_EXPERIMENTER"
| "stores_instruction (add_goto_table t) i \<longleftrightarrow> i_type i = OF1X_IT_GOTO_TABLE \<and> go_to_table i = t"
| "stores_instruction (add_write_metadata v k) i \<longleftrightarrow>
     i_type i = OF1X_IT_WRITE_METADATA \<and> metadata i = v \<and> metadata_mask i = k"

text \<open>The group of instructions has a place for each kind: the instructions added, in any order, among empty places.\<close>

definition stores_group :: "instruction_call list \<Rightarrow> of1x_instruction list \<Rightarrow> bool" where
  "stores_group calls is \<longleftrightarrow> (\<exists>stored. list_all2 stores_instruction calls stored \<and>
     mset stored = mset (filter (\<lambda>i. i_type i \<noteq> OF1X_IT_NO_INSTRUCTION) is))"

text \<open>What an instruction of a report means: Apply-Actions is a list of actions in order, Write-Actions a set in which
  only the actions count, each under an index of its own.\<close>

datatype reported =
    Reports_apply "(nat \<times> new_oxm cofaction) list"
  | Reports_write "nat list" "new_oxm cofaction multiset"
  | Reports cofinstruction

fun meaning :: "cofinstruction \<Rightarrow> reported" where
  "meaning (inst_apply_actions l) = Reports_apply l"
| "meaning (inst_write_actions l) = Reports_write (map fst l) (mset (map snd l))"
| "meaning i = Reports i"

text \<open>The instructions of a flow-mod whose actions are read as the lists \<open>ap\<close> and \<open>wr\<close>, without the experimenter's.\<close>

definition instructions_of ::
    "flow_mod \<Rightarrow> new_oxm cofaction list option \<Rightarrow> new_oxm cofaction list option \<Rightarrow> reported list" where
  "instructions_of m ap wr =
     in_case (\<lambda>as. Reports_apply (enumerate 0 as)) ap @
     (if fm_clear_actions m then [Reports inst_clear_actions] else []) @
     in_case (\<lambda>t. Reports (inst_goto_table t)) (fm_goto_table m) @
     in_case (\<lambda>as. Reports_write [0..<length as] (mset as)) wr @
     in_case (\<lambda>(v, k). Reports (inst_write_metadata v k)) (fm_write_metadata m)"

text \<open>Actions that can be reported: what the translation makes of them, and what each of them is reported as.\<close>

definition reported_as :: "ofp \<Rightarrow> action_call \<Rightarrow> new_oxm cofaction \<Rightarrow> bool" where
  "reported_as P c a \<longleftrightarrow> (\<forall>pa. stores_action c pa \<longrightarrow>
     a_type pa \<noteq> OF1X_AT_NO_ACTION \<and> of13_map_reverse_flow_entry_action P pa = Inr (Some a))"

lemma actions_made:
  assumes "vid_constants P" and "list_all2 (rel_cofaction says) as as'" and "\<forall>a\<in>set as'. kept P a"
  shows "\<not> throws P as \<and> (\<exists>calls. made P as = map Some calls \<and> list_all2 (reported_as P) calls as')"
  using assms(2,3)
proof (induction as as' rule: list_all2_induct)
  case (Cons a as a' as')
  obtain t w l where a: "of13_action P a = Some (Some (init_packet_action t w l))" "t \<noteq> OF1X_AT_NO_ACTION"
    and r: "\<And>pa. stores_action (init_packet_action t w l) pa \<Longrightarrow> of13_map_reverse_flow_entry_action P pa = Inr (Some a')"
    using action_round_trip [OF assms(1) Cons.hyps(1)] Cons.prems by auto
  have "reported_as P (init_packet_action t w l) a'" using a(2) r by (auto simp: reported_as_def)
  moreover obtain calls where "\<not> throws P as" "made P as = map Some calls" "list_all2 (reported_as P) calls as'"
    using Cons by auto
  ultimately show ?case using a(1) by (auto simp: throws_def made_def intro!: exI [of _ "init_packet_action t w l # calls"])
qed (simp add: throws_def made_def)

lemma reverse_actions_all:
  assumes "\<And>pa. pa \<in> set pas \<Longrightarrow> a_type pa \<noteq> OF1X_AT_NO_ACTION \<Longrightarrow> of13_map_reverse_flow_entry_action P pa = Inr (Some (h pa))"
  shows "of13_reverse_actions P n pas =
    Inr (enumerate n (map h (filter (\<lambda>a. a_type a \<noteq> OF1X_AT_NO_ACTION) pas)))"
  using assms by (induction pas arbitrary: n) auto

lemma stored_reported:
  assumes "list_all2 (reported_as P) calls as'" and "list_all2 stores_action calls pas"
  shows "(\<forall>pa\<in>set pas. a_type pa \<noteq> OF1X_AT_NO_ACTION \<and>
       of13_map_reverse_flow_entry_action P pa = Inr (Some (the (projr (of13_map_reverse_flow_entry_action P pa))))) \<and>
    map (\<lambda>pa. the (projr (of13_map_reverse_flow_entry_action P pa))) pas = as'"
  using assms(1) assms(2)
proof (induction calls as' arbitrary: pas rule: list_all2_induct)
  case (Cons c calls a' as')
  then obtain p ps where "pas = p # ps" "stores_action c p" "list_all2 stores_action calls ps"
    by (auto simp: list_all2_Cons1)
  with Cons show ?case by (auto simp: reported_as_def)
qed simp

text \<open>An instruction added is reported with the meaning \<open>M\<close>.\<close>

definition shown :: "ofp \<Rightarrow> instruction_call \<Rightarrow> reported list \<Rightarrow> bool" where
  "shown P c M \<longleftrightarrow> (\<forall>i. stores_instruction c i \<longrightarrow>
     (\<exists>xs. of13_reverse_instruction P i = Inr xs \<and> map meaning xs = M))"

lemma shown_apply:
  assumes "list_all2 (reported_as P) calls as'"
  shows "shown P (add_apply_actions (Some (map Some calls))) [Reports_apply (enumerate 0 as')]"
  unfolding shown_def
proof (intro allI impI)
  fix i assume "stores_instruction (add_apply_actions (Some (map Some calls))) i"
  then have i: "i_type i = OF1X_IT_APPLY_ACTIONS" "list_all2 stores_action calls (apply_actions i)"
    by (auto dest: map_injective simp: inj_def)
  note s = stored_reported [OF assms i(2)]
  have "of13_reverse_actions P 0 (apply_actions i) = Inr (enumerate 0 as')"
    using reverse_actions_all [of "apply_actions i" P "\<lambda>pa. the (projr (of13_map_reverse_flow_entry_action P pa))" 0] s
    by (simp add: filter_id_conv [THEN iffD2])
  then show "\<exists>xs. of13_reverse_instruction P i = Inr xs \<and> map meaning xs = [Reports_apply (enumerate 0 as')]"
    using i(1) by (simp add: of13_reverse_instruction_def)
qed

lemma shown_write:
  assumes "list_all2 (reported_as P) calls as'"
  shows "shown P (add_write_actions (Some (map Some calls))) [Reports_write [0..<length as'] (mset as')]"
  unfolding shown_def
proof (intro allI impI)
  let ?h = "\<lambda>pa. the (projr (of13_map_reverse_flow_entry_action P pa))"
  fix i assume "stores_instruction (add_write_actions (Some (map Some calls))) i"
  then obtain pas where i: "i_type i = OF1X_IT_WRITE_ACTIONS" "list_all2 stores_action calls pas"
    and m: "mset pas = mset (filter (\<lambda>a. a_type a \<noteq> OF1X_AT_NO_ACTION) (take (num_of_actions i) (write_actions i)))"
    by (auto dest: map_injective simp: inj_def)
  define ws where "ws = take (num_of_actions i) (write_actions i)"
  define fs where "fs = filter (\<lambda>a. a_type a \<noteq> OF1X_AT_NO_ACTION) ws"
  have ms: "mset fs = mset pas" using m by (simp add: fs_def ws_def)
  note s = stored_reported [OF assms i(2)]
  have "of13_map_reverse_flow_entry_action P pa = Inr (Some (?h pa))"
    if "pa \<in> set ws" "a_type pa \<noteq> OF1X_AT_NO_ACTION" for pa
  proof -
    have "pa \<in> set fs" using that by (simp add: fs_def)
    then have "pa \<in> set pas" using mset_eq_setD [OF ms] by simp
    then show ?thesis using s by blast
  qed
  then have "of13_reverse_actions P 0 ws = Inr (enumerate 0 (map ?h fs))"
    unfolding fs_def by (rule reverse_actions_all)
  moreover have "mset (map ?h fs) = mset as'" using ms s by (metis mset_map)
  moreover have "length fs = length as'" using ms s by (metis length_map size_mset)
  ultimately show "\<exists>xs. of13_reverse_instruction P i = Inr xs \<and> map meaning xs = [Reports_write [0..<length as'] (mset as')]"
    using i(1) by (simp add: of13_reverse_instruction_def of13_reverse_write_actions_def flip: ws_def)
qed

lemma shown_plain:
  "shown P add_clear_actions [Reports inst_clear_actions]" "shown P add_experimenter []"
  "shown P (add_goto_table t) [Reports (inst_goto_table t)]"
  "shown P (add_write_metadata v k) [Reports (inst_write_metadata v k)]"
  by (auto simp: shown_def of13_reverse_instruction_def)

lemma reverse_instructions_all:
  assumes "\<And>i. i \<in> set is \<Longrightarrow> of13_reverse_instruction P i = Inr (h i)"
  shows "of13_map_reverse_flow_entry_instructions P is = Inr (concat (map h is))"
  using assms by (induction "is") auto

lemma shown_group:
  assumes "list_all2 (shown P) calls Ms" and "stores_group calls is"
  shows "\<exists>rs. of13_map_reverse_flow_entry_instructions P is = Inr rs \<and> mset (map meaning rs) = mset (concat Ms)"
proof -
  let ?h = "\<lambda>i. projr (of13_reverse_instruction P i)"
  obtain stored where st: "list_all2 stores_instruction calls stored"
    and m: "mset stored = mset (filter (\<lambda>i. i_type i \<noteq> OF1X_IT_NO_INSTRUCTION) is)"
    using assms(2) by (auto simp: stores_group_def)
  have all: "(\<forall>i\<in>set stored. of13_reverse_instruction P i = Inr (?h i)) \<and> map (\<lambda>i. map meaning (?h i)) stored = Ms"
    using assms(1) st
  proof (induction calls Ms arbitrary: stored rule: list_all2_induct)
    case (Cons c calls M Ms)
    then obtain i ss where "stored = i # ss" "stores_instruction c i" "list_all2 stores_instruction calls ss"
      by (auto simp: list_all2_Cons1)
    with Cons show ?case by (fastforce simp: shown_def)
  qed simp
  have ok: "of13_reverse_instruction P i = Inr (?h i)" if "i \<in> set is" for i
  proof (cases "i_type i = OF1X_IT_NO_INSTRUCTION")
    case True
    then show ?thesis by (simp add: of13_reverse_instruction_def)
  next
    case False
    then have "i \<in> set stored" using that mset_eq_setD [OF m] by simp
    then show ?thesis using all by blast
  qed
  have e: "?h i = []" if "i_type i = OF1X_IT_NO_INSTRUCTION" for i
    using that by (simp add: of13_reverse_instruction_def)
  have "concat (map ?h is) = concat (map ?h (filter (\<lambda>i. i_type i \<noteq> OF1X_IT_NO_INSTRUCTION) is))"
    using e by (induction "is") auto
  then have "mset (map meaning (concat (map ?h is))) = mset (concat (map (\<lambda>i. map meaning (?h i)) stored))"
    using m by (simp add: mset_concat map_concat comp_def flip: sum_mset_sum_list)
  then show ?thesis using reverse_instructions_all [OF ok, of "is"] all by (intro exI [of _ "concat (map ?h is)"]) simp
qed

lemma list_all2_in_case:
  assumes "list_all2 R cs Ms" and "\<And>x y. u = Some x \<Longrightarrow> u' = Some y \<Longrightarrow> R (f x) (g y)" and "u = None \<longleftrightarrow> u' = None"
  shows "list_all2 R (in_case f u @ cs) (in_case g u' @ Ms)"
  using assms by (cases u; cases u') auto

text \<open>The instructions the translation adds, and what each of them is reported as.\<close>

definition added :: "ofp \<Rightarrow> flow_mod \<Rightarrow> instruction_call list" where
  "added P m = in_case (\<lambda>as. add_apply_actions (Some (made P as))) (fm_apply_actions m) @ of13_plain_instructions m @
    in_case (\<lambda>as. add_write_actions (Some (made P as))) (fm_write_actions m) @ of13_metadata_instruction m"

lemma added_shown:
  assumes "\<And>as as'. fm_apply_actions m = Some as \<Longrightarrow> ap = Some as' \<Longrightarrow>
      shown P (add_apply_actions (Some (made P as))) [Reports_apply (enumerate 0 as')]"
    and "\<And>as as'. fm_write_actions m = Some as \<Longrightarrow> wr = Some as' \<Longrightarrow>
      shown P (add_write_actions (Some (made P as))) [Reports_write [0..<length as'] (mset as')]"
    and "fm_apply_actions m = None \<longleftrightarrow> ap = None" and "fm_write_actions m = None \<longleftrightarrow> wr = None"
  shows "\<exists>Ms. list_all2 (shown P) (added P m) Ms \<and> concat Ms = instructions_of m ap wr"
proof -
  let ?plain = "(if fm_clear_actions m then [[Reports inst_clear_actions]] else []) @
     (if fm_experimenter m then [[]] else []) @ in_case (\<lambda>t. [Reports (inst_goto_table t)]) (fm_goto_table m)"
  let ?data = "in_case (\<lambda>(v, k). [Reports (inst_write_metadata v k)]) (fm_write_metadata m)"
  have "list_all2 (shown P) (of13_metadata_instruction m) ?data"
    by (auto simp: of13_metadata_instruction_def in_case_def shown_plain split: option.split)
  from list_all2_in_case [OF this, where f = "\<lambda>as. add_write_actions (Some (made P as))", OF assms(2,4)]
  have "list_all2 (shown P) (of13_plain_instructions m @
      in_case (\<lambda>as. add_write_actions (Some (made P as))) (fm_write_actions m) @ of13_metadata_instruction m)
    (?plain @ in_case (\<lambda>as. [Reports_write [0..<length as] (mset as)]) wr @ ?data)"
    by (auto simp: of13_plain_instructions_def in_case_def [of _ "fm_goto_table m"] shown_plain split: option.split)
  from list_all2_in_case [OF this, where f = "\<lambda>as. add_apply_actions (Some (made P as))", OF assms(1,3)]
  have "list_all2 (shown P) (added P m) (in_case (\<lambda>as. [Reports_apply (enumerate 0 as)]) ap @
      ?plain @ in_case (\<lambda>as. [Reports_write [0..<length as] (mset as)]) wr @ ?data)"
    by (simp add: added_def)
  then show ?thesis by (intro exI conjI) (auto simp: instructions_of_def in_case_def split: option.split)
qed

text \<open>C29: a flow-mod of OpenFlow 1.3 whose actions can be reported becomes a flow entry with the fields of its header and
  the calls for its match, and nothing allocated is lost; and when the library keeps these instructions, in any order among
  the empty places of the group, the report has exactly the instructions of the message, but for the experimenter's: the
  actions of Apply-Actions in their order with the indices from zero on, those of Write-Actions as a set, the metadata with
  its mask and the table to go to. Memory is taken to suffice.\<close>

theorem of13_instructions_round_trip:
  assumes "vid_constants P" and "\<forall>a. allocates a"
    and "rel_option (list_all2 (rel_cofaction says)) (fm_apply_actions m) ap"
    and "rel_option (list_all2 (rel_cofaction says)) (fm_write_actions m) wr"
    and "\<forall>a\<in>(\<Union>as\<in>set_option ap \<union> set_option wr. set as). kept P a"
  shows "\<exists>e. of13_map_flow_entry P allocates m = (Inr e, []) \<and>
    (notify_removal e \<longleftrightarrow> fm_flags m AND OFPFF_SEND_FLOW_REM P \<noteq> 0) \<and> e_flags e = fm_flags m \<and>
    e_priority e = fm_priority m \<and> e_cookie e = fm_cookie m \<and> e_cookie_mask e = fm_cookie_mask m \<and>
    e_idle_timeout e = fm_idle_timeout m \<and> e_hard_timeout e = fm_hard_timeout m \<and>
    e_matches e = of13_map_flow_entry_matches P (fm_match m) \<and>
    (\<forall>is. stores_group (inst_grp e) is \<longrightarrow>
      (\<exists>rs. of13_map_reverse_flow_entry_instructions P is = Inr rs \<and>
         mset (map meaning rs) = mset (instructions_of m ap wr)))"
proof -
  have made: "\<not> throws P as \<and> (\<exists>calls. made P as = map Some calls \<and> list_all2 (reported_as P) calls as')"
    if "u = Some as" "u' = Some as'" "rel_option (list_all2 (rel_cofaction says)) u u'" "u' = ap \<or> u' = wr" for u u' as as'
    using actions_made [OF assms(1), of as as'] that assms(5) by auto
  have a: "\<not> throws P as" if "fm_apply_actions m = Some as" for as
    using made [OF that _ assms(3)] assms(3) that by (auto elim: option.rel_cases)
  have w: "\<not> throws P as" if "fm_write_actions m = Some as" for as
    using made [OF that _ assms(4)] assms(4) that by (auto elim: option.rel_cases)
  have "shown P (add_apply_actions (Some (made P as))) [Reports_apply (enumerate 0 as')]"
    if "fm_apply_actions m = Some as" "ap = Some as'" for as as'
    using made [OF that assms(3)] by (auto intro: shown_apply)
  moreover have "shown P (add_write_actions (Some (made P as))) [Reports_write [0..<length as'] (mset as')]"
    if "fm_write_actions m = Some as" "wr = Some as'" for as as'
    using made [OF that assms(4)] by (auto intro: shown_write)
  moreover have "fm_apply_actions m = None \<longleftrightarrow> ap = None" "fm_write_actions m = None \<longleftrightarrow> wr = None"
    using assms(3,4) by (auto elim: option.rel_cases)
  ultimately obtain Ms where "list_all2 (shown P) (added P m) Ms" "concat Ms = instructions_of m ap wr"
    using added_shown by metis
  then have r: "\<exists>rs. of13_map_reverse_flow_entry_instructions P is = Inr rs \<and>
      mset (map meaning rs) = mset (instructions_of m ap wr)" if "stores_group (added P m) is" for "is"
    using shown_group [OF _ that] by metis
  have "of13_map_flow_entry P allocates m = (Inr ((of13_new_entry P m)\<lparr>
      e_matches := of13_map_flow_entry_matches P (fm_match m), inst_grp := added P m \<rparr>), [])"
    using a w assms(2) by (simp add: of13_flow_entry_outcome new_list_def added_def)
  then show ?thesis using r by (simp add: of13_new_entry_def)
qed

text \<open>An empty place, and the instructions as a library keeps them that has the actions of a set in reverse order.\<close>

definition no_instruction :: of1x_instruction where
  "no_instruction = \<lparr> i_type = OF1X_IT_NO_INSTRUCTION, apply_actions = [], write_actions = [], num_of_actions = 0,
     metadata = 0, metadata_mask = 0, go_to_table = 0 \<rparr>"

definition example_list :: "action_call option list option \<Rightarrow> of1x_packet_action list" where
  "example_list g = map (\<lambda>c. example_action (the c)) (the g)"

fun example_instruction :: "instruction_call \<Rightarrow> of1x_instruction" where
  "example_instruction (add_apply_actions g) = no_instruction\<lparr> i_type := OF1X_IT_APPLY_ACTIONS, apply_actions := example_list g \<rparr>"
| "example_instruction (add_write_actions g) = no_instruction\<lparr> i_type := OF1X_IT_WRITE_ACTIONS,
     write_actions := example_action (init_packet_action OF1X_AT_NO_ACTION 0 0) # rev (example_list g),
     num_of_actions := length (example_list g) + 1 \<rparr>"
| "example_instruction add_clear_actions = no_instruction\<lparr> i_type := OF1X_IT_CLEAR_ACTIONS \<rparr>"
| "example_instruction add_experimenter = no_instruction\<lparr> i_type := OF1X_IT_EXPERIMENTER \<rparr>"
| "example_instruction (add_goto_table t) = no_instruction\<lparr> i_type := OF1X_IT_GOTO_TABLE, go_to_table := t \<rparr>"
| "example_instruction (add_write_metadata v k) =
     no_instruction\<lparr> i_type := OF1X_IT_WRITE_METADATA, metadata := v, metadata_mask := k \<rparr>"

lemma example_stored: "list_all2 stores_action calls (map example_action calls)"
  by (simp add: list_all2_map2 list_all2_same example_stores_action)

lemma example_stores_apply:
  "stores_instruction (add_apply_actions (Some (map Some calls))) (example_instruction (add_apply_actions (Some (map Some calls))))"
  using example_stored [of calls] by (auto simp: example_list_def comp_def no_instruction_def)

lemma example_stores_write:
  assumes "\<forall>c\<in>set calls. a_type (example_action c) \<noteq> OF1X_AT_NO_ACTION"
  shows "stores_instruction (add_write_actions (Some (map Some calls))) (example_instruction (add_write_actions (Some (map Some calls))))"
proof -
  have "filter (\<lambda>a. a_type a \<noteq> OF1X_AT_NO_ACTION) (rev (map example_action calls)) = rev (map example_action calls)"
    using assms by (simp add: filter_id_conv)
  moreover have "a_type (example_action (init_packet_action OF1X_AT_NO_ACTION 0 0)) = OF1X_AT_NO_ACTION"
    by (simp add: example_action_def)
  ultimately show ?thesis using example_stored [of calls]
    by (auto simp: example_list_def comp_def no_instruction_def intro!: exI [of _ calls] exI [of _ "map example_action calls"])
qed

text \<open>Set the VLAN identifier and send to port 2, write a queue and a port into the set, write metadata, go on at table 3.\<close>

definition example_flow_mod :: flow_mod where
  "example_flow_mod = \<lparr> fm_flags = 1, fm_priority = 7, fm_cookie = 8, fm_cookie_mask = 9, fm_idle_timeout = 10,
     fm_hard_timeout = 11, fm_match = \<lparr> oxm_value = (\<lambda>_. None), oxm_mask = (\<lambda>_. None) \<rparr>,
     fm_apply_actions = Some example_actions, fm_clear_actions = False, fm_experimenter = True,
     fm_goto_table = Some 3, fm_write_actions = Some [OFPAT_SET_QUEUE 5, OFPAT_OUTPUT 4 128],
     fm_write_metadata = Some (12, 13) \<rparr>"

theorem of13_instructions_round_trip_witness:
  "\<exists>e rs. of13_map_flow_entry example_ofp (\<lambda>_. True) example_flow_mod = (Inr e, []) \<and> e_priority e = 7 \<and> notify_removal e \<and>
     of13_map_reverse_flow_entry_instructions example_ofp (no_instruction # rev (map example_instruction (inst_grp e))) = Inr rs \<and>
     mset (map meaning rs) = {# Reports (inst_goto_table 3), Reports (inst_write_metadata 12 13),
       Reports_apply [(0, OFPAT_SET_FIELD (new_coxmatch (OFB OXM_VLAN_VID) 0x1064)), (1, OFPAT_OUTPUT 2 0xFFFF)],
       Reports_write [0, 1] {# OFPAT_OUTPUT 4 128, OFPAT_SET_QUEUE 5 #} #}"
proof -
  let ?m = example_flow_mod
  let ?ap = "[OFPAT_SET_FIELD (new_coxmatch (OFB OXM_VLAN_VID) 0x1064), OFPAT_OUTPUT 2 0xFFFF]"
  let ?wr = "[OFPAT_SET_QUEUE 5, OFPAT_OUTPUT 4 128]"
  have "vid_constants example_ofp" by (simp add: vid_constants_def example_ofp_def)
  moreover have "rel_option (list_all2 (rel_cofaction says)) (fm_apply_actions ?m) (Some ?ap)"
    by (simp add: example_flow_mod_def example_actions_def oxm_bits_def mac_fields_def field_bits_def)
  moreover have "rel_option (list_all2 (rel_cofaction says)) (fm_write_actions ?m) (Some ?wr)"
    by (simp add: example_flow_mod_def)
  moreover have "\<forall>a\<in>(\<Union>as\<in>set_option (Some ?ap) \<union> set_option (Some ?wr). set as). kept example_ofp a"
    by (simp add: example_ofp_def)
  ultimately obtain e where e: "of13_map_flow_entry example_ofp (\<lambda>_. True) ?m = (Inr e, [])" "e_priority e = 7"
      "notify_removal e"
    and r: "\<And>is. stores_group (inst_grp e) is \<Longrightarrow>
      \<exists>rs. of13_map_reverse_flow_entry_instructions example_ofp is = Inr rs \<and>
         mset (map meaning rs) = mset (instructions_of ?m (Some ?ap) (Some ?wr))"
    using of13_instructions_round_trip [of example_ofp "\<lambda>_. True" ?m "Some ?ap" "Some ?wr"]
    by (auto simp: example_flow_mod_def example_ofp_def)
  let ?calls = "[init_packet_action (OF1X_AT_SET_FIELD (OFB OXM_VLAN_VID)) 0x1064 0, init_packet_action OF1X_AT_OUTPUT 2 0xFFFF]"
  let ?ws = "[init_packet_action OF1X_AT_SET_QUEUE 5 0, init_packet_action OF1X_AT_OUTPUT 4 128]"
  have g: "inst_grp e = [add_apply_actions (Some (map Some ?calls)), add_experimenter, add_goto_table 3,
      add_write_actions (Some (map Some ?ws)), add_write_metadata 12 13]"
    using e(1) by (auto simp: of13_flow_entry_outcome example_flow_mod_def new_list_def made_def throws_def
        example_actions_def of13_action_def of13_set_field_def set_field_defs of13_plain_instructions_def
        of13_metadata_instruction_def example_ofp_def split: if_splits)
  have "list_all2 stores_instruction (inst_grp e) (map example_instruction (inst_grp e))"
    unfolding g using example_stores_apply [of ?calls] example_stores_write [of ?ws]
    by (simp add: example_action_def no_instruction_def)
  then have "stores_group (inst_grp e) (no_instruction # rev (map example_instruction (inst_grp e)))"
    unfolding stores_group_def
    by (intro exI [of _ "map example_instruction (inst_grp e)"]) (simp add: g no_instruction_def)
  from r [OF this] show ?thesis
    using e by (simp add: instructions_of_def example_flow_mod_def add_mset_commute)
qed

section \<open>What the switch announces\<close>

fun call_field :: "match_call \<Rightarrow> oxm" where
  "call_field (init_match (OF1X_MATCH f) v) = f"
| "call_field (init_masked_match (OF1X_MATCH f) v k) = f"
| "call_field (init_vlan_vid_match v k p) = OFB OXM_VLAN_VID"

lemma match_block_field: "match_block P c f = Some call \<Longrightarrow> call_field call = f"
  by (auto simp: match_block_def bind_Some_iff split: if_splits)



section \<open>The fields of a packet\<close>

definition packet_order :: "ofp \<Rightarrow> oxm list" where
  "packet_order P = [OFB OXM_IN_PORT, OFB OXM_IN_PHY_PORT, OFB OXM_METADATA, OFB OXM_ETH_DST, OFB OXM_ETH_SRC, OFB OXM_ETH_TYPE,
     OFB OXM_VLAN_VID, OFB OXM_VLAN_PCP, OFB OXM_ARP_OP, OFB OXM_ARP_SHA, OFB OXM_ARP_SPA, OFB OXM_ARP_THA,
     OFB OXM_ARP_TPA, OFB OXM_IP_DSCP, OFB OXM_IP_ECN, OFB OXM_IP_PROTO, OFB OXM_IPV4_SRC, OFB OXM_IPV4_DST,
     OFB OXM_TCP_SRC, OFB OXM_TCP_DST, OFB OXM_UDP_SRC, OFB OXM_UDP_DST, OFB OXM_SCTP_SRC, OFB OXM_SCTP_DST,
     OFB OXM_ICMPV4_TYPE, OFB OXM_ICMPV4_CODE, OFB OXM_IPV6_SRC, OFB OXM_IPV6_DST, OFB OXM_IPV6_FLABEL,
     OFB OXM_IPV6_ND_TARGET, OFB OXM_IPV6_ND_SLL, OFB OXM_IPV6_ND_TLL, OFB OXM_ICMPV6_TYPE, OFB OXM_ICMPV6_CODE,
     OFB OXM_MPLS_LABEL, OFB OXM_MPLS_TC, OFB OXM_MPLS_BOS, OFB OXM_TUNNEL_ID, OFB OXM_PBB_ISID,
     OFB OXM_IPV6_EXTHDR] @
     (if EXPERIMENTAL P then [OFX OXM_PPPOE_CODE, OFX OXM_PPPOE_TYPE, OFX OXM_PPPOE_SID, OFX OXM_PPP_PROT, OFX OXM_GTP_MSG_TYPE,
     OFX OXM_GTP_TEID, OFX OXM_CAPWAP_WBID, OFX OXM_CAPWAP_RID, OFX OXM_CAPWAP_FLAGS, OFX OXM_WLAN_FC,
     OFX OXM_WLAN_TYPE, OFX OXM_WLAN_SUBTYPE, OFX OXM_WLAN_DIRECTION, OFX OXM_WLAN_ADDRESS_1,
     OFX OXM_WLAN_ADDRESS_2, OFX OXM_WLAN_ADDRESS_3, OFX OXM_GRE_VERSION, OFX OXM_GRE_PROT_TYPE, OFX OXM_GRE_KEY] else [])"

lemma of13_packet_blocks:
  "of13_map_reverse_packet_matches P pm =
     tries (map (\<lambda>f. if pm f \<noteq> 0 then Some (set_match f (pm f)) else None) (packet_order P))"
  unfolding of13_map_reverse_packet_matches_def of13_reverse_packet_basic_def of13_reverse_packet_experimental_def packet_order_def
  by (cases "EXPERIMENTAL P") (simp_all only: if_True if_False map_append list.map tries_append tries_simps(1) append_Nil2)

lemma in_packet_order: "f \<in> set (packet_order P) \<longleftrightarrow> EXPERIMENTAL P \<or> (\<exists>g. f = OFB g)"
proof (cases f)
  case (OFB g)
  then show ?thesis by (cases g) (simp_all add: packet_order_def)
next
  case (OFX g)
  then show ?thesis by (cases g) (simp_all add: packet_order_def)
qed

lemma last_set_packet:
  "last_set f (tries (map (\<lambda>f. if pm f \<noteq> 0 then Some (set_match f (pm f)) else None) fs)) =
     (if f \<in> set fs \<and> pm f \<noteq> 0 then Some (pm f, ones f) else None)"
  by (induction fs) auto

text \<open>the match in a packet-in has exactly the fields of the packet whose value is not zero, with these values:
  an ICMP echo reply, whose type is zero, is reported without its type, and VLAN priority zero, DSCP zero or a TCP port zero
  like a packet that has no such field.\<close>

lemma of13_packet_in_fields:
  assumes "reports (of13_map_reverse_packet_matches P pm) c'"
  shows "oxm_value c' f = (if pm f \<noteq> 0 \<and> (EXPERIMENTAL P \<or> (\<exists>g. f = OFB g)) then Some (pm f) else None)"
  using assms by (simp add: reports_def of13_packet_blocks last_set_packet in_packet_order)

section \<open>OpenFlow 1.2\<close>

text \<open>What the translation for OpenFlow 1.2 leaves out: fields that are not matched, and fields and actions for
  which \<open>NULL\<close> is made.\<close>

definition not_matched12 :: "oxm set" where
  "not_matched12 = {OFB OXM_MPLS_BOS, OFB OXM_TUNNEL_ID, OFB OXM_PBB_ISID}"

fun unknown12 :: "coxmatch cofaction \<Rightarrow> bool" where
  "unknown12 (OFPAT_PUSH_PBB e) \<longleftrightarrow> True"
| "unknown12 OFPAT_POP_PBB \<longleftrightarrow> True"
| "unknown12 (OFPAT_SET_FIELD x) \<longleftrightarrow>
     oxm_id x \<in> OFPXMC_OPENFLOW_BASIC ` {OXM_MPLS_BOS, OXM_TUNNEL_ID, OXM_PBB_ISID, OXM_IPV6_EXTHDR}"
| "unknown12 _ \<longleftrightarrow> False"

lemma filter_blocks:
  "filter (\<lambda>call. call_field call \<notin> A) (tries (map (match_block P c) fs)) =
     tries (map (match_block P c) (filter (\<lambda>f. f \<notin> A) fs))"
proof (induction fs)
  case (Cons f fs)
  then show ?case by (cases "match_block P c f") (auto dest: match_block_field)
qed simp

lemmas of12_match_defs = of12_port_matches_def of12_vlan_vid_match_def of12_vlan_ip_matches_def of12_l3_l4_matches_def
  of12_arp_ipv6_matches_def of12_icmpv6_mpls_matches_def of12_experimental_matches_def

text \<open>A VLAN identifier of zero under a mask, for which the translation for OpenFlow 1.2 has an assertion.\<close>

definition odd_vlan :: "cofmatch \<Rightarrow> bool" where
  "odd_vlan c \<longleftrightarrow> (case (oxm_value c (OFB OXM_VLAN_VID), oxm_mask c (OFB OXM_VLAN_VID)) of
     (Some v, Some k) \<Rightarrow> as_u16 v = 0 \<and> as_u16 k \<noteq> 0xFFFF | _ \<Rightarrow> False)"

lemma of12_vlan_block:
  assumes "vid_constants P" and "\<not> odd_vlan c"
  shows "of12_vlan_vid_match P c = Some (tries [match_block P c (OFB OXM_VLAN_VID)])"
  using assms unfolding of12_vlan_vid_match_def odd_vlan_def match_block_def
  by (auto simp: of12_vlan_present_def of13_vlan_present_def vid_constants_def Let_def split: option.splits)

text \<open>C33: the translation for OpenFlow 1.2 makes of a match what the one for OpenFlow 1.3 makes of it, less the matches
  on the bottom of an MPLS stack, tunnels and PBB, unless the match has a VLAN identifier of zero under a mask; and of
  an action the same action, or \<open>NULL\<close> for PBB and for the fields it does not know.\<close>

theorem of12_agrees_with_of13:
  assumes "vid_constants P" and "\<not> odd_vlan c"
  shows "of12_map_flow_entry_matches P c =
      Some (filter (\<lambda>call. call_field call \<notin> not_matched12) (of13_map_flow_entry_matches P c)) \<and>
    of12_action P a = (if unknown12 a then Some None else of13_action P a)"
proof
  show "of12_map_flow_entry_matches P c =
      Some (filter (\<lambda>call. call_field call \<notin> not_matched12) (of13_map_flow_entry_matches P c))"
    unfolding of13_matches_are_blocks filter_blocks of12_map_flow_entry_matches_def of12_vlan_block [OF assms]
    by (simp add: of12_match_defs field_order_def basic_order_def experimental_order_def not_matched12_def
        match_block_def maskable_def arg_conv_def flip: tries_append)
  show "of12_action P a = (if unknown12 a then Some None else of13_action P a)"
  proof (cases a)
    case (OFPAT_SET_FIELD x)
    show ?thesis
    proof (cases "oxm_id x")
      case (OFPXMC_OPENFLOW_BASIC g)
      then show ?thesis using OFPAT_SET_FIELD
        by (cases g) (simp_all add: of12_action_def of13_action_def of12_set_field_def of13_set_field_def
            of12_set_field_1_def of12_set_field_2_def of13_set_field_1_def of13_set_field_2_def)
    next
      case (OFPXMC_EXPERIMENTER g)
      then show ?thesis using OFPAT_SET_FIELD
        by (cases g) (auto simp: of12_action_def of13_action_def of12_set_field_def of13_set_field_def
            of12_set_field_experimental_def of13_set_field_experimental_def)
    qed (use OFPAT_SET_FIELD in \<open>auto simp: of12_action_def of13_action_def of12_set_field_def of13_set_field_def\<close>)
  next
    case (OFPAT_EXPERIMENTER i t e)
    then show ?thesis
      by (cases i; cases t) (simp_all add: of12_action_def of13_action_def of12_experimenter_def of13_experimenter_def)
  qed (simp_all add: of12_action_def of13_action_def)
qed

theorem of12_agrees_with_of13_witness:
  "of12_map_flow_entry_matches example_ofp lossy_msg =
     Some [init_vlan_vid_match 0x1060 0x1FF0 OF1X_MATCH_VLAN_SPECIFIC]"
proof -
  have "\<not> odd_vlan lossy_msg" by (simp add: odd_vlan_def lossy_msg_def as_uN)
  then have "of12_map_flow_entry_matches example_ofp lossy_msg =
      Some (filter (\<lambda>call. call_field call \<notin> not_matched12) (of13_map_flow_entry_matches example_ofp lossy_msg))"
    using of12_agrees_with_of13 [of example_ofp lossy_msg] by (simp add: vid_constants_def example_ofp_def)
  also have "of13_map_flow_entry_matches example_ofp lossy_msg =
      [init_vlan_vid_match 0x1060 0x1FF0 OF1X_MATCH_VLAN_SPECIFIC, init_masked_match (OF1X_MATCH (OFB OXM_TUNNEL_ID)) 0x500 0xFF00]"
    unfolding of13_matches_are_blocks field_order_def basic_order_def experimental_order_def
    by (simp add: match_block_def maskable_def arg_conv_def lossy_msg_def example_ofp_def of13_vlan_present_def as_uN)
  finally show ?thesis by (simp add: not_matched12_def)
qed


end
