(* ===== verification/Of10_Translation.thy ===== *)
theory Of10_Translation
  imports Of_Messages
begin

text \<open>
  The translation between OpenFlow 1.0 and the pipeline, \<open>openflow/openflow10/of10_translation_utils.cc\<close>, and its round
  trips. OpenFlow 1.0 has one list of actions for each flow, reserved ports of 16 bits and fields that stand for IPv4 or
  ARP, and for TCP, UDP or ICMP. Enqueueing is one action of a message and two of the pipeline.
\<close>

section \<open>Data\<close>

datatype reserved_port =
    PORT_MAX | PORT_IN_PORT | PORT_TABLE | PORT_NORMAL | PORT_FLOOD | PORT_ALL | PORT_CONTROLLER | PORT_LOCAL | PORT_NONE

text \<open>Constants and macros of the library: reserved ports of OpenFlow 1.0 (\<open>OFPP_MAX\<close> is \<open>OFPP K PORT_MAX\<close>) and of the
  pipeline (\<open>OF1X_PORT_ANY\<close> for \<open>PORT_NONE\<close>), the conversion between the type of service and the code point of an IP
  header, \<open>VLAN_ID_MASK\<close> for \<open>NTOHB16(OF1X_VLAN_ID_MASK)\<close>, the numbers of the actions (\<open>OFPAT_OUTPUT\<close> is \<open>OFPAT10 K PAT10_OUTPUT\<close>) and the bits of the wildcards.\<close>

datatype pat10 =
    PAT10_OUTPUT | PAT10_SET_VLAN_VID | PAT10_SET_VLAN_PCP | PAT10_STRIP_VLAN | PAT10_SET_DL_SRC | PAT10_SET_DL_DST
  | PAT10_SET_NW_SRC | PAT10_SET_NW_DST | PAT10_SET_NW_TOS | PAT10_SET_TP_SRC | PAT10_SET_TP_DST | PAT10_ENQUEUE

datatype pfw10 =
    PFW_IN_PORT | PFW_DL_DST | PFW_DL_SRC | PFW_DL_TYPE | PFW_DL_VLAN | PFW_DL_VLAN_PCP | PFW_NW_TOS | PFW_NW_PROTO
  | PFW_NW_SRC_ALL | PFW_NW_DST_ALL | PFW_TP_SRC | PFW_TP_DST

record ofp10 =
  OFPP :: "reserved_port \<Rightarrow> u16"
  OF1X_PORT :: "reserved_port \<Rightarrow> u32"
  OFP_VLAN_NONE :: u16
  VID_PRESENT :: u16
  VLAN_ID_MASK :: u16
  SEND_FLOW_REM10 :: u16
  IP_DSCP_VALUE :: "u8 \<Rightarrow> u8"
  IP_DSCP_ALIGN :: "u8 \<Rightarrow> u8"
  OF10_NDEBUG :: bool
  OFPAT10 :: "pat10 \<Rightarrow> nat"
  OFPFW :: "pfw10 \<Rightarrow> u32"

text \<open>The fields of a match in a message. A getter returns a value, or throws \<open>eOxmNotFound\<close> when there is no such
  field, or something else.\<close>

datatype field10 =
    F_IN_PORT | F_ETH_SRC | F_ETH_DST | F_ETH_TYPE | F_VLAN_VID | F_VLAN_PCP | F_NW_TOS | F_NW_PROTO | F_NW_SRC | F_NW_DST
  | F_TP_SRC | F_TP_DST | F_IP_PROTO

datatype got = Got u128 | eOxmNotFound | Other_exception

record match10 =
  value10 :: "field10 \<Rightarrow> got"
  mask10 :: "field10 \<Rightarrow> got"

text \<open>The matches of the pipeline that OpenFlow 1.0 uses, the calls that make them, and what their accessors
  return.\<close>

datatype match_type10 =
    M_IN_PORT | M_ETH_DST | M_ETH_SRC | M_ETH_TYPE | M_VLAN_VID | M_VLAN_PCP | M_ARP_OP | M_ARP_SPA | M_ARP_TPA | M_IP_DSCP
  | M_NW_PROTO | M_NW_SRC | M_NW_DST | M_TP_SRC | M_TP_DST | M_other

datatype match_call10 =
    init10 match_type10 u128
  | init_masked10 match_type10 u128 u128
  | init_vlan10 u128 u128 vlan_presence

record of1x_match10 =
  type10 :: match_type10
  vlan_present10 :: vlan_presence
  m_value8 :: u8
  m_value16 :: u16
  m_value32 :: u32
  m_value64 :: u64
  m_mask32 :: u32
  m_mask64 :: u64

datatype set_call10 = set10 field10 u128 | set_masked10 field10 u128 u128

text \<open>The actions of a message; \<open>'p\<close> is the type of port numbers. \<open>A_throws\<close> is one whose getter throws.\<close>

datatype 'p action10 =
    A_OUTPUT 'p u16
  | A_SET_VLAN_VID u16
  | A_SET_VLAN_PCP u8
  | A_STRIP_VLAN
  | A_SET_DL_SRC u64
  | A_SET_DL_DST u64
  | A_SET_NW_SRC u32
  | A_SET_NW_DST u32
  | A_SET_NW_TOS u8
  | A_SET_TP_SRC u16
  | A_SET_TP_DST u16
  | A_ENQUEUE 'p u32
  | A_PUSH_VLAN u16
  | A_unknown
  | A_throws

record flow_mod10 =
  flags10 :: u16
  priority10 :: u16
  cookie10 :: u64
  idle_timeout10 :: u16
  hard_timeout10 :: u16
  fm_match10 :: match10
  actions10 :: "u16 action10 list"

record flow_entry10 =
  notify10 :: bool
  e_priority10 :: u16
  e_cookie10 :: u64
  e_cookie_mask10 :: u64
  e_idle10 :: u16
  e_hard10 :: u16
  e_matches10 :: "match_call10 list"
  e_apply10 :: "action_call option list option"

section \<open>Ports\<close>

definition get_out_port :: "ofp10 \<Rightarrow> u16 \<Rightarrow> u64" where
  "get_out_port K port =
     (if port = OFPP K PORT_MAX then ucast (OF1X_PORT K PORT_MAX)
      else if port = OFPP K PORT_IN_PORT then ucast (OF1X_PORT K PORT_IN_PORT)
      else if port = OFPP K PORT_TABLE then ucast (OF1X_PORT K PORT_TABLE)
      else if port = OFPP K PORT_NORMAL then ucast (OF1X_PORT K PORT_NORMAL)
      else if port = OFPP K PORT_FLOOD then ucast (OF1X_PORT K PORT_FLOOD)
      else if port = OFPP K PORT_ALL then ucast (OF1X_PORT K PORT_ALL)
      else if port = OFPP K PORT_CONTROLLER then ucast (OF1X_PORT K PORT_CONTROLLER)
      else if port = OFPP K PORT_LOCAL then ucast (OF1X_PORT K PORT_LOCAL)
      else if port = OFPP K PORT_NONE then ucast (OF1X_PORT K PORT_NONE)
      else ucast port)"

definition get_out_port_reverse :: "ofp10 \<Rightarrow> u64 \<Rightarrow> u32" where
  "get_out_port_reverse K port =
     (if port = ucast (OF1X_PORT K PORT_MAX) then ucast (OFPP K PORT_MAX)
      else if port = ucast (OF1X_PORT K PORT_IN_PORT) then ucast (OFPP K PORT_IN_PORT)
      else if port = ucast (OF1X_PORT K PORT_TABLE) then ucast (OFPP K PORT_TABLE)
      else if port = ucast (OF1X_PORT K PORT_NORMAL) then ucast (OFPP K PORT_NORMAL)
      else if port = ucast (OF1X_PORT K PORT_FLOOD) then ucast (OFPP K PORT_FLOOD)
      else if port = ucast (OF1X_PORT K PORT_ALL) then ucast (OFPP K PORT_ALL)
      else if port = ucast (OF1X_PORT K PORT_CONTROLLER) then ucast (OFPP K PORT_CONTROLLER)
      else if port = ucast (OF1X_PORT K PORT_LOCAL) then ucast (OFPP K PORT_LOCAL)
      else if port = ucast (OF1X_PORT K PORT_NONE) then ucast (OFPP K PORT_NONE)
      else ucast port)"

section \<open>From a message to the pipeline\<close>

text \<open>A \<open>try\<close> block: it catches \<open>eOxmNotFound\<close> only, so that another exception ends the function (\<open>None\<close>). Its
  matches are added if all getters return.\<close>

definition got1 :: "got \<Rightarrow> (u128 \<Rightarrow> match_call10 list) \<Rightarrow> match_call10 list option" where
  "got1 g f = (case g of Got v \<Rightarrow> Some (f v) | eOxmNotFound \<Rightarrow> Some [] | Other_exception \<Rightarrow> None)"

definition got2 :: "got \<Rightarrow> got \<Rightarrow> (u128 \<Rightarrow> u128 \<Rightarrow> match_call10 list) \<Rightarrow> match_call10 list option" where
  "got2 g h f = (case g of
       Got v \<Rightarrow> (case h of Got k \<Rightarrow> Some (f v k) | eOxmNotFound \<Rightarrow> Some [] | Other_exception \<Rightarrow> None)
     | eOxmNotFound \<Rightarrow> Some [] | Other_exception \<Rightarrow> None)"

definition of10_vlan_match :: "ofp10 \<Rightarrow> u128 \<Rightarrow> match_call10" where
  "of10_vlan_match K v = (let value = as_u16 v;
      present = (if value = ucast (OFP_VLAN_NONE K) then OF1X_MATCH_VLAN_NONE else OF1X_MATCH_VLAN_SPECIFIC)
    in init_vlan10 (value AND NOT (ucast (VID_PRESENT K))) (ucast (VLAN_ID_MASK K)) present)"

definition of10_link_matches :: "ofp10 \<Rightarrow> match10 \<Rightarrow> match_call10 list option list" where
  "of10_link_matches K m =
    [got1 (value10 m F_IN_PORT) (\<lambda>v. [init10 M_IN_PORT v]),
     got1 (value10 m F_ETH_SRC) (\<lambda>v. [init_masked10 M_ETH_SRC (as_u64 v) 0xFFFFFFFFFFFF]),
     got1 (value10 m F_ETH_DST) (\<lambda>v. [init_masked10 M_ETH_DST (as_u64 v) 0xFFFFFFFFFFFF]),
     got1 (value10 m F_ETH_TYPE) (\<lambda>v. [init10 M_ETH_TYPE v]),
     got1 (value10 m F_VLAN_VID) (\<lambda>v. [of10_vlan_match K v]),
     got1 (value10 m F_VLAN_PCP) (\<lambda>v. [init10 M_VLAN_PCP v])]"

definition of10_network_matches :: "ofp10 \<Rightarrow> match10 \<Rightarrow> match_call10 list option list" where
  "of10_network_matches K m =
    [got1 (value10 m F_NW_TOS) (\<lambda>v. [init10 M_IP_DSCP (ucast (IP_DSCP_VALUE K (ucast v)))]),
     got1 (value10 m F_NW_PROTO) (\<lambda>v. [init10 M_NW_PROTO v]),
     got2 (value10 m F_NW_SRC) (mask10 m F_NW_SRC) (\<lambda>v k.
       if as_u32 v \<noteq> 0 then [init_masked10 M_NW_SRC (as_u32 v) (as_u32 k)] else []),
     got2 (value10 m F_NW_DST) (mask10 m F_NW_DST) (\<lambda>v k.
       if as_u32 v \<noteq> 0 then [init_masked10 M_NW_DST (as_u32 v) (as_u32 k)] else []),
     got1 (value10 m F_TP_SRC) (\<lambda>v. [init10 M_TP_SRC v]),
     got1 (value10 m F_TP_DST) (\<lambda>v. [init10 M_TP_DST v])]"

fun all_blocks :: "match_call10 list option list \<Rightarrow> match_call10 list option" where
  "all_blocks [] = Some []"
| "all_blocks (b # bs) = do { xs \<leftarrow> b; ys \<leftarrow> all_blocks bs; Some (xs @ ys) }"

definition of10_map_flow_entry_matches :: "ofp10 \<Rightarrow> match10 \<Rightarrow> match_call10 list option" where
  "of10_map_flow_entry_matches K m = all_blocks (of10_link_matches K m @ of10_network_matches K m)"

text \<open>The actions one action of a message pushes into the group; \<open>None\<close> is an exception, \<open>NULL\<close> is pushed for a type
  that is not known.\<close>

definition of10_action :: "ofp10 \<Rightarrow> u16 action10 \<Rightarrow> action_call option list option" where
  "of10_action K a = (case a of
       A_OUTPUT port_no max_len \<Rightarrow>
         Some [Some (init_packet_action OF1X_AT_OUTPUT (ucast (ucast (get_out_port K port_no) :: u32)) (ucast max_len))]
     | A_SET_VLAN_VID vid \<Rightarrow> Some [Some (init_packet_action (OF1X_AT_SET_FIELD (OFB OXM_VLAN_VID)) (ucast vid) 0)]
     | A_SET_VLAN_PCP pcp \<Rightarrow> Some [Some (init_packet_action (OF1X_AT_SET_FIELD (OFB OXM_VLAN_PCP)) (ucast pcp) 0)]
     | A_STRIP_VLAN \<Rightarrow> Some [Some (init_packet_action OF1X_AT_POP_VLAN 0 0)]
     | A_SET_DL_SRC mac \<Rightarrow> Some [Some (init_packet_action (OF1X_AT_SET_FIELD (OFB OXM_ETH_SRC)) (ucast mac) 0)]
     | A_SET_DL_DST mac \<Rightarrow> Some [Some (init_packet_action (OF1X_AT_SET_FIELD (OFB OXM_ETH_DST)) (ucast mac) 0)]
     | A_SET_NW_SRC addr \<Rightarrow> Some [Some (init_packet_action OF1X_AT_SET_FIELD_NW_SRC (ucast addr) 0)]
     | A_SET_NW_DST addr \<Rightarrow> Some [Some (init_packet_action OF1X_AT_SET_FIELD_NW_DST (ucast addr) 0)]
     | A_SET_NW_TOS tos \<Rightarrow> Some [Some (init_packet_action (OF1X_AT_SET_FIELD (OFB OXM_IP_DSCP)) (ucast (IP_DSCP_VALUE K tos)) 0)]
     | A_SET_TP_SRC port \<Rightarrow> Some [Some (init_packet_action OF1X_AT_SET_FIELD_TP_SRC (ucast port) 0)]
     | A_SET_TP_DST port \<Rightarrow> Some [Some (init_packet_action OF1X_AT_SET_FIELD_TP_DST (ucast port) 0)]
     | A_ENQUEUE port_no queue_id \<Rightarrow>
         Some [Some (init_packet_action OF1X_AT_SET_QUEUE (ucast queue_id) 0),
               Some (init_packet_action OF1X_AT_OUTPUT (ucast (get_out_port K port_no)) 0)]
     | A_throws \<Rightarrow> None
     | _ \<Rightarrow> Some [None])"

fun of10_map_flow_entry_actions :: "ofp10 \<Rightarrow> u16 action10 list \<Rightarrow> action_call option list \<Rightarrow> action_call option list option" where
  "of10_map_flow_entry_actions K [] grp = Some grp"
| "of10_map_flow_entry_actions K (a # as) grp = do {
     pushed \<leftarrow> of10_action K a; of10_map_flow_entry_actions K as (grp @ pushed) }"

text \<open>The flow entry or the exception, with what has been allocated and is neither freed nor in the result. A group of
  actions that could not be allocated is passed on as \<open>NULL\<close>; nothing is pushed into it.\<close>

definition of10_map_flow_entry :: "ofp10 \<Rightarrow> (allocated \<Rightarrow> bool) \<Rightarrow> flow_mod10 \<Rightarrow> (of_exception + flow_entry10) \<times> allocated list" where
  "of10_map_flow_entry K allocates m =
     (if \<not> allocates Flow_entry then (Inl eFlowModUnknown, [])
      else case of10_map_flow_entry_matches K (fm_match10 m) of
             None \<Rightarrow> (Inl eFlowModUnknown, [])
           | Some ms \<Rightarrow>
              (case of10_map_flow_entry_actions K (actions10 m) [] of
                 None \<Rightarrow> (Inl eFlowModUnknown, lost_if allocates Action_group)
               | Some grp \<Rightarrow>
                  (Inr \<lparr> notify10 = (flags10 m AND SEND_FLOW_REM10 K \<noteq> 0), e_priority10 = priority10 m,
                        e_cookie10 = cookie10 m, e_cookie_mask10 = 0xFFFFFFFFFFFFFFFF, e_idle10 = idle_timeout10 m,
                        e_hard10 = hard_timeout10 m, e_matches10 = ms, e_apply10 = (if allocates Action_group then Some grp else None) \<rparr>, [])))"

section \<open>From the pipeline to a message\<close>

definition of10_reverse_match :: "ofp10 \<Rightarrow> of1x_match10 \<Rightarrow> set_call10 list" where
  "of10_reverse_match K m = (case type10 m of
       M_IN_PORT \<Rightarrow> [set10 F_IN_PORT (ucast (m_value32 m))]
     | M_ETH_DST \<Rightarrow> [set_masked10 F_ETH_DST (ucast (m_value64 m)) (ucast (m_mask64 m))]
     | M_ETH_SRC \<Rightarrow> [set_masked10 F_ETH_SRC (ucast (m_value64 m)) (ucast (m_mask64 m))]
     | M_ETH_TYPE \<Rightarrow> [set10 F_ETH_TYPE (ucast (m_value16 m))]
     | M_VLAN_VID \<Rightarrow>
         if vlan_present10 m = OF1X_MATCH_VLAN_NONE then [set10 F_VLAN_VID (ucast (OFP_VLAN_NONE K)), set10 F_VLAN_PCP 0]
         else [set10 F_VLAN_VID (ucast (m_value16 m))]
     | M_VLAN_PCP \<Rightarrow> [set10 F_VLAN_PCP (ucast (m_value8 m))]
     | M_ARP_OP \<Rightarrow> [set10 F_NW_PROTO (ucast (m_value16 m))]
     | M_ARP_SPA \<Rightarrow> [set_masked10 F_NW_SRC (ucast (m_value32 m)) (ucast (m_mask32 m))]
     | M_ARP_TPA \<Rightarrow> [set_masked10 F_NW_DST (ucast (m_value32 m)) (ucast (m_mask32 m))]
     | M_IP_DSCP \<Rightarrow> [set10 F_NW_TOS (ucast (IP_DSCP_ALIGN K (m_value8 m)))]
     | M_NW_PROTO \<Rightarrow> [set10 F_NW_PROTO (ucast (m_value8 m))]
     | M_NW_SRC \<Rightarrow> [set_masked10 F_NW_SRC (ucast (m_value32 m)) (ucast (m_mask32 m))]
     | M_NW_DST \<Rightarrow> [set_masked10 F_NW_DST (ucast (m_value32 m)) (ucast (m_mask32 m))]
     | M_TP_SRC \<Rightarrow> [set10 F_TP_SRC (ucast (m_value16 m))]
     | M_TP_DST \<Rightarrow> [set10 F_TP_DST (ucast (m_value16 m))]
     | M_other \<Rightarrow> [])"

fun of10_map_reverse_flow_entry_matches :: "ofp10 \<Rightarrow> of1x_match10 list \<Rightarrow> set_call10 list" where
  "of10_map_reverse_flow_entry_matches K [] = []"
| "of10_map_reverse_flow_entry_matches K (m # ms) = of10_reverse_match K m @ of10_map_reverse_flow_entry_matches K ms"

text \<open>One action; \<open>rest\<close> are the actions behind it. The outer \<open>None\<close> is the failed assertion when nothing follows a
  set-queue action.\<close>

definition of10_reverse_action :: "ofp10 \<Rightarrow> of1x_packet_action \<Rightarrow> of1x_packet_action list \<Rightarrow> u32 action10 option option" where
  "of10_reverse_action K a rest = (case a_type a of
       OF1X_AT_POP_VLAN \<Rightarrow> Some (Some A_STRIP_VLAN)
     | OF1X_AT_PUSH_VLAN \<Rightarrow> Some (Some (A_PUSH_VLAN (action_field16 a)))
     | OF1X_AT_SET_FIELD (OFB f) \<Rightarrow> Some (case f of
           OXM_ETH_DST \<Rightarrow> Some (A_SET_DL_DST (action_field64 a))
         | OXM_ETH_SRC \<Rightarrow> Some (A_SET_DL_SRC (action_field64 a))
         | OXM_VLAN_VID \<Rightarrow> Some (A_SET_VLAN_VID (action_field16 a))
         | OXM_VLAN_PCP \<Rightarrow> Some (A_SET_VLAN_PCP (action_field8 a))
         | OXM_IP_DSCP \<Rightarrow> Some (A_SET_NW_TOS (IP_DSCP_ALIGN K (action_field8 a)))
         | _ \<Rightarrow> None)
     | OF1X_AT_SET_FIELD_NW_SRC \<Rightarrow> Some (Some (A_SET_NW_SRC (action_field32 a)))
     | OF1X_AT_SET_FIELD_NW_DST \<Rightarrow> Some (Some (A_SET_NW_DST (action_field32 a)))
     | OF1X_AT_SET_FIELD_TP_SRC \<Rightarrow> Some (Some (A_SET_TP_SRC (action_field16 a)))
     | OF1X_AT_SET_FIELD_TP_DST \<Rightarrow> Some (Some (A_SET_TP_DST (action_field16 a)))
     | OF1X_AT_SET_QUEUE \<Rightarrow>
         (case rest of
            b # _ \<Rightarrow> Some (Some (A_ENQUEUE (get_out_port_reverse K (ucast (action_field32 b))) (action_field32 a)))
          | [] \<Rightarrow> if OF10_NDEBUG K then Some None else None)
     | OF1X_AT_OUTPUT \<Rightarrow> Some (Some (A_OUTPUT (get_out_port_reverse K (ucast (action_field32 a))) (ucast (send_len a))))
     | _ \<Rightarrow> Some None)"

text \<open>The loop over a group. After a set-queue action the output behind it is skipped; the loop ends if that was the last
  action. If nothing follows, the pointer to the action becomes \<open>NULL\<close> and its successor is read: \<open>None\<close>.\<close>

fun of10_reverse_group :: "ofp10 \<Rightarrow> nat \<Rightarrow> of1x_packet_action list \<Rightarrow> (nat \<times> u32 action10) list option" where
  "of10_reverse_group K index [] = Some []"
| "of10_reverse_group K index (a # rest) =
     (if a_type a = OF1X_AT_NO_ACTION then of10_reverse_group K index rest
      else do {
        r \<leftarrow> of10_reverse_action K a rest;
        let here = (case r of None \<Rightarrow> [] | Some x \<Rightarrow> [(index, x)]);
        if a_type a = OF1X_AT_SET_QUEUE then
          (case rest of
             [] \<Rightarrow> None
           | [b] \<Rightarrow> Some here
           | b # c # cs \<Rightarrow> do { rs \<leftarrow> of10_reverse_group K (index + 1) (c # cs); Some (here @ rs) })
        else do { rs \<leftarrow> of10_reverse_group K (index + 1) rest; Some (here @ rs) } })"

text \<open>Of the instructions the first Apply-Actions with a group is reported; each is its type and its group, which may be
  \<open>NULL\<close>.\<close>

fun of10_map_reverse_flow_entry_actions ::
    "ofp10 \<Rightarrow> (instruction_type \<times> of1x_packet_action list option) list \<Rightarrow> (nat \<times> u32 action10) list option" where
  "of10_map_reverse_flow_entry_actions K [] = Some []"
| "of10_map_reverse_flow_entry_actions K ((t, g) # is) =
     (if t \<noteq> OF1X_IT_APPLY_ACTIONS then of10_map_reverse_flow_entry_actions K is
      else case g of None \<Rightarrow> of10_map_reverse_flow_entry_actions K is | Some as \<Rightarrow> of10_reverse_group K 0 as)"

text \<open>The fields of a packet, for a packet-in; \<open>pm\<close> gives the value of a field, zero if the packet does not have it.\<close>

definition of10_map_reverse_packet_matches :: "ofp10 \<Rightarrow> bool \<Rightarrow> (oxm \<Rightarrow> u128) \<Rightarrow> set_call10 list" where
  "of10_map_reverse_packet_matches K has_vlan pm = tries
    [if pm (OFB OXM_IN_PORT) \<noteq> 0 then Some (set10 F_IN_PORT (pm (OFB OXM_IN_PORT))) else None,
     if pm (OFB OXM_ETH_DST) \<noteq> 0 then Some (set10 F_ETH_DST (pm (OFB OXM_ETH_DST))) else None,
     if pm (OFB OXM_ETH_SRC) \<noteq> 0 then Some (set10 F_ETH_SRC (pm (OFB OXM_ETH_SRC))) else None,
     if pm (OFB OXM_ETH_TYPE) \<noteq> 0 then Some (set10 F_ETH_TYPE (pm (OFB OXM_ETH_TYPE))) else None,
     if has_vlan \<and> pm (OFB OXM_VLAN_VID) \<noteq> 0 then Some (set10 F_VLAN_VID (pm (OFB OXM_VLAN_VID))) else None,
     if has_vlan \<and> pm (OFB OXM_VLAN_PCP) \<noteq> 0 then Some (set10 F_VLAN_PCP (pm (OFB OXM_VLAN_PCP))) else None,
     if pm (OFB OXM_ARP_OP) \<noteq> 0 then Some (set10 F_NW_PROTO (pm (OFB OXM_ARP_OP))) else None,
     if pm (OFB OXM_ARP_SPA) \<noteq> 0 then Some (set10 F_NW_SRC (pm (OFB OXM_ARP_SPA))) else None,
     if pm (OFB OXM_ARP_TPA) \<noteq> 0 then Some (set10 F_NW_DST (pm (OFB OXM_ARP_TPA))) else None,
     if pm (OFB OXM_IP_DSCP) \<noteq> 0 then Some (set10 F_NW_TOS (ucast (IP_DSCP_ALIGN K (ucast (pm (OFB OXM_IP_DSCP)))))) else None,
     if pm (OFB OXM_IP_PROTO) \<noteq> 0 then Some (set10 F_IP_PROTO (pm (OFB OXM_IP_PROTO))) else None,
     if pm (OFB OXM_IPV4_SRC) \<noteq> 0 then Some (set10 F_NW_SRC (pm (OFB OXM_IPV4_SRC))) else None,
     if pm (OFB OXM_IPV4_DST) \<noteq> 0 then Some (set10 F_NW_DST (pm (OFB OXM_IPV4_DST))) else None,
     if pm (OFB OXM_TCP_SRC) \<noteq> 0 then Some (set10 F_TP_SRC (pm (OFB OXM_TCP_SRC))) else None,
     if pm (OFB OXM_TCP_DST) \<noteq> 0 then Some (set10 F_TP_DST (pm (OFB OXM_TCP_DST))) else None,
     if pm (OFB OXM_UDP_SRC) \<noteq> 0 then Some (set10 F_TP_SRC (pm (OFB OXM_UDP_SRC))) else None,
     if pm (OFB OXM_UDP_DST) \<noteq> 0 then Some (set10 F_TP_DST (pm (OFB OXM_UDP_DST))) else None,
     if pm (OFB OXM_ICMPV4_TYPE) \<noteq> 0 then Some (set10 F_TP_SRC (pm (OFB OXM_ICMPV4_TYPE))) else None,
     if pm (OFB OXM_ICMPV4_CODE) \<noteq> 0 then Some (set10 F_TP_DST (pm (OFB OXM_ICMPV4_CODE))) else None]"

section \<open>What the switch announces\<close>

text \<open>The words that say which actions and which wildcards the first table has, by the bits set in its configuration.\<close>

definition of10_supported_actions :: "ofp10 \<Rightarrow> (action_type \<Rightarrow> bool) \<Rightarrow> u32" where
  "of10_supported_actions K is_set =
     (if is_set OF1X_AT_OUTPUT then push_bit (OFPAT10 K PAT10_OUTPUT) 1 else 0) OR
     (if is_set (OF1X_AT_SET_FIELD (OFB OXM_VLAN_VID)) then push_bit (OFPAT10 K PAT10_SET_VLAN_VID) 1 else 0) OR
     (if is_set (OF1X_AT_SET_FIELD (OFB OXM_VLAN_PCP)) then push_bit (OFPAT10 K PAT10_SET_VLAN_PCP) 1 else 0) OR
     (if is_set OF1X_AT_POP_VLAN then push_bit (OFPAT10 K PAT10_STRIP_VLAN) 1 else 0) OR
     (if is_set (OF1X_AT_SET_FIELD (OFB OXM_ETH_SRC)) then push_bit (OFPAT10 K PAT10_SET_DL_SRC) 1 else 0) OR
     (if is_set (OF1X_AT_SET_FIELD (OFB OXM_ETH_DST)) then push_bit (OFPAT10 K PAT10_SET_DL_DST) 1 else 0) OR
     (if is_set (OF1X_AT_SET_FIELD (OFB OXM_IPV4_SRC)) then push_bit (OFPAT10 K PAT10_SET_NW_SRC) 1 else 0) OR
     (if is_set (OF1X_AT_SET_FIELD (OFB OXM_IPV4_DST)) then push_bit (OFPAT10 K PAT10_SET_NW_DST) 1 else 0) OR
     (if is_set (OF1X_AT_SET_FIELD (OFB OXM_IP_DSCP)) then push_bit (OFPAT10 K PAT10_SET_NW_TOS) 1 else 0) OR
     (if is_set OF1X_AT_SET_FIELD_TP_SRC then push_bit (OFPAT10 K PAT10_SET_TP_SRC) 1 else 0) OR
     (if is_set OF1X_AT_SET_FIELD_TP_DST then push_bit (OFPAT10 K PAT10_SET_TP_DST) 1 else 0) OR
     (if is_set OF1X_AT_SET_QUEUE then push_bit (OFPAT10 K PAT10_ENQUEUE) 1 else 0)"

definition of10_supported_wildcards :: "ofp10 \<Rightarrow> (match_type10 \<Rightarrow> bool) \<Rightarrow> u32" where
  "of10_supported_wildcards K is_set =
     (if is_set M_IN_PORT then OFPFW K PFW_IN_PORT else 0) OR
     (if is_set M_ETH_DST then OFPFW K PFW_DL_DST else 0) OR
     (if is_set M_ETH_SRC then OFPFW K PFW_DL_SRC else 0) OR
     (if is_set M_ETH_TYPE then OFPFW K PFW_DL_TYPE else 0) OR
     (if is_set M_VLAN_VID then OFPFW K PFW_DL_VLAN else 0) OR
     (if is_set M_VLAN_PCP then OFPFW K PFW_DL_VLAN_PCP else 0) OR
     (if is_set M_IP_DSCP then OFPFW K PFW_NW_TOS else 0) OR
     (if is_set M_NW_PROTO then OFPFW K PFW_NW_PROTO else 0) OR
     (if is_set M_NW_SRC then OFPFW K PFW_NW_SRC_ALL else 0) OR
     (if is_set M_NW_DST then OFPFW K PFW_NW_DST_ALL else 0) OR
     (if is_set M_TP_SRC then OFPFW K PFW_TP_SRC else 0) OR
     (if is_set M_TP_DST then OFPFW K PFW_TP_DST else 0)"

text \<open>The speed of a port, in kilobits per second, by the features it has; the same as for OpenFlow 1.3.\<close>

definition of10_port_speed_kb :: "ofp \<Rightarrow> u32 \<Rightarrow> u32" where
  "of10_port_speed_kb P features = (let has = (\<lambda>c. features AND PORT_FEATURE P c \<noteq> 0) in
     if has PORT_FEATURE_1TB_FD then 1000000000
     else if has PORT_FEATURE_100GB_FD then 100000000
     else if has PORT_FEATURE_40GB_FD then 40000000
     else if has PORT_FEATURE_1GB_FD \<or> has PORT_FEATURE_1GB_HD then 1000000
     else if has PORT_FEATURE_100MB_FD \<or> has PORT_FEATURE_100MB_HD then 100000
     else if has PORT_FEATURE_10MB_FD \<or> has PORT_FEATURE_10MB_HD then 10000
     else 0)"

end
