(* ===== verification/Of10_Roundtrip.thy ===== *)
theory Of10_Roundtrip
  imports Of10_Translation Of_Roundtrip
begin

text \<open>
  Properties of the OpenFlow 1.0 translation: what a report says of an installed match and of a list of actions, what a refused
  flow-mod leaves behind, and which actions are announced. The contracts of the library are hypotheses.
\<close>


section \<open>Contracts\<close>

text \<open>Constants of the library: the reserved ports of the pipeline are different numbers above all ports of 16 bits, and
  converting a type of service to a code point and back drops its two lowest bits. \<open>OFPVID_PRESENT\<close> is bit 12.\<close>

definition ports10 :: "ofp10 \<Rightarrow> bool" where
  "ports10 K \<longleftrightarrow> inj (OF1X_PORT K) \<and> (\<forall>x. 0xFFFF < OF1X_PORT K x)"

definition dscp10 :: "ofp10 \<Rightarrow> bool" where
  "dscp10 K \<longleftrightarrow> (\<forall>t. IP_DSCP_ALIGN K (IP_DSCP_VALUE K t) = t AND 0xFC)"

text \<open>What the library stores for a match; of a VLAN identifier it keeps 12 bits.\<close>

fun stores10 :: "match_call10 \<Rightarrow> of1x_match10 \<Rightarrow> bool" where
  "stores10 (init10 t v) m \<longleftrightarrow> type10 m = t \<and> m_value8 m = ucast v \<and> m_value16 m = ucast v \<and> m_value32 m = ucast v \<and>
     m_value64 m = ucast v"
| "stores10 (init_masked10 t v k) m \<longleftrightarrow> type10 m = t \<and> m_value32 m = ucast v \<and> m_value64 m = ucast v \<and>
     m_mask32 m = ucast k \<and> m_mask64 m = ucast k"
| "stores10 (init_vlan10 v k p) m \<longleftrightarrow> type10 m = M_VLAN_VID \<and> vlan_present10 m = p \<and> m_value16 m = ucast v AND 0x0FFF"

text \<open>What the last call for a field has set: a value, and a mask if the call had one.\<close>

fun last_set10 :: "field10 \<Rightarrow> set_call10 list \<Rightarrow> (u128 \<times> u128 option) option" where
  "last_set10 f [] = None"
| "last_set10 f (set10 g v # cs) =
     (case last_set10 f cs of None \<Rightarrow> if g = f then Some (v, None) else None | Some r \<Rightarrow> Some r)"
| "last_set10 f (set_masked10 g v k # cs) =
     (case last_set10 f cs of None \<Rightarrow> if g = f then Some (v, Some k) else None | Some r \<Rightarrow> Some r)"

lemma last_set10_append:
  "last_set10 f (xs @ ys) = (case last_set10 f ys of None \<Rightarrow> last_set10 f xs | Some r \<Rightarrow> Some r)"
  by (induction f xs rule: last_set10.induct) (auto split: option.splits)

text \<open>A match as a message has it: no getter fails but for a field that is absent, a value has the bits of its field, an
  address has a mask, and a VLAN identifier is one of 12 bits or \<open>OFP_VLAN_NONE\<close>.\<close>

definition bits10 :: "field10 \<Rightarrow> nat" where
  "bits10 f = (case f of F_IN_PORT \<Rightarrow> 32 | F_ETH_SRC \<Rightarrow> 48 | F_ETH_DST \<Rightarrow> 48 | F_NW_SRC \<Rightarrow> 32 | F_NW_DST \<Rightarrow> 32
     | F_VLAN_PCP \<Rightarrow> 8 | F_NW_TOS \<Rightarrow> 8 | F_NW_PROTO \<Rightarrow> 8 | F_IP_PROTO \<Rightarrow> 8 | _ \<Rightarrow> 16)"

definition well_formed10 :: "ofp10 \<Rightarrow> match10 \<Rightarrow> bool" where
  "well_formed10 K c \<longleftrightarrow> (\<forall>f. (case value10 c f of
       Got v \<Rightarrow> take_bit (bits10 f) v = v \<and>
         (f = F_VLAN_VID \<longrightarrow> v = ucast (OFP_VLAN_NONE K) \<or> take_bit 12 v = v) \<and>
         (f \<in> {F_NW_SRC, F_NW_DST} \<longrightarrow> (\<exists>k. mask10 c f = Got k \<and> take_bit 32 k = k))
     | eOxmNotFound \<Rightarrow> True
     | Other_exception \<Rightarrow> False))"

text \<open>What a report on the flow says of a field.\<close>

fun present10 :: "got \<Rightarrow> (u128 \<Rightarrow> 'a option) \<Rightarrow> 'a option" where
  "present10 (Got v) f = f v"
| "present10 eOxmNotFound f = None"
| "present10 Other_exception f = None"

definition reported10 :: "ofp10 \<Rightarrow> match10 \<Rightarrow> field10 \<Rightarrow> (u128 \<times> u128 option) option" where
  "reported10 K c f =
     (if f \<in> {F_ETH_SRC, F_ETH_DST} then present10 (value10 c f) (\<lambda>v. Some (v, Some 0xFFFFFFFFFFFF))
      else if f \<in> {F_NW_SRC, F_NW_DST} then
        present10 (value10 c f) (\<lambda>v. if v = 0 then None else present10 (mask10 c f) (\<lambda>k. Some (v, Some k)))
      else if f = F_NW_TOS then present10 (value10 c f) (\<lambda>v. Some (v AND 0xFC, None))
      else if f = F_VLAN_PCP \<and> value10 c F_VLAN_PCP = eOxmNotFound \<and> value10 c F_VLAN_VID = Got (ucast (OFP_VLAN_NONE K))
        then Some (0, None)
      else if f = F_IP_PROTO then None
      else present10 (value10 c f) (\<lambda>v. Some (v, None)))"

section \<open>Matches\<close>

lemma all_blocks_Some:
  "all_blocks bs = Some xs \<longleftrightarrow> (\<exists>yss. bs = map Some yss \<and> xs = concat yss)"
proof (induction bs arbitrary: xs)
  case (Cons b bs)
  show ?case
  proof (cases b)
    case (Some ys)
    then show ?thesis using Cons.IH by (fastforce simp: bind_eq_Some_conv Cons_eq_map_conv)
  qed auto
qed auto

lemma list_all2_concat:
  assumes "list_all2 R (concat xss) ys"
  shows "\<exists>yss. ys = concat yss \<and> list_all2 (list_all2 R) xss yss"
  using assms
proof (induction xss arbitrary: ys)
  case (Cons xs xss)
  then obtain us vs where ys: "ys = us @ vs" "list_all2 R xs us" "list_all2 R (concat xss) vs"
    by (auto simp: list_all2_append1)
  moreover obtain yss where "vs = concat yss" "list_all2 (list_all2 R) xss yss"
    using Cons.IH ys(3) by blast
  ultimately show ?case by (intro exI [of _ "us # yss"]) simp
qed simp

lemma of10_reverse_append:
  "of10_map_reverse_flow_entry_matches K (xs @ ys) =
     of10_map_reverse_flow_entry_matches K xs @ of10_map_reverse_flow_entry_matches K ys"
  by (induction xs) simp_all

text \<open>The reports on the blocks, the last one that says something about the field first.\<close>

fun last_block :: "ofp10 \<Rightarrow> field10 \<Rightarrow> of1x_match10 list list \<Rightarrow> (u128 \<times> u128 option) option" where
  "last_block K f [] = None"
| "last_block K f (b # bs) = (case last_block K f bs of
     None \<Rightarrow> last_set10 f (of10_map_reverse_flow_entry_matches K b) | Some r \<Rightarrow> Some r)"

lemma last_block_concat: "last_set10 f (of10_map_reverse_flow_entry_matches K (concat bs)) = last_block K f bs"
  by (induction bs) (simp_all add: of10_reverse_append last_set10_append)

lemma conv10:
  "take_bit 48 v = v \<Longrightarrow> ucast (ucast (as_u64 v) :: u64) = (v::u128)"
  "take_bit 32 v = v \<Longrightarrow> ucast (ucast (as_u32 v) :: u32) = v"
  "take_bit 32 v = v \<Longrightarrow> as_u32 v = v"
  "take_bit 32 v = v \<Longrightarrow> ucast (ucast v :: u32) = v"
  "take_bit 16 v = v \<Longrightarrow> ucast (ucast v :: u16) = v"
  "take_bit 8 v = v \<Longrightarrow> ucast (ucast v :: u8) = v"
  unfolding as_uN by (auto simp: bit_eq_iff bit_simps)

lemma conv_tos: "take_bit 8 v = v \<Longrightarrow> ucast ((ucast (v::u128) :: u8) AND 0xFC) = v AND (0xFC :: u128)"
  using conv10(6) [of v] by (simp add: unsigned_and_eq)

text \<open>Each block of the translation, reported back, says what it should of its field and nothing of another, except that
  the block of the VLAN identifier may speak of the priority.\<close>

definition only10 :: "ofp10 \<Rightarrow> match10 \<Rightarrow> field10 \<Rightarrow> of1x_match10 list \<Rightarrow> bool" where
  "only10 K c g ms \<longleftrightarrow> (\<forall>f. last_set10 f (of10_map_reverse_flow_entry_matches K ms) = (if f = g then reported10 K c g else None))"

lemmas block_defs = got1_def got2_def only10_def list_all2_Cons1 of10_reverse_match_def reported10_def conv10

lemma wf10:
  assumes "well_formed10 K c"
  shows "value10 c f = Got v \<Longrightarrow> take_bit (bits10 f) v = v" "value10 c f \<noteq> Other_exception"
    "value10 c F_VLAN_VID = Got v \<Longrightarrow> v = ucast (OFP_VLAN_NONE K) \<or> take_bit 12 v = v"
    "f \<in> {F_NW_SRC, F_NW_DST} \<Longrightarrow> value10 c f = Got v \<Longrightarrow> \<exists>k. mask10 c f = Got k \<and> take_bit 32 k = k"
  subgoal using assms by (auto simp: well_formed10_def dest!: spec [of _ f])
  subgoal using assms by (auto simp: well_formed10_def dest!: spec [of _ f])
  subgoal using assms by (auto simp: well_formed10_def dest!: spec [of _ F_VLAN_VID])
  subgoal using assms by (auto simp: well_formed10_def dest!: spec [of _ f])
  done

lemma block_in_port:
  assumes "well_formed10 K c" and "Some xs = got1 (value10 c F_IN_PORT) (\<lambda>v. [init10 M_IN_PORT v])"
    and "list_all2 stores10 xs ms"
  shows "only10 K c F_IN_PORT ms"
  using assms(2-) wf10(1,2) [OF assms(1), of F_IN_PORT]
  by (cases "value10 c F_IN_PORT") (auto simp: block_defs bits10_def)

lemma block_eth_src:
  assumes "well_formed10 K c" and "Some xs = got1 (value10 c F_ETH_SRC) (\<lambda>v. [init_masked10 M_ETH_SRC (as_u64 v) 0xFFFFFFFFFFFF])"
    and "list_all2 stores10 xs ms"
  shows "only10 K c F_ETH_SRC ms"
  using assms(2-) wf10(1,2) [OF assms(1), of F_ETH_SRC]
  by (cases "value10 c F_ETH_SRC") (auto simp: block_defs bits10_def)

lemma block_eth_dst:
  assumes "well_formed10 K c" and "Some xs = got1 (value10 c F_ETH_DST) (\<lambda>v. [init_masked10 M_ETH_DST (as_u64 v) 0xFFFFFFFFFFFF])"
    and "list_all2 stores10 xs ms"
  shows "only10 K c F_ETH_DST ms"
  using assms(2-) wf10(1,2) [OF assms(1), of F_ETH_DST]
  by (cases "value10 c F_ETH_DST") (auto simp: block_defs bits10_def)

lemma block_eth_type:
  assumes "well_formed10 K c" and "Some xs = got1 (value10 c F_ETH_TYPE) (\<lambda>v. [init10 M_ETH_TYPE v])"
    and "list_all2 stores10 xs ms"
  shows "only10 K c F_ETH_TYPE ms"
  using assms(2-) wf10(1,2) [OF assms(1), of F_ETH_TYPE]
  by (cases "value10 c F_ETH_TYPE") (auto simp: block_defs bits10_def)

lemma block_nw_tos:
  assumes "well_formed10 K c" and "Some xs = got1 (value10 c F_NW_TOS) (\<lambda>v. [init10 M_IP_DSCP (ucast (IP_DSCP_VALUE K (ucast v)))])"
    and "list_all2 stores10 xs ms" and "dscp10 K"
  shows "only10 K c F_NW_TOS ms"
  using assms(2-) wf10(1,2) [OF assms(1), of F_NW_TOS]
  by (cases "value10 c F_NW_TOS") (auto simp: block_defs bits10_def dscp10_def ucast_wide conv_tos)

lemma block_nw_proto:
  assumes "well_formed10 K c" and "Some xs = got1 (value10 c F_NW_PROTO) (\<lambda>v. [init10 M_NW_PROTO v])"
    and "list_all2 stores10 xs ms"
  shows "only10 K c F_NW_PROTO ms"
  using assms(2-) wf10(1,2) [OF assms(1), of F_NW_PROTO]
  by (cases "value10 c F_NW_PROTO") (auto simp: block_defs bits10_def)

lemma block_nw_src:
  assumes "well_formed10 K c" and "Some xs = got2 (value10 c F_NW_SRC) (mask10 c F_NW_SRC) (\<lambda>v k.
      if as_u32 v \<noteq> 0 then [init_masked10 M_NW_SRC (as_u32 v) (as_u32 k)] else [])"
    and "list_all2 stores10 xs ms"
  shows "only10 K c F_NW_SRC ms"
  using assms(2-) wf10(1,2) [OF assms(1), of F_NW_SRC] wf10(4) [OF assms(1), of F_NW_SRC]
  by (cases "value10 c F_NW_SRC") (auto simp: block_defs bits10_def)

lemma block_nw_dst:
  assumes "well_formed10 K c" and "Some xs = got2 (value10 c F_NW_DST) (mask10 c F_NW_DST) (\<lambda>v k.
      if as_u32 v \<noteq> 0 then [init_masked10 M_NW_DST (as_u32 v) (as_u32 k)] else [])"
    and "list_all2 stores10 xs ms"
  shows "only10 K c F_NW_DST ms"
  using assms(2-) wf10(1,2) [OF assms(1), of F_NW_DST] wf10(4) [OF assms(1), of F_NW_DST]
  by (cases "value10 c F_NW_DST") (auto simp: block_defs bits10_def)

lemma block_tp_src:
  assumes "well_formed10 K c" and "Some xs = got1 (value10 c F_TP_SRC) (\<lambda>v. [init10 M_TP_SRC v])"
    and "list_all2 stores10 xs ms"
  shows "only10 K c F_TP_SRC ms"
  using assms(2-) wf10(1,2) [OF assms(1), of F_TP_SRC]
  by (cases "value10 c F_TP_SRC") (auto simp: block_defs bits10_def)

lemma block_tp_dst:
  assumes "well_formed10 K c" and "Some xs = got1 (value10 c F_TP_DST) (\<lambda>v. [init10 M_TP_DST v])"
    and "list_all2 stores10 xs ms"
  shows "only10 K c F_TP_DST ms"
  using assms(2-) wf10(1,2) [OF assms(1), of F_TP_DST]
  by (cases "value10 c F_TP_DST") (auto simp: block_defs bits10_def)

lemma block_vlan_pcp:
  assumes "well_formed10 K c" and "Some xs = got1 (value10 c F_VLAN_PCP) (\<lambda>v. [init10 M_VLAN_PCP v])"
    and "list_all2 stores10 xs ms"
  shows "last_set10 f (of10_map_reverse_flow_entry_matches K ms) =
    (if f = F_VLAN_PCP then present10 (value10 c F_VLAN_PCP) (\<lambda>v. Some (v, None)) else None)"
  using assms(2-) wf10(1,2) [OF assms(1), of F_VLAN_PCP]
  by (cases "value10 c F_VLAN_PCP") (auto simp: block_defs bits10_def)

lemma conv_vid: "take_bit 12 v = v \<Longrightarrow> ucast (ucast (v AND NOT 0x1000) AND 0x0FFF :: u16) = (v::u128)"
proof -
  assume v: "take_bit 12 v = v"
  have p: "bit (0x1000 :: u128) n \<longleftrightarrow> n = 12" for n
    using bit_exp_iff [of 12 n, where ?'a = u128] by auto
  have "bit v n \<Longrightarrow> n < 12" for n by (subst (asm) v [symmetric]) (simp add: bit_take_bit_iff)
  then have "v AND NOT 0x1000 = v" by (intro bit_word_eqI, unfold bit_and_iff bit_not_iff p) auto
  moreover have "v AND 0x0FFF = v" using v by (simp add: take_bit_eq_mask mask_eq_exp_minus_1)
  ultimately show ?thesis using ucast_masked [of v] by simp
qed

lemma block_vlan_vid:
  assumes "well_formed10 K c" and "VID_PRESENT K = 0x1000" and "Some xs = got1 (value10 c F_VLAN_VID) (\<lambda>v. [of10_vlan_match K v])"
    and "list_all2 stores10 xs ms"
  shows "last_set10 f (of10_map_reverse_flow_entry_matches K ms) =
    (if f = F_VLAN_VID then reported10 K c f
     else if f = F_VLAN_PCP \<and> value10 c F_VLAN_VID = Got (ucast (OFP_VLAN_NONE K)) then Some (0, None) else None)"
proof (cases "value10 c F_VLAN_VID")
  case (Got v)
  then have fits: "take_bit 16 v = v" and v: "v = ucast (OFP_VLAN_NONE K) \<or> take_bit 12 v = v"
    using wf10(1) [OF assms(1), of F_VLAN_VID v] wf10(3) [OF assms(1)] by (auto simp: bits10_def)
  have xs: "xs = [of10_vlan_match K v]" using assms(3) Got by (simp add: got1_def)
  obtain m where m: "ms = [m]" "stores10 (of10_vlan_match K v) m" using assms(4) xs by (auto simp: list_all2_Cons1)
  have u: "as_u16 v = v" using fits by (simp add: as_uN)
  show ?thesis
  proof (cases "v = ucast (OFP_VLAN_NONE K)")
    case True
    then show ?thesis using Got m u by (auto simp: of10_vlan_match_def of10_reverse_match_def reported10_def)
  next
    case False
    then have "m_value16 m = ucast (v AND NOT 0x1000) AND 0x0FFF" using m u assms(2) by (simp add: of10_vlan_match_def Let_def)
    with conv_vid [of v] v False have "ucast (m_value16 m) = v" by simp
    then show ?thesis using Got m u False by (auto simp: of10_vlan_match_def of10_reverse_match_def reported10_def)
  qed
qed (use assms wf10(2) [OF assms(1), of F_VLAN_VID] in \<open>auto simp: got1_def reported10_def\<close>)

lemma of10_matches_total:
  assumes "well_formed10 K c"
  shows "\<exists>calls. of10_map_flow_entry_matches K c = Some calls"
proof -
  have g: "\<exists>xs. got1 (value10 c f) h = Some xs" for f h
    using wf10(2) [OF assms, of f] by (cases "value10 c f") (simp_all add: got1_def)
  have h: "\<exists>xs. got2 (value10 c f) (mask10 c f) h = Some xs" if "f \<in> {F_NW_SRC, F_NW_DST}" for f h
    using wf10(2) [OF assms, of f] wf10(4) [OF assms that] by (cases "value10 c f") (auto simp: got2_def)
  have "\<forall>b\<in>set bs. b \<noteq> None \<Longrightarrow> \<exists>xs. all_blocks bs = Some xs" for bs by (induction bs) auto
  moreover have "\<forall>b \<in> set (of10_link_matches K c @ of10_network_matches K c). b \<noteq> None"
    using g h by (auto simp: of10_link_matches_def of10_network_matches_def)
  ultimately show ?thesis unfolding of10_map_flow_entry_matches_def by blast
qed

text \<open>C30: what OpenFlow 1.0 says of the match of a flow it has installed: MAC addresses with a full mask, an address with
  its mask unless the address is 0.0.0.0, for which the flow has no match whatever the mask is, a type of service without its two lowest bits,
  and priority zero for a flow on packets without a tag; every other field as it was.\<close>

theorem of10_match_round_trip:
  assumes "dscp10 K" and "VID_PRESENT K = 0x1000" and "well_formed10 K c"
  shows "\<exists>calls. of10_map_flow_entry_matches K c = Some calls \<and>
    (\<forall>ms f. list_all2 stores10 calls ms \<longrightarrow> last_set10 f (of10_map_reverse_flow_entry_matches K ms) = reported10 K c f)"
proof -
  obtain calls where calls: "of10_map_flow_entry_matches K c = Some calls" using of10_matches_total [OF assms(3)] by blast
  have "last_set10 f (of10_map_reverse_flow_entry_matches K ms) = reported10 K c f" if st: "list_all2 stores10 calls ms" for ms f
  proof -
    obtain yss where y: "of10_link_matches K c @ of10_network_matches K c = map Some yss" "calls = concat yss"
      using calls by (auto simp: of10_map_flow_entry_matches_def all_blocks_Some)
    then obtain bss where b: "ms = concat bss" "list_all2 (list_all2 stores10) yss bss"
      using list_all2_concat st by blast
    obtain x1 x2 x3 x4 x5 x6 x7 x8 x9 x10 x11 x12 where xs: "yss = [x1, x2, x3, x4, x5, x6, x7, x8, x9, x10, x11, x12]"
      using y(1) by (auto simp: of10_link_matches_def of10_network_matches_def Cons_eq_map_conv)
    then obtain m1 m2 m3 m4 m5 m6 m7 m8 m9 m10 m11 m12 where
      ms: "bss = [m1, m2, m3, m4, m5, m6, m7, m8, m9, m10, m11, m12]"
      using b(2) by (auto simp: list_all2_Cons1)
    note made = y(1) [unfolded xs of10_link_matches_def of10_network_matches_def, simplified] b(2) [unfolded xs ms, simplified]
    have "only10 K c F_IN_PORT m1" using made block_in_port [OF assms(3), of x1 m1] by simp
    moreover
    have "only10 K c F_ETH_SRC m2" using made block_eth_src [OF assms(3), of x2 m2] by simp
    moreover
    have "only10 K c F_ETH_DST m3" using made block_eth_dst [OF assms(3), of x3 m3] by simp
    moreover
    have "only10 K c F_ETH_TYPE m4" using made block_eth_type [OF assms(3), of x4 m4] by simp
    moreover
    have "only10 K c F_NW_TOS m7" using made block_nw_tos [OF assms(3), of x7 m7] assms(1) by simp
    moreover
    have "only10 K c F_NW_PROTO m8" using made block_nw_proto [OF assms(3), of x8 m8] by simp
    moreover
    have "only10 K c F_NW_SRC m9" using made block_nw_src [OF assms(3), of x9 m9] by simp
    moreover
    have "only10 K c F_NW_DST m10" using made block_nw_dst [OF assms(3), of x10 m10] by simp
    moreover
    have "only10 K c F_TP_SRC m11" using made block_tp_src [OF assms(3), of x11 m11] by simp
    moreover
    have "only10 K c F_TP_DST m12" using made block_tp_dst [OF assms(3), of x12 m12] by simp
    moreover have "last_set10 f (of10_map_reverse_flow_entry_matches K m5) = (if f = F_VLAN_VID then reported10 K c f
        else if f = F_VLAN_PCP \<and> value10 c F_VLAN_VID = Got (ucast (OFP_VLAN_NONE K)) then Some (0, None) else None)"
      using made block_vlan_vid [OF assms(3,2), of x5 m5 f] by simp
    moreover have "last_set10 f (of10_map_reverse_flow_entry_matches K m6) =
        (if f = F_VLAN_PCP then present10 (value10 c F_VLAN_PCP) (\<lambda>v. Some (v, None)) else None)"
      using made block_vlan_pcp [OF assms(3), of x6 m6 f] by simp
    moreover have "value10 c F_VLAN_PCP \<noteq> Other_exception" by (rule wf10(2) [OF assms(3)])
    ultimately show ?thesis unfolding b(1) last_block_concat ms
      by (cases f; cases "value10 c F_VLAN_PCP") (simp_all add: only10_def reported10_def split: option.split)
  qed
  with calls show ?thesis by blast
qed

section \<open>Actions\<close>

lemma port_round_trip:
  assumes "ports10 K"
  shows "get_out_port_reverse K (ucast (ucast (get_out_port K p) :: u32)) = ucast p"
proof -
  have eq: "OF1X_PORT K x = OF1X_PORT K y \<longleftrightarrow> x = y" for x y using assms by (auto simp: ports10_def inj_eq)
  have wide: "unat (ucast (a::u32) :: u64) = unat a" "unat (ucast p :: u32) = unat p" for a
    using unsigned_less [of a, where ?'a = nat] unsigned_less [of p, where ?'a = nat]
    by (simp_all add: unsigned_ucast_eq take_bit_nat_eq_self)
  have up: "ucast (ucast (a::u32) :: u64) = a" "(ucast a :: u64) = ucast (b::u32) \<longleftrightarrow> a = b" for a b
    subgoal by (auto intro!: bit_word_eqI simp: bit_simps)
    subgoal by (metis wide(1) word_unat_eq_iff)
    done
  have down: "(ucast (ucast (ucast p :: u64) :: u32) :: u64) = ucast p" "(ucast (ucast p :: u64) :: u32) = ucast p"
    using bit_imp_le_length [of p] by (auto intro!: bit_word_eqI simp: bit_simps) fastforce+
  have "(ucast p :: u32) \<noteq> OF1X_PORT K x" for x
  proof
    assume "(ucast p :: u32) = OF1X_PORT K x"
    then have "unat p = unat (OF1X_PORT K x)" by (metis wide)
    moreover have "unat p < 0x10000" using unsigned_less [of p, where ?'a = nat] by simp
    moreover have "0xFFFF < unat (OF1X_PORT K x)" using assms by (simp add: ports10_def word_less_nat_alt)
    ultimately show False by simp
  qed
  then show ?thesis by (simp add: get_out_port_def get_out_port_reverse_def up eq down)
qed

text \<open>The actions of a message that come back as they were: all that OpenFlow 1.0 has, with the two lowest bits of a type of service
  clear.\<close>

fun kept10 :: "u16 action10 \<Rightarrow> bool" where
  "kept10 (A_SET_NW_TOS t) \<longleftrightarrow> t AND 0xFC = t"
| "kept10 (A_PUSH_VLAN e) \<longleftrightarrow> False"
| "kept10 A_unknown \<longleftrightarrow> False"
| "kept10 A_throws \<longleftrightarrow> False"
| "kept10 _ \<longleftrightarrow> True"

definition is_enqueue :: "'p action10 \<Rightarrow> bool" where
  "is_enqueue a \<longleftrightarrow> (case a of A_ENQUEUE p q \<Rightarrow> True | _ \<Rightarrow> False)"

lemma plain_action10:
  assumes "ports10 K" and "dscp10 K" and "kept10 a" and "\<not> is_enqueue a"
  shows "\<exists>t w l. of10_action K a = Some [Some (init_packet_action t w l)] \<and> t \<notin> {OF1X_AT_NO_ACTION, OF1X_AT_SET_QUEUE} \<and>
    (\<forall>pa rest. stores_action (init_packet_action t w l) pa \<longrightarrow> of10_reverse_action K pa rest = Some (Some (map_action10 ucast a)))"
proof -
  have wide64: "(ucast (ucast (x::u64) :: u128) :: u64) = x" for x by (auto intro!: bit_word_eqI simp: bit_simps)
  have len: "(ucast (ucast (x::u16) :: u32) :: u16) = x" for x by (auto intro!: bit_word_eqI simp: bit_simps)
  show ?thesis
    using assms by (cases a)
      (simp_all add: of10_action_def of10_reverse_action_def is_enqueue_def dscp10_def port_round_trip ucast_wide wide64 len)
qed

lemma enqueue_action10:
  assumes "ports10 K" and "stores_action (init_packet_action OF1X_AT_SET_QUEUE (ucast q) 0) pa"
    and "stores_action (init_packet_action OF1X_AT_OUTPUT (ucast (get_out_port K p)) 0) pb"
  shows "of10_reverse_action K pa (pb # rest) = Some (Some (A_ENQUEUE (ucast p) q))"
proof -
  have "(ucast (ucast (x::u64) :: u128) :: u32) = ucast x" for x by (auto intro!: bit_word_eqI simp: bit_simps)
  then show ?thesis using assms port_round_trip [OF assms(1), of p]
    by (simp add: of10_reverse_action_def ucast_wide)
qed

text \<open>C31: a list of actions, put into a group and reported back, is the same list with the indices from zero on, if each of its
  actions is one OpenFlow 1.0 has and no type of service has one of its two lowest bits set. An enqueue action, which is two actions
  of the pipeline, is one action of the report again.\<close>

theorem of10_actions_round_trip:
  assumes "ports10 K" and "dscp10 K" and "\<forall>a\<in>set as. kept10 a"
  shows "\<exists>calls. of10_map_flow_entry_actions K as [] = Some (map Some calls) \<and>
    (\<forall>pas. list_all2 stores_action calls pas \<longrightarrow>
       of10_map_reverse_flow_entry_actions K [(OF1X_IT_APPLY_ACTIONS, Some pas)] = Some (enumerate 0 (map (map_action10 ucast) as)))"
proof -
  have "\<exists>calls. of10_map_flow_entry_actions K as g = Some (g @ map Some calls) \<and>
    (\<forall>pas. list_all2 stores_action calls pas \<longrightarrow> of10_reverse_group K n pas = Some (enumerate n (map (map_action10 ucast) as)))" for g n
    using assms(3)
  proof (induction as arbitrary: g n)
    case Nil
    show ?case by (rule exI [of _ "[]"]) simp
  next
    case (Cons a as)
    show ?case
    proof (cases "is_enqueue a")
      case True
      then obtain p q where a: "a = A_ENQUEUE p q" by (auto simp: is_enqueue_def split: action10.splits)
      let ?c = "[init_packet_action OF1X_AT_SET_QUEUE (ucast q) 0, init_packet_action OF1X_AT_OUTPUT (ucast (get_out_port K p)) 0]"
      obtain calls where c: "of10_map_flow_entry_actions K as (g @ map Some ?c) = Some ((g @ map Some ?c) @ map Some calls)"
        and s: "\<And>pas. list_all2 stores_action calls pas \<Longrightarrow> of10_reverse_group K (Suc n) pas = Some (enumerate (Suc n) (map (map_action10 ucast) as))"
        using Cons.IH [of "g @ map Some ?c" "Suc n"] Cons.prems by auto
      have "of10_reverse_group K n pas = Some (enumerate n (map (map_action10 ucast) (a # as)))"
        if st: "list_all2 stores_action (?c @ calls) pas" for pas
      proof -
        obtain pa pb ps where p: "pas = pa # pb # ps" "stores_action (?c ! 0) pa" "stores_action (?c ! 1) pb" "list_all2 stores_action calls ps"
          using st by (auto simp: list_all2_Cons1)
        then show ?thesis using enqueue_action10 [OF assms(1), of q pa p pb] s [of ps] a by (cases ps) auto
      qed
      then show ?thesis using a c by (intro exI [of _ "?c @ calls"]) (simp add: of10_action_def)
    next
      case False
      then obtain t w l where a: "of10_action K a = Some [Some (init_packet_action t w l)]" "t \<notin> {OF1X_AT_NO_ACTION, OF1X_AT_SET_QUEUE}"
        and r: "\<And>pa rest. stores_action (init_packet_action t w l) pa \<Longrightarrow> of10_reverse_action K pa rest = Some (Some (map_action10 ucast a))"
        using plain_action10 [OF assms(1,2)] Cons.prems by (metis list.set_intros(1))
      let ?c = "init_packet_action t w l"
      obtain calls where c: "of10_map_flow_entry_actions K as (g @ [Some ?c]) = Some ((g @ [Some ?c]) @ map Some calls)"
        and s: "\<And>pas. list_all2 stores_action calls pas \<Longrightarrow> of10_reverse_group K (Suc n) pas = Some (enumerate (Suc n) (map (map_action10 ucast) as))"
        using Cons.IH [of "g @ [Some ?c]" "Suc n"] Cons.prems by auto
      have "of10_reverse_group K n pas = Some (enumerate n (map (map_action10 ucast) (a # as)))"
        if "list_all2 stores_action (?c # calls) pas" for pas
        using that r s a(2) by (auto simp: list_all2_Cons1)
      then show ?thesis using a c by (intro exI [of _ "?c # calls"]) simp
    qed
  qed
  from this [of "[]" 0] show ?thesis by simp
qed

text \<open>The constants of the two protocols, and a library that stores what it is given.\<close>

definition example10 :: ofp10 where
  "example10 = \<lparr>
     OFPP = (\<lambda>p. case p of PORT_MAX \<Rightarrow> 0xff00 | PORT_IN_PORT \<Rightarrow> 0xfff8 | PORT_TABLE \<Rightarrow> 0xfff9 | PORT_NORMAL \<Rightarrow> 0xfffa
       | PORT_FLOOD \<Rightarrow> 0xfffb | PORT_ALL \<Rightarrow> 0xfffc | PORT_CONTROLLER \<Rightarrow> 0xfffd | PORT_LOCAL \<Rightarrow> 0xfffe | PORT_NONE \<Rightarrow> 0xffff),
     OF1X_PORT = (\<lambda>p. case p of PORT_MAX \<Rightarrow> 0xffffff00 | PORT_IN_PORT \<Rightarrow> 0xfffffff8 | PORT_TABLE \<Rightarrow> 0xfffffff9
       | PORT_NORMAL \<Rightarrow> 0xfffffffa | PORT_FLOOD \<Rightarrow> 0xfffffffb | PORT_ALL \<Rightarrow> 0xfffffffc | PORT_CONTROLLER \<Rightarrow> 0xfffffffd
       | PORT_LOCAL \<Rightarrow> 0xfffffffe | PORT_NONE \<Rightarrow> 0xffffffff),
     OFP_VLAN_NONE = 0xffff, VID_PRESENT = 0x1000, VLAN_ID_MASK = 0xff0f, SEND_FLOW_REM10 = 1,
     IP_DSCP_VALUE = (\<lambda>t. t AND 0xFC), IP_DSCP_ALIGN = (\<lambda>d. d), OF10_NDEBUG = True,
     OFPAT10 = (\<lambda>k. case k of PAT10_OUTPUT \<Rightarrow> 0 | PAT10_SET_VLAN_VID \<Rightarrow> 1 | PAT10_SET_VLAN_PCP \<Rightarrow> 2 | PAT10_STRIP_VLAN \<Rightarrow> 3
       | PAT10_SET_DL_SRC \<Rightarrow> 4 | PAT10_SET_DL_DST \<Rightarrow> 5 | PAT10_SET_NW_SRC \<Rightarrow> 6 | PAT10_SET_NW_DST \<Rightarrow> 7 | PAT10_SET_NW_TOS \<Rightarrow> 8
       | PAT10_SET_TP_SRC \<Rightarrow> 9 | PAT10_SET_TP_DST \<Rightarrow> 10 | PAT10_ENQUEUE \<Rightarrow> 11),
     OFPFW = (\<lambda>w. 1) \<rparr>"

lemma example10_ports: "ports10 example10"
  unfolding ports10_def
proof (intro conjI injI allI)
  fix x y
  assume "OF1X_PORT example10 x = OF1X_PORT example10 y"
  then show "x = y" by (cases x; cases y) (simp_all add: example10_def)
next
  fix x
  show "0xFFFF < OF1X_PORT example10 x" by (cases x) (simp_all add: example10_def)
qed

lemma example10_dscp: "dscp10 example10"
  by (simp add: dscp10_def example10_def)

definition example_fields10 :: "match_type10 \<Rightarrow> vlan_presence \<Rightarrow> u128 \<Rightarrow> u128 \<Rightarrow> of1x_match10" where
  "example_fields10 t p v k = \<lparr> type10 = t, vlan_present10 = p, m_value8 = ucast v, m_value16 = ucast v, m_value32 = ucast v,
     m_value64 = ucast v, m_mask32 = ucast k, m_mask64 = ucast k \<rparr>"

fun example_match10 :: "match_call10 \<Rightarrow> of1x_match10" where
  "example_match10 (init10 t v) = example_fields10 t OF1X_MATCH_VLAN_NONE v 0"
| "example_match10 (init_masked10 t v k) = example_fields10 t OF1X_MATCH_VLAN_NONE v k"
| "example_match10 (init_vlan10 v k p) = example_fields10 M_VLAN_VID p (v AND 0x0FFF) 0"

lemma example_stores10: "stores10 call (example_match10 call)"
  by (cases call) (simp_all add: example_fields10_def unsigned_and_eq)

text \<open>IPv4 packets without a tag to the network 0.0.0.0/8.\<close>

definition example_msg10 :: match10 where
  "example_msg10 = \<lparr>
     value10 = (\<lambda>_. eOxmNotFound)(F_ETH_TYPE := Got 0x0800, F_VLAN_VID := Got 0xFFFF, F_NW_DST := Got 0, F_NW_TOS := Got 7),
     mask10 = (\<lambda>_. eOxmNotFound)(F_NW_DST := Got 0xFF000000) \<rparr>"

theorem of10_match_round_trip_witness:
  "\<exists>calls. of10_map_flow_entry_matches example10 example_msg10 = Some calls \<and>
     (let cs = of10_map_reverse_flow_entry_matches example10 (map example_match10 calls)
      in map (\<lambda>f. last_set10 f cs) [F_ETH_TYPE, F_VLAN_VID, F_VLAN_PCP, F_NW_DST, F_NW_TOS] =
        [Some (0x0800, None), Some (0xFFFF, None), Some (0, None), None, Some (4, None)])"
proof -
  have wf: "well_formed10 example10 example_msg10"
    unfolding well_formed10_def
  proof
    fix f
    show "(case value10 example_msg10 f of
       Got v \<Rightarrow> take_bit (bits10 f) v = v \<and>
         (f = F_VLAN_VID \<longrightarrow> v = ucast (OFP_VLAN_NONE example10) \<or> take_bit 12 v = v) \<and>
         (f \<in> {F_NW_SRC, F_NW_DST} \<longrightarrow> (\<exists>k. mask10 example_msg10 f = Got k \<and> take_bit 32 k = k))
     | eOxmNotFound \<Rightarrow> True
     | Other_exception \<Rightarrow> False)"
      by (cases f) (simp_all add: example_msg10_def bits10_def example10_def)
  qed
  have v: "VID_PRESENT example10 = 0x1000" by (simp add: example10_def)
  obtain calls where c: "of10_map_flow_entry_matches example10 example_msg10 = Some calls"
    and r: "\<And>ms f. list_all2 stores10 calls ms \<Longrightarrow>
      last_set10 f (of10_map_reverse_flow_entry_matches example10 ms) = reported10 example10 example_msg10 f"
    using of10_match_round_trip [OF example10_dscp v wf] by blast
  have "list_all2 stores10 calls (map example_match10 calls)"
    by (simp add: list_all2_map2 list_all2_same example_stores10)
  note s = r [OF this]
  show ?thesis
  proof (intro exI conjI)
    show "of10_map_flow_entry_matches example10 example_msg10 = Some calls" by (rule c)
  qed (unfold Let_def list.map s, simp add: reported10_def example_msg10_def example10_def)
qed

theorem of10_actions_round_trip_witness:
  "\<exists>calls. of10_map_flow_entry_actions example10 [A_SET_NW_TOS 8, A_ENQUEUE 3 1, A_OUTPUT 0xfffd 128] [] = Some (map Some calls) \<and>
     of10_map_reverse_flow_entry_actions example10 [(OF1X_IT_APPLY_ACTIONS, Some (map example_action calls))] =
       Some [(0, A_SET_NW_TOS 8), (1, A_ENQUEUE 3 1), (2, A_OUTPUT 0xfffd 128)]"
proof -
  let ?as = "[A_SET_NW_TOS 8, A_ENQUEUE 3 1, A_OUTPUT 0xfffd 128] :: u16 action10 list"
  have k: "\<forall>a\<in>set ?as. kept10 a" by simp
  show ?thesis
  proof (rule exE [OF of10_actions_round_trip [OF example10_ports example10_dscp k]])
    fix calls
    assume e: "of10_map_flow_entry_actions example10 ?as [] = Some (map Some calls) \<and>
     (\<forall>pas. list_all2 stores_action calls pas \<longrightarrow>
       of10_map_reverse_flow_entry_actions example10 [(OF1X_IT_APPLY_ACTIONS, Some pas)] =
         Some (enumerate 0 (map (map_action10 ucast) ?as)))"
    have "list_all2 stores_action calls (map example_action calls)"
      by (simp add: list_all2_map2 list_all2_same example_stores_action)
    note s = conjunct2 [OF e, rule_format, OF this]
    show ?thesis by (intro exI [of _ calls] conjI, rule conjunct1 [OF e], rule trans [OF s]) simp
  qed
qed

section \<open>What is left when it fails\<close>

text \<open>A flow-mod whose action throws leaves the group of actions behind: it is in no flow entry and not freed.\<close>

lemma of10_group_lost:
  assumes "allocates Flow_entry" and "allocates Action_group"
    and "of10_map_flow_entry_matches K (fm_match10 m) \<noteq> None" and "of10_map_flow_entry_actions K (actions10 m) [] = None"
  shows "of10_map_flow_entry K allocates m = (Inl eFlowModUnknown, [Action_group])"
  using assms by (auto simp: of10_map_flow_entry_def lost_if_def)

text \<open>A group that ends with a set-queue action is not reported: an assertion fails or \<open>NULL\<close> is read.\<close>

lemma of10_last_set_queue:
  assumes "\<forall>b\<in>set pas. a_type b \<noteq> OF1X_AT_SET_QUEUE" and "a_type a = OF1X_AT_SET_QUEUE"
  shows "of10_reverse_group K n (pas @ [a]) = None"
  using assms(1)
proof (induction pas arbitrary: n)
  case Nil
  then show ?case using assms(2) by (cases "of10_reverse_action K a []") simp_all
next
  case (Cons b bs)
  then have "of10_reverse_group K i (bs @ [a]) = None" for i by simp
  moreover have "a_type b \<noteq> OF1X_AT_SET_QUEUE" using Cons.prems by simp
  ultimately show ?case by (cases "of10_reverse_action K b (bs @ [a])") simp_all
qed

section \<open>What the switch announces\<close>

text \<open>The kind of an action of a message.\<close>

fun kind10 :: "'p action10 \<Rightarrow> pat10 option" where
  "kind10 (A_OUTPUT _ _) = Some PAT10_OUTPUT"
| "kind10 (A_SET_VLAN_VID _) = Some PAT10_SET_VLAN_VID"
| "kind10 (A_SET_VLAN_PCP _) = Some PAT10_SET_VLAN_PCP"
| "kind10 A_STRIP_VLAN = Some PAT10_STRIP_VLAN"
| "kind10 (A_SET_DL_SRC _) = Some PAT10_SET_DL_SRC"
| "kind10 (A_SET_DL_DST _) = Some PAT10_SET_DL_DST"
| "kind10 (A_SET_NW_SRC _) = Some PAT10_SET_NW_SRC"
| "kind10 (A_SET_NW_DST _) = Some PAT10_SET_NW_DST"
| "kind10 (A_SET_NW_TOS _) = Some PAT10_SET_NW_TOS"
| "kind10 (A_SET_TP_SRC _) = Some PAT10_SET_TP_SRC"
| "kind10 (A_SET_TP_DST _) = Some PAT10_SET_TP_DST"
| "kind10 (A_ENQUEUE _ _) = Some PAT10_ENQUEUE"
| "kind10 _ = None"

lemma bit_one_if: "bit (if b then push_bit m 1 else 0 :: u32) n \<longleftrightarrow> b \<and> m = n \<and> n < 32"
  by (auto simp: bit_simps)

text \<open>C32: of the actions of a message the switch announces those for which its pipeline has the action that the translation makes,
  except for the two that set an IP address: there it asks for the actions that set the IPv4 source and destination, which the translation
  never makes.\<close>

theorem of10_announced:
  assumes "inj (OFPAT10 K)" and "\<forall>k. OFPAT10 K k < 32"
    and "of10_action K a = Some (Some (init_packet_action t w l) # rest)" and "kind10 a = Some k"
  shows "bit (of10_supported_actions K able) (OFPAT10 K k) \<longleftrightarrow>
    able (if k = PAT10_SET_NW_SRC then OF1X_AT_SET_FIELD (OFB OXM_IPV4_SRC)
          else if k = PAT10_SET_NW_DST then OF1X_AT_SET_FIELD (OFB OXM_IPV4_DST) else t)"
proof -
  have eq: "OFPAT10 K x = OFPAT10 K y \<longleftrightarrow> x = y" for x y using assms(1) by (simp add: inj_eq)
  show ?thesis
    using assms(2-) unfolding of10_supported_actions_def bit_or_iff bit_one_if eq
    by (cases a) (auto simp: of10_action_def)
qed

theorem of10_announced_witness:
  "bit (of10_supported_actions example10 (\<lambda>t. t = OF1X_AT_SET_FIELD_NW_SRC)) (OFPAT10 example10 PAT10_SET_NW_SRC) = False"
proof -
  have i: "inj (OFPAT10 example10)"
  proof (rule injI)
    fix x y assume "OFPAT10 example10 x = OFPAT10 example10 y"
    then show "x = y" by (cases x; cases y) (simp_all add: example10_def)
  qed
  have b: "\<forall>k. OFPAT10 example10 k < 32"
  proof
    fix k show "OFPAT10 example10 k < 32" by (cases k) (simp_all add: example10_def)
  qed
  show ?thesis
    by (subst of10_announced [OF i b, of "A_SET_NW_SRC 0" OF1X_AT_SET_FIELD_NW_SRC 0 0 "[]"]) (simp_all add: of10_action_def)
qed

end
