(* ===== verification/Pirl.thy ===== *)
theory Pirl
  imports Rofl "HOL-Library.Signed_Division"
begin

text \<open>
  The limiter of packet-in events, \<open>openflow/pirl\<close>: a bucket of tokens that is filled once in each interval of 100
  milliseconds. The clock is an argument, in milliseconds as \<open>pirl_clock_gettime_ms\<close> returns it. The variant with
  \<open>PIRL_WITH_LOCKING\<close> is not built (it uses a variable that is not declared).
\<close>

section \<open>State and operations\<close>

record pirl_bucket =
  last_seen_ts :: u64
  tokens :: u32

record pirl =
  bucket :: pirl_bucket
  max_rate :: u32

definition PIRL_DISABLED :: u32 where "PIRL_DISABLED = - 1"
definition PIRL_DEFAULT_MAX_RATE :: u32 where "PIRL_DEFAULT_MAX_RATE = 1024"
definition PIRL_NUMBER_OF_BUCKETS_PER_S :: u32 where "PIRL_NUMBER_OF_BUCKETS_PER_S = 10"
definition PIRL_MIN_RATE :: u32 where "PIRL_MIN_RATE = PIRL_NUMBER_OF_BUCKETS_PER_S"

definition reconfigure :: "u32 \<Rightarrow> pirl \<Rightarrow> rofl_result \<times> pirl" where
  "reconfigure new_max_rate p =
     (if sint new_max_rate < sint PIRL_MIN_RATE \<and> new_max_rate \<noteq> PIRL_DISABLED then (ROFL_FAILURE, p)
      else (ROFL_SUCCESS, p\<lparr>bucket := (bucket p)\<lparr>last_seen_ts := 0\<rparr>, max_rate := new_max_rate\<rparr>))"

text \<open>The constructor; \<open>raw\<close> is the memory of the object before, which it leaves in the tokens. \<open>None\<close> is the
  exception \<open>ePIRLInvalidConf\<close>.\<close>

definition pirl_new :: "u32 \<Rightarrow> pirl \<Rightarrow> pirl option" where
  "pirl_new rate raw = (let (r, p) = reconfigure rate raw in if r \<noteq> ROFL_SUCCESS then None else Some p)"

text \<open>The parameter of \<open>reset_bucket\<close> is an \<open>int\<close>: the time is cut to 32 bits and extended with its sign.\<close>

definition reset_bucket :: "u32 \<Rightarrow> pirl \<Rightarrow> pirl" where
  "reset_bucket curr_ts p =
     p\<lparr>bucket := \<lparr> last_seen_ts = scast curr_ts,
                   tokens = word_of_int (sint (max_rate p) sdiv sint PIRL_NUMBER_OF_BUCKETS_PER_S) \<rparr>\<rparr>"

definition pirl_dec :: "pirl \<Rightarrow> bool \<times> pirl" where
  "pirl_dec p = (if sint (tokens (bucket p)) > 0
     then (True, p\<lparr>bucket := (bucket p)\<lparr>tokens := tokens (bucket p) - 1\<rparr>\<rparr>) else (False, p))"

text \<open>The result is whether the packet is to be dropped.\<close>

definition filter_pkt :: "u64 \<Rightarrow> pirl \<Rightarrow> bool \<times> pirl" where
  "filter_pkt now p = (let curr_ts = now div 100 in
     if max_rate p \<noteq> PIRL_DISABLED then
       let p = (if last_seen_ts (bucket p) \<noteq> curr_ts then reset_bucket (ucast curr_ts) p else p);
           (taken, p) = pirl_dec p
       in (\<not> taken, p)
     else (False, p))"

text \<open>A packet at each of these times.\<close>

fun filter_pkts :: "u64 list \<Rightarrow> pirl \<Rightarrow> bool list" where
  "filter_pkts [] p = []"
| "filter_pkts (t # ts) p = (let (drop, p) = filter_pkt t p in drop # filter_pkts ts p)"

section \<open>Correctness\<close>

text \<open>What a limiter does: of the packets of one interval of 100 milliseconds the first \<open>n\<close> pass. \<open>seen\<close> has the
  intervals of the packets before.\<close>

fun limited :: "nat \<Rightarrow> nat list \<Rightarrow> u64 list \<Rightarrow> bool list" where
  "limited n seen [] = []"
| "limited n seen (t # ts) = (count_list seen (unat t div 100) \<ge> n) # limited n (unat t div 100 # seen) ts"

definition follows :: "nat \<Rightarrow> nat list \<Rightarrow> pirl \<Rightarrow> bool" where
  "follows n seen p \<longleftrightarrow>
     (case seen of [] \<Rightarrow> last_seen_ts (bucket p) = 0
      | c # _ \<Rightarrow> unat (last_seen_ts (bucket p)) = c \<and> (\<forall>s\<in>set seen. s \<le> c) \<and>
                 sint (tokens (bucket p)) = int (n - count_list seen c))"

lemma interval_small:
  assumes "unat (t::u64) < 100 * 2 ^ 31"
  shows "unat (t div 100) = unat t div 100" and "scast (ucast (t div 100) :: u32) = t div 100"
proof -
  show d: "unat (t div 100) = unat t div 100" by (simp add: unat_div)
  have s: "unat (t div 100) < 2 ^ 31" using assms by (simp add: d)
  have "\<not> bit (t div 100) n" if "31 \<le> n" for n
  proof -
    have "take_bit 31 (t div 100) = t div 100"
      using s by (intro word_unat_eq_iff [THEN iffD2]) (simp add: unsigned_take_bit_eq take_bit_nat_eq_self)
    then show ?thesis using that by (metis bit_take_bit_iff not_less)
  qed
  then show "scast (ucast (t div 100) :: u32) = t div 100"
    by (intro bit_word_eqI) (auto simp: bit_simps not_le min_def)
qed

lemma reset_tokens:
  assumes "10 \<le> sint (max_rate p)"
  shows "sint (tokens (bucket (reset_bucket c p))) = int (nat (sint (max_rate p)) div 10)"
proof -
  have u: "sint (max_rate p) < 2 ^ 31" using sint_lt [of "max_rate p"] by simp
  have "sint (max_rate p) sdiv 10 = sint (max_rate p) div 10" using assms by (simp add: signed_divide_int_def)
  moreover have "sint (word_of_int (sint (max_rate p) div 10) :: u32) = sint (max_rate p) div 10"
    using u assms by (simp add: signed_of_int signed_take_bit_int_eq_self)
  ultimately show ?thesis using assms by (simp add: reset_bucket_def PIRL_NUMBER_OF_BUCKETS_PER_S_def zdiv_int)
qed

lemma sint_dec:
  assumes "0 < sint (x::u32)"
  shows "sint (x - 1) = sint x - 1"
proof -
  have "x - 1 = word_of_int (sint x - 1)" by simp
  then show ?thesis using assms sint_lt [of x]
    by (simp only: signed_of_int) (simp add: signed_take_bit_int_eq_self)
qed

lemma follows_step:
  assumes rate: "10 \<le> sint (max_rate p)" and n: "n = nat (sint (max_rate p)) div 10"
    and "follows n seen p" and t: "unat t < 100 * 2 ^ 31" "100 \<le> unat t" and "\<forall>s\<in>set seen. s \<le> unat t div 100"
  shows "\<exists>p'. filter_pkt t p = (count_list seen (unat t div 100) \<ge> n, p') \<and> max_rate p' = max_rate p \<and>
    follows n (unat t div 100 # seen) p'"
proof -
  let ?c = "unat t div 100" and ?q = "if last_seen_ts (bucket p) \<noteq> t div 100 then reset_bucket (ucast (t div 100)) p else p"
  have c: "unat (t div 100) = ?c" "?c \<noteq> 0" using interval_small [OF t(1)] t(2) by auto
  have "1 \<le> nat (sint (max_rate p)) div 10" using rate by (simp add: div_le_mono [of 10 _ 10, simplified])
  then have n1: "1 \<le> n" using n by simp
  have d: "max_rate p \<noteq> PIRL_DISABLED" using rate by (auto simp: PIRL_DISABLED_def)
  have q: "max_rate ?q = max_rate p \<and> last_seen_ts (bucket ?q) = t div 100 \<and>
      sint (tokens (bucket ?q)) = int (n - count_list seen ?c)"
  proof (cases "last_seen_ts (bucket p) = t div 100")
    case True
    then have "seen \<noteq> []" using assms(3) c by (auto simp: follows_def)
    then show ?thesis using True assms(3) c by (auto simp: follows_def split: list.splits)
  next
    case False
    have "?c \<notin> set seen"
    proof
      assume "?c \<in> set seen"
      then obtain s ss where ss: "seen = s # ss" "?c \<le> s" using assms(3) by (cases seen) (auto simp: follows_def)
      then have "unat (last_seen_ts (bucket p)) = unat (t div 100)" using assms(3,6) c by (auto simp: follows_def)
      then show False using False by (simp add: word_unat_eq_iff)
    qed
    then have "count_list seen ?c = 0" by (simp add: count_list_0_iff)
    moreover have "max_rate (reset_bucket (ucast (t div 100)) p) = max_rate p \<and>
        last_seen_ts (bucket (reset_bucket (ucast (t div 100)) p)) = t div 100"
      using interval_small(2) [OF t(1)] by (simp add: reset_bucket_def)
    ultimately show ?thesis using False reset_tokens [OF rate, of "ucast (t div 100)"] n by simp
  qed
  have f: "filter_pkt t p = (\<not> fst (pirl_dec ?q), snd (pirl_dec ?q))"
    using d by (simp add: filter_pkt_def Let_def case_prod_beta)
  show ?thesis
  proof (cases "count_list seen ?c \<ge> n")
    case True
    then have "pirl_dec ?q = (False, ?q)" using q by (simp add: pirl_dec_def)
    then show ?thesis using f q True c assms(6) by (auto simp: follows_def)
  next
    case False
    then have pos: "0 < sint (tokens (bucket ?q))" using q by simp
    have "sint (tokens (bucket ?q) - 1) = sint (tokens (bucket ?q)) - 1"
      using pos by (rule sint_dec)
    then have "pirl_dec ?q = (True, ?q\<lparr>bucket := (bucket ?q)\<lparr>tokens := tokens (bucket ?q) - 1\<rparr>\<rparr>)" and
      "sint (tokens (bucket ?q) - 1) = int (n - Suc (count_list seen ?c))"
      using pos q False by (auto simp: pirl_dec_def)
    then show ?thesis using f q False c assms(6) by (auto simp: follows_def)
  qed
qed

lemma filter_pkts_limited:
  assumes "10 \<le> sint (max_rate p)" and "n = nat (sint (max_rate p)) div 10" and "follows n seen p"
    and "\<forall>t\<in>set ts. 100 \<le> unat t \<and> unat t < 100 * 2 ^ 31" and "sorted (map unat ts)"
    and "\<forall>s\<in>set seen. \<forall>t\<in>set ts. s \<le> unat t div 100"
  shows "filter_pkts ts p = limited n seen ts"
  using assms
proof (induction ts arbitrary: seen p)
  case (Cons t ts)
  obtain p' where p': "filter_pkt t p = (count_list seen (unat t div 100) \<ge> n, p')" "max_rate p' = max_rate p"
    "follows n (unat t div 100 # seen) p'"
    using follows_step [OF Cons.prems(1,2,3)] Cons.prems(4,6) by (metis list.set_intros(1))
  have "filter_pkts ts p' = limited n (unat t div 100 # seen) ts"
    by (rule Cons.IH) (use Cons.prems p' in \<open>auto intro: div_le_mono\<close>)
  then show ?case using p'(1) by simp
qed simp

text \<open>C35: a limiter that has been set to a rate passes exactly the first tenth of it of the packets of each interval of
  100 milliseconds, whatever its memory held before, as long as the clock does not go backwards, has left its first
  interval and is below 2147483648 intervals; with the limiter disabled every packet passes, and a rate below the
  minimum is refused.\<close>

theorem pirl_limits:
  assumes "sorted (map unat ts)" and "\<forall>t\<in>set ts. 100 \<le> unat t \<and> unat t < 100 * 2 ^ 31"
  shows "map_option (filter_pkts ts) (pirl_new rate raw) =
    (if rate = PIRL_DISABLED then Some (map (\<lambda>_. False) ts)
     else if sint rate < 10 then None
     else Some (limited (nat (sint rate) div 10) [] ts))"
proof (cases "rate = PIRL_DISABLED")
  case True
  have "filter_pkts ts p = map (\<lambda>_. False) ts" if "max_rate p = PIRL_DISABLED" for p
    using that by (induction ts) (simp_all add: filter_pkt_def Let_def)
  then show ?thesis using True by (simp add: pirl_new_def reconfigure_def)
next
  case False
  show ?thesis
  proof (cases "sint rate < 10")
    case True
    then show ?thesis using False
      by (simp add: pirl_new_def reconfigure_def PIRL_MIN_RATE_def PIRL_NUMBER_OF_BUCKETS_PER_S_def)
  next
    case small: False
    let ?p = "raw\<lparr>bucket := (bucket raw)\<lparr>last_seen_ts := 0\<rparr>, max_rate := rate\<rparr>"
    have "filter_pkts ts ?p = limited (nat (sint rate) div 10) [] ts"
      by (rule filter_pkts_limited) (use assms small in \<open>auto simp: follows_def\<close>)
    then show ?thesis using False small
      by (simp add: pirl_new_def reconfigure_def PIRL_MIN_RATE_def PIRL_NUMBER_OF_BUCKETS_PER_S_def)
  qed
qed

theorem pirl_limits_witness:
  "map_option (filter_pkts [1000, 1001, 1002, 1100]) (pirl_new 20 \<lparr> bucket = \<lparr> last_seen_ts = 7, tokens = 9 \<rparr>, max_rate = 5 \<rparr>) =
     Some [False, False, True, False]"
  by (subst pirl_limits) (simp_all add: PIRL_DISABLED_def)

text \<open>After 2147483648 intervals, which is when the clock has run for less than seven years, the time in the bucket is
  never the present one, so that the bucket is filled for every packet and none is dropped.\<close>

lemma pirl_off:
  assumes "sint (max_rate p) \<ge> 10" and "100 * 2 ^ 31 \<le> unat t" and "unat t < 100 * 2 ^ 32"
    and "last_seen_ts (bucket p) \<noteq> t div 100"
  shows "\<exists>p'. filter_pkt t p = (False, p') \<and> max_rate p' = max_rate p \<and> last_seen_ts (bucket p') \<noteq> t div 100"
proof -
  let ?c = "t div 100"
  have c: "2 ^ 31 \<le> unat ?c" "unat ?c < 2 ^ 32" using assms(2,3) by (auto simp: unat_div)
  have "unat ?c div 2 ^ 31 = 1" using c by (intro div_nat_eqI) auto
  then have "bit (unat ?c) 31" by (simp add: bit_iff_odd)
  then have b31: "bit ?c 31" by (simp add: bit_unsigned_iff)
  have "unat ?c div 2 ^ 63 = 0" using c by simp
  then have "\<not> bit (unat ?c) 63" by (simp add: bit_iff_odd)
  then have b63: "\<not> bit ?c 63" by (simp add: bit_unsigned_iff)
  have "bit (scast (ucast ?c :: u32) :: u64) 63" using b31 by (simp add: bit_simps)
  with b63 have ne: "scast (ucast ?c :: u32) \<noteq> ?c" by metis
  have "1 \<le> nat (sint (max_rate p)) div 10" using assms(1) by (simp add: div_le_mono [of 10 _ 10, simplified])
  then have pos: "0 < sint (tokens (bucket (reset_bucket (ucast ?c) p)))"
    using reset_tokens [OF assms(1), of "ucast ?c"] by simp
  have "max_rate p \<noteq> PIRL_DISABLED" using assms(1) by (auto simp: PIRL_DISABLED_def)
  then show ?thesis using assms(4) ne pos
    by (simp add: filter_pkt_def Let_def pirl_dec_def) (simp add: reset_bucket_def)
qed

end
