(* ===== verification/Spec2Isabelle.thy ===== *)
theory Spec2Isabelle
  imports Packet_Meta Crc32c Mmap_Port Offset_Tables Pop_Table Of_Roundtrip Of10_Roundtrip Pirl
begin

text \<open>
  \<^bold>\<open>The packet path of xDPd's \<open>gnu_linux\<close> driver\<close>

  xDPd is an OpenFlow datapath daemon. Its \<open>gnu_linux\<close> driver (\<open>src/xdpd/drivers/gnu_linux/src\<close>, all paths
  below are relative to it) moves packets between ports, the OpenFlow pipeline of the ROFL library and the
  controller. This development models what the driver itself does to a packet: the buffer it lives in
  (\<open>io\<close>), the classifier that finds its headers and edits them
  (\<open>io/packet_classifiers/c_types_pktclassifier\<close>), the functions through which the pipeline reads and
  writes header fields (\<open>pipeline-imp\<close>), the queues, the buffer pool and the packet storage through which packets
  reach the controller and come back (\<open>util\<close>, \<open>io\<close>), the ports packets leave through, and the manager of
  the threads that serve the ports. Of the part above the driver it models the translation between OpenFlow 1.0, 1.2 and 1.3
  messages and the pipeline (\<open>src/xdpd/openflow/openflow10\<close>, \<open>openflow12\<close>, \<open>openflow13\<close>) and the limiter of packet-in events
  (\<open>src/xdpd/openflow/pirl\<close>).

  \<^bold>\<open>How the code is modelled.\<close> Memory is a list of bytes and a pointer an offset into it (\<open>C_Memory\<close>);
  integers are words of their width, with wrap-around; the host is little-endian. Effects are in the option
  monad: \<open>None\<close> is an access outside an object, the use of \<open>NULL\<close>, a failed \<open>assert\<close> of a
  build without \<open>NDEBUG\<close>, or a call that does not return. Everything the code reports itself is an
  ordinary value (\<open>ROFL_FAILURE\<close>, \<open>NULL\<close> as \<open>None\<close> of an inner option, \<open>PT_INVALID\<close>,
  a C++ exception as \<open>Inl\<close>). Constants and byte-order macros of the ROFL headers are the fields of the
  record \<open>rofl\<close>, a parameter of the definitions (\<open>Rofl\<close>); theorems that need their documented
  values name them (\<open>network_masks\<close>, \<open>network_types\<close>, \<open>le_host\<close>), and \<open>std_rofl\<close> has them.

  \<^bold>\<open>The theories\<close>, each after those it uses:

  \<^item> \<open>Prelude\<close>, \<open>C_Memory\<close>, \<open>Rofl\<close>: shared vocabulary; packed structures; typed loads and stores with a
    locale for their laws; the parameters.
  \<^item> \<open>Cpc_L2\<close>, \<open>Cpc_L3\<close>, \<open>Cpc_L4\<close>: the protocol headers of \<open>headers/cpc_*.h\<close>, their layouts and every
    accessor.
  \<^item> \<open>Checksums\<close>: the IPv4, ICMP, TCP, UDP and GRE checksums. Two locales state what an Internet checksum
    routine and a transport checksum promise, down to the bytes they leave alone (\<open>same_outside\<close> of \<open>C_Memory\<close>); the properties say for which inputs a receiver accepts the
    result, and that the fast routines agree with the RFC 1071 routine kept in the same file.
  \<^item> \<open>Crc32c\<close>: the SCTP checksum, equal to the bitwise CRC-32C, which detects every change of one byte.
  \<^item> \<open>Pkt_Types\<close>: the 1328 packet types of \<open>autogen_pkt_types.h\<close> as lists of headers, and the six tables of
    \<open>autogen_pkt_types.c\<close> as functions on them.
  \<^item> \<open>Type_Enum\<close>, \<open>Offset_Tables\<close>, \<open>Parse_Table\<close>, \<open>Push_Table\<close>, \<open>Pop_Table\<close>: the enumeration and the six tables
    row by row as they stand in the two files, and the proof that the functions of \<open>Pkt_Types\<close> have the value of
    every entry. The other theories use the functions only.
  \<^item> \<open>Classifier\<close>: \<open>c_types_pktclassifier.h\<close> and the parsers of \<open>autogen_pkt_types.h\<close>. \<open>describes\<close> says that
    a type fits the bytes of a packet; \<open>classify_packet\<close> always finds such a type, within the first 158 bytes
    whatever length it is given.
  \<^item> \<open>Datapacket\<close>: \<open>datapacketx86\<close>, the buffer with 256 bytes of head room; a locale states what pushing and
    popping bytes does to the frame.
  \<^item> \<open>Classifier_Ops\<close>: the push and pop operations of \<open>c_types_pktclassifier.c\<close> on such a buffer.
  \<^item> \<open>Packet_Meta\<close>: \<open>packet_proto_meta_imp.h\<close> and parts of \<open>packet_inline.h\<close>: getters, setters (a locale for the
    contract of a field, interpreted for the 36 fields whose getter hands out a pointer), checksums before a packet leaves, cloning.
  \<^item> \<open>Circular_Queue\<close>: the lock-free ring buffer, one step per access to a shared pointer; a locale for a
    bounded FIFO, a step relation for threads.
  \<^item> \<open>Bufferpool\<close>, \<open>Datapacket_Storage\<close>: the free list over that ring with a locale for its clients, and the map
    of packets that wait for the controller, read off the log of its calls: the oldest expires.
  \<^item> \<open>Packet_In\<close>: the queue to the controller, dispatching, expiration and PACKET\_OUT over these three.
  \<^item> \<open>Ports\<close>: \<open>io/ports/ioport\<close> and the virtual link of \<open>io/ports/vlink\<close>: queues, configuration, enqueueing,
    writing, reading, draining, with the same buffers as the pool.
  \<^item> \<open>Packet_Output\<close>: replication and output of \<open>packet_inline.h\<close> over any port that keeps the contract of the
    locale \<open>packet_port\<close>, which the virtual link does.
  \<^item> \<open>Safevector\<close>: the locked vector of \<open>util/safevector.h\<close>.
  \<^item> \<open>Iomanager\<close>: \<open>io/iomanager\<close> and the part of \<open>io/scheduler/epoll_ioscheduler\<close> that a thread shares with it:
    groups, threads with their epoll sets, semaphores, the mutex. \<open>Io_Refinement\<close>: its specification on two sets of
    ports, the refinement for any sequence of calls after \<open>init\<close>, the threads that serve a port (one without a
    descriptor is served by none), deletion.
  \<^item> \<open>Mmap_Port\<close>: the port over a network interface, \<open>io/ports/mmap\<close>: the rings shared with the kernel, reading a
    frame and putting its VLAN tag back (\<open>read_spec\<close> says which frame of the ring it is), writing packets into slots, the reset after a failed send and what it
    does to the I/O manager.
  \<^item> \<open>Of_Messages\<close>: the data and calls of the OpenFlow translation; \<open>Of13_Translation\<close>, \<open>Of12_Translation\<close>: its functions
    for the two versions (\<open>of13_translation_utils.cc\<close>, \<open>of12_translation_utils.cc\<close>); \<open>Of_Roundtrip\<close>: that matches,
    actions and instructions come back from the pipeline as they went in, with the exceptions, what becomes of a flow-mod,
    that what is announced is what is translated, and how the versions differ. A message is the results of its getters, an object of the pipeline the results
    of its accessors, and the effect of a function the list of its calls, since both ends belong to the ROFL library.
  \<^item> \<open>Of10_Translation\<close>, \<open>Of10_Roundtrip\<close>: the same for OpenFlow 1.0 (\<open>of10_translation_utils.cc\<close>), with reserved ports, the type of
    service and enqueue actions.
  \<^item> \<open>Pirl\<close>: the limiter of packet-in events.

  \<^bold>\<open>What is proved\<close> beside the functional behaviour of each operation: invariants (well-formed
  packets, the pool, the ring under all interleavings of one reader and one writer), no buffer lost or used
  twice from port to port and to the controller and back, refinement of abstract data types (FIFO list, map,
  the sets of attached and running ports), round trips of push and pop, and exact conditions under which the code goes
  wrong. Several theorems state a defect as it is: the lost carry of the IPv4 and ICMPv4 checksums, the
  overflow in the bounds check of \<open>pop\<close>, \<open>pop_vlan\<close> on IEEE 802.3 frames, \<open>pop_gtp\<close> with IPv4 options,
  TCP checksums over padding, a ring that answers full when it is empty or delivers an element twice,
  a packet that is still used after it has been released to an invalid queue, flooding with an empty pool,
  fields and actions the OpenFlow translation drops or changes,
  the deletion of port groups that have ports, frames the kernel has cut off, the gap a dropped packet leaves in
  the ring, and the signal a failed send leaves behind.

  \<^bold>\<open>Bounds and fuel.\<close> Loops over headers recurse with a measure or structurally on the number of
  headers a type can have. A call on the ring that is not interrupted takes four (read) or five (write) steps;
  \<open>calls_return\<close> shows that any reader and every writer that need not wait finish in seven. The destructor of
  the pool, draining and expiration have as many rounds as there are slots or stored packets, plus one; their
  theorems show that they end before. Draining a port takes as many rounds as the queue has slots, plus one. A
  wait of the I/O manager is over after one round of each thread or never, because nothing else changes the
  group while it waits. Its loops over the groups are partial functions, shown to end; so are the loops over the ring of a
  port, which give a slot back in each round. Identifiers of the storage are unique for the first \<open>2 ^ 32 - 3\<close> packets
  stored.

  \<^bold>\<open>Memory model of the ring.\<close> Steps of threads are sequentially consistent. On x86 every shared
  pointer is changed by a locked instruction only, and the one plain store, of the element, is followed by one.

  \<^bold>\<open>Not modelled\<close>
  \<^item> The OpenFlow pipeline, the flow tables and the HAL callbacks: they are in the ROFL library, which is not part
    of the repository. \<open>of1x_driver.cc\<close> is modelled where it handles packets, not where it forwards to the library.
  \<^item> Bringing an interface up and down and making its rings (\<open>ioport_mmap::up\<close>, \<open>down\<close>, \<open>mmap_rx.cc\<close>, \<open>mmap_tx.cc\<close>), the
    discovery of interfaces (\<open>iface_utils.cc\<close>), and the polling scheduler: system calls.
    While a function of the port runs, the kernel does not change the rings. \<open>dump_state\<close> prints.
  \<^item> The other drivers (stubs, vendor or DPDK bindings), the OpenFlow endpoints, the management plugins and the
    configuration of the daemon: C++ glue over libraries.
  \<^item> Printing, profiling stamps and logging; running out of memory.
\<close>

end
